(* ===== verification/Prelude.thy ===== *)
theory Prelude
  imports Main "HOL-Library.Word"
begin

text \<open>
  Shared vocabulary of the development: the C integer types as words, big-endian byte
  encodings, C arrays as index functions, and the rule collections that the component
  theories feed and use.
  \<^item> \<open>be32\<close>, \<open>un_be32\<close>: the four network-order bytes of a 32-bit word and back;
  \<^item> \<open>store_bytes\<close>, \<open>load_bytes\<close>: writing and reading a run of bytes of a C array;
  \<^item> \<open>pad4\<close>: the zero bytes that XDR appends to reach a multiple of four;
  \<^item> \<open>codec_enc\<close>, \<open>codec_dec\<close>, \<open>codec_free\<close>, \<open>codec_safe\<close>: one fact per wire type, filled by
    the interpretations of the codec locales.
\<close>

unbundle bit_operations_syntax

type_synonym byte = "8 word"
type_synonym u16 = "16 word"
type_synonym u32 = "32 word"
type_synonym u64 = "64 word"

named_theorems codec_enc "encoding law of a wire type"
named_theorems codec_dec "decoding law of a wire type"
named_theorems codec_free "release law of a wire type"
named_theorems codec_safe "memory safety of a decoder on arbitrary input"
named_theorems loc_consts "the values of the enumerators of the location API"

section \<open>Network byte order\<close>

definition be32 :: "u32 \<Rightarrow> byte list" where
  "be32 w = [ucast (drop_bit 24 w), ucast (drop_bit 16 w), ucast (drop_bit 8 w), ucast w]"

definition un_be32 :: "byte \<Rightarrow> byte \<Rightarrow> byte \<Rightarrow> byte \<Rightarrow> u32" where
  "un_be32 a b c d =
     push_bit 24 (ucast a) OR push_bit 16 (ucast b) OR push_bit 8 (ucast c) OR ucast d"

lemma length_be32 [simp]: "length (be32 w) = 4"
  by (simp add: be32_def)

lemma un_be32_be32 [simp]:
  "un_be32 (ucast (drop_bit 24 w)) (ucast (drop_bit 16 w)) (ucast (drop_bit 8 w)) (ucast w) = w"
proof (rule bit_word_eqI)
  fix n
  assume "n < LENGTH(32)"
  then show "bit (un_be32 (ucast (drop_bit 24 w)) (ucast (drop_bit 16 w))
       (ucast (drop_bit 8 w)) (ucast w)) n = bit w n"
    by (cases "n < 8"; cases "n < 16"; cases "n < 24") (auto simp: un_be32_def bit_simps)
qed

lemma be32_inject [simp]: "be32 v = be32 w \<longleftrightarrow> v = w"
proof
  assume "be32 v = be32 w"
  then have "un_be32 (ucast (drop_bit 24 v)) (ucast (drop_bit 16 v)) (ucast (drop_bit 8 v)) (ucast v)
     = un_be32 (ucast (drop_bit 24 w)) (ucast (drop_bit 16 w)) (ucast (drop_bit 8 w)) (ucast w)"
    by (simp only: be32_def list.inject)
  then show "v = w" by (simp only: un_be32_be32)
qed simp

text \<open>The two halves of a 64-bit value, and the value they form.\<close>

definition hi32 :: "u64 \<Rightarrow> u32" where "hi32 w = ucast (drop_bit 32 w)"

definition lo32 :: "u64 \<Rightarrow> u32" where "lo32 w = ucast w"

definition join32 :: "u32 \<Rightarrow> u32 \<Rightarrow> u64" where
  "join32 h l = push_bit 32 (ucast h) OR ucast l"

lemma join32_halves [simp]: "join32 (hi32 w) (lo32 w) = w"
proof (rule bit_word_eqI)
  fix n
  assume "n < LENGTH(64)"
  then show "bit (join32 (hi32 w) (lo32 w)) n = bit w n"
    by (auto simp: join32_def hi32_def lo32_def bit_simps)
qed

lemma hi32_join32 [simp]: "hi32 (join32 h l) = h"
  by (rule bit_word_eqI)
    (auto simp: join32_def hi32_def bit_simps dest: bit_imp_le_length)

lemma lo32_join32 [simp]: "lo32 (join32 h l) = l"
  by (rule bit_word_eqI) (auto simp: join32_def lo32_def bit_simps)

section \<open>C arrays of bytes\<close>

type_synonym buffer = "nat \<Rightarrow> byte"

fun store_bytes :: "buffer \<Rightarrow> nat \<Rightarrow> byte list \<Rightarrow> buffer" where
  "store_bytes f i [] = f"
| "store_bytes f i (b # bs) = store_bytes (f(i := b)) (Suc i) bs"

fun load_bytes :: "buffer \<Rightarrow> nat \<Rightarrow> nat \<Rightarrow> byte list" where
  "load_bytes f i 0 = []"
| "load_bytes f i (Suc n) = f i # load_bytes f (Suc i) n"

lemma load_bytes_numeral [simp]:
  "load_bytes f i (numeral n) = f i # load_bytes f (Suc i) (pred_numeral n)"
  by (simp add: numeral_eq_Suc)

lemma length_load_bytes [simp]: "length (load_bytes f i n) = n"
  by (induction n arbitrary: i) auto

lemma store_bytes_append:
  "store_bytes f i (xs @ ys) = store_bytes (store_bytes f i xs) (i + length xs) ys"
  by (induction xs arbitrary: f i) auto

lemma load_bytes_add:
  "load_bytes f i (m + n) = load_bytes f i m @ load_bytes f (i + m) n"
  by (induction m arbitrary: i) auto

lemma store_bytes_below [simp]: "j < i \<Longrightarrow> store_bytes f i bs j = f j"
  by (induction bs arbitrary: f i) auto

lemma store_bytes_above [simp]: "i + length bs \<le> j \<Longrightarrow> store_bytes f i bs j = f j"
  by (induction bs arbitrary: f i) auto

lemma load_store_bytes [simp]: "load_bytes (store_bytes f i bs) i (length bs) = bs"
  by (induction bs arbitrary: f i) auto

lemma load_bytes_below [simp]:
  "i + n \<le> j \<Longrightarrow> load_bytes (store_bytes f j bs) i n = load_bytes f i n"
  by (induction n arbitrary: i) auto

lemma load_bytes_cong:
  "(\<And>j. i \<le> j \<Longrightarrow> j < i + n \<Longrightarrow> f j = g j) \<Longrightarrow> load_bytes f i n = load_bytes g i n"
  by (induction n arbitrary: i) auto

lemma nth_load_bytes: "k < n \<Longrightarrow> load_bytes f i n ! k = f (i + k)"
  by (induction n arbitrary: i k) (auto simp: nth_Cons split: nat.splits)

lemma load_bytes_4:
  "load_bytes f i 4 = [f i, f (Suc i), f (Suc (Suc i)), f (Suc (Suc (Suc i)))]"
  by (simp add: numeral_eq_Suc)

lemma load_bytes_appendD:
  assumes "load_bytes f i (length xs + length ys) = xs @ ys"
  shows "load_bytes f i (length xs) = xs" and "load_bytes f (i + length xs) (length ys) = ys"
  using assms by (simp_all add: load_bytes_add)

section \<open>Padding to four bytes\<close>

definition pad4 :: "nat \<Rightarrow> nat" where
  "pad4 n = (4 - n mod 4) mod 4"

lemma pad4_less: "pad4 n < 4"
  by (simp add: pad4_def)

lemma pad4_dvd [simp]: "(n + pad4 n) mod 4 = 0"
proof -
  consider "n mod 4 = 0" | "n mod 4 = 1" | "n mod 4 = 2" | "n mod 4 = 3" by linarith
  then show ?thesis by cases (simp_all add: pad4_def, presburger+)
qed

lemma pad4_0 [simp]: "n mod 4 = 0 \<Longrightarrow> pad4 n = 0"
  by (simp add: pad4_def)

definition padded :: "byte list \<Rightarrow> byte list" where
  "padded bs = bs @ replicate (pad4 (length bs)) 0"

lemma length_padded [simp]: "length (padded bs) = length bs + pad4 (length bs)"
  by (simp add: padded_def)

lemma padded_Nil [simp]: "padded [] = []"
  by (simp add: padded_def)

section \<open>The first index with a property\<close>

text \<open>What a search loop \<open>for (i = 0; i < n; i++) if (P(a[i])) break;\<close> finds.\<close>

fun find_index :: "('a \<Rightarrow> bool) \<Rightarrow> 'a list \<Rightarrow> nat option" where
  "find_index P [] = None"
| "find_index P (x # xs) = (if P x then Some 0 else map_option Suc (find_index P xs))"

lemma find_index_Some:
  "find_index P xs = Some i \<longleftrightarrow> i < length xs \<and> P (xs ! i) \<and> (\<forall>j < i. \<not> P (xs ! j))"
proof (induction xs arbitrary: i)
  case (Cons x xs)
  then show ?case
    by (cases i) (auto simp: nth_Cons All_less_Suc2 split: nat.splits)
qed simp

lemma find_index_None: "find_index P xs = None \<longleftrightarrow> (\<forall>x \<in> set xs. \<not> P x)"
  by (induction xs) auto

end
