(* ===== verification/XdrStream.thy ===== *)
theory XdrStream
  imports Prelude
begin

text \<open>
  The XDR handle of librpc (\<open>struct xdr_struct\<close> of rpc/types.h) and the one transport of the
  tree, \<open>xdr_std_xops\<close> of svc_clnt_common.c: sending and receiving scalars and byte runs
  through the two fixed message buffers. Every handle is made by \<open>xdr_init_common\<close> or
  \<open>xdr_clone\<close>, both of which install \<open>xdr_std_xops\<close>, so the macros \<open>XDR_SEND_UINT32\<close>, \dots
  of rpc/xdr.h are calls of the \<open>xdr_std_\<dots>\<close> functions and the \<open>xops\<close> field is left out.

  The record \<open>XDR\<close> extends the C struct by the state of the process that the routines touch:
  the allocator (which of the successive \<open>malloc\<close> calls succeed, how many were made, how many
  blocks are live), the packets written to the router device, and a flag \<open>fault\<close>, raised where the C code would access memory outside an
  object (the C behaviour is then undefined; the model returns FALSE from there).
  \<open>int\<close> counters of the struct are HOL integers; where the code mixes them with unsigned
  32-bit lengths the conversion is written out on words.
\<close>

section \<open>Data\<close>

datatype xdr_op = XDR_ENCODE | XDR_DECODE | XDR_FREE

record opaque_auth =
  oa_flavor :: u32
  oa_base :: "byte list option"
  oa_length :: u32

record xdr_struct =
  x_op :: xdr_op
  x_prog :: u32
  x_vers :: u32
  x_proc :: u32
  verf :: opaque_auth
  xid :: u32
  fd :: int
  is_client :: int
  out_msg :: buffer
  out_next :: int
  in_msg :: buffer
  in_next :: int
  in_len :: int
  xdr_err :: int

record XDR = xdr_struct +
  malloc_ok :: "nat \<Rightarrow> nat \<Rightarrow> bool"
  mallocs :: nat
  live :: int
  fault :: bool
  written :: "byte list list"

definition RPCROUTER_MSGSIZE_MAX :: int where "RPCROUTER_MSGSIZE_MAX = 18432"

definition RPC_OFFSET :: nat where "RPC_OFFSET = 0"

definition RPC_MSG_CALL :: u32 where "RPC_MSG_CALL = 0"
definition RPC_MSG_REPLY :: u32 where "RPC_MSG_REPLY = 1"

text \<open>\<open>mem_alloc\<close> and \<open>mem_free\<close> of rpc/types.h (malloc and free), and undefined behaviour.\<close>

definition mem_alloc :: "nat \<Rightarrow> XDR \<Rightarrow> bool \<times> XDR" where
  "mem_alloc sz x =
     (if malloc_ok x (mallocs x) sz
      then (True, x\<lparr>mallocs := Suc (mallocs x), live := live x + 1\<rparr>)
      else (False, x\<lparr>mallocs := Suc (mallocs x)\<rparr>))"

definition mem_free :: "XDR \<Rightarrow> XDR" where
  "mem_free x = x\<lparr>live := live x - 1\<rparr>"

definition undefined_behaviour :: "XDR \<Rightarrow> XDR" where
  "undefined_behaviour x = x\<lparr>fault := True\<rparr>"

text \<open>\<open>ntohl(((uint32 *)buf)[i])\<close> and \<open>((uint32 *)buf)[i] = htonl(v)\<close>.\<close>

definition get_word :: "buffer \<Rightarrow> nat \<Rightarrow> u32" where
  "get_word f i = un_be32 (f (4 * i)) (f (4 * i + 1)) (f (4 * i + 2)) (f (4 * i + 3))"

definition set_word :: "buffer \<Rightarrow> nat \<Rightarrow> u32 \<Rightarrow> buffer" where
  "set_word f i v = store_bytes f (4 * i) (be32 v)"

section \<open>Message control\<close>

definition xdr_std_destroy :: "XDR \<Rightarrow> XDR" where
  "xdr_std_destroy x = x"

definition xdr_std_msg_done :: "XDR \<Rightarrow> bool \<times> XDR" where
  "xdr_std_msg_done x = (True, x)"

definition xdr_std_msg_start :: "u32 \<Rightarrow> XDR \<Rightarrow> bool \<times> XDR" where
  "xdr_std_msg_start rpc_msg_type x =
     (let x1 = (if rpc_msg_type = RPC_MSG_CALL then x\<lparr>xid := xid x + 1\<rparr> else x);
          x2 = x1\<lparr>out_next := int ((RPC_OFFSET + 2) * 4)\<rparr>;
          x3 = x2\<lparr>out_msg := set_word (out_msg x2) RPC_OFFSET (xid x2)\<rparr>;
          x4 = x3\<lparr>out_msg := set_word (out_msg x3) (RPC_OFFSET + 1) rpc_msg_type\<rparr>
      in (True, x4))"

definition xdr_std_msg_abort :: "XDR \<Rightarrow> bool \<times> XDR" where
  "xdr_std_msg_abort x = (True, x)"

text \<open>
  \<open>ret\<close> is what \<open>r_write\<close> (write(2) on the router device) returns for the packet, which is
  recorded in \<open>written\<close>.
\<close>

definition xdr_std_msg_send :: "int \<Rightarrow> XDR \<Rightarrow> bool \<times> XDR" where
  "xdr_std_msg_send ret x =
     (ret = out_next x,
      x\<lparr>xdr_err := ret, written := written x @ [load_bytes (out_msg x) 0 (nat (out_next x))]\<rparr>)"

text \<open>
  \<open>r_read\<close> either fails with a negative value or stores the bytes of one packet, at most the
  size it is given, and returns how many.
\<close>

datatype read_result = ReadErr int | ReadData "byte list"

definition r_read :: "nat \<Rightarrow> read_result \<Rightarrow> buffer \<Rightarrow> int \<times> buffer" where
  "r_read count r buf =
     (case r of ReadErr e \<Rightarrow> (e, buf)
      | ReadData bs \<Rightarrow> (int (length (take count bs)), store_bytes buf 0 (take count bs)))"

definition xdr_std_read :: "read_result \<Rightarrow> XDR \<Rightarrow> bool \<times> XDR" where
  "xdr_std_read r x =
     (let (n, buf) = r_read (nat RPCROUTER_MSGSIZE_MAX) r (in_msg x);
          x1 = x\<lparr>in_len := n, in_msg := buf\<rparr>
      in if in_len x1 < 0 then (False, x1)
         else if in_len x1 < int ((RPC_OFFSET + 2) * 4) then (False, x1\<lparr>in_len := -1\<rparr>)
         else (True, x1\<lparr>in_next := int ((RPC_OFFSET + 2) * 4)\<rparr>))"

section \<open>Sending\<close>

definition xdr_std_send_uint32 :: "u32 \<Rightarrow> XDR \<Rightarrow> bool \<times> XDR" where
  "xdr_std_send_uint32 v x =
     (if out_next x \<ge> RPCROUTER_MSGSIZE_MAX - 3 then (False, x)
      else (True, x\<lparr>out_msg := store_bytes (out_msg x) (nat (out_next x)) (be32 v),
                    out_next := out_next x + 4\<rparr>))"

definition xdr_std_send_int8 :: "8 word \<Rightarrow> XDR \<Rightarrow> bool \<times> XDR" where
  "xdr_std_send_int8 v x = xdr_std_send_uint32 (scast v) x"

definition xdr_std_send_uint8 :: "8 word \<Rightarrow> XDR \<Rightarrow> bool \<times> XDR" where
  "xdr_std_send_uint8 v x = xdr_std_send_uint32 (ucast v) x"

definition xdr_std_send_int16 :: "16 word \<Rightarrow> XDR \<Rightarrow> bool \<times> XDR" where
  "xdr_std_send_int16 v x = xdr_std_send_uint32 (scast v) x"

definition xdr_std_send_uint16 :: "16 word \<Rightarrow> XDR \<Rightarrow> bool \<times> XDR" where
  "xdr_std_send_uint16 v x = xdr_std_send_uint32 (ucast v) x"

definition xdr_std_send_int32 :: "u32 \<Rightarrow> XDR \<Rightarrow> bool \<times> XDR" where
  "xdr_std_send_int32 v x = xdr_std_send_uint32 v x"

text \<open>
  The guard adds an \<open>int\<close> and a \<open>uint32\<close>: the sum is unsigned and wraps. The copy loop then
  stores \<open>len\<close> bytes, faulting if that leaves \<open>out_msg\<close> or reads past \<open>buf\<close>; zero bytes
  follow until the cursor is a multiple of four.
\<close>

definition xdr_std_send_bytes :: "byte list \<Rightarrow> u32 \<Rightarrow> XDR \<Rightarrow> bool \<times> XDR" where
  "xdr_std_send_bytes buf len x =
     (if uint (word_of_int (out_next x) + len) > RPCROUTER_MSGSIZE_MAX then (False, x)
      else if length buf < unat len \<or> out_next x + int (unat len) > RPCROUTER_MSGSIZE_MAX
      then (False, undefined_behaviour x)
      else let n = nat (out_next x) + unat len
           in (True, x\<lparr>out_msg := store_bytes (store_bytes (out_msg x) (nat (out_next x))
                           (take (unat len) buf)) n (replicate (pad4 n) 0),
                       out_next := int (n + pad4 n)\<rparr>))"

section \<open>Receiving\<close>

text \<open>
  The receiving functions get the old value of \<open>*value\<close> and return the new one. The word
  receiver is never given a null pointer in this tree.
\<close>

definition xdr_std_recv_uint32 :: "u32 \<Rightarrow> XDR \<Rightarrow> bool \<times> u32 \<times> XDR" where
  "xdr_std_recv_uint32 v x =
     (if in_next x + 4 > in_len x then (False, v, x)
      else (True,
            let i = nat (in_next x) in
              un_be32 (in_msg x i) (in_msg x (i + 1)) (in_msg x (i + 2)) (in_msg x (i + 3)),
            x\<lparr>in_next := in_next x + 4\<rparr>))"

definition xdr_std_recv_int8 :: "8 word \<Rightarrow> XDR \<Rightarrow> bool \<times> 8 word \<times> XDR" where
  "xdr_std_recv_int8 v x =
     (case xdr_std_recv_uint32 0 x of (ok, w, x1) \<Rightarrow> (ok, if ok then ucast w else v, x1))"

definition xdr_std_recv_uint8 :: "8 word \<Rightarrow> XDR \<Rightarrow> bool \<times> 8 word \<times> XDR" where
  "xdr_std_recv_uint8 v x =
     (case xdr_std_recv_uint32 0 x of (ok, w, x1) \<Rightarrow> (ok, if ok then ucast w else v, x1))"

definition xdr_std_recv_int16 :: "16 word \<Rightarrow> XDR \<Rightarrow> bool \<times> 16 word \<times> XDR" where
  "xdr_std_recv_int16 v x =
     (case xdr_std_recv_uint32 0 x of (ok, w, x1) \<Rightarrow> (ok, if ok then ucast w else v, x1))"

definition xdr_std_recv_uint16 :: "16 word \<Rightarrow> XDR \<Rightarrow> bool \<times> 16 word \<times> XDR" where
  "xdr_std_recv_uint16 v x =
     (case xdr_std_recv_uint32 0 x of (ok, w, x1) \<Rightarrow> (ok, if ok then ucast w else v, x1))"

definition xdr_std_recv_int32 :: "u32 \<Rightarrow> XDR \<Rightarrow> bool \<times> u32 \<times> XDR" where
  "xdr_std_recv_int32 v x = xdr_std_recv_uint32 v x"

text \<open>
  \<open>buf\<close> is the destination, None for a null pointer. The guard is \<open>int\<close> arithmetic on
  \<open>(int)len\<close>: its overflow is undefined, and a length of 2 ^ 31 or more is negative there.
  The copy faults when it would leave \<open>in_msg\<close> or the destination.
\<close>

definition xdr_std_recv_bytes :: "byte list option \<Rightarrow> u32 \<Rightarrow> XDR \<Rightarrow> bool \<times> byte list option \<times> XDR" where
  "xdr_std_recv_bytes buf len x =
     (if in_next x + sint len \<ge> 2 ^ 31 then (False, buf, undefined_behaviour x)
      else if in_next x + sint len > in_len x then (False, buf, x)
      else
        let x1 = x\<lparr>in_next := (in_next x + sint len + 3) div 4 * 4\<rparr>
        in case buf of
             None \<Rightarrow> (True, None, x1)
           | Some b \<Rightarrow>
               if length b < unat len \<or> in_next x + int (unat len) > RPCROUTER_MSGSIZE_MAX
               then (False, buf, undefined_behaviour x)
               else (True, Some (load_bytes (in_msg x) (nat (in_next x)) (unat len)
                                   @ drop (unat len) b), x1))"

section \<open>Handles\<close>

text \<open>A handle fresh from \<open>calloc\<close>, with the allocator state of the process.\<close>

definition calloc_xdr :: XDR where
  "calloc_xdr = \<lparr>x_op = XDR_ENCODE, x_prog = 0, x_vers = 0, x_proc = 0,
     verf = \<lparr>oa_flavor = 0, oa_base = None, oa_length = 0\<rparr>, xid = 0, fd = 0, is_client = 0,
     out_msg = (\<lambda>_. 0), out_next = 0, in_msg = (\<lambda>_. 0), in_next = 0, in_len = 0, xdr_err = 0,
     malloc_ok = (\<lambda>_ _. True), mallocs = 0, live = 0, fault = False,
     written = []\<rparr>"

text \<open>\<open>handle\<close> is the descriptor \<open>r_open\<close> returns for the router device.\<close>

definition xdr_init_common :: "int \<Rightarrow> int \<Rightarrow> XDR option" where
  "xdr_init_common handle client =
     (let x = calloc_xdr\<lparr>fd := handle\<rparr>
      in if fd x < 0 then None else Some (x\<lparr>is_client := client\<rparr>))"

text \<open>\<open>handle\<close> is what \<open>dup\<close> returns. \<open>xdr->xid = xdr->xid\<close> is the source's assignment.\<close>

definition xdr_clone :: "int \<Rightarrow> XDR \<Rightarrow> XDR option" where
  "xdr_clone handle other =
     (let x = calloc_xdr\<lparr>fd := handle\<rparr>
      in if fd x < 0 then None
         else Some (x\<lparr>xid := xid x, x_prog := x_prog other, x_vers := x_vers other,
                      is_client := is_client other\<rparr>))"

end
