(* ===== verification/XdrCodec.thy ===== *)
theory XdrCodec
  imports XdrStream
begin

text \<open>
  What an XDR routine promises. Every routine of librpc and of the generated stubs has the
  shape \<open>bool_t xdr_T(XDR *xdrs, T *objp)\<close> and does one of three things, chosen by
  \<open>xdrs->x_op\<close>. The model passes the object and the handle and returns the result, the new
  object and the new handle. This theory states the contract as four laws over the handle:
  \<^item> \<open>menc p v bs\<close>: encoding \<open>v\<close> appends exactly the bytes \<open>bs\<close>, and succeeds iff they fit;
  \<^item> \<open>mdec p obj v bs n\<close>: decoding \<open>bs\<close> into the storage \<open>obj\<close> gives \<open>v\<close> with \<open>n\<close> allocations;
  \<^item> \<open>mfree p v n\<close>: releasing \<open>v\<close> frees \<open>n\<close> blocks;
  \<^item> \<open>msafe p obj\<close>: decoding arbitrary input into \<open>obj\<close> never leaves the buffers.
  The locales \<open>xdr_codec\<close> and \<open>xdr_safe_codec\<close> bundle them for a wire type and prove the
  consequences the clients use (round trip, balanced allocation); the rules for the rpcgen
  combinators (members in sequence, switch on a discriminant) build them for composed types.
\<close>

type_synonym 'a xdrproc = "'a \<Rightarrow> XDR \<Rightarrow> bool \<times> 'a \<times> XDR"

section \<open>Cursor movement\<close>

definition put :: "byte list \<Rightarrow> XDR \<Rightarrow> XDR" where
  "put bs x = x\<lparr>out_msg := store_bytes (out_msg x) (nat (out_next x)) bs,
                out_next := out_next x + int (length bs)\<rparr>"

definition adv :: "nat \<Rightarrow> nat \<Rightarrow> XDR \<Rightarrow> XDR" where
  "adv k n x = x\<lparr>in_next := in_next x + int k, mallocs := mallocs x + n, live := live x + int n\<rparr>"

definition ready_out :: "XDR \<Rightarrow> bool" where
  "ready_out x \<longleftrightarrow> x_op x = XDR_ENCODE \<and> \<not> fault x \<and> 0 \<le> out_next x \<and> out_next x mod 4 = 0
     \<and> out_next x \<le> RPCROUTER_MSGSIZE_MAX"

definition ready_in :: "XDR \<Rightarrow> bool" where
  "ready_in x \<longleftrightarrow> x_op x = XDR_DECODE \<and> \<not> fault x \<and> 0 \<le> in_next x \<and> in_next x mod 4 = 0
     \<and> in_next x \<le> RPCROUTER_MSGSIZE_MAX \<and> in_len x \<le> RPCROUTER_MSGSIZE_MAX"

definition at_in :: "byte list \<Rightarrow> XDR \<Rightarrow> bool" where
  "at_in bs x \<longleftrightarrow> in_next x + int (length bs) \<le> in_len x
     \<and> load_bytes (in_msg x) (nat (in_next x)) (length bs) = bs"

definition all_mallocs :: "XDR \<Rightarrow> bool" where
  "all_mallocs x \<longleftrightarrow> (\<forall>k n. malloc_ok x k n)"

text \<open>No allocation of a gigabyte or more succeeds in the 32-bit process.\<close>

definition malloc_sane :: "XDR \<Rightarrow> bool" where
  "malloc_sane x \<longleftrightarrow> (\<forall>k n. malloc_ok x k n \<longrightarrow> n < 2 ^ 30)"

definition out_same :: "XDR \<Rightarrow> XDR \<Rightarrow> bool" where
  "out_same x y \<longleftrightarrow> y\<lparr>out_msg := out_msg x, out_next := out_next x\<rparr> = x"

definition in_same :: "XDR \<Rightarrow> XDR \<Rightarrow> bool" where
  "in_same x y \<longleftrightarrow> y\<lparr>in_next := in_next x, mallocs := mallocs x, live := live x\<rparr> = x"

lemma put_Nil [simp]: "put [] x = x"
  by (simp add: put_def)

lemma put_append: "ready_out x \<Longrightarrow> put (a @ b) x = put b (put a x)"
  by (simp add: put_def ready_out_def store_bytes_append nat_add_distrib)

lemma adv_0 [simp]: "adv 0 0 x = x"
  by (simp add: adv_def)

lemma adv_adv [simp]: "adv l m (adv k n x) = adv (k + l) (n + m) x"
  by (simp add: adv_def algebra_simps)

lemma out_next_put [simp]: "out_next (put b x) = out_next x + int (length b)"
  by (simp add: put_def)

lemma aligned_add:
  "a mod 4 = 0 \<Longrightarrow> k mod 4 = 0 \<Longrightarrow> ((a :: int) + int k) mod 4 = 0"
  by presburger

lemma ready_out_put:
  "ready_out x \<Longrightarrow> length b mod 4 = 0 \<Longrightarrow> out_next x + int (length b) \<le> RPCROUTER_MSGSIZE_MAX
    \<Longrightarrow> ready_out (put b x)"
  by (simp add: ready_out_def put_def aligned_add)

lemma ready_in_adv:
  "ready_in x \<Longrightarrow> k mod 4 = 0 \<Longrightarrow> in_next x + int k \<le> in_len x \<Longrightarrow> ready_in (adv k n x)"
  by (simp add: ready_in_def adv_def aligned_add)

lemma all_mallocs_adv [simp]: "all_mallocs (adv k n x) = all_mallocs x"
  by (simp add: all_mallocs_def adv_def)

lemma at_in_append:
  assumes "ready_in x"
  shows "at_in (a @ b) x \<longleftrightarrow> at_in a x \<and> at_in b (adv (length a) n x)"
  using assms
  by (auto simp: at_in_def adv_def ready_in_def load_bytes_add nat_add_distrib)

lemma at_in_Nil [simp]: "at_in [] x \<longleftrightarrow> in_next x \<le> in_len x"
  by (simp add: at_in_def)

lemma at_in_len: "at_in b x \<Longrightarrow> in_next x + int (length b) \<le> in_len x"
  by (simp add: at_in_def)

lemma out_same_refl [simp]: "out_same x x"
  by (simp add: out_same_def)

lemma out_same_put [simp]: "out_same (put b x) y = out_same x y"
  by (cases x, cases y) (auto simp: out_same_def put_def)

lemma out_same_put_self [simp]: "out_same x (put b x)"
  by (simp add: out_same_def put_def)

lemma out_same_trans: "out_same x y \<Longrightarrow> out_same y z \<Longrightarrow> out_same x z"
  by (cases x, cases y, cases z) (simp add: out_same_def)

lemma in_same_refl [simp]: "in_same x x"
  by (simp add: in_same_def)

lemma in_same_trans: "in_same x y \<Longrightarrow> in_same y z \<Longrightarrow> in_same x z"
  by (cases x, cases y, cases z) (simp add: in_same_def)

lemma in_same_sane: "in_same x y \<Longrightarrow> malloc_sane x = malloc_sane y"
  by (cases x, cases y) (simp add: in_same_def malloc_sane_def)

section \<open>The four laws\<close>

definition menc :: "'a xdrproc \<Rightarrow> 'a \<Rightarrow> byte list \<Rightarrow> bool" where
  "menc p v b \<longleftrightarrow> length b mod 4 = 0 \<and> (\<forall>x. ready_out x \<longrightarrow>
     (if out_next x + int (length b) \<le> RPCROUTER_MSGSIZE_MAX then p v x = (True, v, put b x)
      else \<exists>y. p v x = (False, v, y) \<and> out_same x y \<and> ready_out y))"

definition mdec :: "'a xdrproc \<Rightarrow> 'a \<Rightarrow> 'a \<Rightarrow> byte list \<Rightarrow> nat \<Rightarrow> bool" where
  "mdec p obj v b n \<longleftrightarrow> length b mod 4 = 0 \<and>
     (\<forall>x. ready_in x \<and> all_mallocs x \<and> at_in b x \<longrightarrow> p obj x = (True, v, adv (length b) n x))"

definition mfree :: "'a xdrproc \<Rightarrow> 'a \<Rightarrow> nat \<Rightarrow> bool" where
  "mfree p v n \<longleftrightarrow>
     (\<forall>x. x_op x = XDR_FREE \<longrightarrow> (\<exists>w. p v x = (True, w, x\<lparr>live := live x - int n\<rparr>)))"

definition msafe :: "'a xdrproc \<Rightarrow> 'a \<Rightarrow> bool" where
  "msafe p obj \<longleftrightarrow> (\<forall>x. ready_in x \<and> malloc_sane x \<longrightarrow>
     (case p obj x of (ok, v, y) \<Rightarrow> ready_in y \<and> in_next x \<le> in_next y \<and> in_same x y))"

lemma menc_fits:
  "menc p v b \<Longrightarrow> ready_out x \<Longrightarrow> out_next x + int (length b) \<le> RPCROUTER_MSGSIZE_MAX
    \<Longrightarrow> p v x = (True, v, put b x)"
  by (simp add: menc_def)

lemma menc_full:
  assumes "menc p v b" "ready_out x" "\<not> out_next x + int (length b) \<le> RPCROUTER_MSGSIZE_MAX"
  obtains y where "p v x = (False, v, y)" "out_same x y" "ready_out y"
  using assms unfolding menc_def by (metis (no_types))

lemma menc_len: "menc p v b \<Longrightarrow> length b mod 4 = 0"
  by (simp add: menc_def)

lemma mdec_run:
  "mdec p obj v b n \<Longrightarrow> ready_in x \<Longrightarrow> all_mallocs x \<Longrightarrow> at_in b x
    \<Longrightarrow> p obj x = (True, v, adv (length b) n x)"
  by (simp add: mdec_def)

lemma mdec_len: "mdec p obj v b n \<Longrightarrow> length b mod 4 = 0"
  by (simp add: mdec_def)

lemma mfree_run:
  assumes "mfree p v n" "x_op x = XDR_FREE"
  obtains w where "p v x = (True, w, x\<lparr>live := live x - int n\<rparr>)"
  using assms by (auto simp: mfree_def)

lemma msafe_run:
  assumes "msafe p obj" "ready_in x" "malloc_sane x" "p obj x = (ok, v, y)"
  shows "ready_in y" "in_next x \<le> in_next y" "in_same x y" "malloc_sane y"
  using assms in_same_sane by (force simp: msafe_def)+

section \<open>Sequencing: the shape rpcgen emits\<close>

text \<open>
  \<open>xdr_all [p, q, \<dots>]\<close> is the body \<open>if (!p) return FALSE; if (!q) return FALSE; \<dots> return TRUE;\<close>,
  \<open>xdr_member\<close> applies a routine to one member of the object, and \<open>xdr_switch\<close> picks the next
  routine by looking at the object, as \<open>switch (objp->disc)\<close> does.
\<close>

fun xdr_all :: "'a xdrproc list \<Rightarrow> 'a xdrproc" where
  "xdr_all [] obj x = (True, obj, x)"
| "xdr_all (p # ps) obj x =
     (case p obj x of (ok, obj1, y) \<Rightarrow> if ok then xdr_all ps obj1 y else (False, obj1, y))"

definition xdr_member :: "('o \<Rightarrow> 'a) \<Rightarrow> (('a \<Rightarrow> 'a) \<Rightarrow> 'o \<Rightarrow> 'o) \<Rightarrow> 'a xdrproc \<Rightarrow> 'o xdrproc" where
  "xdr_member get upd p obj x =
     (case p (get obj) x of (ok, v, y) \<Rightarrow> (ok, upd (\<lambda>_. v) obj, y))"

definition xdr_switch :: "('o \<Rightarrow> 'o xdrproc) \<Rightarrow> 'o xdrproc" where
  "xdr_switch sel obj x = sel obj obj x"

subsection \<open>Encoding\<close>

lemma menc_Nil [codec_enc]: "menc (xdr_all []) v []"
  by (simp add: menc_def ready_out_def)

lemma menc_Cons:
  assumes p: "menc p v b" and ps: "menc (xdr_all ps) v c"
  shows "menc (xdr_all (p # ps)) v (b @ c)"
proof -
  have len: "length (b @ c) mod 4 = 0"
    using menc_len [OF p] menc_len [OF ps] by (simp, presburger)
  have "if out_next x + int (length (b @ c)) \<le> RPCROUTER_MSGSIZE_MAX
        then xdr_all (p # ps) v x = (True, v, put (b @ c) x)
        else \<exists>y. xdr_all (p # ps) v x = (False, v, y) \<and> out_same x y \<and> ready_out y"
    if x: "ready_out x" for x
  proof (cases "out_next x + int (length b) \<le> RPCROUTER_MSGSIZE_MAX")
    case True
    have px: "p v x = (True, v, put b x)" and x1: "ready_out (put b x)"
      using menc_fits [OF p x True] ready_out_put [OF x menc_len [OF p] True] by auto
    show ?thesis
    proof (cases "out_next x + int (length (b @ c)) \<le> RPCROUTER_MSGSIZE_MAX")
      case True
      then have "xdr_all ps v (put b x) = (True, v, put c (put b x))"
        using menc_fits [OF ps x1] by simp
      then show ?thesis using True px by (simp add: put_append [OF x])
    next
      case False
      then obtain y where "xdr_all ps v (put b x) = (False, v, y)" "out_same (put b x) y" "ready_out y"
        using menc_full [OF ps x1] by auto
      then show ?thesis using False px by simp
    qed
  next
    case False
    then obtain y where "p v x = (False, v, y)" "out_same x y" "ready_out y"
      using menc_full [OF p x] by auto
    then show ?thesis using False by simp
  qed
  then show ?thesis using len unfolding menc_def by blast
qed

lemma menc_single: "menc p v b \<Longrightarrow> menc (xdr_all [p]) v b"
  using menc_Cons [OF _ menc_Nil] by fastforce

lemma menc_member:
  assumes "menc p (get v) b" "upd (\<lambda>_. get v) v = v"
  shows "menc (xdr_member get upd p) v b"
  using assms by (fastforce simp: menc_def xdr_member_def)

lemma menc_switch: "menc (sel v) v b \<Longrightarrow> menc (xdr_switch sel) v b"
  by (simp add: menc_def xdr_switch_def)

subsection \<open>Decoding\<close>

lemma mdec_Nil: "obj = v \<Longrightarrow> mdec (xdr_all []) obj v [] 0"
  by (simp add: mdec_def)

lemma mdec_Cons:
  assumes p: "mdec p obj obj1 b n" and ps: "mdec (xdr_all ps) obj1 v c m" and l: "n + m = l"
  shows "mdec (xdr_all (p # ps)) obj v (b @ c) l"
proof -
  have "xdr_all (p # ps) obj x = (True, v, adv (length (b @ c)) l x)"
    if x: "ready_in x" "all_mallocs x" and bc: "at_in (b @ c) x" for x
  proof -
    have b: "at_in b x" and c: "at_in c (adv (length b) n x)"
      using at_in_append [OF x(1), of b c n] bc by auto
    have "ready_in (adv (length b) n x)"
      by (rule ready_in_adv [OF x(1) mdec_len [OF p] at_in_len [OF b]])
    then show ?thesis
      using mdec_run [OF p x b] mdec_run [OF ps _ _ c] x l by simp
  qed
  moreover have "length (b @ c) mod 4 = 0"
    using mdec_len [OF p] mdec_len [OF ps] by (simp, presburger)
  ultimately show ?thesis by (simp add: mdec_def)
qed

lemma mdec_member:
  "mdec p (get obj) w b n \<Longrightarrow> mdec (xdr_member get upd p) obj (upd (\<lambda>_. w) obj) b n"
  by (simp add: mdec_def xdr_member_def)

text \<open>The member takes the value it has in the target \<open>v\<close>.\<close>

lemma mdec_Cons_member:
  assumes "mdec p (get obj) (get v) b n"
    and "mdec (xdr_all ps) (upd (\<lambda>_. get v) obj) v c m" and "n + m = l"
  shows "mdec (xdr_all (xdr_member get upd p # ps)) obj v (b @ c) l"
  by (rule mdec_Cons [OF mdec_member [where get = get and obj = obj and upd = upd, OF assms(1)]
        assms(2,3)])

lemma mdec_single_member:
  assumes "mdec p (get obj) (get v) b n" and "upd (\<lambda>_. get v) obj = v"
  shows "mdec (xdr_all [xdr_member get upd p]) obj v b n"
  using mdec_Cons_member [where get = get and obj = obj and v = v and upd = upd and c = "[]" and m = 0,
      OF assms(1) mdec_Nil [OF assms(2)]] by simp

lemma mdec_single: "mdec p obj v b n \<Longrightarrow> mdec (xdr_all [p]) obj v b n"
  using mdec_Cons [OF _ mdec_Nil [OF refl]] by fastforce

lemma mdec_switch: "mdec (sel obj) obj v b n \<Longrightarrow> mdec (xdr_switch sel) obj v b n"
  by (simp add: mdec_def xdr_switch_def)

subsection \<open>Release\<close>

lemma mfree_Nil: "mfree (xdr_all []) v 0"
  by (simp add: mfree_def)

lemma mfree_Cons:
  assumes p: "mfree p v n" and ps: "\<And>w x. x_op x = XDR_FREE
      \<Longrightarrow> p v x = (True, w, x\<lparr>live := live x - int n\<rparr>) \<Longrightarrow> mfree (xdr_all ps) w m"
    and l: "n + m = l"
  shows "mfree (xdr_all (p # ps)) v l"
  unfolding mfree_def
proof (intro allI impI)
  fix x :: XDR assume x: "x_op x = XDR_FREE"
  obtain w where w: "p v x = (True, w, x\<lparr>live := live x - int n\<rparr>)"
    using mfree_run [OF p x] .
  obtain u where "xdr_all ps w (x\<lparr>live := live x - int n\<rparr>)
      = (True, u, x\<lparr>live := live x - int n - int m\<rparr>)"
    using mfree_run [OF ps [OF x w], of "x\<lparr>live := live x - int n\<rparr>"] x by auto
  then show "\<exists>w. xdr_all (p # ps) v x = (True, w, x\<lparr>live := live x - int l\<rparr>)"
    using w l by (auto simp: algebra_simps)
qed

lemma mfree_member:
  assumes "mfree p (get v) n"
  shows "mfree (xdr_member get upd p) v n"
  unfolding mfree_def
proof (intro allI impI)
  fix x :: XDR assume x: "x_op x = XDR_FREE"
  obtain w where "p (get v) x = (True, w, x\<lparr>live := live x - int n\<rparr>)"
    using mfree_run [OF assms x] .
  then show "\<exists>w. xdr_member get upd p v x = (True, w, x\<lparr>live := live x - int n\<rparr>)"
    by (simp add: xdr_member_def)
qed

lemma mfree_Cons_member:
  assumes p: "mfree p (get v) n" and ps: "\<And>w. mfree (xdr_all ps) (upd (\<lambda>_. w) v) m"
    and l: "n + m = l"
  shows "mfree (xdr_all (xdr_member get upd p # ps)) v l"
proof (rule mfree_Cons [OF mfree_member [where get = get, OF p] _ l])
  fix w and x :: XDR assume "xdr_member get upd p v x = (True, w, x\<lparr>live := live x - int n\<rparr>)"
  then show "mfree (xdr_all ps) w m"
    using ps by (auto simp: xdr_member_def split: prod.splits)
qed

lemma mfree_single: "mfree p v n \<Longrightarrow> mfree (xdr_all [p]) v n"
  by (rule mfree_Cons [OF _ mfree_Nil]) auto

lemma mfree_switch: "mfree (sel v) v n \<Longrightarrow> mfree (xdr_switch sel) v n"
  by (simp add: mfree_def xdr_switch_def)

subsection \<open>Safety on arbitrary input\<close>

lemma msafe_Nil: "msafe (xdr_all []) obj"
  by (simp add: msafe_def)

lemma msafe_Cons:
  assumes p: "msafe p obj" and ps: "\<And>w x y. p obj x = (True, w, y) \<Longrightarrow> msafe (xdr_all ps) w"
  shows "msafe (xdr_all (p # ps)) obj"
proof -
  have "ready_in y \<and> in_next x \<le> in_next y \<and> in_same x y"
    if x: "ready_in x" "malloc_sane x" and run: "xdr_all (p # ps) obj x = (ok, v, y)" for x ok v y
  proof -
    obtain ok1 w y1 where 1: "p obj x = (ok1, w, y1)" by (cases "p obj x")
    note s1 = msafe_run [OF p x 1]
    show ?thesis
    proof (cases ok1)
      case True
      then have "xdr_all ps w y1 = (ok, v, y)" using run 1 by simp
      then show ?thesis
        using msafe_run [OF ps s1(1,4)] True 1 s1 in_same_trans by fastforce
    next
      case False
      then show ?thesis using run 1 s1 by simp
    qed
  qed
  then show ?thesis by (fastforce simp: msafe_def)
qed

lemma msafe_member:
  "msafe p (get obj) \<Longrightarrow> msafe (xdr_member get upd p) obj"
  by (fastforce simp: msafe_def xdr_member_def)

lemma msafe_Cons_member:
  assumes "msafe p (get obj)" and "\<And>w. msafe (xdr_all ps) (upd (\<lambda>_. w) obj)"
  shows "msafe (xdr_all (xdr_member get upd p # ps)) obj"
  by (rule msafe_Cons [OF msafe_member]) (use assms in \<open>auto simp: xdr_member_def split: prod.splits\<close>)

lemma msafe_single: "msafe p obj \<Longrightarrow> msafe (xdr_all [p]) obj"
  by (rule msafe_Cons [OF _ msafe_Nil])

lemma msafe_switch: "msafe (sel obj) obj \<Longrightarrow> msafe (xdr_switch sel) obj"
  by (simp add: msafe_def xdr_switch_def)

subsection \<open>Discriminated unions\<close>

text \<open>
  rpcgen turns an XDR union into \<open>struct { T disc; union { \<dots> } T_u; }\<close>. The C union is a
  datatype with a constructor per member and one, \<open>blank\<close>, for cleared storage. \<open>xdr_arm\<close> is a call
  on one member, selected by \<open>sel\<close> and rebuilt by \<open>con\<close>: cleared storage is the member with content
  \<open>zero\<close>; reading one member through another is left undefined.
\<close>

record ('d, 'u) tagged =
  disc :: 'd
  arm :: 'u

definition xdr_arm :: "('u \<Rightarrow> 'a option) \<Rightarrow> ('a \<Rightarrow> 'u) \<Rightarrow> 'u \<Rightarrow> 'a \<Rightarrow> 'a xdrproc
    \<Rightarrow> ('d, 'u) tagged xdrproc" where
  "xdr_arm sel con blank zero p obj x =
     (case (if arm obj = blank then Some zero else sel (arm obj)) of
        None \<Rightarrow> (False, obj, undefined_behaviour x)
      | Some v \<Rightarrow> (case p v x of (ok, w, y) \<Rightarrow> (ok, obj\<lparr>arm := con w\<rparr>, y)))"

lemma menc_arm:
  assumes "arm v \<noteq> blank" "sel (arm v) \<noteq> None" "con (the (sel (arm v))) = arm v"
    and "menc p (the (sel (arm v))) b"
  shows "menc (xdr_arm sel con blank zero p) v b"
proof -
  have "v\<lparr>arm := con (the (sel (arm v)))\<rparr> = v" using assms(3) by (cases v) simp
  then show ?thesis
    using assms unfolding menc_def by (fastforce simp: xdr_arm_def)
qed

lemma mdec_arm:
  assumes "arm obj = blank" "disc obj = disc v" "con (the (sel (arm v))) = arm v"
    and "mdec p zero (the (sel (arm v))) b n"
  shows "mdec (xdr_arm sel con blank zero p) obj (v :: ('d, 'u) tagged) b n"
proof -
  have "obj\<lparr>arm := con (the (sel (arm v)))\<rparr> = v"
    using assms(2,3) by (cases v, cases obj) simp
  then show ?thesis
    using assms(1,4) unfolding mdec_def by (simp add: xdr_arm_def)
qed

lemma mfree_arm:
  assumes "arm v \<noteq> blank" "sel (arm v) \<noteq> None" "mfree p (the (sel (arm v))) n"
  shows "mfree (xdr_arm sel con blank zero p) v n"
  unfolding mfree_def
proof (intro allI impI)
  fix x :: XDR assume x: "x_op x = XDR_FREE"
  obtain w where "p (the (sel (arm v))) x = (True, w, x\<lparr>live := live x - int n\<rparr>)"
    by (rule mfree_run [OF assms(3) x])
  then show "\<exists>w. xdr_arm sel con blank zero p v x = (True, w, x\<lparr>live := live x - int n\<rparr>)"
    using assms(1,2) by (auto simp: xdr_arm_def)
qed

lemma msafe_arm: "arm obj = blank \<Longrightarrow> msafe p zero \<Longrightarrow> msafe (xdr_arm sel con blank zero p) obj"
  by (fastforce simp: msafe_def xdr_arm_def)

lemma mdec_no_arm:
  "arm obj = arm v \<Longrightarrow> disc obj = disc v \<Longrightarrow> mdec (xdr_all []) obj (v :: ('d, 'u) tagged) [] 0"
  by (rule mdec_Nil) (cases obj, cases v, simp)

lemma mdec_single_switch: "mdec (sel obj) obj v b n \<Longrightarrow> mdec (xdr_all [xdr_switch sel]) obj v b n"
  by (intro mdec_single mdec_switch)

lemma msafe_if:
  "(c \<Longrightarrow> msafe p obj) \<Longrightarrow> (\<not> c \<Longrightarrow> msafe q obj) \<Longrightarrow> msafe (if c then p else q) obj"
  by simp

text \<open>Releasing a scalar leaves it as it is, so the discriminant still selects the member.\<close>

definition keeps :: "'a xdrproc \<Rightarrow> bool" where
  "keeps p \<longleftrightarrow> (\<forall>v x. x_op x = XDR_FREE \<longrightarrow> p v x = (True, v, x))"

lemma keeps_single: "keeps p \<Longrightarrow> keeps (xdr_all [p])"
  by (simp add: keeps_def)

lemma mfree_Cons_tag:
  "keeps p \<Longrightarrow> upd (\<lambda>_. get v) v = v \<Longrightarrow> mfree (xdr_all ps) v n
    \<Longrightarrow> mfree (xdr_all (xdr_member get upd p # ps)) v n"
  by (simp add: keeps_def mfree_def xdr_member_def)

text \<open>The introduction rules for the three shapes of a generated routine.\<close>

lemmas wrap_intros = menc_single mdec_single mfree_single msafe_single

lemmas struct_intros =
  menc_Cons menc_single menc_member
  mdec_Cons_member mdec_single_member
  mfree_Cons_member mfree_Nil
  msafe_Cons_member msafe_Nil

lemmas union_intros =
  menc_Cons menc_single menc_member menc_switch
  mdec_Cons_member mdec_single_switch
  mfree_Cons_tag mfree_single mfree_switch
  msafe_Cons_member msafe_single msafe_switch

lemmas arm_intros = menc_arm menc_Nil mdec_arm mdec_no_arm mfree_arm mfree_Nil msafe_arm msafe_Nil

subsection \<open>Routines that call another one first\<close>

lemma menc_cong: "p v = q v \<Longrightarrow> menc q v b \<Longrightarrow> menc p v b"
  by (simp add: menc_def)

lemma mdec_cong: "p obj = q obj \<Longrightarrow> mdec q obj v b n \<Longrightarrow> mdec p obj v b n"
  by (simp add: mdec_def)

lemma mfree_cong: "p v = q v \<Longrightarrow> mfree q v n \<Longrightarrow> mfree p v n"
  by (simp add: mfree_def)

lemma msafe_cong: "p obj = q obj \<Longrightarrow> msafe q obj \<Longrightarrow> msafe p obj"
  by (simp add: msafe_def)

lemma menc_wrap:
  assumes p: "menc p u b"
    and run: "\<And>x ok y. x_op x = XDR_ENCODE \<Longrightarrow> x_op y = XDR_ENCODE \<Longrightarrow> p u x = (ok, u, y)
      \<Longrightarrow> q v x = (ok, v, y)"
  shows "menc q v b"
  unfolding menc_def
proof (intro conjI allI impI)
  fix x assume x: "ready_out x"
  then have op: "x_op x = XDR_ENCODE" by (simp add: ready_out_def)
  show "if out_next x + int (length b) \<le> RPCROUTER_MSGSIZE_MAX then q v x = (True, v, put b x)
      else \<exists>y. q v x = (False, v, y) \<and> out_same x y \<and> ready_out y"
  proof (cases "out_next x + int (length b) \<le> RPCROUTER_MSGSIZE_MAX")
    case True
    then show ?thesis using run [OF op _ menc_fits [OF p x True]] op by (simp add: put_def)
  next
    case False
    obtain y where "p u x = (False, u, y)" "out_same x y" "ready_out y"
      by (rule menc_full [OF p x False])
    then show ?thesis using run [OF op, of y False] False by (simp add: ready_out_def)
  qed
qed (rule menc_len [OF p])

lemma mdec_wrap:
  assumes p: "mdec p u0 u b n"
    and run: "\<And>x y. x_op x = XDR_DECODE \<Longrightarrow> x_op y = XDR_DECODE \<Longrightarrow> p u0 x = (True, u, y)
      \<Longrightarrow> q obj x = (True, v, y)"
  shows "mdec q obj v b n"
  unfolding mdec_def
proof (intro conjI allI impI)
  fix x assume x: "ready_in x \<and> all_mallocs x \<and> at_in b x"
  then have "p u0 x = (True, u, adv (length b) n x)" by (intro mdec_run [OF p]) auto
  then show "q obj x = (True, v, adv (length b) n x)"
    using x by (intro run) (auto simp: ready_in_def adv_def)
qed (rule mdec_len [OF p])

lemma mfree_wrap:
  assumes p: "mfree p u n"
    and run: "\<And>x w y. x_op x = XDR_FREE \<Longrightarrow> x_op y = XDR_FREE \<Longrightarrow> p u x = (True, w, y)
      \<Longrightarrow> \<exists>w'. q v x = (True, w', y)"
  shows "mfree q v n"
  unfolding mfree_def
proof (intro allI impI)
  fix x :: XDR assume x: "x_op x = XDR_FREE"
  obtain w where "p u x = (True, w, x\<lparr>live := live x - int n\<rparr>)" by (rule mfree_run [OF p x])
  then show "\<exists>w'. q v x = (True, w', x\<lparr>live := live x - int n\<rparr>)" using x by (intro run) auto
qed

lemma msafe_wrap:
  assumes p: "msafe p u0"
    and run: "\<And>x ok w y. x_op x = XDR_DECODE \<Longrightarrow> x_op y = XDR_DECODE \<Longrightarrow> p u0 x = (ok, w, y)
      \<Longrightarrow> \<exists>w'. q obj x = (ok, w', y)"
  shows "msafe q obj"
proof -
  have "ready_in y \<and> in_next x \<le> in_next y \<and> in_same x y"
    if x: "ready_in x" "malloc_sane x" and q: "q obj x = (ok, v, y)" for x ok v y
  proof -
    obtain ok1 w y1 where 1: "p u0 x = (ok1, w, y1)" by (cases "p u0 x")
    note s = msafe_run [OF p x 1]
    have "\<exists>w'. q obj x = (ok1, w', y1)"
      using 1 x s by (intro run) (auto simp: ready_in_def)
    then show ?thesis using s q by auto
  qed
  then show ?thesis by (fastforce simp: msafe_def)
qed

lemma menc_seq:
  assumes p: "menc p u b" and r: "menc r v c"
    and run: "\<And>x. x_op x = XDR_ENCODE
      \<Longrightarrow> q v x = (case p u x of (ok, u', y) \<Rightarrow> if ok then r v y else (False, v, y))"
  shows "menc q v (b @ c)"
proof -
  let ?P = "xdr_member (\<lambda>_. u) (\<lambda>f w. w) p"
  have "menc ?P v b"
    by (rule menc_member [where get = "\<lambda>_. u", OF p]) simp
  then have "menc (xdr_all [?P, r]) v (b @ c)"
    by (rule menc_Cons [OF _ menc_single [OF r]])
  moreover have "q v x = xdr_all [?P, r] v x" if "x_op x = XDR_ENCODE" for x
    using run [OF that] by (auto simp: xdr_member_def split: prod.splits)
  ultimately show ?thesis
    unfolding menc_def ready_out_def by auto
qed

lemma mdec_seq:
  assumes p: "mdec p u0 u b n" and r: "mdec r obj1 v c m" and l: "n + m = l"
    and run: "\<And>x y. x_op x = XDR_DECODE \<Longrightarrow> p u0 x = (True, u, y) \<Longrightarrow> q obj x = r obj1 y"
  shows "mdec q obj v (b @ c) l"
proof -
  have "q obj x = (True, v, adv (length (b @ c)) l x)"
    if x: "ready_in x" "all_mallocs x" and bc: "at_in (b @ c) x" for x
  proof -
    have b: "at_in b x" and c: "at_in c (adv (length b) n x)"
      using at_in_append [OF x(1), of b c n] bc by auto
    have "ready_in (adv (length b) n x)"
      by (rule ready_in_adv [OF x(1) mdec_len [OF p] at_in_len [OF b]])
    then have "r obj1 (adv (length b) n x) = (True, v, adv (length (b @ c)) l x)"
      using mdec_run [OF r _ _ c] x l by simp
    then show ?thesis
      using run [OF _ mdec_run [OF p x b]] x by (simp add: ready_in_def)
  qed
  moreover have "length (b @ c) mod 4 = 0"
    using mdec_len [OF p] mdec_len [OF r] by (simp, presburger)
  ultimately show ?thesis by (simp add: mdec_def)
qed

lemma msafe_seq:
  assumes p: "msafe p u0" and r: "\<And>u. msafe (r u) (g u)"
    and run: "\<And>x ok u y. x_op x = XDR_DECODE \<Longrightarrow> p u0 x = (ok, u, y)
      \<Longrightarrow> q obj x = (if ok then r u (g u) y else (False, f u, y))"
  shows "msafe q obj"
proof -
  have "ready_in y \<and> in_next x \<le> in_next y \<and> in_same x y"
    if x: "ready_in x" "malloc_sane x" and q: "q obj x = (ok, v, y)" for x ok v y
  proof -
    obtain ok1 w y1 where 1: "p u0 x = (ok1, w, y1)" by (cases "p u0 x")
    note s1 = msafe_run [OF p x 1]
    have step: "q obj x = (if ok1 then r w (g w) y1 else (False, f w, y1))"
      using run [OF _ 1] x by (simp add: ready_in_def)
    show ?thesis
    proof (cases ok1)
      case True
      then have "r w (g w) y1 = (ok, v, y)"
        using step q by simp
      then show ?thesis
        using msafe_run [OF r s1(1,4)] s1 in_same_trans by fastforce
    qed (use s1 q step in simp)
  qed
  then show ?thesis by (fastforce simp: msafe_def)
qed

subsection \<open>Routines that allocate before they decode\<close>

lemma adv_block: "(x :: XDR)\<lparr>mallocs := Suc (mallocs x), live := live x + 1\<rparr> = adv 0 1 x"
  by (simp add: adv_def)

lemma adv_block_simps [simp]:
  "ready_in (adv 0 n x) = ready_in x" "at_in b (adv 0 n x) = at_in b x" "in_same x (adv 0 n x)"
  "malloc_sane (adv 0 n x) = malloc_sane x" "in_next (adv 0 n x) = in_next x"
  by (simp_all add: ready_in_def at_in_def in_same_def malloc_sane_def adv_def)

lemma x_op_adv [simp]: "x_op (adv k n x) = x_op x"
  by (simp add: adv_def)

lemma mdec_alloc:
  assumes p: "mdec p u0 u b n"
    and run: "\<And>x y. x_op x = XDR_DECODE \<Longrightarrow> x_op y = XDR_DECODE
      \<Longrightarrow> (\<And>k. mem_alloc k x = (True, adv 0 1 x)) \<Longrightarrow> p u0 (adv 0 1 x) = (True, u, y)
      \<Longrightarrow> q obj x = (True, v, y)"
  shows "mdec q obj v b (Suc n)"
  unfolding mdec_def
proof (intro conjI allI impI)
  fix x assume x: "ready_in x \<and> all_mallocs x \<and> at_in b x"
  then have "p u0 (adv 0 1 x) = (True, u, adv (length b) n (adv 0 1 x))"
    by (intro mdec_run [OF p]) auto
  moreover have "mem_alloc k x = (True, adv 0 1 x)" for k
    using x unfolding mem_alloc_def all_mallocs_def by (simp add: adv_block)
  ultimately show "q obj x = (True, v, adv (length b) (Suc n) x)"
    using x run [of x "adv (length b) (Suc n) x"] by (simp add: ready_in_def)
qed (rule mdec_len [OF p])

lemma mem_alloc_cases:
  assumes "mem_alloc k x = (got, y)" "malloc_sane x"
  obtains "got" "y = adv 0 1 x" "k < 2 ^ 30" | "\<not> got" "y = x\<lparr>mallocs := Suc (mallocs x)\<rparr>"
  using assms by (auto simp: mem_alloc_def malloc_sane_def adv_block split: if_splits)

lemma msafe_alloc:
  assumes p: "k < 2 ^ 30 \<Longrightarrow> msafe p u0"
    and fail: "\<And>x y. x_op x = XDR_DECODE \<Longrightarrow> mem_alloc k x = (False, y)
      \<Longrightarrow> \<exists>w. q obj x = (False, w, y)"
    and run: "\<And>x y ok v z. x_op x = XDR_DECODE \<Longrightarrow> x_op z = XDR_DECODE
      \<Longrightarrow> mem_alloc k x = (True, y) \<Longrightarrow> p u0 y = (ok, v, z) \<Longrightarrow> \<exists>w. q obj x = (ok, w, z)"
  shows "msafe q obj"
proof -
  have "ready_in y \<and> in_next x \<le> in_next y \<and> in_same x y"
    if x: "ready_in x" "malloc_sane x" and q: "q obj x = (ok, v, y)" for x ok v y
  proof -
    have op: "x_op x = XDR_DECODE" using x by (simp add: ready_in_def)
    obtain got z where a: "mem_alloc k x = (got, z)" by (cases "mem_alloc k x")
    from a x(2) show ?thesis
    proof (cases rule: mem_alloc_cases)
      case 1
      obtain ok1 w y1 where 2: "p u0 z = (ok1, w, y1)" by (cases "p u0 z")
      have z: "ready_in z" "malloc_sane z" "in_same x z" using x 1 by simp_all
      note s = msafe_run [OF p [OF 1(3)] z(1,2) 2]
      have "y = y1" using run [OF op _ _ 2] s(1) a 1 q op by (auto simp: ready_in_def)
      then show ?thesis using s 1(2) in_same_trans [OF z(3) s(3)] by simp
    next
      case 2
      then have "y = z" using fail [OF op] a q by auto
      then show ?thesis using 2 x by (simp add: ready_in_def in_same_def)
    qed
  qed
  then show ?thesis by (fastforce simp: msafe_def)
qed

section \<open>The contract of a wire type\<close>

text \<open>
  A wire type is its routine \<open>proc\<close>, the bytes \<open>enc v\<close> of a value, the values \<open>wf\<close> that have an
  encoding, the number \<open>blk v\<close> of heap blocks a decoded value owns and the content \<open>zero\<close> of
  cleared storage, into which the clients decode.
\<close>

locale xdr_codec =
  fixes proc :: "'a xdrproc" and enc :: "'a \<Rightarrow> byte list" and wf :: "'a \<Rightarrow> bool"
    and blk :: "'a \<Rightarrow> nat" and zero :: 'a
  assumes enc_law [codec_enc]: "wf v \<Longrightarrow> menc proc v (enc v)"
    and dec_law [codec_dec]: "wf v \<Longrightarrow> obj = zero \<Longrightarrow> mdec proc obj v (enc v) (blk v)"
    and free_law [codec_free]: "wf v \<Longrightarrow> mfree proc v (blk v)"

text \<open>The reader \<open>d\<close> receives the packet of \<open>y\<close> and stands at offset \<open>start\<close>.\<close>

definition deliver :: "XDR \<Rightarrow> int \<Rightarrow> XDR \<Rightarrow> XDR" where
  "deliver y start d = d\<lparr>in_msg := out_msg y, in_len := out_next y, in_next := start\<rparr>"

lemma deliver_ready:
  assumes "ready_out x" "out_next x + int (length b) \<le> RPCROUTER_MSGSIZE_MAX"
    and "x_op d = XDR_DECODE" "\<not> fault d"
  shows "ready_in (deliver (put b x) (out_next x) d)"
    and "at_in b (deliver (put b x) (out_next x) d)"
proof -
  have x: "0 \<le> out_next x" "out_next x mod 4 = 0" "out_next x \<le> RPCROUTER_MSGSIZE_MAX"
    using assms(1) unfolding ready_out_def by blast+
  show "ready_in (deliver (put b x) (out_next x) d)"
    using x assms(2-4) unfolding ready_in_def deliver_def by simp
  show "at_in b (deliver (put b x) (out_next x) d)"
    unfolding at_in_def deliver_def put_def by simp
qed

context xdr_codec
begin

lemma encode:
  "wf v \<Longrightarrow> ready_out x \<Longrightarrow> out_next x + int (length (enc v)) \<le> RPCROUTER_MSGSIZE_MAX
    \<Longrightarrow> proc v x = (True, v, put (enc v) x)"
  by (rule menc_fits [OF enc_law])

lemma encode_iff:
  assumes "wf v" "ready_out x"
  shows "fst (proc v x) \<longleftrightarrow> out_next x + int (length (enc v)) \<le> RPCROUTER_MSGSIZE_MAX"
proof (cases "out_next x + int (length (enc v)) \<le> RPCROUTER_MSGSIZE_MAX")
  case False
  obtain y where "proc v x = (False, v, y)"
    by (rule menc_full [OF enc_law [OF assms(1)] assms(2) False])
  then show ?thesis using False by simp
qed (use assms encode in simp)

lemma round_trip:
  assumes "wf v" "ready_out x" and ok: "proc v x = (True, w, y)"
    and d: "x_op d = XDR_DECODE" "\<not> fault d" "all_mallocs d"
  obtains z u where "proc zero (deliver y (out_next x) d) = (True, v, z)"
    and "in_next z = out_next y" and "live z = live d + int (blk v)"
    and "proc v (z\<lparr>x_op := XDR_FREE\<rparr>) = (True, u, z\<lparr>x_op := XDR_FREE, live := live d\<rparr>)"
proof -
  have fits: "out_next x + int (length (enc v)) \<le> RPCROUTER_MSGSIZE_MAX"
    using encode_iff [OF assms(1,2)] ok by simp
  then have y: "y = put (enc v) x" using encode [OF assms(1,2)] ok by simp
  let ?d = "deliver y (out_next x) d" and ?z = "adv (length (enc v)) (blk v) (deliver y (out_next x) d)"
  have "ready_in ?d" "at_in (enc v) ?d"
    using deliver_ready [OF assms(2) fits d(1,2)] y by auto
  moreover have "all_mallocs ?d" using d(3) by (simp add: all_mallocs_def deliver_def)
  ultimately have dec: "proc zero ?d = (True, v, ?z)"
    using mdec_run [OF dec_law [OF assms(1) refl]] by blast
  have op: "x_op (?z\<lparr>x_op := XDR_FREE\<rparr>) = XDR_FREE" by simp
  obtain u where "proc v (?z\<lparr>x_op := XDR_FREE\<rparr>)
      = (True, u, ?z\<lparr>x_op := XDR_FREE, live := live (?z\<lparr>x_op := XDR_FREE\<rparr>) - int (blk v)\<rparr>)"
    by (rule mfree_run [OF free_law [OF assms(1)] op]) simp
  then show ?thesis
    using that [OF dec] y by (simp add: adv_def deliver_def)
qed

end

text \<open>A wire type whose decoder is memory safe on every input.\<close>

locale xdr_safe_codec = xdr_codec +
  assumes safe_law [codec_safe]: "obj = zero \<Longrightarrow> msafe proc obj"

context xdr_safe_codec
begin

lemma decode_safe:
  assumes "ready_in x" "malloc_sane x" "proc zero x = (ok, v, y)"
  shows "\<not> fault y" and "in_next x \<le> in_next y" and "in_next y \<le> RPCROUTER_MSGSIZE_MAX"
  using msafe_run [OF safe_law [OF refl] assms] by (auto simp: ready_in_def)

end

end
