(* ===== verification/Xdr.thy ===== *)
theory Xdr
  imports XdrCodec
begin

text \<open>
  The primitive XDR routines of librpc/xdr.c, one definition per C function, and the proof that
  each keeps the contract of XdrCodec. The last two routines, \<open>xdr_float\<close> and \<open>xdr_double\<close>, are
  those of gen-50000/loc_api_fixup.c; floating point values are kept as their bit patterns.
  Scalars are machine words: \<open>char\<close> is unsigned and \<open>long\<close> has 32 bits on the target (ARM), so a
  cast between integer types of one width is the identity. An array or block is a list whose
  length is the capacity of the C object; a pointer that may be null is an option.
\<close>

section \<open>Scalars\<close>

definition send_as :: "'a \<Rightarrow> bool \<times> XDR \<Rightarrow> bool \<times> 'a \<times> XDR" where
  "send_as v r = (fst r, v, snd r)"

definition xdr_send_enum :: "u32 \<Rightarrow> u32 \<Rightarrow> XDR \<Rightarrow> bool \<times> XDR" where
  "xdr_send_enum v sz x =
     (if sz = 4 then xdr_std_send_int32 v x
      else if sz = 2 then xdr_std_send_int16 (ucast v) x
      else if sz = 1 then xdr_std_send_int8 (ucast v) x
      else (False, x))"

definition xdr_recv_enum :: "u32 \<Rightarrow> u32 \<Rightarrow> XDR \<Rightarrow> bool \<times> u32 \<times> XDR" where
  "xdr_recv_enum v sz x =
     (if sz = 4 then xdr_std_recv_int32 v x
      else if sz = 2 then
        (case xdr_std_recv_int16 0 x of (ok, w, y) \<Rightarrow>
           (ok, if ok then (v AND 0xFFFF0000) OR ucast w else v, y))
      else if sz = 1 then
        (case xdr_std_recv_int8 0 x of (ok, w, y) \<Rightarrow>
           (ok, if ok then (v AND 0xFFFFFF00) OR ucast w else v, y))
      else (False, v, x))"

definition xdr_enum :: "u32 xdrproc" where
  "xdr_enum ep x =
     (case x_op x of
        XDR_ENCODE \<Rightarrow> send_as ep (xdr_std_send_int32 ep x)
      | XDR_DECODE \<Rightarrow> xdr_std_recv_int32 ep x
      | XDR_FREE \<Rightarrow> (True, ep, x))"

definition xdr_u_int :: "u32 xdrproc" where
  "xdr_u_int uip x =
     (case x_op x of
        XDR_ENCODE \<Rightarrow> send_as uip (xdr_std_send_uint32 uip x)
      | XDR_DECODE \<Rightarrow> xdr_std_recv_uint32 uip x
      | XDR_FREE \<Rightarrow> (True, uip, x))"

definition xdr_u_char :: "byte xdrproc" where
  "xdr_u_char cp x =
     (case xdr_u_int (ucast cp) x of (ok, u, y) \<Rightarrow> (ok, if ok then ucast u else cp, y))"

definition xdr_long :: "u32 xdrproc" where
  "xdr_long lp x =
     (case x_op x of
        XDR_ENCODE \<Rightarrow> send_as lp (xdr_std_send_int32 lp x)
      | XDR_DECODE \<Rightarrow> xdr_std_recv_int32 lp x
      | XDR_FREE \<Rightarrow> (True, lp, x))"

definition xdr_u_long :: "u32 xdrproc" where
  "xdr_u_long ulp x =
     (case x_op x of
        XDR_ENCODE \<Rightarrow> send_as ulp (xdr_std_send_uint32 ulp x)
      | XDR_DECODE \<Rightarrow> xdr_std_recv_uint32 ulp x
      | XDR_FREE \<Rightarrow> (True, ulp, x))"

definition xdr_u_hyper :: "u64 xdrproc" where
  "xdr_u_hyper ullp x =
     (case x_op x of
        XDR_ENCODE \<Rightarrow>
          (case xdr_std_send_int32 (hi32 ullp) x of (ok, y) \<Rightarrow>
             if ok then send_as ullp (xdr_std_send_int32 (lo32 ullp) y) else (False, ullp, y))
      | XDR_DECODE \<Rightarrow>
          (case xdr_std_recv_int32 0 x of (ok1, t1, y) \<Rightarrow>
             if \<not> ok1 then (False, ullp, y)
             else case xdr_std_recv_int32 0 y of (ok2, t2, z) \<Rightarrow>
               if \<not> ok2 then (False, ullp, z) else (True, join32 t1 t2, z))
      | XDR_FREE \<Rightarrow> (True, ullp, x))"

definition xdr_u_quad_t :: "u64 xdrproc" where
  "xdr_u_quad_t ullp x = xdr_u_hyper ullp x"

definition xdr_u_short :: "u16 xdrproc" where
  "xdr_u_short usp x =
     (case x_op x of
        XDR_ENCODE \<Rightarrow> send_as usp (xdr_std_send_uint32 (ucast usp) x)
      | XDR_DECODE \<Rightarrow>
          (case xdr_std_recv_uint32 0 x of (ok, l, y) \<Rightarrow> (ok, if ok then ucast l else usp, y))
      | XDR_FREE \<Rightarrow> (True, usp, x))"

definition xdr_bool :: "u32 xdrproc" where
  "xdr_bool bp x =
     (case x_op x of
        XDR_ENCODE \<Rightarrow> send_as bp (xdr_std_send_uint32 (if bp = 0 then 0 else 1) x)
      | XDR_DECODE \<Rightarrow>
          (case xdr_std_recv_uint32 0 x of (ok, lb, y) \<Rightarrow>
             (ok, if ok then (if lb = 0 then 0 else 1) else bp, y))
      | XDR_FREE \<Rightarrow> (True, bp, x))"

definition xdr_void :: "'a xdrproc" where
  "xdr_void v x = (True, v, x)"

definition xdr_int :: "u32 xdrproc" where
  "xdr_int ip x =
     (case x_op x of
        XDR_ENCODE \<Rightarrow> send_as ip (xdr_std_send_int32 ip x)
      | XDR_DECODE \<Rightarrow> xdr_std_recv_int32 ip x
      | XDR_FREE \<Rightarrow> (True, ip, x))"

definition xdr_char :: "byte xdrproc" where
  "xdr_char cp x =
     (case xdr_int (ucast cp) x of (ok, i, y) \<Rightarrow> (ok, if ok then ucast i else cp, y))"

definition xdr_quad_t :: "u64 xdrproc" where
  "xdr_quad_t llp x = xdr_u_quad_t llp x"

definition xdr_short :: "u16 xdrproc" where
  "xdr_short sp x =
     (case x_op x of
        XDR_ENCODE \<Rightarrow> send_as sp (xdr_std_send_int32 (scast sp) x)
      | XDR_DECODE \<Rightarrow>
          (case xdr_std_recv_int32 0 x of (ok, l, y) \<Rightarrow> (ok, if ok then ucast l else sp, y))
      | XDR_FREE \<Rightarrow> (True, sp, x))"

definition xdr_float :: "u32 xdrproc" where
  "xdr_float fp x = xdr_long fp x"

text \<open>\<open>(long*)dp + 1\<close> is the high word of the double on the little-endian target.\<close>

definition xdr_double :: "u64 xdrproc" where
  "xdr_double dp x =
     (case xdr_long (hi32 dp) x of (ok, h, y) \<Rightarrow>
        if \<not> ok then (False, join32 h (lo32 dp), y)
        else case xdr_long (lo32 dp) y of (ok2, l, z) \<Rightarrow> (ok2, join32 h l, z))"

subsection \<open>Laws of the scalars\<close>

text \<open>The bytes of each scalar, as the decoder of the other side sees them.\<close>

definition enc_u32 :: "u32 \<Rightarrow> byte list" where "enc_u32 v = be32 v"
definition enc_byte :: "byte \<Rightarrow> byte list" where "enc_byte v = be32 (ucast v)"
definition enc_u16 :: "u16 \<Rightarrow> byte list" where "enc_u16 v = be32 (ucast v)"
definition enc_s16 :: "u16 \<Rightarrow> byte list" where "enc_s16 v = be32 (scast v)"
definition enc_u64 :: "u64 \<Rightarrow> byte list" where "enc_u64 v = be32 (hi32 v) @ be32 (lo32 v)"

lemmas enc_scalar_defs = enc_u32_def enc_byte_def enc_u16_def enc_s16_def enc_u64_def

lemmas xdr_std_scalar_defs = xdr_std_send_int32_def xdr_std_recv_int32_def

lemma room_for_word:
  "ready_out x \<Longrightarrow> out_next x \<ge> RPCROUTER_MSGSIZE_MAX - 3 \<longleftrightarrow>
     \<not> out_next x + 4 \<le> RPCROUTER_MSGSIZE_MAX"
  unfolding ready_out_def RPCROUTER_MSGSIZE_MAX_def by (elim conjE) presburger

lemma send_word:
  assumes "ready_out x"
  shows "xdr_std_send_uint32 v x =
     (if out_next x + 4 \<le> RPCROUTER_MSGSIZE_MAX then (True, put (be32 v) x) else (False, x))"
  using room_for_word [OF assms] by (simp add: xdr_std_send_uint32_def put_def)

lemma recv_word:
  assumes "at_in (be32 v) x" "ready_in x"
  shows "xdr_std_recv_uint32 w x = (True, v, adv 4 0 x)"
proof -
  let ?i = "nat (in_next x)"
  have "load_bytes (in_msg x) ?i 4 = be32 v" and n: "in_next x + 4 \<le> in_len x"
    using assms(1) by (simp_all add: at_in_def)
  then have "in_msg x ?i = ucast (drop_bit 24 v)" "in_msg x (?i + 1) = ucast (drop_bit 16 v)"
    "in_msg x (?i + 2) = ucast (drop_bit 8 v)" "in_msg x (?i + 3) = ucast v"
    unfolding load_bytes_4 be32_def by (simp_all add: eval_nat_numeral)
  then show ?thesis
    using n by (simp add: xdr_std_recv_uint32_def adv_def Let_def)
qed

lemma recv_word_safe:
  assumes "ready_in x" "xdr_std_recv_uint32 w x = (ok, v, y)"
  shows "ready_in y" "in_next x \<le> in_next y" "in_same x y"
proof -
  have "ready_in (adv 4 0 x)" if "in_next x + 4 \<le> in_len x"
    by (rule ready_in_adv) (use assms that in auto)
  then show "ready_in y" "in_next x \<le> in_next y" "in_same x y"
    using assms by (auto simp: xdr_std_recv_uint32_def adv_def in_same_def split: if_splits)
qed


lemma recv_word_init:
  "xdr_std_recv_uint32 v x =
     (case xdr_std_recv_uint32 0 x of (ok, w, y) \<Rightarrow> (ok, if ok then w else v, y))"
  by (simp add: xdr_std_recv_uint32_def)

text \<open>A routine that moves one word is known by how it calls the transport.\<close>

definition moves_word :: "'a xdrproc \<Rightarrow> ('a \<Rightarrow> u32) \<Rightarrow> (u32 \<Rightarrow> 'a) \<Rightarrow> bool" where
  "moves_word p to from \<longleftrightarrow> (\<forall>v x.
     (x_op x = XDR_ENCODE \<longrightarrow> p v x = send_as v (xdr_std_send_uint32 (to v) x)) \<and>
     (x_op x = XDR_DECODE \<longrightarrow> (\<exists>v'. p v x =
        (case xdr_std_recv_uint32 0 x of (ok, w, y) \<Rightarrow> (ok, if ok then from w else v', y)))) \<and>
     (x_op x = XDR_FREE \<longrightarrow> (\<exists>w. p v x = (True, w, x))))"

lemma menc_word: "moves_word p to from \<Longrightarrow> menc p v (be32 (to v))"
  unfolding menc_def
proof (intro conjI allI impI)
  fix x assume p: "moves_word p to from" and x: "ready_out x"
  then have "p v x = send_as v (xdr_std_send_uint32 (to v) x)"
    by (simp add: moves_word_def ready_out_def)
  then show "if out_next x + int (length (be32 (to v))) \<le> RPCROUTER_MSGSIZE_MAX
      then p v x = (True, v, put (be32 (to v)) x)
      else \<exists>y. p v x = (False, v, y) \<and> out_same x y \<and> ready_out y"
    using x by (simp add: send_word send_as_def)
qed simp

lemma mdec_word: "moves_word p to from \<Longrightarrow> from (to v) = v \<Longrightarrow> mdec p obj v (be32 (to v)) 0"
  unfolding mdec_def
proof (intro conjI allI impI)
  fix x assume p: "moves_word p to from" "from (to v) = v"
    and x: "ready_in x \<and> all_mallocs x \<and> at_in (be32 (to v)) x"
  then have "x_op x = XDR_DECODE" by (simp add: ready_in_def)
  then obtain v' where "p obj x =
      (case xdr_std_recv_uint32 0 x of (ok, w, y) \<Rightarrow> (ok, if ok then from w else v', y))"
    using p(1) unfolding moves_word_def by blast
  then show "p obj x = (True, v, adv (length (be32 (to v))) 0 x)"
    using recv_word [of "to v" x 0] x p(2) by simp
qed simp

lemma mfree_word: "moves_word p to from \<Longrightarrow> mfree p v 0"
  by (simp add: mfree_def moves_word_def)

lemma msafe_word:
  assumes "moves_word p to from"
  shows "msafe p obj"
proof -
  have "ready_in y \<and> in_next x \<le> in_next y \<and> in_same x y"
    if x: "ready_in x" and run: "p obj x = (ok, v, y)" for x ok v y
  proof -
    obtain ok1 w y1 where 1: "xdr_std_recv_uint32 0 x = (ok1, w, y1)"
      by (cases "xdr_std_recv_uint32 0 x")
    have "x_op x = XDR_DECODE" using x by (simp add: ready_in_def)
    then obtain v' where "p obj x =
        (case xdr_std_recv_uint32 0 x of (ok, w, y) \<Rightarrow> (ok, if ok then from w else v', y))"
      using assms unfolding moves_word_def by blast
    then have "y = y1" using run 1 by simp
    then show ?thesis using recv_word_safe [OF x 1] by simp
  qed
  then show ?thesis by (fastforce simp: msafe_def)
qed

lemmas word_laws = menc_word mdec_word mfree_word msafe_word

lemma ucast_ucast_up: "ucast (ucast (b :: byte) :: u32) = b" "ucast (ucast (h :: u16) :: u32) = h"
  "ucast (scast h :: u32) = h"
  by (rule bit_word_eqI; auto simp: bit_simps)+

lemma moves_word:
  "moves_word xdr_enum (\<lambda>v. v) (\<lambda>w. w)"
  "moves_word xdr_u_int (\<lambda>v. v) (\<lambda>w. w)"
  "moves_word xdr_u_char ucast ucast"
  "moves_word xdr_long (\<lambda>v. v) (\<lambda>w. w)"
  "moves_word xdr_u_long (\<lambda>v. v) (\<lambda>w. w)"
  "moves_word xdr_u_short ucast ucast"
  "moves_word xdr_bool (\<lambda>v. if v = 0 then 0 else 1) (\<lambda>w. if w = 0 then 0 else 1)"
  "moves_word xdr_int (\<lambda>v. v) (\<lambda>w. w)"
  "moves_word xdr_char ucast ucast"
  "moves_word xdr_short scast ucast"
  "moves_word xdr_float (\<lambda>v. v) (\<lambda>w. w)"
  unfolding moves_word_def xdr_enum_def xdr_u_int_def xdr_u_char_def xdr_long_def xdr_u_long_def
    xdr_u_short_def xdr_bool_def xdr_int_def xdr_char_def xdr_short_def xdr_float_def
    xdr_std_scalar_defs
  by (auto simp: send_as_def xdr_std_recv_uint32_def ucast_ucast_up)

definition wf_bool :: "u32 \<Rightarrow> bool" where "wf_bool v \<longleftrightarrow> v = 0 \<or> v = 1"

interpretation enum_codec: xdr_safe_codec xdr_enum enc_u32 "\<lambda>_. True" "\<lambda>_. 0" 0
  by unfold_locales (auto simp: enc_u32_def intro: word_laws [OF moves_word(1), simplified])

interpretation u_int_codec: xdr_safe_codec xdr_u_int enc_u32 "\<lambda>_. True" "\<lambda>_. 0" 0
  by unfold_locales (auto simp: enc_u32_def intro: word_laws [OF moves_word(2), simplified])

interpretation u_char_codec: xdr_safe_codec xdr_u_char enc_byte "\<lambda>_. True" "\<lambda>_. 0" 0
  by unfold_locales
    (auto simp: enc_byte_def ucast_ucast_up intro: word_laws [OF moves_word(3)])

interpretation long_codec: xdr_safe_codec xdr_long enc_u32 "\<lambda>_. True" "\<lambda>_. 0" 0
  by unfold_locales (auto simp: enc_u32_def intro: word_laws [OF moves_word(4), simplified])

interpretation u_long_codec: xdr_safe_codec xdr_u_long enc_u32 "\<lambda>_. True" "\<lambda>_. 0" 0
  by unfold_locales (auto simp: enc_u32_def intro: word_laws [OF moves_word(5), simplified])

interpretation u_short_codec: xdr_safe_codec xdr_u_short enc_u16 "\<lambda>_. True" "\<lambda>_. 0" 0
  by unfold_locales
    (auto simp: enc_u16_def ucast_ucast_up intro: word_laws [OF moves_word(6)])

interpretation bool_codec: xdr_safe_codec xdr_bool enc_u32 wf_bool "\<lambda>_. 0" 0
proof unfold_locales
  fix v obj :: u32
  assume "wf_bool v"
  then have v: "(if v = 0 then 0 else 1) = v" by (auto simp: wf_bool_def)
  show "menc xdr_bool v (enc_u32 v)"
    using menc_word [OF moves_word(7), of v] unfolding v enc_u32_def .
  show "obj = 0 \<Longrightarrow> mdec xdr_bool obj v (enc_u32 v) 0"
    using mdec_word [OF moves_word(7), of v obj] v unfolding v enc_u32_def by simp
qed (auto intro: word_laws [OF moves_word(7)])

interpretation int_codec: xdr_safe_codec xdr_int enc_u32 "\<lambda>_. True" "\<lambda>_. 0" 0
  by unfold_locales (auto simp: enc_u32_def intro: word_laws [OF moves_word(8), simplified])

interpretation char_codec: xdr_safe_codec xdr_char enc_byte "\<lambda>_. True" "\<lambda>_. 0" 0
  by unfold_locales
    (auto simp: enc_byte_def ucast_ucast_up intro: word_laws [OF moves_word(9)])

interpretation short_codec: xdr_safe_codec xdr_short enc_s16 "\<lambda>_. True" "\<lambda>_. 0" 0
  by unfold_locales
    (auto simp: enc_s16_def ucast_ucast_up intro: word_laws [OF moves_word(10)])

interpretation float_codec: xdr_safe_codec xdr_float enc_u32 "\<lambda>_. True" "\<lambda>_. 0" 0
  by unfold_locales (auto simp: enc_u32_def intro: word_laws [OF moves_word(11), simplified])

text \<open>The two 64-bit routines send the high word first.\<close>

definition moves_two :: "u64 xdrproc \<Rightarrow> bool" where
  "moves_two p \<longleftrightarrow> (\<forall>v x.
     (x_op x = XDR_ENCODE \<longrightarrow> p v x =
        (case xdr_std_send_uint32 (hi32 v) x of (ok, y) \<Rightarrow>
           if ok then send_as v (xdr_std_send_uint32 (lo32 v) y) else (False, v, y))) \<and>
     (x_op x = XDR_DECODE \<longrightarrow> (\<exists>v1 v2. p v x =
        (case xdr_std_recv_uint32 0 x of (ok1, t1, y) \<Rightarrow>
           if \<not> ok1 then (False, v1, y)
           else case xdr_std_recv_uint32 0 y of (ok2, t2, z) \<Rightarrow>
             if \<not> ok2 then (False, v2, z) else (True, join32 t1 t2, z)))) \<and>
     (x_op x = XDR_FREE \<longrightarrow> (\<exists>w. p v x = (True, w, x))))"

lemma menc_two:
  assumes p: "moves_two p"
  shows "menc p v (enc_u64 v)"
  unfolding menc_def
proof (intro conjI allI impI)
  fix x assume x: "ready_out x"
  then have run: "p v x = (case xdr_std_send_uint32 (hi32 v) x of (ok, y) \<Rightarrow>
       if ok then send_as v (xdr_std_send_uint32 (lo32 v) y) else (False, v, y))"
    using p unfolding moves_two_def ready_out_def by blast
  show "if out_next x + int (length (enc_u64 v)) \<le> RPCROUTER_MSGSIZE_MAX
      then p v x = (True, v, put (enc_u64 v) x)
      else \<exists>y. p v x = (False, v, y) \<and> out_same x y \<and> ready_out y"
  proof (cases "out_next x + 4 \<le> RPCROUTER_MSGSIZE_MAX")
    case True
    then have x1: "ready_out (put (be32 (hi32 v)) x)"
      using ready_out_put [OF x, of "be32 (hi32 v)"] by simp
    show ?thesis
      using run True x x1
      by (auto simp: send_word [OF x] send_word [OF x1] send_as_def enc_u64_def put_append [OF x]
          add.commute)
  next
    case False
    then show ?thesis using run x by (simp add: send_word [OF x] enc_u64_def)
  qed
qed (simp add: enc_u64_def)

lemma mdec_two:
  assumes p: "moves_two p"
  shows "mdec p obj v (enc_u64 v) 0"
  unfolding mdec_def
proof (intro conjI allI impI)
  fix x assume x: "ready_in x \<and> all_mallocs x \<and> at_in (enc_u64 v) x"
  have a: "at_in (be32 (hi32 v)) x" "at_in (be32 (lo32 v)) (adv 4 0 x)"
    using x at_in_append [of x "be32 (hi32 v)" "be32 (lo32 v)" 0] by (simp_all add: enc_u64_def)
  have y: "ready_in (adv 4 0 x)"
    by (rule ready_in_adv) (use x at_in_len [OF a(1)] in auto)
  have "x_op x = XDR_DECODE" using x by (simp add: ready_in_def)
  then obtain v1 v2 where "p obj x = (case xdr_std_recv_uint32 0 x of (ok1, t1, y) \<Rightarrow>
           if \<not> ok1 then (False, v1, y)
           else case xdr_std_recv_uint32 0 y of (ok2, t2, z) \<Rightarrow>
             if \<not> ok2 then (False, v2, z) else (True, join32 t1 t2, z))"
    using p unfolding moves_two_def by blast
  then show "p obj x = (True, v, adv (length (enc_u64 v)) 0 x)"
    using recv_word [OF a(1)] recv_word [OF a(2) y] x by (simp add: enc_u64_def)
qed (simp add: enc_u64_def)

lemma mfree_two: "moves_two p \<Longrightarrow> mfree p v 0"
  by (simp add: mfree_def moves_two_def)

lemma msafe_two:
  assumes p: "moves_two p"
  shows "msafe p obj"
proof -
  have "ready_in y \<and> in_next x \<le> in_next y \<and> in_same x y"
    if x: "ready_in x" and run: "p obj x = (ok, v, y)" for x ok v y
  proof -
    obtain ok1 w y1 where 1: "xdr_std_recv_uint32 0 x = (ok1, w, y1)"
      by (cases "xdr_std_recv_uint32 0 x")
    obtain ok2 w2 y2 where 2: "xdr_std_recv_uint32 0 y1 = (ok2, w2, y2)"
      by (cases "xdr_std_recv_uint32 0 y1")
    have "x_op x = XDR_DECODE" using x by (simp add: ready_in_def)
    then obtain v1 v2 where "p obj x = (case xdr_std_recv_uint32 0 x of (ok1, t1, y) \<Rightarrow>
           if \<not> ok1 then (False, v1, y)
           else case xdr_std_recv_uint32 0 y of (ok2, t2, z) \<Rightarrow>
             if \<not> ok2 then (False, v2, z) else (True, join32 t1 t2, z))"
      using p unfolding moves_two_def by blast
    then have "y = (if ok1 then y2 else y1)" using run 1 2 by (auto split: if_splits)
    then show ?thesis
      using recv_word_safe [OF x 1] recv_word_safe [OF recv_word_safe(1) [OF x 1] 2] in_same_trans
      by auto
  qed
  then show ?thesis by (fastforce simp: msafe_def)
qed

lemmas two_laws = menc_two mdec_two mfree_two msafe_two

lemma moves_two: "moves_two xdr_u_hyper" "moves_two xdr_u_quad_t" "moves_two xdr_quad_t"
  unfolding moves_two_def xdr_u_hyper_def xdr_u_quad_t_def xdr_quad_t_def xdr_std_scalar_defs
  by auto

lemma moves_two_double: "moves_two xdr_double"
proof -
  have op: "x_op (snd (xdr_std_send_uint32 w x)) = x_op x"
    "x_op (snd (snd (xdr_std_recv_uint32 w x))) = x_op x" for w x
    by (simp_all add: xdr_std_send_uint32_def xdr_std_recv_uint32_def)
  note init = recv_word_init [where v = "hi32 _"] recv_word_init [where v = "lo32 _"]
  show ?thesis
    unfolding moves_two_def xdr_double_def xdr_long_def xdr_std_scalar_defs
    by (auto simp: send_as_def init case_prod_beta op)
qed

interpretation u_quad_codec: xdr_safe_codec xdr_u_quad_t enc_u64 "\<lambda>_. True" "\<lambda>_. 0" 0
  by unfold_locales (auto intro: two_laws moves_two)

interpretation quad_codec: xdr_safe_codec xdr_quad_t enc_u64 "\<lambda>_. True" "\<lambda>_. 0" 0
  by unfold_locales (auto intro: two_laws moves_two)

interpretation double_codec: xdr_safe_codec xdr_double enc_u64 "\<lambda>_. True" "\<lambda>_. 0" 0
  by unfold_locales (auto intro: two_laws moves_two_double)

lemma keeps_tags [codec_free]: "keeps xdr_enum" "keeps xdr_u_quad_t"
  by (simp_all add: keeps_def xdr_enum_def xdr_u_quad_t_def xdr_u_hyper_def)

end
