(* ===== verification/XdrCompound.thy ===== *)
theory XdrCompound
  imports Xdr
begin

text \<open>
  The routines of librpc/xdr.c that handle storage: byte runs, fixed and counted arrays,
  pointers and strings. A C struct \<open>{ u_int len; T *val; }\<close>, which rpcgen passes to
  \<open>xdr_bytes\<close> and \<open>xdr_array\<close> as two pointers, is the record \<open>counted\<close>. A block obtained from
  \<open>mem_alloc\<close> holds as many elements as fit its size; one byte run from \<open>mem_alloc\<close> is shown
  as zeros, although its content is indeterminate until it is received.
\<close>

section \<open>Routines\<close>

record 'a counted =
  len :: u32
  val :: "'a list option"

definition xdr_opaque :: "u32 \<Rightarrow> byte list xdrproc" where
  "xdr_opaque cnt cp x =
     (if cnt = 0 then (True, cp, x)
      else case x_op x of
        XDR_ENCODE \<Rightarrow> send_as cp (xdr_std_send_bytes cp cnt x)
      | XDR_DECODE \<Rightarrow>
          (case xdr_std_recv_bytes (Some cp) cnt x of (ok, b, y) \<Rightarrow> (ok, the b, y))
      | XDR_FREE \<Rightarrow> (True, cp, x))"

text \<open>The DECODE branch of \<open>xdr_bytes\<close> once the count is received.\<close>

definition xdr_bytes_recv :: "u32 \<Rightarrow> byte counted xdrproc" where
  "xdr_bytes_recv maxsize a x =
     (let n = len a in
      if n > maxsize then (False, a, x)
      else if n = 0 then (True, a, x)
      else case (case val a of Some b \<Rightarrow> (True, b, x)
                 | None \<Rightarrow> (case mem_alloc (unat n) x of (got, y) \<Rightarrow>
                             (got, replicate (unat n) 0, y))) of
        (got, b, y) \<Rightarrow>
          if \<not> got then (False, a, y)
          else case xdr_std_recv_bytes (Some b) n y of (ok, b2, z) \<Rightarrow> (ok, a\<lparr>val := b2\<rparr>, z))"

definition xdr_bytes :: "u32 \<Rightarrow> byte counted xdrproc" where
  "xdr_bytes maxsize a x =
     (case x_op x of
        XDR_DECODE \<Rightarrow>
          (case xdr_std_recv_uint32 (len a) x of (ok, n, y) \<Rightarrow>
             if ok then xdr_bytes_recv maxsize (a\<lparr>len := n\<rparr>) y else (False, a\<lparr>len := n\<rparr>, y))
      | XDR_ENCODE \<Rightarrow>
          (case xdr_std_send_uint32 (len a) x of (ok, y) \<Rightarrow>
             if ok \<and> len a \<le> maxsize
             then send_as a (xdr_std_send_bytes (case val a of None \<Rightarrow> [] | Some b \<Rightarrow> b) (len a) y)
             else (False, a, y))
      | XDR_FREE \<Rightarrow>
          (case val a of None \<Rightarrow> (True, a, x) | Some b \<Rightarrow> (True, a\<lparr>val := None\<rparr>, mem_free x)))"

text \<open>The element loop of \<open>xdr_vector\<close> and \<open>xdr_array\<close>: \<open>n\<close> elements of the block \<open>vs\<close>.\<close>

fun xdr_elems :: "'a xdrproc \<Rightarrow> nat \<Rightarrow> 'a list xdrproc" where
  "xdr_elems p 0 vs x = (True, vs, x)"
| "xdr_elems p (Suc n) [] x = (False, [], undefined_behaviour x)"
| "xdr_elems p (Suc n) (v # vs) x =
     (case p v x of (ok, w, y) \<Rightarrow>
        if ok then (case xdr_elems p n vs y of (ok2, ws, z) \<Rightarrow> (ok2, w # ws, z))
        else (False, w # vs, y))"

definition xdr_vector :: "u32 \<Rightarrow> 'a xdrproc \<Rightarrow> 'a list xdrproc" where
  "xdr_vector nelem xdr_elem basep x = xdr_elems xdr_elem (unat nelem) basep x"

definition xdr_array_elems :: "u32 \<Rightarrow> 'a xdrproc \<Rightarrow> 'a list \<Rightarrow> 'a counted xdrproc" where
  "xdr_array_elems c elproc target a x =
     (case xdr_elems elproc (unat c) target x of (stat, vs, y) \<Rightarrow>
        if x_op y = XDR_FREE then (stat, a\<lparr>val := None\<rparr>, mem_free y)
        else (stat, a\<lparr>val := Some vs\<rparr>, y))"

definition xdr_array_rest :: "u32 \<Rightarrow> u32 \<Rightarrow> 'a \<Rightarrow> 'a xdrproc \<Rightarrow> 'a counted xdrproc" where
  "xdr_array_rest maxsize elsize zero elproc a x =
     (let c = len a in
      if c > maxsize \<and> x_op x \<noteq> XDR_FREE then (False, a, x)
      else let nodesize = c * elsize in
        case val a of
          Some target \<Rightarrow> xdr_array_elems c elproc target a x
        | None \<Rightarrow>
            (case x_op x of
               XDR_DECODE \<Rightarrow>
                 if c = 0 then (True, a, x)
                 else (case mem_alloc (unat nodesize) x of (got, y) \<Rightarrow>
                   if \<not> got then (False, a, y)
                   else xdr_array_elems c elproc
                          (replicate (unat nodesize div unat elsize) zero) a y)
             | XDR_FREE \<Rightarrow> (True, a, x)
             | XDR_ENCODE \<Rightarrow>
                 if c = 0 then (True, a, x) else (False, a, undefined_behaviour x)))"

definition xdr_array :: "u32 \<Rightarrow> u32 \<Rightarrow> 'a \<Rightarrow> 'a xdrproc \<Rightarrow> 'a counted xdrproc" where
  "xdr_array maxsize elsize zero elproc a x =
     (case xdr_u_int (len a) x of (ok, c, y) \<Rightarrow>
        if ok then xdr_array_rest maxsize elsize zero elproc (a\<lparr>len := c\<rparr>) y
        else (False, a\<lparr>len := c\<rparr>, y))"

text \<open>\<open>size\<close> is the size of the object pointed to, \<open>zero\<close> what \<open>memset\<close> leaves in it.\<close>

definition xdr_reference :: "nat \<Rightarrow> 'a \<Rightarrow> 'a xdrproc \<Rightarrow> 'a option xdrproc" where
  "xdr_reference sz zero proc pp x =
     (case (case pp of
              Some v \<Rightarrow> (None, v, x)
            | None \<Rightarrow>
                (case x_op x of
                   XDR_FREE \<Rightarrow> (Some True, zero, x)
                 | XDR_DECODE \<Rightarrow>
                     (case mem_alloc sz x of (got, y) \<Rightarrow> (if got then None else Some False, zero, y))
                 | XDR_ENCODE \<Rightarrow> (Some False, zero, undefined_behaviour x))) of
        (Some stat, v, y) \<Rightarrow> (stat, pp, y)
      | (None, v, y) \<Rightarrow>
          (case proc v y of (stat, w, z) \<Rightarrow>
             if x_op z = XDR_FREE then (stat, None, mem_free z) else (stat, Some w, z)))"

definition xdr_pointer :: "nat \<Rightarrow> 'a \<Rightarrow> 'a xdrproc \<Rightarrow> 'a option xdrproc" where
  "xdr_pointer obj_size zero xdr_obj objpp x =
     (case xdr_bool (if objpp = None then 0 else 1) x of (ok, more_data, y) \<Rightarrow>
        if \<not> ok then (False, objpp, y)
        else if more_data = 0 then (True, None, y)
        else xdr_reference obj_size zero xdr_obj objpp y)"

text \<open>\<open>strlen\<close>: the bytes before the first NUL; without one it runs off the block.\<close>

definition c_string :: "byte list \<Rightarrow> bool" where
  "c_string b \<longleftrightarrow> 0 \<in> set b"

definition strlen :: "byte list \<Rightarrow> u32" where
  "strlen b = of_nat (length (takeWhile (\<lambda>c. c \<noteq> 0) b))"

definition xdr_string_rest :: "u32 \<Rightarrow> u32 \<Rightarrow> byte list option xdrproc" where
  "xdr_string_rest maxsize sz cpp x =
     (if sz > maxsize then (False, cpp, x)
      else let nodesize = sz + 1 in
        case x_op x of
          XDR_DECODE \<Rightarrow>
            if nodesize = 0 then (True, cpp, x)
            else (case (case cpp of Some b \<Rightarrow> (True, b, x)
                        | None \<Rightarrow> (case mem_alloc (unat nodesize) x of (got, y) \<Rightarrow>
                                    (got, replicate (unat nodesize) 0, y))) of
              (got, b, y) \<Rightarrow>
                if \<not> got then (False, cpp, y)
                else if length b \<le> unat sz then (False, Some b, undefined_behaviour y)
                else case xdr_opaque sz (b[unat sz := 0]) y of (ok, b2, z) \<Rightarrow> (ok, Some b2, z))
        | XDR_ENCODE \<Rightarrow> (case xdr_opaque sz (the cpp) x of (ok, b, y) \<Rightarrow> (ok, Some b, y))
        | XDR_FREE \<Rightarrow> (True, None, mem_free x))"

definition xdr_string_sized :: "u32 \<Rightarrow> u32 \<Rightarrow> byte list option xdrproc" where
  "xdr_string_sized maxsize size0 cpp x =
     (case xdr_u_int size0 x of (ok, sz, y) \<Rightarrow>
        if ok then xdr_string_rest maxsize sz cpp y else (False, cpp, y))"

definition xdr_string :: "u32 \<Rightarrow> byte list option xdrproc" where
  "xdr_string maxsize cpp x =
     (case x_op x of
        XDR_DECODE \<Rightarrow> xdr_string_sized maxsize 0 cpp x
      | XDR_ENCODE \<Rightarrow>
          (case cpp of None \<Rightarrow> (False, None, x)
           | Some b \<Rightarrow> if c_string b then xdr_string_sized maxsize (strlen b) cpp x
                       else (False, cpp, undefined_behaviour x))
      | XDR_FREE \<Rightarrow>
          (case cpp of None \<Rightarrow> (True, None, x)
           | Some b \<Rightarrow> if c_string b then xdr_string_sized maxsize (strlen b) cpp x
                       else (False, cpp, undefined_behaviour x)))"

section \<open>Byte runs\<close>

lemma pad4_aligned: "m mod 4 = 0 \<Longrightarrow> pad4 (m + n) = pad4 n"
proof -
  assume "m mod 4 = 0"
  then have "(m + n) mod 4 = n mod 4" by presburger
  then show ?thesis by (simp only: pad4_def)
qed

lemma round_up4: "(m :: int) mod 4 = 0 \<Longrightarrow> (m + int k + 3) div 4 * 4 = m + int (k + pad4 k)"
proof -
  assume m: "m mod 4 = 0"
  consider "k mod 4 = 0" | "k mod 4 = 1" | "k mod 4 = 2" | "k mod 4 = 3" by linarith
  then show ?thesis using m by cases (simp_all add: pad4_def, presburger+)
qed

lemma fits_padded:
  assumes "(m :: int) mod 4 = 0"
  shows "m + int (k + pad4 k) \<le> RPCROUTER_MSGSIZE_MAX \<longleftrightarrow> m + int k \<le> RPCROUTER_MSGSIZE_MAX"
  using assms round_up4 [OF assms, of k] unfolding RPCROUTER_MSGSIZE_MAX_def by presburger

lemma uint_as_unat: "uint (n :: u32) = int (unat n)"
  by simp

lemma uint_less: "unat (n :: u32) < m \<Longrightarrow> uint n < int m"
  unfolding uint_as_unat by (simp only: of_nat_less_iff)

lemma unat_small_sum:
  assumes "0 \<le> m" "m \<le> RPCROUTER_MSGSIZE_MAX" "unat (n :: u32) < 2 ^ 31"
  shows "uint (word_of_int m + n) = m + int (unat n)"
proof -
  have m: "uint (word_of_int m :: u32) = m"
    using assms(1,2) by (simp add: uint_word_of_int RPCROUTER_MSGSIZE_MAX_def)
  have "m + int (unat n) < 2 ^ 32"
    using uint_less [OF assms(3)] assms(2) unfolding RPCROUTER_MSGSIZE_MAX_def by simp
  moreover have "uint (word_of_int m + n) = (uint (word_of_int m :: u32) + uint n) mod 2 ^ 32"
    by (simp add: uint_word_ariths)
  ultimately show ?thesis
    unfolding m using assms(1) by simp
qed

lemma sint_small: "unat (n :: u32) < 2 ^ 31 \<Longrightarrow> sint n = int (unat n)"
proof -
  assume n: "unat n < 2 ^ 31"
  have "sint n = signed_take_bit 31 (uint n)" by (simp add: sint_uint)
  also have "\<dots> = uint n"
  proof (rule signed_take_bit_int_eq_self)
    have "(0 :: int) \<le> uint n" by simp
    then show "- (2 ^ 31) \<le> uint n" by (rule order_trans [rotated]) simp
  qed (use uint_less [OF n] in simp)
  finally show ?thesis by simp
qed

lemma send_bytes:
  assumes x: "ready_out x" and n: "unat n < 2 ^ 31" "unat n \<le> length b"
  shows "xdr_std_send_bytes b n x =
     (let c = padded (take (unat n) b) in
      if out_next x + int (length c) \<le> RPCROUTER_MSGSIZE_MAX then (True, put c x) else (False, x))"
proof -
  have o: "0 \<le> out_next x" "out_next x mod 4 = 0" "out_next x \<le> RPCROUTER_MSGSIZE_MAX"
    using x unfolding ready_out_def by blast+
  have l: "length (take (unat n) b) = unat n" using n by simp
  have p: "pad4 (nat (out_next x) + unat n) = pad4 (unat n)"
    by (rule pad4_aligned) (use o in presburger)
  have "\<not> uint (word_of_int (out_next x) + n) > RPCROUTER_MSGSIZE_MAX
      \<longleftrightarrow> out_next x + int (unat n + pad4 (unat n)) \<le> RPCROUTER_MSGSIZE_MAX"
    unfolding unat_small_sum [OF o(1,3) n(1)] using fits_padded [OF o(2), of "unat n"] by linarith
  moreover have "out_next x + int (unat n) \<le> RPCROUTER_MSGSIZE_MAX"
    if "out_next x + int (unat n + pad4 (unat n)) \<le> RPCROUTER_MSGSIZE_MAX" using that by linarith
  ultimately show ?thesis
    using n(2) o(1) unfolding xdr_std_send_bytes_def Let_def padded_def
    by (auto simp: p l put_def store_bytes_append)
qed

lemma recv_bytes:
  assumes x: "ready_in x" and at: "at_in (padded bs) x" and n: "unat n = length bs"
    and b: "length bs \<le> length b"
  shows "xdr_std_recv_bytes (Some b) n x =
    (True, Some (bs @ drop (length bs) b), adv (length (padded bs)) 0 x)"
proof -
  have i: "0 \<le> in_next x" "in_next x mod 4 = 0" "in_len x \<le> RPCROUTER_MSGSIZE_MAX"
    using x unfolding ready_in_def by blast+
  have fit: "in_next x + int (length bs) \<le> in_len x" using at_in_len [OF at] by simp
  have "unat n < 2 ^ 31" using fit i n by (simp add: RPCROUTER_MSGSIZE_MAX_def)
  then have "sint n = int (length bs)" using sint_small [of n] unfolding n by blast
  moreover have "in_next x + int (length bs) < 2 ^ 31"
    using fit i by (simp add: RPCROUTER_MSGSIZE_MAX_def)
  moreover have "load_bytes (in_msg x) (nat (in_next x)) (length bs) = bs"
    using at load_bytes_appendD(1) [of _ _ bs "replicate (pad4 (length bs)) 0"]
    unfolding at_in_def padded_def length_append by blast
  ultimately show ?thesis
    using fit i(3) n b round_up4 [OF i(2), of "length bs"]
    unfolding xdr_std_recv_bytes_def by (simp add: adv_def)
qed

lemma recv_bytes_safe:
  assumes x: "ready_in x" and n: "unat n < 2 ^ 30" "unat n \<le> length b"
    and run: "xdr_std_recv_bytes (Some b) n x = (ok, c, y)"
  shows "ready_in y" "in_next x \<le> in_next y" "in_same x y" "\<exists>d. c = Some d"
proof -
  have i: "x_op x = XDR_DECODE" "\<not> fault x" "0 \<le> in_next x" "in_next x mod 4 = 0"
    "in_len x \<le> RPCROUTER_MSGSIZE_MAX" "in_next x \<le> RPCROUTER_MSGSIZE_MAX"
    using x unfolding ready_in_def by blast+
  have s: "sint n = int (unat n)" by (rule sint_small) (use n(1) in simp)
  let ?m = "(in_next x + int (unat n) + 3) div 4 * 4"
  have up: "?m = in_next x + int (unat n + pad4 (unat n))" by (rule round_up4 [OF i(4)])
  show "\<exists>d. c = Some d"
    using run unfolding xdr_std_recv_bytes_def Let_def by (auto split: if_splits)
  have "\<not> in_next x + int (unat n) \<ge> 2 ^ 31"
    using uint_less [OF n(1)] i(6) unfolding RPCROUTER_MSGSIZE_MAX_def by simp
  then have "y = x \<or> (y = x\<lparr>in_next := ?m\<rparr> \<and> in_next x + int (unat n) \<le> RPCROUTER_MSGSIZE_MAX)"
    using run i(5) n(2) unfolding xdr_std_recv_bytes_def Let_def s by (auto split: if_splits)
  then have "y = x \<or> (y = x\<lparr>in_next := ?m\<rparr> \<and> ?m \<le> RPCROUTER_MSGSIZE_MAX)"
    unfolding up fits_padded [OF i(4)] .
  moreover have "?m mod 4 = 0" by simp
  moreover have "in_next x \<le> ?m" unfolding up by simp
  ultimately obtain m where "y = x \<or> y = x\<lparr>in_next := m\<rparr> \<and> m \<le> RPCROUTER_MSGSIZE_MAX"
    "m mod 4 = 0" "in_next x \<le> m" by (rule that)
  then show "ready_in y" "in_next x \<le> in_next y" "in_same x y"
    using x i(3) by (auto simp: ready_in_def in_same_def)
qed

interpretation opaque_codec: xdr_codec "xdr_opaque n" padded
    "\<lambda>v. length v = unat n \<and> unat n < 2 ^ 30" "\<lambda>_. 0" "replicate (unat n) 0" for n
proof unfold_locales
  fix v obj :: "byte list"
  assume v: "length v = unat n \<and> unat n < 2 ^ 30"
  then have n: "unat n < 2 ^ 31" "unat n \<le> length v" by simp_all
  show "menc (xdr_opaque n) v (padded v)"
    unfolding menc_def
  proof (intro conjI allI impI)
    fix x assume x: "ready_out x"
    show "if out_next x + int (length (padded v)) \<le> RPCROUTER_MSGSIZE_MAX
        then xdr_opaque n v x = (True, v, put (padded v) x)
        else \<exists>y. xdr_opaque n v x = (False, v, y) \<and> out_same x y \<and> ready_out y"
    proof (cases "n = 0")
      case True
      then show ?thesis using v x by (simp add: xdr_opaque_def ready_out_def)
    next
      case False
      then show ?thesis
        using v x send_bytes [OF x n]
        by (auto simp: xdr_opaque_def send_as_def ready_out_def)
    qed
  qed simp
  show "mfree (xdr_opaque n) v 0"
    by (simp add: mfree_def xdr_opaque_def)
  assume obj: "obj = replicate (unat n) 0"
  show "mdec (xdr_opaque n) obj v (padded v) 0"
    unfolding mdec_def
  proof (intro conjI allI impI)
    fix x assume x: "ready_in x \<and> all_mallocs x \<and> at_in (padded v) x"
    show "xdr_opaque n obj x = (True, v, adv (length (padded v)) 0 x)"
      using x v recv_bytes [of x v n obj] obj
      by (cases "n = 0") (auto simp: xdr_opaque_def ready_in_def)
  qed simp
qed

lemma msafe_opaque [codec_safe]:
  assumes "unat n < 2 ^ 30" "unat n \<le> length obj"
  shows "msafe (xdr_opaque n) obj"
proof -
  have "ready_in y \<and> in_next x \<le> in_next y \<and> in_same x y"
    if x: "ready_in x" and run: "xdr_opaque n obj x = (ok, v, y)" for x ok v y
  proof (cases "n = 0")
    case False
    obtain ok1 c y1 where 1: "xdr_std_recv_bytes (Some obj) n x = (ok1, c, y1)"
      by (cases "xdr_std_recv_bytes (Some obj) n x")
    then have "y1 = y" using run x False by (simp add: xdr_opaque_def ready_in_def)
    then show ?thesis using recv_bytes_safe [OF x assms 1] by simp
  qed (use x run in \<open>simp add: xdr_opaque_def\<close>)
  then show ?thesis by (fastforce simp: msafe_def)
qed

section \<open>Arrays\<close>

definition enc_vector :: "('a \<Rightarrow> byte list) \<Rightarrow> 'a list \<Rightarrow> byte list" where
  "enc_vector e vs = concat (map e vs)"

definition wf_vector :: "u32 \<Rightarrow> ('a \<Rightarrow> bool) \<Rightarrow> 'a list \<Rightarrow> bool" where
  "wf_vector n w vs \<longleftrightarrow> length vs = unat n \<and> (\<forall>v\<in>set vs. w v)"

definition blk_vector :: "('a \<Rightarrow> nat) \<Rightarrow> 'a list \<Rightarrow> nat" where
  "blk_vector k vs = sum_list (map k vs)"

lemma enc_vector_simps [simp]: "enc_vector e [] = []" "enc_vector e (v # vs) = e v @ enc_vector e vs"
  by (simp_all add: enc_vector_def)

lemma blk_vector_simps [simp]: "blk_vector k [] = 0" "blk_vector k (v # vs) = k v + blk_vector k vs"
  by (simp_all add: blk_vector_def)

text \<open>One step of the element loop is a pair of members: the head, then the tail.\<close>

lemma xdr_elems_step:
  "xdr_elems p (Suc n) (v # vs) =
     xdr_all [xdr_member hd (\<lambda>f l. f (hd l) # tl l) p,
              xdr_member tl (\<lambda>f l. hd l # f (tl l)) (xdr_elems p n)] (v # vs)"
  by (rule ext) (simp add: xdr_member_def split: prod.split)

lemma xdr_elems_0: "xdr_elems p 0 vs = xdr_all [] vs"
  by (rule ext) simp

context xdr_codec
begin

lemma elems_enc: "\<forall>v\<in>set vs. wf v \<Longrightarrow> menc (xdr_elems proc (length vs)) vs (enc_vector enc vs)"
proof (induction vs)
  case Nil
  have "menc (xdr_elems proc 0) [] []" by (rule menc_cong, rule xdr_elems_0, rule menc_Nil)
  then show ?case unfolding list.size(3) enc_vector_simps .
next
  case (Cons v vs)
  have "menc (xdr_elems proc (Suc (length vs))) (v # vs) (enc v @ enc_vector enc vs)"
    by (rule menc_cong, rule xdr_elems_step, intro menc_Cons menc_single menc_member)
      (use Cons in \<open>auto intro!: enc_law\<close>)
  then show ?case by simp
qed

lemma elems_dec:
  "\<forall>v\<in>set vs. wf v \<Longrightarrow> length vs \<le> n
    \<Longrightarrow> mdec (xdr_elems proc (length vs)) (replicate n zero)
         (vs @ replicate (n - length vs) zero) (enc_vector enc vs) (blk_vector blk vs)"
proof (induction vs arbitrary: n)
  case Nil
  have "mdec (xdr_elems proc 0) (replicate n zero) ([] @ replicate (n - 0) zero) [] 0"
    by (rule mdec_cong, rule xdr_elems_0, rule mdec_Nil) simp
  then show ?case unfolding list.size(3) enc_vector_simps blk_vector_simps .
next
  case (Cons v vs)
  then obtain k where n: "n = Suc k" by (cases n) auto
  have "mdec (xdr_elems proc (Suc (length vs))) (zero # replicate k zero)
      (v # (vs @ replicate (k - length vs) zero))
      (enc v @ enc_vector enc vs) (blk v + blk_vector blk vs)"
    by (rule mdec_cong, rule xdr_elems_step, rule mdec_Cons_member, rule_tac [2] mdec_single_member)
      (use Cons n in \<open>auto intro!: dec_law\<close>)
  then show ?case using n by simp
qed

lemma elems_free: "\<forall>v\<in>set vs. wf v \<Longrightarrow> mfree (xdr_elems proc (length vs)) vs (blk_vector blk vs)"
proof (induction vs)
  case Nil
  have "mfree (xdr_elems proc 0) [] 0" by (rule mfree_cong, rule xdr_elems_0, rule mfree_Nil)
  then show ?case unfolding list.size(3) blk_vector_simps .
next
  case (Cons v vs)
  have "mfree (xdr_elems proc (Suc (length vs))) (v # vs) (blk v + blk_vector blk vs)"
    by (rule mfree_cong, rule xdr_elems_step,
        intro mfree_Cons_member mfree_single mfree_member)
      (use Cons in \<open>auto intro!: free_law\<close>)
  then show ?case by simp
qed

lemma vector:
  "xdr_codec (xdr_vector n proc) (enc_vector enc) (wf_vector n wf) (blk_vector blk)
     (replicate (unat n) zero)"
proof unfold_locales
  have eq: "xdr_vector n proc = xdr_elems proc (unat n)"
    by (rule ext)+ (simp add: xdr_vector_def)
  fix v assume v: "wf_vector n wf v"
  show "menc (xdr_vector n proc) v (enc_vector enc v)"
    "mfree (xdr_vector n proc) v (blk_vector blk v)"
    using elems_enc [of v] elems_free [of v] v by (auto simp: eq wf_vector_def)
  show "mdec (xdr_vector n proc) obj v (enc_vector enc v) (blk_vector blk v)"
    if "obj = replicate (unat n) zero" for obj
    using elems_dec [of v "unat n"] v that by (auto simp: eq wf_vector_def)
qed

end

context xdr_safe_codec
begin

lemma elems_safe: "n \<le> m \<Longrightarrow> msafe (xdr_elems proc n) (replicate m zero)"
proof (induction n arbitrary: m)
  case 0
  show ?case by (rule msafe_cong [OF xdr_elems_0 msafe_Nil])
next
  case (Suc n)
  then obtain k where m: "m = Suc k" by (cases m) auto
  have "msafe (xdr_elems proc (Suc n)) (zero # replicate k zero)"
    by (rule msafe_cong, rule xdr_elems_step,
        intro msafe_Cons_member msafe_single msafe_member)
      (use Suc m in \<open>auto intro!: safe_law\<close>)
  then show ?case using m by simp
qed

lemma vector_safe:
  "xdr_safe_codec (xdr_vector n proc) (enc_vector enc) (wf_vector n wf) (blk_vector blk)
     (replicate (unat n) zero)"
proof (intro xdr_safe_codec.intro vector xdr_safe_codec_axioms.intro)
  fix obj assume "obj = replicate (unat n) zero"
  moreover have "xdr_vector n proc = xdr_elems proc (unat n)"
    by (rule ext)+ (simp add: xdr_vector_def)
  ultimately show "msafe (xdr_vector n proc) obj" using elems_safe by simp
qed

end

text \<open>
  A counted array has an encoding when its pointer is null exactly for no elements and its byte
  size does not wrap: the decoder computes \<open>c * elsize\<close> in 32 bits.
\<close>

definition enc_array :: "('a \<Rightarrow> byte list) \<Rightarrow> 'a counted \<Rightarrow> byte list" where
  "enc_array e a = be32 (len a) @ (case val a of None \<Rightarrow> [] | Some vs \<Rightarrow> enc_vector e vs)"

definition wf_array :: "u32 \<Rightarrow> u32 \<Rightarrow> ('a \<Rightarrow> bool) \<Rightarrow> 'a counted \<Rightarrow> bool" where
  "wf_array maxsize elsize w a \<longleftrightarrow>
     len a \<le> maxsize \<and> elsize \<noteq> 0 \<and> unat (len a) * unat elsize < 2 ^ 32 \<and>
     (case val a of None \<Rightarrow> len a = 0
      | Some vs \<Rightarrow> vs \<noteq> [] \<and> length vs = unat (len a) \<and> (\<forall>v\<in>set vs. w v))"

definition blk_array :: "('a \<Rightarrow> nat) \<Rightarrow> 'a counted \<Rightarrow> nat" where
  "blk_array k a = (case val a of None \<Rightarrow> 0 | Some vs \<Rightarrow> Suc (blk_vector k vs))"

definition null_counted :: "'a counted" where
  "null_counted = \<lparr>len = 0, val = None\<rparr>"

lemma x_op_put [simp]: "x_op (put b x) = x_op x"
  by (simp add: put_def)

lemma capacity:
  assumes "unat (c :: u32) * unat e < 2 ^ 32" "e \<noteq> 0"
  shows "unat (c * e) div unat e = unat c"
proof -
  have "unat (c * e) = unat c * unat e"
    using assms(1) by (simp add: unat_mult_lem [THEN iffD1])
  moreover have "unat e > 0" using assms(2) by (simp add: unat_gt_0)
  ultimately show ?thesis by simp
qed

context xdr_codec
begin

lemma array_rest_enc:
  assumes "wf_array m s wf a"
  shows "menc (xdr_array_rest m s z proc) a (case val a of None \<Rightarrow> [] | Some vs \<Rightarrow> enc_vector enc vs)"
proof (cases "val a")
  case None
  then show ?thesis
    using assms by (auto simp: menc_def xdr_array_rest_def wf_array_def Let_def ready_out_def)
next
  case (Some vs)
  then have vs: "len a \<le> m" "length vs = unat (len a)" "\<forall>v\<in>set vs. wf v"
    using assms by (auto simp: wf_array_def)
  have e: "menc (xdr_elems proc (unat (len a))) vs (enc_vector enc vs)"
    using elems_enc [OF vs(3)] unfolding vs(2) .
  show ?thesis unfolding Some option.case
    by (rule menc_wrap [OF e])
      (use vs(1) Some in \<open>auto simp: xdr_array_rest_def xdr_array_elems_def not_less [symmetric]\<close>)
qed

lemma array_rest_dec:
  assumes a: "wf_array m s wf a"
  shows "mdec (xdr_array_rest m s zero proc) \<lparr>len = len a, val = None\<rparr> a
     (case val a of None \<Rightarrow> [] | Some vs \<Rightarrow> enc_vector enc vs) (blk_array blk a)"
proof (cases "val a")
  case None
  then have "\<lparr>len = len a, val = None\<rparr> = a" by (cases a) simp
  then show ?thesis
    using a None
    by (simp add: mdec_def xdr_array_rest_def wf_array_def blk_array_def ready_in_def)
next
  case (Some vs)
  let ?c = "unat (len a)" and ?o = "\<lparr>len = len a, val = None\<rparr>"
  have vs: "len a \<le> m" "length vs = ?c" "\<forall>v\<in>set vs. wf v" "len a \<noteq> 0"
    and cap: "unat (len a * s) div unat s = ?c"
    using a Some capacity [of "len a" s] by (auto simp: wf_array_def)
  have d: "mdec (xdr_elems proc ?c) (replicate ?c zero) vs (enc_vector enc vs) (blk_vector blk vs)"
    using elems_dec [OF vs(3), of ?c] vs(2) by simp
  have "xdr_array_rest m s zero proc ?o x
      = (True, a, adv (length (enc_vector enc vs)) (Suc (blk_vector blk vs)) x)"
    if x: "ready_in x" "all_mallocs x" "at_in (enc_vector enc vs) x" for x
  proof -
    have "xdr_elems proc ?c (replicate ?c zero) (adv 0 1 x)
        = (True, vs, adv (length (enc_vector enc vs)) (blk_vector blk vs) (adv 0 1 x))"
      using mdec_run [OF d, of "adv 0 1 x"] x by simp
    moreover have "mem_alloc k x = (True, adv 0 1 x)" for k
      using x(2) unfolding mem_alloc_def all_mallocs_def by (simp add: adv_block)
    moreover have "\<lparr>len = len a, val = Some vs\<rparr> = a" using Some by (cases a) simp
    ultimately show ?thesis
      using x vs(1,4) cap
      by (simp add: xdr_array_rest_def xdr_array_elems_def ready_in_def not_less [symmetric])
  qed
  then show ?thesis
    using mdec_len [OF d] Some by (simp add: mdec_def blk_array_def)
qed

lemma array_rest_free:
  assumes "wf_array m s wf a"
  shows "mfree (xdr_array_rest m s z proc) a (blk_array blk a)"
proof (cases "val a")
  case None
  then show ?thesis by (auto simp: mfree_def xdr_array_rest_def blk_array_def)
next
  case (Some vs)
  then have vs: "length vs = unat (len a)" "\<forall>v\<in>set vs. wf v"
    using assms by (auto simp: wf_array_def)
  have f: "mfree (xdr_elems proc (unat (len a))) vs (blk_vector blk vs)"
    using elems_free [OF vs(2)] unfolding vs(1) .
  show ?thesis
    unfolding mfree_def
  proof (intro allI impI)
    fix x :: XDR assume x: "x_op x = XDR_FREE"
    obtain w where "xdr_elems proc (unat (len a)) vs x
        = (True, w, x\<lparr>live := live x - int (blk_vector blk vs)\<rparr>)"
      by (rule mfree_run [OF f x])
    then show "\<exists>w. xdr_array_rest m s z proc a x
        = (True, w, x\<lparr>live := live x - int (blk_array blk a)\<rparr>)"
      using x Some
      by (simp add: xdr_array_rest_def xdr_array_elems_def mem_free_def blk_array_def algebra_simps)
  qed
qed

lemma array_as_members:
  "xdr_array m s z p = xdr_all [xdr_member len len_update xdr_u_int, xdr_array_rest m s z p]"
  by (rule ext)+ (simp add: xdr_array_def xdr_member_def split: prod.split)

lemma array:
  "xdr_codec (xdr_array m s zero proc) (enc_array enc) (wf_array m s wf) (blk_array blk) null_counted"
proof unfold_locales
  fix a assume a: "wf_array m s wf a"
  show "menc (xdr_array m s zero proc) a (enc_array enc a)"
    unfolding array_as_members enc_array_def
    by (intro menc_Cons menc_member menc_single array_rest_enc [OF a]
        u_int_codec.enc_law [unfolded enc_u32_def]) simp_all
  show "mfree (xdr_array m s zero proc) a (blk_array blk a)"
    by (rule mfree_wrap [OF array_rest_free [OF a]]) (auto simp: xdr_array_def xdr_u_int_def)
  show "mdec (xdr_array m s zero proc) obj a (enc_array enc a) (blk_array blk a)"
    if "obj = null_counted" for obj
    unfolding enc_array_def
    by (rule mdec_seq [OF u_int_codec.dec_law [unfolded enc_u32_def] array_rest_dec [OF a]])
      (auto simp: that null_counted_def xdr_array_def)
qed

end

context xdr_safe_codec
begin

lemma array_rest_safe:
  assumes m: "unat m * unat s < 2 ^ 32" "s \<noteq> 0" and a: "val a = None"
  shows "msafe (xdr_array_rest m s zero proc) a"
proof -
  consider "len a > m" | "len a \<le> m" "len a = 0" | "len a \<le> m" "len a \<noteq> 0"
    by fastforce
  then show ?thesis
  proof cases
    case 3
    have "unat (len a) * unat s \<le> unat m * unat s"
      using 3 by (simp add: word_le_nat_alt)
    then have cap: "unat (len a * s) div unat s = unat (len a)"
      using m by (intro capacity) linarith+
    show ?thesis
      by (rule msafe_alloc [where k = "unat (len a * s)", OF elems_safe [OF order_refl, of "unat (len a)"]])
        (use 3 a cap in \<open>auto simp: xdr_array_rest_def xdr_array_elems_def not_less [symmetric]\<close>)
  qed (use a in \<open>auto simp: msafe_def xdr_array_rest_def ready_in_def in_same_def not_less [symmetric]\<close>)
qed

lemma array_safe:
  assumes "unat m * unat s < 2 ^ 32" "s \<noteq> 0"
  shows "xdr_safe_codec (xdr_array m s zero proc) (enc_array enc) (wf_array m s wf) (blk_array blk)
    null_counted"
proof (intro xdr_safe_codec.intro array xdr_safe_codec_axioms.intro)
  fix obj :: "'a counted" assume "obj = null_counted"
  then show "msafe (xdr_array m s zero proc) obj"
    unfolding array_as_members
    by (intro msafe_Cons_member msafe_single u_int_codec.safe_law array_rest_safe [OF assms])
      (simp_all add: null_counted_def)
qed

end

section \<open>Pointers\<close>

definition enc_pointer :: "('a \<Rightarrow> byte list) \<Rightarrow> 'a option \<Rightarrow> byte list" where
  "enc_pointer e p = (case p of None \<Rightarrow> be32 0 | Some v \<Rightarrow> be32 1 @ e v)"

definition wf_pointer :: "('a \<Rightarrow> bool) \<Rightarrow> 'a option \<Rightarrow> bool" where
  "wf_pointer w p = (case p of None \<Rightarrow> True | Some v \<Rightarrow> w v)"

definition blk_pointer :: "('a \<Rightarrow> nat) \<Rightarrow> 'a option \<Rightarrow> nat" where
  "blk_pointer k p = (case p of None \<Rightarrow> 0 | Some v \<Rightarrow> Suc (k v))"

lemmas pointer_codec_simps [simp] =
  enc_pointer_def wf_pointer_def blk_pointer_def

context xdr_codec
begin

lemma reference_enc: "wf v \<Longrightarrow> menc (xdr_reference k zero proc) (Some v) (enc v)"
  by (rule menc_wrap [OF enc_law]) (auto simp: xdr_reference_def)

lemma reference_dec:
  "wf v \<Longrightarrow> mdec (xdr_reference k zero proc) None (Some v) (enc v) (Suc (blk v))"
  by (rule mdec_alloc [OF dec_law [OF _ refl]]) (auto simp: xdr_reference_def)

lemma reference_free:
  assumes "wf v"
  shows "mfree (xdr_reference k zero proc) (Some v) (Suc (blk v))"
  unfolding mfree_def
proof (intro allI impI)
  fix x :: XDR assume x: "x_op x = XDR_FREE"
  obtain w where "proc v x = (True, w, x\<lparr>live := live x - int (blk v)\<rparr>)"
    by (rule mfree_run [OF free_law [OF assms] x])
  then show "\<exists>w. xdr_reference k zero proc (Some v) x
      = (True, w, x\<lparr>live := live x - int (Suc (blk v))\<rparr>)"
    using x by (simp add: xdr_reference_def mem_free_def algebra_simps)
qed

lemma pointer:
  "xdr_codec (xdr_pointer k zero proc) (enc_pointer enc) (wf_pointer wf) (blk_pointer blk) None"
proof unfold_locales
  have bool: "menc xdr_bool 0 (be32 0)" "menc xdr_bool 1 (be32 1)"
    "mdec xdr_bool 0 0 (be32 0) 0" "mdec xdr_bool 0 1 (be32 1) 0"
    using bool_codec.enc_law bool_codec.dec_law [OF _ refl] by (simp_all add: wf_bool_def enc_u32_def)
  fix v assume v: "wf_pointer wf v"
  show "menc (xdr_pointer k zero proc) v (enc_pointer enc v)"
  proof (cases v)
    case None
    show ?thesis unfolding None enc_pointer_def option.case
      by (rule menc_wrap [OF bool(1)]) (auto simp: xdr_pointer_def)
  next
    case (Some u)
    show ?thesis unfolding Some enc_pointer_def option.case
      by (rule menc_seq [OF bool(2) reference_enc])
        (use v Some bool(2) in \<open>auto simp: xdr_pointer_def xdr_bool_def send_as_def split: prod.split\<close>)
  qed
  show "mfree (xdr_pointer k zero proc) v (blk_pointer blk v)"
  proof (cases v)
    case None
    then show ?thesis by (simp add: mfree_def xdr_pointer_def xdr_bool_def)
  next
    case (Some u)
    show ?thesis unfolding Some blk_pointer_def option.case
      by (rule mfree_wrap [OF reference_free])
        (use v Some in \<open>auto simp: xdr_pointer_def xdr_bool_def\<close>)
  qed
  fix obj :: "'a option" assume obj: "obj = None"
  show "mdec (xdr_pointer k zero proc) obj v (enc_pointer enc v) (blk_pointer blk v)"
  proof (cases v)
    case None
    show ?thesis unfolding None enc_pointer_def blk_pointer_def option.case
      by (rule mdec_wrap [OF bool(3)]) (auto simp: xdr_pointer_def obj)
  next
    case (Some u)
    show ?thesis unfolding Some enc_pointer_def blk_pointer_def option.case
      by (rule mdec_seq [OF bool(4) reference_dec])
        (use v Some in \<open>auto simp: xdr_pointer_def obj\<close>)
  qed
qed

end

context xdr_safe_codec
begin

lemma reference_safe: "k < 2 ^ 30 \<Longrightarrow> msafe (xdr_reference k zero proc) None"
  by (rule msafe_alloc [where k = k, OF safe_law [OF refl]]) (auto simp: xdr_reference_def)

lemma pointer_safe:
  assumes "k < 2 ^ 30"
  shows "xdr_safe_codec (xdr_pointer k zero proc) (enc_pointer enc) (wf_pointer wf)
    (blk_pointer blk) None"
proof (intro xdr_safe_codec.intro pointer xdr_safe_codec_axioms.intro)
  fix obj :: "'a option" assume obj: "obj = None"
  let ?r = "\<lambda>m p x. if m = 0 then (True, None, x) else xdr_reference k zero proc p x"
  have "msafe (?r m) None" for m :: u32
    by (cases "m = 0") (simp add: msafe_def, rule msafe_cong [OF _ reference_safe [OF assms]], simp)
  then show "msafe (xdr_pointer k zero proc) obj"
    by (rule msafe_seq [OF bool_codec.safe_law [OF refl], where r = ?r])
      (auto simp: xdr_pointer_def obj)
qed

end

section \<open>Counted bytes and strings\<close>

definition counted_bytes :: "byte counted \<Rightarrow> byte list" where
  "counted_bytes a = (case val a of None \<Rightarrow> [] | Some b \<Rightarrow> b)"

definition enc_bytes :: "byte counted \<Rightarrow> byte list" where
  "enc_bytes a = be32 (len a) @ padded (counted_bytes a)"

definition wf_bytes :: "u32 \<Rightarrow> byte counted \<Rightarrow> bool" where
  "wf_bytes maxsize a \<longleftrightarrow> len a \<le> maxsize \<and> unat (len a) < 2 ^ 30 \<and>
     length (counted_bytes a) = unat (len a) \<and> (val a = None \<longleftrightarrow> len a = 0)"

definition blk_bytes :: "byte counted \<Rightarrow> nat" where
  "blk_bytes a = (case val a of None \<Rightarrow> 0 | Some b \<Rightarrow> 1)"

lemma send_as_bytes:
  assumes "length b = unat n" "unat n < 2 ^ 30"
  shows "menc (\<lambda>(v :: 'a) x. send_as v (xdr_std_send_bytes b n x)) v (padded b)"
  unfolding menc_def
proof (intro conjI allI impI)
  fix x assume x: "ready_out x"
  have n: "unat n < 2 ^ 31" "unat n \<le> length b" using assms by simp_all
  show "if out_next x + int (length (padded b)) \<le> RPCROUTER_MSGSIZE_MAX
      then send_as v (xdr_std_send_bytes b n x) = (True, v, put (padded b) x)
      else \<exists>y. send_as v (xdr_std_send_bytes b n x) = (False, v, y) \<and> out_same x y \<and> ready_out y"
    using send_bytes [OF x n] assms(1) x by (auto simp: send_as_def Let_def)
qed simp

interpretation bytes_codec: xdr_codec "xdr_bytes m" enc_bytes "wf_bytes m" blk_bytes null_counted for m
proof unfold_locales
  fix a assume a: "wf_bytes m a"
  let ?s = "\<lambda>(v :: byte counted) x. send_as v (xdr_std_send_bytes (counted_bytes a) (len a) x)"
  have s: "menc ?s a (padded (counted_bytes a))"
    by (rule send_as_bytes) (use a in \<open>auto simp: wf_bytes_def\<close>)
  show "menc (xdr_bytes m) a (enc_bytes a)"
    unfolding enc_bytes_def
    by (rule menc_seq [OF u_int_codec.enc_law [unfolded enc_u32_def, OF TrueI] s])
      (use a in \<open>auto simp: xdr_bytes_def xdr_u_int_def send_as_def wf_bytes_def counted_bytes_def
         split: prod.split\<close>)
  show "mfree (xdr_bytes m) a (blk_bytes a)"
    by (auto simp: mfree_def xdr_bytes_def blk_bytes_def mem_free_def split: option.split)
  fix obj :: "byte counted" assume obj: "obj = null_counted"
  let ?o = "\<lparr>len = len a, val = None\<rparr>"
  have "mdec (xdr_bytes_recv m) ?o a (padded (counted_bytes a)) (blk_bytes a)"
  proof (cases "val a")
    case None
    then have "?o = a" "len a = 0" using a by (cases a, auto simp: wf_bytes_def)
    then show ?thesis
      using a None
      by (simp add: mdec_def xdr_bytes_recv_def counted_bytes_def blk_bytes_def ready_in_def)
  next
    case (Some b)
    then have b: "length b = unat (len a)" "len a \<le> m" "len a \<noteq> 0"
      using a by (auto simp: wf_bytes_def counted_bytes_def)
    have "mdec (\<lambda>b x. xdr_std_recv_bytes b (len a) x)
        (Some (replicate (unat (len a)) 0)) (Some b) (padded b) 0"
      using b recv_bytes [of _ b "len a" "replicate (unat (len a)) 0"] by (simp add: mdec_def)
    then have "mdec (xdr_bytes_recv m) ?o a (padded b) (Suc 0)"
      by (rule mdec_alloc)
        (use b Some in \<open>auto simp: xdr_bytes_recv_def not_less [symmetric]\<close>)
    then show ?thesis using Some by (simp add: counted_bytes_def blk_bytes_def)
  qed
  then show "mdec (xdr_bytes m) obj a (enc_bytes a) (blk_bytes a)"
    unfolding enc_bytes_def
    by (rule mdec_seq [OF u_int_codec.dec_law [unfolded enc_u32_def, OF TrueI refl]])
      (auto simp: xdr_bytes_def xdr_u_int_def obj null_counted_def)
qed

lemma bytes_recv_safe: "val a = None \<Longrightarrow> msafe (xdr_bytes_recv m) a"
proof -
  assume a: "val a = None"
  consider "len a > m" | "len a \<le> m" "len a = 0" | "len a \<le> m" "len a \<noteq> 0" by fastforce
  then show ?thesis
  proof cases
    case 3
    have safe: "msafe (\<lambda>b x. xdr_std_recv_bytes b (len a) x) (Some (replicate (unat (len a)) 0))"
      if n: "unat (len a) < 2 ^ 30"
    proof -
      have "ready_in y \<and> in_next x \<le> in_next y \<and> in_same x y"
        if "ready_in x" "xdr_std_recv_bytes (Some (replicate (unat (len a)) 0)) (len a) x = (ok, c, y)"
        for x ok c y
        using recv_bytes_safe [OF that(1) n _ that(2)] by simp
      then show ?thesis by (fastforce simp: msafe_def)
    qed
    show ?thesis
      by (rule msafe_alloc [where k = "unat (len a)", OF safe])
        (use 3 a in \<open>auto simp: xdr_bytes_recv_def not_less [symmetric]\<close>)
  qed (use a in \<open>auto simp: msafe_def xdr_bytes_recv_def ready_in_def in_same_def not_less [symmetric]\<close>)
qed

interpretation bytes_codec: xdr_safe_codec "xdr_bytes m" enc_bytes "wf_bytes m" blk_bytes null_counted
  for m
proof unfold_locales
  fix obj :: "byte counted" assume obj: "obj = null_counted"
  show "msafe (xdr_bytes m) obj"
    by (rule msafe_seq [OF u_int_codec.safe_law [OF refl], where r = "\<lambda>n. xdr_bytes_recv m"
          and g = "\<lambda>n. \<lparr>len = n, val = None\<rparr>" and f = "\<lambda>n. \<lparr>len = n, val = None\<rparr>"])
      (auto intro: bytes_recv_safe simp: obj null_counted_def xdr_bytes_def xdr_u_int_def)
qed

text \<open>A string has an encoding when its block holds its characters and one NUL.\<close>

definition wf_string :: "u32 \<Rightarrow> byte list option \<Rightarrow> bool" where
  "wf_string maxsize s = (case s of None \<Rightarrow> False
     | Some b \<Rightarrow> b \<noteq> [] \<and> last b = 0 \<and> 0 \<notin> set (butlast b)
         \<and> length b \<le> unat maxsize + 1 \<and> length b \<le> 2 ^ 30)"

definition enc_string :: "byte list option \<Rightarrow> byte list" where
  "enc_string s = (case s of None \<Rightarrow> []
     | Some b \<Rightarrow> be32 (of_nat (length (butlast b))) @ padded (butlast b))"

definition blk_string :: "byte list option \<Rightarrow> nat" where
  "blk_string s = 1"

lemma replicate_update [simp]: "(replicate k z)[i := z] = replicate k z"
  by (induction k arbitrary: i) (auto split: nat.split)

lemma wf_stringE:
  assumes "wf_string m s"
  obtains cs n where "s = Some (cs @ [0])" "n = of_nat (length cs)" "unat n = length cs"
    "n \<le> m" "unat n < 2 ^ 30" "0 \<notin> set cs" "c_string (cs @ [0])" "strlen (cs @ [0]) = n"
    "enc_string s = be32 n @ padded cs" "n + 1 \<noteq> 0" "unat (n + 1) = Suc (length cs)"
proof -
  from assms obtain b where b: "s = Some b" "b \<noteq> []" "last b = 0" "0 \<notin> set (butlast b)"
    "length b \<le> unat m + 1" "length b \<le> 2 ^ 30"
    unfolding wf_string_def by (auto split: option.splits)
  then obtain cs where cs: "b = cs @ [0]" by (metis append_butlast_last_id)
  have s: "s = Some (cs @ [0])" "0 \<notin> set cs" "length cs \<le> unat m" "length cs < 2 ^ 30"
    using b unfolding cs by simp_all
  let ?n = "of_nat (length cs) :: u32"
  have n: "unat ?n = length cs"
    using s(4) by (simp add: unat_of_nat)
  have "unat (?n + 1) = Suc (length cs)"
    using s(4) n by (simp add: unat_add_lem [THEN iffD1])
  moreover from this have "?n + 1 \<noteq> 0" by (metis unat_0 Zero_not_Suc)
  moreover have "takeWhile (\<lambda>c. c \<noteq> 0) (cs @ [0]) = cs"
    using s(2) by (induction cs) auto
  ultimately show ?thesis
    using s n by (intro that [of cs ?n])
      (auto simp: c_string_def strlen_def enc_string_def word_le_nat_alt)
qed

interpretation string_codec: xdr_safe_codec "xdr_string m" enc_string "wf_string m" blk_string None
  for m
proof unfold_locales
  fix s assume "wf_string m s"
  then obtain cs n where s: "s = Some (cs @ [0])" and n: "n = of_nat (length cs)"
      "unat n = length cs" "n \<le> m" "unat n < 2 ^ 30"
    and c: "c_string (cs @ [0])" "strlen (cs @ [0]) = n" "enc_string s = be32 n @ padded cs"
    and k: "n + 1 \<noteq> 0" "unat (n + 1) = Suc (length cs)"
    by (elim wf_stringE) blast
  have send: "menc (xdr_string_rest m n) s (padded cs)"
    unfolding menc_def
  proof (intro conjI allI impI)
    fix x assume x: "ready_out x"
    have l: "unat n < 2 ^ 31" "unat n \<le> length (cs @ [0])" using n by simp_all
    show "if out_next x + int (length (padded cs)) \<le> RPCROUTER_MSGSIZE_MAX
        then xdr_string_rest m n s x = (True, s, put (padded cs) x)
        else \<exists>y. xdr_string_rest m n s x = (False, s, y) \<and> out_same x y \<and> ready_out y"
    proof (cases "n = 0")
      case True
      then show ?thesis using n s x by (simp add: xdr_string_rest_def xdr_opaque_def ready_out_def)
    next
      case False
      then show ?thesis
        using send_bytes [OF x l] s n x
        by (auto simp: xdr_string_rest_def xdr_opaque_def send_as_def ready_out_def Let_def
            not_less [symmetric])
    qed
  qed simp
  show "menc (xdr_string m) s (enc_string s)"
    unfolding c(3)
    by (rule menc_seq [OF u_int_codec.enc_law [unfolded enc_u32_def, OF TrueI] send])
      (use s c in \<open>auto simp: xdr_string_def xdr_string_sized_def xdr_u_int_def send_as_def\<close>)
  show "mfree (xdr_string m) s (blk_string s)"
    using s c n
    by (auto simp: mfree_def xdr_string_def xdr_string_sized_def xdr_string_rest_def xdr_u_int_def
        blk_string_def mem_free_def not_less [symmetric])
  fix obj :: "byte list option" assume obj: "obj = None"
  have one: "replicate (Suc 0) (0 :: byte) = [0]" by simp
  have block: "drop (length cs) (replicate (Suc (length cs)) (0 :: byte)) = [0]"
    "length cs = 0 \<Longrightarrow> replicate (Suc (length cs)) (0 :: byte) = [0]"
    unfolding drop_replicate using one by (simp_all del: replicate_Suc)
  have "mdec (xdr_opaque n) (replicate (Suc (length cs)) 0) (cs @ [0]) (padded cs) 0"
    unfolding mdec_def
  proof (intro conjI allI impI)
    fix x assume x: "ready_in x \<and> all_mallocs x \<and> at_in (padded cs) x"
    show "xdr_opaque n (replicate (Suc (length cs)) 0) x = (True, cs @ [0], adv (length (padded cs)) 0 x)"
      using x n recv_bytes [of x cs n "replicate (Suc (length cs)) 0"] block
      by (cases "n = 0") (auto simp: xdr_opaque_def ready_in_def simp del: replicate_Suc)
  qed simp
  then have "mdec (xdr_string_rest m n) None s (padded cs) (Suc 0)"
    by (rule mdec_alloc)
      (use s n k in \<open>auto simp: xdr_string_rest_def not_less [symmetric] simp del: replicate_Suc\<close>)
  then show "mdec (xdr_string m) obj s (enc_string s) (blk_string s)"
    unfolding c(3)
    by (rule mdec_seq [OF u_int_codec.dec_law [unfolded enc_u32_def, OF TrueI refl]])
      (auto simp: xdr_string_def xdr_string_sized_def obj blk_string_def)
next
  fix obj :: "byte list option" assume obj: "obj = None"
  have rest: "msafe (xdr_string_rest m n) None" for n
  proof (cases "n \<le> m \<and> n + 1 \<noteq> 0")
    case True
    then have k: "unat (n + 1) = Suc (unat n)" using unatSuc [of n] by (simp add: add.commute)
    have "msafe (xdr_opaque n) (replicate (unat (n + 1)) 0)" if "unat (n + 1) < 2 ^ 30"
      using that k by (intro msafe_opaque) simp_all
    then show ?thesis
      by (rule msafe_alloc [where k = "unat (n + 1)"])
        (use True k in \<open>auto simp: xdr_string_rest_def not_less [symmetric] simp del: replicate_Suc\<close>)
  next
    case False
    then show ?thesis
      by (auto simp: msafe_def xdr_string_rest_def ready_in_def in_same_def not_less [symmetric])
  qed
  show "msafe (xdr_string m) obj"
    by (rule msafe_seq [OF u_int_codec.safe_law [OF refl], where r = "xdr_string_rest m"
          and g = "\<lambda>_. None" and f = "\<lambda>_. None"])
      (use rest in \<open>auto simp: obj xdr_string_def xdr_string_sized_def\<close>)
qed

end
