(* ===== verification/LocApiReports.thy ===== *)
theory LocApiReports
  imports XdrCompound
begin

text \<open>
  First part of gen-50000/loc_api_common_xdr.c: the basic types of the location API and what the
  modem reports (positions, satellites, NMEA, status), with the data of
  inc-50000/loc_api_common.h. For each C type \<open>T\<close>:
  \<^item> the record or union \<open>T\<close> (scalars and enumerations are words) and \<open>zero_T\<close>, cleared storage;
  \<^item> \<open>xdr_T\<close>, the generated routine, call for call;
  \<^item> \<open>enc_T\<close>, \<open>wf_T\<close>, \<open>blk_T\<close>: the specification of its wire format, the values it can carry and
    the heap blocks a decoded value owns;
  \<^item> the interpretation \<open>T_codec\<close> of the contract of XdrCodec.

  Members whose names HOL or this development uses are renamed: \<open>length\<close> is \<open>length16\<close> and \<open>type\<close> is
  \<open>kind\<close>, \<open>len\<close> is \<open>len_out\<close>. Sizes passed to the allocator are those of the 32-bit target.
\<close>

definition xdr_rpc_boolean :: "u32 xdrproc" where
  "xdr_rpc_boolean = xdr_all [xdr_bool]"

interpretation rpc_boolean_codec: xdr_safe_codec
    xdr_rpc_boolean enc_u32 "wf_bool" "\<lambda>_. 0" 0
  by (unfold_locales; unfold xdr_rpc_boolean_def;
      intro wrap_intros codec_enc codec_dec codec_free codec_safe; simp)

definition xdr_rpc_uint32 :: "u32 xdrproc" where
  "xdr_rpc_uint32 = xdr_all [xdr_u_long]"

interpretation rpc_uint32_codec: xdr_safe_codec
    xdr_rpc_uint32 enc_u32 "\<lambda>_. True" "\<lambda>_. 0" 0
  by (unfold_locales; unfold xdr_rpc_uint32_def;
      intro wrap_intros codec_enc codec_dec codec_free codec_safe; simp)

definition xdr_rpc_uint16 :: "u16 xdrproc" where
  "xdr_rpc_uint16 = xdr_all [xdr_u_short]"

interpretation rpc_uint16_codec: xdr_safe_codec
    xdr_rpc_uint16 enc_u16 "\<lambda>_. True" "\<lambda>_. 0" 0
  by (unfold_locales; unfold xdr_rpc_uint16_def;
      intro wrap_intros codec_enc codec_dec codec_free codec_safe; simp)

definition xdr_rpc_uint8 :: "byte xdrproc" where
  "xdr_rpc_uint8 = xdr_all [xdr_u_char]"

interpretation rpc_uint8_codec: xdr_safe_codec
    xdr_rpc_uint8 enc_byte "\<lambda>_. True" "\<lambda>_. 0" 0
  by (unfold_locales; unfold xdr_rpc_uint8_def;
      intro wrap_intros codec_enc codec_dec codec_free codec_safe; simp)

definition xdr_rpc_int32 :: "u32 xdrproc" where
  "xdr_rpc_int32 = xdr_all [xdr_long]"

interpretation rpc_int32_codec: xdr_safe_codec
    xdr_rpc_int32 enc_u32 "\<lambda>_. True" "\<lambda>_. 0" 0
  by (unfold_locales; unfold xdr_rpc_int32_def;
      intro wrap_intros codec_enc codec_dec codec_free codec_safe; simp)

definition xdr_rpc_byte :: "byte xdrproc" where
  "xdr_rpc_byte = xdr_all [xdr_u_char]"

interpretation rpc_byte_codec: xdr_safe_codec
    xdr_rpc_byte enc_byte "\<lambda>_. True" "\<lambda>_. 0" 0
  by (unfold_locales; unfold xdr_rpc_byte_def;
      intro wrap_intros codec_enc codec_dec codec_free codec_safe; simp)

definition xdr_rpc_uint64 :: "u64 xdrproc" where
  "xdr_rpc_uint64 = xdr_all [xdr_u_quad_t]"

interpretation rpc_uint64_codec: xdr_safe_codec
    xdr_rpc_uint64 enc_u64 "\<lambda>_. True" "\<lambda>_. 0" 0
  by (unfold_locales; unfold xdr_rpc_uint64_def;
      intro wrap_intros codec_enc codec_dec codec_free codec_safe; simp)

definition xdr_rpc_loc_client_handle_type :: "u32 xdrproc" where
  "xdr_rpc_loc_client_handle_type = xdr_all [xdr_rpc_int32]"

interpretation rpc_loc_client_handle_type_codec: xdr_safe_codec
    xdr_rpc_loc_client_handle_type enc_u32 "\<lambda>_. True" "\<lambda>_. 0" 0
  by (unfold_locales; unfold xdr_rpc_loc_client_handle_type_def;
      intro wrap_intros codec_enc codec_dec codec_free codec_safe; simp)

definition xdr_rpc_loc_event_mask_type :: "u64 xdrproc" where
  "xdr_rpc_loc_event_mask_type = xdr_all [xdr_rpc_uint64]"

interpretation rpc_loc_event_mask_type_codec: xdr_safe_codec
    xdr_rpc_loc_event_mask_type enc_u64 "\<lambda>_. True" "\<lambda>_. 0" 0
  by (unfold_locales; unfold xdr_rpc_loc_event_mask_type_def;
      intro wrap_intros codec_enc codec_dec codec_free codec_safe; simp)

definition xdr_rpc_loc_position_valid_mask_type :: "u64 xdrproc" where
  "xdr_rpc_loc_position_valid_mask_type = xdr_all [xdr_rpc_uint64]"

interpretation rpc_loc_position_valid_mask_type_codec: xdr_safe_codec
    xdr_rpc_loc_position_valid_mask_type enc_u64 "\<lambda>_. True" "\<lambda>_. 0" 0
  by (unfold_locales; unfold xdr_rpc_loc_position_valid_mask_type_def;
      intro wrap_intros codec_enc codec_dec codec_free codec_safe; simp)

definition xdr_rpc_loc_pos_technology_mask_type :: "u32 xdrproc" where
  "xdr_rpc_loc_pos_technology_mask_type = xdr_all [xdr_rpc_uint32]"

interpretation rpc_loc_pos_technology_mask_type_codec: xdr_safe_codec
    xdr_rpc_loc_pos_technology_mask_type enc_u32 "\<lambda>_. True" "\<lambda>_. 0" 0
  by (unfold_locales; unfold xdr_rpc_loc_pos_technology_mask_type_def;
      intro wrap_intros codec_enc codec_dec codec_free codec_safe; simp)

definition xdr_rpc_loc_session_status_e_type :: "u32 xdrproc" where
  "xdr_rpc_loc_session_status_e_type = xdr_all [xdr_enum]"

interpretation rpc_loc_session_status_e_type_codec: xdr_safe_codec
    xdr_rpc_loc_session_status_e_type enc_u32 "\<lambda>_. True" "\<lambda>_. 0" 0
  by (unfold_locales; unfold xdr_rpc_loc_session_status_e_type_def;
      intro wrap_intros codec_enc codec_dec codec_free codec_safe; simp)

record rpc_loc_calendar_time_s_type =
  year :: u16
  month :: byte
  day_of_week :: byte
  day :: byte
  hour :: byte
  minute :: byte
  second :: byte
  millisecond :: u16

definition zero_rpc_loc_calendar_time_s_type :: rpc_loc_calendar_time_s_type where
  "zero_rpc_loc_calendar_time_s_type =
    \<lparr> year = 0, month = 0, day_of_week = 0,
     day = 0, hour = 0, minute = 0, second = 0, millisecond = 0\<rparr>"

definition xdr_rpc_loc_calendar_time_s_type ::
    "rpc_loc_calendar_time_s_type xdrproc" where
  "xdr_rpc_loc_calendar_time_s_type = xdr_all
    [xdr_member rpc_loc_calendar_time_s_type.year
       rpc_loc_calendar_time_s_type.year_update xdr_rpc_uint16,
     xdr_member rpc_loc_calendar_time_s_type.month
       rpc_loc_calendar_time_s_type.month_update xdr_u_char,
     xdr_member rpc_loc_calendar_time_s_type.day_of_week
       rpc_loc_calendar_time_s_type.day_of_week_update xdr_u_char,
     xdr_member rpc_loc_calendar_time_s_type.day
       rpc_loc_calendar_time_s_type.day_update xdr_u_char,
     xdr_member rpc_loc_calendar_time_s_type.hour
       rpc_loc_calendar_time_s_type.hour_update xdr_u_char,
     xdr_member rpc_loc_calendar_time_s_type.minute
       rpc_loc_calendar_time_s_type.minute_update xdr_u_char,
     xdr_member rpc_loc_calendar_time_s_type.second
       rpc_loc_calendar_time_s_type.second_update xdr_u_char,
     xdr_member rpc_loc_calendar_time_s_type.millisecond
       rpc_loc_calendar_time_s_type.millisecond_update xdr_rpc_uint16]"

definition enc_rpc_loc_calendar_time_s_type ::
    "rpc_loc_calendar_time_s_type \<Rightarrow> byte list" where
  "enc_rpc_loc_calendar_time_s_type v =
     enc_u16 (rpc_loc_calendar_time_s_type.year v) @
     enc_byte (rpc_loc_calendar_time_s_type.month v) @
     enc_byte (rpc_loc_calendar_time_s_type.day_of_week v) @
     enc_byte (rpc_loc_calendar_time_s_type.day v) @
     enc_byte (rpc_loc_calendar_time_s_type.hour v) @
     enc_byte (rpc_loc_calendar_time_s_type.minute v) @
     enc_byte (rpc_loc_calendar_time_s_type.second v) @
     enc_u16 (rpc_loc_calendar_time_s_type.millisecond v)"

interpretation rpc_loc_calendar_time_s_type_codec: xdr_safe_codec
    xdr_rpc_loc_calendar_time_s_type enc_rpc_loc_calendar_time_s_type
    "\<lambda>_. True" "\<lambda>_. 0" zero_rpc_loc_calendar_time_s_type
  by (unfold_locales; unfold xdr_rpc_loc_calendar_time_s_type_def
      enc_rpc_loc_calendar_time_s_type_def;
      (rule struct_intros codec_enc codec_dec codec_free codec_safe
        | simp add: zero_rpc_loc_calendar_time_s_type_def)+)

record rpc_loc_parsed_position_s_type =
  valid_mask :: u64
  session_status :: u32
  timestamp_calendar :: rpc_loc_calendar_time_s_type
  timestamp_utc :: u64
  leap_seconds :: byte
  time_unc :: u32
  latitude :: u64
  longitude :: u64
  altitude_wrt_ellipsoid :: u32
  altitude_wrt_mean_sea_level :: u32
  speed_horizontal :: u32
  speed_vertical :: u32
  heading :: u32
  hor_unc_circular :: u32
  hor_unc_ellipse_semi_major :: u32
  hor_unc_ellipse_semi_minor :: u32
  hor_unc_ellipse_orient_azimuth :: u32
  vert_unc :: u32
  speed_unc :: u32
  heading_unc :: u32
  confidence_horizontal :: byte
  confidence_vertical :: byte
  magnetic_deviation :: u32
  technology_mask :: u32

definition zero_rpc_loc_parsed_position_s_type :: rpc_loc_parsed_position_s_type where
  "zero_rpc_loc_parsed_position_s_type =
    \<lparr> valid_mask = 0, session_status = 0,
     timestamp_calendar = zero_rpc_loc_calendar_time_s_type, timestamp_utc = 0,
     leap_seconds = 0, time_unc = 0, latitude = 0, longitude = 0, altitude_wrt_ellipsoid = 0,
     altitude_wrt_mean_sea_level = 0, speed_horizontal = 0, speed_vertical = 0, heading = 0,
     hor_unc_circular = 0, hor_unc_ellipse_semi_major = 0, hor_unc_ellipse_semi_minor = 0,
     hor_unc_ellipse_orient_azimuth = 0, vert_unc = 0, speed_unc = 0, heading_unc = 0,
     confidence_horizontal = 0, confidence_vertical = 0, magnetic_deviation = 0,
     technology_mask = 0\<rparr>"

definition xdr_rpc_loc_parsed_position_s_type ::
    "rpc_loc_parsed_position_s_type xdrproc" where
  "xdr_rpc_loc_parsed_position_s_type = xdr_all
    [xdr_member rpc_loc_parsed_position_s_type.valid_mask
       rpc_loc_parsed_position_s_type.valid_mask_update xdr_rpc_loc_position_valid_mask_type,
     xdr_member rpc_loc_parsed_position_s_type.session_status
       rpc_loc_parsed_position_s_type.session_status_update xdr_rpc_loc_session_status_e_type,
     xdr_member rpc_loc_parsed_position_s_type.timestamp_calendar
       rpc_loc_parsed_position_s_type.timestamp_calendar_update xdr_rpc_loc_calendar_time_s_type,
     xdr_member rpc_loc_parsed_position_s_type.timestamp_utc
       rpc_loc_parsed_position_s_type.timestamp_utc_update xdr_rpc_uint64,
     xdr_member rpc_loc_parsed_position_s_type.leap_seconds
       rpc_loc_parsed_position_s_type.leap_seconds_update xdr_rpc_uint8,
     xdr_member rpc_loc_parsed_position_s_type.time_unc
       rpc_loc_parsed_position_s_type.time_unc_update xdr_float,
     xdr_member rpc_loc_parsed_position_s_type.latitude
       rpc_loc_parsed_position_s_type.latitude_update xdr_double,
     xdr_member rpc_loc_parsed_position_s_type.longitude
       rpc_loc_parsed_position_s_type.longitude_update xdr_double,
     xdr_member rpc_loc_parsed_position_s_type.altitude_wrt_ellipsoid
       rpc_loc_parsed_position_s_type.altitude_wrt_ellipsoid_update xdr_float,
     xdr_member rpc_loc_parsed_position_s_type.altitude_wrt_mean_sea_level
       rpc_loc_parsed_position_s_type.altitude_wrt_mean_sea_level_update xdr_float,
     xdr_member rpc_loc_parsed_position_s_type.speed_horizontal
       rpc_loc_parsed_position_s_type.speed_horizontal_update xdr_float,
     xdr_member rpc_loc_parsed_position_s_type.speed_vertical
       rpc_loc_parsed_position_s_type.speed_vertical_update xdr_float,
     xdr_member rpc_loc_parsed_position_s_type.heading
       rpc_loc_parsed_position_s_type.heading_update xdr_float,
     xdr_member rpc_loc_parsed_position_s_type.hor_unc_circular
       rpc_loc_parsed_position_s_type.hor_unc_circular_update xdr_float,
     xdr_member rpc_loc_parsed_position_s_type.hor_unc_ellipse_semi_major
       rpc_loc_parsed_position_s_type.hor_unc_ellipse_semi_major_update xdr_float,
     xdr_member rpc_loc_parsed_position_s_type.hor_unc_ellipse_semi_minor
       rpc_loc_parsed_position_s_type.hor_unc_ellipse_semi_minor_update xdr_float,
     xdr_member rpc_loc_parsed_position_s_type.hor_unc_ellipse_orient_azimuth
       rpc_loc_parsed_position_s_type.hor_unc_ellipse_orient_azimuth_update xdr_float,
     xdr_member rpc_loc_parsed_position_s_type.vert_unc
       rpc_loc_parsed_position_s_type.vert_unc_update xdr_float,
     xdr_member rpc_loc_parsed_position_s_type.speed_unc
       rpc_loc_parsed_position_s_type.speed_unc_update xdr_float,
     xdr_member rpc_loc_parsed_position_s_type.heading_unc
       rpc_loc_parsed_position_s_type.heading_unc_update xdr_float,
     xdr_member rpc_loc_parsed_position_s_type.confidence_horizontal
       rpc_loc_parsed_position_s_type.confidence_horizontal_update xdr_u_char,
     xdr_member rpc_loc_parsed_position_s_type.confidence_vertical
       rpc_loc_parsed_position_s_type.confidence_vertical_update xdr_u_char,
     xdr_member rpc_loc_parsed_position_s_type.magnetic_deviation
       rpc_loc_parsed_position_s_type.magnetic_deviation_update xdr_float,
     xdr_member rpc_loc_parsed_position_s_type.technology_mask
       rpc_loc_parsed_position_s_type.technology_mask_update xdr_rpc_loc_pos_technology_mask_type]"

definition enc_rpc_loc_parsed_position_s_type ::
    "rpc_loc_parsed_position_s_type \<Rightarrow> byte list" where
  "enc_rpc_loc_parsed_position_s_type v =
     enc_u64 (rpc_loc_parsed_position_s_type.valid_mask v) @
     enc_u32 (rpc_loc_parsed_position_s_type.session_status v) @
     enc_rpc_loc_calendar_time_s_type (rpc_loc_parsed_position_s_type.timestamp_calendar v) @
     enc_u64 (rpc_loc_parsed_position_s_type.timestamp_utc v) @
     enc_byte (rpc_loc_parsed_position_s_type.leap_seconds v) @
     enc_u32 (rpc_loc_parsed_position_s_type.time_unc v) @
     enc_u64 (rpc_loc_parsed_position_s_type.latitude v) @
     enc_u64 (rpc_loc_parsed_position_s_type.longitude v) @
     enc_u32 (rpc_loc_parsed_position_s_type.altitude_wrt_ellipsoid v) @
     enc_u32 (rpc_loc_parsed_position_s_type.altitude_wrt_mean_sea_level v) @
     enc_u32 (rpc_loc_parsed_position_s_type.speed_horizontal v) @
     enc_u32 (rpc_loc_parsed_position_s_type.speed_vertical v) @
     enc_u32 (rpc_loc_parsed_position_s_type.heading v) @
     enc_u32 (rpc_loc_parsed_position_s_type.hor_unc_circular v) @
     enc_u32 (rpc_loc_parsed_position_s_type.hor_unc_ellipse_semi_major v) @
     enc_u32 (rpc_loc_parsed_position_s_type.hor_unc_ellipse_semi_minor v) @
     enc_u32 (rpc_loc_parsed_position_s_type.hor_unc_ellipse_orient_azimuth v) @
     enc_u32 (rpc_loc_parsed_position_s_type.vert_unc v) @
     enc_u32 (rpc_loc_parsed_position_s_type.speed_unc v) @
     enc_u32 (rpc_loc_parsed_position_s_type.heading_unc v) @
     enc_byte (rpc_loc_parsed_position_s_type.confidence_horizontal v) @
     enc_byte (rpc_loc_parsed_position_s_type.confidence_vertical v) @
     enc_u32 (rpc_loc_parsed_position_s_type.magnetic_deviation v) @
     enc_u32 (rpc_loc_parsed_position_s_type.technology_mask v)"

interpretation rpc_loc_parsed_position_s_type_codec: xdr_safe_codec
    xdr_rpc_loc_parsed_position_s_type enc_rpc_loc_parsed_position_s_type
    "\<lambda>_. True" "\<lambda>_. 0" zero_rpc_loc_parsed_position_s_type
  by (unfold_locales; unfold xdr_rpc_loc_parsed_position_s_type_def
      enc_rpc_loc_parsed_position_s_type_def;
      (rule struct_intros codec_enc codec_dec codec_free codec_safe
        | simp add: zero_rpc_loc_parsed_position_s_type_def)+)

definition xdr_rpc_loc_sv_system_e_type :: "u32 xdrproc" where
  "xdr_rpc_loc_sv_system_e_type = xdr_all [xdr_enum]"

interpretation rpc_loc_sv_system_e_type_codec: xdr_safe_codec
    xdr_rpc_loc_sv_system_e_type enc_u32 "\<lambda>_. True" "\<lambda>_. 0" 0
  by (unfold_locales; unfold xdr_rpc_loc_sv_system_e_type_def;
      intro wrap_intros codec_enc codec_dec codec_free codec_safe; simp)

definition xdr_rpc_loc_sv_status_e_type :: "u32 xdrproc" where
  "xdr_rpc_loc_sv_status_e_type = xdr_all [xdr_enum]"

interpretation rpc_loc_sv_status_e_type_codec: xdr_safe_codec
    xdr_rpc_loc_sv_status_e_type enc_u32 "\<lambda>_. True" "\<lambda>_. 0" 0
  by (unfold_locales; unfold xdr_rpc_loc_sv_status_e_type_def;
      intro wrap_intros codec_enc codec_dec codec_free codec_safe; simp)

definition xdr_rpc_loc_sv_info_valid_mask_type :: "u32 xdrproc" where
  "xdr_rpc_loc_sv_info_valid_mask_type = xdr_all [xdr_rpc_uint32]"

interpretation rpc_loc_sv_info_valid_mask_type_codec: xdr_safe_codec
    xdr_rpc_loc_sv_info_valid_mask_type enc_u32 "\<lambda>_. True" "\<lambda>_. 0" 0
  by (unfold_locales; unfold xdr_rpc_loc_sv_info_valid_mask_type_def;
      intro wrap_intros codec_enc codec_dec codec_free codec_safe; simp)

record rpc_loc_sv_info_s_type =
  valid_mask :: u32
  system :: u32
  prn :: byte
  health_status :: byte
  process_status :: u32
  has_eph :: u32
  has_alm :: u32
  elevation :: u32
  azimuth :: u32
  snr :: u32

definition zero_rpc_loc_sv_info_s_type :: rpc_loc_sv_info_s_type where
  "zero_rpc_loc_sv_info_s_type =
    \<lparr> valid_mask = 0, system = 0, prn = 0,
     health_status = 0, process_status = 0, has_eph = 0, has_alm = 0, elevation = 0,
     azimuth = 0, snr = 0\<rparr>"

definition xdr_rpc_loc_sv_info_s_type ::
    "rpc_loc_sv_info_s_type xdrproc" where
  "xdr_rpc_loc_sv_info_s_type = xdr_all
    [xdr_member rpc_loc_sv_info_s_type.valid_mask
       rpc_loc_sv_info_s_type.valid_mask_update xdr_rpc_loc_sv_info_valid_mask_type,
     xdr_member rpc_loc_sv_info_s_type.system
       rpc_loc_sv_info_s_type.system_update xdr_rpc_loc_sv_system_e_type,
     xdr_member rpc_loc_sv_info_s_type.prn
       rpc_loc_sv_info_s_type.prn_update xdr_rpc_uint8,
     xdr_member rpc_loc_sv_info_s_type.health_status
       rpc_loc_sv_info_s_type.health_status_update xdr_rpc_uint8,
     xdr_member rpc_loc_sv_info_s_type.process_status
       rpc_loc_sv_info_s_type.process_status_update xdr_rpc_loc_sv_status_e_type,
     xdr_member rpc_loc_sv_info_s_type.has_eph
       rpc_loc_sv_info_s_type.has_eph_update xdr_rpc_boolean,
     xdr_member rpc_loc_sv_info_s_type.has_alm
       rpc_loc_sv_info_s_type.has_alm_update xdr_rpc_boolean,
     xdr_member rpc_loc_sv_info_s_type.elevation
       rpc_loc_sv_info_s_type.elevation_update xdr_float,
     xdr_member rpc_loc_sv_info_s_type.azimuth
       rpc_loc_sv_info_s_type.azimuth_update xdr_float,
     xdr_member rpc_loc_sv_info_s_type.snr
       rpc_loc_sv_info_s_type.snr_update xdr_float]"

definition enc_rpc_loc_sv_info_s_type ::
    "rpc_loc_sv_info_s_type \<Rightarrow> byte list" where
  "enc_rpc_loc_sv_info_s_type v =
     enc_u32 (rpc_loc_sv_info_s_type.valid_mask v) @ enc_u32 (rpc_loc_sv_info_s_type.system v) @
     enc_byte (rpc_loc_sv_info_s_type.prn v) @
     enc_byte (rpc_loc_sv_info_s_type.health_status v) @
     enc_u32 (rpc_loc_sv_info_s_type.process_status v) @
     enc_u32 (rpc_loc_sv_info_s_type.has_eph v) @ enc_u32 (rpc_loc_sv_info_s_type.has_alm v) @
     enc_u32 (rpc_loc_sv_info_s_type.elevation v) @ enc_u32 (rpc_loc_sv_info_s_type.azimuth v) @
     enc_u32 (rpc_loc_sv_info_s_type.snr v)"

definition wf_rpc_loc_sv_info_s_type :: "rpc_loc_sv_info_s_type \<Rightarrow> bool" where
  "wf_rpc_loc_sv_info_s_type v \<longleftrightarrow>
     wf_bool (rpc_loc_sv_info_s_type.has_eph v) \<and>
     wf_bool (rpc_loc_sv_info_s_type.has_alm v)"

interpretation rpc_loc_sv_info_s_type_codec: xdr_safe_codec
    xdr_rpc_loc_sv_info_s_type enc_rpc_loc_sv_info_s_type
    wf_rpc_loc_sv_info_s_type "\<lambda>_. 0" zero_rpc_loc_sv_info_s_type
  by (unfold_locales; unfold xdr_rpc_loc_sv_info_s_type_def enc_rpc_loc_sv_info_s_type_def;
      (rule struct_intros codec_enc codec_dec codec_free codec_safe
        | simp add: zero_rpc_loc_sv_info_s_type_def wf_rpc_loc_sv_info_s_type_def)+)

definition xdr_rpc_loc_gnss_info_valid_mask_type :: "u32 xdrproc" where
  "xdr_rpc_loc_gnss_info_valid_mask_type = xdr_all [xdr_rpc_uint32]"

interpretation rpc_loc_gnss_info_valid_mask_type_codec: xdr_safe_codec
    xdr_rpc_loc_gnss_info_valid_mask_type enc_u32 "\<lambda>_. True" "\<lambda>_. 0" 0
  by (unfold_locales; unfold xdr_rpc_loc_gnss_info_valid_mask_type_def;
      intro wrap_intros codec_enc codec_dec codec_free codec_safe; simp)

record rpc_loc_gnss_info_s_type =
  valid_mask :: u32
  position_dop :: u32
  horizontal_dop :: u32
  vertical_dop :: u32
  altitude_assumed :: u32
  sv_count :: u16
  sv_list :: "rpc_loc_sv_info_s_type counted"

definition zero_rpc_loc_gnss_info_s_type :: rpc_loc_gnss_info_s_type where
  "zero_rpc_loc_gnss_info_s_type =
    \<lparr> valid_mask = 0, position_dop = 0,
     horizontal_dop = 0, vertical_dop = 0, altitude_assumed = 0, sv_count = 0,
     sv_list = null_counted\<rparr>"

interpretation array_rpc_loc_sv_info_s_type: xdr_safe_codec "xdr_array 80 36
    zero_rpc_loc_sv_info_s_type xdr_rpc_loc_sv_info_s_type" "enc_array enc_rpc_loc_sv_info_s_type"
    "wf_array 80 36 (wf_rpc_loc_sv_info_s_type)" "blk_array (\<lambda>_. 0)" null_counted
  by (rule rpc_loc_sv_info_s_type_codec.array_safe) simp_all

definition xdr_rpc_loc_gnss_info_s_type ::
    "rpc_loc_gnss_info_s_type xdrproc" where
  "xdr_rpc_loc_gnss_info_s_type = xdr_all
    [xdr_member rpc_loc_gnss_info_s_type.valid_mask
       rpc_loc_gnss_info_s_type.valid_mask_update xdr_rpc_loc_gnss_info_valid_mask_type,
     xdr_member rpc_loc_gnss_info_s_type.position_dop
       rpc_loc_gnss_info_s_type.position_dop_update xdr_float,
     xdr_member rpc_loc_gnss_info_s_type.horizontal_dop
       rpc_loc_gnss_info_s_type.horizontal_dop_update xdr_float,
     xdr_member rpc_loc_gnss_info_s_type.vertical_dop
       rpc_loc_gnss_info_s_type.vertical_dop_update xdr_float,
     xdr_member rpc_loc_gnss_info_s_type.altitude_assumed
       rpc_loc_gnss_info_s_type.altitude_assumed_update xdr_rpc_boolean,
     xdr_member rpc_loc_gnss_info_s_type.sv_count
       rpc_loc_gnss_info_s_type.sv_count_update xdr_rpc_uint16,
     xdr_member rpc_loc_gnss_info_s_type.sv_list
       rpc_loc_gnss_info_s_type.sv_list_update (xdr_array 80 36 zero_rpc_loc_sv_info_s_type
           xdr_rpc_loc_sv_info_s_type)]"

definition enc_rpc_loc_gnss_info_s_type ::
    "rpc_loc_gnss_info_s_type \<Rightarrow> byte list" where
  "enc_rpc_loc_gnss_info_s_type v =
     enc_u32 (rpc_loc_gnss_info_s_type.valid_mask v) @
     enc_u32 (rpc_loc_gnss_info_s_type.position_dop v) @
     enc_u32 (rpc_loc_gnss_info_s_type.horizontal_dop v) @
     enc_u32 (rpc_loc_gnss_info_s_type.vertical_dop v) @
     enc_u32 (rpc_loc_gnss_info_s_type.altitude_assumed v) @
     enc_u16 (rpc_loc_gnss_info_s_type.sv_count v) @
     (enc_array enc_rpc_loc_sv_info_s_type) (rpc_loc_gnss_info_s_type.sv_list v)"

definition wf_rpc_loc_gnss_info_s_type :: "rpc_loc_gnss_info_s_type \<Rightarrow> bool" where
  "wf_rpc_loc_gnss_info_s_type v \<longleftrightarrow>
     wf_bool (rpc_loc_gnss_info_s_type.altitude_assumed v) \<and>
     (wf_array 80 36 (wf_rpc_loc_sv_info_s_type)) (rpc_loc_gnss_info_s_type.sv_list v)"

definition blk_rpc_loc_gnss_info_s_type :: "rpc_loc_gnss_info_s_type \<Rightarrow> nat" where
  "blk_rpc_loc_gnss_info_s_type v =
     (blk_array (\<lambda>_. 0)) (rpc_loc_gnss_info_s_type.sv_list v)"

interpretation rpc_loc_gnss_info_s_type_codec: xdr_safe_codec
    xdr_rpc_loc_gnss_info_s_type enc_rpc_loc_gnss_info_s_type
    wf_rpc_loc_gnss_info_s_type blk_rpc_loc_gnss_info_s_type zero_rpc_loc_gnss_info_s_type
  by (unfold_locales; unfold xdr_rpc_loc_gnss_info_s_type_def enc_rpc_loc_gnss_info_s_type_def;
      (rule struct_intros codec_enc codec_dec codec_free codec_safe
        | simp add: zero_rpc_loc_gnss_info_s_type_def wf_rpc_loc_gnss_info_s_type_def
            blk_rpc_loc_gnss_info_s_type_def)+)

record rpc_loc_nmea_report_s_type =
  length16 :: u16
  nmea_sentences :: "byte list"

definition zero_rpc_loc_nmea_report_s_type :: rpc_loc_nmea_report_s_type where
  "zero_rpc_loc_nmea_report_s_type =
    \<lparr> length16 = 0, nmea_sentences = replicate 200 0\<rparr>"

definition xdr_rpc_loc_nmea_report_s_type ::
    "rpc_loc_nmea_report_s_type xdrproc" where
  "xdr_rpc_loc_nmea_report_s_type = xdr_all
    [xdr_member rpc_loc_nmea_report_s_type.length16
       rpc_loc_nmea_report_s_type.length16_update xdr_rpc_uint16,
     xdr_member rpc_loc_nmea_report_s_type.nmea_sentences
       rpc_loc_nmea_report_s_type.nmea_sentences_update (xdr_opaque 1200)]"

definition xdr_rpc_loc_status_event_e_type :: "u32 xdrproc" where
  "xdr_rpc_loc_status_event_e_type = xdr_all [xdr_enum]"

interpretation rpc_loc_status_event_e_type_codec: xdr_safe_codec
    xdr_rpc_loc_status_event_e_type enc_u32 "\<lambda>_. True" "\<lambda>_. 0" 0
  by (unfold_locales; unfold xdr_rpc_loc_status_event_e_type_def;
      intro wrap_intros codec_enc codec_dec codec_free codec_safe; simp)

lemma keeps_rpc_loc_status_event_e_type [codec_free]: "keeps xdr_rpc_loc_status_event_e_type"
  unfolding xdr_rpc_loc_status_event_e_type_def by (intro keeps_single codec_free)

definition xdr_rpc_loc_engine_state_e_type :: "u32 xdrproc" where
  "xdr_rpc_loc_engine_state_e_type = xdr_all [xdr_enum]"

interpretation rpc_loc_engine_state_e_type_codec: xdr_safe_codec
    xdr_rpc_loc_engine_state_e_type enc_u32 "\<lambda>_. True" "\<lambda>_. 0" 0
  by (unfold_locales; unfold xdr_rpc_loc_engine_state_e_type_def;
      intro wrap_intros codec_enc codec_dec codec_free codec_safe; simp)

definition xdr_rpc_loc_fix_session_state_e_type :: "u32 xdrproc" where
  "xdr_rpc_loc_fix_session_state_e_type = xdr_all [xdr_enum]"

interpretation rpc_loc_fix_session_state_e_type_codec: xdr_safe_codec
    xdr_rpc_loc_fix_session_state_e_type enc_u32 "\<lambda>_. True" "\<lambda>_. 0" 0
  by (unfold_locales; unfold xdr_rpc_loc_fix_session_state_e_type_def;
      intro wrap_intros codec_enc codec_dec codec_free codec_safe; simp)

definition RPC_LOC_STATUS_EVENT_ENGINE_STATE :: u32 where [loc_consts]:
    "RPC_LOC_STATUS_EVENT_ENGINE_STATE = 1"

definition RPC_LOC_STATUS_EVENT_FIX_SESSION_STATE :: u32 where [loc_consts]:
    "RPC_LOC_STATUS_EVENT_FIX_SESSION_STATE = 2"

datatype rpc_loc_status_event_payload_u_type_u =
    status_event_payload_blank
  | status_event_payload_engine_state u32
  | status_event_payload_fix_session_state u32

type_synonym rpc_loc_status_event_payload_u_type = "(u32, rpc_loc_status_event_payload_u_type_u)
    tagged"

definition zero_rpc_loc_status_event_payload_u_type :: rpc_loc_status_event_payload_u_type where
  "zero_rpc_loc_status_event_payload_u_type = \<lparr>disc = 0, arm =
      status_event_payload_blank\<rparr>"

definition xdr_rpc_loc_status_event_payload_u_type_switch :: "rpc_loc_status_event_payload_u_type
    \<Rightarrow> rpc_loc_status_event_payload_u_type xdrproc" where
  "xdr_rpc_loc_status_event_payload_u_type_switch obj =
     (if disc obj = RPC_LOC_STATUS_EVENT_ENGINE_STATE
      then xdr_arm (\<lambda>a. case a of status_event_payload_engine_state w \<Rightarrow> Some w
          | _ \<Rightarrow> None) status_event_payload_engine_state
             status_event_payload_blank 0 xdr_rpc_loc_engine_state_e_type
      else if disc obj = RPC_LOC_STATUS_EVENT_FIX_SESSION_STATE
      then xdr_arm (\<lambda>a. case a of status_event_payload_fix_session_state w \<Rightarrow>
          Some w | _ \<Rightarrow> None) status_event_payload_fix_session_state
             status_event_payload_blank 0 xdr_rpc_loc_fix_session_state_e_type
      else xdr_all [])"

definition xdr_rpc_loc_status_event_payload_u_type :: "rpc_loc_status_event_payload_u_type xdrproc"
    where
  "xdr_rpc_loc_status_event_payload_u_type = xdr_all [xdr_member disc disc_update
      xdr_rpc_loc_status_event_e_type, xdr_switch xdr_rpc_loc_status_event_payload_u_type_switch]"

definition enc_rpc_loc_status_event_payload_u_type_u :: "rpc_loc_status_event_payload_u_type_u
    \<Rightarrow> byte list" where
  "enc_rpc_loc_status_event_payload_u_type_u a =
     (case a of
        status_event_payload_blank \<Rightarrow> []
      | status_event_payload_engine_state w \<Rightarrow> enc_u32 w
      | status_event_payload_fix_session_state w \<Rightarrow> enc_u32 w)"

definition enc_rpc_loc_status_event_payload_u_type :: "rpc_loc_status_event_payload_u_type
    \<Rightarrow> byte list" where
  "enc_rpc_loc_status_event_payload_u_type v = enc_u32 (disc v) @
      enc_rpc_loc_status_event_payload_u_type_u (arm v)"

definition wf_rpc_loc_status_event_payload_u_type :: "rpc_loc_status_event_payload_u_type
    \<Rightarrow> bool" where
  "wf_rpc_loc_status_event_payload_u_type v =
     (case arm v of
        status_event_payload_blank \<Rightarrow> disc v \<notin> {RPC_LOC_STATUS_EVENT_ENGINE_STATE,
          RPC_LOC_STATUS_EVENT_FIX_SESSION_STATE}
      | status_event_payload_engine_state w \<Rightarrow> disc v = RPC_LOC_STATUS_EVENT_ENGINE_STATE
      | status_event_payload_fix_session_state w \<Rightarrow> disc v =
          RPC_LOC_STATUS_EVENT_FIX_SESSION_STATE)"

lemma rpc_loc_status_event_payload_u_type_arms:
  "wf_rpc_loc_status_event_payload_u_type v 
    \<Longrightarrow> menc (xdr_rpc_loc_status_event_payload_u_type_switch v) v
        (enc_rpc_loc_status_event_payload_u_type_u (arm v))"
  "wf_rpc_loc_status_event_payload_u_type v \<Longrightarrow> arm obj = status_event_payload_blank
      \<Longrightarrow> disc obj = disc v
    \<Longrightarrow> mdec (xdr_rpc_loc_status_event_payload_u_type_switch obj) obj v
          (enc_rpc_loc_status_event_payload_u_type_u (arm v)) (0)"
  "wf_rpc_loc_status_event_payload_u_type v
    \<Longrightarrow> mfree (xdr_rpc_loc_status_event_payload_u_type_switch v) v (0)"
  by (cases "arm v"; auto simp: xdr_rpc_loc_status_event_payload_u_type_switch_def
      wf_rpc_loc_status_event_payload_u_type_def
      enc_rpc_loc_status_event_payload_u_type_u_def loc_consts
      intro!: arm_intros codec_enc codec_dec codec_free)+

lemma rpc_loc_status_event_payload_u_type_arms_safe:
  "arm obj = status_event_payload_blank \<Longrightarrow> msafe
      (xdr_rpc_loc_status_event_payload_u_type_switch obj) obj"
  unfolding xdr_rpc_loc_status_event_payload_u_type_switch_def
  by (rule msafe_if msafe_arm msafe_Nil codec_safe refl | assumption)+

interpretation rpc_loc_status_event_payload_u_type_codec: xdr_safe_codec
    xdr_rpc_loc_status_event_payload_u_type enc_rpc_loc_status_event_payload_u_type
    wf_rpc_loc_status_event_payload_u_type "\<lambda>_. 0" zero_rpc_loc_status_event_payload_u_type
  by (unfold_locales; unfold xdr_rpc_loc_status_event_payload_u_type_def
      enc_rpc_loc_status_event_payload_u_type_def;
      (rule union_intros rpc_loc_status_event_payload_u_type_arms
        rpc_loc_status_event_payload_u_type_arms_safe
        codec_enc codec_dec codec_free codec_safe
        | simp add: zero_rpc_loc_status_event_payload_u_type_def)+)

record rpc_loc_status_event_s_type =
  event :: u32
  payload :: rpc_loc_status_event_payload_u_type

definition zero_rpc_loc_status_event_s_type :: rpc_loc_status_event_s_type where
  "zero_rpc_loc_status_event_s_type =
    \<lparr> event = 0,
     payload = zero_rpc_loc_status_event_payload_u_type\<rparr>"

definition xdr_rpc_loc_status_event_s_type ::
    "rpc_loc_status_event_s_type xdrproc" where
  "xdr_rpc_loc_status_event_s_type = xdr_all
    [xdr_member rpc_loc_status_event_s_type.event
       rpc_loc_status_event_s_type.event_update xdr_rpc_loc_status_event_e_type,
     xdr_member rpc_loc_status_event_s_type.payload
       rpc_loc_status_event_s_type.payload_update xdr_rpc_loc_status_event_payload_u_type]"

definition enc_rpc_loc_status_event_s_type ::
    "rpc_loc_status_event_s_type \<Rightarrow> byte list" where
  "enc_rpc_loc_status_event_s_type v =
     enc_u32 (rpc_loc_status_event_s_type.event v) @
     enc_rpc_loc_status_event_payload_u_type (rpc_loc_status_event_s_type.payload v)"

definition wf_rpc_loc_status_event_s_type :: "rpc_loc_status_event_s_type \<Rightarrow> bool" where
  "wf_rpc_loc_status_event_s_type v \<longleftrightarrow>
     wf_rpc_loc_status_event_payload_u_type (rpc_loc_status_event_s_type.payload v)"

interpretation rpc_loc_status_event_s_type_codec: xdr_safe_codec
    xdr_rpc_loc_status_event_s_type enc_rpc_loc_status_event_s_type
    wf_rpc_loc_status_event_s_type "\<lambda>_. 0" zero_rpc_loc_status_event_s_type
  by (unfold_locales; unfold xdr_rpc_loc_status_event_s_type_def
      enc_rpc_loc_status_event_s_type_def;
      (rule struct_intros codec_enc codec_dec codec_free codec_safe
        | simp add: zero_rpc_loc_status_event_s_type_def wf_rpc_loc_status_event_s_type_def)+)

definition xdr_rpc_loc_server_addr_e_type :: "u32 xdrproc" where
  "xdr_rpc_loc_server_addr_e_type = xdr_all [xdr_enum]"

interpretation rpc_loc_server_addr_e_type_codec: xdr_safe_codec
    xdr_rpc_loc_server_addr_e_type enc_u32 "\<lambda>_. True" "\<lambda>_. 0" 0
  by (unfold_locales; unfold xdr_rpc_loc_server_addr_e_type_def;
      intro wrap_intros codec_enc codec_dec codec_free codec_safe; simp)

lemma keeps_rpc_loc_server_addr_e_type [codec_free]: "keeps xdr_rpc_loc_server_addr_e_type"
  unfolding xdr_rpc_loc_server_addr_e_type_def by (intro keeps_single codec_free)

record rpc_loc_server_addr_ipv4_type =
  addr :: u32
  port :: u16

definition zero_rpc_loc_server_addr_ipv4_type :: rpc_loc_server_addr_ipv4_type where
  "zero_rpc_loc_server_addr_ipv4_type =
    \<lparr> addr = 0, port = 0\<rparr>"

definition xdr_rpc_loc_server_addr_ipv4_type ::
    "rpc_loc_server_addr_ipv4_type xdrproc" where
  "xdr_rpc_loc_server_addr_ipv4_type = xdr_all
    [xdr_member rpc_loc_server_addr_ipv4_type.addr
       rpc_loc_server_addr_ipv4_type.addr_update xdr_rpc_uint32,
     xdr_member rpc_loc_server_addr_ipv4_type.port
       rpc_loc_server_addr_ipv4_type.port_update xdr_rpc_uint16]"

definition enc_rpc_loc_server_addr_ipv4_type ::
    "rpc_loc_server_addr_ipv4_type \<Rightarrow> byte list" where
  "enc_rpc_loc_server_addr_ipv4_type v =
     enc_u32 (rpc_loc_server_addr_ipv4_type.addr v) @
     enc_u16 (rpc_loc_server_addr_ipv4_type.port v)"

interpretation rpc_loc_server_addr_ipv4_type_codec: xdr_safe_codec
    xdr_rpc_loc_server_addr_ipv4_type enc_rpc_loc_server_addr_ipv4_type
    "\<lambda>_. True" "\<lambda>_. 0" zero_rpc_loc_server_addr_ipv4_type
  by (unfold_locales; unfold xdr_rpc_loc_server_addr_ipv4_type_def
      enc_rpc_loc_server_addr_ipv4_type_def;
      (rule struct_intros codec_enc codec_dec codec_free codec_safe
        | simp add: zero_rpc_loc_server_addr_ipv4_type_def)+)

record rpc_loc_server_addr_url_type =
  length16 :: u16
  addr :: "byte list"

definition zero_rpc_loc_server_addr_url_type :: rpc_loc_server_addr_url_type where
  "zero_rpc_loc_server_addr_url_type =
    \<lparr> length16 = 0, addr = replicate 256 0\<rparr>"

definition xdr_rpc_loc_server_addr_url_type ::
    "rpc_loc_server_addr_url_type xdrproc" where
  "xdr_rpc_loc_server_addr_url_type = xdr_all
    [xdr_member rpc_loc_server_addr_url_type.length16
       rpc_loc_server_addr_url_type.length16_update xdr_rpc_uint16,
     xdr_member rpc_loc_server_addr_url_type.addr
       rpc_loc_server_addr_url_type.addr_update (xdr_opaque 256)]"

definition enc_rpc_loc_server_addr_url_type ::
    "rpc_loc_server_addr_url_type \<Rightarrow> byte list" where
  "enc_rpc_loc_server_addr_url_type v =
     enc_u16 (rpc_loc_server_addr_url_type.length16 v) @
     padded (rpc_loc_server_addr_url_type.addr v)"

definition wf_rpc_loc_server_addr_url_type :: "rpc_loc_server_addr_url_type \<Rightarrow> bool"
    where
  "wf_rpc_loc_server_addr_url_type v \<longleftrightarrow>
     length (rpc_loc_server_addr_url_type.addr v) = 256"

interpretation rpc_loc_server_addr_url_type_codec: xdr_safe_codec
    xdr_rpc_loc_server_addr_url_type enc_rpc_loc_server_addr_url_type
    wf_rpc_loc_server_addr_url_type "\<lambda>_. 0" zero_rpc_loc_server_addr_url_type
  by (unfold_locales; unfold xdr_rpc_loc_server_addr_url_type_def
      enc_rpc_loc_server_addr_url_type_def;
      (rule struct_intros codec_enc codec_dec codec_free codec_safe
        | simp add: zero_rpc_loc_server_addr_url_type_def wf_rpc_loc_server_addr_url_type_def)+)

definition RPC_LOC_SERVER_ADDR_IPV4 :: u32 where [loc_consts]: "RPC_LOC_SERVER_ADDR_IPV4 = 1"

definition RPC_LOC_SERVER_ADDR_URL :: u32 where [loc_consts]: "RPC_LOC_SERVER_ADDR_URL = 2"

datatype rpc_loc_server_addr_u_type_u =
    server_addr_blank
  | server_addr_ipv4 rpc_loc_server_addr_ipv4_type
  | server_addr_url rpc_loc_server_addr_url_type

type_synonym rpc_loc_server_addr_u_type = "(u32, rpc_loc_server_addr_u_type_u) tagged"

definition zero_rpc_loc_server_addr_u_type :: rpc_loc_server_addr_u_type where
  "zero_rpc_loc_server_addr_u_type = \<lparr>disc = 0, arm = server_addr_blank\<rparr>"

definition xdr_rpc_loc_server_addr_u_type_switch :: "rpc_loc_server_addr_u_type \<Rightarrow>
    rpc_loc_server_addr_u_type xdrproc" where
  "xdr_rpc_loc_server_addr_u_type_switch obj =
     (if disc obj = RPC_LOC_SERVER_ADDR_IPV4
      then xdr_arm (\<lambda>a. case a of server_addr_ipv4 w \<Rightarrow> Some w | _ \<Rightarrow>
          None) server_addr_ipv4
             server_addr_blank zero_rpc_loc_server_addr_ipv4_type xdr_rpc_loc_server_addr_ipv4_type
      else if disc obj = RPC_LOC_SERVER_ADDR_URL
      then xdr_arm (\<lambda>a. case a of server_addr_url w \<Rightarrow> Some w | _ \<Rightarrow>
          None) server_addr_url
             server_addr_blank zero_rpc_loc_server_addr_url_type xdr_rpc_loc_server_addr_url_type
      else xdr_all [])"

definition xdr_rpc_loc_server_addr_u_type :: "rpc_loc_server_addr_u_type xdrproc" where
  "xdr_rpc_loc_server_addr_u_type = xdr_all [xdr_member disc disc_update
      xdr_rpc_loc_server_addr_e_type, xdr_switch xdr_rpc_loc_server_addr_u_type_switch]"

definition enc_rpc_loc_server_addr_u_type_u :: "rpc_loc_server_addr_u_type_u \<Rightarrow> byte
    list" where
  "enc_rpc_loc_server_addr_u_type_u a =
     (case a of
        server_addr_blank \<Rightarrow> []
      | server_addr_ipv4 w \<Rightarrow> enc_rpc_loc_server_addr_ipv4_type w
      | server_addr_url w \<Rightarrow> enc_rpc_loc_server_addr_url_type w)"

definition enc_rpc_loc_server_addr_u_type :: "rpc_loc_server_addr_u_type \<Rightarrow> byte list"
    where
  "enc_rpc_loc_server_addr_u_type v = enc_u32 (disc v) @ enc_rpc_loc_server_addr_u_type_u (arm v)"

definition wf_rpc_loc_server_addr_u_type :: "rpc_loc_server_addr_u_type \<Rightarrow> bool" where
  "wf_rpc_loc_server_addr_u_type v =
     (case arm v of
        server_addr_blank \<Rightarrow> disc v \<notin> {RPC_LOC_SERVER_ADDR_IPV4,
            RPC_LOC_SERVER_ADDR_URL}
      | server_addr_ipv4 w \<Rightarrow> disc v = RPC_LOC_SERVER_ADDR_IPV4
      | server_addr_url w \<Rightarrow> disc v = RPC_LOC_SERVER_ADDR_URL \<and>
          wf_rpc_loc_server_addr_url_type w)"

lemma rpc_loc_server_addr_u_type_arms:
  "wf_rpc_loc_server_addr_u_type v 
    \<Longrightarrow> menc (xdr_rpc_loc_server_addr_u_type_switch v) v
        (enc_rpc_loc_server_addr_u_type_u (arm v))"
  "wf_rpc_loc_server_addr_u_type v \<Longrightarrow> arm obj = server_addr_blank \<Longrightarrow>
      disc obj = disc v
    \<Longrightarrow> mdec (xdr_rpc_loc_server_addr_u_type_switch obj) obj v
          (enc_rpc_loc_server_addr_u_type_u (arm v)) (0)"
  "wf_rpc_loc_server_addr_u_type v
    \<Longrightarrow> mfree (xdr_rpc_loc_server_addr_u_type_switch v) v (0)"
  by (cases "arm v"; auto simp: xdr_rpc_loc_server_addr_u_type_switch_def
      wf_rpc_loc_server_addr_u_type_def
      enc_rpc_loc_server_addr_u_type_u_def loc_consts
      intro!: arm_intros codec_enc codec_dec codec_free)+

lemma rpc_loc_server_addr_u_type_arms_safe:
  "arm obj = server_addr_blank \<Longrightarrow> msafe (xdr_rpc_loc_server_addr_u_type_switch obj)
      obj"
  unfolding xdr_rpc_loc_server_addr_u_type_switch_def
  by (rule msafe_if msafe_arm msafe_Nil codec_safe refl | assumption)+

interpretation rpc_loc_server_addr_u_type_codec: xdr_safe_codec
    xdr_rpc_loc_server_addr_u_type enc_rpc_loc_server_addr_u_type
    wf_rpc_loc_server_addr_u_type "\<lambda>_. 0" zero_rpc_loc_server_addr_u_type
  by (unfold_locales; unfold xdr_rpc_loc_server_addr_u_type_def enc_rpc_loc_server_addr_u_type_def;
      (rule union_intros rpc_loc_server_addr_u_type_arms
        rpc_loc_server_addr_u_type_arms_safe
        codec_enc codec_dec codec_free codec_safe
        | simp add: zero_rpc_loc_server_addr_u_type_def)+)

record rpc_loc_server_info_s_type =
  addr_type :: u32
  addr_info :: rpc_loc_server_addr_u_type

definition zero_rpc_loc_server_info_s_type :: rpc_loc_server_info_s_type where
  "zero_rpc_loc_server_info_s_type =
    \<lparr> addr_type = 0,
     addr_info = zero_rpc_loc_server_addr_u_type\<rparr>"

definition xdr_rpc_loc_server_info_s_type ::
    "rpc_loc_server_info_s_type xdrproc" where
  "xdr_rpc_loc_server_info_s_type = xdr_all
    [xdr_member rpc_loc_server_info_s_type.addr_type
       rpc_loc_server_info_s_type.addr_type_update xdr_rpc_loc_server_addr_e_type,
     xdr_member rpc_loc_server_info_s_type.addr_info
       rpc_loc_server_info_s_type.addr_info_update xdr_rpc_loc_server_addr_u_type]"

definition enc_rpc_loc_server_info_s_type ::
    "rpc_loc_server_info_s_type \<Rightarrow> byte list" where
  "enc_rpc_loc_server_info_s_type v =
     enc_u32 (rpc_loc_server_info_s_type.addr_type v) @
     enc_rpc_loc_server_addr_u_type (rpc_loc_server_info_s_type.addr_info v)"

definition wf_rpc_loc_server_info_s_type :: "rpc_loc_server_info_s_type \<Rightarrow> bool" where
  "wf_rpc_loc_server_info_s_type v \<longleftrightarrow>
     wf_rpc_loc_server_addr_u_type (rpc_loc_server_info_s_type.addr_info v)"

interpretation rpc_loc_server_info_s_type_codec: xdr_safe_codec
    xdr_rpc_loc_server_info_s_type enc_rpc_loc_server_info_s_type
    wf_rpc_loc_server_info_s_type "\<lambda>_. 0" zero_rpc_loc_server_info_s_type
  by (unfold_locales; unfold xdr_rpc_loc_server_info_s_type_def enc_rpc_loc_server_info_s_type_def;
      (rule struct_intros codec_enc codec_dec codec_free codec_safe
        | simp add: zero_rpc_loc_server_info_s_type_def wf_rpc_loc_server_info_s_type_def)+)

definition xdr_rpc_loc_ni_notify_verify_e_type :: "u32 xdrproc" where
  "xdr_rpc_loc_ni_notify_verify_e_type = xdr_all [xdr_enum]"

interpretation rpc_loc_ni_notify_verify_e_type_codec: xdr_safe_codec
    xdr_rpc_loc_ni_notify_verify_e_type enc_u32 "\<lambda>_. True" "\<lambda>_. 0" 0
  by (unfold_locales; unfold xdr_rpc_loc_ni_notify_verify_e_type_def;
      intro wrap_intros codec_enc codec_dec codec_free codec_safe; simp)

definition xdr_rpc_loc_ni_event_e_type :: "u32 xdrproc" where
  "xdr_rpc_loc_ni_event_e_type = xdr_all [xdr_enum]"

interpretation rpc_loc_ni_event_e_type_codec: xdr_safe_codec
    xdr_rpc_loc_ni_event_e_type enc_u32 "\<lambda>_. True" "\<lambda>_. 0" 0
  by (unfold_locales; unfold xdr_rpc_loc_ni_event_e_type_def;
      intro wrap_intros codec_enc codec_dec codec_free codec_safe; simp)

lemma keeps_rpc_loc_ni_event_e_type [codec_free]: "keeps xdr_rpc_loc_ni_event_e_type"
  unfolding xdr_rpc_loc_ni_event_e_type_def by (intro keeps_single codec_free)

definition xdr_rpc_loc_ni_datacoding_scheme_e_type :: "u32 xdrproc" where
  "xdr_rpc_loc_ni_datacoding_scheme_e_type = xdr_all [xdr_enum]"

interpretation rpc_loc_ni_datacoding_scheme_e_type_codec: xdr_safe_codec
    xdr_rpc_loc_ni_datacoding_scheme_e_type enc_u32 "\<lambda>_. True" "\<lambda>_. 0" 0
  by (unfold_locales; unfold xdr_rpc_loc_ni_datacoding_scheme_e_type_def;
      intro wrap_intros codec_enc codec_dec codec_free codec_safe; simp)

definition xdr_rpc_loc_ni_vx_requester_id_encoding_scheme_e_type :: "u32 xdrproc" where
  "xdr_rpc_loc_ni_vx_requester_id_encoding_scheme_e_type = xdr_all [xdr_enum]"

interpretation rpc_loc_ni_vx_requester_id_encoding_scheme_e_type_codec: xdr_safe_codec
    xdr_rpc_loc_ni_vx_requester_id_encoding_scheme_e_type enc_u32 "\<lambda>_. True" "\<lambda>_.
        0" 0
  by (unfold_locales; unfold xdr_rpc_loc_ni_vx_requester_id_encoding_scheme_e_type_def;
      intro wrap_intros codec_enc codec_dec codec_free codec_safe; simp)

end
