(* ===== verification/LocApiNi.thy ===== *)
theory LocApiNi
  imports LocApiReports
begin

text \<open>
  Second part of gen-50000/loc_api_common_xdr.c: network-initiated location requests
  (VX, SUPL and UMTS control plane), in the form described in LocApiReports.
\<close>

definition xdr_rpc_loc_ni_vx_pos_mode_e_type :: "u32 xdrproc" where
  "xdr_rpc_loc_ni_vx_pos_mode_e_type = xdr_all [xdr_enum]"

interpretation rpc_loc_ni_vx_pos_mode_e_type_codec: xdr_safe_codec
    xdr_rpc_loc_ni_vx_pos_mode_e_type enc_u32 "\<lambda>_. True" "\<lambda>_. 0" 0
  by (unfold_locales; unfold xdr_rpc_loc_ni_vx_pos_mode_e_type_def;
      intro wrap_intros codec_enc codec_dec codec_free codec_safe; simp)

record rpc_loc_ni_vx_requester_id_s_type =
  requester_id_length :: byte
  requester_id :: "byte list"

definition zero_rpc_loc_ni_vx_requester_id_s_type :: rpc_loc_ni_vx_requester_id_s_type where
  "zero_rpc_loc_ni_vx_requester_id_s_type =
    \<lparr> requester_id_length = 0,
     requester_id = replicate 200 0\<rparr>"

definition xdr_rpc_loc_ni_vx_requester_id_s_type ::
    "rpc_loc_ni_vx_requester_id_s_type xdrproc" where
  "xdr_rpc_loc_ni_vx_requester_id_s_type = xdr_all
    [xdr_member rpc_loc_ni_vx_requester_id_s_type.requester_id_length
       rpc_loc_ni_vx_requester_id_s_type.requester_id_length_update xdr_u_char,
     xdr_member rpc_loc_ni_vx_requester_id_s_type.requester_id
       rpc_loc_ni_vx_requester_id_s_type.requester_id_update (xdr_opaque 200)]"

definition enc_rpc_loc_ni_vx_requester_id_s_type ::
    "rpc_loc_ni_vx_requester_id_s_type \<Rightarrow> byte list" where
  "enc_rpc_loc_ni_vx_requester_id_s_type v =
     enc_byte (rpc_loc_ni_vx_requester_id_s_type.requester_id_length v) @
     padded (rpc_loc_ni_vx_requester_id_s_type.requester_id v)"

definition wf_rpc_loc_ni_vx_requester_id_s_type :: "rpc_loc_ni_vx_requester_id_s_type \<Rightarrow>
    bool" where
  "wf_rpc_loc_ni_vx_requester_id_s_type v \<longleftrightarrow>
     length (rpc_loc_ni_vx_requester_id_s_type.requester_id v) = 200"

interpretation rpc_loc_ni_vx_requester_id_s_type_codec: xdr_safe_codec
    xdr_rpc_loc_ni_vx_requester_id_s_type enc_rpc_loc_ni_vx_requester_id_s_type
    wf_rpc_loc_ni_vx_requester_id_s_type "\<lambda>_. 0" zero_rpc_loc_ni_vx_requester_id_s_type
  by (unfold_locales; unfold xdr_rpc_loc_ni_vx_requester_id_s_type_def
      enc_rpc_loc_ni_vx_requester_id_s_type_def;
      (rule struct_intros codec_enc codec_dec codec_free codec_safe
        | simp add: zero_rpc_loc_ni_vx_requester_id_s_type_def
            wf_rpc_loc_ni_vx_requester_id_s_type_def)+)

record rpc_loc_ni_vx_notify_verify_req_s_type =
  notification_priv_type :: u32
  pos_qos_incl :: byte
  pos_qos :: byte
  num_fixes :: u32
  tbf :: u32
  pos_mode :: u32
  encoding_scheme :: u32
  requester_id :: rpc_loc_ni_vx_requester_id_s_type
  user_resp_timer_val :: u16

definition zero_rpc_loc_ni_vx_notify_verify_req_s_type :: rpc_loc_ni_vx_notify_verify_req_s_type
    where
  "zero_rpc_loc_ni_vx_notify_verify_req_s_type =
    \<lparr> notification_priv_type = 0,
     pos_qos_incl = 0, pos_qos = 0, num_fixes = 0, tbf = 0, pos_mode = 0, encoding_scheme = 0,
     requester_id = zero_rpc_loc_ni_vx_requester_id_s_type, user_resp_timer_val = 0\<rparr>"

definition xdr_rpc_loc_ni_vx_notify_verify_req_s_type ::
    "rpc_loc_ni_vx_notify_verify_req_s_type xdrproc" where
  "xdr_rpc_loc_ni_vx_notify_verify_req_s_type = xdr_all
    [xdr_member rpc_loc_ni_vx_notify_verify_req_s_type.notification_priv_type
       rpc_loc_ni_vx_notify_verify_req_s_type.notification_priv_type_update
           xdr_rpc_loc_ni_notify_verify_e_type,
     xdr_member rpc_loc_ni_vx_notify_verify_req_s_type.pos_qos_incl
       rpc_loc_ni_vx_notify_verify_req_s_type.pos_qos_incl_update xdr_u_char,
     xdr_member rpc_loc_ni_vx_notify_verify_req_s_type.pos_qos
       rpc_loc_ni_vx_notify_verify_req_s_type.pos_qos_update xdr_u_char,
     xdr_member rpc_loc_ni_vx_notify_verify_req_s_type.num_fixes
       rpc_loc_ni_vx_notify_verify_req_s_type.num_fixes_update xdr_rpc_uint32,
     xdr_member rpc_loc_ni_vx_notify_verify_req_s_type.tbf
       rpc_loc_ni_vx_notify_verify_req_s_type.tbf_update xdr_rpc_uint32,
     xdr_member rpc_loc_ni_vx_notify_verify_req_s_type.pos_mode
       rpc_loc_ni_vx_notify_verify_req_s_type.pos_mode_update xdr_rpc_loc_ni_vx_pos_mode_e_type,
     xdr_member rpc_loc_ni_vx_notify_verify_req_s_type.encoding_scheme
       rpc_loc_ni_vx_notify_verify_req_s_type.encoding_scheme_update
           xdr_rpc_loc_ni_vx_requester_id_encoding_scheme_e_type,
     xdr_member rpc_loc_ni_vx_notify_verify_req_s_type.requester_id
       rpc_loc_ni_vx_notify_verify_req_s_type.requester_id_update
           xdr_rpc_loc_ni_vx_requester_id_s_type,
     xdr_member rpc_loc_ni_vx_notify_verify_req_s_type.user_resp_timer_val
       rpc_loc_ni_vx_notify_verify_req_s_type.user_resp_timer_val_update xdr_rpc_uint16]"

definition enc_rpc_loc_ni_vx_notify_verify_req_s_type ::
    "rpc_loc_ni_vx_notify_verify_req_s_type \<Rightarrow> byte list" where
  "enc_rpc_loc_ni_vx_notify_verify_req_s_type v =
     enc_u32 (rpc_loc_ni_vx_notify_verify_req_s_type.notification_priv_type v) @
     enc_byte (rpc_loc_ni_vx_notify_verify_req_s_type.pos_qos_incl v) @
     enc_byte (rpc_loc_ni_vx_notify_verify_req_s_type.pos_qos v) @
     enc_u32 (rpc_loc_ni_vx_notify_verify_req_s_type.num_fixes v) @
     enc_u32 (rpc_loc_ni_vx_notify_verify_req_s_type.tbf v) @
     enc_u32 (rpc_loc_ni_vx_notify_verify_req_s_type.pos_mode v) @
     enc_u32 (rpc_loc_ni_vx_notify_verify_req_s_type.encoding_scheme v) @
     enc_rpc_loc_ni_vx_requester_id_s_type (rpc_loc_ni_vx_notify_verify_req_s_type.requester_id v) @
     enc_u16 (rpc_loc_ni_vx_notify_verify_req_s_type.user_resp_timer_val v)"

definition wf_rpc_loc_ni_vx_notify_verify_req_s_type :: "rpc_loc_ni_vx_notify_verify_req_s_type
    \<Rightarrow> bool" where
  "wf_rpc_loc_ni_vx_notify_verify_req_s_type v \<longleftrightarrow>
     wf_rpc_loc_ni_vx_requester_id_s_type (rpc_loc_ni_vx_notify_verify_req_s_type.requester_id v)"

interpretation rpc_loc_ni_vx_notify_verify_req_s_type_codec: xdr_safe_codec
    xdr_rpc_loc_ni_vx_notify_verify_req_s_type enc_rpc_loc_ni_vx_notify_verify_req_s_type
    wf_rpc_loc_ni_vx_notify_verify_req_s_type "\<lambda>_. 0"
        zero_rpc_loc_ni_vx_notify_verify_req_s_type
  by (unfold_locales; unfold xdr_rpc_loc_ni_vx_notify_verify_req_s_type_def
      enc_rpc_loc_ni_vx_notify_verify_req_s_type_def;
      (rule struct_intros codec_enc codec_dec codec_free codec_safe
        | simp add: zero_rpc_loc_ni_vx_notify_verify_req_s_type_def
            wf_rpc_loc_ni_vx_notify_verify_req_s_type_def)+)

definition xdr_rpc_loc_ni_supl_pos_method_e_type :: "u32 xdrproc" where
  "xdr_rpc_loc_ni_supl_pos_method_e_type = xdr_all [xdr_enum]"

interpretation rpc_loc_ni_supl_pos_method_e_type_codec: xdr_safe_codec
    xdr_rpc_loc_ni_supl_pos_method_e_type enc_u32 "\<lambda>_. True" "\<lambda>_. 0" 0
  by (unfold_locales; unfold xdr_rpc_loc_ni_supl_pos_method_e_type_def;
      intro wrap_intros codec_enc codec_dec codec_free codec_safe; simp)

record rpc_loc_ni_supl_slp_session_id_s_type =
  presence :: byte
  session_id :: "byte list"
  slp_address :: rpc_loc_server_info_s_type

definition zero_rpc_loc_ni_supl_slp_session_id_s_type :: rpc_loc_ni_supl_slp_session_id_s_type where
  "zero_rpc_loc_ni_supl_slp_session_id_s_type =
    \<lparr> presence = 0,
     session_id = replicate 4 0, slp_address = zero_rpc_loc_server_info_s_type\<rparr>"

definition xdr_rpc_loc_ni_supl_slp_session_id_s_type ::
    "rpc_loc_ni_supl_slp_session_id_s_type xdrproc" where
  "xdr_rpc_loc_ni_supl_slp_session_id_s_type = xdr_all
    [xdr_member rpc_loc_ni_supl_slp_session_id_s_type.presence
       rpc_loc_ni_supl_slp_session_id_s_type.presence_update xdr_u_char,
     xdr_member rpc_loc_ni_supl_slp_session_id_s_type.session_id
       rpc_loc_ni_supl_slp_session_id_s_type.session_id_update (xdr_opaque 4),
     xdr_member rpc_loc_ni_supl_slp_session_id_s_type.slp_address
       rpc_loc_ni_supl_slp_session_id_s_type.slp_address_update xdr_rpc_loc_server_info_s_type]"

definition enc_rpc_loc_ni_supl_slp_session_id_s_type ::
    "rpc_loc_ni_supl_slp_session_id_s_type \<Rightarrow> byte list" where
  "enc_rpc_loc_ni_supl_slp_session_id_s_type v =
     enc_byte (rpc_loc_ni_supl_slp_session_id_s_type.presence v) @
     padded (rpc_loc_ni_supl_slp_session_id_s_type.session_id v) @
     enc_rpc_loc_server_info_s_type (rpc_loc_ni_supl_slp_session_id_s_type.slp_address v)"

definition wf_rpc_loc_ni_supl_slp_session_id_s_type :: "rpc_loc_ni_supl_slp_session_id_s_type
    \<Rightarrow> bool" where
  "wf_rpc_loc_ni_supl_slp_session_id_s_type v \<longleftrightarrow>
     length (rpc_loc_ni_supl_slp_session_id_s_type.session_id v) = 4 \<and>
     wf_rpc_loc_server_info_s_type (rpc_loc_ni_supl_slp_session_id_s_type.slp_address v)"

interpretation rpc_loc_ni_supl_slp_session_id_s_type_codec: xdr_safe_codec
    xdr_rpc_loc_ni_supl_slp_session_id_s_type enc_rpc_loc_ni_supl_slp_session_id_s_type
    wf_rpc_loc_ni_supl_slp_session_id_s_type "\<lambda>_. 0"
        zero_rpc_loc_ni_supl_slp_session_id_s_type
  by (unfold_locales; unfold xdr_rpc_loc_ni_supl_slp_session_id_s_type_def
      enc_rpc_loc_ni_supl_slp_session_id_s_type_def;
      (rule struct_intros codec_enc codec_dec codec_free codec_safe
        | simp add: zero_rpc_loc_ni_supl_slp_session_id_s_type_def
            wf_rpc_loc_ni_supl_slp_session_id_s_type_def)+)

record rpc_loc_ni_requestor_id_s_type =
  data_coding_scheme :: byte
  requestor_id_string :: "byte list"
  string_len :: byte

definition zero_rpc_loc_ni_requestor_id_s_type :: rpc_loc_ni_requestor_id_s_type where
  "zero_rpc_loc_ni_requestor_id_s_type =
    \<lparr> data_coding_scheme = 0,
     requestor_id_string = replicate 200 0, string_len = 0\<rparr>"

definition xdr_rpc_loc_ni_requestor_id_s_type ::
    "rpc_loc_ni_requestor_id_s_type xdrproc" where
  "xdr_rpc_loc_ni_requestor_id_s_type = xdr_all
    [xdr_member rpc_loc_ni_requestor_id_s_type.data_coding_scheme
       rpc_loc_ni_requestor_id_s_type.data_coding_scheme_update xdr_u_char,
     xdr_member rpc_loc_ni_requestor_id_s_type.requestor_id_string
       rpc_loc_ni_requestor_id_s_type.requestor_id_string_update (xdr_opaque 200),
     xdr_member rpc_loc_ni_requestor_id_s_type.string_len
       rpc_loc_ni_requestor_id_s_type.string_len_update xdr_u_char]"

definition enc_rpc_loc_ni_requestor_id_s_type ::
    "rpc_loc_ni_requestor_id_s_type \<Rightarrow> byte list" where
  "enc_rpc_loc_ni_requestor_id_s_type v =
     enc_byte (rpc_loc_ni_requestor_id_s_type.data_coding_scheme v) @
     padded (rpc_loc_ni_requestor_id_s_type.requestor_id_string v) @
     enc_byte (rpc_loc_ni_requestor_id_s_type.string_len v)"

definition wf_rpc_loc_ni_requestor_id_s_type :: "rpc_loc_ni_requestor_id_s_type \<Rightarrow> bool"
    where
  "wf_rpc_loc_ni_requestor_id_s_type v \<longleftrightarrow>
     length (rpc_loc_ni_requestor_id_s_type.requestor_id_string v) = 200"

interpretation rpc_loc_ni_requestor_id_s_type_codec: xdr_safe_codec
    xdr_rpc_loc_ni_requestor_id_s_type enc_rpc_loc_ni_requestor_id_s_type
    wf_rpc_loc_ni_requestor_id_s_type "\<lambda>_. 0" zero_rpc_loc_ni_requestor_id_s_type
  by (unfold_locales; unfold xdr_rpc_loc_ni_requestor_id_s_type_def
      enc_rpc_loc_ni_requestor_id_s_type_def;
      (rule struct_intros codec_enc codec_dec codec_free codec_safe
        | simp add: zero_rpc_loc_ni_requestor_id_s_type_def wf_rpc_loc_ni_requestor_id_s_type_def)+)

record rpc_loc_ni_supl_client_name_s_type =
  data_coding_scheme :: byte
  client_name_string :: "byte list"
  string_len :: byte

definition zero_rpc_loc_ni_supl_client_name_s_type :: rpc_loc_ni_supl_client_name_s_type where
  "zero_rpc_loc_ni_supl_client_name_s_type =
    \<lparr> data_coding_scheme = 0,
     client_name_string = replicate 64 0, string_len = 0\<rparr>"

definition xdr_rpc_loc_ni_supl_client_name_s_type ::
    "rpc_loc_ni_supl_client_name_s_type xdrproc" where
  "xdr_rpc_loc_ni_supl_client_name_s_type = xdr_all
    [xdr_member rpc_loc_ni_supl_client_name_s_type.data_coding_scheme
       rpc_loc_ni_supl_client_name_s_type.data_coding_scheme_update xdr_u_char,
     xdr_member rpc_loc_ni_supl_client_name_s_type.client_name_string
       rpc_loc_ni_supl_client_name_s_type.client_name_string_update (xdr_opaque 64),
     xdr_member rpc_loc_ni_supl_client_name_s_type.string_len
       rpc_loc_ni_supl_client_name_s_type.string_len_update xdr_u_char]"

definition enc_rpc_loc_ni_supl_client_name_s_type ::
    "rpc_loc_ni_supl_client_name_s_type \<Rightarrow> byte list" where
  "enc_rpc_loc_ni_supl_client_name_s_type v =
     enc_byte (rpc_loc_ni_supl_client_name_s_type.data_coding_scheme v) @
     padded (rpc_loc_ni_supl_client_name_s_type.client_name_string v) @
     enc_byte (rpc_loc_ni_supl_client_name_s_type.string_len v)"

definition wf_rpc_loc_ni_supl_client_name_s_type :: "rpc_loc_ni_supl_client_name_s_type
    \<Rightarrow> bool" where
  "wf_rpc_loc_ni_supl_client_name_s_type v \<longleftrightarrow>
     length (rpc_loc_ni_supl_client_name_s_type.client_name_string v) = 64"

interpretation rpc_loc_ni_supl_client_name_s_type_codec: xdr_safe_codec
    xdr_rpc_loc_ni_supl_client_name_s_type enc_rpc_loc_ni_supl_client_name_s_type
    wf_rpc_loc_ni_supl_client_name_s_type "\<lambda>_. 0" zero_rpc_loc_ni_supl_client_name_s_type
  by (unfold_locales; unfold xdr_rpc_loc_ni_supl_client_name_s_type_def
      enc_rpc_loc_ni_supl_client_name_s_type_def;
      (rule struct_intros codec_enc codec_dec codec_free codec_safe
        | simp add: zero_rpc_loc_ni_supl_client_name_s_type_def
            wf_rpc_loc_ni_supl_client_name_s_type_def)+)

record rpc_loc_ni_supl_qop_s_type =
  bit_mask :: byte
  horacc :: byte
  veracc :: byte
  maxLocAge :: u16
  delay :: byte

definition zero_rpc_loc_ni_supl_qop_s_type :: rpc_loc_ni_supl_qop_s_type where
  "zero_rpc_loc_ni_supl_qop_s_type =
    \<lparr> bit_mask = 0, horacc = 0, veracc = 0,
     maxLocAge = 0, delay = 0\<rparr>"

definition xdr_rpc_loc_ni_supl_qop_s_type ::
    "rpc_loc_ni_supl_qop_s_type xdrproc" where
  "xdr_rpc_loc_ni_supl_qop_s_type = xdr_all
    [xdr_member rpc_loc_ni_supl_qop_s_type.bit_mask
       rpc_loc_ni_supl_qop_s_type.bit_mask_update xdr_u_char,
     xdr_member rpc_loc_ni_supl_qop_s_type.horacc
       rpc_loc_ni_supl_qop_s_type.horacc_update xdr_u_char,
     xdr_member rpc_loc_ni_supl_qop_s_type.veracc
       rpc_loc_ni_supl_qop_s_type.veracc_update xdr_u_char,
     xdr_member rpc_loc_ni_supl_qop_s_type.maxLocAge
       rpc_loc_ni_supl_qop_s_type.maxLocAge_update xdr_rpc_uint16,
     xdr_member rpc_loc_ni_supl_qop_s_type.delay
       rpc_loc_ni_supl_qop_s_type.delay_update xdr_u_char]"

definition enc_rpc_loc_ni_supl_qop_s_type ::
    "rpc_loc_ni_supl_qop_s_type \<Rightarrow> byte list" where
  "enc_rpc_loc_ni_supl_qop_s_type v =
     enc_byte (rpc_loc_ni_supl_qop_s_type.bit_mask v) @
     enc_byte (rpc_loc_ni_supl_qop_s_type.horacc v) @
     enc_byte (rpc_loc_ni_supl_qop_s_type.veracc v) @
     enc_u16 (rpc_loc_ni_supl_qop_s_type.maxLocAge v) @
     enc_byte (rpc_loc_ni_supl_qop_s_type.delay v)"

interpretation rpc_loc_ni_supl_qop_s_type_codec: xdr_safe_codec
    xdr_rpc_loc_ni_supl_qop_s_type enc_rpc_loc_ni_supl_qop_s_type
    "\<lambda>_. True" "\<lambda>_. 0" zero_rpc_loc_ni_supl_qop_s_type
  by (unfold_locales; unfold xdr_rpc_loc_ni_supl_qop_s_type_def enc_rpc_loc_ni_supl_qop_s_type_def;
      (rule struct_intros codec_enc codec_dec codec_free codec_safe
        | simp add: zero_rpc_loc_ni_supl_qop_s_type_def)+)

record rpc_loc_ni_supl_notify_verify_req_s_type =
  notification_priv_type :: u32
  flags :: u16
  supl_slp_session_id :: rpc_loc_ni_supl_slp_session_id_s_type
  supl_hash :: "byte list"
  datacoding_scheme :: u32
  pos_method :: u32
  requestor_id :: rpc_loc_ni_requestor_id_s_type
  client_name :: rpc_loc_ni_supl_client_name_s_type
  supl_qop :: rpc_loc_ni_supl_qop_s_type
  user_response_timer :: u16

definition zero_rpc_loc_ni_supl_notify_verify_req_s_type ::
    rpc_loc_ni_supl_notify_verify_req_s_type where
  "zero_rpc_loc_ni_supl_notify_verify_req_s_type =
    \<lparr> notification_priv_type = 0,
     flags = 0, supl_slp_session_id = zero_rpc_loc_ni_supl_slp_session_id_s_type,
     supl_hash = replicate 8 0, datacoding_scheme = 0, pos_method = 0,
     requestor_id = zero_rpc_loc_ni_requestor_id_s_type,
     client_name = zero_rpc_loc_ni_supl_client_name_s_type,
     supl_qop = zero_rpc_loc_ni_supl_qop_s_type, user_response_timer = 0\<rparr>"

definition xdr_rpc_loc_ni_supl_notify_verify_req_s_type ::
    "rpc_loc_ni_supl_notify_verify_req_s_type xdrproc" where
  "xdr_rpc_loc_ni_supl_notify_verify_req_s_type = xdr_all
    [xdr_member rpc_loc_ni_supl_notify_verify_req_s_type.notification_priv_type
       rpc_loc_ni_supl_notify_verify_req_s_type.notification_priv_type_update
           xdr_rpc_loc_ni_notify_verify_e_type,
     xdr_member rpc_loc_ni_supl_notify_verify_req_s_type.flags
       rpc_loc_ni_supl_notify_verify_req_s_type.flags_update xdr_rpc_uint16,
     xdr_member rpc_loc_ni_supl_notify_verify_req_s_type.supl_slp_session_id
       rpc_loc_ni_supl_notify_verify_req_s_type.supl_slp_session_id_update
           xdr_rpc_loc_ni_supl_slp_session_id_s_type,
     xdr_member rpc_loc_ni_supl_notify_verify_req_s_type.supl_hash
       rpc_loc_ni_supl_notify_verify_req_s_type.supl_hash_update (xdr_opaque 8),
     xdr_member rpc_loc_ni_supl_notify_verify_req_s_type.datacoding_scheme
       rpc_loc_ni_supl_notify_verify_req_s_type.datacoding_scheme_update
           xdr_rpc_loc_ni_datacoding_scheme_e_type,
     xdr_member rpc_loc_ni_supl_notify_verify_req_s_type.pos_method
       rpc_loc_ni_supl_notify_verify_req_s_type.pos_method_update
           xdr_rpc_loc_ni_supl_pos_method_e_type,
     xdr_member rpc_loc_ni_supl_notify_verify_req_s_type.requestor_id
       rpc_loc_ni_supl_notify_verify_req_s_type.requestor_id_update
           xdr_rpc_loc_ni_requestor_id_s_type,
     xdr_member rpc_loc_ni_supl_notify_verify_req_s_type.client_name
       rpc_loc_ni_supl_notify_verify_req_s_type.client_name_update
           xdr_rpc_loc_ni_supl_client_name_s_type,
     xdr_member rpc_loc_ni_supl_notify_verify_req_s_type.supl_qop
       rpc_loc_ni_supl_notify_verify_req_s_type.supl_qop_update xdr_rpc_loc_ni_supl_qop_s_type,
     xdr_member rpc_loc_ni_supl_notify_verify_req_s_type.user_response_timer
       rpc_loc_ni_supl_notify_verify_req_s_type.user_response_timer_update xdr_rpc_uint16]"

definition enc_rpc_loc_ni_supl_notify_verify_req_s_type ::
    "rpc_loc_ni_supl_notify_verify_req_s_type \<Rightarrow> byte list" where
  "enc_rpc_loc_ni_supl_notify_verify_req_s_type v =
     enc_u32 (rpc_loc_ni_supl_notify_verify_req_s_type.notification_priv_type v) @
     enc_u16 (rpc_loc_ni_supl_notify_verify_req_s_type.flags v) @
     enc_rpc_loc_ni_supl_slp_session_id_s_type
         (rpc_loc_ni_supl_notify_verify_req_s_type.supl_slp_session_id v) @
     padded (rpc_loc_ni_supl_notify_verify_req_s_type.supl_hash v) @
     enc_u32 (rpc_loc_ni_supl_notify_verify_req_s_type.datacoding_scheme v) @
     enc_u32 (rpc_loc_ni_supl_notify_verify_req_s_type.pos_method v) @
     enc_rpc_loc_ni_requestor_id_s_type (rpc_loc_ni_supl_notify_verify_req_s_type.requestor_id v) @
     enc_rpc_loc_ni_supl_client_name_s_type (rpc_loc_ni_supl_notify_verify_req_s_type.client_name
         v) @
     enc_rpc_loc_ni_supl_qop_s_type (rpc_loc_ni_supl_notify_verify_req_s_type.supl_qop v) @
     enc_u16 (rpc_loc_ni_supl_notify_verify_req_s_type.user_response_timer v)"

definition wf_rpc_loc_ni_supl_notify_verify_req_s_type :: "rpc_loc_ni_supl_notify_verify_req_s_type
    \<Rightarrow> bool" where
  "wf_rpc_loc_ni_supl_notify_verify_req_s_type v \<longleftrightarrow>
     wf_rpc_loc_ni_supl_slp_session_id_s_type
         (rpc_loc_ni_supl_notify_verify_req_s_type.supl_slp_session_id v) \<and>
     length (rpc_loc_ni_supl_notify_verify_req_s_type.supl_hash v) = 8 \<and>
     wf_rpc_loc_ni_requestor_id_s_type (rpc_loc_ni_supl_notify_verify_req_s_type.requestor_id v)
         \<and>
     wf_rpc_loc_ni_supl_client_name_s_type (rpc_loc_ni_supl_notify_verify_req_s_type.client_name v)"

interpretation rpc_loc_ni_supl_notify_verify_req_s_type_codec: xdr_safe_codec
    xdr_rpc_loc_ni_supl_notify_verify_req_s_type enc_rpc_loc_ni_supl_notify_verify_req_s_type
    wf_rpc_loc_ni_supl_notify_verify_req_s_type "\<lambda>_. 0"
        zero_rpc_loc_ni_supl_notify_verify_req_s_type
  by (unfold_locales; unfold xdr_rpc_loc_ni_supl_notify_verify_req_s_type_def
      enc_rpc_loc_ni_supl_notify_verify_req_s_type_def;
      (rule struct_intros codec_enc codec_dec codec_free codec_safe
        | simp add: zero_rpc_loc_ni_supl_notify_verify_req_s_type_def
            wf_rpc_loc_ni_supl_notify_verify_req_s_type_def)+)

record rpc_loc_ni_ext_client_address_s_type =
  ext_client_address_len :: byte
  ext_client_address :: "byte list"

definition zero_rpc_loc_ni_ext_client_address_s_type :: rpc_loc_ni_ext_client_address_s_type where
  "zero_rpc_loc_ni_ext_client_address_s_type =
    \<lparr> ext_client_address_len = 0,
     ext_client_address = replicate 20 0\<rparr>"

definition xdr_rpc_loc_ni_ext_client_address_s_type ::
    "rpc_loc_ni_ext_client_address_s_type xdrproc" where
  "xdr_rpc_loc_ni_ext_client_address_s_type = xdr_all
    [xdr_member rpc_loc_ni_ext_client_address_s_type.ext_client_address_len
       rpc_loc_ni_ext_client_address_s_type.ext_client_address_len_update xdr_u_char,
     xdr_member rpc_loc_ni_ext_client_address_s_type.ext_client_address
       rpc_loc_ni_ext_client_address_s_type.ext_client_address_update (xdr_opaque 20)]"

definition enc_rpc_loc_ni_ext_client_address_s_type ::
    "rpc_loc_ni_ext_client_address_s_type \<Rightarrow> byte list" where
  "enc_rpc_loc_ni_ext_client_address_s_type v =
     enc_byte (rpc_loc_ni_ext_client_address_s_type.ext_client_address_len v) @
     padded (rpc_loc_ni_ext_client_address_s_type.ext_client_address v)"

definition wf_rpc_loc_ni_ext_client_address_s_type :: "rpc_loc_ni_ext_client_address_s_type
    \<Rightarrow> bool" where
  "wf_rpc_loc_ni_ext_client_address_s_type v \<longleftrightarrow>
     length (rpc_loc_ni_ext_client_address_s_type.ext_client_address v) = 20"

interpretation rpc_loc_ni_ext_client_address_s_type_codec: xdr_safe_codec
    xdr_rpc_loc_ni_ext_client_address_s_type enc_rpc_loc_ni_ext_client_address_s_type
    wf_rpc_loc_ni_ext_client_address_s_type "\<lambda>_. 0"
        zero_rpc_loc_ni_ext_client_address_s_type
  by (unfold_locales; unfold xdr_rpc_loc_ni_ext_client_address_s_type_def
      enc_rpc_loc_ni_ext_client_address_s_type_def;
      (rule struct_intros codec_enc codec_dec codec_free codec_safe
        | simp add: zero_rpc_loc_ni_ext_client_address_s_type_def
            wf_rpc_loc_ni_ext_client_address_s_type_def)+)

definition xdr_rpc_loc_ni_location_type_e_type :: "u32 xdrproc" where
  "xdr_rpc_loc_ni_location_type_e_type = xdr_all [xdr_enum]"

interpretation rpc_loc_ni_location_type_e_type_codec: xdr_safe_codec
    xdr_rpc_loc_ni_location_type_e_type enc_u32 "\<lambda>_. True" "\<lambda>_. 0" 0
  by (unfold_locales; unfold xdr_rpc_loc_ni_location_type_e_type_def;
      intro wrap_intros codec_enc codec_dec codec_free codec_safe; simp)

record rpc_loc_ni_deferred_location_s_type =
  unused_bits :: byte
  ms_available :: byte

definition zero_rpc_loc_ni_deferred_location_s_type :: rpc_loc_ni_deferred_location_s_type where
  "zero_rpc_loc_ni_deferred_location_s_type =
    \<lparr> unused_bits = 0, ms_available = 0\<rparr>"

definition xdr_rpc_loc_ni_deferred_location_s_type ::
    "rpc_loc_ni_deferred_location_s_type xdrproc" where
  "xdr_rpc_loc_ni_deferred_location_s_type = xdr_all
    [xdr_member rpc_loc_ni_deferred_location_s_type.unused_bits
       rpc_loc_ni_deferred_location_s_type.unused_bits_update xdr_u_char,
     xdr_member rpc_loc_ni_deferred_location_s_type.ms_available
       rpc_loc_ni_deferred_location_s_type.ms_available_update xdr_u_char]"

definition enc_rpc_loc_ni_deferred_location_s_type ::
    "rpc_loc_ni_deferred_location_s_type \<Rightarrow> byte list" where
  "enc_rpc_loc_ni_deferred_location_s_type v =
     enc_byte (rpc_loc_ni_deferred_location_s_type.unused_bits v) @
     enc_byte (rpc_loc_ni_deferred_location_s_type.ms_available v)"

interpretation rpc_loc_ni_deferred_location_s_type_codec: xdr_safe_codec
    xdr_rpc_loc_ni_deferred_location_s_type enc_rpc_loc_ni_deferred_location_s_type
    "\<lambda>_. True" "\<lambda>_. 0" zero_rpc_loc_ni_deferred_location_s_type
  by (unfold_locales; unfold xdr_rpc_loc_ni_deferred_location_s_type_def
      enc_rpc_loc_ni_deferred_location_s_type_def;
      (rule struct_intros codec_enc codec_dec codec_free codec_safe
        | simp add: zero_rpc_loc_ni_deferred_location_s_type_def)+)

record rpc_loc_ni_codeword_string_s_type =
  data_coding_scheme :: byte
  lcs_codeword_string :: "byte list"
  string_len :: byte

definition zero_rpc_loc_ni_codeword_string_s_type :: rpc_loc_ni_codeword_string_s_type where
  "zero_rpc_loc_ni_codeword_string_s_type =
    \<lparr> data_coding_scheme = 0,
     lcs_codeword_string = replicate 20 0, string_len = 0\<rparr>"

definition xdr_rpc_loc_ni_codeword_string_s_type ::
    "rpc_loc_ni_codeword_string_s_type xdrproc" where
  "xdr_rpc_loc_ni_codeword_string_s_type = xdr_all
    [xdr_member rpc_loc_ni_codeword_string_s_type.data_coding_scheme
       rpc_loc_ni_codeword_string_s_type.data_coding_scheme_update xdr_u_char,
     xdr_member rpc_loc_ni_codeword_string_s_type.lcs_codeword_string
       rpc_loc_ni_codeword_string_s_type.lcs_codeword_string_update (xdr_opaque 20),
     xdr_member rpc_loc_ni_codeword_string_s_type.string_len
       rpc_loc_ni_codeword_string_s_type.string_len_update xdr_u_char]"

definition enc_rpc_loc_ni_codeword_string_s_type ::
    "rpc_loc_ni_codeword_string_s_type \<Rightarrow> byte list" where
  "enc_rpc_loc_ni_codeword_string_s_type v =
     enc_byte (rpc_loc_ni_codeword_string_s_type.data_coding_scheme v) @
     padded (rpc_loc_ni_codeword_string_s_type.lcs_codeword_string v) @
     enc_byte (rpc_loc_ni_codeword_string_s_type.string_len v)"

definition wf_rpc_loc_ni_codeword_string_s_type :: "rpc_loc_ni_codeword_string_s_type \<Rightarrow>
    bool" where
  "wf_rpc_loc_ni_codeword_string_s_type v \<longleftrightarrow>
     length (rpc_loc_ni_codeword_string_s_type.lcs_codeword_string v) = 20"

interpretation rpc_loc_ni_codeword_string_s_type_codec: xdr_safe_codec
    xdr_rpc_loc_ni_codeword_string_s_type enc_rpc_loc_ni_codeword_string_s_type
    wf_rpc_loc_ni_codeword_string_s_type "\<lambda>_. 0" zero_rpc_loc_ni_codeword_string_s_type
  by (unfold_locales; unfold xdr_rpc_loc_ni_codeword_string_s_type_def
      enc_rpc_loc_ni_codeword_string_s_type_def;
      (rule struct_intros codec_enc codec_dec codec_free codec_safe
        | simp add: zero_rpc_loc_ni_codeword_string_s_type_def
            wf_rpc_loc_ni_codeword_string_s_type_def)+)

record rpc_loc_ni_service_type_id_s_type =
  lcs_service_type_id :: byte

definition zero_rpc_loc_ni_service_type_id_s_type :: rpc_loc_ni_service_type_id_s_type where
  "zero_rpc_loc_ni_service_type_id_s_type =
    \<lparr> lcs_service_type_id = 0\<rparr>"

definition xdr_rpc_loc_ni_service_type_id_s_type ::
    "rpc_loc_ni_service_type_id_s_type xdrproc" where
  "xdr_rpc_loc_ni_service_type_id_s_type = xdr_all
    [xdr_member rpc_loc_ni_service_type_id_s_type.lcs_service_type_id
       rpc_loc_ni_service_type_id_s_type.lcs_service_type_id_update xdr_u_char]"

definition enc_rpc_loc_ni_service_type_id_s_type ::
    "rpc_loc_ni_service_type_id_s_type \<Rightarrow> byte list" where
  "enc_rpc_loc_ni_service_type_id_s_type v =
     enc_byte (rpc_loc_ni_service_type_id_s_type.lcs_service_type_id v)"

interpretation rpc_loc_ni_service_type_id_s_type_codec: xdr_safe_codec
    xdr_rpc_loc_ni_service_type_id_s_type enc_rpc_loc_ni_service_type_id_s_type
    "\<lambda>_. True" "\<lambda>_. 0" zero_rpc_loc_ni_service_type_id_s_type
  by (unfold_locales; unfold xdr_rpc_loc_ni_service_type_id_s_type_def
      enc_rpc_loc_ni_service_type_id_s_type_def;
      (rule struct_intros codec_enc codec_dec codec_free codec_safe
        | simp add: zero_rpc_loc_ni_service_type_id_s_type_def)+)

record rpc_loc_ni_umts_cp_notify_verify_req_s_type =
  notification_priv_type :: u32
  invoke_id :: byte
  flags :: u16
  notification_length :: byte
  notification_text :: "byte list"
  datacoding_scheme :: u32
  ext_client_address_data :: rpc_loc_ni_ext_client_address_s_type
  location_type :: u32
  deferred_location :: rpc_loc_ni_deferred_location_s_type
  requestor_id :: rpc_loc_ni_requestor_id_s_type
  codeword_string :: rpc_loc_ni_codeword_string_s_type
  service_type_id :: rpc_loc_ni_service_type_id_s_type
  user_response_timer :: u16

definition zero_rpc_loc_ni_umts_cp_notify_verify_req_s_type ::
    rpc_loc_ni_umts_cp_notify_verify_req_s_type where
  "zero_rpc_loc_ni_umts_cp_notify_verify_req_s_type =
    \<lparr> notification_priv_type = 0,
     invoke_id = 0, flags = 0, notification_length = 0, notification_text = replicate 64 0,
     datacoding_scheme = 0, ext_client_address_data = zero_rpc_loc_ni_ext_client_address_s_type,
     location_type = 0, deferred_location = zero_rpc_loc_ni_deferred_location_s_type,
     requestor_id = zero_rpc_loc_ni_requestor_id_s_type,
     codeword_string = zero_rpc_loc_ni_codeword_string_s_type,
     service_type_id = zero_rpc_loc_ni_service_type_id_s_type, user_response_timer = 0\<rparr>"

definition xdr_rpc_loc_ni_umts_cp_notify_verify_req_s_type ::
    "rpc_loc_ni_umts_cp_notify_verify_req_s_type xdrproc" where
  "xdr_rpc_loc_ni_umts_cp_notify_verify_req_s_type = xdr_all
    [xdr_member rpc_loc_ni_umts_cp_notify_verify_req_s_type.notification_priv_type
       rpc_loc_ni_umts_cp_notify_verify_req_s_type.notification_priv_type_update
           xdr_rpc_loc_ni_notify_verify_e_type,
     xdr_member rpc_loc_ni_umts_cp_notify_verify_req_s_type.invoke_id
       rpc_loc_ni_umts_cp_notify_verify_req_s_type.invoke_id_update xdr_u_char,
     xdr_member rpc_loc_ni_umts_cp_notify_verify_req_s_type.flags
       rpc_loc_ni_umts_cp_notify_verify_req_s_type.flags_update xdr_rpc_uint16,
     xdr_member rpc_loc_ni_umts_cp_notify_verify_req_s_type.notification_length
       rpc_loc_ni_umts_cp_notify_verify_req_s_type.notification_length_update xdr_u_char,
     xdr_member rpc_loc_ni_umts_cp_notify_verify_req_s_type.notification_text
       rpc_loc_ni_umts_cp_notify_verify_req_s_type.notification_text_update (xdr_opaque 64),
     xdr_member rpc_loc_ni_umts_cp_notify_verify_req_s_type.datacoding_scheme
       rpc_loc_ni_umts_cp_notify_verify_req_s_type.datacoding_scheme_update
           xdr_rpc_loc_ni_datacoding_scheme_e_type,
     xdr_member rpc_loc_ni_umts_cp_notify_verify_req_s_type.ext_client_address_data
       rpc_loc_ni_umts_cp_notify_verify_req_s_type.ext_client_address_data_update
           xdr_rpc_loc_ni_ext_client_address_s_type,
     xdr_member rpc_loc_ni_umts_cp_notify_verify_req_s_type.location_type
       rpc_loc_ni_umts_cp_notify_verify_req_s_type.location_type_update
           xdr_rpc_loc_ni_location_type_e_type,
     xdr_member rpc_loc_ni_umts_cp_notify_verify_req_s_type.deferred_location
       rpc_loc_ni_umts_cp_notify_verify_req_s_type.deferred_location_update
           xdr_rpc_loc_ni_deferred_location_s_type,
     xdr_member rpc_loc_ni_umts_cp_notify_verify_req_s_type.requestor_id
       rpc_loc_ni_umts_cp_notify_verify_req_s_type.requestor_id_update
           xdr_rpc_loc_ni_requestor_id_s_type,
     xdr_member rpc_loc_ni_umts_cp_notify_verify_req_s_type.codeword_string
       rpc_loc_ni_umts_cp_notify_verify_req_s_type.codeword_string_update
           xdr_rpc_loc_ni_codeword_string_s_type,
     xdr_member rpc_loc_ni_umts_cp_notify_verify_req_s_type.service_type_id
       rpc_loc_ni_umts_cp_notify_verify_req_s_type.service_type_id_update
           xdr_rpc_loc_ni_service_type_id_s_type,
     xdr_member rpc_loc_ni_umts_cp_notify_verify_req_s_type.user_response_timer
       rpc_loc_ni_umts_cp_notify_verify_req_s_type.user_response_timer_update xdr_rpc_uint16]"

definition enc_rpc_loc_ni_umts_cp_notify_verify_req_s_type ::
    "rpc_loc_ni_umts_cp_notify_verify_req_s_type \<Rightarrow> byte list" where
  "enc_rpc_loc_ni_umts_cp_notify_verify_req_s_type v =
     enc_u32 (rpc_loc_ni_umts_cp_notify_verify_req_s_type.notification_priv_type v) @
     enc_byte (rpc_loc_ni_umts_cp_notify_verify_req_s_type.invoke_id v) @
     enc_u16 (rpc_loc_ni_umts_cp_notify_verify_req_s_type.flags v) @
     enc_byte (rpc_loc_ni_umts_cp_notify_verify_req_s_type.notification_length v) @
     padded (rpc_loc_ni_umts_cp_notify_verify_req_s_type.notification_text v) @
     enc_u32 (rpc_loc_ni_umts_cp_notify_verify_req_s_type.datacoding_scheme v) @
     enc_rpc_loc_ni_ext_client_address_s_type
         (rpc_loc_ni_umts_cp_notify_verify_req_s_type.ext_client_address_data v) @
     enc_u32 (rpc_loc_ni_umts_cp_notify_verify_req_s_type.location_type v) @
     enc_rpc_loc_ni_deferred_location_s_type
         (rpc_loc_ni_umts_cp_notify_verify_req_s_type.deferred_location v) @
     enc_rpc_loc_ni_requestor_id_s_type (rpc_loc_ni_umts_cp_notify_verify_req_s_type.requestor_id
         v) @
     enc_rpc_loc_ni_codeword_string_s_type
         (rpc_loc_ni_umts_cp_notify_verify_req_s_type.codeword_string v) @
     enc_rpc_loc_ni_service_type_id_s_type
         (rpc_loc_ni_umts_cp_notify_verify_req_s_type.service_type_id v) @
     enc_u16 (rpc_loc_ni_umts_cp_notify_verify_req_s_type.user_response_timer v)"

definition wf_rpc_loc_ni_umts_cp_notify_verify_req_s_type ::
    "rpc_loc_ni_umts_cp_notify_verify_req_s_type \<Rightarrow> bool" where
  "wf_rpc_loc_ni_umts_cp_notify_verify_req_s_type v \<longleftrightarrow>
     length (rpc_loc_ni_umts_cp_notify_verify_req_s_type.notification_text v) = 64 \<and>
     wf_rpc_loc_ni_ext_client_address_s_type
         (rpc_loc_ni_umts_cp_notify_verify_req_s_type.ext_client_address_data v) \<and>
     wf_rpc_loc_ni_requestor_id_s_type (rpc_loc_ni_umts_cp_notify_verify_req_s_type.requestor_id v)
         \<and>
     wf_rpc_loc_ni_codeword_string_s_type
         (rpc_loc_ni_umts_cp_notify_verify_req_s_type.codeword_string v)"

interpretation rpc_loc_ni_umts_cp_notify_verify_req_s_type_codec: xdr_safe_codec
    xdr_rpc_loc_ni_umts_cp_notify_verify_req_s_type enc_rpc_loc_ni_umts_cp_notify_verify_req_s_type
    wf_rpc_loc_ni_umts_cp_notify_verify_req_s_type "\<lambda>_. 0"
        zero_rpc_loc_ni_umts_cp_notify_verify_req_s_type
  by (unfold_locales; unfold xdr_rpc_loc_ni_umts_cp_notify_verify_req_s_type_def
      enc_rpc_loc_ni_umts_cp_notify_verify_req_s_type_def;
      (rule struct_intros codec_enc codec_dec codec_free codec_safe
        | simp add: zero_rpc_loc_ni_umts_cp_notify_verify_req_s_type_def
            wf_rpc_loc_ni_umts_cp_notify_verify_req_s_type_def)+)

definition xdr_rpc_loc_ni_service_interaction_e_type :: "u32 xdrproc" where
  "xdr_rpc_loc_ni_service_interaction_e_type = xdr_all [xdr_enum]"

interpretation rpc_loc_ni_service_interaction_e_type_codec: xdr_safe_codec
    xdr_rpc_loc_ni_service_interaction_e_type enc_u32 "\<lambda>_. True" "\<lambda>_. 0" 0
  by (unfold_locales; unfold xdr_rpc_loc_ni_service_interaction_e_type_def;
      intro wrap_intros codec_enc codec_dec codec_free codec_safe; simp)

record rpc_loc_ni_vx_service_interaction_req_s_type =
  ni_vx_req :: rpc_loc_ni_vx_notify_verify_req_s_type
  service_interation_type :: u32

definition zero_rpc_loc_ni_vx_service_interaction_req_s_type ::
    rpc_loc_ni_vx_service_interaction_req_s_type where
  "zero_rpc_loc_ni_vx_service_interaction_req_s_type =
    \<lparr>
     ni_vx_req = zero_rpc_loc_ni_vx_notify_verify_req_s_type, service_interation_type = 0\<rparr>"

definition xdr_rpc_loc_ni_vx_service_interaction_req_s_type ::
    "rpc_loc_ni_vx_service_interaction_req_s_type xdrproc" where
  "xdr_rpc_loc_ni_vx_service_interaction_req_s_type = xdr_all
    [xdr_member rpc_loc_ni_vx_service_interaction_req_s_type.ni_vx_req
       rpc_loc_ni_vx_service_interaction_req_s_type.ni_vx_req_update
           xdr_rpc_loc_ni_vx_notify_verify_req_s_type,
     xdr_member rpc_loc_ni_vx_service_interaction_req_s_type.service_interation_type
       rpc_loc_ni_vx_service_interaction_req_s_type.service_interation_type_update
           xdr_rpc_loc_ni_service_interaction_e_type]"

definition enc_rpc_loc_ni_vx_service_interaction_req_s_type ::
    "rpc_loc_ni_vx_service_interaction_req_s_type \<Rightarrow> byte list" where
  "enc_rpc_loc_ni_vx_service_interaction_req_s_type v =
     enc_rpc_loc_ni_vx_notify_verify_req_s_type
         (rpc_loc_ni_vx_service_interaction_req_s_type.ni_vx_req v) @
     enc_u32 (rpc_loc_ni_vx_service_interaction_req_s_type.service_interation_type v)"

definition wf_rpc_loc_ni_vx_service_interaction_req_s_type ::
    "rpc_loc_ni_vx_service_interaction_req_s_type \<Rightarrow> bool" where
  "wf_rpc_loc_ni_vx_service_interaction_req_s_type v \<longleftrightarrow>
     wf_rpc_loc_ni_vx_notify_verify_req_s_type
         (rpc_loc_ni_vx_service_interaction_req_s_type.ni_vx_req v)"

interpretation rpc_loc_ni_vx_service_interaction_req_s_type_codec: xdr_safe_codec
    xdr_rpc_loc_ni_vx_service_interaction_req_s_type
        enc_rpc_loc_ni_vx_service_interaction_req_s_type
    wf_rpc_loc_ni_vx_service_interaction_req_s_type "\<lambda>_. 0"
        zero_rpc_loc_ni_vx_service_interaction_req_s_type
  by (unfold_locales; unfold xdr_rpc_loc_ni_vx_service_interaction_req_s_type_def
      enc_rpc_loc_ni_vx_service_interaction_req_s_type_def;
      (rule struct_intros codec_enc codec_dec codec_free codec_safe
        | simp add: zero_rpc_loc_ni_vx_service_interaction_req_s_type_def
            wf_rpc_loc_ni_vx_service_interaction_req_s_type_def)+)

definition RPC_LOC_NI_EVENT_VX_NOTIFY_VERIFY_REQ :: u32 where [loc_consts]:
    "RPC_LOC_NI_EVENT_VX_NOTIFY_VERIFY_REQ = 1"

definition RPC_LOC_NI_EVENT_SUPL_NOTIFY_VERIFY_REQ :: u32 where [loc_consts]:
    "RPC_LOC_NI_EVENT_SUPL_NOTIFY_VERIFY_REQ = 2"

definition RPC_LOC_NI_EVENT_UMTS_CP_NOTIFY_VERIFY_REQ :: u32 where [loc_consts]:
    "RPC_LOC_NI_EVENT_UMTS_CP_NOTIFY_VERIFY_REQ = 3"

definition RPC_LOC_NI_EVENT_VX_SERVICE_INTERACTION_REQ :: u32 where [loc_consts]:
    "RPC_LOC_NI_EVENT_VX_SERVICE_INTERACTION_REQ = 4"

datatype rpc_loc_ni_event_payload_u_type_u =
    ni_event_payload_blank
  | ni_event_payload_vx_req rpc_loc_ni_vx_notify_verify_req_s_type
  | ni_event_payload_supl_req rpc_loc_ni_supl_notify_verify_req_s_type
  | ni_event_payload_umts_cp_req rpc_loc_ni_umts_cp_notify_verify_req_s_type
  | ni_event_payload_service_interaction_req rpc_loc_ni_vx_service_interaction_req_s_type

type_synonym rpc_loc_ni_event_payload_u_type = "(u32, rpc_loc_ni_event_payload_u_type_u) tagged"

definition zero_rpc_loc_ni_event_payload_u_type :: rpc_loc_ni_event_payload_u_type where
  "zero_rpc_loc_ni_event_payload_u_type = \<lparr>disc = 0, arm = ni_event_payload_blank\<rparr>"

definition xdr_rpc_loc_ni_event_payload_u_type_switch :: "rpc_loc_ni_event_payload_u_type
    \<Rightarrow> rpc_loc_ni_event_payload_u_type xdrproc" where
  "xdr_rpc_loc_ni_event_payload_u_type_switch obj =
     (if disc obj = RPC_LOC_NI_EVENT_VX_NOTIFY_VERIFY_REQ
      then xdr_arm (\<lambda>a. case a of ni_event_payload_vx_req w \<Rightarrow> Some w | _
          \<Rightarrow> None) ni_event_payload_vx_req
             ni_event_payload_blank zero_rpc_loc_ni_vx_notify_verify_req_s_type
                 xdr_rpc_loc_ni_vx_notify_verify_req_s_type
      else if disc obj = RPC_LOC_NI_EVENT_SUPL_NOTIFY_VERIFY_REQ
      then xdr_arm (\<lambda>a. case a of ni_event_payload_supl_req w \<Rightarrow> Some w | _
          \<Rightarrow> None) ni_event_payload_supl_req
             ni_event_payload_blank zero_rpc_loc_ni_supl_notify_verify_req_s_type
                 xdr_rpc_loc_ni_supl_notify_verify_req_s_type
      else if disc obj = RPC_LOC_NI_EVENT_UMTS_CP_NOTIFY_VERIFY_REQ
      then xdr_arm (\<lambda>a. case a of ni_event_payload_umts_cp_req w \<Rightarrow> Some w | _
          \<Rightarrow> None) ni_event_payload_umts_cp_req
             ni_event_payload_blank zero_rpc_loc_ni_umts_cp_notify_verify_req_s_type
                 xdr_rpc_loc_ni_umts_cp_notify_verify_req_s_type
      else if disc obj = RPC_LOC_NI_EVENT_VX_SERVICE_INTERACTION_REQ
      then xdr_arm (\<lambda>a. case a of ni_event_payload_service_interaction_req w \<Rightarrow>
          Some w | _ \<Rightarrow> None) ni_event_payload_service_interaction_req
             ni_event_payload_blank zero_rpc_loc_ni_vx_service_interaction_req_s_type
                 xdr_rpc_loc_ni_vx_service_interaction_req_s_type
      else xdr_all [])"

definition xdr_rpc_loc_ni_event_payload_u_type :: "rpc_loc_ni_event_payload_u_type xdrproc" where
  "xdr_rpc_loc_ni_event_payload_u_type = xdr_all [xdr_member disc disc_update
      xdr_rpc_loc_ni_event_e_type, xdr_switch xdr_rpc_loc_ni_event_payload_u_type_switch]"

definition enc_rpc_loc_ni_event_payload_u_type_u :: "rpc_loc_ni_event_payload_u_type_u
    \<Rightarrow> byte list" where
  "enc_rpc_loc_ni_event_payload_u_type_u a =
     (case a of
        ni_event_payload_blank \<Rightarrow> []
      | ni_event_payload_vx_req w \<Rightarrow> enc_rpc_loc_ni_vx_notify_verify_req_s_type w
      | ni_event_payload_supl_req w \<Rightarrow> enc_rpc_loc_ni_supl_notify_verify_req_s_type w
      | ni_event_payload_umts_cp_req w \<Rightarrow>
          enc_rpc_loc_ni_umts_cp_notify_verify_req_s_type w
      | ni_event_payload_service_interaction_req w \<Rightarrow>
          enc_rpc_loc_ni_vx_service_interaction_req_s_type w)"

definition enc_rpc_loc_ni_event_payload_u_type :: "rpc_loc_ni_event_payload_u_type \<Rightarrow>
    byte list" where
  "enc_rpc_loc_ni_event_payload_u_type v = enc_u32 (disc v) @ enc_rpc_loc_ni_event_payload_u_type_u
      (arm v)"

definition wf_rpc_loc_ni_event_payload_u_type :: "rpc_loc_ni_event_payload_u_type \<Rightarrow>
    bool" where
  "wf_rpc_loc_ni_event_payload_u_type v =
     (case arm v of
        ni_event_payload_blank \<Rightarrow> disc v \<notin> {RPC_LOC_NI_EVENT_VX_NOTIFY_VERIFY_REQ,
          RPC_LOC_NI_EVENT_SUPL_NOTIFY_VERIFY_REQ,
          RPC_LOC_NI_EVENT_UMTS_CP_NOTIFY_VERIFY_REQ,
          RPC_LOC_NI_EVENT_VX_SERVICE_INTERACTION_REQ}
      | ni_event_payload_vx_req w \<Rightarrow> disc v = RPC_LOC_NI_EVENT_VX_NOTIFY_VERIFY_REQ
          \<and> wf_rpc_loc_ni_vx_notify_verify_req_s_type w
      | ni_event_payload_supl_req w \<Rightarrow> disc v = RPC_LOC_NI_EVENT_SUPL_NOTIFY_VERIFY_REQ
          \<and> wf_rpc_loc_ni_supl_notify_verify_req_s_type w
      | ni_event_payload_umts_cp_req w \<Rightarrow> disc v =
          RPC_LOC_NI_EVENT_UMTS_CP_NOTIFY_VERIFY_REQ \<and>
              wf_rpc_loc_ni_umts_cp_notify_verify_req_s_type w
      | ni_event_payload_service_interaction_req w \<Rightarrow> disc v =
          RPC_LOC_NI_EVENT_VX_SERVICE_INTERACTION_REQ \<and>
              wf_rpc_loc_ni_vx_service_interaction_req_s_type w)"

lemma rpc_loc_ni_event_payload_u_type_arms:
  "wf_rpc_loc_ni_event_payload_u_type v 
    \<Longrightarrow> menc (xdr_rpc_loc_ni_event_payload_u_type_switch v) v
        (enc_rpc_loc_ni_event_payload_u_type_u (arm v))"
  "wf_rpc_loc_ni_event_payload_u_type v \<Longrightarrow> arm obj = ni_event_payload_blank
      \<Longrightarrow> disc obj = disc v
    \<Longrightarrow> mdec (xdr_rpc_loc_ni_event_payload_u_type_switch obj) obj v
          (enc_rpc_loc_ni_event_payload_u_type_u (arm v)) (0)"
  "wf_rpc_loc_ni_event_payload_u_type v
    \<Longrightarrow> mfree (xdr_rpc_loc_ni_event_payload_u_type_switch v) v (0)"
  by (cases "arm v"; auto simp: xdr_rpc_loc_ni_event_payload_u_type_switch_def
      wf_rpc_loc_ni_event_payload_u_type_def
      enc_rpc_loc_ni_event_payload_u_type_u_def loc_consts
      intro!: arm_intros codec_enc codec_dec codec_free)+

lemma rpc_loc_ni_event_payload_u_type_arms_safe:
  "arm obj = ni_event_payload_blank \<Longrightarrow> msafe
      (xdr_rpc_loc_ni_event_payload_u_type_switch obj) obj"
  unfolding xdr_rpc_loc_ni_event_payload_u_type_switch_def
  by (rule msafe_if msafe_arm msafe_Nil codec_safe refl | assumption)+

interpretation rpc_loc_ni_event_payload_u_type_codec: xdr_safe_codec
    xdr_rpc_loc_ni_event_payload_u_type enc_rpc_loc_ni_event_payload_u_type
    wf_rpc_loc_ni_event_payload_u_type "\<lambda>_. 0" zero_rpc_loc_ni_event_payload_u_type
  by (unfold_locales; unfold xdr_rpc_loc_ni_event_payload_u_type_def
      enc_rpc_loc_ni_event_payload_u_type_def;
      (rule union_intros rpc_loc_ni_event_payload_u_type_arms
        rpc_loc_ni_event_payload_u_type_arms_safe
        codec_enc codec_dec codec_free codec_safe
        | simp add: zero_rpc_loc_ni_event_payload_u_type_def)+)

record rpc_loc_ni_event_s_type =
  event :: u32
  payload :: rpc_loc_ni_event_payload_u_type

definition zero_rpc_loc_ni_event_s_type :: rpc_loc_ni_event_s_type where
  "zero_rpc_loc_ni_event_s_type =
    \<lparr> event = 0,
     payload = zero_rpc_loc_ni_event_payload_u_type\<rparr>"

definition xdr_rpc_loc_ni_event_s_type ::
    "rpc_loc_ni_event_s_type xdrproc" where
  "xdr_rpc_loc_ni_event_s_type = xdr_all
    [xdr_member rpc_loc_ni_event_s_type.event
       rpc_loc_ni_event_s_type.event_update xdr_rpc_loc_ni_event_e_type,
     xdr_member rpc_loc_ni_event_s_type.payload
       rpc_loc_ni_event_s_type.payload_update xdr_rpc_loc_ni_event_payload_u_type]"

definition enc_rpc_loc_ni_event_s_type ::
    "rpc_loc_ni_event_s_type \<Rightarrow> byte list" where
  "enc_rpc_loc_ni_event_s_type v =
     enc_u32 (rpc_loc_ni_event_s_type.event v) @
     enc_rpc_loc_ni_event_payload_u_type (rpc_loc_ni_event_s_type.payload v)"

definition wf_rpc_loc_ni_event_s_type :: "rpc_loc_ni_event_s_type \<Rightarrow> bool" where
  "wf_rpc_loc_ni_event_s_type v \<longleftrightarrow>
     wf_rpc_loc_ni_event_payload_u_type (rpc_loc_ni_event_s_type.payload v)"

interpretation rpc_loc_ni_event_s_type_codec: xdr_safe_codec
    xdr_rpc_loc_ni_event_s_type enc_rpc_loc_ni_event_s_type
    wf_rpc_loc_ni_event_s_type "\<lambda>_. 0" zero_rpc_loc_ni_event_s_type
  by (unfold_locales; unfold xdr_rpc_loc_ni_event_s_type_def enc_rpc_loc_ni_event_s_type_def;
      (rule struct_intros codec_enc codec_dec codec_free codec_safe
        | simp add: zero_rpc_loc_ni_event_s_type_def wf_rpc_loc_ni_event_s_type_def)+)

end
