(* ===== verification/LocApiIoctl.thy ===== *)
theory LocApiIoctl
  imports LocApiNi
begin

text \<open>
  Third part of gen-50000/loc_api_common_xdr.c: assistance data, server requests, the ioctl
  arguments and answers, and the event payload that a callback carries.
\<close>

definition xdr_rpc_loc_assist_data_request_e_type :: "u32 xdrproc" where
  "xdr_rpc_loc_assist_data_request_e_type = xdr_all [xdr_enum]"

interpretation rpc_loc_assist_data_request_e_type_codec: xdr_safe_codec
    xdr_rpc_loc_assist_data_request_e_type enc_u32 "\<lambda>_. True" "\<lambda>_. 0" 0
  by (unfold_locales; unfold xdr_rpc_loc_assist_data_request_e_type_def;
      intro wrap_intros codec_enc codec_dec codec_free codec_safe; simp)

lemma keeps_rpc_loc_assist_data_request_e_type [codec_free]: "keeps
    xdr_rpc_loc_assist_data_request_e_type"
  unfolding xdr_rpc_loc_assist_data_request_e_type_def by (intro keeps_single codec_free)

definition xdr_rpc_struct_loc_time_download_source_s_type_servers_ptr :: "byte list option xdrproc"
    where
  "xdr_rpc_struct_loc_time_download_source_s_type_servers_ptr = xdr_all [xdr_string 256]"

interpretation rpc_struct_loc_time_download_source_s_type_servers_ptr_codec: xdr_safe_codec
    xdr_rpc_struct_loc_time_download_source_s_type_servers_ptr enc_string "wf_string 256"
        "blk_string" None
  by (unfold_locales; unfold xdr_rpc_struct_loc_time_download_source_s_type_servers_ptr_def;
      intro wrap_intros codec_enc codec_dec codec_free codec_safe; simp)

interpretation vec3_rpc_struct_loc_time_download_source_s_type_servers_ptr: xdr_safe_codec
    "xdr_vector 3 xdr_rpc_struct_loc_time_download_source_s_type_servers_ptr" "enc_vector
        enc_string"
    "wf_vector 3 ((wf_string 256))" "blk_vector (blk_string)" "replicate (unat (3 :: u32)) None"
  by (rule rpc_struct_loc_time_download_source_s_type_servers_ptr_codec.vector_safe)

definition xdr_rpc_struct_loc_time_download_source_s_type_servers :: "((byte list option) list)
    xdrproc" where
  "xdr_rpc_struct_loc_time_download_source_s_type_servers = xdr_all [xdr_vector 3
      xdr_rpc_struct_loc_time_download_source_s_type_servers_ptr]"

interpretation rpc_struct_loc_time_download_source_s_type_servers_codec: xdr_safe_codec
    xdr_rpc_struct_loc_time_download_source_s_type_servers "enc_vector enc_string" "wf_vector 3
        ((wf_string 256))" "blk_vector (blk_string)" "replicate 3 None"
  by (unfold_locales; unfold xdr_rpc_struct_loc_time_download_source_s_type_servers_def;
      intro wrap_intros codec_enc codec_dec codec_free codec_safe; simp)

record rpc_loc_time_download_source_s_type =
  delay_threshold :: u32
  servers :: "(byte list option) list"

definition zero_rpc_loc_time_download_source_s_type :: rpc_loc_time_download_source_s_type where
  "zero_rpc_loc_time_download_source_s_type =
    \<lparr> delay_threshold = 0,
     servers = replicate 3 None\<rparr>"

definition xdr_rpc_loc_time_download_source_s_type ::
    "rpc_loc_time_download_source_s_type xdrproc" where
  "xdr_rpc_loc_time_download_source_s_type = xdr_all
    [xdr_member rpc_loc_time_download_source_s_type.delay_threshold
       rpc_loc_time_download_source_s_type.delay_threshold_update xdr_rpc_uint32,
     xdr_member rpc_loc_time_download_source_s_type.servers
       rpc_loc_time_download_source_s_type.servers_update
           xdr_rpc_struct_loc_time_download_source_s_type_servers]"

definition enc_rpc_loc_time_download_source_s_type ::
    "rpc_loc_time_download_source_s_type \<Rightarrow> byte list" where
  "enc_rpc_loc_time_download_source_s_type v =
     enc_u32 (rpc_loc_time_download_source_s_type.delay_threshold v) @
     (enc_vector enc_string) (rpc_loc_time_download_source_s_type.servers v)"

definition wf_rpc_loc_time_download_source_s_type :: "rpc_loc_time_download_source_s_type
    \<Rightarrow> bool" where
  "wf_rpc_loc_time_download_source_s_type v \<longleftrightarrow>
     (wf_vector 3 ((wf_string 256))) (rpc_loc_time_download_source_s_type.servers v)"

definition blk_rpc_loc_time_download_source_s_type :: "rpc_loc_time_download_source_s_type
    \<Rightarrow> nat" where
  "blk_rpc_loc_time_download_source_s_type v =
     (blk_vector (blk_string)) (rpc_loc_time_download_source_s_type.servers v)"

interpretation rpc_loc_time_download_source_s_type_codec: xdr_safe_codec
    xdr_rpc_loc_time_download_source_s_type enc_rpc_loc_time_download_source_s_type
    wf_rpc_loc_time_download_source_s_type blk_rpc_loc_time_download_source_s_type
        zero_rpc_loc_time_download_source_s_type
  by (unfold_locales; unfold xdr_rpc_loc_time_download_source_s_type_def
      enc_rpc_loc_time_download_source_s_type_def;
      (rule struct_intros codec_enc codec_dec codec_free codec_safe
        | simp add: zero_rpc_loc_time_download_source_s_type_def
            wf_rpc_loc_time_download_source_s_type_def
                blk_rpc_loc_time_download_source_s_type_def)+)

definition xdr_rpc_struct_loc_predicted_orbits_data_source_s_type_servers_ptr :: "byte list option
    xdrproc" where
  "xdr_rpc_struct_loc_predicted_orbits_data_source_s_type_servers_ptr = xdr_all [xdr_string 256]"

interpretation rpc_struct_loc_predicted_orbits_data_source_s_type_servers_ptr_codec: xdr_safe_codec
    xdr_rpc_struct_loc_predicted_orbits_data_source_s_type_servers_ptr enc_string "wf_string 256"
        "blk_string" None
  by (unfold_locales; unfold xdr_rpc_struct_loc_predicted_orbits_data_source_s_type_servers_ptr_def;
      intro wrap_intros codec_enc codec_dec codec_free codec_safe; simp)

interpretation vec3_rpc_struct_loc_predicted_orbits_data_source_s_type_servers_ptr: xdr_safe_codec
    "xdr_vector 3 xdr_rpc_struct_loc_predicted_orbits_data_source_s_type_servers_ptr" "enc_vector
        enc_string"
    "wf_vector 3 ((wf_string 256))" "blk_vector (blk_string)" "replicate (unat (3 :: u32)) None"
  by (rule rpc_struct_loc_predicted_orbits_data_source_s_type_servers_ptr_codec.vector_safe)

definition xdr_rpc_struct_loc_predicted_orbits_data_source_s_type_servers :: "((byte list option)
    list) xdrproc" where
  "xdr_rpc_struct_loc_predicted_orbits_data_source_s_type_servers = xdr_all [xdr_vector 3
      xdr_rpc_struct_loc_predicted_orbits_data_source_s_type_servers_ptr]"

interpretation rpc_struct_loc_predicted_orbits_data_source_s_type_servers_codec: xdr_safe_codec
    xdr_rpc_struct_loc_predicted_orbits_data_source_s_type_servers "enc_vector enc_string"
        "wf_vector 3 ((wf_string 256))" "blk_vector (blk_string)" "replicate 3 None"
  by (unfold_locales; unfold xdr_rpc_struct_loc_predicted_orbits_data_source_s_type_servers_def;
      intro wrap_intros codec_enc codec_dec codec_free codec_safe; simp)

record rpc_loc_predicted_orbits_data_source_s_type =
  max_file_size :: u32
  max_part_size :: u32
  servers :: "(byte list option) list"

definition zero_rpc_loc_predicted_orbits_data_source_s_type ::
    rpc_loc_predicted_orbits_data_source_s_type where
  "zero_rpc_loc_predicted_orbits_data_source_s_type =
    \<lparr> max_file_size = 0,
     max_part_size = 0, servers = replicate 3 None\<rparr>"

definition xdr_rpc_loc_predicted_orbits_data_source_s_type ::
    "rpc_loc_predicted_orbits_data_source_s_type xdrproc" where
  "xdr_rpc_loc_predicted_orbits_data_source_s_type = xdr_all
    [xdr_member rpc_loc_predicted_orbits_data_source_s_type.max_file_size
       rpc_loc_predicted_orbits_data_source_s_type.max_file_size_update xdr_rpc_uint32,
     xdr_member rpc_loc_predicted_orbits_data_source_s_type.max_part_size
       rpc_loc_predicted_orbits_data_source_s_type.max_part_size_update xdr_rpc_uint32,
     xdr_member rpc_loc_predicted_orbits_data_source_s_type.servers
       rpc_loc_predicted_orbits_data_source_s_type.servers_update
           xdr_rpc_struct_loc_predicted_orbits_data_source_s_type_servers]"

definition enc_rpc_loc_predicted_orbits_data_source_s_type ::
    "rpc_loc_predicted_orbits_data_source_s_type \<Rightarrow> byte list" where
  "enc_rpc_loc_predicted_orbits_data_source_s_type v =
     enc_u32 (rpc_loc_predicted_orbits_data_source_s_type.max_file_size v) @
     enc_u32 (rpc_loc_predicted_orbits_data_source_s_type.max_part_size v) @
     (enc_vector enc_string) (rpc_loc_predicted_orbits_data_source_s_type.servers v)"

definition wf_rpc_loc_predicted_orbits_data_source_s_type ::
    "rpc_loc_predicted_orbits_data_source_s_type \<Rightarrow> bool" where
  "wf_rpc_loc_predicted_orbits_data_source_s_type v \<longleftrightarrow>
     (wf_vector 3 ((wf_string 256))) (rpc_loc_predicted_orbits_data_source_s_type.servers v)"

definition blk_rpc_loc_predicted_orbits_data_source_s_type ::
    "rpc_loc_predicted_orbits_data_source_s_type \<Rightarrow> nat" where
  "blk_rpc_loc_predicted_orbits_data_source_s_type v =
     (blk_vector (blk_string)) (rpc_loc_predicted_orbits_data_source_s_type.servers v)"

interpretation rpc_loc_predicted_orbits_data_source_s_type_codec: xdr_safe_codec
    xdr_rpc_loc_predicted_orbits_data_source_s_type enc_rpc_loc_predicted_orbits_data_source_s_type
    wf_rpc_loc_predicted_orbits_data_source_s_type blk_rpc_loc_predicted_orbits_data_source_s_type
        zero_rpc_loc_predicted_orbits_data_source_s_type
  by (unfold_locales; unfold xdr_rpc_loc_predicted_orbits_data_source_s_type_def
      enc_rpc_loc_predicted_orbits_data_source_s_type_def;
      (rule struct_intros codec_enc codec_dec codec_free codec_safe
        | simp add: zero_rpc_loc_predicted_orbits_data_source_s_type_def
            wf_rpc_loc_predicted_orbits_data_source_s_type_def
                blk_rpc_loc_predicted_orbits_data_source_s_type_def)+)

definition RPC_LOC_ASSIST_DATA_TIME_REQ :: u32 where [loc_consts]: "RPC_LOC_ASSIST_DATA_TIME_REQ =
    1"

definition RPC_LOC_ASSIST_DATA_PREDICTED_ORBITS_REQ :: u32 where [loc_consts]:
    "RPC_LOC_ASSIST_DATA_PREDICTED_ORBITS_REQ = 2"

datatype rpc_loc_assist_data_request_payload_u_type_u =
    assist_data_request_payload_blank
  | assist_data_request_payload_time_download rpc_loc_time_download_source_s_type
  | assist_data_request_payload_data_download rpc_loc_predicted_orbits_data_source_s_type

type_synonym rpc_loc_assist_data_request_payload_u_type = "(u32,
    rpc_loc_assist_data_request_payload_u_type_u) tagged"

definition zero_rpc_loc_assist_data_request_payload_u_type ::
    rpc_loc_assist_data_request_payload_u_type where
  "zero_rpc_loc_assist_data_request_payload_u_type = \<lparr>disc = 0, arm =
      assist_data_request_payload_blank\<rparr>"

definition xdr_rpc_loc_assist_data_request_payload_u_type_switch ::
    "rpc_loc_assist_data_request_payload_u_type \<Rightarrow>
        rpc_loc_assist_data_request_payload_u_type xdrproc" where
  "xdr_rpc_loc_assist_data_request_payload_u_type_switch obj =
     (if disc obj = RPC_LOC_ASSIST_DATA_TIME_REQ
      then xdr_arm (\<lambda>a. case a of assist_data_request_payload_time_download w \<Rightarrow>
          Some w | _ \<Rightarrow> None) assist_data_request_payload_time_download
             assist_data_request_payload_blank zero_rpc_loc_time_download_source_s_type
                 xdr_rpc_loc_time_download_source_s_type
      else if disc obj = RPC_LOC_ASSIST_DATA_PREDICTED_ORBITS_REQ
      then xdr_arm (\<lambda>a. case a of assist_data_request_payload_data_download w \<Rightarrow>
          Some w | _ \<Rightarrow> None) assist_data_request_payload_data_download
             assist_data_request_payload_blank zero_rpc_loc_predicted_orbits_data_source_s_type
                 xdr_rpc_loc_predicted_orbits_data_source_s_type
      else xdr_all [])"

definition xdr_rpc_loc_assist_data_request_payload_u_type ::
    "rpc_loc_assist_data_request_payload_u_type xdrproc" where
  "xdr_rpc_loc_assist_data_request_payload_u_type = xdr_all [xdr_member disc disc_update
      xdr_rpc_loc_assist_data_request_e_type, xdr_switch
          xdr_rpc_loc_assist_data_request_payload_u_type_switch]"

definition enc_rpc_loc_assist_data_request_payload_u_type_u ::
    "rpc_loc_assist_data_request_payload_u_type_u \<Rightarrow> byte list" where
  "enc_rpc_loc_assist_data_request_payload_u_type_u a =
     (case a of
        assist_data_request_payload_blank \<Rightarrow> []
      | assist_data_request_payload_time_download w \<Rightarrow>
          enc_rpc_loc_time_download_source_s_type w
      | assist_data_request_payload_data_download w \<Rightarrow>
          enc_rpc_loc_predicted_orbits_data_source_s_type w)"

definition enc_rpc_loc_assist_data_request_payload_u_type ::
    "rpc_loc_assist_data_request_payload_u_type \<Rightarrow> byte list" where
  "enc_rpc_loc_assist_data_request_payload_u_type v = enc_u32 (disc v) @
      enc_rpc_loc_assist_data_request_payload_u_type_u (arm v)"

definition wf_rpc_loc_assist_data_request_payload_u_type ::
    "rpc_loc_assist_data_request_payload_u_type \<Rightarrow> bool" where
  "wf_rpc_loc_assist_data_request_payload_u_type v =
     (case arm v of
        assist_data_request_payload_blank \<Rightarrow> disc v \<notin>
            {RPC_LOC_ASSIST_DATA_TIME_REQ, RPC_LOC_ASSIST_DATA_PREDICTED_ORBITS_REQ}
      | assist_data_request_payload_time_download w \<Rightarrow> disc v =
          RPC_LOC_ASSIST_DATA_TIME_REQ \<and> wf_rpc_loc_time_download_source_s_type w
      | assist_data_request_payload_data_download w \<Rightarrow> disc v =
          RPC_LOC_ASSIST_DATA_PREDICTED_ORBITS_REQ \<and>
              wf_rpc_loc_predicted_orbits_data_source_s_type w)"

definition blk_rpc_loc_assist_data_request_payload_u_type ::
    "rpc_loc_assist_data_request_payload_u_type \<Rightarrow> nat" where
  "blk_rpc_loc_assist_data_request_payload_u_type v =
     (case arm v of
        assist_data_request_payload_blank \<Rightarrow> 0
      | assist_data_request_payload_time_download w \<Rightarrow>
          blk_rpc_loc_time_download_source_s_type w
      | assist_data_request_payload_data_download w \<Rightarrow>
          blk_rpc_loc_predicted_orbits_data_source_s_type w)"

lemma rpc_loc_assist_data_request_payload_u_type_arms:
  "wf_rpc_loc_assist_data_request_payload_u_type v 
    \<Longrightarrow> menc (xdr_rpc_loc_assist_data_request_payload_u_type_switch v) v
        (enc_rpc_loc_assist_data_request_payload_u_type_u (arm v))"
  "wf_rpc_loc_assist_data_request_payload_u_type v \<Longrightarrow> arm obj =
      assist_data_request_payload_blank \<Longrightarrow> disc obj = disc v
    \<Longrightarrow> mdec (xdr_rpc_loc_assist_data_request_payload_u_type_switch obj) obj v
          (enc_rpc_loc_assist_data_request_payload_u_type_u (arm v))
              (blk_rpc_loc_assist_data_request_payload_u_type v)"
  "wf_rpc_loc_assist_data_request_payload_u_type v
    \<Longrightarrow> mfree (xdr_rpc_loc_assist_data_request_payload_u_type_switch v) v
        (blk_rpc_loc_assist_data_request_payload_u_type v)"
  by (cases "arm v"; auto simp: xdr_rpc_loc_assist_data_request_payload_u_type_switch_def
      wf_rpc_loc_assist_data_request_payload_u_type_def
      enc_rpc_loc_assist_data_request_payload_u_type_u_def
          blk_rpc_loc_assist_data_request_payload_u_type_def loc_consts
      intro!: arm_intros codec_enc codec_dec codec_free)+

lemma rpc_loc_assist_data_request_payload_u_type_arms_safe:
  "arm obj = assist_data_request_payload_blank \<Longrightarrow> msafe
      (xdr_rpc_loc_assist_data_request_payload_u_type_switch obj) obj"
  unfolding xdr_rpc_loc_assist_data_request_payload_u_type_switch_def
  by (rule msafe_if msafe_arm msafe_Nil codec_safe refl | assumption)+

interpretation rpc_loc_assist_data_request_payload_u_type_codec: xdr_safe_codec
    xdr_rpc_loc_assist_data_request_payload_u_type enc_rpc_loc_assist_data_request_payload_u_type
    wf_rpc_loc_assist_data_request_payload_u_type blk_rpc_loc_assist_data_request_payload_u_type
        zero_rpc_loc_assist_data_request_payload_u_type
  by (unfold_locales; unfold xdr_rpc_loc_assist_data_request_payload_u_type_def
      enc_rpc_loc_assist_data_request_payload_u_type_def;
      (rule union_intros rpc_loc_assist_data_request_payload_u_type_arms
        rpc_loc_assist_data_request_payload_u_type_arms_safe
        codec_enc codec_dec codec_free codec_safe
        | simp add: zero_rpc_loc_assist_data_request_payload_u_type_def)+)

record rpc_loc_assist_data_request_s_type =
  event :: u32
  payload :: rpc_loc_assist_data_request_payload_u_type

definition zero_rpc_loc_assist_data_request_s_type :: rpc_loc_assist_data_request_s_type where
  "zero_rpc_loc_assist_data_request_s_type =
    \<lparr> event = 0,
     payload = zero_rpc_loc_assist_data_request_payload_u_type\<rparr>"

definition xdr_rpc_loc_assist_data_request_s_type ::
    "rpc_loc_assist_data_request_s_type xdrproc" where
  "xdr_rpc_loc_assist_data_request_s_type = xdr_all
    [xdr_member rpc_loc_assist_data_request_s_type.event
       rpc_loc_assist_data_request_s_type.event_update xdr_rpc_loc_assist_data_request_e_type,
     xdr_member rpc_loc_assist_data_request_s_type.payload
       rpc_loc_assist_data_request_s_type.payload_update
           xdr_rpc_loc_assist_data_request_payload_u_type]"

definition enc_rpc_loc_assist_data_request_s_type ::
    "rpc_loc_assist_data_request_s_type \<Rightarrow> byte list" where
  "enc_rpc_loc_assist_data_request_s_type v =
     enc_u32 (rpc_loc_assist_data_request_s_type.event v) @
     enc_rpc_loc_assist_data_request_payload_u_type (rpc_loc_assist_data_request_s_type.payload v)"

definition wf_rpc_loc_assist_data_request_s_type :: "rpc_loc_assist_data_request_s_type
    \<Rightarrow> bool" where
  "wf_rpc_loc_assist_data_request_s_type v \<longleftrightarrow>
     wf_rpc_loc_assist_data_request_payload_u_type (rpc_loc_assist_data_request_s_type.payload v)"

definition blk_rpc_loc_assist_data_request_s_type :: "rpc_loc_assist_data_request_s_type
    \<Rightarrow> nat" where
  "blk_rpc_loc_assist_data_request_s_type v =
     blk_rpc_loc_assist_data_request_payload_u_type (rpc_loc_assist_data_request_s_type.payload v)"

interpretation rpc_loc_assist_data_request_s_type_codec: xdr_safe_codec
    xdr_rpc_loc_assist_data_request_s_type enc_rpc_loc_assist_data_request_s_type
    wf_rpc_loc_assist_data_request_s_type blk_rpc_loc_assist_data_request_s_type
        zero_rpc_loc_assist_data_request_s_type
  by (unfold_locales; unfold xdr_rpc_loc_assist_data_request_s_type_def
      enc_rpc_loc_assist_data_request_s_type_def;
      (rule struct_intros codec_enc codec_dec codec_free codec_safe
        | simp add: zero_rpc_loc_assist_data_request_s_type_def
            wf_rpc_loc_assist_data_request_s_type_def blk_rpc_loc_assist_data_request_s_type_def)+)

definition xdr_rpc_loc_server_connection_handle :: "u32 xdrproc" where
  "xdr_rpc_loc_server_connection_handle = xdr_all [xdr_rpc_uint32]"

interpretation rpc_loc_server_connection_handle_codec: xdr_safe_codec
    xdr_rpc_loc_server_connection_handle enc_u32 "\<lambda>_. True" "\<lambda>_. 0" 0
  by (unfold_locales; unfold xdr_rpc_loc_server_connection_handle_def;
      intro wrap_intros codec_enc codec_dec codec_free codec_safe; simp)

definition xdr_rpc_loc_server_protocol_e_type :: "u32 xdrproc" where
  "xdr_rpc_loc_server_protocol_e_type = xdr_all [xdr_enum]"

interpretation rpc_loc_server_protocol_e_type_codec: xdr_safe_codec
    xdr_rpc_loc_server_protocol_e_type enc_u32 "\<lambda>_. True" "\<lambda>_. 0" 0
  by (unfold_locales; unfold xdr_rpc_loc_server_protocol_e_type_def;
      intro wrap_intros codec_enc codec_dec codec_free codec_safe; simp)

definition xdr_rpc_loc_server_request_e_type :: "u32 xdrproc" where
  "xdr_rpc_loc_server_request_e_type = xdr_all [xdr_enum]"

interpretation rpc_loc_server_request_e_type_codec: xdr_safe_codec
    xdr_rpc_loc_server_request_e_type enc_u32 "\<lambda>_. True" "\<lambda>_. 0" 0
  by (unfold_locales; unfold xdr_rpc_loc_server_request_e_type_def;
      intro wrap_intros codec_enc codec_dec codec_free codec_safe; simp)

lemma keeps_rpc_loc_server_request_e_type [codec_free]: "keeps xdr_rpc_loc_server_request_e_type"
  unfolding xdr_rpc_loc_server_request_e_type_def by (intro keeps_single codec_free)

record rpc_loc_server_open_req_s_type =
  conn_handle :: u32
  protocol :: u32

definition zero_rpc_loc_server_open_req_s_type :: rpc_loc_server_open_req_s_type where
  "zero_rpc_loc_server_open_req_s_type =
    \<lparr> conn_handle = 0, protocol = 0\<rparr>"

definition xdr_rpc_loc_server_open_req_s_type ::
    "rpc_loc_server_open_req_s_type xdrproc" where
  "xdr_rpc_loc_server_open_req_s_type = xdr_all
    [xdr_member rpc_loc_server_open_req_s_type.conn_handle
       rpc_loc_server_open_req_s_type.conn_handle_update xdr_rpc_loc_server_connection_handle,
     xdr_member rpc_loc_server_open_req_s_type.protocol
       rpc_loc_server_open_req_s_type.protocol_update xdr_rpc_loc_server_protocol_e_type]"

definition enc_rpc_loc_server_open_req_s_type ::
    "rpc_loc_server_open_req_s_type \<Rightarrow> byte list" where
  "enc_rpc_loc_server_open_req_s_type v =
     enc_u32 (rpc_loc_server_open_req_s_type.conn_handle v) @
     enc_u32 (rpc_loc_server_open_req_s_type.protocol v)"

interpretation rpc_loc_server_open_req_s_type_codec: xdr_safe_codec
    xdr_rpc_loc_server_open_req_s_type enc_rpc_loc_server_open_req_s_type
    "\<lambda>_. True" "\<lambda>_. 0" zero_rpc_loc_server_open_req_s_type
  by (unfold_locales; unfold xdr_rpc_loc_server_open_req_s_type_def
      enc_rpc_loc_server_open_req_s_type_def;
      (rule struct_intros codec_enc codec_dec codec_free codec_safe
        | simp add: zero_rpc_loc_server_open_req_s_type_def)+)

record rpc_loc_server_close_req_s_type =
  conn_handle :: u32

definition zero_rpc_loc_server_close_req_s_type :: rpc_loc_server_close_req_s_type where
  "zero_rpc_loc_server_close_req_s_type =
    \<lparr> conn_handle = 0\<rparr>"

definition xdr_rpc_loc_server_close_req_s_type ::
    "rpc_loc_server_close_req_s_type xdrproc" where
  "xdr_rpc_loc_server_close_req_s_type = xdr_all
    [xdr_member rpc_loc_server_close_req_s_type.conn_handle
       rpc_loc_server_close_req_s_type.conn_handle_update xdr_rpc_loc_server_connection_handle]"

definition enc_rpc_loc_server_close_req_s_type ::
    "rpc_loc_server_close_req_s_type \<Rightarrow> byte list" where
  "enc_rpc_loc_server_close_req_s_type v =
     enc_u32 (rpc_loc_server_close_req_s_type.conn_handle v)"

interpretation rpc_loc_server_close_req_s_type_codec: xdr_safe_codec
    xdr_rpc_loc_server_close_req_s_type enc_rpc_loc_server_close_req_s_type
    "\<lambda>_. True" "\<lambda>_. 0" zero_rpc_loc_server_close_req_s_type
  by (unfold_locales; unfold xdr_rpc_loc_server_close_req_s_type_def
      enc_rpc_loc_server_close_req_s_type_def;
      (rule struct_intros codec_enc codec_dec codec_free codec_safe
        | simp add: zero_rpc_loc_server_close_req_s_type_def)+)

definition RPC_LOC_SERVER_REQUEST_OPEN :: u32 where [loc_consts]: "RPC_LOC_SERVER_REQUEST_OPEN = 1"

definition RPC_LOC_SERVER_REQUEST_CLOSE :: u32 where [loc_consts]: "RPC_LOC_SERVER_REQUEST_CLOSE =
    2"

datatype rpc_loc_server_request_u_type_u =
    server_request_blank
  | server_request_open_req rpc_loc_server_open_req_s_type
  | server_request_close_req rpc_loc_server_close_req_s_type

type_synonym rpc_loc_server_request_u_type = "(u32, rpc_loc_server_request_u_type_u) tagged"

definition zero_rpc_loc_server_request_u_type :: rpc_loc_server_request_u_type where
  "zero_rpc_loc_server_request_u_type = \<lparr>disc = 0, arm = server_request_blank\<rparr>"

definition xdr_rpc_loc_server_request_u_type_switch :: "rpc_loc_server_request_u_type \<Rightarrow>
    rpc_loc_server_request_u_type xdrproc" where
  "xdr_rpc_loc_server_request_u_type_switch obj =
     (if disc obj = RPC_LOC_SERVER_REQUEST_OPEN
      then xdr_arm (\<lambda>a. case a of server_request_open_req w \<Rightarrow> Some w | _
          \<Rightarrow> None) server_request_open_req
             server_request_blank zero_rpc_loc_server_open_req_s_type
                 xdr_rpc_loc_server_open_req_s_type
      else if disc obj = RPC_LOC_SERVER_REQUEST_CLOSE
      then xdr_arm (\<lambda>a. case a of server_request_close_req w \<Rightarrow> Some w | _
          \<Rightarrow> None) server_request_close_req
             server_request_blank zero_rpc_loc_server_close_req_s_type
                 xdr_rpc_loc_server_close_req_s_type
      else xdr_all [])"

definition xdr_rpc_loc_server_request_u_type :: "rpc_loc_server_request_u_type xdrproc" where
  "xdr_rpc_loc_server_request_u_type = xdr_all [xdr_member disc disc_update
      xdr_rpc_loc_server_request_e_type, xdr_switch xdr_rpc_loc_server_request_u_type_switch]"

definition enc_rpc_loc_server_request_u_type_u :: "rpc_loc_server_request_u_type_u \<Rightarrow>
    byte list" where
  "enc_rpc_loc_server_request_u_type_u a =
     (case a of
        server_request_blank \<Rightarrow> []
      | server_request_open_req w \<Rightarrow> enc_rpc_loc_server_open_req_s_type w
      | server_request_close_req w \<Rightarrow> enc_rpc_loc_server_close_req_s_type w)"

definition enc_rpc_loc_server_request_u_type :: "rpc_loc_server_request_u_type \<Rightarrow> byte
    list" where
  "enc_rpc_loc_server_request_u_type v = enc_u32 (disc v) @ enc_rpc_loc_server_request_u_type_u
      (arm v)"

definition wf_rpc_loc_server_request_u_type :: "rpc_loc_server_request_u_type \<Rightarrow> bool"
    where
  "wf_rpc_loc_server_request_u_type v =
     (case arm v of
        server_request_blank \<Rightarrow> disc v \<notin> {RPC_LOC_SERVER_REQUEST_OPEN,
            RPC_LOC_SERVER_REQUEST_CLOSE}
      | server_request_open_req w \<Rightarrow> disc v = RPC_LOC_SERVER_REQUEST_OPEN
      | server_request_close_req w \<Rightarrow> disc v = RPC_LOC_SERVER_REQUEST_CLOSE)"

lemma rpc_loc_server_request_u_type_arms:
  "wf_rpc_loc_server_request_u_type v 
    \<Longrightarrow> menc (xdr_rpc_loc_server_request_u_type_switch v) v
        (enc_rpc_loc_server_request_u_type_u (arm v))"
  "wf_rpc_loc_server_request_u_type v \<Longrightarrow> arm obj = server_request_blank
      \<Longrightarrow> disc obj = disc v
    \<Longrightarrow> mdec (xdr_rpc_loc_server_request_u_type_switch obj) obj v
          (enc_rpc_loc_server_request_u_type_u (arm v)) (0)"
  "wf_rpc_loc_server_request_u_type v
    \<Longrightarrow> mfree (xdr_rpc_loc_server_request_u_type_switch v) v (0)"
  by (cases "arm v"; auto simp: xdr_rpc_loc_server_request_u_type_switch_def
      wf_rpc_loc_server_request_u_type_def
      enc_rpc_loc_server_request_u_type_u_def loc_consts
      intro!: arm_intros codec_enc codec_dec codec_free)+

lemma rpc_loc_server_request_u_type_arms_safe:
  "arm obj = server_request_blank \<Longrightarrow> msafe (xdr_rpc_loc_server_request_u_type_switch
      obj) obj"
  unfolding xdr_rpc_loc_server_request_u_type_switch_def
  by (rule msafe_if msafe_arm msafe_Nil codec_safe refl | assumption)+

interpretation rpc_loc_server_request_u_type_codec: xdr_safe_codec
    xdr_rpc_loc_server_request_u_type enc_rpc_loc_server_request_u_type
    wf_rpc_loc_server_request_u_type "\<lambda>_. 0" zero_rpc_loc_server_request_u_type
  by (unfold_locales; unfold xdr_rpc_loc_server_request_u_type_def
      enc_rpc_loc_server_request_u_type_def;
      (rule union_intros rpc_loc_server_request_u_type_arms
        rpc_loc_server_request_u_type_arms_safe
        codec_enc codec_dec codec_free codec_safe
        | simp add: zero_rpc_loc_server_request_u_type_def)+)

record rpc_loc_server_request_s_type =
  event :: u32
  payload :: rpc_loc_server_request_u_type

definition zero_rpc_loc_server_request_s_type :: rpc_loc_server_request_s_type where
  "zero_rpc_loc_server_request_s_type =
    \<lparr> event = 0,
     payload = zero_rpc_loc_server_request_u_type\<rparr>"

definition xdr_rpc_loc_server_request_s_type ::
    "rpc_loc_server_request_s_type xdrproc" where
  "xdr_rpc_loc_server_request_s_type = xdr_all
    [xdr_member rpc_loc_server_request_s_type.event
       rpc_loc_server_request_s_type.event_update xdr_rpc_loc_server_request_e_type,
     xdr_member rpc_loc_server_request_s_type.payload
       rpc_loc_server_request_s_type.payload_update xdr_rpc_loc_server_request_u_type]"

definition enc_rpc_loc_server_request_s_type ::
    "rpc_loc_server_request_s_type \<Rightarrow> byte list" where
  "enc_rpc_loc_server_request_s_type v =
     enc_u32 (rpc_loc_server_request_s_type.event v) @
     enc_rpc_loc_server_request_u_type (rpc_loc_server_request_s_type.payload v)"

definition wf_rpc_loc_server_request_s_type :: "rpc_loc_server_request_s_type \<Rightarrow> bool"
    where
  "wf_rpc_loc_server_request_s_type v \<longleftrightarrow>
     wf_rpc_loc_server_request_u_type (rpc_loc_server_request_s_type.payload v)"

interpretation rpc_loc_server_request_s_type_codec: xdr_safe_codec
    xdr_rpc_loc_server_request_s_type enc_rpc_loc_server_request_s_type
    wf_rpc_loc_server_request_s_type "\<lambda>_. 0" zero_rpc_loc_server_request_s_type
  by (unfold_locales; unfold xdr_rpc_loc_server_request_s_type_def
      enc_rpc_loc_server_request_s_type_def;
      (rule struct_intros codec_enc codec_dec codec_free codec_safe
        | simp add: zero_rpc_loc_server_request_s_type_def wf_rpc_loc_server_request_s_type_def)+)

definition xdr_rpc_loc_qwip_request_e_type :: "u32 xdrproc" where
  "xdr_rpc_loc_qwip_request_e_type = xdr_all [xdr_enum]"

interpretation rpc_loc_qwip_request_e_type_codec: xdr_safe_codec
    xdr_rpc_loc_qwip_request_e_type enc_u32 "\<lambda>_. True" "\<lambda>_. 0" 0
  by (unfold_locales; unfold xdr_rpc_loc_qwip_request_e_type_def;
      intro wrap_intros codec_enc codec_dec codec_free codec_safe; simp)

record rpc_loc_qwip_request_s_type =
  request_type :: u32
  tbf_ms :: u16

definition zero_rpc_loc_qwip_request_s_type :: rpc_loc_qwip_request_s_type where
  "zero_rpc_loc_qwip_request_s_type =
    \<lparr> request_type = 0, tbf_ms = 0\<rparr>"

definition xdr_rpc_loc_qwip_request_s_type ::
    "rpc_loc_qwip_request_s_type xdrproc" where
  "xdr_rpc_loc_qwip_request_s_type = xdr_all
    [xdr_member rpc_loc_qwip_request_s_type.request_type
       rpc_loc_qwip_request_s_type.request_type_update xdr_rpc_loc_qwip_request_e_type,
     xdr_member rpc_loc_qwip_request_s_type.tbf_ms
       rpc_loc_qwip_request_s_type.tbf_ms_update xdr_rpc_uint16]"

definition enc_rpc_loc_qwip_request_s_type ::
    "rpc_loc_qwip_request_s_type \<Rightarrow> byte list" where
  "enc_rpc_loc_qwip_request_s_type v =
     enc_u32 (rpc_loc_qwip_request_s_type.request_type v) @
     enc_u16 (rpc_loc_qwip_request_s_type.tbf_ms v)"

interpretation rpc_loc_qwip_request_s_type_codec: xdr_safe_codec
    xdr_rpc_loc_qwip_request_s_type enc_rpc_loc_qwip_request_s_type
    "\<lambda>_. True" "\<lambda>_. 0" zero_rpc_loc_qwip_request_s_type
  by (unfold_locales; unfold xdr_rpc_loc_qwip_request_s_type_def
      enc_rpc_loc_qwip_request_s_type_def;
      (rule struct_intros codec_enc codec_dec codec_free codec_safe
        | simp add: zero_rpc_loc_qwip_request_s_type_def)+)

record rpc_loc_reserved_payload_s_type =
  data_size :: u16
  data :: "byte counted"

definition zero_rpc_loc_reserved_payload_s_type :: rpc_loc_reserved_payload_s_type where
  "zero_rpc_loc_reserved_payload_s_type =
    \<lparr> data_size = 0, data = null_counted\<rparr>"

definition xdr_rpc_loc_reserved_payload_s_type ::
    "rpc_loc_reserved_payload_s_type xdrproc" where
  "xdr_rpc_loc_reserved_payload_s_type = xdr_all
    [xdr_member rpc_loc_reserved_payload_s_type.data_size
       rpc_loc_reserved_payload_s_type.data_size_update xdr_rpc_uint16,
     xdr_member rpc_loc_reserved_payload_s_type.data
       rpc_loc_reserved_payload_s_type.data_update (xdr_bytes (- 1))]"

definition enc_rpc_loc_reserved_payload_s_type ::
    "rpc_loc_reserved_payload_s_type \<Rightarrow> byte list" where
  "enc_rpc_loc_reserved_payload_s_type v =
     enc_u16 (rpc_loc_reserved_payload_s_type.data_size v) @
     enc_bytes (rpc_loc_reserved_payload_s_type.data v)"

definition wf_rpc_loc_reserved_payload_s_type :: "rpc_loc_reserved_payload_s_type \<Rightarrow>
    bool" where
  "wf_rpc_loc_reserved_payload_s_type v \<longleftrightarrow>
     (wf_bytes (- 1)) (rpc_loc_reserved_payload_s_type.data v)"

definition blk_rpc_loc_reserved_payload_s_type :: "rpc_loc_reserved_payload_s_type \<Rightarrow>
    nat" where
  "blk_rpc_loc_reserved_payload_s_type v =
     blk_bytes (rpc_loc_reserved_payload_s_type.data v)"

interpretation rpc_loc_reserved_payload_s_type_codec: xdr_safe_codec
    xdr_rpc_loc_reserved_payload_s_type enc_rpc_loc_reserved_payload_s_type
    wf_rpc_loc_reserved_payload_s_type blk_rpc_loc_reserved_payload_s_type
        zero_rpc_loc_reserved_payload_s_type
  by (unfold_locales; unfold xdr_rpc_loc_reserved_payload_s_type_def
      enc_rpc_loc_reserved_payload_s_type_def;
      (rule struct_intros codec_enc codec_dec codec_free codec_safe
        | simp add: zero_rpc_loc_reserved_payload_s_type_def wf_rpc_loc_reserved_payload_s_type_def
            blk_rpc_loc_reserved_payload_s_type_def)+)

definition xdr_rpc_loc_ioctl_e_type :: "u32 xdrproc" where
  "xdr_rpc_loc_ioctl_e_type = xdr_all [xdr_enum]"

interpretation rpc_loc_ioctl_e_type_codec: xdr_safe_codec
    xdr_rpc_loc_ioctl_e_type enc_u32 "\<lambda>_. True" "\<lambda>_. 0" 0
  by (unfold_locales; unfold xdr_rpc_loc_ioctl_e_type_def;
      intro wrap_intros codec_enc codec_dec codec_free codec_safe; simp)

lemma keeps_rpc_loc_ioctl_e_type [codec_free]: "keeps xdr_rpc_loc_ioctl_e_type"
  unfolding xdr_rpc_loc_ioctl_e_type_def by (intro keeps_single codec_free)

record rpc_loc_api_version_s_type =
  major :: byte
  minor :: byte

definition zero_rpc_loc_api_version_s_type :: rpc_loc_api_version_s_type where
  "zero_rpc_loc_api_version_s_type =
    \<lparr> major = 0, minor = 0\<rparr>"

definition xdr_rpc_loc_api_version_s_type ::
    "rpc_loc_api_version_s_type xdrproc" where
  "xdr_rpc_loc_api_version_s_type = xdr_all
    [xdr_member rpc_loc_api_version_s_type.major
       rpc_loc_api_version_s_type.major_update xdr_u_char,
     xdr_member rpc_loc_api_version_s_type.minor
       rpc_loc_api_version_s_type.minor_update xdr_u_char]"

definition enc_rpc_loc_api_version_s_type ::
    "rpc_loc_api_version_s_type \<Rightarrow> byte list" where
  "enc_rpc_loc_api_version_s_type v =
     enc_byte (rpc_loc_api_version_s_type.major v) @
     enc_byte (rpc_loc_api_version_s_type.minor v)"

interpretation rpc_loc_api_version_s_type_codec: xdr_safe_codec
    xdr_rpc_loc_api_version_s_type enc_rpc_loc_api_version_s_type
    "\<lambda>_. True" "\<lambda>_. 0" zero_rpc_loc_api_version_s_type
  by (unfold_locales; unfold xdr_rpc_loc_api_version_s_type_def enc_rpc_loc_api_version_s_type_def;
      (rule struct_intros codec_enc codec_dec codec_free codec_safe
        | simp add: zero_rpc_loc_api_version_s_type_def)+)

definition xdr_rpc_loc_fix_recurrence_e_type :: "u32 xdrproc" where
  "xdr_rpc_loc_fix_recurrence_e_type = xdr_all [xdr_enum]"

interpretation rpc_loc_fix_recurrence_e_type_codec: xdr_safe_codec
    xdr_rpc_loc_fix_recurrence_e_type enc_u32 "\<lambda>_. True" "\<lambda>_. 0" 0
  by (unfold_locales; unfold xdr_rpc_loc_fix_recurrence_e_type_def;
      intro wrap_intros codec_enc codec_dec codec_free codec_safe; simp)

definition xdr_rpc_loc_operation_mode_e_type :: "u32 xdrproc" where
  "xdr_rpc_loc_operation_mode_e_type = xdr_all [xdr_enum]"

interpretation rpc_loc_operation_mode_e_type_codec: xdr_safe_codec
    xdr_rpc_loc_operation_mode_e_type enc_u32 "\<lambda>_. True" "\<lambda>_. 0" 0
  by (unfold_locales; unfold xdr_rpc_loc_operation_mode_e_type_def;
      intro wrap_intros codec_enc codec_dec codec_free codec_safe; simp)

definition xdr_rpc_loc_notify_e_type :: "u32 xdrproc" where
  "xdr_rpc_loc_notify_e_type = xdr_all [xdr_enum]"

interpretation rpc_loc_notify_e_type_codec: xdr_safe_codec
    xdr_rpc_loc_notify_e_type enc_u32 "\<lambda>_. True" "\<lambda>_. 0" 0
  by (unfold_locales; unfold xdr_rpc_loc_notify_e_type_def;
      intro wrap_intros codec_enc codec_dec codec_free codec_safe; simp)

record rpc_loc_fix_criteria_s_type =
  valid_mask :: u32
  recurrence_type :: u32
  preferred_operation_mode :: u32
  preferred_accuracy :: u32
  preferred_response_time :: u32
  intermediate_pos_report_enabled :: u32
  notify_type :: u32
  min_interval :: u32
  min_distance :: u32
  min_dist_sample_interval :: u32

definition zero_rpc_loc_fix_criteria_s_type :: rpc_loc_fix_criteria_s_type where
  "zero_rpc_loc_fix_criteria_s_type =
    \<lparr> valid_mask = 0, recurrence_type = 0,
     preferred_operation_mode = 0, preferred_accuracy = 0, preferred_response_time = 0,
     intermediate_pos_report_enabled = 0, notify_type = 0, min_interval = 0, min_distance = 0,
     min_dist_sample_interval = 0\<rparr>"

definition xdr_rpc_loc_fix_criteria_s_type ::
    "rpc_loc_fix_criteria_s_type xdrproc" where
  "xdr_rpc_loc_fix_criteria_s_type = xdr_all
    [xdr_member rpc_loc_fix_criteria_s_type.valid_mask
       rpc_loc_fix_criteria_s_type.valid_mask_update xdr_rpc_uint32,
     xdr_member rpc_loc_fix_criteria_s_type.recurrence_type
       rpc_loc_fix_criteria_s_type.recurrence_type_update xdr_rpc_loc_fix_recurrence_e_type,
     xdr_member rpc_loc_fix_criteria_s_type.preferred_operation_mode
       rpc_loc_fix_criteria_s_type.preferred_operation_mode_update
           xdr_rpc_loc_operation_mode_e_type,
     xdr_member rpc_loc_fix_criteria_s_type.preferred_accuracy
       rpc_loc_fix_criteria_s_type.preferred_accuracy_update xdr_rpc_uint32,
     xdr_member rpc_loc_fix_criteria_s_type.preferred_response_time
       rpc_loc_fix_criteria_s_type.preferred_response_time_update xdr_rpc_uint32,
     xdr_member rpc_loc_fix_criteria_s_type.intermediate_pos_report_enabled
       rpc_loc_fix_criteria_s_type.intermediate_pos_report_enabled_update xdr_rpc_boolean,
     xdr_member rpc_loc_fix_criteria_s_type.notify_type
       rpc_loc_fix_criteria_s_type.notify_type_update xdr_rpc_loc_notify_e_type,
     xdr_member rpc_loc_fix_criteria_s_type.min_interval
       rpc_loc_fix_criteria_s_type.min_interval_update xdr_rpc_uint32,
     xdr_member rpc_loc_fix_criteria_s_type.min_distance
       rpc_loc_fix_criteria_s_type.min_distance_update xdr_float,
     xdr_member rpc_loc_fix_criteria_s_type.min_dist_sample_interval
       rpc_loc_fix_criteria_s_type.min_dist_sample_interval_update xdr_rpc_uint32]"

definition enc_rpc_loc_fix_criteria_s_type ::
    "rpc_loc_fix_criteria_s_type \<Rightarrow> byte list" where
  "enc_rpc_loc_fix_criteria_s_type v =
     enc_u32 (rpc_loc_fix_criteria_s_type.valid_mask v) @
     enc_u32 (rpc_loc_fix_criteria_s_type.recurrence_type v) @
     enc_u32 (rpc_loc_fix_criteria_s_type.preferred_operation_mode v) @
     enc_u32 (rpc_loc_fix_criteria_s_type.preferred_accuracy v) @
     enc_u32 (rpc_loc_fix_criteria_s_type.preferred_response_time v) @
     enc_u32 (rpc_loc_fix_criteria_s_type.intermediate_pos_report_enabled v) @
     enc_u32 (rpc_loc_fix_criteria_s_type.notify_type v) @
     enc_u32 (rpc_loc_fix_criteria_s_type.min_interval v) @
     enc_u32 (rpc_loc_fix_criteria_s_type.min_distance v) @
     enc_u32 (rpc_loc_fix_criteria_s_type.min_dist_sample_interval v)"

definition wf_rpc_loc_fix_criteria_s_type :: "rpc_loc_fix_criteria_s_type \<Rightarrow> bool" where
  "wf_rpc_loc_fix_criteria_s_type v \<longleftrightarrow>
     wf_bool (rpc_loc_fix_criteria_s_type.intermediate_pos_report_enabled v)"

interpretation rpc_loc_fix_criteria_s_type_codec: xdr_safe_codec
    xdr_rpc_loc_fix_criteria_s_type enc_rpc_loc_fix_criteria_s_type
    wf_rpc_loc_fix_criteria_s_type "\<lambda>_. 0" zero_rpc_loc_fix_criteria_s_type
  by (unfold_locales; unfold xdr_rpc_loc_fix_criteria_s_type_def
      enc_rpc_loc_fix_criteria_s_type_def;
      (rule struct_intros codec_enc codec_dec codec_free codec_safe
        | simp add: zero_rpc_loc_fix_criteria_s_type_def wf_rpc_loc_fix_criteria_s_type_def)+)

definition xdr_rpc_loc_ni_user_resp_e_type :: "u32 xdrproc" where
  "xdr_rpc_loc_ni_user_resp_e_type = xdr_all [xdr_enum]"

interpretation rpc_loc_ni_user_resp_e_type_codec: xdr_safe_codec
    xdr_rpc_loc_ni_user_resp_e_type enc_u32 "\<lambda>_. True" "\<lambda>_. 0" 0
  by (unfold_locales; unfold xdr_rpc_loc_ni_user_resp_e_type_def;
      intro wrap_intros codec_enc codec_dec codec_free codec_safe; simp)

record rpc_loc_user_verify_s_type =
  user_resp :: u32
  ni_event_pass_back :: rpc_loc_ni_event_s_type

definition zero_rpc_loc_user_verify_s_type :: rpc_loc_user_verify_s_type where
  "zero_rpc_loc_user_verify_s_type =
    \<lparr> user_resp = 0,
     ni_event_pass_back = zero_rpc_loc_ni_event_s_type\<rparr>"

definition xdr_rpc_loc_user_verify_s_type ::
    "rpc_loc_user_verify_s_type xdrproc" where
  "xdr_rpc_loc_user_verify_s_type = xdr_all
    [xdr_member rpc_loc_user_verify_s_type.user_resp
       rpc_loc_user_verify_s_type.user_resp_update xdr_rpc_loc_ni_user_resp_e_type,
     xdr_member rpc_loc_user_verify_s_type.ni_event_pass_back
       rpc_loc_user_verify_s_type.ni_event_pass_back_update xdr_rpc_loc_ni_event_s_type]"

definition enc_rpc_loc_user_verify_s_type ::
    "rpc_loc_user_verify_s_type \<Rightarrow> byte list" where
  "enc_rpc_loc_user_verify_s_type v =
     enc_u32 (rpc_loc_user_verify_s_type.user_resp v) @
     enc_rpc_loc_ni_event_s_type (rpc_loc_user_verify_s_type.ni_event_pass_back v)"

definition wf_rpc_loc_user_verify_s_type :: "rpc_loc_user_verify_s_type \<Rightarrow> bool" where
  "wf_rpc_loc_user_verify_s_type v \<longleftrightarrow>
     wf_rpc_loc_ni_event_s_type (rpc_loc_user_verify_s_type.ni_event_pass_back v)"

interpretation rpc_loc_user_verify_s_type_codec: xdr_safe_codec
    xdr_rpc_loc_user_verify_s_type enc_rpc_loc_user_verify_s_type
    wf_rpc_loc_user_verify_s_type "\<lambda>_. 0" zero_rpc_loc_user_verify_s_type
  by (unfold_locales; unfold xdr_rpc_loc_user_verify_s_type_def enc_rpc_loc_user_verify_s_type_def;
      (rule struct_intros codec_enc codec_dec codec_free codec_safe
        | simp add: zero_rpc_loc_user_verify_s_type_def wf_rpc_loc_user_verify_s_type_def)+)

definition xdr_rpc_loc_predicted_orbits_data_format_e_type :: "u32 xdrproc" where
  "xdr_rpc_loc_predicted_orbits_data_format_e_type = xdr_all [xdr_enum]"

interpretation rpc_loc_predicted_orbits_data_format_e_type_codec: xdr_safe_codec
    xdr_rpc_loc_predicted_orbits_data_format_e_type enc_u32 "\<lambda>_. True" "\<lambda>_. 0" 0
  by (unfold_locales; unfold xdr_rpc_loc_predicted_orbits_data_format_e_type_def;
      intro wrap_intros codec_enc codec_dec codec_free codec_safe; simp)

record rpc_loc_predicted_orbits_data_s_type =
  format_type :: u32
  total_size :: u32
  total_parts :: byte
  part :: byte
  part_len :: u16
  data_ptr :: "byte counted"

definition zero_rpc_loc_predicted_orbits_data_s_type :: rpc_loc_predicted_orbits_data_s_type where
  "zero_rpc_loc_predicted_orbits_data_s_type =
    \<lparr> format_type = 0, total_size = 0,
     total_parts = 0, part = 0, part_len = 0, data_ptr = null_counted\<rparr>"

definition xdr_rpc_loc_predicted_orbits_data_s_type ::
    "rpc_loc_predicted_orbits_data_s_type xdrproc" where
  "xdr_rpc_loc_predicted_orbits_data_s_type = xdr_all
    [xdr_member rpc_loc_predicted_orbits_data_s_type.format_type
       rpc_loc_predicted_orbits_data_s_type.format_type_update
           xdr_rpc_loc_predicted_orbits_data_format_e_type,
     xdr_member rpc_loc_predicted_orbits_data_s_type.total_size
       rpc_loc_predicted_orbits_data_s_type.total_size_update xdr_rpc_uint32,
     xdr_member rpc_loc_predicted_orbits_data_s_type.total_parts
       rpc_loc_predicted_orbits_data_s_type.total_parts_update xdr_rpc_uint8,
     xdr_member rpc_loc_predicted_orbits_data_s_type.part
       rpc_loc_predicted_orbits_data_s_type.part_update xdr_rpc_uint8,
     xdr_member rpc_loc_predicted_orbits_data_s_type.part_len
       rpc_loc_predicted_orbits_data_s_type.part_len_update xdr_rpc_uint16,
     xdr_member rpc_loc_predicted_orbits_data_s_type.data_ptr
       rpc_loc_predicted_orbits_data_s_type.data_ptr_update (xdr_bytes (- 1))]"

definition enc_rpc_loc_predicted_orbits_data_s_type ::
    "rpc_loc_predicted_orbits_data_s_type \<Rightarrow> byte list" where
  "enc_rpc_loc_predicted_orbits_data_s_type v =
     enc_u32 (rpc_loc_predicted_orbits_data_s_type.format_type v) @
     enc_u32 (rpc_loc_predicted_orbits_data_s_type.total_size v) @
     enc_byte (rpc_loc_predicted_orbits_data_s_type.total_parts v) @
     enc_byte (rpc_loc_predicted_orbits_data_s_type.part v) @
     enc_u16 (rpc_loc_predicted_orbits_data_s_type.part_len v) @
     enc_bytes (rpc_loc_predicted_orbits_data_s_type.data_ptr v)"

definition wf_rpc_loc_predicted_orbits_data_s_type :: "rpc_loc_predicted_orbits_data_s_type
    \<Rightarrow> bool" where
  "wf_rpc_loc_predicted_orbits_data_s_type v \<longleftrightarrow>
     (wf_bytes (- 1)) (rpc_loc_predicted_orbits_data_s_type.data_ptr v)"

definition blk_rpc_loc_predicted_orbits_data_s_type :: "rpc_loc_predicted_orbits_data_s_type
    \<Rightarrow> nat" where
  "blk_rpc_loc_predicted_orbits_data_s_type v =
     blk_bytes (rpc_loc_predicted_orbits_data_s_type.data_ptr v)"

interpretation rpc_loc_predicted_orbits_data_s_type_codec: xdr_safe_codec
    xdr_rpc_loc_predicted_orbits_data_s_type enc_rpc_loc_predicted_orbits_data_s_type
    wf_rpc_loc_predicted_orbits_data_s_type blk_rpc_loc_predicted_orbits_data_s_type
        zero_rpc_loc_predicted_orbits_data_s_type
  by (unfold_locales; unfold xdr_rpc_loc_predicted_orbits_data_s_type_def
      enc_rpc_loc_predicted_orbits_data_s_type_def;
      (rule struct_intros codec_enc codec_dec codec_free codec_safe
        | simp add: zero_rpc_loc_predicted_orbits_data_s_type_def
            wf_rpc_loc_predicted_orbits_data_s_type_def
                blk_rpc_loc_predicted_orbits_data_s_type_def)+)

record rpc_loc_predicted_orbits_data_validity_report_s_type =
  start_time_utc :: u64
  valid_duration_hrs :: u16

definition zero_rpc_loc_predicted_orbits_data_validity_report_s_type ::
    rpc_loc_predicted_orbits_data_validity_report_s_type where
  "zero_rpc_loc_predicted_orbits_data_validity_report_s_type =
    \<lparr> start_time_utc = 0,
     valid_duration_hrs = 0\<rparr>"

definition xdr_rpc_loc_predicted_orbits_data_validity_report_s_type ::
    "rpc_loc_predicted_orbits_data_validity_report_s_type xdrproc" where
  "xdr_rpc_loc_predicted_orbits_data_validity_report_s_type = xdr_all
    [xdr_member rpc_loc_predicted_orbits_data_validity_report_s_type.start_time_utc
       rpc_loc_predicted_orbits_data_validity_report_s_type.start_time_utc_update xdr_rpc_uint64,
     xdr_member rpc_loc_predicted_orbits_data_validity_report_s_type.valid_duration_hrs
       rpc_loc_predicted_orbits_data_validity_report_s_type.valid_duration_hrs_update
           xdr_rpc_uint16]"

definition enc_rpc_loc_predicted_orbits_data_validity_report_s_type ::
    "rpc_loc_predicted_orbits_data_validity_report_s_type \<Rightarrow> byte list" where
  "enc_rpc_loc_predicted_orbits_data_validity_report_s_type v =
     enc_u64 (rpc_loc_predicted_orbits_data_validity_report_s_type.start_time_utc v) @
     enc_u16 (rpc_loc_predicted_orbits_data_validity_report_s_type.valid_duration_hrs v)"

interpretation rpc_loc_predicted_orbits_data_validity_report_s_type_codec: xdr_safe_codec
    xdr_rpc_loc_predicted_orbits_data_validity_report_s_type
        enc_rpc_loc_predicted_orbits_data_validity_report_s_type
    "\<lambda>_. True" "\<lambda>_. 0" zero_rpc_loc_predicted_orbits_data_validity_report_s_type
  by (unfold_locales; unfold xdr_rpc_loc_predicted_orbits_data_validity_report_s_type_def
      enc_rpc_loc_predicted_orbits_data_validity_report_s_type_def;
      (rule struct_intros codec_enc codec_dec codec_free codec_safe
        | simp add: zero_rpc_loc_predicted_orbits_data_validity_report_s_type_def)+)

record rpc_loc_predicted_orbits_auto_download_config_s_type =
  enable :: u32
  auto_check_every_hrs :: byte

definition zero_rpc_loc_predicted_orbits_auto_download_config_s_type ::
    rpc_loc_predicted_orbits_auto_download_config_s_type where
  "zero_rpc_loc_predicted_orbits_auto_download_config_s_type =
    \<lparr> enable = 0,
     auto_check_every_hrs = 0\<rparr>"

definition xdr_rpc_loc_predicted_orbits_auto_download_config_s_type ::
    "rpc_loc_predicted_orbits_auto_download_config_s_type xdrproc" where
  "xdr_rpc_loc_predicted_orbits_auto_download_config_s_type = xdr_all
    [xdr_member rpc_loc_predicted_orbits_auto_download_config_s_type.enable
       rpc_loc_predicted_orbits_auto_download_config_s_type.enable_update xdr_rpc_boolean,
     xdr_member rpc_loc_predicted_orbits_auto_download_config_s_type.auto_check_every_hrs
       rpc_loc_predicted_orbits_auto_download_config_s_type.auto_check_every_hrs_update xdr_u_char]"

definition enc_rpc_loc_predicted_orbits_auto_download_config_s_type ::
    "rpc_loc_predicted_orbits_auto_download_config_s_type \<Rightarrow> byte list" where
  "enc_rpc_loc_predicted_orbits_auto_download_config_s_type v =
     enc_u32 (rpc_loc_predicted_orbits_auto_download_config_s_type.enable v) @
     enc_byte (rpc_loc_predicted_orbits_auto_download_config_s_type.auto_check_every_hrs v)"

definition wf_rpc_loc_predicted_orbits_auto_download_config_s_type ::
    "rpc_loc_predicted_orbits_auto_download_config_s_type \<Rightarrow> bool" where
  "wf_rpc_loc_predicted_orbits_auto_download_config_s_type v \<longleftrightarrow>
     wf_bool (rpc_loc_predicted_orbits_auto_download_config_s_type.enable v)"

interpretation rpc_loc_predicted_orbits_auto_download_config_s_type_codec: xdr_safe_codec
    xdr_rpc_loc_predicted_orbits_auto_download_config_s_type
        enc_rpc_loc_predicted_orbits_auto_download_config_s_type
    wf_rpc_loc_predicted_orbits_auto_download_config_s_type "\<lambda>_. 0"
        zero_rpc_loc_predicted_orbits_auto_download_config_s_type
  by (unfold_locales; unfold xdr_rpc_loc_predicted_orbits_auto_download_config_s_type_def
      enc_rpc_loc_predicted_orbits_auto_download_config_s_type_def;
      (rule struct_intros codec_enc codec_dec codec_free codec_safe
        | simp add: zero_rpc_loc_predicted_orbits_auto_download_config_s_type_def
            wf_rpc_loc_predicted_orbits_auto_download_config_s_type_def)+)

record rpc_loc_assist_data_time_s_type =
  time_utc :: u64
  uncertainty :: u32

definition zero_rpc_loc_assist_data_time_s_type :: rpc_loc_assist_data_time_s_type where
  "zero_rpc_loc_assist_data_time_s_type =
    \<lparr> time_utc = 0, uncertainty = 0\<rparr>"

definition xdr_rpc_loc_assist_data_time_s_type ::
    "rpc_loc_assist_data_time_s_type xdrproc" where
  "xdr_rpc_loc_assist_data_time_s_type = xdr_all
    [xdr_member rpc_loc_assist_data_time_s_type.time_utc
       rpc_loc_assist_data_time_s_type.time_utc_update xdr_rpc_uint64,
     xdr_member rpc_loc_assist_data_time_s_type.uncertainty
       rpc_loc_assist_data_time_s_type.uncertainty_update xdr_rpc_uint32]"

definition enc_rpc_loc_assist_data_time_s_type ::
    "rpc_loc_assist_data_time_s_type \<Rightarrow> byte list" where
  "enc_rpc_loc_assist_data_time_s_type v =
     enc_u64 (rpc_loc_assist_data_time_s_type.time_utc v) @
     enc_u32 (rpc_loc_assist_data_time_s_type.uncertainty v)"

interpretation rpc_loc_assist_data_time_s_type_codec: xdr_safe_codec
    xdr_rpc_loc_assist_data_time_s_type enc_rpc_loc_assist_data_time_s_type
    "\<lambda>_. True" "\<lambda>_. 0" zero_rpc_loc_assist_data_time_s_type
  by (unfold_locales; unfold xdr_rpc_loc_assist_data_time_s_type_def
      enc_rpc_loc_assist_data_time_s_type_def;
      (rule struct_intros codec_enc codec_dec codec_free codec_safe
        | simp add: zero_rpc_loc_assist_data_time_s_type_def)+)

definition xdr_rpc_loc_assist_pos_valid_mask_type :: "u64 xdrproc" where
  "xdr_rpc_loc_assist_pos_valid_mask_type = xdr_all [xdr_rpc_uint64]"

interpretation rpc_loc_assist_pos_valid_mask_type_codec: xdr_safe_codec
    xdr_rpc_loc_assist_pos_valid_mask_type enc_u64 "\<lambda>_. True" "\<lambda>_. 0" 0
  by (unfold_locales; unfold xdr_rpc_loc_assist_pos_valid_mask_type_def;
      intro wrap_intros codec_enc codec_dec codec_free codec_safe; simp)

record rpc_loc_assist_data_pos_s_type =
  valid_mask :: u64
  timestamp_utc :: u64
  latitude :: u64
  longitude :: u64
  altitude_wrt_ellipsoid :: u32
  altitude_wrt_mean_sea_level :: u32
  hor_unc_circular :: u32
  vert_unc :: u32
  confidence_horizontal :: byte
  confidence_vertical :: byte
  timestamp_age :: u32

definition zero_rpc_loc_assist_data_pos_s_type :: rpc_loc_assist_data_pos_s_type where
  "zero_rpc_loc_assist_data_pos_s_type =
    \<lparr> valid_mask = 0, timestamp_utc = 0,
     latitude = 0, longitude = 0, altitude_wrt_ellipsoid = 0, altitude_wrt_mean_sea_level = 0,
     hor_unc_circular = 0, vert_unc = 0, confidence_horizontal = 0, confidence_vertical = 0,
     timestamp_age = 0\<rparr>"

definition xdr_rpc_loc_assist_data_pos_s_type ::
    "rpc_loc_assist_data_pos_s_type xdrproc" where
  "xdr_rpc_loc_assist_data_pos_s_type = xdr_all
    [xdr_member rpc_loc_assist_data_pos_s_type.valid_mask
       rpc_loc_assist_data_pos_s_type.valid_mask_update xdr_rpc_loc_assist_pos_valid_mask_type,
     xdr_member rpc_loc_assist_data_pos_s_type.timestamp_utc
       rpc_loc_assist_data_pos_s_type.timestamp_utc_update xdr_rpc_uint64,
     xdr_member rpc_loc_assist_data_pos_s_type.latitude
       rpc_loc_assist_data_pos_s_type.latitude_update xdr_double,
     xdr_member rpc_loc_assist_data_pos_s_type.longitude
       rpc_loc_assist_data_pos_s_type.longitude_update xdr_double,
     xdr_member rpc_loc_assist_data_pos_s_type.altitude_wrt_ellipsoid
       rpc_loc_assist_data_pos_s_type.altitude_wrt_ellipsoid_update xdr_float,
     xdr_member rpc_loc_assist_data_pos_s_type.altitude_wrt_mean_sea_level
       rpc_loc_assist_data_pos_s_type.altitude_wrt_mean_sea_level_update xdr_float,
     xdr_member rpc_loc_assist_data_pos_s_type.hor_unc_circular
       rpc_loc_assist_data_pos_s_type.hor_unc_circular_update xdr_float,
     xdr_member rpc_loc_assist_data_pos_s_type.vert_unc
       rpc_loc_assist_data_pos_s_type.vert_unc_update xdr_float,
     xdr_member rpc_loc_assist_data_pos_s_type.confidence_horizontal
       rpc_loc_assist_data_pos_s_type.confidence_horizontal_update xdr_u_char,
     xdr_member rpc_loc_assist_data_pos_s_type.confidence_vertical
       rpc_loc_assist_data_pos_s_type.confidence_vertical_update xdr_u_char,
     xdr_member rpc_loc_assist_data_pos_s_type.timestamp_age
       rpc_loc_assist_data_pos_s_type.timestamp_age_update xdr_rpc_int32]"

definition enc_rpc_loc_assist_data_pos_s_type ::
    "rpc_loc_assist_data_pos_s_type \<Rightarrow> byte list" where
  "enc_rpc_loc_assist_data_pos_s_type v =
     enc_u64 (rpc_loc_assist_data_pos_s_type.valid_mask v) @
     enc_u64 (rpc_loc_assist_data_pos_s_type.timestamp_utc v) @
     enc_u64 (rpc_loc_assist_data_pos_s_type.latitude v) @
     enc_u64 (rpc_loc_assist_data_pos_s_type.longitude v) @
     enc_u32 (rpc_loc_assist_data_pos_s_type.altitude_wrt_ellipsoid v) @
     enc_u32 (rpc_loc_assist_data_pos_s_type.altitude_wrt_mean_sea_level v) @
     enc_u32 (rpc_loc_assist_data_pos_s_type.hor_unc_circular v) @
     enc_u32 (rpc_loc_assist_data_pos_s_type.vert_unc v) @
     enc_byte (rpc_loc_assist_data_pos_s_type.confidence_horizontal v) @
     enc_byte (rpc_loc_assist_data_pos_s_type.confidence_vertical v) @
     enc_u32 (rpc_loc_assist_data_pos_s_type.timestamp_age v)"

interpretation rpc_loc_assist_data_pos_s_type_codec: xdr_safe_codec
    xdr_rpc_loc_assist_data_pos_s_type enc_rpc_loc_assist_data_pos_s_type
    "\<lambda>_. True" "\<lambda>_. 0" zero_rpc_loc_assist_data_pos_s_type
  by (unfold_locales; unfold xdr_rpc_loc_assist_data_pos_s_type_def
      enc_rpc_loc_assist_data_pos_s_type_def;
      (rule struct_intros codec_enc codec_dec codec_free codec_safe
        | simp add: zero_rpc_loc_assist_data_pos_s_type_def)+)

definition xdr_rpc_loc_server_open_status_e_type :: "u32 xdrproc" where
  "xdr_rpc_loc_server_open_status_e_type = xdr_all [xdr_enum]"

interpretation rpc_loc_server_open_status_e_type_codec: xdr_safe_codec
    xdr_rpc_loc_server_open_status_e_type enc_u32 "\<lambda>_. True" "\<lambda>_. 0" 0
  by (unfold_locales; unfold xdr_rpc_loc_server_open_status_e_type_def;
      intro wrap_intros codec_enc codec_dec codec_free codec_safe; simp)

record rpc_loc_server_open_status_s_type =
  conn_handle :: u32
  open_status :: u32
  apn_name :: "byte list"

definition zero_rpc_loc_server_open_status_s_type :: rpc_loc_server_open_status_s_type where
  "zero_rpc_loc_server_open_status_s_type =
    \<lparr> conn_handle = 0, open_status = 0,
     apn_name = replicate 100 0\<rparr>"

definition xdr_rpc_loc_server_open_status_s_type ::
    "rpc_loc_server_open_status_s_type xdrproc" where
  "xdr_rpc_loc_server_open_status_s_type = xdr_all
    [xdr_member rpc_loc_server_open_status_s_type.conn_handle
       rpc_loc_server_open_status_s_type.conn_handle_update xdr_rpc_loc_server_connection_handle,
     xdr_member rpc_loc_server_open_status_s_type.open_status
       rpc_loc_server_open_status_s_type.open_status_update xdr_rpc_loc_server_open_status_e_type,
     xdr_member rpc_loc_server_open_status_s_type.apn_name
       rpc_loc_server_open_status_s_type.apn_name_update (xdr_opaque 100)]"

definition enc_rpc_loc_server_open_status_s_type ::
    "rpc_loc_server_open_status_s_type \<Rightarrow> byte list" where
  "enc_rpc_loc_server_open_status_s_type v =
     enc_u32 (rpc_loc_server_open_status_s_type.conn_handle v) @
     enc_u32 (rpc_loc_server_open_status_s_type.open_status v) @
     padded (rpc_loc_server_open_status_s_type.apn_name v)"

definition wf_rpc_loc_server_open_status_s_type :: "rpc_loc_server_open_status_s_type \<Rightarrow>
    bool" where
  "wf_rpc_loc_server_open_status_s_type v \<longleftrightarrow>
     length (rpc_loc_server_open_status_s_type.apn_name v) = 100"

interpretation rpc_loc_server_open_status_s_type_codec: xdr_safe_codec
    xdr_rpc_loc_server_open_status_s_type enc_rpc_loc_server_open_status_s_type
    wf_rpc_loc_server_open_status_s_type "\<lambda>_. 0" zero_rpc_loc_server_open_status_s_type
  by (unfold_locales; unfold xdr_rpc_loc_server_open_status_s_type_def
      enc_rpc_loc_server_open_status_s_type_def;
      (rule struct_intros codec_enc codec_dec codec_free codec_safe
        | simp add: zero_rpc_loc_server_open_status_s_type_def
            wf_rpc_loc_server_open_status_s_type_def)+)

definition xdr_rpc_loc_server_close_status_e_type :: "u32 xdrproc" where
  "xdr_rpc_loc_server_close_status_e_type = xdr_all [xdr_enum]"

interpretation rpc_loc_server_close_status_e_type_codec: xdr_safe_codec
    xdr_rpc_loc_server_close_status_e_type enc_u32 "\<lambda>_. True" "\<lambda>_. 0" 0
  by (unfold_locales; unfold xdr_rpc_loc_server_close_status_e_type_def;
      intro wrap_intros codec_enc codec_dec codec_free codec_safe; simp)

record rpc_loc_server_close_status_s_type =
  conn_handle :: u32
  close_status :: u32

definition zero_rpc_loc_server_close_status_s_type :: rpc_loc_server_close_status_s_type where
  "zero_rpc_loc_server_close_status_s_type =
    \<lparr> conn_handle = 0, close_status = 0\<rparr>"

definition xdr_rpc_loc_server_close_status_s_type ::
    "rpc_loc_server_close_status_s_type xdrproc" where
  "xdr_rpc_loc_server_close_status_s_type = xdr_all
    [xdr_member rpc_loc_server_close_status_s_type.conn_handle
       rpc_loc_server_close_status_s_type.conn_handle_update xdr_rpc_loc_server_connection_handle,
     xdr_member rpc_loc_server_close_status_s_type.close_status
       rpc_loc_server_close_status_s_type.close_status_update
           xdr_rpc_loc_server_close_status_e_type]"

definition enc_rpc_loc_server_close_status_s_type ::
    "rpc_loc_server_close_status_s_type \<Rightarrow> byte list" where
  "enc_rpc_loc_server_close_status_s_type v =
     enc_u32 (rpc_loc_server_close_status_s_type.conn_handle v) @
     enc_u32 (rpc_loc_server_close_status_s_type.close_status v)"

interpretation rpc_loc_server_close_status_s_type_codec: xdr_safe_codec
    xdr_rpc_loc_server_close_status_s_type enc_rpc_loc_server_close_status_s_type
    "\<lambda>_. True" "\<lambda>_. 0" zero_rpc_loc_server_close_status_s_type
  by (unfold_locales; unfold xdr_rpc_loc_server_close_status_s_type_def
      enc_rpc_loc_server_close_status_s_type_def;
      (rule struct_intros codec_enc codec_dec codec_free codec_safe
        | simp add: zero_rpc_loc_server_close_status_s_type_def)+)

record rpc_loc_wiper_fix_time_s_type =
  slow_clock_count :: u32

definition zero_rpc_loc_wiper_fix_time_s_type :: rpc_loc_wiper_fix_time_s_type where
  "zero_rpc_loc_wiper_fix_time_s_type =
    \<lparr> slow_clock_count = 0\<rparr>"

definition xdr_rpc_loc_wiper_fix_time_s_type ::
    "rpc_loc_wiper_fix_time_s_type xdrproc" where
  "xdr_rpc_loc_wiper_fix_time_s_type = xdr_all
    [xdr_member rpc_loc_wiper_fix_time_s_type.slow_clock_count
       rpc_loc_wiper_fix_time_s_type.slow_clock_count_update xdr_rpc_uint32]"

definition enc_rpc_loc_wiper_fix_time_s_type ::
    "rpc_loc_wiper_fix_time_s_type \<Rightarrow> byte list" where
  "enc_rpc_loc_wiper_fix_time_s_type v =
     enc_u32 (rpc_loc_wiper_fix_time_s_type.slow_clock_count v)"

interpretation rpc_loc_wiper_fix_time_s_type_codec: xdr_safe_codec
    xdr_rpc_loc_wiper_fix_time_s_type enc_rpc_loc_wiper_fix_time_s_type
    "\<lambda>_. True" "\<lambda>_. 0" zero_rpc_loc_wiper_fix_time_s_type
  by (unfold_locales; unfold xdr_rpc_loc_wiper_fix_time_s_type_def
      enc_rpc_loc_wiper_fix_time_s_type_def;
      (rule struct_intros codec_enc codec_dec codec_free codec_safe
        | simp add: zero_rpc_loc_wiper_fix_time_s_type_def)+)

record rpc_loc_wiper_fix_pos_s_type =
  lat :: u32
  lon :: u32
  HEPE :: u16
  num_of_aps_used :: byte
  fix_error_code :: byte

definition zero_rpc_loc_wiper_fix_pos_s_type :: rpc_loc_wiper_fix_pos_s_type where
  "zero_rpc_loc_wiper_fix_pos_s_type =
    \<lparr> lat = 0, lon = 0, HEPE = 0,
     num_of_aps_used = 0, fix_error_code = 0\<rparr>"

definition xdr_rpc_loc_wiper_fix_pos_s_type ::
    "rpc_loc_wiper_fix_pos_s_type xdrproc" where
  "xdr_rpc_loc_wiper_fix_pos_s_type = xdr_all
    [xdr_member rpc_loc_wiper_fix_pos_s_type.lat
       rpc_loc_wiper_fix_pos_s_type.lat_update xdr_rpc_int32,
     xdr_member rpc_loc_wiper_fix_pos_s_type.lon
       rpc_loc_wiper_fix_pos_s_type.lon_update xdr_rpc_int32,
     xdr_member rpc_loc_wiper_fix_pos_s_type.HEPE
       rpc_loc_wiper_fix_pos_s_type.HEPE_update xdr_rpc_uint16,
     xdr_member rpc_loc_wiper_fix_pos_s_type.num_of_aps_used
       rpc_loc_wiper_fix_pos_s_type.num_of_aps_used_update xdr_rpc_uint8,
     xdr_member rpc_loc_wiper_fix_pos_s_type.fix_error_code
       rpc_loc_wiper_fix_pos_s_type.fix_error_code_update xdr_rpc_uint8]"

definition enc_rpc_loc_wiper_fix_pos_s_type ::
    "rpc_loc_wiper_fix_pos_s_type \<Rightarrow> byte list" where
  "enc_rpc_loc_wiper_fix_pos_s_type v =
     enc_u32 (rpc_loc_wiper_fix_pos_s_type.lat v) @
     enc_u32 (rpc_loc_wiper_fix_pos_s_type.lon v) @
     enc_u16 (rpc_loc_wiper_fix_pos_s_type.HEPE v) @
     enc_byte (rpc_loc_wiper_fix_pos_s_type.num_of_aps_used v) @
     enc_byte (rpc_loc_wiper_fix_pos_s_type.fix_error_code v)"

interpretation rpc_loc_wiper_fix_pos_s_type_codec: xdr_safe_codec
    xdr_rpc_loc_wiper_fix_pos_s_type enc_rpc_loc_wiper_fix_pos_s_type
    "\<lambda>_. True" "\<lambda>_. 0" zero_rpc_loc_wiper_fix_pos_s_type
  by (unfold_locales; unfold xdr_rpc_loc_wiper_fix_pos_s_type_def
      enc_rpc_loc_wiper_fix_pos_s_type_def;
      (rule struct_intros codec_enc codec_dec codec_free codec_safe
        | simp add: zero_rpc_loc_wiper_fix_pos_s_type_def)+)

record rpc_loc_wiper_ap_info_s_type =
  mac_addr :: "byte list"
  rssi :: u32
  channel :: u16
  ap_qualifier :: byte

definition zero_rpc_loc_wiper_ap_info_s_type :: rpc_loc_wiper_ap_info_s_type where
  "zero_rpc_loc_wiper_ap_info_s_type =
    \<lparr> mac_addr = replicate 6 0, rssi = 0,
     channel = 0, ap_qualifier = 0\<rparr>"

definition xdr_rpc_loc_wiper_ap_info_s_type ::
    "rpc_loc_wiper_ap_info_s_type xdrproc" where
  "xdr_rpc_loc_wiper_ap_info_s_type = xdr_all
    [xdr_member rpc_loc_wiper_ap_info_s_type.mac_addr
       rpc_loc_wiper_ap_info_s_type.mac_addr_update (xdr_opaque 6),
     xdr_member rpc_loc_wiper_ap_info_s_type.rssi
       rpc_loc_wiper_ap_info_s_type.rssi_update xdr_rpc_int32,
     xdr_member rpc_loc_wiper_ap_info_s_type.channel
       rpc_loc_wiper_ap_info_s_type.channel_update xdr_rpc_uint16,
     xdr_member rpc_loc_wiper_ap_info_s_type.ap_qualifier
       rpc_loc_wiper_ap_info_s_type.ap_qualifier_update xdr_rpc_uint8]"

definition enc_rpc_loc_wiper_ap_info_s_type ::
    "rpc_loc_wiper_ap_info_s_type \<Rightarrow> byte list" where
  "enc_rpc_loc_wiper_ap_info_s_type v =
     padded (rpc_loc_wiper_ap_info_s_type.mac_addr v) @
     enc_u32 (rpc_loc_wiper_ap_info_s_type.rssi v) @
     enc_u16 (rpc_loc_wiper_ap_info_s_type.channel v) @
     enc_byte (rpc_loc_wiper_ap_info_s_type.ap_qualifier v)"

definition wf_rpc_loc_wiper_ap_info_s_type :: "rpc_loc_wiper_ap_info_s_type \<Rightarrow> bool"
    where
  "wf_rpc_loc_wiper_ap_info_s_type v \<longleftrightarrow>
     length (rpc_loc_wiper_ap_info_s_type.mac_addr v) = 6"

interpretation rpc_loc_wiper_ap_info_s_type_codec: xdr_safe_codec
    xdr_rpc_loc_wiper_ap_info_s_type enc_rpc_loc_wiper_ap_info_s_type
    wf_rpc_loc_wiper_ap_info_s_type "\<lambda>_. 0" zero_rpc_loc_wiper_ap_info_s_type
  by (unfold_locales; unfold xdr_rpc_loc_wiper_ap_info_s_type_def
      enc_rpc_loc_wiper_ap_info_s_type_def;
      (rule struct_intros codec_enc codec_dec codec_free codec_safe
        | simp add: zero_rpc_loc_wiper_ap_info_s_type_def wf_rpc_loc_wiper_ap_info_s_type_def)+)

record rpc_loc_wiper_ap_set_s_type =
  num_of_aps :: byte
  ap_info :: "rpc_loc_wiper_ap_info_s_type list"

definition zero_rpc_loc_wiper_ap_set_s_type :: rpc_loc_wiper_ap_set_s_type where
  "zero_rpc_loc_wiper_ap_set_s_type =
    \<lparr> num_of_aps = 0,
     ap_info = replicate 50 zero_rpc_loc_wiper_ap_info_s_type\<rparr>"

interpretation vec50_rpc_loc_wiper_ap_info_s_type: xdr_safe_codec "xdr_vector 50
    xdr_rpc_loc_wiper_ap_info_s_type" "enc_vector enc_rpc_loc_wiper_ap_info_s_type"
    "wf_vector 50 (wf_rpc_loc_wiper_ap_info_s_type)" "blk_vector (\<lambda>_. 0)" "replicate (unat
        (50 :: u32)) zero_rpc_loc_wiper_ap_info_s_type"
  by (rule rpc_loc_wiper_ap_info_s_type_codec.vector_safe)

definition xdr_rpc_loc_wiper_ap_set_s_type ::
    "rpc_loc_wiper_ap_set_s_type xdrproc" where
  "xdr_rpc_loc_wiper_ap_set_s_type = xdr_all
    [xdr_member rpc_loc_wiper_ap_set_s_type.num_of_aps
       rpc_loc_wiper_ap_set_s_type.num_of_aps_update xdr_rpc_uint8,
     xdr_member rpc_loc_wiper_ap_set_s_type.ap_info
       rpc_loc_wiper_ap_set_s_type.ap_info_update (xdr_vector 50 xdr_rpc_loc_wiper_ap_info_s_type)]"

definition enc_rpc_loc_wiper_ap_set_s_type ::
    "rpc_loc_wiper_ap_set_s_type \<Rightarrow> byte list" where
  "enc_rpc_loc_wiper_ap_set_s_type v =
     enc_byte (rpc_loc_wiper_ap_set_s_type.num_of_aps v) @
     (enc_vector enc_rpc_loc_wiper_ap_info_s_type) (rpc_loc_wiper_ap_set_s_type.ap_info v)"

definition wf_rpc_loc_wiper_ap_set_s_type :: "rpc_loc_wiper_ap_set_s_type \<Rightarrow> bool" where
  "wf_rpc_loc_wiper_ap_set_s_type v \<longleftrightarrow>
     (wf_vector 50 (wf_rpc_loc_wiper_ap_info_s_type)) (rpc_loc_wiper_ap_set_s_type.ap_info v)"

definition blk_rpc_loc_wiper_ap_set_s_type :: "rpc_loc_wiper_ap_set_s_type \<Rightarrow> nat" where
  "blk_rpc_loc_wiper_ap_set_s_type v =
     (blk_vector (\<lambda>_. 0)) (rpc_loc_wiper_ap_set_s_type.ap_info v)"

interpretation rpc_loc_wiper_ap_set_s_type_codec: xdr_safe_codec
    xdr_rpc_loc_wiper_ap_set_s_type enc_rpc_loc_wiper_ap_set_s_type
    wf_rpc_loc_wiper_ap_set_s_type blk_rpc_loc_wiper_ap_set_s_type zero_rpc_loc_wiper_ap_set_s_type
  by (unfold_locales; unfold xdr_rpc_loc_wiper_ap_set_s_type_def
      enc_rpc_loc_wiper_ap_set_s_type_def;
      (rule struct_intros codec_enc codec_dec codec_free codec_safe
        | simp add: zero_rpc_loc_wiper_ap_set_s_type_def wf_rpc_loc_wiper_ap_set_s_type_def
            blk_rpc_loc_wiper_ap_set_s_type_def)+)

record rpc_loc_wiper_position_report_s_type =
  wiper_valid_info_flag :: byte
  wiper_fix_time :: rpc_loc_wiper_fix_time_s_type
  wiper_fix_position :: rpc_loc_wiper_fix_pos_s_type
  wiper_ap_set :: rpc_loc_wiper_ap_set_s_type

definition zero_rpc_loc_wiper_position_report_s_type :: rpc_loc_wiper_position_report_s_type where
  "zero_rpc_loc_wiper_position_report_s_type =
    \<lparr> wiper_valid_info_flag = 0,
     wiper_fix_time = zero_rpc_loc_wiper_fix_time_s_type,
     wiper_fix_position = zero_rpc_loc_wiper_fix_pos_s_type,
     wiper_ap_set = zero_rpc_loc_wiper_ap_set_s_type\<rparr>"

definition xdr_rpc_loc_wiper_position_report_s_type ::
    "rpc_loc_wiper_position_report_s_type xdrproc" where
  "xdr_rpc_loc_wiper_position_report_s_type = xdr_all
    [xdr_member rpc_loc_wiper_position_report_s_type.wiper_valid_info_flag
       rpc_loc_wiper_position_report_s_type.wiper_valid_info_flag_update xdr_rpc_uint8,
     xdr_member rpc_loc_wiper_position_report_s_type.wiper_fix_time
       rpc_loc_wiper_position_report_s_type.wiper_fix_time_update xdr_rpc_loc_wiper_fix_time_s_type,
     xdr_member rpc_loc_wiper_position_report_s_type.wiper_fix_position
       rpc_loc_wiper_position_report_s_type.wiper_fix_position_update
           xdr_rpc_loc_wiper_fix_pos_s_type,
     xdr_member rpc_loc_wiper_position_report_s_type.wiper_ap_set
       rpc_loc_wiper_position_report_s_type.wiper_ap_set_update xdr_rpc_loc_wiper_ap_set_s_type]"

definition enc_rpc_loc_wiper_position_report_s_type ::
    "rpc_loc_wiper_position_report_s_type \<Rightarrow> byte list" where
  "enc_rpc_loc_wiper_position_report_s_type v =
     enc_byte (rpc_loc_wiper_position_report_s_type.wiper_valid_info_flag v) @
     enc_rpc_loc_wiper_fix_time_s_type (rpc_loc_wiper_position_report_s_type.wiper_fix_time v) @
     enc_rpc_loc_wiper_fix_pos_s_type (rpc_loc_wiper_position_report_s_type.wiper_fix_position v) @
     enc_rpc_loc_wiper_ap_set_s_type (rpc_loc_wiper_position_report_s_type.wiper_ap_set v)"

definition wf_rpc_loc_wiper_position_report_s_type :: "rpc_loc_wiper_position_report_s_type
    \<Rightarrow> bool" where
  "wf_rpc_loc_wiper_position_report_s_type v \<longleftrightarrow>
     wf_rpc_loc_wiper_ap_set_s_type (rpc_loc_wiper_position_report_s_type.wiper_ap_set v)"

definition blk_rpc_loc_wiper_position_report_s_type :: "rpc_loc_wiper_position_report_s_type
    \<Rightarrow> nat" where
  "blk_rpc_loc_wiper_position_report_s_type v =
     blk_rpc_loc_wiper_ap_set_s_type (rpc_loc_wiper_position_report_s_type.wiper_ap_set v)"

interpretation rpc_loc_wiper_position_report_s_type_codec: xdr_safe_codec
    xdr_rpc_loc_wiper_position_report_s_type enc_rpc_loc_wiper_position_report_s_type
    wf_rpc_loc_wiper_position_report_s_type blk_rpc_loc_wiper_position_report_s_type
        zero_rpc_loc_wiper_position_report_s_type
  by (unfold_locales; unfold xdr_rpc_loc_wiper_position_report_s_type_def
      enc_rpc_loc_wiper_position_report_s_type_def;
      (rule struct_intros codec_enc codec_dec codec_free codec_safe
        | simp add: zero_rpc_loc_wiper_position_report_s_type_def
            wf_rpc_loc_wiper_position_report_s_type_def
                blk_rpc_loc_wiper_position_report_s_type_def)+)

definition xdr_rpc_loc_wiper_status_e_type :: "u32 xdrproc" where
  "xdr_rpc_loc_wiper_status_e_type = xdr_all [xdr_enum]"

interpretation rpc_loc_wiper_status_e_type_codec: xdr_safe_codec
    xdr_rpc_loc_wiper_status_e_type enc_u32 "\<lambda>_. True" "\<lambda>_. 0" 0
  by (unfold_locales; unfold xdr_rpc_loc_wiper_status_e_type_def;
      intro wrap_intros codec_enc codec_dec codec_free codec_safe; simp)

definition xdr_rpc_loc_fs_operation_e_type :: "u32 xdrproc" where
  "xdr_rpc_loc_fs_operation_e_type = xdr_all [xdr_enum]"

interpretation rpc_loc_fs_operation_e_type_codec: xdr_safe_codec
    xdr_rpc_loc_fs_operation_e_type enc_u32 "\<lambda>_. True" "\<lambda>_. 0" 0
  by (unfold_locales; unfold xdr_rpc_loc_fs_operation_e_type_def;
      intro wrap_intros codec_enc codec_dec codec_free codec_safe; simp)

record rpc_loc_efs_data_s_type =
  filename :: "byte list"
  operation :: u32
  total_size :: u32
  data_ptr :: "byte counted"
  part_len :: u32
  part :: byte
  total_parts :: byte
  reserved :: u32

definition zero_rpc_loc_efs_data_s_type :: rpc_loc_efs_data_s_type where
  "zero_rpc_loc_efs_data_s_type =
    \<lparr> filename = replicate 64 0, operation = 0,
     total_size = 0, data_ptr = null_counted, part_len = 0, part = 0, total_parts = 0,
     reserved = 0\<rparr>"

definition xdr_rpc_loc_efs_data_s_type ::
    "rpc_loc_efs_data_s_type xdrproc" where
  "xdr_rpc_loc_efs_data_s_type = xdr_all
    [xdr_member rpc_loc_efs_data_s_type.filename
       rpc_loc_efs_data_s_type.filename_update (xdr_opaque 64),
     xdr_member rpc_loc_efs_data_s_type.operation
       rpc_loc_efs_data_s_type.operation_update xdr_rpc_loc_fs_operation_e_type,
     xdr_member rpc_loc_efs_data_s_type.total_size
       rpc_loc_efs_data_s_type.total_size_update xdr_rpc_uint32,
     xdr_member rpc_loc_efs_data_s_type.data_ptr
       rpc_loc_efs_data_s_type.data_ptr_update (xdr_bytes (- 1)),
     xdr_member rpc_loc_efs_data_s_type.part_len
       rpc_loc_efs_data_s_type.part_len_update xdr_rpc_uint32,
     xdr_member rpc_loc_efs_data_s_type.part
       rpc_loc_efs_data_s_type.part_update xdr_rpc_uint8,
     xdr_member rpc_loc_efs_data_s_type.total_parts
       rpc_loc_efs_data_s_type.total_parts_update xdr_rpc_uint8,
     xdr_member rpc_loc_efs_data_s_type.reserved
       rpc_loc_efs_data_s_type.reserved_update xdr_rpc_uint32]"

definition enc_rpc_loc_efs_data_s_type ::
    "rpc_loc_efs_data_s_type \<Rightarrow> byte list" where
  "enc_rpc_loc_efs_data_s_type v =
     padded (rpc_loc_efs_data_s_type.filename v) @
     enc_u32 (rpc_loc_efs_data_s_type.operation v) @
     enc_u32 (rpc_loc_efs_data_s_type.total_size v) @
     enc_bytes (rpc_loc_efs_data_s_type.data_ptr v) @
     enc_u32 (rpc_loc_efs_data_s_type.part_len v) @ enc_byte (rpc_loc_efs_data_s_type.part v) @
     enc_byte (rpc_loc_efs_data_s_type.total_parts v) @
     enc_u32 (rpc_loc_efs_data_s_type.reserved v)"

definition wf_rpc_loc_efs_data_s_type :: "rpc_loc_efs_data_s_type \<Rightarrow> bool" where
  "wf_rpc_loc_efs_data_s_type v \<longleftrightarrow>
     length (rpc_loc_efs_data_s_type.filename v) = 64 \<and>
     (wf_bytes (- 1)) (rpc_loc_efs_data_s_type.data_ptr v)"

definition blk_rpc_loc_efs_data_s_type :: "rpc_loc_efs_data_s_type \<Rightarrow> nat" where
  "blk_rpc_loc_efs_data_s_type v =
     blk_bytes (rpc_loc_efs_data_s_type.data_ptr v)"

interpretation rpc_loc_efs_data_s_type_codec: xdr_safe_codec
    xdr_rpc_loc_efs_data_s_type enc_rpc_loc_efs_data_s_type
    wf_rpc_loc_efs_data_s_type blk_rpc_loc_efs_data_s_type zero_rpc_loc_efs_data_s_type
  by (unfold_locales; unfold xdr_rpc_loc_efs_data_s_type_def enc_rpc_loc_efs_data_s_type_def;
      (rule struct_intros codec_enc codec_dec codec_free codec_safe
        | simp add: zero_rpc_loc_efs_data_s_type_def wf_rpc_loc_efs_data_s_type_def
            blk_rpc_loc_efs_data_s_type_def)+)

definition xdr_rpc_loc_lock_e_type :: "u32 xdrproc" where
  "xdr_rpc_loc_lock_e_type = xdr_all [xdr_enum]"

interpretation rpc_loc_lock_e_type_codec: xdr_safe_codec
    xdr_rpc_loc_lock_e_type enc_u32 "\<lambda>_. True" "\<lambda>_. 0" 0
  by (unfold_locales; unfold xdr_rpc_loc_lock_e_type_def;
      intro wrap_intros codec_enc codec_dec codec_free codec_safe; simp)

definition xdr_rpc_loc_nmea_sentence_type :: "u32 xdrproc" where
  "xdr_rpc_loc_nmea_sentence_type = xdr_all [xdr_rpc_uint32]"

interpretation rpc_loc_nmea_sentence_type_codec: xdr_safe_codec
    xdr_rpc_loc_nmea_sentence_type enc_u32 "\<lambda>_. True" "\<lambda>_. 0" 0
  by (unfold_locales; unfold xdr_rpc_loc_nmea_sentence_type_def;
      intro wrap_intros codec_enc codec_dec codec_free codec_safe; simp)

definition xdr_rpc_loc_assist_data_type :: "u32 xdrproc" where
  "xdr_rpc_loc_assist_data_type = xdr_all [xdr_rpc_uint32]"

interpretation rpc_loc_assist_data_type_codec: xdr_safe_codec
    xdr_rpc_loc_assist_data_type enc_u32 "\<lambda>_. True" "\<lambda>_. 0" 0
  by (unfold_locales; unfold xdr_rpc_loc_assist_data_type_def;
      intro wrap_intros codec_enc codec_dec codec_free codec_safe; simp)

record rpc_loc_assist_data_delete_s_type =
  kind :: u32
  reserved :: "u32 list"

definition zero_rpc_loc_assist_data_delete_s_type :: rpc_loc_assist_data_delete_s_type where
  "zero_rpc_loc_assist_data_delete_s_type =
    \<lparr> kind = 0, reserved = replicate 8 0\<rparr>"

interpretation vec8_rpc_uint32: xdr_safe_codec "xdr_vector 8 xdr_rpc_uint32" "enc_vector enc_u32"
    "wf_vector 8 (\<lambda>_. True)" "blk_vector (\<lambda>_. 0)" "replicate (unat (8 :: u32)) 0"
  by (rule rpc_uint32_codec.vector_safe)

definition xdr_rpc_loc_assist_data_delete_s_type ::
    "rpc_loc_assist_data_delete_s_type xdrproc" where
  "xdr_rpc_loc_assist_data_delete_s_type = xdr_all
    [xdr_member rpc_loc_assist_data_delete_s_type.kind
       rpc_loc_assist_data_delete_s_type.kind_update xdr_rpc_loc_assist_data_type,
     xdr_member rpc_loc_assist_data_delete_s_type.reserved
       rpc_loc_assist_data_delete_s_type.reserved_update (xdr_vector 8 xdr_rpc_uint32)]"

definition enc_rpc_loc_assist_data_delete_s_type ::
    "rpc_loc_assist_data_delete_s_type \<Rightarrow> byte list" where
  "enc_rpc_loc_assist_data_delete_s_type v =
     enc_u32 (rpc_loc_assist_data_delete_s_type.kind v) @
     (enc_vector enc_u32) (rpc_loc_assist_data_delete_s_type.reserved v)"

definition wf_rpc_loc_assist_data_delete_s_type :: "rpc_loc_assist_data_delete_s_type \<Rightarrow>
    bool" where
  "wf_rpc_loc_assist_data_delete_s_type v \<longleftrightarrow>
     (wf_vector 8 (\<lambda>_. True)) (rpc_loc_assist_data_delete_s_type.reserved v)"

definition blk_rpc_loc_assist_data_delete_s_type :: "rpc_loc_assist_data_delete_s_type
    \<Rightarrow> nat" where
  "blk_rpc_loc_assist_data_delete_s_type v =
     (blk_vector (\<lambda>_. 0)) (rpc_loc_assist_data_delete_s_type.reserved v)"

interpretation rpc_loc_assist_data_delete_s_type_codec: xdr_safe_codec
    xdr_rpc_loc_assist_data_delete_s_type enc_rpc_loc_assist_data_delete_s_type
    wf_rpc_loc_assist_data_delete_s_type blk_rpc_loc_assist_data_delete_s_type
        zero_rpc_loc_assist_data_delete_s_type
  by (unfold_locales; unfold xdr_rpc_loc_assist_data_delete_s_type_def
      enc_rpc_loc_assist_data_delete_s_type_def;
      (rule struct_intros codec_enc codec_dec codec_free codec_safe
        | simp add: zero_rpc_loc_assist_data_delete_s_type_def
            wf_rpc_loc_assist_data_delete_s_type_def blk_rpc_loc_assist_data_delete_s_type_def)+)

definition RPC_LOC_IOCTL_SET_FIX_CRITERIA :: u32 where [loc_consts]:
    "RPC_LOC_IOCTL_SET_FIX_CRITERIA = 2"

definition RPC_LOC_IOCTL_INFORM_NI_USER_RESPONSE :: u32 where [loc_consts]:
    "RPC_LOC_IOCTL_INFORM_NI_USER_RESPONSE = 400"

definition RPC_LOC_IOCTL_INJECT_PREDICTED_ORBITS_DATA :: u32 where [loc_consts]:
    "RPC_LOC_IOCTL_INJECT_PREDICTED_ORBITS_DATA = 401"

definition RPC_LOC_IOCTL_SET_PREDICTED_ORBITS_DATA_AUTO_DOWNLOAD :: u32 where [loc_consts]:
    "RPC_LOC_IOCTL_SET_PREDICTED_ORBITS_DATA_AUTO_DOWNLOAD = 404"

definition RPC_LOC_IOCTL_INJECT_UTC_TIME :: u32 where [loc_consts]: "RPC_LOC_IOCTL_INJECT_UTC_TIME
    = 405"

definition RPC_LOC_IOCTL_INJECT_POSITION :: u32 where [loc_consts]: "RPC_LOC_IOCTL_INJECT_POSITION
    = 407"

definition RPC_LOC_IOCTL_INFORM_SERVER_OPEN_STATUS :: u32 where [loc_consts]:
    "RPC_LOC_IOCTL_INFORM_SERVER_OPEN_STATUS = 409"

definition RPC_LOC_IOCTL_INFORM_SERVER_CLOSE_STATUS :: u32 where [loc_consts]:
    "RPC_LOC_IOCTL_INFORM_SERVER_CLOSE_STATUS = 410"

definition RPC_LOC_IOCTL_SEND_WIPER_POSITION_REPORT :: u32 where [loc_consts]:
    "RPC_LOC_IOCTL_SEND_WIPER_POSITION_REPORT = 411"

definition RPC_LOC_EVENT_NMEA_1HZ_REPORT :: u64 where [loc_consts]: "RPC_LOC_EVENT_NMEA_1HZ_REPORT
    = 4"

definition RPC_LOC_IOCTL_NOTIFY_WIPER_STATUS :: u32 where [loc_consts]:
    "RPC_LOC_IOCTL_NOTIFY_WIPER_STATUS = 412"

definition RPC_LOC_IOCTL_SET_ENGINE_LOCK :: u32 where [loc_consts]: "RPC_LOC_IOCTL_SET_ENGINE_LOCK
    = 800"

definition RPC_LOC_IOCTL_SET_SBAS_CONFIG :: u32 where [loc_consts]: "RPC_LOC_IOCTL_SET_SBAS_CONFIG
    = 802"

definition RPC_LOC_IOCTL_SET_NMEA_TYPES :: u32 where [loc_consts]: "RPC_LOC_IOCTL_SET_NMEA_TYPES =
    804"

definition RPC_LOC_IOCTL_SET_ON_DEMAND_LPM :: u32 where [loc_consts]:
    "RPC_LOC_IOCTL_SET_ON_DEMAND_LPM = 812"

definition RPC_LOC_IOCTL_SET_CDMA_PDE_SERVER_ADDR :: u32 where [loc_consts]:
    "RPC_LOC_IOCTL_SET_CDMA_PDE_SERVER_ADDR = 806"

definition RPC_LOC_IOCTL_SET_CDMA_MPC_SERVER_ADDR :: u32 where [loc_consts]:
    "RPC_LOC_IOCTL_SET_CDMA_MPC_SERVER_ADDR = 808"

definition RPC_LOC_IOCTL_SET_UMTS_SLP_SERVER_ADDR :: u32 where [loc_consts]:
    "RPC_LOC_IOCTL_SET_UMTS_SLP_SERVER_ADDR = 810"

definition RPC_LOC_IOCTL_SET_CUSTOM_PDE_SERVER_ADDR :: u32 where [loc_consts]:
    "RPC_LOC_IOCTL_SET_CUSTOM_PDE_SERVER_ADDR = 1001"

definition RPC_LOC_IOCTL_DELETE_ASSIST_DATA :: u32 where [loc_consts]:
    "RPC_LOC_IOCTL_DELETE_ASSIST_DATA = 1000"

definition RPC_LOC_IOCTL_ACCESS_EFS_DATA :: u32 where [loc_consts]: "RPC_LOC_IOCTL_ACCESS_EFS_DATA
    = 413"

datatype rpc_loc_ioctl_data_u_type_u =
    ioctl_data_blank
  | ioctl_data_fix_criteria rpc_loc_fix_criteria_s_type
  | ioctl_data_user_verify_resp rpc_loc_user_verify_s_type
  | ioctl_data_predicted_orbits_data rpc_loc_predicted_orbits_data_s_type
  | ioctl_data_predicted_orbits_auto_download rpc_loc_predicted_orbits_auto_download_config_s_type
  | ioctl_data_assistance_data_time rpc_loc_assist_data_time_s_type
  | ioctl_data_assistance_data_position rpc_loc_assist_data_pos_s_type
  | ioctl_data_conn_open_status rpc_loc_server_open_status_s_type
  | ioctl_data_conn_close_status rpc_loc_server_close_status_s_type
  | ioctl_data_wiper_pos rpc_loc_wiper_position_report_s_type
  | ioctl_data_wiper_status u32
  | ioctl_data_engine_lock u32
  | ioctl_data_sbas_mode u32
  | ioctl_data_nmea_types u32
  | ioctl_data_on_demand_lpm u32
  | ioctl_data_server_addr rpc_loc_server_info_s_type
  | ioctl_data_assist_data_delete rpc_loc_assist_data_delete_s_type
  | ioctl_data_efs_data rpc_loc_efs_data_s_type

type_synonym rpc_loc_ioctl_data_u_type = "(u32, rpc_loc_ioctl_data_u_type_u) tagged"

definition zero_rpc_loc_ioctl_data_u_type :: rpc_loc_ioctl_data_u_type where
  "zero_rpc_loc_ioctl_data_u_type = \<lparr>disc = 0, arm = ioctl_data_blank\<rparr>"

definition xdr_rpc_loc_ioctl_data_u_type_switch :: "rpc_loc_ioctl_data_u_type \<Rightarrow>
    rpc_loc_ioctl_data_u_type xdrproc" where
  "xdr_rpc_loc_ioctl_data_u_type_switch obj =
     (if disc obj = RPC_LOC_IOCTL_SET_FIX_CRITERIA
      then xdr_arm (\<lambda>a. case a of ioctl_data_fix_criteria w \<Rightarrow> Some w | _
          \<Rightarrow> None) ioctl_data_fix_criteria
             ioctl_data_blank zero_rpc_loc_fix_criteria_s_type xdr_rpc_loc_fix_criteria_s_type
      else if disc obj = RPC_LOC_IOCTL_INFORM_NI_USER_RESPONSE
      then xdr_arm (\<lambda>a. case a of ioctl_data_user_verify_resp w \<Rightarrow> Some w | _
          \<Rightarrow> None) ioctl_data_user_verify_resp
             ioctl_data_blank zero_rpc_loc_user_verify_s_type xdr_rpc_loc_user_verify_s_type
      else if disc obj = RPC_LOC_IOCTL_INJECT_PREDICTED_ORBITS_DATA
      then xdr_arm (\<lambda>a. case a of ioctl_data_predicted_orbits_data w \<Rightarrow> Some w |
          _ \<Rightarrow> None) ioctl_data_predicted_orbits_data
             ioctl_data_blank zero_rpc_loc_predicted_orbits_data_s_type
                 xdr_rpc_loc_predicted_orbits_data_s_type
      else if disc obj = RPC_LOC_IOCTL_SET_PREDICTED_ORBITS_DATA_AUTO_DOWNLOAD
      then xdr_arm (\<lambda>a. case a of ioctl_data_predicted_orbits_auto_download w \<Rightarrow>
          Some w | _ \<Rightarrow> None) ioctl_data_predicted_orbits_auto_download
             ioctl_data_blank zero_rpc_loc_predicted_orbits_auto_download_config_s_type
                 xdr_rpc_loc_predicted_orbits_auto_download_config_s_type
      else if disc obj = RPC_LOC_IOCTL_INJECT_UTC_TIME
      then xdr_arm (\<lambda>a. case a of ioctl_data_assistance_data_time w \<Rightarrow> Some w |
          _ \<Rightarrow> None) ioctl_data_assistance_data_time
             ioctl_data_blank zero_rpc_loc_assist_data_time_s_type
                 xdr_rpc_loc_assist_data_time_s_type
      else if disc obj = RPC_LOC_IOCTL_INJECT_POSITION
      then xdr_arm (\<lambda>a. case a of ioctl_data_assistance_data_position w \<Rightarrow> Some
          w | _ \<Rightarrow> None) ioctl_data_assistance_data_position
             ioctl_data_blank zero_rpc_loc_assist_data_pos_s_type xdr_rpc_loc_assist_data_pos_s_type
      else if disc obj = RPC_LOC_IOCTL_INFORM_SERVER_OPEN_STATUS
      then xdr_arm (\<lambda>a. case a of ioctl_data_conn_open_status w \<Rightarrow> Some w | _
          \<Rightarrow> None) ioctl_data_conn_open_status
             ioctl_data_blank zero_rpc_loc_server_open_status_s_type
                 xdr_rpc_loc_server_open_status_s_type
      else if disc obj = RPC_LOC_IOCTL_INFORM_SERVER_CLOSE_STATUS
      then xdr_arm (\<lambda>a. case a of ioctl_data_conn_close_status w \<Rightarrow> Some w | _
          \<Rightarrow> None) ioctl_data_conn_close_status
             ioctl_data_blank zero_rpc_loc_server_close_status_s_type
                 xdr_rpc_loc_server_close_status_s_type
      else if disc obj = RPC_LOC_IOCTL_SEND_WIPER_POSITION_REPORT \<or> disc obj = ucast
          RPC_LOC_EVENT_NMEA_1HZ_REPORT
      then xdr_arm (\<lambda>a. case a of ioctl_data_wiper_pos w \<Rightarrow> Some w | _
          \<Rightarrow> None) ioctl_data_wiper_pos
             ioctl_data_blank zero_rpc_loc_wiper_position_report_s_type
                 xdr_rpc_loc_wiper_position_report_s_type
      else if disc obj = RPC_LOC_IOCTL_NOTIFY_WIPER_STATUS
      then xdr_arm (\<lambda>a. case a of ioctl_data_wiper_status w \<Rightarrow> Some w | _
          \<Rightarrow> None) ioctl_data_wiper_status
             ioctl_data_blank 0 xdr_rpc_loc_wiper_status_e_type
      else if disc obj = RPC_LOC_IOCTL_SET_ENGINE_LOCK
      then xdr_arm (\<lambda>a. case a of ioctl_data_engine_lock w \<Rightarrow> Some w | _
          \<Rightarrow> None) ioctl_data_engine_lock
             ioctl_data_blank 0 xdr_rpc_loc_lock_e_type
      else if disc obj = RPC_LOC_IOCTL_SET_SBAS_CONFIG
      then xdr_arm (\<lambda>a. case a of ioctl_data_sbas_mode w \<Rightarrow> Some w | _
          \<Rightarrow> None) ioctl_data_sbas_mode
             ioctl_data_blank 0 xdr_rpc_boolean
      else if disc obj = RPC_LOC_IOCTL_SET_NMEA_TYPES
      then xdr_arm (\<lambda>a. case a of ioctl_data_nmea_types w \<Rightarrow> Some w | _
          \<Rightarrow> None) ioctl_data_nmea_types
             ioctl_data_blank 0 xdr_rpc_loc_nmea_sentence_type
      else if disc obj = RPC_LOC_IOCTL_SET_ON_DEMAND_LPM
      then xdr_arm (\<lambda>a. case a of ioctl_data_on_demand_lpm w \<Rightarrow> Some w | _
          \<Rightarrow> None) ioctl_data_on_demand_lpm
             ioctl_data_blank 0 xdr_rpc_boolean
      else if disc obj = RPC_LOC_IOCTL_SET_CDMA_PDE_SERVER_ADDR \<or> disc obj =
          RPC_LOC_IOCTL_SET_CDMA_MPC_SERVER_ADDR \<or> disc obj =
              RPC_LOC_IOCTL_SET_UMTS_SLP_SERVER_ADDR \<or> disc obj =
                  RPC_LOC_IOCTL_SET_CUSTOM_PDE_SERVER_ADDR
      then xdr_arm (\<lambda>a. case a of ioctl_data_server_addr w \<Rightarrow> Some w | _
          \<Rightarrow> None) ioctl_data_server_addr
             ioctl_data_blank zero_rpc_loc_server_info_s_type xdr_rpc_loc_server_info_s_type
      else if disc obj = RPC_LOC_IOCTL_DELETE_ASSIST_DATA
      then xdr_arm (\<lambda>a. case a of ioctl_data_assist_data_delete w \<Rightarrow> Some w | _
          \<Rightarrow> None) ioctl_data_assist_data_delete
             ioctl_data_blank zero_rpc_loc_assist_data_delete_s_type
                 xdr_rpc_loc_assist_data_delete_s_type
      else if disc obj = RPC_LOC_IOCTL_ACCESS_EFS_DATA
      then xdr_arm (\<lambda>a. case a of ioctl_data_efs_data w \<Rightarrow> Some w | _
          \<Rightarrow> None) ioctl_data_efs_data
             ioctl_data_blank zero_rpc_loc_efs_data_s_type xdr_rpc_loc_efs_data_s_type
      else xdr_all [])"

definition xdr_rpc_loc_ioctl_data_u_type :: "rpc_loc_ioctl_data_u_type xdrproc" where
  "xdr_rpc_loc_ioctl_data_u_type = xdr_all [xdr_member disc disc_update xdr_rpc_loc_ioctl_e_type,
      xdr_switch xdr_rpc_loc_ioctl_data_u_type_switch]"

definition enc_rpc_loc_ioctl_data_u_type_u :: "rpc_loc_ioctl_data_u_type_u \<Rightarrow> byte list"
    where
  "enc_rpc_loc_ioctl_data_u_type_u a =
     (case a of
        ioctl_data_blank \<Rightarrow> []
      | ioctl_data_fix_criteria w \<Rightarrow> enc_rpc_loc_fix_criteria_s_type w
      | ioctl_data_user_verify_resp w \<Rightarrow> enc_rpc_loc_user_verify_s_type w
      | ioctl_data_predicted_orbits_data w \<Rightarrow> enc_rpc_loc_predicted_orbits_data_s_type w
      | ioctl_data_predicted_orbits_auto_download w \<Rightarrow>
          enc_rpc_loc_predicted_orbits_auto_download_config_s_type w
      | ioctl_data_assistance_data_time w \<Rightarrow> enc_rpc_loc_assist_data_time_s_type w
      | ioctl_data_assistance_data_position w \<Rightarrow> enc_rpc_loc_assist_data_pos_s_type w
      | ioctl_data_conn_open_status w \<Rightarrow> enc_rpc_loc_server_open_status_s_type w
      | ioctl_data_conn_close_status w \<Rightarrow> enc_rpc_loc_server_close_status_s_type w
      | ioctl_data_wiper_pos w \<Rightarrow> enc_rpc_loc_wiper_position_report_s_type w
      | ioctl_data_wiper_status w \<Rightarrow> enc_u32 w
      | ioctl_data_engine_lock w \<Rightarrow> enc_u32 w
      | ioctl_data_sbas_mode w \<Rightarrow> enc_u32 w
      | ioctl_data_nmea_types w \<Rightarrow> enc_u32 w
      | ioctl_data_on_demand_lpm w \<Rightarrow> enc_u32 w
      | ioctl_data_server_addr w \<Rightarrow> enc_rpc_loc_server_info_s_type w
      | ioctl_data_assist_data_delete w \<Rightarrow> enc_rpc_loc_assist_data_delete_s_type w
      | ioctl_data_efs_data w \<Rightarrow> enc_rpc_loc_efs_data_s_type w)"

definition enc_rpc_loc_ioctl_data_u_type :: "rpc_loc_ioctl_data_u_type \<Rightarrow> byte list"
    where
  "enc_rpc_loc_ioctl_data_u_type v = enc_u32 (disc v) @ enc_rpc_loc_ioctl_data_u_type_u (arm v)"

definition wf_rpc_loc_ioctl_data_u_type :: "rpc_loc_ioctl_data_u_type \<Rightarrow> bool" where
  "wf_rpc_loc_ioctl_data_u_type v =
     (case arm v of
        ioctl_data_blank \<Rightarrow> disc v \<notin> {RPC_LOC_IOCTL_SET_FIX_CRITERIA,
            RPC_LOC_IOCTL_INFORM_NI_USER_RESPONSE,
          RPC_LOC_IOCTL_INJECT_PREDICTED_ORBITS_DATA,
          RPC_LOC_IOCTL_SET_PREDICTED_ORBITS_DATA_AUTO_DOWNLOAD,
          RPC_LOC_IOCTL_INJECT_UTC_TIME,
          RPC_LOC_IOCTL_INJECT_POSITION,
          RPC_LOC_IOCTL_INFORM_SERVER_OPEN_STATUS,
          RPC_LOC_IOCTL_INFORM_SERVER_CLOSE_STATUS,
          RPC_LOC_IOCTL_SEND_WIPER_POSITION_REPORT,
          ucast RPC_LOC_EVENT_NMEA_1HZ_REPORT,
          RPC_LOC_IOCTL_NOTIFY_WIPER_STATUS,
          RPC_LOC_IOCTL_SET_ENGINE_LOCK,
          RPC_LOC_IOCTL_SET_SBAS_CONFIG, RPC_LOC_IOCTL_SET_NMEA_TYPES,
          RPC_LOC_IOCTL_SET_ON_DEMAND_LPM,
          RPC_LOC_IOCTL_SET_CDMA_PDE_SERVER_ADDR,
          RPC_LOC_IOCTL_SET_CDMA_MPC_SERVER_ADDR,
          RPC_LOC_IOCTL_SET_UMTS_SLP_SERVER_ADDR,
          RPC_LOC_IOCTL_SET_CUSTOM_PDE_SERVER_ADDR,
          RPC_LOC_IOCTL_DELETE_ASSIST_DATA,
          RPC_LOC_IOCTL_ACCESS_EFS_DATA}
      | ioctl_data_fix_criteria w \<Rightarrow> disc v = RPC_LOC_IOCTL_SET_FIX_CRITERIA \<and>
          wf_rpc_loc_fix_criteria_s_type w
      | ioctl_data_user_verify_resp w \<Rightarrow> disc v = RPC_LOC_IOCTL_INFORM_NI_USER_RESPONSE
          \<and> wf_rpc_loc_user_verify_s_type w
      | ioctl_data_predicted_orbits_data w \<Rightarrow> disc v =
          RPC_LOC_IOCTL_INJECT_PREDICTED_ORBITS_DATA \<and> wf_rpc_loc_predicted_orbits_data_s_type
              w
      | ioctl_data_predicted_orbits_auto_download w \<Rightarrow> disc v =
          RPC_LOC_IOCTL_SET_PREDICTED_ORBITS_DATA_AUTO_DOWNLOAD \<and>
              wf_rpc_loc_predicted_orbits_auto_download_config_s_type w
      | ioctl_data_assistance_data_time w \<Rightarrow> disc v = RPC_LOC_IOCTL_INJECT_UTC_TIME
      | ioctl_data_assistance_data_position w \<Rightarrow> disc v = RPC_LOC_IOCTL_INJECT_POSITION
      | ioctl_data_conn_open_status w \<Rightarrow> disc v =
          RPC_LOC_IOCTL_INFORM_SERVER_OPEN_STATUS \<and> wf_rpc_loc_server_open_status_s_type w
      | ioctl_data_conn_close_status w \<Rightarrow> disc v =
          RPC_LOC_IOCTL_INFORM_SERVER_CLOSE_STATUS
      | ioctl_data_wiper_pos w \<Rightarrow> (disc v = RPC_LOC_IOCTL_SEND_WIPER_POSITION_REPORT
          \<or> disc v = ucast RPC_LOC_EVENT_NMEA_1HZ_REPORT) \<and>
              wf_rpc_loc_wiper_position_report_s_type w
      | ioctl_data_wiper_status w \<Rightarrow> disc v = RPC_LOC_IOCTL_NOTIFY_WIPER_STATUS
      | ioctl_data_engine_lock w \<Rightarrow> disc v = RPC_LOC_IOCTL_SET_ENGINE_LOCK
      | ioctl_data_sbas_mode w \<Rightarrow> disc v = RPC_LOC_IOCTL_SET_SBAS_CONFIG \<and> wf_bool w
      | ioctl_data_nmea_types w \<Rightarrow> disc v = RPC_LOC_IOCTL_SET_NMEA_TYPES
      | ioctl_data_on_demand_lpm w \<Rightarrow> disc v = RPC_LOC_IOCTL_SET_ON_DEMAND_LPM \<and>
          wf_bool w
      | ioctl_data_server_addr w \<Rightarrow> (disc v = RPC_LOC_IOCTL_SET_CDMA_PDE_SERVER_ADDR
          \<or> disc v = RPC_LOC_IOCTL_SET_CDMA_MPC_SERVER_ADDR \<or> disc v =
              RPC_LOC_IOCTL_SET_UMTS_SLP_SERVER_ADDR \<or> disc v =
                  RPC_LOC_IOCTL_SET_CUSTOM_PDE_SERVER_ADDR) \<and> wf_rpc_loc_server_info_s_type w
      | ioctl_data_assist_data_delete w \<Rightarrow> disc v = RPC_LOC_IOCTL_DELETE_ASSIST_DATA
          \<and> wf_rpc_loc_assist_data_delete_s_type w
      | ioctl_data_efs_data w \<Rightarrow> disc v = RPC_LOC_IOCTL_ACCESS_EFS_DATA \<and>
          wf_rpc_loc_efs_data_s_type w)"

definition blk_rpc_loc_ioctl_data_u_type :: "rpc_loc_ioctl_data_u_type \<Rightarrow> nat" where
  "blk_rpc_loc_ioctl_data_u_type v =
     (case arm v of
        ioctl_data_blank \<Rightarrow> 0
      | ioctl_data_fix_criteria w \<Rightarrow> 0
      | ioctl_data_user_verify_resp w \<Rightarrow> 0
      | ioctl_data_predicted_orbits_data w \<Rightarrow> blk_rpc_loc_predicted_orbits_data_s_type w
      | ioctl_data_predicted_orbits_auto_download w \<Rightarrow> 0
      | ioctl_data_assistance_data_time w \<Rightarrow> 0
      | ioctl_data_assistance_data_position w \<Rightarrow> 0
      | ioctl_data_conn_open_status w \<Rightarrow> 0
      | ioctl_data_conn_close_status w \<Rightarrow> 0
      | ioctl_data_wiper_pos w \<Rightarrow> blk_rpc_loc_wiper_position_report_s_type w
      | ioctl_data_wiper_status w \<Rightarrow> 0
      | ioctl_data_engine_lock w \<Rightarrow> 0
      | ioctl_data_sbas_mode w \<Rightarrow> 0
      | ioctl_data_nmea_types w \<Rightarrow> 0
      | ioctl_data_on_demand_lpm w \<Rightarrow> 0
      | ioctl_data_server_addr w \<Rightarrow> 0
      | ioctl_data_assist_data_delete w \<Rightarrow> blk_rpc_loc_assist_data_delete_s_type w
      | ioctl_data_efs_data w \<Rightarrow> blk_rpc_loc_efs_data_s_type w)"

lemma rpc_loc_ioctl_data_u_type_arms:
  "wf_rpc_loc_ioctl_data_u_type v 
    \<Longrightarrow> menc (xdr_rpc_loc_ioctl_data_u_type_switch v) v
        (enc_rpc_loc_ioctl_data_u_type_u (arm v))"
  "wf_rpc_loc_ioctl_data_u_type v \<Longrightarrow> arm obj = ioctl_data_blank \<Longrightarrow>
      disc obj = disc v
    \<Longrightarrow> mdec (xdr_rpc_loc_ioctl_data_u_type_switch obj) obj v
          (enc_rpc_loc_ioctl_data_u_type_u (arm v)) (blk_rpc_loc_ioctl_data_u_type v)"
  "wf_rpc_loc_ioctl_data_u_type v
    \<Longrightarrow> mfree (xdr_rpc_loc_ioctl_data_u_type_switch v) v
        (blk_rpc_loc_ioctl_data_u_type v)"
  by (cases "arm v"; auto simp: xdr_rpc_loc_ioctl_data_u_type_switch_def
      wf_rpc_loc_ioctl_data_u_type_def
      enc_rpc_loc_ioctl_data_u_type_u_def blk_rpc_loc_ioctl_data_u_type_def loc_consts
      intro!: arm_intros codec_enc codec_dec codec_free)+

lemma rpc_loc_ioctl_data_u_type_arms_safe:
  "arm obj = ioctl_data_blank \<Longrightarrow> msafe (xdr_rpc_loc_ioctl_data_u_type_switch obj)
      obj"
  unfolding xdr_rpc_loc_ioctl_data_u_type_switch_def
  by (rule msafe_if msafe_arm msafe_Nil codec_safe refl | assumption)+

interpretation rpc_loc_ioctl_data_u_type_codec: xdr_safe_codec
    xdr_rpc_loc_ioctl_data_u_type enc_rpc_loc_ioctl_data_u_type
    wf_rpc_loc_ioctl_data_u_type blk_rpc_loc_ioctl_data_u_type zero_rpc_loc_ioctl_data_u_type
  by (unfold_locales; unfold xdr_rpc_loc_ioctl_data_u_type_def enc_rpc_loc_ioctl_data_u_type_def;
      (rule union_intros rpc_loc_ioctl_data_u_type_arms
        rpc_loc_ioctl_data_u_type_arms_safe
        codec_enc codec_dec codec_free codec_safe
        | simp add: zero_rpc_loc_ioctl_data_u_type_def)+)

definition RPC_LOC_IOCTL_GET_API_VERSION :: u32 where [loc_consts]: "RPC_LOC_IOCTL_GET_API_VERSION
    = 1"

definition RPC_LOC_IOCTL_GET_FIX_CRITERIA :: u32 where [loc_consts]:
    "RPC_LOC_IOCTL_GET_FIX_CRITERIA = 3"

definition RPC_LOC_IOCTL_GET_ENGINE_LOCK :: u32 where [loc_consts]: "RPC_LOC_IOCTL_GET_ENGINE_LOCK
    = 801"

definition RPC_LOC_IOCTL_GET_SBAS_CONFIG :: u32 where [loc_consts]: "RPC_LOC_IOCTL_GET_SBAS_CONFIG
    = 803"

definition RPC_LOC_IOCTL_GET_NMEA_TYPES :: u32 where [loc_consts]: "RPC_LOC_IOCTL_GET_NMEA_TYPES =
    805"

definition RPC_LOC_IOCTL_GET_ON_DEMAND_LPM :: u32 where [loc_consts]:
    "RPC_LOC_IOCTL_GET_ON_DEMAND_LPM = 813"

definition RPC_LOC_IOCTL_GET_CDMA_PDE_SERVER_ADDR :: u32 where [loc_consts]:
    "RPC_LOC_IOCTL_GET_CDMA_PDE_SERVER_ADDR = 807"

definition RPC_LOC_IOCTL_GET_CDMA_MPC_SERVER_ADDR :: u32 where [loc_consts]:
    "RPC_LOC_IOCTL_GET_CDMA_MPC_SERVER_ADDR = 809"

definition RPC_LOC_IOCTL_GET_UMTS_SLP_SERVER_ADDR :: u32 where [loc_consts]:
    "RPC_LOC_IOCTL_GET_UMTS_SLP_SERVER_ADDR = 811"

definition RPC_LOC_IOCTL_GET_CUSTOM_PDE_SERVER_ADDR :: u32 where [loc_consts]:
    "RPC_LOC_IOCTL_GET_CUSTOM_PDE_SERVER_ADDR = 1002"

definition RPC_LOC_IOCTL_QUERY_PREDICTED_ORBITS_DATA_SOURCE :: u32 where [loc_consts]:
    "RPC_LOC_IOCTL_QUERY_PREDICTED_ORBITS_DATA_SOURCE = 403"

definition RPC_LOC_IOCTL_QUERY_PREDICTED_ORBITS_DATA_VALIDITY :: u32 where [loc_consts]:
    "RPC_LOC_IOCTL_QUERY_PREDICTED_ORBITS_DATA_VALIDITY = 402"

datatype rpc_loc_ioctl_callback_data_u_type_u =
    ioctl_callback_data_blank
  | ioctl_callback_data_api_version rpc_loc_api_version_s_type
  | ioctl_callback_data_fix_criteria rpc_loc_fix_criteria_s_type
  | ioctl_callback_data_engine_lock u32
  | ioctl_callback_data_sbas_mode u32
  | ioctl_callback_data_nmea_types u32
  | ioctl_callback_data_on_demand_lpm u32
  | ioctl_callback_data_server_addr rpc_loc_server_info_s_type
  | ioctl_callback_data_predicted_orbits_data_source rpc_loc_predicted_orbits_data_source_s_type
  | ioctl_callback_data_predicted_orbits_data_validity
      rpc_loc_predicted_orbits_data_validity_report_s_type

type_synonym rpc_loc_ioctl_callback_data_u_type = "(u32, rpc_loc_ioctl_callback_data_u_type_u)
    tagged"

definition zero_rpc_loc_ioctl_callback_data_u_type :: rpc_loc_ioctl_callback_data_u_type where
  "zero_rpc_loc_ioctl_callback_data_u_type = \<lparr>disc = 0, arm =
      ioctl_callback_data_blank\<rparr>"

definition xdr_rpc_loc_ioctl_callback_data_u_type_switch :: "rpc_loc_ioctl_callback_data_u_type
    \<Rightarrow> rpc_loc_ioctl_callback_data_u_type xdrproc" where
  "xdr_rpc_loc_ioctl_callback_data_u_type_switch obj =
     (if disc obj = RPC_LOC_IOCTL_GET_API_VERSION
      then xdr_arm (\<lambda>a. case a of ioctl_callback_data_api_version w \<Rightarrow> Some w |
          _ \<Rightarrow> None) ioctl_callback_data_api_version
             ioctl_callback_data_blank zero_rpc_loc_api_version_s_type
                 xdr_rpc_loc_api_version_s_type
      else if disc obj = RPC_LOC_IOCTL_GET_FIX_CRITERIA
      then xdr_arm (\<lambda>a. case a of ioctl_callback_data_fix_criteria w \<Rightarrow> Some w |
          _ \<Rightarrow> None) ioctl_callback_data_fix_criteria
             ioctl_callback_data_blank zero_rpc_loc_fix_criteria_s_type
                 xdr_rpc_loc_fix_criteria_s_type
      else if disc obj = RPC_LOC_IOCTL_GET_ENGINE_LOCK
      then xdr_arm (\<lambda>a. case a of ioctl_callback_data_engine_lock w \<Rightarrow> Some w |
          _ \<Rightarrow> None) ioctl_callback_data_engine_lock
             ioctl_callback_data_blank 0 xdr_rpc_loc_lock_e_type
      else if disc obj = RPC_LOC_IOCTL_GET_SBAS_CONFIG
      then xdr_arm (\<lambda>a. case a of ioctl_callback_data_sbas_mode w \<Rightarrow> Some w | _
          \<Rightarrow> None) ioctl_callback_data_sbas_mode
             ioctl_callback_data_blank 0 xdr_rpc_boolean
      else if disc obj = RPC_LOC_IOCTL_GET_NMEA_TYPES
      then xdr_arm (\<lambda>a. case a of ioctl_callback_data_nmea_types w \<Rightarrow> Some w | _
          \<Rightarrow> None) ioctl_callback_data_nmea_types
             ioctl_callback_data_blank 0 xdr_rpc_loc_nmea_sentence_type
      else if disc obj = RPC_LOC_IOCTL_GET_ON_DEMAND_LPM
      then xdr_arm (\<lambda>a. case a of ioctl_callback_data_on_demand_lpm w \<Rightarrow> Some w
          | _ \<Rightarrow> None) ioctl_callback_data_on_demand_lpm
             ioctl_callback_data_blank 0 xdr_rpc_boolean
      else if disc obj = RPC_LOC_IOCTL_GET_CDMA_PDE_SERVER_ADDR \<or> disc obj =
          RPC_LOC_IOCTL_GET_CDMA_MPC_SERVER_ADDR \<or> disc obj =
              RPC_LOC_IOCTL_GET_UMTS_SLP_SERVER_ADDR \<or> disc obj =
                  RPC_LOC_IOCTL_GET_CUSTOM_PDE_SERVER_ADDR
      then xdr_arm (\<lambda>a. case a of ioctl_callback_data_server_addr w \<Rightarrow> Some w |
          _ \<Rightarrow> None) ioctl_callback_data_server_addr
             ioctl_callback_data_blank zero_rpc_loc_server_info_s_type
                 xdr_rpc_loc_server_info_s_type
      else if disc obj = RPC_LOC_IOCTL_QUERY_PREDICTED_ORBITS_DATA_SOURCE
      then xdr_arm (\<lambda>a. case a of ioctl_callback_data_predicted_orbits_data_source w
          \<Rightarrow> Some w | _ \<Rightarrow> None)
              ioctl_callback_data_predicted_orbits_data_source
             ioctl_callback_data_blank zero_rpc_loc_predicted_orbits_data_source_s_type
                 xdr_rpc_loc_predicted_orbits_data_source_s_type
      else if disc obj = RPC_LOC_IOCTL_QUERY_PREDICTED_ORBITS_DATA_VALIDITY
      then xdr_arm (\<lambda>a. case a of ioctl_callback_data_predicted_orbits_data_validity w
          \<Rightarrow> Some w | _ \<Rightarrow> None)
              ioctl_callback_data_predicted_orbits_data_validity
             ioctl_callback_data_blank zero_rpc_loc_predicted_orbits_data_validity_report_s_type
                 xdr_rpc_loc_predicted_orbits_data_validity_report_s_type
      else xdr_all [])"

definition xdr_rpc_loc_ioctl_callback_data_u_type :: "rpc_loc_ioctl_callback_data_u_type xdrproc"
    where
  "xdr_rpc_loc_ioctl_callback_data_u_type = xdr_all [xdr_member disc disc_update
      xdr_rpc_loc_ioctl_e_type, xdr_switch xdr_rpc_loc_ioctl_callback_data_u_type_switch]"

definition enc_rpc_loc_ioctl_callback_data_u_type_u :: "rpc_loc_ioctl_callback_data_u_type_u
    \<Rightarrow> byte list" where
  "enc_rpc_loc_ioctl_callback_data_u_type_u a =
     (case a of
        ioctl_callback_data_blank \<Rightarrow> []
      | ioctl_callback_data_api_version w \<Rightarrow> enc_rpc_loc_api_version_s_type w
      | ioctl_callback_data_fix_criteria w \<Rightarrow> enc_rpc_loc_fix_criteria_s_type w
      | ioctl_callback_data_engine_lock w \<Rightarrow> enc_u32 w
      | ioctl_callback_data_sbas_mode w \<Rightarrow> enc_u32 w
      | ioctl_callback_data_nmea_types w \<Rightarrow> enc_u32 w
      | ioctl_callback_data_on_demand_lpm w \<Rightarrow> enc_u32 w
      | ioctl_callback_data_server_addr w \<Rightarrow> enc_rpc_loc_server_info_s_type w
      | ioctl_callback_data_predicted_orbits_data_source w \<Rightarrow>
          enc_rpc_loc_predicted_orbits_data_source_s_type w
      | ioctl_callback_data_predicted_orbits_data_validity w \<Rightarrow>
          enc_rpc_loc_predicted_orbits_data_validity_report_s_type w)"

definition enc_rpc_loc_ioctl_callback_data_u_type :: "rpc_loc_ioctl_callback_data_u_type
    \<Rightarrow> byte list" where
  "enc_rpc_loc_ioctl_callback_data_u_type v = enc_u32 (disc v) @
      enc_rpc_loc_ioctl_callback_data_u_type_u (arm v)"

definition wf_rpc_loc_ioctl_callback_data_u_type :: "rpc_loc_ioctl_callback_data_u_type
    \<Rightarrow> bool" where
  "wf_rpc_loc_ioctl_callback_data_u_type v =
     (case arm v of
        ioctl_callback_data_blank \<Rightarrow> disc v \<notin> {RPC_LOC_IOCTL_GET_API_VERSION,
            RPC_LOC_IOCTL_GET_FIX_CRITERIA,
          RPC_LOC_IOCTL_GET_ENGINE_LOCK,
          RPC_LOC_IOCTL_GET_SBAS_CONFIG, RPC_LOC_IOCTL_GET_NMEA_TYPES,
          RPC_LOC_IOCTL_GET_ON_DEMAND_LPM,
          RPC_LOC_IOCTL_GET_CDMA_PDE_SERVER_ADDR,
          RPC_LOC_IOCTL_GET_CDMA_MPC_SERVER_ADDR,
          RPC_LOC_IOCTL_GET_UMTS_SLP_SERVER_ADDR,
          RPC_LOC_IOCTL_GET_CUSTOM_PDE_SERVER_ADDR,
          RPC_LOC_IOCTL_QUERY_PREDICTED_ORBITS_DATA_SOURCE,
          RPC_LOC_IOCTL_QUERY_PREDICTED_ORBITS_DATA_VALIDITY}
      | ioctl_callback_data_api_version w \<Rightarrow> disc v = RPC_LOC_IOCTL_GET_API_VERSION
      | ioctl_callback_data_fix_criteria w \<Rightarrow> disc v = RPC_LOC_IOCTL_GET_FIX_CRITERIA
          \<and> wf_rpc_loc_fix_criteria_s_type w
      | ioctl_callback_data_engine_lock w \<Rightarrow> disc v = RPC_LOC_IOCTL_GET_ENGINE_LOCK
      | ioctl_callback_data_sbas_mode w \<Rightarrow> disc v = RPC_LOC_IOCTL_GET_SBAS_CONFIG \<and>
          wf_bool w
      | ioctl_callback_data_nmea_types w \<Rightarrow> disc v = RPC_LOC_IOCTL_GET_NMEA_TYPES
      | ioctl_callback_data_on_demand_lpm w \<Rightarrow> disc v = RPC_LOC_IOCTL_GET_ON_DEMAND_LPM
          \<and> wf_bool w
      | ioctl_callback_data_server_addr w \<Rightarrow> (disc v =
          RPC_LOC_IOCTL_GET_CDMA_PDE_SERVER_ADDR \<or> disc v =
              RPC_LOC_IOCTL_GET_CDMA_MPC_SERVER_ADDR \<or> disc v =
                  RPC_LOC_IOCTL_GET_UMTS_SLP_SERVER_ADDR \<or> disc v =
                      RPC_LOC_IOCTL_GET_CUSTOM_PDE_SERVER_ADDR) \<and>
                          wf_rpc_loc_server_info_s_type w
      | ioctl_callback_data_predicted_orbits_data_source w \<Rightarrow> disc v =
          RPC_LOC_IOCTL_QUERY_PREDICTED_ORBITS_DATA_SOURCE \<and>
              wf_rpc_loc_predicted_orbits_data_source_s_type w
      | ioctl_callback_data_predicted_orbits_data_validity w \<Rightarrow> disc v =
          RPC_LOC_IOCTL_QUERY_PREDICTED_ORBITS_DATA_VALIDITY)"

definition blk_rpc_loc_ioctl_callback_data_u_type :: "rpc_loc_ioctl_callback_data_u_type
    \<Rightarrow> nat" where
  "blk_rpc_loc_ioctl_callback_data_u_type v =
     (case arm v of
        ioctl_callback_data_blank \<Rightarrow> 0
      | ioctl_callback_data_api_version w \<Rightarrow> 0
      | ioctl_callback_data_fix_criteria w \<Rightarrow> 0
      | ioctl_callback_data_engine_lock w \<Rightarrow> 0
      | ioctl_callback_data_sbas_mode w \<Rightarrow> 0
      | ioctl_callback_data_nmea_types w \<Rightarrow> 0
      | ioctl_callback_data_on_demand_lpm w \<Rightarrow> 0
      | ioctl_callback_data_server_addr w \<Rightarrow> 0
      | ioctl_callback_data_predicted_orbits_data_source w \<Rightarrow>
          blk_rpc_loc_predicted_orbits_data_source_s_type w
      | ioctl_callback_data_predicted_orbits_data_validity w \<Rightarrow> 0)"

lemma rpc_loc_ioctl_callback_data_u_type_arms:
  "wf_rpc_loc_ioctl_callback_data_u_type v 
    \<Longrightarrow> menc (xdr_rpc_loc_ioctl_callback_data_u_type_switch v) v
        (enc_rpc_loc_ioctl_callback_data_u_type_u (arm v))"
  "wf_rpc_loc_ioctl_callback_data_u_type v \<Longrightarrow> arm obj = ioctl_callback_data_blank
      \<Longrightarrow> disc obj = disc v
    \<Longrightarrow> mdec (xdr_rpc_loc_ioctl_callback_data_u_type_switch obj) obj v
          (enc_rpc_loc_ioctl_callback_data_u_type_u (arm v))
              (blk_rpc_loc_ioctl_callback_data_u_type v)"
  "wf_rpc_loc_ioctl_callback_data_u_type v
    \<Longrightarrow> mfree (xdr_rpc_loc_ioctl_callback_data_u_type_switch v) v
        (blk_rpc_loc_ioctl_callback_data_u_type v)"
  by (cases "arm v"; auto simp: xdr_rpc_loc_ioctl_callback_data_u_type_switch_def
      wf_rpc_loc_ioctl_callback_data_u_type_def
      enc_rpc_loc_ioctl_callback_data_u_type_u_def blk_rpc_loc_ioctl_callback_data_u_type_def
          loc_consts
      intro!: arm_intros codec_enc codec_dec codec_free)+

lemma rpc_loc_ioctl_callback_data_u_type_arms_safe:
  "arm obj = ioctl_callback_data_blank \<Longrightarrow> msafe
      (xdr_rpc_loc_ioctl_callback_data_u_type_switch obj) obj"
  unfolding xdr_rpc_loc_ioctl_callback_data_u_type_switch_def
  by (rule msafe_if msafe_arm msafe_Nil codec_safe refl | assumption)+

interpretation rpc_loc_ioctl_callback_data_u_type_codec: xdr_safe_codec
    xdr_rpc_loc_ioctl_callback_data_u_type enc_rpc_loc_ioctl_callback_data_u_type
    wf_rpc_loc_ioctl_callback_data_u_type blk_rpc_loc_ioctl_callback_data_u_type
        zero_rpc_loc_ioctl_callback_data_u_type
  by (unfold_locales; unfold xdr_rpc_loc_ioctl_callback_data_u_type_def
      enc_rpc_loc_ioctl_callback_data_u_type_def;
      (rule union_intros rpc_loc_ioctl_callback_data_u_type_arms
        rpc_loc_ioctl_callback_data_u_type_arms_safe
        codec_enc codec_dec codec_free codec_safe
        | simp add: zero_rpc_loc_ioctl_callback_data_u_type_def)+)

record rpc_loc_ioctl_callback_s_type =
  kind :: u32
  status :: u32
  data :: rpc_loc_ioctl_callback_data_u_type

definition zero_rpc_loc_ioctl_callback_s_type :: rpc_loc_ioctl_callback_s_type where
  "zero_rpc_loc_ioctl_callback_s_type =
    \<lparr> kind = 0, status = 0,
     data = zero_rpc_loc_ioctl_callback_data_u_type\<rparr>"

definition xdr_rpc_loc_ioctl_callback_s_type ::
    "rpc_loc_ioctl_callback_s_type xdrproc" where
  "xdr_rpc_loc_ioctl_callback_s_type = xdr_all
    [xdr_member rpc_loc_ioctl_callback_s_type.kind
       rpc_loc_ioctl_callback_s_type.kind_update xdr_rpc_loc_ioctl_e_type,
     xdr_member rpc_loc_ioctl_callback_s_type.status
       rpc_loc_ioctl_callback_s_type.status_update xdr_rpc_int32,
     xdr_member rpc_loc_ioctl_callback_s_type.data
       rpc_loc_ioctl_callback_s_type.data_update xdr_rpc_loc_ioctl_callback_data_u_type]"

definition enc_rpc_loc_ioctl_callback_s_type ::
    "rpc_loc_ioctl_callback_s_type \<Rightarrow> byte list" where
  "enc_rpc_loc_ioctl_callback_s_type v =
     enc_u32 (rpc_loc_ioctl_callback_s_type.kind v) @
     enc_u32 (rpc_loc_ioctl_callback_s_type.status v) @
     enc_rpc_loc_ioctl_callback_data_u_type (rpc_loc_ioctl_callback_s_type.data v)"

definition wf_rpc_loc_ioctl_callback_s_type :: "rpc_loc_ioctl_callback_s_type \<Rightarrow> bool"
    where
  "wf_rpc_loc_ioctl_callback_s_type v \<longleftrightarrow>
     wf_rpc_loc_ioctl_callback_data_u_type (rpc_loc_ioctl_callback_s_type.data v)"

definition blk_rpc_loc_ioctl_callback_s_type :: "rpc_loc_ioctl_callback_s_type \<Rightarrow> nat"
    where
  "blk_rpc_loc_ioctl_callback_s_type v =
     blk_rpc_loc_ioctl_callback_data_u_type (rpc_loc_ioctl_callback_s_type.data v)"

interpretation rpc_loc_ioctl_callback_s_type_codec: xdr_safe_codec
    xdr_rpc_loc_ioctl_callback_s_type enc_rpc_loc_ioctl_callback_s_type
    wf_rpc_loc_ioctl_callback_s_type blk_rpc_loc_ioctl_callback_s_type
        zero_rpc_loc_ioctl_callback_s_type
  by (unfold_locales; unfold xdr_rpc_loc_ioctl_callback_s_type_def
      enc_rpc_loc_ioctl_callback_s_type_def;
      (rule struct_intros codec_enc codec_dec codec_free codec_safe
        | simp add: zero_rpc_loc_ioctl_callback_s_type_def wf_rpc_loc_ioctl_callback_s_type_def
            blk_rpc_loc_ioctl_callback_s_type_def)+)

definition RPC_LOC_EVENT_PARSED_POSITION_REPORT :: u64 where [loc_consts]:
    "RPC_LOC_EVENT_PARSED_POSITION_REPORT = 1"

definition RPC_LOC_EVENT_SATELLITE_REPORT :: u64 where [loc_consts]:
    "RPC_LOC_EVENT_SATELLITE_REPORT = 2"

definition RPC_LOC_EVENT_NMEA_POSITION_REPORT :: u64 where [loc_consts]:
    "RPC_LOC_EVENT_NMEA_POSITION_REPORT = 8"

definition RPC_LOC_EVENT_NI_NOTIFY_VERIFY_REQUEST :: u64 where [loc_consts]:
    "RPC_LOC_EVENT_NI_NOTIFY_VERIFY_REQUEST = 16"

definition RPC_LOC_EVENT_ASSISTANCE_DATA_REQUEST :: u64 where [loc_consts]:
    "RPC_LOC_EVENT_ASSISTANCE_DATA_REQUEST = 32"

definition RPC_LOC_EVENT_LOCATION_SERVER_REQUEST :: u64 where [loc_consts]:
    "RPC_LOC_EVENT_LOCATION_SERVER_REQUEST = 64"

definition RPC_LOC_EVENT_IOCTL_REPORT :: u64 where [loc_consts]: "RPC_LOC_EVENT_IOCTL_REPORT = 128"

definition RPC_LOC_EVENT_STATUS_REPORT :: u64 where [loc_consts]: "RPC_LOC_EVENT_STATUS_REPORT =
    256"

definition RPC_LOC_EVENT_WPS_NEEDED_REQUEST :: u64 where [loc_consts]:
    "RPC_LOC_EVENT_WPS_NEEDED_REQUEST = 512"

definition RPC_LOC_EVENT_RESERVED :: u64 where [loc_consts]: "RPC_LOC_EVENT_RESERVED =
    0x8000000000000000"

datatype rpc_loc_event_payload_u_type_u =
    event_payload_blank
  | event_payload_parsed_location_report rpc_loc_parsed_position_s_type
  | event_payload_gnss_report rpc_loc_gnss_info_s_type
  | event_payload_nmea_report rpc_loc_nmea_report_s_type
  | event_payload_ni_request rpc_loc_ni_event_s_type
  | event_payload_assist_data_request rpc_loc_assist_data_request_s_type
  | event_payload_loc_server_request rpc_loc_server_request_s_type
  | event_payload_ioctl_report rpc_loc_ioctl_callback_s_type
  | event_payload_status_report rpc_loc_status_event_s_type
  | event_payload_qwip_request rpc_loc_qwip_request_s_type
  | event_payload_reserved rpc_loc_reserved_payload_s_type

type_synonym rpc_loc_event_payload_u_type = "(u64, rpc_loc_event_payload_u_type_u) tagged"

definition zero_rpc_loc_event_payload_u_type :: rpc_loc_event_payload_u_type where
  "zero_rpc_loc_event_payload_u_type = \<lparr>disc = 0, arm = event_payload_blank\<rparr>"

definition xdr_rpc_loc_event_payload_u_type_switch :: "rpc_loc_event_payload_u_type \<Rightarrow>
    rpc_loc_event_payload_u_type xdrproc" where
  "xdr_rpc_loc_event_payload_u_type_switch obj =
     (if disc obj = RPC_LOC_EVENT_PARSED_POSITION_REPORT
      then xdr_arm (\<lambda>a. case a of event_payload_parsed_location_report w \<Rightarrow> Some
          w | _ \<Rightarrow> None) event_payload_parsed_location_report
             event_payload_blank zero_rpc_loc_parsed_position_s_type
                 xdr_rpc_loc_parsed_position_s_type
      else if disc obj = RPC_LOC_EVENT_SATELLITE_REPORT
      then xdr_arm (\<lambda>a. case a of event_payload_gnss_report w \<Rightarrow> Some w | _
          \<Rightarrow> None) event_payload_gnss_report
             event_payload_blank zero_rpc_loc_gnss_info_s_type xdr_rpc_loc_gnss_info_s_type
      else if disc obj = RPC_LOC_EVENT_NMEA_POSITION_REPORT
      then xdr_arm (\<lambda>a. case a of event_payload_nmea_report w \<Rightarrow> Some w | _
          \<Rightarrow> None) event_payload_nmea_report
             event_payload_blank zero_rpc_loc_nmea_report_s_type xdr_rpc_loc_nmea_report_s_type
      else if disc obj = RPC_LOC_EVENT_NI_NOTIFY_VERIFY_REQUEST
      then xdr_arm (\<lambda>a. case a of event_payload_ni_request w \<Rightarrow> Some w | _
          \<Rightarrow> None) event_payload_ni_request
             event_payload_blank zero_rpc_loc_ni_event_s_type xdr_rpc_loc_ni_event_s_type
      else if disc obj = RPC_LOC_EVENT_ASSISTANCE_DATA_REQUEST
      then xdr_arm (\<lambda>a. case a of event_payload_assist_data_request w \<Rightarrow> Some w
          | _ \<Rightarrow> None) event_payload_assist_data_request
             event_payload_blank zero_rpc_loc_assist_data_request_s_type
                 xdr_rpc_loc_assist_data_request_s_type
      else if disc obj = RPC_LOC_EVENT_LOCATION_SERVER_REQUEST
      then xdr_arm (\<lambda>a. case a of event_payload_loc_server_request w \<Rightarrow> Some w |
          _ \<Rightarrow> None) event_payload_loc_server_request
             event_payload_blank zero_rpc_loc_server_request_s_type
                 xdr_rpc_loc_server_request_s_type
      else if disc obj = RPC_LOC_EVENT_IOCTL_REPORT
      then xdr_arm (\<lambda>a. case a of event_payload_ioctl_report w \<Rightarrow> Some w | _
          \<Rightarrow> None) event_payload_ioctl_report
             event_payload_blank zero_rpc_loc_ioctl_callback_s_type
                 xdr_rpc_loc_ioctl_callback_s_type
      else if disc obj = RPC_LOC_EVENT_STATUS_REPORT
      then xdr_arm (\<lambda>a. case a of event_payload_status_report w \<Rightarrow> Some w | _
          \<Rightarrow> None) event_payload_status_report
             event_payload_blank zero_rpc_loc_status_event_s_type xdr_rpc_loc_status_event_s_type
      else if disc obj = RPC_LOC_EVENT_WPS_NEEDED_REQUEST
      then xdr_arm (\<lambda>a. case a of event_payload_qwip_request w \<Rightarrow> Some w | _
          \<Rightarrow> None) event_payload_qwip_request
             event_payload_blank zero_rpc_loc_qwip_request_s_type xdr_rpc_loc_qwip_request_s_type
      else if disc obj = RPC_LOC_EVENT_RESERVED
      then xdr_arm (\<lambda>a. case a of event_payload_reserved w \<Rightarrow> Some w | _
          \<Rightarrow> None) event_payload_reserved
             event_payload_blank zero_rpc_loc_reserved_payload_s_type
                 xdr_rpc_loc_reserved_payload_s_type
      else xdr_all [])"

definition xdr_rpc_loc_event_payload_u_type :: "rpc_loc_event_payload_u_type xdrproc" where
  "xdr_rpc_loc_event_payload_u_type = xdr_all [xdr_member disc disc_update xdr_u_quad_t, xdr_switch
      xdr_rpc_loc_event_payload_u_type_switch]"

definition enc_rpc_loc_event_payload_u_type_u :: "rpc_loc_event_payload_u_type_u \<Rightarrow> byte
    list" where
  "enc_rpc_loc_event_payload_u_type_u a =
     (case a of
        event_payload_blank \<Rightarrow> []
      | event_payload_parsed_location_report w \<Rightarrow> enc_rpc_loc_parsed_position_s_type w
      | event_payload_gnss_report w \<Rightarrow> enc_rpc_loc_gnss_info_s_type w
      | event_payload_nmea_report w \<Rightarrow> []
      | event_payload_ni_request w \<Rightarrow> enc_rpc_loc_ni_event_s_type w
      | event_payload_assist_data_request w \<Rightarrow> enc_rpc_loc_assist_data_request_s_type w
      | event_payload_loc_server_request w \<Rightarrow> enc_rpc_loc_server_request_s_type w
      | event_payload_ioctl_report w \<Rightarrow> enc_rpc_loc_ioctl_callback_s_type w
      | event_payload_status_report w \<Rightarrow> enc_rpc_loc_status_event_s_type w
      | event_payload_qwip_request w \<Rightarrow> enc_rpc_loc_qwip_request_s_type w
      | event_payload_reserved w \<Rightarrow> enc_rpc_loc_reserved_payload_s_type w)"

definition enc_rpc_loc_event_payload_u_type :: "rpc_loc_event_payload_u_type \<Rightarrow> byte
    list" where
  "enc_rpc_loc_event_payload_u_type v = enc_u64 (disc v) @ enc_rpc_loc_event_payload_u_type_u (arm
      v)"

definition wf_rpc_loc_event_payload_u_type :: "rpc_loc_event_payload_u_type \<Rightarrow> bool"
    where
  "wf_rpc_loc_event_payload_u_type v =
     (case arm v of
        event_payload_blank \<Rightarrow> disc v \<notin> {RPC_LOC_EVENT_PARSED_POSITION_REPORT,
            RPC_LOC_EVENT_SATELLITE_REPORT,
          RPC_LOC_EVENT_NMEA_POSITION_REPORT,
          RPC_LOC_EVENT_NI_NOTIFY_VERIFY_REQUEST,
          RPC_LOC_EVENT_ASSISTANCE_DATA_REQUEST,
          RPC_LOC_EVENT_LOCATION_SERVER_REQUEST,
          RPC_LOC_EVENT_IOCTL_REPORT, RPC_LOC_EVENT_STATUS_REPORT,
          RPC_LOC_EVENT_WPS_NEEDED_REQUEST, RPC_LOC_EVENT_RESERVED}
      | event_payload_parsed_location_report w \<Rightarrow> disc v =
          RPC_LOC_EVENT_PARSED_POSITION_REPORT
      | event_payload_gnss_report w \<Rightarrow> disc v = RPC_LOC_EVENT_SATELLITE_REPORT \<and>
          wf_rpc_loc_gnss_info_s_type w
      | event_payload_nmea_report w \<Rightarrow> False
      | event_payload_ni_request w \<Rightarrow> disc v = RPC_LOC_EVENT_NI_NOTIFY_VERIFY_REQUEST
          \<and> wf_rpc_loc_ni_event_s_type w
      | event_payload_assist_data_request w \<Rightarrow> disc v =
          RPC_LOC_EVENT_ASSISTANCE_DATA_REQUEST \<and> wf_rpc_loc_assist_data_request_s_type w
      | event_payload_loc_server_request w \<Rightarrow> disc v =
          RPC_LOC_EVENT_LOCATION_SERVER_REQUEST \<and> wf_rpc_loc_server_request_s_type w
      | event_payload_ioctl_report w \<Rightarrow> disc v = RPC_LOC_EVENT_IOCTL_REPORT \<and>
          wf_rpc_loc_ioctl_callback_s_type w
      | event_payload_status_report w \<Rightarrow> disc v = RPC_LOC_EVENT_STATUS_REPORT \<and>
          wf_rpc_loc_status_event_s_type w
      | event_payload_qwip_request w \<Rightarrow> disc v = RPC_LOC_EVENT_WPS_NEEDED_REQUEST
      | event_payload_reserved w \<Rightarrow> disc v = RPC_LOC_EVENT_RESERVED \<and>
          wf_rpc_loc_reserved_payload_s_type w)"

definition blk_rpc_loc_event_payload_u_type :: "rpc_loc_event_payload_u_type \<Rightarrow> nat"
    where
  "blk_rpc_loc_event_payload_u_type v =
     (case arm v of
        event_payload_blank \<Rightarrow> 0
      | event_payload_parsed_location_report w \<Rightarrow> 0
      | event_payload_gnss_report w \<Rightarrow> blk_rpc_loc_gnss_info_s_type w
      | event_payload_nmea_report w \<Rightarrow> 0
      | event_payload_ni_request w \<Rightarrow> 0
      | event_payload_assist_data_request w \<Rightarrow> blk_rpc_loc_assist_data_request_s_type w
      | event_payload_loc_server_request w \<Rightarrow> 0
      | event_payload_ioctl_report w \<Rightarrow> blk_rpc_loc_ioctl_callback_s_type w
      | event_payload_status_report w \<Rightarrow> 0
      | event_payload_qwip_request w \<Rightarrow> 0
      | event_payload_reserved w \<Rightarrow> blk_rpc_loc_reserved_payload_s_type w)"

lemma rpc_loc_event_payload_u_type_arms:
  "wf_rpc_loc_event_payload_u_type v 
    \<Longrightarrow> menc (xdr_rpc_loc_event_payload_u_type_switch v) v
        (enc_rpc_loc_event_payload_u_type_u (arm v))"
  "wf_rpc_loc_event_payload_u_type v \<Longrightarrow> arm obj = event_payload_blank
      \<Longrightarrow> disc obj = disc v
    \<Longrightarrow> mdec (xdr_rpc_loc_event_payload_u_type_switch obj) obj v
          (enc_rpc_loc_event_payload_u_type_u (arm v)) (blk_rpc_loc_event_payload_u_type v)"
  "wf_rpc_loc_event_payload_u_type v
    \<Longrightarrow> mfree (xdr_rpc_loc_event_payload_u_type_switch v) v
        (blk_rpc_loc_event_payload_u_type v)"
  by (cases "arm v"; auto simp: xdr_rpc_loc_event_payload_u_type_switch_def
      wf_rpc_loc_event_payload_u_type_def
      enc_rpc_loc_event_payload_u_type_u_def blk_rpc_loc_event_payload_u_type_def loc_consts
      intro!: arm_intros codec_enc codec_dec codec_free)+

lemma rpc_loc_event_payload_u_type_arms_safe:
  "arm obj = event_payload_blank \<Longrightarrow> disc obj \<noteq>
      RPC_LOC_EVENT_NMEA_POSITION_REPORT
    \<Longrightarrow> msafe (xdr_rpc_loc_event_payload_u_type_switch obj) obj"
  unfolding xdr_rpc_loc_event_payload_u_type_switch_def
  by (rule msafe_if msafe_arm msafe_Nil codec_safe refl | assumption | erule (1) notE)+

interpretation rpc_loc_event_payload_u_type_codec: xdr_codec
    xdr_rpc_loc_event_payload_u_type enc_rpc_loc_event_payload_u_type
    wf_rpc_loc_event_payload_u_type blk_rpc_loc_event_payload_u_type
        zero_rpc_loc_event_payload_u_type
  by (unfold_locales; unfold xdr_rpc_loc_event_payload_u_type_def
      enc_rpc_loc_event_payload_u_type_def;
      (rule union_intros rpc_loc_event_payload_u_type_arms
        codec_enc codec_dec codec_free
        | simp add: zero_rpc_loc_event_payload_u_type_def)+)

end
