(* ===== verification/LocApiXdr.thy ===== *)
theory LocApiXdr
  imports LocApiIoctl
begin

text \<open>
  The arguments and results of the remote procedures: gen-50000/loc_api_xdr.c (client to modem)
  and gen-50000/loc_api_cb_xdr.c (callbacks of the modem).
\<close>

interpretation array_rpc_uint32: xdr_codec "xdr_array (- 1) 4 0 xdr_rpc_uint32" "enc_array enc_u32"
    "wf_array (- 1) 4 (\<lambda>_. True)" "blk_array (\<lambda>_. 0)" null_counted
  by (rule rpc_uint32_codec.array)

definition xdr_rpc_loc_api_api_versions_return_type :: "(u32 counted) xdrproc" where
  "xdr_rpc_loc_api_api_versions_return_type = xdr_all [xdr_array (- 1) 4 0 xdr_rpc_uint32]"

interpretation rpc_loc_api_api_versions_return_type_codec: xdr_codec
    xdr_rpc_loc_api_api_versions_return_type "enc_array enc_u32" "wf_array (- 1) 4 (\<lambda>_.
        True)" "blk_array (\<lambda>_. 0)" null_counted
  by (unfold_locales; unfold xdr_rpc_loc_api_api_versions_return_type_def;
      intro wrap_intros codec_enc codec_dec codec_free; simp)

definition xdr_rpc_loc_event_cb_f_type :: "u32 xdrproc" where
  "xdr_rpc_loc_event_cb_f_type = xdr_all [xdr_rpc_uint32]"

interpretation rpc_loc_event_cb_f_type_codec: xdr_safe_codec
    xdr_rpc_loc_event_cb_f_type enc_u32 "\<lambda>_. True" "\<lambda>_. 0" 0
  by (unfold_locales; unfold xdr_rpc_loc_event_cb_f_type_def;
      intro wrap_intros codec_enc codec_dec codec_free codec_safe; simp)

record rpc_loc_open_args =
  event_reg_mask :: u64
  event_callback :: u32

definition zero_rpc_loc_open_args :: rpc_loc_open_args where
  "zero_rpc_loc_open_args =
    \<lparr> event_reg_mask = 0, event_callback = 0\<rparr>"

definition xdr_rpc_loc_open_args ::
    "rpc_loc_open_args xdrproc" where
  "xdr_rpc_loc_open_args = xdr_all
    [xdr_member rpc_loc_open_args.event_reg_mask
       rpc_loc_open_args.event_reg_mask_update xdr_rpc_loc_event_mask_type,
     xdr_member rpc_loc_open_args.event_callback
       rpc_loc_open_args.event_callback_update xdr_rpc_loc_event_cb_f_type]"

definition enc_rpc_loc_open_args ::
    "rpc_loc_open_args \<Rightarrow> byte list" where
  "enc_rpc_loc_open_args v =
     enc_u64 (rpc_loc_open_args.event_reg_mask v) @ enc_u32 (rpc_loc_open_args.event_callback v)"

interpretation rpc_loc_open_args_codec: xdr_safe_codec
    xdr_rpc_loc_open_args enc_rpc_loc_open_args
    "\<lambda>_. True" "\<lambda>_. 0" zero_rpc_loc_open_args
  by (unfold_locales; unfold xdr_rpc_loc_open_args_def enc_rpc_loc_open_args_def;
      (rule struct_intros codec_enc codec_dec codec_free codec_safe
        | simp add: zero_rpc_loc_open_args_def)+)

record rpc_loc_close_args =
  handle :: u32

definition zero_rpc_loc_close_args :: rpc_loc_close_args where
  "zero_rpc_loc_close_args =
    \<lparr> handle = 0\<rparr>"

definition xdr_rpc_loc_close_args ::
    "rpc_loc_close_args xdrproc" where
  "xdr_rpc_loc_close_args = xdr_all
    [xdr_member rpc_loc_close_args.handle
       rpc_loc_close_args.handle_update xdr_rpc_loc_client_handle_type]"

definition enc_rpc_loc_close_args ::
    "rpc_loc_close_args \<Rightarrow> byte list" where
  "enc_rpc_loc_close_args v =
     enc_u32 (rpc_loc_close_args.handle v)"

interpretation rpc_loc_close_args_codec: xdr_safe_codec
    xdr_rpc_loc_close_args enc_rpc_loc_close_args
    "\<lambda>_. True" "\<lambda>_. 0" zero_rpc_loc_close_args
  by (unfold_locales; unfold xdr_rpc_loc_close_args_def enc_rpc_loc_close_args_def;
      (rule struct_intros codec_enc codec_dec codec_free codec_safe
        | simp add: zero_rpc_loc_close_args_def)+)

record rpc_loc_start_fix_args =
  handle :: u32

definition zero_rpc_loc_start_fix_args :: rpc_loc_start_fix_args where
  "zero_rpc_loc_start_fix_args =
    \<lparr> handle = 0\<rparr>"

definition xdr_rpc_loc_start_fix_args ::
    "rpc_loc_start_fix_args xdrproc" where
  "xdr_rpc_loc_start_fix_args = xdr_all
    [xdr_member rpc_loc_start_fix_args.handle
       rpc_loc_start_fix_args.handle_update xdr_rpc_loc_client_handle_type]"

definition enc_rpc_loc_start_fix_args ::
    "rpc_loc_start_fix_args \<Rightarrow> byte list" where
  "enc_rpc_loc_start_fix_args v =
     enc_u32 (rpc_loc_start_fix_args.handle v)"

interpretation rpc_loc_start_fix_args_codec: xdr_safe_codec
    xdr_rpc_loc_start_fix_args enc_rpc_loc_start_fix_args
    "\<lambda>_. True" "\<lambda>_. 0" zero_rpc_loc_start_fix_args
  by (unfold_locales; unfold xdr_rpc_loc_start_fix_args_def enc_rpc_loc_start_fix_args_def;
      (rule struct_intros codec_enc codec_dec codec_free codec_safe
        | simp add: zero_rpc_loc_start_fix_args_def)+)

record rpc_loc_stop_fix_args =
  handle :: u32

definition zero_rpc_loc_stop_fix_args :: rpc_loc_stop_fix_args where
  "zero_rpc_loc_stop_fix_args =
    \<lparr> handle = 0\<rparr>"

definition xdr_rpc_loc_stop_fix_args ::
    "rpc_loc_stop_fix_args xdrproc" where
  "xdr_rpc_loc_stop_fix_args = xdr_all
    [xdr_member rpc_loc_stop_fix_args.handle
       rpc_loc_stop_fix_args.handle_update xdr_rpc_loc_client_handle_type]"

definition enc_rpc_loc_stop_fix_args ::
    "rpc_loc_stop_fix_args \<Rightarrow> byte list" where
  "enc_rpc_loc_stop_fix_args v =
     enc_u32 (rpc_loc_stop_fix_args.handle v)"

interpretation rpc_loc_stop_fix_args_codec: xdr_safe_codec
    xdr_rpc_loc_stop_fix_args enc_rpc_loc_stop_fix_args
    "\<lambda>_. True" "\<lambda>_. 0" zero_rpc_loc_stop_fix_args
  by (unfold_locales; unfold xdr_rpc_loc_stop_fix_args_def enc_rpc_loc_stop_fix_args_def;
      (rule struct_intros codec_enc codec_dec codec_free codec_safe
        | simp add: zero_rpc_loc_stop_fix_args_def)+)

record rpc_loc_ioctl_args =
  handle :: u32
  ioctl_type :: u32
  ioctl_data :: "rpc_loc_ioctl_data_u_type option"

definition zero_rpc_loc_ioctl_args :: rpc_loc_ioctl_args where
  "zero_rpc_loc_ioctl_args =
    \<lparr> handle = 0, ioctl_type = 0, ioctl_data = None\<rparr>"

interpretation pointer_rpc_loc_ioctl_data_u_type: xdr_safe_codec "xdr_pointer 832
    zero_rpc_loc_ioctl_data_u_type xdr_rpc_loc_ioctl_data_u_type" "enc_pointer
        enc_rpc_loc_ioctl_data_u_type"
    "wf_pointer (wf_rpc_loc_ioctl_data_u_type)" "blk_pointer (blk_rpc_loc_ioctl_data_u_type)" None
  by (rule rpc_loc_ioctl_data_u_type_codec.pointer_safe) simp

definition xdr_rpc_loc_ioctl_args ::
    "rpc_loc_ioctl_args xdrproc" where
  "xdr_rpc_loc_ioctl_args = xdr_all
    [xdr_member rpc_loc_ioctl_args.handle
       rpc_loc_ioctl_args.handle_update xdr_rpc_loc_client_handle_type,
     xdr_member rpc_loc_ioctl_args.ioctl_type
       rpc_loc_ioctl_args.ioctl_type_update xdr_rpc_loc_ioctl_e_type,
     xdr_member rpc_loc_ioctl_args.ioctl_data
       rpc_loc_ioctl_args.ioctl_data_update (xdr_pointer 832 zero_rpc_loc_ioctl_data_u_type
           xdr_rpc_loc_ioctl_data_u_type)]"

definition enc_rpc_loc_ioctl_args ::
    "rpc_loc_ioctl_args \<Rightarrow> byte list" where
  "enc_rpc_loc_ioctl_args v =
     enc_u32 (rpc_loc_ioctl_args.handle v) @ enc_u32 (rpc_loc_ioctl_args.ioctl_type v) @
     (enc_pointer enc_rpc_loc_ioctl_data_u_type) (rpc_loc_ioctl_args.ioctl_data v)"

definition wf_rpc_loc_ioctl_args :: "rpc_loc_ioctl_args \<Rightarrow> bool" where
  "wf_rpc_loc_ioctl_args v \<longleftrightarrow>
     (wf_pointer (wf_rpc_loc_ioctl_data_u_type)) (rpc_loc_ioctl_args.ioctl_data v)"

definition blk_rpc_loc_ioctl_args :: "rpc_loc_ioctl_args \<Rightarrow> nat" where
  "blk_rpc_loc_ioctl_args v =
     (blk_pointer (blk_rpc_loc_ioctl_data_u_type)) (rpc_loc_ioctl_args.ioctl_data v)"

interpretation rpc_loc_ioctl_args_codec: xdr_safe_codec
    xdr_rpc_loc_ioctl_args enc_rpc_loc_ioctl_args
    wf_rpc_loc_ioctl_args blk_rpc_loc_ioctl_args zero_rpc_loc_ioctl_args
  by (unfold_locales; unfold xdr_rpc_loc_ioctl_args_def enc_rpc_loc_ioctl_args_def;
      (rule struct_intros codec_enc codec_dec codec_free codec_safe
        | simp add: zero_rpc_loc_ioctl_args_def wf_rpc_loc_ioctl_args_def
            blk_rpc_loc_ioctl_args_def)+)

record rpc_loc_api_api_version_s_args =
  len_not_null :: u32

definition zero_rpc_loc_api_api_version_s_args :: rpc_loc_api_api_version_s_args where
  "zero_rpc_loc_api_api_version_s_args =
    \<lparr> len_not_null = 0\<rparr>"

definition xdr_rpc_loc_api_api_version_s_args ::
    "rpc_loc_api_api_version_s_args xdrproc" where
  "xdr_rpc_loc_api_api_version_s_args = xdr_all
    [xdr_member rpc_loc_api_api_version_s_args.len_not_null
       rpc_loc_api_api_version_s_args.len_not_null_update xdr_rpc_boolean]"

definition enc_rpc_loc_api_api_version_s_args ::
    "rpc_loc_api_api_version_s_args \<Rightarrow> byte list" where
  "enc_rpc_loc_api_api_version_s_args v =
     enc_u32 (rpc_loc_api_api_version_s_args.len_not_null v)"

definition wf_rpc_loc_api_api_version_s_args :: "rpc_loc_api_api_version_s_args \<Rightarrow> bool"
    where
  "wf_rpc_loc_api_api_version_s_args v \<longleftrightarrow>
     wf_bool (rpc_loc_api_api_version_s_args.len_not_null v)"

interpretation rpc_loc_api_api_version_s_args_codec: xdr_safe_codec
    xdr_rpc_loc_api_api_version_s_args enc_rpc_loc_api_api_version_s_args
    wf_rpc_loc_api_api_version_s_args "\<lambda>_. 0" zero_rpc_loc_api_api_version_s_args
  by (unfold_locales; unfold xdr_rpc_loc_api_api_version_s_args_def
      enc_rpc_loc_api_api_version_s_args_def;
      (rule struct_intros codec_enc codec_dec codec_free codec_safe
        | simp add: zero_rpc_loc_api_api_version_s_args_def wf_rpc_loc_api_api_version_s_args_def)+)

record rpc_loc_api_rpc_glue_code_info_remote_rets =
  toolvers :: u32
  features :: u32
  proghash :: u32
  cbproghash :: u32

definition zero_rpc_loc_api_rpc_glue_code_info_remote_rets ::
    rpc_loc_api_rpc_glue_code_info_remote_rets where
  "zero_rpc_loc_api_rpc_glue_code_info_remote_rets =
    \<lparr> toolvers = 0, features = 0,
     proghash = 0, cbproghash = 0\<rparr>"

definition xdr_rpc_loc_api_rpc_glue_code_info_remote_rets ::
    "rpc_loc_api_rpc_glue_code_info_remote_rets xdrproc" where
  "xdr_rpc_loc_api_rpc_glue_code_info_remote_rets = xdr_all
    [xdr_member rpc_loc_api_rpc_glue_code_info_remote_rets.toolvers
       rpc_loc_api_rpc_glue_code_info_remote_rets.toolvers_update xdr_rpc_uint32,
     xdr_member rpc_loc_api_rpc_glue_code_info_remote_rets.features
       rpc_loc_api_rpc_glue_code_info_remote_rets.features_update xdr_rpc_uint32,
     xdr_member rpc_loc_api_rpc_glue_code_info_remote_rets.proghash
       rpc_loc_api_rpc_glue_code_info_remote_rets.proghash_update xdr_rpc_uint32,
     xdr_member rpc_loc_api_rpc_glue_code_info_remote_rets.cbproghash
       rpc_loc_api_rpc_glue_code_info_remote_rets.cbproghash_update xdr_rpc_uint32]"

definition enc_rpc_loc_api_rpc_glue_code_info_remote_rets ::
    "rpc_loc_api_rpc_glue_code_info_remote_rets \<Rightarrow> byte list" where
  "enc_rpc_loc_api_rpc_glue_code_info_remote_rets v =
     enc_u32 (rpc_loc_api_rpc_glue_code_info_remote_rets.toolvers v) @
     enc_u32 (rpc_loc_api_rpc_glue_code_info_remote_rets.features v) @
     enc_u32 (rpc_loc_api_rpc_glue_code_info_remote_rets.proghash v) @
     enc_u32 (rpc_loc_api_rpc_glue_code_info_remote_rets.cbproghash v)"

interpretation rpc_loc_api_rpc_glue_code_info_remote_rets_codec: xdr_safe_codec
    xdr_rpc_loc_api_rpc_glue_code_info_remote_rets enc_rpc_loc_api_rpc_glue_code_info_remote_rets
    "\<lambda>_. True" "\<lambda>_. 0" zero_rpc_loc_api_rpc_glue_code_info_remote_rets
  by (unfold_locales; unfold xdr_rpc_loc_api_rpc_glue_code_info_remote_rets_def
      enc_rpc_loc_api_rpc_glue_code_info_remote_rets_def;
      (rule struct_intros codec_enc codec_dec codec_free codec_safe
        | simp add: zero_rpc_loc_api_rpc_glue_code_info_remote_rets_def)+)

record rpc_loc_open_rets =
  loc_open_result :: u32

definition zero_rpc_loc_open_rets :: rpc_loc_open_rets where
  "zero_rpc_loc_open_rets =
    \<lparr> loc_open_result = 0\<rparr>"

definition xdr_rpc_loc_open_rets ::
    "rpc_loc_open_rets xdrproc" where
  "xdr_rpc_loc_open_rets = xdr_all
    [xdr_member rpc_loc_open_rets.loc_open_result
       rpc_loc_open_rets.loc_open_result_update xdr_rpc_loc_client_handle_type]"

definition enc_rpc_loc_open_rets ::
    "rpc_loc_open_rets \<Rightarrow> byte list" where
  "enc_rpc_loc_open_rets v =
     enc_u32 (rpc_loc_open_rets.loc_open_result v)"

interpretation rpc_loc_open_rets_codec: xdr_safe_codec
    xdr_rpc_loc_open_rets enc_rpc_loc_open_rets
    "\<lambda>_. True" "\<lambda>_. 0" zero_rpc_loc_open_rets
  by (unfold_locales; unfold xdr_rpc_loc_open_rets_def enc_rpc_loc_open_rets_def;
      (rule struct_intros codec_enc codec_dec codec_free codec_safe
        | simp add: zero_rpc_loc_open_rets_def)+)

record rpc_loc_close_rets =
  loc_close_result :: u32

definition zero_rpc_loc_close_rets :: rpc_loc_close_rets where
  "zero_rpc_loc_close_rets =
    \<lparr> loc_close_result = 0\<rparr>"

definition xdr_rpc_loc_close_rets ::
    "rpc_loc_close_rets xdrproc" where
  "xdr_rpc_loc_close_rets = xdr_all
    [xdr_member rpc_loc_close_rets.loc_close_result
       rpc_loc_close_rets.loc_close_result_update xdr_rpc_int32]"

definition enc_rpc_loc_close_rets ::
    "rpc_loc_close_rets \<Rightarrow> byte list" where
  "enc_rpc_loc_close_rets v =
     enc_u32 (rpc_loc_close_rets.loc_close_result v)"

interpretation rpc_loc_close_rets_codec: xdr_safe_codec
    xdr_rpc_loc_close_rets enc_rpc_loc_close_rets
    "\<lambda>_. True" "\<lambda>_. 0" zero_rpc_loc_close_rets
  by (unfold_locales; unfold xdr_rpc_loc_close_rets_def enc_rpc_loc_close_rets_def;
      (rule struct_intros codec_enc codec_dec codec_free codec_safe
        | simp add: zero_rpc_loc_close_rets_def)+)

record rpc_loc_start_fix_rets =
  loc_start_fix_result :: u32

definition zero_rpc_loc_start_fix_rets :: rpc_loc_start_fix_rets where
  "zero_rpc_loc_start_fix_rets =
    \<lparr> loc_start_fix_result = 0\<rparr>"

definition xdr_rpc_loc_start_fix_rets ::
    "rpc_loc_start_fix_rets xdrproc" where
  "xdr_rpc_loc_start_fix_rets = xdr_all
    [xdr_member rpc_loc_start_fix_rets.loc_start_fix_result
       rpc_loc_start_fix_rets.loc_start_fix_result_update xdr_rpc_int32]"

definition enc_rpc_loc_start_fix_rets ::
    "rpc_loc_start_fix_rets \<Rightarrow> byte list" where
  "enc_rpc_loc_start_fix_rets v =
     enc_u32 (rpc_loc_start_fix_rets.loc_start_fix_result v)"

interpretation rpc_loc_start_fix_rets_codec: xdr_safe_codec
    xdr_rpc_loc_start_fix_rets enc_rpc_loc_start_fix_rets
    "\<lambda>_. True" "\<lambda>_. 0" zero_rpc_loc_start_fix_rets
  by (unfold_locales; unfold xdr_rpc_loc_start_fix_rets_def enc_rpc_loc_start_fix_rets_def;
      (rule struct_intros codec_enc codec_dec codec_free codec_safe
        | simp add: zero_rpc_loc_start_fix_rets_def)+)

record rpc_loc_stop_fix_rets =
  loc_stop_fix_result :: u32

definition zero_rpc_loc_stop_fix_rets :: rpc_loc_stop_fix_rets where
  "zero_rpc_loc_stop_fix_rets =
    \<lparr> loc_stop_fix_result = 0\<rparr>"

definition xdr_rpc_loc_stop_fix_rets ::
    "rpc_loc_stop_fix_rets xdrproc" where
  "xdr_rpc_loc_stop_fix_rets = xdr_all
    [xdr_member rpc_loc_stop_fix_rets.loc_stop_fix_result
       rpc_loc_stop_fix_rets.loc_stop_fix_result_update xdr_rpc_int32]"

definition enc_rpc_loc_stop_fix_rets ::
    "rpc_loc_stop_fix_rets \<Rightarrow> byte list" where
  "enc_rpc_loc_stop_fix_rets v =
     enc_u32 (rpc_loc_stop_fix_rets.loc_stop_fix_result v)"

interpretation rpc_loc_stop_fix_rets_codec: xdr_safe_codec
    xdr_rpc_loc_stop_fix_rets enc_rpc_loc_stop_fix_rets
    "\<lambda>_. True" "\<lambda>_. 0" zero_rpc_loc_stop_fix_rets
  by (unfold_locales; unfold xdr_rpc_loc_stop_fix_rets_def enc_rpc_loc_stop_fix_rets_def;
      (rule struct_intros codec_enc codec_dec codec_free codec_safe
        | simp add: zero_rpc_loc_stop_fix_rets_def)+)

record rpc_loc_ioctl_rets =
  loc_ioctl_result :: u32

definition zero_rpc_loc_ioctl_rets :: rpc_loc_ioctl_rets where
  "zero_rpc_loc_ioctl_rets =
    \<lparr> loc_ioctl_result = 0\<rparr>"

definition xdr_rpc_loc_ioctl_rets ::
    "rpc_loc_ioctl_rets xdrproc" where
  "xdr_rpc_loc_ioctl_rets = xdr_all
    [xdr_member rpc_loc_ioctl_rets.loc_ioctl_result
       rpc_loc_ioctl_rets.loc_ioctl_result_update xdr_rpc_int32]"

definition enc_rpc_loc_ioctl_rets ::
    "rpc_loc_ioctl_rets \<Rightarrow> byte list" where
  "enc_rpc_loc_ioctl_rets v =
     enc_u32 (rpc_loc_ioctl_rets.loc_ioctl_result v)"

interpretation rpc_loc_ioctl_rets_codec: xdr_safe_codec
    xdr_rpc_loc_ioctl_rets enc_rpc_loc_ioctl_rets
    "\<lambda>_. True" "\<lambda>_. 0" zero_rpc_loc_ioctl_rets
  by (unfold_locales; unfold xdr_rpc_loc_ioctl_rets_def enc_rpc_loc_ioctl_rets_def;
      (rule struct_intros codec_enc codec_dec codec_free codec_safe
        | simp add: zero_rpc_loc_ioctl_rets_def)+)

record rpc_loc_api_api_versions_rets =
  loc_api_api_versions_result :: "u32 counted"
  len_out :: "u32 option"

definition zero_rpc_loc_api_api_versions_rets :: rpc_loc_api_api_versions_rets where
  "zero_rpc_loc_api_api_versions_rets =
    \<lparr> loc_api_api_versions_result = null_counted,
     len_out = None\<rparr>"

interpretation pointer_rpc_uint32: xdr_safe_codec "xdr_pointer 4 0 xdr_rpc_uint32" "enc_pointer
    enc_u32"
    "wf_pointer (\<lambda>_. True)" "blk_pointer (\<lambda>_. 0)" None
  by (rule rpc_uint32_codec.pointer_safe) simp

definition xdr_rpc_loc_api_api_versions_rets ::
    "rpc_loc_api_api_versions_rets xdrproc" where
  "xdr_rpc_loc_api_api_versions_rets = xdr_all
    [xdr_member rpc_loc_api_api_versions_rets.loc_api_api_versions_result
       rpc_loc_api_api_versions_rets.loc_api_api_versions_result_update
           xdr_rpc_loc_api_api_versions_return_type,
     xdr_member rpc_loc_api_api_versions_rets.len_out
       rpc_loc_api_api_versions_rets.len_out_update (xdr_pointer 4 0 xdr_rpc_uint32)]"

definition enc_rpc_loc_api_api_versions_rets ::
    "rpc_loc_api_api_versions_rets \<Rightarrow> byte list" where
  "enc_rpc_loc_api_api_versions_rets v =
     (enc_array enc_u32) (rpc_loc_api_api_versions_rets.loc_api_api_versions_result v) @
     (enc_pointer enc_u32) (rpc_loc_api_api_versions_rets.len_out v)"

definition wf_rpc_loc_api_api_versions_rets :: "rpc_loc_api_api_versions_rets \<Rightarrow> bool"
    where
  "wf_rpc_loc_api_api_versions_rets v \<longleftrightarrow>
     (wf_array (- 1) 4 (\<lambda>_. True))
         (rpc_loc_api_api_versions_rets.loc_api_api_versions_result v) \<and>
     (wf_pointer (\<lambda>_. True)) (rpc_loc_api_api_versions_rets.len_out v)"

definition blk_rpc_loc_api_api_versions_rets :: "rpc_loc_api_api_versions_rets \<Rightarrow> nat"
    where
  "blk_rpc_loc_api_api_versions_rets v =
     (blk_array (\<lambda>_. 0)) (rpc_loc_api_api_versions_rets.loc_api_api_versions_result v) +
     (blk_pointer (\<lambda>_. 0)) (rpc_loc_api_api_versions_rets.len_out v)"

interpretation rpc_loc_api_api_versions_rets_codec: xdr_codec
    xdr_rpc_loc_api_api_versions_rets enc_rpc_loc_api_api_versions_rets
    wf_rpc_loc_api_api_versions_rets blk_rpc_loc_api_api_versions_rets
        zero_rpc_loc_api_api_versions_rets
  by (unfold_locales; unfold xdr_rpc_loc_api_api_versions_rets_def
      enc_rpc_loc_api_api_versions_rets_def;
      (rule struct_intros codec_enc codec_dec codec_free
        | simp add: zero_rpc_loc_api_api_versions_rets_def wf_rpc_loc_api_api_versions_rets_def
            blk_rpc_loc_api_api_versions_rets_def)+)

record rpc_loc_event_cb_f_type_args =
  cb_id :: u32
  loc_handle :: u32
  loc_event :: u64
  loc_event_payload :: "rpc_loc_event_payload_u_type option"

definition zero_rpc_loc_event_cb_f_type_args :: rpc_loc_event_cb_f_type_args where
  "zero_rpc_loc_event_cb_f_type_args =
    \<lparr> cb_id = 0, loc_handle = 0, loc_event = 0,
     loc_event_payload = None\<rparr>"

interpretation pointer_rpc_loc_event_payload_u_type: xdr_codec "xdr_pointer 600
    zero_rpc_loc_event_payload_u_type xdr_rpc_loc_event_payload_u_type" "enc_pointer
        enc_rpc_loc_event_payload_u_type"
    "wf_pointer (wf_rpc_loc_event_payload_u_type)" "blk_pointer (blk_rpc_loc_event_payload_u_type)"
        None
  by (rule rpc_loc_event_payload_u_type_codec.pointer)

definition xdr_rpc_loc_event_cb_f_type_args ::
    "rpc_loc_event_cb_f_type_args xdrproc" where
  "xdr_rpc_loc_event_cb_f_type_args = xdr_all
    [xdr_member rpc_loc_event_cb_f_type_args.cb_id
       rpc_loc_event_cb_f_type_args.cb_id_update xdr_rpc_uint32,
     xdr_member rpc_loc_event_cb_f_type_args.loc_handle
       rpc_loc_event_cb_f_type_args.loc_handle_update xdr_rpc_loc_client_handle_type,
     xdr_member rpc_loc_event_cb_f_type_args.loc_event
       rpc_loc_event_cb_f_type_args.loc_event_update xdr_rpc_loc_event_mask_type,
     xdr_member rpc_loc_event_cb_f_type_args.loc_event_payload
       rpc_loc_event_cb_f_type_args.loc_event_payload_update (xdr_pointer 600
           zero_rpc_loc_event_payload_u_type xdr_rpc_loc_event_payload_u_type)]"

definition enc_rpc_loc_event_cb_f_type_args ::
    "rpc_loc_event_cb_f_type_args \<Rightarrow> byte list" where
  "enc_rpc_loc_event_cb_f_type_args v =
     enc_u32 (rpc_loc_event_cb_f_type_args.cb_id v) @
     enc_u32 (rpc_loc_event_cb_f_type_args.loc_handle v) @
     enc_u64 (rpc_loc_event_cb_f_type_args.loc_event v) @
     (enc_pointer enc_rpc_loc_event_payload_u_type) (rpc_loc_event_cb_f_type_args.loc_event_payload
         v)"

definition wf_rpc_loc_event_cb_f_type_args :: "rpc_loc_event_cb_f_type_args \<Rightarrow> bool"
    where
  "wf_rpc_loc_event_cb_f_type_args v \<longleftrightarrow>
     (wf_pointer (wf_rpc_loc_event_payload_u_type)) (rpc_loc_event_cb_f_type_args.loc_event_payload
         v)"

definition blk_rpc_loc_event_cb_f_type_args :: "rpc_loc_event_cb_f_type_args \<Rightarrow> nat"
    where
  "blk_rpc_loc_event_cb_f_type_args v =
     (blk_pointer (blk_rpc_loc_event_payload_u_type))
         (rpc_loc_event_cb_f_type_args.loc_event_payload v)"

interpretation rpc_loc_event_cb_f_type_args_codec: xdr_codec
    xdr_rpc_loc_event_cb_f_type_args enc_rpc_loc_event_cb_f_type_args
    wf_rpc_loc_event_cb_f_type_args blk_rpc_loc_event_cb_f_type_args
        zero_rpc_loc_event_cb_f_type_args
  by (unfold_locales; unfold xdr_rpc_loc_event_cb_f_type_args_def
      enc_rpc_loc_event_cb_f_type_args_def;
      (rule struct_intros codec_enc codec_dec codec_free
        | simp add: zero_rpc_loc_event_cb_f_type_args_def wf_rpc_loc_event_cb_f_type_args_def
            blk_rpc_loc_event_cb_f_type_args_def)+)

record rpc_loc_event_cb_f_type_rets =
  loc_event_cb_f_type_result :: u32

definition zero_rpc_loc_event_cb_f_type_rets :: rpc_loc_event_cb_f_type_rets where
  "zero_rpc_loc_event_cb_f_type_rets =
    \<lparr> loc_event_cb_f_type_result = 0\<rparr>"

definition xdr_rpc_loc_event_cb_f_type_rets ::
    "rpc_loc_event_cb_f_type_rets xdrproc" where
  "xdr_rpc_loc_event_cb_f_type_rets = xdr_all
    [xdr_member rpc_loc_event_cb_f_type_rets.loc_event_cb_f_type_result
       rpc_loc_event_cb_f_type_rets.loc_event_cb_f_type_result_update xdr_rpc_int32]"

definition enc_rpc_loc_event_cb_f_type_rets ::
    "rpc_loc_event_cb_f_type_rets \<Rightarrow> byte list" where
  "enc_rpc_loc_event_cb_f_type_rets v =
     enc_u32 (rpc_loc_event_cb_f_type_rets.loc_event_cb_f_type_result v)"

interpretation rpc_loc_event_cb_f_type_rets_codec: xdr_safe_codec
    xdr_rpc_loc_event_cb_f_type_rets enc_rpc_loc_event_cb_f_type_rets
    "\<lambda>_. True" "\<lambda>_. 0" zero_rpc_loc_event_cb_f_type_rets
  by (unfold_locales; unfold xdr_rpc_loc_event_cb_f_type_rets_def
      enc_rpc_loc_event_cb_f_type_rets_def;
      (rule struct_intros codec_enc codec_dec codec_free codec_safe
        | simp add: zero_rpc_loc_event_cb_f_type_rets_def)+)

end
