(* ===== verification/LocApiWire.thy ===== *)
theory LocApiWire
  imports LocApiXdr
begin

text \<open>
  What the generated codecs give the two sides of the location API: a request or an event that
  fits a packet arrives unchanged and releases what it allocated, an ioctl request decodes
  without leaving the buffers whatever the bytes are, and the two places where the generated
  code does leave them (the NMEA sentence array and the unbounded version array).
\<close>

section \<open>Requests and events arrive unchanged\<close>

text \<open>
  C1: round trip of the largest request. When \<open>xdr_rpc_loc_ioctl_args\<close> succeeds in encoding a
  request, the receiver of the packet decodes the same request from cleared storage, stops where
  the sender stopped, and \<open>XDR_FREE\<close> gives back every block that decoding allocated.
\<close>

theorem ioctl_args_round_trip:
  assumes "wf_rpc_loc_ioctl_args v" and "ready_out x"
    and "xdr_rpc_loc_ioctl_args v x = (True, w, y)"
    and "x_op d = XDR_DECODE" and "\<not> fault d" and "all_mallocs d"
  shows "\<exists>z u. xdr_rpc_loc_ioctl_args zero_rpc_loc_ioctl_args (deliver y (out_next x) d) = (True, v, z)
    \<and> in_next z = out_next y
    \<and> xdr_rpc_loc_ioctl_args v (z\<lparr>x_op := XDR_FREE\<rparr>) = (True, u, z\<lparr>x_op := XDR_FREE, live := live d\<rparr>)"
  by (rule rpc_loc_ioctl_args_codec.round_trip [OF assms]) blast

definition sender :: XDR where
  "sender = calloc_xdr\<lparr>out_next := 8\<rparr>"

definition receiver :: XDR where
  "receiver = calloc_xdr\<lparr>x_op := XDR_DECODE\<rparr>"

lemma sender_ready: "ready_out sender" "out_next sender = 8"
  by (simp_all add: ready_out_def sender_def calloc_xdr_def RPCROUTER_MSGSIZE_MAX_def)

lemma receiver_ready: "x_op receiver = XDR_DECODE" "\<not> fault receiver" "all_mallocs receiver"
  by (simp_all add: receiver_def calloc_xdr_def all_mallocs_def)

definition engine_lock_request :: rpc_loc_ioctl_args where
  "engine_lock_request = \<lparr>handle = 3, ioctl_type = RPC_LOC_IOCTL_SET_ENGINE_LOCK,
     ioctl_data = Some \<lparr>disc = RPC_LOC_IOCTL_SET_ENGINE_LOCK, arm = ioctl_data_engine_lock 4\<rparr>\<rparr>"

lemma engine_lock_request:
  "wf_rpc_loc_ioctl_args engine_lock_request"
  "length (enc_rpc_loc_ioctl_args engine_lock_request) = 20"
  by (simp_all add: engine_lock_request_def wf_rpc_loc_ioctl_args_def enc_rpc_loc_ioctl_args_def
      wf_rpc_loc_ioctl_data_u_type_def enc_rpc_loc_ioctl_data_u_type_def
      enc_rpc_loc_ioctl_data_u_type_u_def enc_u32_def)

theorem ioctl_args_round_trip_witness:
  "\<exists>y z. xdr_rpc_loc_ioctl_args engine_lock_request sender = (True, engine_lock_request, y)
    \<and> out_next y = 28
    \<and> xdr_rpc_loc_ioctl_args zero_rpc_loc_ioctl_args (deliver y 8 receiver)
        = (True, engine_lock_request, z)"
proof -
  have e: "xdr_rpc_loc_ioctl_args engine_lock_request sender = (True, engine_lock_request,
      put (enc_rpc_loc_ioctl_args engine_lock_request) sender)"
    by (rule rpc_loc_ioctl_args_codec.encode)
      (simp_all add: engine_lock_request sender_ready RPCROUTER_MSGSIZE_MAX_def)
  show ?thesis
    using ioctl_args_round_trip [OF engine_lock_request(1) sender_ready(1) e receiver_ready] e
    by (auto simp: engine_lock_request(2) sender_ready)
qed

text \<open>
  C2: round trip of an event. Every callback the modem can send in a packet arrives unchanged
  with its optional payload (position, satellites, status, NI request, ioctl report, \dots), and
  is released completely. \<open>wf_rpc_loc_event_cb_f_type_args\<close> excludes NMEA payloads, see \<open>nmea_report_overruns\<close>.
\<close>

theorem event_args_round_trip:
  assumes "wf_rpc_loc_event_cb_f_type_args v" and "ready_out x"
    and "xdr_rpc_loc_event_cb_f_type_args v x = (True, w, y)"
    and "x_op d = XDR_DECODE" and "\<not> fault d" and "all_mallocs d"
  shows "\<exists>z u. xdr_rpc_loc_event_cb_f_type_args zero_rpc_loc_event_cb_f_type_args
        (deliver y (out_next x) d) = (True, v, z)
    \<and> in_next z = out_next y
    \<and> xdr_rpc_loc_event_cb_f_type_args v (z\<lparr>x_op := XDR_FREE\<rparr>)
        = (True, u, z\<lparr>x_op := XDR_FREE, live := live d\<rparr>)"
  by (rule rpc_loc_event_cb_f_type_args_codec.round_trip [OF assms]) blast

definition satellite_event :: rpc_loc_event_cb_f_type_args where
  "satellite_event = \<lparr>cb_id = 0, loc_handle = 1, loc_event = RPC_LOC_EVENT_SATELLITE_REPORT,
     loc_event_payload = Some \<lparr>disc = RPC_LOC_EVENT_SATELLITE_REPORT,
       arm = event_payload_gnss_report (zero_rpc_loc_gnss_info_s_type
         \<lparr>sv_count := 1, sv_list := \<lparr>len = 1, val = Some [zero_rpc_loc_sv_info_s_type]\<rparr>\<rparr>)\<rparr>\<rparr>"

lemma satellite_event:
  "wf_rpc_loc_event_cb_f_type_args satellite_event"
  "length (enc_rpc_loc_event_cb_f_type_args satellite_event) = 96"
  by (simp_all add: satellite_event_def wf_rpc_loc_event_cb_f_type_args_def
      enc_rpc_loc_event_cb_f_type_args_def wf_rpc_loc_event_payload_u_type_def
      enc_rpc_loc_event_payload_u_type_def enc_rpc_loc_event_payload_u_type_u_def
      wf_rpc_loc_gnss_info_s_type_def enc_rpc_loc_gnss_info_s_type_def
      zero_rpc_loc_gnss_info_s_type_def enc_array_def wf_array_def
      enc_rpc_loc_sv_info_s_type_def wf_rpc_loc_sv_info_s_type_def zero_rpc_loc_sv_info_s_type_def
      wf_bool_def enc_scalar_defs)

theorem event_args_round_trip_witness:
  "\<exists>y z. xdr_rpc_loc_event_cb_f_type_args satellite_event sender = (True, satellite_event, y)
    \<and> xdr_rpc_loc_event_cb_f_type_args zero_rpc_loc_event_cb_f_type_args (deliver y 8 receiver)
        = (True, satellite_event, z) \<and> in_next z = 104"
proof -
  have e: "xdr_rpc_loc_event_cb_f_type_args satellite_event sender = (True, satellite_event,
      put (enc_rpc_loc_event_cb_f_type_args satellite_event) sender)"
    by (rule rpc_loc_event_cb_f_type_args_codec.encode)
      (simp_all add: satellite_event sender_ready RPCROUTER_MSGSIZE_MAX_def)
  show ?thesis
    using event_args_round_trip [OF satellite_event(1) sender_ready(1) e receiver_ready] e
    by (auto simp: satellite_event(2) sender_ready)
qed

section \<open>Memory safety of what the modem sends\<close>

text \<open>
  Safe on every input, except that results with property \<open>B\<close> promise nothing about memory.
\<close>

definition msafe_unless :: "('a \<Rightarrow> bool) \<Rightarrow> 'a xdrproc \<Rightarrow> 'a \<Rightarrow> bool" where
  "msafe_unless B p obj \<longleftrightarrow> (\<forall>x ok v y. ready_in x \<and> malloc_sane x \<and> p obj x = (ok, v, y) \<longrightarrow>
     (B v \<and> x_op y = XDR_DECODE) \<or> (ready_in y \<and> in_next x \<le> in_next y \<and> in_same x y))"

lemma msafe_unless_safe: "msafe p obj \<Longrightarrow> msafe_unless B p obj"
  unfolding msafe_unless_def using msafe_run by metis

lemma msafe_unless_after:
  assumes p: "msafe p obj" and ps: "\<And>x w y. p obj x = (True, w, y) \<Longrightarrow> msafe_unless B (xdr_all ps) w"
  shows "msafe_unless B (xdr_all (p # ps)) obj"
  unfolding msafe_unless_def
proof (intro allI impI)
  fix x ok v y
  assume x: "ready_in x \<and> malloc_sane x \<and> xdr_all (p # ps) obj x = (ok, v, y)"
  obtain ok1 w y1 where 1: "p obj x = (ok1, w, y1)" by (cases "p obj x")
  note s1 = msafe_run [OF p _ _ 1]
  show "(B v \<and> x_op y = XDR_DECODE) \<or> (ready_in y \<and> in_next x \<le> in_next y \<and> in_same x y)"
  proof (cases ok1)
    case True
    then have run: "xdr_all ps w y1 = (ok, v, y)" using x 1 by simp
    have "msafe_unless B (xdr_all ps) w" using ps 1 True by simp
    then have "(B v \<and> x_op y = XDR_DECODE) \<or> (ready_in y \<and> in_next y1 \<le> in_next y \<and> in_same y1 y)"
      using run s1 x unfolding msafe_unless_def by blast
    then show ?thesis using s1 x in_same_trans by auto
  qed (use s1 x 1 in auto)
qed

lemma msafe_unless_Cons:
  assumes "msafe p (get obj)" "\<And>w. msafe_unless B (xdr_all ps) (upd (\<lambda>_. w) obj)"
  shows "msafe_unless B (xdr_all (xdr_member get upd p # ps)) obj"
  by (rule msafe_unless_after [OF msafe_member])
    (use assms in \<open>auto simp: xdr_member_def split: prod.splits\<close>)

lemma msafe_unless_member:
  assumes "msafe_unless C p (get obj)" "\<And>w. C w \<Longrightarrow> B (upd (\<lambda>_. w) obj)"
  shows "msafe_unless B (xdr_all [xdr_member get upd p]) obj"
  using assms unfolding msafe_unless_def
  by (simp add: xdr_member_def split: prod.splits if_splits) blast

lemma msafe_unless_pointer:
  assumes p: "msafe_unless B p zero" and k: "k < 2 ^ 30"
  shows "msafe_unless (\<lambda>v. \<exists>w. v = Some w \<and> B w) (xdr_pointer k zero p) None"
  unfolding msafe_unless_def
proof (intro allI impI)
  fix x ok v y
  assume x: "ready_in x \<and> malloc_sane x \<and> xdr_pointer k zero p None x = (ok, v, y)"
  obtain ok1 m y1 where 1: "xdr_bool 0 x = (ok1, m, y1)" by (cases "xdr_bool 0 x")
  have s1: "ready_in y1" "in_next x \<le> in_next y1" "in_same x y1" "malloc_sane y1"
    using msafe_run [OF bool_codec.safe_law [OF refl] _ _ 1] x by auto
  obtain got y2 where 2: "mem_alloc k y1 = (got, y2)" by (cases "mem_alloc k y1")
  have op: "x_op y1 = XDR_DECODE" using s1(1) by (simp add: ready_in_def)
  from 2 s1(4) have s2: "ready_in y2" "in_next y2 = in_next y1" "in_same x y2" "malloc_sane y2"
    using s1 by (cases rule: mem_alloc_cases;
        auto simp: ready_in_def in_same_def malloc_sane_def adv_def)+
  obtain ok3 w y3 where 3: "p zero y2 = (ok3, w, y3)" by (cases "p zero y2")
  have s3: "(B w \<and> x_op y3 = XDR_DECODE) \<or> (ready_in y3 \<and> in_next y2 \<le> in_next y3 \<and> in_same y2 y3)"
    using p s2 3 unfolding msafe_unless_def by blast
  have op3: "x_op y3 = XDR_DECODE" using s3 by (auto simp: ready_in_def)
  show "((\<exists>w. v = Some w \<and> B w) \<and> x_op y = XDR_DECODE)
      \<or> (ready_in y \<and> in_next x \<le> in_next y \<and> in_same x y)"
    using x 1 2 3 op op3 s1 s2 s3 in_same_trans [OF s2(3)]
    by (auto simp: xdr_pointer_def xdr_reference_def split: if_splits)
qed

lemma nmea_report_keeps_op:
  assumes "x_op x = XDR_DECODE" "xdr_rpc_loc_nmea_report_s_type obj x = (ok, v, y)"
  shows "x_op y = XDR_DECODE"
proof -
  have "x_op (snd (snd (xdr_std_recv_bytes b n z))) = x_op z" for b n z
    by (auto simp: xdr_std_recv_bytes_def undefined_behaviour_def Let_def split: option.split)
  moreover have "x_op (snd (snd (xdr_std_recv_uint32 n z))) = x_op z" for n z
    by (simp add: xdr_std_recv_uint32_def)
  ultimately show ?thesis
    using assms
    by (auto simp: xdr_rpc_loc_nmea_report_s_type_def xdr_member_def xdr_rpc_uint16_def xdr_u_short_def
        xdr_opaque_def case_prod_beta split: if_splits)
qed

definition nmea_payload :: "rpc_loc_event_payload_u_type \<Rightarrow> bool" where
  "nmea_payload v \<longleftrightarrow> disc v = RPC_LOC_EVENT_NMEA_POSITION_REPORT"

lemma payload_safe_unless_nmea:
  "msafe_unless nmea_payload xdr_rpc_loc_event_payload_u_type zero_rpc_loc_event_payload_u_type"
  unfolding xdr_rpc_loc_event_payload_u_type_def
proof (rule msafe_unless_after)
  let ?z = zero_rpc_loc_event_payload_u_type and ?sw = xdr_rpc_loc_event_payload_u_type_switch
  show "msafe (xdr_member disc disc_update xdr_u_quad_t) ?z"
    by (rule msafe_member [OF u_quad_codec.safe_law])
      (simp add: zero_rpc_loc_event_payload_u_type_def)
  fix x w y
  assume "xdr_member disc disc_update xdr_u_quad_t ?z x = (True, w, y)"
  then have w: "arm w = event_payload_blank"
    by (auto simp: xdr_member_def zero_rpc_loc_event_payload_u_type_def split: prod.splits)
  show "msafe_unless nmea_payload (xdr_all [xdr_switch ?sw]) w"
  proof (cases "disc w = RPC_LOC_EVENT_NMEA_POSITION_REPORT")
    case False
    then show ?thesis
      by (intro msafe_unless_safe msafe_single msafe_switch rpc_loc_event_payload_u_type_arms_safe [OF w])
  next
    case True
    have "nmea_payload v \<and> x_op y = XDR_DECODE"
      if "ready_in x" "xdr_all [xdr_switch ?sw] w x = (ok, v, y)" for x ok v y
      using that True w nmea_report_keeps_op [of x]
      by (auto simp: xdr_switch_def xdr_rpc_loc_event_payload_u_type_switch_def loc_consts xdr_arm_def
          nmea_payload_def ready_in_def split: prod.splits if_splits)
    then show ?thesis by (auto simp: msafe_unless_def)
  qed
qed

lemma event_args_safe_unless_nmea:
  "msafe_unless (\<lambda>v. \<exists>p. loc_event_payload v = Some p \<and> nmea_payload p)
     xdr_rpc_loc_event_cb_f_type_args zero_rpc_loc_event_cb_f_type_args"
  unfolding xdr_rpc_loc_event_cb_f_type_args_def
  by (intro msafe_unless_Cons msafe_unless_member [where C = "\<lambda>v. \<exists>w. v = Some w \<and> nmea_payload w"])
    (simp_all add: zero_rpc_loc_event_cb_f_type_args_def codec_safe
      msafe_unless_pointer [OF payload_safe_unless_nmea])

text \<open>
  C3: memory safety of the event decoder. Whatever bytes a packet holds, decoding it as an event
  into cleared storage stays inside the message buffer and inside the storage it fills, unless
  the result carries an NMEA report (\<open>nmea_report_overruns\<close>); the cursor only moves forward.
\<close>

theorem event_args_decode_safe:
  assumes "ready_in x" and "malloc_sane x"
    and "xdr_rpc_loc_event_cb_f_type_args zero_rpc_loc_event_cb_f_type_args x = (ok, v, y)"
    and "\<And>p. loc_event_payload v = Some p \<Longrightarrow> disc p \<noteq> RPC_LOC_EVENT_NMEA_POSITION_REPORT"
  shows "\<not> fault y \<and> in_next x \<le> in_next y \<and> in_next y \<le> RPCROUTER_MSGSIZE_MAX"
  using assms event_args_safe_unless_nmea
  unfolding msafe_unless_def nmea_payload_def ready_in_def by metis

text \<open>A packet of zeros after the header, in a process whose allocator refuses large blocks.\<close>

definition zero_packet :: XDR where
  "zero_packet = calloc_xdr\<lparr>x_op := XDR_DECODE, in_len := 28, in_next := 8,
     malloc_ok := (\<lambda>_ n. n < 4096)\<rparr>"

theorem event_args_decode_safe_witness:
  "\<exists>v y. xdr_rpc_loc_event_cb_f_type_args zero_rpc_loc_event_cb_f_type_args zero_packet = (True, v, y)
    \<and> loc_event_payload v = None \<and> in_next y = 28 \<and> \<not> fault y"
proof -
  have run: "xdr_rpc_loc_event_cb_f_type_args zero_rpc_loc_event_cb_f_type_args zero_packet
      = (True, zero_rpc_loc_event_cb_f_type_args, zero_packet\<lparr>in_next := 28\<rparr>)"
    by (simp add: xdr_rpc_loc_event_cb_f_type_args_def zero_rpc_loc_event_cb_f_type_args_def
        xdr_member_def xdr_rpc_uint32_def xdr_u_long_def xdr_rpc_loc_client_handle_type_def
        xdr_rpc_int32_def xdr_long_def xdr_rpc_loc_event_mask_type_def xdr_rpc_uint64_def
        xdr_u_quad_t_def xdr_u_hyper_def xdr_std_recv_int32_def xdr_std_recv_uint32_def
        xdr_pointer_def xdr_bool_def zero_packet_def calloc_xdr_def un_be32_def join32_def)
  have "ready_in zero_packet" "malloc_sane zero_packet"
    by (simp_all add: ready_in_def malloc_sane_def zero_packet_def calloc_xdr_def
        RPCROUTER_MSGSIZE_MAX_def)
  from event_args_decode_safe [OF this run] run show ?thesis
    by (simp add: zero_rpc_loc_event_cb_f_type_args_def)
qed

section \<open>Where the generated code leaves its storage\<close>

text \<open>
  C25: every NMEA report overruns its array. The structure holds 200 characters
  (inc-50000/loc_api_common.h) but \<open>xdr_rpc_loc_nmea_report_s_type\<close> receives 1200: as soon as a
  packet carries the discriminant, a length and 1200 bytes, decoding writes past the array.
\<close>

theorem nmea_report_overruns:
  assumes x: "ready_in x" and head: "at_in (enc_u64 RPC_LOC_EVENT_NMEA_POSITION_REPORT @ enc_u16 n) x"
    and body: "in_next x + 12 + 1200 \<le> in_len x"
  shows "\<exists>v y. xdr_rpc_loc_event_payload_u_type zero_rpc_loc_event_payload_u_type x = (False, v, y)
    \<and> fault y"
proof -
  let ?c = RPC_LOC_EVENT_NMEA_POSITION_REPORT and ?z = zero_rpc_loc_event_payload_u_type
  have ready: "ready_in (adv 4 0 x)" "ready_in (adv 8 0 x)" "ready_in (adv 12 0 x)"
    using body by (auto intro!: ready_in_adv [OF x])
  have words: "at_in (be32 (hi32 ?c)) x" "at_in (be32 (lo32 ?c)) (adv 4 0 x)"
    "at_in (be32 (ucast n)) (adv 8 0 x)"
    using head at_in_append [OF x, of "be32 (hi32 ?c)" "be32 (lo32 ?c) @ be32 (ucast n)" 0]
      at_in_append [OF ready(1), of "be32 (lo32 ?c)" "be32 (ucast n)" 0]
    by (simp_all add: enc_u64_def enc_u16_def)
  have op: "x_op x = XDR_DECODE" "in_next x \<le> 18432"
    using x by (auto simp: ready_in_def RPCROUTER_MSGSIZE_MAX_def)
  have disc: "xdr_u_quad_t 0 x = (True, ?c, adv 8 0 x)"
    using recv_word [OF words(1) x] recv_word [OF words(2) ready(1)] op
    by (simp add: xdr_u_quad_t_def xdr_u_hyper_def xdr_std_recv_int32_def)
  have len: "xdr_rpc_uint16 0 (adv 8 0 x) = (True, n, adv 12 0 x)"
    using recv_word [OF words(3) ready(2)] op
    by (simp add: xdr_rpc_uint16_def xdr_u_short_def ucast_ucast_up)
  have "xdr_opaque 1200 (replicate 200 0) (adv 12 0 x)
      = (False, replicate 200 0, undefined_behaviour (adv 12 0 x))"
    using body op
    by (simp add: xdr_opaque_def xdr_std_recv_bytes_def adv_def)
  then show ?thesis
    using disc len
    by (simp add: xdr_rpc_loc_event_payload_u_type_def zero_rpc_loc_event_payload_u_type_def
        xdr_member_def xdr_switch_def xdr_rpc_loc_event_payload_u_type_switch_def xdr_arm_def
        loc_consts xdr_rpc_loc_nmea_report_s_type_def zero_rpc_loc_nmea_report_s_type_def
        undefined_behaviour_def)
qed

definition nmea_packet :: XDR where
  "nmea_packet = zero_packet\<lparr>in_msg := (\<lambda>_. 0)(15 := 8), in_len := 1220\<rparr>"

theorem nmea_report_overruns_witness:
  "\<exists>v y. xdr_rpc_loc_event_payload_u_type zero_rpc_loc_event_payload_u_type nmea_packet
    = (False, v, y) \<and> fault y"
proof (rule nmea_report_overruns)
  show "ready_in nmea_packet" "in_next nmea_packet + 12 + 1200 \<le> in_len nmea_packet"
    by (simp_all add: nmea_packet_def zero_packet_def calloc_xdr_def ready_in_def
        RPCROUTER_MSGSIZE_MAX_def)
  show "at_in (enc_u64 RPC_LOC_EVENT_NMEA_POSITION_REPORT @ enc_u16 0) nmea_packet"
    by (simp add: at_in_def nmea_packet_def zero_packet_def calloc_xdr_def enc_u64_def enc_u16_def
        loc_consts be32_def hi32_def lo32_def load_bytes_numeral)
qed

text \<open>
  The element count of a version list is unbounded, so its byte size wraps. For 0x40000001
  elements \<open>xdr_array\<close> allocates 4 bytes and writes past them at the second element.
\<close>

theorem version_count_wraps:
  assumes x: "ready_in x" "all_mallocs x" and head: "at_in (be32 0x40000001 @ be32 a) x"
  shows "\<exists>v y. xdr_rpc_loc_api_api_versions_return_type null_counted x = (False, v, y) \<and> fault y"
proof -
  let ?x = "adv 4 1 x"
  have at: "at_in (be32 0x40000001) x" "at_in (be32 a) ?x"
    using head at_in_append [OF x(1), of "be32 0x40000001" "be32 a" 1] by simp_all
  have r4: "ready_in ?x"
    by (rule ready_in_adv [OF x(1)]) (use at_in_len [OF at(1)] in auto)
  have op: "x_op x = XDR_DECODE" using x by (simp add: ready_in_def)
  have count: "xdr_u_int 0 x = (True, 0x40000001, adv 4 0 x)"
    using recv_word [OF at(1) x(1)] op by (simp add: xdr_u_int_def)
  have alloc: "mem_alloc 4 (adv 4 0 x) = (True, ?x)"
    using x(2) by (simp add: mem_alloc_def all_mallocs_def adv_def)
  have first: "xdr_rpc_uint32 0 ?x = (True, a, adv 4 0 ?x)"
    using recv_word [OF at(2) r4] op by (simp add: xdr_rpc_uint32_def xdr_u_long_def)
  have second: "xdr_elems xdr_rpc_uint32 (Suc (Suc k)) [0] ?x
      = (False, [a], undefined_behaviour (adv 4 0 ?x))" for k
    using first by simp
  have "xdr_elems xdr_rpc_uint32 0x40000001 [0] ?x
      = (False, [a], undefined_behaviour (adv 4 0 ?x))"
    using second [of "0x3FFFFFFF"] by (simp del: xdr_elems.simps)
  then have "xdr_array_elems 0x40000001 xdr_rpc_uint32 [0] \<lparr>len = 0x40000001, val = None\<rparr> ?x
      = (False, \<lparr>len = 0x40000001, val = Some [a]\<rparr>, undefined_behaviour (adv 4 0 ?x))"
    using op by (simp add: xdr_array_elems_def undefined_behaviour_def del: xdr_elems.simps)
  then show ?thesis
    using count alloc op
    by (simp add: xdr_rpc_loc_api_api_versions_return_type_def xdr_array_def xdr_array_rest_def
        null_counted_def undefined_behaviour_def)
qed

definition version_packet :: XDR where
  "version_packet = receiver\<lparr>in_msg := (\<lambda>_. 0)(8 := 0x40, 11 := 1), in_next := 8, in_len := 16\<rparr>"

theorem version_count_wraps_witness:
  "\<exists>v y. xdr_rpc_loc_api_api_versions_return_type null_counted version_packet = (False, v, y)
    \<and> fault y"
proof (rule version_count_wraps)
  show "ready_in version_packet" "all_mallocs version_packet"
    by (simp_all add: version_packet_def receiver_def calloc_xdr_def ready_in_def all_mallocs_def
        RPCROUTER_MSGSIZE_MAX_def)
  show "at_in (be32 0x40000001 @ be32 0) version_packet"
    by (simp add: at_in_def version_packet_def receiver_def calloc_xdr_def be32_def load_bytes_numeral)
qed

end
