(* ===== verification/SyncCall.thy ===== *)
theory SyncCall
  imports LocApiXdr
begin

text \<open>
  Synchronous ioctl calls, libloc_api-rpc/src/loc_api_sync_call.c: eight slots in which callers
  wait for the event that answers their request. \<open>loc_api_select_callback\<close> books a slot before the
  request is sent, \<open>loc_api_callback_process_sync_call\<close> hands an event to the first slot that waits
  for it, and \<open>loc_api_wait_callback\<close> collects it. A function that would dereference a null payload,
  or read the ioctl report of a payload of another kind, returns None.

  What other threads do while a caller waits on a condition variable is an argument.
\<close>

section \<open>Data\<close>

definition RPC_LOC_API_SUCCESS :: int where "RPC_LOC_API_SUCCESS = 0"
definition RPC_LOC_API_INVALID_PARAMETER :: int where "RPC_LOC_API_INVALID_PARAMETER = 5"
definition RPC_LOC_API_ENGINE_BUSY :: int where "RPC_LOC_API_ENGINE_BUSY = 6"
definition RPC_LOC_API_TIMEOUT :: int where "RPC_LOC_API_TIMEOUT = 8"

lemmas loc_api_codes = RPC_LOC_API_SUCCESS_def RPC_LOC_API_INVALID_PARAMETER_def
  RPC_LOC_API_ENGINE_BUSY_def RPC_LOC_API_TIMEOUT_def

definition LOC_SYNC_CALL_BUFFER_SIZE :: nat where "LOC_SYNC_CALL_BUFFER_SIZE = 8"

record loc_sync_call_data =
  slot_handle :: u32
  is_selected :: bool
  is_waiting :: bool
  has_arrived :: bool
  wait_event_mask :: u64
  slot_ioctl_type :: u32
  received_payload :: rpc_loc_event_payload_u_type
  received_event_mask :: u64

record loc_sync_data =
  in_use :: bool
  slot_in_use :: "bool list"
  slots :: "loc_sync_call_data list"

definition init_slot :: "loc_sync_call_data \<Rightarrow> loc_sync_call_data" where
  "init_slot s = s\<lparr>slot_handle := -1, is_selected := False, is_waiting := False, has_arrived := False,
     wait_event_mask := 0, received_event_mask := 0\<rparr>"

definition loc_api_sync_call_init :: "loc_sync_data \<Rightarrow> loc_sync_data" where
  "loc_api_sync_call_init d = d\<lparr>in_use := False,
     slot_in_use := replicate LOC_SYNC_CALL_BUFFER_SIZE False, slots := map init_slot (slots d)\<rparr>"

section \<open>Matching and delivering events\<close>

definition payload_ioctl :: "rpc_loc_event_payload_u_type option \<Rightarrow> rpc_loc_ioctl_callback_s_type option" where
  "payload_ioctl p = (case p of None \<Rightarrow> None
     | Some v \<Rightarrow> (case arm v of event_payload_ioctl_report r \<Rightarrow> Some r | _ \<Rightarrow> None))"

definition loc_match_callback ::
    "u64 \<Rightarrow> u32 \<Rightarrow> u64 \<Rightarrow> rpc_loc_event_payload_u_type option \<Rightarrow> bool option" where
  "loc_match_callback wait_mask wait_ioctl event_mask pl =
     (if event_mask AND wait_mask = 0 then Some False
      else if event_mask \<noteq> RPC_LOC_EVENT_IOCTL_REPORT \<or> wait_ioctl = 0 then Some True
      else case payload_ioctl pl of None \<Rightarrow> None | Some r \<Rightarrow> Some (kind r = wait_ioctl))"

text \<open>One slot and one event: None for a crash, otherwise whether the slot consumed it.\<close>

definition deliver_slot ::
    "u32 \<Rightarrow> u64 \<Rightarrow> rpc_loc_event_payload_u_type option \<Rightarrow> bool \<Rightarrow> loc_sync_call_data
      \<Rightarrow> (bool \<times> loc_sync_call_data) option" where
  "deliver_slot h ev pl used slot =
     (if \<not> used \<or> slot_handle slot \<noteq> h then Some (False, slot)
      else case loc_match_callback (wait_event_mask slot) (slot_ioctl_type slot) ev pl of
        None \<Rightarrow> None
      | Some False \<Rightarrow> Some (False, slot)
      | Some True \<Rightarrow>
          if has_arrived slot then Some (False, slot)
          else (case pl of None \<Rightarrow> None
            | Some p \<Rightarrow>
                let s1 = slot\<lparr>received_payload := p\<rparr> in
                Some (True, if is_waiting s1 then s1\<lparr>received_event_mask := ev\<rparr>
                            else s1\<lparr>has_arrived := True\<rparr>)))"

text \<open>The loop over the slots stops at the first that consumes; it returns the used flags it saw.\<close>

fun deliver_loop ::
    "u32 \<Rightarrow> u64 \<Rightarrow> rpc_loc_event_payload_u_type option \<Rightarrow> bool list \<Rightarrow> loc_sync_call_data list
      \<Rightarrow> (bool \<times> loc_sync_call_data list) option" where
  "deliver_loop h ev pl (u # us) (s # ss) =
     (case deliver_slot h ev pl u s of
        None \<Rightarrow> None
      | Some (True, s1) \<Rightarrow> Some (True, s1 # ss)
      | Some (False, s1) \<Rightarrow>
          (case deliver_loop h ev pl us ss of
             None \<Rightarrow> None
           | Some (in_use1, ss1) \<Rightarrow> Some (u \<or> in_use1, s1 # ss1)))"
| "deliver_loop h ev pl _ ss = Some (False, ss)"

definition loc_api_callback_process_sync_call ::
    "u32 \<Rightarrow> u64 \<Rightarrow> rpc_loc_event_payload_u_type option \<Rightarrow> loc_sync_data \<Rightarrow> loc_sync_data option" where
  "loc_api_callback_process_sync_call h ev pl d =
     (if \<not> in_use d then Some d
      else case deliver_loop h ev pl (slot_in_use d) (slots d) of
        None \<Rightarrow> None
      | Some (used, ss) \<Rightarrow> Some (d\<lparr>slots := ss, in_use := (if used then in_use d else False)\<rparr>))"

section \<open>Booking slots\<close>

definition loc_alloc_slot :: "loc_sync_data \<Rightarrow> int \<times> loc_sync_data" where
  "loc_alloc_slot d =
     (case find_index Not (slot_in_use d) of
        None \<Rightarrow> (-1, d)
      | Some i \<Rightarrow> (int i, d\<lparr>slot_in_use := (slot_in_use d)[i := True], in_use := True\<rparr>))"

definition loc_free_slot :: "nat \<Rightarrow> loc_sync_data \<Rightarrow> loc_sync_data" where
  "loc_free_slot i d =
     (let d1 = d\<lparr>slot_in_use := (slot_in_use d)[i := False]\<rparr>
      in if True \<in> set (slot_in_use d1) then d1 else d1\<lparr>in_use := False\<rparr>)"

definition loc_api_select_callback :: "u32 \<Rightarrow> u64 \<Rightarrow> u32 \<Rightarrow> loc_sync_data \<Rightarrow> int \<times> loc_sync_data" where
  "loc_api_select_callback h event_mask ioctl d =
     (case loc_alloc_slot d of (select_id, d1) \<Rightarrow>
        if select_id < 0 then (-1, d1)
        else let i = nat select_id;
                 slot = slots d1 ! i;
                 slot1 = slot\<lparr>slot_handle := h, is_selected := True, is_waiting := False,
                   has_arrived := False,
                   wait_event_mask := (if ioctl \<noteq> 0 then event_mask OR RPC_LOC_EVENT_IOCTL_REPORT
                                       else event_mask),
                   slot_ioctl_type := ioctl\<rparr>
             in (select_id, d1\<lparr>slots := (slots d1)[i := slot1]\<rparr>))"

section \<open>Waiting\<close>

text \<open>
  \<open>timedwait secs d\<close> is the condition wait of \<open>secs\<close> seconds: whether it timed out, and the state
  the other threads left. The collected payload is returned (the user's buffers are filled from
  it), None when nothing was collected.
\<close>

definition loc_api_wait_callback ::
    "(int \<Rightarrow> loc_sync_data \<Rightarrow> bool \<times> loc_sync_data) \<Rightarrow> int \<Rightarrow> int \<Rightarrow> loc_sync_data
      \<Rightarrow> int \<times> rpc_loc_event_payload_u_type option \<times> loc_sync_data" where
  "loc_api_wait_callback timedwait select_id timeout_seconds d =
     (if select_id < 0 \<or> select_id \<ge> int LOC_SYNC_CALL_BUFFER_SIZE \<or> \<not> slot_in_use d ! nat select_id
      then (RPC_LOC_API_INVALID_PARAMETER, None, d)
      else let i = nat select_id; slot = slots d ! i in
        if has_arrived slot
        then (RPC_LOC_API_SUCCESS, Some (received_payload slot), loc_free_slot i d)
        else if is_waiting slot then (RPC_LOC_API_ENGINE_BUSY, None, loc_free_slot i d)
        else case timedwait timeout_seconds (d\<lparr>slots := (slots d)[i := slot\<lparr>is_waiting := True\<rparr>]\<rparr>) of
          (timed_out, d1) \<Rightarrow>
            let slot1 = slots d1 ! i;
                d2 = d1\<lparr>slots := (slots d1)[i := slot1\<lparr>is_waiting := False\<rparr>]\<rparr>
            in if timed_out then (RPC_LOC_API_TIMEOUT, None, loc_free_slot i d2)
               else (RPC_LOC_API_SUCCESS, Some (received_payload slot1), loc_free_slot i d2))"

text \<open>
  The request is repeated while the engine is busy. \<open>ioctl n\<close> is the result of the \<open>n\<close>-th attempt,
  \<open>other n\<close> what the other threads do in the wait after it. The loop need not end: None.
\<close>

partial_function (option) ioctl_loop ::
    "(nat \<Rightarrow> int) \<Rightarrow> (nat \<Rightarrow> loc_sync_data \<Rightarrow> loc_sync_data) \<Rightarrow> nat \<Rightarrow> loc_sync_data
      \<Rightarrow> (int \<times> loc_sync_data) option" where
  "ioctl_loop ioctl other n d =
     (if ioctl n = RPC_LOC_API_ENGINE_BUSY then ioctl_loop ioctl other (Suc n) (other n d)
      else Some (ioctl n, d))"

text \<open>
  The result is the return code and the report copied to \<open>cb_data_ptr\<close>; when the payload is of
  another kind the source copies unrelated bytes, here no report and the code of the wait. None
  means that the call does not return.
\<close>

definition loc_api_sync_ioctl ::
    "(nat \<Rightarrow> int) \<Rightarrow> (nat \<Rightarrow> loc_sync_data \<Rightarrow> loc_sync_data)
      \<Rightarrow> (int \<Rightarrow> loc_sync_data \<Rightarrow> bool \<times> loc_sync_data) \<Rightarrow> u32 \<Rightarrow> u32 \<Rightarrow> u32 \<Rightarrow> loc_sync_data
      \<Rightarrow> (int \<times> rpc_loc_ioctl_callback_s_type option \<times> loc_sync_data) option" where
  "loc_api_sync_ioctl ioctl other timedwait h kd timeout_msec d =
     (case loc_api_select_callback h 0 kd d of (select_id, d1) \<Rightarrow>
        if select_id < 0 then Some (RPC_LOC_API_ENGINE_BUSY, None, d1)
        else case ioctl_loop ioctl other 0 d1 of
          None \<Rightarrow> None
        | Some (rc, d2) \<Rightarrow>
            if rc \<noteq> RPC_LOC_API_SUCCESS then Some (rc, None, loc_free_slot (nat select_id) d2)
            else case loc_api_wait_callback timedwait select_id (uint (timeout_msec div 1000)) d2 of
              (rc1, pl, d3) \<Rightarrow>
                if rc1 \<noteq> 0 then Some (rc1, None, d3)
                else case payload_ioctl pl of
                  None \<Rightarrow> Some (rc1, None, d3)
                | Some r \<Rightarrow> Some (if uint (status r) \<noteq> RPC_LOC_API_SUCCESS then sint (status r) else rc1,
                                Some r, d3))"

section \<open>The slot table is consistent\<close>

text \<open>
  \<open>in_use\<close> is a summary of the eight flags: the event handler returns at once when it is off, so
  it must be on whenever a slot is booked.
\<close>

definition wf_sync :: "loc_sync_data \<Rightarrow> bool" where
  "wf_sync d \<longleftrightarrow> length (slot_in_use d) = LOC_SYNC_CALL_BUFFER_SIZE
     \<and> length (slots d) = LOC_SYNC_CALL_BUFFER_SIZE \<and> in_use d = (True \<in> set (slot_in_use d))"

lemma deliver_loop_length:
  "deliver_loop h ev pl us ss = Some (used, ss') \<Longrightarrow> length ss' = length ss"
  by (induction us ss arbitrary: used ss' rule: deliver_loop.induct[where ?a0.0 = h and ?a1.0 = ev and ?a2.0 = pl])
    (auto split: option.splits bool.splits prod.splits)

lemma deliver_slot_used: "deliver_slot h ev pl u s = Some (True, s') \<Longrightarrow> u"
  by (auto simp: deliver_slot_def split: if_splits)

lemma deliver_loop_used:
  "deliver_loop h ev pl us ss = Some (used, ss') \<Longrightarrow> length us = length ss \<Longrightarrow> used = (True \<in> set us)"
  by (induction us ss arbitrary: used ss' rule: list_induct2')
    (fastforce split: option.splits bool.splits prod.splits dest: deliver_slot_used)+

lemma init_wf: "length (slots d) = LOC_SYNC_CALL_BUFFER_SIZE \<Longrightarrow> wf_sync (loc_api_sync_call_init d)"
  by (simp add: wf_sync_def loc_api_sync_call_init_def)

lemma alloc_wf: "wf_sync d \<Longrightarrow> loc_alloc_slot d = (i, d') \<Longrightarrow> wf_sync d'"
  by (auto simp: wf_sync_def loc_alloc_slot_def find_index_Some set_update_memI split: option.splits)

lemma free_wf: "wf_sync d \<Longrightarrow> wf_sync (loc_free_slot i d)"
proof -
  assume d: "wf_sync d"
  have "True \<in> set ((slot_in_use d)[i := False]) \<Longrightarrow> in_use d"
    using d set_update_subset_insert [of "slot_in_use d" i False] by (auto simp: wf_sync_def)
  then show ?thesis using d by (auto simp: wf_sync_def loc_free_slot_def Let_def)
qed

lemma process_wf:
  assumes "wf_sync d" "loc_api_callback_process_sync_call h ev pl d = Some d'"
  shows "wf_sync d'" and "slot_in_use d' = slot_in_use d"
  using assms deliver_loop_length deliver_loop_used
  by (auto simp: wf_sync_def loc_api_callback_process_sync_call_def split: if_splits option.splits)

lemma select_wf: "wf_sync d \<Longrightarrow> loc_api_select_callback h m k d = (i, d') \<Longrightarrow> wf_sync d'"
  using alloc_wf [of d]
  by (auto simp: loc_api_select_callback_def wf_sync_def Let_def split: prod.splits if_splits)

lemma wait_wf:
  assumes "wf_sync d" "\<And>secs e. wf_sync e \<Longrightarrow> wf_sync (snd (tw secs e))"
    and "loc_api_wait_callback tw i secs d = (rc, pl, d')"
  shows "wf_sync d'"
proof -
  have up: "wf_sync (e\<lparr>slots := (slots e)[n := s]\<rparr>)" if "wf_sync e" for e n s
    using that by (simp add: wf_sync_def)
  show ?thesis
    using assms(1,3) assms(2) [OF up [OF assms(1)], of secs "nat i" "(slots d ! nat i)\<lparr>is_waiting := True\<rparr>"] up free_wf
    by (auto simp: loc_api_wait_callback_def Let_def split: if_splits prod.splits)
qed

text \<open>States that the module's operations reach, in any order and on any threads.\<close>

inductive reachable_sync :: "loc_sync_data \<Rightarrow> bool" where
  init: "length (slots d) = LOC_SYNC_CALL_BUFFER_SIZE \<Longrightarrow> reachable_sync (loc_api_sync_call_init d)"
| select: "reachable_sync d \<Longrightarrow> loc_api_select_callback h m k d = (i, d') \<Longrightarrow> reachable_sync d'"
| event: "reachable_sync d \<Longrightarrow> loc_api_callback_process_sync_call h ev pl d = Some d' \<Longrightarrow> reachable_sync d'"
| wait: "reachable_sync d \<Longrightarrow> (\<And>secs e. wf_sync e \<Longrightarrow> wf_sync (snd (tw secs e)))
    \<Longrightarrow> loc_api_wait_callback tw j secs d = (rc, pl, d') \<Longrightarrow> reachable_sync d'"
| free: "reachable_sync d \<Longrightarrow> reachable_sync (loc_free_slot n d)"

text \<open>
  C10: no event is missed because of the summary flag. In every reachable state of the module the
  table has its eight slots and \<open>in_use\<close> is on exactly when a slot is booked, so an event handler
  that returns early could not have delivered the event to anybody.
\<close>

theorem sync_in_use_exact: "reachable_sync d \<Longrightarrow> wf_sync d"
proof (induction rule: reachable_sync.induct)
  case (init d)
  then show ?case by (rule init_wf)
next
  case (select d h m k i d')
  then show ?case using select_wf by blast
next
  case (event d h ev pl d')
  then show ?case using process_wf(1) by blast
next
  case (wait d tw j secs rc pl d')
  then show ?case using wait_wf by blast
next
  case (free d n)
  then show ?case using free_wf by blast
qed

definition blank_slot :: loc_sync_call_data where
  "blank_slot = \<lparr>slot_handle = 0, is_selected = False, is_waiting = False, has_arrived = False,
     wait_event_mask = 0, slot_ioctl_type = 0, received_payload = zero_rpc_loc_event_payload_u_type,
     received_event_mask = 0\<rparr>"

definition fresh_sync :: loc_sync_data where
  "fresh_sync = loc_api_sync_call_init \<lparr>in_use = False, slot_in_use = [], slots = replicate 8 blank_slot\<rparr>"

theorem sync_in_use_exact_witness: "in_use (snd (loc_api_select_callback 1 0 7 fresh_sync))"
proof -
  have "reachable_sync fresh_sync"
    unfolding fresh_sync_def by (rule reachable_sync.init) (simp add: LOC_SYNC_CALL_BUFFER_SIZE_def)
  moreover obtain i d where d: "loc_api_select_callback 1 0 7 fresh_sync = (i, d)"
    by (cases "loc_api_select_callback 1 0 7 fresh_sync")
  ultimately have "wf_sync d" using sync_in_use_exact [OF reachable_sync.select] by blast
  moreover have "True \<in> set (slot_in_use d)"
    using d by (auto simp: loc_api_select_callback_def loc_alloc_slot_def fresh_sync_def
        loc_api_sync_call_init_def LOC_SYNC_CALL_BUFFER_SIZE_def numeral_eq_Suc Let_def)
  ultimately show ?thesis using d by (simp add: wf_sync_def)
qed

section \<open>Delivery\<close>

definition awaits :: "u32 \<Rightarrow> u64 \<Rightarrow> rpc_loc_event_payload_u_type \<Rightarrow> loc_sync_call_data \<Rightarrow> bool" where
  "awaits h ev p s \<longleftrightarrow> slot_handle s = h
     \<and> loc_match_callback (wait_event_mask s) (slot_ioctl_type s) ev (Some p) = Some True \<and> \<not> has_arrived s"

definition with_event :: "u64 \<Rightarrow> rpc_loc_event_payload_u_type \<Rightarrow> loc_sync_call_data \<Rightarrow> loc_sync_call_data" where
  "with_event ev p s = (if is_waiting s then s\<lparr>received_payload := p, received_event_mask := ev\<rparr>
     else s\<lparr>received_payload := p, has_arrived := True\<rparr>)"

definition passes :: "u32 \<Rightarrow> u64 \<Rightarrow> rpc_loc_event_payload_u_type \<Rightarrow> bool \<Rightarrow> loc_sync_call_data \<Rightarrow> bool" where
  "passes h ev p u s \<longleftrightarrow> deliver_slot h ev (Some p) u s = Some (False, s)"

lemma deliver_awaits: "u \<Longrightarrow> awaits h ev p s \<Longrightarrow> deliver_slot h ev (Some p) u s = Some (True, with_event ev p s)"
  by (simp add: awaits_def deliver_slot_def with_event_def Let_def)

lemma deliver_loop_at:
  "length us = length ss \<Longrightarrow> i < length us \<Longrightarrow> us ! i \<Longrightarrow> awaits h ev p (ss ! i)
    \<Longrightarrow> (\<And>k. k < i \<Longrightarrow> passes h ev p (us ! k) (ss ! k))
    \<Longrightarrow> deliver_loop h ev (Some p) us ss = Some (True, ss[i := with_event ev p (ss ! i)])"
proof (induction us ss arbitrary: i rule: list_induct2')
  case (4 u us s ss)
  show ?case
  proof (cases i)
    case 0
    then show ?thesis using 4 by (simp add: deliver_awaits)
  next
    case (Suc j)
    have "passes h ev p u s" using "4.prems"(5) [of 0] Suc by simp
    moreover have "passes h ev p (us ! k) (ss ! k)" if "k < j" for k
      using "4.prems"(5) [of "Suc k"] that Suc by simp
    then have "deliver_loop h ev (Some p) us ss = Some (True, ss[j := with_event ev p (ss ! j)])"
      using "4.prems" Suc by (intro "4.IH") auto
    ultimately show ?thesis using Suc by (simp add: passes_def)
  qed
qed simp_all

lemma process_at:
  assumes d: "wf_sync d" "i < LOC_SYNC_CALL_BUFFER_SIZE" "slot_in_use d ! i" "awaits h ev p (slots d ! i)"
    and before: "\<And>k. k < i \<Longrightarrow> passes h ev p (slot_in_use d ! k) (slots d ! k)"
  shows "loc_api_callback_process_sync_call h ev (Some p) d
    = Some (d\<lparr>slots := (slots d)[i := with_event ev p (slots d ! i)]\<rparr>)"
proof -
  have "True \<in> set (slot_in_use d)" using d(1-3) by (metis nth_mem wf_sync_def)
  then show ?thesis
    using d deliver_loop_at [of "slot_in_use d" "slots d" i h ev p] before
    by (simp add: loc_api_callback_process_sync_call_def wf_sync_def)
qed

text \<open>
  An event that arrives before the wait is not lost. Once a slot is booked, a matching event
  that no earlier slot takes is kept in it, and \<open>loc_api_wait_callback\<close> then returns it at once,
  without waiting, and frees the slot.
\<close>

theorem early_event_is_collected:
  assumes "wf_sync d" and "i < LOC_SYNC_CALL_BUFFER_SIZE" and "slot_in_use d ! i"
    and "awaits h ev p (slots d ! i)" and "\<not> is_waiting (slots d ! i)"
    and "\<And>k. k < i \<Longrightarrow> passes h ev p (slot_in_use d ! k) (slots d ! k)"
  shows "\<exists>d1 d2. loc_api_callback_process_sync_call h ev (Some p) d = Some d1
    \<and> loc_api_wait_callback timedwait (int i) secs d1 = (RPC_LOC_API_SUCCESS, Some p, d2)
    \<and> \<not> slot_in_use d2 ! i"
proof -
  note run = process_at [OF assms(1-4) assms(6)]
  have len: "i < length (slots d)" "i < length (slot_in_use d)"
    using assms(1,2) by (simp_all add: wf_sync_def)
  let ?d1 = "d\<lparr>slots := (slots d)[i := with_event ev p (slots d ! i)]\<rparr>"
  have "loc_api_wait_callback timedwait (int i) secs ?d1 = (RPC_LOC_API_SUCCESS, Some p, loc_free_slot i ?d1)"
    using assms(2,3,5) len by (simp add: loc_api_wait_callback_def with_event_def Let_def)
  moreover have "\<not> slot_in_use (loc_free_slot i ?d1) ! i"
    using len by (simp add: loc_free_slot_def Let_def)
  ultimately show ?thesis using run by blast
qed

definition lock_report :: rpc_loc_event_payload_u_type where
  "lock_report = \<lparr>disc = RPC_LOC_EVENT_IOCTL_REPORT,
     arm = event_payload_ioctl_report (zero_rpc_loc_ioctl_callback_s_type\<lparr>kind := 7\<rparr>)\<rparr>"

definition booked_sync :: loc_sync_data where
  "booked_sync = snd (loc_api_select_callback 1 0 7 fresh_sync)"

lemma booked_sync:
  "wf_sync booked_sync" "slot_in_use booked_sync = [True, False, False, False, False, False, False, False]"
  "slots booked_sync ! 0 = (init_slot blank_slot)\<lparr>slot_handle := 1, is_selected := True,
     wait_event_mask := RPC_LOC_EVENT_IOCTL_REPORT, slot_ioctl_type := 7\<rparr>"
proof -
  have "(7 :: u32) \<noteq> 0" by simp
  then show "wf_sync booked_sync" "slot_in_use booked_sync = [True, False, False, False, False, False, False, False]"
    "slots booked_sync ! 0 = (init_slot blank_slot)\<lparr>slot_handle := 1, is_selected := True,
     wait_event_mask := RPC_LOC_EVENT_IOCTL_REPORT, slot_ioctl_type := 7\<rparr>"
    by (simp_all add: booked_sync_def loc_api_select_callback_def loc_alloc_slot_def fresh_sync_def wf_sync_def
      loc_api_sync_call_init_def LOC_SYNC_CALL_BUFFER_SIZE_def eval_nat_numeral Let_def init_slot_def)
qed

lemma booked_awaits: "awaits 1 RPC_LOC_EVENT_IOCTL_REPORT lock_report (slots booked_sync ! 0)"
  by (simp add: awaits_def booked_sync init_slot_def loc_match_callback_def payload_ioctl_def
      lock_report_def RPC_LOC_EVENT_IOCTL_REPORT_def blank_slot_def)

theorem early_event_is_collected_witness:
  "\<exists>d1 d2. loc_api_callback_process_sync_call 1 RPC_LOC_EVENT_IOCTL_REPORT (Some lock_report) booked_sync = Some d1
    \<and> loc_api_wait_callback (\<lambda>_ d. (True, d)) 0 5 d1 = (RPC_LOC_API_SUCCESS, Some lock_report, d2)
    \<and> slot_in_use d2 ! 0 = False"
proof -
  have "0 < LOC_SYNC_CALL_BUFFER_SIZE" "slot_in_use booked_sync ! 0" "\<not> is_waiting (slots booked_sync ! 0)"
    by (simp_all add: LOC_SYNC_CALL_BUFFER_SIZE_def booked_sync init_slot_def)
  from early_event_is_collected [OF booked_sync(1) this(1,2) booked_awaits this(3), of "\<lambda>_ d. (True, d)" 5]
  show ?thesis by simp
qed

text \<open>
  A waiting caller gets the last event, not the first. While the caller of a slot waits, a
  second matching event overwrites the first before the caller runs: both are delivered to the
  slot, and what the caller collects is the second one.
\<close>

theorem waiting_caller_gets_last_event:
  assumes "wf_sync d" and "i < LOC_SYNC_CALL_BUFFER_SIZE" and "slot_in_use d ! i"
    and "awaits h ev p (slots d ! i)" and "awaits h ev' q (slots d ! i)" and "\<not> is_waiting (slots d ! i)"
    and "\<And>k. k < i \<Longrightarrow> passes h ev p (slot_in_use d ! k) (slots d ! k)"
    and "\<And>k. k < i \<Longrightarrow> passes h ev' q (slot_in_use d ! k) (slots d ! k)"
    and "\<And>secs e. timedwait secs e = (False, the (loc_api_callback_process_sync_call h ev' (Some q)
           (the (loc_api_callback_process_sync_call h ev (Some p) e))))"
  shows "\<exists>d2. loc_api_wait_callback timedwait (int i) secs d = (RPC_LOC_API_SUCCESS, Some q, d2)"
proof -
  have len: "i < length (slots d)" "i < length (slot_in_use d)"
    using assms(1,2) by (simp_all add: wf_sync_def)
  let ?s = "(slots d ! i)\<lparr>is_waiting := True\<rparr>"
  let ?e = "d\<lparr>slots := (slots d)[i := ?s]\<rparr>"
  have e: "wf_sync ?e" "slot_in_use ?e ! i" using assms(1,3) by (simp_all add: wf_sync_def)
  have aw: "awaits h ev p (slots ?e ! i)" "awaits h ev' q (slots ?e ! i)"
    using assms(4,5) len by (simp_all add: awaits_def)
  have p1: "loc_api_callback_process_sync_call h ev (Some p) ?e
      = Some (?e\<lparr>slots := (slots ?e)[i := with_event ev p (slots ?e ! i)]\<rparr>)"
    by (rule process_at [OF e(1) assms(2) e(2) aw(1)]) (use assms(7) in simp)
  let ?f = "?e\<lparr>slots := (slots ?e)[i := with_event ev p (slots ?e ! i)]\<rparr>"
  have f: "wf_sync ?f" "slot_in_use ?f ! i" using e by (simp_all add: wf_sync_def)
  have aw2: "awaits h ev' q (slots ?f ! i)"
    using aw(2) len by (simp add: awaits_def with_event_def)
  have p2: "loc_api_callback_process_sync_call h ev' (Some q) ?f
      = Some (?f\<lparr>slots := (slots ?f)[i := with_event ev' q (slots ?f ! i)]\<rparr>)"
    by (rule process_at [OF f(1) assms(2) f(2) aw2]) (use assms(8) in simp)
  have "\<not> has_arrived (slots d ! i)" using assms(4) by (simp add: awaits_def)
  then show ?thesis
    using assms(2,3,6) len p1 p2
    by (simp add: loc_api_wait_callback_def assms(9) Let_def with_event_def)
qed

theorem waiting_caller_gets_last_event_witness:
  "\<exists>d2. loc_api_wait_callback (\<lambda>secs e. (False,
      the (loc_api_callback_process_sync_call 1 RPC_LOC_EVENT_IOCTL_REPORT (Some (lock_report\<lparr>disc := 5\<rparr>))
        (the (loc_api_callback_process_sync_call 1 RPC_LOC_EVENT_IOCTL_REPORT (Some lock_report) e))))) 0 5
      booked_sync = (RPC_LOC_API_SUCCESS, Some (lock_report\<lparr>disc := 5\<rparr>), d2)"
proof -
  have s: "0 < LOC_SYNC_CALL_BUFFER_SIZE" "slot_in_use booked_sync ! 0" "\<not> is_waiting (slots booked_sync ! 0)"
    by (simp_all add: LOC_SYNC_CALL_BUFFER_SIZE_def booked_sync init_slot_def)
  have aw: "awaits 1 RPC_LOC_EVENT_IOCTL_REPORT (lock_report\<lparr>disc := 5\<rparr>) (slots booked_sync ! 0)"
    by (simp add: awaits_def booked_sync init_slot_def loc_match_callback_def payload_ioctl_def
        lock_report_def RPC_LOC_EVENT_IOCTL_REPORT_def blank_slot_def)
  show ?thesis
    using waiting_caller_gets_last_event [OF booked_sync(1) s(1,2) booked_awaits aw s(3),
        of "\<lambda>secs e. (False,
      the (loc_api_callback_process_sync_call 1 RPC_LOC_EVENT_IOCTL_REPORT (Some (lock_report\<lparr>disc := 5\<rparr>))
        (the (loc_api_callback_process_sync_call 1 RPC_LOC_EVENT_IOCTL_REPORT (Some lock_report) e))))" 5]
    by simp
qed

lemma deliver_unused:
  "deliver_loop h ev pl us ss = Some (b, ss') \<Longrightarrow> i < length us \<Longrightarrow> i < length ss \<Longrightarrow> \<not> us ! i
    \<Longrightarrow> ss' ! i = ss ! i"
proof (induction us ss arbitrary: i b ss' rule: list_induct2')
  case (4 u us s ss)
  then show ?case
  proof (cases i)
    case 0
    then show ?thesis using 4 by (auto simp: deliver_slot_def split: option.splits bool.splits prod.splits)
  next
    case (Suc j)
    then show ?thesis using 4 by (auto split: option.splits bool.splits prod.splits)
  qed
qed auto

text \<open>
  A second waiter takes the slot away. \<open>loc_api_wait_callback\<close> on a slot that somebody already
  waits in answers ENGINE_BUSY, as documented, but also frees the slot: no event reaches the first
  waiter any more, whatever its handle, mask and payload.
\<close>

theorem second_waiter_frees_slot:
  assumes "wf_sync d" and "i < LOC_SYNC_CALL_BUFFER_SIZE" and "slot_in_use d ! i"
    and "is_waiting (slots d ! i)" and "\<not> has_arrived (slots d ! i)"
    and "loc_api_wait_callback timedwait (int i) secs d = (rc, pl, d1)"
    and "loc_api_callback_process_sync_call h ev pl' d1 = Some d2"
  shows "rc = RPC_LOC_API_ENGINE_BUSY \<and> is_waiting (slots d1 ! i) \<and> slots d2 ! i = slots d1 ! i"
proof -
  have len: "i < length (slots d)" "i < length (slot_in_use d)"
    using assms(1,2) by (simp_all add: wf_sync_def)
  have d1: "rc = RPC_LOC_API_ENGINE_BUSY" "d1 = loc_free_slot i d"
    using assms(2-6) by (simp_all add: loc_api_wait_callback_def Let_def)
  then have "\<not> slot_in_use d1 ! i" "slots d1 = slots d" "length (slot_in_use d1) = length (slot_in_use d)"
    using len by (simp_all add: loc_free_slot_def Let_def)
  moreover from this have "slots d2 ! i = slots d1 ! i"
    using assms(7) len deliver_unused [of h ev pl' "slot_in_use d1" "slots d1" _ _ i]
    by (auto simp: loc_api_callback_process_sync_call_def split: if_splits option.splits)
  ultimately show ?thesis using d1(1) assms(4) by simp
qed

definition waiting_sync :: loc_sync_data where
  "waiting_sync = booked_sync\<lparr>slots := (slots booked_sync)[0 := (slots booked_sync ! 0)\<lparr>is_waiting := True\<rparr>]\<rparr>"

theorem second_waiter_frees_slot_witness:
  "\<exists>d1. loc_api_wait_callback (\<lambda>_ d. (True, d)) 0 5 waiting_sync = (RPC_LOC_API_ENGINE_BUSY, None, d1)
    \<and> (\<forall>d2. loc_api_callback_process_sync_call 1 RPC_LOC_EVENT_IOCTL_REPORT (Some lock_report) d1 = Some d2
         \<longrightarrow> slots d2 ! 0 = slots d1 ! 0)"
proof -
  have len: "0 < length (slots booked_sync)"
    using booked_sync(1) by (simp add: wf_sync_def LOC_SYNC_CALL_BUFFER_SIZE_def)
  have s: "wf_sync waiting_sync" "slot_in_use waiting_sync ! 0" "is_waiting (slots waiting_sync ! 0)"
    "\<not> has_arrived (slots waiting_sync ! 0)" "0 < LOC_SYNC_CALL_BUFFER_SIZE"
    using booked_sync len
    by (simp_all add: waiting_sync_def wf_sync_def init_slot_def LOC_SYNC_CALL_BUFFER_SIZE_def)
  obtain d1 where d1: "loc_api_wait_callback (\<lambda>_ d. (True, d)) (int 0) 5 waiting_sync
      = (RPC_LOC_API_ENGINE_BUSY, None, d1)"
    using s by (simp add: loc_api_wait_callback_def Let_def)
  show ?thesis using second_waiter_frees_slot [OF s(1,5,2-4) d1] d1 by auto
qed

section \<open>The synchronous call\<close>

lemma ioctl_loop_at:
  "ioctl (n + k) \<noteq> RPC_LOC_API_ENGINE_BUSY \<Longrightarrow> (\<And>j. j < k \<Longrightarrow> ioctl (n + j) = RPC_LOC_API_ENGINE_BUSY)
    \<Longrightarrow> \<exists>d'. ioctl_loop ioctl other n d = Some (ioctl (n + k), d')"
proof (induction k arbitrary: n d)
  case 0
  then show ?case by (simp add: ioctl_loop.simps)
next
  case (Suc k)
  have "ioctl n = RPC_LOC_API_ENGINE_BUSY" using Suc.prems(2) [of 0] by simp
  moreover have "\<exists>d'. ioctl_loop ioctl other (Suc n) (other n d) = Some (ioctl (Suc n + k), d')"
    using Suc.prems Suc.prems(2) [of "Suc _"] by (intro Suc.IH) auto
  ultimately show ?case by (simp add: ioctl_loop.simps [of ioctl other n])
qed

lemma ioctl_loop_result:
  assumes "ioctl_loop ioctl other n d = Some r"
  shows "fst r \<noteq> RPC_LOC_API_ENGINE_BUSY \<and> (\<exists>k. fst r = ioctl (n + k))"
proof (rule ioctl_loop.raw_induct [rotated 1, OF assms, where P = "\<lambda>ioctl other n d r.
    fst r \<noteq> RPC_LOC_API_ENGINE_BUSY \<and> (\<exists>k. fst r = ioctl (n + k))"])
  fix loop and ioctl :: "nat \<Rightarrow> int" and other :: "nat \<Rightarrow> loc_sync_data \<Rightarrow> loc_sync_data"
    and n :: nat and d :: loc_sync_data and y :: "int \<times> loc_sync_data"
  assume IH: "\<And>(ioctl :: nat \<Rightarrow> int) (other :: nat \<Rightarrow> loc_sync_data \<Rightarrow> loc_sync_data) (n :: nat) d y.
      loop ioctl other n d = Some y \<Longrightarrow> fst y \<noteq> RPC_LOC_API_ENGINE_BUSY \<and> (\<exists>k. fst y = ioctl (n + k))"
    and run: "(if ioctl n = RPC_LOC_API_ENGINE_BUSY then loop ioctl other (Suc n) (other n d)
      else Some (ioctl n, d)) = Some y"
  show "fst y \<noteq> RPC_LOC_API_ENGINE_BUSY \<and> (\<exists>k. fst y = ioctl (n + k))"
  proof (cases "ioctl n = RPC_LOC_API_ENGINE_BUSY")
    case True
    then obtain k where "fst y \<noteq> RPC_LOC_API_ENGINE_BUSY" "fst y = ioctl (Suc n + k)"
      using run IH [of ioctl other "Suc n" "other n d" y] by auto
    then show ?thesis by (intro conjI exI [of _ "Suc k"]) simp_all
  next
    case False
    then show ?thesis using run by (auto intro: exI [of _ 0])
  qed
qed

text \<open>
  The retry loop ends exactly when the engine stops being busy. The loop around \<open>loc_ioctl\<close>
  returns iff some attempt gives another code than ENGINE_BUSY, and then with the code of the first
  such attempt; there is no time limit on it.
\<close>

theorem retry_loop_returns_iff:
  "(\<exists>r. ioctl_loop ioctl other 0 d = Some r) \<longleftrightarrow> (\<exists>n. ioctl n \<noteq> RPC_LOC_API_ENGINE_BUSY)"
proof
  assume "\<exists>r. ioctl_loop ioctl other 0 d = Some r"
  then show "\<exists>n. ioctl n \<noteq> RPC_LOC_API_ENGINE_BUSY" using ioctl_loop_result by fastforce
next
  assume "\<exists>n. ioctl n \<noteq> RPC_LOC_API_ENGINE_BUSY"
  then obtain n where "ioctl n \<noteq> RPC_LOC_API_ENGINE_BUSY" "\<And>j. j < n \<Longrightarrow> ioctl j = RPC_LOC_API_ENGINE_BUSY"
    using exists_least_iff [of "\<lambda>n. ioctl n \<noteq> RPC_LOC_API_ENGINE_BUSY"] by auto
  then show "\<exists>r. ioctl_loop ioctl other 0 d = Some r" using ioctl_loop_at [of ioctl 0 n other d] by auto
qed

lemma alloc_slot_cases:
  assumes "wf_sync d"
  obtains "False \<notin> set (slot_in_use d)" "loc_alloc_slot d = (-1, d)"
  | i where "i < LOC_SYNC_CALL_BUFFER_SIZE" "\<not> slot_in_use d ! i"
      "loc_alloc_slot d = (int i, d\<lparr>slot_in_use := (slot_in_use d)[i := True], in_use := True\<rparr>)"
proof (cases "find_index Not (slot_in_use d)")
  case None
  then show ?thesis using that(1) find_index_None [of Not "slot_in_use d"] by (auto simp: loc_alloc_slot_def)
next
  case (Some i)
  then show ?thesis
    using that(2) [of i] assms find_index_Some [of Not "slot_in_use d" i]
    by (simp add: loc_alloc_slot_def wf_sync_def)
qed

lemma wait_frees:
  assumes "loc_api_wait_callback tw (int i) secs d = (rc, pl, d')" "i < LOC_SYNC_CALL_BUFFER_SIZE"
    and "slot_in_use d ! i" "\<And>e. slot_in_use (snd (tw secs e)) = slot_in_use e"
  shows "slot_in_use d' = (slot_in_use d)[i := False]"
proof -
  have free: "slot_in_use (loc_free_slot i e) = (slot_in_use e)[i := False]" for e
    by (simp add: loc_free_slot_def Let_def)
  have "slot_in_use d1 = slot_in_use e" if "tw secs e = (b, d1)" for e b d1
    using assms(4) [of e] that by simp
  then show ?thesis
    using assms(1-3) free by (fastforce simp: loc_api_wait_callback_def Let_def split: if_splits prod.splits)
qed

text \<open>
  The synchronous call never leaks its slot. If the other threads leave the booking flags as
  they are, then whenever \<open>loc_api_sync_ioctl\<close> returns, with whatever code, the same slots are
  booked as before it; when all eight were booked it answers ENGINE_BUSY without sending anything.
\<close>

theorem sync_ioctl_releases_slot:
  assumes "wf_sync d" and "\<And>n e. slot_in_use (other n e) = slot_in_use e"
    and "\<And>secs e. slot_in_use (snd (timedwait secs e)) = slot_in_use e"
    and "loc_api_sync_ioctl ioctl other timedwait h kd timeout_msec d = Some (rc, report, d')"
  shows "slot_in_use d' = slot_in_use d
    \<and> (False \<notin> set (slot_in_use d) \<longrightarrow> rc = RPC_LOC_API_ENGINE_BUSY \<and> d' = d)"
proof -
  have loop: "slot_in_use e' = slot_in_use e" if "ioctl_loop ioctl other n e = Some (r, e')" for n e r e'
  proof -
    have "slot_in_use (snd y) = slot_in_use e" if "ioctl_loop ioctl other n e = Some y" for y
      by (rule ioctl_loop.raw_induct [rotated 1, OF that, where P = "\<lambda>ioctl other n e y.
          (\<forall>n e. slot_in_use (other n e) = slot_in_use e) \<longrightarrow> slot_in_use (snd y) = slot_in_use e",
          THEN mp]) (use assms(2) in \<open>auto split: if_splits\<close>)
    then show ?thesis using that by fastforce
  qed
  from assms(1) show ?thesis
  proof (cases rule: alloc_slot_cases)
    case 1
    then show ?thesis
      using assms(4) by (simp add: loc_api_sync_ioctl_def loc_api_select_callback_def)
  next
    case (2 i)
    obtain d1 where sel: "loc_api_select_callback h 0 kd d = (int i, d1)"
        "slot_in_use d1 = (slot_in_use d)[i := True]"
      using 2 by (simp add: loc_api_select_callback_def Let_def)
    have i: "i < length (slot_in_use d)" using 2(1) assms(1) by (simp add: wf_sync_def)
    have undo: "((slot_in_use d)[i := True])[i := False] = slot_in_use d"
      using 2(2) i by (metis list_update_id list_update_overwrite)
    have full: "False \<in> set (slot_in_use d)" using 2(2) i nth_mem by metis
    obtain r d2 where l: "ioctl_loop ioctl other 0 d1 = Some (r, d2)"
      using assms(4) sel(1) by (auto simp: loc_api_sync_ioctl_def split: option.splits)
    have d2: "slot_in_use d2 = (slot_in_use d)[i := True]" using loop [OF l] sel(2) by simp
    show ?thesis
    proof (cases "r = RPC_LOC_API_SUCCESS")
      case True
      obtain rc1 pl d3 where w: "loc_api_wait_callback timedwait (int i) (uint (timeout_msec div 1000)) d2 = (rc1, pl, d3)"
        by (cases "loc_api_wait_callback timedwait (int i) (uint (timeout_msec div 1000)) d2")
      have "d' = d3"
        using assms(4) sel(1) l True w by (auto simp: loc_api_sync_ioctl_def split: if_splits option.splits)
      moreover have "slot_in_use d3 = (slot_in_use d2)[i := False]"
        by (rule wait_frees [OF w 2(1)]) (use d2 i assms(3) in simp_all)
      ultimately show ?thesis using d2 undo full by simp
    next
      case False
      then have "d' = loc_free_slot i d2"
        using assms(4) sel(1) l by (auto simp: loc_api_sync_ioctl_def)
      then show ?thesis using d2 undo full by (simp add: loc_free_slot_def Let_def)
    qed
  qed
qed

lemma fresh_wf: "wf_sync fresh_sync"
  unfolding fresh_sync_def by (rule init_wf) (simp add: LOC_SYNC_CALL_BUFFER_SIZE_def)

theorem sync_ioctl_releases_slot_witness:
  "\<exists>rc report d'. loc_api_sync_ioctl (\<lambda>n. if n = 0 then RPC_LOC_API_ENGINE_BUSY else RPC_LOC_API_SUCCESS)
      (\<lambda>_ e. e) (\<lambda>_ e. (True, e)) 1 7 5000 fresh_sync = Some (rc, report, d')
    \<and> slot_in_use d' = slot_in_use fresh_sync"
proof -
  let ?io = "\<lambda>n. if n = (0 :: nat) then RPC_LOC_API_ENGINE_BUSY else RPC_LOC_API_SUCCESS"
  have "\<exists>d2. ioctl_loop ?io (\<lambda>_ e. e) 0 e = Some (RPC_LOC_API_SUCCESS, d2)" for e
    using ioctl_loop_at [of ?io 0 1 "\<lambda>_ e. e" e] by (simp add: loc_api_codes)
  moreover have "\<not> fst (loc_api_select_callback 1 0 7 fresh_sync) < 0"
    by (simp add: loc_api_select_callback_def loc_alloc_slot_def fresh_sync_def
        loc_api_sync_call_init_def LOC_SYNC_CALL_BUFFER_SIZE_def eval_nat_numeral Let_def)
  ultimately have "\<exists>r. loc_api_sync_ioctl ?io (\<lambda>_ e. e) (\<lambda>_ e. (True, e)) 1 7 5000 fresh_sync = Some r"
    unfolding loc_api_sync_ioctl_def
    by (auto simp: case_prod_beta split: option.splits) (metis option.distinct(1))
  then obtain rc report d' where "loc_api_sync_ioctl ?io (\<lambda>_ e. e) (\<lambda>_ e. (True, e)) 1 7 5000 fresh_sync
      = Some (rc, report, d')" by auto
  moreover from sync_ioctl_releases_slot [OF fresh_wf _ _ this] have "slot_in_use d' = slot_in_use fresh_sync"
    by simp
  ultimately show ?thesis by blast
qed

text \<open>
  Timeouts below a second do not wait. The timeout in milliseconds is divided by 1000 before
  it reaches the condition wait; for less than a second the wait ends at once unless the event is
  already there.
\<close>

theorem short_timeout_is_zero:
  assumes "timeout_msec < 1000" and "\<And>e. timedwait 0 e = (True, e)"
    and "loc_api_select_callback h 0 kd d = (int i, d1)" and "i < LOC_SYNC_CALL_BUFFER_SIZE"
    and "ioctl 0 = RPC_LOC_API_SUCCESS" and "wf_sync d1" and "slot_in_use d1 ! i"
    and "\<not> has_arrived (slots d1 ! i)" and "\<not> is_waiting (slots d1 ! i)"
  shows "\<exists>d2. loc_api_sync_ioctl ioctl other timedwait h kd timeout_msec d = Some (RPC_LOC_API_TIMEOUT, None, d2)"
proof -
  have "timeout_msec div 1000 = 0"
    using assms(1) by (simp add: word_less_nat_alt word_arith_nat_div)
  then show ?thesis
    using assms(2-9)
    by (simp add: loc_api_sync_ioctl_def ioctl_loop.simps loc_api_codes loc_api_wait_callback_def Let_def)
qed

theorem short_timeout_is_zero_witness:
  "\<exists>d2. loc_api_sync_ioctl (\<lambda>_. RPC_LOC_API_SUCCESS) (\<lambda>_ e. e) (\<lambda>secs e. (True, e)) 1 7 999 fresh_sync
     = Some (RPC_LOC_API_TIMEOUT, None, d2)"
proof -
  have sel: "loc_api_select_callback 1 0 7 fresh_sync = (int 0, booked_sync)"
    by (simp add: booked_sync_def loc_api_select_callback_def loc_alloc_slot_def fresh_sync_def
        loc_api_sync_call_init_def LOC_SYNC_CALL_BUFFER_SIZE_def eval_nat_numeral Let_def)
  have s: "0 < LOC_SYNC_CALL_BUFFER_SIZE" "slot_in_use booked_sync ! 0"
    "\<not> has_arrived (slots booked_sync ! 0)" "\<not> is_waiting (slots booked_sync ! 0)" "(999 :: u32) < 1000"
    by (simp_all add: booked_sync init_slot_def LOC_SYNC_CALL_BUFFER_SIZE_def)
  show ?thesis
    by (rule short_timeout_is_zero [OF s(5) refl sel s(1) refl booked_sync(1) s(2,3,4)])
qed

end
