(* ===== verification/Rpc.thy ===== *)
theory Rpc
  imports XdrCompound
begin

text \<open>
  ONC RPC message headers: librpc/rpc.c (sending) and the receiving half of librpc/clnt.c. The
  unions of \<open>rpc_reply_header\<close> are shown with all their members side by side; which of them is
  meant is decided by the status fields, as in the code. \<open>reply_of\<close> is the abstract content of
  a header, \<open>enc_reply\<close> its bytes, and the two routines are shown to be inverse to each other.
\<close>

section \<open>Data of rpc/types.h\<close>

definition RPC_MSG_VERSION :: u32 where "RPC_MSG_VERSION = 2"

definition RPC_MSG_ACCEPTED :: u32 where "RPC_MSG_ACCEPTED = 0"
definition RPC_MSG_DENIED :: u32 where "RPC_MSG_DENIED = 1"

definition RPC_ACCEPT_SUCCESS :: u32 where "RPC_ACCEPT_SUCCESS = 0"
definition RPC_PROG_UNAVAIL :: u32 where "RPC_PROG_UNAVAIL = 1"
definition RPC_PROG_MISMATCH :: u32 where "RPC_PROG_MISMATCH = 2"
definition RPC_PROC_UNAVAIL :: u32 where "RPC_PROC_UNAVAIL = 3"
definition RPC_GARBAGE_ARGS :: u32 where "RPC_GARBAGE_ARGS = 4"
definition RPC_SYSTEM_ERR :: u32 where "RPC_SYSTEM_ERR = 5"
definition RPC_PROG_LOCKED :: u32 where "RPC_PROG_LOCKED = 6"

definition RPC_MISMATCH :: u32 where "RPC_MISMATCH = 0"
definition RPC_AUTH_ERROR :: u32 where "RPC_AUTH_ERROR = 1"

lemmas rpc_consts =
  RPC_MSG_CALL_def RPC_MSG_REPLY_def RPC_MSG_VERSION_def RPC_MSG_ACCEPTED_def RPC_MSG_DENIED_def
  RPC_ACCEPT_SUCCESS_def RPC_PROG_UNAVAIL_def RPC_PROG_MISMATCH_def RPC_PROC_UNAVAIL_def
  RPC_GARBAGE_ARGS_def RPC_SYSTEM_ERR_def RPC_PROG_LOCKED_def RPC_MISMATCH_def RPC_AUTH_ERROR_def

definition AUTH_NONE :: opaque_auth where
  "AUTH_NONE = \<lparr>oa_flavor = 0, oa_base = None, oa_length = 0\<rparr>"

record rpc_accepted_reply_header =
  ar_verf :: opaque_auth
  ar_stat :: u32
  ar_low :: u32
  ar_high :: u32

record rpc_denied_reply =
  dr_stat :: u32
  dr_low :: u32
  dr_high :: u32
  dr_why :: u32

record rpc_reply_header =
  rh_stat :: u32
  rh_ar :: rpc_accepted_reply_header
  rh_dr :: rpc_denied_reply

section \<open>Sending\<close>

text \<open>\<open>a && b && \<dots>\<close> over calls that take the handle.\<close>

fun xdr_and :: "(XDR \<Rightarrow> bool \<times> XDR) list \<Rightarrow> XDR \<Rightarrow> bool \<times> XDR" where
  "xdr_and [] x = (True, x)"
| "xdr_and (p # ps) x = (case p x of (ok, y) \<Rightarrow> if ok then xdr_and ps y else (False, y))"

definition xdr_send_auth :: "opaque_auth \<Rightarrow> XDR \<Rightarrow> bool \<times> XDR" where
  "xdr_send_auth auth = xdr_and
     [xdr_std_send_int32 (oa_flavor auth),
      xdr_std_send_uint32 (oa_length auth),
      \<lambda>x. if oa_length auth = 0 then (True, x)
           else xdr_std_send_bytes (case oa_base auth of None \<Rightarrow> [] | Some b \<Rightarrow> b) (oa_length auth) x]"

definition xdr_call_msg_start ::
    "u32 \<Rightarrow> u32 \<Rightarrow> u32 \<Rightarrow> opaque_auth \<Rightarrow> opaque_auth \<Rightarrow> XDR \<Rightarrow> bool \<times> XDR" where
  "xdr_call_msg_start prog ver proc cred vrf x = xdr_and
     [xdr_std_msg_start RPC_MSG_CALL,
      xdr_std_send_uint32 RPC_MSG_VERSION,
      xdr_std_send_uint32 prog,
      xdr_std_send_uint32 ver,
      xdr_std_send_uint32 proc,
      xdr_send_auth cred,
      xdr_send_auth vrf] (x\<lparr>x_prog := prog, x_proc := proc\<rparr>)"

definition xdr_reply_msg_start :: "opaque_auth \<Rightarrow> XDR \<Rightarrow> bool \<times> XDR" where
  "xdr_reply_msg_start vrf = xdr_and
     [xdr_std_msg_start RPC_MSG_REPLY,
      xdr_std_send_int32 RPC_MSG_ACCEPTED,
      xdr_send_auth vrf,
      xdr_std_send_int32 RPC_ACCEPT_SUCCESS]"

definition xdr_send_accepted_reply_header :: "rpc_accepted_reply_header \<Rightarrow> XDR \<Rightarrow> bool \<times> XDR" where
  "xdr_send_accepted_reply_header ar = xdr_and
     [xdr_send_auth (ar_verf ar),
      xdr_send_enum (ar_stat ar) 4,
      \<lambda>x. if ar_stat ar = RPC_PROG_MISMATCH
           then xdr_and [xdr_std_send_uint32 (ar_low ar), xdr_std_send_uint32 (ar_high ar)] x
           else if ar_stat ar \<in> {RPC_ACCEPT_SUCCESS, RPC_PROG_UNAVAIL, RPC_PROC_UNAVAIL,
               RPC_GARBAGE_ARGS, RPC_SYSTEM_ERR, RPC_PROG_LOCKED} then (True, x)
           else (False, x)]"

definition xdr_send_denied_reply :: "rpc_denied_reply \<Rightarrow> XDR \<Rightarrow> bool \<times> XDR" where
  "xdr_send_denied_reply dr = xdr_and
     [xdr_send_enum (dr_stat dr) 4,
      \<lambda>x. if dr_stat dr = RPC_MISMATCH
           then xdr_and [xdr_std_send_uint32 (dr_low dr), xdr_std_send_uint32 (dr_high dr)] x
           else if dr_stat dr = RPC_AUTH_ERROR then xdr_send_enum (dr_why dr) 4 x
           else (False, x)]"

definition xdr_send_reply_header :: "rpc_reply_header \<Rightarrow> XDR \<Rightarrow> bool \<times> XDR" where
  "xdr_send_reply_header reply = xdr_and
     [xdr_send_enum (rh_stat reply) 4,
      \<lambda>x. if rh_stat reply = RPC_MSG_ACCEPTED then xdr_send_accepted_reply_header (rh_ar reply) x
           else if rh_stat reply = RPC_MSG_DENIED then xdr_send_denied_reply (rh_dr reply) x
           else (False, x)]"

section \<open>Receiving\<close>

text \<open>Each routine gets the storage it fills and returns it updated.\<close>

definition xdr_recv_auth :: "opaque_auth \<Rightarrow> XDR \<Rightarrow> bool \<times> opaque_auth \<times> XDR" where
  "xdr_recv_auth auth x =
     (case xdr_std_recv_int32 (oa_flavor auth) x of (ok, f, x1) \<Rightarrow>
        let a1 = auth\<lparr>oa_flavor := f\<rparr> in
        if \<not> ok then (False, a1, x1)
        else case xdr_std_recv_uint32 (oa_length a1) x1 of (ok2, n, x2) \<Rightarrow>
          let a2 = a1\<lparr>oa_length := n\<rparr> in
          if \<not> ok2 then (False, a2, x2)
          else if n \<noteq> 0
          then case xdr_std_recv_bytes None n x2 of (_, _, x3) \<Rightarrow> (False, a2\<lparr>oa_base := None\<rparr>, x3)
          else (True, a2, x2))"

text \<open>The two words of a version range.\<close>

definition xdr_recv_versions :: "u32 \<Rightarrow> u32 \<Rightarrow> XDR \<Rightarrow> bool \<times> u32 \<times> u32 \<times> XDR" where
  "xdr_recv_versions low high x =
     (case xdr_std_recv_uint32 low x of (ok, l, x1) \<Rightarrow>
        if \<not> ok then (False, l, high, x1)
        else case xdr_std_recv_uint32 high x1 of (ok2, h, x2) \<Rightarrow> (ok2, l, h, x2))"

definition xdr_recv_accepted_reply_header ::
    "rpc_accepted_reply_header \<Rightarrow> XDR \<Rightarrow> bool \<times> rpc_accepted_reply_header \<times> XDR" where
  "xdr_recv_accepted_reply_header ar x =
     (case xdr_recv_auth (ar_verf ar) x of (ok, a, x1) \<Rightarrow>
        let r1 = ar\<lparr>ar_verf := a\<rparr> in
        if \<not> ok then (False, r1, x1)
        else case xdr_recv_enum (ar_stat r1) 4 x1 of (ok2, s, x2) \<Rightarrow>
          let r2 = r1\<lparr>ar_stat := s\<rparr> in
          if \<not> ok2 then (False, r2, x2)
          else if s = RPC_PROG_MISMATCH
          then case xdr_recv_versions (ar_low r2) (ar_high r2) x2 of (ok3, l, h, x3) \<Rightarrow>
                 (ok3, r2\<lparr>ar_low := l, ar_high := h\<rparr>, x3)
          else (s \<in> {RPC_ACCEPT_SUCCESS, RPC_PROG_UNAVAIL, RPC_PROC_UNAVAIL,
                     RPC_GARBAGE_ARGS, RPC_SYSTEM_ERR, RPC_PROG_LOCKED}, r2, x2))"

definition xdr_recv_denied_reply ::
    "rpc_denied_reply \<Rightarrow> XDR \<Rightarrow> bool \<times> rpc_denied_reply \<times> XDR" where
  "xdr_recv_denied_reply dr x =
     (case xdr_recv_enum (dr_stat dr) 4 x of (ok, s, x1) \<Rightarrow>
        let r1 = dr\<lparr>dr_stat := s\<rparr> in
        if \<not> ok then (False, r1, x1)
        else if s = RPC_MISMATCH
        then case xdr_recv_versions (dr_low r1) (dr_high r1) x1 of (ok2, l, h, x2) \<Rightarrow>
               (ok2, r1\<lparr>dr_low := l, dr_high := h\<rparr>, x2)
        else if s = RPC_AUTH_ERROR
        then case xdr_recv_enum (dr_why r1) 4 x1 of (ok2, w, x2) \<Rightarrow> (ok2, r1\<lparr>dr_why := w\<rparr>, x2)
        else (False, r1, x1))"

definition xdr_recv_reply_header ::
    "rpc_reply_header \<Rightarrow> XDR \<Rightarrow> bool \<times> rpc_reply_header \<times> XDR" where
  "xdr_recv_reply_header reply x =
     (case xdr_recv_enum (rh_stat reply) 4 x of (ok, s, x1) \<Rightarrow>
        let r1 = reply\<lparr>rh_stat := s\<rparr> in
        if \<not> ok then (False, r1, x1)
        else if s = RPC_MSG_ACCEPTED
        then case xdr_recv_accepted_reply_header (rh_ar r1) x1 of (ok2, a, x2) \<Rightarrow>
               (ok2, r1\<lparr>rh_ar := a\<rparr>, x2)
        else if s = RPC_MSG_DENIED
        then case xdr_recv_denied_reply (rh_dr r1) x1 of (ok2, d, x2) \<Rightarrow>
               (ok2, r1\<lparr>rh_dr := d\<rparr>, x2)
        else (False, r1, x1))"

section \<open>Packets\<close>

text \<open>
  A packet is the content of \<open>out_msg\<close> up to the cursor; \<open>words ws\<close> is the run of network-order
  words of a header. \<open>sends p b\<close> says that \<open>p\<close> appends \<open>b\<close> and succeeds iff it fits,
  \<open>receives p v b r\<close> that \<open>p\<close> consumes \<open>b\<close> and yields \<open>v\<close> there.
\<close>

definition packet :: "XDR \<Rightarrow> byte list" where
  "packet x = load_bytes (out_msg x) 0 (nat (out_next x))"

definition words :: "u32 list \<Rightarrow> byte list" where
  "words ws = concat (map be32 ws)"

lemma words_simps [simp]:
  "words [] = []" "words (w # ws) = be32 w @ words ws" "length (words ws) = 4 * length ws"
proof -
  show "length (words ws) = 4 * length ws" by (induction ws) (auto simp: words_def)
qed (simp_all add: words_def)

lemma words_append: "words (vs @ ws) = words vs @ words ws"
  by (simp add: words_def)

lemma packet_put: "0 \<le> out_next x \<Longrightarrow> packet (put b x) = packet x @ b"
  by (simp add: packet_def put_def nat_add_distrib load_bytes_add)

lemma length_packet: "0 \<le> out_next x \<Longrightarrow> int (length (packet x)) = out_next x"
  by (simp add: packet_def)

definition aligned_out :: "XDR \<Rightarrow> bool" where
  "aligned_out x \<longleftrightarrow> 0 \<le> out_next x \<and> out_next x mod 4 = 0 \<and> out_next x \<le> RPCROUTER_MSGSIZE_MAX"

lemma ready_aligned: "ready_out x \<longleftrightarrow> x_op x = XDR_ENCODE \<and> \<not> fault x \<and> aligned_out x"
  by (auto simp: ready_out_def aligned_out_def)

definition sends :: "(XDR \<Rightarrow> bool \<times> XDR) \<Rightarrow> byte list \<Rightarrow> bool" where
  "sends p b \<longleftrightarrow> length b mod 4 = 0 \<and> (\<forall>x. aligned_out x \<longrightarrow>
     (if out_next x + int (length b) \<le> RPCROUTER_MSGSIZE_MAX then p x = (True, put b x)
      else \<exists>y. p x = (False, y) \<and> out_same x y))"

lemma sends_run:
  "sends p b \<Longrightarrow> aligned_out x \<Longrightarrow> out_next x + int (length b) \<le> RPCROUTER_MSGSIZE_MAX
    \<Longrightarrow> p x = (True, put b x)"
  by (simp add: sends_def)

lemma sends_full:
  assumes "sends p b" "aligned_out x" "\<not> out_next x + int (length b) \<le> RPCROUTER_MSGSIZE_MAX"
  obtains y where "p x = (False, y)" "out_same x y"
  using assms unfolding sends_def by (metis (no_types))

lemma aligned_put:
  "aligned_out x \<Longrightarrow> length b mod 4 = 0 \<Longrightarrow> out_next x + int (length b) \<le> RPCROUTER_MSGSIZE_MAX
    \<Longrightarrow> aligned_out (put b x)"
  by (simp add: aligned_out_def aligned_add)

lemma sends_Nil [intro]: "sends (xdr_and []) []" "sends (\<lambda>x. (True, x)) []"
  by (simp_all add: sends_def aligned_out_def)

lemma sends_word [intro]:
  "sends (xdr_std_send_uint32 v) (be32 v)" "sends (xdr_std_send_int32 v) (be32 v)"
  "sends (xdr_send_enum v 4) (be32 v)"
proof -
  have "out_next x \<ge> RPCROUTER_MSGSIZE_MAX - 3 \<longleftrightarrow> \<not> out_next x + 4 \<le> RPCROUTER_MSGSIZE_MAX"
    if "aligned_out x" for x
    using that unfolding aligned_out_def RPCROUTER_MSGSIZE_MAX_def by (elim conjE) presburger
  then show u: "sends (xdr_std_send_uint32 v) (be32 v)"
    by (simp add: sends_def xdr_std_send_uint32_def put_def)
  then show "sends (xdr_std_send_int32 v) (be32 v)" "sends (xdr_send_enum v 4) (be32 v)"
    by (simp_all add: sends_def xdr_std_send_int32_def xdr_send_enum_def)
qed

lemma sends_Cons:
  assumes p: "sends p b" and ps: "sends (xdr_and ps) c"
  shows "sends (xdr_and (p # ps)) (b @ c)"
proof -
  have len: "length b mod 4 = 0" "length c mod 4 = 0"
    using p ps by (simp_all add: sends_def)
  have "if out_next x + int (length (b @ c)) \<le> RPCROUTER_MSGSIZE_MAX
      then xdr_and (p # ps) x = (True, put (b @ c) x)
      else \<exists>y. xdr_and (p # ps) x = (False, y) \<and> out_same x y" if x: "aligned_out x" for x
  proof (cases "out_next x + int (length b) \<le> RPCROUTER_MSGSIZE_MAX")
    case True
    note x1 = aligned_put [OF x len(1) True]
    have put: "put (b @ c) x = put c (put b x)"
      using x by (simp add: put_def aligned_out_def store_bytes_append nat_add_distrib)
    show ?thesis
    proof (cases "out_next x + int (length (b @ c)) \<le> RPCROUTER_MSGSIZE_MAX")
      case fits: True
      then show ?thesis
        using sends_run [OF p x True] sends_run [OF ps x1] by (simp add: put add.assoc)
    next
      case False
      then obtain y where "xdr_and ps (put b x) = (False, y)" "out_same (put b x) y"
        using sends_full [OF ps x1] by (auto simp: add.assoc)
      then show ?thesis using False sends_run [OF p x True] by (simp add: add.assoc)
    qed
  next
    case False
    obtain y where "p x = (False, y)" "out_same x y" by (rule sends_full [OF p x False])
    then show ?thesis using False by simp
  qed
  moreover have "length (b @ c) mod 4 = 0" using len by (simp, presburger)
  ultimately show ?thesis unfolding sends_def by blast
qed

lemma sends_last: "sends p b \<Longrightarrow> sends (xdr_and [p]) b"
  using sends_Cons [OF _ sends_Nil(1)] by fastforce

lemma sends_cong: "p = q \<Longrightarrow> sends q b \<Longrightarrow> sends p b"
  by simp

text \<open>The start of a message: the cursor goes to 8, the XID and the type go in front.\<close>

lemma msg_start:
  assumes "xdr_std_msg_start t x = (ok, y)"
  shows "ok" "aligned_out y" "packet y = words [xid y, t]"
    "y = x\<lparr>xid := xid y, out_next := 8, out_msg := out_msg y\<rparr>"
    "xid y = (if t = RPC_MSG_CALL then xid x + 1 else xid x)"
proof -
  let ?i = "if t = RPC_MSG_CALL then xid x + 1 else xid x"
  have y: "ok" "y = x\<lparr>xid := ?i, out_next := 8,
      out_msg := store_bytes (store_bytes (out_msg x) 0 (be32 ?i)) 4 (be32 t)\<rparr>"
    using assms by (auto simp: xdr_std_msg_start_def Let_def set_word_def RPC_OFFSET_def)
  then show "ok" "xid y = ?i" "aligned_out y"
    "y = x\<lparr>xid := xid y, out_next := 8, out_msg := out_msg y\<rparr>"
    by (simp_all add: aligned_out_def RPCROUTER_MSGSIZE_MAX_def)
  have "store_bytes (store_bytes (out_msg x) 0 (be32 ?i)) 4 (be32 t)
      = store_bytes (out_msg x) 0 (be32 ?i @ be32 t)"
    by (simp add: store_bytes_append)
  then show "packet y = words [xid y, t]"
    using load_store_bytes [of "out_msg x" 0 "be32 ?i @ be32 t"] y by (simp add: packet_def)
qed

section \<open>Reply headers as values\<close>

text \<open>
  What a reply header says: the call was accepted with a status, refused because the program or
  the RPC version is not in a range, or refused by authentication. \<open>reply_words\<close> are the words
  of a header whose verifier is empty and has flavor \<open>f\<close>.
\<close>

datatype rpc_reply =
    Accepted u32
  | AcceptedVersions u32 u32
  | DeniedVersions u32 u32
  | DeniedAuth u32

definition plain_stats :: "u32 set" where
  "plain_stats = {RPC_ACCEPT_SUCCESS, RPC_PROG_UNAVAIL, RPC_PROC_UNAVAIL, RPC_GARBAGE_ARGS,
     RPC_SYSTEM_ERR, RPC_PROG_LOCKED}"

definition reply_of :: "rpc_reply_header \<Rightarrow> rpc_reply option" where
  "reply_of h =
     (if rh_stat h = RPC_MSG_ACCEPTED then
        (if ar_stat (rh_ar h) = RPC_PROG_MISMATCH
         then Some (AcceptedVersions (ar_low (rh_ar h)) (ar_high (rh_ar h)))
         else if ar_stat (rh_ar h) \<in> plain_stats then Some (Accepted (ar_stat (rh_ar h)))
         else None)
      else if rh_stat h = RPC_MSG_DENIED then
        (if dr_stat (rh_dr h) = RPC_MISMATCH
         then Some (DeniedVersions (dr_low (rh_dr h)) (dr_high (rh_dr h)))
         else if dr_stat (rh_dr h) = RPC_AUTH_ERROR then Some (DeniedAuth (dr_why (rh_dr h)))
         else None)
      else None)"

fun reply_words :: "u32 \<Rightarrow> rpc_reply \<Rightarrow> u32 list" where
  "reply_words f (Accepted s) = [RPC_MSG_ACCEPTED, f, 0, s]"
| "reply_words f (AcceptedVersions l h) = [RPC_MSG_ACCEPTED, f, 0, RPC_PROG_MISMATCH, l, h]"
| "reply_words f (DeniedVersions l h) = [RPC_MSG_DENIED, RPC_MISMATCH, l, h]"
| "reply_words f (DeniedAuth w) = [RPC_MSG_DENIED, RPC_AUTH_ERROR, w]"

fun wf_reply :: "rpc_reply \<Rightarrow> bool" where
  "wf_reply (Accepted s) \<longleftrightarrow> s \<in> plain_stats"
| "wf_reply r \<longleftrightarrow> True"

subsection \<open>Sending\<close>

lemma send_auth_empty: "oa_length a = 0 \<Longrightarrow> sends (xdr_send_auth a) (words [oa_flavor a, 0])"
proof -
  assume "oa_length a = 0"
  moreover have "sends (xdr_and [xdr_std_send_int32 (oa_flavor a), xdr_std_send_uint32 0,
      \<lambda>x. (True, x)]) (be32 (oa_flavor a) @ be32 0 @ [])"
    by (intro sends_Cons sends_last sends_word sends_Nil)
  ultimately show ?thesis by (simp add: xdr_send_auth_def)
qed

lemma send_pair:
  "sends (xdr_and [xdr_std_send_uint32 l, xdr_std_send_uint32 h]) (words [l, h])"
  using sends_Cons [OF sends_word(1) sends_last [OF sends_word(1)]] by simp

lemma send_accepted:
  assumes "oa_length (ar_verf a) = 0" "ar_stat a = RPC_PROG_MISMATCH \<or> ar_stat a \<in> plain_stats"
  shows "sends (xdr_send_accepted_reply_header a) (words ([oa_flavor (ar_verf a), 0, ar_stat a]
    @ (if ar_stat a = RPC_PROG_MISMATCH then [ar_low a, ar_high a] else [])))"
proof -
  let ?tail = "\<lambda>x. if ar_stat a = RPC_PROG_MISMATCH
      then xdr_and [xdr_std_send_uint32 (ar_low a), xdr_std_send_uint32 (ar_high a)] x
      else (True, x)"
  have "sends ?tail (words (if ar_stat a = RPC_PROG_MISMATCH then [ar_low a, ar_high a] else []))"
    using send_pair sends_Nil(2) by (simp del: xdr_and.simps)
  then have "sends (xdr_and [xdr_send_auth (ar_verf a), xdr_send_enum (ar_stat a) 4, ?tail])
      (words [oa_flavor (ar_verf a), 0] @ be32 (ar_stat a)
        @ words (if ar_stat a = RPC_PROG_MISMATCH then [ar_low a, ar_high a] else []))"
    by (intro sends_Cons sends_last sends_word send_auth_empty assms(1))
  then show ?thesis
    using assms(2) unfolding plain_stats_def [symmetric] xdr_send_accepted_reply_header_def
    by (auto simp: plain_stats_def cong: if_cong)
qed

lemma send_denied:
  assumes "dr_stat d = RPC_MISMATCH \<or> dr_stat d = RPC_AUTH_ERROR"
  shows "sends (xdr_send_denied_reply d) (words (dr_stat d
    # (if dr_stat d = RPC_MISMATCH then [dr_low d, dr_high d] else [dr_why d])))"
proof -
  let ?tail = "\<lambda>x. if dr_stat d = RPC_MISMATCH
      then xdr_and [xdr_std_send_uint32 (dr_low d), xdr_std_send_uint32 (dr_high d)] x
      else xdr_send_enum (dr_why d) 4 x"
  have "sends ?tail (words (if dr_stat d = RPC_MISMATCH then [dr_low d, dr_high d] else [dr_why d]))"
    using send_pair sends_word(3) by (simp del: xdr_and.simps)
  then have "sends (xdr_and [xdr_send_enum (dr_stat d) 4, ?tail]) (be32 (dr_stat d)
      @ words (if dr_stat d = RPC_MISMATCH then [dr_low d, dr_high d] else [dr_why d]))"
    by (intro sends_Cons sends_last sends_word)
  then show ?thesis
    using assms unfolding xdr_send_denied_reply_def
    by (auto cong: if_cong)
qed

lemma send_reply_header:
  assumes "reply_of h = Some r" "oa_length (ar_verf (rh_ar h)) = 0"
  shows "sends (xdr_send_reply_header h) (words (reply_words (oa_flavor (ar_verf (rh_ar h))) r))"
proof -
  let ?w = "reply_words (oa_flavor (ar_verf (rh_ar h))) r"
  let ?tail = "\<lambda>x. if rh_stat h = RPC_MSG_ACCEPTED then xdr_send_accepted_reply_header (rh_ar h) x
           else if rh_stat h = RPC_MSG_DENIED then xdr_send_denied_reply (rh_dr h) x
           else (False, x)"
  have hd: "?w = rh_stat h # tl ?w"
    using assms(1) by (auto simp: reply_of_def rpc_consts split: if_splits)
  have "sends ?tail (words (tl ?w))"
    using assms(1) send_accepted [OF assms(2)] send_denied [of "rh_dr h"]
    by (auto simp: reply_of_def split: if_splits)
  then have "sends (xdr_send_reply_header h) (be32 (rh_stat h) @ words (tl ?w))"
    unfolding xdr_send_reply_header_def by (intro sends_Cons sends_last sends_word)
  then show ?thesis by (subst hd) simp
qed

lemma send_reply_unknown:
  "reply_of h = None \<Longrightarrow> oa_length (ar_verf (rh_ar h)) = 0 \<Longrightarrow> \<not> fst (xdr_send_reply_header h x)"
  by (auto simp: reply_of_def xdr_send_reply_header_def xdr_send_accepted_reply_header_def
      xdr_send_denied_reply_def plain_stats_def split: if_splits prod.splits)

subsection \<open>Receiving\<close>

lemma be32_un_be32 [simp]: "be32 (un_be32 a b c d) = [a, b, c, d]"
  unfolding be32_def un_be32_def
  by (simp; intro conjI; rule bit_word_eqI)
    (auto simp: bit_simps dest: bit_imp_le_length)

lemma at_in_words:
  assumes "0 \<le> in_next x"
  shows "at_in (a @ b) x \<longleftrightarrow> at_in a x \<and> at_in b (adv (length a) n x)"
  using assms by (auto simp: at_in_def adv_def load_bytes_add nat_add_distrib)

lemma recv_word_cases:
  assumes "xdr_std_recv_uint32 w x = (ok, v, y)" "0 \<le> in_next x"
  shows "ok \<and> at_in (be32 v) x \<and> y = adv 4 0 x \<or> \<not> ok \<and> v = w \<and> y = x \<and> (\<forall>u. \<not> at_in (be32 u) x)"
  using assms
  by (auto simp: xdr_std_recv_uint32_def at_in_def adv_def Let_def numeral_3_eq_3 split: if_splits)

lemma in_adv [simp]:
  "in_next (adv k n x) = in_next x + int k" "in_len (adv k n x) = in_len x"
  by (simp_all add: adv_def)

lemma recv_word_at:
  assumes "at_in (be32 v) x" "0 \<le> in_next x"
  shows "xdr_std_recv_uint32 w x = (True, v, adv 4 0 x)"
proof -
  obtain ok u y where r: "xdr_std_recv_uint32 w x = (ok, u, y)"
    by (cases "xdr_std_recv_uint32 w x")
  then have "ok \<and> at_in (be32 u) x \<and> y = adv 4 0 x"
    using recv_word_cases [OF r assms(2)] assms(1) by blast
  moreover from this have "u = v" using assms(1) by (simp add: at_in_def)
  ultimately show ?thesis using r by simp
qed

lemmas recv_scalar = xdr_recv_enum_def xdr_std_recv_int32_def

lemma rpc_distinct [simp]:
  "RPC_MSG_DENIED \<noteq> RPC_MSG_ACCEPTED" "RPC_AUTH_ERROR \<noteq> RPC_MISMATCH"
  by (simp_all add: rpc_consts)

lemma plain_stats_mismatch: "s \<in> plain_stats \<Longrightarrow> s \<noteq> RPC_PROG_MISMATCH"
  by (auto simp: plain_stats_def rpc_consts)

text \<open>Every encoded reply is understood.\<close>

lemma recv_versions:
  assumes "at_in (words [l, h]) x" "0 \<le> in_next x"
  shows "xdr_recv_versions l0 h0 x = (True, l, h, adv 8 0 x)"
proof -
  have "at_in (be32 l) x" "at_in (be32 h) (adv 4 0 x)"
    using assms at_in_words [of x "be32 l" "be32 h" 0] by simp_all
  then show ?thesis
    using assms(2) recv_word_at [of l x l0] recv_word_at [of h "adv 4 0 x" h0]
    by (simp add: xdr_recv_versions_def)
qed

lemma recv_auth_empty:
  assumes "at_in (words [f, 0]) x" "0 \<le> in_next x"
  shows "xdr_recv_auth a x = (True, a\<lparr>oa_flavor := f, oa_length := 0\<rparr>, adv 8 0 x)"
proof -
  have "at_in (be32 f) x" "at_in (be32 0) (adv 4 0 x)"
    using assms at_in_words [of x "be32 f" "be32 0" 0] by simp_all
  then show ?thesis
    using assms(2) recv_word_at [of f x "oa_flavor a"] recv_word_at [of 0 "adv 4 0 x" "oa_length a"]
    by (simp add: xdr_recv_auth_def recv_scalar)
qed

lemma recv_accepted:
  assumes "at_in (words ([f, 0, s] @ ws)) x" "0 \<le> in_next x"
    and "s = RPC_PROG_MISMATCH \<and> ws = [l, h] \<or> s \<in> plain_stats \<and> ws = []"
  shows "\<exists>a'. xdr_recv_accepted_reply_header a x = (True, a', adv (12 + 4 * length ws) 0 x)
    \<and> ar_stat a' = s \<and> (s = RPC_PROG_MISMATCH \<longrightarrow> ar_low a' = l \<and> ar_high a' = h)"
proof -
  have at: "at_in (words [f, 0]) x" "at_in (be32 s) (adv 8 0 x)" "at_in (words ws) (adv 12 0 x)"
    using assms(1,2) at_in_words [of x "words [f, 0]" "be32 s @ words ws" 0]
      at_in_words [of "adv 8 0 x" "be32 s" "words ws" 0] by simp_all
  note run = recv_auth_empty [OF at(1) assms(2)] recv_word_at [OF at(2)]
  from assms(3) show ?thesis
  proof
    assume "s = RPC_PROG_MISMATCH \<and> ws = [l, h]"
    then show ?thesis
      using at assms(2) recv_versions [of l h "adv 12 0 x"]
      by (simp add: xdr_recv_accepted_reply_header_def run recv_scalar)
  next
    assume "s \<in> plain_stats \<and> ws = []"
    then show ?thesis
      using assms(2) unfolding xdr_recv_accepted_reply_header_def plain_stats_def [symmetric]
      by (simp add: run recv_scalar plain_stats_mismatch)
  qed
qed

lemma recv_denied:
  assumes "at_in (words (s # ws)) x" "0 \<le> in_next x"
    and "s = RPC_MISMATCH \<and> ws = [l, h] \<or> s = RPC_AUTH_ERROR \<and> ws = [w]"
  shows "\<exists>d'. xdr_recv_denied_reply d x = (True, d', adv (4 + 4 * length ws) 0 x)
    \<and> dr_stat d' = s \<and> (s = RPC_MISMATCH \<longrightarrow> dr_low d' = l \<and> dr_high d' = h)
    \<and> (s = RPC_AUTH_ERROR \<longrightarrow> dr_why d' = w)"
proof -
  have at: "at_in (be32 s) x" "at_in (words ws) (adv 4 0 x)"
    using assms(1,2) at_in_words [of x "be32 s" "words ws" 0] by simp_all
  note run = recv_word_at [OF at(1) assms(2)]
  from assms(3) show ?thesis
  proof
    assume "s = RPC_MISMATCH \<and> ws = [l, h]"
    then show ?thesis
      using at assms(2) recv_versions [of l h "adv 4 0 x"] rpc_distinct(2) [symmetric]
      by (simp add: xdr_recv_denied_reply_def recv_scalar run)
  next
    assume "s = RPC_AUTH_ERROR \<and> ws = [w]"
    then show ?thesis
      using at assms(2) recv_word_at [of w "adv 4 0 x"]
      by (simp add: xdr_recv_denied_reply_def recv_scalar run)
  qed
qed

lemma recv_reply_header:
  assumes at: "at_in (words (reply_words f r)) x" and x: "0 \<le> in_next x" and wf: "wf_reply r"
  shows "\<exists>h'. xdr_recv_reply_header h x = (True, h', adv (4 * length (reply_words f r)) 0 x)
    \<and> reply_of h' = Some r"
proof -
  have hd: "xdr_recv_enum (rh_stat h) 4 x = (True, s, adv 4 0 x)"
      "at_in (words ws) (adv 4 0 x)" "0 \<le> in_next (adv 4 0 x)"
    if "reply_words f r = s # ws" for s ws
    using at that at_in_words [OF x, of "be32 s" "words ws" 0] recv_word_at [of s x] x
    by (simp_all add: recv_scalar)
  show ?thesis
  proof (cases r)
    case (Accepted t)
    then obtain a' where "xdr_recv_accepted_reply_header (rh_ar h) (adv 4 0 x)
        = (True, a', adv 12 0 (adv 4 0 x))" "ar_stat a' = t"
      using hd wf recv_accepted [of f t "[]" "adv 4 0 x" undefined undefined "rh_ar h"] by auto
    then show ?thesis
      using hd(1) wf Accepted by (simp add: xdr_recv_reply_header_def reply_of_def plain_stats_mismatch)
  next
    case (AcceptedVersions l u)
    then obtain a' where "xdr_recv_accepted_reply_header (rh_ar h) (adv 4 0 x)
        = (True, a', adv 20 0 (adv 4 0 x))"
      "ar_stat a' = RPC_PROG_MISMATCH" "ar_low a' = l" "ar_high a' = u"
      using hd recv_accepted [of f RPC_PROG_MISMATCH "[l, u]" "adv 4 0 x" l u "rh_ar h"] by auto
    then show ?thesis
      using hd(1) AcceptedVersions by (simp add: xdr_recv_reply_header_def reply_of_def)
  next
    case (DeniedVersions l u)
    then obtain d' where "xdr_recv_denied_reply (rh_dr h) (adv 4 0 x)
        = (True, d', adv 12 0 (adv 4 0 x))" "dr_stat d' = RPC_MISMATCH" "dr_low d' = l" "dr_high d' = u"
      using hd recv_denied [of RPC_MISMATCH "[l, u]" "adv 4 0 x" l u undefined "rh_dr h"] by auto
    then show ?thesis
      using hd(1) DeniedVersions by (simp add: xdr_recv_reply_header_def reply_of_def)
  next
    case (DeniedAuth v)
    then obtain d' where "xdr_recv_denied_reply (rh_dr h) (adv 4 0 x)
        = (True, d', adv 8 0 (adv 4 0 x))" "dr_stat d' = RPC_AUTH_ERROR" "dr_why d' = v"
      using hd recv_denied [of RPC_AUTH_ERROR "[v]" "adv 4 0 x" undefined undefined v "rh_dr h"] by auto
    then show ?thesis
      using hd(1) DeniedAuth by (simp add: xdr_recv_reply_header_def reply_of_def)
  qed
qed

text \<open>Conversely, only the encoding of a reply is accepted.\<close>

lemma recv_wordD:
  assumes "xdr_std_recv_uint32 w x = (True, v, y)" "0 \<le> in_next x"
  shows "at_in (be32 v) x" "y = adv 4 0 x" "0 \<le> in_next y"
  using recv_word_cases [OF assms] assms(2) by auto

lemma recv_versionsD:
  assumes "xdr_recv_versions l0 h0 x = (True, l, h, y)" "0 \<le> in_next x"
  shows "at_in (words [l, h]) x"
proof -
  obtain u where 1: "xdr_std_recv_uint32 l0 x = (True, l, u)"
    and 2: "xdr_std_recv_uint32 h0 u = (True, h, y)"
    using assms(1) by (auto simp: xdr_recv_versions_def split: prod.splits if_splits)
  note u = recv_wordD [OF 1 assms(2)]
  show ?thesis
    using u recv_wordD(1) [OF 2 u(3)] at_in_words [OF assms(2), of "be32 l" "be32 h" 0] by simp
qed

lemma recv_authD:
  assumes "xdr_recv_auth a x = (True, a', y)" "0 \<le> in_next x"
  shows "at_in (words [oa_flavor a', 0]) x" "y = adv 8 0 x"
proof -
  obtain f u where 1: "xdr_std_recv_uint32 (oa_flavor a) x = (True, f, u)"
    and 2: "xdr_std_recv_uint32 (oa_length a) u = (True, 0, y)" and f: "f = oa_flavor a'"
    using assms(1)
    by (auto simp: xdr_recv_auth_def recv_scalar Let_def split: prod.splits if_splits)
  note u = recv_wordD [OF 1 assms(2)]
  show "at_in (words [oa_flavor a', 0]) x" "y = adv 8 0 x"
    using f u recv_wordD [OF 2 u(3)] at_in_words [OF assms(2), of "be32 f" "be32 0" 0] by simp_all
qed

lemma recv_acceptedD:
  assumes "xdr_recv_accepted_reply_header a x = (True, a', y)" "0 \<le> in_next x"
  shows "\<exists>f s ws. at_in (words ([f, 0, s] @ ws)) x
    \<and> (s = RPC_PROG_MISMATCH \<and> (\<exists>l h. ws = [l, h]) \<or> s \<in> plain_stats \<and> ws = [])"
proof -
  obtain v u s z where 1: "xdr_recv_auth (ar_verf a) x = (True, v, u)"
    and 2: "xdr_std_recv_uint32 (ar_stat a) u = (True, s, z)"
    and 3: "s = RPC_PROG_MISMATCH \<and> (\<exists>l h y. xdr_recv_versions (ar_low a) (ar_high a) z = (True, l, h, y))
      \<or> s \<in> plain_stats"
    using assms(1) unfolding xdr_recv_accepted_reply_header_def plain_stats_def [symmetric]
    by (auto simp: recv_scalar Let_def split: prod.splits if_splits)
  note u = recv_authD [OF 1 assms(2)]
  have "0 \<le> in_next u" using u assms(2) by simp
  note z = recv_wordD [OF 2 this]
  have "\<exists>ws. at_in (words ws) z
      \<and> (s = RPC_PROG_MISMATCH \<and> (\<exists>l h. ws = [l, h]) \<or> s \<in> plain_stats \<and> ws = [])"
    using 3
  proof
    assume "s = RPC_PROG_MISMATCH \<and> (\<exists>l h y. xdr_recv_versions (ar_low a) (ar_high a) z = (True, l, h, y))"
    then show ?thesis using recv_versionsD [OF _ z(3)] by metis
  next
    assume "s \<in> plain_stats"
    then show ?thesis using at_in_len [OF z(1)] z(2) by (intro exI [of _ "[]"]) simp
  qed
  then obtain ws where ws: "at_in (words ws) z"
    "s = RPC_PROG_MISMATCH \<and> (\<exists>l h. ws = [l, h]) \<or> s \<in> plain_stats \<and> ws = []" by blast
  have "at_in (words [oa_flavor v, 0] @ be32 s @ words ws) x"
    using u z ws(1) assms(2) at_in_words [of x "words [oa_flavor v, 0]" "be32 s @ words ws" 0]
      at_in_words [of u "be32 s" "words ws" 0] by simp
  then show ?thesis using ws(2) by (intro exI [of _ "oa_flavor v"] exI [of _ s] exI [of _ ws]) simp
qed

lemma recv_deniedD:
  assumes "xdr_recv_denied_reply d x = (True, d', y)" "0 \<le> in_next x"
  shows "\<exists>s ws. at_in (words (s # ws)) x
    \<and> (s = RPC_MISMATCH \<and> (\<exists>l h. ws = [l, h]) \<or> s = RPC_AUTH_ERROR \<and> (\<exists>w. ws = [w]))"
proof -
  obtain s u where 1: "xdr_std_recv_uint32 (dr_stat d) x = (True, s, u)"
    and 2: "s = RPC_MISMATCH \<and> (\<exists>l h y. xdr_recv_versions (dr_low d) (dr_high d) u = (True, l, h, y))
      \<or> s = RPC_AUTH_ERROR \<and> (\<exists>w y. xdr_std_recv_uint32 (dr_why d) u = (True, w, y))"
    using assms(1) unfolding xdr_recv_denied_reply_def
    by (auto simp: recv_scalar Let_def split: prod.splits if_splits)
  note u = recv_wordD [OF 1 assms(2)]
  have "\<exists>ws. at_in (words ws) u
      \<and> (s = RPC_MISMATCH \<and> (\<exists>l h. ws = [l, h]) \<or> s = RPC_AUTH_ERROR \<and> (\<exists>w. ws = [w]))"
    using 2
  proof (elim disjE conjE exE)
    fix l h y assume "s = RPC_MISMATCH" "xdr_recv_versions (dr_low d) (dr_high d) u = (True, l, h, y)"
    then show ?thesis using recv_versionsD [OF _ u(3)] by metis
  next
    fix w y assume s: "s = RPC_AUTH_ERROR" and w: "xdr_std_recv_uint32 (dr_why d) u = (True, w, y)"
    show ?thesis using s recv_wordD(1) [OF w u(3)] by (intro exI [of _ "[w]"]) simp
  qed
  then show ?thesis
    using u at_in_words [OF assms(2), of "be32 s" _ 0] by (metis length_be32 words_simps(2))
qed

lemma recv_reply_headerD:
  assumes "xdr_recv_reply_header h x = (True, h', y)" "0 \<le> in_next x"
  shows "\<exists>f r. wf_reply r \<and> at_in (words (reply_words f r)) x"
proof -
  obtain s u where 1: "xdr_std_recv_uint32 (rh_stat h) x = (True, s, u)"
    and 2: "s = RPC_MSG_ACCEPTED \<and> (\<exists>a y. xdr_recv_accepted_reply_header (rh_ar h) u = (True, a, y))
      \<or> s = RPC_MSG_DENIED \<and> (\<exists>d y. xdr_recv_denied_reply (rh_dr h) u = (True, d, y))"
    using assms(1) unfolding xdr_recv_reply_header_def
    by (auto simp: recv_scalar Let_def split: prod.splits if_splits)
  note u = recv_wordD [OF 1 assms(2)]
  have at: "at_in (words (s # ws)) x" if "at_in (words ws) u" for ws
    using that u at_in_words [OF assms(2), of "be32 s" _ 0] by simp
  from 2 show ?thesis
  proof (elim disjE conjE exE)
    fix a z assume s: "s = RPC_MSG_ACCEPTED" and a: "xdr_recv_accepted_reply_header (rh_ar h) u = (True, a, z)"
    then obtain f t ws where ws: "at_in (words ([f, 0, t] @ ws)) u"
      "t = RPC_PROG_MISMATCH \<and> (\<exists>l h. ws = [l, h]) \<or> t \<in> plain_stats \<and> ws = []"
      using recv_acceptedD [OF a u(3)] by blast
    have "\<exists>r. wf_reply r \<and> reply_words f r = s # [f, 0, t] @ ws"
      using ws(2) s by (metis append_Cons append_Nil reply_words.simps(1,2) wf_reply.simps(1,2))
    then show ?thesis using at [OF ws(1)] by metis
  next
    fix d z assume s: "s = RPC_MSG_DENIED" and d: "xdr_recv_denied_reply (rh_dr h) u = (True, d, z)"
    then obtain t ws where ws: "at_in (words (t # ws)) u"
      "t = RPC_MISMATCH \<and> (\<exists>l h. ws = [l, h]) \<or> t = RPC_AUTH_ERROR \<and> (\<exists>w. ws = [w])"
      using recv_deniedD [OF d u(3)] by blast
    have "\<exists>r. wf_reply r \<and> reply_words 0 r = s # t # ws"
      using ws(2) s by (metis reply_words.simps(3,4) wf_reply.simps(3,4))
    then show ?thesis using at [OF ws(1)] by metis
  qed
qed

section \<open>Properties of the headers\<close>

lemma at_in_deliver_put: "0 \<le> out_next x \<Longrightarrow> at_in b (deliver (put b x) (out_next x) d)"
  by (simp add: at_in_def deliver_def put_def)

text \<open>
  Reply headers survive the wire. A header with an empty verifier and a known status is
  encoded iff it fits the packet, and the receiver reads back the same reply (acceptance status,
  version range, or reason of the refusal), stopping exactly at its end.
\<close>

theorem reply_header_round_trip:
  assumes "reply_of h = Some r" and "oa_length (ar_verf (rh_ar h)) = 0" and "aligned_out x"
    and "xdr_send_reply_header h x = (ok, y)"
  shows "(ok \<longleftrightarrow> out_next x + 4 * int (length (reply_words 0 r)) \<le> RPCROUTER_MSGSIZE_MAX)
    \<and> (ok \<longrightarrow> (\<exists>h' z. xdr_recv_reply_header h0 (deliver y (out_next x) d) = (True, h', z)
      \<and> reply_of h' = Some r \<and> in_next z = out_next y))"
proof (intro conjI impI)
  let ?ws = "reply_words (oa_flavor (ar_verf (rh_ar h))) r"
  have len: "length ?ws = length (reply_words 0 r)" and wf: "wf_reply r"
    using assms(1) by (cases r; auto simp: reply_of_def split: if_splits)+
  note send = send_reply_header [OF assms(1,2)]
  show ok: "ok \<longleftrightarrow> out_next x + 4 * int (length (reply_words 0 r)) \<le> RPCROUTER_MSGSIZE_MAX"
    using send assms(3,4) len by (auto simp: sends_def split: if_splits)
  assume "ok"
  have y: "y = put (words ?ws) x"
    using sends_run [OF send assms(3)] ok \<open>ok\<close> assms(4) len by simp
  have "at_in (words ?ws) (deliver y (out_next x) d)" "0 \<le> in_next (deliver y (out_next x) d)"
    using y assms(3) at_in_deliver_put [of x "words ?ws"] by (simp_all add: deliver_def aligned_out_def)
  from recv_reply_header [OF this wf]
  show "\<exists>h' z. xdr_recv_reply_header h0 (deliver y (out_next x) d) = (True, h', z)
      \<and> reply_of h' = Some r \<and> in_next z = out_next y"
    using y by (fastforce simp: deliver_def)
qed

definition no_such_procedure :: rpc_reply_header where
  "no_such_procedure = \<lparr>rh_stat = RPC_MSG_ACCEPTED,
     rh_ar = \<lparr>ar_verf = AUTH_NONE, ar_stat = RPC_PROC_UNAVAIL, ar_low = 0, ar_high = 0\<rparr>,
     rh_dr = \<lparr>dr_stat = 0, dr_low = 0, dr_high = 0, dr_why = 0\<rparr>\<rparr>"

theorem reply_header_round_trip_witness:
  "\<exists>y h' z. xdr_send_reply_header no_such_procedure (calloc_xdr\<lparr>out_next := 8\<rparr>) = (True, y)
    \<and> xdr_recv_reply_header no_such_procedure (deliver y 8 calloc_xdr) = (True, h', z)
    \<and> reply_of h' = Some (Accepted RPC_PROC_UNAVAIL)"
proof -
  let ?x = "calloc_xdr\<lparr>out_next := 8\<rparr>"
  have h: "reply_of no_such_procedure = Some (Accepted RPC_PROC_UNAVAIL)"
    "oa_length (ar_verf (rh_ar no_such_procedure)) = 0"
    by (simp_all add: reply_of_def no_such_procedure_def AUTH_NONE_def plain_stats_def rpc_consts)
  have x: "aligned_out ?x" "out_next ?x = 8"
    by (simp_all add: aligned_out_def calloc_xdr_def RPCROUTER_MSGSIZE_MAX_def)
  obtain ok y where s: "xdr_send_reply_header no_such_procedure ?x = (ok, y)"
    by (cases "xdr_send_reply_header no_such_procedure ?x")
  note rt = reply_header_round_trip [OF h x(1) s, of no_such_procedure calloc_xdr]
  have "ok" using rt x by (simp add: RPCROUTER_MSGSIZE_MAX_def)
  then show ?thesis using rt s x(2) by auto
qed

text \<open>
  Nothing else is taken for a reply header. \<open>xdr_recv_reply_header\<close> succeeds exactly on the
  encodings of the known replies with an empty verifier; in particular every reply that carries
  verifier bytes is refused, although the source comments that they are thrown away.
\<close>

theorem reply_header_accepted_iff:
  assumes "0 \<le> in_next x"
  shows "fst (xdr_recv_reply_header h x)
    \<longleftrightarrow> (\<exists>f r. wf_reply r \<and> at_in (words (reply_words f r)) x)"
proof
  assume "fst (xdr_recv_reply_header h x)"
  then obtain h' y where "xdr_recv_reply_header h x = (True, h', y)"
    by (cases "xdr_recv_reply_header h x") auto
  then show "\<exists>f r. wf_reply r \<and> at_in (words (reply_words f r)) x"
    by (rule recv_reply_headerD [OF _ assms])
next
  assume "\<exists>f r. wf_reply r \<and> at_in (words (reply_words f r)) x"
  then obtain f r where "wf_reply r" "at_in (words (reply_words f r)) x" by blast
  then show "fst (xdr_recv_reply_header h x)"
    using recv_reply_header [of f r x h, OF _ assms] by auto
qed

theorem reply_header_accepted_iff_witness:
  "fst (xdr_recv_reply_header no_such_procedure
     (calloc_xdr\<lparr>in_msg := store_bytes (\<lambda>_. 0) 8 (words [0, 0, 0, 1]), in_next := 8, in_len := 24\<rparr>))"
proof -
  let ?x = "calloc_xdr\<lparr>in_msg := store_bytes (\<lambda>_. 0) 8 (words [0, 0, 0, 1]), in_next := 8, in_len := 24\<rparr>"
  have "at_in (words (reply_words 0 (Accepted RPC_PROG_UNAVAIL))) ?x"
    using load_store_bytes [of "\<lambda>_. 0" 8 "words [0, 0, 0, 1]"] by (simp add: at_in_def rpc_consts)
  moreover have "wf_reply (Accepted RPC_PROG_UNAVAIL)" by (simp add: plain_stats_def)
  moreover have "0 \<le> in_next ?x" by simp
  ultimately show ?thesis using reply_header_accepted_iff [of ?x no_such_procedure] by blast
qed

text \<open>The words of a call: XID, message type, RPC version, program, version, procedure, then the
  two empty credentials. The arguments start at word 10.\<close>

definition call_words :: "u32 \<Rightarrow> u32 \<Rightarrow> u32 \<Rightarrow> u32 \<Rightarrow> u32 list" where
  "call_words i prog vers proc = [i, RPC_MSG_CALL, RPC_MSG_VERSION, prog, vers, proc, 0, 0, 0, 0]"

lemma call_msg_start:
  assumes "xdr_call_msg_start prog vers proc AUTH_NONE AUTH_NONE x = (ok, y)"
  shows "ok" and "packet y = words (call_words (xid x + 1) prog vers proc)" and "out_next y = 40"
    and "y = x\<lparr>x_prog := prog, x_proc := proc, xid := xid x + 1, out_next := 40, out_msg := out_msg y\<rparr>"
proof -
  let ?x = "x\<lparr>x_prog := prog, x_proc := proc\<rparr>"
  obtain y1 where 1: "xdr_std_msg_start RPC_MSG_CALL ?x = (True, y1)"
    by (auto simp: xdr_std_msg_start_def)
  note s = msg_start [OF 1]
  let ?ps = "[xdr_std_send_uint32 RPC_MSG_VERSION, xdr_std_send_uint32 prog, xdr_std_send_uint32 vers,
      xdr_std_send_uint32 proc, xdr_send_auth AUTH_NONE, xdr_send_auth AUTH_NONE]"
  have auth: "sends (xdr_send_auth AUTH_NONE) (words [0, 0])"
    using send_auth_empty [of AUTH_NONE] by (simp add: AUTH_NONE_def)
  have ps: "sends (xdr_and ?ps) (be32 RPC_MSG_VERSION @ be32 prog @ be32 vers @ be32 proc
      @ words [0, 0] @ words [0, 0])" (is "sends _ ?b")
    by (intro sends_Cons sends_last sends_word auth)
  have "out_next y1 = 8" by (subst s(4)) simp
  then have run: "xdr_and ?ps y1 = (True, put ?b y1)"
    using sends_run [OF ps s(2)] by (simp add: RPCROUTER_MSGSIZE_MAX_def)
  then have y: "ok" "y = put ?b y1"
    using assms
    by (simp_all only: xdr_call_msg_start_def xdr_and.simps(2) [of "xdr_std_msg_start RPC_MSG_CALL"]
        1 prod.case if_True prod.inject)
  show "ok" by (fact y)
  show "packet y = words (call_words (xid x + 1) prog vers proc)"
    using y s \<open>out_next y1 = 8\<close> by (simp add: packet_put call_words_def rpc_consts)
  show out: "out_next y = 40" using y \<open>out_next y1 = 8\<close> by simp
  show "y = x\<lparr>x_prog := prog, x_proc := proc, xid := xid x + 1, out_next := 40, out_msg := out_msg y\<rparr>"
  proof -
    have "xid y1 = xid x + 1" using s(5) by simp
    then obtain m where "y1 = x\<lparr>x_prog := prog, x_proc := proc, xid := xid x + 1, out_next := 8,
        out_msg := m\<rparr>"
      using s(4) by metis
    then show ?thesis using y(2) by (simp add: put_def)
  qed
qed

end
