(* ===== verification/Svc.thy ===== *)
theory Svc
  imports Rpc "HOL-Library.Monad_Syntax"
begin

text \<open>
  The server side, librpc/svc.c: the transport with its list of registered servers, the dispatch
  of a received call to the function registered for it, and the replies that function may send.

  A routine that would dereference a null pointer returns None. \<open>call\<close> stands for the dispatch
  functions: \<open>call d\<close> is the function at address \<open>d\<close>, which gets the request and the server
  entry (the source casts it to \<open>SVCXPRT *\<close>) together with the rest \<open>'w\<close> of the program state.
  Locking is not shown: every operation runs with \<open>xprt->lock\<close> or \<open>xprt_lock\<close> held throughout.
\<close>

section \<open>Data\<close>

record svc_req =
  rq_prog :: u32
  rq_vers :: u32
  rq_proc :: u32

record registered_server =
  srv_xdr :: "XDR option"
  srv_prog :: u32
  srv_vers :: u32
  active :: int
  dispatch :: nat

text \<open>\<open>svc_threads\<close> counts the server threads that were started.\<close>

record SVCXPRT =
  fdset :: "int set"
  max_fd :: int
  servers :: "registered_server list"
  num_cb_servers :: int
  num_servers :: int
  xprt_in_reset :: int
  xprt_reset_cb :: "nat option"
  svc_threads :: nat

text \<open>
  What the system calls of a registration return: whether the entry can be allocated and what
  its uninitialised \<open>active\<close> holds, the descriptor of the router device and the ioctl result.
\<close>

record svc_env =
  entry_ok :: bool
  entry_junk :: int
  open_handle :: int
  control_ret :: int

section \<open>The transport\<close>

definition svc_is_in_reset :: "SVCXPRT \<Rightarrow> int" where
  "svc_is_in_reset xprt = xprt_in_reset xprt"

definition svc_set_in_reset :: "SVCXPRT \<Rightarrow> int \<Rightarrow> SVCXPRT" where
  "svc_set_in_reset xprt v = xprt\<lparr>xprt_in_reset := v\<rparr>"

text \<open>The callback to run on a reset event, if any.\<close>

definition svc_reset_cb :: "SVCXPRT \<Rightarrow> nat option" where
  "svc_reset_cb xprt = xprt_reset_cb xprt"

definition calloc_xprt :: SVCXPRT where
  "calloc_xprt = \<lparr>fdset = {}, max_fd = 0, servers = [], num_cb_servers = 0, num_servers = 0,
     xprt_in_reset = 0, xprt_reset_cb = None, svc_threads = 0\<rparr>"

definition svcrtr_create :: "bool \<Rightarrow> SVCXPRT option \<Rightarrow> SVCXPRT option" where
  "svcrtr_create alloc_ok the_xprt =
     (case the_xprt of Some xprt \<Rightarrow> Some xprt
      | None \<Rightarrow> if alloc_ok then Some calloc_xprt else None)"

definition svc_register_reset_notification_cb ::
    "SVCXPRT option \<Rightarrow> nat option \<Rightarrow> int \<times> SVCXPRT option" where
  "svc_register_reset_notification_cb xprt cb =
     (case xprt of None \<Rightarrow> (1, None) | Some t \<Rightarrow> (0, Some (t\<lparr>xprt_reset_cb := cb\<rparr>)))"

definition svc_unregister_reset_notification_cb ::
    "SVCXPRT option \<Rightarrow> nat option \<times> SVCXPRT option" where
  "svc_unregister_reset_notification_cb xprt =
     (case xprt of None \<Rightarrow> (None, None)
      | Some t \<Rightarrow> (xprt_reset_cb t, Some (t\<lparr>xprt_reset_cb := None\<rparr>)))"

text \<open>
  \<open>the_xprt\<close> and its reference count. Transports are compared by address, here a number;
  0 is the null pointer. The result says whether the transport is destroyed.
\<close>

record xprt_reg =
  the_xprt :: nat
  xprt_refcount :: int

definition xprt_register :: "nat \<Rightarrow> xprt_reg \<Rightarrow> xprt_reg" where
  "xprt_register xprt r =
     (if the_xprt r = 0 \<or> (xprt \<noteq> 0 \<and> xprt = the_xprt r)
      then r\<lparr>xprt_refcount := xprt_refcount r + 1, the_xprt := xprt\<rparr> else r)"

definition xprt_unregister :: "nat \<Rightarrow> xprt_reg \<Rightarrow> bool \<times> xprt_reg" where
  "xprt_unregister xprt r =
     (if xprt \<noteq> 0 \<and> xprt = the_xprt r then
        (if xprt_refcount r = 1 then (True, r\<lparr>xprt_refcount := 0, the_xprt := 0\<rparr>)
         else (False, r\<lparr>xprt_refcount := xprt_refcount r - 1\<rparr>))
      else (False, r))"

section \<open>The list of servers\<close>

text \<open>
  The walk over the list returns the entries it passed (the last of them is \<open>*prev\<close>), the entry
  found, and the entries behind it.
\<close>

fun svc_find_nosync :: "registered_server list \<Rightarrow> u32 \<Rightarrow> u32
    \<Rightarrow> registered_server list \<times> registered_server option \<times> registered_server list" where
  "svc_find_nosync [] prog vers = ([], None, [])"
| "svc_find_nosync (trav # rest) prog vers =
     (if srv_prog trav = prog \<and> srv_vers trav = vers then ([], Some trav, rest)
      else case svc_find_nosync rest prog vers of (prev, found, next) \<Rightarrow> (trav # prev, found, next))"

definition svc_find :: "SVCXPRT \<Rightarrow> u32 \<Rightarrow> u32 \<Rightarrow> registered_server option" where
  "svc_find xprt prog vers = fst (snd (svc_find_nosync (servers xprt) prog vers))"

text \<open>The bit that marks the program number of a callback client.\<close>

definition callback_prog :: "u32 \<Rightarrow> bool" where
  "callback_prog prog \<longleftrightarrow> prog AND 0x01000000 \<noteq> 0"

definition svc_add :: "registered_server \<Rightarrow> SVCXPRT \<Rightarrow> SVCXPRT" where
  "svc_add svc xprt =
     (let x1 = xprt\<lparr>servers := svc # servers xprt\<rparr>;
          x2 = (if srv_xdr svc \<noteq> None then x1\<lparr>num_servers := num_servers x1 + 1\<rparr>
                else x1\<lparr>num_cb_servers := num_cb_servers x1 + 1\<rparr>)
      in if num_servers x2 = 1 then x2\<lparr>svc_threads := svc_threads x2 + 1\<rparr> else x2)"

definition svc_register ::
    "svc_env \<Rightarrow> SVCXPRT \<Rightarrow> u32 \<Rightarrow> u32 \<Rightarrow> nat \<Rightarrow> (bool \<times> SVCXPRT) option" where
  "svc_register env xprt prog vers disp =
     (case svc_find xprt prog vers of
        Some svc \<Rightarrow> Some (dispatch svc = disp, xprt)
      | None \<Rightarrow>
          if \<not> entry_ok env then None
          else let svc = \<lparr>srv_xdr = None, srv_prog = prog, srv_vers = vers,
                          active = entry_junk env, dispatch = disp\<rparr> in
          if callback_prog prog then Some (True, svc_add svc xprt)
          else case xdr_init_common (open_handle env) 0 of
                 None \<Rightarrow> Some (False, xprt)
               | Some x \<Rightarrow>
                   if control_ret env < 0 then Some (False, xprt)
                   else Some (True, svc_add
                     (svc\<lparr>srv_xdr := Some (x\<lparr>x_prog := prog, x_vers := vers\<rparr>)\<rparr>)
                     (xprt\<lparr>fdset := insert (fd x) (fdset xprt),
                           max_fd := (if fd x > max_fd xprt then fd x else max_fd xprt)\<rparr>)))"

definition svc_unregister :: "SVCXPRT \<Rightarrow> u32 \<Rightarrow> u32 \<Rightarrow> SVCXPRT" where
  "svc_unregister xprt prog vers =
     (case svc_find_nosync (servers xprt) prog vers of
        (_, None, _) \<Rightarrow> xprt
      | (prev, Some found, next) \<Rightarrow>
          let x1 = xprt\<lparr>servers := prev @ next\<rparr> in
          case srv_xdr found of
            None \<Rightarrow> x1\<lparr>num_cb_servers := num_cb_servers x1 - 1\<rparr>
          | Some x \<Rightarrow>
              let x2 = (if callback_prog prog then x1 else x1\<lparr>fdset := fdset x1 - {fd x}\<rparr>)
              in x2\<lparr>num_servers := num_servers x2 - 1\<rparr>)"

section \<open>Dispatch\<close>

definition svc_dispatch ::
    "(nat \<Rightarrow> svc_req \<Rightarrow> registered_server \<Rightarrow> 'w \<Rightarrow> (registered_server \<times> 'w) option)
      \<Rightarrow> int \<Rightarrow> registered_server \<Rightarrow> 'w \<Rightarrow> (registered_server \<times> 'w) option" where
  "svc_dispatch call pid svc w = do {
     x \<leftarrow> srv_xdr svc;
     let prog = get_word (in_msg x) (RPC_OFFSET + 3);
     let vers = get_word (in_msg x) (RPC_OFFSET + 4);
     let proc = get_word (in_msg x) (RPC_OFFSET + 5);
     if get_word (in_msg x) (RPC_OFFSET + 1) \<noteq> RPC_MSG_CALL then Some (svc, w)
     else if prog \<noteq> srv_prog svc then Some (svc, w)
     else if vers \<noteq> x_vers x then Some (svc, w)
     else do {
       (svc2, w2) \<leftarrow> call (dispatch svc) \<lparr>rq_prog = prog, rq_vers = vers, rq_proc = proc\<rparr>
         (svc\<lparr>srv_xdr := Some (x\<lparr>in_next := int ((RPC_OFFSET + 6 + 4) * 4), x_op := XDR_DECODE\<rparr>),
              active := pid\<rparr>) w;
       Some (svc2\<lparr>active := 0\<rparr>, w2)
     }
   }"

text \<open>
  One ready descriptor of the server thread's select loop: the first entry with that descriptor
  reads the packet and is dispatched. A failed read aborts the process, which is also None.
\<close>

fun svc_serve_fd ::
    "(nat \<Rightarrow> svc_req \<Rightarrow> registered_server \<Rightarrow> 'w \<Rightarrow> (registered_server \<times> 'w) option)
      \<Rightarrow> int \<Rightarrow> int \<Rightarrow> read_result \<Rightarrow> registered_server list \<Rightarrow> 'w
      \<Rightarrow> (registered_server list \<times> 'w) option" where
  "svc_serve_fd call pid n r [] w = Some ([], w)"
| "svc_serve_fd call pid n r (trav # rest) w =
     (case srv_xdr trav of
        Some x \<Rightarrow>
          if fd x = n then
            (case xdr_std_read r x of (ok, x1) \<Rightarrow>
               if \<not> ok then None
               else do {
                 (t, w1) \<leftarrow> svc_dispatch call pid (trav\<lparr>srv_xdr := Some x1\<rparr>) w;
                 Some (t # rest, w1)
               })
          else do { (ts, w1) \<leftarrow> svc_serve_fd call pid n r rest w; Some (trav # ts, w1) }
      | None \<Rightarrow> do { (ts, w1) \<leftarrow> svc_serve_fd call pid n r rest w; Some (trav # ts, w1) })"

text \<open>One round of the loop: the descriptors from \<open>n\<close> on that select reports as readable.\<close>

fun svc_context_round ::
    "(nat \<Rightarrow> svc_req \<Rightarrow> registered_server \<Rightarrow> 'w \<Rightarrow> (registered_server \<times> 'w) option)
      \<Rightarrow> int \<Rightarrow> (int \<Rightarrow> read_result option) \<Rightarrow> int list \<Rightarrow> registered_server list \<Rightarrow> 'w
      \<Rightarrow> (registered_server list \<times> 'w) option" where
  "svc_context_round call pid rfds [] ss w = Some (ss, w)"
| "svc_context_round call pid rfds (n # ns) ss w =
     (case rfds n of
        None \<Rightarrow> svc_context_round call pid rfds ns ss w
      | Some r \<Rightarrow> do {
          (ss1, w1) \<leftarrow> svc_serve_fd call pid n r ss w;
          svc_context_round call pid rfds ns ss1 w1
        })"

definition svc_context ::
    "(nat \<Rightarrow> svc_req \<Rightarrow> registered_server \<Rightarrow> 'w \<Rightarrow> (registered_server \<times> 'w) option)
      \<Rightarrow> int \<Rightarrow> (int \<Rightarrow> read_result option) \<Rightarrow> SVCXPRT \<Rightarrow> 'w \<Rightarrow> (SVCXPRT \<times> 'w) option" where
  "svc_context call pid rfds xprt w = do {
     (ss, w1) \<leftarrow> svc_context_round call pid rfds [0..max_fd xprt] (servers xprt) w;
     Some (xprt\<lparr>servers := ss\<rparr>, w1)
   }"

section \<open>What a dispatch function may call\<close>

definition svc_getargs ::
    "'a xdrproc \<Rightarrow> 'a \<Rightarrow> registered_server \<Rightarrow> (bool \<times> 'a \<times> registered_server) option" where
  "svc_getargs xdr_args args serv =
     (if active serv = 0 then Some (False, args, serv)
      else do {
        x \<leftarrow> srv_xdr serv;
        let (result, a, x1) = xdr_args args x;
        let (_, x2) = xdr_std_msg_done x1;
        Some (result, a, serv\<lparr>srv_xdr := Some x2\<rparr>)
      })"

definition svc_freeargs ::
    "'a xdrproc \<Rightarrow> 'a \<Rightarrow> registered_server \<Rightarrow> (bool \<times> 'a \<times> registered_server) option" where
  "svc_freeargs xdr_args args serv =
     (if active serv = 0 then Some (False, args, serv)
      else do {
        x \<leftarrow> srv_xdr serv;
        let (result, a, x1) = xdr_args args (x\<lparr>x_op := XDR_FREE\<rparr>);
        Some (result, a, serv\<lparr>srv_xdr := Some x1\<rparr>)
      })"

text \<open>\<open>ret\<close> is what the write of the packet returns; \<open>svc_sendreply\<close> does not look at it.\<close>

definition svc_sendreply ::
    "int \<Rightarrow> 'a xdrproc \<Rightarrow> 'a \<Rightarrow> registered_server \<Rightarrow> (bool \<times> registered_server) option" where
  "svc_sendreply ret xdr_results loc serv =
     (if active serv = 0 then Some (False, serv)
      else do {
        x \<leftarrow> srv_xdr serv;
        let (ok, x1) = xdr_reply_msg_start AUTH_NONE (x\<lparr>x_op := XDR_ENCODE\<rparr>);
        if \<not> ok then Some (False, serv\<lparr>srv_xdr := Some x1\<rparr>)
        else do {
          let (ok2, _, x2) = xdr_results loc x1;
          if \<not> ok2 then Some (False, serv\<lparr>srv_xdr := Some x2\<rparr>)
          else do {
            let x3 = x2\<lparr>out_msg := set_word (out_msg x2) RPC_OFFSET (get_word (in_msg x2) RPC_OFFSET)\<rparr>;
            let (_, x4) = xdr_std_msg_send ret x3;
            Some (True, serv\<lparr>srv_xdr := Some x4\<rparr>)
          }
        }
      })"

text \<open>\<open>SVCERR_XDR_SEND\<close> with the abort of its callers.\<close>

definition svcerr_xdr_send :: "int \<Rightarrow> rpc_reply_header \<Rightarrow> XDR \<Rightarrow> XDR" where
  "svcerr_xdr_send ret reply x =
     (case xdr_and [xdr_std_msg_start RPC_MSG_REPLY, xdr_send_reply_header reply,
                    xdr_std_msg_send ret] x of
        (ok, x1) \<Rightarrow> if ok then x1 else snd (xdr_std_msg_abort x1))"

definition svcerr_reply :: "int \<Rightarrow> u32 \<Rightarrow> registered_server \<Rightarrow> registered_server option" where
  "svcerr_reply ret stat serv =
     (if active serv = 0 then Some serv
      else do {
        x \<leftarrow> srv_xdr serv;
        let reply = \<lparr>rh_stat = RPC_MSG_ACCEPTED,
                     rh_ar = \<lparr>ar_verf = verf x, ar_stat = stat, ar_low = 0, ar_high = 0\<rparr>,
                     rh_dr = \<lparr>dr_stat = 0, dr_low = 0, dr_high = 0, dr_why = 0\<rparr>\<rparr>;
        Some (serv\<lparr>srv_xdr := Some (svcerr_xdr_send ret reply x)\<rparr>)
      })"

definition svcerr_decode :: "int \<Rightarrow> registered_server \<Rightarrow> registered_server option" where
  "svcerr_decode ret serv = svcerr_reply ret RPC_GARBAGE_ARGS serv"

definition svcerr_systemerr :: "int \<Rightarrow> registered_server \<Rightarrow> registered_server option" where
  "svcerr_systemerr ret serv = svcerr_reply ret RPC_SYSTEM_ERR serv"

definition svcerr_noproc :: "int \<Rightarrow> registered_server \<Rightarrow> registered_server option" where
  "svcerr_noproc ret serv = svcerr_reply ret RPC_PROC_UNAVAIL serv"

section \<open>The registry as a map\<close>

text \<open>
  Clients of the registry rely on three laws: a registration that returns TRUE makes the key
  known with that function, one that returns FALSE or finds the key changes nothing, and an
  unregistration forgets exactly its key. The locale proves from them that any sequence of calls
  acts as the same sequence of map updates.
\<close>

datatype ('e, 'k, 'd) reg_op = Register 'e 'k 'd | Unregister 'k

fun reg_run :: "('e \<Rightarrow> 'k \<Rightarrow> 'd \<Rightarrow> 's \<Rightarrow> (bool \<times> 's) option) \<Rightarrow> ('k \<Rightarrow> 's \<Rightarrow> 's)
    \<Rightarrow> ('e, 'k, 'd) reg_op list \<Rightarrow> 's \<Rightarrow> (bool list \<times> 's) option" where
  "reg_run ins del [] s = Some ([], s)"
| "reg_run ins del (Unregister k # ops) s =
     (case reg_run ins del ops (del k s) of None \<Rightarrow> None | Some (bs, t) \<Rightarrow> Some (True # bs, t))"
| "reg_run ins del (Register e k d # ops) s =
     (case ins e k d s of None \<Rightarrow> None
      | Some (ok, s1) \<Rightarrow> (case reg_run ins del ops s1 of None \<Rightarrow> None | Some (bs, t) \<Rightarrow> Some (ok # bs, t)))"

fun map_run :: "('e, 'k, 'd) reg_op list \<Rightarrow> bool list \<Rightarrow> ('k \<rightharpoonup> 'd) \<Rightarrow> ('k \<rightharpoonup> 'd)" where
  "map_run (Unregister k # ops) (b # bs) m = map_run ops bs (m(k := None))"
| "map_run (Register e k d # ops) (b # bs) m =
     map_run ops bs (if b \<and> m k = None then m(k \<mapsto> d) else m)"
| "map_run _ _ m = m"

locale server_registry =
  fixes look :: "'s \<Rightarrow> 'k \<rightharpoonup> 'd" and good :: "'s \<Rightarrow> bool"
    and ins :: "'e \<Rightarrow> 'k \<Rightarrow> 'd \<Rightarrow> 's \<Rightarrow> (bool \<times> 's) option" and del :: "'k \<Rightarrow> 's \<Rightarrow> 's"
  assumes ins_law: "good s \<Longrightarrow> ins e k d s = Some (ok, t) \<Longrightarrow>
      good t \<and> look t = (if ok \<and> look s k = None then (look s)(k \<mapsto> d) else look s)"
    and ins_known: "good s \<Longrightarrow> ins e k d s = Some (ok, t) \<Longrightarrow> look s k = Some d' \<Longrightarrow> ok \<longleftrightarrow> d' = d"
    and del_law: "good s \<Longrightarrow> good (del k s) \<and> look (del k s) = (look s)(k := None)"
begin

lemma registered: "good s \<Longrightarrow> ins e k d s = Some (True, t) \<Longrightarrow> look t k = Some d"
  using ins_law [of s e k d True t] ins_known [of s e k d True t] by (cases "look s k") auto

lemma refused: "good s \<Longrightarrow> ins e k d s = Some (False, t) \<Longrightarrow> look t = look s"
  using ins_law [of s e k d False t] by simp

lemma other_keys: "good s \<Longrightarrow> ins e k d s = Some (ok, t) \<Longrightarrow> j \<noteq> k \<Longrightarrow> look t j = look s j"
  using ins_law [of s e k d ok t] by auto

lemma run_refines:
  "good s \<Longrightarrow> reg_run ins del ops s = Some (bs, t) \<Longrightarrow>
     good t \<and> length bs = length ops \<and> look t = map_run ops bs (look s)"
proof (induction ops arbitrary: s bs)
  case (Cons p ops)
  show ?case
  proof (cases p)
    case (Register e k d)
    obtain ok s1 bs1 where s1: "ins e k d s = Some (ok, s1)"
      "reg_run ins del ops s1 = Some (bs1, t)" "bs = ok # bs1"
      using Cons.prems(2) Register by (auto split: option.splits)
    then show ?thesis
      using Cons.IH [of s1 bs1] ins_law [OF Cons.prems(1) s1(1)] Register by auto
  next
    case (Unregister k)
    obtain bs1 where "reg_run ins del ops (del k s) = Some (bs1, t)" "bs = True # bs1"
      using Cons.prems(2) Unregister by (auto split: option.splits)
    then show ?thesis
      using Cons.IH [of "del k s" bs1] del_law [OF Cons.prems(1), of k] Unregister
      by (simp add: fun_upd_def)
  qed
qed auto

end

subsection \<open>svc.c provides it\<close>

definition srv_key :: "registered_server \<Rightarrow> u32 \<times> u32" where
  "srv_key s = (srv_prog s, srv_vers s)"

definition svc_look :: "SVCXPRT \<Rightarrow> u32 \<times> u32 \<rightharpoonup> nat" where
  "svc_look xprt k = map_option dispatch (svc_find xprt (fst k) (snd k))"

definition distinct_keys :: "SVCXPRT \<Rightarrow> bool" where
  "distinct_keys xprt \<longleftrightarrow> distinct (map srv_key (servers xprt))"

definition register_key :: "svc_env \<Rightarrow> u32 \<times> u32 \<Rightarrow> nat \<Rightarrow> SVCXPRT \<Rightarrow> (bool \<times> SVCXPRT) option" where
  "register_key env k d xprt = svc_register env xprt (fst k) (snd k) d"

definition unregister_key :: "u32 \<times> u32 \<Rightarrow> SVCXPRT \<Rightarrow> SVCXPRT" where
  "unregister_key k xprt = svc_unregister xprt (fst k) (snd k)"

lemma find_nosync_split:
  "svc_find_nosync ss p v = (prev, found, next) \<Longrightarrow>
     (p, v) \<notin> srv_key ` set prev \<and>
     (case found of None \<Rightarrow> prev = ss \<and> next = []
      | Some s \<Rightarrow> ss = prev @ s # next \<and> srv_key s = (p, v))"
  by (induction ss arbitrary: prev)
    (fastforce simp: srv_key_def split: if_splits prod.splits option.splits)+

lemma find_nosync_found:
  "svc_find_nosync ss p v = (prev, Some s, next) \<Longrightarrow>
     ss = prev @ s # next \<and> srv_key s = (p, v) \<and> (p, v) \<notin> srv_key ` set prev"
  using find_nosync_split by fastforce

lemma find_nosync_None:
  "fst (snd (svc_find_nosync ss p v)) = None \<longleftrightarrow> (p, v) \<notin> srv_key ` set ss"
  by (induction ss) (auto simp: srv_key_def split: prod.splits)

lemma find_nosync_append:
  "fst (snd (svc_find_nosync (ss @ ts) p v)) =
     (case fst (snd (svc_find_nosync ss p v)) of None \<Rightarrow> fst (snd (svc_find_nosync ts p v)) | r \<Rightarrow> r)"
  by (induction ss) (auto split: prod.splits)

lemma find_nosync_Cons:
  "fst (snd (svc_find_nosync (s # ts) p v)) =
     (if srv_key s = (p, v) then Some s else fst (snd (svc_find_nosync ts p v)))"
  by (auto simp: srv_key_def split: prod.splits)

lemma svc_add_simps [simp]:
  "servers (svc_add s x) = s # servers x" "fdset (svc_add s x) = fdset x" "max_fd (svc_add s x) = max_fd x"
  "num_servers (svc_add s x) = num_servers x + (if srv_xdr s = None then 0 else 1)"
  "num_cb_servers (svc_add s x) = num_cb_servers x + (if srv_xdr s = None then 1 else 0)"
  "svc_threads (svc_add s x) = svc_threads x + (if num_servers (svc_add s x) = 1 then 1 else 0)"
  by (simp_all add: svc_add_def Let_def)

text \<open>The three outcomes of a registration.\<close>

lemma svc_register_cases:
  assumes "svc_register env xprt prog vers d = Some (ok, t)"
  obtains s where "svc_find xprt prog vers = Some s" "ok = (dispatch s = d)" "t = xprt"
  | "svc_find xprt prog vers = None" "\<not> ok" "t = xprt" "\<not> callback_prog prog"
  | s where "svc_find xprt prog vers = None" "ok" "callback_prog prog" "t = svc_add s xprt"
      "srv_xdr s = None" "srv_key s = (prog, vers)" "dispatch s = d"
  | s x where "svc_find xprt prog vers = None" "ok" "\<not> callback_prog prog"
      "srv_xdr s = Some x" "fd x = open_handle env" "0 \<le> fd x" "x_prog x = prog" "x_vers x = vers"
      "srv_key s = (prog, vers)" "dispatch s = d"
      "t = svc_add s (xprt\<lparr>fdset := insert (fd x) (fdset xprt), max_fd := max (fd x) (max_fd xprt)\<rparr>)"
proof (cases "svc_find xprt prog vers")
  case None
  show ?thesis
  proof (cases "callback_prog prog")
    case True
    then show ?thesis
      using assms None that(3) by (auto simp: svc_register_def srv_key_def Let_def split: if_splits)
  next
    case False
    show ?thesis
    proof (cases ok)
      case ok: True
      let ?x = "calloc_xdr\<lparr>fd := open_handle env, is_client := 0, x_prog := prog, x_vers := vers\<rparr>"
      let ?s = "\<lparr>srv_xdr = Some ?x, srv_prog = prog, srv_vers = vers, active = entry_junk env,
          dispatch = d\<rparr>"
      have "0 \<le> open_handle env" and "t = svc_add ?s (xprt\<lparr>fdset := insert (fd ?x) (fdset xprt),
          max_fd := max (fd ?x) (max_fd xprt)\<rparr>)"
        using assms None False ok
        by (auto simp: svc_register_def Let_def xdr_init_common_def max_def split: if_splits)
      then show ?thesis
        using None False ok by (intro that(4) [of ?s ?x]) (auto simp: srv_key_def)
    next
      case False
      then show ?thesis
        using assms None \<open>\<not> callback_prog prog\<close> that(2)
        by (auto simp: svc_register_def Let_def split: if_splits option.splits)
    qed
  qed
next
  case (Some s)
  then show ?thesis using assms by (intro that(1) [of s]) (auto simp: svc_register_def)
qed

lemma look_svc_add:
  "svc_find xprt p v = None \<Longrightarrow> srv_key s = (p, v) \<Longrightarrow> servers x = servers xprt \<Longrightarrow>
     svc_look (svc_add s x) = (svc_look xprt)((p, v) \<mapsto> dispatch s)"
  by (rule ext) (auto simp: svc_look_def svc_find_def find_nosync_Cons simp del: svc_find_nosync.simps)

lemma look_svc_unregister:
  assumes "distinct_keys xprt"
  shows "svc_look (svc_unregister xprt p v) = (svc_look xprt)((p, v) := None)"
    and "distinct_keys (svc_unregister xprt p v)"
proof -
  obtain prev found rest where f: "svc_find_nosync (servers xprt) p v = (prev, found, rest)"
    by (cases "svc_find_nosync (servers xprt) p v")
  show "svc_look (svc_unregister xprt p v) = (svc_look xprt)((p, v) := None)"
  proof (cases found)
    case None
    then have "svc_find xprt p v = None" using f by (simp add: svc_find_def)
    then show ?thesis using f None by (auto simp: svc_unregister_def svc_look_def)
  next
    case (Some s)
    note ss = find_nosync_found [OF f [unfolded Some]]
    have "servers (svc_unregister xprt p v) = prev @ rest"
      using f Some by (auto simp: svc_unregister_def Let_def split: option.splits)
    moreover have "(p, v) \<notin> srv_key ` set (prev @ rest)"
      using ss assms by (auto simp: distinct_keys_def)
    ultimately have "svc_find (svc_unregister xprt p v) p' v'
        = (if (p', v') = (p, v) then None else svc_find xprt p' v')" for p' v'
      using ss find_nosync_None [of "prev @ rest" p v]
      by (auto simp: svc_find_def find_nosync_append find_nosync_Cons simp del: svc_find_nosync.simps
          split: option.splits)
    then show ?thesis by (auto simp: svc_look_def)
  qed
  show "distinct_keys (svc_unregister xprt p v)"
    using assms f find_nosync_split [OF f]
    by (auto simp: distinct_keys_def svc_unregister_def Let_def split: option.splits)
qed

interpretation svc: server_registry svc_look distinct_keys register_key unregister_key
proof unfold_locales
  fix s t env k d ok
  assume s: "distinct_keys s" and r: "register_key env k d s = Some (ok, t)"
  have none: "k \<notin> srv_key ` set (servers s)" "svc_look s k = None"
    if "svc_find s (fst k) (snd k) = None"
    using that find_nosync_None [of "servers s" "fst k" "snd k"]
    by (simp_all add: svc_find_def svc_look_def)
  from r [unfolded register_key_def]
  show "distinct_keys t \<and>
      svc_look t = (if ok \<and> svc_look s k = None then (svc_look s)(k \<mapsto> d) else svc_look s)"
  proof (cases rule: svc_register_cases)
    case (1 srv)
    then show ?thesis using s by (auto simp: svc_look_def)
  next
    case (3 srv)
    then show ?thesis
      using s none look_svc_add [of s "fst k" "snd k" srv s] by (auto simp: distinct_keys_def)
  next
    case (4 srv x)
    then show ?thesis
      using s none look_svc_add [of s "fst k" "snd k" srv
          "s\<lparr>fdset := insert (fd x) (fdset s), max_fd := max (fd x) (max_fd s)\<rparr>"]
      by (auto simp: distinct_keys_def)
  qed (use s in auto)
next
  fix s t env k d ok d'
  assume "distinct_keys s" "register_key env k d s = Some (ok, t)" "svc_look s k = Some d'"
  then show "ok \<longleftrightarrow> d' = d"
    by (auto simp: register_key_def svc_register_def svc_look_def)
next
  fix s k
  assume "distinct_keys s"
  then show "distinct_keys (unregister_key k s) \<and> svc_look (unregister_key k s) = (svc_look s)(k := None)"
    using look_svc_unregister [of s "fst k" "snd k"] by (simp add: unregister_key_def)
qed

text \<open>
  C7: the list of servers is a map. Whatever registrations and unregistrations run on a new
  transport, and whichever of them fail, \<open>svc_find\<close> afterwards finds exactly the servers that the
  same sequence of map updates leaves, with the dispatch function of the first registration.
\<close>

theorem registry_refines_map:
  assumes "reg_run register_key unregister_key ops calloc_xprt = Some (results, xprt)"
  shows "svc_look xprt = map_run ops results Map.empty"
proof -
  have "distinct_keys calloc_xprt" "svc_look calloc_xprt = Map.empty"
    by (auto simp: distinct_keys_def calloc_xprt_def svc_look_def svc_find_def)
  then show ?thesis using svc.run_refines [OF _ assms] by simp
qed

definition good_env :: svc_env where
  "good_env = \<lparr>entry_ok = True, entry_junk = 0, open_handle = 7, control_ret = 0\<rparr>"

theorem registry_refines_map_witness:
  "\<exists>xprt. reg_run register_key unregister_key
      [Register good_env (0x3000008C, 1) 40, Register good_env (0x3100008C, 1) 41,
       Register good_env (0x3000008C, 1) 42, Unregister (0x3000008C, 1)] calloc_xprt
      = Some ([True, True, False, True], xprt)
    \<and> svc_look xprt = [(0x3100008C, 1) \<mapsto> 41]"
proof -
  let ?ops = "[Register good_env (0x3000008C, 1) 40, Register good_env (0x3100008C, 1) 41,
       Register good_env (0x3000008C, 1) 42, Unregister (0x3000008C, 1)]"
  have "\<exists>xprt. reg_run register_key unregister_key ?ops calloc_xprt = Some ([True, True, False, True], xprt)"
    by (simp add: register_key_def unregister_key_def svc_register_def svc_find_def callback_prog_def
        good_env_def calloc_xprt_def svc_add_def xdr_init_common_def calloc_xdr_def)
  then show ?thesis using registry_refines_map [of ?ops] by (fastforce simp: fun_upd_def)
qed

section \<open>The transport invariant\<close>

definition srv_fds :: "registered_server list \<Rightarrow> int list" where
  "srv_fds ss = map fd (List.map_filter srv_xdr ss)"

lemma srv_fds_simps [simp]:
  "srv_fds [] = []" "srv_fds (ss @ ts) = srv_fds ss @ srv_fds ts"
  "srv_fds (s # ss) = (case srv_xdr s of None \<Rightarrow> srv_fds ss | Some x \<Rightarrow> fd x # srv_fds ss)"
  by (auto simp: srv_fds_def map_filter_def split: option.splits)

definition wf_xprt :: "SVCXPRT \<Rightarrow> bool" where
  "wf_xprt xprt \<longleftrightarrow> distinct_keys xprt \<and> distinct (srv_fds (servers xprt))
     \<and> fdset xprt = set (srv_fds (servers xprt))
     \<and> (\<forall>n \<in> fdset xprt. 0 \<le> n \<and> n \<le> max_fd xprt)
     \<and> num_servers xprt = int (length (srv_fds (servers xprt)))
     \<and> num_cb_servers xprt = int (length (servers xprt)) - num_servers xprt
     \<and> (\<forall>s \<in> set (servers xprt). (srv_xdr s = None) = callback_prog (srv_prog s))"

text \<open>Transports that calls can build, with the kernel handing out descriptors not in use.\<close>

inductive reachable_xprt :: "SVCXPRT \<Rightarrow> bool" where
  create: "reachable_xprt calloc_xprt"
| register: "reachable_xprt xprt \<Longrightarrow> open_handle env \<notin> fdset xprt
    \<Longrightarrow> svc_register env xprt prog vers d = Some (ok, t) \<Longrightarrow> reachable_xprt t"
| unregister: "reachable_xprt xprt \<Longrightarrow> reachable_xprt (svc_unregister xprt prog vers)"

lemma register_wf:
  assumes "wf_xprt xprt" "open_handle env \<notin> fdset xprt"
    and "svc_register env xprt prog vers d = Some (ok, t)"
  shows "wf_xprt t"
  using assms(3)
proof (cases rule: svc_register_cases)
  case (3 s)
  then show ?thesis
    using assms(1) find_nosync_None [of "servers xprt" prog vers]
    by (auto simp: wf_xprt_def distinct_keys_def svc_find_def srv_key_def le_max_iff_disj)
next
  case (4 s x)
  then show ?thesis
    using assms(1,2) find_nosync_None [of "servers xprt" prog vers]
    by (auto simp: wf_xprt_def distinct_keys_def svc_find_def srv_key_def le_max_iff_disj)
qed (use assms(1) in auto)

lemma unregister_wf:
  assumes "wf_xprt xprt"
  shows "wf_xprt (svc_unregister xprt prog vers)"
proof -
  obtain prev found rest where f: "svc_find_nosync (servers xprt) prog vers = (prev, found, rest)"
    by (cases "svc_find_nosync (servers xprt) prog vers")
  show ?thesis
  proof (cases found)
    case None
    then show ?thesis using f assms by (simp add: svc_unregister_def)
  next
    case (Some s)
    note ss = find_nosync_found [OF f [unfolded Some]]
    have "distinct_keys (svc_unregister xprt prog vers)"
      using look_svc_unregister(2) assms by (simp add: wf_xprt_def)
    moreover have "(srv_xdr s = None) = callback_prog prog"
      using ss assms by (auto simp: wf_xprt_def srv_key_def)
    ultimately show ?thesis
      using ss assms f Some
      by (auto simp: wf_xprt_def svc_unregister_def Let_def split: option.splits)
  qed
qed

text \<open>
  C9: the transport's bookkeeping. On every transport that registrations and unregistrations
  build, the keys are distinct, the select set holds exactly the descriptors of the real servers,
  all of them in range, the two counters count the real servers and the callback clients, and an
  entry has a handle of its own exactly when its program number lacks the callback bit.
\<close>

theorem transport_invariant: "reachable_xprt xprt \<Longrightarrow> wf_xprt xprt"
proof (induction rule: reachable_xprt.induct)
  case create
  show ?case by (simp add: wf_xprt_def distinct_keys_def calloc_xprt_def)
next
  case (register xprt env prog vers d ok t)
  then show ?case using register_wf by blast
next
  case (unregister xprt prog vers)
  then show ?case using unregister_wf by blast
qed

theorem transport_invariant_witness:
  "wf_xprt (snd (the (svc_register good_env calloc_xprt 0x3000008C 1 40)))"
proof -
  have "\<exists>t. svc_register good_env calloc_xprt 0x3000008C 1 40 = Some (True, t)"
    by (simp add: svc_register_def svc_find_def callback_prog_def good_env_def calloc_xprt_def
        xdr_init_common_def calloc_xdr_def)
  then obtain t where t: "svc_register good_env calloc_xprt 0x3000008C 1 40 = Some (True, t)" ..
  have "open_handle good_env \<notin> fdset calloc_xprt" by (simp add: calloc_xprt_def)
  from transport_invariant [OF reachable_xprt.register [OF reachable_xprt.create this t]]
  show ?thesis using t by simp
qed

text \<open>
  A callback client starts a second server thread. The thread is created whenever
  \<open>num_servers\<close> is 1 after a registration, so registering a callback client while exactly one
  real server exists starts another thread although no server was added.
\<close>

theorem callback_client_starts_thread:
  assumes "svc_find xprt prog vers = None" and "callback_prog prog" and "entry_ok env"
    and "num_servers xprt = 1"
  shows "\<exists>t. svc_register env xprt prog vers d = Some (True, t)
    \<and> num_servers t = 1 \<and> svc_threads t = svc_threads xprt + 1"
  using assms by (simp add: svc_register_def)

theorem callback_client_starts_thread_witness:
  "\<exists>x t. svc_register good_env calloc_xprt 0x3000008C 1 40 = Some (True, x)
    \<and> svc_register good_env x 0x3100008C 1 41 = Some (True, t)
    \<and> num_servers t = 1 \<and> svc_threads t = 2"
proof -
  have "\<exists>x. svc_register good_env calloc_xprt 0x3000008C 1 40 = Some (True, x)
      \<and> num_servers x = 1 \<and> svc_threads x = 1 \<and> svc_find x 0x3100008C 1 = None"
    by (simp add: svc_register_def svc_find_def callback_prog_def good_env_def calloc_xprt_def
        xdr_init_common_def calloc_xdr_def)
  then obtain x where x: "svc_register good_env calloc_xprt 0x3000008C 1 40 = Some (True, x)"
    "num_servers x = 1" "svc_threads x = 1" "svc_find x 0x3100008C 1 = None" by blast
  have "callback_prog 0x3100008C" "entry_ok good_env"
    by (simp_all add: callback_prog_def good_env_def)
  from callback_client_starts_thread [OF x(4) this x(2), of 41] show ?thesis using x by auto
qed

section \<open>A packet in the input buffer\<close>

lemma store_words:
  "i < length ws \<Longrightarrow> get_word (store_bytes f (4 * j) (words ws)) (j + i) = ws ! i"
proof (induction ws arbitrary: f i j)
  case (Cons w ws)
  have split: "store_bytes f (4 * j) (words (w # ws))
      = store_bytes (store_bytes f (4 * j) (be32 w)) (4 * Suc j) (words ws)"
    by (simp add: store_bytes_append add.commute)
  show ?case
  proof (cases i)
    case 0
    let ?g = "store_bytes f (4 * j) (be32 w)"
    have "get_word (store_bytes ?g (4 * Suc j) (words ws)) j = get_word ?g j"
      by (simp add: get_word_def)
    moreover have "get_word ?g j = w"
      by (simp add: get_word_def be32_def numeral_3_eq_3)
    ultimately show ?thesis using 0 split by simp
  next
    case (Suc k)
    then have "get_word (store_bytes (store_bytes f (4 * j) (be32 w)) (4 * Suc j) (words ws)) (Suc j + k)
        = ws ! k"
      using Cons by (intro Cons.IH) simp
    then show ?thesis using Suc split by simp
  qed
qed simp

lemma get_word_packet:
  "i < length ws \<Longrightarrow> get_word (store_bytes f 0 (words ws @ b)) i = ws ! i"
proof -
  assume i: "i < length ws"
  have "get_word (store_bytes (store_bytes f 0 (words ws)) (4 * length ws) b) i
      = get_word (store_bytes f 0 (words ws)) i"
    using i by (simp add: get_word_def)
  then show ?thesis using store_words [OF i, of f 0] by (simp add: store_bytes_append)
qed

lemma xdr_std_read_packet:
  "8 \<le> length b \<Longrightarrow> int (length b) \<le> RPCROUTER_MSGSIZE_MAX \<Longrightarrow>
     xdr_std_read (ReadData b) x
       = (True, x\<lparr>in_len := int (length b), in_msg := store_bytes (in_msg x) 0 b, in_next := 8\<rparr>)"
  by (simp add: xdr_std_read_def r_read_def Let_def RPC_OFFSET_def)

lemma load_tail: "load_bytes (store_bytes f i (a @ b)) (i + length a) (length b) = b"
  by (simp add: store_bytes_append)

lemma packet_tail_at:
  assumes "in_msg x = store_bytes f 0 (a @ b)" "in_next x = int (length a)"
    and "in_len x = int (length (a @ b))"
  shows "at_in b x"
  using assms load_tail [of f 0 a b] by (simp add: at_in_def)

text \<open>What the dispatch function finds: the request, and the handle standing at the arguments.\<close>

definition at_args :: "byte list \<Rightarrow> u32 \<Rightarrow> registered_server \<Rightarrow> bool" where
  "at_args args i s \<longleftrightarrow> active s \<noteq> 0 \<and> (\<exists>x. srv_xdr s = Some x \<and> ready_in x \<and> at_in args x
     \<and> in_next x = 40 \<and> in_len x = 40 + int (length args) \<and> get_word (in_msg x) 0 = i)"

lemma call_words_nth [simp]:
  "call_words i p v c ! 0 = i" "call_words i p v c ! 1 = RPC_MSG_CALL"
  "call_words i p v c ! Suc 0 = RPC_MSG_CALL"
  "call_words i p v c ! 3 = p" "call_words i p v c ! 4 = v" "call_words i p v c ! 5 = c"
  "length (call_words i p v c) = 10"
  by (simp_all add: call_words_def)

lemma dispatch_packet:
  assumes x: "srv_xdr svc = Some x" "\<not> fault x" "x_vers x = vers" "srv_prog svc = prog"
    and b: "b = words (call_words i prog vers proc) @ args" "int (length b) \<le> RPCROUTER_MSGSIZE_MAX"
    and r: "xdr_std_read (ReadData b) x = (ok, x1)" and pid: "pid \<noteq> 0"
  shows "ok \<and> (\<exists>s. svc_dispatch call pid (svc\<lparr>srv_xdr := Some x1\<rparr>) w =
      map_option (\<lambda>(t, v). (t\<lparr>active := 0\<rparr>, v))
        (call (dispatch svc) \<lparr>rq_prog = prog, rq_vers = vers, rq_proc = proc\<rparr> s w)
    \<and> at_args args i s \<and> s = svc\<lparr>srv_xdr := srv_xdr s, active := pid\<rparr>
    \<and> (\<exists>y. srv_xdr s = Some y \<and> y = x\<lparr>in_len := in_len y, in_msg := in_msg y, in_next := 40,
         x_op := XDR_DECODE\<rparr>))"
proof -
  have x1: "ok" "x1 = x\<lparr>in_len := int (length b), in_msg := store_bytes (in_msg x) 0 b, in_next := 8\<rparr>"
    using xdr_std_read_packet [of b x] r b by simp_all
  have w: "get_word (in_msg x1) k = call_words i prog vers proc ! k" if "k < 10" for k
    using x1 b get_word_packet [of k "call_words i prog vers proc" "in_msg x" args] that by simp
  let ?y = "x1\<lparr>in_next := 40, x_op := XDR_DECODE\<rparr>"
  let ?s = "svc\<lparr>srv_xdr := Some ?y, active := pid\<rparr>"
  have "at_in args ?y"
    by (rule packet_tail_at [of _ "in_msg x" "words (call_words i prog vers proc)"])
      (use x1 b in simp_all)
  then have "at_args args i ?s"
    using w [of 0] pid x x1 b unfolding at_args_def
    by (intro conjI exI [of _ ?y]) (auto simp: ready_in_def RPCROUTER_MSGSIZE_MAX_def)
  moreover have "svc_dispatch call pid (svc\<lparr>srv_xdr := Some x1\<rparr>) w =
      map_option (\<lambda>(t, v). (t\<lparr>active := 0\<rparr>, v))
        (call (dispatch svc) \<lparr>rq_prog = prog, rq_vers = vers, rq_proc = proc\<rparr> ?s w)"
    using w [of 1] w [of 3] w [of 4] w [of 5] x x1
    by (auto simp: svc_dispatch_def RPC_OFFSET_def map_option_case split: option.splits)
  ultimately show ?thesis
    using x1 by (intro conjI exI [of _ ?s]) auto
qed

section \<open>The three service calls of a dispatch function\<close>

lemma load_after:
  "length b \<le> j \<Longrightarrow> load_bytes (store_bytes f 0 b) j n = load_bytes f j n"
  by (rule load_bytes_cong) simp

lemma packet_set_xid:
  assumes "packet x = be32 a @ rest"
  shows "packet (x\<lparr>out_msg := set_word (out_msg x) 0 b\<rparr>) = be32 b @ rest"
proof -
  let ?n = "length rest"
  have "length (packet x) = length (be32 a @ rest)" by (simp only: assms)
  then have n: "nat (out_next x) = 4 + ?n" by (simp add: packet_def)
  have "load_bytes (out_msg x) 4 ?n = rest"
    using load_bytes_appendD(2) [of "out_msg x" 0 "be32 a" rest] assms n by (simp add: packet_def)
  then have "load_bytes (store_bytes (out_msg x) 0 (be32 b)) 4 ?n = rest"
    using load_after [of "be32 b" 4 "out_msg x" ?n] by simp
  then show ?thesis
    using load_store_bytes [of "out_msg x" 0 "be32 b"] n
    by (simp add: packet_def set_word_def load_bytes_add)
qed

lemma reply_msg_start:
  assumes "xdr_reply_msg_start AUTH_NONE x = (ok, y)"
  shows "ok" and "packet y = words [xid x, RPC_MSG_REPLY, 0, 0, 0, 0]" and "out_next y = 24"
    and "y = x\<lparr>out_next := 24, out_msg := out_msg y\<rparr>"
proof -
  obtain y1 where 1: "xdr_std_msg_start RPC_MSG_REPLY x = (True, y1)"
    by (cases "xdr_std_msg_start RPC_MSG_REPLY x") (auto dest: msg_start(1))
  note s = msg_start [OF 1]
  let ?ps = "[xdr_std_send_int32 RPC_MSG_ACCEPTED, xdr_send_auth AUTH_NONE,
      xdr_std_send_int32 RPC_ACCEPT_SUCCESS]"
  have auth: "sends (xdr_send_auth AUTH_NONE) (words [0, 0])"
    using send_auth_empty [of AUTH_NONE] by (simp add: AUTH_NONE_def)
  have ps: "sends (xdr_and ?ps) (be32 RPC_MSG_ACCEPTED @ words [0, 0] @ be32 RPC_ACCEPT_SUCCESS)"
    (is "sends _ ?b")
    by (intro sends_Cons sends_last sends_word auth)
  have 8: "out_next y1 = 8" by (subst s(4)) simp
  then have run: "xdr_and ?ps y1 = (True, put ?b y1)"
    using sends_run [OF ps s(2)] by (simp add: RPCROUTER_MSGSIZE_MAX_def)
  then have y: "ok" "y = put ?b y1"
    using assms
    by (simp_all only: xdr_reply_msg_start_def xdr_and.simps(2) [of "xdr_std_msg_start RPC_MSG_REPLY"]
        1 prod.case if_True prod.inject)
  show "ok" by (fact y)
  have "xid y1 = xid x" using s(5) by (simp add: rpc_consts)
  then show "packet y = words [xid x, RPC_MSG_REPLY, 0, 0, 0, 0]"
    using y s 8 by (simp add: packet_put rpc_consts)
  show "out_next y = 24" using y 8 by simp
  show "y = x\<lparr>out_next := 24, out_msg := out_msg y\<rparr>"
  proof -
    obtain m where "y1 = x\<lparr>out_next := 8, out_msg := m\<rparr>"
      using s(4) \<open>xid y1 = xid x\<close> by (metis xdr_struct.surjective xdr_struct.update_convs(6)
          xdr_struct.select_convs(6))
    then show ?thesis using y(2) by (simp add: put_def)
  qed
qed

lemma written_same: "out_same x y \<Longrightarrow> written y = written x"
  by (cases x, cases y) (simp add: out_same_def)

lemma live_same: "out_same x y \<Longrightarrow> live y = live x"
  by (cases x, cases y) (simp add: out_same_def)

lemma in_msg_same: "out_same x y \<Longrightarrow> in_msg y = in_msg x"
  by (cases x, cases y) (simp add: out_same_def)

context xdr_codec
begin

lemma getargs:
  assumes "at_args (enc v) i s" "wf v" "\<And>x. srv_xdr s = Some x \<Longrightarrow> all_mallocs x"
  obtains x y where "srv_xdr s = Some x"
    and "svc_getargs proc zero s = Some (True, v, s\<lparr>srv_xdr := Some y\<rparr>)"
    and "y = adv (length (enc v)) (blk v) x" and "in_next y = in_len y"
proof -
  obtain x where x: "srv_xdr s = Some x" "ready_in x" "at_in (enc v) x" "in_next x = 40"
      "in_len x = 40 + int (length (enc v))" "active s \<noteq> 0"
    using assms(1) by (auto simp: at_args_def)
  have "proc zero x = (True, v, adv (length (enc v)) (blk v) x)"
    by (rule mdec_run [OF dec_law [OF assms(2) refl] x(2) assms(3) [OF x(1)] x(3)])
  then show ?thesis
    using x by (intro that [of x "adv (length (enc v)) (blk v) x"])
      (simp_all add: svc_getargs_def xdr_std_msg_done_def)
qed

lemma freeargs:
  assumes "wf v" "srv_xdr s = Some x" "active s \<noteq> 0"
  shows "\<exists>w. svc_freeargs proc v s
    = Some (True, w, s\<lparr>srv_xdr := Some (x\<lparr>x_op := XDR_FREE, live := live x - int (blk v)\<rparr>)\<rparr>)"
proof -
  obtain w where "proc v (x\<lparr>x_op := XDR_FREE\<rparr>)
      = (True, w, (x\<lparr>x_op := XDR_FREE\<rparr>)\<lparr>live := live (x\<lparr>x_op := XDR_FREE\<rparr>) - int (blk v)\<rparr>)"
    by (rule mfree_run [OF free_law [OF assms(1)], of "x\<lparr>x_op := XDR_FREE\<rparr>"]) simp_all
  then show ?thesis using assms by (simp add: svc_freeargs_def)
qed

lemma sendreply:
  assumes "wf v" "srv_xdr s = Some x" "\<not> fault x" "active s \<noteq> 0"
  shows "\<exists>y. svc_sendreply ret proc v s
      = Some (24 + int (length (enc v)) \<le> RPCROUTER_MSGSIZE_MAX, s\<lparr>srv_xdr := Some y\<rparr>)
    \<and> written y = written x @ (if 24 + int (length (enc v)) \<le> RPCROUTER_MSGSIZE_MAX
        then [words [get_word (in_msg x) 0, RPC_MSG_REPLY, 0, 0, 0, 0] @ enc v] else [])
    \<and> live y = live x"
proof -
  let ?x = "x\<lparr>x_op := XDR_ENCODE\<rparr>"
  obtain ok x1 where 1: "xdr_reply_msg_start AUTH_NONE ?x = (ok, x1)"
    by (cases "xdr_reply_msg_start AUTH_NONE ?x")
  note st = reply_msg_start [OF 1]
  have same: "x_op x1 = XDR_ENCODE" "fault x1 = fault x" "written x1 = written x" "in_msg x1 = in_msg x"
    "live x1 = live x"
    by (subst st(4); simp)+
  then have ready: "ready_out x1"
    using st(3) assms(3) by (simp add: ready_out_def RPCROUTER_MSGSIZE_MAX_def)
  note run = svc_sendreply_def assms 1 st(1)
  show ?thesis
  proof (cases "24 + int (length (enc v)) \<le> RPCROUTER_MSGSIZE_MAX")
    case True
    let ?y = "put (enc v) x1"
    let ?z = "?y\<lparr>out_msg := set_word (out_msg ?y) 0 (get_word (in_msg x) 0)\<rparr>"
    have "proc v x1 = (True, v, ?y)"
      using encode [OF assms(1) ready] True st(3) by simp
    moreover have "in_msg ?y = in_msg x" using same by (simp add: put_def)
    moreover have "packet ?y = be32 (xid x) @ words [RPC_MSG_REPLY, 0, 0, 0, 0] @ enc v"
      using st(2,3) by (simp add: packet_put)
    then have "load_bytes (out_msg ?z) 0 (nat (out_next ?z))
        = words [get_word (in_msg x) 0, RPC_MSG_REPLY, 0, 0, 0, 0] @ enc v"
      using packet_set_xid [of ?y "xid x" _ "get_word (in_msg x) 0"] by (simp add: packet_def)
    moreover have "written ?y = written x" "live ?y = live x" using same by (simp_all add: put_def)
    ultimately show ?thesis
      using True
      by (simp add: run xdr_std_msg_send_def RPC_OFFSET_def) (intro exI conjI, rule refl, simp_all)
  next
    case False
    obtain y where "proc v x1 = (False, v, y)" "out_same x1 y"
      by (rule menc_full [OF enc_law [OF assms(1)] ready]) (use False st(3) in simp_all)
    then show ?thesis
      using False written_same [of x1 y] live_same [of x1 y] same by (simp add: run) (intro exI conjI, rule refl, simp_all)
  qed
qed

end

text \<open>
  A served procedure: codecs of its arguments and of its results, and what the stub of the
  dispatch function gets from the three calls in turn. Nothing stays allocated for the arguments.
\<close>

locale served_procedure = args: xdr_codec aproc aenc awf ablk azero + rets: xdr_codec rproc renc rwf rblk rzero
  for aproc :: "'a xdrproc" and aenc awf ablk azero
    and rproc :: "'r xdrproc" and renc rwf rblk rzero

context served_procedure
begin

lemma serve:
  assumes s: "at_args (aenc v) i s" "srv_xdr s = Some x" "all_mallocs x" and v: "awf v"
    and r: "rwf res" "24 + int (length (renc res)) \<le> RPCROUTER_MSGSIZE_MAX"
  obtains s1 y z u where "svc_getargs aproc azero s = Some (True, v, s1)" "active s1 \<noteq> 0"
    and "svc_sendreply ret rproc res s1 = Some (True, s\<lparr>srv_xdr := Some y\<rparr>)"
    and "svc_freeargs aproc v (s\<lparr>srv_xdr := Some y\<rparr>) = Some (True, u, s\<lparr>srv_xdr := Some z\<rparr>)"
    and "written z = written x @ [words [i, RPC_MSG_REPLY, 0, 0, 0, 0] @ renc res]"
    and "live z = live x" "x_op z = XDR_FREE"
proof -
  have act: "active s \<noteq> 0" and xid: "get_word (in_msg x) 0 = i" and fa: "\<not> fault x"
    using s(1,2) by (auto simp: at_args_def ready_in_def)
  let ?x1 = "adv (length (aenc v)) (ablk v) x"
  let ?s1 = "s\<lparr>srv_xdr := Some ?x1\<rparr>"
  have got: "svc_getargs aproc azero s = Some (True, v, ?s1)"
    using args.getargs [OF s(1) v] s(2,3) by fastforce
  obtain y where y: "svc_sendreply ret rproc res ?s1 = Some (True, ?s1\<lparr>srv_xdr := Some y\<rparr>)"
    "written y = written x @ [words [i, RPC_MSG_REPLY, 0, 0, 0, 0] @ renc res]" "live y = live ?x1"
    using rets.sendreply [OF r(1), of ?s1 ?x1 ret] act fa r(2) xid by (auto simp: adv_def)
  let ?s2 = "s\<lparr>srv_xdr := Some y\<rparr>"
  obtain u where "svc_freeargs aproc v ?s2
      = Some (True, u, ?s2\<lparr>srv_xdr := Some (y\<lparr>x_op := XDR_FREE, live := live y - int (ablk v)\<rparr>)\<rparr>)"
    using args.freeargs [OF v, of ?s2 y] act by auto
  then show ?thesis
    using that [of ?s1 y u "y\<lparr>x_op := XDR_FREE, live := live y - int (ablk v)\<rparr>"] got y act
    by (simp add: adv_def)
qed

lemma free_result:
  "rwf res \<Longrightarrow> \<exists>w. rproc res (x\<lparr>x_op := XDR_FREE\<rparr>)
      = (True, w, x\<lparr>x_op := XDR_FREE, live := live x - int (rblk res)\<rparr>)"
  by (rule mfree_run [OF rets.free_law, of res "x\<lparr>x_op := XDR_FREE\<rparr>"]) auto

end

text \<open>An error reply: the words of the header, with the XID of the handle.\<close>

lemma svcerr_xdr_send:
  assumes h: "reply_of h = Some r" "oa_length (ar_verf (rh_ar h)) = 0"
  shows "written (svcerr_xdr_send ret h x) = written x
    @ [words ([xid x, RPC_MSG_REPLY] @ reply_words (oa_flavor (ar_verf (rh_ar h))) r)]
    \<and> live (svcerr_xdr_send ret h x) = live x"
proof -
  obtain y where 1: "xdr_std_msg_start RPC_MSG_REPLY x = (True, y)"
    by (cases "xdr_std_msg_start RPC_MSG_REPLY x") (auto dest: msg_start(1))
  note s = msg_start [OF 1]
  let ?ws = "reply_words (oa_flavor (ar_verf (rh_ar h))) r"
  have y: "out_next y = 8" "written y = written x" "live y = live x" by (subst s(4); simp)+
  have "length ?ws \<le> 6" by (cases r) auto
  then have run: "xdr_send_reply_header h y = (True, put (words ?ws) y)"
    using sends_run [OF send_reply_header [OF h] s(2)] y by (simp add: RPCROUTER_MSGSIZE_MAX_def)
  have "load_bytes (out_msg (put (words ?ws) y)) 0 (nat (out_next (put (words ?ws) y)))
      = words ([xid x, RPC_MSG_REPLY] @ ?ws)"
    using packet_put [of y "words ?ws"] s y by (simp add: packet_def rpc_consts)
  moreover have "written (put (words ?ws) y) = written x" "live (put (words ?ws) y) = live x"
    using y by (simp_all add: put_def)
  ultimately show ?thesis
    by (auto simp: svcerr_xdr_send_def 1 run xdr_std_msg_send_def xdr_std_msg_abort_def)
qed

lemma svcerr_reply_written:
  assumes "srv_xdr s = Some x" "active s \<noteq> 0" "oa_length (verf x) = 0" "stat \<in> plain_stats"
  shows "\<exists>y. svcerr_reply ret stat s = Some (s\<lparr>srv_xdr := Some y\<rparr>)
    \<and> written y = written x @ [words [xid x, RPC_MSG_REPLY, RPC_MSG_ACCEPTED, oa_flavor (verf x), 0, stat]]
    \<and> live y = live x"
proof -
  let ?h = "\<lparr>rh_stat = RPC_MSG_ACCEPTED,
      rh_ar = \<lparr>ar_verf = verf x, ar_stat = stat, ar_low = 0, ar_high = 0\<rparr>,
      rh_dr = \<lparr>dr_stat = 0, dr_low = 0, dr_high = 0, dr_why = 0\<rparr>\<rparr>"
  have "reply_of ?h = Some (Accepted stat)"
    using assms(4) by (simp add: reply_of_def plain_stats_mismatch)
  from svcerr_xdr_send [OF this, of ret x] assms show ?thesis
    by (simp add: svcerr_reply_def) (intro exI conjI, rule refl, simp_all)
qed

section \<open>Properties of dispatch and replies\<close>

text \<open>
  A call reaches its function. When a server that was registered for a program and version
  reads a call packet for them, \<open>svc_dispatch\<close> runs the server's dispatch function with the
  procedure of the packet, on a handle in decode mode that stands exactly at the argument bytes
  and knows the XID of the call; afterwards the entry is inactive again.
\<close>

theorem call_reaches_dispatch_function:
  assumes "srv_xdr svc = Some x" and "\<not> fault x" and "x_vers x = vers" and "srv_prog svc = prog"
    and "b = words (call_words i prog vers proc) @ args" and "int (length b) \<le> RPCROUTER_MSGSIZE_MAX"
    and "xdr_std_read (ReadData b) x = (ok, x1)" and "pid \<noteq> 0"
  shows "ok \<and> (\<exists>s. svc_dispatch call pid (svc\<lparr>srv_xdr := Some x1\<rparr>) w =
      map_option (\<lambda>(t, v). (t\<lparr>active := 0\<rparr>, v))
        (call (dispatch svc) \<lparr>rq_prog = prog, rq_vers = vers, rq_proc = proc\<rparr> s w)
    \<and> at_args args i s)"
  using dispatch_packet [OF assms, of call w] by (elim conjE exE) (intro conjI exI, assumption+)

definition idle_server :: registered_server where
  "idle_server = \<lparr>srv_xdr = Some (calloc_xdr\<lparr>fd := 7, x_prog := 0x3000008C, x_vers := 1\<rparr>),
     srv_prog = 0x3000008C, srv_vers = 1, active = 0, dispatch = 40\<rparr>"

theorem call_reaches_dispatch_function_witness:
  "\<exists>x1 s. xdr_std_read (ReadData (words (call_words 9 0x3000008C 1 3) @ be32 77)) (the (srv_xdr idle_server))
      = (True, x1)
    \<and> svc_dispatch (\<lambda>d req s w. Some (s, (d, req, s))) 5 (idle_server\<lparr>srv_xdr := Some x1\<rparr>) undefined
      = Some (s\<lparr>active := 0\<rparr>, 40, \<lparr>rq_prog = 0x3000008C, rq_vers = 1, rq_proc = 3\<rparr>, s)
    \<and> at_args (be32 77) 9 s"
proof -
  let ?x = "calloc_xdr\<lparr>fd := 7, x_prog := 0x3000008C, x_vers := 1\<rparr>"
  let ?b = "words (call_words 9 0x3000008C 1 3) @ be32 77"
  have x: "srv_xdr idle_server = Some ?x" "\<not> fault ?x" "x_vers ?x = 1"
    "srv_prog idle_server = 0x3000008C" "dispatch idle_server = 40"
    by (simp_all add: idle_server_def calloc_xdr_def)
  have len: "int (length ?b) \<le> RPCROUTER_MSGSIZE_MAX" by (simp add: RPCROUTER_MSGSIZE_MAX_def)
  obtain ok x1 where r: "xdr_std_read (ReadData ?b) ?x = (ok, x1)"
    by (cases "xdr_std_read (ReadData ?b) ?x")
  have "(5 :: int) \<noteq> 0" by simp
  from call_reaches_dispatch_function [OF x(1-4) refl len r this,
      of "\<lambda>d req s w. Some (s, (d, req, s))" undefined]
  obtain s where "ok" and s: "svc_dispatch (\<lambda>d req s w. Some (s, (d, req, s))) 5
      (idle_server\<lparr>srv_xdr := Some x1\<rparr>) undefined
      = Some (s\<lparr>active := 0\<rparr>, 40, \<lparr>rq_prog = 0x3000008C, rq_vers = 1, rq_proc = 3\<rparr>, s)"
    "at_args (be32 77) 9 s"
    unfolding x(5) option.map prod.case by blast
  have "xdr_std_read (ReadData ?b) (the (srv_xdr idle_server)) = (True, x1)"
    using r \<open>ok\<close> x(1) by simp
  then show ?thesis using s by blast
qed

text \<open>
  Error replies carry the wrong XID. \<open>svc_sendreply\<close> copies the XID of the call into its
  reply, but \<open>svcerr_noproc\<close>, \<open>svcerr_decode\<close> and \<open>svcerr_systemerr\<close> send the XID counter of the
  server's own handle, which is 0 from its creation on; the caller cannot match the reply.
\<close>

theorem error_reply_wrong_xid:
  assumes "srv_xdr s = Some x" and "active s \<noteq> 0" and "oa_length (verf x) = 0"
  shows "\<exists>y1 y2 y3. svcerr_noproc ret s = Some (s\<lparr>srv_xdr := Some y1\<rparr>)
    \<and> written y1 = written x @ [words [xid x, RPC_MSG_REPLY, RPC_MSG_ACCEPTED, oa_flavor (verf x), 0, RPC_PROC_UNAVAIL]]
    \<and> svcerr_decode ret s = Some (s\<lparr>srv_xdr := Some y2\<rparr>)
    \<and> written y2 = written x @ [words [xid x, RPC_MSG_REPLY, RPC_MSG_ACCEPTED, oa_flavor (verf x), 0, RPC_GARBAGE_ARGS]]
    \<and> svcerr_systemerr ret s = Some (s\<lparr>srv_xdr := Some y3\<rparr>)
    \<and> written y3 = written x @ [words [xid x, RPC_MSG_REPLY, RPC_MSG_ACCEPTED, oa_flavor (verf x), 0, RPC_SYSTEM_ERR]]"
proof -
  have stats: "RPC_PROC_UNAVAIL \<in> plain_stats" "RPC_GARBAGE_ARGS \<in> plain_stats"
    "RPC_SYSTEM_ERR \<in> plain_stats"
    by (simp_all add: plain_stats_def)
  obtain y1 y2 y3 where "svcerr_noproc ret s = Some (s\<lparr>srv_xdr := Some y1\<rparr>)"
    "written y1 = written x @ [words [xid x, RPC_MSG_REPLY, RPC_MSG_ACCEPTED, oa_flavor (verf x), 0, RPC_PROC_UNAVAIL]]"
    "svcerr_decode ret s = Some (s\<lparr>srv_xdr := Some y2\<rparr>)"
    "written y2 = written x @ [words [xid x, RPC_MSG_REPLY, RPC_MSG_ACCEPTED, oa_flavor (verf x), 0, RPC_GARBAGE_ARGS]]"
    "svcerr_systemerr ret s = Some (s\<lparr>srv_xdr := Some y3\<rparr>)"
    "written y3 = written x @ [words [xid x, RPC_MSG_REPLY, RPC_MSG_ACCEPTED, oa_flavor (verf x), 0, RPC_SYSTEM_ERR]]"
    using svcerr_reply_written [OF assms stats(1), of ret] svcerr_reply_written [OF assms stats(2), of ret]
      svcerr_reply_written [OF assms stats(3), of ret]
    unfolding svcerr_noproc_def svcerr_decode_def svcerr_systemerr_def by blast
  then show ?thesis by blast
qed

theorem error_reply_wrong_xid_witness:
  "\<exists>y. svcerr_noproc 32 (idle_server\<lparr>active := 5, srv_xdr :=
        Some (calloc_xdr\<lparr>in_msg := store_bytes (\<lambda>_. 0) 0 (words (call_words 9 0x3000008C 1 3))\<rparr>)\<rparr>)
      = Some (idle_server\<lparr>active := 5, srv_xdr := Some y\<rparr>)
    \<and> written y = [words [0, 1, 0, 0, 0, 3]]"
proof -
  let ?x = "calloc_xdr\<lparr>in_msg := store_bytes (\<lambda>_. 0) 0 (words (call_words 9 0x3000008C 1 3))\<rparr>"
  let ?s = "idle_server\<lparr>active := 5, srv_xdr := Some ?x\<rparr>"
  have "srv_xdr ?s = Some ?x" "active ?s \<noteq> 0" "oa_length (verf ?x) = 0"
    by (simp_all add: calloc_xdr_def)
  from error_reply_wrong_xid [OF this, of 32] show ?thesis
    by (auto simp: calloc_xdr_def rpc_consts simp del: words_simps)
qed

text \<open>
  A short packet is dispatched with the words of an earlier one. Reading accepts packets from
  8 bytes on and \<open>svc_dispatch\<close> does not compare the length with the header it reads, so a packet
  that holds only an XID and CALL runs the procedure named by the previous packet.
\<close>

theorem short_packet_dispatched:
  assumes "srv_xdr svc = Some x" and "get_word (in_msg x) 3 = srv_prog svc"
    and "get_word (in_msg x) 4 = x_vers x"
    and "xdr_std_read (ReadData (words [i, RPC_MSG_CALL])) x = (ok, x1)"
  shows "ok \<and> (\<exists>s. svc_dispatch call pid (svc\<lparr>srv_xdr := Some x1\<rparr>) w =
      map_option (\<lambda>(t, v). (t\<lparr>active := 0\<rparr>, v))
        (call (dispatch svc) \<lparr>rq_prog = srv_prog svc, rq_vers = x_vers x, rq_proc = get_word (in_msg x) 5\<rparr> s w))"
proof -
  let ?b = "words [i, RPC_MSG_CALL]"
  have x1: "ok" "x1 = x\<lparr>in_len := 8, in_msg := store_bytes (in_msg x) 0 ?b, in_next := 8\<rparr>"
    using xdr_std_read_packet [of ?b x] assms(4)
    by (simp_all add: RPCROUTER_MSGSIZE_MAX_def del: words_simps(2))
  have low: "get_word (in_msg x1) 1 = RPC_MSG_CALL"
    using x1(2) get_word_packet [of 1 "[i, RPC_MSG_CALL]" "in_msg x" "[]"] by simp
  have high: "get_word (in_msg x1) k = get_word (in_msg x) k" if "2 \<le> k" for k
    using x1(2) that by (simp add: get_word_def del: words_simps(2))
  let ?s = "svc\<lparr>srv_xdr := Some (x1\<lparr>in_next := 40, x_op := XDR_DECODE\<rparr>), active := pid\<rparr>"
  have "x_vers x1 = x_vers x" using x1 by simp
  then show ?thesis
    using low high [of 3] high [of 4] high [of 5] assms(1-3) x1(1)
    by (intro conjI exI [of _ ?s])
      (auto simp: svc_dispatch_def RPC_OFFSET_def map_option_case split: option.splits)
qed

theorem short_packet_dispatched_witness:
  "\<exists>x1 s. xdr_std_read (ReadData (words [2, 0])) (the (srv_xdr idle_server)
        \<lparr>in_msg := store_bytes (\<lambda>_. 0) 0 (words (call_words 1 0x3000008C 1 6))\<rparr>) = (True, x1)
    \<and> in_len x1 = 8
    \<and> svc_dispatch (\<lambda>d req s w. Some (s, rq_proc req)) 5 (idle_server\<lparr>srv_xdr := Some x1\<rparr>) 0
      = Some (s, 6)"
proof -
  let ?f = "store_bytes (\<lambda>_. 0) 0 (words (call_words 1 0x3000008C 1 6))"
  let ?x = "the (srv_xdr idle_server)\<lparr>in_msg := ?f\<rparr>"
  let ?svc = "idle_server\<lparr>srv_xdr := Some ?x\<rparr>"
  have f: "get_word ?f k = call_words 1 0x3000008C 1 6 ! k" if "k < 10" for k
    using get_word_packet [of k "call_words 1 0x3000008C 1 6" "\<lambda>_. 0" "[]"] that
    by (simp del: words_simps(2))
  obtain ok x1 where r: "xdr_std_read (ReadData (words [2, RPC_MSG_CALL])) ?x = (ok, x1)"
    by (cases "xdr_std_read (ReadData (words [2, RPC_MSG_CALL])) ?x")
  have "srv_xdr ?svc = Some ?x" "get_word (in_msg ?x) 3 = srv_prog ?svc"
    "get_word (in_msg ?x) 4 = x_vers ?x" "get_word (in_msg ?x) 5 = 6"
    using f [of 3] f [of 4] f [of 5] by (simp_all add: idle_server_def)
  note run = short_packet_dispatched [OF this(1-3) r,
      of "\<lambda>d req s w. Some (s, rq_proc req)" 5 "0 :: u32"] this(4)
  then have "ok" by blast
  then have "in_len x1 = 8"
    using r xdr_std_read_packet [of "words [2, RPC_MSG_CALL]" ?x]
    by (simp add: RPCROUTER_MSGSIZE_MAX_def del: words_simps(2)) auto
  then show ?thesis using run r \<open>ok\<close> by (auto simp: rpc_consts simp del: words_simps(2))
qed

end
