(* ===== verification/Clnt.thy ===== *)
theory Clnt
  imports Svc "HOL-Library.AList"
begin

text \<open>
  The client side, librpc/clnt.c: clients of the router device, the blocking call, the receive
  thread that serves all clients, and the thread that runs callbacks arriving on a client.

  \<open>clnt_call\<close> releases the processor twice: when it takes \<open>wait_reply_lock\<close> and when it waits for
  the reply. What the other threads do to the client there is the argument \<open>other\<close>; the end of this
  theory instantiates it with the model of the receive thread. Each pass of the receive thread
  over one client, and each turn of the callback thread's loop, is one function.
\<close>

section \<open>Data\<close>

record CLIENT =
  c_xdr :: XDR
  input_xdr_busy :: int
  got_cb :: int
  cb_stop :: int
  in_reset :: int
  reset_cb :: "nat option"

definition RPC_SUCCESS :: u32 where "RPC_SUCCESS = 0"
definition RPC_CANTENCODEARGS :: u32 where "RPC_CANTENCODEARGS = 1"
definition RPC_CANTDECODERES :: u32 where "RPC_CANTDECODERES = 2"
definition RPC_CANTSEND :: u32 where "RPC_CANTSEND = 3"
definition RPC_CANTRECV :: u32 where "RPC_CANTRECV = 4"
definition RPC_VERSMISMATCH :: u32 where "RPC_VERSMISMATCH = 6"
definition RPC_AUTHERROR :: u32 where "RPC_AUTHERROR = 7"
definition RPC_PROGUNAVAIL :: u32 where "RPC_PROGUNAVAIL = 8"
definition RPC_PROGVERSMISMATCH :: u32 where "RPC_PROGVERSMISMATCH = 9"
definition RPC_PROCUNAVAIL :: u32 where "RPC_PROCUNAVAIL = 10"
definition RPC_CANTDECODEARGS :: u32 where "RPC_CANTDECODEARGS = 11"
definition RPC_SYSTEMERROR :: u32 where "RPC_SYSTEMERROR = 12"
definition RPC_UNKNOWNHOST :: u32 where "RPC_UNKNOWNHOST = 13"
definition RPC_SUBSYSTEM_RESTART :: u32 where "RPC_SUBSYSTEM_RESTART = 26"

lemmas clnt_stats = RPC_SUCCESS_def RPC_CANTENCODEARGS_def RPC_CANTDECODERES_def RPC_CANTSEND_def
  RPC_CANTRECV_def RPC_VERSMISMATCH_def RPC_AUTHERROR_def RPC_PROGUNAVAIL_def
  RPC_PROGVERSMISMATCH_def RPC_PROCUNAVAIL_def RPC_CANTDECODEARGS_def RPC_SYSTEMERROR_def
  RPC_UNKNOWNHOST_def RPC_SUBSYSTEM_RESTART_def

definition ENETRESET :: int where "ENETRESET = 102"

section \<open>The blocking call\<close>

datatype wait_point = BeforeSend | WaitReply

text \<open>\<open>out_unlock\<close>: the input buffer is free again.\<close>

definition out_unlock :: "u32 \<Rightarrow> 'r \<Rightarrow> CLIENT \<Rightarrow> u32 \<times> 'r \<times> CLIENT" where
  "out_unlock ret rets client = (ret, rets, client\<lparr>input_xdr_busy := 0\<rparr>)"

text \<open>The part after the wait. \<open>junk\<close> is the uninitialised reply header on the stack.\<close>

definition clnt_receive ::
    "rpc_reply_header \<Rightarrow> 'r xdrproc \<Rightarrow> 'r \<Rightarrow> CLIENT \<Rightarrow> u32 \<times> 'r \<times> CLIENT" where
  "clnt_receive junk xdr_results rets client =
     (if in_reset client \<noteq> 0 then out_unlock RPC_SUBSYSTEM_RESTART rets client
      else if get_word (out_msg (c_xdr client)) RPC_OFFSET \<noteq> get_word (in_msg (c_xdr client)) RPC_OFFSET
      then out_unlock RPC_CANTRECV rets client
      else case xdr_recv_reply_header junk (c_xdr client) of (ok, reply_header, x) \<Rightarrow>
        let c1 = client\<lparr>c_xdr := x\<rparr> in
        if \<not> ok then out_unlock RPC_CANTRECV rets c1
        else if rh_stat reply_header \<noteq> RPC_MSG_ACCEPTED
        then out_unlock (dr_stat (rh_dr reply_header) + RPC_VERSMISMATCH) rets c1
        else if ar_stat (rh_ar reply_header) \<noteq> RPC_ACCEPT_SUCCESS
        then out_unlock (ar_stat (rh_ar reply_header) + RPC_AUTHERROR) rets c1
        else case xdr_results rets (x\<lparr>x_op := XDR_DECODE\<rparr>) of (ok2, r, x1) \<Rightarrow>
          if \<not> ok2 then out_unlock RPC_CANTDECODERES r (c1\<lparr>c_xdr := x1\<rparr>)
          else case xdr_std_msg_done x1 of (ok3, x2) \<Rightarrow>
            out_unlock (if ok3 then RPC_SUCCESS else RPC_CANTDECODERES) r (c1\<lparr>c_xdr := x2\<rparr>))"

definition clnt_call ::
    "(wait_point \<Rightarrow> CLIENT \<Rightarrow> CLIENT) \<Rightarrow> int \<Rightarrow> rpc_reply_header \<Rightarrow> CLIENT \<Rightarrow> u32
      \<Rightarrow> 'a xdrproc \<Rightarrow> 'a \<Rightarrow> 'r xdrproc \<Rightarrow> 'r \<Rightarrow> u32 \<times> 'r \<times> CLIENT" where
  "clnt_call other ret junk client proc xdr_args args xdr_results rets =
     (if in_reset client \<noteq> 0 then (RPC_SUBSYSTEM_RESTART, rets, client)
      else let x = (c_xdr client)\<lparr>x_op := XDR_ENCODE\<rparr> in
      case xdr_call_msg_start (x_prog x) (x_vers x) proc AUTH_NONE AUTH_NONE x of (ok, x1) \<Rightarrow>
        if \<not> ok then (RPC_CANTENCODEARGS, rets, client\<lparr>c_xdr := snd (xdr_std_msg_abort x1)\<rparr>)
        else case xdr_args args x1 of (ok2, _, x2) \<Rightarrow>
          if \<not> ok2 then (RPC_CANTENCODEARGS, rets, client\<lparr>c_xdr := snd (xdr_std_msg_abort x2)\<rparr>)
          else let c1 = other BeforeSend (client\<lparr>c_xdr := x2\<rparr>) in
            if in_reset c1 \<noteq> 0 then out_unlock RPC_SUBSYSTEM_RESTART rets c1
            else case xdr_std_msg_send ret (c_xdr c1) of (sent, x3) \<Rightarrow>
              let c2 = c1\<lparr>c_xdr := x3\<rparr> in
              if \<not> sent then
                (if xdr_err x3 = - ENETRESET
                 then out_unlock RPC_SUBSYSTEM_RESTART rets (c2\<lparr>in_reset := 1\<rparr>)
                 else out_unlock RPC_CANTSEND rets c2)
              else clnt_receive junk xdr_results rets (other WaitReply c2))"

section \<open>The receive thread\<close>

text \<open>The events poll reports for a descriptor, and what one pass over a client does besides
  updating it: wake the caller, wake or start the callback thread, notify a reset.\<close>

record revents =
  pollin :: bool
  pollout :: bool
  pollrdhup :: bool

datatype rpc_reset_event = RPC_SUBSYSTEM_RESTART_BEGIN | RPC_SUBSYSTEM_RESTART_END

record rx_out =
  rx_client :: CLIENT
  woke_caller :: bool
  woke_cb :: bool
  started_cb :: bool
  notified :: "(nat \<times> rpc_reset_event) option"

definition rx_quiet :: "CLIENT \<Rightarrow> rx_out" where
  "rx_quiet client = \<lparr>rx_client = client, woke_caller = False, woke_cb = False, started_cb = False,
     notified = None\<rparr>"

text \<open>The reset part of a pass; it returns the events that are left to process.\<close>

definition rx_reset :: "revents \<Rightarrow> CLIENT \<Rightarrow> rx_out \<times> revents" where
  "rx_reset ev client =
     (if in_reset client = 0 then
        (if pollrdhup ev then
           ((rx_quiet (client\<lparr>in_reset := 1, input_xdr_busy := 0\<rparr>))
              \<lparr>woke_caller := True, woke_cb := True,
               notified := map_option (\<lambda>f. (f, RPC_SUBSYSTEM_RESTART_BEGIN)) (reset_cb client)\<rparr>,
            \<lparr>pollin = False, pollout = False, pollrdhup = False\<rparr>)
         else (rx_quiet client, ev))
      else if pollout ev then
        ((rx_quiet (client\<lparr>in_reset := 0\<rparr>))
           \<lparr>woke_cb := True,
            notified := map_option (\<lambda>f. (f, RPC_SUBSYSTEM_RESTART_END)) (reset_cb client)\<rparr>, ev)
      else (rx_quiet client, ev))"

text \<open>
  The rest of a pass. None: the thread waits on \<open>input_xdr_wait\<close> (it holds \<open>rx_mutex\<close>) until
  the input buffer is free.
\<close>

definition rx_read :: "read_result \<Rightarrow> rx_out \<Rightarrow> rx_out option" where
  "rx_read r out =
     (let client = rx_client out in
      if input_xdr_busy client \<noteq> 0 then None
      else case xdr_std_read r (c_xdr client) of (ok, x) \<Rightarrow>
        if \<not> ok then Some (out\<lparr>rx_client := client\<lparr>c_xdr := x\<rparr>\<rparr>)
        else let c1 = client\<lparr>c_xdr := x, input_xdr_busy := 1\<rparr> in
          if get_word (in_msg x) (RPC_OFFSET + 1) = RPC_MSG_REPLY
          then Some (out\<lparr>rx_client := c1, woke_caller := True\<rparr>)
          else if cb_stop c1 < 0
          then Some (out\<lparr>rx_client := c1\<lparr>got_cb := 1, cb_stop := 0\<rparr>, started_cb := True, woke_cb := True\<rparr>)
          else Some (out\<lparr>rx_client := c1\<lparr>got_cb := 1\<rparr>, woke_cb := True\<rparr>))"

definition rx_step :: "revents \<Rightarrow> read_result \<Rightarrow> CLIENT \<Rightarrow> rx_out option" where
  "rx_step ev r client =
     (case rx_reset ev client of (out, ev1) \<Rightarrow> if pollin ev1 then rx_read r out else Some out)"

section \<open>The callback thread\<close>

text \<open>
  A cloned handle works in the same process: it shares the allocator, and what is written to its
  duplicated descriptor is written to the same device.
\<close>

definition with_process :: "XDR \<Rightarrow> XDR \<Rightarrow> XDR" where
  "with_process p x = x\<lparr>malloc_ok := malloc_ok p, mallocs := mallocs p, live := live p,
     fault := fault p, written := written p\<rparr>"

text \<open>\<open>memcpy\<close> of the first \<open>n\<close> bytes of a buffer.\<close>

definition copy_buffer :: "buffer \<Rightarrow> int \<Rightarrow> buffer \<Rightarrow> buffer" where
  "copy_buffer src n dst = (\<lambda>i. if int i < n then src i else dst i)"

definition cb_clone :: "int \<Rightarrow> u32 \<Rightarrow> u32 \<Rightarrow> XDR \<Rightarrow> XDR option" where
  "cb_clone handle prog vers x = do {
     y \<leftarrow> xdr_clone handle x;
     Some ((with_process x y)\<lparr>x_prog := prog, x_vers := vers,
       in_msg := copy_buffer (in_msg x) (in_len x) (in_msg y),
       out_msg := copy_buffer (out_msg x) (out_next x) (out_msg y),
       in_len := in_len x, out_next := out_next x\<rparr>)
   }"

text \<open>
  One turn of the loop of \<open>cb_context\<close> after the wait: the client, the transport (\<open>the_xprt\<close>) and
  the rest of the program state. None is a null pointer dereference: no transport, or no memory or
  descriptor for the clone. The last result is the reset event reported to the transport.
\<close>

definition cb_turn ::
    "(nat \<Rightarrow> svc_req \<Rightarrow> registered_server \<Rightarrow> 'w \<Rightarrow> (registered_server \<times> 'w) option)
      \<Rightarrow> int \<Rightarrow> int \<Rightarrow> CLIENT \<Rightarrow> SVCXPRT option \<Rightarrow> 'w
      \<Rightarrow> (CLIENT \<times> SVCXPRT \<times> 'w \<times> (nat \<times> rpc_reset_event) option) option" where
  "cb_turn call pid handle client transport w = do {
     xprt \<leftarrow> transport;
     if in_reset client \<noteq> svc_is_in_reset xprt then
       Some (client, svc_set_in_reset xprt (in_reset client), w,
         map_option (\<lambda>f. (f, if in_reset client \<noteq> 0 then RPC_SUBSYSTEM_RESTART_BEGIN
                             else RPC_SUBSYSTEM_RESTART_END)) (svc_reset_cb xprt))
     else if got_cb client = 0 then Some (client, xprt, w, None)
     else do {
       let c1 = client\<lparr>got_cb := 0\<rparr>;
       let x = c_xdr c1;
       let prog = get_word (in_msg x) (RPC_OFFSET + 3);
       let vers = get_word (in_msg x) (RPC_OFFSET + 4);
       case svc_find_nosync (servers xprt) prog vers of
         (_, None, _) \<Rightarrow> Some (c1, xprt, w, None)
       | (prev, Some svc, rest) \<Rightarrow>
           if in_len x < 0 \<or> out_next x < 0 then Some (c1, xprt, w, None)
           else do {
             y \<leftarrow> cb_clone handle prog vers x;
             let c2 = c1\<lparr>input_xdr_busy := 0\<rparr>;
             (svc2, w2) \<leftarrow> svc_dispatch call pid (svc\<lparr>srv_xdr := Some y\<rparr>) w;
             z \<leftarrow> srv_xdr svc2;
             Some (c2\<lparr>c_xdr := with_process z (c_xdr c2)\<rparr>,
                   xprt\<lparr>servers := prev @ svc2\<lparr>srv_xdr := None\<rparr> # rest\<rparr>, w2, None)
           }
     }
   }"

section \<open>Creating and destroying clients\<close>

text \<open>
  The process-wide list of clients, by address, with its counter, and whether the receive thread
  runs and the router device and the wake-up pipe are open.
\<close>

record clnt_state =
  clients :: "(nat \<times> CLIENT) list"
  num_clients :: u32
  rx_running :: bool
  router_open :: bool
  pipe_open :: bool

definition no_clients :: clnt_state where
  "no_clients = \<lparr>clients = [], num_clients = 0, rx_running = False, router_open = False,
     pipe_open = False\<rparr>"

text \<open>What the allocation and the system calls of a creation return.\<close>

record clnt_env =
  client_at :: "nat option"
  router_handle :: int
  device_handle :: int
  pipe_ret :: int

definition clnt_version :: "u32 \<Rightarrow> u32" where
  "clnt_version vers =
     (let v = (if vers AND 0xFFF00000 = 0 then vers AND 0xFFFF0000 else vers)
      in if v AND 0x80000000 \<noteq> 0 then v else v AND 0xFFFF0000)"

definition clnt_create :: "clnt_env \<Rightarrow> u32 \<Rightarrow> u32 \<Rightarrow> clnt_state \<Rightarrow> nat option \<times> clnt_state" where
  "clnt_create env prog vers st =
     (case client_at env of None \<Rightarrow> (None, st)
      | Some addr \<Rightarrow>
        let first = num_clients st = 0 in
        if first \<and> router_handle env < 0 then (None, st)
        else let st1 = (if first then st\<lparr>router_open := True\<rparr> else st) in
        case xdr_init_common (device_handle env) 1 of
          None \<Rightarrow> (None, if first then st1\<lparr>router_open := False\<rparr> else st1)
        | Some x \<Rightarrow>
            if first \<and> pipe_ret env = -1 then (None, st1\<lparr>router_open := False\<rparr>)
            else let
              client = \<lparr>c_xdr = x\<lparr>x_prog := prog, x_vers := clnt_version vers\<rparr>, input_xdr_busy = 0,
                got_cb = 0, cb_stop = -1, in_reset = 0, reset_cb = None\<rparr>;
              st2 = (if first then st1\<lparr>pipe_open := True, rx_running := True\<rparr> else st1)
            in (Some addr, st2\<lparr>clients := (addr, client) # clients st2, num_clients := num_clients st2 + 1\<rparr>))"

text \<open>The callback thread, if it runs, is stopped and joined; the last client stops the receive
  thread and closes the device.\<close>

definition clnt_destroy :: "nat \<Rightarrow> clnt_state \<Rightarrow> clnt_state" where
  "clnt_destroy addr st =
     (let st1 = (if map_of (clients st) addr = None then st
                 else st\<lparr>clients := AList.delete addr (clients st), num_clients := num_clients st - 1\<rparr>)
      in if num_clients st1 = 0
         then st1\<lparr>rx_running := False, pipe_open := False, router_open := False\<rparr> else st1)"

definition clnt_register_reset_notification_cb :: "CLIENT option \<Rightarrow> nat option \<Rightarrow> int \<times> CLIENT option" where
  "clnt_register_reset_notification_cb client cb =
     (case client of None \<Rightarrow> (1, None) | Some c \<Rightarrow> (0, Some (c\<lparr>reset_cb := cb\<rparr>)))"

definition clnt_unregister_reset_notification_cb :: "CLIENT option \<Rightarrow> nat option \<times> CLIENT option" where
  "clnt_unregister_reset_notification_cb client =
     (case client of None \<Rightarrow> (None, None) | Some c \<Rightarrow> (reset_cb c, Some (c\<lparr>reset_cb := None\<rparr>)))"

section \<open>A call, step by step\<close>

text \<open>What sending leaves in the handle.\<close>

definition sent_call :: "XDR \<Rightarrow> u32 \<Rightarrow> byte list \<Rightarrow> int \<Rightarrow> XDR \<Rightarrow> bool" where
  "sent_call x proc args ret y \<longleftrightarrow>
     (let p = words (call_words (xid x + 1) (x_prog x) (x_vers x) proc) @ args
      in y = x\<lparr>x_op := XDR_ENCODE, x_proc := proc, xid := xid x + 1, out_msg := out_msg y,
               out_next := int (length p), xdr_err := ret, written := written x @ [p]\<rparr>
         \<and> get_word (out_msg y) 0 = xid x + 1)"

lemma get_word_load:
  assumes "load_bytes f 0 n = be32 w @ b" "4 \<le> n"
  shows "get_word f 0 = w"
proof -
  have "load_bytes f 0 4 @ load_bytes f 4 (n - 4) = be32 w @ b"
    using load_bytes_add [of f 0 4 "n - 4"] assms by simp
  then show ?thesis by (simp add: be32_def get_word_def numeral_3_eq_3)
qed

lemma xdr_with_out: "y = x\<lparr>out_next := n, out_msg := m\<rparr> \<Longrightarrow> put b y = x\<lparr>out_next := n + int (length b),
    out_msg := store_bytes m (nat n) b\<rparr>"
  by (simp add: put_def)

lemma sent_call_frame:
  assumes "z = x\<lparr>x_op := XDR_ENCODE, x_proc := proc, xid := i, out_next := n, out_msg := out_msg z\<rparr>"
    and "y = z\<lparr>xdr_err := ret, written := written z @ [p]\<rparr>"
  shows "y = x\<lparr>x_op := XDR_ENCODE, x_proc := proc, xid := i, out_msg := out_msg y, out_next := n,
      xdr_err := ret, written := written x @ [p]\<rparr>"
    and "out_msg y = out_msg z"
proof -
  obtain m where "z = x\<lparr>x_op := XDR_ENCODE, x_proc := proc, xid := i, out_next := n, out_msg := m\<rparr>"
    using assms(1) by blast
  then show "y = x\<lparr>x_op := XDR_ENCODE, x_proc := proc, xid := i, out_msg := out_msg y, out_next := n,
      xdr_err := ret, written := written x @ [p]\<rparr>" "out_msg y = out_msg z"
    using assms(2) by simp_all
qed

context xdr_codec
begin

lemma call_sends:
  assumes v: "wf v" "40 + int (length (enc v)) \<le> RPCROUTER_MSGSIZE_MAX"
    and c: "in_reset client = 0" "\<not> fault (c_xdr client)"
    and ret: "ret = 40 + int (length (enc v))" and other: "\<And>c. other BeforeSend c = c"
  shows "\<exists>y. sent_call (c_xdr client) pr (enc v) ret y
    \<and> clnt_call other ret junk client pr proc v xdr_results rets
      = clnt_receive junk xdr_results rets (other WaitReply (client\<lparr>c_xdr := y\<rparr>))"
proof -
  let ?x = "(c_xdr client)\<lparr>x_op := XDR_ENCODE\<rparr>"
  obtain ok x1 where 1: "xdr_call_msg_start (x_prog ?x) (x_vers ?x) pr AUTH_NONE AUTH_NONE ?x = (ok, x1)"
    by (cases "xdr_call_msg_start (x_prog ?x) (x_vers ?x) pr AUTH_NONE AUTH_NONE ?x")
  note st = call_msg_start [OF 1]
  obtain m where x1: "x1 = (c_xdr client)\<lparr>x_op := XDR_ENCODE, x_proc := pr, xid := xid (c_xdr client) + 1,
      out_next := 40, out_msg := m\<rparr>"
    using st(4) by simp
  have ready: "ready_out x1"
    using c(2) by (simp add: x1 ready_out_def RPCROUTER_MSGSIZE_MAX_def)
  have run: "proc v x1 = (True, v, put (enc v) x1)"
    using encode [OF v(1) ready] v(2) by (simp add: x1)
  let ?p = "words (call_words (xid (c_xdr client) + 1) (x_prog (c_xdr client)) (x_vers (c_xdr client)) pr) @ enc v"
  let ?y = "snd (xdr_std_msg_send ret (put (enc v) x1))"
  have pk: "packet (put (enc v) x1) = ?p" and on: "out_next (put (enc v) x1) = int (length ?p)"
    using st(2,3) by (simp_all add: packet_put)
  have "load_bytes (out_msg (put (enc v) x1)) 0 (nat (out_next (put (enc v) x1))) = ?p"
    using pk unfolding packet_def .
  then have "load_bytes (out_msg (put (enc v) x1)) 0 (nat (out_next (put (enc v) x1)))
      = be32 (xid (c_xdr client) + 1)
        @ words (tl (call_words (xid (c_xdr client) + 1) (x_prog (c_xdr client)) (x_vers (c_xdr client)) pr)) @ enc v"
    by (simp only: call_words_def words_simps append_assoc list.sel)
  moreover have "4 \<le> nat (out_next (put (enc v) x1))" using on by simp
  ultimately have gw: "get_word (out_msg (put (enc v) x1)) 0 = xid (c_xdr client) + 1"
    by (rule get_word_load)
  have y: "?y = (put (enc v) x1)\<lparr>xdr_err := ret, written := written (put (enc v) x1) @ [?p]\<rparr>"
    using pk by (simp only: xdr_std_msg_send_def snd_conv packet_def)
  have px: "put (enc v) x1 = (c_xdr client)\<lparr>x_op := XDR_ENCODE, x_proc := pr,
      xid := xid (c_xdr client) + 1, out_next := int (length ?p),
      out_msg := out_msg (put (enc v) x1)\<rparr>"
    unfolding on [symmetric] by (simp add: put_def x1)
  note frame = sent_call_frame [OF px y]
  have "sent_call (c_xdr client) pr (enc v) ret ?y"
    unfolding sent_call_def Let_def by (intro conjI, rule frame(1)) (simp only: frame(2) gw)
  moreover have "clnt_call other ret junk client pr proc v xdr_results rets
      = clnt_receive junk xdr_results rets (other WaitReply (client\<lparr>c_xdr := ?y\<rparr>))"
    using 1 st(1) run c(1) on ret
    by (simp add: clnt_call_def other xdr_std_msg_send_def)
  ultimately show ?thesis by blast
qed

lemma call_does_not_fit:
  assumes v: "wf v" "\<not> 40 + int (length (enc v)) \<le> RPCROUTER_MSGSIZE_MAX"
    and c: "in_reset client = 0" "\<not> fault (c_xdr client)"
  shows "\<exists>y. clnt_call other ret junk client pr proc v xdr_results rets
      = (RPC_CANTENCODEARGS, rets, client\<lparr>c_xdr := y\<rparr>) \<and> written y = written (c_xdr client)"
proof -
  let ?x = "(c_xdr client)\<lparr>x_op := XDR_ENCODE\<rparr>"
  obtain ok x1 where 1: "xdr_call_msg_start (x_prog ?x) (x_vers ?x) pr AUTH_NONE AUTH_NONE ?x = (ok, x1)"
    by (cases "xdr_call_msg_start (x_prog ?x) (x_vers ?x) pr AUTH_NONE AUTH_NONE ?x")
  note st = call_msg_start [OF 1]
  obtain m where x1: "x1 = (c_xdr client)\<lparr>x_op := XDR_ENCODE, x_proc := pr, xid := xid (c_xdr client) + 1,
      out_next := 40, out_msg := m\<rparr>"
    using st(4) by simp
  have ready: "ready_out x1"
    using c(2) by (simp add: x1 ready_out_def RPCROUTER_MSGSIZE_MAX_def)
  obtain y where y: "proc v x1 = (False, v, y)" "out_same x1 y"
    by (rule menc_full [OF enc_law [OF v(1)] ready]) (use v(2) in \<open>simp_all add: x1\<close>)
  then have "written y = written (c_xdr client)" using written_same x1 by fastforce
  then show ?thesis
    using 1 st(1) y c(1) by (simp add: clnt_call_def xdr_std_msg_abort_def) blast
qed

end

text \<open>The receive thread reads a reply into an idle client and wakes the caller.\<close>

definition readable :: revents where
  "readable = \<lparr>pollin = True, pollout = False, pollrdhup = False\<rparr>"

definition holding :: "CLIENT \<Rightarrow> byte list \<Rightarrow> CLIENT" where
  "holding c b = c\<lparr>c_xdr := (c_xdr c)\<lparr>in_len := int (length b),
     in_msg := store_bytes (in_msg (c_xdr c)) 0 b, in_next := 8\<rparr>, input_xdr_busy := 1\<rparr>"

lemma rx_step_reply:
  assumes "in_reset c = 0" "input_xdr_busy c = 0"
    and "b = words [i, RPC_MSG_REPLY] @ rest" "int (length b) \<le> RPCROUTER_MSGSIZE_MAX"
  shows "rx_step readable (ReadData b) c = Some ((rx_quiet (holding c b))\<lparr>woke_caller := True\<rparr>)"
proof -
  have "get_word (store_bytes (in_msg (c_xdr c)) 0 b) 1 = RPC_MSG_REPLY"
    using get_word_packet [of 1 "[i, RPC_MSG_REPLY]" "in_msg (c_xdr c)" rest] assms(3) by simp
  moreover have "8 \<le> length b" using assms(3) by simp
  ultimately show ?thesis
    using assms(1,2,4) xdr_std_read_packet [of b "c_xdr c"]
    by (simp add: rx_step_def rx_reset_def readable_def rx_read_def rx_quiet_def holding_def RPC_OFFSET_def)
qed

text \<open>A call packet wakes or starts the callback thread.\<close>

lemma rx_step_call:
  assumes "in_reset c = 0" "input_xdr_busy c = 0"
    and "b = words [i, t] @ rest" "t \<noteq> RPC_MSG_REPLY" "int (length b) \<le> RPCROUTER_MSGSIZE_MAX"
  shows "rx_step readable (ReadData b) c = Some ((rx_quiet ((holding c b)\<lparr>got_cb := 1,
      cb_stop := (if cb_stop c < 0 then 0 else cb_stop c)\<rparr>))\<lparr>woke_cb := True, started_cb := (cb_stop c < 0)\<rparr>)"
proof -
  have "get_word (store_bytes (in_msg (c_xdr c)) 0 b) 1 = t"
    using get_word_packet [of 1 "[i, t]" "in_msg (c_xdr c)" rest] assms(3) by simp
  moreover have "8 \<le> length b" using assms(3) by simp
  ultimately show ?thesis
    using assms(1,2,4,5) xdr_std_read_packet [of b "c_xdr c"]
    by (simp add: rx_step_def rx_reset_def readable_def rx_read_def rx_quiet_def holding_def RPC_OFFSET_def)
qed

text \<open>The status a caller gets for each reply that is not a success.\<close>

fun reply_status :: "rpc_reply \<Rightarrow> u32" where
  "reply_status (Accepted s) = s + RPC_AUTHERROR"
| "reply_status (AcceptedVersions l h) = RPC_PROG_MISMATCH + RPC_AUTHERROR"
| "reply_status (DeniedVersions l h) = RPC_MISMATCH + RPC_VERSMISMATCH"
| "reply_status (DeniedAuth w) = RPC_AUTH_ERROR + RPC_VERSMISMATCH"

lemma holding_simps [simp]:
  "in_reset (holding c b) = in_reset c" "in_next (c_xdr (holding c b)) = 8"
  "out_msg (c_xdr (holding c b)) = out_msg (c_xdr c)" "written (c_xdr (holding c b)) = written (c_xdr c)"
  "fault (c_xdr (holding c b)) = fault (c_xdr c)" "in_len (c_xdr (holding c b)) = int (length b)"
  by (simp_all add: holding_def)

lemma holding_xid:
  "get_word (in_msg (c_xdr (holding c (words (i # ws) @ b)))) 0 = i"
  using get_word_packet [of 0 "i # ws" "in_msg (c_xdr c)" b] by (simp add: holding_def)

lemma holding_at:
  assumes "length a = 8"
  shows "at_in b (c_xdr (holding c (a @ b)))"
  using load_tail [of "in_msg (c_xdr c)" 0 a b] assms
  by (simp add: at_in_def holding_def)

lemma receive_wrong_xid:
  assumes "in_reset c = 0" "get_word (out_msg (c_xdr c)) 0 \<noteq> i"
  shows "clnt_receive junk p rets (holding c (words (i # ws) @ b))
    = (RPC_CANTRECV, rets, (holding c (words (i # ws) @ b))\<lparr>input_xdr_busy := 0\<rparr>)"
  using assms holding_xid [of c i ws b] by (simp add: clnt_receive_def RPC_OFFSET_def out_unlock_def)

text \<open>A reply with the right XID: its header is read, the rest stands behind it.\<close>

lemma receive_header:
  assumes "get_word (out_msg (c_xdr c)) 0 = i" "wf_reply r"
    and b: "b = words ([i, RPC_MSG_REPLY] @ reply_words f r) @ rest"
  shows "\<exists>h. xdr_recv_reply_header junk (c_xdr (holding c b))
      = (True, h, adv (4 * length (reply_words f r)) 0 (c_xdr (holding c b)))
    \<and> reply_of h = Some r
    \<and> at_in rest (adv (4 * length (reply_words f r)) 0 (c_xdr (holding c b)))"
proof -
  have b': "b = words [i, RPC_MSG_REPLY] @ (words (reply_words f r) @ rest)"
    using b by (simp add: words_append)
  have at: "at_in (words (reply_words f r) @ rest) (c_xdr (holding c b))"
    using holding_at [of "words [i, RPC_MSG_REPLY]" "words (reply_words f r) @ rest" c]
    unfolding b' by simp
  have n: "0 \<le> in_next (c_xdr (holding c b))" by simp
  show ?thesis
    using recv_reply_header [OF _ n assms(2), of f junk] at_in_words [OF n, of _ rest 0] at by fastforce
qed

lemma receive_refused:
  assumes c: "in_reset c = 0" "get_word (out_msg (c_xdr c)) 0 = i"
    and r: "wf_reply r" "r \<noteq> Accepted RPC_ACCEPT_SUCCESS"
    and b: "b = words ([i, RPC_MSG_REPLY] @ reply_words f r) @ rest"
  shows "\<exists>x. clnt_receive junk p rets (holding c b) = (reply_status r, rets, c\<lparr>c_xdr := x, input_xdr_busy := 0\<rparr>)
    \<and> written x = written (c_xdr c)"
proof -
  obtain h where h: "xdr_recv_reply_header junk (c_xdr (holding c b))
      = (True, h, adv (4 * length (reply_words f r)) 0 (c_xdr (holding c b)))" "reply_of h = Some r"
    using receive_header [OF c(2) r(1) b] by blast
  have xid: "get_word (in_msg (c_xdr (holding c b))) 0 = i"
    using holding_xid [of c i "RPC_MSG_REPLY # reply_words f r" rest] b by simp
  have st: "(if rh_stat h \<noteq> RPC_MSG_ACCEPTED then dr_stat (rh_dr h) + RPC_VERSMISMATCH
      else ar_stat (rh_ar h) + RPC_AUTHERROR) = reply_status r"
    and bad: "rh_stat h \<noteq> RPC_MSG_ACCEPTED \<or> ar_stat (rh_ar h) \<noteq> RPC_ACCEPT_SUCCESS"
    using h(2) r(2) by (auto simp: reply_of_def rpc_consts split: if_splits)
  have "clnt_receive junk p rets (holding c b) = out_unlock (reply_status r) rets
      ((holding c b)\<lparr>c_xdr := adv (4 * length (reply_words f r)) 0 (c_xdr (holding c b))\<rparr>)"
    using c xid h(1) bad st by (auto simp: clnt_receive_def RPC_OFFSET_def Let_def)
  then show ?thesis
    by (simp add: out_unlock_def holding_def) (intro exI conjI, rule refl, simp add: adv_def)
qed

text \<open>What a call leaves of the handle: its program, its transaction counter, its allocator.\<close>

definition same_end :: "XDR \<Rightarrow> XDR \<Rightarrow> bool" where
  "same_end x y \<longleftrightarrow> xid y = xid x \<and> x_prog y = x_prog x \<and> x_vers y = x_vers x \<and> fault y = fault x
     \<and> malloc_ok y = malloc_ok x"

text \<open>The results are decoded into \<open>obj\<close>, which the stubs leave uninitialised.\<close>

lemma receive_success:
  assumes c: "in_reset c = 0" "get_word (out_msg (c_xdr c)) 0 = i" "\<not> fault (c_xdr c)" "all_mallocs (c_xdr c)"
    and m: "mdec p obj v e n"
    and b: "b = words ([i, RPC_MSG_REPLY] @ reply_words f (Accepted RPC_ACCEPT_SUCCESS)) @ e"
    and len: "int (length b) \<le> RPCROUTER_MSGSIZE_MAX"
  shows "\<exists>x. clnt_receive junk p obj (holding c b) = (RPC_SUCCESS, v, c\<lparr>c_xdr := x, input_xdr_busy := 0\<rparr>)
    \<and> written x = written (c_xdr c) \<and> in_next x = int (length b) \<and> live x = live (c_xdr c) + int n
    \<and> same_end (c_xdr c) x"
proof -
  have wf: "wf_reply (Accepted RPC_ACCEPT_SUCCESS)" by (simp add: plain_stats_def)
  let ?x = "adv 16 0 (c_xdr (holding c b))"
  obtain h where h: "xdr_recv_reply_header junk (c_xdr (holding c b)) = (True, h, ?x)"
      "reply_of h = Some (Accepted RPC_ACCEPT_SUCCESS)" and at: "at_in e ?x"
    using receive_header [OF c(2) wf b, of junk] by auto
  have xid: "get_word (in_msg (c_xdr (holding c b))) 0 = i"
    using holding_xid [of c i "RPC_MSG_REPLY # reply_words f (Accepted RPC_ACCEPT_SUCCESS)" e] b by simp
  have ok: "rh_stat h = RPC_MSG_ACCEPTED" "ar_stat (rh_ar h) = RPC_ACCEPT_SUCCESS"
    using h(2) by (auto simp: reply_of_def split: if_splits)
  let ?y = "?x\<lparr>x_op := XDR_DECODE\<rparr>"
  have "ready_in ?y" "all_mallocs ?y" "at_in e ?y"
    using c(3,4) at len
    by (simp_all add: ready_in_def all_mallocs_def at_in_def adv_def holding_def RPCROUTER_MSGSIZE_MAX_def)
  then have "p obj ?y = (True, v, adv (length e) n ?y)" by (rule mdec_run [OF m])
  then have "clnt_receive junk p obj (holding c b) = out_unlock RPC_SUCCESS v
      ((holding c b)\<lparr>c_xdr := adv (length e) n ?y\<rparr>)"
    using c(1,2) xid h(1) ok by (simp add: clnt_receive_def RPC_OFFSET_def Let_def xdr_std_msg_done_def)
  then show ?thesis
    using b by (simp add: out_unlock_def holding_def)
      (intro exI conjI, rule refl, simp_all add: adv_def same_end_def)
qed

text \<open>
  A remote procedure: codecs of its arguments and of its results, where decoding results does not
  depend on what the storage held. The whole call, from the arguments to the results, with the
  modem answering while the caller waits.
\<close>

definition answered :: "byte list \<Rightarrow> wait_point \<Rightarrow> CLIENT \<Rightarrow> CLIENT" where
  "answered b p c = (case p of BeforeSend \<Rightarrow> c
     | WaitReply \<Rightarrow> (case rx_step readable (ReadData b) c of None \<Rightarrow> c | Some out \<Rightarrow> rx_client out))"

lemma answered_before: "answered b BeforeSend c = c"
  by (simp add: answered_def)

definition idle :: "CLIENT \<Rightarrow> bool" where
  "idle c \<longleftrightarrow> in_reset c = 0 \<and> input_xdr_busy c = 0 \<and> \<not> fault (c_xdr c) \<and> all_mallocs (c_xdr c)"

definition success_reply :: "CLIENT \<Rightarrow> u32 \<Rightarrow> byte list \<Rightarrow> byte list" where
  "success_reply c f e = words ([xid (c_xdr c) + 1, RPC_MSG_REPLY] @ reply_words f (Accepted RPC_ACCEPT_SUCCESS)) @ e"

definition request :: "CLIENT \<Rightarrow> u32 \<Rightarrow> byte list \<Rightarrow> byte list" where
  "request c pr e = words (call_words (xid (c_xdr c) + 1) (x_prog (c_xdr c)) (x_vers (c_xdr c)) pr) @ e"

locale rpc_procedure = args: xdr_codec aproc aenc awf ablk azero + rets: xdr_codec rproc renc rwf rblk rzero
  for aproc :: "'a xdrproc" and aenc awf ablk azero
    and rproc :: "'r xdrproc" and renc rwf rblk rzero +
  assumes decode_any: "rwf u \<Longrightarrow> mdec rproc obj u (renc u) (rblk u)"

context rpc_procedure
begin

lemma call_returns:
  assumes v: "awf v" "40 + int (length (aenc v)) \<le> RPCROUTER_MSGSIZE_MAX" and c: "idle c"
    and u: "rwf u" "b = success_reply c f (renc u)" "int (length b) \<le> RPCROUTER_MSGSIZE_MAX"
    and ret: "ret = 40 + int (length (aenc v))"
  shows "\<exists>x. clnt_call (answered b) ret junk c pr aproc v rproc obj
      = (RPC_SUCCESS, u, c\<lparr>c_xdr := x, input_xdr_busy := 0\<rparr>)
    \<and> written x = written (c_xdr c) @ [request c pr (aenc v)]
    \<and> same_end ((c_xdr c)\<lparr>xid := xid (c_xdr c) + 1\<rparr>) x"
proof -
  have c': "in_reset c = 0" "input_xdr_busy c = 0" "\<not> fault (c_xdr c)" "all_mallocs (c_xdr c)"
    using c by (auto simp: idle_def)
  obtain y where y: "sent_call (c_xdr c) pr (aenc v) ret y"
    and run: "clnt_call (answered b) ret junk c pr aproc v rproc obj
      = clnt_receive junk rproc obj (answered b WaitReply (c\<lparr>c_xdr := y\<rparr>))"
    using args.call_sends [OF v c'(1,3) ret, of "answered b" pr junk rproc obj, OF answered_before] by blast
  let ?c = "c\<lparr>c_xdr := y\<rparr>"
  have sent: "get_word (out_msg y) 0 = xid (c_xdr c) + 1" "written y = written (c_xdr c) @ [request c pr (aenc v)]"
      "same_end ((c_xdr c)\<lparr>xid := xid (c_xdr c) + 1\<rparr>) y"
    using y unfolding sent_call_def Let_def same_end_def request_def
    by (auto elim!: ssubst [of y])
  then have y': "\<not> fault (c_xdr ?c)" "all_mallocs (c_xdr ?c)" "get_word (out_msg (c_xdr ?c)) 0 = xid (c_xdr c) + 1"
    using c' by (auto simp: same_end_def all_mallocs_def)
  have b: "b = words [xid (c_xdr c) + 1, RPC_MSG_REPLY]
      @ (words (reply_words f (Accepted RPC_ACCEPT_SUCCESS)) @ renc u)"
    using u(2) by (simp add: success_reply_def)
  have "answered b WaitReply ?c = holding ?c b"
    using rx_step_reply [OF _ _ b u(3), of ?c] c' by (simp add: answered_def rx_quiet_def)
  moreover obtain x where "clnt_receive junk rproc obj (holding ?c b)
      = (RPC_SUCCESS, u, ?c\<lparr>c_xdr := x, input_xdr_busy := 0\<rparr>)" "written x = written y" "same_end y x"
    using receive_success [OF _ y'(3,1,2) decode_any [OF u(1)] u(2) [unfolded success_reply_def] u(3), of junk] c' by auto
  ultimately show ?thesis
    using run sent by (intro exI [of _ x]) (simp add: same_end_def)
qed

end

section \<open>Properties of the client\<close>

lemma holding_rest [simp]:
  "c_xdr (holding c b) = (c_xdr c)\<lparr>in_len := int (length b), in_msg := store_bytes (in_msg (c_xdr c)) 0 b,
     in_next := 8\<rparr>" "input_xdr_busy (holding c b) = 1" "got_cb (holding c b) = got_cb c"
  "cb_stop (holding c b) = cb_stop c" "reset_cb (holding c b) = reset_cb c"
  by (simp_all add: holding_def)

text \<open>
  What a caller learns from a refusal. When the receive thread reads a reply with the XID of
  the call that is not a success, the caller gets the status that \<open>reply_status\<close> computes and its
  results untouched, and the input buffer is free again. The offsets of the source map the
  ONC RPC codes to the client codes except PROG_LOCKED, which becomes RPC_UNKNOWNHOST.
\<close>

theorem refused_call_status:
  assumes "in_reset c = 0" and "input_xdr_busy c = 0" and "get_word (out_msg (c_xdr c)) 0 = i"
    and "wf_reply r" and "r \<noteq> Accepted RPC_ACCEPT_SUCCESS"
    and "b = words ([i, RPC_MSG_REPLY] @ reply_words f r) @ rest"
    and "int (length b) \<le> RPCROUTER_MSGSIZE_MAX"
  shows "\<exists>out x. rx_step readable (ReadData b) c = Some out \<and> woke_caller out
    \<and> clnt_receive junk p rets (rx_client out) = (reply_status r, rets, c\<lparr>c_xdr := x, input_xdr_busy := 0\<rparr>)
    \<and> reply_status (Accepted RPC_PROG_UNAVAIL) = RPC_PROGUNAVAIL
    \<and> reply_status (AcceptedVersions l h) = RPC_PROGVERSMISMATCH
    \<and> reply_status (Accepted RPC_PROC_UNAVAIL) = RPC_PROCUNAVAIL
    \<and> reply_status (Accepted RPC_GARBAGE_ARGS) = RPC_CANTDECODEARGS
    \<and> reply_status (Accepted RPC_SYSTEM_ERR) = RPC_SYSTEMERROR
    \<and> reply_status (DeniedVersions l h) = RPC_VERSMISMATCH
    \<and> reply_status (DeniedAuth w) = RPC_AUTHERROR
    \<and> reply_status (Accepted RPC_PROG_LOCKED) = RPC_UNKNOWNHOST"
proof -
  have b: "b = words [i, RPC_MSG_REPLY] @ (words (reply_words f r) @ rest)"
    using assms(6) by (simp add: words_append)
  obtain x where "clnt_receive junk p rets (holding c b)
      = (reply_status r, rets, c\<lparr>c_xdr := x, input_xdr_busy := 0\<rparr>)"
    using receive_refused [OF assms(1,3-6), of junk p rets] by blast
  then show ?thesis
    using rx_step_reply [OF assms(1,2) b assms(7)]
    by (simp add: rx_quiet_def clnt_stats rpc_consts) blast
qed

definition idle_client :: CLIENT where
  "idle_client = \<lparr>c_xdr = calloc_xdr\<lparr>fd := 9, is_client := 1, x_prog := 0x3000008C, x_vers := 0x00050000\<rparr>,
     input_xdr_busy = 0, got_cb = 0, cb_stop = -1, in_reset = 0, reset_cb = None\<rparr>"

theorem refused_call_status_witness:
  "\<exists>out x. rx_step readable (ReadData (words [0, 1, 0, 0, 0, 6])) idle_client = Some out
    \<and> clnt_receive no_such_procedure xdr_u_int 5 (rx_client out)
      = (RPC_UNKNOWNHOST, 5, idle_client\<lparr>c_xdr := x, input_xdr_busy := 0\<rparr>)"
proof -
  have c: "in_reset idle_client = 0" "input_xdr_busy idle_client = 0"
    "get_word (out_msg (c_xdr idle_client)) 0 = 0"
    by (simp_all add: idle_client_def calloc_xdr_def get_word_def un_be32_def)
  have r: "wf_reply (Accepted RPC_PROG_LOCKED)" "Accepted RPC_PROG_LOCKED \<noteq> Accepted RPC_ACCEPT_SUCCESS"
    by (simp_all add: plain_stats_def rpc_consts)
  have b: "words [0, 1, 0, 0, 0, 6]
      = words ([0, RPC_MSG_REPLY] @ reply_words 0 (Accepted RPC_PROG_LOCKED)) @ []"
    by (simp add: rpc_consts)
  have len: "int (length (words [0, 1, 0, 0, 0, 6])) \<le> RPCROUTER_MSGSIZE_MAX"
    by (simp add: RPCROUTER_MSGSIZE_MAX_def)
  from refused_call_status [OF c r b len, of no_such_procedure xdr_u_int "5 :: u32" 0 0 0]
  show ?thesis by metis
qed

text \<open>
  A reset during the send is not noticed. \<open>write\<close> reports an error as -1, which is what
  \<open>xdr_err\<close> becomes; the test for -ENETRESET after it never holds. The caller gets RPC_CANTSEND (or
  RPC_CANTENCODEARGS), never RPC_SUBSYSTEM_RESTART, and the client is not marked as being in reset.
\<close>

theorem send_error_is_not_restart:
  assumes "in_reset client = 0" and "\<And>c. other BeforeSend c = c"
    and "clnt_call other (-1) junk client pr xdr_args args xdr_results rets = (stat, r, c')"
    and "\<And>v y z u ok. out_next y \<ge> 0 \<Longrightarrow> xdr_args v y = (ok, u, z) \<Longrightarrow> out_next z \<ge> 0"
  shows "stat \<in> {RPC_CANTENCODEARGS, RPC_CANTSEND} \<and> in_reset c' = 0 \<and> r = rets"
proof -
  let ?x = "(c_xdr client)\<lparr>x_op := XDR_ENCODE\<rparr>"
  obtain ok x1 where 1: "xdr_call_msg_start (x_prog ?x) (x_vers ?x) pr AUTH_NONE AUTH_NONE ?x = (ok, x1)"
    by (cases "xdr_call_msg_start (x_prog ?x) (x_vers ?x) pr AUTH_NONE AUTH_NONE ?x")
  note st = call_msg_start [OF 1]
  obtain ok2 u x2 where 2: "xdr_args args x1 = (ok2, u, x2)" by (cases "xdr_args args x1")
  have "out_next x2 \<ge> 0" using assms(4) [OF _ 2] st(3) by simp
  then show ?thesis
    using assms(1,3) 1 2 st(1)
    by (auto simp: clnt_call_def assms(2) xdr_std_msg_send_def xdr_std_msg_abort_def ENETRESET_def
        out_unlock_def Let_def split: if_splits)
qed

theorem send_error_is_not_restart_witness:
  "fst (clnt_call (\<lambda>_ c. c) (-1) no_such_procedure idle_client 3 xdr_u_int 5 xdr_u_int 0)
     \<in> {RPC_CANTENCODEARGS, RPC_CANTSEND}"
proof -
  obtain stat r c' where run: "clnt_call (\<lambda>_ c. c) (-1) no_such_procedure idle_client 3 xdr_u_int 5 xdr_u_int 0
      = (stat, r, c')"
    by (cases "clnt_call (\<lambda>_ c. c) (-1) no_such_procedure idle_client 3 xdr_u_int 5 xdr_u_int 0")
  have "in_reset idle_client = 0" by (simp add: idle_client_def)
  moreover have "out_next z \<ge> 0" if "out_next y \<ge> 0" "xdr_u_int v y = (ok, u, z)" for v y z u ok
    using that by (auto simp: xdr_u_int_def send_as_def xdr_std_send_uint32_def xdr_std_recv_uint32_def
        split: xdr_op.splits if_splits prod.splits)
  ultimately have "stat \<in> {RPC_CANTENCODEARGS, RPC_CANTSEND}"
    using send_error_is_not_restart [OF _ refl run] by blast
  then show ?thesis using run by simp
qed

text \<open>
  A call for an unknown callback program stops the receive thread. When a call packet names a
  program and version nobody registered, the callback thread drops it without freeing the input
  buffer; at the next packet the receive thread, which serves every client, waits for it for ever.
\<close>

theorem unknown_callback_blocks_receiver:
  assumes "in_reset c = 0" and "input_xdr_busy c = 0" and "xprt_in_reset xprt = 0"
    and "b = words (call_words i prog vers proc) @ args" and "int (length b) \<le> RPCROUTER_MSGSIZE_MAX"
    and "svc_find xprt prog vers = None"
  shows "\<exists>out c'. rx_step readable (ReadData b) c = Some out \<and> woke_cb out
    \<and> cb_turn call pid handle (rx_client out) (Some xprt) w = Some (c', xprt, w, None)
    \<and> rx_step readable any_packet c' = None"
proof -
  have b: "b = words [i, RPC_MSG_CALL] @ (words [RPC_MSG_VERSION, prog, vers, proc, 0, 0, 0, 0] @ args)"
    using assms(4) by (simp add: call_words_def)
  have "RPC_MSG_CALL \<noteq> RPC_MSG_REPLY" by (simp add: rpc_consts)
  note rx = rx_step_call [OF assms(1,2) b this assms(5)]
  let ?c = "(holding c b)\<lparr>got_cb := 1, cb_stop := (if cb_stop c < 0 then 0 else cb_stop c)\<rparr>"
  have w: "get_word (store_bytes (in_msg (c_xdr c)) 0 b) k = call_words i prog vers proc ! k" if "k < 10" for k
    using get_word_packet [of k "call_words i prog vers proc" "in_msg (c_xdr c)" args] assms(4) that by simp
  obtain prev rest where "svc_find_nosync (servers xprt) prog vers = (prev, None, rest)"
    using assms(6) by (cases "svc_find_nosync (servers xprt) prog vers") (simp add: svc_find_def)
  then have turn: "cb_turn call pid handle ?c (Some xprt) w = Some (?c\<lparr>got_cb := 0\<rparr>, xprt, w, None)"
    using assms(1,3) w [of 3] w [of 4]
    by (simp add: cb_turn_def svc_is_in_reset_def RPC_OFFSET_def Let_def)
  have "rx_step readable any_packet (?c\<lparr>got_cb := 0\<rparr>) = None"
    using assms(1) by (simp add: rx_step_def rx_reset_def rx_read_def rx_quiet_def readable_def Let_def)
  then show ?thesis using rx turn by (simp add: rx_quiet_def)
qed

theorem unknown_callback_blocks_receiver_witness:
  "\<exists>out c'. rx_step readable (ReadData (words (call_words 1 0x3100008C 9 1))) idle_client = Some out
    \<and> cb_turn (\<lambda>d req s w. Some (s, w)) 5 11 (rx_client out) (Some calloc_xprt) () = Some (c', calloc_xprt, (), None)
    \<and> rx_step readable (ReadData (words [1, 1])) c' = None"
proof -
  have c: "in_reset idle_client = 0" "input_xdr_busy idle_client = 0" "xprt_in_reset calloc_xprt = 0"
    by (simp_all add: idle_client_def calloc_xprt_def)
  have b: "words (call_words 1 0x3100008C 9 1) = words (call_words 1 0x3100008C 9 1) @ []"
    "int (length (words (call_words 1 0x3100008C 9 1))) \<le> RPCROUTER_MSGSIZE_MAX"
    by (simp_all add: RPCROUTER_MSGSIZE_MAX_def)
  have "svc_find calloc_xprt 0x3100008C 9 = None" by (simp add: svc_find_def calloc_xprt_def)
  from unknown_callback_blocks_receiver [OF c b this, of "\<lambda>d req s w. Some (s, w)" 5 11 "()"
      "ReadData (words [1, 1])"]
  show ?thesis by blast
qed

end
