(* ===== verification/LocApiGlue.thy ===== *)
theory LocApiGlue
  imports SyncCall Clnt
begin

text \<open>
  The two ends of the location API on the application processor: the client stubs
  (gen-50000/loc_api_clnt.c), the glue that opens and closes clients and routes callbacks
  (gen-50000/loc_api_rpc_glue.c), the callback server stub (gen-50000/loc_api_cb_svc.c) and its
  registration (src/loc_apicb_appinit.c).

  The state of the glue is its callback table and its RPC client; callback functions are numbers,
  0 for a null pointer. \<open>rpc_env\<close> carries what a blocking call depends on besides its arguments: the
  behaviour of the other threads, the result of the write, and the uninitialised reply header.
\<close>

section \<open>Client stubs\<close>

record rpc_env =
  env_other :: "wait_point \<Rightarrow> CLIENT \<Rightarrow> CLIENT"
  env_write :: int
  env_junk :: rpc_reply_header

definition rpc_loc_api_null_0x00050001 :: "rpc_env \<Rightarrow> unit \<Rightarrow> unit \<Rightarrow> CLIENT \<Rightarrow> u32 \<times> unit \<times> CLIENT" where
  "rpc_loc_api_null_0x00050001 e argp clnt_res clnt =
     clnt_call (env_other e) (env_write e) (env_junk e) clnt 0 xdr_void argp xdr_void clnt_res"

definition rpc_loc_api_rpc_glue_code_info_remote_0x00050001 ::
    "rpc_env \<Rightarrow> unit \<Rightarrow> rpc_loc_api_rpc_glue_code_info_remote_rets \<Rightarrow> CLIENT
      \<Rightarrow> u32 \<times> rpc_loc_api_rpc_glue_code_info_remote_rets \<times> CLIENT" where
  "rpc_loc_api_rpc_glue_code_info_remote_0x00050001 e argp clnt_res clnt =
     clnt_call (env_other e) (env_write e) (env_junk e) clnt 1 xdr_void argp
       xdr_rpc_loc_api_rpc_glue_code_info_remote_rets clnt_res"

definition rpc_loc_open_0x00050001 ::
    "rpc_env \<Rightarrow> rpc_loc_open_args \<Rightarrow> rpc_loc_open_rets \<Rightarrow> CLIENT \<Rightarrow> u32 \<times> rpc_loc_open_rets \<times> CLIENT" where
  "rpc_loc_open_0x00050001 e argp clnt_res clnt =
     clnt_call (env_other e) (env_write e) (env_junk e) clnt 2 xdr_rpc_loc_open_args argp
       xdr_rpc_loc_open_rets clnt_res"

definition rpc_loc_close_0x00050001 ::
    "rpc_env \<Rightarrow> rpc_loc_close_args \<Rightarrow> rpc_loc_close_rets \<Rightarrow> CLIENT \<Rightarrow> u32 \<times> rpc_loc_close_rets \<times> CLIENT" where
  "rpc_loc_close_0x00050001 e argp clnt_res clnt =
     clnt_call (env_other e) (env_write e) (env_junk e) clnt 3 xdr_rpc_loc_close_args argp
       xdr_rpc_loc_close_rets clnt_res"

definition rpc_loc_start_fix_0x00050001 ::
    "rpc_env \<Rightarrow> rpc_loc_start_fix_args \<Rightarrow> rpc_loc_start_fix_rets \<Rightarrow> CLIENT
      \<Rightarrow> u32 \<times> rpc_loc_start_fix_rets \<times> CLIENT" where
  "rpc_loc_start_fix_0x00050001 e argp clnt_res clnt =
     clnt_call (env_other e) (env_write e) (env_junk e) clnt 4 xdr_rpc_loc_start_fix_args argp
       xdr_rpc_loc_start_fix_rets clnt_res"

definition rpc_loc_stop_fix_0x00050001 ::
    "rpc_env \<Rightarrow> rpc_loc_stop_fix_args \<Rightarrow> rpc_loc_stop_fix_rets \<Rightarrow> CLIENT
      \<Rightarrow> u32 \<times> rpc_loc_stop_fix_rets \<times> CLIENT" where
  "rpc_loc_stop_fix_0x00050001 e argp clnt_res clnt =
     clnt_call (env_other e) (env_write e) (env_junk e) clnt 5 xdr_rpc_loc_stop_fix_args argp
       xdr_rpc_loc_stop_fix_rets clnt_res"

definition rpc_loc_ioctl_0x00050001 ::
    "rpc_env \<Rightarrow> rpc_loc_ioctl_args \<Rightarrow> rpc_loc_ioctl_rets \<Rightarrow> CLIENT \<Rightarrow> u32 \<times> rpc_loc_ioctl_rets \<times> CLIENT" where
  "rpc_loc_ioctl_0x00050001 e argp clnt_res clnt =
     clnt_call (env_other e) (env_write e) (env_junk e) clnt 6 xdr_rpc_loc_ioctl_args argp
       xdr_rpc_loc_ioctl_rets clnt_res"

definition rpc_loc_api_api_versions_0x00050001 ::
    "rpc_env \<Rightarrow> unit \<Rightarrow> rpc_loc_api_api_versions_rets \<Rightarrow> CLIENT
      \<Rightarrow> u32 \<times> rpc_loc_api_api_versions_rets \<times> CLIENT" where
  "rpc_loc_api_api_versions_0x00050001 e argp clnt_res clnt =
     clnt_call (env_other e) (env_write e) (env_junk e) clnt 0xFFFFFFFF xdr_void argp
       xdr_rpc_loc_api_api_versions_rets clnt_res"

definition rpc_loc_api_null_0x00050002 :: "rpc_env \<Rightarrow> unit \<Rightarrow> unit \<Rightarrow> CLIENT \<Rightarrow> u32 \<times> unit \<times> CLIENT" where
  "rpc_loc_api_null_0x00050002 e argp clnt_res clnt =
     clnt_call (env_other e) (env_write e) (env_junk e) clnt 0 xdr_void argp xdr_void clnt_res"

section \<open>The callback table\<close>

definition LOC_API_CB_MAX_CLIENTS :: nat where "LOC_API_CB_MAX_CLIENTS = 16"

record loc_glue_cb_entry =
  entry_cb_id :: u32
  entry_cb_func :: nat
  entry_handle :: u32

record glue =
  loc_api_clnt :: "CLIENT option"
  callback_table :: "loc_glue_cb_entry list"

definition RPC_LOC_API_RPC_FAILURE :: u32 where "RPC_LOC_API_RPC_FAILURE = - 1234"
definition RPC_LOC_CLIENT_HANDLE_INVALID :: u32 where "RPC_LOC_CLIENT_HANDLE_INVALID = - 1"

text \<open>\<open>i | (pid << 16)\<close>\<close>

definition glue_cb_id :: "nat \<Rightarrow> u32 \<Rightarrow> u32" where
  "glue_cb_id i pid = word_of_nat i OR push_bit 16 pid"

definition init_table :: "u32 \<Rightarrow> loc_glue_cb_entry list" where
  "init_table pid = map (\<lambda>i. \<lparr>entry_cb_id = glue_cb_id i pid, entry_cb_func = 0, entry_handle = - 1\<rparr>)
     [0..<LOC_API_CB_MAX_CLIENTS]"

text \<open>
  The entry \<open>loc_open\<close> uses for a callback: the one that already has it, else the first without a
  callback, which gets it.
\<close>

definition claim_entry :: "nat \<Rightarrow> loc_glue_cb_entry list \<Rightarrow> (nat \<times> loc_glue_cb_entry list) option" where
  "claim_entry cb t =
     (case find_index (\<lambda>e. entry_cb_func e = cb) t of
        Some i \<Rightarrow> Some (i, t)
      | None \<Rightarrow> (case find_index (\<lambda>e. entry_cb_func e = 0) t of
          None \<Rightarrow> None
        | Some i \<Rightarrow> Some (i, t[i := (t ! i)\<lparr>entry_cb_func := cb\<rparr>])))"

definition loc_open :: "rpc_env \<Rightarrow> u64 \<Rightarrow> nat \<Rightarrow> rpc_loc_open_rets \<Rightarrow> glue \<Rightarrow> u32 \<times> glue" where
  "loc_open e event_mask cb rets g =
     (case loc_api_clnt g of
        None \<Rightarrow> (RPC_LOC_API_RPC_FAILURE, g)
      | Some clnt \<Rightarrow>
        (case claim_entry cb (callback_table g) of
           None \<Rightarrow> (RPC_LOC_CLIENT_HANDLE_INVALID, g)
         | Some (i, t) \<Rightarrow>
             case rpc_loc_open_0x00050001 e
                 \<lparr>event_reg_mask = event_mask, event_callback = entry_cb_id (t ! i)\<rparr> rets clnt of
               (stat, r, clnt1) \<Rightarrow>
                 let g1 = g\<lparr>loc_api_clnt := Some clnt1, callback_table := t\<rparr> in
                 if stat \<noteq> RPC_SUCCESS then (RPC_LOC_API_RPC_FAILURE, g1)
                 else (loc_open_result r,
                   g1\<lparr>callback_table := t[i := (t ! i)\<lparr>entry_handle := loc_open_result r\<rparr>]\<rparr>)))"

definition release_entry :: "u32 \<Rightarrow> loc_glue_cb_entry list \<Rightarrow> loc_glue_cb_entry list" where
  "release_entry h t =
     (case find_index (\<lambda>e. entry_handle e = h) t of
        None \<Rightarrow> t
      | Some i \<Rightarrow> t[i := (t ! i)\<lparr>entry_cb_func := 0, entry_handle := - 1\<rparr>])"

text \<open>\<open>clnt_destroy\<close> of the only reference leaves no client behind.\<close>

definition loc_close :: "rpc_env \<Rightarrow> u32 \<Rightarrow> rpc_loc_close_rets \<Rightarrow> glue \<Rightarrow> u32 \<times> glue" where
  "loc_close e h rets g =
     (case loc_api_clnt g of
        None \<Rightarrow> (RPC_LOC_API_RPC_FAILURE, g)
      | Some clnt \<Rightarrow>
        (case rpc_loc_close_0x00050001 e \<lparr>rpc_loc_close_args.handle = h\<rparr> rets clnt of
           (stat, r, clnt1) \<Rightarrow>
             let g1 = g\<lparr>loc_api_clnt := Some clnt1, callback_table := release_entry h (callback_table g)\<rparr> in
             if stat \<noteq> RPC_SUCCESS then (RPC_LOC_API_RPC_FAILURE, g1)
             else (loc_close_result r, g1\<lparr>loc_api_clnt := None\<rparr>)))"

text \<open>A plain request: call, check the status, return the result.\<close>

definition loc_start_fix :: "rpc_env \<Rightarrow> u32 \<Rightarrow> rpc_loc_start_fix_rets \<Rightarrow> glue \<Rightarrow> u32 \<times> glue" where
  "loc_start_fix e h rets g =
     (case loc_api_clnt g of
        None \<Rightarrow> (RPC_LOC_API_RPC_FAILURE, g)
      | Some clnt \<Rightarrow>
        (case rpc_loc_start_fix_0x00050001 e \<lparr>rpc_loc_start_fix_args.handle = h\<rparr> rets clnt of
           (stat, r, clnt1) \<Rightarrow>
             (if stat \<noteq> RPC_SUCCESS then RPC_LOC_API_RPC_FAILURE else loc_start_fix_result r,
              g\<lparr>loc_api_clnt := Some clnt1\<rparr>)))"

definition loc_stop_fix :: "rpc_env \<Rightarrow> u32 \<Rightarrow> rpc_loc_stop_fix_rets \<Rightarrow> glue \<Rightarrow> u32 \<times> glue" where
  "loc_stop_fix e h rets g =
     (case loc_api_clnt g of
        None \<Rightarrow> (RPC_LOC_API_RPC_FAILURE, g)
      | Some clnt \<Rightarrow>
        (case rpc_loc_stop_fix_0x00050001 e \<lparr>rpc_loc_stop_fix_args.handle = h\<rparr> rets clnt of
           (stat, r, clnt1) \<Rightarrow>
             (if stat \<noteq> RPC_SUCCESS then RPC_LOC_API_RPC_FAILURE else loc_stop_fix_result r,
              g\<lparr>loc_api_clnt := Some clnt1\<rparr>)))"

text \<open>
  \<open>loc_ioctl\<close> fills in the discriminants the user may have left out. Assigning the inner one only
  makes sense when the server address is the member in use; cleared storage already has it.
\<close>

definition set_addr_disc :: "rpc_loc_ioctl_data_u_type \<Rightarrow> rpc_loc_ioctl_data_u_type" where
  "set_addr_disc v =
     (case arm v of
        ioctl_data_server_addr w \<Rightarrow>
          v\<lparr>arm := ioctl_data_server_addr (w\<lparr>addr_info := (addr_info w)\<lparr>disc := addr_type w\<rparr>\<rparr>)\<rparr>
      | _ \<Rightarrow> v)"

definition ioctl_discriminants :: "u32 \<Rightarrow> rpc_loc_ioctl_data_u_type \<Rightarrow> rpc_loc_ioctl_data_u_type" where
  "ioctl_discriminants kd v =
     (let v1 = v\<lparr>disc := kd\<rparr> in
      if kd \<in> {RPC_LOC_IOCTL_SET_CDMA_PDE_SERVER_ADDR, RPC_LOC_IOCTL_SET_CDMA_MPC_SERVER_ADDR,
          RPC_LOC_IOCTL_SET_UMTS_SLP_SERVER_ADDR, RPC_LOC_IOCTL_SET_CUSTOM_PDE_SERVER_ADDR}
      then set_addr_disc v1 else v1)"

definition loc_ioctl ::
    "rpc_env \<Rightarrow> u32 \<Rightarrow> u32 \<Rightarrow> rpc_loc_ioctl_data_u_type option \<Rightarrow> rpc_loc_ioctl_rets \<Rightarrow> glue \<Rightarrow> u32 \<times> glue" where
  "loc_ioctl e h kd dat rets g =
     (case loc_api_clnt g of
        None \<Rightarrow> (RPC_LOC_API_RPC_FAILURE, g)
      | Some clnt \<Rightarrow>
        (case rpc_loc_ioctl_0x00050001 e
            \<lparr>rpc_loc_ioctl_args.handle = h, ioctl_type = kd,
             ioctl_data = map_option (ioctl_discriminants kd) dat\<rparr> rets clnt of
           (stat, r, clnt1) \<Rightarrow>
             (if stat \<noteq> RPC_SUCCESS then RPC_LOC_API_RPC_FAILURE else loc_ioctl_result r,
              g\<lparr>loc_api_clnt := Some clnt1\<rparr>)))"

text \<open>\<open>junk\<close> is the uninitialised \<open>rets\<close>: the call has no result, and it is what is returned.\<close>

definition loc_api_null :: "rpc_env \<Rightarrow> u32 \<Rightarrow> glue \<Rightarrow> u32 \<times> glue" where
  "loc_api_null e junk g =
     (case loc_api_clnt g of
        None \<Rightarrow> (RPC_LOC_API_RPC_FAILURE, g)
      | Some clnt \<Rightarrow>
        (case rpc_loc_api_null_0x00050001 e () () clnt of
           (stat, _, clnt1) \<Rightarrow>
             (if stat \<noteq> RPC_SUCCESS then RPC_LOC_API_RPC_FAILURE else junk, g\<lparr>loc_api_clnt := Some clnt1\<rparr>)))"

section \<open>Callbacks from the modem\<close>

text \<open>
  The state a callback works on: the glue, the synchronous calls and the rest of the program. The
  callback functions themselves are the argument \<open>func\<close>. None: the table is read past its end (the
  test lets index 16 pass), or a null payload is dereferenced.
\<close>

definition rpc_loc_event_cb_f_type_svc ::
    "(nat \<Rightarrow> u32 \<Rightarrow> u64 \<Rightarrow> rpc_loc_event_payload_u_type option \<Rightarrow> 'w \<Rightarrow> u32 \<times> 'w)
      \<Rightarrow> rpc_loc_event_cb_f_type_args \<Rightarrow> rpc_loc_event_cb_f_type_rets \<Rightarrow> svc_req
      \<Rightarrow> loc_glue_cb_entry list \<times> loc_sync_data \<times> 'w
      \<Rightarrow> (int \<times> rpc_loc_event_cb_f_type_rets \<times> loc_glue_cb_entry list \<times> loc_sync_data \<times> 'w) option" where
  "rpc_loc_event_cb_f_type_svc func argp ret req st =
     (case st of (t, sync, w) \<Rightarrow>
        let index = unat (cb_id argp AND 0xFFFF) in
        if index > LOC_API_CB_MAX_CLIENTS then Some (1, ret\<lparr>loc_event_cb_f_type_result := 0\<rparr>, t, sync, w)
        else if index \<ge> length t then None
        else if entry_cb_func (t ! index) = 0
        then Some (1, ret\<lparr>loc_event_cb_f_type_result := 0\<rparr>, t, sync, w)
        else case loc_api_callback_process_sync_call (loc_handle argp) (loc_event argp)
                    (loc_event_payload argp) sync of
          None \<Rightarrow> None
        | Some sync1 \<Rightarrow>
            case func (entry_cb_func (t ! index)) (loc_handle argp) (loc_event argp) (loc_event_payload argp) w of
              (rc, w1) \<Rightarrow> Some (1, ret\<lparr>loc_event_cb_f_type_result := rc\<rparr>, t, sync1, w1))"

text \<open>\<open>xdr_free\<close> of rpc.c, on a handle from the stack; \<open>loc_apicbprog_freeresult\<close> calls it.\<close>

definition xdr_free :: "XDR \<Rightarrow> 'a xdrproc \<Rightarrow> 'a \<Rightarrow> XDR" where
  "xdr_free stack proc objp = snd (snd (proc objp (stack\<lparr>x_op := XDR_FREE\<rparr>)))"

definition loc_apicbprog_freeresult :: "XDR \<Rightarrow> 'a xdrproc \<Rightarrow> 'a \<Rightarrow> int \<times> XDR" where
  "loc_apicbprog_freeresult stack proc r = (1, xdr_free stack proc r)"

text \<open>
  The dispatch function of the callback program. \<open>ret\<close> is the result of its writes, \<open>junk\<close> the
  uninitialised result. None: a null handle, a crash in the callback, or \<open>exit(1)\<close>.
\<close>

definition NULLPROC :: u32 where "NULLPROC = 0"
definition RPC_LOC_EVENT_CB_PROC :: u32 where "RPC_LOC_EVENT_CB_PROC = 1"

definition loc_apicbprog_0x00050001 ::
    "int \<Rightarrow> rpc_loc_event_cb_f_type_rets
      \<Rightarrow> (rpc_loc_event_cb_f_type_args \<Rightarrow> rpc_loc_event_cb_f_type_rets \<Rightarrow> svc_req \<Rightarrow> 'w
          \<Rightarrow> (int \<times> rpc_loc_event_cb_f_type_rets \<times> 'w) option)
      \<Rightarrow> svc_req \<Rightarrow> registered_server \<Rightarrow> 'w \<Rightarrow> (registered_server \<times> 'w) option" where
  "loc_apicbprog_0x00050001 ret junk localf rqstp srv w =
     (if rq_proc rqstp = NULLPROC then do {
        (_, s1) \<leftarrow> svc_sendreply ret xdr_void () srv;
        Some (s1, w)
      }
      else if rq_proc rqstp \<noteq> RPC_LOC_EVENT_CB_PROC then do {
        s1 \<leftarrow> svcerr_noproc ret srv;
        Some (s1, w)
      }
      else do {
        (got, arg, s1) \<leftarrow> svc_getargs xdr_rpc_loc_event_cb_f_type_args
          zero_rpc_loc_event_cb_f_type_args srv;
        if \<not> got then do {
          s2 \<leftarrow> svcerr_decode ret s1;
          Some (s2, w)
        }
        else do {
          (retval, res, w1) \<leftarrow> localf arg junk rqstp w;
          s2 \<leftarrow> (if retval > 0 then do {
                 (sent, s) \<leftarrow> svc_sendreply ret xdr_rpc_loc_event_cb_f_type_rets res s1;
                 if \<not> sent then svcerr_systemerr ret s else Some s
               } else Some s1);
          (freed, _, s3) \<leftarrow> svc_freeargs xdr_rpc_loc_event_cb_f_type_args arg s2;
          if \<not> freed then None
          else do {
            x \<leftarrow> srv_xdr s3;
            let (_, p) = loc_apicbprog_freeresult x xdr_rpc_loc_event_cb_f_type_rets res;
            Some (s3\<lparr>srv_xdr := Some (with_process p x)\<rparr>, w1)
          }
        }
      })"

section \<open>Initialisation\<close>

definition LOC_APIPROG :: u32 where "LOC_APIPROG = 0x3000008C"
definition LOC_APIVERS :: u32 where "LOC_APIVERS = 0x00050001"
definition LOC_APICBPROG :: u32 where "LOC_APICBPROG = 0x3100008C"
definition LOC_APICBVERS_0001 :: u32 where "LOC_APICBVERS_0001 = 0x00050001"

text \<open>
  The callback server: the transport the module holds (\<open>svrPort\<close>, an address), the registered
  transport with its count, and the transports in memory.
\<close>

record apicb =
  svrPort :: nat
  port_reg :: xprt_reg
  port_mem :: "nat \<rightharpoonup> SVCXPRT"

text \<open>\<open>new\<close> is where calloc puts a new transport; \<open>dispatch_fn\<close> the address of the dispatch function.\<close>

definition svcrtr_create_at :: "nat option \<Rightarrow> apicb \<Rightarrow> nat \<times> apicb" where
  "svcrtr_create_at new st =
     (if the_xprt (port_reg st) \<noteq> 0 then (the_xprt (port_reg st), st)
      else case new of None \<Rightarrow> (0, st) | Some a \<Rightarrow> (a, st\<lparr>port_mem := (port_mem st)(a \<mapsto> calloc_xprt)\<rparr>))"

definition loc_apicb_app_init :: "svc_env \<Rightarrow> nat option \<Rightarrow> nat \<Rightarrow> apicb \<Rightarrow> (int \<times> apicb) option" where
  "loc_apicb_app_init env new dispatch_fn st = do {
     let st1 = (if svrPort st = 0 then (case svcrtr_create_at new st of (a, s) \<Rightarrow> s\<lparr>svrPort := a\<rparr>) else st);
     if svrPort st1 = 0 then Some (-1, st1)
     else do {
       let st2 = st1\<lparr>port_reg := xprt_register (svrPort st1) (port_reg st1)\<rparr>;
       xprt \<leftarrow> port_mem st2 (svrPort st2);
       (ok, xprt1) \<leftarrow> svc_register env xprt LOC_APICBPROG LOC_APICBVERS_0001 dispatch_fn;
       Some (if ok then 0 else -1, st2\<lparr>port_mem := (port_mem st2)(svrPort st2 \<mapsto> xprt1)\<rparr>)
     }
   }"

definition loc_apicb_app_deinit :: "apicb \<Rightarrow> apicb" where
  "loc_apicb_app_deinit st =
     (if svrPort st = 0 then st
      else case xprt_unregister (svrPort st) (port_reg st) of (gone, r) \<Rightarrow>
        st\<lparr>port_reg := r, svrPort := 0,
           port_mem := (if gone then (port_mem st)(svrPort st := None) else port_mem st)\<rparr>)"

text \<open>
  \<open>client\<close> is the result of \<open>clnt_create\<close>, None when it fails. The result is that of the source,
  1 for success and 0 for failure, with the three parts of the state.
\<close>

definition loc_api_glue_init ::
    "CLIENT option \<Rightarrow> u32 \<Rightarrow> svc_env \<Rightarrow> nat option \<Rightarrow> nat \<Rightarrow> glue \<Rightarrow> loc_sync_data \<Rightarrow> apicb
      \<Rightarrow> (int \<times> glue \<times> loc_sync_data \<times> apicb) option" where
  "loc_api_glue_init client pid env new dispatch_fn g sync cb =
     (case loc_api_clnt g of
        Some _ \<Rightarrow> Some (1, g, sync, cb)
      | None \<Rightarrow>
          let g1 = g\<lparr>callback_table := init_table pid, loc_api_clnt := client\<rparr> in
          if client = None then Some (0, g1, sync, cb)
          else do {
            let sync1 = loc_api_sync_call_init sync;
            (rc, cb1) \<leftarrow> loc_apicb_app_init env new dispatch_fn cb;
            Some (if rc \<ge> 0 then 1 else 0, g1, sync1, cb1)
          })"

section \<open>The remote procedures\<close>

text \<open>A well-behaved exchange: the packet of \<open>n\<close> argument bytes is written whole and answered with \<open>b\<close>.\<close>

definition exchange :: "rpc_env \<Rightarrow> nat \<Rightarrow> byte list \<Rightarrow> bool" where
  "exchange e n b \<longleftrightarrow> env_other e = answered b \<and> env_write e = 40 + int n
     \<and> 40 + int n \<le> RPCROUTER_MSGSIZE_MAX \<and> int (length b) \<le> RPCROUTER_MSGSIZE_MAX"

context rpc_procedure
begin

lemma exchange_returns:
  assumes "awf v" "idle c" "rwf u" "exchange e (length (aenc v)) (success_reply c f (renc u))"
  obtains x where "clnt_call (env_other e) (env_write e) (env_junk e) c pr aproc v rproc obj
      = (RPC_SUCCESS, u, c\<lparr>c_xdr := x, input_xdr_busy := 0\<rparr>)"
    and "written x = written (c_xdr c) @ [request c pr (aenc v)]"
    and "same_end ((c_xdr c)\<lparr>xid := xid (c_xdr c) + 1\<rparr>) x"
  using call_returns [OF assms(1) _ assms(2,3) refl, of f "env_write e" "env_junk e" pr obj] assms(4)
  unfolding exchange_def by auto

end

lemma mdec_result: "mdec xdr_rpc_int32 obj v (enc_u32 v) 0"
  unfolding xdr_rpc_int32_def enc_u32_def
  by (rule mdec_single, rule mdec_word [OF moves_word(4), simplified])

lemma mdec_handle: "mdec xdr_rpc_loc_client_handle_type obj v (enc_u32 v) 0"
  unfolding xdr_rpc_loc_client_handle_type_def by (rule mdec_single, rule mdec_result)

interpretation loc_open_rpc: rpc_procedure xdr_rpc_loc_open_args enc_rpc_loc_open_args "\<lambda>_. True"
    "\<lambda>_. 0" zero_rpc_loc_open_args xdr_rpc_loc_open_rets enc_rpc_loc_open_rets "\<lambda>_. True" "\<lambda>_. 0"
    zero_rpc_loc_open_rets
  by unfold_locales (simp add: xdr_rpc_loc_open_rets_def enc_rpc_loc_open_rets_def,
      rule mdec_single_member [OF mdec_handle], simp)

interpretation loc_close_rpc: rpc_procedure xdr_rpc_loc_close_args enc_rpc_loc_close_args "\<lambda>_. True"
    "\<lambda>_. 0" zero_rpc_loc_close_args xdr_rpc_loc_close_rets enc_rpc_loc_close_rets "\<lambda>_. True" "\<lambda>_. 0"
    zero_rpc_loc_close_rets
  by unfold_locales (simp add: xdr_rpc_loc_close_rets_def enc_rpc_loc_close_rets_def,
      rule mdec_single_member [OF mdec_result], simp)

interpretation loc_start_fix_rpc: rpc_procedure xdr_rpc_loc_start_fix_args enc_rpc_loc_start_fix_args
    "\<lambda>_. True" "\<lambda>_. 0" zero_rpc_loc_start_fix_args xdr_rpc_loc_start_fix_rets
    enc_rpc_loc_start_fix_rets "\<lambda>_. True" "\<lambda>_. 0" zero_rpc_loc_start_fix_rets
  by unfold_locales (simp add: xdr_rpc_loc_start_fix_rets_def enc_rpc_loc_start_fix_rets_def,
      rule mdec_single_member [OF mdec_result], simp)

interpretation loc_stop_fix_rpc: rpc_procedure xdr_rpc_loc_stop_fix_args enc_rpc_loc_stop_fix_args
    "\<lambda>_. True" "\<lambda>_. 0" zero_rpc_loc_stop_fix_args xdr_rpc_loc_stop_fix_rets
    enc_rpc_loc_stop_fix_rets "\<lambda>_. True" "\<lambda>_. 0" zero_rpc_loc_stop_fix_rets
  by unfold_locales (simp add: xdr_rpc_loc_stop_fix_rets_def enc_rpc_loc_stop_fix_rets_def,
      rule mdec_single_member [OF mdec_result], simp)

interpretation loc_ioctl_rpc: rpc_procedure xdr_rpc_loc_ioctl_args enc_rpc_loc_ioctl_args
    wf_rpc_loc_ioctl_args blk_rpc_loc_ioctl_args zero_rpc_loc_ioctl_args xdr_rpc_loc_ioctl_rets
    enc_rpc_loc_ioctl_rets "\<lambda>_. True" "\<lambda>_. 0" zero_rpc_loc_ioctl_rets
  by unfold_locales (simp add: xdr_rpc_loc_ioctl_rets_def enc_rpc_loc_ioctl_rets_def,
      rule mdec_single_member [OF mdec_result], simp)

text \<open>A client after a call: one more packet, ready for the next call.\<close>

definition after_call :: "CLIENT \<Rightarrow> byte list \<Rightarrow> CLIENT \<Rightarrow> bool" where
  "after_call c p d \<longleftrightarrow> idle d \<and> written (c_xdr d) = written (c_xdr c) @ [p]
     \<and> xid (c_xdr d) = xid (c_xdr c) + 1 \<and> x_prog (c_xdr d) = x_prog (c_xdr c)
     \<and> x_vers (c_xdr d) = x_vers (c_xdr c)"

lemma after_callI:
  "idle c \<Longrightarrow> written x = written (c_xdr c) @ [p]
    \<Longrightarrow> same_end ((c_xdr c)\<lparr>xid := xid (c_xdr c) + 1\<rparr>) x
    \<Longrightarrow> after_call c p (c\<lparr>c_xdr := x, input_xdr_busy := 0\<rparr>)"
  by (simp add: after_call_def idle_def same_end_def all_mallocs_def)

section \<open>The table of callbacks\<close>

text \<open>Entries keep the identifiers they got at initialisation; no callback function has two entries.\<close>

definition wf_table :: "u32 \<Rightarrow> loc_glue_cb_entry list \<Rightarrow> bool" where
  "wf_table pid t \<longleftrightarrow> map entry_cb_id t = map (\<lambda>i. glue_cb_id i pid) [0..<LOC_API_CB_MAX_CLIENTS]
     \<and> distinct (filter (\<lambda>f. f \<noteq> 0) (map entry_cb_func t))"

lemma map_list_update: "map f (xs[i := x]) = (map f xs)[i := f x]"
  by (rule map_update)

lemma distinct_filter_update:
  assumes "distinct (filter P xs)" "P y \<Longrightarrow> y \<notin> set xs"
  shows "distinct (filter P (xs[i := y]))"
  using assms
proof (induction xs arbitrary: i)
  case (Cons x xs)
  show ?case
  proof (cases i)
    case (Suc k)
    have "set (xs[k := y]) \<subseteq> insert y (set xs)" by (rule set_update_subset_insert)
    then show ?thesis using Cons Suc by (auto split: if_splits)
  qed (use Cons in \<open>auto split: if_splits\<close>)
qed simp

lemma distinct_filter_nth:
  assumes "distinct (filter P xs)" "i < length xs" "j < length xs" "P (xs ! i)" "xs ! i = xs ! j"
  shows "i = j"
  using assms
proof (induction xs arbitrary: i j)
  case (Cons x xs)
  then show ?case
    by (cases i; cases j) (auto split: if_splits)
qed simp

lemma table_length: "wf_table pid t \<Longrightarrow> length t = LOC_API_CB_MAX_CLIENTS"
  unfolding wf_table_def by (metis length_map diff_zero length_upt)

lemma table_cb_id: "wf_table pid t \<Longrightarrow> i < LOC_API_CB_MAX_CLIENTS \<Longrightarrow> entry_cb_id (t ! i) = glue_cb_id i pid"
  using table_length [of pid t] unfolding wf_table_def
  by (metis (no_types, lifting) add.left_neutral diff_zero length_upt nth_map nth_upt)

lemma init_table_wf: "wf_table pid (init_table pid)"
  by (simp add: wf_table_def init_table_def comp_def filter_empty_conv)

lemma table_update_wf:
  assumes "wf_table pid t" "entry_cb_id x = entry_cb_id (t ! i)"
    and "entry_cb_func x \<noteq> 0 \<Longrightarrow> entry_cb_func x \<notin> set (map entry_cb_func t) \<or> entry_cb_func x = entry_cb_func (t ! i)"
  shows "wf_table pid (t[i := x])"
proof (cases "i < length t")
  case True
  have ids: "map entry_cb_id (t[i := x]) = map entry_cb_id t"
    using True assms(2) by (simp add: map_list_update list_update_same_conv)
  show ?thesis
  proof (cases "entry_cb_func x = entry_cb_func (t ! i)")
    case True
    then have "map entry_cb_func (t[i := x]) = map entry_cb_func t"
      using \<open>i < length t\<close> by (simp add: map_list_update list_update_same_conv)
    then show ?thesis using assms(1) ids by (simp add: wf_table_def del: map_update)
  next
    case False
    then have "distinct (filter (\<lambda>f. f \<noteq> 0) (map entry_cb_func (t[i := x])))"
      unfolding map_list_update using assms(1,3) by (intro distinct_filter_update) (auto simp: wf_table_def)
    then show ?thesis using assms(1) ids by (simp add: wf_table_def del: map_update)
  qed
qed (use assms in \<open>simp add: list_update_beyond\<close>)

lemma claim_entry_cases:
  assumes "claim_entry cb t = Some (i, t')"
  shows "i < length t" and "entry_cb_func (t' ! i) = cb" and "entry_cb_id (t' ! i) = entry_cb_id (t ! i)"
    and "t' = t[i := (t ! i)\<lparr>entry_cb_func := cb\<rparr>]" and "length t' = length t"
    and "cb \<notin> set (map entry_cb_func t) \<or> cb = entry_cb_func (t ! i)"
  using assms
  by (auto simp: claim_entry_def find_index_Some find_index_None list_update_same_conv split: option.splits)

lemma claim_entry_wf: "wf_table pid t \<Longrightarrow> claim_entry cb t = Some (i, t') \<Longrightarrow> wf_table pid t'"
  using claim_entry_cases [of cb t i t'] table_update_wf [of pid t "(t ! i)\<lparr>entry_cb_func := cb\<rparr>" i] by auto

lemma claim_entry_None:
  "claim_entry cb t = None \<longleftrightarrow> cb \<notin> set (map entry_cb_func t) \<and> 0 \<notin> set (map entry_cb_func t)"
  by (auto simp: claim_entry_def find_index_None find_index_Some split: option.splits)

lemma release_entry_wf: "wf_table pid t \<Longrightarrow> wf_table pid (release_entry h t)"
  by (auto simp: release_entry_def intro!: table_update_wf split: option.splits)

end
