(* ===== verification/LocApiCalls.thy ===== *)
theory LocApiCalls
  imports LocApiGlue LocApiWire
begin

text \<open>
  The location API as a whole: what a call of the API does end to end (glue, stub, blocking call,
  receive thread, codecs) and how an event of the modem reaches the callback that was opened for
  it (dispatch, stub, callback table), with the states of the glue that its operations reach.
\<close>

section \<open>States of the glue\<close>

inductive reachable_glue :: "u32 \<Rightarrow> glue \<Rightarrow> bool" for pid where
  init: "loc_api_clnt g = None \<Longrightarrow> loc_api_glue_init cl pid env new f g sync cb = Some (rc, g', sync', cb')
    \<Longrightarrow> reachable_glue pid g'"
| opened: "reachable_glue pid g \<Longrightarrow> loc_open e m cb rets g = (h, g') \<Longrightarrow> reachable_glue pid g'"
| closed: "reachable_glue pid g \<Longrightarrow> loc_close e h crets g = (r, g') \<Longrightarrow> reachable_glue pid g'"
| started: "reachable_glue pid g \<Longrightarrow> loc_start_fix e h frets g = (r, g') \<Longrightarrow> reachable_glue pid g'"
| stopped: "reachable_glue pid g \<Longrightarrow> loc_stop_fix e h srets g = (r, g') \<Longrightarrow> reachable_glue pid g'"
| controlled: "reachable_glue pid g \<Longrightarrow> loc_ioctl e h kd dat irets g = (r, g') \<Longrightarrow> reachable_glue pid g'"
| pinged: "reachable_glue pid g \<Longrightarrow> loc_api_null e junk g = (r, g') \<Longrightarrow> reachable_glue pid g'"

lemma glue_init_cases:
  assumes "loc_api_clnt g = None" "loc_api_glue_init cl pid env new f g sync cb = Some (rc, g', sync', cb')"
  shows "g' = g\<lparr>callback_table := init_table pid, loc_api_clnt := cl\<rparr>"
  using assms by (auto simp: loc_api_glue_init_def Let_def split: option.splits if_splits bind_splits)

lemma loc_open_table:
  assumes "wf_table pid (callback_table g)" "loc_open e m cb rets g = (h, g')"
  shows "wf_table pid (callback_table g')"
proof -
  have up: "wf_table pid (t[i := (t ! i)\<lparr>entry_handle := r\<rparr>])" if "wf_table pid t" for t i r
    using that by (intro table_update_wf) simp_all
  show ?thesis
    using assms claim_entry_wf [OF assms(1)] up
    by (auto simp: loc_open_def Let_def split: option.splits prod.splits if_splits)
qed

lemma loc_close_table:
  "wf_table pid (callback_table g) \<Longrightarrow> loc_close e h rets g = (r, g') \<Longrightarrow> wf_table pid (callback_table g')"
  by (auto simp: loc_close_def Let_def release_entry_wf split: option.splits prod.splits if_splits)

lemma requests_keep_table:
  "loc_start_fix e h frets g = (r, g') \<Longrightarrow> callback_table g' = callback_table g"
  "loc_stop_fix e h srets g = (r, g') \<Longrightarrow> callback_table g' = callback_table g"
  "loc_ioctl e h kd dat irets g = (r, g') \<Longrightarrow> callback_table g' = callback_table g"
  "loc_api_null e junk g = (r, g') \<Longrightarrow> callback_table g' = callback_table g"
  by (auto simp: loc_start_fix_def loc_stop_fix_def loc_ioctl_def loc_api_null_def
      split: option.splits prod.splits)

lemma reachable_table: "reachable_glue pid g \<Longrightarrow> wf_table pid (callback_table g)"
proof (induction rule: reachable_glue.induct)
  case (init g cl env new f sync cb rc g' sync' cb')
  then show ?case using glue_init_cases [OF init(1,2)] by (simp add: init_table_wf)
next
  case (opened g e m cb rets h g')
  then show ?case using loc_open_table by blast
next
  case (closed g e h crets r g')
  then show ?case using loc_close_table by blast
qed (simp_all add: requests_keep_table)

section \<open>Routing an event\<close>

lemma cb_id_index:
  assumes "i < LOC_API_CB_MAX_CLIENTS"
  shows "unat (glue_cb_id i pid AND 0xFFFF) = i"
proof -
  have mask: "(0xFFFF :: u32) = mask 16" by (simp add: mask_eq_exp_minus_1)
  have "push_bit 16 pid AND mask 16 = (0 :: u32)"
    by (rule bit_word_eqI) (auto simp: bit_simps)
  then have "glue_cb_id i pid AND 0xFFFF = word_of_nat i AND mask 16"
    unfolding glue_cb_id_def mask by (simp add: bit.conj_disj_distrib2)
  also have "unat \<dots> = take_bit 16 i"
    by (simp add: take_bit_eq_mask [symmetric] unsigned_take_bit_eq unsigned_of_nat)
  also have "\<dots> = i"
    using assms by (simp add: LOC_API_CB_MAX_CLIENTS_def take_bit_nat_eq_self)
  finally show ?thesis .
qed

lemma event_to_entry:
  assumes "wf_table pid t" "i < LOC_API_CB_MAX_CLIENTS" "cb_id argp = entry_cb_id (t ! i)"
    and "loc_api_callback_process_sync_call (loc_handle argp) (loc_event argp) (loc_event_payload argp) sync
      = Some sync1"
  shows "rpc_loc_event_cb_f_type_svc func argp ret req (t, sync, w)
    = (if entry_cb_func (t ! i) = 0 then Some (1, ret\<lparr>loc_event_cb_f_type_result := 0\<rparr>, t, sync, w)
       else case func (entry_cb_func (t ! i)) (loc_handle argp) (loc_event argp) (loc_event_payload argp) w
         of (rc, w1) \<Rightarrow> Some (1, ret\<lparr>loc_event_cb_f_type_result := rc\<rparr>, t, sync1, w1))"
proof -
  have "unat (cb_id argp AND 0xFFFF) = i"
    using cb_id_index [OF assms(2), of pid] table_cb_id [OF assms(1,2)] assms(3) by simp
  then show ?thesis
    using assms(2,4) table_length [OF assms(1)]
    by (simp add: rpc_loc_event_cb_f_type_svc_def split: prod.splits)
qed

text \<open>
  C8: the callback table. In every state the glue reaches, the table has its 16 entries, entry
  \<open>i\<close> has the identifier \<open>i | pid << 16\<close>, and no callback function occupies two entries; so an
  identifier belongs to one client and a client to one identifier.
\<close>

theorem callback_table_invariant:
  assumes "reachable_glue pid g"
  shows "length (callback_table g) = 16
    \<and> (\<forall>i < 16. entry_cb_id (callback_table g ! i) = glue_cb_id i pid)
    \<and> (\<forall>i < 16. \<forall>j < 16. entry_cb_id (callback_table g ! i) = entry_cb_id (callback_table g ! j) \<longrightarrow> i = j)
    \<and> (\<forall>i < 16. \<forall>j < 16. entry_cb_func (callback_table g ! i) \<noteq> 0
        \<longrightarrow> entry_cb_func (callback_table g ! i) = entry_cb_func (callback_table g ! j) \<longrightarrow> i = j)"
proof -
  let ?t = "callback_table g"
  note wf = reachable_table [OF assms]
  have len: "length ?t = 16" using table_length [OF wf] by (simp add: LOC_API_CB_MAX_CLIENTS_def)
  have id: "entry_cb_id (?t ! i) = glue_cb_id i pid" if "i < 16" for i
    using table_cb_id [OF wf] that by (simp add: LOC_API_CB_MAX_CLIENTS_def)
  have inj: "i = j" if "i < 16" "j < 16" "entry_cb_id (?t ! i) = entry_cb_id (?t ! j)" for i j
  proof -
    have "glue_cb_id i pid = glue_cb_id j pid" using that(3) unfolding id [OF that(1)] id [OF that(2)] .
    then show ?thesis
      using cb_id_index [unfolded LOC_API_CB_MAX_CLIENTS_def, OF that(1), of pid]
        cb_id_index [unfolded LOC_API_CB_MAX_CLIENTS_def, OF that(2), of pid] by argo
  qed
  have one: "i = j" if "i < 16" "j < 16" "entry_cb_func (?t ! i) \<noteq> 0" "entry_cb_func (?t ! i) = entry_cb_func (?t ! j)" for i j
    using distinct_filter_nth [of "\<lambda>f. f \<noteq> 0" "map entry_cb_func ?t" i j] wf that len by (simp add: wf_table_def)
  have "\<forall>i < 16. entry_cb_id (?t ! i) = glue_cb_id i pid" by (intro allI impI id)
  moreover have "\<forall>i < 16. \<forall>j < 16. entry_cb_id (?t ! i) = entry_cb_id (?t ! j) \<longrightarrow> i = j"
    using inj by metis
  moreover have "\<forall>i < 16. \<forall>j < 16. entry_cb_func (?t ! i) \<noteq> 0
      \<longrightarrow> entry_cb_func (?t ! i) = entry_cb_func (?t ! j) \<longrightarrow> i = j"
    using one by metis
  ultimately show ?thesis using len by (intro conjI)
qed

definition two_clients :: glue where
  "two_clients = \<lparr>loc_api_clnt = Some idle_client, callback_table = init_table 77\<rparr>"

definition no_glue :: glue where
  "no_glue = \<lparr>loc_api_clnt = None, callback_table = []\<rparr>"

definition no_port :: apicb where
  "no_port = \<lparr>svrPort = 0, port_reg = \<lparr>the_xprt = 0, xprt_refcount = 0\<rparr>, port_mem = (\<lambda>_. None)\<rparr>"

lemma two_clients_reachable: "reachable_glue 77 two_clients"
proof (rule reachable_glue.init)
  show "loc_api_clnt no_glue = None" by (simp add: no_glue_def)
  show "loc_api_glue_init (Some idle_client) 77 env None 5 no_glue fresh_sync no_port
      = Some (0, two_clients, loc_api_sync_call_init fresh_sync, no_port)" for env
    by (simp add: loc_api_glue_init_def no_glue_def two_clients_def loc_apicb_app_init_def no_port_def
        svcrtr_create_at_def Let_def)
qed

definition reset_env :: rpc_env where
  "reset_env = \<lparr>env_other = (\<lambda>_ c. c\<lparr>in_reset := 1\<rparr>), env_write = -1, env_junk = no_such_procedure\<rparr>"

theorem callback_table_invariant_witness:
  "let g = snd (loc_open reset_env 3 500 zero_rpc_loc_open_rets two_clients)
   in length (callback_table g) = 16 \<and> entry_cb_id (callback_table g ! 2) = glue_cb_id 2 77"
proof -
  obtain h g where g: "loc_open reset_env 3 500 zero_rpc_loc_open_rets two_clients = (h, g)"
    by (cases "loc_open reset_env 3 500 zero_rpc_loc_open_rets two_clients")
  from callback_table_invariant [OF reachable_glue.opened [OF two_clients_reachable g]] g
  show ?thesis by simp
qed

text \<open>
  C5: an event reaches the client that opened for it. When \<open>loc_open\<close> finds the callback or a free
  entry and the modem answers, it returns the modem's handle, the request it wrote carries an
  identifier, and every later event with this identifier runs exactly this callback, after the
  synchronous calls have seen the event, and returns the callback's result.
\<close>

theorem opened_callback_gets_events:
  assumes "reachable_glue pid g" and "loc_api_clnt g = Some c" and "idle c" and "cb \<noteq> 0"
    and "cb \<in> entry_cb_func ` set (callback_table g) \<or> 0 \<in> entry_cb_func ` set (callback_table g)"
    and "exchange e 12 (success_reply c f (enc_rpc_loc_open_rets u))"
  shows "\<exists>g' d ident. loc_open e m cb rets g = (loc_open_result u, g') \<and> loc_api_clnt g' = Some d
    \<and> after_call c (request c 2 (enc_rpc_loc_open_args \<lparr>event_reg_mask = m, event_callback = ident\<rparr>)) d
    \<and> (\<forall>func argp ret req sync sync1 w. cb_id argp = ident \<longrightarrow>
        loc_api_callback_process_sync_call (loc_handle argp) (loc_event argp) (loc_event_payload argp) sync = Some sync1 \<longrightarrow>
        rpc_loc_event_cb_f_type_svc func argp ret req (callback_table g', sync, w)
          = (case func cb (loc_handle argp) (loc_event argp) (loc_event_payload argp) w of
              (rc, w1) \<Rightarrow> Some (1, ret\<lparr>loc_event_cb_f_type_result := rc\<rparr>, callback_table g', sync1, w1)))"
proof -
  note wf = reachable_table [OF assms(1)]
  obtain i t where t: "claim_entry cb (callback_table g) = Some (i, t)"
    using assms(5) claim_entry_None [of cb "callback_table g"] by (cases "claim_entry cb (callback_table g)") auto
  note cl = claim_entry_cases [OF t]
  let ?a = "\<lparr>event_reg_mask = m, event_callback = entry_cb_id (t ! i)\<rparr>"
  have len: "length (enc_rpc_loc_open_args ?a) = 12"
    by (simp add: enc_rpc_loc_open_args_def enc_scalar_defs)
  obtain x where call: "rpc_loc_open_0x00050001 e ?a rets c = (RPC_SUCCESS, u, c\<lparr>c_xdr := x, input_xdr_busy := 0\<rparr>)"
    and x: "written x = written (c_xdr c) @ [request c 2 (enc_rpc_loc_open_args ?a)]"
      "same_end ((c_xdr c)\<lparr>xid := xid (c_xdr c) + 1\<rparr>) x"
    using loc_open_rpc.exchange_returns [where v = ?a, unfolded len, OF TrueI assms(3) TrueI assms(6)]
    unfolding rpc_loc_open_0x00050001_def by metis
  let ?t = "t[i := (t ! i)\<lparr>entry_handle := loc_open_result u\<rparr>]"
  let ?g = "g\<lparr>loc_api_clnt := Some (c\<lparr>c_xdr := x, input_xdr_busy := 0\<rparr>), callback_table := ?t\<rparr>"
  have run: "loc_open e m cb rets g = (loc_open_result u, ?g)"
    using assms(2) t call by (simp add: loc_open_def)
  have i: "i < LOC_API_CB_MAX_CLIENTS" using cl(1) table_length [OF wf] by simp
  have "wf_table pid ?t" using loc_open_table [OF wf run] by simp
  moreover have "entry_cb_id (?t ! i) = entry_cb_id (t ! i)" "entry_cb_func (?t ! i) = cb"
    using cl(1,2,5) by simp_all
  ultimately have ev: "rpc_loc_event_cb_f_type_svc func argp ret req (?t, sync, w)
      = (case func cb (loc_handle argp) (loc_event argp) (loc_event_payload argp) w of
          (rc, w1) \<Rightarrow> Some (1, ret\<lparr>loc_event_cb_f_type_result := rc\<rparr>, ?t, sync1, w1))"
    if "cb_id argp = entry_cb_id (t ! i)"
      "loc_api_callback_process_sync_call (loc_handle argp) (loc_event argp) (loc_event_payload argp) sync = Some sync1"
    for func argp ret req sync sync1 w
    using event_to_entry [of pid ?t i argp sync sync1 func ret req w] i that assms(4) by simp
  show ?thesis
    using run after_callI [OF assms(3) x] ev by (intro exI [of _ ?g] exI conjI) auto
qed

lemma idle_idle_client: "idle idle_client"
  by (simp add: idle_def idle_client_def calloc_xdr_def all_mallocs_def)

lemma success_reply_length: "length (success_reply c f e) = 24 + length e"
  by (simp add: success_reply_def)

text \<open>The environment in which the modem answers the next call of a client with \<open>e\<close>.\<close>

definition answering :: "CLIENT \<Rightarrow> nat \<Rightarrow> byte list \<Rightarrow> rpc_env" where
  "answering c n e = \<lparr>env_other = answered (success_reply c 0 e), env_write = 40 + int n,
     env_junk = no_such_procedure\<rparr>"

lemma exchange_answering:
  "n \<le> 18000 \<Longrightarrow> length e \<le> 18000 \<Longrightarrow> exchange (answering c n e) n (success_reply c 0 e)"
  by (simp add: exchange_def answering_def success_reply_length RPCROUTER_MSGSIZE_MAX_def)

theorem opened_callback_gets_events_witness:
  "\<exists>g' d. loc_open (answering idle_client 12 (enc_rpc_loc_open_rets \<lparr>loc_open_result = 9\<rparr>)) 3 500
      zero_rpc_loc_open_rets two_clients = (9, g') \<and> loc_api_clnt g' = Some d"
proof -
  let ?u = "\<lparr>loc_open_result = 9\<rparr>"
  have c: "loc_api_clnt two_clients = Some idle_client" "(500 :: nat) \<noteq> 0"
    "500 \<in> entry_cb_func ` set (callback_table two_clients) \<or> 0 \<in> entry_cb_func ` set (callback_table two_clients)"
    by (auto simp: two_clients_def init_table_def LOC_API_CB_MAX_CLIENTS_def image_image image_constant_conv)
  have e: "exchange (answering idle_client 12 (enc_rpc_loc_open_rets ?u)) 12
      (success_reply idle_client 0 (enc_rpc_loc_open_rets ?u))"
    by (rule exchange_answering) (simp_all add: enc_rpc_loc_open_rets_def enc_scalar_defs)
  obtain g' d where "loc_open (answering idle_client 12 (enc_rpc_loc_open_rets ?u)) 3 500
      zero_rpc_loc_open_rets two_clients = (loc_open_result ?u, g')" "loc_api_clnt g' = Some d"
    using opened_callback_gets_events [OF two_clients_reachable c(1) idle_idle_client c(2,3) e,
        of 3 zero_rpc_loc_open_rets] by blast
  then show ?thesis by simp
qed

text \<open>
  C6: a request answers with the modem's result. \<open>loc_ioctl\<close> fills in the discriminants, and when
  the request it builds is well formed and fits a packet, exactly that request is written, and the
  caller gets the result the modem sent; the client is ready for the next call and the callbacks
  are untouched.
\<close>

theorem ioctl_returns_modem_result:
  assumes "loc_api_clnt g = Some c" and "idle c"
    and "args = \<lparr>rpc_loc_ioctl_args.handle = h, ioctl_type = kd, ioctl_data = map_option (ioctl_discriminants kd) dat\<rparr>"
    and "wf_rpc_loc_ioctl_args args"
    and "exchange e (length (enc_rpc_loc_ioctl_args args)) (success_reply c f (enc_rpc_loc_ioctl_rets u))"
  shows "\<exists>d. loc_ioctl e h kd dat rets g = (loc_ioctl_result u, g\<lparr>loc_api_clnt := Some d\<rparr>)
    \<and> after_call c (request c 6 (enc_rpc_loc_ioctl_args args)) d"
proof -
  obtain x where call: "rpc_loc_ioctl_0x00050001 e args rets c = (RPC_SUCCESS, u, c\<lparr>c_xdr := x, input_xdr_busy := 0\<rparr>)"
    and x: "written x = written (c_xdr c) @ [request c 6 (enc_rpc_loc_ioctl_args args)]"
      "same_end ((c_xdr c)\<lparr>xid := xid (c_xdr c) + 1\<rparr>) x"
    using loc_ioctl_rpc.exchange_returns [OF assms(4,2) TrueI assms(5)]
    unfolding rpc_loc_ioctl_0x00050001_def by metis
  show ?thesis
    using assms(1) call after_callI [OF assms(2) x]
    by (intro exI [of _ "c\<lparr>c_xdr := x, input_xdr_busy := 0\<rparr>"]) (simp add: loc_ioctl_def assms(3))
qed

theorem ioctl_returns_modem_result_witness:
  "\<exists>d. loc_ioctl (answering idle_client 20 (enc_rpc_loc_ioctl_rets \<lparr>loc_ioctl_result = 0\<rparr>)) 3
      RPC_LOC_IOCTL_SET_ENGINE_LOCK (Some \<lparr>disc = 0, arm = ioctl_data_engine_lock 4\<rparr>)
      zero_rpc_loc_ioctl_rets two_clients = (0, two_clients\<lparr>loc_api_clnt := Some d\<rparr>)"
proof -
  let ?dat = "Some \<lparr>disc = 0, arm = ioctl_data_engine_lock 4\<rparr>"
  let ?kd = "RPC_LOC_IOCTL_SET_ENGINE_LOCK"
  have a: "engine_lock_request = \<lparr>rpc_loc_ioctl_args.handle = 3, ioctl_type = ?kd,
      ioctl_data = map_option (ioctl_discriminants ?kd) ?dat\<rparr>"
    by (simp add: engine_lock_request_def ioctl_discriminants_def set_addr_disc_def Let_def)
  have c: "loc_api_clnt two_clients = Some idle_client" by (simp add: two_clients_def)
  have e: "exchange (answering idle_client 20 (enc_rpc_loc_ioctl_rets \<lparr>loc_ioctl_result = 0\<rparr>))
      (length (enc_rpc_loc_ioctl_args engine_lock_request))
      (success_reply idle_client 0 (enc_rpc_loc_ioctl_rets \<lparr>loc_ioctl_result = 0\<rparr>))"
    unfolding engine_lock_request(2)
    by (rule exchange_answering) (simp_all add: enc_rpc_loc_ioctl_rets_def enc_scalar_defs)
  from ioctl_returns_modem_result [OF c idle_idle_client a engine_lock_request(1) e]
  show ?thesis by auto
qed

section \<open>An event packet\<close>


interpretation event_cb: served_procedure xdr_rpc_loc_event_cb_f_type_args
    enc_rpc_loc_event_cb_f_type_args wf_rpc_loc_event_cb_f_type_args blk_rpc_loc_event_cb_f_type_args
    zero_rpc_loc_event_cb_f_type_args xdr_rpc_loc_event_cb_f_type_rets enc_rpc_loc_event_cb_f_type_rets
    "\<lambda>_. True" "\<lambda>_. 0" zero_rpc_loc_event_cb_f_type_rets
  by unfold_locales

text \<open>The stub, from the arguments in the buffer to the reply.\<close>

lemma apicbprog_runs:
  assumes s: "at_args (enc_rpc_loc_event_cb_f_type_args v) i s" "srv_xdr s = Some x" "all_mallocs x"
    and v: "wf_rpc_loc_event_cb_f_type_args v" and req: "rq_proc req = RPC_LOC_EVENT_CB_PROC"
    and l: "localf v junk req w = Some (1, res, w1)"
  shows "\<exists>y. loc_apicbprog_0x00050001 ret junk localf req s w = Some (s\<lparr>srv_xdr := Some y\<rparr>, w1)
    \<and> written y = written x @ [words [i, RPC_MSG_REPLY, 0, 0, 0, 0] @ enc_rpc_loc_event_cb_f_type_rets res]
    \<and> live y = live x"
proof -
  have len: "24 + int (length (enc_rpc_loc_event_cb_f_type_rets res)) \<le> RPCROUTER_MSGSIZE_MAX"
    by (simp add: enc_rpc_loc_event_cb_f_type_rets_def enc_scalar_defs RPCROUTER_MSGSIZE_MAX_def)
  obtain s1 y z u where run:
      "svc_getargs xdr_rpc_loc_event_cb_f_type_args zero_rpc_loc_event_cb_f_type_args s = Some (True, v, s1)"
      "svc_sendreply ret xdr_rpc_loc_event_cb_f_type_rets res s1 = Some (True, s\<lparr>srv_xdr := Some y\<rparr>)"
      "svc_freeargs xdr_rpc_loc_event_cb_f_type_args v (s\<lparr>srv_xdr := Some y\<rparr>) = Some (True, u, s\<lparr>srv_xdr := Some z\<rparr>)"
    and z: "written z = written x @ [words [i, RPC_MSG_REPLY, 0, 0, 0, 0] @ enc_rpc_loc_event_cb_f_type_rets res]"
      "live z = live x" "x_op z = XDR_FREE"
    by (rule event_cb.serve [OF s v TrueI len])
  obtain q where free: "xdr_rpc_loc_event_cb_f_type_rets res (z\<lparr>x_op := XDR_FREE\<rparr>)
      = (True, q, z\<lparr>x_op := XDR_FREE, live := live z - int 0\<rparr>)"
    using event_cb.free_result [OF TrueI, of res z] by blast
  have "loc_apicbprog_0x00050001 ret junk localf req s w
      = Some (s\<lparr>srv_xdr := Some (with_process (z\<lparr>x_op := XDR_FREE\<rparr>) z)\<rparr>, w1)"
    using run free l req
    by (simp add: loc_apicbprog_0x00050001_def NULLPROC_def RPC_LOC_EVENT_CB_PROC_def
        loc_apicbprog_freeresult_def xdr_free_def)
  then show ?thesis
    using z by (intro exI [of _ "with_process (z\<lparr>x_op := XDR_FREE\<rparr>) z"]) (simp add: with_process_def)
qed

text \<open>
  C4: an event packet, end to end. When the callback server reads a call packet whose event was
  made for an open client, \<open>svc_dispatch\<close> runs the stub, the stub runs the client's callback with
  the decoded event after the synchronous calls have seen it, the reply with the XID of the call
  and the callback's result is written, and everything the event had allocated is freed. This holds if
  the allocations succeed (\<open>all_mallocs\<close>) and for events whose payload the wire format can carry
  (\<open>wf_rpc_loc_event_cb_f_type_args\<close>): NMEA reports are excluded, since decoding one overruns the event,
  see \<open>nmea_report_overruns\<close>.
\<close>

theorem event_packet_runs_callback:
  assumes "reachable_glue pid g" and "i < 16" and "entry_cb_func (callback_table g ! i) \<noteq> 0"
    and "srv_xdr svc = Some x" and "\<not> fault x" and "all_mallocs x"
    and "x_vers x = LOC_APICBVERS_0001" and "srv_prog svc = LOC_APICBPROG"
    and "wf_rpc_loc_event_cb_f_type_args v" and "cb_id v = entry_cb_id (callback_table g ! i)"
    and "b = words (call_words xd LOC_APICBPROG LOC_APICBVERS_0001 RPC_LOC_EVENT_CB_PROC)
        @ enc_rpc_loc_event_cb_f_type_args v" and "int (length b) \<le> RPCROUTER_MSGSIZE_MAX"
    and "xdr_std_read (ReadData b) x = (ok, x1)" and "thread \<noteq> 0"
    and "loc_api_callback_process_sync_call (loc_handle v) (loc_event v) (loc_event_payload v) sync = Some sync1"
    and "func (entry_cb_func (callback_table g ! i)) (loc_handle v) (loc_event v) (loc_event_payload v) w = (rc, w1)"
  shows "\<exists>y. svc_dispatch (\<lambda>_. loc_apicbprog_0x00050001 ret junk (rpc_loc_event_cb_f_type_svc func)) thread
        (svc\<lparr>srv_xdr := Some x1\<rparr>) (callback_table g, sync, w)
      = Some (svc\<lparr>srv_xdr := Some y, active := 0\<rparr>, callback_table g, sync1, w1)
    \<and> written y = written x @ [words [xd, RPC_MSG_REPLY, 0, 0, 0, 0, rc]]
    \<and> live y = live x"
proof -
  let ?t = "callback_table g"
  let ?req = "\<lparr>rq_prog = LOC_APICBPROG, rq_vers = LOC_APICBVERS_0001, rq_proc = RPC_LOC_EVENT_CB_PROC\<rparr>"
  let ?call = "\<lambda>_. loc_apicbprog_0x00050001 ret junk (rpc_loc_event_cb_f_type_svc func)"
  let ?res = "junk\<lparr>loc_event_cb_f_type_result := rc\<rparr>"
  obtain s y where dis: "svc_dispatch ?call thread (svc\<lparr>srv_xdr := Some x1\<rparr>) (?t, sync, w)
        = map_option (\<lambda>(t, v). (t\<lparr>active := 0\<rparr>, v)) (?call (dispatch svc) ?req s (?t, sync, w))"
    and at: "at_args (enc_rpc_loc_event_cb_f_type_args v) xd s"
    and s: "s = svc\<lparr>srv_xdr := srv_xdr s, active := thread\<rparr>" "srv_xdr s = Some y"
    and y: "y = x\<lparr>in_len := in_len y, in_msg := in_msg y, in_next := 40, x_op := XDR_DECODE\<rparr>"
    using dispatch_packet [OF assms(4,5,7,8,11-14), of ?call "(?t, sync, w)"] by blast
  have same: "all_mallocs y" "written y = written x" "live y = live x"
    using assms(6) by (subst y, simp add: all_mallocs_def)+
  have loc: "rpc_loc_event_cb_f_type_svc func v junk ?req (?t, sync, w) = Some (1, ?res, ?t, sync1, w1)"
    using event_to_entry [OF reachable_table [OF assms(1)] _ assms(10,15), of func junk ?req w] assms(2,3,16)
    by (simp add: LOC_API_CB_MAX_CLIENTS_def)
  obtain z where
    z: "loc_apicbprog_0x00050001 ret junk (rpc_loc_event_cb_f_type_svc func) ?req s (?t, sync, w)
        = Some (s\<lparr>srv_xdr := Some z\<rparr>, ?t, sync1, w1)"
      "written z = written y @ [words [xd, RPC_MSG_REPLY, 0, 0, 0, 0] @ enc_rpc_loc_event_cb_f_type_rets ?res]"
      "live z = live y"
    using apicbprog_runs [where localf = "rpc_loc_event_cb_f_type_svc func" and req = ?req and junk = junk
        and w = "(?t, sync, w)" and ret = ret, OF at s(2) same(1) assms(9) _ loc] by auto
  have "s\<lparr>srv_xdr := Some z, active := 0\<rparr> = svc\<lparr>srv_xdr := Some z, active := 0\<rparr>" by (subst s(1)) simp
  then show ?thesis
    using dis z same by (intro exI [of _ z]) (simp add: enc_rpc_loc_event_cb_f_type_rets_def enc_u32_def)
qed

lemma loc_open_funcs:
  assumes "loc_api_clnt g = Some c" "claim_entry cb (callback_table g) = Some (i, t)"
  shows "map entry_cb_func (callback_table (snd (loc_open e m cb rets g))) = map entry_cb_func t"
    and "fst (rpc_loc_open_0x00050001 e \<lparr>event_reg_mask = m, event_callback = entry_cb_id (t ! i)\<rparr> rets c) \<noteq> RPC_SUCCESS
      \<Longrightarrow> callback_table (snd (loc_open e m cb rets g)) = t"
    and "\<exists>d. loc_api_clnt (snd (loc_open e m cb rets g)) = Some d"
    and "fst (rpc_loc_open_0x00050001 e \<lparr>event_reg_mask = m, event_callback = entry_cb_id (t ! i)\<rparr> rets c) \<noteq> RPC_SUCCESS
      \<Longrightarrow> fst (loc_open e m cb rets g) = RPC_LOC_API_RPC_FAILURE"
proof -
  have "map entry_cb_func (t[i := (t ! i)\<lparr>entry_handle := r\<rparr>]) = map entry_cb_func t" for r
    using claim_entry_cases(1,5) [OF assms(2)] by (simp add: map_list_update list_update_same_conv)
  then show "map entry_cb_func (callback_table (snd (loc_open e m cb rets g))) = map entry_cb_func t"
    using assms by (simp add: loc_open_def Let_def split: prod.splits)
qed (use assms in \<open>auto simp: loc_open_def Let_def split: prod.splits\<close>)

lemma claim_init:
  "claim_entry 500 (init_table 77) = Some (0, (init_table 77)[0 := (init_table 77 ! 0)\<lparr>entry_cb_func := 500\<rparr>])"
proof -
  have "find_index (\<lambda>e. entry_cb_func e = 500) (init_table 77) = None"
    by (simp add: find_index_None init_table_def)
  moreover have "find_index (\<lambda>e. entry_cb_func e = 0) (init_table 77) = Some 0"
    by (simp add: find_index_Some init_table_def LOC_API_CB_MAX_CLIENTS_def)
  ultimately show ?thesis by (simp add: claim_entry_def)
qed

definition one_client :: glue where
  "one_client = snd (loc_open reset_env 3 500 zero_rpc_loc_open_rets two_clients)"

lemma one_client: "reachable_glue 77 one_client" "entry_cb_func (callback_table one_client ! 0) = 500"
proof -
  obtain h g where g: "loc_open reset_env 3 500 zero_rpc_loc_open_rets two_clients = (h, g)"
    by (cases "loc_open reset_env 3 500 zero_rpc_loc_open_rets two_clients")
  show "reachable_glue 77 one_client"
    using reachable_glue.opened [OF two_clients_reachable g] g by (simp add: one_client_def)
  have "map entry_cb_func (callback_table one_client) ! 0 = 500"
    using loc_open_funcs(1) [of two_clients idle_client 500 0] claim_init
    by (simp add: one_client_def two_clients_def init_table_def LOC_API_CB_MAX_CLIENTS_def)
  then show "entry_cb_func (callback_table one_client ! 0) = 500"
    using table_length [OF reachable_table [OF \<open>reachable_glue 77 one_client\<close>]]
    by (simp add: LOC_API_CB_MAX_CLIENTS_def)
qed

definition event_server :: registered_server where
  "event_server = \<lparr>srv_xdr = Some (calloc_xdr\<lparr>fd := 7, x_prog := LOC_APICBPROG, x_vers := LOC_APICBVERS_0001\<rparr>),
     srv_prog = LOC_APICBPROG, srv_vers = LOC_APICBVERS_0001, active = 0, dispatch = 40\<rparr>"

definition plain_event :: rpc_loc_event_cb_f_type_args where
  "plain_event = \<lparr>cb_id = glue_cb_id 0 77, loc_handle = 9, loc_event = 4, loc_event_payload = None\<rparr>"

lemma plain_event:
  "wf_rpc_loc_event_cb_f_type_args plain_event" "cb_id plain_event = entry_cb_id (callback_table one_client ! 0)"
  "length (enc_rpc_loc_event_cb_f_type_args plain_event) = 20"
  "loc_api_callback_process_sync_call (loc_handle plain_event) (loc_event plain_event)
     (loc_event_payload plain_event) fresh_sync = Some fresh_sync"
  using table_cb_id [OF reachable_table [OF one_client(1)], of 0]
  by (simp_all add: plain_event_def wf_rpc_loc_event_cb_f_type_args_def enc_rpc_loc_event_cb_f_type_args_def
      enc_scalar_defs LOC_API_CB_MAX_CLIENTS_def loc_api_callback_process_sync_call_def
      fresh_sync_def loc_api_sync_call_init_def)

theorem event_packet_runs_callback_witness:
  "\<exists>x1 y t. svc_dispatch (\<lambda>_. loc_apicbprog_0x00050001 28 zero_rpc_loc_event_cb_f_type_rets
        (rpc_loc_event_cb_f_type_svc (\<lambda>f h ev pl w. (1, (f, h) # w)))) 5 (event_server\<lparr>srv_xdr := Some x1\<rparr>)
        (callback_table one_client, fresh_sync, [])
      = Some (event_server\<lparr>srv_xdr := Some y, active := 0\<rparr>, t, fresh_sync, [(500, 9)])
    \<and> written y = [words [3, RPC_MSG_REPLY, 0, 0, 0, 0, 1]]"
proof -
  let ?x = "calloc_xdr\<lparr>fd := 7, x_prog := LOC_APICBPROG, x_vers := LOC_APICBVERS_0001\<rparr>"
  let ?b = "words (call_words 3 LOC_APICBPROG LOC_APICBVERS_0001 RPC_LOC_EVENT_CB_PROC)
      @ enc_rpc_loc_event_cb_f_type_args plain_event"
  have f: "entry_cb_func (callback_table one_client ! 0) \<noteq> 0" "(0 :: nat) < 16" using one_client(2) by simp_all
  have x: "srv_xdr event_server = Some ?x" "\<not> fault ?x" "all_mallocs ?x" "x_vers ?x = LOC_APICBVERS_0001"
    "srv_prog event_server = LOC_APICBPROG" "written ?x = []"
    by (simp_all add: event_server_def calloc_xdr_def all_mallocs_def)
  have len: "int (length ?b) \<le> RPCROUTER_MSGSIZE_MAX" by (simp add: plain_event(3) RPCROUTER_MSGSIZE_MAX_def)
  obtain ok x1 where rd: "xdr_std_read (ReadData ?b) ?x = (ok, x1)" by (cases "xdr_std_read (ReadData ?b) ?x")
  have h: "loc_handle plain_event = 9" by (simp add: plain_event_def)
  from event_packet_runs_callback [OF one_client(1) f(2,1) x(1-5) plain_event(1,2) refl len rd _ plain_event(4),
      of 5 "\<lambda>f h ev pl w. (1, (f, h) # w)" "[]" 1 "[(500, 9)]" 28 zero_rpc_loc_event_cb_f_type_rets]
  show ?thesis unfolding one_client(2) h x(6) by (simp del: words_simps(2)) blast
qed

section \<open>Error behaviour\<close>

lemma find_index_map: "find_index (\<lambda>x. P (f x)) xs = find_index P (map f xs)"
  by (induction xs) auto

lemma failed_open_step:
  assumes "loc_api_clnt g = Some c" "map entry_cb_func (callback_table g) = cbs @ replicate (Suc n) 0"
    and "cb \<notin> set cbs" "cb \<noteq> 0" "0 \<notin> set cbs"
    and "\<forall>args r c. fst (rpc_loc_open_0x00050001 e args r c) \<noteq> RPC_SUCCESS"
  shows "\<exists>d. loc_api_clnt (snd (loc_open e m cb rets g)) = Some d"
    and "map entry_cb_func (callback_table (snd (loc_open e m cb rets g))) = (cbs @ [cb]) @ replicate n 0"
    and "map entry_handle (callback_table (snd (loc_open e m cb rets g))) = map entry_handle (callback_table g)"
proof -
  let ?t = "callback_table g"
  have none: "find_index (\<lambda>x. entry_cb_func x = cb) ?t = None"
    using find_index_map [of "\<lambda>f. f = cb" entry_cb_func ?t] assms(2-4) by (auto simp: find_index_None)
  have free: "find_index (\<lambda>x. entry_cb_func x = 0) ?t = Some (length cbs)"
    using find_index_map [of "\<lambda>f. f = 0" entry_cb_func ?t] assms(2,5)
    by (auto simp: find_index_Some nth_append) (metis gr0I nth_mem)
  have len: "length cbs < length ?t"
    using arg_cong [OF assms(2), of length] by simp
  let ?u = "?t[length cbs := (?t ! length cbs)\<lparr>entry_cb_func := cb\<rparr>]"
  have claim: "claim_entry cb ?t = Some (length cbs, ?u)" using none free by (simp add: claim_entry_def)
  note o = loc_open_funcs [OF assms(1) claim]
  show "\<exists>d. loc_api_clnt (snd (loc_open e m cb rets g)) = Some d" by (rule o(3))
  have "map entry_cb_func ?u = (cbs @ replicate (Suc n) 0)[length cbs := cb]"
    unfolding assms(2) [symmetric] by (simp add: map_list_update)
  then show "map entry_cb_func (callback_table (snd (loc_open e m cb rets g))) = (cbs @ [cb]) @ replicate n 0"
    unfolding o(1) by (simp add: list_update_append)
  show "map entry_handle (callback_table (snd (loc_open e m cb rets g))) = map entry_handle ?t"
    using o(2) assms(6) len by (simp add: map_list_update list_update_same_conv)
qed

lemma failed_opens:
  assumes "loc_api_clnt g = Some c" "callback_table g = init_table pid"
    and "\<forall>args r c. fst (rpc_loc_open_0x00050001 e args r c) \<noteq> RPC_SUCCESS"
    and "distinct cbs" "0 \<notin> set cbs" "length cbs + n = LOC_API_CB_MAX_CLIENTS"
  shows "(\<exists>d. loc_api_clnt (fold (\<lambda>cb g. snd (loc_open e m cb rets g)) cbs g) = Some d)
    \<and> map entry_cb_func (callback_table (fold (\<lambda>cb g. snd (loc_open e m cb rets g)) cbs g)) = cbs @ replicate n 0
    \<and> map entry_handle (callback_table (fold (\<lambda>cb g. snd (loc_open e m cb rets g)) cbs g))
      = replicate LOC_API_CB_MAX_CLIENTS (- 1)"
  using assms(4-6)
proof (induction cbs arbitrary: n rule: rev_induct)
  case Nil
  then show ?case using assms(1,2) by (simp add: init_table_def comp_def map_replicate_const)
next
  case (snoc cb cbs)
  let ?g = "fold (\<lambda>cb g. snd (loc_open e m cb rets g)) cbs g"
  have "(\<exists>d. loc_api_clnt ?g = Some d) \<and> map entry_cb_func (callback_table ?g) = cbs @ replicate (Suc n) 0
      \<and> map entry_handle (callback_table ?g) = replicate LOC_API_CB_MAX_CLIENTS (- 1)"
    using snoc.prems by (intro snoc.IH) auto
  then show ?case
    using failed_open_step [of ?g _ cbs n cb e m rets] assms(3) snoc.prems by auto
qed

text \<open>
  Failed opens use up the table. \<open>loc_open\<close> writes the callback into an entry before the call
  and leaves it there when the call fails. After 16 failed opens of different callbacks nobody has
  a handle, and every further \<open>loc_open\<close> is refused as one client too many, without asking the modem.
\<close>

theorem failed_opens_fill_table:
  assumes "loc_api_clnt g = Some c" and "callback_table g = init_table pid"
    and "\<forall>args r c. fst (rpc_loc_open_0x00050001 e args r c) \<noteq> RPC_SUCCESS"
    and "distinct cbs" and "0 \<notin> set cbs" and "length cbs = 16" and "cb \<noteq> 0" and "cb \<notin> set cbs"
    and "g' = fold (\<lambda>cb g. snd (loc_open e m cb rets g)) cbs g"
  shows "map entry_handle (callback_table g') = replicate 16 (- 1)
    \<and> loc_open e' m' cb rets' g' = (RPC_LOC_CLIENT_HANDLE_INVALID, g')"
proof -
  obtain d where d: "loc_api_clnt g' = Some d" and t: "map entry_cb_func (callback_table g') = cbs"
    "map entry_handle (callback_table g') = replicate 16 (- 1)"
    using failed_opens [OF assms(1-5), of 0 m rets] assms(6,9) by (auto simp: LOC_API_CB_MAX_CLIENTS_def)
  have "claim_entry cb (callback_table g') = None" using claim_entry_None [of cb] t(1) assms(5,8) by (metis)
  then show ?thesis using d t(2) by (simp add: loc_open_def)
qed

lemma reset_env_fails: "fst (rpc_loc_open_0x00050001 reset_env a r c) \<noteq> RPC_SUCCESS"
  by (auto simp: rpc_loc_open_0x00050001_def clnt_call_def reset_env_def Let_def out_unlock_def clnt_stats
      split: prod.splits)

theorem failed_opens_fill_table_witness:
  "loc_open reset_env 3 17 zero_rpc_loc_open_rets
      (fold (\<lambda>cb g. snd (loc_open reset_env 3 cb zero_rpc_loc_open_rets g)) [1..<17] two_clients)
    = (RPC_LOC_CLIENT_HANDLE_INVALID,
       fold (\<lambda>cb g. snd (loc_open reset_env 3 cb zero_rpc_loc_open_rets g)) [1..<17] two_clients)"
proof -
  have g: "loc_api_clnt two_clients = Some idle_client" "callback_table two_clients = init_table 77"
    by (simp_all add: two_clients_def)
  have e: "\<forall>args r c. fst (rpc_loc_open_0x00050001 reset_env args r c) \<noteq> RPC_SUCCESS"
    using reset_env_fails by blast
  show ?thesis
    using failed_opens_fill_table [OF g e, of "[1..<17]" 17 _ 3 zero_rpc_loc_open_rets reset_env 3 zero_rpc_loc_open_rets, OF _ _ _ _ _ refl] by simp
qed

lemma xdr_all_append:
  "xdr_all (ps @ qs) obj x = (case xdr_all ps obj x of (ok, v, y) \<Rightarrow> if ok then xdr_all qs v y else (False, v, y))"
  by (induction ps arbitrary: obj x) (auto split: prod.splits)

lemma payload_missing:
  assumes "x_op x = XDR_DECODE" "in_next x = in_len x"
  shows "xdr_rpc_loc_event_payload_u_type zero_rpc_loc_event_payload_u_type x
    = (False, zero_rpc_loc_event_payload_u_type, x)"
  using assms
  by (simp add: xdr_rpc_loc_event_payload_u_type_def xdr_member_def xdr_u_quad_t_def xdr_u_hyper_def
      xdr_std_recv_int32_def xdr_std_recv_uint32_def)

text \<open>The fixed part of an event, up to the flag of its payload pointer.\<close>

abbreviation event_head :: "rpc_loc_event_cb_f_type_args xdrproc list" where
  "event_head \<equiv>
     [xdr_member cb_id cb_id_update xdr_rpc_uint32,
      xdr_member loc_handle loc_handle_update xdr_rpc_loc_client_handle_type,
      xdr_member loc_event loc_event_update xdr_rpc_loc_event_mask_type]"

lemma event_head:
  "mdec (xdr_all event_head) zero_rpc_loc_event_cb_f_type_args \<lparr>cb_id = i, loc_handle = h, loc_event = ev, loc_event_payload = None\<rparr>
    (enc_u32 i @ enc_u32 h @ enc_u64 ev) 0"
  by (rule struct_intros codec_dec | simp add: zero_rpc_loc_event_cb_f_type_args_def)+

lemma truncated_event:
  assumes "ready_in x" "all_mallocs x" "at_in (enc_u32 i @ enc_u32 h @ enc_u64 ev @ enc_u32 1) x"
    and "in_len x = in_next x + 20"
  shows "\<exists>v. xdr_rpc_loc_event_cb_f_type_args zero_rpc_loc_event_cb_f_type_args x = (False, v, adv 20 1 x)"
proof -
  let ?v = "\<lparr>cb_id = i, loc_handle = h, loc_event = ev, loc_event_payload = None\<rparr>"
  have split: "enc_u32 i @ enc_u32 h @ enc_u64 ev @ enc_u32 1 = (enc_u32 i @ enc_u32 h @ enc_u64 ev) @ enc_u32 1" by simp
  have len: "length (enc_u32 i @ enc_u32 h @ enc_u64 ev) = 16" by (simp add: enc_scalar_defs)
  have at: "at_in (enc_u32 i @ enc_u32 h @ enc_u64 ev) x" "at_in (enc_u32 1) (adv 16 0 x)"
    using at_in_append [OF assms(1), of "enc_u32 i @ enc_u32 h @ enc_u64 ev" "enc_u32 1" 0] assms(3) len
    unfolding split by simp_all
  note head = mdec_run [OF event_head assms(1,2) at(1), unfolded len]
  have ready: "ready_in (adv 16 0 x)" "all_mallocs (adv 16 0 x)"
    using assms(2,4) by (auto simp: all_mallocs_def intro!: ready_in_adv [OF assms(1)]) (simp add: adv_def)
  have flag: "xdr_bool 0 (adv 16 0 x) = (True, 1, adv 4 0 (adv 16 0 x))"
    using mdec_run [OF bool_codec.dec_law [of 1 0] ready at(2)] by (simp add: wf_bool_def enc_u32_def)
  have "x_op x = XDR_DECODE" using assms(1) by (simp add: ready_in_def)
  then have ptr: "xdr_pointer 600 zero_rpc_loc_event_payload_u_type xdr_rpc_loc_event_payload_u_type None (adv 16 0 x)
      = (False, Some zero_rpc_loc_event_payload_u_type, adv 20 1 x)"
    using flag assms(2,4) payload_missing [of "adv 20 1 x"]
    by (simp add: xdr_pointer_def xdr_reference_def mem_alloc_def all_mallocs_def adv_def add.commute)
  have eq: "xdr_rpc_loc_event_cb_f_type_args = xdr_all (event_head
      @ [xdr_member loc_event_payload loc_event_payload_update (xdr_pointer 600
           zero_rpc_loc_event_payload_u_type xdr_rpc_loc_event_payload_u_type)])"
    by (simp only: xdr_rpc_loc_event_cb_f_type_args_def append.simps)
  show ?thesis unfolding eq xdr_all_append head prod.case by (simp add: ptr xdr_member_def)
qed

text \<open>
  A truncated event leaks. The stub releases the decoded arguments only after decoding has
  succeeded: an event whose packet ends behind the flag of its payload runs no callback, is
  answered with GARBAGE_ARGS under the XID of the handle, and the block allocated for the payload
  is never freed.
\<close>

theorem truncated_event_leaks:
  assumes "at_args (enc_u32 i @ enc_u32 h @ enc_u64 ev @ enc_u32 1) xd s" and "srv_xdr s = Some x"
    and "all_mallocs x" and "oa_length (verf x) = 0" and "rq_proc req = RPC_LOC_EVENT_CB_PROC"
  shows "\<exists>y. loc_apicbprog_0x00050001 ret junk localf req s w = Some (s\<lparr>srv_xdr := Some y\<rparr>, w)
    \<and> live y = live x + 1
    \<and> written y = written x @ [words [xid x, RPC_MSG_REPLY, RPC_MSG_ACCEPTED, oa_flavor (verf x), 0, RPC_GARBAGE_ARGS]]"
proof -
  have x: "ready_in x" "at_in (enc_u32 i @ enc_u32 h @ enc_u64 ev @ enc_u32 1) x" "in_len x = in_next x + 20"
    "active s \<noteq> 0"
    using assms(1,2) by (auto simp: at_args_def enc_scalar_defs)
  obtain v where "xdr_rpc_loc_event_cb_f_type_args zero_rpc_loc_event_cb_f_type_args x = (False, v, adv 20 1 x)"
    using truncated_event [OF x(1) assms(3) x(2,3)] by blast
  then have got: "svc_getargs xdr_rpc_loc_event_cb_f_type_args zero_rpc_loc_event_cb_f_type_args s
      = Some (False, v, s\<lparr>srv_xdr := Some (adv 20 1 x)\<rparr>)"
    using assms(2) x(3,4) by (simp add: svc_getargs_def xdr_std_msg_done_def adv_def)
  have "oa_length (verf (adv 20 1 x)) = 0" "RPC_GARBAGE_ARGS \<in> plain_stats"
    using assms(4) by (simp_all add: adv_def plain_stats_def)
  then obtain y where y: "svcerr_decode ret (s\<lparr>srv_xdr := Some (adv 20 1 x)\<rparr>) = Some (s\<lparr>srv_xdr := Some y\<rparr>)"
    "written y = written x @ [words [xid x, RPC_MSG_REPLY, RPC_MSG_ACCEPTED, oa_flavor (verf x), 0, RPC_GARBAGE_ARGS]]"
    "live y = live x + 1"
    using svcerr_reply_written [of "s\<lparr>srv_xdr := Some (adv 20 1 x)\<rparr>" "adv 20 1 x" RPC_GARBAGE_ARGS ret] x(4)
    by (auto simp: svcerr_decode_def adv_def)
  show ?thesis
    using got y assms(5)
    by (intro exI [of _ y]) (simp add: loc_apicbprog_0x00050001_def NULLPROC_def RPC_LOC_EVENT_CB_PROC_def)
qed

theorem truncated_event_leaks_witness:
  "\<exists>s y. loc_apicbprog_0x00050001 28 zero_rpc_loc_event_cb_f_type_rets (\<lambda>arg res req w. None)
      \<lparr>rq_prog = 0, rq_vers = 0, rq_proc = 1\<rparr> s () = Some (s\<lparr>srv_xdr := Some y\<rparr>, ()) \<and> live y = 1"
proof -
  let ?a = "enc_u32 0 @ enc_u32 9 @ enc_u64 4 @ enc_u32 1"
  let ?b = "words (call_words 3 LOC_APICBPROG LOC_APICBVERS_0001 1) @ ?a"
  let ?c = "calloc_xdr\<lparr>fd := 7, x_prog := LOC_APICBPROG, x_vers := LOC_APICBVERS_0001\<rparr>"
  have c: "srv_xdr event_server = Some ?c" "\<not> fault ?c" "x_vers ?c = LOC_APICBVERS_0001" "srv_prog event_server = LOC_APICBPROG"
    by (simp_all add: event_server_def calloc_xdr_def)
  have len: "int (length ?b) \<le> RPCROUTER_MSGSIZE_MAX" by (simp add: enc_scalar_defs RPCROUTER_MSGSIZE_MAX_def)
  obtain ok x1 where rd: "xdr_std_read (ReadData ?b) ?c = (ok, x1)" by (cases "xdr_std_read (ReadData ?b) ?c")
  obtain s y where at: "at_args ?a 3 s" and y: "srv_xdr s = Some y"
    "y = ?c\<lparr>in_len := in_len y, in_msg := in_msg y, in_next := 40, x_op := XDR_DECODE\<rparr>"
    using dispatch_packet [OF c refl len rd, of 5 "\<lambda>d req s w. None" "()"] by auto
  have "all_mallocs y" "oa_length (verf y) = 0" "live y = 0"
    by (subst y(2), simp add: calloc_xdr_def all_mallocs_def)+
  from truncated_event_leaks [OF at y(1) this(1,2), of "\<lparr>rq_prog = 0, rq_vers = 0, rq_proc = 1\<rparr>" 28
      zero_rpc_loc_event_cb_f_type_rets "\<lambda>arg res req w. None" "()"] this(3)
  show ?thesis by (auto simp: RPC_LOC_EVENT_CB_PROC_def simp del: words_simps)
qed

text \<open>
  C26: closing one client cuts off all of them. The glue has one RPC client for all callbacks and
  \<open>loc_close\<close> destroys it. After a successful close every request of the other clients fails without
  reaching the modem, and when the glue is initialised again their entries are gone: no event
  runs any callback any more, though the modem still has them open.
\<close>

theorem close_cuts_off_other_clients:
  assumes "loc_api_clnt g = Some c"
    and "rpc_loc_close_0x00050001 e \<lparr>rpc_loc_close_args.handle = h\<rparr> rets c = (RPC_SUCCESS, u, c')"
    and "loc_close e h rets g = (r, g1)"
    and "loc_api_glue_init cl pid env new dfn g1 sync cb = Some (rc, g2, sync2, cb2)"
    and "unat (cb_id argp AND 0xFFFF) < 16"
  shows "r = loc_close_result u
    \<and> loc_start_fix e' h' frets g1 = (RPC_LOC_API_RPC_FAILURE, g1)
    \<and> loc_stop_fix e' h' srets g1 = (RPC_LOC_API_RPC_FAILURE, g1)
    \<and> loc_ioctl e' h' kd dat irets g1 = (RPC_LOC_API_RPC_FAILURE, g1)
    \<and> rpc_loc_event_cb_f_type_svc func argp ret req (callback_table g2, sync2, w)
      = Some (1, ret\<lparr>loc_event_cb_f_type_result := 0\<rparr>, callback_table g2, sync2, w)"
proof -
  have none: "loc_api_clnt g1 = None" and r: "r = loc_close_result u"
    using assms(1-3) by (auto simp: loc_close_def Let_def)
  have "callback_table g2 = init_table pid" using glue_init_cases [OF none assms(4)] by simp
  then have "rpc_loc_event_cb_f_type_svc func argp ret req (callback_table g2, sync2, w)
      = Some (1, ret\<lparr>loc_event_cb_f_type_result := 0\<rparr>, callback_table g2, sync2, w)"
    using assms(5) by (simp add: rpc_loc_event_cb_f_type_svc_def init_table_def LOC_API_CB_MAX_CLIENTS_def)
  then show ?thesis using none r by (simp add: loc_start_fix_def loc_stop_fix_def loc_ioctl_def)
qed

theorem close_cuts_off_other_clients_witness:
  "\<exists>g1 g2 sync2 cb2. loc_close (answering idle_client 4 (enc_rpc_loc_close_rets \<lparr>loc_close_result = 0\<rparr>)) 9
        zero_rpc_loc_close_rets (one_client\<lparr>loc_api_clnt := Some idle_client\<rparr>) = (0, g1)
    \<and> loc_start_fix reset_env 10 zero_rpc_loc_start_fix_rets g1 = (RPC_LOC_API_RPC_FAILURE, g1)
    \<and> loc_api_glue_init (Some idle_client) 77 good_env None 5 g1 fresh_sync no_port = Some (0, g2, sync2, cb2)
    \<and> rpc_loc_event_cb_f_type_svc (\<lambda>f h ev pl w. (1, f # w)) plain_event zero_rpc_loc_event_cb_f_type_rets \<lparr>rq_prog = 1, rq_vers = 1, rq_proc = 1\<rparr>
        (callback_table g2, sync2, []) = Some (1, zero_rpc_loc_event_cb_f_type_rets, callback_table g2, sync2, [])"
proof -
  let ?u = "\<lparr>loc_close_result = 0\<rparr>" and ?a = "\<lparr>rpc_loc_close_args.handle = 9\<rparr>"
  let ?e = "answering idle_client 4 (enc_rpc_loc_close_rets ?u)"
  let ?g = "one_client\<lparr>loc_api_clnt := Some idle_client\<rparr>"
  have len: "length (enc_rpc_loc_close_args ?a) = 4" "length (enc_rpc_loc_close_rets ?u) = 4"
    by (simp_all add: enc_rpc_loc_close_args_def enc_rpc_loc_close_rets_def enc_scalar_defs)
  have ex: "exchange ?e 4 (success_reply idle_client 0 (enc_rpc_loc_close_rets ?u))"
    by (rule exchange_answering) (simp_all add: len(2))
  obtain x where call: "rpc_loc_close_0x00050001 ?e ?a zero_rpc_loc_close_rets idle_client
      = (RPC_SUCCESS, ?u, idle_client\<lparr>c_xdr := x, input_xdr_busy := 0\<rparr>)"
    using loc_close_rpc.exchange_returns [where v = ?a, unfolded len(1), OF TrueI idle_idle_client TrueI ex]
    unfolding rpc_loc_close_0x00050001_def by metis
  obtain r g1 where close: "loc_close ?e 9 zero_rpc_loc_close_rets ?g = (r, g1)"
    by (cases "loc_close ?e 9 zero_rpc_loc_close_rets ?g")
  let ?g2 = "g1\<lparr>callback_table := init_table 77, loc_api_clnt := Some idle_client\<rparr>"
  have c: "loc_api_clnt ?g = Some idle_client" by simp
  have "loc_api_clnt g1 = None" using close call by (auto simp: loc_close_def Let_def)
  then have ini: "loc_api_glue_init (Some idle_client) 77 good_env None 5 g1 fresh_sync no_port
      = Some (0, ?g2, loc_api_sync_call_init fresh_sync, no_port)"
    by (simp add: loc_api_glue_init_def loc_apicb_app_init_def no_port_def svcrtr_create_at_def Let_def)
  have "unat (glue_cb_id 0 77 AND 0xFFFF) = 0" by (rule cb_id_index) (simp add: LOC_API_CB_MAX_CLIENTS_def)
  then have idx: "unat (cb_id plain_event AND 0xFFFF) < 16" by (simp add: plain_event_def)
  note p = close_cuts_off_other_clients [OF c call close ini idx, of reset_env 10 zero_rpc_loc_start_fix_rets
      zero_rpc_loc_stop_fix_rets 0 None zero_rpc_loc_ioctl_rets "\<lambda>f h ev pl w. (1, f # w)"
      zero_rpc_loc_event_cb_f_type_rets "\<lparr>rq_prog = 1, rq_vers = 1, rq_proc = 1\<rparr>" "[]"]
  have "zero_rpc_loc_event_cb_f_type_rets\<lparr>loc_event_cb_f_type_result := 0\<rparr> = zero_rpc_loc_event_cb_f_type_rets"
    by (simp add: zero_rpc_loc_event_cb_f_type_rets_def)
  then show ?thesis using p close ini by auto
qed

text \<open>
  The bounds test of the callback identifier is off by one. The table has 16 entries, but an
  identifier with low word 16 passes the test and the handler reads the entry behind the table;
  only larger indices are answered with 0.
\<close>

theorem event_index_16_leaves_table:
  assumes "reachable_glue pid g"
  shows "(unat (cb_id argp AND 0xFFFF) = 16 \<longrightarrow>
      rpc_loc_event_cb_f_type_svc func argp ret req (callback_table g, sync, w) = None)
    \<and> (unat (cb_id argp AND 0xFFFF) > 16 \<longrightarrow>
      rpc_loc_event_cb_f_type_svc func argp ret req (callback_table g, sync, w)
        = Some (1, ret\<lparr>loc_event_cb_f_type_result := 0\<rparr>, callback_table g, sync, w))"
  using table_length [OF reachable_table [OF assms]]
  by (simp add: rpc_loc_event_cb_f_type_svc_def LOC_API_CB_MAX_CLIENTS_def)

theorem event_index_16_leaves_table_witness:
  "rpc_loc_event_cb_f_type_svc (\<lambda>f h ev pl w. (1, f # w)) (plain_event\<lparr>cb_id := 16\<rparr>)
    zero_rpc_loc_event_cb_f_type_rets \<lparr>rq_prog = 1, rq_vers = 1, rq_proc = 1\<rparr> (callback_table one_client, fresh_sync, []) = None"
proof -
  have "unat (cb_id (plain_event\<lparr>cb_id := 16\<rparr>) AND 0xFFFF) = 16" by simp
  then show ?thesis
    using event_index_16_leaves_table [OF one_client(1), of "plain_event\<lparr>cb_id := 16\<rparr>"
        "\<lambda>f h ev pl w. (1, f # w)" zero_rpc_loc_event_cb_f_type_rets "\<lparr>rq_prog = 1, rq_vers = 1, rq_proc = 1\<rparr>" fresh_sync "[]"]
    by blast
qed

lemma register_fails:
  "svc_register env x prog vers dfn = Some (False, y) \<Longrightarrow> svc_look y (prog, vers) \<noteq> Some dfn"
  by (auto simp: svc_register_def svc_look_def Let_def split: option.splits if_splits)

lemma app_init_fails:
  assumes "loc_apicb_app_init env new dfn cb = Some (rc, cb1)" "rc < 0"
  shows "svrPort cb1 = 0 \<or> (\<exists>x. port_mem cb1 (svrPort cb1) = Some x
      \<and> svc_look x (LOC_APICBPROG, LOC_APICBVERS_0001) \<noteq> Some dfn)"
  using assms register_fails
  by (fastforce simp: loc_apicb_app_init_def Let_def split: if_splits option.splits prod.splits bind_splits)

text \<open>
  Initialising again hides a failure. When registering the callbacks fails,
  \<open>loc_api_glue_init\<close> reports failure but keeps the RPC client, so the next call returns success at
  once although the callback program is not registered with this function.
\<close>

theorem init_retry_hides_failure:
  assumes "loc_api_clnt g = None"
    and "loc_api_glue_init (Some c) pid env new dfn g sync cb = Some (0, g1, sync1, cb1)"
  shows "loc_api_glue_init cl' pid' env' new' dfn g1 sync1 cb1 = Some (1, g1, sync1, cb1)
    \<and> (svrPort cb1 = 0 \<or> (\<exists>x. port_mem cb1 (svrPort cb1) = Some x
        \<and> svc_look x (LOC_APICBPROG, LOC_APICBVERS_0001) \<noteq> Some dfn))"
proof -
  obtain r where r: "loc_apicb_app_init env new dfn cb = Some (r, cb1)" "r < 0"
    and g1: "g1 = g\<lparr>callback_table := init_table pid, loc_api_clnt := Some c\<rparr>"
    using assms by (auto simp: loc_api_glue_init_def Let_def split: if_splits option.splits bind_splits)
  show ?thesis using app_init_fails [OF r] g1 by (simp add: loc_api_glue_init_def)
qed

theorem init_retry_hides_failure_witness:
  "\<exists>sync1. loc_api_glue_init (Some idle_client) 77 good_env None 5 no_glue fresh_sync no_port
      = Some (0, two_clients, sync1, no_port)
    \<and> loc_api_glue_init (Some idle_client) 77 good_env None 5 two_clients sync1 no_port
      = Some (1, two_clients, sync1, no_port)"
proof -
  have none: "loc_api_clnt no_glue = None" by (simp add: no_glue_def)
  have run: "loc_api_glue_init (Some idle_client) 77 good_env None 5 no_glue fresh_sync no_port
      = Some (0, two_clients, loc_api_sync_call_init fresh_sync, no_port)"
    by (simp add: loc_api_glue_init_def no_glue_def two_clients_def loc_apicb_app_init_def no_port_def
        svcrtr_create_at_def Let_def)
  from init_retry_hides_failure [OF none run] run show ?thesis by blast
qed

end
