(* ===== verification/LinkedList.thy ===== *)
theory LinkedList
  imports Prelude "HOL-Library.Monad_Syntax"
begin

text \<open>
  The doubly linked list of gps/utils/linked_list.c on an explicit store. Addresses are numbers, 0
  is NULL; elements and list headers are maps from addresses. A function that would dereference an
  address that holds nothing, or free it, returns None. A \<open>void**\<close> argument is an option, None for
  a null pointer; calls of a deallocation function are recorded.
\<close>

section \<open>Data\<close>

datatype linked_list_err_type =
    eLINKED_LIST_SUCCESS
  | eLINKED_LIST_FAILURE_GENERAL
  | eLINKED_LIST_INVALID_PARAMETER
  | eLINKED_LIST_INVALID_HANDLE
  | eLINKED_LIST_UNAVAILABLE_RESOURCE
  | eLINKED_LIST_INSUFFICIENT_BUFFER

fun err_value :: "linked_list_err_type \<Rightarrow> int" where
  "err_value eLINKED_LIST_SUCCESS = 0"
| "err_value eLINKED_LIST_FAILURE_GENERAL = -1"
| "err_value eLINKED_LIST_INVALID_PARAMETER = -2"
| "err_value eLINKED_LIST_INVALID_HANDLE = -3"
| "err_value eLINKED_LIST_UNAVAILABLE_RESOURCE = -4"
| "err_value eLINKED_LIST_INSUFFICIENT_BUFFER = -5"

record list_element =
  le_next :: nat
  le_prev :: nat
  le_data :: nat
  dealloc_func :: nat

record list_state =
  p_head :: nat
  p_tail :: nat

record store =
  elements :: "nat \<rightharpoonup> list_element"
  headers :: "nat \<rightharpoonup> list_state"
  dealloced :: "(nat \<times> nat) list"

definition set_element :: "nat \<Rightarrow> (list_element \<Rightarrow> list_element) \<Rightarrow> store \<Rightarrow> store option" where
  "set_element a f m = (case elements m a of None \<Rightarrow> None
     | Some e \<Rightarrow> Some (m\<lparr>elements := (elements m)(a \<mapsto> f e)\<rparr>))"

definition set_header :: "nat \<Rightarrow> (list_state \<Rightarrow> list_state) \<Rightarrow> store \<Rightarrow> store option" where
  "set_header l f m = (case headers m l of None \<Rightarrow> None
     | Some s \<Rightarrow> Some (m\<lparr>headers := (headers m)(l \<mapsto> f s)\<rparr>))"

definition free_element :: "nat \<Rightarrow> store \<Rightarrow> store option" where
  "free_element a m = (if elements m a = None then None
     else Some (m\<lparr>elements := (elements m)(a := None)\<rparr>))"

definition run_dealloc :: "nat \<Rightarrow> nat \<Rightarrow> store \<Rightarrow> store" where
  "run_dealloc f d m = (if f = 0 then m else m\<lparr>dealloced := dealloced m @ [(f, d)]\<rparr>)"

section \<open>Operations\<close>

text \<open>\<open>new\<close> is what the allocation returns. The second result is the pointer that is written back.\<close>

definition linked_list_init ::
    "nat option \<Rightarrow> nat option \<Rightarrow> store \<Rightarrow> linked_list_err_type \<times> nat option \<times> store" where
  "linked_list_init new list_data m =
     (case list_data of None \<Rightarrow> (eLINKED_LIST_INVALID_PARAMETER, None, m)
      | Some _ \<Rightarrow>
        (case new of None \<Rightarrow> (eLINKED_LIST_FAILURE_GENERAL, list_data, m)
         | Some l \<Rightarrow> (eLINKED_LIST_SUCCESS, Some l, m\<lparr>headers := (headers m)(l \<mapsto> \<lparr>p_head = 0, p_tail = 0\<rparr>)\<rparr>)))"

partial_function (option) flush_loop :: "nat \<Rightarrow> store \<Rightarrow> store option" where
  "flush_loop l m = do {
     s \<leftarrow> headers m l;
     if p_head s = 0 then Some m
     else do {
       e \<leftarrow> elements m (p_head s);
       m1 \<leftarrow> free_element (p_head s) (run_dealloc (dealloc_func e) (le_data e) m);
       m2 \<leftarrow> set_header l (\<lambda>t. t\<lparr>p_head := le_next e\<rparr>) m1;
       flush_loop l m2
     }
   }"

definition linked_list_flush :: "nat \<Rightarrow> store \<Rightarrow> (linked_list_err_type \<times> store) option" where
  "linked_list_flush l m =
     (if l = 0 then Some (eLINKED_LIST_INVALID_HANDLE, m)
      else do {
        m1 \<leftarrow> flush_loop l m;
        m2 \<leftarrow> set_header l (\<lambda>s. s\<lparr>p_tail := 0\<rparr>) m1;
        Some (eLINKED_LIST_SUCCESS, m2)
      })"

definition linked_list_destroy ::
    "nat option \<Rightarrow> store \<Rightarrow> (linked_list_err_type \<times> nat option \<times> store) option" where
  "linked_list_destroy list_data m =
     (case list_data of None \<Rightarrow> Some (eLINKED_LIST_INVALID_HANDLE, None, m)
      | Some l \<Rightarrow> do {
          (_, m1) \<leftarrow> linked_list_flush l m;
          if l = 0 then Some (eLINKED_LIST_SUCCESS, Some 0, m1)
          else if headers m1 l = None then None
          else Some (eLINKED_LIST_SUCCESS, Some 0, m1\<lparr>headers := (headers m1)(l := None)\<rparr>)
        })"

definition linked_list_add ::
    "nat option \<Rightarrow> nat \<Rightarrow> nat \<Rightarrow> nat \<Rightarrow> store \<Rightarrow> (linked_list_err_type \<times> store) option" where
  "linked_list_add new l data_obj dealloc m =
     (if l = 0 then Some (eLINKED_LIST_INVALID_HANDLE, m)
      else if data_obj = 0 then Some (eLINKED_LIST_INVALID_PARAMETER, m)
      else case new of None \<Rightarrow> Some (eLINKED_LIST_FAILURE_GENERAL, m)
      | Some elem \<Rightarrow> do {
          let m1 = m\<lparr>elements := (elements m)(elem \<mapsto>
            \<lparr>le_next = 0, le_prev = 0, le_data = data_obj, dealloc_func = dealloc\<rparr>)\<rparr>;
          s \<leftarrow> headers m1 l;
          let tmp = p_head s;
          m2 \<leftarrow> set_header l (\<lambda>s. s\<lparr>p_head := elem\<rparr>) m1;
          m3 \<leftarrow> set_element elem (\<lambda>e. e\<lparr>le_next := tmp\<rparr>) m2;
          m4 \<leftarrow> (if tmp \<noteq> 0 then set_element tmp (\<lambda>e. e\<lparr>le_prev := elem\<rparr>) m3
                 else set_header l (\<lambda>s. s\<lparr>p_tail := elem\<rparr>) m3);
          Some (eLINKED_LIST_SUCCESS, m4)
        })"

text \<open>The second result is what is written to \<open>*data_obj\<close>, None when nothing is.\<close>

definition linked_list_remove ::
    "nat \<Rightarrow> bool \<Rightarrow> store \<Rightarrow> (linked_list_err_type \<times> nat option \<times> store) option" where
  "linked_list_remove l data_obj m =
     (if l = 0 then Some (eLINKED_LIST_INVALID_HANDLE, None, m)
      else if \<not> data_obj then Some (eLINKED_LIST_INVALID_PARAMETER, None, m)
      else do {
        s \<leftarrow> headers m l;
        if p_tail s = 0 then Some (eLINKED_LIST_UNAVAILABLE_RESOURCE, None, m)
        else do {
          let tmp = p_tail s;
          e \<leftarrow> elements m tmp;
          m1 \<leftarrow> set_header l (\<lambda>s. s\<lparr>p_tail := le_prev e\<rparr>) m;
          m2 \<leftarrow> (if le_prev e \<noteq> 0 then set_element (le_prev e) (\<lambda>e. e\<lparr>le_next := 0\<rparr>) m1
                 else set_header l (\<lambda>s. s\<lparr>p_head := 0\<rparr>) m1);
          m3 \<leftarrow> free_element tmp m2;
          Some (eLINKED_LIST_SUCCESS, Some (le_data e), m3)
        }
      })"

definition linked_list_empty :: "nat \<Rightarrow> store \<Rightarrow> int option" where
  "linked_list_empty l m =
     (if l = 0 then Some (err_value eLINKED_LIST_INVALID_HANDLE)
      else do { s \<leftarrow> headers m l; Some (if p_head s = 0 then 1 else 0) })"

text \<open>\<open>unlink\<close> is the removal of a found element; \<open>out\<close> tells whether \<open>data_p\<close> was given.\<close>

definition unlink_found :: "nat \<Rightarrow> nat \<Rightarrow> bool \<Rightarrow> store \<Rightarrow> store option" where
  "unlink_found l tmp out m = do {
     e \<leftarrow> elements m tmp;
     m1 \<leftarrow> (if le_prev e = 0 then set_header l (\<lambda>s. s\<lparr>p_head := le_next e\<rparr>) m
            else set_element (le_prev e) (\<lambda>x. x\<lparr>le_next := le_next e\<rparr>) m);
     m2 \<leftarrow> (if le_next e = 0 then set_header l (\<lambda>s. s\<lparr>p_tail := le_prev e\<rparr>) m1
            else set_element (le_next e) (\<lambda>x. x\<lparr>le_prev := le_prev e\<rparr>) m1);
     m3 \<leftarrow> set_element tmp (\<lambda>x. x\<lparr>le_prev := 0, le_next := 0\<rparr>) m2;
     free_element tmp (if \<not> out then run_dealloc (dealloc_func e) (le_data e) m3 else m3)
   }"

partial_function (option) search_loop ::
    "nat \<Rightarrow> (nat \<Rightarrow> bool) \<Rightarrow> bool \<Rightarrow> bool \<Rightarrow> nat \<Rightarrow> store \<Rightarrow> (nat option \<times> store) option" where
  "search_loop l found out rm tmp m =
     (if tmp = 0 then Some (None, m)
      else do {
        e \<leftarrow> elements m tmp;
        if found (le_data e) then do {
          m1 \<leftarrow> (if rm then unlink_found l tmp out m else Some m);
          Some (Some (le_data e), m1)
        }
        else search_loop l found out rm (le_next e) m
      })"

text \<open>\<open>equal\<close> is None for a null pointer; the second result is the value left in \<open>*data_p\<close>.\<close>

definition linked_list_search ::
    "nat \<Rightarrow> bool \<Rightarrow> (nat \<Rightarrow> nat \<Rightarrow> bool) option \<Rightarrow> nat \<Rightarrow> bool \<Rightarrow> store
      \<Rightarrow> (linked_list_err_type \<times> nat option \<times> store) option" where
  "linked_list_search l data_p equal data_0 rm_if_found m =
     (case equal of None \<Rightarrow> Some (eLINKED_LIST_INVALID_HANDLE, None, m)
      | Some eq \<Rightarrow>
        if l = 0 then Some (eLINKED_LIST_INVALID_HANDLE, None, m)
        else do {
          s \<leftarrow> headers m l;
          if p_tail s = 0 then Some (eLINKED_LIST_UNAVAILABLE_RESOURCE, None, m)
          else do {
            (d, m1) \<leftarrow> search_loop l (eq data_0) data_p rm_if_found (p_head s) m;
            Some (eLINKED_LIST_SUCCESS, if data_p then Some (case d of None \<Rightarrow> 0 | Some x \<Rightarrow> x) else None, m1)
          }
        })"

section \<open>Segments of a list\<close>

text \<open>
  \<open>seg h p as q\<close>: the elements at the addresses \<open>as\<close> are linked in this order, the first points back
  to \<open>p\<close> and the last forward to \<open>q\<close>.
\<close>

fun seg :: "(nat \<rightharpoonup> list_element) \<Rightarrow> nat \<Rightarrow> nat list \<Rightarrow> nat \<Rightarrow> bool" where
  "seg h p [] q \<longleftrightarrow> True"
| "seg h p (a # as) q \<longleftrightarrow> a \<noteq> 0 \<and> (case h a of None \<Rightarrow> False
     | Some e \<Rightarrow> le_prev e = p \<and> le_next e = hd (as @ [q]) \<and> seg h a as q)"

lemma seg_append:
  "seg h p (as @ bs) q \<longleftrightarrow> seg h p as (hd (bs @ [q])) \<and> seg h (last (p # as)) bs q"
proof (induction as arbitrary: p)
  case (Cons a as)
  have "hd ((as @ bs) @ [q]) = hd (as @ [hd (bs @ [q])])" by (cases as) auto
  then show ?case using Cons by (auto split: option.splits)
qed simp

lemma seg_other: "a \<notin> set as \<Longrightarrow> seg (h(a := x)) p as q = seg h p as q"
  by (induction as arbitrary: p) (auto split: option.splits)

lemma seg_nonzero: "seg h p as q \<Longrightarrow> 0 \<notin> set as"
  by (induction as arbitrary: p) (auto split: option.splits)

lemma seg_dom: "seg h p as q \<Longrightarrow> set as \<subseteq> dom h"
  by (induction as arbitrary: p) (auto split: option.splits)

lemma seg_unique:
  "seg h p as 0 \<Longrightarrow> seg h r bs 0 \<Longrightarrow> hd (as @ [0]) = hd (bs @ [0]) \<Longrightarrow> as = bs"
proof (induction as arbitrary: p r bs)
  case Nil
  then show ?case by (cases bs) auto
next
  case (Cons a as)
  then obtain cs where "bs = a # cs" by (cases bs) auto
  then show ?case using Cons by (auto split: option.splits)
qed

lemma seg_prev:
  "seg h p (a # as) q \<Longrightarrow> a \<notin> set as \<Longrightarrow> seg (h(a \<mapsto> (the (h a))\<lparr>le_prev := r\<rparr>)) r (a # as) q"
  by (auto simp: seg_other split: option.splits)

lemma seg_next:
  "seg h p (as @ [a]) q \<Longrightarrow> a \<notin> set as \<Longrightarrow> seg (h(a \<mapsto> (the (h a))\<lparr>le_next := r\<rparr>)) p (as @ [a]) r"
  by (auto simp: seg_append seg_other split: option.splits)

text \<open>The entries of a list: datum and deallocation function, in order.\<close>

definition entry :: "(nat \<rightharpoonup> list_element) \<Rightarrow> nat \<Rightarrow> nat \<times> nat" where
  "entry h a = (case h a of None \<Rightarrow> (0, 0) | Some e \<Rightarrow> (le_data e, dealloc_func e))"

lemma entries_other: "a \<notin> set as \<Longrightarrow> map (entry (h(a := x))) as = map (entry h) as"
  by (auto simp: entry_def)

text \<open>
  The list \<open>l\<close> is well formed, has the elements \<open>as\<close>, and they are all there is in the store; its
  contents are \<open>es\<close>.
\<close>

definition list_at :: "store \<Rightarrow> nat \<Rightarrow> nat list \<Rightarrow> (nat \<times> nat) list \<Rightarrow> bool" where
  "list_at m l as es \<longleftrightarrow> l \<noteq> 0 \<and> headers m l = Some \<lparr>p_head = hd (as @ [0]), p_tail = last (0 # as)\<rparr>
     \<and> seg (elements m) 0 as 0 \<and> distinct as \<and> dom (elements m) = set as \<and> map (entry (elements m)) as = es"

definition list_rep :: "store \<Rightarrow> nat \<Rightarrow> (nat \<times> nat) list \<Rightarrow> bool" where
  "list_rep m l es \<longleftrightarrow> (\<exists>as. list_at m l as es)"

lemma unmap_single [simp]: "dom h = {a} \<Longrightarrow> h(a := None) = Map.empty"
  by (auto simp: fun_eq_iff dom_def)

lemma entry_upd: "entry (h(a := x)) b = (if b = a then (case x of None \<Rightarrow> (0, 0) | Some e \<Rightarrow> (le_data e, dealloc_func e)) else entry h b)"
  by (simp add: entry_def)

lemma entry_link [simp]:
  "h a = Some e \<Longrightarrow> entry (h(a \<mapsto> e\<lparr>le_next := q\<rparr>)) = entry h"
  "h a = Some e \<Longrightarrow> entry (h(a \<mapsto> e\<lparr>le_prev := q\<rparr>)) = entry h"
  by (auto simp: entry_def fun_eq_iff)

definition deallocs :: "(nat \<times> nat) list \<Rightarrow> (nat \<times> nat) list" where
  "deallocs es = map (\<lambda>(d, f). (f, d)) (filter (\<lambda>(d, f). f \<noteq> 0) es)"

lemma deallocs_simps [simp]:
  "deallocs [] = []" "deallocs ((d, f) # es) = (if f = 0 then [] else [(f, d)]) @ deallocs es"
  by (simp_all add: deallocs_def)

lemma add_at:
  assumes "list_at m l as es" "a \<noteq> 0" "a \<notin> set as" "d \<noteq> 0"
  shows "\<exists>m'. linked_list_add (Some a) l d f m = Some (eLINKED_LIST_SUCCESS, m')
    \<and> list_at m' l (a # as) ((d, f) # es) \<and> dealloced m' = dealloced m"
proof -
  let ?e = "\<lparr>le_next = 0, le_prev = 0, le_data = d, dealloc_func = f\<rparr>"
  note l = assms(1) [unfolded list_at_def]
  have es: "map (entry ((elements m)(a := x))) as = es" for x
    using l assms(3) by (metis entries_other)
  show ?thesis
  proof (cases as)
    case Nil
    then show ?thesis using l assms(2,4)
      by (auto simp: linked_list_add_def set_header_def set_element_def list_at_def entry_def)
  next
    case (Cons b bs)
    obtain x where x: "elements m b = Some x" using l Cons by (auto split: option.splits)
    have ne: "a \<noteq> b" "b \<noteq> 0" using assms(3) Cons l by auto
    let ?h = "(elements m)(a \<mapsto> ?e\<lparr>le_next := b\<rparr>, b \<mapsto> x\<lparr>le_prev := a\<rparr>)"
    have "seg ((elements m)(a \<mapsto> ?e\<lparr>le_next := b\<rparr>)) 0 (b # bs) 0"
      using l Cons assms(3) seg_other [of a as "elements m"] by simp
    then have "seg ?h a (b # bs) 0"
      using seg_prev [of "(elements m)(a \<mapsto> ?e\<lparr>le_next := b\<rparr>)" 0 b bs 0 a] l Cons ne x by simp
    then have "seg ?h 0 (a # as) 0" using Cons assms(2) ne by simp
    moreover have "map (entry ?h) (a # as) = (d, f) # es"
      using es [of "Some (?e\<lparr>le_next := b\<rparr>)"] x ne by (simp add: entry_upd)
    moreover have "linked_list_add (Some a) l d f m = Some (eLINKED_LIST_SUCCESS,
        m\<lparr>elements := ?h, headers := (headers m)(l \<mapsto> \<lparr>p_head = a, p_tail = last (0 # as)\<rparr>)\<rparr>)"
      using l Cons assms(4) ne x by (simp add: linked_list_add_def set_header_def set_element_def Let_def)
    ultimately show ?thesis using l Cons assms(3) x by (auto simp: list_at_def)
  qed
qed

lemma remove_at:
  assumes "list_at m l (as @ [a]) es"
  shows "\<exists>m'. linked_list_remove l True m = Some (eLINKED_LIST_SUCCESS, Some (fst (last es)), m')
    \<and> list_at m' l as (butlast es) \<and> dealloced m' = dealloced m"
proof -
  note l = assms [unfolded list_at_def]
  have a: "a \<noteq> 0" "a \<notin> set as" using l seg_nonzero [of "elements m" 0 "as @ [a]" 0] by auto
  obtain e where e: "elements m a = Some e" "le_prev e = last (0 # as)"
    using l by (auto simp: seg_append split: option.splits if_splits)
  have es: "fst (last es) = le_data e" "butlast es = map (entry (elements m)) as"
    using l e by (auto simp: entry_def)
  show ?thesis
  proof (cases as rule: rev_cases)
    case Nil
    then show ?thesis using l a e es
      by (auto simp: linked_list_remove_def set_header_def set_element_def free_element_def list_at_def)
  next
    case (snoc bs b)
    obtain x where x: "elements m b = Some x" using l snoc by (auto simp: seg_append split: option.splits)
    have ne: "a \<noteq> b" "b \<noteq> 0" using l snoc seg_nonzero [of "elements m" 0 "as @ [a]" 0] by auto
    let ?h = "(elements m)(b \<mapsto> x\<lparr>le_next := 0\<rparr>, a := None)"
    have "seg (elements m) 0 (bs @ [b]) a"
      using l seg_append [of "elements m" 0 as "[a]" 0] snoc by simp
    then have "seg ((elements m)(b \<mapsto> x\<lparr>le_next := 0\<rparr>)) 0 (bs @ [b]) 0"
      using seg_next [of "elements m" 0 bs b a 0] l snoc x by simp
    then have "seg ?h 0 as 0" using snoc a(2) by (simp add: seg_other)
    moreover have "map (entry ?h) as = butlast es"
      using es(2) x a(2) by (auto simp: entry_upd)
    moreover have "linked_list_remove l True m = Some (eLINKED_LIST_SUCCESS, Some (le_data e),
        m\<lparr>headers := (headers m)(l \<mapsto> \<lparr>p_head = hd ((as @ [a]) @ [0]), p_tail = b\<rparr>), elements := ?h\<rparr>)"
      using l snoc a e x ne
      by (simp add: linked_list_remove_def set_header_def set_element_def free_element_def Let_def)
    moreover have "hd ((as @ [a]) @ [0]) = hd (as @ [0])" using snoc by (cases bs) auto
    moreover have "dom ?h = set as" using l a(2) x snoc by auto
    ultimately show ?thesis using l snoc es(1) ne by (simp add: list_at_def)
  qed
qed

lemma flush_loop_at:
  "headers m l = Some \<lparr>p_head = hd (as @ [0]), p_tail = t\<rparr> \<Longrightarrow> seg (elements m) p as 0 \<Longrightarrow> distinct as
    \<Longrightarrow> dom (elements m) = set as
    \<Longrightarrow> flush_loop l m = Some (m\<lparr>elements := Map.empty, headers := (headers m)(l \<mapsto> \<lparr>p_head = 0, p_tail = t\<rparr>),
        dealloced := dealloced m @ deallocs (map (entry (elements m)) as)\<rparr>)"
proof (induction as arbitrary: m p)
  case Nil
  then have "headers m = (headers m)(l \<mapsto> \<lparr>p_head = 0, p_tail = t\<rparr>)" by auto
  then show ?case using Nil by (subst flush_loop.simps) (auto simp: deallocs_def)
next
  case (Cons a as)
  obtain e where e: "elements m a = Some e" "le_next e = hd (as @ [0])" "a \<noteq> 0" "seg (elements m) a as 0"
    using Cons.prems(2) by (auto split: option.splits)
  let ?m = "(run_dealloc (dealloc_func e) (le_data e) m)\<lparr>elements := (elements m)(a := None),
      headers := (headers m)(l \<mapsto> \<lparr>p_head = hd (as @ [0]), p_tail = t\<rparr>)\<rparr>"
  have step: "flush_loop l m = flush_loop l ?m"
    using Cons.prems(1) e
    by (subst flush_loop.simps) (simp add: free_element_def set_header_def run_dealloc_def)
  have es: "map (entry ((elements m)(a := None))) as = map (entry (elements m)) as"
    by (rule entries_other) (use Cons.prems(3) in simp)
  have "entry (elements m) a = (le_data e, dealloc_func e)" using e(1) by (simp add: entry_def)
  then have d: "dealloced ?m @ deallocs (map (entry (elements ?m)) as)
      = dealloced m @ deallocs (map (entry (elements m)) (a # as))"
    using es by (simp add: run_dealloc_def del: map_eq_conv)
  have "flush_loop l ?m = Some (?m\<lparr>elements := Map.empty,
      headers := (headers ?m)(l \<mapsto> \<lparr>p_head = 0, p_tail = t\<rparr>),
      dealloced := dealloced ?m @ deallocs (map (entry (elements ?m)) as)\<rparr>)"
  proof (rule Cons.IH [of _ a])
    show "seg (elements ?m) a as 0" using e(4) Cons.prems(3) by (simp add: seg_other)
    show "dom (elements ?m) = set as" using Cons.prems(3,4) by (auto simp: dom_def)
  qed (use Cons.prems in simp_all)
  also have "\<dots> = Some (m\<lparr>elements := Map.empty, headers := (headers m)(l \<mapsto> \<lparr>p_head = 0, p_tail = t\<rparr>),
      dealloced := dealloced m @ deallocs (map (entry (elements m)) (a # as))\<rparr>)"
    unfolding d by (simp add: run_dealloc_def)
  finally show ?case unfolding step .
qed

lemma flush_at:
  assumes "list_at m l as es"
  shows "\<exists>m'. linked_list_flush l m = Some (eLINKED_LIST_SUCCESS, m')
    \<and> list_at m' l [] [] \<and> dealloced m' = dealloced m @ deallocs es"
  using flush_loop_at [of m l as "last (0 # as)" 0] assms
  by (auto simp: linked_list_flush_def list_at_def set_header_def)

text \<open>Relinking the last element of a segment forward, or its first one back.\<close>

definition relink_next :: "(nat \<rightharpoonup> list_element) \<Rightarrow> nat list \<Rightarrow> nat \<Rightarrow> nat \<rightharpoonup> list_element" where
  "relink_next h as q = (if as = [] then h else h(last as \<mapsto> (the (h (last as)))\<lparr>le_next := q\<rparr>))"

definition relink_prev :: "(nat \<rightharpoonup> list_element) \<Rightarrow> nat list \<Rightarrow> nat \<Rightarrow> nat \<rightharpoonup> list_element" where
  "relink_prev h as p = (if as = [] then h else h(hd as \<mapsto> (the (h (hd as)))\<lparr>le_prev := p\<rparr>))"

lemma seg_relink:
  "seg h p as q \<Longrightarrow> distinct as \<Longrightarrow> seg (relink_next h as r) p as r"
  "seg h p as q \<Longrightarrow> distinct as \<Longrightarrow> seg (relink_prev h as r) r as q"
proof -
  show "seg (relink_next h as r) p as r" if "seg h p as q" "distinct as"
    using that seg_next [of h p "butlast as" "last as" q r]
    by (cases as rule: rev_cases) (auto simp: relink_next_def)
  show "seg (relink_prev h as r) r as q" if "seg h p as q" "distinct as"
    using that seg_prev [of h p "hd as" "tl as" q r] by (cases as) (auto simp: relink_prev_def)
qed

lemma seg_relink_other:
  "set as \<inter> set bs = {} \<Longrightarrow> seg (relink_next h bs r) p as q = seg h p as q"
  "set as \<inter> set bs = {} \<Longrightarrow> seg (relink_prev h bs r) p as q = seg h p as q"
  unfolding relink_next_def relink_prev_def by (auto intro!: seg_other)

lemma relink_maps:
  assumes "set as \<subseteq> dom h"
  shows "dom (relink_next h as r) = dom h" and "dom (relink_prev h as r) = dom h"
    and "entry (relink_next h as r) = entry h" and "entry (relink_prev h as r) = entry h"
proof -
  have "\<exists>e. h (last as) = Some e" "\<exists>e. h (hd as) = Some e" if "as \<noteq> []"
    using assms last_in_set [OF that] hd_in_set [OF that] by blast+
  then show "dom (relink_next h as r) = dom h" "dom (relink_prev h as r) = dom h"
    "entry (relink_next h as r) = entry h" "entry (relink_prev h as r) = entry h"
    by (cases "as = []"; force simp: relink_next_def relink_prev_def)+
qed

text \<open>The three assignments of a removal, on a store.\<close>

lemma unlink_steps:
  assumes "headers m l = Some \<lparr>p_head = hd (xs @ [a]), p_tail = t\<rparr>" "set xs \<subseteq> dom (elements m)" "0 \<notin> set xs"
  shows "(if last (0 # xs) = 0 then set_header l (\<lambda>s. s\<lparr>p_head := q\<rparr>) m
      else set_element (last (0 # xs)) (\<lambda>x. x\<lparr>le_next := q\<rparr>) m)
    = Some (m\<lparr>headers := (headers m)(l \<mapsto> \<lparr>p_head = hd (xs @ [q]), p_tail = t\<rparr>),
        elements := relink_next (elements m) xs q\<rparr>)"
proof (cases "xs = []")
  case False
  then have "last xs \<in> set xs" by simp
  then obtain e where "elements m (last xs) = Some e" "last xs \<noteq> 0" using assms by (metis domD subsetD)
  moreover have "(headers m)(l \<mapsto> \<lparr>p_head = hd (xs @ [q]), p_tail = t\<rparr>) = headers m"
    using assms(1) False by (simp add: fun_upd_idem)
  ultimately show ?thesis using False by (simp add: relink_next_def set_element_def)
qed (use assms in \<open>simp add: relink_next_def set_header_def\<close>)

lemma unlink_steps_prev:
  assumes "headers m l = Some \<lparr>p_head = t, p_tail = last (a # ys)\<rparr>" "set ys \<subseteq> dom (elements m)" "0 \<notin> set ys"
  shows "(if hd (ys @ [0]) = 0 then set_header l (\<lambda>s. s\<lparr>p_tail := q\<rparr>) m
      else set_element (hd (ys @ [0])) (\<lambda>x. x\<lparr>le_prev := q\<rparr>) m)
    = Some (m\<lparr>headers := (headers m)(l \<mapsto> \<lparr>p_head = t, p_tail = last (q # ys)\<rparr>),
        elements := relink_prev (elements m) ys q\<rparr>)"
proof (cases "ys = []")
  case False
  then have "hd ys \<in> set ys" by simp
  then obtain e where "elements m (hd ys) = Some e" "hd ys \<noteq> 0" using assms by (metis domD subsetD)
  moreover have "(headers m)(l \<mapsto> \<lparr>p_head = t, p_tail = last (q # ys)\<rparr>) = headers m"
    using assms(1) False by (simp add: fun_upd_idem)
  ultimately show ?thesis using False by (simp add: relink_prev_def set_element_def)
qed (use assms in \<open>simp add: relink_prev_def set_header_def\<close>)

lemma unlink_at:
  assumes "list_at m l (xs @ a # ys) es"
  shows "\<exists>m'. unlink_found l a out m = Some m'
    \<and> list_at m' l (xs @ ys) (take (length xs) es @ drop (Suc (length xs)) es)
    \<and> dealloced m' = dealloced m @ (if out then [] else deallocs [es ! length xs])"
proof -
  note l = assms [unfolded list_at_def]
  let ?h = "elements m" and ?q = "hd (ys @ [0])" and ?p = "last (0 # xs)"
  have s: "seg ?h 0 xs a" "seg ?h a ys 0" and nz: "0 \<notin> set (xs @ a # ys)"
    using l seg_nonzero [of ?h 0 "xs @ a # ys" 0] by (auto simp: seg_append split: option.splits)
  obtain e where e: "?h a = Some e" "le_prev e = ?p" "le_next e = ?q"
    using l by (auto simp: seg_append split: option.splits)
  have d: "a \<notin> set xs" "a \<notin> set ys" "set xs \<inter> set ys = {}" "distinct xs" "distinct ys"
    "set xs \<subseteq> dom ?h" "set ys \<subseteq> dom ?h"
    using l by auto
  let ?h1 = "relink_next ?h xs ?q"
  let ?h2 = "relink_prev ?h1 ys ?p"
  let ?hd = "\<lparr>p_head = hd ((xs @ ys) @ [0]), p_tail = last (0 # xs @ ys)\<rparr>"
  have ys1: "set ys \<subseteq> dom ?h1" "set xs \<subseteq> dom ?h" using d relink_maps(1) [of xs ?h ?q] by auto
  have doms: "dom ?h2 = set (xs @ a # ys)"
    using l relink_maps(2) [OF ys1(1)] relink_maps(1) [OF ys1(2)] by simp
  have ent: "entry ?h2 = entry ?h" using relink_maps(4) [OF ys1(1)] relink_maps(3) [OF ys1(2)] by simp
  have "seg ?h1 0 xs ?q" using seg_relink(1) [OF s(1) d(4)] .
  then have "seg ?h2 0 xs ?q" using d(3) by (subst seg_relink_other(2)) auto
  moreover have "seg ?h1 a ys 0" using s(2) d(3) by (subst seg_relink_other(1)) auto
  then have "seg ?h2 ?p ys 0" by (rule seg_relink(2) [OF _ d(5)])
  ultimately have seg2: "seg ?h2 0 (xs @ ys) 0" by (simp add: seg_append)
  let ?m1 = "m\<lparr>headers := (headers m)(l \<mapsto> \<lparr>p_head = hd (xs @ [?q]), p_tail = last (a # ys)\<rparr>), elements := ?h1\<rparr>"
  have 1: "(if ?p = 0 then set_header l (\<lambda>s. s\<lparr>p_head := ?q\<rparr>) m else set_element ?p (\<lambda>x. x\<lparr>le_next := ?q\<rparr>) m) = Some ?m1"
    by (rule unlink_steps [of m l xs a]) (use l d nz in \<open>auto simp: hd_append\<close>)
  let ?m2 = "?m1\<lparr>headers := (headers ?m1)(l \<mapsto> \<lparr>p_head = hd (xs @ [?q]), p_tail = last (?p # ys)\<rparr>), elements := ?h2\<rparr>"
  have 2: "(if ?q = 0 then set_header l (\<lambda>s. s\<lparr>p_tail := ?p\<rparr>) ?m1 else set_element ?q (\<lambda>x. x\<lparr>le_prev := ?p\<rparr>) ?m1)
      = Some (?m1\<lparr>headers := (headers ?m1)(l \<mapsto> \<lparr>p_head = hd (xs @ [?q]), p_tail = last (?p # ys)\<rparr>),
          elements := relink_prev (elements ?m1) ys ?p\<rparr>)"
    by (rule unlink_steps_prev [of ?m1 l _ a]) (use l ys1 nz in auto)
  obtain e2 where e2: "?h2 a = Some e2" using doms by (metis domD in_set_conv_decomp)
  have hd: "\<lparr>p_head = hd (xs @ [?q]), p_tail = last (?p # ys)\<rparr> = ?hd" by (cases xs; cases ys) auto
  have run: "unlink_found l a out m = Some ((if out then m else run_dealloc (dealloc_func e) (le_data e) m)
      \<lparr>headers := (headers m)(l \<mapsto> ?hd), elements := ?h2(a := None)\<rparr>)"
    unfolding unlink_found_def e(1) Option.bind.simps e(2,3) 1 2
    by (simp add: e2 hd set_element_def free_element_def run_dealloc_def del: append.simps last.simps)
  have "seg (?h2(a := None)) 0 (xs @ ys) 0" using seg2 d by (subst seg_other) auto
  moreover have "map (entry (?h2(a := None))) (xs @ ys) = map (entry ?h) (xs @ ys)"
    using entries_other [of a "xs @ ys" ?h2 None] d ent by simp
  moreover have "es = map (entry ?h) xs @ (le_data e, dealloc_func e) # map (entry ?h) ys"
    using l e(1) by (auto simp: entry_def)
  moreover have "dom (?h2(a := None)) = set (xs @ ys)" using doms d by auto
  ultimately show ?thesis using l run d by (auto simp: list_at_def run_dealloc_def nth_append)
qed

section \<open>The list as a sequence\<close>

text \<open>What the operations do to the sequence of entries, and which deallocations they make.\<close>

definition spec_search ::
    "(nat \<Rightarrow> bool) \<Rightarrow> bool \<Rightarrow> bool \<Rightarrow> (nat \<times> nat) list \<Rightarrow> nat option \<times> (nat \<times> nat) list \<times> (nat \<times> nat) list" where
  "spec_search found out rm es =
     (case find_index (\<lambda>e. found (fst e)) es of
        None \<Rightarrow> (None, es, [])
      | Some i \<Rightarrow> (Some (fst (es ! i)), if rm then take i es @ drop (Suc i) es else es,
          if rm \<and> \<not> out then deallocs [es ! i] else []))"

lemma search_at:
  assumes "list_at m l (xs @ ys) es" "\<forall>e \<in> set (take (length xs) es). \<not> found (fst e)"
  shows "\<exists>m' as'. search_loop l found out rm (hd (ys @ [0])) m = Some (fst (spec_search found out rm es), m')
    \<and> list_at m' l as' (fst (snd (spec_search found out rm es)))
    \<and> dealloced m' = dealloced m @ snd (snd (spec_search found out rm es))"
  using assms
proof (induction ys arbitrary: xs)
  case Nil
  then have "length es = length xs" by (auto simp: list_at_def)
  then have "find_index (\<lambda>e. found (fst e)) es = None"
    using Nil(2) by (auto simp: find_index_None)
  then have "spec_search found out rm es = (None, es, [])" by (simp add: spec_search_def)
  then show ?case using Nil(1) by (auto simp: search_loop.simps)
next
  case (Cons y ys)
  note l = Cons.prems(1) [unfolded list_at_def]
  obtain e where e: "elements m y = Some e" "le_next e = hd (ys @ [0])" "y \<noteq> 0"
    using l by (auto simp: seg_append split: option.splits)
  have y: "es ! length xs = (le_data e, dealloc_func e)" "length xs < length es"
    "take (Suc (length xs)) es = take (length xs) es @ [(le_data e, dealloc_func e)]"
    using l e(1) by (auto simp: entry_def nth_append)
  show ?case
  proof (cases "found (le_data e)")
    case True
    have "\<not> found (fst (es ! j))" if "j < length xs" for j
      using Cons.prems(2) nth_mem [of j "take (length xs) es"] that y(2) by simp
    then have "find_index (\<lambda>e. found (fst e)) es = Some (length xs)"
      using True y(1,2) by (simp add: find_index_Some)
    then have spec: "spec_search found out rm es = (Some (le_data e),
        if rm then take (length xs) es @ drop (Suc (length xs)) es else es,
        if rm \<and> \<not> out then deallocs [es ! length xs] else [])"
      using y(1) by (simp add: spec_search_def)
    show ?thesis
      using unlink_at [OF Cons.prems(1), of out] Cons.prems(1) True e spec
      by (cases rm) (auto simp: search_loop.simps [of _ _ _ _ y])
  next
    case False
    have "search_loop l found out rm y m = search_loop l found out rm (hd (ys @ [0])) m"
      using False e by (subst search_loop.simps) simp
    then show ?thesis using Cons.IH [of "xs @ [y]"] Cons.prems False y(3) by auto
  qed
qed

text \<open>
  Operations as data: \<open>exec_list\<close> runs the code, \<open>spec_list\<close> says what it means for the sequence and
  the record of deallocations. \<open>Add\<close> tells whether its allocation succeeds; \<open>addr\<close> is the allocator.
\<close>

datatype list_op =
    Add bool nat nat
  | Remove bool
  | IsEmpty
  | Flush
  | Search "(nat \<Rightarrow> nat \<Rightarrow> bool) option" nat bool bool

datatype list_result = Code linked_list_err_type "nat option" | Answer int

fun exec_list :: "(store \<Rightarrow> nat) \<Rightarrow> nat \<Rightarrow> list_op \<Rightarrow> store \<Rightarrow> (list_result \<times> store) option" where
  "exec_list addr l (Add ok d f) m = do {
     (rc, m1) \<leftarrow> linked_list_add (if ok then Some (addr m) else None) l d f m;
     Some (Code rc None, m1)
   }"
| "exec_list addr l (Remove given) m = do {
     (rc, d, m1) \<leftarrow> linked_list_remove l given m;
     Some (Code rc d, m1)
   }"
| "exec_list addr l IsEmpty m = do { b \<leftarrow> linked_list_empty l m; Some (Answer b, m) }"
| "exec_list addr l Flush m = do { (rc, m1) \<leftarrow> linked_list_flush l m; Some (Code rc None, m1) }"
| "exec_list addr l (Search equal d0 out rm) m = do {
     (rc, d, m1) \<leftarrow> linked_list_search l out equal d0 rm m;
     Some (Code rc d, m1)
   }"

fun spec_list :: "list_op \<Rightarrow> (nat \<times> nat) list \<times> (nat \<times> nat) list
    \<Rightarrow> list_result \<times> (nat \<times> nat) list \<times> (nat \<times> nat) list" where
  "spec_list (Add ok d f) (es, ds) =
     (if d = 0 then (Code eLINKED_LIST_INVALID_PARAMETER None, es, ds)
      else if \<not> ok then (Code eLINKED_LIST_FAILURE_GENERAL None, es, ds)
      else (Code eLINKED_LIST_SUCCESS None, (d, f) # es, ds))"
| "spec_list (Remove given) (es, ds) =
     (if \<not> given then (Code eLINKED_LIST_INVALID_PARAMETER None, es, ds)
      else if es = [] then (Code eLINKED_LIST_UNAVAILABLE_RESOURCE None, es, ds)
      else (Code eLINKED_LIST_SUCCESS (Some (fst (last es))), butlast es, ds))"
| "spec_list IsEmpty (es, ds) = (Answer (if es = [] then 1 else 0), es, ds)"
| "spec_list Flush (es, ds) = (Code eLINKED_LIST_SUCCESS None, [], ds @ deallocs es)"
| "spec_list (Search equal d0 out rm) (es, ds) =
     (case equal of None \<Rightarrow> (Code eLINKED_LIST_INVALID_HANDLE None, es, ds)
      | Some eq \<Rightarrow>
        if es = [] then (Code eLINKED_LIST_UNAVAILABLE_RESOURCE None, es, ds)
        else case spec_search (eq d0) out rm es of (d, es', ds') \<Rightarrow>
          (Code eLINKED_LIST_SUCCESS (if out then Some (case d of None \<Rightarrow> 0 | Some x \<Rightarrow> x) else None), es', ds @ ds'))"

text \<open>
  Refinement between a machine and its specification, operation by operation; any sequence of
  operations then gives the specified results.
\<close>

fun run_ops :: "('o \<Rightarrow> 'c \<Rightarrow> ('r \<times> 'c) option) \<Rightarrow> 'o list \<Rightarrow> 'c \<Rightarrow> ('r list \<times> 'c) option" where
  "run_ops exec [] c = Some ([], c)"
| "run_ops exec (op # ops) c = do {
     (r, c1) \<leftarrow> exec op c;
     (rs, c2) \<leftarrow> run_ops exec ops c1;
     Some (r # rs, c2)
   }"

fun spec_ops :: "('o \<Rightarrow> 'a \<Rightarrow> 'r \<times> 'a) \<Rightarrow> 'o list \<Rightarrow> 'a \<Rightarrow> 'r list \<times> 'a" where
  "spec_ops spec [] a = ([], a)"
| "spec_ops spec (op # ops) a =
     (case spec op a of (r, a1) \<Rightarrow> case spec_ops spec ops a1 of (rs, a2) \<Rightarrow> (r # rs, a2))"

locale machine_refinement =
  fixes rep :: "'c \<Rightarrow> 'a \<Rightarrow> bool" and exec :: "'o \<Rightarrow> 'c \<Rightarrow> ('r \<times> 'c) option" and spec :: "'o \<Rightarrow> 'a \<Rightarrow> 'r \<times> 'a"
  assumes step_law: "rep c a \<Longrightarrow> \<exists>c'. exec op c = Some (fst (spec op a), c') \<and> rep c' (snd (spec op a))"
begin

lemma run:
  "rep c a \<Longrightarrow> \<exists>c'. run_ops exec ops c = Some (fst (spec_ops spec ops a), c') \<and> rep c' (snd (spec_ops spec ops a))"
proof (induction ops arbitrary: c a)
  case (Cons op ops)
  obtain c1 where 1: "exec op c = Some (fst (spec op a), c1)" "rep c1 (snd (spec op a))"
    using step_law [OF Cons.prems] by blast
  show ?case using Cons.IH [OF 1(2)] 1(1) by (auto simp: case_prod_beta)
qed simp

end

text \<open>An allocator that never returns NULL or an address in use.\<close>

definition fresh :: "(store \<Rightarrow> nat) \<Rightarrow> bool" where
  "fresh addr \<longleftrightarrow> (\<forall>m. finite (dom (elements m)) \<longrightarrow> addr m \<noteq> 0 \<and> addr m \<notin> dom (elements m))"

definition store_rep ::
    "(store \<Rightarrow> nat) \<Rightarrow> nat \<Rightarrow> store \<Rightarrow> (nat \<times> nat) list \<times> (nat \<times> nat) list \<Rightarrow> bool" where
  "store_rep addr l m a \<longleftrightarrow> fresh addr \<and> list_rep m l (fst a) \<and> dealloced m = snd a"

lemma add_refused:
  "list_at m l as es \<Longrightarrow> d = 0 \<or> \<not> ok \<Longrightarrow> exec_list addr l (Add ok d f) m = Some (fst (spec_list (Add ok d f) (es, ds)), m)"
  by (auto simp: linked_list_add_def list_at_def)

lemma exec_add:
  assumes "fresh addr" "list_at m l as es" "d \<noteq> 0"
  shows "\<exists>m' as'. exec_list addr l (Add True d f) m = Some (Code eLINKED_LIST_SUCCESS None, m')
    \<and> list_at m' l as' ((d, f) # es) \<and> dealloced m' = dealloced m"
proof -
  have "addr m \<noteq> 0" "addr m \<notin> set as"
    using assms(1,2) unfolding fresh_def list_at_def by (metis List.finite_set)+
  then show ?thesis using add_at [OF assms(2) _ _ assms(3), of "addr m" f] by auto
qed

lemma exec_remove:
  assumes "list_at m l as es" "es \<noteq> []"
  shows "\<exists>m' as'. exec_list addr l (Remove True) m = Some (Code eLINKED_LIST_SUCCESS (Some (fst (last es))), m')
    \<and> list_at m' l as' (butlast es) \<and> dealloced m' = dealloced m"
proof -
  obtain bs b where "as = bs @ [b]" using assms by (cases as rule: rev_cases) (auto simp: list_at_def)
  then show ?thesis using remove_at [of m l bs b es] assms(1) by auto
qed

lemma exec_search:
  assumes "list_at m l as es" "es \<noteq> []" "dealloced m = ds"
  shows "\<exists>m' as'. exec_list addr l (Search (Some eq) d0 out rm) m
      = Some (fst (spec_list (Search (Some eq) d0 out rm) (es, ds)), m')
    \<and> list_at m' l as' (fst (snd (spec_list (Search (Some eq) d0 out rm) (es, ds))))
    \<and> dealloced m' = snd (snd (spec_list (Search (Some eq) d0 out rm) (es, ds)))"
proof -
  note at = assms(1) [unfolded list_at_def]
  have "as \<noteq> []" using at assms(2) by (intro notI) simp
  moreover have "0 \<notin> set as" using at seg_nonzero [of "elements m" 0 as 0] by blast
  ultimately have nz: "last as \<noteq> 0" by (metis last_in_set)
  have l: "l \<noteq> 0" "headers m l = Some \<lparr>p_head = hd (as @ [0]), p_tail = last as\<rparr>"
    using at \<open>as \<noteq> []\<close> by simp_all
  obtain d es' ds' where S: "spec_search (eq d0) out rm es = (d, es', ds')"
    by (cases "spec_search (eq d0) out rm es")
  obtain m' as' where "search_loop l (eq d0) out rm (hd (as @ [0])) m = Some (d, m')" "list_at m' l as' es'"
      "dealloced m' = dealloced m @ ds'"
    using search_at [of m l "[]" as es "eq d0" out rm] assms(1) S by auto
  then show ?thesis
    using S l nz assms(2,3) by (intro exI [of _ m'] exI [of _ as']) (simp add: linked_list_search_def)
qed

lemma list_step:
  assumes "store_rep addr l m a"
  shows "\<exists>m'. exec_list addr l op m = Some (fst (spec_list op a), m') \<and> store_rep addr l m' (snd (spec_list op a))"
proof -
  obtain es ds as where a: "a = (es, ds)" and at: "list_at m l as es" "dealloced m = ds" and fr: "fresh addr"
    using assms by (cases a) (auto simp: store_rep_def list_rep_def)
  have e: "es = [] \<longleftrightarrow> as = []" "l \<noteq> 0" using at by (auto simp: list_at_def)
  show ?thesis
  proof (cases op)
    case (Add ok d f)
    then show ?thesis
      using add_refused [OF at(1), of d ok addr f ds] exec_add [OF fr at(1), of d f] at a fr
      by (cases "d = 0 \<or> \<not> ok") (auto simp: store_rep_def list_rep_def simp del: exec_list.simps)
  next
    case (Remove given)
    show ?thesis
    proof (cases "given \<and> es \<noteq> []")
      case True
      then show ?thesis
        using exec_remove [OF at(1), of addr] Remove at a fr
        by (auto simp: store_rep_def list_rep_def simp del: exec_list.simps)
    next
      case False
      then show ?thesis using Remove at a e fr
        by (auto simp: linked_list_remove_def store_rep_def list_rep_def list_at_def)
    qed
  next
    case IsEmpty
    have "hd (as @ [0]) = 0 \<longleftrightarrow> as = []" using at seg_nonzero [of "elements m" 0 as 0] by (cases as) (auto simp: list_at_def)
    then show ?thesis using IsEmpty at a e fr
      by (auto simp: linked_list_empty_def store_rep_def list_rep_def list_at_def)
  next
    case Flush
    then show ?thesis using flush_at [OF at(1)] at a fr by (auto simp: store_rep_def list_rep_def)
  next
    case (Search equal d0 out rm)
    consider "equal = None" | "equal \<noteq> None" "es = []" | eq where "equal = Some eq" "es \<noteq> []" by auto
    then show ?thesis
    proof cases
      case 3
      then show ?thesis
        using exec_search [OF at(1) 3(2) at(2), of addr eq d0 out rm] Search a fr
        by (auto simp: store_rep_def list_rep_def simp del: exec_list.simps spec_list.simps)
    qed (use Search at a e fr in \<open>auto simp: linked_list_search_def store_rep_def list_rep_def list_at_def\<close>)
  qed
qed

interpretation linked_list: machine_refinement "store_rep addr l" "exec_list addr l" spec_list for addr l
  by unfold_locales (rule list_step)

text \<open>
  C17: the linked list is a sequence. Starting from a new list, any sequence of operations (add at
  the head, remove at the tail, search with or without removal, flush, failed allocations and
  invalid arguments included) returns exactly what the sequence of entries prescribes and makes
  exactly the prescribed deallocations; no operation touches memory that is not an element of the
  list, and destroying the list at the end frees every element and the header.
\<close>

theorem linked_list_is_sequence:
  assumes "fresh addr" and "elements m0 = Map.empty" and "l \<noteq> 0"
    and "linked_list_init (Some l) (Some p) m0 = (rc, q, m)"
    and "spec_ops spec_list ops ([], dealloced m0) = (rs, es, ds)"
  shows "q = Some l \<and> (\<exists>m' m''. run_ops (exec_list addr l) ops m = Some (rs, m') \<and> list_rep m' l es
    \<and> dealloced m' = ds
    \<and> linked_list_destroy (Some l) m' = Some (eLINKED_LIST_SUCCESS, Some 0, m'')
    \<and> elements m'' = Map.empty \<and> headers m'' l = None \<and> dealloced m'' = ds @ deallocs es)"
proof -
  have q: "q = Some l" and m: "m = m0\<lparr>headers := (headers m0)(l \<mapsto> \<lparr>p_head = 0, p_tail = 0\<rparr>)\<rparr>"
    using assms(4) by (auto simp: linked_list_init_def)
  have "list_at m l [] []" using assms(2,3) m by (simp add: list_at_def)
  then have "store_rep addr l m ([], dealloced m0)"
    using assms(1) m by (auto simp: store_rep_def list_rep_def)
  from linked_list.run [OF this, of ops] obtain m' where m': "run_ops (exec_list addr l) ops m = Some (rs, m')"
    "list_rep m' l es" "dealloced m' = ds"
    using assms(5) by (auto simp: store_rep_def)
  obtain m2 where m2: "linked_list_flush l m' = Some (eLINKED_LIST_SUCCESS, m2)" "list_at m2 l [] []"
    "dealloced m2 = ds @ deallocs es"
    using m'(2,3) flush_at unfolding list_rep_def by blast
  then have "linked_list_destroy (Some l) m' = Some (eLINKED_LIST_SUCCESS, Some 0, m2\<lparr>headers := (headers m2)(l := None)\<rparr>)"
    using assms(3) by (simp add: linked_list_destroy_def list_at_def)
  then show ?thesis using q m' m2(2,3) by (auto simp: list_at_def)
qed

definition empty_store :: store where
  "empty_store = \<lparr>elements = Map.empty, headers = Map.empty, dealloced = []\<rparr>"

definition above_all :: "store \<Rightarrow> nat" where
  "above_all m = Suc (Max (insert 0 (dom (elements m))))"

lemma fresh_above_all: "fresh above_all"
  unfolding fresh_def above_all_def
  using Max_ge [of "insert 0 (dom (elements m))" for m] by (metis Suc_n_not_le_n finite_insert insertI2 nat.distinct(1))

theorem linked_list_is_sequence_witness:
  "\<exists>m m'. linked_list_init (Some 9) (Some 0) empty_store = (eLINKED_LIST_SUCCESS, Some 9, m)
    \<and> run_ops (exec_list above_all 9)
        [Add True 5 70, Add True 6 0, Search (Some (\<lambda>x y. x = y)) 7 True True, Remove True] m = Some ([Code eLINKED_LIST_SUCCESS None, Code eLINKED_LIST_SUCCESS None,
        Code eLINKED_LIST_SUCCESS (Some 0), Code eLINKED_LIST_SUCCESS (Some 5)], m')"
proof -
  let ?ops = "[Add True 5 70, Add True 6 0, Search (Some (\<lambda>x y. x = y)) 7 True True, Remove True]"
  obtain m where m: "linked_list_init (Some 9) (Some 0) empty_store = (eLINKED_LIST_SUCCESS, Some 9, m)"
    by (simp add: linked_list_init_def)
  have e: "elements empty_store = Map.empty" "(9 :: nat) \<noteq> 0" by (simp_all add: empty_store_def)
  have "spec_ops spec_list ?ops ([], dealloced empty_store)
      = ([Code eLINKED_LIST_SUCCESS None, Code eLINKED_LIST_SUCCESS None,
        Code eLINKED_LIST_SUCCESS (Some 0), Code eLINKED_LIST_SUCCESS (Some 5)], [(6, 0)], [])"
    by (simp add: spec_search_def empty_store_def)
  from linked_list_is_sequence [OF fresh_above_all e m this] m show ?thesis by blast
qed

end
