(* ===== verification/MsgQ.thy ===== *)
theory MsgQ
  imports LinkedList
begin

text \<open>
  The message queue of gps/utils/msg_q.c over the linked list. A queue is its list, the flag
  \<open>unblocked\<close>, the threads that sleep on its condition variable and the store its list lives in; a null
  handle is None. What a call does between taking the mutex and giving it back, by its end or by a wait
  on the condition variable, is one function; the step relation \<open>q_step\<close> interleaves them.
\<close>

section \<open>Data\<close>

datatype msq_q_err_type =
    eMSG_Q_SUCCESS
  | eMSG_Q_FAILURE_GENERAL
  | eMSG_Q_INVALID_PARAMETER
  | eMSG_Q_INVALID_HANDLE
  | eMSG_Q_UNAVAILABLE_RESOURCE
  | eMSG_Q_INSUFFICIENT_BUFFER

fun convert_linked_list_err_type :: "linked_list_err_type \<Rightarrow> msq_q_err_type" where
  "convert_linked_list_err_type eLINKED_LIST_SUCCESS = eMSG_Q_SUCCESS"
| "convert_linked_list_err_type eLINKED_LIST_INVALID_PARAMETER = eMSG_Q_INVALID_PARAMETER"
| "convert_linked_list_err_type eLINKED_LIST_INVALID_HANDLE = eMSG_Q_INVALID_HANDLE"
| "convert_linked_list_err_type eLINKED_LIST_UNAVAILABLE_RESOURCE = eMSG_Q_UNAVAILABLE_RESOURCE"
| "convert_linked_list_err_type eLINKED_LIST_INSUFFICIENT_BUFFER = eMSG_Q_INSUFFICIENT_BUFFER"
| "convert_linked_list_err_type eLINKED_LIST_FAILURE_GENERAL = eMSG_Q_FAILURE_GENERAL"

text \<open>\<open>list_cond\<close> holds the threads that sleep in \<open>pthread_cond_wait\<close>.\<close>

record msg_q =
  msg_list :: nat
  unblocked :: int
  list_cond :: "nat list"
  q_store :: store

section \<open>Operations\<close>

text \<open>What the allocations and the pthread calls of an initialisation return.\<close>

record q_env =
  q_alloc :: bool
  list_alloc :: "nat option"
  mutex_rc :: int
  cond_rc :: int

text \<open>\<open>given\<close>: the handle pointer is not null. The new queue, if any, and the store.\<close>

definition msg_q_init ::
    "q_env \<Rightarrow> bool \<Rightarrow> store \<Rightarrow> (msq_q_err_type \<times> msg_q option \<times> store) option" where
  "msg_q_init env given m =
     (if \<not> given then Some (eMSG_Q_INVALID_PARAMETER, None, m)
      else if \<not> q_alloc env then Some (eMSG_Q_FAILURE_GENERAL, None, m)
      else case linked_list_init (list_alloc env) (Some 0) m of (rc, q, m1) \<Rightarrow>
        if err_value rc \<noteq> 0 then Some (eMSG_Q_FAILURE_GENERAL, None, m1)
        else if mutex_rc env \<noteq> 0 \<or> cond_rc env \<noteq> 0 then do {
          (_, _, m2) \<leftarrow> linked_list_destroy q m1;
          Some (eMSG_Q_FAILURE_GENERAL, None, m2)
        }
        else Some (eMSG_Q_SUCCESS, map_option (\<lambda>l. \<lparr>msg_list = l, unblocked = 0, list_cond = [], q_store = m1\<rparr>) q, m1))"

definition msg_q_destroy :: "msg_q option \<Rightarrow> (msq_q_err_type \<times> store option) option" where
  "msg_q_destroy handle =
     (case handle of None \<Rightarrow> Some (eMSG_Q_INVALID_HANDLE, None)
      | Some q \<Rightarrow> do {
          (_, _, m) \<leftarrow> linked_list_destroy (Some (msg_list q)) (q_store q);
          Some (eMSG_Q_SUCCESS, Some m)
        })"

text \<open>A signal wakes one of the threads that sleep, the scheduler's choice; a broadcast wakes all.\<close>

definition pthread_cond_wait :: "nat \<Rightarrow> msg_q \<Rightarrow> msg_q" where
  "pthread_cond_wait r q = q\<lparr>list_cond := list_cond q @ [r]\<rparr>"

definition pthread_cond_signal :: "nat \<Rightarrow> msg_q \<Rightarrow> msg_q" where
  "pthread_cond_signal i q =
     (let w = list_cond q; j = min i (length w - 1) in q\<lparr>list_cond := take j w @ drop (Suc j) w\<rparr>)"

definition pthread_cond_broadcast :: "msg_q \<Rightarrow> msg_q" where
  "pthread_cond_broadcast q = q\<lparr>list_cond := []\<rparr>"

definition msg_q_snd ::
    "nat option \<Rightarrow> nat \<Rightarrow> msg_q option \<Rightarrow> nat \<Rightarrow> nat \<Rightarrow> (msq_q_err_type \<times> msg_q option) option" where
  "msg_q_snd new i handle msg_obj dealloc =
     (case handle of None \<Rightarrow> Some (eMSG_Q_INVALID_HANDLE, None)
      | Some q \<Rightarrow>
        if msg_obj = 0 then Some (eMSG_Q_INVALID_PARAMETER, Some q)
        else if unblocked q \<noteq> 0 then Some (eMSG_Q_UNAVAILABLE_RESOURCE, Some q)
        else do {
          (rv, m) \<leftarrow> linked_list_add new (msg_list q) msg_obj dealloc (q_store q);
          Some (convert_linked_list_err_type rv, Some (pthread_cond_signal i (q\<lparr>q_store := m\<rparr>)))
        })"

text \<open>The part of a receive behind its loop.\<close>

definition rcv_take :: "msg_q \<Rightarrow> (msq_q_err_type \<times> nat option \<times> msg_q) option" where
  "rcv_take q = do {
     (rv, d, m) \<leftarrow> linked_list_remove (msg_list q) True (q_store q);
     Some (convert_linked_list_err_type rv, d, q\<lparr>q_store := m\<rparr>)
   }"

text \<open>A receive by thread \<open>r\<close> gives the mutex back when it returns or waits.\<close>

datatype rcv_outcome = Returned msq_q_err_type "nat option" | Waits

text \<open>The test of the loop, with the mutex held: on the first arrival and after every wake-up.\<close>

definition rcv_loop :: "nat \<Rightarrow> msg_q \<Rightarrow> (rcv_outcome \<times> msg_q) option" where
  "rcv_loop r q = do {
     b \<leftarrow> linked_list_empty (msg_list q) (q_store q);
     if b \<noteq> 0 \<and> unblocked q = 0 then Some (Waits, pthread_cond_wait r q)
     else do {
       (rv, d, q1) \<leftarrow> rcv_take q;
       Some (Returned rv d, q1)
     }
   }"

definition msg_q_rcv ::
    "nat \<Rightarrow> msg_q option \<Rightarrow> bool \<Rightarrow> (rcv_outcome \<times> msg_q option) option" where
  "msg_q_rcv r handle msg_obj =
     (case handle of None \<Rightarrow> Some (Returned eMSG_Q_INVALID_HANDLE None, None)
      | Some q \<Rightarrow>
        if \<not> msg_obj then Some (Returned eMSG_Q_INVALID_PARAMETER None, Some q)
        else if unblocked q \<noteq> 0 then Some (Returned eMSG_Q_UNAVAILABLE_RESOURCE None, Some q)
        else do {
          (out, q1) \<leftarrow> rcv_loop r q;
          Some (out, Some q1)
        })"

definition msg_q_flush :: "msg_q option \<Rightarrow> (msq_q_err_type \<times> msg_q option) option" where
  "msg_q_flush handle =
     (case handle of None \<Rightarrow> Some (eMSG_Q_INVALID_HANDLE, None)
      | Some q \<Rightarrow> do {
          (rv, m) \<leftarrow> linked_list_flush (msg_list q) (q_store q);
          Some (convert_linked_list_err_type rv, Some (q\<lparr>q_store := m\<rparr>))
        })"

definition msg_q_unblock :: "msg_q option \<Rightarrow> msq_q_err_type \<times> msg_q option" where
  "msg_q_unblock handle =
     (case handle of None \<Rightarrow> (eMSG_Q_INVALID_HANDLE, None)
      | Some q \<Rightarrow>
        if unblocked q \<noteq> 0 then (eMSG_Q_UNAVAILABLE_RESOURCE, Some q)
        else (eMSG_Q_SUCCESS, Some (pthread_cond_broadcast (q\<lparr>unblocked := 1\<rparr>))))"

section \<open>What the operations do to the messages\<close>

text \<open>The queue holds the messages \<open>ms\<close>, oldest first, each with its deallocation function.\<close>

definition holds :: "msg_q \<Rightarrow> (nat \<times> nat) list \<Rightarrow> bool" where
  "holds q ms \<longleftrightarrow> list_rep (q_store q) (msg_list q) (rev ms)"

lemma empty_holds:
  "holds q ms \<Longrightarrow> linked_list_empty (msg_list q) (q_store q) = Some (if ms = [] then 1 else 0)"
  using list_step [of above_all "msg_list q" "q_store q" "(rev ms, dealloced (q_store q))" IsEmpty]
    fresh_above_all
  by (auto simp: holds_def store_rep_def split: bind_splits)

lemma cond_signal_simps [simp]:
  "q_store (pthread_cond_signal i q) = q_store q" "msg_list (pthread_cond_signal i q) = msg_list q"
  "unblocked (pthread_cond_signal i q) = unblocked q"
  "list_cond (pthread_cond_wait r q) = list_cond q @ [r]" "list_cond (pthread_cond_broadcast q) = []"
  "holds (pthread_cond_signal i q) ms = holds q ms" "holds (pthread_cond_wait r q) ms = holds q ms"
  "holds (pthread_cond_broadcast q) ms = holds q ms" "holds (q\<lparr>list_cond := w\<rparr>) ms = holds q ms"
  "holds (q\<lparr>unblocked := b\<rparr>) ms = holds q ms"
  by (simp_all add: pthread_cond_signal_def pthread_cond_wait_def pthread_cond_broadcast_def holds_def Let_def)

lemma snd_holds:
  assumes "holds q ms" "fresh addr" "d \<noteq> 0" "unblocked q = 0"
  shows "\<exists>q'. msg_q_snd (if ok then Some (addr (q_store q)) else None) i (Some q) d f
      = Some (if ok then eMSG_Q_SUCCESS else eMSG_Q_FAILURE_GENERAL, Some (pthread_cond_signal i q'))
    \<and> holds q' (if ok then ms @ [(d, f)] else ms) \<and> q' = q\<lparr>q_store := q_store q'\<rparr>"
  using list_step [of addr "msg_list q" "q_store q" "(rev ms, dealloced (q_store q))" "Add ok d f"] assms
  by (cases ok) (auto simp: holds_def store_rep_def msg_q_snd_def split: bind_splits)

lemma take_holds:
  assumes "holds q ms"
  shows "\<exists>q'. rcv_take q = (if ms = [] then Some (eMSG_Q_UNAVAILABLE_RESOURCE, None, q')
      else Some (eMSG_Q_SUCCESS, Some (fst (hd ms)), q'))
    \<and> holds q' (tl ms) \<and> q' = q\<lparr>q_store := q_store q'\<rparr>"
  using list_step [of above_all "msg_list q" "q_store q" "(rev ms, dealloced (q_store q))" "Remove True"]
    assms fresh_above_all
  by (cases ms) (auto simp: holds_def store_rep_def rcv_take_def split: bind_splits)

lemma flush_holds:
  assumes "holds q ms"
  shows "\<exists>q'. msg_q_flush (Some q) = Some (eMSG_Q_SUCCESS, Some q') \<and> holds q' []
    \<and> q' = q\<lparr>q_store := q_store q'\<rparr> \<and> dealloced (q_store q') = dealloced (q_store q) @ deallocs (rev ms)"
  using list_step [of above_all "msg_list q" "q_store q" "(rev ms, dealloced (q_store q))" Flush]
    assms fresh_above_all
  by (auto simp: holds_def store_rep_def msg_q_flush_def split: bind_splits)

text \<open>One turn of a receiver: it sleeps if there is nothing, and else returns the oldest message.\<close>

lemma loop_holds:
  assumes "holds q ms"
  shows "if ms = [] \<and> unblocked q = 0 then rcv_loop r q = Some (Waits, pthread_cond_wait r q)
    else \<exists>q'. rcv_loop r q = Some (if ms = [] then Returned eMSG_Q_UNAVAILABLE_RESOURCE None
        else Returned eMSG_Q_SUCCESS (Some (fst (hd ms))), q')
      \<and> holds q' (tl ms) \<and> q' = q\<lparr>q_store := q_store q'\<rparr>"
  using empty_holds [OF assms] take_holds [OF assms] by (auto simp: rcv_loop_def)

definition new_queue :: msg_q where
  "new_queue = \<lparr>msg_list = 9, unblocked = 0, list_cond = [],
     q_store = snd (snd (linked_list_init (Some 9) (Some 0) empty_store))\<rparr>"

lemma new_queue_holds: "holds new_queue []"
  by (auto simp: holds_def new_queue_def linked_list_init_def list_rep_def list_at_def empty_store_def)

section \<open>Any number of threads\<close>

text \<open>
  \<open>receivers\<close> are the threads inside \<open>msg_q_rcv\<close> that have given the mutex back, asleep or woken. \<open>accepted\<close>
  records the messages whose send succeeded, \<open>delivered\<close> the messages that left and whether a flush took
  them.
\<close>

record q_system =
  queue :: msg_q
  receivers :: "nat list"
  accepted :: "nat list"
  delivered :: "(nat \<times> bool) list"

definition awake :: "q_system \<Rightarrow> nat list" where
  "awake s = filter (\<lambda>r. r \<notin> set (list_cond (queue s))) (receivers s)"

definition settled :: "nat \<Rightarrow> rcv_outcome \<Rightarrow> msg_q \<Rightarrow> q_system \<Rightarrow> q_system" where
  "settled r out q s =
     (case out of Waits \<Rightarrow> s\<lparr>queue := q\<rparr>
      | Returned rc d \<Rightarrow> s\<lparr>queue := q, receivers := remove1 r (receivers s),
          delivered := delivered s @ (case d of None \<Rightarrow> [] | Some x \<Rightarrow> [(x, False)])\<rparr>)"

text \<open>A receiver that was woken gets the mutex and runs.\<close>

definition rcv_turn :: "nat \<Rightarrow> q_system \<Rightarrow> q_system option" where
  "rcv_turn r s = do { (out, q) \<leftarrow> rcv_loop r (queue s); Some (settled r out q s) }"

fun rcv_turns :: "nat list \<Rightarrow> q_system \<Rightarrow> q_system option" where
  "rcv_turns [] s = Some s"
| "rcv_turns (r # rs) s = do { t \<leftarrow> rcv_turn r s; rcv_turns rs t }"

text \<open>A step is what one thread does while it holds the mutex, or a spurious wake-up.\<close>

inductive q_step :: "(store \<Rightarrow> nat) \<Rightarrow> q_system \<Rightarrow> q_system \<Rightarrow> bool" for addr where
  send: "msg_q_snd (if ok then Some (addr (q_store (queue s))) else None) i (Some (queue s)) d f = Some (rc, Some q')
    \<Longrightarrow> q_step addr s (s\<lparr>queue := q', accepted := accepted s @ (if rc = eMSG_Q_SUCCESS then [d] else [])\<rparr>)"
| receive: "r \<notin> set (receivers s) \<Longrightarrow> msg_q_rcv r (Some (queue s)) True = Some (out, Some q')
    \<Longrightarrow> q_step addr s (settled r out q' (s\<lparr>receivers := r # receivers s\<rparr>))"
| resume: "r \<in> set (awake s) \<Longrightarrow> rcv_turn r s = Some t \<Longrightarrow> q_step addr s t"
| spurious: "q_step addr s (s\<lparr>queue := (queue s)\<lparr>list_cond := remove1 r (list_cond (queue s))\<rparr>\<rparr>)"
| flush: "msg_q_flush (Some (queue s)) = Some (rc, Some q') \<Longrightarrow> holds (queue s) ms
    \<Longrightarrow> q_step addr s (s\<lparr>queue := q', delivered := delivered s @ map (\<lambda>m. (fst m, True)) ms\<rparr>)"
| unblock: "msg_q_unblock (Some (queue s)) = (rc, Some q') \<Longrightarrow> q_step addr s (s\<lparr>queue := q'\<rparr>)"

inductive_cases q_stepE: "q_step addr s t"

definition fifo :: "q_system \<Rightarrow> (nat \<times> nat) list \<Rightarrow> bool" where
  "fifo s ms \<longleftrightarrow> holds (queue s) ms \<and> accepted s = map fst (delivered s) @ map fst ms"

text \<open>While threads sleep, there is a woken receiver for every message; nobody sleeps on an unblocked queue.\<close>

definition woken :: "q_system \<Rightarrow> (nat \<times> nat) list \<Rightarrow> bool" where
  "woken s ms \<longleftrightarrow> distinct (receivers s) \<and> distinct (list_cond (queue s)) \<and> set (list_cond (queue s)) \<subseteq> set (receivers s)
     \<and> (list_cond (queue s) \<noteq> [] \<longrightarrow> unblocked (queue s) = 0
        \<and> length ms + length (list_cond (queue s)) \<le> length (receivers s))"

lemma woken_awake:
  assumes "woken s ms"
  shows "length (awake s) + length (list_cond (queue s)) = length (receivers s)"
proof -
  have "length (awake s) = card (set (receivers s) - set (list_cond (queue s)))"
    using assms by (simp add: woken_def awake_def distinct_card [symmetric] set_diff_eq)
  then show ?thesis
    using assms by (simp add: woken_def card_Diff_subset distinct_card card_mono)
      (metis List.finite_set card_mono distinct_card le_add_diff_inverse2)
qed

lemma woken_signal:
  assumes "woken s ms" "length ns \<le> Suc (length ms)" "queue t = pthread_cond_signal i q" "list_cond q = list_cond (queue s)"
    "unblocked q = unblocked (queue s)" "receivers t = receivers s"
  shows "woken t ns"
proof (cases "list_cond (queue s) = []")
  case True
  then show ?thesis using assms by (auto simp: woken_def pthread_cond_signal_def Let_def)
next
  case False
  let ?w = "list_cond (queue s)"
  define j where "j = min i (length ?w - 1)"
  have j: "j < length ?w" unfolding j_def using False by (cases ?w) simp_all
  have w: "list_cond (queue t) = take j ?w @ drop (Suc j) ?w"
    using assms(3,4) by (simp add: pthread_cond_signal_def Let_def j_def)
  have d: "distinct (take j ?w @ drop (Suc j) ?w)" "set (take j ?w @ drop (Suc j) ?w) \<subseteq> set ?w"
    using assms(1) j by (auto simp: woken_def set_take_disj_set_drop_if_distinct dest: in_set_takeD in_set_dropD)
  have "length (list_cond (queue t)) = length ?w - 1" unfolding w using j by simp
  then show ?thesis
    using assms d w False by (auto simp: woken_def)
qed

lemma holds_unique:
  assumes "holds q ms" "holds q ns"
  shows "ms = ns"
proof -
  obtain as bs where a: "list_at (q_store q) (msg_list q) as (rev ms)" "list_at (q_store q) (msg_list q) bs (rev ns)"
    using assms by (auto simp: holds_def list_rep_def)
  then have "as = bs" by (auto simp: list_at_def intro: seg_unique)
  then show ?thesis using a by (auto simp: list_at_def)
qed

lemma woken_enter:
  "woken s ms \<Longrightarrow> r \<notin> set (receivers s) \<Longrightarrow> woken (s\<lparr>receivers := r # receivers s\<rparr>) ms
    \<and> r \<in> set (awake (s\<lparr>receivers := r # receivers s\<rparr>))"
  by (auto simp: woken_def awake_def)

lemma filter_remove1: "distinct xs \<Longrightarrow> filter P (remove1 x xs) = remove1 x (filter P xs)"
  by (induction xs) (auto simp: remove1_idem)

lemma turn_fifo:
  assumes "fifo s ms" "rcv_turn r s = Some t"
  shows "fifo t (tl ms)"
proof -
  have h: "holds (queue s) ms" "accepted s = map fst (delivered s) @ map fst ms" using assms(1) by (simp_all add: fifo_def)
  show ?thesis using loop_holds [OF h(1), of r] h assms(2)
    by (cases ms) (auto simp: rcv_turn_def settled_def fifo_def split: if_splits)
qed

lemma turn_keeps:
  assumes "fifo s ms" "woken s ms" "r \<in> set (awake s)"
  shows "\<exists>t. rcv_turn r s = Some t \<and> fifo t (tl ms) \<and> woken t (tl ms) \<and> awake t = remove1 r (awake s)
    \<and> accepted t = accepted s \<and> unblocked (queue t) = unblocked (queue s)
    \<and> delivered t = delivered s @ map (\<lambda>m. (fst m, False)) (take 1 ms)"
proof -
  have r: "r \<in> set (receivers s)" "r \<notin> set (list_cond (queue s))" using assms(3) by (simp_all add: awake_def)
  have d: "distinct (receivers s)" using assms(2) by (simp add: woken_def)
  have a: "length (awake s) + length (list_cond (queue s)) = length (receivers s)" using woken_awake [OF assms(2)] .
  have pos: "0 < length (awake s)" using assms(3) by (cases "awake s") auto
  then have room: "Suc (length (list_cond (queue s))) \<le> length (receivers s)" using a by linarith
  have h: "holds (queue s) ms" using assms(1) by (simp add: fifo_def)
  show ?thesis
  proof (cases "ms = [] \<and> unblocked (queue s) = 0")
    case True
    let ?t = "s\<lparr>queue := pthread_cond_wait r (queue s)\<rparr>"
    have "rcv_turn r s = Some ?t" using loop_holds [OF h, of r] True by (simp add: rcv_turn_def settled_def)
    moreover have "woken ?t []" using assms(2) r True room
      by (auto simp: woken_def pthread_cond_wait_def)
    moreover have "awake ?t = remove1 r (awake s)"
      using d by (simp add: awake_def distinct_remove1_removeAll removeAll_filter_not_eq) (metis (no_types, lifting))
    ultimately show ?thesis using assms(1) True by (simp add: fifo_def pthread_cond_wait_def)
  next
    case False
    then obtain q' where q': "rcv_loop r (queue s) = Some (if ms = [] then Returned eMSG_Q_UNAVAILABLE_RESOURCE None
        else Returned eMSG_Q_SUCCESS (Some (fst (hd ms))), q')" "holds q' (tl ms)" "q' = (queue s)\<lparr>q_store := q_store q'\<rparr>"
      using loop_holds [OF h, of r] by auto
    let ?t = "s\<lparr>queue := q', receivers := remove1 r (receivers s), delivered := delivered s @ map (\<lambda>m. (fst m, False)) (take 1 ms)\<rparr>"
    have same: "list_cond q' = list_cond (queue s)" "unblocked q' = unblocked (queue s)" by (subst q'(3), simp)+
    have "rcv_turn r s = Some ?t" using q'(1) by (cases ms) (simp_all add: rcv_turn_def settled_def)
    moreover have "woken ?t (tl ms)" using assms(2) r False d same
      by (cases ms) (auto simp: woken_def length_remove1)
    moreover have "awake ?t = remove1 r (awake s)" using d same by (simp add: awake_def filter_remove1)
    moreover have "accepted s = map fst (delivered ?t) @ map fst (tl ms)" using assms(1) by (cases ms) (simp_all add: fifo_def)
    ultimately show ?thesis using q'(2) same by (simp add: fifo_def)
  qed
qed

lemma q_step_keeps:
  assumes "fresh addr" "q_step addr s t" "fifo s ms"
  shows "\<exists>ns. fifo t ns \<and> (woken s ms \<longrightarrow> woken t ns)"
proof -
  have h: "holds (queue s) ms" "accepted s = map fst (delivered s) @ map fst ms" using assms(3) by (simp_all add: fifo_def)
  show ?thesis
    using assms(2)
  proof cases
    case (send ok i d f rc q')
    show ?thesis
    proof (cases "d = 0 \<or> unblocked (queue s) \<noteq> 0")
      case True
      then have "rc \<noteq> eMSG_Q_SUCCESS \<and> q' = queue s" using send(2) by (auto simp: msg_q_snd_def split: if_splits)
      then show ?thesis using send(1) assms(3) by auto
    next
      case False
      then obtain q where q: "msg_q_snd (if ok then Some (addr (q_store (queue s))) else None) i (Some (queue s)) d f
          = Some (if ok then eMSG_Q_SUCCESS else eMSG_Q_FAILURE_GENERAL, Some (pthread_cond_signal i q))"
        "holds q (if ok then ms @ [(d, f)] else ms)" "q = (queue s)\<lparr>q_store := q_store q\<rparr>"
        using snd_holds [OF h(1) assms(1), of d ok i f] by auto
      have same: "list_cond q = list_cond (queue s)" "unblocked q = unblocked (queue s)" by (subst q(3), simp)+
      have t: "rc = (if ok then eMSG_Q_SUCCESS else eMSG_Q_FAILURE_GENERAL)" "q' = pthread_cond_signal i q"
        using q(1) send(2) by simp_all
      have "woken s ms \<longrightarrow> woken t (if ok then ms @ [(d, f)] else ms)"
        using woken_signal [of s ms _ t i q] send(1) t same by (cases ok) simp_all
      moreover have "fifo t (if ok then ms @ [(d, f)] else ms)" using send(1) t q(2) h by (cases ok) (simp_all add: fifo_def)
      ultimately show ?thesis by blast
    qed
  next
    case (receive r out q')
    let ?s = "s\<lparr>receivers := r # receivers s\<rparr>"
    have s: "fifo ?s ms" "woken s ms \<longrightarrow> woken ?s ms \<and> r \<in> set (awake ?s)"
      using woken_enter [OF _ receive(2)] assms(3) by (simp_all add: fifo_def)
    show ?thesis
    proof (cases "unblocked (queue s) = 0")
      case True
      then have "rcv_turn r ?s = Some t" using receive(1,3) by (auto simp: msg_q_rcv_def rcv_turn_def bind_eq_Some_conv)
      then show ?thesis using turn_fifo [OF s(1)] turn_keeps [OF s(1)] s(2) by fastforce
    next
      case False
      then have "t = s" using receive(1,3) by (auto simp: msg_q_rcv_def settled_def)
      then show ?thesis using assms(3) by blast
    qed
  next
    case (resume r)
    then show ?thesis using turn_fifo [OF assms(3)] turn_keeps [OF assms(3) _ resume(1)] by fastforce
  next
    case (spurious r)
    have "fifo t ms" using spurious assms(3) by (simp add: fifo_def)
    moreover have "woken s ms \<longrightarrow> woken t ms" using spurious
      by (auto simp: woken_def length_remove1 dest: set_mp [OF set_remove1_subset])
    ultimately show ?thesis by blast
  next
    case (flush rc q' ns)
    then have ns: "ns = ms" using holds_unique h(1) by blast
    obtain q where q: "q' = q" "holds q []" "q = (queue s)\<lparr>q_store := q_store q\<rparr>" using flush_holds [OF h(1)] flush(2) by auto
    have same: "list_cond q = list_cond (queue s)" "unblocked q = unblocked (queue s)" by (subst q(3), simp)+
    have "fifo t []" using flush(1) ns q(1,2) h by (simp add: fifo_def comp_def)
    moreover have "woken s ms \<longrightarrow> woken t []" using flush(1) q(1) same by (auto simp: woken_def)
    ultimately show ?thesis by blast
  next
    case (unblock rc q')
    then have "fifo t ms" "woken s ms \<longrightarrow> woken t ms" using assms(3)
      by (auto simp: msg_q_unblock_def fifo_def woken_def pthread_cond_broadcast_def holds_def split: if_splits)
    then show ?thesis by blast
  qed
qed

lemma q_run_keeps:
  assumes "(q_step addr)\<^sup>*\<^sup>* s t" "fresh addr" "fifo s ms"
  shows "\<exists>ns. fifo t ns \<and> (woken s ms \<longrightarrow> woken t ns)"
  using assms(1)
  by (induction rule: rtranclp_induct) (use assms(3) q_step_keeps [OF assms(2)] in blast)+

text \<open>Turns of receivers that are awake, in any order.\<close>

lemma turns_keep:
  assumes "distinct rs" "set rs \<subseteq> set (awake s)" "fifo s ms" "woken s ms"
  shows "\<exists>t. rcv_turns rs s = Some t \<and> fifo t (drop (length rs) ms) \<and> woken t (drop (length rs) ms)
    \<and> set (awake t) = set (awake s) - set rs \<and> unblocked (queue t) = unblocked (queue s)
    \<and> delivered t = delivered s @ map (\<lambda>m. (fst m, False)) (take (length rs) ms)"
  using assms
proof (induction rs arbitrary: s ms)
  case Nil
  then show ?case by simp
next
  case (Cons r rs)
  obtain u where u: "rcv_turn r s = Some u" "fifo u (tl ms)" "woken u (tl ms)" "awake u = remove1 r (awake s)"
    "unblocked (queue u) = unblocked (queue s)" "delivered u = delivered s @ map (\<lambda>m. (fst m, False)) (take 1 ms)"
    using turn_keeps [OF Cons.prems(3,4), of r] Cons.prems(2) by auto
  have "distinct (awake s)" using Cons.prems(4) by (simp add: woken_def awake_def)
  then have a: "set (awake u) = set (awake s) - {r}" using u(4) by simp
  have "set rs \<subseteq> set (awake u)" using Cons.prems(1,2) a by auto
  from Cons.IH [OF _ this u(2,3)] Cons.prems(1) obtain t where t: "rcv_turns rs u = Some t"
    "fifo t (drop (length rs) (tl ms))" "woken t (drop (length rs) (tl ms))" "set (awake t) = set (awake u) - set rs"
    "unblocked (queue t) = unblocked (queue u)"
    "delivered t = delivered u @ map (\<lambda>m. (fst m, False)) (take (length rs) (tl ms))" by auto
  have "drop (length (r # rs)) ms = drop (length rs) (tl ms)" by (simp add: drop_Suc)
  moreover have "take (length (r # rs)) ms = take 1 ms @ take (length rs) (tl ms)" by (cases ms) simp_all
  ultimately show ?case using u t a by auto
qed

definition send_five :: "msg_q \<Rightarrow> msg_q" where
  "send_five q = the (snd (the (msg_q_snd (Some (above_all (q_store q))) 0 (Some q) 5 0)))"

lemma send_five_holds:
  assumes "holds q ms" "unblocked q = 0"
  shows "holds (send_five q) (ms @ [(5, 0)])" "unblocked (send_five q) = 0"
    "list_cond (send_five q) = tl (list_cond q)"
    "msg_q_snd (Some (above_all (q_store q))) 0 (Some q) 5 0 = Some (eMSG_Q_SUCCESS, Some (send_five q))"
proof -
  obtain q' where q': "msg_q_snd (Some (above_all (q_store q))) 0 (Some q) 5 0
      = Some (eMSG_Q_SUCCESS, Some (pthread_cond_signal 0 q'))"
    "holds q' (ms @ [(5, 0)])" "q' = q\<lparr>q_store := q_store q'\<rparr>"
    using snd_holds [OF assms(1) fresh_above_all _ assms(2), of 5 True 0 0] by auto
  then have s: "send_five q = pthread_cond_signal 0 q'" by (simp add: send_five_def)
  have same: "unblocked q' = 0" "list_cond q' = list_cond q"
    using arg_cong [OF q'(3), of unblocked] arg_cong [OF q'(3), of list_cond] assms(2) by simp_all
  show "holds (send_five q) (ms @ [(5, 0)])" "unblocked (send_five q) = 0"
    "msg_q_snd (Some (above_all (q_store q))) 0 (Some q) 5 0 = Some (eMSG_Q_SUCCESS, Some (send_five q))"
    using s q'(1,2) same by simp_all
  show "list_cond (send_five q) = tl (list_cond q)"
    unfolding s by (simp add: pthread_cond_signal_def Let_def same drop_Suc)
qed

definition idle_queue :: q_system where
  "idle_queue = \<lparr>queue = new_queue, receivers = [], accepted = [], delivered = []\<rparr>"

lemma idle_queue: "holds (queue idle_queue) []" "accepted idle_queue = []" "delivered idle_queue = []"
    "receivers idle_queue = []" "list_cond (queue idle_queue) = []"
  using new_queue_holds by (simp_all add: idle_queue_def new_queue_def)

text \<open>
  C18: messages leave in the order they were accepted, none twice and none lost. Whatever the
  threads do, the messages that successful sends accepted are at every moment those that receives
  delivered or flushes dropped, in order, followed by those still in the queue.
\<close>

theorem queue_is_fifo:
  assumes "fresh addr" and "holds (queue s) []" and "accepted s = []" and "delivered s = []"
    and "(q_step addr)\<^sup>*\<^sup>* s t"
  shows "\<exists>ms. holds (queue t) ms \<and> accepted t = map fst (delivered t) @ map fst ms"
proof -
  have "fifo s []" using assms(2-4) by (simp add: fifo_def)
  from q_run_keeps [OF assms(5,1) this] show ?thesis by (auto simp: fifo_def)
qed

lemma send_to_idle:
  "q_step above_all idle_queue (idle_queue\<lparr>queue := send_five new_queue, accepted := [5]\<rparr>)"
proof -
  have "unblocked new_queue = 0" by (simp add: new_queue_def)
  then show ?thesis
    using q_step.send [of True above_all idle_queue 0 5 0 eMSG_Q_SUCCESS "send_five new_queue"] send_five_holds(4) [OF new_queue_holds]
    by (simp add: idle_queue_def)
qed

theorem queue_is_fifo_witness:
  "\<exists>q. q_step above_all idle_queue (idle_queue\<lparr>queue := q, accepted := [5]\<rparr>) \<and> (\<exists>ms. holds q ms \<and> [5] = map fst ms)"
proof -
  obtain ms where "holds (send_five new_queue) ms" "[5] = map fst ms"
    using queue_is_fifo [OF fresh_above_all idle_queue(1-3) r_into_rtranclp [of "q_step above_all", OF send_to_idle]]
    by (auto simp: idle_queue_def simp del: map_eq_Cons_conv Cons_eq_map_conv)
  then show ?thesis using send_to_idle by (intro exI [of _ "send_five new_queue"] conjI exI [of _ ms])
qed

text \<open>
  C19: no wake-up is lost. Whatever the threads did, when every receiver that is awake has had the mutex
  once, in any order, the first messages went to them, oldest first, and a receiver is left behind only
  if the queue is empty and not unblocked: none sleeps beside a message or on an unblocked queue.
\<close>

theorem no_wakeup_lost:
  assumes "fresh addr" and "holds (queue s) []" and "accepted s = []" and "delivered s = []"
    and "receivers s = []" and "list_cond (queue s) = []" and "(q_step addr)\<^sup>*\<^sup>* s t"
    and "distinct rs" and "set rs = set (awake t)" and "holds (queue t) ms"
  shows "\<exists>u. rcv_turns rs t = Some u
    \<and> delivered u = delivered t @ map (\<lambda>m. (fst m, False)) (take (length rs) ms)
    \<and> (receivers u = [] \<or> holds (queue u) [] \<and> unblocked (queue u) = 0)"
proof -
  have "fifo s []" "woken s []" using assms(2-6) by (simp_all add: fifo_def woken_def)
  from q_run_keeps [OF assms(7,1) this(1)] this(2) obtain ns where "fifo t ns" "woken t ns" by blast
  then have t: "fifo t ms" "woken t ms" using holds_unique [OF assms(10)] by (auto simp: fifo_def)
  from turns_keep [OF assms(8) _ t] assms(9) obtain u where u: "rcv_turns rs t = Some u" "fifo u (drop (length rs) ms)"
    "woken u (drop (length rs) ms)" "awake u = []"
    "delivered u = delivered t @ map (\<lambda>m. (fst m, False)) (take (length rs) ms)" by auto
  have "length (list_cond (queue u)) = length (receivers u)" using woken_awake [OF u(3)] u(4) by simp
  then have "receivers u = [] \<or> drop (length rs) ms = [] \<and> unblocked (queue u) = 0"
    using u(3) by (cases "receivers u") (auto simp: woken_def)
  then show ?thesis using u(1,2,5) by (auto simp: fifo_def)
qed

text \<open>A receiver sleeps, a message is sent: it wakes up and gets it.\<close>

theorem no_wakeup_lost_witness:
  "\<exists>t u. (q_step above_all)\<^sup>*\<^sup>* idle_queue t \<and> awake t = [7] \<and> rcv_turns [7] t = Some u \<and> delivered u = [(5, False)]"
proof -
  let ?w = "pthread_cond_wait 7 new_queue"
  let ?s = "idle_queue\<lparr>receivers := [7], queue := ?w\<rparr>"
  let ?t = "?s\<lparr>queue := send_five ?w, accepted := [5]\<rparr>"
  have n: "unblocked new_queue = 0" "list_cond new_queue = []" by (simp_all add: new_queue_def)
  have w: "holds ?w []" "unblocked ?w = 0" "list_cond ?w = [7]"
    using new_queue_holds n by (simp_all, simp add: pthread_cond_wait_def)
  have "msg_q_rcv 7 (Some (queue idle_queue)) True = Some (Waits, Some ?w)"
    using loop_holds [OF new_queue_holds, of 7] n by (simp add: msg_q_rcv_def idle_queue_def)
  from q_step.receive [OF _ this, of above_all] have 1: "q_step above_all idle_queue ?s"
    by (simp add: idle_queue_def settled_def)
  have 2: "q_step above_all ?s ?t"
    using q_step.send [of True above_all ?s 0 5 0 eMSG_Q_SUCCESS "send_five ?w"] send_five_holds(4) [OF w(1,2)]
    by (simp add: idle_queue_def)
  have run: "(q_step above_all)\<^sup>*\<^sup>* idle_queue ?t" using 1 2 by (meson converse_rtranclp_into_rtranclp r_into_rtranclp)
  have a: "awake ?t = [7]" using send_five_holds(3) [OF w(1,2)] w(3) by (simp add: awake_def)
  have h: "holds (queue ?t) [(5, 0)]" using send_five_holds(1) [OF w(1,2)] by simp
  have "set [7] = set (awake ?t)" unfolding a ..
  from no_wakeup_lost [OF fresh_above_all idle_queue run _ this h] obtain u where
    "rcv_turns [7] ?t = Some u" "delivered u = delivered ?t @ map (\<lambda>m. (fst m, False)) (take 1 [(5, 0 :: nat)])" by auto
  then show ?thesis using run a by (intro exI [of _ ?t] exI [of _ u]) (simp add: idle_queue_def)
qed

text \<open>
  Unblocking is final. Once a queue is unblocked it stays so whatever the threads do, no step
  adds a message, and every later call of \<open>msg_q_snd\<close> or \<open>msg_q_rcv\<close> returns UNAVAILABLE_RESOURCE and
  changes nothing, also when messages are left: they can only leave through receivers that were
  waiting already, a flush or the destruction of the queue.
\<close>

theorem unblock_is_final:
  assumes "(q_step addr)\<^sup>*\<^sup>* s t" and "unblocked (queue s) \<noteq> 0"
  shows "unblocked (queue t) \<noteq> 0 \<and> accepted t = accepted s
    \<and> msg_q_rcv r (Some (queue t)) True = Some (Returned eMSG_Q_UNAVAILABLE_RESOURCE None, Some (queue t))
    \<and> (\<forall>new i d f. d \<noteq> 0 \<longrightarrow> msg_q_snd new i (Some (queue t)) d f = Some (eMSG_Q_UNAVAILABLE_RESOURCE, Some (queue t)))"
proof -
  have "unblocked (queue t) \<noteq> 0 \<and> accepted t = accepted s"
    using assms(1)
  proof (induction rule: rtranclp_induct)
    case base
    then show ?case using assms(2) by simp
  next
    case (step t u)
    have "unblocked (queue u) = unblocked (queue t) \<and> accepted u = accepted t"
      using step.hyps(2)
    proof cases
      case (send ok i d f rc q')
      then show ?thesis using step.IH by (auto simp: msg_q_snd_def split: if_splits)
    next
      case (receive r out q')
      then show ?thesis using step.IH by (auto simp: msg_q_rcv_def settled_def)
    next
      case (resume r)
      then show ?thesis using step.IH
        by (auto simp: rcv_turn_def rcv_loop_def rcv_take_def settled_def split: bind_splits if_splits rcv_outcome.splits)
    next
      case (flush rc q' ns)
      then show ?thesis by (auto simp: msg_q_flush_def split: bind_splits)
    next
      case (unblock rc q')
      then show ?thesis using step.IH by (auto simp: msg_q_unblock_def)
    qed simp
    then show ?case using step.IH by simp
  qed
  then show ?thesis by (simp add: msg_q_rcv_def msg_q_snd_def)
qed

end
