(* ===== verification/LocEngData.thy ===== *)
theory LocEngData
  imports LocApiGlue
begin

text \<open>
  The state of the GPS engine of libloc_api (loc_eng.h, loc_eng_ni.h, loc_eng_xtra.h and the
  globals of loc_eng.cpp), and the two sides it talks to.

  The modem is the record \<open>modem\<close> of the calls of the location API, each on a state \<open>'w\<close> of the
  layers below; the instance of these layers is \<open>LocApiGlue\<close> and \<open>SyncCall\<close>. The Android framework
  is the list \<open>calls\<close> of the calls the engine made to it, in order. Types and enumerations of
  hardware/gps.h, which is not part of the tree, are datatypes of the names the engine uses; callback
  pointers are flags that tell whether they are set. Floating-point values are bit patterns, and
  stay what they are where C widens a float to a double.
\<close>

section \<open>The Android side\<close>

datatype GpsStatusValue =
    GPS_STATUS_NONE
  | GPS_STATUS_SESSION_BEGIN
  | GPS_STATUS_SESSION_END
  | GPS_STATUS_ENGINE_ON
  | GPS_STATUS_ENGINE_OFF

text \<open>\<open>AGPS_NO_STATUS\<close> is the value 0, which stands for nothing to report.\<close>

datatype AGpsStatusValue =
    AGPS_NO_STATUS
  | GPS_REQUEST_AGPS_DATA_CONN
  | GPS_RELEASE_AGPS_DATA_CONN

datatype gps_location_flag =
    GPS_LOCATION_HAS_LAT_LONG
  | GPS_LOCATION_HAS_ALTITUDE
  | GPS_LOCATION_HAS_SPEED
  | GPS_LOCATION_HAS_BEARING
  | GPS_LOCATION_HAS_ACCURACY

record GpsLocation =
  loc_flags :: "gps_location_flag set"
  loc_latitude :: u64
  loc_longitude :: u64
  loc_altitude :: u32
  loc_speed :: u32
  loc_bearing :: u32
  loc_accuracy :: u32
  loc_timestamp :: u64

record GpsSvInfo =
  sv_prn :: int
  sv_snr :: u32
  sv_elevation :: u32
  sv_azimuth :: u32

record GpsSvStatus =
  svs :: "GpsSvInfo list"
  ephemeris_mask :: u32
  almanac_mask :: u32
  used_in_fix_mask :: u32

datatype GpsNiType = GPS_NI_TYPE_VOICE | GPS_NI_TYPE_UMTS_SUPL | GPS_NI_TYPE_UMTS_CTRL_PLANE

datatype GpsNiNotifyFlag = GPS_NI_NEED_NOTIFY | GPS_NI_NEED_VERIFY | GPS_NI_PRIVACY_OVERRIDE

datatype GpsUserResponseType =
    GPS_NI_RESPONSE_ACCEPT
  | GPS_NI_RESPONSE_DENY
  | GPS_NI_RESPONSE_NORESP
  | GPS_NI_RESPONSE_OTHER

datatype GpsNiEncodingType =
    GPS_ENC_NONE
  | GPS_ENC_SUPL_GSM_DEFAULT
  | GPS_ENC_SUPL_UTF8
  | GPS_ENC_SUPL_UCS2
  | GPS_ENC_UNKNOWN

record GpsNiNotification =
  notification_id :: int
  ni_type :: GpsNiType
  notify_flags :: "GpsNiNotifyFlag set"
  ni_timeout :: int
  default_response :: GpsUserResponseType
  ni_requestor_id :: "byte list"
  ni_text :: "byte list"
  requestor_id_encoding :: GpsNiEncodingType
  text_encoding :: GpsNiEncodingType
  ni_extras :: "byte list"

datatype framework_call =
    SetCapabilities
  | CreateThread
  | AcquireWakelock
  | ReleaseWakelock
  | ReportLocation GpsLocation
  | ReportSv GpsSvStatus
  | ReportStatus GpsStatusValue
  | ReportAgps AGpsStatusValue
  | ReportNmea u64 "byte list" u16
  | XtraDownloadRequest
  | NiNotify GpsNiNotification

section \<open>The modem side\<close>

record 'w modem =
  m_glue_init :: "'w \<Rightarrow> 'w"
  m_open :: "u64 \<Rightarrow> 'w \<Rightarrow> u32 \<times> 'w"
  m_close :: "u32 \<Rightarrow> 'w \<Rightarrow> u32 \<times> 'w"
  m_start_fix :: "u32 \<Rightarrow> 'w \<Rightarrow> u32 \<times> 'w"
  m_stop_fix :: "u32 \<Rightarrow> 'w \<Rightarrow> u32 \<times> 'w"
  m_ioctl :: "u32 \<Rightarrow> u32 \<Rightarrow> rpc_loc_ioctl_data_u_type \<Rightarrow> 'w \<Rightarrow> u32 \<times> 'w"
  m_sync_ioctl :: "u32 \<Rightarrow> u32 \<Rightarrow> rpc_loc_ioctl_data_u_type \<Rightarrow> u32 \<Rightarrow> 'w \<Rightarrow> int \<times> 'w"

definition RPC_LOC_API_GENERAL_FAILURE :: int where "RPC_LOC_API_GENERAL_FAILURE = 1"
definition RPC_LOC_API_INVALID_HANDLE :: int where "RPC_LOC_API_INVALID_HANDLE = 4"

section \<open>The state of the engine\<close>

datatype loc_mute_session_e_type =
    LOC_MUTE_SESS_NONE
  | LOC_MUTE_SESS_WAIT
  | LOC_MUTE_SESS_IN_SESSION

definition DEFERRED_ACTION_EVENT :: u32 where "DEFERRED_ACTION_EVENT = 0x01"
definition DEFERRED_ACTION_DELETE_AIDING :: u32 where "DEFERRED_ACTION_DELETE_AIDING = 0x02"
definition DEFERRED_ACTION_AGPS_STATUS :: u32 where "DEFERRED_ACTION_AGPS_STATUS = 0x04"
definition DEFERRED_ACTION_AGPS_DATA_SUCCESS :: u32 where "DEFERRED_ACTION_AGPS_DATA_SUCCESS = 0x08"
definition DEFERRED_ACTION_AGPS_DATA_CLOSED :: u32 where "DEFERRED_ACTION_AGPS_DATA_CLOSED = 0x10"
definition DEFERRED_ACTION_AGPS_DATA_FAILED :: u32 where "DEFERRED_ACTION_AGPS_DATA_FAILED = 0x20"
definition DEFERRED_ACTION_QUIT :: u32 where "DEFERRED_ACTION_QUIT = 0x40"

lemmas deferred_flags = DEFERRED_ACTION_EVENT_def DEFERRED_ACTION_DELETE_AIDING_def
  DEFERRED_ACTION_AGPS_STATUS_def DEFERRED_ACTION_AGPS_DATA_SUCCESS_def
  DEFERRED_ACTION_AGPS_DATA_CLOSED_def DEFERRED_ACTION_AGPS_DATA_FAILED_def DEFERRED_ACTION_QUIT_def

record loc_gps_cfg_s_type =
  INTERMEDIATE_POS :: u32
  ACCURACY_THRES :: u32
  ENABLE_WIPER :: u32
  DEBUG_LEVEL :: u32

record loc_eng_xtra_data_s_type =
  download_request_cb :: bool
  request_pending :: bool
  xtra_data_for_injection :: "byte list option"
  xtra_data_len :: int

text \<open>
  \<open>loc_ni_lock\<close> tells whether the mutex is held, \<open>ni_threads\<close> are the running response threads, each
  with a flag that tells whether it has sent its answer.
\<close>

record loc_eng_ni_data_s_type =
  loc_ni_lock :: bool
  ni_threads :: "bool list"
  response_time_left :: int
  user_response_received :: bool
  notif_in_progress :: bool
  loc_ni_request :: rpc_loc_ni_event_s_type
  current_notif_id :: int
  ni_resp :: u32

text \<open>An address setting that came before the initialisation.\<close>

record host_buf =
  host_set :: bool
  host_name :: "byte list"
  host_port :: int

record loc_eng_data_s_type =
  client_handle :: u32
  location_cb :: bool
  status_cb :: bool
  sv_status_cb :: bool
  agps_status_cb :: bool
  nmea_cb :: bool
  ni_notify_cb :: bool
  agps_status :: AGpsStatusValue
  agps_request_pending :: bool
  stop_request_pending :: bool
  xtra_module_data :: loc_eng_xtra_data_s_type
  pending_event :: u64
  pending_payload :: rpc_loc_event_payload_u_type
  client_opened :: bool
  navigating :: bool
  data_connection_is_on :: bool
  eng_apn_name :: "byte list"
  eng_conn_handle :: u32
  data_conn_open_time :: int
  engine_status :: GpsStatusValue
  fix_session_status :: GpsStatusValue
  aiding_data_for_deletion :: u16
  deferred_action_thread :: bool
  deferred_action_flags :: u32
  mute_session_state :: loc_mute_session_e_type

record 'w engine =
  eng :: loc_eng_data_s_type
  loc_eng_inited :: bool
  last_status :: GpsStatusValue
  supl_host :: host_buf
  c2k_host :: host_buf
  loc_c2k_addr_is_set :: bool
  gps_conf :: loc_gps_cfg_s_type
  loc_eng_ni_data :: loc_eng_ni_data_s_type
  calls :: "framework_call list"
  world :: 'w

abbreviation on_eng :: "(loc_eng_data_s_type \<Rightarrow> loc_eng_data_s_type) \<Rightarrow> 'w engine \<Rightarrow> 'w engine" where
  "on_eng f s \<equiv> s\<lparr>eng := f (eng s)\<rparr>"

text \<open>A call to the framework, and one to the modem.\<close>

definition tell :: "framework_call \<Rightarrow> 'w engine \<Rightarrow> 'w engine" where
  "tell c s = s\<lparr>calls := calls s @ [c]\<rparr>"

definition ask :: "('w \<Rightarrow> 'r \<times> 'w) \<Rightarrow> 'w engine \<Rightarrow> 'r \<times> 'w engine" where
  "ask f s = (case f (world s) of (r, w) \<Rightarrow> (r, s\<lparr>world := w\<rparr>))"

lemma tell_simps [simp]:
  "eng (tell c s) = eng s" "loc_eng_inited (tell c s) = loc_eng_inited s" "last_status (tell c s) = last_status s"
  "supl_host (tell c s) = supl_host s" "c2k_host (tell c s) = c2k_host s"
  "loc_c2k_addr_is_set (tell c s) = loc_c2k_addr_is_set s" "gps_conf (tell c s) = gps_conf s"
  "loc_eng_ni_data (tell c s) = loc_eng_ni_data s" "calls (tell c s) = calls s @ [c]" "world (tell c s) = world s"
  by (simp_all add: tell_def)

lemma ask_simps [simp]:
  "eng (snd (ask f s)) = eng s" "loc_eng_inited (snd (ask f s)) = loc_eng_inited s"
  "last_status (snd (ask f s)) = last_status s" "calls (snd (ask f s)) = calls s"
  "supl_host (snd (ask f s)) = supl_host s" "c2k_host (snd (ask f s)) = c2k_host s"
  "loc_c2k_addr_is_set (snd (ask f s)) = loc_c2k_addr_is_set s" "gps_conf (snd (ask f s)) = gps_conf s"
  "loc_eng_ni_data (snd (ask f s)) = loc_eng_ni_data s"
  "fst (ask f s) = fst (f (world s))" "world (snd (ask f s)) = snd (f (world s))"
  by (simp_all add: ask_def split: prod.split)

definition LOC_IOCTL_DEFAULT_TIMEOUT :: u32 where "LOC_IOCTL_DEFAULT_TIMEOUT = 1000"

section \<open>loc_eng_ioctl.cpp\<close>

definition loc_eng_ioctl ::
    "'w modem \<Rightarrow> u32 \<Rightarrow> u32 \<Rightarrow> rpc_loc_ioctl_data_u_type \<Rightarrow> u32 \<Rightarrow> 'w engine \<Rightarrow> bool \<times> 'w engine" where
  "loc_eng_ioctl m h kd dat timeout_msec s =
     (case ask (m_sync_ioctl m h kd dat timeout_msec) s of (ret_val, s1) \<Rightarrow>
        (ret_val = RPC_LOC_API_SUCCESS, s1))"

text \<open>Only the layers below see a request.\<close>

lemma loc_eng_ioctl_frame [simp]:
  "eng (snd (loc_eng_ioctl m h kd v t s)) = eng s" "calls (snd (loc_eng_ioctl m h kd v t s)) = calls s"
  "loc_eng_inited (snd (loc_eng_ioctl m h kd v t s)) = loc_eng_inited s"
  "last_status (snd (loc_eng_ioctl m h kd v t s)) = last_status s"
  "supl_host (snd (loc_eng_ioctl m h kd v t s)) = supl_host s" "c2k_host (snd (loc_eng_ioctl m h kd v t s)) = c2k_host s"
  "loc_c2k_addr_is_set (snd (loc_eng_ioctl m h kd v t s)) = loc_c2k_addr_is_set s"
  "gps_conf (snd (loc_eng_ioctl m h kd v t s)) = gps_conf s"
  "loc_eng_ni_data (snd (loc_eng_ioctl m h kd v t s)) = loc_eng_ni_data s"
  "world (snd (loc_eng_ioctl m h kd v t s)) = snd (m_sync_ioctl m h kd v t (world s))"
  "fst (loc_eng_ioctl m h kd v t s) \<longleftrightarrow> fst (m_sync_ioctl m h kd v t (world s)) = RPC_LOC_API_SUCCESS"
  by (simp_all add: loc_eng_ioctl_def case_prod_beta)

section \<open>Muting a session\<close>

definition loc_eng_mute_one_session :: "'w engine \<Rightarrow> 'w engine" where
  "loc_eng_mute_one_session s =
     (if \<not> loc_eng_inited s then s else on_eng (mute_session_state_update (\<lambda>_. LOC_MUTE_SESS_WAIT)) s)"

section \<open>Cleared storage, and a modem that accepts everything\<close>

text \<open>\<open>zero_eng\<close> is what memset leaves of the engine data.\<close>

definition zero_eng :: loc_eng_data_s_type where
  "zero_eng = \<lparr>client_handle = 0, location_cb = False, status_cb = False, sv_status_cb = False,
     agps_status_cb = False, nmea_cb = False, ni_notify_cb = False, agps_status = AGPS_NO_STATUS,
     agps_request_pending = False, stop_request_pending = False,
     xtra_module_data = \<lparr>download_request_cb = False, request_pending = False,
       xtra_data_for_injection = None, xtra_data_len = 0\<rparr>,
     pending_event = 0, pending_payload = zero_rpc_loc_event_payload_u_type, client_opened = False,
     navigating = False, data_connection_is_on = False, eng_apn_name = replicate 100 0, eng_conn_handle = 0,
     data_conn_open_time = 0, engine_status = GPS_STATUS_NONE, fix_session_status = GPS_STATUS_NONE,
     aiding_data_for_deletion = 0, deferred_action_thread = False, deferred_action_flags = 0,
     mute_session_state = LOC_MUTE_SESS_NONE\<rparr>"

definition zero_engine :: "'w \<Rightarrow> 'w engine" where
  "zero_engine w = \<lparr>eng = zero_eng, loc_eng_inited = False, last_status = GPS_STATUS_NONE,
     supl_host = \<lparr>host_set = False, host_name = [], host_port = 0\<rparr>,
     c2k_host = \<lparr>host_set = False, host_name = [], host_port = 0\<rparr>, loc_c2k_addr_is_set = False,
     gps_conf = \<lparr>INTERMEDIATE_POS = 0, ACCURACY_THRES = 0, ENABLE_WIPER = 0, DEBUG_LEVEL = 0\<rparr>,
     loc_eng_ni_data = \<lparr>loc_ni_lock = False, ni_threads = [], response_time_left = 0, user_response_received = False,
       notif_in_progress = False, loc_ni_request = zero_rpc_loc_ni_event_s_type, current_notif_id = 0, ni_resp = 0\<rparr>,
     calls = [], world = w\<rparr>"

datatype modem_request =
    AskOpen u64
  | AskClose u32
  | AskStart u32
  | AskStop u32
  | AskIoctl u32 u32 rpc_loc_ioctl_data_u_type
  | AskSync u32 u32 rpc_loc_ioctl_data_u_type

definition accepting :: "modem_request list modem" where
  "accepting = \<lparr>m_glue_init = id, m_open = (\<lambda>ev w. (1, w @ [AskOpen ev])), m_close = (\<lambda>h w. (0, w @ [AskClose h])),
     m_start_fix = (\<lambda>h w. (0, w @ [AskStart h])), m_stop_fix = (\<lambda>h w. (0, w @ [AskStop h])),
     m_ioctl = (\<lambda>h k v w. (0, w @ [AskIoctl h k v])), m_sync_ioctl = (\<lambda>h k v t w. (0, w @ [AskSync h k v]))\<rparr>"

lemma accepting_simps [simp]:
  "m_open accepting ev w = (1, w @ [AskOpen ev])" "m_close accepting h w = (0, w @ [AskClose h])"
  "m_start_fix accepting h w = (0, w @ [AskStart h])" "m_stop_fix accepting h w = (0, w @ [AskStop h])"
  "m_ioctl accepting h k v w = (0, w @ [AskIoctl h k v])"
  "m_sync_ioctl accepting h k v t w = (0, w @ [AskSync h k v])" "m_glue_init accepting w = w"
  by (simp_all add: accepting_def)

end
