(* ===== verification/LocEngXtra.thy ===== *)
theory LocEngXtra
  imports LocEngData "HOL-Library.Monad_Syntax" "HOL-Library.Signed_Division"
begin

text \<open>
  Injection of predicted orbit data, libloc_api/loc_eng_xtra.cpp: the file is sent in parts of 1024
  bytes. The part number is an 8-bit and the number of bytes sent is a 16-bit integer; the loop is a
  \<open>partial_function\<close>, None when it does not end.
\<close>

section \<open>Operations\<close>

definition EIO :: int where "EIO = 5"
definition XTRA_BLOCK_SIZE :: int where "XTRA_BLOCK_SIZE = 1024"
definition LOC_XTRA_INJECT_DEFAULT_TIMEOUT :: u32 where "LOC_XTRA_INJECT_DEFAULT_TIMEOUT = 3100"
definition RPC_LOC_PREDICTED_ORBITS_XTRA :: u32 where "RPC_LOC_PREDICTED_ORBITS_XTRA = 0"

definition qct_loc_eng_xtra_init :: "bool \<Rightarrow> 'w engine \<Rightarrow> int \<times> 'w engine" where
  "qct_loc_eng_xtra_init cb s =
     (0, on_eng (xtra_module_data_update (download_request_cb_update (\<lambda>_. cb))) s)"

text \<open>The request for one part.\<close>

definition xtra_part ::
    "byte list \<Rightarrow> int \<Rightarrow> byte \<Rightarrow> u16 \<Rightarrow> rpc_loc_predicted_orbits_data_s_type" where
  "xtra_part dat n_parts pn len_injected =
     (let n = int (length dat);
          plen = (if XTRA_BLOCK_SIZE > n - uint len_injected then word_of_int (n - uint len_injected)
                  else word_of_int XTRA_BLOCK_SIZE) :: u16
      in \<lparr>format_type = RPC_LOC_PREDICTED_ORBITS_XTRA, total_size = word_of_int n,
          total_parts = word_of_int n_parts, part = pn, part_len = plen,
          data_ptr = \<lparr>len = ucast plen, val = Some (take (unat plen) (drop (unat len_injected) dat))\<rparr>\<rparr>)"

definition xtra_data :: "rpc_loc_predicted_orbits_data_s_type \<Rightarrow> rpc_loc_ioctl_data_u_type" where
  "xtra_data p = \<lparr>disc = RPC_LOC_IOCTL_INJECT_PREDICTED_ORBITS_DATA, arm = ioctl_data_predicted_orbits_data p\<rparr>"

partial_function (option) xtra_loop ::
    "'w modem \<Rightarrow> byte list \<Rightarrow> int \<Rightarrow> byte \<Rightarrow> u16 \<Rightarrow> 'w engine \<Rightarrow> (int \<times> 'w engine) option" where
  "xtra_loop m dat n_parts pn len_injected s =
     (if \<not> uint pn \<le> n_parts then Some (0, s)
      else let p = xtra_part dat n_parts pn len_injected in
        if uint pn < n_parts then
          (case ask (m_ioctl m (client_handle (eng s)) RPC_LOC_IOCTL_INJECT_PREDICTED_ORBITS_DATA (xtra_data p)) s of
             (rc, s1) \<Rightarrow>
               if sint rc \<noteq> RPC_LOC_API_SUCCESS then Some (EIO, s1)
               else xtra_loop m dat n_parts (pn + 1) (len_injected + rpc_loc_predicted_orbits_data_s_type.part_len p) s1)
        else
          (case loc_eng_ioctl m (client_handle (eng s)) RPC_LOC_IOCTL_INJECT_PREDICTED_ORBITS_DATA
              (xtra_data p) LOC_XTRA_INJECT_DEFAULT_TIMEOUT s of
             (ok, s1) \<Rightarrow> Some (if \<not> ok then EIO else 0, s1)))"

definition qct_loc_eng_inject_xtra_data_one ::
    "'w modem \<Rightarrow> byte list \<Rightarrow> 'w engine \<Rightarrow> (int \<times> 'w engine) option" where
  "qct_loc_eng_inject_xtra_data_one m dat s =
     xtra_loop m dat ((int (length dat) - 1) sdiv XTRA_BLOCK_SIZE + 1) 1 0 s"

fun xtra_tries :: "nat \<Rightarrow> int \<Rightarrow> 'w modem \<Rightarrow> byte list \<Rightarrow> 'w engine \<Rightarrow> (int \<times> 'w engine) option" where
  "xtra_tries 0 rc m dat s = Some (rc, s)"
| "xtra_tries (Suc k) rc m dat s = do {
     (rc1, s1) \<leftarrow> qct_loc_eng_inject_xtra_data_one m dat s;
     if rc1 = 0 then Some (rc1, s1) else xtra_tries k rc1 m dat s1
   }"

definition qct_loc_eng_inject_xtra_data ::
    "'w modem \<Rightarrow> byte list \<Rightarrow> 'w engine \<Rightarrow> (int \<times> 'w engine) option" where
  "qct_loc_eng_inject_xtra_data m dat s = xtra_tries 3 EIO m dat s"

definition loc_eng_inject_xtra_data_in_buffer :: "'w modem \<Rightarrow> 'w engine \<Rightarrow> (int \<times> 'w engine) option" where
  "loc_eng_inject_xtra_data_in_buffer m s =
     (let dat = xtra_data_for_injection (xtra_module_data (eng s));
          s1 = on_eng (xtra_module_data_update
            (\<lambda>x. x\<lparr>xtra_data_for_injection := None, xtra_data_len := 0\<rparr>)) s
      in case dat of None \<Rightarrow> Some (0, s1)
         | Some d \<Rightarrow> do {
             (rc, s2) \<leftarrow> qct_loc_eng_inject_xtra_data m d s1;
             Some (if rc \<noteq> 0 then -1 else 0, s2)
           })"

text \<open>
  \<open>given\<close>: what the caller passed, None for a null pointer; \<open>alloc\<close>: whether malloc succeeds. The
  condition variable that is signalled at the end carries no state.
\<close>

definition qct_loc_eng_inject_xtra_data_proxy ::
    "bool \<Rightarrow> byte list option \<Rightarrow> 'w engine \<Rightarrow> int \<times> 'w engine" where
  "qct_loc_eng_inject_xtra_data_proxy alloc given s =
     (case given of None \<Rightarrow> (-1, s)
      | Some d \<Rightarrow>
        if d = [] then (-1, s)
        else (0, if alloc then on_eng (xtra_module_data_update
               (\<lambda>x. x\<lparr>xtra_data_for_injection := Some d, xtra_data_len := int (length d)\<rparr>)) s else s))"

section \<open>The parts make up the file\<close>

text \<open>What should be sent: the blocks of 1024 bytes of the file, in order, the last one shorter.\<close>

definition blocks :: "byte list \<Rightarrow> nat" where
  "blocks dat = (length dat - 1) div 1024 + 1"

definition block :: "byte list \<Rightarrow> nat \<Rightarrow> rpc_loc_predicted_orbits_data_s_type" where
  "block dat i = (let b = take 1024 (drop (1024 * i) dat) in
     \<lparr>format_type = RPC_LOC_PREDICTED_ORBITS_XTRA, total_size = word_of_nat (length dat),
      total_parts = word_of_nat (blocks dat), part = word_of_nat (Suc i), part_len = word_of_nat (length b),
      data_ptr = \<lparr>len = word_of_nat (length b), val = Some b\<rparr>\<rparr>)"

text \<open>Sending requests one after the other, the last one synchronously, until one is refused.\<close>

fun send_parts ::
    "'w modem \<Rightarrow> rpc_loc_predicted_orbits_data_s_type list \<Rightarrow> 'w engine \<Rightarrow> int \<times> 'w engine" where
  "send_parts m [] s = (0, s)"
| "send_parts m [p] s =
     (case loc_eng_ioctl m (client_handle (eng s)) RPC_LOC_IOCTL_INJECT_PREDICTED_ORBITS_DATA
        (xtra_data p) LOC_XTRA_INJECT_DEFAULT_TIMEOUT s of (ok, s1) \<Rightarrow> (if ok then 0 else EIO, s1))"
| "send_parts m (p # q # ps) s =
     (case ask (m_ioctl m (client_handle (eng s)) RPC_LOC_IOCTL_INJECT_PREDICTED_ORBITS_DATA (xtra_data p)) s of
        (rc, s1) \<Rightarrow> if sint rc \<noteq> 0 then (EIO, s1) else send_parts m (q # ps) s1)"

lemma concat_blocks: "concat (map (\<lambda>i. take k (drop (k * i) xs)) [0..<n]) = take (k * n) xs"
proof (induction n)
  case (Suc n)
  have "take (k * n) xs @ take k (drop (k * n) xs) = take (k * n + k) xs" by (simp add: take_add)
  then show ?case using Suc by (simp add: add.commute)
qed simp

lemma blocks_cover: "dat \<noteq> [] \<Longrightarrow> length dat \<le> 1024 * blocks dat \<and> 1024 * (blocks dat - 1) < length dat"
  unfolding blocks_def
  using div_mult_mod_eq [of "length dat - 1" 1024] mod_less_divisor [of 1024 "length dat - 1"]
  by (cases dat) (simp_all add: algebra_simps, linarith)

lemma blocks_bound: "length dat \<le> 65536 \<Longrightarrow> blocks dat \<le> 64"
  unfolding blocks_def by (auto simp: less_mult_imp_div_less Suc_le_eq div_less_iff_less_mult)

lemma total_parts: "dat \<noteq> [] \<Longrightarrow> (int (length dat) - 1) sdiv XTRA_BLOCK_SIZE + 1 = int (blocks dat)"
  by (cases dat) (auto simp: signed_divide_int_def XTRA_BLOCK_SIZE_def blocks_def sgn_if zdiv_int)

text \<open>Within 64 parts neither the 16-bit nor the 8-bit counter wraps.\<close>

lemma offset:
  assumes "i < 64"
  shows "unat (word_of_nat (1024 * i) :: u16) = 1024 * i" "uint (word_of_nat (1024 * i) :: u16) = 1024 * int i"
proof -
  have w: "take_bit 16 (1024 * i) = 1024 * i" using assms by (simp add: take_bit_nat_eq_self_iff)
  show un: "unat (word_of_nat (1024 * i) :: u16) = 1024 * i"
    by (simp only: unsigned_of_nat len_of_numeral_defs) (simp add: w)
  then show "uint (word_of_nat (1024 * i) :: u16) = 1024 * int i" by (metis of_nat_mult of_nat_numeral uint_nat)
qed

lemma xtra_part_block:
  assumes "dat \<noteq> []" "length dat \<le> 65536" "i < blocks dat"
  shows "xtra_part dat (int (blocks dat)) (word_of_nat (Suc i)) (word_of_nat (1024 * i)) = block dat i"
proof -
  have i: "i < 64" and c: "1024 * i < length dat"
    using assms blocks_bound [of dat] blocks_cover [of dat] by auto
  note un = offset(1) [OF i] and ui = offset(2) [OF i]
  let ?b = "take 1024 (drop (1024 * i) dat)"
  have plen: "(if XTRA_BLOCK_SIZE > int (length dat) - 1024 * int i then word_of_int (int (length dat) - 1024 * int i)
      else word_of_int XTRA_BLOCK_SIZE :: u16) = word_of_nat (length ?b)"
  proof (cases "1024 > int (length dat) - 1024 * int i")
    case True
    then have "int (length ?b) = int (length dat) - 1024 * int i" using c by auto
    then show ?thesis using True by (metis XTRA_BLOCK_SIZE_def of_int_of_nat_eq)
  next
    case False
    then have "length ?b = 1024" using c by auto
    then show ?thesis using False by (simp add: XTRA_BLOCK_SIZE_def)
  qed
  have small: "unat (word_of_nat (length ?b) :: u16) = length ?b"
    by (simp add: unsigned_of_nat take_bit_nat_eq_self_iff)
  then have uc: "ucast (word_of_nat (length ?b) :: u16) = (word_of_nat (length ?b) :: u32)"
    using of_nat_unat [of "word_of_nat (length ?b) :: u16", where ?'a = u32] by simp
  have tk: "take (length ?b) (drop (1024 * i) dat) = ?b" by (metis append_eq_conv_conj append_take_drop_id)
  show ?thesis
    unfolding xtra_part_def block_def Let_def un ui plen small uc tk by simp
qed

lemma send_parts_Cons:
  "ps \<noteq> [] \<Longrightarrow> send_parts m (p # ps) s =
     (case ask (m_ioctl m (client_handle (eng s)) RPC_LOC_IOCTL_INJECT_PREDICTED_ORBITS_DATA (xtra_data p)) s of
        (rc, s1) \<Rightarrow> if sint rc \<noteq> 0 then (EIO, s1) else send_parts m ps s1)"
  by (cases ps) auto

lemma xtra_loop_blocks:
  assumes "dat \<noteq> []" "length dat \<le> 65536" "i < blocks dat"
  shows "xtra_loop m dat (int (blocks dat)) (word_of_nat (Suc i)) (word_of_nat (1024 * i)) s
    = Some (send_parts m (map (block dat) [i..<blocks dat]) s)"
  using assms(3)
proof (induction "blocks dat - Suc i" arbitrary: i s)
  case 0
  then have i: "Suc i = blocks dat" by simp
  have "uint (word_of_nat (Suc i) :: byte) = int (Suc i)"
    using i blocks_bound [OF assms(2)] by (simp add: unsigned_of_nat take_bit_nat_eq_self_iff del: of_nat_Suc)
  then show ?case
    using xtra_part_block [OF assms(1,2) 0(2)] i
    by (subst xtra_loop.simps) (auto simp: upt_conv_Cons Let_def simp del: of_nat_Suc split: prod.split)
next
  case (Suc n)
  then have n: "n = blocks dat - Suc (Suc i)" "Suc i < blocks dat" by auto
  have l: "length (take 1024 (drop (1024 * i) dat)) = 1024" using n(2) blocks_cover [OF assms(1)] by auto
  have p: "uint (word_of_nat (Suc i) :: byte) = int (Suc i)"
    using n(2) blocks_bound [OF assms(2)] by (simp add: unsigned_of_nat take_bit_nat_eq_self_iff del: of_nat_Suc)
  have next_len: "word_of_nat (1024 * i) + rpc_loc_predicted_orbits_data_s_type.part_len (block dat i)
      = word_of_nat (1024 * Suc i)"
    using l by (simp add: block_def Let_def)
  have next_part: "word_of_nat (Suc i) + 1 = (word_of_nat (Suc (Suc i)) :: byte)" by simp
  have m: "map (block dat) [i..<blocks dat] = block dat i # map (block dat) [Suc i..<blocks dat]"
    using n(2) by (simp add: upt_conv_Cons)
  show ?case
    using xtra_part_block [OF assms(1,2) Suc.prems] Suc.hyps(1) [OF n] n(2) p next_len next_part
    unfolding m
    by (subst xtra_loop.simps)
      (auto simp: send_parts_Cons Let_def RPC_LOC_API_SUCCESS_def ac_simps simp del: of_nat_Suc split: prod.split)
qed

text \<open>
  C20: a file is sent completely and once. For a file of at most 64 KiB the injection sends the
  modem, in order, the requests for its blocks of 1024 bytes, numbered from 1 with the right sizes,
  until one is refused; the payloads of these requests, put together, are the file.
\<close>

theorem xtra_parts_are_file:
  assumes "dat \<noteq> []" and "length dat \<le> 65536"
  shows "qct_loc_eng_inject_xtra_data_one m dat s = Some (send_parts m (map (block dat) [0..<blocks dat]) s)
    \<and> concat (map (\<lambda>i. the (val (rpc_loc_predicted_orbits_data_s_type.data_ptr (block dat i)))) [0..<blocks dat]) = dat"
proof -
  have "0 < blocks dat" by (simp add: blocks_def)
  from xtra_loop_blocks [OF assms this, of m s] have
    "xtra_loop m dat (int (blocks dat)) 1 0 s = Some (send_parts m (map (block dat) [0..<blocks dat]) s)" by simp
  then show ?thesis
    using total_parts [OF assms(1)] concat_blocks [of 1024 dat "blocks dat"] blocks_cover [OF assms(1)]
    by (simp add: qct_loc_eng_inject_xtra_data_one_def block_def Let_def)
qed

theorem xtra_parts_are_file_witness:
  "\<exists>s p q. qct_loc_eng_inject_xtra_data_one accepting (replicate 1500 7) (zero_engine []) = Some (0, s)
    \<and> world s = [AskIoctl 0 RPC_LOC_IOCTL_INJECT_PREDICTED_ORBITS_DATA (xtra_data p),
        AskSync 0 RPC_LOC_IOCTL_INJECT_PREDICTED_ORBITS_DATA (xtra_data q)]"
proof -
  let ?d = "replicate 1500 7 :: byte list"
  have "map (block ?d) [0..<blocks ?d] = [block ?d 0, block ?d 1]" by (simp add: blocks_def upt_rec)
  then have "qct_loc_eng_inject_xtra_data_one accepting ?d (zero_engine [])
      = Some (send_parts accepting [block ?d 0, block ?d 1] (zero_engine []))"
    using xtra_parts_are_file [of ?d accepting "zero_engine []"] by simp
  then show ?thesis
    by (auto simp: loc_eng_ioctl_def ask_def zero_engine_def zero_eng_def RPC_LOC_API_SUCCESS_def)
qed

section \<open>Longer files\<close>

lemma xtra_loop_reaches:
  assumes "\<And>h k v w. fst (m_ioctl m h k v w) = 0" "65536 < length dat" "64 < n" "i \<le> 64"
  shows "\<exists>s'. xtra_loop m dat n 1 0 s = xtra_loop m dat n (word_of_nat (Suc i)) (word_of_nat (1024 * i)) s'"
  using assms(4)
proof (induction i)
  case 0
  then show ?case by auto
next
  case (Suc i)
  then obtain s' where s': "xtra_loop m dat n 1 0 s = xtra_loop m dat n (word_of_nat (Suc i)) (word_of_nat (1024 * i)) s'"
    by auto
  let ?p = "xtra_part dat n (word_of_nat (Suc i)) (word_of_nat (1024 * i))"
  have u: "uint (word_of_nat (1024 * i) :: u16) \<le> 64512" using offset(2) [of i] Suc.prems by linarith
  have pn: "uint (word_of_nat (Suc i) :: byte) = int (Suc i)"
    using Suc.prems by (simp add: unsigned_of_nat take_bit_nat_eq_self_iff del: of_nat_Suc)
  have next_part: "1 + word_of_nat (Suc i) = (word_of_nat (Suc (Suc i)) :: byte)" by simp
  have "rpc_loc_predicted_orbits_data_s_type.part_len ?p = 1024"
    using assms(2) u by (simp add: xtra_part_def Let_def XTRA_BLOCK_SIZE_def)
  then have "xtra_loop m dat n (word_of_nat (Suc i)) (word_of_nat (1024 * i)) s'
    = xtra_loop m dat n (word_of_nat (Suc (Suc i))) (word_of_nat (1024 * Suc i))
        (snd (ask (m_ioctl m (client_handle (eng s')) RPC_LOC_IOCTL_INJECT_PREDICTED_ORBITS_DATA (xtra_data ?p)) s'))"
    using Suc.prems pn assms(1,3) next_part
    by (subst xtra_loop.simps) (simp add: Let_def case_prod_beta RPC_LOC_API_SUCCESS_def ac_simps del: of_nat_Suc)
  then show ?case using s' by auto
qed

lemma xtra_loop_endless:
  assumes "xtra_loop m dat n pn li s = Some r"
  shows "255 < n \<longrightarrow> (\<forall>h k v w. fst (m_ioctl m h k v w) = 0) \<longrightarrow> False"
proof (rule xtra_loop.raw_induct [rotated 1, OF assms, where P = "\<lambda>m dat n pn li s r.
      255 < n \<longrightarrow> (\<forall>h k v w. fst (m_ioctl m h k v w) = 0) \<longrightarrow> False"], intro impI)
  fix loop and m :: "'a modem" and dat n and pn :: byte and li :: u16 and s :: "'a engine" and r
  assume IH: "\<And>(m :: 'a modem) dat n pn li s r. loop m dat n pn li s = Some r
      \<Longrightarrow> 255 < n \<longrightarrow> (\<forall>h k v w. fst (m_ioctl m h k v w) = 0) \<longrightarrow> False"
    and run: "(if \<not> uint pn \<le> n then Some (0, s)
      else let p = xtra_part dat n pn li in
        if uint pn < n then
          (case ask (m_ioctl m (client_handle (eng s)) RPC_LOC_IOCTL_INJECT_PREDICTED_ORBITS_DATA (xtra_data p)) s of
             (rc, s1) \<Rightarrow>
               if sint rc \<noteq> RPC_LOC_API_SUCCESS then Some (EIO, s1)
               else loop m dat n (pn + 1) (li + rpc_loc_predicted_orbits_data_s_type.part_len p) s1)
        else
          (case loc_eng_ioctl m (client_handle (eng s)) RPC_LOC_IOCTL_INJECT_PREDICTED_ORBITS_DATA
              (xtra_data p) LOC_XTRA_INJECT_DEFAULT_TIMEOUT s of
             (ok, s1) \<Rightarrow> Some (if \<not> ok then EIO else 0, s1))) = Some r"
    and n: "255 < n" and ok: "\<forall>h k v w. fst (m_ioctl m h k v w) = 0"
  have "uint pn < n" using n uint_bounded [of pn] by simp
  then obtain s1 li1 where "loop m dat n (pn + 1) li1 s1 = Some r"
    using run ok by (auto simp: Let_def case_prod_beta RPC_LOC_API_SUCCESS_def)
  from IH [OF this] n ok show False by blast
qed

text \<open>
  C21: longer files go wrong. When the modem accepts every part, a file of more than 64 KiB is sent
  from its beginning again from part 65 on, because the 16-bit count of the bytes sent wraps; with
  more than 255 KiB the 8-bit part number never reaches the number of parts and the injection does
  not end.
\<close>

theorem long_xtra_file_restarts:
  assumes "\<And>h k v w. fst (m_ioctl m h k v w) = 0" and "65536 < length dat"
  shows "(\<exists>n s'. qct_loc_eng_inject_xtra_data_one m dat s = xtra_loop m dat n 65 0 s' \<and> 64 < n
      \<and> rpc_loc_predicted_orbits_data_s_type.data_ptr (xtra_part dat n 65 0) = \<lparr>len = 1024, val = Some (take 1024 dat)\<rparr>)
    \<and> (261120 < length dat \<longrightarrow> qct_loc_eng_inject_xtra_data_one m dat s = None)"
proof -
  let ?n = "int (blocks dat)"
  have dat: "dat \<noteq> []" using assms(2) by auto
  have one: "qct_loc_eng_inject_xtra_data_one m dat s = xtra_loop m dat ?n 1 0 s"
    using total_parts [OF dat] by (simp add: qct_loc_eng_inject_xtra_data_one_def)
  have n: "64 < ?n" using blocks_cover [OF dat] assms(2) by simp
  have "(word_of_nat (1024 * 64) :: u16) = 0" "(word_of_nat (Suc 64) :: byte) = 65" by simp_all
  then obtain s' where s': "xtra_loop m dat ?n 1 0 s = xtra_loop m dat ?n 65 0 s'"
    using xtra_loop_reaches [OF assms(1,2) n, of 64 s] by (metis order_refl)
  have "rpc_loc_predicted_orbits_data_s_type.data_ptr (xtra_part dat ?n 65 0) = \<lparr>len = 1024, val = Some (take 1024 dat)\<rparr>"
    using assms(2) by (simp add: xtra_part_def Let_def XTRA_BLOCK_SIZE_def)
  moreover have "xtra_loop m dat ?n 1 0 s = None" if "261120 < length dat"
  proof (rule ccontr)
    assume "xtra_loop m dat ?n 1 0 s \<noteq> None"
    then obtain r where "xtra_loop m dat ?n 1 0 s = Some r" by auto
    moreover have "255 < ?n" using blocks_cover [OF dat] that by simp
    ultimately show False using xtra_loop_endless assms(1) by blast
  qed
  ultimately show ?thesis using one n s' by (intro conjI exI [of _ ?n] exI [of _ s'] impI) simp_all
qed

theorem long_xtra_file_restarts_witness:
  "qct_loc_eng_inject_xtra_data_one accepting (replicate 300000 0) (zero_engine []) = None"
proof -
  have "fst (m_ioctl accepting h k v w) = 0" for h k v w by simp
  from conjunct2 [OF long_xtra_file_restarts [of accepting "replicate 300000 0" "zero_engine []", OF this]]
  show ?thesis by simp
qed

end
