(* ===== verification/LocEngNi.thy ===== *)
theory LocEngNi
  imports LocEngData "HOL-Library.Monad_Syntax"
begin

text \<open>
  Network-initiated requests, libloc_api/loc_eng_ni.cpp: the modem asks for the position of the
  phone, the engine notifies the user and a thread sends the answer back, the user's or "no
  response" when none came in time. Strings are byte lists without their terminator; the sizes of
  the fields of a notification, which hardware/gps.h gives, are parameters. A function that would
  read outside an array, or that would block for ever on a mutex, returns None.
\<close>

section \<open>Constants\<close>

definition RPC_LOC_NI_USER_NO_NOTIFY_NO_VERIFY :: u32 where "RPC_LOC_NI_USER_NO_NOTIFY_NO_VERIFY = 1"
definition RPC_LOC_NI_USER_NOTIFY_ONLY :: u32 where "RPC_LOC_NI_USER_NOTIFY_ONLY = 2"
definition RPC_LOC_NI_USER_NOTIFY_VERIFY_ALLOW_NO_RESP :: u32 where
  "RPC_LOC_NI_USER_NOTIFY_VERIFY_ALLOW_NO_RESP = 3"
definition RPC_LOC_NI_USER_NOTIFY_VERIFY_NOT_ALLOW_NO_RESP :: u32 where
  "RPC_LOC_NI_USER_NOTIFY_VERIFY_NOT_ALLOW_NO_RESP = 4"
definition RPC_LOC_NI_USER_PRIVACY_OVERRIDE :: u32 where "RPC_LOC_NI_USER_PRIVACY_OVERRIDE = 5"

definition RPC_LOC_NI_LCS_NOTIFY_VERIFY_ACCEPT :: u32 where "RPC_LOC_NI_LCS_NOTIFY_VERIFY_ACCEPT = 1"
definition RPC_LOC_NI_LCS_NOTIFY_VERIFY_DENY :: u32 where "RPC_LOC_NI_LCS_NOTIFY_VERIFY_DENY = 2"
definition RPC_LOC_NI_LCS_NOTIFY_VERIFY_NORESP :: u32 where "RPC_LOC_NI_LCS_NOTIFY_VERIFY_NORESP = 3"

definition RPC_LOC_NI_SS_LANGUAGE_UNSPEC :: u32 where "RPC_LOC_NI_SS_LANGUAGE_UNSPEC = 27"
definition RPC_LOC_NI_SUPL_UTF8 :: u32 where "RPC_LOC_NI_SUPL_UTF8 = 28"
definition RPC_LOC_NI_SUPL_UCS2 :: u32 where "RPC_LOC_NI_SUPL_UCS2 = 29"
definition RPC_LOC_NI_SUPL_GSM_DEFAULT :: u32 where "RPC_LOC_NI_SUPL_GSM_DEFAULT = 30"

definition RPC_LOC_NI_CLIENT_NAME_PRESENT :: u16 where "RPC_LOC_NI_CLIENT_NAME_PRESENT = 0x0001"
definition RPC_LOC_NI_REQUESTOR_ID_PRESENT :: u16 where "RPC_LOC_NI_REQUESTOR_ID_PRESENT = 0x0020"
definition RPC_LOC_NI_ENCODING_TYPE_PRESENT :: u16 where "RPC_LOC_NI_ENCODING_TYPE_PRESENT = 0x0100"

definition LOC_NI_NO_RESPONSE_TIME :: int where "LOC_NI_NO_RESPONSE_TIME = 20"

text \<open>The characters of \<open>LOC_NI_NOTIF_KEY_ADDRESS\<close> and " = ".\<close>

definition LOC_NI_NOTIF_KEY_ADDRESS :: "byte list" where
  "LOC_NI_NOTIF_KEY_ADDRESS = [65, 100, 100, 114, 101, 115, 115]"

record ni_sizes =
  short_string :: nat
  long_string :: nat

section \<open>Decoding strings\<close>

text \<open>\<open>%02X\<close>\<close>

definition hex_digit :: "byte \<Rightarrow> byte" where
  "hex_digit d = (if d < 10 then 48 + d else 55 + d)"

text \<open>The loop of \<open>hexcode\<close> from index \<open>i\<close> on, \<open>left\<close> more bytes to go.\<close>

fun hexcode_loop :: "nat \<Rightarrow> byte list \<Rightarrow> nat \<Rightarrow> nat \<Rightarrow> byte list \<Rightarrow> (nat \<times> byte list) option" where
  "hexcode_loop string_size dat i 0 hexstring = Some (i, hexstring)"
| "hexcode_loop string_size dat i (Suc left) hexstring =
     (if i \<ge> length dat then None
      else let ch = dat ! i in
        if i * 2 + 3 \<le> string_size
        then hexcode_loop string_size dat (Suc i) left
          (hexstring[i * 2 := hex_digit (drop_bit 4 ch), i * 2 + 1 := hex_digit (ch AND 15), i * 2 + 2 := 0])
        else Some (i, hexstring))"

definition hexcode :: "byte list \<Rightarrow> nat \<Rightarrow> byte list \<Rightarrow> nat \<Rightarrow> (nat \<times> byte list) option" where
  "hexcode hexstring string_size dat nbytes = hexcode_loop string_size dat 0 nbytes hexstring"

text \<open>The string a zero-terminated buffer holds.\<close>

definition c_string :: "byte list \<Rightarrow> byte list" where
  "c_string buf = takeWhile (\<lambda>c. c \<noteq> 0) buf"

text \<open>\<open>put\<close>: append a digit if it is one and there is room.\<close>

definition put_digit :: "nat \<Rightarrow> byte \<Rightarrow> byte list \<Rightarrow> byte list" where
  "put_digit string_size d out = (if d \<le> 9 \<and> length out + 1 < string_size then out @ [d + 48] else out)"

fun decode_digits :: "nat \<Rightarrow> byte list \<Rightarrow> byte list \<Rightarrow> byte list" where
  "decode_digits string_size [] out = out"
| "decode_digits string_size (ch # chs) out =
     decode_digits string_size chs (put_digit string_size (drop_bit 4 ch) (put_digit string_size (ch AND 15) out))"

text \<open>The string that is left in \<open>addr_string\<close>; its length is the result.\<close>

definition decode_address :: "nat \<Rightarrow> byte list \<Rightarrow> nat \<Rightarrow> byte list option" where
  "decode_address string_size dat nbytes =
     (if dat = [] then None
      else if dat ! 0 \<noteq> 0x91 then Some []
      else if nbytes > length dat then None
      else Some (decode_digits string_size (drop 1 (take nbytes dat)) []))"

definition convert_encoding_type :: "u32 \<Rightarrow> GpsNiEncodingType" where
  "convert_encoding_type enc =
     (if enc = RPC_LOC_NI_SUPL_UTF8 then GPS_ENC_SUPL_UTF8
      else if enc = RPC_LOC_NI_SUPL_UCS2 then GPS_ENC_SUPL_UCS2
      else if enc = RPC_LOC_NI_SUPL_GSM_DEFAULT then GPS_ENC_SUPL_GSM_DEFAULT
      else if enc = RPC_LOC_NI_SS_LANGUAGE_UNSPEC then GPS_ENC_SUPL_GSM_DEFAULT
      else GPS_ENC_UNKNOWN)"

section \<open>Notifying the user\<close>

definition loc_ni_fill_notif_verify_type :: "GpsNiNotification \<Rightarrow> u32 \<Rightarrow> bool \<times> GpsNiNotification" where
  "loc_ni_fill_notif_verify_type notif notif_priv =
     (let n = notif\<lparr>notify_flags := {}, default_response := GPS_NI_RESPONSE_NORESP\<rparr> in
      if notif_priv = RPC_LOC_NI_USER_NO_NOTIFY_NO_VERIFY then (True, n)
      else if notif_priv = RPC_LOC_NI_USER_NOTIFY_ONLY then (True, n\<lparr>notify_flags := {GPS_NI_NEED_NOTIFY}\<rparr>)
      else if notif_priv = RPC_LOC_NI_USER_NOTIFY_VERIFY_ALLOW_NO_RESP
      then (True, n\<lparr>notify_flags := {GPS_NI_NEED_NOTIFY, GPS_NI_NEED_VERIFY},
             default_response := GPS_NI_RESPONSE_ACCEPT\<rparr>)
      else if notif_priv = RPC_LOC_NI_USER_NOTIFY_VERIFY_NOT_ALLOW_NO_RESP
      then (True, n\<lparr>notify_flags := {GPS_NI_NEED_NOTIFY, GPS_NI_NEED_VERIFY},
             default_response := GPS_NI_RESPONSE_DENY\<rparr>)
      else if notif_priv = RPC_LOC_NI_USER_PRIVACY_OVERRIDE
      then (True, n\<lparr>notify_flags := {GPS_NI_PRIVACY_OVERRIDE}\<rparr>)
      else (False, n))"

text \<open>The three kinds of notification; the fields of \<open>notif\<close> that are arrays are cleared first.\<close>

definition hex_field :: "nat \<Rightarrow> byte list \<Rightarrow> byte \<Rightarrow> byte list option" where
  "hex_field sz dat n = map_option (\<lambda>r. c_string (snd r)) (hexcode (replicate sz 0) sz dat (unat n))"

definition fill_vx :: "ni_sizes \<Rightarrow> rpc_loc_ni_vx_notify_verify_req_s_type \<Rightarrow> GpsNiNotification
    \<Rightarrow> GpsNiNotification option" where
  "fill_vx z req notif = do {
     rid \<leftarrow> hex_field (short_string z) (rpc_loc_ni_vx_requester_id_s_type.requester_id (requester_id req))
       (requester_id_length (requester_id req));
     Some (snd (loc_ni_fill_notif_verify_type
       (notif\<lparr>ni_type := GPS_NI_TYPE_VOICE, ni_timeout := LOC_NI_NO_RESPONSE_TIME, ni_extras := [], ni_text := [],
          ni_requestor_id := rid, text_encoding := GPS_ENC_NONE,
          requestor_id_encoding := convert_encoding_type (encoding_scheme req)\<rparr>)
       (rpc_loc_ni_vx_notify_verify_req_s_type.notification_priv_type req)))
   }"

definition fill_umts_cp :: "ni_sizes \<Rightarrow> rpc_loc_ni_umts_cp_notify_verify_req_s_type \<Rightarrow> GpsNiNotification
    \<Rightarrow> GpsNiNotification option" where
  "fill_umts_cp z req notif = do {
     txt \<leftarrow> hex_field (long_string z) (notification_text req) (notification_length req);
     rid \<leftarrow> hex_field (short_string z)
       (requestor_id_string (rpc_loc_ni_umts_cp_notify_verify_req_s_type.requestor_id req))
       (rpc_loc_ni_requestor_id_s_type.string_len (rpc_loc_ni_umts_cp_notify_verify_req_s_type.requestor_id req));
     let enc = convert_encoding_type (rpc_loc_ni_umts_cp_notify_verify_req_s_type.datacoding_scheme req);
     let a = ext_client_address_data req;
     ext \<leftarrow> (if ext_client_address_len a \<noteq> 0 then do {
              addr \<leftarrow> decode_address 32 (ext_client_address a) (unat (ext_client_address_len a));
              Some (take (long_string z - 1) (LOC_NI_NOTIF_KEY_ADDRESS @ [32, 61, 32] @ addr))
            } else Some []);
     Some (snd (loc_ni_fill_notif_verify_type
       (notif\<lparr>ni_type := GPS_NI_TYPE_UMTS_CTRL_PLANE, ni_timeout := LOC_NI_NO_RESPONSE_TIME, ni_extras := ext,
          ni_text := txt, ni_requestor_id := rid, text_encoding := enc, requestor_id_encoding := enc\<rparr>)
       (rpc_loc_ni_umts_cp_notify_verify_req_s_type.notification_priv_type req)))
   }"

definition fill_supl :: "ni_sizes \<Rightarrow> rpc_loc_ni_supl_notify_verify_req_s_type \<Rightarrow> GpsNiNotification
    \<Rightarrow> GpsNiNotification option" where
  "fill_supl z req notif = do {
     let fl = rpc_loc_ni_supl_notify_verify_req_s_type.flags req;
     let cn = client_name req;
     let ri = rpc_loc_ni_supl_notify_verify_req_s_type.requestor_id req;
     txt \<leftarrow> (if fl AND RPC_LOC_NI_CLIENT_NAME_PRESENT \<noteq> 0
            then hex_field (long_string z) (client_name_string cn) (rpc_loc_ni_supl_client_name_s_type.string_len cn)
            else Some []);
     rid \<leftarrow> (if fl AND RPC_LOC_NI_REQUESTOR_ID_PRESENT \<noteq> 0
            then hex_field (short_string z) (requestor_id_string ri) (rpc_loc_ni_requestor_id_s_type.string_len ri)
            else Some []);
     let enc = (if fl AND RPC_LOC_NI_ENCODING_TYPE_PRESENT \<noteq> 0
       then convert_encoding_type (rpc_loc_ni_supl_notify_verify_req_s_type.datacoding_scheme req)
       else GPS_ENC_UNKNOWN);
     Some (snd (loc_ni_fill_notif_verify_type
       (notif\<lparr>ni_type := GPS_NI_TYPE_UMTS_SUPL, ni_timeout := LOC_NI_NO_RESPONSE_TIME, ni_extras := [],
          ni_text := txt, ni_requestor_id := rid, text_encoding := enc, requestor_id_encoding := enc\<rparr>)
       (rpc_loc_ni_supl_notify_verify_req_s_type.notification_priv_type req)))
   }"

text \<open>
  The notification for a request and its privacy type, by the event of the request: None for an
  unknown event, Some None when the payload is not the member that the event announces.
\<close>

definition ni_notification ::
    "ni_sizes \<Rightarrow> rpc_loc_ni_event_s_type \<Rightarrow> GpsNiNotification \<Rightarrow> (GpsNiNotification \<times> u32) option option" where
  "ni_notification z req notif =
     (let e = rpc_loc_ni_event_s_type.event req; pl = arm (rpc_loc_ni_event_s_type.payload req) in
      if e = RPC_LOC_NI_EVENT_VX_NOTIFY_VERIFY_REQ
      then Some (case pl of ni_event_payload_vx_req r \<Rightarrow>
        map_option (\<lambda>n. (n, rpc_loc_ni_vx_notify_verify_req_s_type.notification_priv_type r)) (fill_vx z r notif) | _ \<Rightarrow> None)
      else if e = RPC_LOC_NI_EVENT_UMTS_CP_NOTIFY_VERIFY_REQ
      then Some (case pl of ni_event_payload_umts_cp_req r \<Rightarrow>
        map_option (\<lambda>n. (n, rpc_loc_ni_umts_cp_notify_verify_req_s_type.notification_priv_type r)) (fill_umts_cp z r notif) | _ \<Rightarrow> None)
      else if e = RPC_LOC_NI_EVENT_SUPL_NOTIFY_VERIFY_REQ
      then Some (case pl of ni_event_payload_supl_req r \<Rightarrow>
        map_option (\<lambda>n. (n, rpc_loc_ni_supl_notify_verify_req_s_type.notification_priv_type r)) (fill_supl z r notif) | _ \<Rightarrow> None)
      else None)"

abbreviation on_ni :: "(loc_eng_ni_data_s_type \<Rightarrow> loc_eng_ni_data_s_type) \<Rightarrow> 'w engine \<Rightarrow> 'w engine" where
  "on_ni f s \<equiv> s\<lparr>loc_eng_ni_data := f (loc_eng_ni_data s)\<rparr>"

text \<open>
  \<open>rand\<close> is the random number, \<open>created\<close> whether the thread could be created, \<open>junk\<close> the
  uninitialised notification.
\<close>

definition loc_ni_request_handler ::
    "ni_sizes \<Rightarrow> int \<Rightarrow> bool \<Rightarrow> GpsNiNotification \<Rightarrow> rpc_loc_ni_event_s_type \<Rightarrow> 'w engine \<Rightarrow> 'w engine option" where
  "loc_ni_request_handler z rand created junk req s =
     (if notif_in_progress (loc_eng_ni_data s) then Some s
      else if loc_ni_lock (loc_eng_ni_data s) then None
      else
        let s1 = on_ni (\<lambda>d. d\<lparr>loc_ni_lock := True, loc_ni_request := req, notif_in_progress := True,
              current_notif_id := \<bar>rand\<bar>\<rparr>) s
        in case ni_notification z req (junk\<lparr>notification_id := \<bar>rand\<bar>\<rparr>) of
          None \<Rightarrow> Some s1
        | Some None \<Rightarrow> None
        | Some (Some (notif, priv)) \<Rightarrow>
            let s2 = (if priv = RPC_LOC_NI_USER_PRIVACY_OVERRIDE then loc_eng_mute_one_session s1 else s1);
                s3 = on_ni (\<lambda>d. d\<lparr>response_time_left := 5 + (if ni_timeout notif \<noteq> 0 then ni_timeout notif
                       else LOC_NI_NO_RESPONSE_TIME),
                     ni_threads := ni_threads d @ (if created then [False] else []), loc_ni_lock := False\<rparr>) s2
            in Some (if ni_notify_cb (eng s3) then tell (NiNotify notif) s3 else s3))"

definition loc_eng_ni_callback ::
    "ni_sizes \<Rightarrow> int \<Rightarrow> bool \<Rightarrow> GpsNiNotification \<Rightarrow> u64 \<Rightarrow> rpc_loc_event_payload_u_type \<Rightarrow> 'w engine \<Rightarrow> 'w engine option" where
  "loc_eng_ni_callback z rand created junk ev pl s =
     (if ev \<noteq> RPC_LOC_EVENT_NI_NOTIFY_VERIFY_REQUEST then Some s
      else case arm pl of
        event_payload_ni_request req \<Rightarrow>
          if rpc_loc_ni_event_s_type.event req \<in> {RPC_LOC_NI_EVENT_VX_NOTIFY_VERIFY_REQ,
            RPC_LOC_NI_EVENT_UMTS_CP_NOTIFY_VERIFY_REQ, RPC_LOC_NI_EVENT_SUPL_NOTIFY_VERIFY_REQ}
          then loc_ni_request_handler z rand created junk req s
          else Some s
      | _ \<Rightarrow> None)"

section \<open>Answering\<close>

definition loc_ni_respond :: "'w modem \<Rightarrow> u32 \<Rightarrow> rpc_loc_ni_event_s_type \<Rightarrow> 'w engine \<Rightarrow> 'w engine" where
  "loc_ni_respond m resp request_pass_back s =
     snd (loc_eng_ioctl m (client_handle (eng s)) RPC_LOC_IOCTL_INFORM_NI_USER_RESPONSE
       \<lparr>disc = 0, arm = ioctl_data_user_verify_resp
          \<lparr>user_resp = resp, ni_event_pass_back = request_pass_back\<rparr>\<rparr>
       LOC_IOCTL_DEFAULT_TIMEOUT s)"

definition loc_ni_process_user_response :: "GpsUserResponseType \<Rightarrow> 'w engine \<Rightarrow> int \<times> 'w engine" where
  "loc_ni_process_user_response userResponse s =
     (case (case userResponse of
              GPS_NI_RESPONSE_ACCEPT \<Rightarrow> Some RPC_LOC_NI_LCS_NOTIFY_VERIFY_ACCEPT
            | GPS_NI_RESPONSE_DENY \<Rightarrow> Some RPC_LOC_NI_LCS_NOTIFY_VERIFY_DENY
            | GPS_NI_RESPONSE_NORESP \<Rightarrow> Some RPC_LOC_NI_LCS_NOTIFY_VERIFY_NORESP
            | GPS_NI_RESPONSE_OTHER \<Rightarrow> None) of
        None \<Rightarrow> (-1, s)
      | Some r \<Rightarrow> (0, on_ni (\<lambda>d. d\<lparr>ni_resp := r, user_response_received := True\<rparr>) s))"

text \<open>The test of \<open>loc_eng_ni_respond\<close>, which takes no lock, and the whole function.\<close>

definition respond_matches :: "int \<Rightarrow> 'w engine \<Rightarrow> bool" where
  "respond_matches notif_id s \<longleftrightarrow> notif_id = current_notif_id (loc_eng_ni_data s) \<and> notif_in_progress (loc_eng_ni_data s)"

definition loc_eng_ni_respond :: "int \<Rightarrow> GpsUserResponseType \<Rightarrow> 'w engine \<Rightarrow> 'w engine" where
  "loc_eng_ni_respond notif_id user_response s =
     (if respond_matches notif_id s then snd (loc_ni_process_user_response user_response s) else s)"

text \<open>
  The response thread, in the two parts between which others can run: up to the unlock of
  \<open>user_cb_data_mutex\<close>, with \<open>timed_out\<close> telling how its wait ended, and the rest.
\<close>

definition ni_thread_answer :: "'w modem \<Rightarrow> bool \<Rightarrow> 'w engine \<Rightarrow> 'w engine" where
  "ni_thread_answer m timed_out s =
     (let s1 = (if timed_out then on_ni (ni_resp_update (\<lambda>_. RPC_LOC_NI_LCS_NOTIFY_VERIFY_NORESP)) s else s);
          s2 = (if user_response_received (loc_eng_ni_data s1)
                then on_ni (user_response_received_update (\<lambda>_. False)) s1 else s1)
      in loc_ni_respond m (ni_resp (loc_eng_ni_data s2)) (loc_ni_request (loc_eng_ni_data s2)) s2)"

definition ni_thread_finish :: "'w engine \<Rightarrow> 'w engine" where
  "ni_thread_finish s =
     on_ni (\<lambda>d. d\<lparr>notif_in_progress := False, response_time_left := 0, current_notif_id := -1\<rparr>) s"

definition loc_eng_ni_init :: "bool \<Rightarrow> 'w engine \<Rightarrow> 'w engine" where
  "loc_eng_ni_init cb s =
     on_eng (ni_notify_cb_update (\<lambda>_. cb))
       (on_ni (\<lambda>d. d\<lparr>notif_in_progress := False, current_notif_id := -1, response_time_left := 0,
          user_response_received := False\<rparr>) s)"

section \<open>What the user is shown\<close>

definition hex2 :: "byte \<Rightarrow> byte list" where
  "hex2 ch = [hex_digit (drop_bit 4 ch), hex_digit (ch AND 15)]"

definition hex :: "byte list \<Rightarrow> byte list" where
  "hex dat = concat (map hex2 dat)"

lemma hex_simps [simp]: "hex [] = []" "hex (xs @ ys) = hex xs @ hex ys" "length (hex xs) = 2 * length xs"
  "hex [c] = hex2 c"
  by (induction xs) (simp_all add: hex_def hex2_def)

lemma hex_digit_nonzero: "d \<le> 15 \<Longrightarrow> hex_digit d \<noteq> 0"
proof -
  assume "d \<le> 15"
  then have "unat d \<le> 15" by (simp add: word_le_nat_alt)
  then have "unat (hex_digit d) \<noteq> 0"
    by (auto simp: hex_digit_def word_less_nat_alt unat_word_ariths)
  then show ?thesis by auto
qed

lemma hex2_nonzero: "0 \<notin> set (hex2 ch)"
proof -
  have "unat ch < 256" using unsigned_less [of ch, where 'a = nat] by simp
  then have "unat ch div 16 \<le> 15" by presburger
  then have "drop_bit 4 ch \<le> 15" by (simp add: word_le_nat_alt drop_bit_eq_div unat_div)
  moreover have "ch AND 15 \<le> 15" by (rule word_and_le1)
  ultimately show ?thesis using hex_digit_nonzero by (auto simp: hex2_def dest: sym)
qed

lemma hex_nonzero: "0 \<notin> set (hex dat)"
  using hex2_nonzero by (auto simp: hex_def)

lemma c_string_hex [simp]: "c_string (hex dat @ replicate n 0) = hex dat"
proof -
  have "takeWhile (\<lambda>c. c \<noteq> 0) (hex dat @ replicate n 0) = hex dat @ takeWhile (\<lambda>c. c \<noteq> 0) (replicate n (0 :: byte))"
    using hex_nonzero [of dat] by (intro takeWhile_append2) auto
  moreover have "takeWhile (\<lambda>c. c \<noteq> 0) (replicate n (0 :: byte)) = []" by (cases n) auto
  ultimately show ?thesis by (simp add: c_string_def)
qed

text \<open>Room for \<open>(sz - 1) div 2\<close> bytes; one more byte than is shown may be read.\<close>

lemma hexcode_loop_value:
  assumes "2 * i < sz" "hs = hex (take i dat) @ replicate (sz - 2 * i) 0" "i \<le> length dat"
  shows "hexcode_loop sz dat i left hs =
     (if min (i + left) ((sz - 1) div 2 + 1) \<le> length dat
      then let r = min (i + left) ((sz - 1) div 2) in Some (r, hex (take r dat) @ replicate (sz - 2 * r) 0)
      else None)"
  using assms
proof (induction left arbitrary: i hs)
  case 0
  then have "min i ((sz - 1) div 2) = i" by linarith
  then show ?case using 0 by (auto simp: min_def)
next
  case (Suc left)
  show ?case
  proof (cases "i < length dat \<and> i * 2 + 3 \<le> sz")
    case True
    have l: "length (hex (take i dat)) = 2 * i" using True by simp
    obtain k where k: "sz = 2 * i + 3 + k" using True by (metis le_iff_add mult.commute)
    have t: "take (Suc i) dat = take i dat @ [dat ! i]" using True by (simp add: take_Suc_conv_app_nth)
    have r: "replicate (sz - 2 * i) 0 = 0 # 0 # 0 # replicate k (0 :: byte)"
      "replicate (sz - 2 * Suc i) 0 = 0 # replicate k (0 :: byte)" using k by (simp_all add: numeral_3_eq_3)
    have w: "hs[i * 2 := hex_digit (drop_bit 4 (dat ! i)), i * 2 + 1 := hex_digit (dat ! i AND 15), i * 2 + 2 := 0]
        = hex (take (Suc i) dat) @ replicate (sz - 2 * Suc i) 0"
      unfolding Suc.prems(2) r t hex_simps hex2_def
      using l by (simp add: list_update_append mult.commute numeral_2_eq_2)
    have "hexcode_loop sz dat i (Suc left) hs
        = hexcode_loop sz dat (Suc i) left (hex (take (Suc i) dat) @ replicate (sz - 2 * Suc i) 0)"
      using True w by (simp add: Let_def)
    also have "\<dots> = (if min (Suc i + left) ((sz - 1) div 2 + 1) \<le> length dat
      then let r = min (Suc i + left) ((sz - 1) div 2) in Some (r, hex (take r dat) @ replicate (sz - 2 * r) 0)
      else None)"
      using True by (intro Suc.IH) auto
    finally show ?thesis by simp
  next
    case False
    consider "length dat \<le> i" | "i < length dat" "sz < i * 2 + 3" using False by linarith
    then show ?thesis
    proof cases
      case 1
      then have "length dat < min (i + Suc left) ((sz - 1) div 2 + 1)" using Suc.prems(1) by linarith
      then show ?thesis using 1 by simp
    next
      case 2
      then have "(sz - 1) div 2 = i" using Suc.prems(1) by linarith
      then show ?thesis using 2 Suc.prems by (simp add: Let_def)
    qed
  qed
qed

lemma hex_field_value:
  assumes "0 < sz"
  shows "hex_field sz dat n =
     (if min (unat n) ((sz - 1) div 2 + 1) \<le> length dat
      then Some (hex (take (min (unat n) ((sz - 1) div 2)) dat)) else None)"
  using hexcode_loop_value [of 0 sz "replicate sz 0" dat "unat n"] assms
  by (simp add: hex_field_def hexcode_def Let_def)

text \<open>
  What the user is shown, and the array overruns. For a request with the arrays of the wire
  format and a notification with a short string of 256 and a long one of 2048 bytes, the name and
  the identifier of the requestor are shown in hexadecimal, the identifier cut to 127 bytes. The
  length fields come from the modem and are not compared with the arrays: a client name of more
  than 64 bytes, or a text of more than 64 or an address of more than 20 in a control-plane request,
  makes the engine read past the end of the request.
\<close>

theorem notification_text_bounds:
  assumes "z = \<lparr>short_string = 256, long_string = 2048\<rparr>" and "length (client_name_string (client_name q)) = 64"
    and "length (requestor_id_string (rpc_loc_ni_supl_notify_verify_req_s_type.requestor_id q)) = 200"
    and "length (notification_text u) = 64" and "length (ext_client_address (ext_client_address_data u)) = 20"
    and "length (requestor_id_string (rpc_loc_ni_umts_cp_notify_verify_req_s_type.requestor_id u)) = 200"
  shows "(case fill_supl z q notif of
      None \<Rightarrow> rpc_loc_ni_supl_notify_verify_req_s_type.flags q AND RPC_LOC_NI_CLIENT_NAME_PRESENT \<noteq> 0
        \<and> 64 < unat (rpc_loc_ni_supl_client_name_s_type.string_len (client_name q))
    | Some n \<Rightarrow>
        ni_text n = (if rpc_loc_ni_supl_notify_verify_req_s_type.flags q AND RPC_LOC_NI_CLIENT_NAME_PRESENT = 0 then []
          else hex (take (unat (rpc_loc_ni_supl_client_name_s_type.string_len (client_name q))) (client_name_string (client_name q))))
        \<and> ni_requestor_id n = (if rpc_loc_ni_supl_notify_verify_req_s_type.flags q AND RPC_LOC_NI_REQUESTOR_ID_PRESENT = 0 then []
          else hex (take (min 127 (unat (rpc_loc_ni_requestor_id_s_type.string_len
              (rpc_loc_ni_supl_notify_verify_req_s_type.requestor_id q))))
            (requestor_id_string (rpc_loc_ni_supl_notify_verify_req_s_type.requestor_id q)))))
    \<and> (fill_umts_cp z u notif = None \<longleftrightarrow> 64 < unat (notification_length u)
      \<or> (20 < unat (ext_client_address_len (ext_client_address_data u))
          \<and> ext_client_address (ext_client_address_data u) ! 0 = 0x91))"
proof
  let ?f = "rpc_loc_ni_supl_notify_verify_req_s_type.flags q"
  have n: "unat (w :: byte) < 256" for w using unsigned_less [of w, where 'a = nat] by simp
  note v = hex_field_value [of "long_string z"] hex_field_value [of "short_string z"]
  have fv: "ni_text (snd (loc_ni_fill_notif_verify_type x p)) = ni_text x"
    "ni_requestor_id (snd (loc_ni_fill_notif_verify_type x p)) = ni_requestor_id x" for x p
    by (simp_all add: loc_ni_fill_notif_verify_type_def Let_def)
  have m: "min (unat (w :: byte)) 1023 = unat w" "min (unat w) 1024 = unat w" "min (unat w) 128 \<le> 200" for w
    using n [of w] by auto
  show "case fill_supl z q notif of
      None \<Rightarrow> ?f AND RPC_LOC_NI_CLIENT_NAME_PRESENT \<noteq> 0
        \<and> 64 < unat (rpc_loc_ni_supl_client_name_s_type.string_len (client_name q))
    | Some n \<Rightarrow>
        ni_text n = (if ?f AND RPC_LOC_NI_CLIENT_NAME_PRESENT = 0 then []
          else hex (take (unat (rpc_loc_ni_supl_client_name_s_type.string_len (client_name q))) (client_name_string (client_name q))))
        \<and> ni_requestor_id n = (if ?f AND RPC_LOC_NI_REQUESTOR_ID_PRESENT = 0 then []
          else hex (take (min 127 (unat (rpc_loc_ni_requestor_id_s_type.string_len
              (rpc_loc_ni_supl_notify_verify_req_s_type.requestor_id q))))
            (requestor_id_string (rpc_loc_ni_supl_notify_verify_req_s_type.requestor_id q))))"
    using assms(1-3) v by (auto simp: fill_supl_def Let_def fv m min.commute)
  show "fill_umts_cp z u notif = None \<longleftrightarrow> 64 < unat (notification_length u)
      \<or> (20 < unat (ext_client_address_len (ext_client_address_data u))
          \<and> ext_client_address (ext_client_address_data u) ! 0 = 0x91)"
    using assms(1,4-6) v n [of "ext_client_address_len (ext_client_address_data u)"]
    by (auto simp: fill_umts_cp_def Let_def m decode_address_def unat_eq_zero split: bind_splits)
qed

theorem notification_text_bounds_witness:
  "\<forall>notif. fill_umts_cp \<lparr>short_string = 256, long_string = 2048\<rparr>
    (zero_rpc_loc_ni_umts_cp_notify_verify_req_s_type\<lparr>notification_length := 65\<rparr>) notif = None"
proof
  fix notif :: GpsNiNotification
  let ?q = "zero_rpc_loc_ni_supl_notify_verify_req_s_type"
  let ?u = "zero_rpc_loc_ni_umts_cp_notify_verify_req_s_type\<lparr>notification_length := 65\<rparr>"
  have "length (client_name_string (client_name ?q)) = 64"
    "length (requestor_id_string (rpc_loc_ni_supl_notify_verify_req_s_type.requestor_id ?q)) = 200"
    by (simp_all add: zero_rpc_loc_ni_supl_notify_verify_req_s_type_def zero_rpc_loc_ni_supl_client_name_s_type_def
        zero_rpc_loc_ni_requestor_id_s_type_def)
  moreover have "length (notification_text ?u) = 64" "length (ext_client_address (ext_client_address_data ?u)) = 20"
    "length (requestor_id_string (rpc_loc_ni_umts_cp_notify_verify_req_s_type.requestor_id ?u)) = 200"
    by (simp_all add: zero_rpc_loc_ni_umts_cp_notify_verify_req_s_type_def zero_rpc_loc_ni_ext_client_address_s_type_def
        zero_rpc_loc_ni_requestor_id_s_type_def)
  ultimately show "fill_umts_cp \<lparr>short_string = 256, long_string = 2048\<rparr> ?u notif = None"
    using conjunct2 [OF notification_text_bounds [OF refl, of ?q ?u notif]] by simp
qed

section \<open>Runs\<close>

text \<open>
  A modem that accepts or refuses a request as \<open>rc\<close> says, which sees all earlier requests; the world lists
  the requests.
\<close>

definition answering :: "(modem_request list \<Rightarrow> u32 \<Rightarrow> u32 \<Rightarrow> rpc_loc_ioctl_data_u_type \<Rightarrow> int) \<Rightarrow> modem_request list modem" where
  "answering rc = accepting\<lparr>m_sync_ioctl := \<lambda>h k v t w. (rc w h k v, w @ [AskSync h k v])\<rparr>"

lemma answering_sync [simp]: "m_sync_ioctl (answering rc) h k v t w = (rc w h k v, w @ [AskSync h k v])"
  by (simp add: answering_def)

text \<open>The request that an event carries.\<close>

definition request_of :: "rpc_loc_event_payload_u_type \<Rightarrow> rpc_loc_ni_event_s_type list" where
  "request_of pl = (case arm pl of event_payload_ni_request req \<Rightarrow> [req] | _ \<Rightarrow> [])"

lemma request_of [simp]: "arm pl = event_payload_ni_request req \<Longrightarrow> request_of pl = [req]"
  by (simp add: request_of_def)

text \<open>
  The engine, the user's answers that passed the test of \<open>loc_eng_ni_respond\<close> and wait for the
  mutex, the requests that arrived while none was open and the answers the user gave, by notification.
\<close>

record ni_system =
  ni_engine :: "modem_request list engine"
  user_waiting :: "GpsUserResponseType list"
  ni_accepted :: "rpc_loc_ni_event_s_type list"
  user_log :: "(int \<times> GpsUserResponseType) list"

abbreviation nid :: "ni_system \<Rightarrow> loc_eng_ni_data_s_type" where
  "nid t \<equiv> loc_eng_ni_data (ni_engine t)"

inductive ni_step :: "(modem_request list \<Rightarrow> u32 \<Rightarrow> u32 \<Rightarrow> rpc_loc_ioctl_data_u_type \<Rightarrow> int) \<Rightarrow> ni_sizes \<Rightarrow> ni_system \<Rightarrow> ni_system \<Rightarrow> bool" for rc z where
  request: "loc_eng_ni_callback z rand created junk ev pl (ni_engine t) = Some e
    \<Longrightarrow> ni_step rc z t (t\<lparr>ni_engine := e, ni_accepted := ni_accepted t @
          (if notif_in_progress (loc_eng_ni_data e) \<and> \<not> notif_in_progress (nid t)
           then request_of pl else [])\<rparr>)"
| check: "respond_matches i (ni_engine t)
    \<Longrightarrow> ni_step rc z t (t\<lparr>user_waiting := user_waiting t @ [r], user_log := user_log t @ [(i, r)]\<rparr>)"
| respond: "user_waiting t = rs @ r # rs'
    \<Longrightarrow> ni_step rc z t (t\<lparr>ni_engine := snd (loc_ni_process_user_response r (ni_engine t)), user_waiting := rs @ rs'\<rparr>)"
| answer: "ni_threads (nid t) = bs @ False # bs' \<Longrightarrow> timed_out \<or> user_response_received (nid t)
    \<Longrightarrow> ni_step rc z t (t\<lparr>ni_engine := on_ni (ni_threads_update (\<lambda>_. bs @ True # bs'))
          (ni_thread_answer (answering rc) timed_out (ni_engine t))\<rparr>)"
| finish: "ni_threads (nid t) = bs @ True # bs'
    \<Longrightarrow> ni_step rc z t (t\<lparr>ni_engine := on_ni (ni_threads_update (\<lambda>_. bs @ bs')) (ni_thread_finish (ni_engine t))\<rparr>)"

text \<open>The answers in a log of requests: the response and the request that is passed back.\<close>

fun ni_answer :: "modem_request \<Rightarrow> (u32 \<times> rpc_loc_ni_event_s_type) option" where
  "ni_answer (AskSync h k v) =
     (case arm v of ioctl_data_user_verify_resp r \<Rightarrow> Some (user_resp r, ni_event_pass_back r) | _ \<Rightarrow> None)"
| "ni_answer _ = None"

definition ni_answers :: "modem_request list \<Rightarrow> (u32 \<times> rpc_loc_ni_event_s_type) list" where
  "ni_answers w = List.map_filter ni_answer w"

lemma ni_answers_append [simp]:
  "ni_answers [] = []" "ni_answers (w @ [q]) = ni_answers w @ (case ni_answer q of None \<Rightarrow> [] | Some a \<Rightarrow> [a])"
  by (auto simp: ni_answers_def List.map_filter_def split: option.splits)

text \<open>The request that is open: accepted, and no thread has sent its answer.\<close>

definition ni_open :: "loc_eng_ni_data_s_type \<Rightarrow> rpc_loc_ni_event_s_type list" where
  "ni_open d = (if notif_in_progress d \<and> ni_threads d \<noteq> [True] then [loc_ni_request d] else [])"

definition ni_inv :: "ni_system \<Rightarrow> bool" where
  "ni_inv t \<longleftrightarrow> \<not> loc_ni_lock (nid t)
     \<and> (if notif_in_progress (nid t) then ni_threads (nid t) \<in> {[], [False], [True]} else ni_threads (nid t) = [])
     \<and> ni_accepted t = map snd (ni_answers (world (ni_engine t))) @ ni_open (nid t)"

lemma mute_frame [simp]:
  "loc_eng_ni_data (loc_eng_mute_one_session s) = loc_eng_ni_data s" "world (loc_eng_mute_one_session s) = world s"
  by (simp_all add: loc_eng_mute_one_session_def)

definition ni_known :: "u32 \<Rightarrow> bool" where
  "ni_known ev \<longleftrightarrow> ev \<in> {RPC_LOC_NI_EVENT_VX_NOTIFY_VERIFY_REQ, RPC_LOC_NI_EVENT_UMTS_CP_NOTIFY_VERIFY_REQ,
     RPC_LOC_NI_EVENT_SUPL_NOTIFY_VERIFY_REQ}"

lemma known_notification: "ni_known (rpc_loc_ni_event_s_type.event req) \<Longrightarrow> ni_notification z req n \<noteq> None"
  by (auto simp: ni_notification_def ni_known_def Let_def)

lemma handler_cases:
  assumes "loc_ni_request_handler z rand created junk req s = Some e" "ni_known (rpc_loc_ni_event_s_type.event req)"
    and "\<not> notif_in_progress (loc_eng_ni_data s)"
  shows "world e = world s \<and> (\<exists>left. loc_eng_ni_data e = (loc_eng_ni_data s)\<lparr>loc_ni_lock := False,
      loc_ni_request := req, notif_in_progress := True, current_notif_id := \<bar>rand\<bar>, response_time_left := left,
      ni_threads := ni_threads (loc_eng_ni_data s) @ (if created then [False] else [])\<rparr>)"
proof -
  obtain notif priv where n: "ni_notification z req (junk\<lparr>notification_id := \<bar>rand\<bar>\<rparr>) = Some (Some (notif, priv))"
    using assms known_notification [OF assms(2), of z "junk\<lparr>notification_id := \<bar>rand\<bar>\<rparr>"]
    by (auto simp: loc_ni_request_handler_def Let_def split: if_splits option.splits)
  let ?left = "5 + (if ni_timeout notif \<noteq> 0 then ni_timeout notif else LOC_NI_NO_RESPONSE_TIME)"
  show ?thesis
    using assms(1,3) unfolding loc_ni_request_handler_def n Let_def
    by (intro conjI exI [of _ ?left] loc_eng_ni_data_s_type.equality) (simp_all split: if_splits, auto)
qed

lemma request_cases:
  assumes "loc_eng_ni_callback z rand created junk ev pl s = Some e"
  shows "e = s \<or> (\<not> notif_in_progress (loc_eng_ni_data s) \<and> world e = world s
    \<and> (\<exists>req left. arm pl = event_payload_ni_request req \<and> loc_eng_ni_data e = (loc_eng_ni_data s)\<lparr>loc_ni_lock := False,
        loc_ni_request := req, notif_in_progress := True, current_notif_id := \<bar>rand\<bar>, response_time_left := left,
        ni_threads := ni_threads (loc_eng_ni_data s) @ (if created then [False] else [])\<rparr>))"
proof (cases "e = s")
  case False
  then obtain req where req: "arm pl = event_payload_ni_request req" "ni_known (rpc_loc_ni_event_s_type.event req)"
    "loc_ni_request_handler z rand created junk req s = Some e"
    using assms unfolding ni_known_def [abs_def] loc_eng_ni_callback_def
    by (auto split: if_splits rpc_loc_event_payload_u_type_u.splits)
  moreover from req(3) False have "\<not> notif_in_progress (loc_eng_ni_data s)" by (auto simp: loc_ni_request_handler_def)
  ultimately show ?thesis using handler_cases [OF req(3,2)] by blast
qed simp

lemma ni_inv_step:
  assumes "ni_step rc z t u" "ni_inv t"
  shows "ni_inv u"
  using assms(1)
proof cases
  case (request rand created junk ev pl e)
  from request_cases [OF request(2)] show ?thesis
    using request(1) assms(2) by (elim disjE) (auto simp: ni_inv_def ni_open_def split: if_splits)
next
  case (check i r)
  then show ?thesis using assms(2) by (auto simp: ni_inv_def split: if_splits)
next
  case (respond rs r rs')
  then show ?thesis using assms(2)
    by (cases r) (auto simp: ni_inv_def ni_open_def loc_ni_process_user_response_def)
next
  case (answer bs bs' timed_out)
  then show ?thesis using assms(2)
    by (auto simp: ni_inv_def ni_open_def ni_thread_answer_def loc_ni_respond_def Let_def append_eq_Cons_conv split: if_splits)
next
  case (finish bs bs')
  then show ?thesis using assms(2)
    by (auto simp: ni_inv_def ni_open_def ni_thread_finish_def append_eq_Cons_conv split: if_splits)
qed

text \<open>
  C22: every accepted request is answered exactly once, in order, and with itself passed back.
  Between an initialisation and the next, whatever the modem sends and whether it takes the answers or
  refuses them, and whatever the user and the response threads do, the requests that arrived while none
  was open are at any moment those that the answers sent so far passed back, in the same order, followed
  by the open one if there is one; and the mutex of the notification is free.
\<close>

theorem ni_answered_once:
  assumes "(ni_step rc z)\<^sup>*\<^sup>* s t" and "ni_accepted s = []" and "ni_answers (world (ni_engine s)) = []"
    and "\<not> notif_in_progress (nid s)" and "ni_threads (nid s) = []" and "\<not> loc_ni_lock (nid s)"
  shows "ni_accepted t = map snd (ni_answers (world (ni_engine t))) @ ni_open (nid t) \<and> \<not> loc_ni_lock (nid t)"
proof -
  have "ni_inv s" using assms(2-6) by (simp add: ni_inv_def ni_open_def)
  with assms(1) have "ni_inv t"
    by (induction rule: rtranclp_induct) (use ni_inv_step in blast)+
  then show ?thesis by (simp add: ni_inv_def)
qed

text \<open>A request for which the notification can be built.\<close>

definition ni_ok :: "ni_sizes \<Rightarrow> rpc_loc_ni_event_s_type \<Rightarrow> bool" where
  "ni_ok z req \<longleftrightarrow> ni_known (rpc_loc_ni_event_s_type.event req) \<and> (\<forall>n. \<exists>x. ni_notification z req n = Some (Some x))"

definition ni_event :: "rpc_loc_ni_event_s_type \<Rightarrow> rpc_loc_event_payload_u_type" where
  "ni_event req = \<lparr>disc = RPC_LOC_EVENT_NI_NOTIFY_VERIFY_REQUEST, arm = event_payload_ni_request req\<rparr>"

text \<open>An accepted request, as a step: its notification gets the number \<open>i\<close>.\<close>

lemma request_step:
  assumes "ni_ok z req" "0 \<le> i" "\<not> notif_in_progress (nid t)" "\<not> loc_ni_lock (nid t)" "ni_threads (nid t) = []"
  shows "\<exists>u left. ni_step rc z t u \<and> world (ni_engine u) = world (ni_engine t) \<and> user_waiting u = user_waiting t
    \<and> user_log u = user_log t \<and> ni_accepted u = ni_accepted t @ [req]
    \<and> nid u = (nid t)\<lparr>loc_ni_lock := False, loc_ni_request := req, notif_in_progress := True,
        current_notif_id := i, response_time_left := left, ni_threads := [False]\<rparr>"
proof -
  fix junk :: GpsNiNotification
  have k: "ni_known (rpc_loc_ni_event_s_type.event req)" using assms(1) by (simp add: ni_ok_def)
  obtain x where "ni_notification z req (junk\<lparr>notification_id := \<bar>i\<bar>\<rparr>) = Some (Some x)"
    using assms(1) unfolding ni_ok_def by blast
  then obtain e where e: "loc_ni_request_handler z i True junk req (ni_engine t) = Some e"
    using assms(3,4) by (cases x) (auto simp: loc_ni_request_handler_def Let_def)
  have ev: "arm (ni_event req) = event_payload_ni_request req" by (simp add: ni_event_def)
  from e have cb: "loc_eng_ni_callback z i True junk RPC_LOC_EVENT_NI_NOTIFY_VERIFY_REQUEST (ni_event req) (ni_engine t) = Some e"
    using k by (simp add: loc_eng_ni_callback_def ni_event_def ni_known_def)
  from handler_cases [OF e k assms(3)] obtain left where
    "world e = world (ni_engine t)" "loc_eng_ni_data e = (nid t)\<lparr>loc_ni_lock := False, loc_ni_request := req,
      notif_in_progress := True, current_notif_id := i, response_time_left := left, ni_threads := [False]\<rparr>"
    using assms(2,5) by auto
  then show ?thesis
    using ni_step.request [OF cb, of rc] assms(3) request_of [OF ev]
    by (intro exI [of _ "t\<lparr>ni_engine := e, ni_accepted := ni_accepted t @ [req]\<rparr>"] exI [of _ left]) auto
qed

text \<open>A thread that sends its answer, as a step.\<close>

lemma answer_step:
  assumes "ni_threads (nid t) = [False]" "timed_out \<or> user_response_received (nid t)"
  shows "\<exists>u. ni_step rc z t u \<and> user_waiting u = user_waiting t \<and> user_log u = user_log t \<and> ni_accepted u = ni_accepted t
    \<and> ni_answers (world (ni_engine u)) = ni_answers (world (ni_engine t))
        @ [(if timed_out then RPC_LOC_NI_LCS_NOTIFY_VERIFY_NORESP else ni_resp (nid t), loc_ni_request (nid t))]
    \<and> nid u = (nid t)\<lparr>ni_threads := [True], user_response_received := False,
        ni_resp := (if timed_out then RPC_LOC_NI_LCS_NOTIFY_VERIFY_NORESP else ni_resp (nid t))\<rparr>"
proof -
  let ?u = "t\<lparr>ni_engine := on_ni (ni_threads_update (\<lambda>_. [True])) (ni_thread_answer (answering rc) timed_out (ni_engine t))\<rparr>"
  have "ni_step rc z t ?u" using ni_step.answer [of t "[]" "[]" timed_out rc z] assms by simp
  then show ?thesis
    by (intro exI [of _ ?u]) (auto simp: ni_thread_answer_def loc_ni_respond_def Let_def)
qed

text \<open>No request is open and no answer of the user is kept.\<close>

definition ni_quiet :: "ni_system \<Rightarrow> bool" where
  "ni_quiet t \<longleftrightarrow> \<not> notif_in_progress (nid t) \<and> \<not> loc_ni_lock (nid t) \<and> ni_threads (nid t) = []
     \<and> \<not> user_response_received (nid t) \<and> user_waiting t = []"

text \<open>
  C23: a late answer answers the next request. When the user accepts a notification just as its
  time runs out, the modem is told "no response", and the kept acceptance is sent as the answer to
  the next request, of which the user was only notified: in the run below the user answers
  notification \<open>i\<close> alone, and request \<open>r2\<close>, whose notification is \<open>j\<close>, is accepted.
\<close>

theorem late_answer_accepts_next_request:
  assumes "ni_quiet s" and "ni_ok z r1" and "ni_ok z r2" and "0 \<le> i" and "0 \<le> j"
  shows "\<exists>t. (ni_step rc z)\<^sup>*\<^sup>* s t \<and> ni_accepted t = ni_accepted s @ [r1, r2]
    \<and> ni_answers (world (ni_engine t)) = ni_answers (world (ni_engine s))
        @ [(RPC_LOC_NI_LCS_NOTIFY_VERIFY_NORESP, r1), (RPC_LOC_NI_LCS_NOTIFY_VERIFY_ACCEPT, r2)]
    \<and> user_log t = user_log s @ [(i, GPS_NI_RESPONSE_ACCEPT)] \<and> current_notif_id (nid t) = j"
proof -
  note q = assms(1) [unfolded ni_quiet_def]
  obtain a l where a: "ni_step rc z s a" "world (ni_engine a) = world (ni_engine s)" "user_waiting a = []"
    "user_log a = user_log s" "ni_accepted a = ni_accepted s @ [r1]"
    "nid a = (nid s)\<lparr>loc_ni_lock := False, loc_ni_request := r1, notif_in_progress := True,
      current_notif_id := i, response_time_left := l, ni_threads := [False]\<rparr>"
    using request_step [OF assms(2,4), where t = s and rc = rc] q by auto
  let ?b = "a\<lparr>user_waiting := [GPS_NI_RESPONSE_ACCEPT], user_log := user_log a @ [(i, GPS_NI_RESPONSE_ACCEPT)]\<rparr>"
  have b: "ni_step rc z a ?b" using ni_step.check [of i a rc z GPS_NI_RESPONSE_ACCEPT] a(3,6) by (simp add: respond_matches_def)
  obtain c where c: "ni_step rc z ?b c" "user_waiting c = user_waiting ?b" "user_log c = user_log ?b"
    "ni_accepted c = ni_accepted ?b" "ni_answers (world (ni_engine c)) = ni_answers (world (ni_engine s))
      @ [(RPC_LOC_NI_LCS_NOTIFY_VERIFY_NORESP, r1)]"
    "nid c = (nid a)\<lparr>ni_threads := [True], user_response_received := False, ni_resp := RPC_LOC_NI_LCS_NOTIFY_VERIFY_NORESP\<rparr>"
    using answer_step [where t = ?b and timed_out = True and z = z and rc = rc] a(2,6) by auto
  let ?d = "c\<lparr>ni_engine := snd (loc_ni_process_user_response GPS_NI_RESPONSE_ACCEPT (ni_engine c)), user_waiting := []\<rparr>"
  have d: "ni_step rc z c ?d" using ni_step.respond [of c "[]" GPS_NI_RESPONSE_ACCEPT "[]" rc z] c(2) by simp
  let ?e = "?d\<lparr>ni_engine := on_ni (ni_threads_update (\<lambda>_. [])) (ni_thread_finish (ni_engine ?d))\<rparr>"
  have e: "ni_step rc z ?d ?e"
    using ni_step.finish [of ?d "[]" "[]" rc z] c(6) by (simp add: loc_ni_process_user_response_def)
  have ne: "\<not> notif_in_progress (nid ?e)" "\<not> loc_ni_lock (nid ?e)" "ni_threads (nid ?e) = []"
    "user_response_received (nid ?e)" "ni_resp (nid ?e) = RPC_LOC_NI_LCS_NOTIFY_VERIFY_ACCEPT"
    "world (ni_engine ?e) = world (ni_engine c)"
    using c(6) a(6) by (simp_all add: ni_thread_finish_def loc_ni_process_user_response_def)
  obtain f l' where f: "ni_step rc z ?e f" "world (ni_engine f) = world (ni_engine c)" "user_log f = user_log ?e"
    "ni_accepted f = ni_accepted ?e @ [r2]"
    "nid f = (nid ?e)\<lparr>loc_ni_lock := False, loc_ni_request := r2, notif_in_progress := True,
      current_notif_id := j, response_time_left := l', ni_threads := [False]\<rparr>"
    using request_step [OF assms(3,5) ne(1-3), where rc = rc] ne(6) by auto
  have "ni_threads (nid f) = [False]" "user_response_received (nid f)" using f(5) ne(4) by simp_all
  then obtain g where g: "ni_step rc z f g" "user_log g = user_log f" "ni_accepted g = ni_accepted f"
    "ni_answers (world (ni_engine g)) = ni_answers (world (ni_engine f)) @ [(ni_resp (nid f), loc_ni_request (nid f))]"
    "nid g = (nid f)\<lparr>ni_threads := [True], user_response_received := False, ni_resp := ni_resp (nid f)\<rparr>"
    using answer_step [where t = f and timed_out = False and z = z and rc = rc] by auto
  have "(ni_step rc z)\<^sup>*\<^sup>* s g"
    using a(1) b c(1) d e f(1) g(1)
    by (meson converse_rtranclp_into_rtranclp rtranclp.rtrancl_refl)
  moreover have "ni_resp (nid f) = RPC_LOC_NI_LCS_NOTIFY_VERIFY_ACCEPT" "loc_ni_request (nid f) = r2"
    using f(5) ne(5) by simp_all
  ultimately show ?thesis
    using a(4,5) c(3,4,5) f(2-5) g(2-5) by (intro exI [of _ g]) simp
qed

definition plain_request :: "u16 \<Rightarrow> rpc_loc_ni_event_s_type" where
  "plain_request timer = zero_rpc_loc_ni_event_s_type\<lparr>rpc_loc_ni_event_s_type.event := RPC_LOC_NI_EVENT_SUPL_NOTIFY_VERIFY_REQ,
     rpc_loc_ni_event_s_type.payload := \<lparr>disc = RPC_LOC_NI_EVENT_SUPL_NOTIFY_VERIFY_REQ, arm = ni_event_payload_supl_req
       (zero_rpc_loc_ni_supl_notify_verify_req_s_type\<lparr>rpc_loc_ni_supl_notify_verify_req_s_type.user_response_timer := timer\<rparr>)\<rparr>\<rparr>"

lemma plain_request_ok: "ni_ok z (plain_request timer)"
  by (simp add: ni_ok_def ni_known_def plain_request_def ni_notification_def fill_supl_def Let_def
      zero_rpc_loc_ni_supl_notify_verify_req_s_type_def loc_consts)

definition ni_start :: ni_system where
  "ni_start = \<lparr>ni_engine = zero_engine [], user_waiting = [], ni_accepted = [], user_log = []\<rparr>"

lemma ni_start_quiet: "ni_quiet ni_start" "ni_accepted ni_start = []" "world (ni_engine ni_start) = []"
  by (simp_all add: ni_quiet_def ni_start_def zero_engine_def)

theorem late_answer_accepts_next_request_witness:
  "\<exists>t. (ni_step (\<lambda>_ _ _ _. 0) \<lparr>short_string = 256, long_string = 2048\<rparr>)\<^sup>*\<^sup>* ni_start t
    \<and> ni_answers (world (ni_engine t)) = [(RPC_LOC_NI_LCS_NOTIFY_VERIFY_NORESP, plain_request 1),
        (RPC_LOC_NI_LCS_NOTIFY_VERIFY_ACCEPT, plain_request 2)]"
  using late_answer_accepts_next_request [where i = 7 and j = 8, OF ni_start_quiet(1)
      plain_request_ok [of _ 1] plain_request_ok [of _ 2]] ni_start_quiet(3) by auto

theorem ni_answered_once_witness:
  "\<exists>t. (ni_step (\<lambda>_ _ _ _. 1) \<lparr>short_string = 256, long_string = 2048\<rparr>)\<^sup>*\<^sup>* ni_start t \<and> ni_open (nid t) = [plain_request 1]
    \<and> ni_accepted t = map snd (ni_answers (world (ni_engine t))) @ [plain_request 1]"
proof -
  let ?z = "\<lparr>short_string = 256, long_string = 2048\<rparr>"
  have q: "\<not> notif_in_progress (nid ni_start)" "\<not> loc_ni_lock (nid ni_start)" "ni_threads (nid ni_start) = []"
    using ni_start_quiet(1) by (simp_all add: ni_quiet_def)
  obtain t l where t: "ni_step (\<lambda>_ _ _ _. 1) ?z ni_start t" "nid t = (nid ni_start)\<lparr>loc_ni_lock := False,
      loc_ni_request := plain_request 1, notif_in_progress := True, current_notif_id := 7, response_time_left := l, ni_threads := [False]\<rparr>"
    using request_step [OF plain_request_ok [of ?z 1] _ q, where i = 7 and rc = "\<lambda>_ _ _ _. 1"] by auto
  have r: "(ni_step (\<lambda>_ _ _ _. 1) ?z)\<^sup>*\<^sup>* ni_start t" using t(1) by blast
  have "ni_open (nid t) = [plain_request 1]" using t(2) by (simp add: ni_open_def)
  with ni_answered_once [OF r ni_start_quiet(2) _ q(1,3,2)] r ni_start_quiet(3) show ?thesis by auto
qed

end
