(* ===== verification/CString.thy ===== *)
theory CString
  imports Prelude
begin

text \<open>
  The functions of the C library on strings that the components use, on byte lists without their
  terminator: isspace, strtok_r with the single delimiter \<open>=\<close>, strtol, fgets, the comparisons of the
  string and strings headers, snprintf and the decimal notation it writes.
\<close>

section \<open>Characters and numbers\<close>

definition isspace :: "byte \<Rightarrow> bool" where
  "isspace c \<longleftrightarrow> c = 32 \<or> (9 \<le> c \<and> c \<le> 13)"

definition EQ_CHAR :: byte where "EQ_CHAR = 61"

text \<open>The token and what is left; None when there is none.\<close>

definition strtok :: "byte list \<Rightarrow> (byte list \<times> byte list) option" where
  "strtok s = (let s1 = dropWhile (\<lambda>c. c = EQ_CHAR) s in
     if s1 = [] then None
     else Some (takeWhile (\<lambda>c. c \<noteq> EQ_CHAR) s1, drop 1 (dropWhile (\<lambda>c. c \<noteq> EQ_CHAR) s1)))"

definition digit_value :: "byte \<Rightarrow> int option" where
  "digit_value c =
     (if 48 \<le> c \<and> c \<le> 57 then Some (uint c - 48)
      else if 97 \<le> c \<and> c \<le> 122 then Some (uint c - 87)
      else if 65 \<le> c \<and> c \<le> 90 then Some (uint c - 55)
      else None)"

definition is_digit :: "int \<Rightarrow> byte \<Rightarrow> bool" where
  "is_digit base c \<longleftrightarrow> (case digit_value c of None \<Rightarrow> False | Some v \<Rightarrow> v < base)"

fun digits_value :: "int \<Rightarrow> byte list \<Rightarrow> int \<Rightarrow> int" where
  "digits_value base [] acc = acc"
| "digits_value base (c # cs) acc =
     (if is_digit base c then digits_value base cs (acc * base + the (digit_value c)) else acc)"

text \<open>A long has 32 bits: the value is clamped.\<close>

definition strtol :: "int \<Rightarrow> byte list \<Rightarrow> int" where
  "strtol base s =
     (let s1 = dropWhile isspace s;
          neg = (s1 \<noteq> [] \<and> hd s1 = 45);
          s2 = (if s1 \<noteq> [] \<and> hd s1 \<in> {43, 45} then tl s1 else s1);
          s3 = (if base = 16 \<and> length s2 > 2 \<and> s2 ! 0 = 48 \<and> s2 ! 1 \<in> {88, 120} \<and> is_digit 16 (s2 ! 2)
                then drop 2 s2 else s2);
          v = digits_value base s3 0
      in max (- (2 ^ 31)) (min (2 ^ 31 - 1) (if neg then - v else v)))"

text \<open>One line for a buffer of \<open>n\<close> bytes, and the rest of the file.\<close>

definition fgets :: "nat \<Rightarrow> byte list \<Rightarrow> byte list \<times> byte list" where
  "fgets n f =
     (let k = (case find_index (\<lambda>c. c = 10) (take (n - 1) f) of None \<Rightarrow> n - 1 | Some i \<Rightarrow> Suc i)
      in (take k f, drop k f))"

definition ascii :: "string \<Rightarrow> byte list" where
  "ascii s = map (\<lambda>c. of_nat (of_char c)) s"

section \<open>Decimal notation\<close>

definition digit :: "nat \<Rightarrow> byte" where
  "digit k = 48 + word_of_nat k"

fun decimal :: "nat \<Rightarrow> byte list" where
  "decimal n = (if n < 10 then [digit n] else decimal (n div 10) @ [digit (n mod 10)])"

declare decimal.simps [simp del]

lemma digit_facts:
  assumes "k < 10"
  shows "digit_value (digit k) = Some (int k)" "is_digit 10 (digit k)" "48 \<le> digit k" "digit k \<le> 57"
    "digit k = 48 \<Longrightarrow> k = 0"
proof -
  have "k = 0 \<or> k = 1 \<or> k = 2 \<or> k = 3 \<or> k = 4 \<or> k = 5 \<or> k = 6 \<or> k = 7 \<or> k = 8 \<or> k = 9"
    using assms by presburger
  then show "digit_value (digit k) = Some (int k)" "is_digit 10 (digit k)" "48 \<le> digit k" "digit k \<le> 57"
    "digit k = 48 \<Longrightarrow> k = 0"
    by (auto simp: digit_def digit_value_def is_digit_def)
qed

lemma digits_value_snoc:
  "\<forall>c \<in> set cs. is_digit b c \<Longrightarrow> is_digit b d
    \<Longrightarrow> digits_value b (cs @ [d]) acc = digits_value b cs acc * b + the (digit_value d)"
  by (induction cs arbitrary: acc) auto

lemma decimal_digits: "\<forall>c \<in> set (decimal n). is_digit 10 c \<and> 48 \<le> c \<and> c \<le> 57"
proof (induction n rule: decimal.induct)
  case (1 n)
  then show ?case using digit_facts by (subst decimal.simps) auto
qed

lemma digits_value_decimal: "digits_value 10 (decimal n) 0 = int n"
proof (induction n rule: decimal.induct)
  case (1 n)
  show ?case
  proof (cases "n < 10")
    case True
    then show ?thesis using digit_facts [OF True] by (subst decimal.simps) simp
  next
    case False
    have m: "n mod 10 < 10" by simp
    have "digits_value 10 (decimal (n div 10) @ [digit (n mod 10)]) 0 = int (n div 10) * 10 + int (n mod 10)"
      using digits_value_snoc [of "decimal (n div 10)" 10 "digit (n mod 10)" 0] decimal_digits [of "n div 10"] 1 False digit_facts [OF m]
      by simp
    also have "\<dots> = int n" by (metis div_mult_mod_eq of_nat_add of_nat_mult of_nat_numeral)
    finally show ?thesis using False by (subst decimal.simps) simp
  qed
qed

lemma decimal_nonempty [simp]: "decimal n \<noteq> []"
  by (subst decimal.simps) simp

lemma decimal_zero: "hd (decimal n) = 48 \<Longrightarrow> n = 0"
proof (induction n rule: decimal.induct)
  case (1 n)
  show ?case
  proof (cases "n < 10")
    case True
    then show ?thesis using 1(2) digit_facts(5) [OF True] by (subst (asm) decimal.simps) simp
  next
    case False
    have "decimal n = decimal (n div 10) @ [digit (n mod 10)]" using False by (subst decimal.simps) simp
    then have "n div 10 = 0" using 1 False by simp
    then show ?thesis using False by simp
  qed
qed

lemma digit_char: "48 \<le> c \<Longrightarrow> c \<le> 57 \<Longrightarrow> \<not> isspace c \<and> c \<noteq> 43 \<and> c \<noteq> 45 \<and> c \<noteq> EQ_CHAR \<and> c \<noteq> 0 \<and> c \<noteq> 10"
  by (auto simp: isspace_def EQ_CHAR_def word_le_nat_alt)

text \<open>What \<open>%d\<close> writes.\<close>

definition signed_decimal :: "int \<Rightarrow> byte list" where
  "signed_decimal i = (if i < 0 then 45 # decimal (nat (- i)) else decimal (nat i))"

section \<open>Comparisons and buffers\<close>

text \<open>The string that starts a buffer.\<close>

definition c_str :: "byte list \<Rightarrow> byte list" where
  "c_str buf = takeWhile (\<lambda>c. c \<noteq> 0) buf"

definition to_lower :: "byte \<Rightarrow> byte" where
  "to_lower c = (if 65 \<le> c \<and> c \<le> 90 then c + 32 else c)"

text \<open>The calls are tests for the result 0.\<close>

definition strcasecmp_eq :: "byte list \<Rightarrow> byte list \<Rightarrow> bool" where
  "strcasecmp_eq a b \<longleftrightarrow> map to_lower a = map to_lower b"

definition strncmp_eq :: "byte list \<Rightarrow> byte list \<Rightarrow> nat \<Rightarrow> bool" where
  "strncmp_eq a b n \<longleftrightarrow> take n a = take n b"

definition strncasecmp_eq :: "byte list \<Rightarrow> byte list \<Rightarrow> nat \<Rightarrow> bool" where
  "strncasecmp_eq a b n \<longleftrightarrow> strcasecmp_eq (take n a) (take n b)"

text \<open>What a buffer of \<open>n\<close> bytes holds after snprintf of \<open>s\<close>, which returns the length of \<open>s\<close>.\<close>

definition snprintf_string :: "nat \<Rightarrow> byte list \<Rightarrow> byte list" where
  "snprintf_string n s = take (n - 1) s"

text \<open>A buffer with bytes copied to offset \<open>i\<close>, and with a string printed there up to the end of the buffer.\<close>

definition store_at :: "byte list \<Rightarrow> nat \<Rightarrow> byte list \<Rightarrow> byte list" where
  "store_at b i s = take i b @ s @ drop (i + length s) b"

definition snprintf_at :: "byte list \<Rightarrow> nat \<Rightarrow> byte list \<Rightarrow> byte list" where
  "snprintf_at b i s = (if i < length b then store_at b i (snprintf_string (length b - i) s @ [0]) else b)"

text \<open>The part of \<open>s\<close> from the first place where \<open>p\<close> occurs, whatever the case of the letters.\<close>

fun strcasestr :: "byte list \<Rightarrow> byte list \<Rightarrow> byte list option" where
  "strcasestr [] p = (if p = [] then Some [] else None)"
| "strcasestr (c # cs) p =
     (if strncasecmp_eq (c # cs) p (length p) then Some (c # cs) else strcasestr cs p)"

definition hex_char :: "nat \<Rightarrow> byte" where
  "hex_char k = (if k < 10 then 48 + word_of_nat k else 87 + word_of_nat k)"

text \<open>\<open>%02x\<close> of a byte.\<close>

definition hex_byte :: "byte \<Rightarrow> byte list" where
  "hex_byte b = [hex_char (unat b div 16), hex_char (unat b mod 16)]"

lemma length_store_at [simp]: "i + length s \<le> length b \<Longrightarrow> length (store_at b i s) = length b"
  by (simp add: store_at_def)

lemma length_snprintf_at [simp]: "length (snprintf_at b i s) = length b"
  by (simp add: snprintf_at_def snprintf_string_def)

lemma c_str_zero [simp]: "0 \<notin> set s \<Longrightarrow> c_str (s @ 0 # r) = s"
  by (induction s) (auto simp: c_str_def)

lemma c_str_id [simp]: "0 \<notin> set s \<Longrightarrow> c_str s = s"
  by (induction s) (auto simp: c_str_def)

text \<open>atoi reads back what \<open>%d\<close> wrote.\<close>

lemma digits_value_stop:
  "\<forall>c \<in> set cs. is_digit b c \<Longrightarrow> \<not> is_digit b d
    \<Longrightarrow> digits_value b (cs @ d # r) acc = digits_value b cs acc"
  by (induction cs arbitrary: acc) auto

lemma strtol_signed_decimal:
  assumes "- (2 ^ 31) \<le> i" "i < 2 ^ 31"
  shows "strtol 10 (signed_decimal i @ 10 # r) = i"
proof -
  have nl: "\<not> is_digit 10 10" by (simp add: is_digit_def digit_value_def)
  have read: "digits_value 10 (decimal n @ 10 # r) 0 = int n" for n
    using digits_value_stop [OF _ nl, of "decimal n"] decimal_digits [of n] digits_value_decimal [of n] by simp
  show ?thesis
  proof (cases "i < 0")
    case True
    have "\<not> isspace 45" by (simp add: isspace_def)
    then have "strtol 10 (signed_decimal i @ 10 # r) = max (- (2 ^ 31)) (min (2 ^ 31 - 1) (- int (nat (- i))))"
      using True by (simp add: strtol_def signed_decimal_def read)
    then show ?thesis using True assms by simp
  next
    case False
    obtain c cs where c: "decimal (nat i) = c # cs" by (cases "decimal (nat i)") auto
    then have "\<not> isspace c" "c \<noteq> 43" "c \<noteq> 45" using decimal_digits [of "nat i"] digit_char [of c] by auto
    then have "strtol 10 (signed_decimal i @ 10 # r) = max (- (2 ^ 31)) (min (2 ^ 31 - 1) (int (nat i)))"
      using False read [of "nat i"] by (simp add: strtol_def signed_decimal_def c)
    then show ?thesis using False assms by simp
  qed
qed

lemma signed_decimal_chars: "c \<in> set (signed_decimal i) \<Longrightarrow> c \<noteq> 0 \<and> c \<noteq> 10"
  using decimal_digits [of "nat i"] decimal_digits [of "nat (- i)"] digit_char [of c]
  by (auto simp: signed_decimal_def split: if_splits)

lemma strncmp_eq_prefix:
  "n \<le> length b \<Longrightarrow> strncmp_eq a b n \<longleftrightarrow> (\<exists>r. a = take n b @ r)"
proof
  assume n: "n \<le> length b" and "strncmp_eq a b n"
  then have "a = take n b @ drop n a" by (metis append_take_drop_id strncmp_eq_def)
  then show "\<exists>r. a = take n b @ r" by blast
qed (auto simp: strncmp_eq_def min_def)

lemma length_decimal: "n < 10 ^ Suc k \<Longrightarrow> length (decimal n) \<le> Suc k"
proof (induction k arbitrary: n)
  case 0
  then show ?case by (subst decimal.simps) simp
next
  case (Suc k)
  then have "n div 10 < 10 ^ Suc k" by (simp add: less_mult_imp_div_less mult.commute)
  from Suc.IH [OF this] show ?case by (subst decimal.simps) auto
qed

lemma length_signed_decimal:
  assumes "- (2 ^ 31) \<le> i" "i < 2 ^ 31"
  shows "length (signed_decimal i) \<le> 11"
proof (cases "i < 0")
  case True
  then have "nat (- i) < 10 ^ Suc 9" using assms by simp
  from length_decimal [OF this] show ?thesis using True by (simp add: signed_decimal_def)
next
  case False
  then have "nat i < 10 ^ Suc 9" using assms by simp
  from length_decimal [OF this] show ?thesis using False by (simp add: signed_decimal_def)
qed

end
