(* ===== verification/LocEngCfg.thy ===== *)
theory LocEngCfg
  imports LocEngData CString
begin

text \<open>
  The configuration file, libloc_api/loc_eng_cfg.cpp. Strings are byte lists without their
  terminator; the functions of the C library are those of CString.
\<close>

section \<open>The parser\<close>

definition LOC_MAX_PARAM_LINE :: nat where "LOC_MAX_PARAM_LINE = 80"

text \<open>
  \<open>first\<close>: a character that is not a space was seen; \<open>out\<close>: what was written back; \<open>kept\<close>: how much of
  it to keep.
\<close>

fun trim_loop :: "byte list \<Rightarrow> bool \<Rightarrow> byte list \<Rightarrow> nat option \<Rightarrow> byte list \<times> nat option" where
  "trim_loop [] first out kept = (out, kept)"
| "trim_loop (c # cs) first out kept =
     (let first1 = (first \<or> \<not> isspace c);
          out1 = (if first1 then out @ [c] else out);
          last1 = (if first1 \<and> \<not> isspace c then Some (length out1) else kept)
      in trim_loop cs first1 out1 last1)"

definition trim_space :: "byte list \<Rightarrow> byte list" where
  "trim_space org_string =
     (case trim_loop org_string False [] None of
        (out, None) \<Rightarrow> org_string
      | (out, Some k) \<Rightarrow> take k out)"

definition loc_default_parameters :: loc_gps_cfg_s_type where
  "loc_default_parameters = \<lparr>INTERMEDIATE_POS = 0, ACCURACY_THRES = 0, ENABLE_WIPER = 0, DEBUG_LEVEL = 2\<rparr>"

text \<open>The entries of \<open>loc_parameter_table\<close>, all of type 'n', with how to set them.\<close>

definition loc_parameter_table :: "(byte list \<times> (u32 \<Rightarrow> loc_gps_cfg_s_type \<Rightarrow> loc_gps_cfg_s_type)) list" where
  "loc_parameter_table =
     [(ascii ''INTERMEDIATE_POS'', \<lambda>v. INTERMEDIATE_POS_update (\<lambda>_. v)),
      (ascii ''ACCURACY_THRES'', \<lambda>v. ACCURACY_THRES_update (\<lambda>_. v)),
      (ascii ''ENABLE_WIPER'', \<lambda>v. ENABLE_WIPER_update (\<lambda>_. v)),
      (ascii ''DEBUG_LEVEL'', \<lambda>v. DEBUG_LEVEL_update (\<lambda>_. v))]"

definition param_value :: "byte list \<Rightarrow> int" where
  "param_value s =
     (if s \<noteq> [] \<and> s ! 0 = 48 \<and> length s > 1 \<and> s ! 1 \<in> {88, 120} then strtol 16 (drop 2 s) else strtol 10 s)"

definition read_param :: "byte list \<Rightarrow> loc_gps_cfg_s_type \<Rightarrow> loc_gps_cfg_s_type" where
  "read_param input_buf cfg =
     (case strtok (takeWhile (\<lambda>c. c \<noteq> 0) input_buf) of
        None \<Rightarrow> cfg
      | Some (param_name, lasts) \<Rightarrow>
        (case strtok lasts of
           None \<Rightarrow> cfg
         | Some (param_str_value, _) \<Rightarrow>
             let name = trim_space param_name;
                 v = word_of_int (param_value (trim_space param_str_value)) :: u32
             in fold (\<lambda>(n, upd) c. if n = name then upd v c else c) loc_parameter_table cfg))"

function read_lines :: "byte list \<Rightarrow> loc_gps_cfg_s_type \<Rightarrow> loc_gps_cfg_s_type" where
  "read_lines f cfg =
     (if f = [] then cfg
      else case fgets LOC_MAX_PARAM_LINE f of (input_buf, rest) \<Rightarrow> read_lines rest (read_param input_buf cfg))"
  by auto
termination
  by (relation "measure (\<lambda>(f, cfg). length f)")
    (auto simp: fgets_def LOC_MAX_PARAM_LINE_def Let_def split: option.splits)

text \<open>\<open>file\<close>: the contents of gps.conf, None when it cannot be opened.\<close>

definition loc_read_gps_conf :: "byte list option \<Rightarrow> loc_gps_cfg_s_type" where
  "loc_read_gps_conf file =
     (case file of None \<Rightarrow> loc_default_parameters | Some f \<Rightarrow> read_lines f loc_default_parameters)"

section \<open>Reading lines of assignments\<close>

declare read_lines.simps [simp del]

lemma trim_loop_Some:
  "trim_loop cs True out (Some k) =
     (out @ cs, Some (if \<forall>c \<in> set cs. isspace c then k else length out + length cs - length (takeWhile isspace (rev cs))))"
proof (induction cs arbitrary: out k)
  case (Cons c cs)
  show ?case
  proof (cases "\<forall>x \<in> set cs. isspace x")
    case True
    then have "takeWhile isspace (rev cs @ [c]) = rev cs @ takeWhile isspace [c]" by (intro takeWhile_append2) simp
    then show ?thesis using Cons True by (auto simp: Let_def)
  next
    case False
    then have "takeWhile isspace (rev cs @ [c]) = takeWhile isspace (rev cs)"
      by (metis (no_types, opaque_lifting) set_rev takeWhile_append1)
    then show ?thesis using Cons False by (auto simp: Let_def)
  qed
qed simp

lemma trim_padded:
  assumes "w \<noteq> []" "\<forall>c \<in> set w. \<not> isspace c" "\<forall>c \<in> set a. isspace c" "\<forall>c \<in> set b. isspace c"
  shows "trim_space (a @ w @ b) = w"
proof -
  obtain c w' where w: "w = c # w'" using assms(1) by (cases w) auto
  have skip: "trim_loop (a @ cs) False [] None = trim_loop cs False [] None" for cs
    using assms(3) by (induction a) (auto simp: Let_def)
  have run: "trim_loop (w' @ b) True [c] (Some (Suc 0)) = (w @ b, Some (length w))"
  proof (cases "w' = []")
    case True
    then show ?thesis using trim_loop_Some [of b "[c]" "Suc 0"] assms(4) w by auto
  next
    case False
    then have "\<not> (\<forall>x \<in> set (w' @ b). isspace x)" using assms(2) w by (cases w') auto
    moreover have "takeWhile isspace (rev w') = []" using False assms(2) w by (cases w' rule: rev_cases) auto
    then have "takeWhile isspace (rev b @ rev w') = rev b" using assms(4) by (subst takeWhile_append2) auto
    ultimately show ?thesis using trim_loop_Some [of "w' @ b" "[c]" "Suc 0"] w by auto
  qed
  show ?thesis unfolding trim_space_def skip using assms(2) w run by (simp add: Let_def)
qed

lemma param_value_decimal:
  assumes "n < 2 ^ 31"
  shows "param_value (decimal n) = int n"
proof -
  obtain c cs where c: "decimal n = c # cs" by (cases "decimal n") auto
  then have d: "\<not> isspace (hd (decimal n))" "hd (decimal n) \<noteq> 43" "hd (decimal n) \<noteq> 45"
    using decimal_digits [of n] digit_char [of c] by auto
  have "strtol 10 (decimal n) = int n"
    using d assms digits_value_decimal [of n]
    by (cases "decimal n") (auto simp: strtol_def Let_def)
  moreover have "\<not> (decimal n ! 0 = 48 \<and> 1 < length (decimal n))"
  proof
    assume a: "decimal n ! 0 = 48 \<and> 1 < length (decimal n)"
    then have "n = 0" using decimal_zero by (simp add: hd_conv_nth)
    then show False using a by (simp add: decimal.simps)
  qed
  ultimately show ?thesis by (auto simp: param_value_def)
qed

text \<open>A line: name, spaces, =, spaces, number, spaces, newline.\<close>

record assignment =
  a_name :: "byte list"
  a_before :: "byte list"
  a_after :: "byte list"
  a_value :: nat
  a_end :: "byte list"

definition a_line :: "assignment \<Rightarrow> byte list" where
  "a_line a = (a_name a @ a_before a) @ EQ_CHAR # (a_after a @ decimal (a_value a) @ a_end a) @ [10]"

definition blank :: "byte list \<Rightarrow> bool" where
  "blank s \<longleftrightarrow> set s \<subseteq> {32, 9}"

definition name_char :: "byte \<Rightarrow> bool" where
  "name_char c \<longleftrightarrow> \<not> isspace c \<and> c \<noteq> EQ_CHAR \<and> c \<noteq> 0"

definition a_ok :: "assignment \<Rightarrow> bool" where
  "a_ok a \<longleftrightarrow> a_name a \<noteq> [] \<and> (\<forall>c \<in> set (a_name a). name_char c) \<and> blank (a_before a) \<and> blank (a_after a)
     \<and> blank (a_end a) \<and> a_value a < 2 ^ 31 \<and> length (a_line a) < LOC_MAX_PARAM_LINE"

text \<open>What a line should do.\<close>

definition assign :: "assignment \<Rightarrow> loc_gps_cfg_s_type \<Rightarrow> loc_gps_cfg_s_type" where
  "assign a cfg =
     (let v = word_of_nat (a_value a) in
      if a_name a = ascii ''INTERMEDIATE_POS'' then cfg\<lparr>INTERMEDIATE_POS := v\<rparr>
      else if a_name a = ascii ''ACCURACY_THRES'' then cfg\<lparr>ACCURACY_THRES := v\<rparr>
      else if a_name a = ascii ''ENABLE_WIPER'' then cfg\<lparr>ENABLE_WIPER := v\<rparr>
      else if a_name a = ascii ''DEBUG_LEVEL'' then cfg\<lparr>DEBUG_LEVEL := v\<rparr>
      else cfg)"

lemma blank_chars: "blank s \<Longrightarrow> c \<in> set s \<Longrightarrow> isspace c \<and> c \<noteq> EQ_CHAR \<and> c \<noteq> 0 \<and> c \<noteq> 10"
  by (auto simp: blank_def isspace_def EQ_CHAR_def)

lemma strtok_at:
  assumes "xs \<noteq> []" "EQ_CHAR \<notin> set xs"
  shows "strtok (xs @ EQ_CHAR # ys) = Some (xs, ys)" "strtok xs = Some (xs, [])"
proof -
  have ne: "\<forall>c \<in> set xs. c \<noteq> EQ_CHAR" using assms(2) by auto
  have start: "dropWhile (\<lambda>c. c = EQ_CHAR) (xs @ zs) = xs @ zs" for zs using assms by (cases xs) auto
  have "takeWhile (\<lambda>c. c \<noteq> EQ_CHAR) (xs @ zs) = xs @ takeWhile (\<lambda>c. c \<noteq> EQ_CHAR) zs"
    "dropWhile (\<lambda>c. c \<noteq> EQ_CHAR) (xs @ zs) = dropWhile (\<lambda>c. c \<noteq> EQ_CHAR) zs" for zs
    using ne by (simp_all add: takeWhile_append2 dropWhile_append2)
  moreover have "dropWhile (\<lambda>c. c \<noteq> EQ_CHAR) xs = []" using ne by simp
  ultimately have "takeWhile (\<lambda>c. c \<noteq> EQ_CHAR) (xs @ EQ_CHAR # ys) = xs"
    "dropWhile (\<lambda>c. c \<noteq> EQ_CHAR) (xs @ EQ_CHAR # ys) = EQ_CHAR # ys"
    "takeWhile (\<lambda>c. c \<noteq> EQ_CHAR) xs = xs" "dropWhile (\<lambda>c. c \<noteq> EQ_CHAR) xs = []"
    using ne by (simp_all add: takeWhile_eq_all_conv)
  with start [of "EQ_CHAR # ys"] start [of "[]"]
  show "strtok (xs @ EQ_CHAR # ys) = Some (xs, ys)" "strtok xs = Some (xs, [])"
    using assms(1) by (simp_all add: strtok_def Let_def del: dropWhile_eq_Nil_conv takeWhile_eq_all_conv)
qed

lemma find_newline:
  "10 \<notin> set l \<Longrightarrow> length l < k \<Longrightarrow> find_index (\<lambda>c. c = 10) (take k (l @ 10 # rest)) = Some (length l)"
  by (auto simp: find_index_Some nth_append in_set_conv_nth)

lemma table_names [simp]:
  "ascii ''INTERMEDIATE_POS'' \<noteq> ascii ''ACCURACY_THRES''" "ascii ''INTERMEDIATE_POS'' \<noteq> ascii ''ENABLE_WIPER''"
  "ascii ''INTERMEDIATE_POS'' \<noteq> ascii ''DEBUG_LEVEL''" "ascii ''ACCURACY_THRES'' \<noteq> ascii ''ENABLE_WIPER''"
  "ascii ''ACCURACY_THRES'' \<noteq> ascii ''DEBUG_LEVEL''" "ascii ''ENABLE_WIPER'' \<noteq> ascii ''DEBUG_LEVEL''"
  by (simp_all add: ascii_def)

lemmas table_names_sym [simp] = table_names [symmetric]

lemma read_param_line:
  assumes "a_ok a"
  shows "read_param (a_line a) cfg = assign a cfg"
proof -
  note ok = assms [unfolded a_ok_def]
  let ?n = "a_name a @ a_before a" and ?v = "(a_after a @ decimal (a_value a) @ a_end a) @ [10]"
  have dig: "\<not> isspace c \<and> c \<noteq> EQ_CHAR \<and> c \<noteq> 0 \<and> c \<noteq> 10" if "c \<in> set (decimal k)" for c k
    using that decimal_digits [of k] digit_char [of c] by blast
  have "0 \<notin> set (a_line a)"
    using ok blank_chars dig by (auto simp: a_line_def name_char_def EQ_CHAR_def)
  then have line: "takeWhile (\<lambda>c. c \<noteq> 0) (a_line a) = a_line a" by (auto simp: takeWhile_eq_all_conv)
  have n: "?n \<noteq> []" "EQ_CHAR \<notin> set ?n" using ok blank_chars by (auto simp: name_char_def)
  have v: "?v \<noteq> []" "EQ_CHAR \<notin> set ?v" using ok blank_chars dig by (auto simp: EQ_CHAR_def)
  have tn: "trim_space ?n = a_name a"
    using trim_padded [of "a_name a" "[]" "a_before a"] ok blank_chars by (auto simp: name_char_def)
  have tv: "trim_space ?v = decimal (a_value a)"
    using trim_padded [of "decimal (a_value a)" "a_after a" "a_end a @ [10]"] ok blank_chars dig
    by (auto simp: isspace_def)
  have pv: "word_of_int (param_value (decimal (a_value a))) = (word_of_nat (a_value a) :: u32)"
    using param_value_decimal [of "a_value a"] ok by simp
  have "read_param (a_line a) cfg
      = fold (\<lambda>(n, upd) c. if n = a_name a then upd (word_of_nat (a_value a)) c else c) loc_parameter_table cfg"
    unfolding read_param_def line using strtok_at(1) [OF n, of ?v] strtok_at(2) [OF v] tn tv pv
    by (simp add: a_line_def Let_def cong: if_cong)
  also have "\<dots> = assign a cfg"
    by (auto simp: loc_parameter_table_def assign_def Let_def dest: sym)
  finally show ?thesis .
qed

text \<open>
  C24: the configuration file is read as written. For a file of lines \<open>NAME = number\<close>, with any blanks
  around the parts, lines of less than 80 bytes and numbers below 2^31, the result is that of the
  assignments done one after the other on the defaults, those to unknown names ignored.
\<close>

theorem gps_conf_assignments:
  assumes "\<forall>a \<in> set as. a_ok a"
  shows "loc_read_gps_conf (Some (concat (map a_line as))) = fold assign as loc_default_parameters"
proof -
  have "read_lines (concat (map a_line as)) cfg = fold assign as cfg" for cfg
    using assms
  proof (induction as arbitrary: cfg)
    case Nil
    then show ?case by (subst read_lines.simps) simp
  next
    case (Cons a as)
    let ?l = "(a_name a @ a_before a) @ EQ_CHAR # (a_after a @ decimal (a_value a) @ a_end a)"
    have l: "a_line a = ?l @ [10]" by (simp add: a_line_def)
    have ok: "a_ok a" using Cons.prems by simp
    have "10 \<notin> set ?l"
      using ok blank_chars decimal_digits [of "a_value a"] digit_char
      by (auto simp: a_ok_def name_char_def isspace_def EQ_CHAR_def)
    moreover have "length ?l < 79" using ok l by (simp add: a_ok_def LOC_MAX_PARAM_LINE_def)
    ultimately have "find_index (\<lambda>c. c = 10) (take 79 (?l @ 10 # concat (map a_line as))) = Some (length ?l)"
      by (rule find_newline)
    then have "fgets LOC_MAX_PARAM_LINE (concat (map a_line (a # as))) = (a_line a, concat (map a_line as))"
      by (simp add: fgets_def LOC_MAX_PARAM_LINE_def Let_def l)
    moreover have "a_line a \<noteq> []" by (simp add: l)
    ultimately show ?case
      using Cons.IH [of "read_param (a_line a) cfg"] Cons.prems read_param_line [OF ok]
      by (subst read_lines.simps) simp
  qed
  then show ?thesis by (simp add: loc_read_gps_conf_def)
qed

theorem gps_conf_assignments_witness:
  "loc_read_gps_conf (Some (ascii ''ACCURACY_THRES = 5000'' @ [10])) = loc_default_parameters\<lparr>ACCURACY_THRES := 5000\<rparr>"
proof -
  let ?a = "\<lparr>a_name = ascii ''ACCURACY_THRES'', a_before = [32], a_after = [32], a_value = 5000, a_end = []\<rparr>"
  have dec: "decimal 5000 = ascii ''5000''" by (simp add: decimal.simps digit_def ascii_def)
  have line: "a_line ?a = ascii ''ACCURACY_THRES = 5000'' @ [10]"
    by (simp add: a_line_def dec) (simp add: ascii_def EQ_CHAR_def)
  have "a_ok ?a"
    using line by (simp add: a_ok_def blank_def LOC_MAX_PARAM_LINE_def)
      (simp add: ascii_def name_char_def isspace_def EQ_CHAR_def)
  then have "\<forall>a \<in> set [?a]. a_ok a" by simp
  from gps_conf_assignments [OF this] line show ?thesis by (simp add: assign_def)
qed

end
