(* ===== verification/LocEng.thy ===== *)
theory LocEng
  imports LocEngXtra LocEngNi LocEngCfg
begin

text \<open>
  The GPS engine, libloc_api/loc_eng.cpp: the operations Android calls, the callback the modem's
  events arrive in, and the thread that processes them. A modem event is put into a mailbox of one
  place; the deferred action thread takes it, reports positions, satellites and status to Android,
  and forwards requests for a data connection. A function that would read outside an array, or read
  a union member that is not the one stored, returns None.

  Parameters: the record \<open>modem\<close>, and \<open>eng_env\<close> for the processor's floating-point unit, clocks,
  name resolution, gps.conf and the values of hardware/gps.h; its fields \<open>un_...\<close> are what the stack
  holds where a request is built without setting every member.
\<close>

record eng_env =
  gps_max_svs :: nat
  fp_speed :: "u32 \<Rightarrow> u32 \<Rightarrow> u32"
  fp_is_zero :: "u64 \<Rightarrow> bool"
  fp_exceeds :: "u32 \<Rightarrow> u32 \<Rightarrow> bool"
  elapsed_realtime :: u64
  time_of_day :: u64
  gps_conf_file :: "byte list option"
  gethostbyname :: "byte list \<Rightarrow> u32 option"
  inet_aton :: "byte list \<Rightarrow> u32 option"
  ni_env :: "ni_sizes \<times> int \<times> bool \<times> GpsNiNotification"
  un_disc :: u32
  un_criteria :: rpc_loc_fix_criteria_s_type
  un_position :: rpc_loc_assist_data_pos_s_type
  un_url :: "byte list"
  un_apn :: "byte list"

section \<open>Constants\<close>

definition RPC_LOC_POS_VALID_SESSION_STATUS :: u64 where "RPC_LOC_POS_VALID_SESSION_STATUS = 0x0001"
definition RPC_LOC_POS_VALID_TIMESTAMP_UTC :: u64 where "RPC_LOC_POS_VALID_TIMESTAMP_UTC = 0x0004"
definition RPC_LOC_POS_VALID_LATITUDE :: u64 where "RPC_LOC_POS_VALID_LATITUDE = 0x0020"
definition RPC_LOC_POS_VALID_LONGITUDE :: u64 where "RPC_LOC_POS_VALID_LONGITUDE = 0x0040"
definition RPC_LOC_POS_VALID_ALTITUDE_WRT_ELLIPSOID :: u64 where "RPC_LOC_POS_VALID_ALTITUDE_WRT_ELLIPSOID = 0x0080"
definition RPC_LOC_POS_VALID_SPEED_HORIZONTAL :: u64 where "RPC_LOC_POS_VALID_SPEED_HORIZONTAL = 0x0200"
definition RPC_LOC_POS_VALID_SPEED_VERTICAL :: u64 where "RPC_LOC_POS_VALID_SPEED_VERTICAL = 0x0400"
definition RPC_LOC_POS_VALID_HEADING :: u64 where "RPC_LOC_POS_VALID_HEADING = 0x0800"
definition RPC_LOC_POS_VALID_HOR_UNC_CIRCULAR :: u64 where "RPC_LOC_POS_VALID_HOR_UNC_CIRCULAR = 0x1000"

definition RPC_LOC_SESS_STATUS_SUCCESS :: u32 where "RPC_LOC_SESS_STATUS_SUCCESS = 0"
definition RPC_LOC_SESS_STATUS_IN_PROGESS :: u32 where "RPC_LOC_SESS_STATUS_IN_PROGESS = 1"

definition RPC_LOC_GNSS_INFO_VALID_SV_COUNT :: u32 where "RPC_LOC_GNSS_INFO_VALID_SV_COUNT = 0x10"
definition RPC_LOC_GNSS_INFO_VALID_SV_LIST :: u32 where "RPC_LOC_GNSS_INFO_VALID_SV_LIST = 0x20"
definition RPC_LOC_SV_INFO_VALID_SYSTEM :: u32 where "RPC_LOC_SV_INFO_VALID_SYSTEM = 0x001"
definition RPC_LOC_SV_INFO_VALID_PROCESS_STATUS :: u32 where "RPC_LOC_SV_INFO_VALID_PROCESS_STATUS = 0x008"
definition RPC_LOC_SV_INFO_VALID_HAS_EPH :: u32 where "RPC_LOC_SV_INFO_VALID_HAS_EPH = 0x010"
definition RPC_LOC_SV_INFO_VALID_HAS_ALM :: u32 where "RPC_LOC_SV_INFO_VALID_HAS_ALM = 0x020"
definition RPC_LOC_SV_INFO_VALID_ELEVATION :: u32 where "RPC_LOC_SV_INFO_VALID_ELEVATION = 0x040"
definition RPC_LOC_SV_INFO_VALID_AZIMUTH :: u32 where "RPC_LOC_SV_INFO_VALID_AZIMUTH = 0x080"
definition RPC_LOC_SV_INFO_VALID_SNR :: u32 where "RPC_LOC_SV_INFO_VALID_SNR = 0x100"
definition RPC_LOC_SV_SYSTEM_GPS :: u32 where "RPC_LOC_SV_SYSTEM_GPS = 1"
definition RPC_LOC_SV_SYSTEM_SBAS :: u32 where "RPC_LOC_SV_SYSTEM_SBAS = 3"
definition RPC_LOC_SV_SYSTEM_GLONASS :: u32 where "RPC_LOC_SV_SYSTEM_GLONASS = 5"
definition RPC_LOC_SV_STATUS_TRACK :: u32 where "RPC_LOC_SV_STATUS_TRACK = 3"

definition RPC_LOC_ENGINE_STATE_ON :: u32 where "RPC_LOC_ENGINE_STATE_ON = 1"
definition RPC_LOC_FIX_SESSION_STATE_BEGIN :: u32 where "RPC_LOC_FIX_SESSION_STATE_BEGIN = 1"

definition RPC_LOC_PERIODIC_FIX :: u32 where "RPC_LOC_PERIODIC_FIX = 1"
definition RPC_LOC_SINGLE_FIX :: u32 where "RPC_LOC_SINGLE_FIX = 2"
definition RPC_LOC_OPER_MODE_MSB :: u32 where "RPC_LOC_OPER_MODE_MSB = 2"
definition RPC_LOC_OPER_MODE_MSA :: u32 where "RPC_LOC_OPER_MODE_MSA = 3"
definition RPC_LOC_OPER_MODE_STANDALONE :: u32 where "RPC_LOC_OPER_MODE_STANDALONE = 4"
definition RPC_LOC_FIX_CRIT_VALID_RECURRENCE_TYPE :: u32 where "RPC_LOC_FIX_CRIT_VALID_RECURRENCE_TYPE = 0x01"
definition RPC_LOC_FIX_CRIT_VALID_PREFERRED_OPERATION_MODE :: u32 where
  "RPC_LOC_FIX_CRIT_VALID_PREFERRED_OPERATION_MODE = 0x02"
definition RPC_LOC_FIX_CRIT_VALID_PREFERRED_ACCURACY :: u32 where "RPC_LOC_FIX_CRIT_VALID_PREFERRED_ACCURACY = 0x04"
definition RPC_LOC_FIX_CRIT_VALID_PREFERRED_RESPONSE_TIME :: u32 where
  "RPC_LOC_FIX_CRIT_VALID_PREFERRED_RESPONSE_TIME = 0x08"
definition RPC_LOC_FIX_CRIT_VALID_MIN_INTERVAL :: u32 where "RPC_LOC_FIX_CRIT_VALID_MIN_INTERVAL = 0x40"
definition MIN_POSSIBLE_FIX_INTERVAL :: u32 where "MIN_POSSIBLE_FIX_INTERVAL = 1000"

definition RPC_LOC_ASSIST_POS_VALID_LATITUDE :: u64 where "RPC_LOC_ASSIST_POS_VALID_LATITUDE = 0x02"
definition RPC_LOC_ASSIST_POS_VALID_LONGITUDE :: u64 where "RPC_LOC_ASSIST_POS_VALID_LONGITUDE = 0x04"
definition RPC_LOC_ASSIST_POS_VALID_HOR_UNC_CIRCULAR :: u64 where "RPC_LOC_ASSIST_POS_VALID_HOR_UNC_CIRCULAR = 0x20"
definition RPC_LOC_ASSIST_POS_VALID_CONFIDENCE_HORIZONTAL :: u64 where
  "RPC_LOC_ASSIST_POS_VALID_CONFIDENCE_HORIZONTAL = 0x80"
definition RPC_LOC_ASSIST_DATA_ALL :: u32 where "RPC_LOC_ASSIST_DATA_ALL = 0xFFFFFFFF"
definition GPS_DELETE_ALL :: u16 where "GPS_DELETE_ALL = 0xFFFF"
definition RPC_LOC_SERVER_OPEN_SUCCESS :: u32 where "RPC_LOC_SERVER_OPEN_SUCCESS = 1"
definition RPC_LOC_SERVER_OPEN_FAIL :: u32 where "RPC_LOC_SERVER_OPEN_FAIL = 2"
definition RPC_LOC_SERVER_CLOSE_SUCCESS :: u32 where "RPC_LOC_SERVER_CLOSE_SUCCESS = 1"
definition RPC_LOC_SERVER_CLOSE_FAIL :: u32 where "RPC_LOC_SERVER_CLOSE_FAIL = 2"
definition RPC_LOC_LOCK_NONE :: u32 where "RPC_LOC_LOCK_NONE = 1"
definition RPC_LOC_LOCK_ALL :: u32 where "RPC_LOC_LOCK_ALL = 4"
definition DATA_OPEN_MIN_TIME :: int where "DATA_OPEN_MIN_TIME = 1"

datatype GpsPositionMode =
    GPS_POSITION_MODE_STANDALONE
  | GPS_POSITION_MODE_MS_BASED
  | GPS_POSITION_MODE_MS_ASSISTED
  | GPS_POSITION_MODE_OTHER

datatype GpsPositionRecurrence =
    GPS_POSITION_RECURRENCE_PERIODIC
  | GPS_POSITION_RECURRENCE_SINGLE
  | GPS_POSITION_RECURRENCE_OTHER

datatype AGpsType = AGPS_TYPE_SUPL | AGPS_TYPE_C2K | AGPS_TYPE_OTHER

datatype gps_extension = XTRA_EXTENSION | AGPS_EXTENSION | NI_EXTENSION

section \<open>Waking the deferred action thread\<close>

text \<open>A wake lock is held while events are pending for the thread.\<close>

definition signal_deferred :: "u32 \<Rightarrow> 'w engine \<Rightarrow> 'w engine" where
  "signal_deferred fl s = on_eng (deferred_action_flags_update (\<lambda>x. x OR fl)) (tell AcquireWakelock s)"

section \<open>Starting and stopping\<close>

definition gps_get_hardware_interface :: "byte list \<Rightarrow> bool" where
  "gps_get_hardware_interface gps_disable = (\<not> (gps_disable \<noteq> [] \<and> gps_disable ! 0 = 49))"

text \<open>\<open>names\<close>: the names of the extensions in hardware/gps.h.\<close>

definition loc_eng_get_extension :: "byte list \<times> byte list \<times> byte list \<Rightarrow> byte list \<Rightarrow> gps_extension option" where
  "loc_eng_get_extension names name =
     (case names of (xtra, agps, ni) \<Rightarrow>
        if name = xtra then Some XTRA_EXTENSION
        else if name = agps then Some AGPS_EXTENSION
        else if name = ni then Some NI_EXTENSION
        else None)"

definition loc_inform_gps_status :: "GpsStatusValue \<Rightarrow> 'w engine \<Rightarrow> 'w engine" where
  "loc_inform_gps_status st s =
     (let s1 = (if status_cb (eng s) then
            (let s2 = tell (ReportStatus st) s in
             if st = GPS_STATUS_ENGINE_ON \<and> last_status s = GPS_STATUS_SESSION_BEGIN
             then tell (ReportStatus GPS_STATUS_SESSION_BEGIN) s2 else s2)
          else s)
      in s1\<lparr>last_status := st\<rparr>)"

definition loc_eng_start :: "'w modem \<Rightarrow> 'w engine \<Rightarrow> int \<times> 'w engine" where
  "loc_eng_start m s =
     (if \<not> loc_eng_inited s then (RPC_LOC_API_INVALID_HANDLE, s)
      else case ask (m_start_fix m (client_handle (eng s))) s of (ret_val, s1) \<Rightarrow>
        (0, if sint ret_val \<noteq> RPC_LOC_API_SUCCESS then s1 else on_eng (navigating_update (\<lambda>_. True)) s1))"

definition loc_eng_stop :: "'w modem \<Rightarrow> 'w engine \<Rightarrow> int \<times> 'w engine" where
  "loc_eng_stop m s =
     (if \<not> loc_eng_inited s then (RPC_LOC_API_INVALID_HANDLE, s)
      else if agps_request_pending (eng s) then (0, on_eng (stop_request_pending_update (\<lambda>_. True)) s)
      else case ask (m_stop_fix m (client_handle (eng s))) s of (ret_val, s1) \<Rightarrow>
        if sint ret_val \<noteq> RPC_LOC_API_SUCCESS then (0, s1)
        else
          let s2 = (if fix_session_status (eng s1) \<noteq> GPS_STATUS_SESSION_END then
                (let s3 = on_eng (fix_session_status_update (\<lambda>_. GPS_STATUS_SESSION_END)) s1 in
                 if engine_status (eng s3) \<noteq> GPS_STATUS_ENGINE_OFF
                 then loc_inform_gps_status (fix_session_status (eng s3)) s3 else s3)
              else s1)
          in (0, on_eng (navigating_update (\<lambda>_. False)) s2))"

definition loc_eng_deinit :: "'w modem \<Rightarrow> 'w engine \<Rightarrow> int \<times> 'w engine" where
  "loc_eng_deinit m s =
     (if \<not> loc_eng_inited s then (0, s)
      else
        let s1 = (if navigating (eng s) then on_eng (navigating_update (\<lambda>_. False)) (snd (loc_eng_stop m s)) else s);
            s2 = (if client_opened (eng s1)
              then on_eng (client_opened_update (\<lambda>_. False)) (snd (ask (m_close m (client_handle (eng s1))) s1)) else s1)
        in (0, s2\<lparr>loc_eng_inited := False\<rparr>))"

text \<open>The callbacks of \<open>GpsCallbacks\<close> that may be missing.\<close>

record gps_callbacks =
  has_location_cb :: bool
  has_status_cb :: bool
  has_sv_status_cb :: bool
  has_nmea_cb :: bool

definition loc_eng_events :: u64 where
  "loc_eng_events = RPC_LOC_EVENT_PARSED_POSITION_REPORT OR RPC_LOC_EVENT_SATELLITE_REPORT
     OR RPC_LOC_EVENT_LOCATION_SERVER_REQUEST OR RPC_LOC_EVENT_ASSISTANCE_DATA_REQUEST
     OR RPC_LOC_EVENT_IOCTL_REPORT OR RPC_LOC_EVENT_STATUS_REPORT
     OR RPC_LOC_EVENT_NMEA_1HZ_REPORT OR RPC_LOC_EVENT_NI_NOTIFY_VERIFY_REQUEST"

text \<open>\<open>deferred_action_thread\<close> after \<open>create_thread_cb\<close>: the thread could be created.\<close>

definition loc_eng_init :: "'w modem \<Rightarrow> eng_env \<Rightarrow> bool \<Rightarrow> gps_callbacks \<Rightarrow> 'w engine \<Rightarrow> int \<times> 'w engine" where
  "loc_eng_init m v created cbs s =
     (let s1 = tell SetCapabilities (s\<lparr>world := m_glue_init m (world s)\<rparr>);
          s2 = (if loc_eng_inited s1 then (snd (loc_eng_deinit m s1))\<lparr>loc_eng_inited := False\<rparr> else s1);
          s3 = s2\<lparr>gps_conf := loc_read_gps_conf (gps_conf_file v),
                 eng := zero_eng\<lparr>location_cb := has_location_cb cbs, sv_status_cb := has_sv_status_cb cbs,
                   status_cb := has_status_cb cbs, nmea_cb := has_nmea_cb cbs,
                   engine_status := GPS_STATUS_NONE, fix_session_status := GPS_STATUS_NONE,
                   pending_event := 0, deferred_action_flags := 0, mute_session_state := LOC_MUTE_SESS_NONE,
                   data_connection_is_on := False, eng_apn_name := replicate 100 0, aiding_data_for_deletion := 0\<rparr>\<rparr>
      in case ask (m_open m loc_eng_events) s3 of (h, s4) \<Rightarrow>
        let s5 = on_eng (\<lambda>e. e\<lparr>client_handle := h, client_opened := (0 \<le> sint h)\<rparr>) s4;
            s6 = (if \<not> loc_eng_inited s5
              then on_eng (deferred_action_thread_update (\<lambda>_. created)) (tell CreateThread s5) else s5)
        in (0, (on_eng (xtra_module_data_update (\<lambda>x. x\<lparr>download_request_cb := False, request_pending := False\<rparr>)) s6)
              \<lparr>loc_eng_inited := True\<rparr>))"

text \<open>Up to the join of the thread, and from there.\<close>

definition loc_eng_cleanup_quit :: "'w modem \<Rightarrow> 'w engine \<Rightarrow> 'w engine" where
  "loc_eng_cleanup_quit m s =
     (let s1 = snd (loc_eng_deinit m s) in
      if deferred_action_thread (eng s1) then signal_deferred DEFERRED_ACTION_QUIT s1 else s1)"

definition loc_eng_cleanup_joined :: "'w engine \<Rightarrow> 'w engine" where
  "loc_eng_cleanup_joined s = on_eng (deferred_action_thread_update (\<lambda>_. False)) s"

section \<open>Requests of the framework\<close>

text \<open>A request of the engine to the modem; the callers ignore all of its result but success.\<close>

abbreviation eng_ioctl ::
    "'w modem \<Rightarrow> u32 \<Rightarrow> rpc_loc_ioctl_data_u_type \<Rightarrow> 'w engine \<Rightarrow> bool \<times> 'w engine" where
  "eng_ioctl m kd dat s \<equiv> loc_eng_ioctl m (client_handle (eng s)) kd dat LOC_IOCTL_DEFAULT_TIMEOUT s"

definition fix_criteria ::
    "eng_env \<Rightarrow> bool \<Rightarrow> GpsPositionMode \<Rightarrow> GpsPositionRecurrence \<Rightarrow> u32 \<Rightarrow> u32 \<Rightarrow> u32 \<Rightarrow> rpc_loc_fix_criteria_s_type" where
  "fix_criteria v server_set mode0 recurrence interval acc tm =
     (let c1 = (un_criteria v)\<lparr>rpc_loc_fix_criteria_s_type.valid_mask :=
             RPC_LOC_FIX_CRIT_VALID_PREFERRED_OPERATION_MODE OR RPC_LOC_FIX_CRIT_VALID_RECURRENCE_TYPE,
           rpc_loc_fix_criteria_s_type.min_interval := interval, preferred_accuracy := 50\<rparr>;
          mode = (if \<not> server_set then GPS_POSITION_MODE_STANDALONE else mode0);
          c2 = (case mode of
              GPS_POSITION_MODE_MS_BASED \<Rightarrow>
                c1\<lparr>preferred_operation_mode := RPC_LOC_OPER_MODE_MSB, preferred_response_time := 89\<rparr>
            | GPS_POSITION_MODE_MS_ASSISTED \<Rightarrow>
                c1\<lparr>preferred_operation_mode := RPC_LOC_OPER_MODE_MSA, preferred_response_time := 89\<rparr>
            | _ \<Rightarrow> c1\<lparr>preferred_operation_mode := RPC_LOC_OPER_MODE_STANDALONE, preferred_response_time := 60\<rparr>);
          c3 = (if interval > 0
              then c2\<lparr>rpc_loc_fix_criteria_s_type.min_interval := interval, rpc_loc_fix_criteria_s_type.valid_mask :=
                rpc_loc_fix_criteria_s_type.valid_mask c2 OR RPC_LOC_FIX_CRIT_VALID_MIN_INTERVAL\<rparr>
              else c2\<lparr>rpc_loc_fix_criteria_s_type.min_interval := MIN_POSSIBLE_FIX_INTERVAL\<rparr>);
          c4 = (if acc > 0
              then c3\<lparr>preferred_accuracy := acc, rpc_loc_fix_criteria_s_type.valid_mask :=
                rpc_loc_fix_criteria_s_type.valid_mask c3 OR RPC_LOC_FIX_CRIT_VALID_PREFERRED_ACCURACY\<rparr>
              else c3);
          c5 = (if tm > 0
              then c4\<lparr>preferred_response_time := tm, rpc_loc_fix_criteria_s_type.valid_mask :=
                rpc_loc_fix_criteria_s_type.valid_mask c4 OR RPC_LOC_FIX_CRIT_VALID_PREFERRED_RESPONSE_TIME\<rparr>
              else c4)
      in c5\<lparr>recurrence_type := (case recurrence of GPS_POSITION_RECURRENCE_SINGLE \<Rightarrow> RPC_LOC_SINGLE_FIX
          | _ \<Rightarrow> RPC_LOC_PERIODIC_FIX)\<rparr>)"

definition loc_eng_set_position_mode ::
    "'w modem \<Rightarrow> eng_env \<Rightarrow> GpsPositionMode \<Rightarrow> GpsPositionRecurrence \<Rightarrow> u32 \<Rightarrow> u32 \<Rightarrow> u32 \<Rightarrow> 'w engine \<Rightarrow> int \<times> 'w engine" where
  "loc_eng_set_position_mode m v mode recurrence interval acc tm s =
     (if \<not> loc_eng_inited s then (RPC_LOC_API_INVALID_HANDLE, s)
      else (0, snd (eng_ioctl m RPC_LOC_IOCTL_SET_FIX_CRITERIA
        \<lparr>disc = RPC_LOC_IOCTL_SET_FIX_CRITERIA, arm = ioctl_data_fix_criteria
          (fix_criteria v (host_set (supl_host s) \<or> host_set (c2k_host s)) mode recurrence interval acc tm)\<rparr> s)))"

definition loc_eng_inject_time :: "'w modem \<Rightarrow> eng_env \<Rightarrow> u64 \<Rightarrow> u64 \<Rightarrow> u32 \<Rightarrow> 'w engine \<Rightarrow> int \<times> 'w engine" where
  "loc_eng_inject_time m v tm timeReference unc s =
     (if \<not> loc_eng_inited s then (RPC_LOC_API_INVALID_HANDLE, s)
      else (RPC_LOC_API_SUCCESS, snd (eng_ioctl m RPC_LOC_IOCTL_INJECT_UTC_TIME
        \<lparr>disc = RPC_LOC_IOCTL_INJECT_UTC_TIME, arm = ioctl_data_assistance_data_time
          \<lparr>time_utc = tm + (elapsed_realtime v - timeReference), uncertainty = unc\<rparr>\<rparr> s)))"

definition loc_eng_inject_location :: "'w modem \<Rightarrow> eng_env \<Rightarrow> u64 \<Rightarrow> u64 \<Rightarrow> u32 \<Rightarrow> 'w engine \<Rightarrow> int \<times> 'w engine" where
  "loc_eng_inject_location m v la lo acc s =
     (if \<not> loc_eng_inited s then (RPC_LOC_API_INVALID_HANDLE, s)
      else case eng_ioctl m RPC_LOC_IOCTL_INJECT_POSITION
        \<lparr>disc = un_disc v, arm = ioctl_data_assistance_data_position
          ((un_position v)\<lparr>rpc_loc_assist_data_pos_s_type.valid_mask := RPC_LOC_ASSIST_POS_VALID_LATITUDE
              OR RPC_LOC_ASSIST_POS_VALID_LONGITUDE OR RPC_LOC_ASSIST_POS_VALID_HOR_UNC_CIRCULAR
              OR RPC_LOC_ASSIST_POS_VALID_CONFIDENCE_HORIZONTAL,
            rpc_loc_assist_data_pos_s_type.latitude := la, rpc_loc_assist_data_pos_s_type.longitude := lo,
            rpc_loc_assist_data_pos_s_type.hor_unc_circular := acc,
            rpc_loc_assist_data_pos_s_type.confidence_horizontal := 63\<rparr>)\<rparr> s of
          (ok, s1) \<Rightarrow> (if \<not> ok then RPC_LOC_API_GENERAL_FAILURE else RPC_LOC_API_SUCCESS, s1))"

definition loc_eng_delete_aiding_data :: "u16 \<Rightarrow> 'w engine \<Rightarrow> 'w engine" where
  "loc_eng_delete_aiding_data f s =
     (if \<not> loc_eng_inited s then s
      else
        let s1 = (if f \<noteq> 0 then on_eng (aiding_data_for_deletion_update (\<lambda>_. GPS_DELETE_ALL)) s else s) in
        if engine_status (eng s1) \<noteq> GPS_STATUS_ENGINE_ON \<and> aiding_data_for_deletion (eng s1) \<noteq> 0
        then signal_deferred DEFERRED_ACTION_DELETE_AIDING s1 else s1)"

section \<open>Servers\<close>

text \<open>strlcpy: the array \<open>old\<close> with the string \<open>src\<close> and its terminator written to its start.\<close>

definition strlcpy :: "byte list \<Rightarrow> byte list \<Rightarrow> byte list" where
  "strlcpy old src = (let t = take (length old - 1) src in t @ [0] @ drop (Suc (length t)) old)"

definition loc_eng_set_apn :: "byte list option \<Rightarrow> 'w engine \<Rightarrow> int \<times> 'w engine" where
  "loc_eng_set_apn apn s =
     (if \<not> loc_eng_inited s then (RPC_LOC_API_INVALID_HANDLE, s)
      else case apn of None \<Rightarrow> (0, s)
      | Some a \<Rightarrow>
          let apn_len = (if length a \<ge> 100 then 100 - 1 else length a)
          in (0, on_eng (\<lambda>e. e\<lparr>data_connection_is_on := True,
                eng_apn_name := take apn_len a @ [0] @ drop (Suc apn_len) (eng_apn_name e)\<rparr>) s))"

definition resolve_in_addr :: "eng_env \<Rightarrow> byte list \<Rightarrow> u32 option" where
  "resolve_in_addr v host =
     (case gethostbyname v host of Some a \<Rightarrow> Some a | None \<Rightarrow> inet_aton v host)"

text \<open>The bytes of an address in the other order.\<close>

definition htonl :: "u32 \<Rightarrow> u32" where
  "htonl w = (case be32 w of [a, b, c, d] \<Rightarrow> un_be32 d c b a)"

text \<open>\<open>%s:%u\<close>\<close>

definition server_url :: "byte list \<Rightarrow> int \<Rightarrow> byte list" where
  "server_url hostname prt = hostname @ [58] @ decimal (unat (word_of_int prt :: u32))"

definition loc_eng_set_server ::
    "'w modem \<Rightarrow> eng_env \<Rightarrow> AGpsType \<Rightarrow> byte list \<Rightarrow> int \<Rightarrow> 'w engine \<Rightarrow> int \<times> 'w engine" where
  "loc_eng_set_server m v ty hostname prt s =
     (let url = server_url hostname prt in
      if length url \<ge> 256 then (-1, s)
      else case ty of
        AGPS_TYPE_SUPL \<Rightarrow>
          (0, snd (eng_ioctl m RPC_LOC_IOCTL_SET_UMTS_SLP_SERVER_ADDR
            \<lparr>disc = RPC_LOC_IOCTL_SET_UMTS_SLP_SERVER_ADDR, arm = ioctl_data_server_addr
              \<lparr>addr_type = RPC_LOC_SERVER_ADDR_URL, addr_info = \<lparr>disc = RPC_LOC_SERVER_ADDR_URL,
                arm = server_addr_url \<lparr>length16 = word_of_nat (length url), addr = strlcpy (un_url v) url\<rparr>\<rparr>\<rparr>\<rparr> s))
      | AGPS_TYPE_C2K \<Rightarrow>
          (case resolve_in_addr v hostname of None \<Rightarrow> (-2, s)
           | Some a \<Rightarrow>
             (0, snd (eng_ioctl m RPC_LOC_IOCTL_SET_CDMA_PDE_SERVER_ADDR
               \<lparr>disc = RPC_LOC_IOCTL_SET_CDMA_PDE_SERVER_ADDR, arm = ioctl_data_server_addr
                 \<lparr>addr_type = RPC_LOC_SERVER_ADDR_IPV4, addr_info = \<lparr>disc = RPC_LOC_SERVER_ADDR_IPV4,
                   arm = server_addr_ipv4 \<lparr>rpc_loc_server_addr_ipv4_type.addr = htonl a, port = word_of_int prt\<rparr>\<rparr>\<rparr>\<rparr>
               (s\<lparr>loc_c2k_addr_is_set := True\<rparr>))))
      | AGPS_TYPE_OTHER \<Rightarrow> (0, s))"

definition buffered_host :: "byte list \<Rightarrow> int \<Rightarrow> host_buf" where
  "buffered_host hostname prt = \<lparr>host_set = True, host_name = take 99 hostname, host_port = prt\<rparr>"

definition loc_eng_set_server_proxy ::
    "'w modem \<Rightarrow> eng_env \<Rightarrow> AGpsType \<Rightarrow> byte list \<Rightarrow> int \<Rightarrow> 'w engine \<Rightarrow> int \<times> 'w engine" where
  "loc_eng_set_server_proxy m v ty hostname prt s =
     (0, if loc_eng_inited s then snd (loc_eng_set_server m v ty hostname prt s)
         else case ty of
           AGPS_TYPE_SUPL \<Rightarrow> s\<lparr>supl_host := buffered_host hostname prt\<rparr>
         | AGPS_TYPE_C2K \<Rightarrow> s\<lparr>c2k_host := buffered_host hostname prt\<rparr>
         | AGPS_TYPE_OTHER \<Rightarrow> s)"

definition loc_eng_agps_init :: "'w modem \<Rightarrow> eng_env \<Rightarrow> bool \<Rightarrow> 'w engine \<Rightarrow> 'w engine" where
  "loc_eng_agps_init m v cb s =
     (let s1 = (on_eng (agps_status_cb_update (\<lambda>_. cb)) s)\<lparr>loc_c2k_addr_is_set := False\<rparr>;
          s2 = (if host_set (supl_host s1)
            then snd (loc_eng_set_server m v AGPS_TYPE_SUPL (host_name (supl_host s1)) (host_port (supl_host s1)) s1)
            else s1)
      in if host_set (c2k_host s2)
         then snd (loc_eng_set_server m v AGPS_TYPE_C2K (host_name (c2k_host s2)) (host_port (c2k_host s2)) s2)
         else s2)"

section \<open>Data connections\<close>

definition loc_eng_data_conn_open :: "byte list option \<Rightarrow> 'w engine \<Rightarrow> int \<times> 'w engine" where
  "loc_eng_data_conn_open apn s =
     (if \<not> loc_eng_inited s then (RPC_LOC_API_INVALID_HANDLE, s)
      else (0, signal_deferred DEFERRED_ACTION_AGPS_DATA_SUCCESS (snd (loc_eng_set_apn apn s))))"

definition loc_eng_data_conn_closed :: "'w engine \<Rightarrow> int \<times> 'w engine" where
  "loc_eng_data_conn_closed s =
     (if \<not> loc_eng_inited s then (RPC_LOC_API_INVALID_HANDLE, s)
      else (0, signal_deferred DEFERRED_ACTION_AGPS_DATA_CLOSED s))"

definition loc_eng_data_conn_failed :: "'w engine \<Rightarrow> int \<times> 'w engine" where
  "loc_eng_data_conn_failed s =
     (if \<not> loc_eng_inited s then (RPC_LOC_API_INVALID_HANDLE, s)
      else (0, signal_deferred DEFERRED_ACTION_AGPS_DATA_FAILED s))"

definition loc_eng_ioctl_data_open_status :: "'w modem \<Rightarrow> eng_env \<Rightarrow> bool \<Rightarrow> 'w engine \<Rightarrow> 'w engine" where
  "loc_eng_ioctl_data_open_status m v is_succ s =
     on_eng (data_connection_is_on_update (\<lambda>_. is_succ))
       (snd (eng_ioctl m RPC_LOC_IOCTL_INFORM_SERVER_OPEN_STATUS
         \<lparr>disc = RPC_LOC_IOCTL_INFORM_SERVER_OPEN_STATUS, arm = ioctl_data_conn_open_status
           \<lparr>rpc_loc_server_open_status_s_type.conn_handle = eng_conn_handle (eng s),
            open_status = (if is_succ then RPC_LOC_SERVER_OPEN_SUCCESS else RPC_LOC_SERVER_OPEN_FAIL),
            apn_name = strlcpy (un_apn v) (takeWhile (\<lambda>c. c \<noteq> 0) (eng_apn_name (eng s)))\<rparr>\<rparr> s))"

definition loc_eng_ioctl_data_close_status :: "'w modem \<Rightarrow> bool \<Rightarrow> 'w engine \<Rightarrow> 'w engine" where
  "loc_eng_ioctl_data_close_status m is_succ s =
     snd (eng_ioctl m RPC_LOC_IOCTL_INFORM_SERVER_CLOSE_STATUS
       \<lparr>disc = RPC_LOC_IOCTL_INFORM_SERVER_CLOSE_STATUS, arm = ioctl_data_conn_close_status
         \<lparr>conn_handle = eng_conn_handle (eng s),
          close_status = (if is_succ then RPC_LOC_SERVER_CLOSE_SUCCESS else RPC_LOC_SERVER_CLOSE_FAIL)\<rparr>\<rparr> s)"

definition loc_eng_delete_aiding_data_action :: "'w modem \<Rightarrow> 'w engine \<Rightarrow> 'w engine" where
  "loc_eng_delete_aiding_data_action m s =
     (let ty = (if aiding_data_for_deletion (eng s) = GPS_DELETE_ALL then RPC_LOC_ASSIST_DATA_ALL
                else ucast (aiding_data_for_deletion (eng s)));
          s1 = on_eng (aiding_data_for_deletion_update (\<lambda>_. 0)) s
      in snd (eng_ioctl m RPC_LOC_IOCTL_DELETE_ASSIST_DATA
        \<lparr>disc = RPC_LOC_IOCTL_DELETE_ASSIST_DATA, arm = ioctl_data_assist_data_delete
          \<lparr>rpc_loc_assist_data_delete_s_type.kind = ty, reserved = replicate 8 0\<rparr>\<rparr> s1))"

definition loc_eng_report_agps_status :: "AGpsStatusValue \<Rightarrow> 'w engine \<Rightarrow> 'w engine" where
  "loc_eng_report_agps_status st s =
     (if \<not> agps_status_cb (eng s) then s
      else case st of
        GPS_REQUEST_AGPS_DATA_CONN \<Rightarrow> tell (ReportAgps st) s
      | GPS_RELEASE_AGPS_DATA_CONN \<Rightarrow> tell (ReportAgps st) s
      | AGPS_NO_STATUS \<Rightarrow> s)"

definition loc_eng_process_atl_action :: "AGpsStatusValue \<Rightarrow> 'w engine \<Rightarrow> 'w engine" where
  "loc_eng_process_atl_action st s =
     (if st = GPS_RELEASE_AGPS_DATA_CONN then loc_eng_report_agps_status GPS_RELEASE_AGPS_DATA_CONN s
      else if st = GPS_REQUEST_AGPS_DATA_CONN then loc_eng_report_agps_status GPS_REQUEST_AGPS_DATA_CONN s
      else s)"

definition loc_eng_set_gps_lock :: "'w modem \<Rightarrow> u32 \<Rightarrow> 'w engine \<Rightarrow> bool \<times> 'w engine" where
  "loc_eng_set_gps_lock m lock_type s =
     eng_ioctl m RPC_LOC_IOCTL_SET_ENGINE_LOCK
       \<lparr>disc = RPC_LOC_IOCTL_SET_ENGINE_LOCK, arm = ioctl_data_engine_lock lock_type\<rparr> s"

end
