(* ===== verification/LocEngRun.thy ===== *)
theory LocEngRun
  imports LocEng
begin

text \<open>
  The modem's events in the GPS engine, libloc_api/loc_eng.cpp: the callback that stores an event,
  the reports to Android and the deferred action thread. A pass of the thread is modelled in its
  three parts, between which other threads run: up to the wait or the release of the mutex, the
  return from the wait, and the actions after the release of the mutex.
\<close>

section \<open>Receiving an event\<close>

definition loc_event_cb :: "u32 \<Rightarrow> u64 \<Rightarrow> rpc_loc_event_payload_u_type \<Rightarrow> 'w engine \<Rightarrow> int \<times> 'w engine" where
  "loc_event_cb h ev pl s =
     (if ev = RPC_LOC_EVENT_IOCTL_REPORT then (RPC_LOC_API_SUCCESS, s)
      else if \<not> loc_eng_inited s then (RPC_LOC_API_INVALID_HANDLE, s)
      else if h \<noteq> client_handle (eng s) then (RPC_LOC_API_SUCCESS, s)
      else (RPC_LOC_API_SUCCESS,
        signal_deferred DEFERRED_ACTION_EVENT (on_eng (\<lambda>e. e\<lparr>pending_event := ev, pending_payload := pl\<rparr>) s)))"

section \<open>Reports\<close>

text \<open>The location a report gives, cleared storage where it has none.\<close>

definition reported_location :: "eng_env \<Rightarrow> rpc_loc_parsed_position_s_type \<Rightarrow> GpsLocation" where
  "reported_location v r =
     (let vm = rpc_loc_parsed_position_s_type.valid_mask r;
          l0 = \<lparr>loc_flags = {}, loc_latitude = 0, loc_longitude = 0, loc_altitude = 0, loc_speed = 0,
            loc_bearing = 0, loc_accuracy = 0, loc_timestamp = 0\<rparr>;
          l1 = (if vm AND RPC_LOC_POS_VALID_TIMESTAMP_UTC \<noteq> 0
            then l0\<lparr>loc_timestamp := rpc_loc_parsed_position_s_type.timestamp_utc r\<rparr> else l0);
          l2 = (if vm AND RPC_LOC_POS_VALID_LATITUDE \<noteq> 0 \<and> vm AND RPC_LOC_POS_VALID_LONGITUDE \<noteq> 0
            then l1\<lparr>loc_flags := insert GPS_LOCATION_HAS_LAT_LONG (loc_flags l1),
              loc_latitude := rpc_loc_parsed_position_s_type.latitude r,
              loc_longitude := rpc_loc_parsed_position_s_type.longitude r\<rparr> else l1);
          l3 = (if vm AND RPC_LOC_POS_VALID_ALTITUDE_WRT_ELLIPSOID \<noteq> 0
            then l2\<lparr>loc_flags := insert GPS_LOCATION_HAS_ALTITUDE (loc_flags l2),
              loc_altitude := rpc_loc_parsed_position_s_type.altitude_wrt_ellipsoid r\<rparr> else l2);
          l4 = (if vm AND RPC_LOC_POS_VALID_SPEED_HORIZONTAL \<noteq> 0 \<and> vm AND RPC_LOC_POS_VALID_SPEED_VERTICAL \<noteq> 0
            then l3\<lparr>loc_flags := insert GPS_LOCATION_HAS_SPEED (loc_flags l3),
              loc_speed := fp_speed v (speed_horizontal r) (speed_vertical r)\<rparr> else l3);
          l5 = (if vm AND RPC_LOC_POS_VALID_HEADING \<noteq> 0
            then l4\<lparr>loc_flags := insert GPS_LOCATION_HAS_BEARING (loc_flags l4),
              loc_bearing := rpc_loc_parsed_position_s_type.heading r\<rparr> else l4)
      in if vm AND RPC_LOC_POS_VALID_HOR_UNC_CIRCULAR \<noteq> 0
         then l5\<lparr>loc_flags := insert GPS_LOCATION_HAS_ACCURACY (loc_flags l5),
           loc_accuracy := rpc_loc_parsed_position_s_type.hor_unc_circular r\<rparr> else l5)"

definition loc_eng_report_position :: "eng_env \<Rightarrow> rpc_loc_parsed_position_s_type \<Rightarrow> 'w engine \<Rightarrow> 'w engine" where
  "loc_eng_report_position v r s =
     (let vm = rpc_loc_parsed_position_s_type.valid_mask r; ss = session_status r in
      if vm AND RPC_LOC_POS_VALID_SESSION_STATUS \<noteq> 0 then
        if ss = RPC_LOC_SESS_STATUS_SUCCESS \<or> (ss = RPC_LOC_SESS_STATUS_IN_PROGESS \<and> INTERMEDIATE_POS (gps_conf s) \<noteq> 0)
        then
          let location = reported_location v r;
              filter_out = ((fp_is_zero v (loc_latitude location) \<and> fp_is_zero v (loc_longitude location))
                \<or> (ACCURACY_THRES (gps_conf s) \<noteq> 0 \<and> ss = RPC_LOC_SESS_STATUS_IN_PROGESS
                  \<and> vm AND RPC_LOC_POS_VALID_HOR_UNC_CIRCULAR \<noteq> 0
                  \<and> fp_exceeds v (rpc_loc_parsed_position_s_type.hor_unc_circular r) (ACCURACY_THRES (gps_conf s))))
          in if location_cb (eng s) \<and> \<not> filter_out then tell (ReportLocation location) s else s
        else s
      else s)"

text \<open>A bit for a satellite: a shift by a negative number or by more than 31 is undefined.\<close>

definition sv_bit :: "byte \<Rightarrow> u32 option" where
  "sv_bit p = (if 1 \<le> p \<and> p \<le> 32 then Some (push_bit (unat p - 1) 1) else None)"

definition set_sv_bit :: "bool \<Rightarrow> byte \<Rightarrow> u32 \<Rightarrow> u32 option" where
  "set_sv_bit present p bits = (if present then map_option ((OR) bits) (sv_bit p) else Some bits)"

text \<open>One entry of the list: the report so far, with the entry appended unless it is skipped.\<close>

definition add_sv :: "rpc_loc_sv_info_s_type \<Rightarrow> GpsSvStatus \<Rightarrow> GpsSvStatus option" where
  "add_sv sv st =
     (let vm = rpc_loc_sv_info_s_type.valid_mask sv; p = prn sv;
          known = (vm AND RPC_LOC_SV_INFO_VALID_SYSTEM \<noteq> 0);
          finish = (\<lambda>st1 number. Some (st1\<lparr>svs := svs st1 @ [\<lparr>sv_prn = number,
            sv_snr = (if vm AND RPC_LOC_SV_INFO_VALID_SNR \<noteq> 0 then snr sv else 0),
            sv_elevation = (if vm AND RPC_LOC_SV_INFO_VALID_ELEVATION \<noteq> 0 then elevation sv else 0),
            sv_azimuth = (if vm AND RPC_LOC_SV_INFO_VALID_AZIMUTH \<noteq> 0 then azimuth sv else 0)\<rparr>]\<rparr>))
      in if \<not> known then finish st 0
         else if system sv = RPC_LOC_SV_SYSTEM_GPS then do {
           em \<leftarrow> set_sv_bit (vm AND RPC_LOC_SV_INFO_VALID_HAS_EPH \<noteq> 0 \<and> has_eph sv = 1) p (ephemeris_mask st);
           am \<leftarrow> set_sv_bit (vm AND RPC_LOC_SV_INFO_VALID_HAS_ALM \<noteq> 0 \<and> has_alm sv = 1) p (almanac_mask st);
           um \<leftarrow> set_sv_bit (vm AND RPC_LOC_SV_INFO_VALID_PROCESS_STATUS \<noteq> 0
             \<and> process_status sv = RPC_LOC_SV_STATUS_TRACK) p (used_in_fix_mask st);
           finish (st\<lparr>ephemeris_mask := em, almanac_mask := am, used_in_fix_mask := um\<rparr>) (uint p)
         }
         else if system sv = RPC_LOC_SV_SYSTEM_SBAS then finish st (uint p + 33 - 120)
         else if system sv = RPC_LOC_SV_SYSTEM_GLONASS then finish st (uint p + (65 - 1))
         else Some st)"

text \<open>The loop, with \<open>left\<close> entries to go; None when it reads behind the list.\<close>

fun sv_loop :: "nat \<Rightarrow> rpc_loc_sv_info_s_type list \<Rightarrow> GpsSvStatus \<Rightarrow> GpsSvStatus option" where
  "sv_loop 0 l st = Some st"
| "sv_loop (Suc left) [] st = None"
| "sv_loop (Suc left) (sv # l) st = do { st1 \<leftarrow> add_sv sv st; sv_loop left l st1 }"

definition no_svs :: GpsSvStatus where
  "no_svs = \<lparr>svs = [], ephemeris_mask = 0, almanac_mask = 0, used_in_fix_mask = 0\<rparr>"

definition sv_report :: "nat \<Rightarrow> rpc_loc_gnss_info_s_type \<Rightarrow> GpsSvStatus option" where
  "sv_report max_svs r =
     (let vm = rpc_loc_gnss_info_s_type.valid_mask r;
          num_svs_max = (if vm AND RPC_LOC_GNSS_INFO_VALID_SV_COUNT \<noteq> 0
            then (if unat (sv_count r) > max_svs then max_svs else unat (sv_count r)) else 0)
      in if vm AND RPC_LOC_GNSS_INFO_VALID_SV_LIST \<noteq> 0
         then sv_loop num_svs_max (case val (sv_list r) of None \<Rightarrow> [] | Some l \<Rightarrow> l) no_svs
         else Some no_svs)"

definition loc_eng_report_sv :: "eng_env \<Rightarrow> rpc_loc_gnss_info_s_type \<Rightarrow> 'w engine \<Rightarrow> 'w engine option" where
  "loc_eng_report_sv v r s = do {
     st \<leftarrow> sv_report (gps_max_svs v) r;
     Some (if svs st \<noteq> [] \<and> sv_status_cb (eng s) then tell (ReportSv st) s else s)
   }"

text \<open>The engine and session status a status event leads to; None when its payload is another member.\<close>

definition status_event ::
    "rpc_loc_status_event_s_type \<Rightarrow> GpsStatusValue \<times> GpsStatusValue \<Rightarrow> (GpsStatusValue \<times> GpsStatusValue) option" where
  "status_event r old =
     (if rpc_loc_status_event_s_type.event r = RPC_LOC_STATUS_EVENT_ENGINE_STATE then
        (case arm (rpc_loc_status_event_s_type.payload r) of
           status_event_payload_engine_state st \<Rightarrow>
             Some (if st = RPC_LOC_ENGINE_STATE_ON then (GPS_STATUS_ENGINE_ON, snd old)
                   else (GPS_STATUS_ENGINE_OFF, GPS_STATUS_SESSION_END))
         | _ \<Rightarrow> None)
      else if rpc_loc_status_event_s_type.event r = RPC_LOC_STATUS_EVENT_FIX_SESSION_STATE then
        (case arm (rpc_loc_status_event_s_type.payload r) of
           status_event_payload_fix_session_state st \<Rightarrow>
             Some (if st = RPC_LOC_FIX_SESSION_STATE_BEGIN then (GPS_STATUS_ENGINE_ON, GPS_STATUS_SESSION_BEGIN)
                   else old)
         | _ \<Rightarrow> None)
      else Some old)"

definition report_changed_status :: "GpsStatusValue \<Rightarrow> GpsStatusValue \<Rightarrow> 'w engine \<Rightarrow> 'w engine" where
  "report_changed_status old_engine old_session s =
     (let s1 = (if fix_session_status (eng s) \<noteq> GPS_STATUS_SESSION_BEGIN \<and> old_engine \<noteq> engine_status (eng s)
            then loc_inform_gps_status (engine_status (eng s)) s else s)
      in if engine_status (eng s1) \<noteq> GPS_STATUS_ENGINE_OFF \<and> old_session \<noteq> fix_session_status (eng s1)
         then loc_inform_gps_status (fix_session_status (eng s1)) s1 else s1)"

definition switch_mute :: "'w engine \<Rightarrow> 'w engine" where
  "switch_mute s =
     (if engine_status (eng s) = GPS_STATUS_ENGINE_ON then
        (if mute_session_state (eng s) = LOC_MUTE_SESS_WAIT
         then on_eng (mute_session_state_update (\<lambda>_. LOC_MUTE_SESS_IN_SESSION)) s else s)
      else if engine_status (eng s) = GPS_STATUS_ENGINE_OFF then
        (if mute_session_state (eng s) = LOC_MUTE_SESS_IN_SESSION
         then on_eng (mute_session_state_update (\<lambda>_. LOC_MUTE_SESS_NONE)) s else s)
      else s)"

definition loc_eng_report_status :: "rpc_loc_status_event_s_type \<Rightarrow> 'w engine \<Rightarrow> 'w engine option" where
  "loc_eng_report_status r s = do {
     (e1, f1) \<leftarrow> status_event r (engine_status (eng s), fix_session_status (eng s));
     let s1 = on_eng (\<lambda>e. e\<lparr>engine_status := e1, fix_session_status := f1\<rparr>) s;
     let s2 = switch_mute (report_changed_status (engine_status (eng s)) (fix_session_status (eng s)) s1);
     Some (if engine_status (eng s2) \<noteq> GPS_STATUS_ENGINE_ON \<and> (aiding_data_for_deletion (eng s2) \<noteq> 0
             \<or> xtra_data_for_injection (xtra_module_data (eng s2)) \<noteq> None)
           then signal_deferred DEFERRED_ACTION_DELETE_AIDING s2 else s2)
   }"

definition loc_eng_report_nmea :: "eng_env \<Rightarrow> rpc_loc_nmea_report_s_type \<Rightarrow> 'w engine \<Rightarrow> 'w engine" where
  "loc_eng_report_nmea v r s =
     (if nmea_cb (eng s)
      then tell (ReportNmea (time_of_day v) (nmea_sentences r) (rpc_loc_nmea_report_s_type.length16 r)) s else s)"

text \<open>What the request leaves in the engine data; None when its payload is another member.\<close>

definition note_conn_request :: "rpc_loc_server_request_s_type \<Rightarrow> 'w engine \<Rightarrow> 'w engine option" where
  "note_conn_request r s =
     (if rpc_loc_server_request_s_type.event r = RPC_LOC_SERVER_REQUEST_OPEN then
        (case arm (rpc_loc_server_request_s_type.payload r) of
           server_request_open_req q \<Rightarrow> Some (on_eng (\<lambda>e. e\<lparr>agps_status := GPS_REQUEST_AGPS_DATA_CONN,
             eng_conn_handle := rpc_loc_server_open_req_s_type.conn_handle q, agps_request_pending := True\<rparr>) s)
         | _ \<Rightarrow> None)
      else
        (case arm (rpc_loc_server_request_s_type.payload r) of
           server_request_close_req q \<Rightarrow> Some (on_eng (\<lambda>e. e\<lparr>agps_status := GPS_RELEASE_AGPS_DATA_CONN,
             eng_conn_handle := rpc_loc_server_close_req_s_type.conn_handle q, agps_request_pending := False\<rparr>) s)
         | _ \<Rightarrow> None))"

definition loc_eng_process_conn_request :: "rpc_loc_server_request_s_type \<Rightarrow> 'w engine \<Rightarrow> 'w engine option" where
  "loc_eng_process_conn_request r s = map_option (signal_deferred DEFERRED_ACTION_AGPS_STATUS) (note_conn_request r s)"

section \<open>Processing an event\<close>

definition muted :: "'w engine \<Rightarrow> bool" where
  "muted s \<longleftrightarrow> mute_session_state (eng s) = LOC_MUTE_SESS_IN_SESSION"

definition process_reports ::
    "eng_env \<Rightarrow> u64 \<Rightarrow> rpc_loc_event_payload_u_type_u \<Rightarrow> 'w engine \<Rightarrow> 'w engine option" where
  "process_reports v ev pl s = do {
     s1 \<leftarrow> (if ev AND RPC_LOC_EVENT_PARSED_POSITION_REPORT \<noteq> 0 \<and> \<not> muted s
            then (case pl of event_payload_parsed_location_report r \<Rightarrow> Some (loc_eng_report_position v r s) | _ \<Rightarrow> None)
            else Some s);
     s2 \<leftarrow> (if ev AND RPC_LOC_EVENT_SATELLITE_REPORT \<noteq> 0 \<and> \<not> muted s1
            then (case pl of event_payload_gnss_report r \<Rightarrow> loc_eng_report_sv v r s1 | _ \<Rightarrow> None)
            else Some s1);
     s3 \<leftarrow> (if ev AND RPC_LOC_EVENT_STATUS_REPORT \<noteq> 0
            then (case pl of event_payload_status_report r \<Rightarrow> loc_eng_report_status r s2 | _ \<Rightarrow> None)
            else Some s2);
     if ev AND RPC_LOC_EVENT_NMEA_1HZ_REPORT \<noteq> 0
     then (case pl of event_payload_nmea_report r \<Rightarrow> Some (loc_eng_report_nmea v r s3) | _ \<Rightarrow> None)
     else Some s3
   }"

definition process_assistance :: "u64 \<Rightarrow> rpc_loc_event_payload_u_type_u \<Rightarrow> 'w engine \<Rightarrow> 'w engine option" where
  "process_assistance ev pl s = do {
     s1 \<leftarrow> (if ev AND RPC_LOC_EVENT_ASSISTANCE_DATA_REQUEST \<noteq> 0
            then (case pl of event_payload_assist_data_request r \<Rightarrow>
                Some (if rpc_loc_assist_data_request_s_type.event r = RPC_LOC_ASSIST_DATA_PREDICTED_ORBITS_REQ
                  then on_eng (xtra_module_data_update (request_pending_update (\<lambda>_. True))) s else s)
              | _ \<Rightarrow> None)
            else Some s);
     Some (if request_pending (xtra_module_data (eng s1)) \<and> download_request_cb (xtra_module_data (eng s1))
           then tell XtraDownloadRequest (on_eng (xtra_module_data_update (request_pending_update (\<lambda>_. False))) s1)
           else s1)
   }"

definition loc_eng_process_loc_event ::
    "eng_env \<Rightarrow> u64 \<Rightarrow> rpc_loc_event_payload_u_type \<Rightarrow> 'w engine \<Rightarrow> 'w engine option" where
  "loc_eng_process_loc_event v ev pl s = do {
     s1 \<leftarrow> process_reports v ev (arm pl) s;
     s2 \<leftarrow> process_assistance ev (arm pl) s1;
     s3 \<leftarrow> (if ev AND RPC_LOC_EVENT_LOCATION_SERVER_REQUEST \<noteq> 0
            then (case arm pl of event_payload_loc_server_request r \<Rightarrow> loc_eng_process_conn_request r s2 | _ \<Rightarrow> None)
            else Some s2);
     (case ni_env v of (z, rand, created, junk) \<Rightarrow> loc_eng_ni_callback z rand created junk ev pl s3)
   }"

section \<open>The deferred action thread\<close>

text \<open>What a pass copies before it releases the mutex.\<close>

record deferred_job =
  job_event :: u64
  job_payload :: rpc_loc_event_payload_u_type
  job_flags :: u32
  job_engine_status :: GpsStatusValue
  job_aiding_data :: u16
  job_agps_status :: AGpsStatusValue

definition deferred_take :: "'w engine \<Rightarrow> deferred_job option \<times> 'w engine" where
  "deferred_take s =
     (if deferred_action_flags (eng s) AND DEFERRED_ACTION_QUIT \<noteq> 0 then (None, s)
      else (Some \<lparr>job_event = pending_event (eng s), job_payload = pending_payload (eng s),
              job_flags = deferred_action_flags (eng s), job_engine_status = engine_status (eng s),
              job_aiding_data = aiding_data_for_deletion (eng s), job_agps_status = agps_status (eng s)\<rparr>,
            on_eng (\<lambda>e. e\<lparr>pending_event := 0, deferred_action_flags := 0, agps_status := AGPS_NO_STATUS\<rparr>) s))"

definition process_aiding :: "'w modem \<Rightarrow> deferred_job \<Rightarrow> 'w engine \<Rightarrow> ('w engine) option" where
  "process_aiding m j s =
     (let s1 = (if job_engine_status j \<noteq> GPS_STATUS_ENGINE_ON \<and> job_aiding_data j \<noteq> 0
            then on_eng (aiding_data_for_deletion_update (\<lambda>_. 0)) (loc_eng_delete_aiding_data_action m s) else s)
      in if engine_status (eng s1) \<noteq> GPS_STATUS_ENGINE_ON \<and> xtra_data_for_injection (xtra_module_data (eng s1)) \<noteq> None
         then map_option snd (loc_eng_inject_xtra_data_in_buffer m s1) else Some s1)"

definition AGPS_DATA_RESULTS :: u32 where
  "AGPS_DATA_RESULTS = DEFERRED_ACTION_AGPS_DATA_SUCCESS OR DEFERRED_ACTION_AGPS_DATA_CLOSED
     OR DEFERRED_ACTION_AGPS_DATA_FAILED"

definition process_data_result :: "'w modem \<Rightarrow> eng_env \<Rightarrow> u32 \<Rightarrow> 'w engine \<Rightarrow> 'w engine" where
  "process_data_result m v fl s =
     (if fl AND DEFERRED_ACTION_AGPS_DATA_SUCCESS \<noteq> 0 then loc_eng_ioctl_data_open_status m v True s
      else if fl AND DEFERRED_ACTION_AGPS_DATA_CLOSED \<noteq> 0 then loc_eng_ioctl_data_close_status m True s
      else if fl AND DEFERRED_ACTION_AGPS_DATA_FAILED \<noteq> 0 then
        on_eng (data_connection_is_on_update (\<lambda>_. False))
          (if data_connection_is_on (eng s) then loc_eng_ioctl_data_open_status m v False s
           else loc_eng_ioctl_data_close_status m False s)
      else s)"

definition process_deferred_stop :: "'w modem \<Rightarrow> u32 \<Rightarrow> 'w engine \<Rightarrow> 'w engine" where
  "process_deferred_stop m fl s =
     (if fl AND AGPS_DATA_RESULTS \<noteq> 0 then
        let s1 = on_eng (agps_request_pending_update (\<lambda>_. False)) s in
        if stop_request_pending (eng s1) then snd (ask (m_stop_fix m (client_handle (eng s1))) s1) else s1
      else s)"

definition deferred_process :: "'w modem \<Rightarrow> eng_env \<Rightarrow> deferred_job \<Rightarrow> 'w engine \<Rightarrow> 'w engine option" where
  "deferred_process m v j s = do {
     s1 \<leftarrow> (if job_event j \<noteq> 0 then loc_eng_process_loc_event v (job_event j) (job_payload j) s else Some s);
     s2 \<leftarrow> process_aiding m j s1;
     let s3 = process_deferred_stop m (job_flags j) (process_data_result m v (job_flags j) s2);
     Some (if job_agps_status j \<noteq> AGPS_NO_STATUS then loc_eng_process_atl_action (job_agps_status j) s3 else s3)
   }"

text \<open>Where the thread is: before its next pass, in the wait, in a pass, or at its end.\<close>

datatype thread_place = Starting | Checking | Waiting | Working deferred_job | Quitting | Gone

definition taken :: "deferred_job option \<times> 'w engine \<Rightarrow> thread_place \<times> 'w engine" where
  "taken r = (case r of (None, s) \<Rightarrow> (Quitting, s) | (Some j, s) \<Rightarrow> (Working j, s))"

text \<open>A step of \<open>loc_eng_deferred_action_thread\<close>; the step from \<open>Waiting\<close> is the return from the wait.\<close>

definition loc_eng_deferred_action_thread ::
    "'w modem \<Rightarrow> eng_env \<Rightarrow> thread_place \<Rightarrow> 'w engine \<Rightarrow> (thread_place \<times> 'w engine) option" where
  "loc_eng_deferred_action_thread m v pc s =
     (case pc of
        Starting \<Rightarrow> Some (Checking, snd (loc_eng_set_gps_lock m RPC_LOC_LOCK_NONE s))
      | Checking \<Rightarrow> Some (if deferred_action_flags (eng s) = 0 then (Waiting, tell ReleaseWakelock s)
          else taken (deferred_take s))
      | Waiting \<Rightarrow> Some (taken (deferred_take (tell AcquireWakelock s)))
      | Working j \<Rightarrow> map_option (Pair Checking) (deferred_process m v j s)
      | Quitting \<Rightarrow> Some (Gone, on_eng (deferred_action_thread_update (\<lambda>_. False))
          (tell ReleaseWakelock (snd (loc_eng_set_gps_lock m RPC_LOC_LOCK_ALL s))))
      | Gone \<Rightarrow> None)"

section \<open>What is shown of the satellites\<close>

definition sv_valid :: "u32 \<Rightarrow> rpc_loc_sv_info_s_type \<Rightarrow> bool" where
  "sv_valid f sv \<longleftrightarrow> rpc_loc_sv_info_s_type.valid_mask sv AND f \<noteq> 0"

definition sv_shown :: "rpc_loc_sv_info_s_type \<Rightarrow> bool" where
  "sv_shown sv \<longleftrightarrow> (sv_valid RPC_LOC_SV_INFO_VALID_SYSTEM sv
     \<longrightarrow> system sv \<in> {RPC_LOC_SV_SYSTEM_GPS, RPC_LOC_SV_SYSTEM_SBAS, RPC_LOC_SV_SYSTEM_GLONASS})"

text \<open>The number of a satellite: GPS 1 to 32, SBAS from 33, GLONASS from 65; 0 for an unknown system.\<close>

definition sv_entry :: "rpc_loc_sv_info_s_type \<Rightarrow> GpsSvInfo" where
  "sv_entry sv = \<lparr>sv_prn = (if \<not> sv_valid RPC_LOC_SV_INFO_VALID_SYSTEM sv then 0
       else if system sv = RPC_LOC_SV_SYSTEM_GPS then uint (prn sv)
       else if system sv = RPC_LOC_SV_SYSTEM_SBAS then uint (prn sv) - 87 else uint (prn sv) + 64),
     sv_snr = (if sv_valid RPC_LOC_SV_INFO_VALID_SNR sv then snr sv else 0),
     sv_elevation = (if sv_valid RPC_LOC_SV_INFO_VALID_ELEVATION sv then elevation sv else 0),
     sv_azimuth = (if sv_valid RPC_LOC_SV_INFO_VALID_AZIMUTH sv then azimuth sv else 0)\<rparr>"

definition sv_gps :: "rpc_loc_sv_info_s_type \<Rightarrow> bool" where
  "sv_gps sv \<longleftrightarrow> sv_valid RPC_LOC_SV_INFO_VALID_SYSTEM sv \<and> system sv = RPC_LOC_SV_SYSTEM_GPS"

definition sv_eph :: "rpc_loc_sv_info_s_type \<Rightarrow> bool" where
  "sv_eph sv \<longleftrightarrow> sv_gps sv \<and> sv_valid RPC_LOC_SV_INFO_VALID_HAS_EPH sv \<and> has_eph sv = 1"

definition sv_alm :: "rpc_loc_sv_info_s_type \<Rightarrow> bool" where
  "sv_alm sv \<longleftrightarrow> sv_gps sv \<and> sv_valid RPC_LOC_SV_INFO_VALID_HAS_ALM sv \<and> has_alm sv = 1"

definition sv_used :: "rpc_loc_sv_info_s_type \<Rightarrow> bool" where
  "sv_used sv \<longleftrightarrow> sv_gps sv \<and> sv_valid RPC_LOC_SV_INFO_VALID_PROCESS_STATUS sv \<and> process_status sv = RPC_LOC_SV_STATUS_TRACK"

text \<open>The bit of a satellite exists.\<close>

definition sv_in_range :: "rpc_loc_sv_info_s_type \<Rightarrow> bool" where
  "sv_in_range sv \<longleftrightarrow> (sv_eph sv \<or> sv_alm sv \<or> sv_used sv \<longrightarrow> 1 \<le> unat (prn sv) \<and> unat (prn sv) \<le> 32)"

lemma sv_bit_cases: "sv_bit p = (if 1 \<le> unat p \<and> unat p \<le> 32 then Some (push_bit (unat p - 1) 1) else None)"
  by (simp add: sv_bit_def word_le_nat_alt)

lemma set_sv_bit_Some:
  assumes "set_sv_bit present p bits = Some b"
  shows "present \<longrightarrow> 1 \<le> unat p \<and> unat p \<le> 32"
    and "k < 32 \<Longrightarrow> bit b k \<longleftrightarrow> bit bits k \<or> present \<and> unat p = Suc k"
  using assms by (auto simp: set_sv_bit_def sv_bit_cases bit_simps split: if_splits)

lemma add_sv_value:
  "add_sv sv st =
     (if sv_gps sv then
        Option.bind (set_sv_bit (sv_eph sv) (prn sv) (ephemeris_mask st)) (\<lambda>em.
        Option.bind (set_sv_bit (sv_alm sv) (prn sv) (almanac_mask st)) (\<lambda>am.
        Option.bind (set_sv_bit (sv_used sv) (prn sv) (used_in_fix_mask st)) (\<lambda>um.
        Some \<lparr>svs = svs st @ [sv_entry sv], ephemeris_mask = em, almanac_mask = am, used_in_fix_mask = um\<rparr>)))
      else Some (st\<lparr>svs := svs st @ (if sv_shown sv then [sv_entry sv] else [])\<rparr>))"
  by (cases st) (auto simp: add_sv_def Let_def sv_gps_def sv_eph_def sv_alm_def sv_used_def sv_valid_def sv_shown_def
      sv_entry_def RPC_LOC_SV_SYSTEM_GPS_def RPC_LOC_SV_SYSTEM_SBAS_def RPC_LOC_SV_SYSTEM_GLONASS_def)

text \<open>One entry, when it can be added and when not.\<close>

lemma add_sv_Some:
  assumes "add_sv sv st = Some t"
  shows "svs t = svs st @ (if sv_shown sv then [sv_entry sv] else [])" "sv_in_range sv"
    and "k < 32 \<Longrightarrow> bit (ephemeris_mask t) k \<longleftrightarrow> bit (ephemeris_mask st) k \<or> sv_eph sv \<and> unat (prn sv) = Suc k"
    and "k < 32 \<Longrightarrow> bit (almanac_mask t) k \<longleftrightarrow> bit (almanac_mask st) k \<or> sv_alm sv \<and> unat (prn sv) = Suc k"
    and "k < 32 \<Longrightarrow> bit (used_in_fix_mask t) k \<longleftrightarrow> bit (used_in_fix_mask st) k \<or> sv_used sv \<and> unat (prn sv) = Suc k"
  using assms
  by (auto simp: add_sv_value bind_eq_Some_conv sv_in_range_def sv_shown_def sv_gps_def sv_eph_def sv_alm_def sv_used_def
      split: if_splits dest: set_sv_bit_Some)

lemma add_sv_None: "add_sv sv st = None \<Longrightarrow> \<not> sv_in_range sv"
  by (auto simp: add_sv_value sv_in_range_def set_sv_bit_def sv_bit_cases split: if_splits)

lemma sv_loop_value:
  "case sv_loop n l st of
     None \<Rightarrow> length l < n \<or> (\<exists>sv \<in> set (take n l). \<not> sv_in_range sv)
   | Some t \<Rightarrow> n \<le> length l \<and> (\<forall>sv \<in> set (take n l). sv_in_range sv)
       \<and> svs t = svs st @ map sv_entry (filter sv_shown (take n l))
       \<and> (\<forall>k < 32. (bit (ephemeris_mask t) k \<longleftrightarrow> bit (ephemeris_mask st) k \<or> (\<exists>sv \<in> set (take n l). sv_eph sv \<and> unat (prn sv) = Suc k))
         \<and> (bit (almanac_mask t) k \<longleftrightarrow> bit (almanac_mask st) k \<or> (\<exists>sv \<in> set (take n l). sv_alm sv \<and> unat (prn sv) = Suc k))
         \<and> (bit (used_in_fix_mask t) k \<longleftrightarrow> bit (used_in_fix_mask st) k \<or> (\<exists>sv \<in> set (take n l). sv_used sv \<and> unat (prn sv) = Suc k)))"
proof (induction n l st rule: sv_loop.induct)
  case (3 left sv l st)
  show ?case
  proof (cases "add_sv sv st")
    case None
    then show ?thesis using add_sv_None by auto
  next
    case (Some st1)
    note a = add_sv_Some [OF Some]
    show ?thesis
    proof (cases "sv_loop left l st1")
      case None
      then show ?thesis using "3.IH" [OF Some] Some by auto
    next
      fix t assume t: "sv_loop left l st1 = Some t"
      then have r: "sv_loop (Suc left) (sv # l) st = Some t" using Some by simp
      show ?thesis using "3.IH" [OF Some] a unfolding r t by auto
    qed
  qed
qed auto

text \<open>
  C16: what is shown of the satellites, and the array overrun. Of a satellite report the first entries
  are shown, as many as it counts and Android has room for, in their order and without those of
  unsupported systems; the three masks have the bits of the GPS satellites they stand for. The
  count is not compared with the length of the list, nor the number of a GPS satellite with the width of
  the masks: exactly then the function reads behind the list or shifts out of range.
\<close>

theorem satellites_shown:
  assumes "rpc_loc_gnss_info_s_type.valid_mask r AND RPC_LOC_GNSS_INFO_VALID_SV_COUNT \<noteq> 0"
    and "rpc_loc_gnss_info_s_type.valid_mask r AND RPC_LOC_GNSS_INFO_VALID_SV_LIST \<noteq> 0"
    and "val (sv_list r) = Some l" and "n = min max_svs (unat (sv_count r))"
  shows "case sv_report max_svs r of
     None \<Rightarrow> length l < n \<or> (\<exists>sv \<in> set (take n l). \<not> sv_in_range sv)
   | Some t \<Rightarrow> n \<le> length l \<and> (\<forall>sv \<in> set (take n l). sv_in_range sv)
       \<and> svs t = map sv_entry (filter sv_shown (take n l)) \<and> length (svs t) \<le> max_svs
       \<and> (\<forall>k < 32. (bit (ephemeris_mask t) k \<longleftrightarrow> (\<exists>sv \<in> set (take n l). sv_eph sv \<and> unat (prn sv) = Suc k))
         \<and> (bit (almanac_mask t) k \<longleftrightarrow> (\<exists>sv \<in> set (take n l). sv_alm sv \<and> unat (prn sv) = Suc k))
         \<and> (bit (used_in_fix_mask t) k \<longleftrightarrow> (\<exists>sv \<in> set (take n l). sv_used sv \<and> unat (prn sv) = Suc k)))"
proof -
  have e: "sv_report max_svs r = sv_loop n l no_svs"
    using assms by (auto simp: sv_report_def Let_def min_def)
  have len: "length (filter P (take n l)) \<le> max_svs" for P
    using le_trans [OF length_filter_le, of "take n l"] assms(4) by simp
  show ?thesis unfolding e using sv_loop_value [where n = n and l = l and st = no_svs] len
    by (auto simp: no_svs_def split: option.splits)
qed

definition one_sv :: "byte \<Rightarrow> rpc_loc_gnss_info_s_type" where
  "one_sv p = zero_rpc_loc_gnss_info_s_type\<lparr>rpc_loc_gnss_info_s_type.valid_mask := 0x30, sv_count := 1,
     sv_list := \<lparr>len = 1, val = Some [zero_rpc_loc_sv_info_s_type\<lparr>rpc_loc_sv_info_s_type.valid_mask := 0x1F,
       system := RPC_LOC_SV_SYSTEM_GPS, prn := p, has_eph := 1\<rparr>]\<rparr>\<rparr>"

theorem satellites_shown_witness:
  "(case sv_report 32 (one_sv 7) of None \<Rightarrow> False | Some t \<Rightarrow> map sv_prn (svs t) = [7] \<and> bit (ephemeris_mask t) 6)
    \<and> (case sv_report 32 (one_sv 40) of None \<Rightarrow> True | Some t \<Rightarrow> False)"
proof -
  have v: "rpc_loc_gnss_info_s_type.valid_mask (one_sv p) AND RPC_LOC_GNSS_INFO_VALID_SV_COUNT \<noteq> 0"
    "rpc_loc_gnss_info_s_type.valid_mask (one_sv p) AND RPC_LOC_GNSS_INFO_VALID_SV_LIST \<noteq> 0" for p
    by (simp_all add: one_sv_def RPC_LOC_GNSS_INFO_VALID_SV_COUNT_def RPC_LOC_GNSS_INFO_VALID_SV_LIST_def)
  show ?thesis
    using satellites_shown [OF v(1) v(2) _ refl, of 7 _ 32] satellites_shown [OF v(1) v(2) _ refl, of 40 _ 32]
    by (auto simp: one_sv_def sv_in_range_def sv_eph_def sv_alm_def sv_used_def sv_gps_def sv_valid_def sv_shown_def sv_entry_def
        RPC_LOC_SV_INFO_VALID_SYSTEM_def RPC_LOC_SV_INFO_VALID_HAS_EPH_def split: option.splits)
qed

end
