(* ===== verification/LocEngSys.thy ===== *)
theory LocEngSys
  imports LocEngRun "HOL-Library.Sublist"
begin

text \<open>
  The GPS engine between an initialisation and the next, as a transition system: the operations of
  the framework, the user and the modem, in any order, interleaved with the steps of the deferred
  action thread. The invariants: the wake lock is held while there is work, events are processed in order, and
  what Android knows of the engine, as far as operations do not overlap.
\<close>

section \<open>The system\<close>

datatype eng_op =
    OpStart
  | OpStop
  | OpSetPositionMode GpsPositionMode GpsPositionRecurrence u32 u32 u32
  | OpInjectTime u64 u64 u32
  | OpInjectLocation u64 u64 u32
  | OpDeleteAidingData u16
  | OpSetServer AGpsType "byte list" int
  | OpAgpsInit bool
  | OpDataConnOpen "byte list option"
  | OpDataConnClosed
  | OpDataConnFailed
  | OpXtraInit bool
  | OpXtraInject bool "byte list option"
  | OpNiInit bool
  | OpNiRespond int GpsUserResponseType
  | OpNiAnswer bool
  | OpNiFinish
  | OpMuteSession
  | OpCleanup
  | OpCleanupJoined

definition exec_op :: "'w modem \<Rightarrow> eng_env \<Rightarrow> eng_op \<Rightarrow> 'w engine \<Rightarrow> 'w engine" where
  "exec_op m v p s =
     (case p of
        OpStart \<Rightarrow> snd (loc_eng_start m s)
      | OpStop \<Rightarrow> snd (loc_eng_stop m s)
      | OpSetPositionMode md r i a t \<Rightarrow> snd (loc_eng_set_position_mode m v md r i a t s)
      | OpInjectTime t r u \<Rightarrow> snd (loc_eng_inject_time m v t r u s)
      | OpInjectLocation la lo a \<Rightarrow> snd (loc_eng_inject_location m v la lo a s)
      | OpDeleteAidingData f \<Rightarrow> loc_eng_delete_aiding_data f s
      | OpSetServer ty h p \<Rightarrow> snd (loc_eng_set_server_proxy m v ty h p s)
      | OpAgpsInit cb \<Rightarrow> loc_eng_agps_init m v cb s
      | OpDataConnOpen a \<Rightarrow> snd (loc_eng_data_conn_open a s)
      | OpDataConnClosed \<Rightarrow> snd (loc_eng_data_conn_closed s)
      | OpDataConnFailed \<Rightarrow> snd (loc_eng_data_conn_failed s)
      | OpXtraInit cb \<Rightarrow> snd (qct_loc_eng_xtra_init cb s)
      | OpXtraInject ok d \<Rightarrow> snd (qct_loc_eng_inject_xtra_data_proxy ok d s)
      | OpNiInit cb \<Rightarrow> loc_eng_ni_init cb s
      | OpNiRespond i r \<Rightarrow> loc_eng_ni_respond i r s
      | OpNiAnswer timed_out \<Rightarrow> ni_thread_answer m timed_out s
      | OpNiFinish \<Rightarrow> ni_thread_finish s
      | OpMuteSession \<Rightarrow> loc_eng_mute_one_session s
      | OpCleanup \<Rightarrow> loc_eng_cleanup_quit m s
      | OpCleanupJoined \<Rightarrow> loc_eng_cleanup_joined s)"

text \<open>
  The engine and its thread; \<open>arrived\<close> are the events that were put into the mailbox, \<open>handled\<close> those
  that were taken from it.
\<close>

type_synonym event = "u64 \<times> rpc_loc_event_payload_u_type"

record 'w gps_run =
  gps :: "'w engine"
  place :: thread_place
  arrived :: "event list"
  handled :: "event list"

definition takes_event :: "u32 \<Rightarrow> event \<Rightarrow> 'w engine \<Rightarrow> bool" where
  "takes_event h e s \<longleftrightarrow> fst e \<noteq> RPC_LOC_EVENT_IOCTL_REPORT \<and> loc_eng_inited s \<and> h = client_handle (eng s)"

definition event_of :: "thread_place \<Rightarrow> event list" where
  "event_of p = (case p of Working j \<Rightarrow> if job_event j \<noteq> 0 then [(job_event j, job_payload j)] else [] | _ \<Rightarrow> [])"

inductive gps_step :: "'w modem \<Rightarrow> 'w gps_run \<Rightarrow> 'w gps_run \<Rightarrow> bool" for m where
  op: "gps_step m r (r\<lparr>gps := exec_op m v p (gps r)\<rparr>)"
| arrive: "gps_step m r (r\<lparr>gps := snd (loc_event_cb h (fst e) (snd e) (gps r)),
      arrived := arrived r @ (if takes_event h e (gps r) then [e] else [])\<rparr>)"
| thread: "loc_eng_deferred_action_thread m v (place r) (gps r) = Some (p, s)
    \<Longrightarrow> gps_step m r (r\<lparr>gps := s, place := p,
      handled := handled r @ (if place r \<in> {Checking, Waiting} then event_of p else [])\<rparr>)"

section \<open>What an operation may change\<close>

text \<open>Android's view of a status report: the engine is on, and a session is running.\<close>

fun android_view :: "bool \<times> bool \<Rightarrow> framework_call \<Rightarrow> bool \<times> bool" where
  "android_view (on, sess) (ReportStatus GPS_STATUS_ENGINE_ON) = (True, sess)"
| "android_view (on, sess) (ReportStatus GPS_STATUS_ENGINE_OFF) = (False, False)"
| "android_view (on, sess) (ReportStatus GPS_STATUS_SESSION_BEGIN) = (True, True)"
| "android_view (on, sess) (ReportStatus GPS_STATUS_SESSION_END) = (on, False)"
| "android_view w c = w"

definition android_knows :: "'w engine \<Rightarrow> bool \<times> bool \<Rightarrow> bool" where
  "android_knows s w \<longleftrightarrow> status_cb (eng s)
     \<and> w = (engine_status (eng s) = GPS_STATUS_ENGINE_ON, fix_session_status (eng s) = GPS_STATUS_SESSION_BEGIN)
     \<and> (fix_session_status (eng s) = GPS_STATUS_SESSION_BEGIN \<longrightarrow> engine_status (eng s) = GPS_STATUS_ENGINE_ON)
     \<and> (last_status s = GPS_STATUS_SESSION_BEGIN \<longrightarrow> fix_session_status (eng s) = GPS_STATUS_SESSION_BEGIN)"

text \<open>
  \<open>moves s t cs\<close>: from \<open>s\<close> to \<open>t\<close> the calls \<open>cs\<close> were made, Android's view stayed right, the wake lock was
  not released and was taken if a flag was set, a deferred stop stayed pending, and the mailbox is
  what it was. \<open>still\<close>: the same, and nothing of it was touched.
\<close>

definition moves :: "'w engine \<Rightarrow> 'w engine \<Rightarrow> framework_call list \<Rightarrow> bool" where
  "moves s t cs \<longleftrightarrow> calls t = calls s @ cs \<and> ReleaseWakelock \<notin> set cs
     \<and> (deferred_action_flags (eng t) = deferred_action_flags (eng s) \<or> AcquireWakelock \<in> set cs)
     \<and> (stop_request_pending (eng s) \<longrightarrow> stop_request_pending (eng t))
     \<and> pending_event (eng t) = pending_event (eng s) \<and> pending_payload (eng t) = pending_payload (eng s)
     \<and> client_handle (eng t) = client_handle (eng s)
     \<and> (\<forall>w. android_knows s w \<longrightarrow> android_knows t (foldl android_view w cs))"

definition still :: "'w engine \<Rightarrow> 'w engine \<Rightarrow> bool" where
  "still s t \<longleftrightarrow> calls t = calls s \<and> last_status t = last_status s \<and> status_cb (eng t) = status_cb (eng s)
     \<and> deferred_action_flags (eng t) = deferred_action_flags (eng s)
     \<and> (stop_request_pending (eng s) \<longrightarrow> stop_request_pending (eng t))
     \<and> pending_event (eng t) = pending_event (eng s) \<and> pending_payload (eng t) = pending_payload (eng s)
     \<and> client_handle (eng t) = client_handle (eng s)
     \<and> engine_status (eng t) = engine_status (eng s) \<and> fix_session_status (eng t) = fix_session_status (eng s)"

definition moved :: "'w engine \<Rightarrow> 'w engine \<Rightarrow> bool" where
  "moved s t \<longleftrightarrow> (\<exists>cs. moves s t cs)"

lemma still_moved: "still s t \<Longrightarrow> moved s t"
  unfolding moved_def by (rule exI [of _ "[]"]) (auto simp: still_def moves_def android_knows_def)

lemma moved_refl [simp]: "moved s s"
  by (rule still_moved) (simp add: still_def)

lemma moves_trans: "moves s t cs \<Longrightarrow> moves t u ds \<Longrightarrow> moves s u (cs @ ds)"
  by (auto simp: moves_def simp del: split_paired_All)

lemma moved_trans [trans]: "moved s t \<Longrightarrow> moved t u \<Longrightarrow> moved s u"
  unfolding moved_def using moves_trans by blast

named_theorems moves_intros

lemma moved_still [moves_intros]: "moved s t \<Longrightarrow> still t u \<Longrightarrow> moved s u"
  using moved_trans still_moved by blast

lemma still_refl [simp]: "still s s"
  by (simp add: still_def)

lemma still_ask [simp]: "still s (snd (ask f s))"
  by (simp add: still_def)

lemma still_ioctl [simp]: "still s (snd (loc_eng_ioctl m h k d t s))"
  by (simp add: still_def)

text \<open>A call that is neither a status report nor the release of the wake lock.\<close>

definition plain_call :: "framework_call \<Rightarrow> bool" where
  "plain_call c \<longleftrightarrow> c \<noteq> ReleaseWakelock \<and> (\<forall>st. c \<noteq> ReportStatus st)"

lemma plain_calls [simp]:
  "plain_call AcquireWakelock" "plain_call SetCapabilities" "plain_call CreateThread" "plain_call (ReportLocation l)"
  "plain_call (ReportSv g)" "plain_call (ReportAgps a)" "plain_call (ReportNmea t b k)"
  "plain_call XtraDownloadRequest" "plain_call (NiNotify n)"
  by (simp_all add: plain_call_def)

lemma plain_view [simp]: "plain_call c \<Longrightarrow> android_view w c = w"
  by (cases c; cases w) (simp_all add: plain_call_def)

lemma moved_tell: "plain_call c \<Longrightarrow> moved s (tell c s)"
  unfolding moved_def by (rule exI [of _ "[c]"]) (auto simp: moves_def android_knows_def plain_call_def)

lemma moved_plain:
  assumes "still s (t\<lparr>calls := calls s\<rparr>)" "\<exists>cs. calls t = calls s @ cs \<and> list_all plain_call cs"
  shows "moved s t"
proof -
  obtain cs where cs: "calls t = calls s @ cs" "list_all plain_call cs" using assms(2) by blast
  from cs(2) have "foldl android_view w cs = w" for w by (induction cs) simp_all
  then show ?thesis
    unfolding moved_def using assms(1) cs
    by (intro exI [of _ cs]) (auto simp: moves_def still_def android_knows_def list_all_iff plain_call_def simp del: split_paired_All)
qed

lemma moved_signal: "moved s (signal_deferred f s)"
  unfolding moved_def signal_deferred_def
  by (rule exI [of _ "[AcquireWakelock]"]) (auto simp: moves_def android_knows_def)

text \<open>Informing Android of a changed status; the session that begins again is never one.\<close>

lemma inform_calls:
  "loc_inform_gps_status st s = s\<lparr>last_status := st, calls := calls s @
     (if status_cb (eng s) then ReportStatus st # (if st = GPS_STATUS_ENGINE_ON \<and> last_status s = GPS_STATUS_SESSION_BEGIN
        then [ReportStatus GPS_STATUS_SESSION_BEGIN] else []) else [])\<rparr>"
  by (simp add: loc_inform_gps_status_def Let_def tell_def)

lemma moved_stop: "moved s (snd (loc_eng_stop m s))"
proof -
  obtain r s1 where a: "ask (m_stop_fix m (client_handle (eng s))) s = (r, s1)" by fastforce
  then have s1: "eng s1 = eng s" "calls s1 = calls s" "last_status s1 = last_status s" using ask_simps
    by (metis snd_conv)+
  show ?thesis
    unfolding moved_def
    by (rule exI [of _ "drop (length (calls s)) (calls (snd (loc_eng_stop m s)))"])
      (auto simp: moves_def android_knows_def loc_eng_stop_def a s1 inform_calls Let_def)
qed

lemma movedI:
  assumes "calls t = calls s @ cs" "ReleaseWakelock \<notin> set cs"
    "eng t = (eng s)\<lparr>engine_status := e, fix_session_status := f\<rparr>"
    "\<And>w. android_knows s w \<Longrightarrow> android_knows t (foldl android_view w cs)"
  shows "moved s t"
  unfolding moved_def using assms by (intro exI [of _ cs]) (auto simp: moves_def)

lemma inform_eng [simp]: "eng (loc_inform_gps_status st s) = eng s"
  by (simp add: inform_calls)

lemma changed_status:
  defines "set_status \<equiv> \<lambda>e f s. on_eng (\<lambda>x. x\<lparr>engine_status := e, fix_session_status := f\<rparr>) s"
  shows "report_changed_status E F (set_status E F s) = set_status E F s"
    "report_changed_status E F (set_status GPS_STATUS_ENGINE_ON F s) =
      (if F \<noteq> GPS_STATUS_SESSION_BEGIN \<and> E \<noteq> GPS_STATUS_ENGINE_ON
       then loc_inform_gps_status GPS_STATUS_ENGINE_ON (set_status GPS_STATUS_ENGINE_ON F s)
       else set_status GPS_STATUS_ENGINE_ON F s)"
    "report_changed_status E F (set_status GPS_STATUS_ENGINE_OFF GPS_STATUS_SESSION_END s) =
      (if E \<noteq> GPS_STATUS_ENGINE_OFF
       then loc_inform_gps_status GPS_STATUS_ENGINE_OFF (set_status GPS_STATUS_ENGINE_OFF GPS_STATUS_SESSION_END s)
       else set_status GPS_STATUS_ENGINE_OFF GPS_STATUS_SESSION_END s)"
    "report_changed_status E F (set_status GPS_STATUS_ENGINE_ON GPS_STATUS_SESSION_BEGIN s) =
      (if F \<noteq> GPS_STATUS_SESSION_BEGIN
       then loc_inform_gps_status GPS_STATUS_SESSION_BEGIN (set_status GPS_STATUS_ENGINE_ON GPS_STATUS_SESSION_BEGIN s)
       else set_status GPS_STATUS_ENGINE_ON GPS_STATUS_SESSION_BEGIN s)"
  by (simp_all add: report_changed_status_def set_status_def)

text \<open>The two ways a status changes.\<close>

lemma moved_silent:
  assumes "\<And>w. android_knows s w \<Longrightarrow> (e = GPS_STATUS_ENGINE_ON) = (engine_status (eng s) = GPS_STATUS_ENGINE_ON)
    \<and> (f = GPS_STATUS_SESSION_BEGIN) = (fix_session_status (eng s) = GPS_STATUS_SESSION_BEGIN)"
  shows "moved s (on_eng (\<lambda>x. x\<lparr>engine_status := e, fix_session_status := f\<rparr>) s)"
  using assms by (intro movedI [where cs = "[]" and e = e and f = f]) (auto simp: android_knows_def)

lemma moved_informed:
  assumes "st = GPS_STATUS_ENGINE_ON \<and> e = st \<and> f = fix_session_status (eng s) \<and> f \<noteq> GPS_STATUS_SESSION_BEGIN
    \<or> st = GPS_STATUS_ENGINE_OFF \<and> e = st \<and> f = GPS_STATUS_SESSION_END
    \<or> st = GPS_STATUS_SESSION_BEGIN \<and> e = GPS_STATUS_ENGINE_ON \<and> f = st"
  shows "moved s (loc_inform_gps_status st (on_eng (\<lambda>x. x\<lparr>engine_status := e, fix_session_status := f\<rparr>) s))"
proof (rule movedI)
  fix w assume k: "android_knows s w"
  then have "status_cb (eng s)" by (simp add: android_knows_def)
  moreover have "\<not> (st = GPS_STATUS_ENGINE_ON \<and> last_status s = GPS_STATUS_SESSION_BEGIN)"
    using k assms by (auto simp: android_knows_def)
  ultimately show "android_knows (loc_inform_gps_status st (on_eng (\<lambda>x. x\<lparr>engine_status := e, fix_session_status := f\<rparr>) s))
    (foldl android_view w (if status_cb (eng s) then ReportStatus st # (if st = GPS_STATUS_ENGINE_ON \<and>
      last_status s = GPS_STATUS_SESSION_BEGIN then [ReportStatus GPS_STATUS_SESSION_BEGIN] else []) else []))"
    using k assms by (cases w) (elim disjE; simp add: android_knows_def inform_calls)
qed (simp_all add: inform_calls)

lemma moved_changed_status:
  assumes "(e, f) \<in> {(engine_status (eng s), fix_session_status (eng s)), (GPS_STATUS_ENGINE_ON, fix_session_status (eng s)),
    (GPS_STATUS_ENGINE_OFF, GPS_STATUS_SESSION_END), (GPS_STATUS_ENGINE_ON, GPS_STATUS_SESSION_BEGIN)}"
  shows "moved s (report_changed_status (engine_status (eng s)) (fix_session_status (eng s))
    (on_eng (\<lambda>x. x\<lparr>engine_status := e, fix_session_status := f\<rparr>) s))" (is "moved s ?t")
proof -
  consider "e = engine_status (eng s)" "f = fix_session_status (eng s)"
    | "e = GPS_STATUS_ENGINE_ON" "f = fix_session_status (eng s)"
    | "e = GPS_STATUS_ENGINE_OFF" "f = GPS_STATUS_SESSION_END"
    | "e = GPS_STATUS_ENGINE_ON" "f = GPS_STATUS_SESSION_BEGIN"
    using assms by auto
  then show ?thesis
  proof cases
    case 1 then show ?thesis unfolding 1 changed_status by (intro moved_silent) simp
  next
    case 2 then show ?thesis unfolding 2 changed_status
      by (cases "fix_session_status (eng s) \<noteq> GPS_STATUS_SESSION_BEGIN \<and> engine_status (eng s) \<noteq> GPS_STATUS_ENGINE_ON")
        (simp_all only: if_True if_False simp_thms, intro moved_informed, simp, intro moved_silent, auto simp: android_knows_def)
  next
    case 3 then show ?thesis unfolding 3 changed_status
      by (cases "engine_status (eng s) \<noteq> GPS_STATUS_ENGINE_OFF")
        (simp_all only: if_True if_False simp_thms, intro moved_informed, simp, intro moved_silent, auto simp: android_knows_def)
  next
    case 4 then show ?thesis unfolding 4 changed_status
      by (cases "fix_session_status (eng s) \<noteq> GPS_STATUS_SESSION_BEGIN")
        (simp_all only: if_True if_False simp_thms, intro moved_informed, simp, intro moved_silent, auto simp: android_knows_def)
  qed
qed

lemma moved_report_status:
  assumes "loc_eng_report_status r s = Some t"
  shows "moved s t"
proof -
  obtain e f where ef: "status_event r (engine_status (eng s), fix_session_status (eng s)) = Some (e, f)"
    using assms by (auto simp: loc_eng_report_status_def bind_eq_Some_conv)
  define s1 where "s1 = report_changed_status (engine_status (eng s)) (fix_session_status (eng s))
    (on_eng (\<lambda>x. x\<lparr>engine_status := e, fix_session_status := f\<rparr>) s)"
  have "moved s s1"
    unfolding s1_def using ef
    by (intro moved_changed_status) (auto simp: status_event_def split: if_splits rpc_loc_status_event_payload_u_type_u.splits)
  also have "moved s1 (switch_mute s1)" by (rule still_moved) (simp add: still_def switch_mute_def)
  also have "moved (switch_mute s1) t"
    using assms ef moved_signal by (auto simp: loc_eng_report_status_def s1_def Let_def split: if_splits)
  finally show ?thesis .
qed

section \<open>Every operation moves the engine\<close>

lemma still_trans [trans]: "still s t \<Longrightarrow> still t u \<Longrightarrow> still s u"
  by (auto simp: still_def)

lemma still_frames [simp]:
  "still s (on_eng (navigating_update f1) t) = still s t"
  "still s (on_eng (client_opened_update f1) t) = still s t"
  "still s (on_eng (data_connection_is_on_update f1) t) = still s t"
  "still s (on_eng (aiding_data_for_deletion_update f2) t) = still s t"
  "still s (on_eng (xtra_module_data_update f3) t) = still s t"
  "still s (on_eng (mute_session_state_update f4) t) = still s t"
  "still s (on_eng (deferred_action_thread_update f1) t) = still s t"
  "still s (on_eng (agps_request_pending_update f1) t) = still s t"
  "still s (on_eng (agps_status_cb_update f1) t) = still s t"
  "still s (on_eng (ni_notify_cb_update f1) t) = still s t"
  "still s (t\<lparr>loc_eng_inited := b\<rparr>) = still s t"
  "still s (t\<lparr>loc_c2k_addr_is_set := b\<rparr>) = still s t"
  "still s (t\<lparr>supl_host := h\<rparr>) = still s t"
  "still s (t\<lparr>c2k_host := h\<rparr>) = still s t"
  "still s (t\<lparr>loc_eng_ni_data := n\<rparr>) = still s t"
  "still s (t\<lparr>world := w\<rparr>) = still s t"
  by (simp_all add: still_def)

lemma moved_deinit: "moved s (snd (loc_eng_deinit m s))"
proof (cases "loc_eng_inited s")
  case True
  let ?s1 = "if navigating (eng s) then on_eng (navigating_update (\<lambda>_. False)) (snd (loc_eng_stop m s)) else s"
  have "moved s ?s1" by (auto intro: moved_still [OF moved_stop] simp: still_def)
  moreover have "still ?s1 (snd (loc_eng_deinit m s))" using True unfolding loc_eng_deinit_def Let_def
    by (simp only: if_not_P not_not snd_conv still_frames) (auto simp: still_def)
  ultimately show ?thesis by (rule moved_still)
qed (simp add: loc_eng_deinit_def)

lemma still_set_server: "still s (snd (loc_eng_set_server m v ty h p s))"
proof -
  have c2k: "still s (snd (loc_eng_ioctl m hd k d t (s\<lparr>loc_c2k_addr_is_set := True\<rparr>)))" for hd k d t
    by (rule still_trans [OF _ still_ioctl]) simp
  show ?thesis by (auto simp: loc_eng_set_server_def Let_def c2k split: AGpsType.split option.split)
qed

lemma still_agps_init: "still s (loc_eng_agps_init m v cb s)"
  unfolding loc_eng_agps_init_def Let_def
  by (auto intro!: still_trans [OF _ still_set_server])

lemma still_respond: "still s (loc_ni_respond m r q s)"
  by (simp add: loc_ni_respond_def)

lemma moved_op: "moved s (exec_op m v p s)"
proof (cases p)
  case OpStart
  then show ?thesis by (auto simp: exec_op_def loc_eng_start_def case_prod_beta still_def intro!: still_moved)
next
  case OpStop
  then show ?thesis by (simp add: exec_op_def moved_stop)
next
  case OpCleanup
  then show ?thesis
    using moved_trans [OF moved_deinit moved_signal] moved_deinit by (auto simp: exec_op_def loc_eng_cleanup_quit_def Let_def)
next
  case (OpDataConnOpen a)
  have "still s (snd (loc_eng_set_apn a s))" by (auto simp: loc_eng_set_apn_def still_def Let_def split: option.split)
  then show ?thesis using OpDataConnOpen moved_trans [OF still_moved moved_signal]
    by (auto simp: exec_op_def loc_eng_data_conn_open_def)
next
  case (OpDeleteAidingData f)
  then show ?thesis using moved_trans [OF still_moved moved_signal, of s "on_eng (aiding_data_for_deletion_update (\<lambda>_. GPS_DELETE_ALL)) s"] moved_signal
    by (auto simp: exec_op_def loc_eng_delete_aiding_data_def Let_def intro: still_moved)
next
  case (OpNiInit cb)
  then show ?thesis by (auto simp: exec_op_def loc_eng_ni_init_def still_def intro!: still_moved)
next
  case (OpNiAnswer b)
  have "still s (ni_thread_answer m b s)" unfolding ni_thread_answer_def Let_def
    by (rule still_trans [OF _ still_respond]) simp
  then show ?thesis using OpNiAnswer by (simp add: exec_op_def still_moved)
qed (auto simp: exec_op_def loc_eng_set_position_mode_def loc_eng_inject_time_def loc_eng_inject_location_def
    loc_eng_set_server_proxy_def buffered_host_def still_set_server still_agps_init loc_eng_data_conn_closed_def
    loc_eng_data_conn_failed_def qct_loc_eng_xtra_init_def qct_loc_eng_inject_xtra_data_proxy_def loc_eng_ni_init_def
    loc_eng_ni_respond_def loc_ni_process_user_response_def ni_thread_finish_def loc_eng_mute_one_session_def
    loc_eng_cleanup_joined_def moved_signal case_prod_beta split: AGpsType.split option.split GpsUserResponseType.split
    intro!: still_moved)

section \<open>Processing moves the engine\<close>

text \<open>The injection of predicted orbits talks to the modem only.\<close>

lemma xtra_loop_still: "xtra_loop m dat n pn li s = Some r \<Longrightarrow> still s (snd r)"
proof (induction rule: xtra_loop.raw_induct
    [rotated 1, where P = "\<lambda>m dat n pn li s r. still s (snd r)" and y = r, consumes 1, case_names step])
  case (step f m dat n pn li s r)
  have ask: "ask g s = (rc, s1) \<Longrightarrow> still s s1" for g rc s1 by (metis snd_conv still_ask)
  have ioctl: "loc_eng_ioctl m h k d t s = (ok, s1) \<Longrightarrow> still s s1" for h k d t ok s1 by (metis snd_conv still_ioctl)
  show ?case
    using step(2)
    by (auto simp: Let_def dest!: ask ioctl step(1) split: if_splits prod.splits intro: still_trans)
qed

lemma xtra_tries_still: "xtra_tries k rc m dat s = Some r \<Longrightarrow> still s (snd r)"
proof (induction k arbitrary: rc s)
  case (Suc k)
  then show ?case
    by (auto simp: qct_loc_eng_inject_xtra_data_one_def bind_eq_Some_conv dest!: xtra_loop_still
        split: if_splits intro: still_trans)
qed (auto simp: still_def)

lemma inject_buffer_still:
  assumes "loc_eng_inject_xtra_data_in_buffer m s = Some r"
  shows "still s (snd r)"
proof -
  let ?s1 = "on_eng (xtra_module_data_update (\<lambda>x. x\<lparr>xtra_data_for_injection := None, xtra_data_len := 0\<rparr>)) s"
  have "still s ?s1" by (simp add: still_def)
  moreover have "still ?s1 (snd r)" using assms
    by (auto simp: loc_eng_inject_xtra_data_in_buffer_def qct_loc_eng_inject_xtra_data_def Let_def bind_eq_Some_conv
        dest!: xtra_tries_still split: option.splits)
  ultimately show ?thesis by (rule still_trans)
qed

lemma moved_ni_callback:
  assumes "loc_eng_ni_callback z rand created junk ev pl s = Some t"
  shows "moved s t"
proof -
  have handler: "moved s u" if "loc_ni_request_handler z rand created junk q s = Some u" for q u
    using that by (auto simp: loc_ni_request_handler_def Let_def loc_eng_mute_one_session_def still_def
        split: if_splits option.splits intro!: moved_plain)
  then show ?thesis using assms
    by (auto simp: loc_eng_ni_callback_def split: if_splits rpc_loc_event_payload_u_type_u.splits)
qed

lemma moved_reports:
  assumes "process_reports v ev pl s = Some t"
  shows "moved s t"
proof -
  have pos: "moved x (loc_eng_report_position v r x)" for r x
    by (auto simp: loc_eng_report_position_def Let_def moved_tell)
  have sv: "loc_eng_report_sv v r x = Some y \<Longrightarrow> moved x y" for r x y
    by (auto simp: loc_eng_report_sv_def bind_eq_Some_conv moved_tell split: if_splits)
  have nmea: "moved x (loc_eng_report_nmea v r x)" for r x
    by (auto simp: loc_eng_report_nmea_def moved_tell)
  obtain s1 s2 s3 where "moved s s1" "moved s1 s2" "moved s2 s3" "moved s3 t"
  proof -
    from assms obtain s1 s2 s3 where r:
      "(if ev AND RPC_LOC_EVENT_PARSED_POSITION_REPORT \<noteq> 0 \<and> \<not> muted s
            then (case pl of event_payload_parsed_location_report r \<Rightarrow> Some (loc_eng_report_position v r s) | _ \<Rightarrow> None)
            else Some s) = Some s1"
      "(if ev AND RPC_LOC_EVENT_SATELLITE_REPORT \<noteq> 0 \<and> \<not> muted s1
            then (case pl of event_payload_gnss_report r \<Rightarrow> loc_eng_report_sv v r s1 | _ \<Rightarrow> None)
            else Some s1) = Some s2"
      "(if ev AND RPC_LOC_EVENT_STATUS_REPORT \<noteq> 0
            then (case pl of event_payload_status_report r \<Rightarrow> loc_eng_report_status r s2 | _ \<Rightarrow> None)
            else Some s2) = Some s3"
      "(if ev AND RPC_LOC_EVENT_NMEA_1HZ_REPORT \<noteq> 0
            then (case pl of event_payload_nmea_report r \<Rightarrow> Some (loc_eng_report_nmea v r s3) | _ \<Rightarrow> None)
            else Some s3) = Some t"
      unfolding process_reports_def bind_eq_Some_conv by blast
    show thesis
      using r(1-4) pos sv nmea moved_report_status
      by (intro that [of s1 s2 s3]) (auto split: if_splits rpc_loc_event_payload_u_type_u.splits)
  qed
  then show ?thesis using moved_trans by blast
qed

lemma moved_assistance:
  assumes "process_assistance ev pl s = Some t"
  shows "moved s t"
proof -
  obtain s1 where s1: "(if ev AND RPC_LOC_EVENT_ASSISTANCE_DATA_REQUEST \<noteq> 0
            then (case pl of event_payload_assist_data_request r \<Rightarrow>
                Some (if rpc_loc_assist_data_request_s_type.event r = RPC_LOC_ASSIST_DATA_PREDICTED_ORBITS_REQ
                  then on_eng (xtra_module_data_update (request_pending_update (\<lambda>_. True))) s else s)
              | _ \<Rightarrow> None)
            else Some s) = Some s1"
    "t = (if request_pending (xtra_module_data (eng s1)) \<and> download_request_cb (xtra_module_data (eng s1))
           then tell XtraDownloadRequest (on_eng (xtra_module_data_update (request_pending_update (\<lambda>_. False))) s1)
           else s1)"
    using assms by (auto simp: process_assistance_def bind_eq_Some_conv)
  have "moved s s1" using s1(1)
    by (auto simp: still_def split: if_splits rpc_loc_event_payload_u_type_u.splits intro!: still_moved)
  also have "moved s1 t" unfolding s1(2) by (auto simp: still_def intro!: moved_plain)
  finally show ?thesis .
qed

lemma moved_conn_request:
  assumes "loc_eng_process_conn_request r s = Some t"
  shows "moved s t"
proof -
  obtain s1 where s1: "note_conn_request r s = Some s1" "t = signal_deferred DEFERRED_ACTION_AGPS_STATUS s1"
    using assms by (auto simp: loc_eng_process_conn_request_def)
  have "still s s1" using s1(1)
    by (auto simp: note_conn_request_def still_def split: if_splits rpc_loc_server_request_u_type_u.splits)
  then show ?thesis using s1(2) moved_trans still_moved moved_signal by blast
qed

lemma moved_loc_event:
  assumes "loc_eng_process_loc_event v ev pl s = Some t"
  shows "moved s t"
proof -
  obtain s1 s2 s3 where r: "process_reports v ev (arm pl) s = Some s1" "process_assistance ev (arm pl) s1 = Some s2"
    "(if ev AND RPC_LOC_EVENT_LOCATION_SERVER_REQUEST \<noteq> 0
            then (case arm pl of event_payload_loc_server_request r \<Rightarrow> loc_eng_process_conn_request r s2 | _ \<Rightarrow> None)
            else Some s2) = Some s3"
    "(case ni_env v of (z, rand, created, junk) \<Rightarrow> loc_eng_ni_callback z rand created junk ev pl s3) = Some t"
    using assms unfolding loc_eng_process_loc_event_def bind_eq_Some_conv by blast
  have "moved s2 s3" using r(3) moved_conn_request
    by (auto split: if_splits rpc_loc_event_payload_u_type_u.splits)
  moreover have "moved s3 t" using r(4) moved_ni_callback by (auto split: prod.splits)
  ultimately show ?thesis using moved_reports [OF r(1)] moved_assistance [OF r(2)] moved_trans by blast
qed

lemma moved_aiding:
  assumes "process_aiding m j s = Some t"
  shows "moved s t"
proof -
  define s1 where "s1 = (if job_engine_status j \<noteq> GPS_STATUS_ENGINE_ON \<and> job_aiding_data j \<noteq> 0
            then on_eng (aiding_data_for_deletion_update (\<lambda>_. 0)) (loc_eng_delete_aiding_data_action m s) else s)"
  have "still s s1" by (auto simp: s1_def loc_eng_delete_aiding_data_action_def still_def Let_def)
  moreover have "still s1 t" using assms
    by (auto simp: process_aiding_def s1_def [symmetric] Let_def dest: inject_buffer_still split: if_splits)
  ultimately show ?thesis using still_trans still_moved by blast
qed

lemma still_data_result: "still s (process_data_result m v fl s)"
  by (auto simp: process_data_result_def loc_eng_ioctl_data_open_status_def loc_eng_ioctl_data_close_status_def still_def)

lemma still_deferred_stop: "still s (process_deferred_stop m fl s)"
  by (auto simp: process_deferred_stop_def Let_def still_def)

lemma moved_atl: "moved s (loc_eng_process_atl_action st s)"
  by (auto simp: loc_eng_process_atl_action_def loc_eng_report_agps_status_def moved_tell)

lemma moved_process:
  assumes "deferred_process m v j s = Some t"
  shows "moved s t"
proof -
  obtain s1 s2 where r:
    "(if job_event j \<noteq> 0 then loc_eng_process_loc_event v (job_event j) (job_payload j) s else Some s) = Some s1"
    "process_aiding m j s1 = Some s2"
    "t = (let s3 = process_deferred_stop m (job_flags j) (process_data_result m v (job_flags j) s2) in
       if job_agps_status j \<noteq> AGPS_NO_STATUS then loc_eng_process_atl_action (job_agps_status j) s3 else s3)"
    using assms by (auto simp: deferred_process_def bind_eq_Some_conv Let_def)
  let ?s3 = "process_deferred_stop m (job_flags j) (process_data_result m v (job_flags j) s2)"
  have "moved s s1" using r(1) moved_loc_event by (auto split: if_splits)
  moreover have "moved s2 ?s3" using still_trans [OF still_data_result still_deferred_stop] by (rule still_moved)
  moreover have "moved ?s3 t" using r(3) moved_atl by (auto simp: Let_def)
  ultimately show ?thesis using moved_aiding [OF r(2)] moved_trans by blast
qed

section \<open>What Android knows\<close>

text \<open>The steps of the thread, beside the processing, touch only the wake lock and the mailbox.\<close>

lemma thread_step:
  assumes "loc_eng_deferred_action_thread m v p s = Some (q, t)"
  shows "p = Starting \<and> q = Checking \<and> still s t
    \<or> p = Checking \<and> q = Waiting \<and> deferred_action_flags (eng s) = 0 \<and> t = tell ReleaseWakelock s
    \<or> p = Checking \<and> deferred_action_flags (eng s) \<noteq> 0 \<and> (q, t) = taken (deferred_take s)
    \<or> p = Waiting \<and> (q, t) = taken (deferred_take (tell AcquireWakelock s))
    \<or> (\<exists>j. p = Working j \<and> q = Checking \<and> deferred_process m v j s = Some t)
    \<or> p = Quitting \<and> q = Gone \<and> (\<exists>u. still s u \<and> t = tell ReleaseWakelock u)"
proof (cases p)
  case Starting
  then show ?thesis using assms by (auto simp: loc_eng_deferred_action_thread_def loc_eng_set_gps_lock_def)
next
  case Quitting
  let ?u = "snd (loc_eng_set_gps_lock m RPC_LOC_LOCK_ALL s)"
  have "still s (on_eng (deferred_action_thread_update (\<lambda>_. False)) ?u)"
    by (simp add: loc_eng_set_gps_lock_def still_def)
  then show ?thesis using assms Quitting
    by (auto simp: loc_eng_deferred_action_thread_def tell_def
        intro!: exI [of _ "on_eng (deferred_action_thread_update (\<lambda>_. False)) ?u"])
qed (use assms in \<open>auto simp: loc_eng_deferred_action_thread_def split: if_splits\<close>)

lemma taken_cases:
  assumes "(q, t) = taken (deferred_take s)"
  shows "calls t = calls s" "last_status t = last_status s" "status_cb (eng t) = status_cb (eng s)"
    "engine_status (eng t) = engine_status (eng s)" "fix_session_status (eng t) = fix_session_status (eng s)"
    "stop_request_pending (eng t) = stop_request_pending (eng s)" "client_handle (eng t) = client_handle (eng s)"
    "(q = Quitting \<and> t = s) \<or> (\<exists>j. q = Working j \<and> job_event j = pending_event (eng s)
      \<and> job_payload j = pending_payload (eng s) \<and> pending_event (eng t) = 0 \<and> deferred_action_flags (eng t) = 0)"
  using assms by (auto simp: taken_def deferred_take_def split: if_splits)

definition informs :: "'w engine \<Rightarrow> 'w engine \<Rightarrow> bool" where
  "informs s t \<longleftrightarrow> (\<exists>cs. calls t = calls s @ cs \<and> (\<forall>w. android_knows s w \<longrightarrow> android_knows t (foldl android_view w cs)))"

lemma moved_informs: "moved s t \<Longrightarrow> informs s t"
  by (auto simp: moved_def moves_def informs_def)

lemma arrive_mailbox:
  "snd (loc_event_cb h ev pl s) = s \<and> \<not> takes_event h (ev, pl) s
   \<or> takes_event h (ev, pl) s \<and> snd (loc_event_cb h ev pl s)
       = signal_deferred DEFERRED_ACTION_EVENT (on_eng (\<lambda>e. e\<lparr>pending_event := ev, pending_payload := pl\<rparr>) s)"
  by (auto simp: loc_event_cb_def takes_event_def)

lemma signal_simps [simp]:
  "calls (signal_deferred f s) = calls s @ [AcquireWakelock]" "last_status (signal_deferred f s) = last_status s"
  "pending_event (eng (signal_deferred f s)) = pending_event (eng s)"
  "pending_payload (eng (signal_deferred f s)) = pending_payload (eng s)"
  "engine_status (eng (signal_deferred f s)) = engine_status (eng s)"
  "fix_session_status (eng (signal_deferred f s)) = fix_session_status (eng s)"
  "status_cb (eng (signal_deferred f s)) = status_cb (eng s)"
  "stop_request_pending (eng (signal_deferred f s)) = stop_request_pending (eng s)"
  "client_handle (eng (signal_deferred f s)) = client_handle (eng s)"
  by (simp_all add: signal_deferred_def)

lemma informs_wakelock:
  assumes "calls t = calls s @ cs" "set cs \<subseteq> {AcquireWakelock, ReleaseWakelock}" "last_status t = last_status s"
    "status_cb (eng t) = status_cb (eng s)" "engine_status (eng t) = engine_status (eng s)"
    "fix_session_status (eng t) = fix_session_status (eng s)"
  shows "informs s t"
proof -
  have "foldl android_view w cs = w" for w using assms(2) by (induction cs arbitrary: w) auto
  then show ?thesis using assms unfolding informs_def android_knows_def by (intro exI [of _ cs]) auto
qed

lemma informs_trans: "informs s t \<Longrightarrow> informs t u \<Longrightarrow> informs s u"
  unfolding informs_def by (elim exE conjE, intro exI conjI) (auto simp del: split_paired_All)

lemma thread_informs:
  assumes "loc_eng_deferred_action_thread m v p s = Some (q, t)"
  shows "informs s t"
proof -
  have take: "informs s t" if "(q, t) = taken (deferred_take s)" for q t and s :: "'a engine"
    using taken_cases(1-5) [OF that] by (intro informs_wakelock [of _ _ "[]"]) simp_all
  have tell: "informs s (tell c s)" if "c \<in> {AcquireWakelock, ReleaseWakelock}" for c and s :: "'a engine"
    using that by (intro informs_wakelock [of _ _ "[c]"]) simp_all
  have still: "informs s t" if "still s t" for s t :: "'a engine"
    using that moved_informs still_moved by blast
  note [intro] = take tell still moved_informs [OF moved_process] informs_trans [OF tell take] informs_trans [OF still tell]
  from thread_step [OF assms] show ?thesis by (elim disjE conjE exE) auto
qed

lemma step_informs:
  assumes "gps_step m r r'"
  shows "informs (gps r) (gps r')"
  using assms
proof cases
  case (op v p)
  then show ?thesis using moved_informs [OF moved_op] by simp
next
  case (arrive h e)
  then show ?thesis using arrive_mailbox [of h "fst e" "snd e" "gps r"]
    informs_wakelock [of "signal_deferred f s" s "[AcquireWakelock]" for f s]
    informs_wakelock [of s s "[]" for s]
    by (elim disjE conjE) (simp_all add: informs_wakelock [of _ _ "[AcquireWakelock]"])
next
  case (thread v p s)
  then show ?thesis using thread_informs by simp
qed

text \<open>
  With each operation and each pass of the thread taken as one step, Android knows the state of the engine: in
  any run after an initialisation the status reports Android got so far say that the engine is on exactly when the
  engine thinks so, and that a session is running exactly when it does; Android's reading of them is
  \<open>android_view\<close>. The status reported last before the initialisation must not have been a session's beginning.
  A stop and a report may overlap; LocEngStatus says what is left then.
\<close>

theorem android_knows_status:
  assumes "(gps_step m)\<^sup>*\<^sup>* r r'" and "status_cb (eng (gps r))" and "engine_status (eng (gps r)) = GPS_STATUS_NONE"
    and "fix_session_status (eng (gps r)) = GPS_STATUS_NONE" and "last_status (gps r) \<noteq> GPS_STATUS_SESSION_BEGIN"
  shows "\<exists>cs. calls (gps r') = calls (gps r) @ cs
    \<and> foldl android_view (False, False) cs =
      (engine_status (eng (gps r')) = GPS_STATUS_ENGINE_ON, fix_session_status (eng (gps r')) = GPS_STATUS_SESSION_BEGIN)"
proof -
  have "android_knows (gps r) (False, False)" using assms(2-5) by (simp add: android_knows_def)
  moreover from assms(1) have "informs (gps r) (gps r')"
  proof (induction rule: rtranclp_induct)
    case base
    show ?case by (rule informs_wakelock [of _ _ "[]"]) simp_all
  qed (use step_informs informs_trans in blast)
  ultimately show ?thesis by (auto simp: informs_def android_knows_def)
qed

section \<open>The wake lock\<close>

fun lock_after :: "bool \<Rightarrow> framework_call \<Rightarrow> bool" where
  "lock_after b AcquireWakelock = True"
| "lock_after b ReleaseWakelock = False"
| "lock_after b c = b"

definition wake_lock_held :: "framework_call list \<Rightarrow> bool" where
  "wake_lock_held cs = foldl lock_after False cs"

lemma foldl_lock:
  "ReleaseWakelock \<notin> set cs \<Longrightarrow> foldl lock_after b cs \<longleftrightarrow> b \<or> AcquireWakelock \<in> set cs"
proof (induction cs arbitrary: b)
  case (Cons c cs)
  then show ?case by (cases c) auto
qed simp

lemma held_simps [simp]:
  "wake_lock_held (cs @ [AcquireWakelock])" "\<not> wake_lock_held (cs @ [ReleaseWakelock])"
  by (simp_all add: wake_lock_held_def)

lemma moved_held:
  assumes "moved s t"
  shows "wake_lock_held (calls s) \<Longrightarrow> wake_lock_held (calls t)"
    "deferred_action_flags (eng t) \<noteq> deferred_action_flags (eng s) \<Longrightarrow> wake_lock_held (calls t)"
  using assms by (auto simp: moved_def moves_def wake_lock_held_def foldl_lock)

text \<open>While there is something to do, or something is being done, the lock is held.\<close>

definition busy :: "'w gps_run \<Rightarrow> bool" where
  "busy r \<longleftrightarrow> (deferred_action_flags (eng (gps r)) \<noteq> 0 \<and> place r \<noteq> Gone) \<or> (\<exists>j. place r = Working j) \<or> place r = Quitting"

lemma step_held:
  assumes "gps_step m r r'" "busy r \<longrightarrow> wake_lock_held (calls (gps r))"
  shows "busy r' \<longrightarrow> wake_lock_held (calls (gps r'))"
  using assms(1)
proof cases
  case (op v p)
  then show ?thesis using assms(2) moved_held [OF moved_op [of "gps r" m v p]] by (auto simp: busy_def)
next
  case (arrive h e)
  then show ?thesis using assms(2) arrive_mailbox [of h "fst e" "snd e" "gps r"] by (auto simp: busy_def)
next
  case (thread v p s)
  have still: "still x y \<Longrightarrow> wake_lock_held (calls y) = wake_lock_held (calls x)
    \<and> deferred_action_flags (eng y) = deferred_action_flags (eng x)" for x y :: "'a engine"
    by (simp add: still_def)
  have go: "wake_lock_held (calls (gps r))" if "busy r" using assms(2) that by blast
  from thread_step [OF thread(2)] go show ?thesis unfolding thread(1)
    by (elim disjE conjE exE)
      (auto simp: busy_def still taken_cases(1) dest: moved_held [OF moved_process] taken_cases(8))
qed

text \<open>
  C12: the wake lock covers the work. In any run that starts with the thread not yet running and no
  flag set, the lock is held whenever a flag is set and the thread has not ended, and throughout every
  pass of the thread and its end.
\<close>

theorem wake_lock_covers_work:
  assumes "(gps_step m)\<^sup>*\<^sup>* r r'" and "place r = Starting" and "deferred_action_flags (eng (gps r)) = 0"
  shows "(deferred_action_flags (eng (gps r')) \<noteq> 0 \<and> place r' \<noteq> Gone) \<or> (\<exists>j. place r' = Working j) \<or> place r' = Quitting
    \<Longrightarrow> wake_lock_held (calls (gps r'))"
proof -
  have "busy r \<longrightarrow> wake_lock_held (calls (gps r))" using assms(2,3) by (simp add: busy_def)
  with assms(1) have "busy r' \<longrightarrow> wake_lock_held (calls (gps r'))"
    by (induction rule: rtranclp_induct) (use step_held in blast)+
  then show "(deferred_action_flags (eng (gps r')) \<noteq> 0 \<and> place r' \<noteq> Gone) \<or> (\<exists>j. place r' = Working j) \<or> place r' = Quitting
    \<Longrightarrow> wake_lock_held (calls (gps r'))" by (simp add: busy_def)
qed

section \<open>The mailbox\<close>

definition mailbox :: "'w gps_run \<Rightarrow> event list" where
  "mailbox r = (if pending_event (eng (gps r)) = 0 then [] else [(pending_event (eng (gps r)), pending_payload (eng (gps r)))])"

definition in_order :: "'w gps_run \<Rightarrow> bool" where
  "in_order r \<longleftrightarrow> (\<exists>old. subseq (handled r) old \<and> prefix old (arrived r)
     \<and> (mailbox r \<noteq> [] \<longrightarrow> arrived r = old @ mailbox r))"

lemma step_in_order:
  assumes "gps_step m r r'" "in_order r"
  shows "in_order r'"
proof -
  obtain old where old: "subseq (handled r) old" "prefix old (arrived r)" "mailbox r \<noteq> [] \<longrightarrow> arrived r = old @ mailbox r"
    using assms(2) by (auto simp: in_order_def)
  have same: "in_order r'" if "handled r' = handled r" "arrived r' = arrived r" "mailbox r' = mailbox r"
    using old that by (auto simp: in_order_def)
  have keeps: "moved s t \<Longrightarrow> pending_event (eng t) = pending_event (eng s) \<and> pending_payload (eng t) = pending_payload (eng s)"
    for s t :: "'a engine" by (auto simp: moved_def moves_def)
  from assms(1) show ?thesis
  proof cases
    case (op v p)
    show ?thesis by (rule same) (use keeps [OF moved_op [of "gps r" m v p]] op in \<open>simp_all add: mailbox_def\<close>)
  next
    case (arrive h e)
    show ?thesis
    proof (cases "takes_event h e (gps r)")
      case True
      then have g: "pending_event (eng (gps r')) = fst e" "pending_payload (eng (gps r')) = snd e"
        using arrive arrive_mailbox [of h "fst e" "snd e" "gps r"] by auto
      have "subseq (handled r') (arrived r)"
        using arrive old(1,2) by (auto intro: subseq_order.trans prefix_imp_subseq)
      then show ?thesis using True arrive g
        by (auto simp: in_order_def mailbox_def intro!: exI [of _ "arrived r"])
    next
      case False
      then show ?thesis
        using arrive arrive_mailbox [of h "fst e" "snd e" "gps r"] by (intro same) (auto simp: mailbox_def)
    qed
  next
    case (thread v p s)
    have take: "in_order r'" if t: "(p, s) = taken (deferred_take x)" "place r \<in> {Checking, Waiting}"
      and x: "eng x = eng (gps r)" for x
      using taken_cases(8) [OF t(1)]
    proof (elim disjE conjE exE)
      fix j assume "p = Working j" "job_event j = pending_event (eng x)" "job_payload j = pending_payload (eng x)"
        "pending_event (eng s) = 0"
      then have "handled r' = handled r @ mailbox r" "mailbox r' = []" using thread t(2) x
        by (auto simp: event_of_def mailbox_def)
      then show ?thesis using old thread(1)
        by (cases "mailbox r = []") (auto simp: in_order_def intro!: exI [of _ "old @ mailbox r"])
    next
      assume "p = Quitting" "s = x"
      then show ?thesis using thread(1) x by (intro same) (auto simp: mailbox_def event_of_def)
    qed
    from thread_step [OF thread(2)] show ?thesis
    proof (elim disjE conjE exE)
      assume "still (gps r) s" "place r = Starting"
      then show ?thesis using thread by (intro same) (auto simp: mailbox_def still_def)
    next
      assume "place r = Checking" "p = Waiting" "s = tell ReleaseWakelock (gps r)"
      then show ?thesis using thread by (intro same) (auto simp: mailbox_def event_of_def)
    next
      fix j assume "place r = Working j" "deferred_process m v j (gps r) = Some s"
      then show ?thesis using thread keeps [OF moved_process] by (intro same) (auto simp: mailbox_def)
    next
      fix u assume "place r = Quitting" "still (gps r) u" "s = tell ReleaseWakelock u"
      then show ?thesis using thread by (intro same) (auto simp: mailbox_def still_def)
    qed (auto intro: take)
  qed
qed

text \<open>
  C13: events are processed in order, and a later one overwrites an earlier one. In any run that starts
  with an empty mailbox the events the thread has taken are a subsequence of those that arrived; when
  an event waits, it is the last that arrived. So an event that arrives before the thread has taken
  the one before it replaces it.
\<close>

theorem events_in_order:
  assumes "(gps_step m)\<^sup>*\<^sup>* r r'" and "arrived r = []" and "handled r = []" and "pending_event (eng (gps r)) = 0"
  shows "subseq (handled r') (arrived r')
    \<and> (pending_event (eng (gps r')) \<noteq> 0 \<longrightarrow> (\<exists>old. arrived r' = old @ [(pending_event (eng (gps r')), pending_payload (eng (gps r')))]
      \<and> subseq (handled r') old))"
proof -
  have "in_order r" using assms(2-4) by (simp add: in_order_def mailbox_def)
  with assms(1) have "in_order r'" by (induction rule: rtranclp_induct) (use step_in_order in blast)+
  then obtain old where "subseq (handled r') old" "prefix old (arrived r')" "mailbox r' \<noteq> [] \<longrightarrow> arrived r' = old @ mailbox r'"
    by (auto simp: in_order_def)
  then show ?thesis by (auto simp: mailbox_def intro: subseq_order.trans prefix_imp_subseq)
qed

section \<open>Concrete runs\<close>

datatype run_step = Do eng_op | Arrives u32 event | Turn

fun exec_step :: "'w modem \<Rightarrow> eng_env \<Rightarrow> run_step \<Rightarrow> 'w gps_run \<Rightarrow> 'w gps_run option" where
  "exec_step m v (Do p) r = Some (r\<lparr>gps := exec_op m v p (gps r)\<rparr>)"
| "exec_step m v (Arrives h e) r = Some (r\<lparr>gps := snd (loc_event_cb h (fst e) (snd e) (gps r)),
      arrived := arrived r @ (if takes_event h e (gps r) then [e] else [])\<rparr>)"
| "exec_step m v Turn r = map_option (\<lambda>(p, s). r\<lparr>gps := s, place := p,
      handled := handled r @ (if place r \<in> {Checking, Waiting} then event_of p else [])\<rparr>)
      (loc_eng_deferred_action_thread m v (place r) (gps r))"

fun exec_run :: "'w modem \<Rightarrow> eng_env \<Rightarrow> run_step list \<Rightarrow> 'w gps_run \<Rightarrow> 'w gps_run option" where
  "exec_run m v [] r = Some r"
| "exec_run m v (x # xs) r = Option.bind (exec_step m v x r) (exec_run m v xs)"

lemma exec_step_gps: "exec_step m v x r = Some r' \<Longrightarrow> gps_step m r r'"
proof (cases x)
  case Turn
  assume "exec_step m v x r = Some r'"
  then obtain p s where ps: "loc_eng_deferred_action_thread m v (place r) (gps r) = Some (p, s)"
    "r' = r\<lparr>gps := s, place := p, handled := handled r @ (if place r \<in> {Checking, Waiting} then event_of p else [])\<rparr>"
    using Turn by auto
  show ?thesis unfolding ps(2) using ps(1) by (rule gps_step.thread)
qed (auto intro: gps_step.op gps_step.arrive)

lemma exec_run_gps: "exec_run m v xs r = Some r' \<Longrightarrow> (gps_step m)\<^sup>*\<^sup>* r r'"
proof (induction xs arbitrary: r)
  case (Cons x xs)
  then obtain r1 where "exec_step m v x r = Some r1" "exec_run m v xs r1 = Some r'" by (auto simp: bind_eq_Some_conv)
  then show ?case using Cons.IH exec_step_gps by (meson converse_rtranclp_into_rtranclp)
qed simp

definition plain_env :: eng_env where
  "plain_env = \<lparr>gps_max_svs = 32, fp_speed = (\<lambda>h k. h), fp_is_zero = (\<lambda>d. d = 0), fp_exceeds = (\<lambda>x y. x > y),
     elapsed_realtime = 0, time_of_day = 0, gps_conf_file = None, gethostbyname = (\<lambda>_. None), inet_aton = (\<lambda>_. Some 1),
     ni_env = (\<lparr>short_string = 256, long_string = 2048\<rparr>, 0, True, \<lparr>notification_id = 0, ni_type = GPS_NI_TYPE_VOICE,
       notify_flags = {}, ni_timeout = 0, default_response = GPS_NI_RESPONSE_NORESP, ni_requestor_id = [], ni_text = [],
       requestor_id_encoding = GPS_ENC_NONE, text_encoding = GPS_ENC_NONE, ni_extras = []\<rparr>),
     un_disc = 0, un_criteria = zero_rpc_loc_fix_criteria_s_type, un_position = zero_rpc_loc_assist_data_pos_s_type,
     un_url = replicate 256 0, un_apn = replicate 100 0\<rparr>"

definition fresh_run :: "modem_request list gps_run" where
  "fresh_run = \<lparr>gps = (zero_engine [])\<lparr>loc_eng_inited := True, eng := zero_eng\<lparr>status_cb := True\<rparr>\<rparr>, place = Starting,
     arrived = [], handled = []\<rparr>"

definition session_event :: "u32 \<Rightarrow> event" where
  "session_event st = (RPC_LOC_EVENT_STATUS_REPORT, \<lparr>disc = RPC_LOC_EVENT_STATUS_REPORT, arm = event_payload_status_report
     \<lparr>rpc_loc_status_event_s_type.event = RPC_LOC_STATUS_EVENT_FIX_SESSION_STATE, rpc_loc_status_event_s_type.payload =
       \<lparr>disc = RPC_LOC_STATUS_EVENT_FIX_SESSION_STATE, arm = status_event_payload_fix_session_state st\<rparr>\<rparr>\<rparr>)"

definition engine_event :: "u32 \<Rightarrow> event" where
  "engine_event st = (RPC_LOC_EVENT_STATUS_REPORT, \<lparr>disc = RPC_LOC_EVENT_STATUS_REPORT, arm = event_payload_status_report
     \<lparr>rpc_loc_status_event_s_type.event = RPC_LOC_STATUS_EVENT_ENGINE_STATE, rpc_loc_status_event_s_type.payload =
       \<lparr>disc = RPC_LOC_STATUS_EVENT_ENGINE_STATE, arm = status_event_payload_engine_state st\<rparr>\<rparr>\<rparr>)"

lemma runs_to:
  assumes "map_option f (exec_run m v xs r) = Some y"
  shows "\<exists>r'. (gps_step m)\<^sup>*\<^sup>* r r' \<and> f r' = y"
  using assms exec_run_gps by blast

lemma fresh_simps [simp]:
  "place fresh_run = Starting" "status_cb (eng (gps fresh_run))" "engine_status (eng (gps fresh_run)) = GPS_STATUS_NONE"
  "fix_session_status (eng (gps fresh_run)) = GPS_STATUS_NONE" "last_status (gps fresh_run) = GPS_STATUS_NONE"
  "calls (gps fresh_run) = []" "arrived fresh_run = []" "handled fresh_run = []" "pending_event (eng (gps fresh_run)) = 0"
  "deferred_action_flags (eng (gps fresh_run)) = 0"
  by (simp_all add: fresh_run_def zero_engine_def zero_eng_def)

text \<open>A session begins and is stopped: Android is told of both.\<close>

lemma stopped_session:
  "map_option (\<lambda>r. (filter (\<lambda>c. c \<notin> {AcquireWakelock, ReleaseWakelock}) (calls (gps r)),
      engine_status (eng (gps r)), fix_session_status (eng (gps r))))
    (exec_run accepting plain_env [Turn, Turn, Arrives 0 (session_event 1), Turn, Turn, Do OpStop] fresh_run)
  = Some ([ReportStatus GPS_STATUS_SESSION_BEGIN, ReportStatus GPS_STATUS_SESSION_END], GPS_STATUS_ENGINE_ON, GPS_STATUS_SESSION_END)"
  by code_simp

theorem android_knows_status_witness:
  "\<exists>r'. (gps_step accepting)\<^sup>*\<^sup>* fresh_run r' \<and> engine_status (eng (gps r')) = GPS_STATUS_ENGINE_ON
    \<and> foldl android_view (False, False) (calls (gps r')) = (True, False)"
proof -
  obtain r' where r: "(gps_step accepting)\<^sup>*\<^sup>* fresh_run r'" "engine_status (eng (gps r')) = GPS_STATUS_ENGINE_ON"
    "fix_session_status (eng (gps r')) = GPS_STATUS_SESSION_END"
    using runs_to [OF stopped_session] by auto
  show ?thesis using android_knows_status [OF r(1)] r by auto
qed

text \<open>Two events arrive before the thread runs.\<close>

lemma two_events:
  "map_option (\<lambda>r. (handled r, arrived r, pending_event (eng (gps r)), place r))
    (exec_run accepting plain_env [Turn, Turn, Arrives 0 (session_event 1), Arrives 0 (engine_event 0), Turn] fresh_run)
  = Some ([engine_event 0], [session_event 1, engine_event 0], 0, Working \<lparr>job_event = fst (engine_event 0),
      job_payload = snd (engine_event 0), job_flags = DEFERRED_ACTION_EVENT, job_engine_status = GPS_STATUS_NONE,
      job_aiding_data = 0, job_agps_status = AGPS_NO_STATUS\<rparr>)"
  by code_simp

theorem events_in_order_witness:
  "\<exists>r'. (gps_step accepting)\<^sup>*\<^sup>* fresh_run r' \<and> handled r' = [engine_event 0]
    \<and> arrived r' = [session_event 1, engine_event 0] \<and> subseq (handled r') (arrived r')"
proof -
  obtain r' where r: "(gps_step accepting)\<^sup>*\<^sup>* fresh_run r'" "handled r' = [engine_event 0]"
    "arrived r' = [session_event 1, engine_event 0]"
    using runs_to [OF two_events] by auto
  show ?thesis using events_in_order [OF r(1)] r by auto
qed

theorem wake_lock_covers_work_witness:
  "\<exists>r' j. (gps_step accepting)\<^sup>*\<^sup>* fresh_run r' \<and> place r' = Working j \<and> wake_lock_held (calls (gps r'))"
proof -
  obtain r' j where r: "(gps_step accepting)\<^sup>*\<^sup>* fresh_run r'" "place r' = Working j"
    using runs_to [OF two_events] by auto
  show ?thesis using wake_lock_covers_work [OF r(1)] r(1,2) fresh_simps by auto
qed

section \<open>The deferred stop\<close>

lemma moved_stop_pending:
  "moved s t \<Longrightarrow> stop_request_pending (eng s) \<Longrightarrow> stop_request_pending (eng t)"
  "moved s t \<Longrightarrow> client_handle (eng t) = client_handle (eng s)"
  by (auto simp: moved_def moves_def)

lemma step_stop_pending:
  assumes "gps_step m r r'" "stop_request_pending (eng (gps r))"
  shows "stop_request_pending (eng (gps r'))"
  using assms(1)
proof cases
  case (op v p)
  then show ?thesis using assms(2) moved_stop_pending(1) [OF moved_op] by simp
next
  case (arrive h e)
  then show ?thesis using assms(2) arrive_mailbox [of h "fst e" "snd e" "gps r"] by auto
next
  case (thread v p s)
  from thread_step [OF thread(2)] show ?thesis using assms(2) unfolding thread(1)
    by (elim disjE conjE exE) (auto simp: still_def taken_cases(6) dest: moved_stop_pending(1) [OF moved_process])
qed

text \<open>
  C14: a deferred stop is never done with. Once a stop was deferred because a data connection was
  requested, \<open>stop_request_pending\<close> stays set: however often the engine is started again, each later
  result of a data connection ends with a request to the modem to stop the fix.
\<close>

theorem deferred_stop_repeats:
  assumes "(gps_step accepting)\<^sup>*\<^sup>* r r'" and "stop_request_pending (eng (gps r))" and "place r' = Working j"
    and "job_flags j AND AGPS_DATA_RESULTS \<noteq> 0"
    and "loc_eng_deferred_action_thread accepting v (place r') (gps r') = Some (p, s)"
  shows "last (world s) = AskStop (client_handle (eng (gps r')))"
proof -
  have pend: "stop_request_pending (eng (gps r'))"
    using assms(1,2) by (induction rule: rtranclp_induct) (use step_stop_pending in blast)+
  obtain s1 s2 where r:
    "(if job_event j \<noteq> 0 then loc_eng_process_loc_event v (job_event j) (job_payload j) (gps r') else Some (gps r')) = Some s1"
    "process_aiding accepting j s1 = Some s2"
    "s = (let s3 = process_deferred_stop accepting (job_flags j) (process_data_result accepting v (job_flags j) s2) in
       if job_agps_status j \<noteq> AGPS_NO_STATUS then loc_eng_process_atl_action (job_agps_status j) s3 else s3)"
    using assms(3,5) by (auto simp: loc_eng_deferred_action_thread_def deferred_process_def bind_eq_Some_conv Let_def)
  have "moved (gps r') s1" using r(1) moved_loc_event by (auto split: if_splits)
  then have "moved (gps r') s2" using moved_aiding [OF r(2)] moved_trans by blast
  then have m: "moved (gps r') (process_data_result accepting v (job_flags j) s2)"
    using still_data_result moved_still by blast
  have "world (loc_eng_process_atl_action st x) = world x" for st and x :: "modem_request list engine"
    by (auto simp: loc_eng_process_atl_action_def loc_eng_report_agps_status_def split: AGpsStatusValue.split)
  then have "world s = world (process_deferred_stop accepting (job_flags j) (process_data_result accepting v (job_flags j) s2))"
    unfolding r(3) by (simp add: Let_def)
  then show ?thesis
    using assms(4) moved_stop_pending [OF m] pend by (simp add: process_deferred_stop_def Let_def)
qed

text \<open>A stop is deferred and done; the engine is started again, and the end of the data connection stops it.\<close>

definition open_event :: event where
  "open_event = (RPC_LOC_EVENT_LOCATION_SERVER_REQUEST, \<lparr>disc = RPC_LOC_EVENT_LOCATION_SERVER_REQUEST,
     arm = event_payload_loc_server_request \<lparr>rpc_loc_server_request_s_type.event = RPC_LOC_SERVER_REQUEST_OPEN,
       rpc_loc_server_request_s_type.payload = \<lparr>disc = RPC_LOC_SERVER_REQUEST_OPEN,
         arm = server_request_open_req \<lparr>rpc_loc_server_open_req_s_type.conn_handle = 7, protocol = 0\<rparr>\<rparr>\<rparr>\<rparr>)"

definition deferring :: "run_step list" where
  "deferring = [Turn, Turn, Arrives 0 open_event, Turn, Turn, Do OpStop]"

definition restarting :: "run_step list" where
  "restarting = [Do OpDataConnFailed, Turn, Turn, Do OpStart, Do OpDataConnClosed, Turn]"

definition restart_flags :: "modem_request list gps_run \<Rightarrow> u32 \<times> bool" where
  "restart_flags r = (case place r of Working j \<Rightarrow> job_flags j | _ \<Rightarrow> 0, navigating (eng (gps r)))"

lemma deferring_runs: "map_option (\<lambda>r. stop_request_pending (eng (gps r))) (exec_run accepting plain_env deferring fresh_run) = Some True"
  by code_simp

lemma restarting_runs:
  "map_option (\<lambda>r. (restart_flags r, map_option fst (loc_eng_deferred_action_thread accepting plain_env (place r) (gps r)),
      drop 2 (world (gps r))))
    (Option.bind (exec_run accepting plain_env deferring fresh_run) (exec_run accepting plain_env restarting))
   = Some ((DEFERRED_ACTION_AGPS_DATA_CLOSED, True), Some Checking, [AskStop 0, AskStart 0])"
  by code_simp

theorem deferred_stop_repeats_witness:
  "\<exists>r r' p s. (gps_step accepting)\<^sup>*\<^sup>* fresh_run r \<and> stop_request_pending (eng (gps r)) \<and> (gps_step accepting)\<^sup>*\<^sup>* r r'
    \<and> drop 2 (world (gps r')) = [AskStop 0, AskStart 0] \<and> navigating (eng (gps r'))
    \<and> loc_eng_deferred_action_thread accepting plain_env (place r') (gps r') = Some (p, s)
    \<and> last (world s) = AskStop (client_handle (eng (gps r')))"
proof -
  obtain r where r: "exec_run accepting plain_env deferring fresh_run = Some r" "stop_request_pending (eng (gps r))"
    using deferring_runs by auto
  obtain r' p s where r': "exec_run accepting plain_env restarting r = Some r'"
    "restart_flags r' = (DEFERRED_ACTION_AGPS_DATA_CLOSED, True)" "drop 2 (world (gps r')) = [AskStop 0, AskStart 0]"
    "loc_eng_deferred_action_thread accepting plain_env (place r') (gps r') = Some (p, s)"
    using restarting_runs r(1) by auto
  obtain j where j: "place r' = Working j" "job_flags j = DEFERRED_ACTION_AGPS_DATA_CLOSED" "navigating (eng (gps r'))"
    using r'(2) by (auto simp: restart_flags_def deferred_flags split: thread_place.splits)
  have "job_flags j AND AGPS_DATA_RESULTS \<noteq> 0" unfolding j(2) by code_simp
  from deferred_stop_repeats [OF exec_run_gps [OF r'(1)] r(2) j(1) this r'(4)]
  show ?thesis using exec_run_gps [OF r(1)] exec_run_gps [OF r'(1)] r(2) r'(3,4) j(3) by blast
qed

section \<open>Server addresses\<close>

text \<open>The initialisation of the engine and of assisted GPS.\<close>

definition start_engine :: "'w modem \<Rightarrow> eng_env \<Rightarrow> gps_callbacks \<Rightarrow> 'w engine \<Rightarrow> 'w engine" where
  "start_engine m v cbs s = loc_eng_agps_init m v True (snd (loc_eng_init m v True cbs s))"

definition mode_asked :: "eng_env \<Rightarrow> 'w engine \<Rightarrow> GpsPositionMode \<Rightarrow> GpsPositionRecurrence \<Rightarrow> u32 \<Rightarrow> u32 \<Rightarrow> u32 \<Rightarrow> u32" where
  "mode_asked v s md r i ac t =
     preferred_operation_mode (fix_criteria v (host_set (supl_host s) \<or> host_set (c2k_host s)) md r i ac t)"

text \<open>A stored address does not change the initialisation.\<close>

definition with_hosts :: "host_buf \<Rightarrow> host_buf \<Rightarrow> 'w engine \<Rightarrow> 'w engine" where
  "with_hosts a b s = s\<lparr>supl_host := a, c2k_host := b\<rparr>"

lemma with_hosts_simps [simp]:
  "eng (with_hosts a b s) = eng s" "world (with_hosts a b s) = world s" "calls (with_hosts a b s) = calls s"
  "loc_eng_inited (with_hosts a b s) = loc_eng_inited s" "loc_c2k_addr_is_set (with_hosts a b s) = loc_c2k_addr_is_set s"
  "supl_host (with_hosts a b s) = a" "c2k_host (with_hosts a b s) = b"
  by (simp_all add: with_hosts_def)

lemma with_hosts_ioctl: "snd (loc_eng_ioctl m hn k d t (with_hosts a b s)) = with_hosts a b (snd (loc_eng_ioctl m hn k d t s))"
  by (simp add: loc_eng_ioctl_def ask_def with_hosts_def split: prod.split)

lemma with_hosts_init:
  "\<not> loc_eng_inited s \<Longrightarrow> snd (loc_eng_init m v c cbs (with_hosts a b s)) = with_hosts a b (snd (loc_eng_init m v c cbs s))"
  by (cases "m_open m loc_eng_events (m_glue_init m (world s))")
    (simp add: loc_eng_init_def Let_def ask_def with_hosts_def tell_def)

lemma with_hosts_server:
  "snd (loc_eng_set_server m v ty h p (with_hosts a b s)) = with_hosts a b (snd (loc_eng_set_server m v ty h p s))"
proof -
  have "with_hosts a b s\<lparr>loc_c2k_addr_is_set := x\<rparr> = with_hosts a b (s\<lparr>loc_c2k_addr_is_set := x\<rparr>)" for x
    by (simp add: with_hosts_def)
  then show ?thesis
    by (simp add: loc_eng_set_server_def Let_def with_hosts_ioctl split: AGpsType.split option.split)
qed

lemma init_inited [simp]:
  "loc_eng_inited (snd (loc_eng_init m v c cbs s))"
  "\<not> loc_eng_inited s \<Longrightarrow> supl_host (snd (loc_eng_init m v c cbs s)) = supl_host s"
  "\<not> loc_eng_inited s \<Longrightarrow> c2k_host (snd (loc_eng_init m v c cbs s)) = c2k_host s"
  by (cases "m_open m loc_eng_events (m_glue_init m (world s))",
      simp_all add: loc_eng_init_def Let_def ask_def tell_def case_prod_beta)

text \<open>
  C15: an address that came before the initialisation. Stored by the proxy, it is sent to the modem
  when the interface for assisted GPS is initialised, just as if it had been set right after that;
  but only then are the assisted modes used: with an address that is set later positions are still
  requested in standalone mode.
\<close>

theorem server_set_before_init:
  assumes "\<not> loc_eng_inited s" and "\<not> host_set (supl_host s)" and "\<not> host_set (c2k_host s)" and "length h < 100"
    and "ty \<noteq> AGPS_TYPE_OTHER"
    and "before = start_engine m v cbs (snd (loc_eng_set_server_proxy m v ty h p s))"
    and "after = snd (loc_eng_set_server_proxy m v ty h p (start_engine m v cbs s))"
  shows "eng before = eng after \<and> world before = world after \<and> calls before = calls after
    \<and> loc_c2k_addr_is_set before = loc_c2k_addr_is_set after
    \<and> mode_asked v before GPS_POSITION_MODE_MS_BASED r i ac t = RPC_LOC_OPER_MODE_MSB
    \<and> mode_asked v after GPS_POSITION_MODE_MS_BASED r i ac t = RPC_LOC_OPER_MODE_STANDALONE"
proof -
  let ?buf = "buffered_host h p"
  define s0 where "s0 = (on_eng (agps_status_cb_update (\<lambda>_. True)) (snd (loc_eng_init m v True cbs s)))\<lparr>loc_c2k_addr_is_set := False\<rparr>"
  have inited: "loc_eng_inited s0" and hosts: "supl_host s0 = supl_host s" "c2k_host s0 = c2k_host s"
    using assms(1) by (simp_all add: s0_def)
  have started: "start_engine m v cbs s = s0"
    using assms(1-3) by (simp add: start_engine_def loc_eng_agps_init_def Let_def s0_def)
  have after: "after = snd (loc_eng_set_server m v ty h p s0)"
    using inited unfolding assms(7) started by (simp add: loc_eng_set_server_proxy_def)
  obtain a b where ab: "snd (loc_eng_set_server_proxy m v ty h p s) = with_hosts a b s"
    "(ty = AGPS_TYPE_SUPL \<and> a = ?buf \<and> b = c2k_host s) \<or> (ty = AGPS_TYPE_C2K \<and> a = supl_host s \<and> b = ?buf)"
    using assms(1,5) by (cases ty) (auto simp: loc_eng_set_server_proxy_def with_hosts_def)
  have init: "snd (loc_eng_init m v True cbs (with_hosts a b s)) = with_hosts a b (snd (loc_eng_init m v True cbs s))"
    using assms(1) by (rule with_hosts_init)
  have on: "(on_eng (agps_status_cb_update (\<lambda>_. True)) (with_hosts a b x))\<lparr>loc_c2k_addr_is_set := False\<rparr>
    = with_hosts a b ((on_eng (agps_status_cb_update (\<lambda>_. True)) x)\<lparr>loc_c2k_addr_is_set := False\<rparr>)" for x :: "'a engine"
    by (simp add: with_hosts_def)
  have keep: "host_set (supl_host (snd (loc_eng_set_server m v ty h p x))) = host_set (supl_host x)"
    "host_set (c2k_host (snd (loc_eng_set_server m v ty h p x))) = host_set (c2k_host x)" for ty h p and x :: "'a engine"
    by (auto simp: loc_eng_set_server_def Let_def split: AGpsType.split option.split)
  have "before = with_hosts a b after"
    unfolding assms(6) ab(1) start_engine_def loc_eng_agps_init_def Let_def init on s0_def [symmetric] after
    using ab(2) assms(2-4) by (auto simp: buffered_host_def with_hosts_server)
  then show ?thesis
    using ab(2) assms(2,3) hosts unfolding after
    by (auto simp: mode_asked_def fix_criteria_def Let_def keep buffered_host_def)
qed

theorem server_set_before_init_witness:
  "(let s = zero_engine []; h = [115, 117, 112, 108]; cbs = \<lparr>has_location_cb = True, has_status_cb = True, has_sv_status_cb = True, has_nmea_cb = True\<rparr>;
        before = start_engine accepting plain_env cbs (snd (loc_eng_set_server_proxy accepting plain_env AGPS_TYPE_SUPL h 7275 s));
        after = snd (loc_eng_set_server_proxy accepting plain_env AGPS_TYPE_SUPL h 7275 (start_engine accepting plain_env cbs s))
    in world before = world after \<and> mode_asked plain_env after GPS_POSITION_MODE_MS_BASED GPS_POSITION_RECURRENCE_PERIODIC 0 0 0 = RPC_LOC_OPER_MODE_STANDALONE)"
  unfolding Let_def
  using server_set_before_init [OF _ _ _ _ _ refl refl, of "zero_engine []" "[115, 117, 112, 108]" AGPS_TYPE_SUPL accepting plain_env]
  by (simp add: zero_engine_def)

end
