(* ===== verification/LocEngStatus.thy ===== *)
theory LocEngStatus
  imports LocEngSys
begin

text \<open>
  The status of the engine between the threads of loc_eng.cpp. \<open>loc_eng_report_status\<close> runs on the deferred
  action thread, \<open>loc_eng_stop\<close> on threads of the framework, and no mutex is held by both: what they do to
  \<open>engine_status\<close>, \<open>fix_session_status\<close> and \<open>last_status\<close> is cut into single accesses here, and the threads
  interleave, with each other and with everything else.
\<close>

section \<open>Accesses\<close>

datatype status_act =
    ReadEngine rpc_loc_status_event_s_type
  | ReadSession rpc_loc_status_event_s_type GpsStatusValue
  | SetEngine GpsStatusValue
  | SetSession GpsStatusValue
  | SessionNotBegun GpsStatusValue
  | EngineChanged GpsStatusValue
  | EngineNotOff GpsStatusValue
  | SessionChanged GpsStatusValue
  | SessionNotEnded
  | StopNotOff
  | InformEngine
  | InformSession
  | Inform GpsStatusValue
  | Callback GpsStatusValue
  | RestoreSession
  | Note GpsStatusValue

text \<open>The assignments of a status event, in the order of the code; None when its payload is another member.\<close>

definition status_writes :: "rpc_loc_status_event_s_type \<Rightarrow> status_act list option" where
  "status_writes r =
     (if rpc_loc_status_event_s_type.event r = RPC_LOC_STATUS_EVENT_ENGINE_STATE then
        (case arm (rpc_loc_status_event_s_type.payload r) of
           status_event_payload_engine_state st \<Rightarrow>
             Some (if st = RPC_LOC_ENGINE_STATE_ON then [SetEngine GPS_STATUS_ENGINE_ON]
                   else [SetEngine GPS_STATUS_ENGINE_OFF, SetSession GPS_STATUS_SESSION_END])
         | _ \<Rightarrow> None)
      else if rpc_loc_status_event_s_type.event r = RPC_LOC_STATUS_EVENT_FIX_SESSION_STATE then
        (case arm (rpc_loc_status_event_s_type.payload r) of
           status_event_payload_fix_session_state st \<Rightarrow>
             Some (if st = RPC_LOC_FIX_SESSION_STATE_BEGIN then [SetEngine GPS_STATUS_ENGINE_ON, SetSession GPS_STATUS_SESSION_BEGIN]
                   else [])
         | _ \<Rightarrow> None)
      else Some [])"

text \<open>
  An access: the new state and what the thread goes on with. \<open>ReadEngine\<close> begins a status report,
  \<open>SessionNotEnded\<close> what follows an accepted stop, \<open>Inform\<close> is \<open>loc_inform_gps_status\<close>.
\<close>

fun status_access :: "status_act \<Rightarrow> 'w engine \<Rightarrow> ('w engine \<times> status_act list) option" where
  "status_access (ReadEngine r) s = Some (s, [ReadSession r (engine_status (eng s))])"
| "status_access (ReadSession r E) s =
     map_option (\<lambda>ws. (s, ws @ [SessionNotBegun E, EngineNotOff (fix_session_status (eng s))])) (status_writes r)"
| "status_access (SetEngine x) s = Some (on_eng (engine_status_update (\<lambda>_. x)) s, [])"
| "status_access (SetSession x) s = Some (on_eng (fix_session_status_update (\<lambda>_. x)) s, [])"
| "status_access (SessionNotBegun E) s =
     Some (s, if fix_session_status (eng s) \<noteq> GPS_STATUS_SESSION_BEGIN then [EngineChanged E] else [])"
| "status_access (EngineChanged E) s = Some (s, if E \<noteq> engine_status (eng s) then [InformEngine] else [])"
| "status_access (EngineNotOff F) s =
     Some (s, if engine_status (eng s) \<noteq> GPS_STATUS_ENGINE_OFF then [SessionChanged F] else [])"
| "status_access (SessionChanged F) s = Some (s, if F \<noteq> fix_session_status (eng s) then [InformSession] else [])"
| "status_access SessionNotEnded s =
     Some (s, if fix_session_status (eng s) \<noteq> GPS_STATUS_SESSION_END then [SetSession GPS_STATUS_SESSION_END, StopNotOff] else [])"
| "status_access StopNotOff s = Some (s, if engine_status (eng s) \<noteq> GPS_STATUS_ENGINE_OFF then [InformSession] else [])"
| "status_access InformEngine s = Some (s, [Inform (engine_status (eng s))])"
| "status_access InformSession s = Some (s, [Inform (fix_session_status (eng s))])"
| "status_access (Inform st) s =
     Some (s, (if status_cb (eng s) then Callback st # (if st = GPS_STATUS_ENGINE_ON then [RestoreSession] else []) else []) @ [Note st])"
| "status_access (Callback st) s = Some (tell (ReportStatus st) s, [])"
| "status_access RestoreSession s =
     Some (s, if last_status s = GPS_STATUS_SESSION_BEGIN then [Callback GPS_STATUS_SESSION_BEGIN] else [])"
| "status_access (Note st) s = Some (s\<lparr>last_status := st\<rparr>, [])"

text \<open>A thread that runs to its end alone.\<close>

inductive status_alone :: "status_act list \<Rightarrow> 'w engine \<Rightarrow> 'w engine \<Rightarrow> bool" where
  ended: "status_alone [] s s"
| goes: "status_access x s = Some (t, ys) \<Longrightarrow> status_alone (ys @ xs) t u \<Longrightarrow> status_alone (x # xs) s u"

inductive_simps alone_simps [simp]: "status_alone [] s u" "status_alone (x # xs) s u"

lemma alone_append: "status_alone (xs @ ys) s u \<longleftrightarrow> (\<exists>t. status_alone xs s t \<and> status_alone ys t u)"
proof
  show "\<exists>t. status_alone xs s t \<and> status_alone ys t u" if "status_alone (xs @ ys) s u"
    using that
  proof (induction "xs @ ys" s u arbitrary: xs rule: status_alone.induct)
    case (goes x s t zs rest u)
    show ?case
    proof (cases xs)
      case Nil
      then show ?thesis using goes(1,2,4) by (intro exI [of _ s]) (metis append_Nil status_alone.goes status_alone.ended)
    next
      case (Cons a as)
      then have e: "a = x" "rest = as @ ys" using goes(4) by auto
      then obtain v where "status_alone (zs @ as) t v" "status_alone ys v u" using goes(3) [of "zs @ as"] by auto
      then show ?thesis using Cons e(1) goes(1) by (intro exI [of _ v]) auto
    qed
  qed auto
  assume "\<exists>t. status_alone xs s t \<and> status_alone ys t u"
  then obtain t where "status_alone xs s t" "status_alone ys t u" by blast
  then show "status_alone (xs @ ys) s u" by (induction rule: status_alone.induct) (auto intro: status_alone.goes)
qed

section \<open>Alone the accesses are the functions\<close>

lemma alone_inform: "status_alone [Inform st] s u \<longleftrightarrow> u = loc_inform_gps_status st s"
  by (auto simp: loc_inform_gps_status_def Let_def tell_def)

lemma alone_changed:
  "status_alone [SessionNotBegun E, EngineNotOff F] s u \<longleftrightarrow> u = report_changed_status E F s"
proof -
  have "status_alone [SessionNotBegun E] s t \<longleftrightarrow> t = (if fix_session_status (eng s) \<noteq> GPS_STATUS_SESSION_BEGIN
      \<and> E \<noteq> engine_status (eng s) then loc_inform_gps_status (engine_status (eng s)) s else s)" for t
    using alone_inform [of "engine_status (eng s)" s t] by auto
  moreover have "status_alone [EngineNotOff F] t u \<longleftrightarrow> u = (if engine_status (eng t) \<noteq> GPS_STATUS_ENGINE_OFF
      \<and> F \<noteq> fix_session_status (eng t) then loc_inform_gps_status (fix_session_status (eng t)) t else t)" for t
    using alone_inform [of "fix_session_status (eng t)" t u] by auto
  ultimately show ?thesis
    using alone_append [of "[SessionNotBegun E]" "[EngineNotOff F]" s u] by (simp add: report_changed_status_def Let_def)
qed

lemma alone_writes:
  assumes "status_writes r = Some ws"
  shows "\<exists>e f. status_event r (engine_status (eng s), fix_session_status (eng s)) = Some (e, f)
    \<and> (\<forall>t. status_alone ws s t \<longleftrightarrow> t = on_eng (\<lambda>x. x\<lparr>engine_status := e, fix_session_status := f\<rparr>) s)"
  using assms
  by (auto simp: status_writes_def status_event_def split: if_splits rpc_loc_status_event_payload_u_type_u.splits)

text \<open>A status report, up to the muting and the signal at its end.\<close>

lemma alone_report:
  "status_alone [ReadEngine r] s u \<longleftrightarrow> (\<exists>e f. status_event r (engine_status (eng s), fix_session_status (eng s)) = Some (e, f)
     \<and> u = report_changed_status (engine_status (eng s)) (fix_session_status (eng s))
         (on_eng (\<lambda>x. x\<lparr>engine_status := e, fix_session_status := f\<rparr>) s))"
proof (cases "status_writes r")
  case None
  then have "status_event r (engine_status (eng s), fix_session_status (eng s)) = None"
    by (auto simp: status_writes_def status_event_def split: if_splits rpc_loc_status_event_payload_u_type_u.splits)
  then show ?thesis using None by simp
next
  case (Some ws)
  then obtain e f where ef: "status_event r (engine_status (eng s), fix_session_status (eng s)) = Some (e, f)"
    "\<And>t. status_alone ws s t \<longleftrightarrow> t = on_eng (\<lambda>x. x\<lparr>engine_status := e, fix_session_status := f\<rparr>) s"
    using alone_writes by metis
  have "status_alone [ReadEngine r] s u
    \<longleftrightarrow> status_alone (ws @ [SessionNotBegun (engine_status (eng s)), EngineNotOff (fix_session_status (eng s))]) s u"
    using Some by simp
  then show ?thesis unfolding alone_append ef alone_changed by simp
qed

text \<open>A stop, after the modem has accepted it.\<close>

lemma alone_stop:
  assumes "loc_eng_inited s" "\<not> agps_request_pending (eng s)"
    "ask (m_stop_fix m (client_handle (eng s))) s = (rc, s1)" "sint rc = RPC_LOC_API_SUCCESS"
  shows "\<exists>u. status_alone [SessionNotEnded] s1 u \<and> loc_eng_stop m s = (0, on_eng (navigating_update (\<lambda>_. False)) u)"
proof -
  define s2 where "s2 = on_eng (fix_session_status_update (\<lambda>_. GPS_STATUS_SESSION_END)) s1"
  define u where "u = (if fix_session_status (eng s1) \<noteq> GPS_STATUS_SESSION_END then
    (if engine_status (eng s2) \<noteq> GPS_STATUS_ENGINE_OFF then loc_inform_gps_status (fix_session_status (eng s2)) s2 else s2) else s1)"
  have "status_alone [SessionNotEnded] s1 u"
    using alone_inform [of "fix_session_status (eng s2)" s2] by (auto simp: u_def s2_def)
  then show ?thesis using assms by (intro exI [of _ u]) (simp add: loc_eng_stop_def u_def s2_def Let_def)
qed

section \<open>Threads\<close>

text \<open>What every other operation does is \<open>status_same\<close>: the statuses stay, no status is reported.\<close>

definition status_same :: "'w engine \<Rightarrow> 'w engine \<Rightarrow> bool" where
  "status_same s t \<longleftrightarrow> engine_status (eng t) = engine_status (eng s) \<and> fix_session_status (eng t) = fix_session_status (eng s)
     \<and> last_status t = last_status s \<and> status_cb (eng t) = status_cb (eng s)
     \<and> (\<exists>cs. calls t = calls s @ cs \<and> list_all (\<lambda>c. \<forall>st. c \<noteq> ReportStatus st) cs)"

text \<open>
  The threads, by number, each with what it has still to do of a report or a stop; 0 is the deferred action
  thread. \<open>overlapped\<close> tells whether two were ever inside together.
\<close>

record 'w status_run =
  engine_at :: "'w engine"
  inside :: "nat \<Rightarrow> status_act list"
  overlapped :: bool

definition begins :: "nat \<Rightarrow> status_act \<Rightarrow> bool" where
  "begins v x \<longleftrightarrow> (case x of ReadEngine r \<Rightarrow> v = 0 | SessionNotEnded \<Rightarrow> v \<noteq> 0 | _ \<Rightarrow> False)"

definition entered :: "nat \<Rightarrow> 'w engine \<Rightarrow> status_act list \<Rightarrow> 'w status_run \<Rightarrow> 'w status_run" where
  "entered v s p r = r\<lparr>engine_at := s, inside := (inside r)(v := p),
     overlapped := (overlapped r \<or> p \<noteq> [] \<and> (\<exists>u. u \<noteq> v \<and> inside r u \<noteq> []))\<rparr>"

inductive status_step :: "'w status_run \<Rightarrow> 'w status_run \<Rightarrow> bool" where
  enter: "inside r v = [] \<Longrightarrow> begins v x \<Longrightarrow> status_access x (engine_at r) = Some (s, ys) \<Longrightarrow> status_step r (entered v s ys r)"
| access: "inside r v = x # xs \<Longrightarrow> status_access x (engine_at r) = Some (s, ys) \<Longrightarrow> status_step r (entered v s (ys @ xs) r)"
| other: "status_same (engine_at r) s \<Longrightarrow> status_step r (r\<lparr>engine_at := s\<rparr>)"

section \<open>The other steps of the engine\<close>

lemma same_still: "still s t \<Longrightarrow> status_same s t"
  by (auto simp: still_def status_same_def)

lemma same_trans: "status_same s t \<Longrightarrow> status_same t u \<Longrightarrow> status_same s u"
  by (auto simp: status_same_def)

lemma same_refl [simp]: "status_same s s"
  by (simp add: same_still)

lemma same_tell: "\<forall>st. c \<noteq> ReportStatus st \<Longrightarrow> status_same s (tell c s)"
  by (auto simp: status_same_def tell_def)

lemma same_signal: "status_same s (signal_deferred f s)"
  by (auto simp: status_same_def signal_deferred_def tell_def)

lemma same_plain:
  assumes "still s (t\<lparr>calls := calls s\<rparr>)" "\<exists>cs. calls t = calls s @ cs \<and> list_all plain_call cs"
  shows "status_same s t"
proof -
  obtain cs where cs: "calls t = calls s @ cs" "list_all plain_call cs" using assms(2) by blast
  then have "list_all (\<lambda>c. \<forall>st. c \<noteq> ReportStatus st) cs" by (auto simp: list_all_iff plain_call_def)
  then show ?thesis using assms(1) cs(1) by (auto simp: status_same_def still_def)
qed

lemma same_signal_after: "status_same s t \<Longrightarrow> status_same s (signal_deferred f t)"
  using same_trans same_signal by blast

text \<open>The operations that do not stop the engine.\<close>

lemma other_op:
  assumes "p \<noteq> OpStop" "p \<noteq> OpCleanup"
  shows "status_same s (exec_op m v p s)"
proof (cases p)
  case OpStart
  then show ?thesis by (auto simp: exec_op_def loc_eng_start_def case_prod_beta still_def intro!: same_still)
next
  case (OpDataConnOpen a)
  have "still s (snd (loc_eng_set_apn a s))" by (auto simp: loc_eng_set_apn_def still_def Let_def split: option.split)
  then show ?thesis using OpDataConnOpen same_signal_after [OF same_still]
    by (auto simp: exec_op_def loc_eng_data_conn_open_def)
next
  case (OpDeleteAidingData f)
  then show ?thesis
    by (auto simp: exec_op_def loc_eng_delete_aiding_data_def Let_def still_def intro!: same_still same_signal_after)
next
  case (OpNiInit cb)
  then show ?thesis by (auto simp: exec_op_def loc_eng_ni_init_def still_def intro!: same_still)
next
  case (OpNiAnswer b)
  have "still s (ni_thread_answer m b s)" unfolding ni_thread_answer_def Let_def
    by (rule still_trans [OF _ still_respond]) simp
  then show ?thesis using OpNiAnswer by (simp add: exec_op_def same_still)
qed (use assms in \<open>auto simp: exec_op_def loc_eng_set_position_mode_def loc_eng_inject_time_def loc_eng_inject_location_def
    loc_eng_set_server_proxy_def buffered_host_def still_set_server still_agps_init loc_eng_data_conn_closed_def
    loc_eng_data_conn_failed_def qct_loc_eng_xtra_init_def qct_loc_eng_inject_xtra_data_proxy_def loc_eng_ni_init_def
    loc_eng_ni_respond_def loc_ni_process_user_response_def ni_thread_finish_def loc_eng_mute_one_session_def
    loc_eng_cleanup_joined_def same_signal case_prod_beta split: AGpsType.split option.split GpsUserResponseType.split
    intro!: same_still\<close>)

lemma other_arrival: "status_same s (snd (loc_event_cb h ev pl s))"
  using arrive_mailbox [of h ev pl s] same_signal_after [OF same_still, of s "on_eng (\<lambda>e. e\<lparr>pending_event := ev, pending_payload := pl\<rparr>) s"]
  by (auto simp: status_same_def signal_deferred_def tell_def)

text \<open>A pass of the deferred action thread whose event reports no status.\<close>

lemma other_reports:
  assumes "process_reports v ev pl s = Some t" "ev AND RPC_LOC_EVENT_STATUS_REPORT = 0"
  shows "status_same s t"
proof -
  obtain s1 s2 where r:
    "(if ev AND RPC_LOC_EVENT_PARSED_POSITION_REPORT \<noteq> 0 \<and> \<not> muted s
            then (case pl of event_payload_parsed_location_report r \<Rightarrow> Some (loc_eng_report_position v r s) | _ \<Rightarrow> None)
            else Some s) = Some s1"
    "(if ev AND RPC_LOC_EVENT_SATELLITE_REPORT \<noteq> 0 \<and> \<not> muted s1
            then (case pl of event_payload_gnss_report r \<Rightarrow> loc_eng_report_sv v r s1 | _ \<Rightarrow> None)
            else Some s1) = Some s2"
    "(if ev AND RPC_LOC_EVENT_NMEA_1HZ_REPORT \<noteq> 0
            then (case pl of event_payload_nmea_report r \<Rightarrow> Some (loc_eng_report_nmea v r s2) | _ \<Rightarrow> None)
            else Some s2) = Some t"
    using assms unfolding process_reports_def bind_eq_Some_conv by auto
  have "status_same s s1" using r(1)
    by (auto simp: loc_eng_report_position_def Let_def same_tell split: if_splits rpc_loc_event_payload_u_type_u.splits)
  moreover have "status_same s1 s2" using r(2)
    by (auto simp: loc_eng_report_sv_def bind_eq_Some_conv same_tell split: if_splits rpc_loc_event_payload_u_type_u.splits)
  moreover have "status_same s2 t" using r(3)
    by (auto simp: loc_eng_report_nmea_def same_tell split: if_splits rpc_loc_event_payload_u_type_u.splits)
  ultimately show ?thesis using same_trans by blast
qed

lemma other_assistance:
  assumes "process_assistance ev pl s = Some t"
  shows "status_same s t"
  using assms
  by (auto simp: process_assistance_def bind_eq_Some_conv still_def split: if_splits rpc_loc_event_payload_u_type_u.splits
      intro!: same_plain)

lemma other_conn_request:
  assumes "loc_eng_process_conn_request r s = Some t"
  shows "status_same s t"
proof -
  obtain s1 where s1: "note_conn_request r s = Some s1" "t = signal_deferred DEFERRED_ACTION_AGPS_STATUS s1"
    using assms by (auto simp: loc_eng_process_conn_request_def)
  have "still s s1" using s1(1)
    by (auto simp: note_conn_request_def still_def split: if_splits rpc_loc_server_request_u_type_u.splits)
  then show ?thesis using s1(2) same_signal_after same_still by blast
qed

lemma other_ni_callback:
  assumes "loc_eng_ni_callback z rand created junk ev pl s = Some t"
  shows "status_same s t"
proof -
  have handler: "status_same s u" if "loc_ni_request_handler z rand created junk q s = Some u" for q u
    using that by (auto simp: loc_ni_request_handler_def Let_def loc_eng_mute_one_session_def still_def
        split: if_splits option.splits intro!: same_plain)
  then show ?thesis using assms
    by (auto simp: loc_eng_ni_callback_def split: if_splits rpc_loc_event_payload_u_type_u.splits)
qed

lemma other_event:
  assumes "loc_eng_process_loc_event v ev pl s = Some t" "ev AND RPC_LOC_EVENT_STATUS_REPORT = 0"
  shows "status_same s t"
proof -
  obtain s1 s2 s3 where r: "process_reports v ev (arm pl) s = Some s1" "process_assistance ev (arm pl) s1 = Some s2"
    "(if ev AND RPC_LOC_EVENT_LOCATION_SERVER_REQUEST \<noteq> 0
            then (case arm pl of event_payload_loc_server_request r \<Rightarrow> loc_eng_process_conn_request r s2 | _ \<Rightarrow> None)
            else Some s2) = Some s3"
    "(case ni_env v of (z, rand, created, junk) \<Rightarrow> loc_eng_ni_callback z rand created junk ev pl s3) = Some t"
    using assms(1) unfolding loc_eng_process_loc_event_def bind_eq_Some_conv by blast
  have "status_same s2 s3" using r(3) other_conn_request by (auto split: if_splits rpc_loc_event_payload_u_type_u.splits)
  moreover have "status_same s3 t" using r(4) other_ni_callback by (auto split: prod.splits)
  ultimately show ?thesis using other_reports [OF r(1) assms(2)] other_assistance [OF r(2)] same_trans by blast
qed

lemma other_process:
  assumes "deferred_process m v j s = Some t" "job_event j AND RPC_LOC_EVENT_STATUS_REPORT = 0"
  shows "status_same s t"
proof -
  obtain s1 s2 where r:
    "(if job_event j \<noteq> 0 then loc_eng_process_loc_event v (job_event j) (job_payload j) s else Some s) = Some s1"
    "process_aiding m j s1 = Some s2"
    "t = (let s3 = process_deferred_stop m (job_flags j) (process_data_result m v (job_flags j) s2) in
       if job_agps_status j \<noteq> AGPS_NO_STATUS then loc_eng_process_atl_action (job_agps_status j) s3 else s3)"
    using assms(1) by (auto simp: deferred_process_def bind_eq_Some_conv Let_def)
  let ?s3 = "process_deferred_stop m (job_flags j) (process_data_result m v (job_flags j) s2)"
  have "status_same s s1" using r(1) other_event assms(2) by (auto split: if_splits)
  moreover have "status_same s1 s2"
  proof -
    define u where "u = (if job_engine_status j \<noteq> GPS_STATUS_ENGINE_ON \<and> job_aiding_data j \<noteq> 0
      then on_eng (aiding_data_for_deletion_update (\<lambda>_. 0)) (loc_eng_delete_aiding_data_action m s1) else s1)"
    have "still s1 u" by (auto simp: u_def loc_eng_delete_aiding_data_action_def still_def Let_def)
    moreover have "still u s2" using r(2)
      by (auto simp: process_aiding_def u_def [symmetric] Let_def dest: inject_buffer_still split: if_splits)
    ultimately show ?thesis using still_trans same_still by blast
  qed
  moreover have "status_same s2 ?s3" using still_trans [OF still_data_result still_deferred_stop] by (rule same_still)
  moreover have "status_same ?s3 t" using r(3)
    by (auto simp: Let_def loc_eng_process_atl_action_def loc_eng_report_agps_status_def same_tell split: AGpsStatusValue.split)
  ultimately show ?thesis using same_trans by blast
qed

text \<open>
  So every step of the engine that neither stops it nor processes a status event is the step \<open>other\<close>.
\<close>

definition touches_status :: "'w gps_run \<Rightarrow> 'w gps_run \<Rightarrow> bool" where
  "touches_status r r' \<longleftrightarrow> (\<exists>m v p. p \<in> {OpStop, OpCleanup} \<and> gps r' = exec_op m v p (gps r))
     \<or> (\<exists>j. place r = Working j \<and> job_event j AND RPC_LOC_EVENT_STATUS_REPORT \<noteq> 0)"

lemma other_steps:
  assumes "gps_step m r r'"
  shows "touches_status r r' \<or> status_same (gps r) (gps r')"
  using assms
proof cases
  case (op v p)
  then show ?thesis using other_op [of p "gps r" m v] by (auto simp: touches_status_def)
next
  case (arrive h e)
  then show ?thesis by (simp add: other_arrival)
next
  case (thread v p s)
  have take: "status_same x u" if "(q, u) = taken (deferred_take x)" for q u x
    using taken_cases(1-5) [OF that] by (auto simp: status_same_def)
  have tell: "status_same x (tell c x)" if "c \<in> {AcquireWakelock, ReleaseWakelock}" for c and x :: "'a engine"
    using that by (auto intro: same_tell)
  have gps: "gps r' = s" using thread(1) by simp
  from thread_step [OF thread(2)] show ?thesis
  proof (elim disjE conjE exE)
    assume "(p, s) = taken (deferred_take (tell AcquireWakelock (gps r)))"
    then have "status_same (gps r) s" using same_trans [OF tell [of AcquireWakelock] take] by simp
    then show ?thesis by (simp add: gps)
  next
    fix j assume "place r = Working j" "deferred_process m v j (gps r) = Some s"
    then show ?thesis using other_process [of m v j "gps r" s] unfolding gps [symmetric] touches_status_def by blast
  next
    fix u assume "still (gps r) u" "s = tell ReleaseWakelock u"
    then have "status_same (gps r) s" using same_trans [OF same_still tell [of ReleaseWakelock]] by simp
    then show ?thesis by (simp add: gps)
  qed (use gps in \<open>simp_all add: tell take same_still\<close>)
qed

section \<open>Android's view\<close>

definition seen :: "nat \<Rightarrow> 'w engine \<Rightarrow> bool \<times> bool" where
  "seen k s = foldl android_view (False, False) (drop k (calls s))"

definition agree :: "nat \<Rightarrow> 'w engine \<Rightarrow> 'w engine \<Rightarrow> bool" where
  "agree k s t \<longleftrightarrow> k \<le> length (calls s) \<and> k \<le> length (calls t) \<and> seen k s = seen k t
     \<and> engine_status (eng s) = engine_status (eng t) \<and> fix_session_status (eng s) = fix_session_status (eng t)
     \<and> last_status s = last_status t \<and> status_cb (eng s) = status_cb (eng t)"

lemma agree_sym: "agree k s t \<Longrightarrow> agree k t s"
  by (simp add: agree_def)

lemma same_agree:
  assumes "status_same s t" "k \<le> length (calls s)"
  shows "agree k s t"
proof -
  obtain cs where cs: "calls t = calls s @ cs" "list_all (\<lambda>c. \<forall>st. c \<noteq> ReportStatus st) cs"
    using assms(1) by (auto simp: status_same_def)
  have "android_view w c = w" if "\<forall>st. c \<noteq> ReportStatus st" for w c using that by (cases c; cases w) simp_all
  then have "foldl android_view w cs = w" for w using cs(2) by (induction cs) simp_all
  then show ?thesis using assms cs(1) by (simp add: status_same_def agree_def seen_def)
qed

lemma access_agree:
  assumes "agree k s s'" "status_access x s = Some (t, ys)"
  shows "\<exists>t'. status_access x s' = Some (t', ys) \<and> agree k t t'"
  using assms by (cases x) (auto simp: agree_def seen_def tell_def)

lemma alone_agree:
  assumes "status_alone p s t" "agree k s s'"
  shows "\<exists>t'. status_alone p s' t' \<and> agree k t t'"
  using assms
proof (induction arbitrary: s' rule: status_alone.induct)
  case (goes x s t ys xs u)
  obtain t' where t': "status_access x s' = Some (t', ys)" "agree k t t'" using access_agree [OF goes(4,1)] by blast
  then show ?case using goes.IH [OF t'(2)] by auto
qed auto

text \<open>Nothing but the statuses reported from \<open>k\<close> on, and the thread that is inside, decides what Android knows.\<close>

definition knows_after :: "nat \<Rightarrow> status_act list \<Rightarrow> 'w engine \<Rightarrow> bool" where
  "knows_after k p s \<longleftrightarrow> (\<forall>t. status_alone p s t \<longrightarrow> android_knows t (seen k t))"

lemma knows_after_agree: "knows_after k p s \<Longrightarrow> agree k s s' \<Longrightarrow> knows_after k p s'"
proof -
  assume k: "knows_after k p s" and a: "agree k s s'"
  have "android_knows t (seen k t)" if run: "status_alone p s' t" for t
  proof -
    obtain t' where "status_alone p s t'" "agree k t t'" using alone_agree [OF run agree_sym [OF a]] by blast
    then show ?thesis using k by (auto simp: knows_after_def agree_def android_knows_def)
  qed
  then show ?thesis by (simp add: knows_after_def)
qed

lemma knows_after_access:
  "knows_after k (x # xs) s \<Longrightarrow> status_access x s = Some (t, ys) \<Longrightarrow> knows_after k (ys @ xs) t"
  by (auto simp: knows_after_def)

lemma informs_seen:
  "informs s t \<Longrightarrow> k \<le> length (calls s) \<Longrightarrow> android_knows s (seen k s) \<Longrightarrow> android_knows t (seen k t)"
  by (auto simp: informs_def seen_def simp del: split_paired_All)

text \<open>A report or a stop alone keeps what Android knows.\<close>

lemma report_informs:
  assumes "status_alone [ReadEngine r] s u"
  shows "informs s u"
proof -
  obtain e f where ef: "status_event r (engine_status (eng s), fix_session_status (eng s)) = Some (e, f)"
    "u = report_changed_status (engine_status (eng s)) (fix_session_status (eng s))
         (on_eng (\<lambda>x. x\<lparr>engine_status := e, fix_session_status := f\<rparr>) s)"
    using assms unfolding alone_report by blast
  show ?thesis unfolding ef(2)
    by (rule moved_informs [OF moved_changed_status])
      (use ef(1) in \<open>auto simp: status_event_def split: if_splits rpc_loc_status_event_payload_u_type_u.splits\<close>)
qed

lemma stop_informs:
  assumes "status_alone [SessionNotEnded] s u"
  shows "informs s u"
proof -
  define s1 where "s1 = on_eng (fix_session_status_update (\<lambda>_. GPS_STATUS_SESSION_END)) s"
  have s1: "eng s1 = (eng s)\<lparr>fix_session_status := GPS_STATUS_SESSION_END\<rparr>" "calls s1 = calls s" "last_status s1 = last_status s"
    by (simp_all add: s1_def)
  have "u = (if fix_session_status (eng s) = GPS_STATUS_SESSION_END then s
      else if engine_status (eng s) = GPS_STATUS_ENGINE_OFF then s1 else loc_inform_gps_status GPS_STATUS_SESSION_END s1)"
    using assms alone_inform [of GPS_STATUS_SESSION_END s1 u] by (auto simp: s1_def split: if_splits)
  then consider "u = s" | "engine_status (eng s) = GPS_STATUS_ENGINE_OFF" "u = s1"
    | "u = loc_inform_gps_status GPS_STATUS_SESSION_END s1" by (auto split: if_splits)
  then show ?thesis
    unfolding informs_def by cases (auto simp: s1 android_knows_def inform_calls)
qed

lemma begin_knows:
  assumes "begins v x" "k \<le> length (calls s)" "android_knows s (seen k s)"
  shows "knows_after k [x] s"
proof -
  have "informs s t" if "status_alone [x] s t" for t
    using assms(1) that report_informs stop_informs by (auto simp: begins_def simp del: alone_simps split: status_act.splits)
  then show ?thesis using assms(2,3) informs_seen unfolding knows_after_def by blast
qed

lemma begin_keeps: "begins v x \<Longrightarrow> status_access x s = Some (t, ys) \<Longrightarrow> t = s"
  by (auto simp: begins_def split: status_act.splits)

definition status_inv :: "nat \<Rightarrow> 'w status_run \<Rightarrow> bool" where
  "status_inv k r \<longleftrightarrow> k \<le> length (calls (engine_at r))
     \<and> (\<not> overlapped r \<longrightarrow> (\<exists>v. (\<forall>u. u \<noteq> v \<longrightarrow> inside r u = []) \<and> knows_after k (inside r v) (engine_at r)))"

lemma access_calls: "status_access x s = Some (t, ys) \<Longrightarrow> \<exists>cs. calls t = calls s @ cs"
  by (cases x) (auto simp: tell_def)

lemma step_calls: "status_step r r' \<Longrightarrow> \<exists>cs. calls (engine_at r') = calls (engine_at r) @ cs"
  by (induction rule: status_step.induct) (auto simp: entered_def status_same_def dest: access_calls)

lemma run_calls:
  assumes "status_step\<^sup>*\<^sup>* r r'"
  shows "\<exists>cs. calls (engine_at r') = calls (engine_at r) @ cs"
  using assms
proof (induction rule: rtranclp_induct)
  case (step y z)
  then show ?case using step_calls [OF step(2)] by auto
qed simp

lemma status_inv_step:
  assumes "status_step r r'" "status_inv k r"
  shows "status_inv k r'"
proof -
  have len: "k \<le> length (calls (engine_at r'))" using step_calls [OF assms(1)] assms(2) by (auto simp: status_inv_def)
  show ?thesis
  proof (cases "overlapped r'")
    case False
    then have "\<not> overlapped r" using assms(1) by (auto simp: entered_def elim: status_step.cases)
    then obtain v where v: "\<forall>u. u \<noteq> v \<longrightarrow> inside r u = []" "knows_after k (inside r v) (engine_at r)"
      using assms(2) by (auto simp: status_inv_def)
    from assms(1) show ?thesis
    proof cases
      case (enter w x s ys)
      have s: "s = engine_at r" using begin_keeps enter(3,4) by blast
      show ?thesis
      proof (cases "ys = []")
        case True
        then have "inside r' = inside r" using enter(1,2) by (auto simp: entered_def)
        then show ?thesis using v len s enter(1) by (auto simp: status_inv_def entered_def)
      next
        case False
        then have out: "\<forall>u. u \<noteq> w \<longrightarrow> inside r u = []" using \<open>\<not> overlapped r'\<close> enter(1) by (auto simp: entered_def)
        then have "inside r v = []" using enter(2) by (cases "v = w") auto
        then have "android_knows (engine_at r) (seen k (engine_at r))" using v(2) by (simp add: knows_after_def)
        then have "knows_after k [x] (engine_at r)" using begin_knows enter(3) assms(2) by (auto simp: status_inv_def)
        then have "knows_after k ys s" using knows_after_access [OF _ enter(4)] by force
        then show ?thesis using out len enter(1) by (auto simp: status_inv_def entered_def intro!: exI [of _ w])
      qed
    next
      case (access w x xs s ys)
      then have "w = v" using v(1) by fastforce
      then have "knows_after k (ys @ xs) s" using v(2) access(2) knows_after_access [OF _ access(3)] by simp
      then show ?thesis using v(1) len access(1) \<open>w = v\<close> by (auto simp: status_inv_def entered_def intro!: exI [of _ v])
    next
      case (other s)
      have "knows_after k (inside r v) s"
        using knows_after_agree [OF v(2) same_agree [OF other(2)]] assms(2) by (simp add: status_inv_def)
      then show ?thesis using v(1) len other(1) by (auto simp: status_inv_def)
    qed
  qed (use len in \<open>simp add: status_inv_def\<close>)
qed

section \<open>Concrete runs\<close>

datatype status_move = Enters nat status_act | Accesses nat

fun status_exec :: "status_move list \<Rightarrow> 'w status_run \<Rightarrow> 'w status_run option" where
  "status_exec [] r = Some r"
| "status_exec (Enters v x # ms) r =
     (if inside r v = [] \<and> begins v x then
        do { (s, ys) \<leftarrow> status_access x (engine_at r); status_exec ms (entered v s ys r) }
      else None)"
| "status_exec (Accesses v # ms) r =
     (case inside r v of [] \<Rightarrow> None
      | x # xs \<Rightarrow> do { (s, ys) \<leftarrow> status_access x (engine_at r); status_exec ms (entered v s (ys @ xs) r) })"

lemma status_exec_steps: "status_exec ms r = Some t \<Longrightarrow> status_step\<^sup>*\<^sup>* r t"
proof (induction ms r rule: status_exec.induct)
  case (2 v x ms r)
  then obtain s ys where n: "inside r v = []" "begins v x" "status_access x (engine_at r) = Some (s, ys)"
    "status_exec ms (entered v s ys r) = Some t" by (auto simp: bind_eq_Some_conv split: if_splits)
  have "status_step\<^sup>*\<^sup>* (entered v s ys r) t" using "2.IH" [OF _ n(3) refl n(4)] n(1,2) by simp
  with status_step.enter [OF n(1-3)] show ?case by (rule converse_rtranclp_into_rtranclp)
next
  case (3 v ms r)
  then obtain x xs s ys where n: "inside r v = x # xs" "status_access x (engine_at r) = Some (s, ys)"
    "status_exec ms (entered v s (ys @ xs) r) = Some t" by (auto simp: bind_eq_Some_conv split: list.splits)
  show ?case using status_step.access [OF n(1,2)] "3.IH" [OF n(1,2) refl n(3)] by (rule converse_rtranclp_into_rtranclp)
qed simp

definition session_begins :: rpc_loc_status_event_s_type where
  "session_begins = \<lparr>rpc_loc_status_event_s_type.event = RPC_LOC_STATUS_EVENT_FIX_SESSION_STATE, rpc_loc_status_event_s_type.payload =
     \<lparr>disc = RPC_LOC_STATUS_EVENT_FIX_SESSION_STATE, arm = status_event_payload_fix_session_state RPC_LOC_FIX_SESSION_STATE_BEGIN\<rparr>\<rparr>"

lemma session_begins_writes:
  "status_writes session_begins = Some [SetEngine GPS_STATUS_ENGINE_ON, SetSession GPS_STATUS_SESSION_BEGIN]"
  by code_simp

text \<open>A stop between the decision to report the beginning of a session and the report.\<close>

definition stop_overtakes :: "status_move list" where
  "stop_overtakes = Enters 0 (ReadEngine session_begins) # replicate 8 (Accesses 0)
     @ Enters 1 SessionNotEnded # replicate 6 (Accesses 1) @ replicate 2 (Accesses 0)"

definition just_started :: "'w status_run \<Rightarrow> bool" where
  "just_started r \<longleftrightarrow> (\<forall>v. inside r v = []) \<and> \<not> overlapped r \<and> status_cb (eng (engine_at r))
     \<and> engine_status (eng (engine_at r)) = GPS_STATUS_NONE \<and> fix_session_status (eng (engine_at r)) = GPS_STATUS_NONE
     \<and> last_status (engine_at r) \<noteq> GPS_STATUS_SESSION_BEGIN"

lemma stop_overtakes_runs:
  assumes "just_started r"
  shows "\<exists>t. status_exec stop_overtakes r = Some t \<and> (\<forall>v. inside t v = [])
    \<and> engine_status (eng (engine_at t)) = GPS_STATUS_ENGINE_ON \<and> fix_session_status (eng (engine_at t)) = GPS_STATUS_SESSION_END
    \<and> calls (engine_at t) = calls (engine_at r) @ [ReportStatus GPS_STATUS_SESSION_END, ReportStatus GPS_STATUS_SESSION_BEGIN]"
  using assms
  by (simp add: stop_overtakes_def just_started_def session_begins_writes begins_def entered_def tell_def eval_nat_numeral)

text \<open>
  C11: does Android know the state of the engine? From an initialisation on, with no session's beginning
  reported last before it, the threads of the framework stop the engine, the deferred action thread reports
  its status, in single accesses that interleave, and anything else happens that leaves the statuses alone.
  While no stop and report have overlapped, the reports Android got say, whenever no thread is inside one, that
  the engine is on exactly when the engine thinks so, and that a session is running exactly when it does.
  But the two share no mutex: in some run a stop overtakes a report, and in the end Android believes in a
  session that the engine has ended.
\<close>

theorem android_knows_unless_overtaken:
  assumes "just_started r0" "status_step\<^sup>*\<^sup>* r0 r"
  shows "(\<not> overlapped r \<and> (\<forall>v. inside r v = []) \<longrightarrow> (\<exists>cs. calls (engine_at r) = calls (engine_at r0) @ cs
      \<and> foldl android_view (False, False) cs = (engine_status (eng (engine_at r)) = GPS_STATUS_ENGINE_ON,
          fix_session_status (eng (engine_at r)) = GPS_STATUS_SESSION_BEGIN)))
    \<and> (\<exists>t cs. status_step\<^sup>*\<^sup>* r0 t \<and> (\<forall>v. inside t v = []) \<and> calls (engine_at t) = calls (engine_at r0) @ cs
      \<and> fix_session_status (eng (engine_at t)) = GPS_STATUS_SESSION_END \<and> foldl android_view (False, False) cs = (True, True))"
proof
  let ?k = "length (calls (engine_at r0))"
  have "status_inv ?k r0" using assms(1)
    by (auto simp: status_inv_def just_started_def knows_after_def android_knows_def seen_def)
  with assms(2) have inv: "status_inv ?k r"
    by (induction rule: rtranclp_induct) (use status_inv_step in blast)+
  obtain cs where cs: "calls (engine_at r) = calls (engine_at r0) @ cs" using run_calls [OF assms(2)] by blast
  show "\<not> overlapped r \<and> (\<forall>v. inside r v = []) \<longrightarrow> (\<exists>cs. calls (engine_at r) = calls (engine_at r0) @ cs
      \<and> foldl android_view (False, False) cs = (engine_status (eng (engine_at r)) = GPS_STATUS_ENGINE_ON,
          fix_session_status (eng (engine_at r)) = GPS_STATUS_SESSION_BEGIN))"
    using inv cs by (auto simp: status_inv_def knows_after_def seen_def android_knows_def)
  show "\<exists>t cs. status_step\<^sup>*\<^sup>* r0 t \<and> (\<forall>v. inside t v = []) \<and> calls (engine_at t) = calls (engine_at r0) @ cs
      \<and> fix_session_status (eng (engine_at t)) = GPS_STATUS_SESSION_END \<and> foldl android_view (False, False) cs = (True, True)"
    using stop_overtakes_runs [OF assms(1)] status_exec_steps by fastforce
qed

definition fresh_status :: "modem_request list status_run" where
  "fresh_status = \<lparr>engine_at = gps fresh_run, inside = (\<lambda>_. []), overlapped = False\<rparr>"

lemma fresh_status_started: "just_started fresh_status"
  by (simp add: just_started_def fresh_status_def)

text \<open>A session is reported to the end and then stopped.\<close>

definition stop_follows :: "status_move list" where
  "stop_follows = Enters 0 (ReadEngine session_begins) # replicate 10 (Accesses 0) @ Enters 1 SessionNotEnded # replicate 6 (Accesses 1)"

lemma stop_follows_runs:
  "\<exists>t. status_exec stop_follows fresh_status = Some t \<and> (\<forall>v. inside t v = []) \<and> \<not> overlapped t
    \<and> engine_status (eng (engine_at t)) = GPS_STATUS_ENGINE_ON \<and> fix_session_status (eng (engine_at t)) = GPS_STATUS_SESSION_END"
  by (simp add: stop_follows_def fresh_status_def session_begins_writes begins_def entered_def tell_def eval_nat_numeral)

theorem android_knows_unless_overtaken_witness:
  "\<exists>t. status_exec stop_follows fresh_status = Some t \<and> fix_session_status (eng (engine_at t)) = GPS_STATUS_SESSION_END
    \<and> foldl android_view (False, False) (calls (engine_at t)) = (True, False)"
proof -
  obtain t where t: "status_exec stop_follows fresh_status = Some t" "\<forall>v. inside t v = []" "\<not> overlapped t"
    "engine_status (eng (engine_at t)) = GPS_STATUS_ENGINE_ON" "fix_session_status (eng (engine_at t)) = GPS_STATUS_SESSION_END"
    using stop_follows_runs by blast
  have "calls (engine_at fresh_status) = []" by (simp add: fresh_status_def)
  then show ?thesis
    using android_knows_unless_overtaken [OF fresh_status_started status_exec_steps [OF t(1)]] t by auto
qed

end
