(* ===== verification/RilEvent.thy ===== *)
theory RilEvent
  imports Prelude "HOL-Library.Monad_Syntax"
begin

text \<open>
  The event loop of the radio interface daemon, ril/ril-legacy/libril/ril_event.cpp: events are
  structures of the caller that are linked into one of two circular lists, the timers in the order
  of their deadlines and the events to fire, or entered into a table of watched descriptors. Events
  live in a store; address 0 is NULL, and a function that dereferences it, or whose loop does not
  end, returns None. The functions hold one mutex throughout, which is not modelled. Parameters:
  the clock, the result of select and the callbacks, a function on the state.
\<close>

section \<open>Data\<close>

type_synonym timeval = "int \<times> int"

record ril_event =
  ev_next :: nat
  ev_prev :: nat
  ev_fd :: int
  ev_index :: int
  ev_persist :: bool
  ev_timeout :: timeval
  ev_func :: nat
  ev_param :: nat

definition MAX_FD_EVENTS :: nat where "MAX_FD_EVENTS = 8"

text \<open>The two list heads are events of the module.\<close>

definition timer_list :: nat where "timer_list = 1"
definition pending_list :: nat where "pending_list = 2"

lemmas list_heads = timer_list_def pending_list_def

text \<open>\<open>fired\<close> records the calls of callbacks: function, descriptor and parameter.\<close>

record ril_state =
  evs :: "nat \<Rightarrow> ril_event"
  watch_table :: "nat list"
  readFds :: "int set"
  nfds :: int
  fired :: "(nat \<times> int \<times> nat) list"

definition timeradd :: "timeval \<Rightarrow> timeval \<Rightarrow> timeval" where
  "timeradd t u = (let sec = fst t + fst u; usec = snd t + snd u in
     if usec \<ge> 1000000 then (sec + 1, usec - 1000000) else (sec, usec))"

definition timersub :: "timeval \<Rightarrow> timeval \<Rightarrow> timeval" where
  "timersub a b = (let sec = fst a - fst b; usec = snd a - snd b in
     if usec < 0 then (sec - 1, usec + 1000000) else (sec, usec))"

text \<open>\<open>timercmp(a, b, <)\<close>\<close>

definition earlier :: "timeval \<Rightarrow> timeval \<Rightarrow> bool" where
  "earlier a b = (if fst a = fst b then snd a < snd b else fst a < fst b)"

definition set_ev :: "nat \<Rightarrow> (ril_event \<Rightarrow> ril_event) \<Rightarrow> ril_state \<Rightarrow> ril_state option" where
  "set_ev a f s = (if a = 0 then None else Some (s\<lparr>evs := (evs s)(a := f (evs s a))\<rparr>))"

definition get_ev :: "(ril_event \<Rightarrow> 'a) \<Rightarrow> nat \<Rightarrow> ril_state \<Rightarrow> 'a option" where
  "get_ev f a s = (if a = 0 then None else Some (f (evs s a)))"

definition zero_event :: ril_event where
  "zero_event = \<lparr>ev_next = 0, ev_prev = 0, ev_fd = 0, ev_index = 0, ev_persist = False, ev_timeout = (0, 0),
     ev_func = 0, ev_param = 0\<rparr>"

section \<open>The lists\<close>

definition init_list :: "nat \<Rightarrow> ril_state \<Rightarrow> ril_state option" where
  "init_list l s = set_ev l (\<lambda>_. zero_event\<lparr>ev_next := l, ev_prev := l, ev_fd := -1\<rparr>) s"

definition addToList :: "nat \<Rightarrow> nat \<Rightarrow> ril_state \<Rightarrow> ril_state option" where
  "addToList ev l s = do {
     s1 \<leftarrow> set_ev ev (ev_next_update (\<lambda>_. l)) s;
     p \<leftarrow> get_ev ev_prev l s1;
     s2 \<leftarrow> set_ev ev (ev_prev_update (\<lambda>_. p)) s1;
     q \<leftarrow> get_ev ev_prev ev s2;
     s3 \<leftarrow> set_ev q (ev_next_update (\<lambda>_. ev)) s2;
     set_ev l (ev_prev_update (\<lambda>_. ev)) s3
   }"

definition removeFromList :: "nat \<Rightarrow> ril_state \<Rightarrow> ril_state option" where
  "removeFromList ev s = do {
     n \<leftarrow> get_ev ev_next ev s;
     p \<leftarrow> get_ev ev_prev ev s;
     s1 \<leftarrow> set_ev n (ev_prev_update (\<lambda>_. p)) s;
     p1 \<leftarrow> get_ev ev_prev ev s1;
     n1 \<leftarrow> get_ev ev_next ev s1;
     s2 \<leftarrow> set_ev p1 (ev_next_update (\<lambda>_. n1)) s1;
     s3 \<leftarrow> set_ev ev (ev_next_update (\<lambda>_. 0)) s2;
     set_ev ev (ev_prev_update (\<lambda>_. 0)) s3
   }"

section \<open>Watched descriptors\<close>

text \<open>The highest descriptor in the table, at least 0.\<close>

definition highest_fd :: "(nat \<Rightarrow> ril_event) \<Rightarrow> nat list \<Rightarrow> int" where
  "highest_fd m t = foldl (\<lambda>n rev. if rev \<noteq> 0 \<and> ev_fd (m rev) > n then ev_fd (m rev) else n) 0 t"

definition removeWatch :: "nat \<Rightarrow> nat \<Rightarrow> ril_state \<Rightarrow> ril_state option" where
  "removeWatch ev idx s = do {
     s1 \<leftarrow> set_ev ev (ev_index_update (\<lambda>_. -1)) (s\<lparr>watch_table := (watch_table s)[idx := 0]\<rparr>);
     let fd = ev_fd (evs s1 ev);
     let s2 = s1\<lparr>readFds := readFds s1 - {fd}\<rparr>;
     Some (if fd + 1 = nfds s2 then s2\<lparr>nfds := highest_fd (evs s2) (watch_table s2) + 1\<rparr> else s2)
   }"

definition ril_event_init :: "ril_state \<Rightarrow> ril_state option" where
  "ril_event_init s = do {
     s1 \<leftarrow> init_list timer_list (s\<lparr>readFds := {}\<rparr>);
     s2 \<leftarrow> init_list pending_list s1;
     Some (s2\<lparr>watch_table := replicate MAX_FD_EVENTS 0\<rparr>)
   }"

definition ril_event_set :: "nat \<Rightarrow> int \<Rightarrow> bool \<Rightarrow> nat \<Rightarrow> nat \<Rightarrow> ril_state \<Rightarrow> ril_state option" where
  "ril_event_set ev fd persist func param s =
     set_ev ev (\<lambda>_. zero_event\<lparr>ev_fd := fd, ev_index := -1, ev_persist := persist, ev_func := func, ev_param := param\<rparr>) s"

definition ril_event_add :: "nat \<Rightarrow> ril_state \<Rightarrow> ril_state option" where
  "ril_event_add ev s =
     (case find_index (\<lambda>e. e = 0) (watch_table s) of
        None \<Rightarrow> Some s
      | Some i \<Rightarrow> do {
          s1 \<leftarrow> set_ev ev (ev_index_update (\<lambda>_. int i)) (s\<lparr>watch_table := (watch_table s)[i := ev]\<rparr>);
          let fd = ev_fd (evs s1 ev);
          let s2 = s1\<lparr>readFds := insert fd (readFds s1)\<rparr>;
          Some (if fd \<ge> nfds s2 then s2\<lparr>nfds := fd + 1\<rparr> else s2)
        })"

definition ril_event_del :: "nat \<Rightarrow> ril_state \<Rightarrow> ril_state option" where
  "ril_event_del ev s = do {
     i \<leftarrow> get_ev ev_index ev s;
     if i < 0 \<or> i \<ge> int MAX_FD_EVENTS then Some s else removeWatch ev (nat i) s
   }"

section \<open>Timers\<close>

text \<open>The place of a deadline: the first timer that is not earlier, or the list head.\<close>

partial_function (option) timer_place :: "timeval \<Rightarrow> nat \<Rightarrow> ril_state \<Rightarrow> nat option" where
  "timer_place t l s = do {
     u \<leftarrow> get_ev ev_timeout l s;
     if earlier u t \<and> l \<noteq> timer_list
     then do { n \<leftarrow> get_ev ev_next l s; timer_place t n s }
     else Some l
   }"

text \<open>\<open>tv\<close>: None for a null pointer.\<close>

definition ril_timer_add :: "timeval \<Rightarrow> nat \<Rightarrow> timeval option \<Rightarrow> ril_state \<Rightarrow> ril_state option" where
  "ril_timer_add now ev tv s =
     (case tv of None \<Rightarrow> Some s
      | Some d \<Rightarrow> do {
          l \<leftarrow> get_ev ev_next timer_list s;
          s1 \<leftarrow> set_ev ev (ev_fd_update (\<lambda>_. -1)) s;
          s2 \<leftarrow> set_ev ev (ev_timeout_update (\<lambda>_. timeradd now d)) s1;
          place \<leftarrow> timer_place (ev_timeout (evs s2 ev)) l s2;
          addToList ev place s2
        })"

partial_function (option) expire_timers :: "timeval \<Rightarrow> nat \<Rightarrow> ril_state \<Rightarrow> ril_state option" where
  "expire_timers now tev s =
     (if tev = timer_list then Some s
      else do {
        t \<leftarrow> get_ev ev_timeout tev s;
        if earlier t now then do {
          n \<leftarrow> get_ev ev_next tev s;
          s1 \<leftarrow> removeFromList tev s;
          s2 \<leftarrow> addToList tev pending_list s1;
          expire_timers now n s2
        } else Some s
      })"

definition processTimeouts :: "timeval \<Rightarrow> ril_state \<Rightarrow> ril_state option" where
  "processTimeouts now s = do { tev \<leftarrow> get_ev ev_next timer_list s; expire_timers now tev s }"

text \<open>The result of \<open>calcNextTimeout\<close>: None when there is no timer.\<close>

definition calcNextTimeout :: "timeval \<Rightarrow> ril_state \<Rightarrow> timeval option" where
  "calcNextTimeout now s =
     (let tev = ev_next (evs s timer_list) in
      if tev = timer_list then None
      else Some (if earlier now (ev_timeout (evs s tev)) then timersub (ev_timeout (evs s tev)) now else (0, 0)))"

section \<open>The loop\<close>

fun ready_loop :: "int set \<Rightarrow> nat list \<Rightarrow> int \<Rightarrow> ril_state \<Rightarrow> ril_state option" where
  "ready_loop rfds [] n s = Some s"
| "ready_loop rfds (i # is) n s =
     (if \<not> n > 0 then Some s
      else let rev = watch_table s ! i in
        if rev \<noteq> 0 \<and> ev_fd (evs s rev) \<in> rfds then do {
          s1 \<leftarrow> addToList rev pending_list s;
          s2 \<leftarrow> (if \<not> ev_persist (evs s1 rev) then removeWatch rev i s1 else Some s1);
          ready_loop rfds is (n - 1) s2
        } else ready_loop rfds is n s)"

definition processReadReadies :: "int set \<Rightarrow> int \<Rightarrow> ril_state \<Rightarrow> ril_state option" where
  "processReadReadies rfds n s = ready_loop rfds [0..<MAX_FD_EVENTS] n s"

type_synonym callback = "nat \<Rightarrow> int \<Rightarrow> nat \<Rightarrow> ril_state \<Rightarrow> ril_state option"

partial_function (option) fire_from :: "callback \<Rightarrow> nat \<Rightarrow> ril_state \<Rightarrow> ril_state option" where
  "fire_from call ev s =
     (if ev = pending_list then Some s
      else do {
        n \<leftarrow> get_ev ev_next ev s;
        s1 \<leftarrow> removeFromList ev s;
        f \<leftarrow> get_ev ev_func ev s1;
        s2 \<leftarrow> call f (ev_fd (evs s1 ev)) (ev_param (evs s1 ev)) s1;
        fire_from call n s2
      })"

definition firePending :: "callback \<Rightarrow> ril_state \<Rightarrow> ril_state option" where
  "firePending call s = do { ev \<leftarrow> get_ev ev_next pending_list s; fire_from call ev s }"

text \<open>A turn of the loop after select returned \<open>n\<close> with the descriptors \<open>rfds\<close> ready, at time \<open>now\<close>.\<close>

definition ril_event_loop_turn :: "callback \<Rightarrow> timeval \<Rightarrow> int set \<Rightarrow> int \<Rightarrow> ril_state \<Rightarrow> ril_state option" where
  "ril_event_loop_turn call now rfds n s = do {
     s1 \<leftarrow> processTimeouts now s;
     s2 \<leftarrow> processReadReadies rfds n s1;
     firePending call s2
   }"

section \<open>Circular lists\<close>

fun chain :: "(nat \<Rightarrow> ril_event) \<Rightarrow> nat list \<Rightarrow> bool" where
  "chain m (a # b # l) \<longleftrightarrow> ev_next (m a) = b \<and> ev_prev (m b) = a \<and> chain m (b # l)"
| "chain m l \<longleftrightarrow> True"

definition ring :: "(nat \<Rightarrow> ril_event) \<Rightarrow> nat \<Rightarrow> nat list \<Rightarrow> bool" where
  "ring m h xs \<longleftrightarrow> chain m (h # xs @ [h]) \<and> distinct (h # xs) \<and> 0 \<notin> set (h # xs)"

lemma chain_append:
  "chain m (as @ bs) \<longleftrightarrow> chain m as \<and> chain m bs
     \<and> (as \<noteq> [] \<and> bs \<noteq> [] \<longrightarrow> ev_next (m (last as)) = hd bs \<and> ev_prev (m (hd bs)) = last as)"
proof (induction as)
  case (Cons a as)
  then show ?case by (cases as; cases bs) auto
qed simp

lemma chain_cong:
  assumes "\<And>a. a \<in> set (butlast l) \<Longrightarrow> ev_next (m a) = ev_next (m' a)"
    and "\<And>a. a \<in> set (tl l) \<Longrightarrow> ev_prev (m a) = ev_prev (m' a)"
  shows "chain m l = chain m' l"
  using assms
proof (induction m l rule: chain.induct)
  case (1 m a b l)
  have "chain m (b # l) = chain m' (b # l)" using 1 by (intro "1.IH") (auto split: if_splits)
  then show ?case using 1 by simp
qed simp_all

text \<open>The cycle cut behind \<open>as\<close>.\<close>

lemma ring_cut:
  "ring m h (as @ bs) \<longleftrightarrow> chain m (h # as) \<and> chain m (bs @ [h]) \<and> ev_next (m (last (h # as))) = hd (bs @ [h])
     \<and> ev_prev (m (hd (bs @ [h]))) = last (h # as) \<and> distinct (h # as @ bs) \<and> 0 \<notin> set (h # as @ bs)"
  using chain_append [of m "h # as" "bs @ [h]"] by (auto simp: ring_def)

text \<open>A list other than the one that changes.\<close>

lemma ring_cong:
  assumes "\<And>a. a \<in> set (h # xs) \<Longrightarrow> ev_next (m a) = ev_next (m' a) \<and> ev_prev (m a) = ev_prev (m' a)"
  shows "ring m h xs = ring m' h xs"
proof -
  have "chain m (h # xs @ [h]) = chain m' (h # xs @ [h])"
    using assms by (intro chain_cong) (auto dest: in_set_butlastD)
  then show ?thesis by (simp add: ring_def)
qed

definition linked :: "nat \<Rightarrow> nat \<Rightarrow> ril_state \<Rightarrow> ril_state" where
  "linked ev l s = (let p = ev_prev (evs s l);
     m1 = (evs s)(ev := (evs s ev)\<lparr>ev_next := l, ev_prev := p\<rparr>);
     m2 = m1(p := (m1 p)\<lparr>ev_next := ev\<rparr>)
   in s\<lparr>evs := m2(l := (m2 l)\<lparr>ev_prev := ev\<rparr>)\<rparr>)"

lemma addToList_linked:
  assumes "ev \<noteq> 0" "l \<noteq> 0" "ev \<noteq> l" "ev_prev (evs s l) \<noteq> 0"
  shows "addToList ev l s = Some (linked ev l s)"
  using assms by (simp add: addToList_def set_ev_def get_ev_def linked_def Let_def)

lemma ring_linked:
  assumes "ring (evs s) h (as @ bs)" "ev \<notin> set (h # as @ bs)" "ev \<noteq> 0"
  shows "ring (evs (linked ev (hd (bs @ [h])) s)) h (as @ ev # bs)"
proof -
  let ?l = "hd (bs @ [h])" and ?p = "last (h # as)" and ?m = "evs (linked ev (hd (bs @ [h])) s)"
  note c = assms(1) [unfolded ring_cut]
  have pin: "?p \<in> set (h # as)" by (rule last_in_set) simp
  have lin: "?l \<in> set (h # bs)" by (cases bs) auto
  have ne: "?p \<noteq> ev" "?l \<noteq> ev" using pin lin assms(2) by auto
  have m: "ev_next (?m a) = (if a = ?p then ev else if a = ev then ?l else ev_next (evs s a))"
    "ev_prev (?m a) = (if a = ?l then ev else if a = ev then ?p else ev_prev (evs s a))" for a
    using ne c by (auto simp: linked_def Let_def)
  have out: "?p \<notin> set (butlast (h # as))" "?p \<notin> set (butlast (bs @ [h]))" "?l \<notin> set (tl (h # as))" "?l \<notin> set (tl (bs @ [h]))"
    using c by (cases as rule: rev_cases; cases bs; auto)+
  have ev: "ev \<notin> set (h # as)" "ev \<notin> set (bs @ [h])" using assms(2) by auto
  have "chain ?m l = chain (evs s) l" if "?p \<notin> set (butlast l)" "?l \<notin> set (tl l)" "ev \<notin> set l" for l
  proof (rule chain_cong)
    fix a
    show "a \<in> set (butlast l) \<Longrightarrow> ev_next (?m a) = ev_next (evs s a)" using that by (auto simp: m dest: in_set_butlastD)
    show "a \<in> set (tl l) \<Longrightarrow> ev_prev (?m a) = ev_prev (evs s a)" using that by (cases l) (auto simp: m)
  qed
  then have "chain ?m (h # as)" "chain ?m (bs @ [h])" using c out ev by blast+
  moreover from this have "chain ?m (ev # bs @ [h])" using chain_append [of ?m "[ev]" "bs @ [h]"] ne by (auto simp: m)
  ultimately show ?thesis using ne c assms(2,3) unfolding ring_cut by (auto simp: m)
qed

text \<open>Taking an event out of a list.\<close>

definition unlinked :: "nat \<Rightarrow> ril_state \<Rightarrow> ril_state" where
  "unlinked ev s = (let n = ev_next (evs s ev); p = ev_prev (evs s ev);
     m1 = (evs s)(n := (evs s n)\<lparr>ev_prev := p\<rparr>);
     m2 = m1(p := (m1 p)\<lparr>ev_next := n\<rparr>)
   in s\<lparr>evs := m2(ev := (m2 ev)\<lparr>ev_next := 0, ev_prev := 0\<rparr>)\<rparr>)"

lemma removeFromList_unlinked:
  assumes "ring (evs s) h (as @ ev # bs)"
  shows "removeFromList ev s = Some (unlinked ev s)"
    and "ring (evs (unlinked ev s)) h (as @ bs)"
    and "ev_next (evs s ev) = hd (bs @ [h])"
proof -
  let ?n = "hd (bs @ [h])" and ?p = "last (h # as)" and ?m = "evs (unlinked ev s)"
  note c = assms [unfolded ring_cut]
  have c2: "chain (evs s) (ev # bs @ [h])" using c by simp
  have e: "ev_prev (evs s ev) = ?p" "ev_next (evs s ev) = ?n" "chain (evs s) (bs @ [h])"
    using c chain_append [of "evs s" "[ev]" "bs @ [h]"] by auto
  have pin: "?p \<in> set (h # as)" by (rule last_in_set) simp
  have nin: "?n \<in> set (h # bs)" by (cases bs) auto
  have ne: "?p \<noteq> ev" "?n \<noteq> ev" "?p \<noteq> 0" "?n \<noteq> 0" "ev \<noteq> 0" using pin nin c by auto
  show "ev_next (evs s ev) = ?n" by (rule e(2))
  show "removeFromList ev s = Some (unlinked ev s)"
    using ne e by (simp add: removeFromList_def set_ev_def get_ev_def unlinked_def Let_def fun_upd_twist [of ev])
  have m: "ev_next (?m a) = (if a = ev then 0 else if a = ?p then ?n else ev_next (evs s a))"
    "ev_prev (?m a) = (if a = ev then 0 else if a = ?n then ?p else ev_prev (evs s a))" for a
    using ne e by (auto simp: unlinked_def Let_def)
  have out: "?p \<notin> set (butlast (h # as))" "?p \<notin> set (butlast (bs @ [h]))" "?n \<notin> set (tl (h # as))" "?n \<notin> set (tl (bs @ [h]))"
    using c by (cases as rule: rev_cases; cases bs; auto)+
  have ev: "ev \<notin> set (h # as)" "ev \<notin> set (bs @ [h])" using c by auto
  have "chain ?m l = chain (evs s) l" if "?p \<notin> set (butlast l)" "?n \<notin> set (tl l)" "ev \<notin> set l" for l
  proof (rule chain_cong)
    fix a
    show "a \<in> set (butlast l) \<Longrightarrow> ev_next (?m a) = ev_next (evs s a)" using that by (auto simp: m dest: in_set_butlastD)
    show "a \<in> set (tl l) \<Longrightarrow> ev_prev (?m a) = ev_prev (evs s a)" using that by (cases l) (auto simp: m)
  qed
  then have "chain ?m (h # as)" "chain ?m (bs @ [h])" using c e(3) out ev by blast+
  then show "ring ?m h (as @ bs)" using ne c unfolding ring_cut by (auto simp: m)
qed

text \<open>What linking and unlinking leave of an event.\<close>

definition same_data :: "(nat \<Rightarrow> ril_event) \<Rightarrow> (nat \<Rightarrow> ril_event) \<Rightarrow> bool" where
  "same_data m m' \<longleftrightarrow> (\<forall>a. ev_fd (m' a) = ev_fd (m a) \<and> ev_index (m' a) = ev_index (m a) \<and> ev_persist (m' a) = ev_persist (m a)
     \<and> ev_timeout (m' a) = ev_timeout (m a) \<and> ev_func (m' a) = ev_func (m a) \<and> ev_param (m' a) = ev_param (m a))"

lemma link_data [simp]:
  "same_data (evs s) (evs (linked ev l s))" "same_data (evs s) (evs (unlinked ev s))"
  "watch_table (linked ev l s) = watch_table s" "watch_table (unlinked ev s) = watch_table s"
  "readFds (linked ev l s) = readFds s" "readFds (unlinked ev s) = readFds s"
  "nfds (linked ev l s) = nfds s" "nfds (unlinked ev s) = nfds s"
  "fired (linked ev l s) = fired s" "fired (unlinked ev s) = fired s"
  by (simp_all add: same_data_def linked_def unlinked_def Let_def)

text \<open>A list elsewhere.\<close>

lemma linked_other:
  "a \<noteq> ev \<and> a \<noteq> l \<and> a \<noteq> ev_prev (evs s l) \<Longrightarrow> evs (linked ev l s) a = evs s a"
  "a \<noteq> ev \<and> a \<noteq> ev_next (evs s ev) \<and> a \<noteq> ev_prev (evs s ev) \<Longrightarrow> evs (unlinked ev s) a = evs s a"
  by (simp_all add: linked_def unlinked_def Let_def)

lemma ring_linked_elsewhere:
  assumes "ring (evs s) h xs" "ring (evs s) h' (as @ bs)" "set (h # xs) \<inter> set (ev # h' # as @ bs) = {}"
  shows "ring (evs (linked ev (hd (bs @ [h'])) s)) h xs"
proof -
  let ?l = "hd (bs @ [h'])"
  have p: "ev_prev (evs s ?l) \<in> set (h' # as)"
    using assms(2) last_in_set [of "h' # as"] unfolding ring_cut by auto
  have l: "?l \<in> set (h' # bs)" by (cases bs) auto
  have "a \<noteq> ev \<and> a \<noteq> ?l \<and> a \<noteq> ev_prev (evs s ?l)" if "a \<in> set (h # xs)" for a
    using that assms(3) p l by auto
  then show ?thesis
    using assms(1) linked_other(1) by (subst ring_cong [where m' = "evs s"]) (metis, assumption)
qed

lemma ring_unlinked_elsewhere:
  assumes "ring (evs s) h xs" "ring (evs s) h' (as @ ev # bs)" "set (h # xs) \<inter> set (ev # h' # as @ bs) = {}"
  shows "ring (evs (unlinked ev s)) h xs"
proof -
  have p: "ev_prev (evs s ev) \<in> set (h' # as)"
    using assms(2) last_in_set [of "h' # as"] unfolding ring_cut by auto
  have n: "ev_next (evs s ev) \<in> set (h' # bs)" unfolding removeFromList_unlinked(3) [OF assms(2)] by (cases bs) auto
  have "a \<noteq> ev \<and> a \<noteq> ev_next (evs s ev) \<and> a \<noteq> ev_prev (evs s ev)" if "a \<in> set (h # xs)" for a
    using that assms(3) p n by auto
  then show ?thesis
    using assms(1) linked_other(2) by (subst ring_cong [where m' = "evs s"]) (metis, assumption)
qed

section \<open>The two lists of the module\<close>

text \<open>The order of the timers \<open>ts\<close>: no later one has an earlier deadline.\<close>

definition by_deadline :: "(nat \<Rightarrow> ril_event) \<Rightarrow> nat list \<Rightarrow> bool" where
  "by_deadline m ts = sorted_wrt (\<lambda>a b. \<not> earlier (ev_timeout (m b)) (ev_timeout (m a))) ts"

definition lists :: "ril_state \<Rightarrow> nat list \<Rightarrow> nat list \<Rightarrow> bool" where
  "lists s ts ps \<longleftrightarrow> ring (evs s) timer_list ts \<and> ring (evs s) pending_list ps \<and> set ts \<inter> set ps = {}
     \<and> timer_list \<notin> set ps \<and> pending_list \<notin> set ts \<and> by_deadline (evs s) ts"

lemma same_data_refl [simp]: "same_data m m"
  by (simp add: same_data_def)

lemma same_data_trans [trans]: "same_data m m' \<Longrightarrow> same_data m' m'' \<Longrightarrow> same_data m m''"
  by (simp add: same_data_def)

lemma by_deadline_cong: "same_data m m' \<Longrightarrow> by_deadline m' ts = by_deadline m ts"
  by (simp add: by_deadline_def same_data_def)

lemma lists_not_null: "lists s ts ps \<Longrightarrow> e \<in> set ts \<union> set ps \<Longrightarrow> e \<noteq> 0 \<and> e \<noteq> timer_list \<and> e \<noteq> pending_list"
  by (auto simp: lists_def ring_def)

text \<open>Adding to the end of the pending events, and taking the first one.\<close>

lemma add_pending:
  assumes "lists s ts ps" "e \<notin> set ts \<union> set ps \<union> {0, timer_list, pending_list}"
  shows "addToList e pending_list s = Some (linked e pending_list s)" "lists (linked e pending_list s) ts (ps @ [e])"
proof -
  note l = assms(1) [unfolded lists_def]
  have r: "ring (evs s) pending_list (ps @ [])" using l by simp
  have "ev_prev (evs s pending_list) = last (pending_list # ps)" using r [unfolded ring_cut] by simp
  then have "ev_prev (evs s pending_list) \<noteq> 0" using l last_in_set [of "pending_list # ps"] by (auto simp: ring_def)
  then show "addToList e pending_list s = Some (linked e pending_list s)"
    using assms(2) by (intro addToList_linked) (auto simp: list_heads)
  have "ring (evs (linked e pending_list s)) pending_list (ps @ [e])"
    using ring_linked [OF r, of e] assms(2) by auto
  moreover have "ring (evs (linked e pending_list s)) timer_list ts"
    using ring_linked_elsewhere [OF _ r, of timer_list ts e] l assms(2) by (auto simp: list_heads)
  ultimately show "lists (linked e pending_list s) ts (ps @ [e])"
    using l assms(2) by_deadline_cong [of "evs s" "evs (linked e pending_list s)"] by (auto simp: lists_def)
qed

lemma take_pending:
  assumes "lists s ts (e # ps)"
  shows "removeFromList e s = Some (unlinked e s)" "lists (unlinked e s) ts ps" "ev_next (evs s e) = hd (ps @ [pending_list])"
proof -
  note l = assms(1) [unfolded lists_def]
  have r: "ring (evs s) pending_list ([] @ e # ps)" using l by simp
  have "ring (evs (unlinked e s)) timer_list ts"
    using ring_unlinked_elsewhere [OF _ r, of timer_list ts] l by (auto simp: list_heads)
  then show "removeFromList e s = Some (unlinked e s)" "lists (unlinked e s) ts ps" "ev_next (evs s e) = hd (ps @ [pending_list])"
    using removeFromList_unlinked [OF r] l by_deadline_cong [of "evs s" "evs (unlinked e s)"] by (auto simp: lists_def)
qed

text \<open>An expired timer becomes a pending event.\<close>

lemma expire_first:
  assumes "lists s (e # ts) ps"
  shows "removeFromList e s = Some (unlinked e s)" "ev_next (evs s e) = hd (ts @ [timer_list])"
    and "addToList e pending_list (unlinked e s) = Some (linked e pending_list (unlinked e s))"
    and "lists (linked e pending_list (unlinked e s)) ts (ps @ [e])"
proof -
  note l = assms(1) [unfolded lists_def]
  have r: "ring (evs s) timer_list ([] @ e # ts)" using l by simp
  have "ring (evs (unlinked e s)) pending_list ps"
    using ring_unlinked_elsewhere [OF _ r, of pending_list ps] l by (auto simp: list_heads)
  then have u: "lists (unlinked e s) ts ps"
    using removeFromList_unlinked [OF r] l by_deadline_cong [of "evs s" "evs (unlinked e s)"] by (auto simp: lists_def by_deadline_def)
  show "removeFromList e s = Some (unlinked e s)" "ev_next (evs s e) = hd (ts @ [timer_list])"
    using removeFromList_unlinked [OF r] by auto
  have "e \<notin> set ts \<union> set ps \<union> {0, timer_list, pending_list}" using l by (auto simp: ring_def)
  from add_pending [OF u this] show "addToList e pending_list (unlinked e s) = Some (linked e pending_list (unlinked e s))"
    "lists (linked e pending_list (unlinked e s)) ts (ps @ [e])" by auto
qed

definition expired :: "timeval \<Rightarrow> ril_state \<Rightarrow> nat \<Rightarrow> bool" where
  "expired now s e \<longleftrightarrow> earlier (ev_timeout (evs s e)) now"

definition same_table :: "ril_state \<Rightarrow> ril_state \<Rightarrow> bool" where
  "same_table s s' \<longleftrightarrow> watch_table s' = watch_table s \<and> readFds s' = readFds s \<and> nfds s' = nfds s \<and> fired s' = fired s
     \<and> same_data (evs s) (evs s')"

lemma same_table_trans: "same_table s t \<Longrightarrow> same_table t u \<Longrightarrow> same_table s u"
  using same_data_trans by (auto simp: same_table_def)

lemma expire_timers_at:
  assumes "lists s ts ps"
  shows "\<exists>s'. expire_timers now (hd (ts @ [timer_list])) s = Some s'
    \<and> lists s' (dropWhile (expired now s) ts) (ps @ takeWhile (expired now s) ts) \<and> same_table s s'"
  using assms
proof (induction ts arbitrary: s ps)
  case Nil
  then show ?case by (subst expire_timers.simps) (simp add: same_table_def)
next
  case (Cons e ts)
  have e: "e \<noteq> 0" "e \<noteq> timer_list" using lists_not_null [OF Cons.prems] by auto
  show ?case
  proof (cases "expired now s e")
    case False
    then show ?thesis using e Cons.prems
      by (subst expire_timers.simps) (simp add: get_ev_def expired_def same_table_def)
  next
    case True
    let ?u = "linked e pending_list (unlinked e s)"
    note x = expire_first [OF Cons.prems]
    have same: "same_table s ?u" using same_data_trans [OF link_data(2) link_data(1)] by (simp add: same_table_def)
    then have ex: "expired now ?u = expired now s" by (simp add: same_table_def same_data_def expired_def fun_eq_iff)
    obtain s' where s': "expire_timers now (hd (ts @ [timer_list])) ?u = Some s'"
      "lists s' (dropWhile (expired now ?u) ts) ((ps @ [e]) @ takeWhile (expired now ?u) ts)" "same_table ?u s'"
      using Cons.IH [OF x(4)] by blast
    have "expire_timers now e s = Some s'" using True e x(1-3) s'(1)
      by (subst expire_timers.simps) (simp add: get_ev_def expired_def)
    then show ?thesis using s'(2,3) True same_table_trans [OF same] by (simp add: ex)
  qed
qed

lemma earlier_asym: "earlier a b \<Longrightarrow> \<not> earlier b a"
  by (auto simp: earlier_def split: if_splits)

lemma earlier_irrefl [simp]: "\<not> earlier a a"
  by (simp add: earlier_def)

lemma earlier_trans: "\<not> earlier b a \<Longrightarrow> earlier b c \<Longrightarrow> earlier a c"
  by (auto simp: earlier_def split: if_splits)

lemma expired_prefix:
  assumes "by_deadline (evs s) ts"
  shows "takeWhile (expired now s) ts = filter (expired now s) ts" "dropWhile (expired now s) ts = filter (\<lambda>e. \<not> expired now s e) ts"
proof -
  have "takeWhile (expired now s) ts = filter (expired now s) ts \<and> dropWhile (expired now s) ts = filter (\<lambda>e. \<not> expired now s e) ts"
    using assms
  proof (induction ts)
    case (Cons a ts)
    have later: "\<not> expired now s b" if "\<not> expired now s a" "b \<in> set ts" for b
      using that Cons.prems earlier_trans unfolding by_deadline_def expired_def by (meson sorted_wrt.simps(2))
    have "by_deadline (evs s) ts" using Cons.prems by (simp add: by_deadline_def)
    note IH = Cons.IH [OF this]
    show ?case
    proof (cases "expired now s a")
      case False
      then have "filter (expired now s) ts = []" "filter (\<lambda>e. \<not> expired now s e) ts = ts"
        using later by (simp_all add: filter_False filter_True)
      then show ?thesis using False by simp
    qed (use IH in simp)
  qed simp
  then show "takeWhile (expired now s) ts = filter (expired now s) ts"
    "dropWhile (expired now s) ts = filter (\<lambda>e. \<not> expired now s e) ts" by auto
qed

lemma processTimeouts_at:
  assumes "lists s ts ps"
  shows "\<exists>s'. processTimeouts now s = Some s' \<and> lists s' (filter (\<lambda>e. \<not> expired now s e) ts) (ps @ filter (expired now s) ts)
    \<and> same_table s s'"
proof -
  have "ring (evs s) timer_list ([] @ ts)" using assms by (simp add: lists_def)
  then have "ev_next (evs s timer_list) = hd (ts @ [timer_list])" unfolding ring_cut by simp
  then show ?thesis using expire_timers_at [OF assms, of now] expired_prefix [of s ts now] assms
    by (auto simp: processTimeouts_def get_ev_def list_heads lists_def)
qed

section \<open>Adding a timer\<close>

text \<open>Changing an event that is in no list.\<close>

lemma lists_elsewhere:
  assumes "lists s ts ps" "\<And>a. a \<in> set ts \<union> set ps \<union> {timer_list, pending_list} \<Longrightarrow> evs s' a = evs s a"
  shows "lists s' ts ps"
proof -
  have "ring (evs s') timer_list ts = ring (evs s) timer_list ts"
    using assms(2) by (intro ring_cong) auto
  moreover have "ring (evs s') pending_list ps = ring (evs s) pending_list ps"
    using assms(2) by (intro ring_cong) auto
  moreover have "by_deadline (evs s') ts = by_deadline (evs s) ts" using assms(2)
    unfolding by_deadline_def by (intro iffI; elim sorted_wrt_mono_rel [rotated]; simp)
  ultimately show ?thesis using assms(1) by (simp add: lists_def)
qed

definition timer_before :: "timeval \<Rightarrow> ril_state \<Rightarrow> nat \<Rightarrow> bool" where
  "timer_before t s e \<longleftrightarrow> earlier (ev_timeout (evs s e)) t"

lemma timer_place_at:
  assumes "lists s (as @ bs) ps"
  shows "timer_place t (hd (bs @ [timer_list])) s = Some (hd (dropWhile (timer_before t s) bs @ [timer_list]))"
  using assms
proof (induction bs arbitrary: as)
  case Nil
  then show ?case by (subst timer_place.simps) (simp add: get_ev_def list_heads)
next
  case (Cons b bs)
  have "ring (evs s) timer_list (as @ b # bs)" using Cons.prems by (simp add: lists_def)
  then have n: "ev_next (evs s b) = hd (bs @ [timer_list])" by (rule removeFromList_unlinked(3))
  have b: "b \<noteq> 0" "b \<noteq> timer_list" using lists_not_null [OF Cons.prems, of b] by auto
  have "timer_place t (hd (bs @ [timer_list])) s = Some (hd (dropWhile (timer_before t s) bs @ [timer_list]))"
    using Cons.IH [of "as @ [b]"] Cons.prems by simp
  then show ?case using b n by (subst timer_place.simps) (simp add: get_ev_def timer_before_def)
qed

definition due :: "nat \<Rightarrow> timeval \<Rightarrow> ril_state \<Rightarrow> ril_state" where
  "due ev t s = s\<lparr>evs := (evs s)(ev := (evs s ev)\<lparr>ev_fd := -1, ev_timeout := t\<rparr>)\<rparr>"

lemma timer_add_at:
  fixes now d :: timeval and s :: ril_state and ts ps :: "nat list" and ev :: nat
  assumes "lists s ts ps" "ev \<notin> set ts \<union> set ps \<union> {0, timer_list, pending_list}"
  defines "t \<equiv> timeradd now d"
  defines "s1 \<equiv> due ev t s"
  defines "before \<equiv> takeWhile (timer_before t s) ts" and "after \<equiv> dropWhile (timer_before t s) ts"
  shows "ril_timer_add now ev (Some d) s = Some (linked ev (hd (after @ [timer_list])) s1)"
    and "lists (linked ev (hd (after @ [timer_list])) s1) (before @ ev # after) ps"
proof -
  have e: "evs s1 a = evs s a" if "a \<noteq> ev" for a using that by (simp add: s1_def due_def)
  have l: "lists s1 ts ps" using assms(1)
  proof (rule lists_elsewhere)
    fix a assume "a \<in> set ts \<union> set ps \<union> {timer_list, pending_list}"
    then show "evs s1 a = evs s a" using assms(2) by (intro e) auto
  qed
  have ba: "ts = before @ after" by (simp add: before_def after_def)
  have "timer_before t s1 a = timer_before t s a" if "a \<in> set ts" for a
  proof -
    have "a \<noteq> ev" using that assms(2) by auto
    then show ?thesis by (simp add: timer_before_def e)
  qed
  then have place: "timer_place t (hd (ts @ [timer_list])) s1 = Some (hd (after @ [timer_list]))"
    using timer_place_at [of s1 "[]" ts ps t] l by (simp add: after_def cong: dropWhile_cong)
  have r: "ring (evs s1) timer_list (before @ after)" using l ba by (simp add: lists_def)
  have "ring (evs s) timer_list ([] @ ts)" using assms(1) by (simp add: lists_def)
  then have start: "ev_next (evs s timer_list) = hd (ts @ [timer_list])" unfolding ring_cut by simp
  have nn: "hd (after @ [timer_list]) \<in> set (timer_list # after)" by (cases after) auto
  have p: "ev_prev (evs s1 (hd (after @ [timer_list]))) = last (timer_list # before)" using r unfolding ring_cut by simp
  have "last (timer_list # before) \<in> set (timer_list # before)" by (rule last_in_set) simp
  then have add: "addToList ev (hd (after @ [timer_list])) s1 = Some (linked ev (hd (after @ [timer_list])) s1)"
    using assms(2) nn p r ba by (intro addToList_linked) (auto simp: ring_def list_heads)
  have "ev \<noteq> 0" "ev \<noteq> timer_list" using assms(2) by auto
  then show "ril_timer_add now ev (Some d) s = Some (linked ev (hd (after @ [timer_list])) s1)"
    using place add start
    by (simp add: ril_timer_add_def get_ev_def set_ev_def list_heads s1_def due_def t_def [symmetric])
  let ?u = "linked ev (hd (after @ [timer_list])) s1"
  have "ring (evs ?u) timer_list (before @ ev # after)" using ring_linked [OF r, of ev] assms(2) ba by auto
  moreover have "ring (evs ?u) pending_list ps"
    using ring_linked_elsewhere [OF _ r, of pending_list ps ev] l assms(2) ba by (auto simp: lists_def list_heads)
  moreover have "by_deadline (evs s1) (before @ ev # after)"
  proof -
    have tev: "ev_timeout (evs s1 ev) = t" by (simp add: s1_def due_def)
    have b1: "earlier (ev_timeout (evs s1 a)) t" if "a \<in> set before" for a
    proof -
      have "a \<in> set ts" "timer_before t s a" using set_takeWhileD that unfolding before_def by metis+
      then have "a \<noteq> ev" using assms(2) by auto
      then show ?thesis using \<open>timer_before t s a\<close> by (simp add: timer_before_def e)
    qed
    have a0: "\<not> earlier (ev_timeout (evs s1 a)) t" if "a \<in> set after" for a
    proof -
      have ne: "after \<noteq> []" using that by auto
      then have "hd after \<in> set ts" using ba by auto
      then have "hd after \<noteq> ev" using assms(2) by auto
      then have h: "\<not> earlier (ev_timeout (evs s1 (hd after))) t"
        using hd_dropWhile [of "timer_before t s" ts] ne by (simp add: after_def timer_before_def e)
      have "by_deadline (evs s1) after" using l ba by (simp add: lists_def by_deadline_def sorted_wrt_append)
      then have "a = hd after \<or> \<not> earlier (ev_timeout (evs s1 a)) (ev_timeout (evs s1 (hd after)))"
        using that by (cases after) (auto simp: by_deadline_def)
      then show ?thesis using h earlier_trans by metis
    qed
    have "by_deadline (evs s1) (before @ after)" using l ba by (simp add: lists_def)
    moreover have "\<not> earlier t (ev_timeout (evs s1 a))" if "a \<in> set before" for a
      using b1 [OF that] earlier_asym by blast
    ultimately show ?thesis using a0 tev by (auto simp: by_deadline_def sorted_wrt_append)
  qed
  ultimately show "lists ?u (before @ ev # after) ps"
    using l assms(2) ba by_deadline_cong [of "evs s1" "evs ?u"] by (auto simp: lists_def)
qed

section \<open>Watched descriptors\<close>

definition watched :: "ril_state \<Rightarrow> nat list" where
  "watched s = filter (\<lambda>e. e \<noteq> 0) (watch_table s)"

text \<open>
  The table: entries know their place, so none occurs twice; their descriptors are distinct, are those
  select is asked for, and lie below \<open>nfds\<close>.
\<close>

definition table_ok :: "ril_state \<Rightarrow> bool" where
  "table_ok s \<longleftrightarrow> length (watch_table s) = MAX_FD_EVENTS
     \<and> (\<forall>i < MAX_FD_EVENTS. watch_table s ! i \<noteq> 0 \<longrightarrow> ev_index (evs s (watch_table s ! i)) = int i
         \<and> watch_table s ! i \<noteq> timer_list \<and> watch_table s ! i \<noteq> pending_list)
     \<and> readFds s = (\<lambda>e. ev_fd (evs s e)) ` set (watched s) \<and> inj_on (\<lambda>e. ev_fd (evs s e)) (set (watched s))
     \<and> (\<forall>fd \<in> readFds s. 0 \<le> fd \<and> fd < nfds s)"

lemma in_watched: "e \<in> set (watched s) \<longleftrightarrow> e \<noteq> 0 \<and> (\<exists>i < length (watch_table s). watch_table s ! i = e)"
  by (auto simp: watched_def in_set_conv_nth)

lemma table_place:
  assumes "table_ok s" "i < MAX_FD_EVENTS" "j < MAX_FD_EVENTS" "watch_table s ! i = watch_table s ! j" "watch_table s ! i \<noteq> 0"
  shows "i = j"
  using assms unfolding table_ok_def by (metis of_nat_eq_iff)

lemma table_same:
  assumes "table_ok s" "same_table s s'"
  shows "table_ok s'" "watched s' = watched s"
  using assms by (auto simp: table_ok_def same_table_def same_data_def watched_def)

lemma highest_bound:
  "e \<in> set t \<Longrightarrow> e \<noteq> 0 \<Longrightarrow> ev_fd (m e) \<le> highest_fd m t" "0 \<le> highest_fd m t"
proof -
  have mono: "n \<le> foldl (\<lambda>n rev. if rev \<noteq> 0 \<and> ev_fd (m rev) > n then ev_fd (m rev) else n) n t" for n t
  proof (induction t arbitrary: n)
    case (Cons a t)
    then show ?case using Cons.IH [of n] order_trans [OF _ Cons.IH [of "ev_fd (m a)"], of n] by simp
  qed simp
  have all: "e \<in> set t \<Longrightarrow> e \<noteq> 0 \<Longrightarrow> ev_fd (m e) \<le> foldl (\<lambda>n rev. if rev \<noteq> 0 \<and> ev_fd (m rev) > n then ev_fd (m rev) else n) n t" for n t
  proof (induction t arbitrary: n)
    case (Cons a t)
    have "ev_fd (m a) \<le> foldl (\<lambda>n rev. if rev \<noteq> 0 \<and> ev_fd (m rev) > n then ev_fd (m rev) else n) n (a # t)" if "a \<noteq> 0"
      using that mono [of "ev_fd (m a)" t] mono [of n t] by auto
    then show ?case using Cons by auto
  qed simp
  show "e \<in> set t \<Longrightarrow> e \<noteq> 0 \<Longrightarrow> ev_fd (m e) \<le> highest_fd m t" unfolding highest_fd_def by (rule all)
  show "0 \<le> highest_fd m t" unfolding highest_fd_def by (rule mono)
qed

text \<open>Removing an entry.\<close>

definition unwatched :: "nat \<Rightarrow> nat \<Rightarrow> ril_state \<Rightarrow> ril_state" where
  "unwatched ev i s =
     (let s1 = s\<lparr>evs := (evs s)(ev := (evs s ev)\<lparr>ev_index := -1\<rparr>), watch_table := (watch_table s)[i := 0],
            readFds := readFds s - {ev_fd (evs s ev)}\<rparr>
      in if ev_fd (evs s ev) + 1 = nfds s then s1\<lparr>nfds := highest_fd (evs s1) (watch_table s1) + 1\<rparr> else s1)"

lemma removeWatch_unwatched: "ev \<noteq> 0 \<Longrightarrow> removeWatch ev i s = Some (unwatched ev i s)"
  by (simp add: removeWatch_def set_ev_def unwatched_def Let_def)

lemma unwatched_simps [simp]:
  "watch_table (unwatched ev i s) = (watch_table s)[i := 0]" "fired (unwatched ev i s) = fired s"
  "readFds (unwatched ev i s) = readFds s - {ev_fd (evs s ev)}"
  "evs (unwatched ev i s) = (evs s)(ev := (evs s ev)\<lparr>ev_index := -1\<rparr>)"
  by (simp_all add: unwatched_def Let_def)

lemma watched_update:
  assumes "i < length (watch_table s)" "watch_table s ! i = ev" "ev \<noteq> 0"
    "\<And>j. j < length (watch_table s) \<Longrightarrow> watch_table s ! j = ev \<Longrightarrow> j = i"
  shows "filter (\<lambda>e. e \<noteq> 0) ((watch_table s)[i := 0]) = filter (\<lambda>e. e \<noteq> ev) (watched s)"
proof -
  let ?t = "watch_table s"
  have t: "?t = take i ?t @ ev # drop (Suc i) ?t" using id_take_nth_drop [OF assms(1)] assms(2) by simp
  have "ev \<notin> set (take i ?t)"
  proof
    assume "ev \<in> set (take i ?t)"
    then obtain j where "j < i" "?t ! j = ev" by (auto simp: in_set_conv_nth)
    then show False using assms(4) [of j] assms(1) by auto
  qed
  moreover have "ev \<notin> set (drop (Suc i) ?t)"
  proof
    assume "ev \<in> set (drop (Suc i) ?t)"
    then obtain j where "j < length (drop (Suc i) ?t)" "drop (Suc i) ?t ! j = ev" by (auto simp: in_set_conv_nth)
    then have "Suc i + j < length ?t" "?t ! (Suc i + j) = ev" by auto
    then show False using assms(4) by fastforce
  qed
  moreover have same: "filter (\<lambda>e. e \<noteq> ev \<and> e \<noteq> 0) l = filter (\<lambda>e. e \<noteq> 0) l" if "ev \<notin> set l" for l
    using that by (intro filter_cong) auto
  ultimately have "filter (\<lambda>e. e \<noteq> ev) (watched s) = filter (\<lambda>e. e \<noteq> 0) (take i ?t @ drop (Suc i) ?t)"
    unfolding watched_def filter_filter by (subst t) (simp add: conj_commute same)
  moreover have "?t[i := 0] = take i ?t @ 0 # drop (Suc i) ?t" using assms(1) by (rule upd_conv_take_nth_drop)
  ultimately show ?thesis by simp
qed

lemma watched_distinct:
  assumes "table_ok s"
  shows "distinct (watched s)"
proof -
  have "distinct (filter (\<lambda>e. e \<noteq> 0) t)"
    if "\<And>i j. i < length t \<Longrightarrow> j < length t \<Longrightarrow> t ! i = t ! j \<Longrightarrow> t ! i \<noteq> 0 \<Longrightarrow> i = j" for t :: "nat list"
    using that
  proof (induction t)
    case (Cons a t)
    have "distinct (filter (\<lambda>e. e \<noteq> 0) t)" using Cons.prems [of "Suc _" "Suc _"] by (intro Cons.IH) auto
    moreover have "a \<notin> set t" if "a \<noteq> 0"
      using that Cons.prems [of 0 "Suc _"] by (fastforce simp: in_set_conv_nth)
    ultimately show ?case by simp
  qed simp
  then show ?thesis using table_place [OF assms] assms by (simp add: watched_def table_ok_def)
qed

lemma unwatched_ok:
  assumes "table_ok s" "i < MAX_FD_EVENTS" "watch_table s ! i = ev" "ev \<noteq> 0"
  shows "table_ok (unwatched ev i s)" "watched (unwatched ev i s) = filter (\<lambda>e. e \<noteq> ev) (watched s)"
proof -
  let ?u = "unwatched ev i s"
  have len: "length (watch_table s) = MAX_FD_EVENTS" using assms(1) by (simp add: table_ok_def)
  show w: "watched ?u = filter (\<lambda>e. e \<noteq> ev) (watched s)"
  proof -
    have "filter (\<lambda>e. e \<noteq> 0) ((watch_table s)[i := 0]) = filter (\<lambda>e. e \<noteq> ev) (watched s)"
    proof (rule watched_update)
      show "j = i" if "j < length (watch_table s)" "watch_table s ! j = ev" for j
        using table_place [OF assms(1), of j i] that assms(2-4) len by simp
    qed (use assms len in simp_all)
    then show ?thesis by (simp add: watched_def)
  qed
  have fd: "ev_fd (evs ?u e) = ev_fd (evs s e)" for e by simp
  have ev: "ev \<in> set (watched s)" using assms len by (auto simp: in_watched)
  have inj: "inj_on (\<lambda>e. ev_fd (evs s e)) (set (watched s))" using assms(1) by (simp add: table_ok_def)
  have "(\<lambda>e. ev_fd (evs s e)) ` (set (watched s) - {ev}) = readFds s - {ev_fd (evs s ev)}"
    using inj_on_image_set_diff [OF inj, of "set (watched s)" "{ev}"] ev assms(1) by (simp add: table_ok_def)
  moreover have "set (watched ?u) = set (watched s) - {ev}" by (auto simp: w)
  ultimately have r: "readFds ?u = (\<lambda>e. ev_fd (evs ?u e)) ` set (watched ?u)" by (simp only: fd unwatched_simps(3))
  have b: "0 \<le> fd \<and> fd < nfds ?u" if rd: "fd \<in> readFds ?u" for fd
  proof (cases "ev_fd (evs s ev) + 1 = nfds s")
    case False
    then show ?thesis using that assms(1) by (auto simp: table_ok_def unwatched_def Let_def)
  next
    case True
    obtain e where e: "e \<in> set (watched ?u)" "fd = ev_fd (evs ?u e)" using rd unfolding r by blast
    then have "e \<in> set (watch_table ?u)" "e \<noteq> 0" by (auto simp: watched_def)
    then have "fd \<le> highest_fd (evs ?u) (watch_table ?u)" using e(2) highest_bound(1) by metis
    moreover have "nfds ?u = highest_fd (evs ?u) (watch_table ?u) + 1" using True by (simp add: unwatched_def Let_def)
    moreover have "0 \<le> fd" using that assms(1) by (simp add: table_ok_def)
    ultimately show ?thesis by simp
  qed
  have "ev_index (evs ?u (watch_table ?u ! j)) = int j \<and> watch_table ?u ! j \<noteq> timer_list \<and> watch_table ?u ! j \<noteq> pending_list"
    if "j < MAX_FD_EVENTS" "watch_table ?u ! j \<noteq> 0" for j
  proof -
    have "j \<noteq> i" using that len by auto
    moreover from this have "watch_table s ! j \<noteq> ev" using that assms table_place [OF assms(1), of j i] by auto
    ultimately show ?thesis using that assms(1) by (simp add: table_ok_def)
  qed
  moreover have "inj_on (\<lambda>e. ev_fd (evs ?u e)) (set (watched ?u))" using inj by (auto simp: w inj_on_def)
  moreover have "length (watch_table ?u) = MAX_FD_EVENTS" using len by simp
  ultimately show "table_ok ?u" using b r unfolding table_ok_def by blast
qed

text \<open>The table depends on the descriptors and indices of its entries alone.\<close>

lemma table_cong:
  assumes "watch_table s' = watch_table s" "readFds s' = readFds s" "nfds s' = nfds s"
    and "\<And>e. e \<in> set (watched s) \<Longrightarrow> ev_fd (evs s' e) = ev_fd (evs s e) \<and> ev_index (evs s' e) = ev_index (evs s e)"
  shows "table_ok s' = table_ok s"
proof (cases "length (watch_table s) = MAX_FD_EVENTS")
  case True
  have w: "watched s' = watched s" using assms(1) by (simp add: watched_def)
  have "watch_table s ! i \<in> set (watched s)" if "i < MAX_FD_EVENTS" "watch_table s ! i \<noteq> 0" for i
    using that True by (auto simp: in_watched)
  then have "(\<forall>i < MAX_FD_EVENTS. watch_table s ! i \<noteq> 0 \<longrightarrow> ev_index (evs s' (watch_table s ! i)) = int i \<and> R i)
      \<longleftrightarrow> (\<forall>i < MAX_FD_EVENTS. watch_table s ! i \<noteq> 0 \<longrightarrow> ev_index (evs s (watch_table s ! i)) = int i \<and> R i)" for R
    using assms(4) by auto
  moreover have "(\<lambda>e. ev_fd (evs s' e)) ` set (watched s) = (\<lambda>e. ev_fd (evs s e)) ` set (watched s)"
    using assms(4) by (intro image_cong) auto
  moreover have "inj_on (\<lambda>e. ev_fd (evs s' e)) (set (watched s)) = inj_on (\<lambda>e. ev_fd (evs s e)) (set (watched s))"
    using assms(4) by (intro inj_on_cong) auto
  ultimately show ?thesis unfolding table_ok_def w assms(1-3) by simp
qed (use assms(1) in \<open>simp add: table_ok_def\<close>)

text \<open>The lists depend on the links and the deadlines alone.\<close>

lemma lists_cong:
  assumes "\<And>a. a \<in> set ts \<union> set ps \<union> {timer_list, pending_list} \<Longrightarrow> ev_next (evs s' a) = ev_next (evs s a)
    \<and> ev_prev (evs s' a) = ev_prev (evs s a) \<and> ev_timeout (evs s' a) = ev_timeout (evs s a)"
  shows "lists s' ts ps = lists s ts ps"
proof -
  have "ring (evs s') timer_list ts = ring (evs s) timer_list ts" "ring (evs s') pending_list ps = ring (evs s) pending_list ps"
    using assms by (intro ring_cong; auto)+
  moreover have "by_deadline (evs s') ts = by_deadline (evs s) ts" using assms
    unfolding by_deadline_def by (intro iffI; elim sorted_wrt_mono_rel [rotated]; simp)
  ultimately show ?thesis by (simp add: lists_def)
qed

section \<open>Entering an event\<close>

definition watching :: "nat \<Rightarrow> nat \<Rightarrow> ril_state \<Rightarrow> ril_state" where
  "watching ev i s = s\<lparr>evs := (evs s)(ev := (evs s ev)\<lparr>ev_index := int i\<rparr>), watch_table := (watch_table s)[i := ev],
     readFds := insert (ev_fd (evs s ev)) (readFds s),
     nfds := (if ev_fd (evs s ev) \<ge> nfds s then ev_fd (evs s ev) + 1 else nfds s)\<rparr>"

lemma add_watching:
  "ev \<noteq> 0 \<Longrightarrow> ril_event_add ev s =
     Some (case find_index (\<lambda>e. e = 0) (watch_table s) of None \<Rightarrow> s | Some i \<Rightarrow> watching ev i s)"
  by (simp add: ril_event_add_def set_ev_def watching_def Let_def split: option.split)

lemma watching_ok:
  assumes "table_ok s" "i < MAX_FD_EVENTS" "watch_table s ! i = 0"
    and "ev \<notin> set (watched s) \<union> {0, timer_list, pending_list}" "0 \<le> ev_fd (evs s ev)" "ev_fd (evs s ev) \<notin> readFds s"
  shows "table_ok (watching ev i s)" "set (watched (watching ev i s)) = insert ev (set (watched s))"
proof -
  let ?u = "watching ev i s"
  have len: "length (watch_table s) = MAX_FD_EVENTS" using assms(1) by (simp add: table_ok_def)
  have nth: "watch_table ?u ! j = (if j = i then ev else watch_table s ! j)" if "j < MAX_FD_EVENTS" for j
    using that len by (simp add: watching_def)
  have len2: "length (watch_table ?u) = MAX_FD_EVENTS" using len by (simp add: watching_def)
  have out: "watch_table s ! j \<noteq> ev" if "j < MAX_FD_EVENTS" for j
    using that assms(4) len by (auto simp: in_watched)
  have "e \<in> set (watched ?u) \<longleftrightarrow> e = ev \<or> e \<in> set (watched s)" for e
  proof (cases "e = ev")
    case True
    then show ?thesis using assms(2,4) nth [of i] len2 by (auto simp: in_watched)
  next
    case False
    then show ?thesis using assms(3) nth unfolding in_watched len len2 by metis
  qed
  then show w: "set (watched ?u) = insert ev (set (watched s))" by blast
  have fd: "ev_fd (evs ?u e) = ev_fd (evs s e)" for e by (simp add: watching_def)
  have rs: "readFds ?u = insert (ev_fd (evs s ev)) (readFds s)" by (simp add: watching_def)
  have r: "readFds ?u = (\<lambda>e. ev_fd (evs ?u e)) ` set (watched ?u)"
    unfolding w fd rs using assms(1) by (simp add: table_ok_def)
  have inj: "inj_on (\<lambda>e. ev_fd (evs ?u e)) (set (watched ?u))"
    unfolding w fd using assms(1,6) by (auto simp: table_ok_def inj_on_insert)
  have "0 \<le> fd \<and> fd < nfds ?u" if "fd \<in> readFds ?u" for fd
  proof -
    have "nfds s \<le> nfds ?u" "ev_fd (evs s ev) < nfds ?u" by (simp_all add: watching_def)
    moreover have "\<forall>fd \<in> readFds s. 0 \<le> fd \<and> fd < nfds s" using assms(1) by (simp add: table_ok_def)
    moreover have "fd = ev_fd (evs s ev) \<or> fd \<in> readFds s" using that rs by blast
    ultimately show ?thesis using assms(5) by (metis less_le_trans)
  qed
  moreover have "ev_index (evs ?u (watch_table ?u ! j)) = int j \<and> watch_table ?u ! j \<noteq> timer_list \<and> watch_table ?u ! j \<noteq> pending_list"
    if "j < MAX_FD_EVENTS" "watch_table ?u ! j \<noteq> 0" for j
  proof (cases "j = i")
    case True
    then have "watch_table ?u ! j = ev" using nth [OF that(1)] by simp
    then show ?thesis using True assms(4) by (simp only:) (simp add: watching_def)
  next
    case False
    then have "watch_table ?u ! j = watch_table s ! j" "evs ?u (watch_table s ! j) = evs s (watch_table s ! j)"
      using out [OF that(1)] nth [OF that(1)] by (simp_all add: watching_def)
    then show ?thesis using that assms(1) by (simp add: table_ok_def)
  qed
  ultimately show "table_ok ?u" using len2 r inj by (simp add: table_ok_def)
qed

section \<open>The state of the loop\<close>

text \<open>\<open>ts\<close> are the timers, \<open>ps\<close> the pending events; a watched event is not a timer.\<close>

definition loop_ok :: "ril_state \<Rightarrow> nat list \<Rightarrow> nat list \<Rightarrow> bool" where
  "loop_ok s ts ps \<longleftrightarrow> lists s ts ps \<and> table_ok s \<and> set (watched s) \<inter> set ts = {}"

text \<open>An event that is neither a timer, nor pending, nor watched.\<close>

definition idle :: "ril_state \<Rightarrow> nat \<Rightarrow> bool" where
  "idle s e \<longleftrightarrow> e \<notin> set (watched s) \<union> {0, timer_list, pending_list}
     \<and> (\<forall>ts ps. lists s ts ps \<longrightarrow> e \<notin> set ts \<union> set ps)"

lemma loop_init:
  "\<exists>s'. ril_event_init s = Some s' \<and> (nfds s = 0 \<longrightarrow> loop_ok s' [] []) \<and> fired s' = fired s \<and> watched s' = []"
proof -
  obtain s' where s': "ril_event_init s = Some s'" "watch_table s' = replicate MAX_FD_EVENTS 0" "readFds s' = {}"
    "ev_next (evs s' timer_list) = timer_list" "ev_prev (evs s' timer_list) = timer_list"
    "ev_next (evs s' pending_list) = pending_list" "ev_prev (evs s' pending_list) = pending_list" "fired s' = fired s"
    by (simp add: ril_event_init_def init_list_def set_ev_def list_heads zero_event_def)
  have "ring (evs s') timer_list []" "ring (evs s') pending_list []"
    using s' by (simp_all add: ring_def list_heads)
  then have "lists s' [] []" by (simp add: lists_def by_deadline_def)
  moreover have "watched s' = []" using s' by (simp add: watched_def MAX_FD_EVENTS_def)
  ultimately show ?thesis using s' by (auto simp: loop_ok_def table_ok_def MAX_FD_EVENTS_def)
qed

lemma loop_set:
  assumes "loop_ok s ts ps" "idle s ev"
  shows "\<exists>s'. ril_event_set ev fd persist func param s = Some s' \<and> loop_ok s' ts ps"
proof -
  let ?s = "s\<lparr>evs := (evs s)(ev := zero_event\<lparr>ev_fd := fd, ev_index := -1, ev_persist := persist, ev_func := func, ev_param := param\<rparr>)\<rparr>"
  have ev: "ev \<notin> set (watched s) \<union> {0, timer_list, pending_list} \<union> set ts \<union> set ps"
    using assms by (auto simp: idle_def loop_ok_def)
  have l: "lists ?s ts ps" using ev assms(1) by (subst lists_cong [where s = s]) (auto simp: loop_ok_def)
  have "watched ?s = watched s" by (simp add: watched_def)
  moreover have "table_ok ?s" using assms(1) ev by (subst table_cong [where s = s]) (auto simp: loop_ok_def)
  ultimately show ?thesis using assms(1) ev l
    by (auto simp: ril_event_set_def set_ev_def loop_ok_def)
qed

lemma loop_add:
  assumes "loop_ok s ts ps" "idle s ev" "0 \<le> ev_fd (evs s ev)" "ev_fd (evs s ev) \<notin> readFds s"
  shows "\<exists>s'. ril_event_add ev s = Some s' \<and> loop_ok s' ts ps
    \<and> set (watched s') = (if length (watched s) < MAX_FD_EVENTS then insert ev (set (watched s)) else set (watched s))"
proof -
  have ev: "ev \<notin> set (watched s) \<union> {0, timer_list, pending_list}" "ev \<notin> set ts \<union> set ps"
    using assms(1,2) by (auto simp: idle_def loop_ok_def)
  have len: "length (watch_table s) = MAX_FD_EVENTS" using assms(1) by (simp add: loop_ok_def table_ok_def)
  show ?thesis
  proof (cases "find_index (\<lambda>e. e = 0) (watch_table s)")
    case None
    then have "watched s = watch_table s" by (auto simp: find_index_None watched_def intro: filter_True)
    then show ?thesis using None assms(1) ev len by (simp add: add_watching)
  next
    case (Some i)
    then have i: "i < length (watch_table s)" "watch_table s ! i = 0" by (auto simp: find_index_Some)
    have "length (watched s) < length (watch_table s)"
      unfolding watched_def using i nth_mem [OF i(1)] by (intro length_filter_less [of 0]) auto
    moreover have "lists (watching ev i s) ts ps"
      using assms(1) by (subst lists_cong [where s = s]) (auto simp: loop_ok_def watching_def)
    ultimately show ?thesis using Some assms(1,3,4) ev i len watching_ok [of s i ev]
      by (auto simp: add_watching loop_ok_def)
  qed
qed

text \<open>Deleting an event that is watched, or that was set and is not watched.\<close>

lemma loop_unwatched:
  assumes "loop_ok s ts ps" "i < MAX_FD_EVENTS" "watch_table s ! i = ev" "ev \<noteq> 0"
  shows "loop_ok (unwatched ev i s) ts ps"
proof -
  have t: "table_ok s" using assms(1) by (simp add: loop_ok_def)
  have "lists (unwatched ev i s) ts ps"
    using assms(1) by (subst lists_cong [where s = s]) (auto simp: loop_ok_def)
  then show ?thesis using assms(1) unwatched_ok [OF t assms(2-4)] by (auto simp: loop_ok_def)
qed

lemma loop_del:
  assumes "loop_ok s ts ps" "ev \<in> set (watched s) \<or> ev \<noteq> 0 \<and> ev_index (evs s ev) < 0"
  shows "\<exists>s'. ril_event_del ev s = Some s' \<and> loop_ok s' ts ps \<and> set (watched s') = set (watched s) - {ev}"
proof (cases "ev \<in> set (watched s)")
  case True
  then obtain i where i: "i < MAX_FD_EVENTS" "watch_table s ! i = ev" "ev \<noteq> 0"
    using assms(1) by (auto simp: in_watched loop_ok_def table_ok_def)
  then have "ev_index (evs s ev) = int i" using assms(1) by (auto simp: loop_ok_def table_ok_def)
  then have "ril_event_del ev s = Some (unwatched ev i s)"
    using i by (simp add: ril_event_del_def get_ev_def removeWatch_unwatched)
  moreover have "table_ok s" using assms(1) by (simp add: loop_ok_def)
  then have "set (watched (unwatched ev i s)) = set (watched s) - {ev}" using unwatched_ok(2) [OF _ i] by auto
  ultimately show ?thesis using loop_unwatched [OF assms(1) i] by blast
next
  case False
  then show ?thesis using assms by (simp add: ril_event_del_def get_ev_def)
qed

lemma loop_timer_add:
  assumes "loop_ok s ts ps" "idle s ev"
  shows "\<exists>s' ts'. ril_timer_add now ev tv s = Some s' \<and> loop_ok s' ts' ps
    \<and> set ts' = (if tv = None then set ts else insert ev (set ts))"
proof (cases tv)
  case None
  then show ?thesis using assms(1) by (auto simp: ril_timer_add_def)
next
  case (Some d)
  have ev: "ev \<notin> set (watched s) \<union> {0, timer_list, pending_list}" "ev \<notin> set ts \<union> set ps"
    using assms by (auto simp: idle_def loop_ok_def)
  have l: "lists s ts ps" using assms(1) by (simp add: loop_ok_def)
  have out: "ev \<notin> set ts \<union> set ps \<union> {0, timer_list, pending_list}" using ev by auto
  let ?t = "timeradd now d"
  let ?b = "takeWhile (timer_before ?t s) ts" and ?a = "dropWhile (timer_before ?t s) ts"
  let ?u = "linked ev (hd (?a @ [timer_list])) (due ev ?t s)"
  note add = timer_add_at [OF l out, of now d]
  have "table_ok (due ev ?t s)"
    using assms(1) ev by (subst table_cong [where s = s]) (auto simp: due_def loop_ok_def)
  then have "table_ok ?u" by (rule table_same(1)) (simp add: same_table_def)
  moreover have "watched ?u = watched s" by (simp add: watched_def due_def)
  moreover have "set (?b @ ev # ?a) = insert ev (set ts)"
    using arg_cong [OF takeWhile_dropWhile_id [of "timer_before ?t s" ts], of set] unfolding set_append by auto
  ultimately have "loop_ok ?u (?b @ ev # ?a) ps"
    using add(2) assms(1) ev unfolding loop_ok_def by auto
  then show ?thesis using add(1) Some \<open>set (?b @ ev # ?a) = _\<close> by auto
qed

section \<open>Ready descriptors\<close>

definition ready :: "int set \<Rightarrow> ril_state \<Rightarrow> nat \<Rightarrow> bool" where
  "ready rfds s e \<longleftrightarrow> e \<noteq> 0 \<and> ev_fd (evs s e) \<in> rfds"

definition same_call :: "(nat \<Rightarrow> ril_event) \<Rightarrow> (nat \<Rightarrow> ril_event) \<Rightarrow> bool" where
  "same_call m m' \<longleftrightarrow> (\<forall>a. ev_fd (m' a) = ev_fd (m a) \<and> ev_persist (m' a) = ev_persist (m a)
     \<and> ev_timeout (m' a) = ev_timeout (m a) \<and> ev_func (m' a) = ev_func (m a) \<and> ev_param (m' a) = ev_param (m a))"

lemma same_call_data: "same_data m m' \<Longrightarrow> same_call m m'"
  by (simp add: same_call_def same_data_def)

lemma same_call_trans [trans]: "same_call m m' \<Longrightarrow> same_call m' m'' \<Longrightarrow> same_call m m''"
  by (simp add: same_call_def)

lemma same_call_ready: "same_call (evs s) (evs s') \<Longrightarrow> ready rfds s' = ready rfds s"
  by (auto simp: same_call_def ready_def)

text \<open>One entry that is ready.\<close>

definition made_pending :: "nat \<Rightarrow> nat \<Rightarrow> ril_state \<Rightarrow> ril_state" where
  "made_pending e i s = (let u = linked e pending_list s in if ev_persist (evs s e) then u else unwatched e i u)"

lemma made_pending_at:
  assumes "loop_ok s ts ps" "i < MAX_FD_EVENTS" "watch_table s ! i = e" "e \<noteq> 0" "e \<notin> set ps"
  defines "u \<equiv> made_pending e i s"
  shows "loop_ok u ts (ps @ [e])" "same_call (evs s) (evs u)" "fired u = fired s"
    and "watched u = filter (\<lambda>a. ev_persist (evs s e) \<or> a \<noteq> e) (watched s)"
    and "\<And>j. j \<noteq> i \<Longrightarrow> watch_table u ! j = watch_table s ! j"
    and "ready_loop rfds (i # is) n s = (if n > 0 \<and> ready rfds s e then ready_loop rfds is (n - 1) u
      else if n > 0 then ready_loop rfds is n s else Some s)"
proof -
  let ?v = "linked e pending_list s"
  have "e \<in> set (watched s)" using assms by (auto simp: loop_ok_def table_ok_def in_watched)
  then have ts: "e \<notin> set ts" "e \<noteq> timer_list" "e \<noteq> pending_list" using assms(1-4) by (auto simp: loop_ok_def table_ok_def)
  have l: "lists s ts ps" "table_ok s" using assms(1) by (auto simp: loop_ok_def)
  note p = add_pending [OF l(1), of e]
  have st: "same_table s ?v" by (simp add: same_table_def)
  have v: "loop_ok ?v ts (ps @ [e])" using p(2) table_same [OF l(2) st] assms(1,4,5) ts by (auto simp: loop_ok_def)
  have vt: "watch_table ?v ! i = e" "watched ?v = watched s" using assms(3) table_same(2) [OF l(2) st] by simp_all
  have vp: "ev_persist (evs ?v e) = ev_persist (evs s e)" using link_data(1) [of s e pending_list] by (simp add: same_data_def)
  have sv: "same_call (evs s) (evs ?v)" by (intro same_call_data) simp
  show "loop_ok u ts (ps @ [e])"
    using v loop_unwatched [OF v assms(2) vt(1) assms(4)] by (simp add: u_def made_pending_def Let_def)
  have "same_call (evs ?v) (evs (unwatched e i ?v))" by (simp add: same_call_def)
  then show "same_call (evs s) (evs u)" using sv same_call_trans [OF sv] by (simp add: u_def made_pending_def Let_def)
  show "fired u = fired s" by (simp add: u_def made_pending_def Let_def)
  have "table_ok ?v" using v by (simp add: loop_ok_def)
  from unwatched_ok(2) [OF this assms(2) vt(1) assms(4)]
  show "watched u = filter (\<lambda>a. ev_persist (evs s e) \<or> a \<noteq> e) (watched s)"
    using vt(2) by (simp add: u_def made_pending_def Let_def)
  show "watch_table u ! j = watch_table s ! j" if "j \<noteq> i" for j using that by (simp add: u_def made_pending_def Let_def)
  have "addToList e pending_list s = Some ?v" using p(1) ts assms(4,5) by simp
  then show "ready_loop rfds (i # is) n s = (if n > 0 \<and> ready rfds s e then ready_loop rfds is (n - 1) u
      else if n > 0 then ready_loop rfds is n s else Some s)"
    using assms(3,4) vp removeWatch_unwatched [OF assms(4)]
    by (simp add: ready_def u_def made_pending_def Let_def)
qed

lemma ready_loop_at:
  fixes rfds :: "int set" and n :: int
  assumes "loop_ok s ts ps" "distinct ks" "\<And>i. i \<in> set ks \<Longrightarrow> i < MAX_FD_EVENTS \<and> watch_table s ! i \<notin> set ps"
  defines "hits \<equiv> take (nat n) (filter (ready rfds s) (map ((!) (watch_table s)) ks))"
  shows "\<exists>s'. ready_loop rfds ks n s = Some s' \<and> loop_ok s' ts (ps @ hits) \<and> same_call (evs s) (evs s') \<and> fired s' = fired s
    \<and> watched s' = filter (\<lambda>e. ev_persist (evs s e) \<or> e \<notin> set hits) (watched s)"
  using assms(1-3) unfolding hits_def
proof (induction ks arbitrary: s ps n)
  case Nil
  then show ?case by (simp add: same_call_def)
next
  case (Cons i ks)
  let ?e = "watch_table s ! i"
  consider (stop) "n \<le> 0" | (hit) "n > 0" "ready rfds s ?e" | (miss) "n > 0" "\<not> ready rfds s ?e" by linarith
  then show ?case
  proof cases
    case stop
    then show ?thesis using Cons.prems(1) by (simp add: same_call_def)
  next
    case miss
    have "ready_loop rfds (i # ks) n s = ready_loop rfds ks n s" using miss by (auto simp: ready_def)
    then show ?thesis using miss Cons.IH [of s ps n] Cons.prems by simp
  next
    case hit
    then have i: "i < MAX_FD_EVENTS" "?e \<noteq> 0" "?e \<notin> set ps" using Cons.prems(3) [of i] by (auto simp: ready_def)
    note p = made_pending_at [OF Cons.prems(1) i(1) refl i(2,3)]
    let ?u = "made_pending ?e i s"
    let ?H = "take (nat (n - 1)) (filter (ready rfds ?u) (map ((!) (watch_table ?u)) ks))"
    have other: "watch_table ?u ! j = watch_table s ! j" if "j \<in> set ks" for j
      using that Cons.prems(2) p(5) [of j] by auto
    have "watch_table ?u ! j \<notin> set (ps @ [?e])" if "j \<in> set ks" for j
    proof -
      have "watch_table s ! j \<noteq> ?e"
        using that Cons.prems i table_place [of s j i] by (auto simp: loop_ok_def)
      then show ?thesis using that Cons.prems(3) [of j] other by auto
    qed
    then obtain s' where s': "ready_loop rfds ks (n - 1) ?u = Some s'" "loop_ok s' ts ((ps @ [?e]) @ ?H)"
      "same_call (evs ?u) (evs s')" "fired s' = fired ?u"
      "watched s' = filter (\<lambda>e. ev_persist (evs ?u e) \<or> e \<notin> set ?H) (watched ?u)"
      using Cons.IH [OF p(1), of "n - 1"] Cons.prems(2,3) by auto
    have "nat n = Suc (nat (n - 1))" using hit by simp
    moreover have "map ((!) (watch_table ?u)) ks = map ((!) (watch_table s)) ks" using other by simp
    ultimately have H: "take (nat n) (filter (ready rfds s) (map ((!) (watch_table s)) (i # ks))) = ?e # ?H"
      using hit same_call_ready [OF p(2), of rfds] by (simp del: map_eq_conv)
    have pe: "ev_persist (evs ?u e) = ev_persist (evs s e)" for e using p(2) by (simp add: same_call_def)
    have "watched s' = filter (\<lambda>e. ev_persist (evs s e) \<or> e \<notin> set (?e # ?H)) (watched s)"
      unfolding s'(5) p(4) filter_filter pe by (intro filter_cong) auto
    then show ?thesis unfolding H
      using s'(1,2,4) same_call_trans [OF p(2) s'(3)] p(3) p(6) [of rfds ks n] hit by simp
  qed
qed

text \<open>Select returned the number of ready descriptors, all of them watched: none is missed.\<close>

lemma all_ready:
  assumes "table_ok s" "rfds \<subseteq> readFds s"
  shows "length (filter (ready rfds s) (watched s)) = card rfds"
proof -
  let ?l = "filter (ready rfds s) (watched s)"
  have "inj_on (\<lambda>e. ev_fd (evs s e)) (set ?l)" using assms(1) by (auto simp: table_ok_def inj_on_def)
  then have "distinct (map (\<lambda>e. ev_fd (evs s e)) ?l)" using watched_distinct [OF assms(1)] by (simp add: distinct_map)
  moreover have "set (map (\<lambda>e. ev_fd (evs s e)) ?l) = rfds"
    using assms by (auto simp: table_ok_def ready_def in_watched)
  ultimately show ?thesis using distinct_card length_map by metis
qed

lemma processReadReadies_at:
  fixes rfds :: "int set"
  assumes "loop_ok s ts ps" "set (watched s) \<inter> set ps = {}" "rfds \<subseteq> readFds s" "n = int (card rfds)"
  defines "hits \<equiv> filter (ready rfds s) (watched s)"
  shows "\<exists>s'. processReadReadies rfds n s = Some s' \<and> loop_ok s' ts (ps @ hits) \<and> same_call (evs s) (evs s') \<and> fired s' = fired s
    \<and> watched s' = filter (\<lambda>e. ev_persist (evs s e) \<or> e \<notin> set hits) (watched s)"
proof -
  have t: "table_ok s" and len: "length (watch_table s) = MAX_FD_EVENTS" using assms(1) by (auto simp: loop_ok_def table_ok_def)
  have all: "map ((!) (watch_table s)) [0..<MAX_FD_EVENTS] = watch_table s" using len map_nth [of "watch_table s"] by simp
  have h: "filter (ready rfds s) (watch_table s) = hits"
    unfolding hits_def watched_def filter_filter by (intro filter_cong) (auto simp: ready_def)
  have "nat n = length hits" using all_ready [OF t assms(3)] assms(4) by (simp add: hits_def)
  then have take: "take (nat n) (filter (ready rfds s) (map ((!) (watch_table s)) [0..<MAX_FD_EVENTS])) = hits"
    by (simp add: all h)
  have "watch_table s ! i \<notin> set ps" if "i < MAX_FD_EVENTS" for i
  proof (cases "watch_table s ! i = 0")
    case True
    then show ?thesis using lists_not_null [of s ts ps 0] assms(1) by (auto simp: loop_ok_def)
  next
    case False
    then have "watch_table s ! i \<in> set (watched s)" using that len by (auto simp: in_watched)
    then show ?thesis using assms(2) by blast
  qed
  then show ?thesis using ready_loop_at [OF assms(1), where ks = "[0..<MAX_FD_EVENTS]" and n = n and rfds = rfds] unfolding take
    by (simp add: processReadReadies_def)
qed

section \<open>Callbacks\<close>

definition call_of :: "(nat \<Rightarrow> ril_event) \<Rightarrow> nat \<Rightarrow> nat \<times> int \<times> nat" where
  "call_of m e = (ev_func (m e), ev_fd (m e), ev_param (m e))"

text \<open>
  What the loop relies on: a callback returns, leaves the remaining pending events alone and keeps the
  state well-formed; it is recorded. It may add, set and delete events.
\<close>

definition callback_ok :: "callback \<Rightarrow> bool" where
  "callback_ok call \<longleftrightarrow> (\<forall>f fd p s ts ps. loop_ok s ts ps \<longrightarrow>
     (\<exists>s' ts'. call f fd p s = Some s' \<and> loop_ok s' ts' ps \<and> fired s' = fired s @ [(f, fd, p)]
       \<and> map (call_of (evs s')) ps = map (call_of (evs s)) ps))"

lemma fire_from_at:
  assumes "callback_ok call" "loop_ok s ts ps"
  shows "\<exists>s' ts'. fire_from call (hd (ps @ [pending_list])) s = Some s' \<and> loop_ok s' ts' []
    \<and> fired s' = fired s @ map (call_of (evs s)) ps"
  using assms(2)
proof (induction ps arbitrary: s ts)
  case Nil
  then show ?case by (subst fire_from.simps) auto
next
  case (Cons e ps)
  have l: "lists s ts (e # ps)" using Cons.prems by (simp add: loop_ok_def)
  note t = take_pending [OF l]
  have e: "e \<noteq> 0" "e \<noteq> pending_list" using lists_not_null [OF l, of e] by auto
  let ?u = "unlinked e s"
  have "same_table s ?u" by (simp add: same_table_def)
  then have u: "loop_ok ?u ts ps" using t(2) table_same [of s ?u] Cons.prems by (simp add: loop_ok_def)
  have c: "call_of (evs ?u) = call_of (evs s)"
    using link_data(2) [of s e] by (auto simp: call_of_def same_data_def)
  obtain v tv where v: "call (ev_func (evs ?u e)) (ev_fd (evs ?u e)) (ev_param (evs ?u e)) ?u = Some v" "loop_ok v tv ps"
    "fired v = fired ?u @ [call_of (evs s) e]" "map (call_of (evs v)) ps = map (call_of (evs s)) ps"
    using assms(1) u unfolding callback_ok_def c [symmetric] call_of_def by blast
  obtain s' ts' where s': "fire_from call (hd (ps @ [pending_list])) v = Some s'" "loop_ok s' ts' []"
    "fired s' = fired v @ map (call_of (evs v)) ps"
    using Cons.IH [OF v(2)] by blast
  have "fire_from call e s = Some s'" using e t(1,3) v(1) s'(1)
    by (subst fire_from.simps) (simp add: get_ev_def)
  then show ?case using s'(2,3) v(3,4) by auto
qed

lemma firePending_at:
  assumes "callback_ok call" "loop_ok s ts ps"
  shows "\<exists>s' ts'. firePending call s = Some s' \<and> loop_ok s' ts' [] \<and> fired s' = fired s @ map (call_of (evs s)) ps"
proof -
  have "ring (evs s) pending_list ([] @ ps)" using assms(2) by (simp add: loop_ok_def lists_def)
  then have "ev_next (evs s pending_list) = hd (ps @ [pending_list])" unfolding ring_cut by simp
  then show ?thesis using fire_from_at [OF assms] by (simp add: firePending_def get_ev_def list_heads)
qed

text \<open>A turn: the timers that expired, then the ready descriptors.\<close>

lemma loop_turn_at:
  fixes rfds :: "int set" and now :: timeval
  assumes "callback_ok call" "loop_ok s ts []" "rfds \<subseteq> readFds s" "n = int (card rfds)"
  defines "late \<equiv> filter (expired now s) ts" and "hits \<equiv> filter (ready rfds s) (watched s)"
  shows "\<exists>s1 s2 s' ts'. processTimeouts now s = Some s1 \<and> processReadReadies rfds n s1 = Some s2
    \<and> loop_ok s2 (filter (\<lambda>e. \<not> expired now s e) ts) (late @ hits)
    \<and> watched s2 = filter (\<lambda>e. ev_persist (evs s e) \<or> e \<notin> set hits) (watched s)
    \<and> ril_event_loop_turn call now rfds n s = Some s' \<and> loop_ok s' ts' []
    \<and> fired s' = fired s @ map (call_of (evs s)) (late @ hits)"
proof -
  have l: "lists s ts []" "table_ok s" "set (watched s) \<inter> set ts = {}" using assms(2) by (auto simp: loop_ok_def)
  obtain s1 where s1: "processTimeouts now s = Some s1" "lists s1 (filter (\<lambda>e. \<not> expired now s e) ts) late" "same_table s s1"
    using processTimeouts_at [OF l(1), of now] by (auto simp: late_def)
  have w: "watched s1 = watched s" "table_ok s1" "readFds s1 = readFds s" "fired s1 = fired s"
    using table_same [OF l(2) s1(3)] s1(3) by (auto simp: same_table_def)
  have c1: "same_call (evs s) (evs s1)" using s1(3) by (auto simp: same_table_def intro: same_call_data)
  have o1: "loop_ok s1 (filter (\<lambda>e. \<not> expired now s e) ts) late" using s1(2) w l(3) by (auto simp: loop_ok_def)
  have "set (watched s1) \<inter> set late = {}" using l(3) w(1) by (auto simp: late_def)
  from processReadReadies_at [OF o1 this, of rfds n] obtain s2 where s2: "processReadReadies rfds n s1 = Some s2"
    "loop_ok s2 (filter (\<lambda>e. \<not> expired now s e) ts) (late @ hits)" "same_call (evs s1) (evs s2)" "fired s2 = fired s1"
    "watched s2 = filter (\<lambda>e. ev_persist (evs s1 e) \<or> e \<notin> set hits) (watched s1)"
    using assms(3,4) w same_call_ready [OF c1, of rfds] by (auto simp: hits_def)
  have "call_of (evs s2) = call_of (evs s)" using same_call_trans [OF c1 s2(3)] by (auto simp: call_of_def same_call_def)
  moreover have "ev_persist (evs s1 e) = ev_persist (evs s e)" for e using c1 by (simp add: same_call_def)
  moreover obtain s' ts' where "firePending call s2 = Some s'" "loop_ok s' ts' []"
    "fired s' = fired s2 @ map (call_of (evs s2)) (late @ hits)"
    using firePending_at [OF assms(1) s2(2)] by blast
  ultimately show ?thesis using s1(1) s2 w(1,4) by (auto simp: ril_event_loop_turn_def)
qed

section \<open>Every use of the module\<close>

text \<open>
  The states the daemon reaches: an event is set and added when it is idle, its descriptor is new, and an
  event that is deleted is watched or was set. Select answers with descriptors it was asked for.
\<close>

inductive ril_run :: "callback \<Rightarrow> ril_state \<Rightarrow> bool" for call where
  start: "nfds s = 0 \<Longrightarrow> ril_event_init s = Some s' \<Longrightarrow> ril_run call s'"
| sets: "ril_run call s \<Longrightarrow> idle s ev \<Longrightarrow> ril_event_set ev fd persist func param s = Some s' \<Longrightarrow> ril_run call s'"
| add: "ril_run call s \<Longrightarrow> idle s ev \<Longrightarrow> 0 \<le> ev_fd (evs s ev) \<Longrightarrow> ev_fd (evs s ev) \<notin> readFds s
    \<Longrightarrow> ril_event_add ev s = Some s' \<Longrightarrow> ril_run call s'"
| timer: "ril_run call s \<Longrightarrow> idle s ev \<Longrightarrow> ril_timer_add now ev tv s = Some s' \<Longrightarrow> ril_run call s'"
| del: "ril_run call s \<Longrightarrow> ev \<in> set (watched s) \<or> ev \<noteq> 0 \<and> ev_index (evs s ev) < 0
    \<Longrightarrow> ril_event_del ev s = Some s' \<Longrightarrow> ril_run call s'"
| turn: "ril_run call s \<Longrightarrow> rfds \<subseteq> readFds s \<Longrightarrow> ril_event_loop_turn call now rfds (int (card rfds)) s = Some s'
    \<Longrightarrow> ril_run call s'"

lemma ril_run_ok:
  assumes "ril_run call s" "callback_ok call"
  shows "\<exists>ts. loop_ok s ts []"
  using assms
proof (induction rule: ril_run.induct)
  case (start s s')
  then show ?case using loop_init [of s] by auto
next
  case (sets s ev fd persist func param s')
  then show ?case using loop_set [of s _ "[]" ev fd persist func param] by fastforce
next
  case (add s ev s')
  then show ?case using loop_add [of s _ "[]" ev] by fastforce
next
  case (timer s ev now tv s')
  then show ?case using loop_timer_add [of s _ "[]" ev now tv] by fastforce
next
  case (del s ev s')
  then show ?case using loop_del [of s _ "[]" ev] by fastforce
next
  case (turn s rfds now s')
  then obtain ts where "loop_ok s ts []" by blast
  then show ?case using loop_turn_at [of call s ts rfds "int (card rfds)" now] turn by auto
qed

text \<open>The links determine the two lists.\<close>

lemma chain_unique:
  "chain m (a # xs @ [h]) \<Longrightarrow> chain m (a # ys @ [h]) \<Longrightarrow> h \<notin> set xs \<Longrightarrow> h \<notin> set ys \<Longrightarrow> xs = ys"
proof (induction xs arbitrary: a ys)
  case Nil
  then show ?case by (cases ys) auto
next
  case (Cons x xs)
  then show ?case by (cases ys) auto
qed

lemma lists_unique: "lists s ts ps \<Longrightarrow> lists s us qs \<Longrightarrow> ts = us \<and> ps = qs"
  using chain_unique [of "evs s" timer_list ts timer_list us] chain_unique [of "evs s" pending_list ps pending_list qs]
  by (simp add: lists_def ring_def)

lemma idle_loop: "loop_ok s ts ps \<Longrightarrow> idle s e \<longleftrightarrow> e \<notin> set (watched s) \<union> {0, timer_list, pending_list} \<union> set ts \<union> set ps"
  using lists_unique unfolding loop_ok_def idle_def by blast

text \<open>A callback that does no more than being called.\<close>

definition note_call :: callback where
  "note_call f fd p s = Some (s\<lparr>fired := fired s @ [(f, fd, p)]\<rparr>)"

lemma note_call_ok: "callback_ok note_call"
  unfolding callback_ok_def
proof (intro allI impI exI conjI)
  fix f p :: nat and fd :: int and s :: ril_state and ts ps :: "nat list"
  assume l: "loop_ok s ts ps"
  let ?s = "s\<lparr>fired := fired s @ [(f, fd, p)]\<rparr>"
  show "note_call f fd p s = Some ?s" by (simp add: note_call_def)
  have "lists ?s ts ps" "table_ok ?s" using l lists_cong [of ts ps ?s s] table_cong [of ?s s] by (auto simp: loop_ok_def)
  then show "loop_ok ?s ts ps" using l by (simp add: loop_ok_def watched_def)
qed simp_all

text \<open>A callback that deletes the event of its descriptor, as a connection that ended does.\<close>

definition delete_call :: callback where
  "delete_call f fd p s = (case find_index (\<lambda>e. e \<noteq> 0 \<and> ev_fd (evs s e) = fd) (watch_table s) of
     None \<Rightarrow> note_call f fd p s
   | Some i \<Rightarrow> do { s1 \<leftarrow> ril_event_del (watch_table s ! i) s; note_call f fd p s1 })"

lemma delete_call_ok: "callback_ok delete_call"
  unfolding callback_ok_def
proof (intro allI impI)
  fix f p :: nat and fd :: int and s :: ril_state and ts ps :: "nat list"
  assume l: "loop_ok s ts ps"
  have called: "\<exists>s' ts'. note_call f fd p u = Some s' \<and> loop_ok s' ts' ps \<and> fired s' = fired u @ [(f, fd, p)]
    \<and> map (call_of (evs s')) ps = map (call_of (evs u)) ps" if "loop_ok u ts ps" for u
    using note_call_ok that unfolding callback_ok_def by blast
  show "\<exists>s' ts'. delete_call f fd p s = Some s' \<and> loop_ok s' ts' ps \<and> fired s' = fired s @ [(f, fd, p)]
    \<and> map (call_of (evs s')) ps = map (call_of (evs s)) ps"
  proof (cases "find_index (\<lambda>e. e \<noteq> 0 \<and> ev_fd (evs s e) = fd) (watch_table s)")
    case None
    then show ?thesis using called [OF l] by (simp add: delete_call_def)
  next
    case (Some i)
    then have i: "i < MAX_FD_EVENTS" "watch_table s ! i \<noteq> 0"
      using l by (auto simp: find_index_Some loop_ok_def table_ok_def)
    let ?u = "unwatched (watch_table s ! i) i s"
    have u: "loop_ok ?u ts ps" by (rule loop_unwatched [OF l i(1) refl i(2)])
    have "ev_index (evs s (watch_table s ! i)) = int i" using i l by (simp add: loop_ok_def table_ok_def)
    then have "ril_event_del (watch_table s ! i) s = Some ?u"
      using i by (simp add: ril_event_del_def get_ev_def removeWatch_unwatched)
    moreover have "call_of (evs ?u) = call_of (evs s)" by (auto simp: call_of_def)
    ultimately show ?thesis using called [OF u] Some by (simp add: delete_call_def)
  qed
qed

section \<open>The loop of the daemon\<close>


text \<open>
  What the loop asks select for, in every state the daemon reaches: the descriptors of the watched
  events, which are distinct, at most eight, and all below \<open>nfds\<close>; and to wait no longer than to the
  earliest deadline, at once if that has come, without a limit only if no timer is armed.
\<close>

theorem select_waits_for_all:
  assumes "ril_run call s" "callback_ok call"
  shows "\<exists>ts. lists s ts [] \<and> readFds s = (\<lambda>e. ev_fd (evs s e)) ` set (watched s) \<and> card (readFds s) = length (watched s)
    \<and> length (watched s) \<le> MAX_FD_EVENTS \<and> (\<forall>fd \<in> readFds s. 0 \<le> fd \<and> fd < nfds s)
    \<and> (calcNextTimeout now s = None \<longleftrightarrow> ts = [])
    \<and> (ts \<noteq> [] \<longrightarrow> (\<forall>e \<in> set ts. \<not> earlier (ev_timeout (evs s e)) (ev_timeout (evs s (hd ts))))
        \<and> calcNextTimeout now s = Some (if earlier now (ev_timeout (evs s (hd ts)))
            then timersub (ev_timeout (evs s (hd ts))) now else (0, 0)))"
proof -
  obtain ts where ts: "loop_ok s ts []" using ril_run_ok assms(1,2) by blast
  then have l: "lists s ts []" and t: "table_ok s" by (auto simp: loop_ok_def)
  have "ring (evs s) timer_list ([] @ ts)" using l by (simp add: lists_def)
  then have n: "ev_next (evs s timer_list) = hd (ts @ [timer_list])" unfolding ring_cut by simp
  have h: "hd ts \<noteq> timer_list" if "ts \<noteq> []" using that lists_not_null [OF l, of "hd ts"] by simp
  have "card (readFds s) = length (watched s)"
    using t watched_distinct [OF t] card_image [of "\<lambda>e. ev_fd (evs s e)" "set (watched s)"]
    by (simp add: table_ok_def distinct_card)
  moreover have "length (watched s) \<le> MAX_FD_EVENTS"
    using t length_filter_le [of "\<lambda>e. e \<noteq> 0" "watch_table s"] by (simp add: watched_def table_ok_def)
  moreover have "\<not> earlier (ev_timeout (evs s e)) (ev_timeout (evs s (hd ts)))" if "e \<in> set ts" for e
    using that l earlier_asym by (cases ts) (auto simp: lists_def by_deadline_def)
  moreover have "hd (ts @ [timer_list]) = (if ts = [] then timer_list else hd ts)" by simp
  ultimately show ?thesis using l t n h by (intro exI [of _ ts]) (auto simp: table_ok_def calcNextTimeout_def Let_def)
qed

section \<open>Examples\<close>

declare timer_place.simps [code] expire_timers.simps [code] fire_from.simps [code]

text \<open>Event 5 watches descriptor 3, event 6 is a timer of two seconds set at the fifth second.\<close>

definition demo_boot :: ril_state where
  "demo_boot = \<lparr>evs = \<lambda>_. zero_event, watch_table = [], readFds = {}, nfds = 0, fired = []\<rparr>"

definition demo_steps :: "(ril_state \<Rightarrow> ril_state option) list" where
  "demo_steps = [ril_event_init, ril_event_set 5 3 False 11 12, ril_event_add 5, ril_event_set 6 (-1) False 21 22,
     ril_timer_add (5, 0) 6 (Some (2, 0))]"

definition demo :: "nat \<Rightarrow> ril_state" where
  "demo n = foldl (\<lambda>s f. the (f s)) demo_boot (take n demo_steps)"

lemma demo_defined:
  "ril_event_init (demo 0) \<noteq> None" "ril_event_set 5 3 False 11 12 (demo 1) \<noteq> None" "ril_event_add 5 (demo 2) \<noteq> None"
  "ril_event_set 6 (-1) False 21 22 (demo 3) \<noteq> None" "ril_timer_add (5, 0) 6 (Some (2, 0)) (demo 4) \<noteq> None"
  by code_simp+

lemma demo_data:
  "watched (demo 1) = []" "watched (demo 2) = []" "watched (demo 3) = [5]" "watched (demo 4) = [5]" "readFds (demo 2) = {}"
  "ev_fd (evs (demo 2) 5) = 3" "nfds (demo 0) = 0" "readFds (demo 5) = {3}" "(5::nat) \<noteq> timer_list \<and> (5::nat) \<noteq> pending_list"
  "(6::nat) \<noteq> timer_list \<and> (6::nat) \<noteq> pending_list"
  by code_simp+

lemma demo_step:
  "ril_event_init (demo 0) = Some (demo 1)" "ril_event_set 5 3 False 11 12 (demo 1) = Some (demo 2)"
  "ril_event_add 5 (demo 2) = Some (demo 3)" "ril_event_set 6 (-1) False 21 22 (demo 3) = Some (demo 4)"
  "ril_timer_add (5, 0) 6 (Some (2, 0)) (demo 4) = Some (demo 5)"
  using demo_defined by (auto simp: demo_def demo_steps_def)

lemma demo_run: "ril_run call (demo 5)"
proof -
  have 1: "ril_run call (demo 1)" "loop_ok (demo 1) [] []"
    using ril_run.start [OF demo_data(7) demo_step(1)] loop_init [of "demo 0"] demo_data(7) demo_step(1) by auto
  have i1: "idle (demo 1) 5" using idle_loop [OF 1(2)] demo_data by simp
  have 2: "ril_run call (demo 2)" "loop_ok (demo 2) [] []"
    using ril_run.sets [OF 1(1) i1 demo_step(2)] loop_set [OF 1(2) i1, of 3 False 11 12] demo_step(2) by auto
  have i2: "idle (demo 2) 5" using idle_loop [OF 2(2)] demo_data by simp
  have 3: "ril_run call (demo 3)" "loop_ok (demo 3) [] []"
    using ril_run.add [OF 2(1) i2 _ _ demo_step(3)] loop_add [OF 2(2) i2] demo_step(3) demo_data by auto
  have i3: "idle (demo 3) 6" using idle_loop [OF 3(2)] demo_data by simp
  have 4: "ril_run call (demo 4)" "loop_ok (demo 4) [] []"
    using ril_run.sets [OF 3(1) i3 demo_step(4)] loop_set [OF 3(2) i3, of "-1" False 21 22] demo_step(4) by auto
  have i4: "idle (demo 4) 6" using idle_loop [OF 4(2)] demo_data by simp
  show ?thesis by (rule ril_run.timer [OF 4(1) i4 demo_step(5)])
qed


lemma select_waits_for_all_witness:
  "\<exists>ts. lists (demo 5) ts [] \<and> readFds (demo 5) = (\<lambda>e. ev_fd (evs (demo 5) e)) ` set (watched (demo 5))
    \<and> card (readFds (demo 5)) = length (watched (demo 5)) \<and> length (watched (demo 5)) \<le> MAX_FD_EVENTS
    \<and> (\<forall>fd \<in> readFds (demo 5). 0 \<le> fd \<and> fd < nfds (demo 5)) \<and> (calcNextTimeout (5, 5) (demo 5) = None \<longleftrightarrow> ts = [])
    \<and> (ts \<noteq> [] \<longrightarrow> (\<forall>e \<in> set ts. \<not> earlier (ev_timeout (evs (demo 5) e)) (ev_timeout (evs (demo 5) (hd ts))))
        \<and> calcNextTimeout (5, 5) (demo 5) = Some (if earlier (5, 5) (ev_timeout (evs (demo 5) (hd ts)))
            then timersub (ev_timeout (evs (demo 5) (hd ts))) (5, 5) else (0, 0)))"
  by (rule select_waits_for_all [OF demo_run delete_call_ok])

end
