(* ===== verification/RilParcel.thy ===== *)
theory RilParcel
  imports Prelude "HOL-Library.State_Monad"
begin

text \<open>
  What the radio interface layer (ril/ril-legacy/libril/ril.cpp) does with a Binder parcel, and the
  structures of telephony/ril.h, ril_cdma_sms.h and ril_msim.h it carries. The class \<open>Parcel\<close> and the
  conversions between UTF-8 and UTF-16 belong to libraries outside the tree: they are the record
  \<open>parcel_env\<close>, an argument of every function, and \<open>parcel_laws\<close> states what the theorems use of them.
  An int is a 32-bit word, a \<open>char *\<close> an optional list of bytes, None for NULL.
\<close>

section \<open>Parcels\<close>

type_synonym cstr = "byte list option"

text \<open>
  A read returns None when there is too little data, and then leaves the variable it was given alone.
  \<open>junk32\<close> and \<open>junk8\<close> are the contents of local variables that are not initialised, \<open>stack_room\<close> is the
  number of bytes a function can allocate on its stack.
\<close>

record 'p parcel_env =
  new_parcel :: 'p
  setData :: "byte list \<Rightarrow> 'p \<Rightarrow> 'p"
  parcel_data :: "'p \<Rightarrow> byte list"
  dataPosition :: "'p \<Rightarrow> nat"
  setDataPosition :: "nat \<Rightarrow> 'p \<Rightarrow> 'p"
  appendFrom :: "'p \<Rightarrow> nat \<Rightarrow> nat \<Rightarrow> 'p \<Rightarrow> 'p"
  read_i32 :: "'p \<Rightarrow> u32 option \<times> 'p"
  read_raw :: "nat \<Rightarrow> 'p \<Rightarrow> byte list option \<times> 'p"
  read_inplace :: "u32 \<Rightarrow> 'p \<Rightarrow> byte list option \<times> 'p"
  read_string16 :: "'p \<Rightarrow> u16 list option \<times> 'p"
  write_i32 :: "u32 \<Rightarrow> 'p \<Rightarrow> 'p"
  write_i64 :: "u64 \<Rightarrow> 'p \<Rightarrow> 'p"
  write_raw :: "byte list \<Rightarrow> 'p \<Rightarrow> 'p"
  write_string16 :: "u16 list option \<Rightarrow> 'p \<Rightarrow> 'p"
  strndup16to8 :: "u16 list \<Rightarrow> byte list"
  strdup8to16 :: "byte list \<Rightarrow> u16 list"
  junk32 :: u32
  junk8 :: byte
  stack_room :: nat

text \<open>
  A function that reads a parcel: its locals \<open>t\<close>, \<open>ut\<close> and \<open>status\<close>, and how many strings it has allocated.
\<close>

record 'p reader =
  parcel :: 'p
  loc_t :: u32
  loc_ut :: byte
  no_error :: bool
  strdups :: nat

definition reader0 :: "'p parcel_env \<Rightarrow> 'p \<Rightarrow> 'p reader" where
  "reader0 E p = \<lparr>parcel = p, loc_t = junk32 E, loc_ut = junk8 E, no_error = True, strdups = 0\<rparr>"

text \<open>\<open>status = p.readInt32(&t)\<close>, with the value of t after it\<close>

definition readInt32 :: "'p parcel_env \<Rightarrow> ('p reader, u32) state" where
  "readInt32 E = State (\<lambda>r. case read_i32 E (parcel r) of
       (None, q) \<Rightarrow> (loc_t r, r\<lparr>parcel := q, no_error := False\<rparr>)
     | (Some v, q) \<Rightarrow> (v, r\<lparr>parcel := q, loc_t := v, no_error := True\<rparr>))"

text \<open>\<open>status = p.readInt32(&v)\<close> for another variable that is not initialised\<close>

definition readVar :: "'p parcel_env \<Rightarrow> ('p reader, u32) state" where
  "readVar E = State (\<lambda>r. case read_i32 E (parcel r) of
       (None, q) \<Rightarrow> (junk32 E, r\<lparr>parcel := q, no_error := False\<rparr>)
     | (Some v, q) \<Rightarrow> (v, r\<lparr>parcel := q, no_error := True\<rparr>))"

text \<open>\<open>status = p.read(&ut, sizeof(ut))\<close>\<close>

definition readByte :: "'p parcel_env \<Rightarrow> ('p reader, byte) state" where
  "readByte E = State (\<lambda>r. case read_raw E 1 (parcel r) of
       (Some [v], q) \<Rightarrow> (v, r\<lparr>parcel := q, loc_ut := v, no_error := True\<rparr>)
     | (_, q) \<Rightarrow> (loc_ut r, r\<lparr>parcel := q, no_error := False\<rparr>))"

definition strdupReadString :: "'p parcel_env \<Rightarrow> ('p reader, cstr) state" where
  "strdupReadString E = State (\<lambda>r. case read_string16 E (parcel r) of
       (None, q) \<Rightarrow> (None, r\<lparr>parcel := q\<rparr>)
     | (Some w, q) \<Rightarrow> (Some (strndup16to8 E w), r\<lparr>parcel := q, strdups := strdups r + 1\<rparr>))"

text \<open>\<open>p.readInplace(len)\<close>\<close>

definition readInplace :: "'p parcel_env \<Rightarrow> u32 \<Rightarrow> ('p reader, byte list option) state" where
  "readInplace E n = State (\<lambda>r. case read_inplace E n (parcel r) of (v, q) \<Rightarrow> (v, r\<lparr>parcel := q\<rparr>))"

definition status_ok :: "('p reader, bool) state" where
  "status_ok = State (\<lambda>r. (no_error r, r))"

fun readBytes :: "'p parcel_env \<Rightarrow> nat \<Rightarrow> ('p reader, byte list) state" where
  "readBytes E 0 = State_Monad.return []"
| "readBytes E (Suc n) = do { b \<leftarrow> readByte E; bs \<leftarrow> readBytes E n; State_Monad.return (b # bs) }"

fun readStrings :: "'p parcel_env \<Rightarrow> nat \<Rightarrow> ('p reader, cstr list) state" where
  "readStrings E 0 = State_Monad.return []"
| "readStrings E (Suc n) = do { s \<leftarrow> strdupReadString E; ss \<leftarrow> readStrings E n; State_Monad.return (s # ss) }"

text \<open>What is written: an int, a string by \<open>writeStringToParcel\<close>, bytes.\<close>

datatype parcel_item =
    PInt u32
  | PStr cstr
  | PRaw "byte list"

definition writeStringToParcel :: "'p parcel_env \<Rightarrow> cstr \<Rightarrow> 'p \<Rightarrow> 'p" where
  "writeStringToParcel E s p = write_string16 E (map_option (strdup8to16 E) s) p"

fun write_item :: "'p parcel_env \<Rightarrow> parcel_item \<Rightarrow> 'p \<Rightarrow> 'p" where
  "write_item E (PInt v) p = write_i32 E v p"
| "write_item E (PStr s) p = writeStringToParcel E s p"
| "write_item E (PRaw b) p = write_raw E b p"

definition writes :: "'p parcel_env \<Rightarrow> parcel_item list \<Rightarrow> 'p \<Rightarrow> 'p" where
  "writes E xs p = fold (write_item E) xs p"

section \<open>What the library promises\<close>

definition at_end :: "'p parcel_env \<Rightarrow> 'p \<Rightarrow> bool" where
  "at_end E p \<longleftrightarrow> dataPosition E p = length (parcel_data E p)"

text \<open>Strings the two conversions keep, and of a length that an int can hold: ASCII characters other than 0.\<close>

definition plain :: "cstr \<Rightarrow> bool" where
  "plain s \<longleftrightarrow> (case s of None \<Rightarrow> True | Some cs \<Rightarrow> length cs < 2 ^ 28 \<and> (\<forall>c \<in> set cs. 0 < c \<and> c < 0x80))"

text \<open>
  An item is written behind what is there, in a form \<open>enc\<close>; \<open>left\<close> is what is left to be read. Data that
  was written is read back item for item; a read of an int or a byte at the end fails.
\<close>

definition parcel_laws :: "'p parcel_env \<Rightarrow> (parcel_item \<Rightarrow> byte list) \<Rightarrow> ('p \<Rightarrow> byte list) \<Rightarrow> bool" where
  "parcel_laws E enc left \<longleftrightarrow>
     parcel_data E (new_parcel E) = [] \<and> at_end E (new_parcel E)
   \<and> (\<forall>p x. at_end E p \<longrightarrow> parcel_data E (write_item E x p) = parcel_data E p @ enc x \<and> at_end E (write_item E x p))
   \<and> (\<forall>b p. left (setData E b p) = b)
   \<and> (\<forall>p v r. left p = enc (PInt v) @ r \<longrightarrow> (\<exists>q. read_i32 E p = (Some v, q) \<and> left q = r))
   \<and> (\<forall>p b r. left p = enc (PRaw b) @ r \<longrightarrow>
        (\<exists>q. read_raw E (length b) p = (Some b, q) \<and> left q = r)
      \<and> (length b < 2 ^ 31 \<longrightarrow> (\<exists>q. read_inplace E (of_nat (length b)) p = (Some b, q) \<and> left q = r)))
   \<and> (\<forall>p s r. plain s \<and> left p = enc (PStr s) @ r \<longrightarrow> (\<exists>q. read_string16 E p = (map_option (strdup8to16 E) s, q) \<and> left q = r))
   \<and> (\<forall>p. left p = [] \<longrightarrow> (\<exists>q. read_i32 E p = (None, q) \<and> left q = []) \<and> (\<exists>q. read_raw E 1 p = (None, q) \<and> left q = [])
        \<and> (\<exists>q. read_string16 E p = (None, q) \<and> left q = []))
   \<and> (\<forall>s. plain (Some s) \<longrightarrow> strndup16to8 E (strdup8to16 E s) = s)"

text \<open>A reading function that takes exactly the items \<open>items\<close>, allocates \<open>n\<close> strings and returns \<open>v\<close>.\<close>

definition takes :: "(parcel_item \<Rightarrow> byte list) \<Rightarrow> ('p \<Rightarrow> byte list) \<Rightarrow> ('p reader, 'a) state \<Rightarrow> parcel_item list \<Rightarrow> nat \<Rightarrow> 'a \<Rightarrow> bool" where
  "takes enc left m items n v \<longleftrightarrow> (\<forall>(r :: 'p reader) rest. left (parcel r) = concat (map enc items) @ rest \<and> no_error r \<longrightarrow>
     (\<exists>r'. run_state m r = (v, r') \<and> left (parcel r') = rest \<and> no_error r' \<and> strdups r' = strdups r + n))"

named_theorems taking

lemma takes_return [taking]: "takes enc left (State_Monad.return v) [] 0 v"
  by (simp add: takes_def)

lemma takes_bind:
  assumes "takes enc left m items n v" "takes enc left (f v) js k w"
  shows "takes enc left (State_Monad.bind m f) (items @ js) (n + k) w"
  unfolding takes_def
proof (intro allI impI)
  fix r :: "'a reader" and rest
  assume r: "left (parcel r) = concat (map enc (items @ js)) @ rest \<and> no_error r"
  then obtain r1 where r1: "run_state m r = (v, r1)" "left (parcel r1) = concat (map enc js) @ rest" "no_error r1"
    "strdups r1 = strdups r + n"
    using assms(1) unfolding takes_def by fastforce
  then obtain r2 where "run_state (f v) r1 = (w, r2)" "left (parcel r2) = rest" "no_error r2" "strdups r2 = strdups r1 + k"
    using assms(2) unfolding takes_def by blast
  then show "\<exists>r'. run_state (State_Monad.bind m f) r = (w, r') \<and> left (parcel r') = rest \<and> no_error r'
    \<and> strdups r' = strdups r + (n + k)"
    using r1 by simp
qed

text \<open>The laws one by one.\<close>

lemma law_new: "parcel_laws E enc left \<Longrightarrow> parcel_data E (new_parcel E) = [] \<and> at_end E (new_parcel E)"
  by (simp add: parcel_laws_def)

lemma law_write: "parcel_laws E enc left \<Longrightarrow> at_end E p \<Longrightarrow>
    parcel_data E (write_item E x p) = parcel_data E p @ enc x \<and> at_end E (write_item E x p)"
  by (simp add: parcel_laws_def)

lemma law_setData: "parcel_laws E enc left \<Longrightarrow> left (setData E b p) = b"
  by (simp add: parcel_laws_def)

lemma law_int:
  assumes "parcel_laws E enc left" "left p = enc (PInt v) @ r"
  obtains q where "read_i32 E p = (Some v, q)" "left q = r"
  using assms unfolding parcel_laws_def by blast

lemma law_raw:
  assumes "parcel_laws E enc left" "left p = enc (PRaw b) @ r"
  obtains q where "read_raw E (length b) p = (Some b, q)" "left q = r"
  using assms unfolding parcel_laws_def by blast

lemma law_inplace:
  assumes "parcel_laws E enc left" "left p = enc (PRaw b) @ r" "length b < 2 ^ 31"
  obtains q where "read_inplace E (of_nat (length b)) p = (Some b, q)" "left q = r"
  using assms unfolding parcel_laws_def by blast

lemma law_str:
  assumes "parcel_laws E enc left" "plain s" "left p = enc (PStr s) @ r"
  obtains q where "read_string16 E p = (map_option (strdup8to16 E) s, q)" "left q = r"
  using assms unfolding parcel_laws_def by blast

lemma law_empty:
  assumes "parcel_laws E enc left" "left p = []"
  shows "\<exists>q. read_i32 E p = (None, q) \<and> left q = []" "\<exists>q. read_raw E 1 p = (None, q) \<and> left q = []"
    "\<exists>q. read_string16 E p = (None, q) \<and> left q = []"
  using assms by (simp_all add: parcel_laws_def)

lemma law_plain: "parcel_laws E enc left \<Longrightarrow> plain (Some s) \<Longrightarrow> strndup16to8 E (strdup8to16 E s) = s"
  by (simp add: parcel_laws_def)

lemma takes_Int:
  assumes "parcel_laws E enc left"
  shows "takes enc left (readInt32 E) [PInt v] 0 v"
  unfolding takes_def
proof (intro allI impI)
  fix r :: "'a reader" and rest
  assume "left (parcel r) = concat (map enc [PInt v]) @ rest \<and> no_error r"
  then have "left (parcel r) = enc (PInt v) @ rest" by simp
  from law_int [OF assms this] obtain q where "read_i32 E (parcel r) = (Some v, q)" "left q = rest" .
  then show "\<exists>r'. run_state (readInt32 E) r = (v, r') \<and> left (parcel r') = rest \<and> no_error r' \<and> strdups r' = strdups r + 0"
    by (simp add: readInt32_def)
qed

lemma takes_Var:
  assumes "parcel_laws E enc left"
  shows "takes enc left (readVar E) [PInt v] 0 v"
  unfolding takes_def
proof (intro allI impI)
  fix r :: "'a reader" and rest
  assume "left (parcel r) = concat (map enc [PInt v]) @ rest \<and> no_error r"
  then have "left (parcel r) = enc (PInt v) @ rest" by simp
  from law_int [OF assms this] obtain q where "read_i32 E (parcel r) = (Some v, q)" "left q = rest" .
  then show "\<exists>r'. run_state (readVar E) r = (v, r') \<and> left (parcel r') = rest \<and> no_error r' \<and> strdups r' = strdups r + 0"
    by (simp add: readVar_def)
qed

lemma takes_Byte:
  assumes "parcel_laws E enc left"
  shows "takes enc left (readByte E) [PRaw [b]] 0 b"
  unfolding takes_def
proof (intro allI impI)
  fix r :: "'a reader" and rest
  assume "left (parcel r) = concat (map enc [PRaw [b]]) @ rest \<and> no_error r"
  then have "left (parcel r) = enc (PRaw [b]) @ rest" by simp
  from law_raw [OF assms this] obtain q where "read_raw E (length [b]) (parcel r) = (Some [b], q)" "left q = rest" .
  then show "\<exists>r'. run_state (readByte E) r = (b, r') \<and> left (parcel r') = rest \<and> no_error r' \<and> strdups r' = strdups r + 0"
    by (simp add: readByte_def)
qed

lemma takes_Str:
  assumes "parcel_laws E enc left" "plain s"
  shows "takes enc left (strdupReadString E) [PStr s] (if s = None then 0 else 1) s"
  unfolding takes_def
proof (intro allI impI)
  fix r :: "'a reader" and rest
  assume r: "left (parcel r) = concat (map enc [PStr s]) @ rest \<and> no_error r"
  then have "left (parcel r) = enc (PStr s) @ rest" by simp
  from law_str [OF assms this] obtain q where
    q: "read_string16 E (parcel r) = (map_option (strdup8to16 E) s, q)" "left q = rest" .
  show "\<exists>r'. run_state (strdupReadString E) r = (s, r') \<and> left (parcel r') = rest \<and> no_error r'
    \<and> strdups r' = strdups r + (if s = None then 0 else 1)"
    using q r law_plain [OF assms(1)] assms(2) by (cases s) (auto simp: strdupReadString_def)
qed

lemma takes_Bytes:
  assumes "parcel_laws E enc left"
  shows "takes enc left (readBytes E (length bs)) (map (\<lambda>b. PRaw [b]) bs) 0 bs"
proof (induction bs)
  case (Cons b bs)
  have "takes enc left (State_Monad.bind (readBytes E (length bs)) (\<lambda>bs. State_Monad.return (b # bs)))
    (map (\<lambda>b. PRaw [b]) bs @ []) (0 + 0) (b # bs)"
    by (intro takes_bind [OF Cons.IH] takes_return)
  from takes_bind [OF takes_Byte [OF assms, of b], of "\<lambda>b. State_Monad.bind (readBytes E (length bs)) (\<lambda>bs. State_Monad.return (b # bs))", OF this]
  show ?case by simp
qed (simp add: takes_return)

lemma writes_at_end:
  assumes "parcel_laws E enc left" "at_end E p"
  shows "parcel_data E (writes E items p) = parcel_data E p @ concat (map enc items)" "at_end E (writes E items p)"
proof -
  have "parcel_data E (fold (write_item E) items p) = parcel_data E p @ concat (map enc items) \<and> at_end E (fold (write_item E) items p)"
    using assms(2)
  proof (induction items arbitrary: p)
    case (Cons x ks)
    then show ?case using law_write [OF assms(1) Cons.prems, of x] by simp
  qed simp
  then show "parcel_data E (writes E items p) = parcel_data E p @ concat (map enc items)" "at_end E (writes E items p)"
    by (simp_all add: writes_def)
qed

end
