(* ===== verification/RilData.thy ===== *)
theory RilData
  imports RilParcel
begin

text \<open>
  The structures of telephony/ril.h, ril_cdma_sms.h and ril_msim.h that requests and responses of the
  radio interface layer carry, and \<open>ril_data\<close>, what a \<open>void *\<close> parameter points to. A pointer to a
  structure inside another one is an option, an array of pointers or structures a list, an array of
  fixed length a list of that length, a plain char an unsigned byte, as on this processor. The sizes
  are those of 32-bit code.
\<close>

section \<open>Requests\<close>

record RIL_UUS_Info =
  uusType :: u32
  uusDcs :: u32
  uusLength :: u32
  uusData :: "byte list option"

record RIL_Dial =
  dial_address :: cstr
  dial_clir :: u32
  dial_uusInfo :: "RIL_UUS_Info option"

record RIL_SIM_IO =
  io_cla :: u32
  io_command :: u32
  io_fileid :: u32
  io_path :: cstr
  io_p1 :: u32
  io_p2 :: u32
  io_p3 :: u32
  io_data :: cstr
  io_pin2 :: cstr
  io_aidPtr :: cstr

record RIL_CallForwardInfo =
  cf_status :: u32
  cf_reason :: u32
  cf_serviceClass :: u32
  cf_toa :: u32
  cf_number :: cstr
  cf_timeSeconds :: u32

record RIL_SMS_WriteArgs =
  sw_status :: u32
  sw_pdu :: cstr
  sw_smsc :: cstr

definition RIL_CDMA_SMS_ADDRESS_MAX :: nat where "RIL_CDMA_SMS_ADDRESS_MAX = 36"
definition RIL_CDMA_SMS_SUBADDRESS_MAX :: nat where "RIL_CDMA_SMS_SUBADDRESS_MAX = 36"
definition RIL_CDMA_SMS_BEARER_DATA_MAX :: nat where "RIL_CDMA_SMS_BEARER_DATA_MAX = 255"

lemmas cdma_limits = RIL_CDMA_SMS_ADDRESS_MAX_def RIL_CDMA_SMS_SUBADDRESS_MAX_def RIL_CDMA_SMS_BEARER_DATA_MAX_def

record RIL_CDMA_SMS_Address =
  digit_mode :: u32
  number_mode :: u32
  ad_number_type :: u32
  ad_number_plan :: u32
  ad_number_of_digits :: byte
  ad_digits :: "byte list"

record RIL_CDMA_SMS_Subaddress =
  subaddressType :: u32
  sub_odd :: byte
  sub_number_of_digits :: byte
  sub_digits :: "byte list"

record RIL_CDMA_SMS_Message =
  uTeleserviceID :: u32
  bIsServicePresent :: byte
  uServicecategory :: u32
  sAddress :: RIL_CDMA_SMS_Address
  sSubAddress :: RIL_CDMA_SMS_Subaddress
  uBearerDataLen :: u32
  aBearerData :: "byte list"

record RIL_CDMA_SMS_WriteArgs =
  cw_status :: u32
  cw_message :: RIL_CDMA_SMS_Message

record RIL_CDMA_SMS_Ack =
  uErrorClass :: u32
  uSMSCauseCode :: u32

record RIL_GSM_BroadcastSmsConfigInfo =
  fromServiceId :: u32
  toServiceId :: u32
  fromCodeScheme :: u32
  toCodeScheme :: u32
  gsm_selected :: byte

record RIL_CDMA_BroadcastSmsConfigInfo =
  service_category :: u32
  language :: u32
  cdma_selected :: byte

datatype ims_message =
    cdmaMessage RIL_CDMA_SMS_Message
  | gsmMessage "cstr list option"

record RIL_IMS_SMS_Message =
  ims_tech :: u32
  ims_retry :: byte
  ims_messageRef :: u32
  ims_message :: ims_message

record RIL_Depersonalization =
  depersonalizationType :: u32
  depersonalizationCode :: cstr

record RIL_SelectUiccSub =
  uicc_slot :: u32
  uicc_app_index :: u32
  uicc_sub_type :: u32
  uicc_act_status :: u32

section \<open>Responses\<close>

record RIL_Call =
  call_state :: u32
  call_index :: u32
  call_toa :: u32
  isMpty :: byte
  isMT :: byte
  call_als :: byte
  isVoice :: byte
  isVoicePrivacy :: byte
  call_number :: cstr
  numberPresentation :: u32
  call_name :: cstr
  namePresentation :: u32
  call_uusInfo :: "RIL_UUS_Info option"

record RIL_SMS_Response =
  messageRef :: u32
  ackPDU :: cstr
  errorCode :: u32

record RIL_Data_Call_Response_v4 =
  v4_cid :: u32
  v4_active :: u32
  v4_type :: cstr
  v4_apn :: cstr
  v4_address :: cstr

record RIL_Data_Call_Response_v6 =
  dc_status :: u32
  suggestedRetryTime :: u32
  dc_cid :: u32
  dc_active :: u32
  dc_type :: cstr
  dc_ifname :: cstr
  dc_addresses :: cstr
  dc_dnses :: cstr
  dc_gateways :: cstr

record RIL_SIM_IO_Response =
  sw1 :: u32
  sw2 :: u32
  simResponse :: cstr

record RIL_SuppSvcNotification =
  notificationType :: u32
  ssn_code :: u32
  ssn_index :: u32
  ssn_type :: u32
  ssn_number :: cstr

record RIL_NeighboringCell =
  cell_cid :: cstr
  cell_rssi :: u32

record RIL_CDMA_SignalInfoRecord =
  isPresent :: byte
  signalType :: byte
  alertPitch :: byte
  signal :: byte

record RIL_CDMA_NumberInfoRecord =
  num_len :: byte
  num_buf :: "byte list"
  num_type :: byte
  num_plan :: byte
  num_pi :: byte
  num_si :: byte

text \<open>The union of the information records, by the name that selects its member.\<close>

datatype info_rec =
    RIL_CDMA_DISPLAY_INFO_REC byte "byte list"
  | RIL_CDMA_CALLED_PARTY_NUMBER_INFO_REC RIL_CDMA_NumberInfoRecord
  | RIL_CDMA_CALLING_PARTY_NUMBER_INFO_REC RIL_CDMA_NumberInfoRecord
  | RIL_CDMA_CONNECTED_NUMBER_INFO_REC RIL_CDMA_NumberInfoRecord
  | RIL_CDMA_SIGNAL_INFO_REC RIL_CDMA_SignalInfoRecord
  | RIL_CDMA_REDIRECTING_NUMBER_INFO_REC RIL_CDMA_NumberInfoRecord u32
  | RIL_CDMA_LINE_CONTROL_INFO_REC byte byte byte byte
  | RIL_CDMA_EXTENDED_DISPLAY_INFO_REC byte "byte list"
  | RIL_CDMA_T53_CLIR_INFO_REC byte
  | RIL_CDMA_T53_RELEASE_INFO_REC
  | RIL_CDMA_T53_AUDIO_CONTROL_INFO_REC byte byte
  | OTHER_INFO_REC u32

fun info_rec_name :: "info_rec \<Rightarrow> u32" where
  "info_rec_name (RIL_CDMA_DISPLAY_INFO_REC _ _) = 0"
| "info_rec_name (RIL_CDMA_CALLED_PARTY_NUMBER_INFO_REC _) = 1"
| "info_rec_name (RIL_CDMA_CALLING_PARTY_NUMBER_INFO_REC _) = 2"
| "info_rec_name (RIL_CDMA_CONNECTED_NUMBER_INFO_REC _) = 3"
| "info_rec_name (RIL_CDMA_SIGNAL_INFO_REC _) = 4"
| "info_rec_name (RIL_CDMA_REDIRECTING_NUMBER_INFO_REC _ _) = 5"
| "info_rec_name (RIL_CDMA_LINE_CONTROL_INFO_REC _ _ _ _) = 6"
| "info_rec_name (RIL_CDMA_EXTENDED_DISPLAY_INFO_REC _ _) = 7"
| "info_rec_name (RIL_CDMA_T53_CLIR_INFO_REC _) = 8"
| "info_rec_name RIL_CDMA_T53_RELEASE_INFO_REC = 9"
| "info_rec_name (RIL_CDMA_T53_AUDIO_CONTROL_INFO_REC _ _) = 10"
| "info_rec_name (OTHER_INFO_REC n) = n"

record RIL_CDMA_CallWaiting =
  cdw_number :: cstr
  cdw_numberPresentation :: u32
  cdw_name :: cstr
  cdw_signal :: RIL_CDMA_SignalInfoRecord
  cdw_number_type :: u32
  cdw_number_plan :: u32

record RIL_SimRefreshResponse_v7 =
  refresh_result :: u32
  refresh_ef_id :: u32
  refresh_aid :: cstr

record RIL_AppStatus =
  app_type :: u32
  app_state :: u32
  perso_substate :: u32
  aid_ptr :: cstr
  app_label_ptr :: cstr
  pin1_replaced :: u32
  app_pin1 :: u32
  app_pin2 :: u32

text \<open>\<open>RIL_CardStatus_v6\<close>, and \<open>RIL_CardStatus_v5\<close>, which has no index of an IMS application.\<close>

record RIL_CardStatus =
  card_state :: u32
  universal_pin_state :: u32
  gsm_umts_subscription_app_index :: u32
  cdma_subscription_app_index :: u32
  ims_subscription_app_index :: u32
  num_applications :: u32
  applications :: "RIL_AppStatus list"

datatype ss_union =
    ssInfo "u32 list"
  | cfData u32 "RIL_CallForwardInfo list"

record RIL_StkCcUnsolSsResponse =
  ss_serviceType :: u32
  ss_requestType :: u32
  ss_teleserviceType :: u32
  ss_serviceClass :: u32
  ss_result :: u32
  ss_union :: ss_union

record RIL_DataCallProfileInfo =
  profileId :: u32
  profile_priority :: u32

section \<open>What a pointer points to\<close>

datatype ril_data =
    Null
  | Ints "u32 list"
  | Str "byte list"
  | Strs "cstr list"
  | Raw "byte list"
  | Dial RIL_Dial
  | SimIO RIL_SIM_IO
  | CallForward RIL_CallForwardInfo
  | SmsWrite RIL_SMS_WriteArgs
  | CdmaSms RIL_CDMA_SMS_Message
  | CdmaSmsWrite RIL_CDMA_SMS_WriteArgs
  | CdmaSmsAck RIL_CDMA_SMS_Ack
  | ImsSms RIL_IMS_SMS_Message
  | GsmBroadcast "RIL_GSM_BroadcastSmsConfigInfo list"
  | CdmaBroadcast "RIL_CDMA_BroadcastSmsConfigInfo list"
  | Depersonalization RIL_Depersonalization
  | UiccSub RIL_SelectUiccSub
  | Calls "RIL_Call list"
  | SmsResponse RIL_SMS_Response
  | DataCallsV4 "RIL_Data_Call_Response_v4 list"
  | DataCallsV6 "RIL_Data_Call_Response_v6 list"
  | SimIOResponse RIL_SIM_IO_Response
  | CallForwards "RIL_CallForwardInfo list"
  | SuppSvc RIL_SuppSvcNotification
  | Cells "RIL_NeighboringCell list"
  | InfoRecords byte "info_rec list"
  | SignalInfo RIL_CDMA_SignalInfoRecord
  | CallWaiting RIL_CDMA_CallWaiting
  | SimRefresh RIL_SimRefreshResponse_v7
  | SsData RIL_StkCcUnsolSsResponse
  | CardStatus RIL_CardStatus
  | DataCallProfiles u32 "RIL_DataCallProfileInfo list"

definition to_data :: "cstr \<Rightarrow> ril_data" where
  "to_data s = (case s of None \<Rightarrow> Null | Some cs \<Rightarrow> Str cs)"

definition sizeof_pointer :: nat where "sizeof_pointer = 4"
definition sizeof_int :: nat where "sizeof_int = 4"
definition sizeof_RIL_SMS_Response :: nat where "sizeof_RIL_SMS_Response = 12"
definition sizeof_RIL_Data_Call_Response_v4 :: nat where "sizeof_RIL_Data_Call_Response_v4 = 20"
definition sizeof_RIL_Data_Call_Response_v6 :: nat where "sizeof_RIL_Data_Call_Response_v6 = 36"
definition sizeof_RIL_SIM_IO_Response :: nat where "sizeof_RIL_SIM_IO_Response = 12"
definition sizeof_RIL_SuppSvcNotification :: nat where "sizeof_RIL_SuppSvcNotification = 20"
definition sizeof_RIL_CDMA_InformationRecords :: nat where "sizeof_RIL_CDMA_InformationRecords = 964"
definition sizeof_RIL_CDMA_SignalInfoRecord :: nat where "sizeof_RIL_CDMA_SignalInfoRecord = 4"
definition sizeof_RIL_CDMA_CallWaiting_v6 :: nat where "sizeof_RIL_CDMA_CallWaiting_v6 = 24"
definition sizeof_RIL_StkCcUnsolSsResponse :: nat where "sizeof_RIL_StkCcUnsolSsResponse = 192"
definition sizeof_RIL_CardStatus_v6 :: nat where "sizeof_RIL_CardStatus_v6 = 280"
definition sizeof_RIL_CardStatus_v5 :: nat where "sizeof_RIL_CardStatus_v5 = 276"
definition sizeof_RIL_CDMA_SMS_Message :: nat where "sizeof_RIL_CDMA_SMS_Message = 372"
definition sizeof_RIL_DataCallProfileInfo :: nat where "sizeof_RIL_DataCallProfileInfo = 8"
definition sizeof_RIL_SignalStrength_v5 :: nat where "sizeof_RIL_SignalStrength_v5 = 28"
definition sizeof_RIL_SignalStrength_v6 :: nat where "sizeof_RIL_SignalStrength_v6 = 48"
definition sizeof_RIL_SignalStrength_v7 :: nat where "sizeof_RIL_SignalStrength_v7 = 52"
definition sizeof_RIL_Dial :: nat where "sizeof_RIL_Dial = 12"
definition sizeof_RIL_SIM_IO_v5 :: nat where "sizeof_RIL_SIM_IO_v5 = 36"
definition sizeof_RIL_SIM_IO_v6 :: nat where "sizeof_RIL_SIM_IO_v6 = 40"
definition sizeof_RIL_CallForwardInfo :: nat where "sizeof_RIL_CallForwardInfo = 24"
definition sizeof_RIL_SMS_WriteArgs :: nat where "sizeof_RIL_SMS_WriteArgs = 12"
definition sizeof_RIL_CDMA_SMS_WriteArgs :: nat where "sizeof_RIL_CDMA_SMS_WriteArgs = 376"
definition sizeof_RIL_CDMA_SMS_Ack :: nat where "sizeof_RIL_CDMA_SMS_Ack = 8"
definition sizeof_RIL_Depersonalization :: nat where "sizeof_RIL_Depersonalization = 8"
definition sizeof_RIL_SelectUiccSub :: nat where "sizeof_RIL_SelectUiccSub = 16"

lemmas ril_sizes = sizeof_pointer_def sizeof_int_def sizeof_RIL_SMS_Response_def sizeof_RIL_Data_Call_Response_v4_def
  sizeof_RIL_Data_Call_Response_v6_def sizeof_RIL_SIM_IO_Response_def sizeof_RIL_SuppSvcNotification_def
  sizeof_RIL_CDMA_InformationRecords_def sizeof_RIL_CDMA_SignalInfoRecord_def sizeof_RIL_CDMA_CallWaiting_v6_def
  sizeof_RIL_StkCcUnsolSsResponse_def sizeof_RIL_CardStatus_v6_def sizeof_RIL_CardStatus_v5_def
  sizeof_RIL_CDMA_SMS_Message_def sizeof_RIL_DataCallProfileInfo_def sizeof_RIL_SignalStrength_v5_def
  sizeof_RIL_SignalStrength_v6_def sizeof_RIL_SignalStrength_v7_def sizeof_RIL_Dial_def sizeof_RIL_SIM_IO_v5_def
  sizeof_RIL_SIM_IO_v6_def sizeof_RIL_CallForwardInfo_def sizeof_RIL_SMS_WriteArgs_def
  sizeof_RIL_CDMA_SMS_WriteArgs_def sizeof_RIL_CDMA_SMS_Ack_def sizeof_RIL_Depersonalization_def
  sizeof_RIL_SelectUiccSub_def

end
