(* ===== verification/RilResponse.thy ===== *)
theory RilResponse
  imports RilData "HOL-Library.Monad_Syntax"
begin

text \<open>
  The functions of ril.cpp that write the response of the vendor library to a request, or an unsolicited
  response, into a parcel. Each returns its result and the parcel, or None where the code reads
  outside the object it was given, which includes a NULL pointer and an object of another type than
  the function expects. \<open>ver\<close> is \<open>s_callbacks[0].version\<close>. What they change in the object of the vendor
  library, the sign of \<open>rsrp\<close> and \<open>numValidIndexes\<close>, is not returned.
\<close>

type_synonym 'p response = "'p parcel_env \<Rightarrow> int \<Rightarrow> ril_data \<Rightarrow> nat \<Rightarrow> 'p \<Rightarrow> (int \<times> 'p) option"

definition RIL_ERRNO_INVALID_RESPONSE :: int where "RIL_ERRNO_INVALID_RESPONSE = -1"

definition invalid :: "'p \<Rightarrow> (int \<times> 'p) option" where
  "invalid p = Some (RIL_ERRNO_INVALID_RESPONSE, p)"

text \<open>The first \<open>n\<close> elements of an array of the right type.\<close>

definition first :: "nat \<Rightarrow> 'a list option \<Rightarrow> 'a list option" where
  "first n xs = (if n = 0 then Some []
     else case xs of None \<Rightarrow> None | Some xs \<Rightarrow> if n \<le> length xs then Some (take n xs) else None)"

definition write_all :: "'p parcel_env \<Rightarrow> parcel_item list \<Rightarrow> 'p \<Rightarrow> (int \<times> 'p) option" where
  "write_all E xs p = Some (0, writes E xs p)"

text \<open>The elements of an array whose items may read outside an object.\<close>

fun each :: "('a \<Rightarrow> parcel_item list option) \<Rightarrow> 'a list \<Rightarrow> parcel_item list option" where
  "each f [] = Some []"
| "each f (x # xs) = do { a \<leftarrow> f x; b \<leftarrow> each f xs; Some (a @ b) }"

abbreviation PByte :: "byte \<Rightarrow> parcel_item" where "PByte b \<equiv> PInt (ucast b)"
abbreviation PNat :: "nat \<Rightarrow> parcel_item" where "PNat n \<equiv> PInt (of_nat n)"

section \<open>Plain values\<close>

definition responseInts :: "'p response" where
  "responseInts E ver response responselen p =
     (if response = Null \<and> responselen \<noteq> 0 then invalid p
      else if responselen mod sizeof_int \<noteq> 0 then invalid p
      else let numInts = responselen div sizeof_pointer in do {
        xs \<leftarrow> first numInts (case response of Ints xs \<Rightarrow> Some xs | _ \<Rightarrow> None);
        write_all E (PNat numInts # map PInt xs) p
      })"

definition responseStrings :: "'p response" where
  "responseStrings E ver response responselen p =
     (if response = Null \<and> responselen \<noteq> 0 then invalid p
      else if responselen mod sizeof_pointer \<noteq> 0 then invalid p
      else if response = Null then write_all E [PInt 0] p
      else let numStrings = responselen div sizeof_pointer in do {
        xs \<leftarrow> first numStrings (case response of Strs xs \<Rightarrow> Some xs | _ \<Rightarrow> None);
        write_all E (PNat numStrings # map PStr xs) p
      })"

definition responseStringsWithVersion :: "int \<Rightarrow> 'p response" where
  "responseStringsWithVersion version E ver response responselen p =
     responseStrings E ver response responselen (write_item E (PInt (of_int version)) p)"

definition responseString :: "'p response" where
  "responseString E ver response responselen p =
     (case response of Null \<Rightarrow> write_all E [PStr None] p | Str s \<Rightarrow> write_all E [PStr (Some s)] p | _ \<Rightarrow> None)"

definition responseVoid :: "'p response" where
  "responseVoid E ver response responselen p = Some (0, p)"

definition responseRaw :: "'p response" where
  "responseRaw E ver response responselen p =
     (if response = Null \<and> responselen \<noteq> 0 then invalid p
      else if response = Null then write_all E [PInt (-1)] p
      else do {
        bs \<leftarrow> first responselen (case response of Raw bs \<Rightarrow> Some bs | _ \<Rightarrow> None);
        write_all E [PNat responselen, PRaw bs] p
      })"

section \<open>Calls and connections\<close>

definition uus_items :: "int \<Rightarrow> RIL_UUS_Info option \<Rightarrow> parcel_item list option" where
  "uus_items ver uus =
     (case uus of None \<Rightarrow> Some [PInt 0]
      | Some u \<Rightarrow> (case uusData u of None \<Rightarrow> Some [PInt 0]
         | Some bs \<Rightarrow> if ver < 3 then Some [PInt 0]
             else do {
               b \<leftarrow> first (unat (uusLength u)) (Some bs);
               Some [PInt 1, PInt (uusType u), PInt (uusDcs u), PInt (uusLength u), PRaw b]
             }))"

definition call_items :: "int \<Rightarrow> RIL_Call \<Rightarrow> parcel_item list option" where
  "call_items ver c = do {
     uus \<leftarrow> uus_items ver (call_uusInfo c);
     Some ([PInt (call_state c), PInt (call_index c), PInt (call_toa c), PByte (isMpty c), PByte (isMT c),
       PByte (call_als c), PByte (isVoice c), PByte (isVoicePrivacy c), PStr (call_number c),
       PInt (numberPresentation c), PStr (call_name c), PInt (namePresentation c)] @ uus)
   }"

definition responseCallList :: "'p response" where
  "responseCallList E ver response responselen p =
     (if response = Null \<and> responselen \<noteq> 0 then invalid p
      else if responselen mod sizeof_pointer \<noteq> 0 then invalid p
      else let num = responselen div sizeof_pointer in do {
        cs \<leftarrow> first num (case response of Calls cs \<Rightarrow> Some cs | _ \<Rightarrow> None);
        xs \<leftarrow> each (call_items ver) cs;
        write_all E (PNat num # xs) p
      })"

definition responseSMS :: "'p response" where
  "responseSMS E ver response responselen p =
     (if response = Null then invalid p
      else if responselen \<noteq> sizeof_RIL_SMS_Response then invalid p
      else case response of
        SmsResponse r \<Rightarrow> write_all E [PInt (messageRef r), PStr (ackPDU r), PInt (errorCode r)] p
      | _ \<Rightarrow> None)"

definition responseDataCallListV4 :: "'p response" where
  "responseDataCallListV4 E ver response responselen p =
     (if response = Null \<and> responselen \<noteq> 0 then invalid p
      else if responselen mod sizeof_RIL_Data_Call_Response_v4 \<noteq> 0 then invalid p
      else let num = responselen div sizeof_RIL_Data_Call_Response_v4 in do {
        cs \<leftarrow> first num (case response of DataCallsV4 cs \<Rightarrow> Some cs | _ \<Rightarrow> None);
        write_all E (PNat num # concat (map (\<lambda>c. [PInt (v4_cid c), PInt (v4_active c), PStr (v4_type c),
          PStr (v4_address c)]) cs)) p
      })"

definition responseDataCallList :: "'p response" where
  "responseDataCallList E ver response responselen p =
     (let p1 = write_item E (PInt (of_int ver)) p in
      if ver < 5 then responseDataCallListV4 E ver response responselen p1
      else if response = Null \<and> responselen \<noteq> 0 then invalid p1
      else if responselen mod sizeof_RIL_Data_Call_Response_v6 \<noteq> 0 then invalid p1
      else let num = responselen div sizeof_RIL_Data_Call_Response_v6 in do {
        cs \<leftarrow> first num (case response of DataCallsV6 cs \<Rightarrow> Some cs | _ \<Rightarrow> None);
        write_all E (PNat num # concat (map (\<lambda>c. [PInt (dc_status c), PInt (suggestedRetryTime c), PInt (dc_cid c),
          PInt (dc_active c), PStr (dc_type c), PStr (dc_ifname c), PStr (dc_addresses c), PStr (dc_dnses c),
          PStr (dc_gateways c)]) cs)) p1
      })"

definition responseSetupDataCall :: "'p response" where
  "responseSetupDataCall E ver response responselen p =
     (if ver < 5 then responseStringsWithVersion ver E ver response responselen p
      else responseDataCallList E ver response responselen p)"

definition responseSIM_IO :: "'p response" where
  "responseSIM_IO E ver response responselen p =
     (if response = Null then invalid p
      else if responselen \<noteq> sizeof_RIL_SIM_IO_Response then invalid p
      else case response of
        SimIOResponse r \<Rightarrow> write_all E [PInt (sw1 r), PInt (sw2 r), PStr (simResponse r)] p
      | _ \<Rightarrow> None)"

definition cf_items :: "RIL_CallForwardInfo \<Rightarrow> parcel_item list" where
  "cf_items c = [PInt (cf_status c), PInt (cf_reason c), PInt (cf_serviceClass c), PInt (cf_toa c),
     PStr (cf_number c), PInt (cf_timeSeconds c)]"

definition responseCallForwards :: "'p response" where
  "responseCallForwards E ver response responselen p =
     (if response = Null \<and> responselen \<noteq> 0 then invalid p
      else if responselen mod sizeof_pointer \<noteq> 0 then invalid p
      else let num = responselen div sizeof_pointer in do {
        cs \<leftarrow> first num (case response of CallForwards cs \<Rightarrow> Some cs | _ \<Rightarrow> None);
        write_all E (PNat num # concat (map cf_items cs)) p
      })"

definition responseSsn :: "'p response" where
  "responseSsn E ver response responselen p =
     (if response = Null then invalid p
      else if responselen \<noteq> sizeof_RIL_SuppSvcNotification then invalid p
      else case response of
        SuppSvc n \<Rightarrow> write_all E [PInt (notificationType n), PInt (ssn_code n), PInt (ssn_index n), PInt (ssn_type n),
          PStr (ssn_number n)] p
      | _ \<Rightarrow> None)"

definition responseCellList :: "'p response" where
  "responseCellList E ver response responselen p =
     (if response = Null \<and> responselen \<noteq> 0 then invalid p
      else if responselen mod sizeof_pointer \<noteq> 0 then invalid p
      else let num = responselen div sizeof_pointer in do {
        cs \<leftarrow> first num (case response of Cells cs \<Rightarrow> Some cs | _ \<Rightarrow> None);
        write_all E (PNat num # concat (map (\<lambda>c. [PInt (cell_rssi c), PStr (cell_cid c)]) cs)) p
      })"

section \<open>Signals and CDMA information\<close>

definition signal_items :: "RIL_CDMA_SignalInfoRecord \<Rightarrow> parcel_item list" where
  "signal_items s = [PByte (isPresent s), PByte (signalType s), PByte (alertPitch s), PByte (signal s)]"

definition marshallSignalInfoRecord :: "'p parcel_env \<Rightarrow> RIL_CDMA_SignalInfoRecord \<Rightarrow> 'p \<Rightarrow> 'p" where
  "marshallSignalInfoRecord E s p = writes E (signal_items s) p"

definition CDMA_ALPHA_INFO_BUFFER_LENGTH :: nat where "CDMA_ALPHA_INFO_BUFFER_LENGTH = 64"
definition CDMA_NUMBER_INFO_BUFFER_LENGTH :: nat where "CDMA_NUMBER_INFO_BUFFER_LENGTH = 81"
definition RIL_CDMA_MAX_NUMBER_OF_INFO_RECS :: nat where "RIL_CDMA_MAX_NUMBER_OF_INFO_RECS = 10"

text \<open>The copy of the first \<open>n\<close> characters, as a C string.\<close>

definition copied :: "byte \<Rightarrow> byte list \<Rightarrow> parcel_item option" where
  "copied n buf = do { bs \<leftarrow> first (unat n) (Some buf); Some (PStr (Some (takeWhile (\<lambda>c. c \<noteq> 0) bs))) }"

definition number_items :: "RIL_CDMA_NumberInfoRecord \<Rightarrow> (unit + parcel_item list) option" where
  "number_items r =
     (if unat (num_len r) > CDMA_NUMBER_INFO_BUFFER_LENGTH then Some (Inl ())
      else do {
        s \<leftarrow> copied (num_len r) (num_buf r);
        Some (Inr [s, PByte (num_type r), PByte (num_plan r), PByte (num_pi r), PByte (num_si r)])
      })"

text \<open>\<open>Inl ()\<close>: the record is refused.\<close>

fun info_items :: "info_rec \<Rightarrow> (unit + parcel_item list) option" where
  "info_items (RIL_CDMA_EXTENDED_DISPLAY_INFO_REC n buf) =
     (if unat n > CDMA_ALPHA_INFO_BUFFER_LENGTH then Some (Inl ())
      else do { bs \<leftarrow> first (unat n) (Some buf); Some (Inr [PByte n, PRaw bs]) })"
| "info_items (RIL_CDMA_DISPLAY_INFO_REC n buf) =
     (if unat n > CDMA_ALPHA_INFO_BUFFER_LENGTH then Some (Inl ()) else do { s \<leftarrow> copied n buf; Some (Inr [s]) })"
| "info_items (RIL_CDMA_CALLED_PARTY_NUMBER_INFO_REC r) = number_items r"
| "info_items (RIL_CDMA_CALLING_PARTY_NUMBER_INFO_REC r) = number_items r"
| "info_items (RIL_CDMA_CONNECTED_NUMBER_INFO_REC r) = number_items r"
| "info_items (RIL_CDMA_SIGNAL_INFO_REC s) = Some (Inr (signal_items s))"
| "info_items (RIL_CDMA_REDIRECTING_NUMBER_INFO_REC r reason) =
     (case number_items r of Some (Inr xs) \<Rightarrow> Some (Inr (xs @ [PInt reason])) | x \<Rightarrow> x)"
| "info_items (RIL_CDMA_LINE_CONTROL_INFO_REC a b c d) = Some (Inr [PByte a, PByte b, PByte c, PByte d])"
| "info_items (RIL_CDMA_T53_CLIR_INFO_REC c) = Some (Inr [PByte c])"
| "info_items (RIL_CDMA_T53_AUDIO_CONTROL_INFO_REC u d) = Some (Inr [PByte u, PByte d])"
| "info_items RIL_CDMA_T53_RELEASE_INFO_REC = Some (Inl ())"
| "info_items (OTHER_INFO_REC _) = Some (Inl ())"

fun info_loop :: "'p parcel_env \<Rightarrow> info_rec list \<Rightarrow> 'p \<Rightarrow> (int \<times> 'p) option" where
  "info_loop E [] p = Some (0, p)"
| "info_loop E (r # rs) p =
     (let p1 = write_item E (PInt (info_rec_name r)) p in
      case info_items r of
        None \<Rightarrow> None
      | Some (Inl _) \<Rightarrow> invalid p1
      | Some (Inr xs) \<Rightarrow> info_loop E rs (writes E xs p1))"

definition responseCdmaInformationRecords :: "'p response" where
  "responseCdmaInformationRecords E ver response responselen p =
     (if response = Null \<and> responselen \<noteq> 0 then invalid p
      else if responselen \<noteq> sizeof_RIL_CDMA_InformationRecords then invalid p
      else case response of
        InfoRecords number recs \<Rightarrow>
          let num = min (unat number) RIL_CDMA_MAX_NUMBER_OF_INFO_RECS in do {
            rs \<leftarrow> first num (Some recs);
            info_loop E rs (write_item E (PNat num) p)
          }
      | _ \<Rightarrow> None)"

text \<open>
  The signal strengths are the ints of the object in order; those behind the length given are cleared,
  which writes to the object even if it is as short as the length says.
\<close>

definition responseRilSignalStrength :: "'p response" where
  "responseRilSignalStrength E ver response responselen p =
     (if response = Null \<and> responselen \<noteq> 0 then invalid p
      else if responselen \<ge> sizeof_RIL_SignalStrength_v5 then
        (case response of
           Ints xs \<Rightarrow>
             if length xs < 13 then None
             else let rsrp = (if ver \<le> 6 \<and> sint (xs ! 8) < 0 then - (xs ! 8) else xs ! 8) in
               write_all E (map PInt
                 (take 7 xs
                  @ (if responselen \<ge> sizeof_RIL_SignalStrength_v6
                     then [xs ! 7, rsrp, xs ! 9, xs ! 10, xs ! 11]
                       @ (if responselen \<ge> sizeof_RIL_SignalStrength_v7 then [xs ! 12] else [])
                     else []))) p
         | _ \<Rightarrow> None)
      else invalid p)"

definition responseCdmaSignalInfoRecord :: "'p response" where
  "responseCdmaSignalInfoRecord E ver response responselen p =
     (if response = Null \<or> responselen = 0 then invalid p
      else if responselen \<noteq> sizeof_RIL_CDMA_SignalInfoRecord then invalid p
      else case response of SignalInfo s \<Rightarrow> Some (0, marshallSignalInfoRecord E s p) | _ \<Rightarrow> None)"

definition responseCallRing :: "'p response" where
  "responseCallRing E ver response responselen p =
     (if response = Null \<or> responselen = 0 then responseVoid E ver response responselen p
      else responseCdmaSignalInfoRecord E ver response responselen p)"

definition responseCdmaCallWaiting :: "'p response" where
  "responseCdmaCallWaiting E ver response responselen p =
     (if response = Null \<and> responselen \<noteq> 0 then invalid p
      else case response of
        CallWaiting w \<Rightarrow>
          let p1 = writes E [PStr (cdw_number w), PInt (cdw_numberPresentation w), PStr (cdw_name w)] p;
              p2 = marshallSignalInfoRecord E (cdw_signal w) p1
          in write_all E (if responselen \<ge> sizeof_RIL_CDMA_CallWaiting_v6
               then [PInt (cdw_number_type w), PInt (cdw_number_plan w)] else [PInt 0, PInt 0]) p2
      | _ \<Rightarrow> None)"

section \<open>The card and supplementary services\<close>

definition responseSimRefresh :: "'p response" where
  "responseSimRefresh E ver response responselen p =
     (if response = Null \<and> responselen \<noteq> 0 then invalid p
      else if ver = 7 then
        (case response of
           SimRefresh r \<Rightarrow> write_all E [PInt (refresh_result r), PInt (refresh_ef_id r), PStr (refresh_aid r)] p
         | _ \<Rightarrow> None)
      else do {
        xs \<leftarrow> first 2 (case response of Ints xs \<Rightarrow> Some xs | _ \<Rightarrow> None);
        write_all E (map PInt xs @ [PStr None]) p
      })"

definition SS_INTERROGATION :: u32 where "SS_INTERROGATION = 2"
definition SS_CF_ALL_CONDITIONAL :: u32 where "SS_CF_ALL_CONDITIONAL = 5"
definition SS_INFO_MAX :: nat where "SS_INFO_MAX = 4"
definition NUM_SERVICE_CLASSES :: nat where "NUM_SERVICE_CLASSES = 7"

text \<open>The service types of call forwarding are 0 to 5.\<close>

definition isServiceTypeCFQuery :: "u32 \<Rightarrow> u32 \<Rightarrow> bool" where
  "isServiceTypeCFQuery serType reqType \<longleftrightarrow> reqType = SS_INTERROGATION \<and> serType \<le> SS_CF_ALL_CONDITIONAL"

definition responseSSData :: "'p response" where
  "responseSSData E ver response responselen p =
     (if response = Null \<and> responselen \<noteq> 0 then invalid p
      else if responselen \<noteq> sizeof_RIL_StkCcUnsolSsResponse then invalid p
      else case response of
        SsData d \<Rightarrow>
          let p1 = writes E [PInt (ss_serviceType d), PInt (ss_requestType d), PInt (ss_teleserviceType d),
                PInt (ss_serviceClass d), PInt (ss_result d)] p
          in if isServiceTypeCFQuery (ss_serviceType d) (ss_requestType d) then
               (case ss_union d of
                  cfData n infos \<Rightarrow>
                    let n1 = (if sint n > int NUM_SERVICE_CLASSES then of_nat NUM_SERVICE_CLASSES else n) in do {
                      cs \<leftarrow> first (nat (sint n1)) (Some infos);
                      write_all E (PInt n1 # concat (map cf_items cs)) p1
                    }
                | ssInfo _ \<Rightarrow> None)
             else
               (case ss_union d of
                  ssInfo xs \<Rightarrow> do { ys \<leftarrow> first SS_INFO_MAX (Some xs); write_all E (PNat SS_INFO_MAX # map PInt ys) p1 }
                | cfData _ _ \<Rightarrow> None)
      | _ \<Rightarrow> None)"

definition responseUiccSubscription :: "'p response" where
  "responseUiccSubscription E ver response responselen p =
     (case response of
        UiccSub u \<Rightarrow> write_all E [PInt (uicc_slot u), PInt (uicc_app_index u), PInt (uicc_sub_type u), PInt (uicc_act_status u)] p
      | _ \<Rightarrow> None)"

definition app_items :: "RIL_AppStatus \<Rightarrow> parcel_item list" where
  "app_items a = [PInt (app_type a), PInt (app_state a), PInt (perso_substate a), PStr (aid_ptr a), PStr (app_label_ptr a),
     PInt (pin1_replaced a), PInt (app_pin1 a), PInt (app_pin2 a)]"

definition sendSimStatusAppInfo :: "'p parcel_env \<Rightarrow> u32 \<Rightarrow> RIL_AppStatus list \<Rightarrow> 'p \<Rightarrow> 'p option" where
  "sendSimStatusAppInfo E num_apps apps p = do {
     as \<leftarrow> first (nat (sint num_apps)) (Some apps);
     Some (writes E (PInt num_apps # concat (map app_items as)) p)
   }"

definition responseSimStatus :: "'p response" where
  "responseSimStatus E ver response responselen p =
     (if response = Null \<and> responselen \<noteq> 0 then invalid p
      else if responselen = sizeof_RIL_CardStatus_v6 \<or> responselen = sizeof_RIL_CardStatus_v5 then
        (case response of
           CardStatus c \<Rightarrow> do {
             p1 \<leftarrow> sendSimStatusAppInfo E (num_applications c) (applications c)
               (writes E [PInt (card_state c), PInt (universal_pin_state c), PInt (gsm_umts_subscription_app_index c),
                  PInt (cdma_subscription_app_index c),
                  PInt (if responselen = sizeof_RIL_CardStatus_v6 then ims_subscription_app_index c else -1)] p);
             Some (0, p1)
           }
         | _ \<Rightarrow> None)
      else invalid p)"

section \<open>Short messages\<close>

definition gsm_items :: "RIL_GSM_BroadcastSmsConfigInfo \<Rightarrow> parcel_item list" where
  "gsm_items c = [PInt (fromServiceId c), PInt (toServiceId c), PInt (fromCodeScheme c), PInt (toCodeScheme c),
     PByte (gsm_selected c)]"

definition responseGsmBrSmsCnf :: "'p response" where
  "responseGsmBrSmsCnf E ver response responselen p =
     (let num = responselen div sizeof_pointer in do {
        cs \<leftarrow> first num (case response of GsmBroadcast cs \<Rightarrow> Some cs | _ \<Rightarrow> None);
        write_all E (PNat num # concat (map gsm_items cs)) p
      })"

definition cdma_items :: "RIL_CDMA_BroadcastSmsConfigInfo \<Rightarrow> parcel_item list" where
  "cdma_items c = [PInt (service_category c), PInt (language c), PByte (cdma_selected c)]"

definition responseCdmaBrSmsCnf :: "'p response" where
  "responseCdmaBrSmsCnf E ver response responselen p =
     (let num = responselen div sizeof_pointer in do {
        cs \<leftarrow> first num (case response of CdmaBroadcast cs \<Rightarrow> Some cs | _ \<Rightarrow> None);
        write_all E (PNat num # concat (map cdma_items cs)) p
      })"

text \<open>\<open>digitLimit\<close> elements of an array, byte by byte\<close>

definition byte_items :: "nat \<Rightarrow> byte list \<Rightarrow> parcel_item list option" where
  "byte_items n bs = map_option (map (\<lambda>b. PRaw [b])) (first n (Some bs))"

definition sms_items :: "RIL_CDMA_SMS_Message \<Rightarrow> parcel_item list option" where
  "sms_items m = (let a = sAddress m; s = sSubAddress m in do {
     ds \<leftarrow> byte_items (min (unat (ad_number_of_digits a)) RIL_CDMA_SMS_ADDRESS_MAX) (ad_digits a);
     ss \<leftarrow> byte_items (min (unat (sub_number_of_digits s)) RIL_CDMA_SMS_SUBADDRESS_MAX) (sub_digits s);
     bs \<leftarrow> byte_items (nat (min (sint (uBearerDataLen m)) (int RIL_CDMA_SMS_BEARER_DATA_MAX))) (aBearerData m);
     Some ([PInt (uTeleserviceID m), PRaw [bIsServicePresent m], PInt (uServicecategory m), PInt (digit_mode a),
        PInt (number_mode a), PInt (ad_number_type a), PInt (ad_number_plan a), PRaw [ad_number_of_digits a]] @ ds
      @ [PInt (subaddressType s), PRaw [sub_odd s], PRaw [sub_number_of_digits s]] @ ss
      @ [PInt (uBearerDataLen m)] @ bs)
   })"

definition responseCdmaSms :: "'p response" where
  "responseCdmaSms E ver response responselen p =
     (if response = Null \<and> responselen \<noteq> 0 then invalid p
      else if responselen \<noteq> sizeof_RIL_CDMA_SMS_Message then invalid p
      else case response of CdmaSms m \<Rightarrow> do { xs \<leftarrow> sms_items m; write_all E xs p } | _ \<Rightarrow> None)"

text \<open>The comparison of the count with the length is one of unsigned values.\<close>

definition responseGetDataCallProfile :: "'p response" where
  "responseGetDataCallProfile E ver response responselen p =
     (if response = Null \<and> responselen \<noteq> 0 then invalid p
      else case response of
        DataCallProfiles n infos \<Rightarrow>
          let num = min (unat n) (responselen div sizeof_RIL_DataCallProfileInfo) in do {
            xs \<leftarrow> first num (Some infos);
            write_all E (PNat num # concat (map (\<lambda>i. [PInt (profileId i), PInt (profile_priority i)]) xs)) p
          }
      | _ \<Rightarrow> None)"

end
