(* ===== verification/RilCore.thy ===== *)
theory RilCore
  imports RilResponse
begin

text \<open>
  The state of the radio interface layer (ril/ril-legacy/libril/ril.cpp), the tables of requests
  (ril_commands.h, ril_unsol_commands.h, rilj.h, as the build flags RIL_VARIANT_LEGACY and
  RIL_SUPPORTS_SEEK select them), the command sockets, and the completion of requests.

  A request is known by the address of its \<open>RequestInfo\<close>, which is the token the vendor library gets. The
  calls of the vendor library are recorded in \<open>to_vendor\<close>. What lies outside is the record \<open>outside\<close>:
  the system calls on a socket, the radio state of the vendor library and the clock, on a state \<open>'w\<close>,
  and the address of a new block, given those in use. A function returns None where the code leaves an
  object or does not return.
\<close>

section \<open>Tables\<close>

datatype response_fn =
    R_CallForwards
  | R_CallList
  | R_CallRing
  | R_CdmaBrSmsCnf
  | R_CdmaCallWaiting
  | R_CdmaInformationRecords
  | R_CdmaSms
  | R_CellList
  | R_DataCallList
  | R_GsmBrSmsCnf
  | R_Ints
  | R_Raw
  | R_RilSignalStrength
  | R_SIM_IO
  | R_SMS
  | R_SSData
  | R_SetupDataCall
  | R_SimRefresh
  | R_SimStatus
  | R_Ssn
  | R_String
  | R_Strings
  | R_Void

fun response_function :: "response_fn \<Rightarrow> 'p response" where
  "response_function R_CallForwards = responseCallForwards"
| "response_function R_CallList = responseCallList"
| "response_function R_CallRing = responseCallRing"
| "response_function R_CdmaBrSmsCnf = responseCdmaBrSmsCnf"
| "response_function R_CdmaCallWaiting = responseCdmaCallWaiting"
| "response_function R_CdmaInformationRecords = responseCdmaInformationRecords"
| "response_function R_CdmaSms = responseCdmaSms"
| "response_function R_CellList = responseCellList"
| "response_function R_DataCallList = responseDataCallList"
| "response_function R_GsmBrSmsCnf = responseGsmBrSmsCnf"
| "response_function R_Ints = responseInts"
| "response_function R_Raw = responseRaw"
| "response_function R_RilSignalStrength = responseRilSignalStrength"
| "response_function R_SIM_IO = responseSIM_IO"
| "response_function R_SMS = responseSMS"
| "response_function R_SSData = responseSSData"
| "response_function R_SetupDataCall = responseSetupDataCall"
| "response_function R_SimRefresh = responseSimRefresh"
| "response_function R_SimStatus = responseSimStatus"
| "response_function R_Ssn = responseSsn"
| "response_function R_String = responseString"
| "response_function R_Strings = responseStrings"
| "response_function R_Void = responseVoid"

datatype dispatch_fn =
    D_CallForward
  | D_CdmaBrSmsCnf
  | D_CdmaSms
  | D_CdmaSmsAck
  | D_CdmaSubscriptionSource
  | D_DataCall
  | D_Depersonalization
  | D_Dial
  | D_GsmBrSmsCnf
  | D_ImsSms
  | D_Ints
  | D_Raw
  | D_RilCdmaSmsWriteArgs
  | D_SIM_IO
  | D_SmsWrite
  | D_String
  | D_Strings
  | D_UiccSubscripton
  | D_VoiceRadioTech
  | D_Void

record CommandInfo =
  requestNumber :: int
  dispatchFunction :: dispatch_fn
  responseFunction :: response_fn
  reqNumRILJ :: int

record UnsolResponseInfo =
  unsolNumber :: int
  unsolFunction :: response_fn
  wake_partial :: bool
  unsolNumRILJ :: int

definition cmd :: "int \<Rightarrow> dispatch_fn \<Rightarrow> response_fn \<Rightarrow> int \<Rightarrow> CommandInfo" where
  "cmd n d r j = \<lparr>requestNumber = n, dispatchFunction = d, responseFunction = r, reqNumRILJ = j\<rparr>"

definition unsol :: "int \<Rightarrow> response_fn \<Rightarrow> bool \<Rightarrow> int \<Rightarrow> UnsolResponseInfo" where
  "unsol n r w j = \<lparr>unsolNumber = n, unsolFunction = r, wake_partial = w, unsolNumRILJ = j\<rparr>"

text \<open>The entries behind the empty first one, which no search reaches.\<close>

definition s_commands :: "CommandInfo list" where
  "s_commands =
    [cmd 1 D_Void R_SimStatus 0, cmd 2 D_Strings R_Ints 0, cmd 3 D_Strings R_Ints 0,
     cmd 4 D_Strings R_Ints 0, cmd 5 D_Strings R_Ints 0, cmd 6 D_Strings R_Ints 0,
     cmd 7 D_Strings R_Ints 0, cmd 8 D_Depersonalization R_Ints 0, cmd 9 D_Void R_CallList 0,
     cmd 10 D_Dial R_Void 0, cmd 11 D_Strings R_String 0, cmd 12 D_Ints R_Void 0,
     cmd 13 D_Void R_Void 0, cmd 14 D_Void R_Void 0, cmd 15 D_Void R_Void 0,
     cmd 16 D_Void R_Void 0, cmd 17 D_Void R_Void 0, cmd 18 D_Void R_Ints 0,
     cmd 19 D_Void R_RilSignalStrength 0, cmd 20 D_Void R_Strings 0, cmd 21 D_Void R_Strings 0,
     cmd 22 D_Void R_Strings 0, cmd 23 D_Ints R_Void 0, cmd 24 D_String R_Void 0,
     cmd 25 D_Strings R_SMS 0, cmd 26 D_Strings R_SMS 0, cmd 27 D_DataCall R_SetupDataCall 0,
     cmd 28 D_SIM_IO R_SIM_IO 0, cmd 29 D_String R_Void 0, cmd 30 D_Void R_Void 0,
     cmd 31 D_Void R_Ints 0, cmd 32 D_Ints R_Void 0, cmd 33 D_CallForward R_CallForwards 0,
     cmd 34 D_CallForward R_Void 0, cmd 35 D_Ints R_Ints 0, cmd 36 D_Ints R_Void 0,
     cmd 37 D_Ints R_Void 0, cmd 38 D_Void R_String 0, cmd 39 D_Void R_String 0,
     cmd 40 D_Void R_Void 0, cmd 41 D_Strings R_Void 0, cmd 42 D_Strings R_Ints 0,
     cmd 43 D_Strings R_Ints 0, cmd 44 D_Strings R_Void 0, cmd 45 D_Void R_Ints 0,
     cmd 46 D_Void R_Void 0, cmd 47 D_Strings R_Void 0, cmd 48 D_Void R_Strings 0,
     cmd 49 D_String R_Void 0, cmd 50 D_Void R_Void 0, cmd 51 D_Void R_String 0,
     cmd 52 D_Ints R_Void 0, cmd 53 D_Ints R_Void 0, cmd 54 D_Void R_Ints 0,
     cmd 55 D_Void R_Ints 0, cmd 56 D_Void R_Ints 0, cmd 57 D_Void R_DataCallList 0,
     cmd 58 D_Void R_Void 0, cmd 59 D_Raw R_Raw 0, cmd 60 D_Strings R_Strings 0,
     cmd 61 D_Ints R_Void 0, cmd 62 D_Ints R_Void 0, cmd 63 D_SmsWrite R_Ints 0,
     cmd 64 D_Ints R_Void 0, cmd 65 D_Ints R_Void 0, cmd 66 D_Void R_Ints 0,
     cmd 67 D_Void R_String 0, cmd 68 D_String R_Void 0, cmd 69 D_String R_String 0,
     cmd 70 D_String R_Void 0, cmd 71 D_Ints R_Void 0, cmd 72 D_Void R_Void 0,
     cmd 73 D_Ints R_Void 0, cmd 74 D_Void R_Ints 0, cmd 75 D_Void R_CellList 0,
     cmd 76 D_Ints R_Void 0, cmd 77 D_Ints R_Void 0, cmd 78 D_Ints R_Void 0,
     cmd 79 D_Void R_Ints 0, cmd 80 D_Ints R_Void 0, cmd 81 D_Void R_Ints 0,
     cmd 82 D_Ints R_Void 0, cmd 83 D_Void R_Ints 0, cmd 84 D_String R_Void 0,
     cmd 85 D_Strings R_Void 0, cmd 86 D_String R_Void 0, cmd 87 D_CdmaSms R_SMS 0,
     cmd 88 D_CdmaSmsAck R_Void 0, cmd 89 D_Void R_GsmBrSmsCnf 0, cmd 90 D_GsmBrSmsCnf R_Void 0,
     cmd 91 D_Ints R_Void 0, cmd 92 D_Void R_CdmaBrSmsCnf 0, cmd 93 D_CdmaBrSmsCnf R_Void 0,
     cmd 94 D_Ints R_Void 0, cmd 95 D_Void R_Strings 0, cmd 96 D_RilCdmaSmsWriteArgs R_Ints 0,
     cmd 97 D_Ints R_Void 0, cmd 98 D_Void R_Strings 0, cmd 99 D_Void R_Void 0,
     cmd 100 D_Void R_String 0, cmd 101 D_String R_Void 0, cmd 102 D_Ints R_Void 0,
     cmd 103 D_Void R_Void 0, cmd 104 D_CdmaSubscriptionSource R_Ints 0, cmd 105 D_String R_String 0,
     cmd 106 D_Strings R_Void 0, cmd 107 D_String R_SIM_IO 0, cmd 108 D_VoiceRadioTech R_Ints 0,
     cmd 109 D_Void R_Ints 112, cmd 110 D_ImsSms R_SMS 113, cmd 118 D_UiccSubscripton R_Void 122]"

definition s_unsolResponses :: "UnsolResponseInfo list" where
  "s_unsolResponses =
    [unsol 1000 R_Void True 0, unsol 1001 R_Void True 0, unsol 1002 R_Void True 0,
     unsol 1003 R_String True 0, unsol 1004 R_String True 0, unsol 1005 R_Ints True 0,
     unsol 1006 R_Strings True 0, unsol 1007 R_Void False 0, unsol 1008 R_String True 0,
     unsol 1009 R_RilSignalStrength False 0, unsol 1010 R_DataCallList True 0, unsol 1011 R_Ssn True 0,
     unsol 1012 R_Void True 0, unsol 1013 R_String True 0, unsol 1014 R_String True 0,
     unsol 1015 R_Ints True 0, unsol 1016 R_Void True 0, unsol 1017 R_SimRefresh True 0,
     unsol 1018 R_CallRing True 0, unsol 1019 R_Void True 0, unsol 1020 R_CdmaSms True 0,
     unsol 1021 R_Raw True 0, unsol 1022 R_Void True 0, unsol 1023 R_Ints True 0,
     unsol 1024 R_Void True 0, unsol 1025 R_CdmaCallWaiting True 0, unsol 1026 R_Ints True 0,
     unsol 1027 R_CdmaInformationRecords True 0, unsol 1028 R_Raw True 0, unsol 1029 R_Ints True 0,
     unsol 1030 R_Void True 0, unsol 1031 R_Ints True 0, unsol 1032 R_Ints True 0,
     unsol 1033 R_Void True 0, unsol 1034 R_Ints True 0, unsol 1035 R_Ints True 1035,
     unsol 1036 R_Void True 1037, unsol 1039 R_SSData True 1043, unsol 1040 R_String True 1044,
     unsol 1041 R_Ints True 1038]"

definition getCmdInfoByReqId :: "int \<Rightarrow> CommandInfo option" where
  "getCmdInfoByReqId request = find (\<lambda>c. requestNumber c = request) s_commands"

text \<open>The entry for a request code of the framework.\<close>

definition translate_request :: "int \<Rightarrow> CommandInfo option" where
  "translate_request request =
     (if request > 0 then
        (case (case find (\<lambda>c. reqNumRILJ c = request) s_commands of
                 None \<Rightarrow> getCmdInfoByReqId request | Some ci \<Rightarrow> Some ci) of
           None \<Rightarrow> None
         | Some ci \<Rightarrow> if requestNumber ci \<le> 0 then None else Some ci)
      else None)"

section \<open>State\<close>

record RequestInfo =
  ri_addr :: nat
  ri_token :: u32
  ri_pCI :: CommandInfo
  ri_cancelled :: bool
  ri_local :: bool
  ri_client :: nat

text \<open>A call of the vendor library's \<open>onRequest\<close>.\<close>

record vendor_call =
  vc_client :: nat
  vc_request :: int
  vc_data :: ril_data
  vc_datalen :: nat
  vc_token :: nat

record 'w outside =
  sys_write :: "int \<Rightarrow> byte list \<Rightarrow> 'w \<Rightarrow> int \<times> bool \<times> 'w"
  sys_close :: "int \<Rightarrow> 'w \<Rightarrow> 'w"
  onStateRequest :: "nat \<Rightarrow> 'w \<Rightarrow> u32"
  elapsedRealtime :: "'w \<Rightarrow> u64"
  malloc_timer :: "nat list \<Rightarrow> nat"

text \<open>
  \<open>leaked\<close> counts the strings that were allocated and can no longer be freed. \<open>timers\<close> lists the armed
  timers, each the address of its \<open>UserCallbackInfo\<close> and its callback: \<open>wakeTimeoutCallback\<close> with a flag
  that is true while its \<open>userParam\<close> is NULL, which means that it is not cancelled, or one of the vendor library with its
  parameter. \<open>vendor_timers\<close> records the latter that ran.
\<close>

datatype timed_callback =
    WakeTimeout bool
  | VendorTimer nat nat

record 'w ril =
  cb_version :: "nat \<Rightarrow> int"
  s_registerCalled :: nat
  s_fdCommand :: "nat \<Rightarrow> int"
  s_pendingRequests :: "RequestInfo list"
  to_vendor :: "vendor_call list"
  leaked :: nat
  wake_lock :: bool
  timers :: "(nat \<times> timed_callback) list"
  vendor_timers :: "(nat \<times> nat) list"
  s_last_wake_timeout_info :: "nat option"
  voiceRadioTech :: int
  cdmaSubscriptionSource :: int
  simRuimStatus :: int
  s_lastNITZTimeData :: "byte list option"
  world :: 'w

section \<open>Command sockets\<close>

text \<open>
  \<open>buf\<close> is what is still to be written. The second result of \<open>sys_write\<close> tells, for a negative first one,
  whether the error is EINTR or EAGAIN.
\<close>

partial_function (option) blockingWrite :: "'w outside \<Rightarrow> int \<Rightarrow> byte list \<Rightarrow> 'w \<Rightarrow> (int \<times> 'w) option" where
  "blockingWrite S fd buf w =
     (if buf = [] then Some (0, w)
      else let r = sys_write S fd buf w; written = fst r; w1 = snd (snd r) in
        if written < 0 \<and> fst (snd r) then blockingWrite S fd buf w1
        else if written \<ge> 0 then blockingWrite S fd (drop (nat written) buf) w1
        else Some (-1, sys_close S fd w1))"

definition MAX_COMMAND_BYTES :: nat where "MAX_COMMAND_BYTES = 8 * 1024"

definition sendResponseRaw :: "'w outside \<Rightarrow> byte list \<Rightarrow> nat \<Rightarrow> 'w ril \<Rightarrow> (int \<times> 'w ril) option" where
  "sendResponseRaw S dat client_id s =
     (let fd = s_fdCommand s client_id in
      if fd < 0 then Some (-1, s)
      else if length dat > MAX_COMMAND_BYTES then Some (-1, s)
      else do {
        (ret, w) \<leftarrow> blockingWrite S fd (be32 (of_nat (length dat))) (world s);
        if ret < 0 then Some (ret, s\<lparr>world := w\<rparr>)
        else do {
          (ret2, w2) \<leftarrow> blockingWrite S fd dat w;
          Some (if ret2 < 0 then (ret2, s\<lparr>world := w2\<rparr>) else (0, s\<lparr>world := w2\<rparr>))
        }
      })"

definition sendResponse :: "'p parcel_env \<Rightarrow> 'w outside \<Rightarrow> 'p \<Rightarrow> nat \<Rightarrow> 'w ril \<Rightarrow> (int \<times> 'w ril) option" where
  "sendResponse E S p client_id s = sendResponseRaw S (parcel_data E p) client_id s"

section \<open>Requests\<close>

definition RESPONSE_SOLICITED :: u32 where "RESPONSE_SOLICITED = 0"
definition RESPONSE_UNSOLICITED :: u32 where "RESPONSE_UNSOLICITED = 1"
definition RIL_E_SUCCESS :: u32 where "RIL_E_SUCCESS = 0"
definition RIL_E_RADIO_NOT_AVAILABLE :: u32 where "RIL_E_RADIO_NOT_AVAILABLE = 1"
definition RIL_E_GENERIC_FAILURE :: u32 where "RIL_E_GENERIC_FAILURE = 2"
definition RIL_E_REQUEST_NOT_SUPPORTED :: u32 where "RIL_E_REQUEST_NOT_SUPPORTED = 6"

definition onRequest :: "RequestInfo \<Rightarrow> ril_data \<Rightarrow> nat \<Rightarrow> 'w ril \<Rightarrow> 'w ril" where
  "onRequest pRI dat datalen s = s\<lparr>to_vendor := to_vendor s @
     [\<lparr>vc_client = ri_client pRI, vc_request = requestNumber (ri_pCI pRI), vc_data = dat, vc_datalen = datalen,
       vc_token = ri_addr pRI\<rparr>]\<rparr>"

text \<open>\<open>addr\<close> is the address that calloc returned.\<close>

definition issueLocalRequest :: "nat \<Rightarrow> int \<Rightarrow> ril_data \<Rightarrow> nat \<Rightarrow> nat \<Rightarrow> 'w ril \<Rightarrow> 'w ril option" where
  "issueLocalRequest addr request dat len client_id s = do {
     ci \<leftarrow> getCmdInfoByReqId request;
     let pRI = \<lparr>ri_addr = addr, ri_token = -1, ri_pCI = ci, ri_cancelled = False, ri_local = True, ri_client = client_id\<rparr>;
     if addr = 0 then None
     else Some (onRequest pRI dat len (s\<lparr>s_pendingRequests := pRI # s_pendingRequests s\<rparr>))
   }"

text \<open>The request of a token, taken from the list; None if it is not there.\<close>

definition checkAndDequeueRequestInfo :: "nat \<Rightarrow> 'w ril \<Rightarrow> (RequestInfo \<times> 'w ril) option" where
  "checkAndDequeueRequestInfo tok s =
     (if tok = 0 then None
      else case find_index (\<lambda>r. ri_addr r = tok) (s_pendingRequests s) of
        None \<Rightarrow> None
      | Some i \<Rightarrow> Some (s_pendingRequests s ! i,
          s\<lparr>s_pendingRequests := take i (s_pendingRequests s) @ drop (Suc i) (s_pendingRequests s)\<rparr>))"

text \<open>The parcel of a response. An error of the response function overwrites the status in place.\<close>

definition response_parcel :: "'p parcel_env \<Rightarrow> int \<Rightarrow> RequestInfo \<Rightarrow> u32 \<Rightarrow> ril_data \<Rightarrow> nat \<Rightarrow> 'p option" where
  "response_parcel E ver pRI e response responselen =
     (let p1 = writes E [PInt RESPONSE_SOLICITED, PInt (ri_token pRI)] (new_parcel E);
          errorOffset = dataPosition E p1;
          p2 = write_item E (PInt e) p1
      in if response = Null then Some p2
         else do {
           (ret, p3) \<leftarrow> response_function (responseFunction (ri_pCI pRI)) E ver response responselen p2;
           Some (if ret \<noteq> 0 then write_item E (PInt (of_int ret)) (setDataPosition E errorOffset p3) else p3)
         })"

definition RIL_onRequestComplete ::
    "'p parcel_env \<Rightarrow> 'w outside \<Rightarrow> nat \<Rightarrow> u32 \<Rightarrow> ril_data \<Rightarrow> nat \<Rightarrow> 'w ril \<Rightarrow> 'w ril option" where
  "RIL_onRequestComplete E S tok e response responselen s =
     (case checkAndDequeueRequestInfo tok s of
        None \<Rightarrow> Some s
      | Some (pRI, s1) \<Rightarrow>
          if ri_local pRI then Some s1
          else if ri_cancelled pRI then Some s1
          else do {
            p \<leftarrow> response_parcel E (cb_version s 0) pRI e response responselen;
            (ret, s2) \<leftarrow> sendResponse E S p (ri_client pRI) s1;
            Some s2
          })"

definition onCommandsSocketClosed :: "'w ril \<Rightarrow> 'w ril" where
  "onCommandsSocketClosed s =
     s\<lparr>s_pendingRequests := map (ri_cancelled_update (\<lambda>_. True)) (s_pendingRequests s)\<rparr>"

end
