(* ===== verification/RilDispatch.thy ===== *)
theory RilDispatch
  imports RilCore
begin

text \<open>
  The dispatch functions of ril.cpp: each reads the parameters of a request from its parcel and calls
  the vendor library, or reports an invalid command block, which does nothing but log; then the
  request stays pending and the strings read so far are lost. Last, the entry point for a command.
\<close>

section \<open>Reading the parameters\<close>

text \<open>Whether an array of \<open>n\<close> elements of \<open>sz\<close> bytes, allocated with a size computed in 32 bits, holds them.\<close>

definition stack_array :: "'p parcel_env \<Rightarrow> nat \<Rightarrow> u32 \<Rightarrow> nat \<Rightarrow> bool" where
  "stack_array E sz count n \<longleftrightarrow> (let datalen = unat (of_nat sz * count) in datalen \<le> stack_room E \<and> sz * n \<le> datalen)"

text \<open>Ints up to the first error; the int read with an error is stored too.\<close>

fun readInts :: "'p parcel_env \<Rightarrow> nat \<Rightarrow> ('p reader, u32 list \<times> bool) state" where
  "readInts E 0 = State_Monad.return ([], True)"
| "readInts E (Suc n) = do {
     t \<leftarrow> readInt32 E;
     ok \<leftarrow> status_ok;
     if ok then do { (ts, all) \<leftarrow> readInts E n; State_Monad.return (t # ts, all) } else State_Monad.return ([t], False)
   }"

definition read_UUS :: "'p parcel_env \<Rightarrow> ('p reader, RIL_UUS_Info option) state" where
  "read_UUS E = do {
     ty \<leftarrow> readInt32 E;
     dcs \<leftarrow> readInt32 E;
     len \<leftarrow> readVar E;
     ok \<leftarrow> status_ok;
     if \<not> ok then State_Monad.return None
     else if len = -1 then State_Monad.return (Some \<lparr>uusType = ty, uusDcs = dcs, uusLength = 0, uusData = None\<rparr>)
     else do {
       d \<leftarrow> readInplace E len;
       State_Monad.return (Some \<lparr>uusType = ty, uusDcs = dcs, uusLength = len, uusData = d\<rparr>)
     }
   }"

text \<open>None: the block is invalid.\<close>

definition read_Dial :: "'p parcel_env \<Rightarrow> int \<Rightarrow> ('p reader, RIL_Dial option) state" where
  "read_Dial E version = do {
     address \<leftarrow> strdupReadString E;
     clir \<leftarrow> readInt32 E;
     ok \<leftarrow> status_ok;
     if \<not> ok \<or> address = None then State_Monad.return None
     else if version < 3 then
       State_Monad.return (Some \<lparr>dial_address = address, dial_clir = clir, dial_uusInfo = None\<rparr>)
     else do {
       uusPresent \<leftarrow> readVar E;
       ok2 \<leftarrow> status_ok;
       if \<not> ok2 then State_Monad.return None
       else if uusPresent = 0 then
         State_Monad.return (Some \<lparr>dial_address = address, dial_clir = clir, dial_uusInfo = None\<rparr>)
       else do {
         u \<leftarrow> read_UUS E;
         State_Monad.return (case u of None \<Rightarrow> None
           | Some uus \<Rightarrow> Some \<lparr>dial_address = address, dial_clir = clir, dial_uusInfo = Some uus\<rparr>)
       }
     }
   }"

definition RIL_REQUEST_SIM_TRANSMIT_BASIC :: int where "RIL_REQUEST_SIM_TRANSMIT_BASIC = 123"
definition RIL_REQUEST_SIM_TRANSMIT_CHANNEL :: int where "RIL_REQUEST_SIM_TRANSMIT_CHANNEL = 126"

definition read_SIM_IO :: "'p parcel_env \<Rightarrow> int \<Rightarrow> ('p reader, RIL_SIM_IO) state" where
  "read_SIM_IO E request = do {
     cla \<leftarrow> (if request = RIL_REQUEST_SIM_TRANSMIT_BASIC \<or> request = RIL_REQUEST_SIM_TRANSMIT_CHANNEL
            then readInt32 E else State_Monad.return 0);
     command \<leftarrow> readInt32 E;
     fileid \<leftarrow> readInt32 E;
     path \<leftarrow> strdupReadString E;
     p1 \<leftarrow> readInt32 E;
     p2 \<leftarrow> readInt32 E;
     p3 \<leftarrow> readInt32 E;
     dat \<leftarrow> strdupReadString E;
     pin2 \<leftarrow> strdupReadString E;
     aid \<leftarrow> strdupReadString E;
     State_Monad.return \<lparr>io_cla = cla, io_command = command, io_fileid = fileid, io_path = path, io_p1 = p1, io_p2 = p2,
       io_p3 = p3, io_data = dat, io_pin2 = pin2, io_aidPtr = aid\<rparr>
   }"

definition read_CallForward :: "'p parcel_env \<Rightarrow> ('p reader, RIL_CallForwardInfo) state" where
  "read_CallForward E = do {
     st \<leftarrow> readInt32 E;
     reason \<leftarrow> readInt32 E;
     serviceClass \<leftarrow> readInt32 E;
     toa \<leftarrow> readInt32 E;
     num \<leftarrow> strdupReadString E;
     timeSeconds \<leftarrow> readInt32 E;
     State_Monad.return \<lparr>cf_status = st, cf_reason = reason, cf_serviceClass = serviceClass, cf_toa = toa,
       cf_number = num, cf_timeSeconds = timeSeconds\<rparr>
   }"

text \<open>\<open>n\<close> bytes at the front of an array of \<open>sz\<close> bytes that was cleared\<close>

definition read_array :: "'p parcel_env \<Rightarrow> nat \<Rightarrow> nat \<Rightarrow> ('p reader, byte list) state" where
  "read_array E n sz = do { bs \<leftarrow> readBytes E n; State_Monad.return (bs @ replicate (sz - n) 0) }"

definition read_Address :: "'p parcel_env \<Rightarrow> (byte \<Rightarrow> nat) \<Rightarrow> ('p reader, RIL_CDMA_SMS_Address) state" where
  "read_Address E limit = do {
     mode \<leftarrow> readInt32 E;
     nmode \<leftarrow> readInt32 E;
     ty \<leftarrow> readInt32 E;
     plan \<leftarrow> readInt32 E;
     n \<leftarrow> readByte E;
     ds \<leftarrow> read_array E (limit n) RIL_CDMA_SMS_ADDRESS_MAX;
     State_Monad.return \<lparr>digit_mode = mode, number_mode = nmode, ad_number_type = ty, ad_number_plan = plan,
       ad_number_of_digits = n, ad_digits = ds\<rparr>
   }"

definition read_Subaddress :: "'p parcel_env \<Rightarrow> (byte \<Rightarrow> nat) \<Rightarrow> ('p reader, RIL_CDMA_SMS_Subaddress) state" where
  "read_Subaddress E limit = do {
     ty \<leftarrow> readInt32 E;
     odd \<leftarrow> readByte E;
     n \<leftarrow> readByte E;
     ds \<leftarrow> read_array E (limit n) RIL_CDMA_SMS_SUBADDRESS_MAX;
     State_Monad.return \<lparr>subaddressType = ty, sub_odd = odd, sub_number_of_digits = n, sub_digits = ds\<rparr>
   }"

definition read_Message ::
    "'p parcel_env \<Rightarrow> (byte \<Rightarrow> nat) \<Rightarrow> (byte \<Rightarrow> nat) \<Rightarrow> (u32 \<Rightarrow> nat) \<Rightarrow> ('p reader, RIL_CDMA_SMS_Message) state" where
  "read_Message E limit_a limit_s limit_b = do {
     tele \<leftarrow> readInt32 E;
     present \<leftarrow> readByte E;
     cat \<leftarrow> readInt32 E;
     a \<leftarrow> read_Address E limit_a;
     s \<leftarrow> read_Subaddress E limit_s;
     n \<leftarrow> readInt32 E;
     bs \<leftarrow> read_array E (limit_b n) RIL_CDMA_SMS_BEARER_DATA_MAX;
     State_Monad.return \<lparr>uTeleserviceID = tele, bIsServicePresent = present, uServicecategory = cat, sAddress = a,
       sSubAddress = s, uBearerDataLen = n, aBearerData = bs\<rparr>
   }"

definition constructCdmaSms :: "'p parcel_env \<Rightarrow> ('p reader, RIL_CDMA_SMS_Message) state" where
  "constructCdmaSms E = read_Message E (\<lambda>n. min (unat n) RIL_CDMA_SMS_ADDRESS_MAX)
     (\<lambda>n. min (unat n) RIL_CDMA_SMS_SUBADDRESS_MAX)
     (\<lambda>n. nat (min (sint n) (int RIL_CDMA_SMS_BEARER_DATA_MAX)))"

definition read_GsmConfig :: "'p parcel_env \<Rightarrow> ('p reader, RIL_GSM_BroadcastSmsConfigInfo) state" where
  "read_GsmConfig E = do {
     a \<leftarrow> readInt32 E;
     b \<leftarrow> readInt32 E;
     c \<leftarrow> readInt32 E;
     d \<leftarrow> readInt32 E;
     e \<leftarrow> readInt32 E;
     State_Monad.return \<lparr>fromServiceId = a, toServiceId = b, fromCodeScheme = c, toCodeScheme = d, gsm_selected = ucast e\<rparr>
   }"

definition read_CdmaConfig :: "'p parcel_env \<Rightarrow> ('p reader, RIL_CDMA_BroadcastSmsConfigInfo) state" where
  "read_CdmaConfig E = do {
     a \<leftarrow> readInt32 E;
     b \<leftarrow> readInt32 E;
     c \<leftarrow> readInt32 E;
     State_Monad.return \<lparr>service_category = a, language = b, cdma_selected = ucast c\<rparr>
   }"

fun repeat :: "nat \<Rightarrow> ('s, 'a) state \<Rightarrow> ('s, 'a list) state" where
  "repeat 0 m = State_Monad.return []"
| "repeat (Suc n) m = do { x \<leftarrow> m; xs \<leftarrow> repeat n m; State_Monad.return (x # xs) }"

section \<open>Dispatch functions\<close>

type_synonym ('p, 'w) dispatch =
  "'p parcel_env \<Rightarrow> 'w outside \<Rightarrow> 'p \<Rightarrow> RequestInfo \<Rightarrow> 'w ril \<Rightarrow> 'w ril option"

definition lose :: "nat \<Rightarrow> 'w ril \<Rightarrow> 'w ril" where
  "lose n s = s\<lparr>leaked := leaked s + n\<rparr>"

text \<open>The label \<open>invalid\<close>, with the strings the function has allocated.\<close>

definition invalidCommandBlock :: "'p reader \<Rightarrow> 'w ril \<Rightarrow> 'w ril option" where
  "invalidCommandBlock r s = Some (lose (strdups r) s)"

definition dispatchVoid :: "('p, 'w) dispatch" where
  "dispatchVoid E S p pRI s = Some (onRequest pRI Null 0 s)"

definition dispatchString :: "('p, 'w) dispatch" where
  "dispatchString E S p pRI s =
     (case run_state (strdupReadString E) (reader0 E p) of
        (string8, r) \<Rightarrow> Some (onRequest pRI (to_data string8) sizeof_pointer s))"

text \<open>
  An array of strings, as \<open>dispatchStrings\<close> and \<open>dispatchImsGsmSms\<close> read it: None for a NULL array. The
  outer None is an array that does not fit the stack.
\<close>

definition read_string_array :: "'p parcel_env \<Rightarrow> u32 \<Rightarrow> 'p reader \<Rightarrow> (cstr list option \<times> nat) option" where
  "read_string_array E countStrings r =
     (if countStrings = 0 then Some (Some [], 0)
      else if countStrings = -1 then Some (None, 0)
      else let n = nat (sint countStrings) in
        if \<not> stack_array E sizeof_pointer countStrings n then None
        else Some (Some (fst (run_state (readStrings E n) r)), unat (of_nat sizeof_pointer * countStrings)))"

definition strs_data :: "cstr list option \<Rightarrow> ril_data" where
  "strs_data xs = (case xs of None \<Rightarrow> Null | Some ys \<Rightarrow> Strs ys)"

definition dispatchStrings :: "('p, 'w) dispatch" where
  "dispatchStrings E S p pRI s =
     (case run_state (readVar E) (reader0 E p) of
        (countStrings, r) \<Rightarrow>
          if \<not> no_error r then invalidCommandBlock r s
          else do {
            (xs, datalen) \<leftarrow> read_string_array E countStrings r;
            Some (onRequest pRI (strs_data xs) datalen s)
          })"

definition dispatchInts :: "('p, 'w) dispatch" where
  "dispatchInts E S p pRI s =
     (case run_state (readVar E) (reader0 E p) of
        (count, r) \<Rightarrow>
          if \<not> no_error r \<or> count = 0 then invalidCommandBlock r s
          else (case run_state (readInts E (nat (sint count))) r of
            ((ts, all), r2) \<Rightarrow>
              if \<not> stack_array E sizeof_int count (length ts) then None
              else if \<not> all then invalidCommandBlock r2 s
              else Some (onRequest pRI (Ints ts) (unat (of_nat sizeof_int * count)) s)))"

definition dispatchSmsWrite :: "('p, 'w) dispatch" where
  "dispatchSmsWrite E S p pRI s =
     (case run_state (readInt32 E) (reader0 E p) of
        (t, r) \<Rightarrow> (case run_state (strdupReadString E) r of
           (pdu, r1) \<Rightarrow>
             if \<not> no_error r1 \<or> pdu = None then invalidCommandBlock r1 s
             else (case run_state (strdupReadString E) r1 of
               (smsc, r2) \<Rightarrow> Some (lose (if smsc = None then 0 else 1)
                 (onRequest pRI (SmsWrite \<lparr>sw_status = t, sw_pdu = pdu, sw_smsc = smsc\<rparr>) sizeof_RIL_SMS_WriteArgs s)))))"

definition dispatchDial :: "('p, 'w) dispatch" where
  "dispatchDial E S p pRI s =
     (let version = cb_version s (ri_client pRI) in
      case run_state (read_Dial E version) (reader0 E p) of
        (None, r) \<Rightarrow> invalidCommandBlock r s
      | (Some dial, r) \<Rightarrow> Some (onRequest pRI (Dial dial)
          (if version < 3 then sizeof_RIL_Dial - sizeof_pointer else sizeof_RIL_Dial) s))"

definition dispatchSIM_IO :: "('p, 'w) dispatch" where
  "dispatchSIM_IO E S p pRI s =
     (case run_state (read_SIM_IO E (requestNumber (ri_pCI pRI))) (reader0 E p) of
        (simIO, r) \<Rightarrow>
          if \<not> no_error r then invalidCommandBlock r s
          else Some (onRequest pRI (SimIO simIO)
            (if cb_version s (ri_client pRI) < 6 then sizeof_RIL_SIM_IO_v5 else sizeof_RIL_SIM_IO_v6) s))"

definition dispatchCallForward :: "('p, 'w) dispatch" where
  "dispatchCallForward E S p pRI s =
     (case run_state (read_CallForward E) (reader0 E p) of
        (cff, r) \<Rightarrow>
          if \<not> no_error r then invalidCommandBlock r s
          else if cf_number cff = Some [] then
            Some (lose 1 (onRequest pRI (CallForward (cff\<lparr>cf_number := None\<rparr>)) sizeof_RIL_CallForwardInfo s))
          else Some (onRequest pRI (CallForward cff) sizeof_RIL_CallForwardInfo s))"

definition dispatchRaw :: "('p, 'w) dispatch" where
  "dispatchRaw E S p pRI s =
     (case run_state (readVar E) (reader0 E p) of
        (len, r) \<Rightarrow>
          if \<not> no_error r then invalidCommandBlock r s
          else let len1 = (if len = -1 then 0 else len) in
            (case run_state (readInplace E len1) r of
               (d, r1) \<Rightarrow> Some (onRequest pRI (case d of None \<Rightarrow> Null | Some bs \<Rightarrow> Raw bs) (unat len1) s)))"

definition dispatchCdmaSms :: "('p, 'w) dispatch" where
  "dispatchCdmaSms E S p pRI s =
     (case run_state (constructCdmaSms E) (reader0 E p) of
        (rcsm, r) \<Rightarrow>
          if \<not> no_error r then invalidCommandBlock r s
          else Some (onRequest pRI (CdmaSms rcsm) sizeof_RIL_CDMA_SMS_Message s))"

definition RADIO_TECH_3GPP :: u32 where "RADIO_TECH_3GPP = 1"
definition RADIO_TECH_3GPP2 :: u32 where "RADIO_TECH_3GPP2 = 2"

text \<open>The lengths passed for an IMS message are sums of member sizes.\<close>

definition dispatchImsCdmaSms :: "byte \<Rightarrow> u32 \<Rightarrow> ('p, 'w) dispatch" where
  "dispatchImsCdmaSms retry msgRef E S p pRI s =
     (case run_state (constructCdmaSms E) (reader0 E p) of
        (rcsm, r) \<Rightarrow>
          if \<not> no_error r then invalidCommandBlock r s
          else Some (onRequest pRI (ImsSms \<lparr>ims_tech = RADIO_TECH_3GPP2, ims_retry = retry, ims_messageRef = msgRef,
              ims_message = cdmaMessage rcsm\<rparr>) (4 + 1 + 4 + sizeof_RIL_CDMA_SMS_Message) s))"

definition dispatchImsGsmSms :: "byte \<Rightarrow> u32 \<Rightarrow> ('p, 'w) dispatch" where
  "dispatchImsGsmSms retry msgRef E S p pRI s =
     (case run_state (readVar E) (reader0 E p) of
        (countStrings, r) \<Rightarrow>
          if \<not> no_error r then invalidCommandBlock r s
          else do {
            (xs, datalen) \<leftarrow> read_string_array E countStrings r;
            Some (onRequest pRI (ImsSms \<lparr>ims_tech = RADIO_TECH_3GPP, ims_retry = retry, ims_messageRef = msgRef,
              ims_message = gsmMessage xs\<rparr>) (4 + 1 + 4 + datalen) s)
          })"

text \<open>The processor is little-endian.\<close>

definition un_le32 :: "byte list \<Rightarrow> u32" where
  "un_le32 bs = (case bs of [a, b, c, d] \<Rightarrow> un_be32 d c b a | _ \<Rightarrow> 0)"

definition dispatchImsSms :: "('p, 'w) dispatch" where
  "dispatchImsSms E S p pRI s =
     (case run_state (readInt32 E) (reader0 E p) of
        (format, r) \<Rightarrow>
          if \<not> no_error r then invalidCommandBlock r s
          else (case run_state (readByte E) r of
            (retry, r1) \<Rightarrow>
              if \<not> no_error r1 then invalidCommandBlock r1 s
              else (case read_raw E 4 (parcel r1) of
                (None, q) \<Rightarrow> invalidCommandBlock r1 s
              | (Some bs, q) \<Rightarrow>
                  if format = RADIO_TECH_3GPP then dispatchImsGsmSms retry (un_le32 bs) E S q pRI s
                  else if format = RADIO_TECH_3GPP2 then dispatchImsCdmaSms retry (un_le32 bs) E S q pRI s
                  else Some s)))"

definition dispatchCdmaSmsAck :: "('p, 'w) dispatch" where
  "dispatchCdmaSmsAck E S p pRI s =
     (case run_state (do { a \<leftarrow> readInt32 E; b \<leftarrow> readInt32 E; State_Monad.return (a, b) }) (reader0 E p) of
        ((a, b), r) \<Rightarrow>
          if \<not> no_error r then invalidCommandBlock r s
          else Some (onRequest pRI (CdmaSmsAck \<lparr>uErrorClass = a, uSMSCauseCode = b\<rparr>) sizeof_RIL_CDMA_SMS_Ack s))"

text \<open>
  The two lists of broadcast configurations: \<open>num\<close> structures and as many pointers to them are on the
  stack; the pointers are passed.
\<close>

definition dispatchGsmBrSmsCnf :: "('p, 'w) dispatch" where
  "dispatchGsmBrSmsCnf E S p pRI s =
     (case run_state (readVar E) (reader0 E p) of
        (num, r) \<Rightarrow>
          if \<not> no_error r then invalidCommandBlock r s
          else if sint num < 0 \<or> 24 * unat num > stack_room E then None
          else (case run_state (repeat (unat num) (read_GsmConfig E)) r of
            (cs, r1) \<Rightarrow>
              if \<not> no_error r1 then invalidCommandBlock r1 s
              else Some (onRequest pRI (GsmBroadcast cs) (unat num * sizeof_pointer) s)))"

definition dispatchCdmaBrSmsCnf :: "('p, 'w) dispatch" where
  "dispatchCdmaBrSmsCnf E S p pRI s =
     (case run_state (readVar E) (reader0 E p) of
        (num, r) \<Rightarrow>
          if \<not> no_error r then invalidCommandBlock r s
          else if sint num < 0 \<or> 16 * unat num > stack_room E then None
          else (case run_state (repeat (unat num) (read_CdmaConfig E)) r of
            (cs, r1) \<Rightarrow>
              if \<not> no_error r1 then invalidCommandBlock r1 s
              else Some (onRequest pRI (CdmaBroadcast cs) (unat num * sizeof_pointer) s)))"

text \<open>All digits and data are read here, whatever the counts.\<close>

definition dispatchRilCdmaSmsWriteArgs :: "('p, 'w) dispatch" where
  "dispatchRilCdmaSmsWriteArgs E S p pRI s =
     (case run_state (do {
          st \<leftarrow> readInt32 E;
          m \<leftarrow> read_Message E (\<lambda>_. RIL_CDMA_SMS_ADDRESS_MAX) (\<lambda>_. RIL_CDMA_SMS_SUBADDRESS_MAX)
            (\<lambda>_. RIL_CDMA_SMS_BEARER_DATA_MAX);
          State_Monad.return \<lparr>cw_status = st, cw_message = m\<rparr> }) (reader0 E p) of
        (rcsw, r) \<Rightarrow>
          if \<not> no_error r then invalidCommandBlock r s
          else Some (onRequest pRI (CdmaSmsWrite rcsw) sizeof_RIL_CDMA_SMS_WriteArgs s))"

text \<open>\<open>p2.writeString16(p.readString16())\<close>; a string that cannot be read is an empty one.\<close>

fun copy_strings :: "'p parcel_env \<Rightarrow> nat \<Rightarrow> 'p \<Rightarrow> 'p \<Rightarrow> 'p" where
  "copy_strings E 0 p p2 = p2"
| "copy_strings E (Suc n) p p2 = (case read_string16 E p of
     (w, q) \<Rightarrow> copy_strings E n q (write_string16 E (Some (case w of None \<Rightarrow> [] | Some x \<Rightarrow> x)) p2))"

definition dispatchDataCall :: "('p, 'w) dispatch" where
  "dispatchDataCall E S p pRI s =
     (let pos = dataPosition E p in
      case read_i32 E p of
        (n, q) \<Rightarrow>
          let numParams = (case n of None \<Rightarrow> 0 | Some v \<Rightarrow> sint v) in
          if cb_version s (ri_client pRI) < 4 \<and> numParams > 6
          then let p2 = appendFrom E p 0 pos (new_parcel E);
                   p3 = copy_strings E 6 q (write_i32 E 6 p2)
               in dispatchStrings E S (setDataPosition E pos p3) pRI s
          else dispatchStrings E S (setDataPosition E pos q) pRI s)"

definition RADIO_STATE_OFF :: u32 where "RADIO_STATE_OFF = 0"
definition RADIO_STATE_UNAVAILABLE :: u32 where "RADIO_STATE_UNAVAILABLE = 1"
definition RADIO_STATE_ON :: u32 where "RADIO_STATE_ON = 10"

text \<open>States 2 to 4 are those of a SIM, 5 to 7 of a RUIM, 8 and 9 of an NV; 3 is UMTS, 6 is 1xRTT.\<close>

definition decodeVoiceRadioTechnology :: "u32 \<Rightarrow> int" where
  "decodeVoiceRadioTechnology radioState =
     (if 2 \<le> radioState \<and> radioState \<le> 4 then 3 else if 5 \<le> radioState \<and> radioState \<le> 9 then 6 else -1)"

definition decodeCdmaSubscriptionSource :: "u32 \<Rightarrow> int" where
  "decodeCdmaSubscriptionSource radioState =
     (if 2 \<le> radioState \<and> radioState \<le> 7 then 0 else if 8 \<le> radioState \<and> radioState \<le> 9 then 1 else -1)"

definition dispatchVoiceRadioTech :: "('p, 'w) dispatch" where
  "dispatchVoiceRadioTech E S p pRI s =
     (let st = onStateRequest S (ri_client pRI) (world s) in do {
        s1 \<leftarrow> (if st = RADIO_STATE_UNAVAILABLE \<or> st = RADIO_STATE_OFF
              then RIL_onRequestComplete E S (ri_addr pRI) RIL_E_RADIO_NOT_AVAILABLE Null 0 s else Some s);
        if st = RADIO_STATE_ON then dispatchVoid E S p pRI s1
        else let tech = decodeVoiceRadioTechnology st; s2 = s1\<lparr>voiceRadioTech := tech\<rparr> in
          if tech < 0 then RIL_onRequestComplete E S (ri_addr pRI) RIL_E_GENERIC_FAILURE Null 0 s2
          else RIL_onRequestComplete E S (ri_addr pRI) RIL_E_SUCCESS (Ints [of_int tech]) sizeof_int s2
      })"

definition dispatchCdmaSubscriptionSource :: "('p, 'w) dispatch" where
  "dispatchCdmaSubscriptionSource E S p pRI s =
     (let st = onStateRequest S (ri_client pRI) (world s) in do {
        s1 \<leftarrow> (if st = RADIO_STATE_UNAVAILABLE \<or> st = RADIO_STATE_OFF
              then RIL_onRequestComplete E S (ri_addr pRI) RIL_E_RADIO_NOT_AVAILABLE Null 0 s else Some s);
        if st = RADIO_STATE_ON then dispatchVoid E S p pRI s1
        else let src = decodeCdmaSubscriptionSource st; s2 = s1\<lparr>cdmaSubscriptionSource := src\<rparr> in
          if src < 0 then RIL_onRequestComplete E S (ri_addr pRI) RIL_E_GENERIC_FAILURE Null 0 s2
          else RIL_onRequestComplete E S (ri_addr pRI) RIL_E_SUCCESS (Ints [of_int src]) sizeof_int s2
      })"

text \<open>The invalid branch frees its string here.\<close>

definition dispatchDepersonalization :: "('p, 'w) dispatch" where
  "dispatchDepersonalization E S p pRI s =
     (case run_state (do { a \<leftarrow> readInt32 E; b \<leftarrow> strdupReadString E; State_Monad.return (a, b) }) (reader0 E p) of
        ((a, b), r) \<Rightarrow>
          if \<not> no_error r then Some s
          else Some (onRequest pRI (Depersonalization \<lparr>depersonalizationType = a, depersonalizationCode = b\<rparr>)
            sizeof_RIL_Depersonalization s))"

definition dispatchUiccSubscripton :: "('p, 'w) dispatch" where
  "dispatchUiccSubscripton E S p pRI s =
     (case run_state (readInts E 4) (reader0 E p) of
        ((ts, all), r) \<Rightarrow>
          if \<not> all then invalidCommandBlock r s
          else Some (onRequest pRI (UiccSub \<lparr>uicc_slot = ts ! 0, uicc_app_index = ts ! 1, uicc_sub_type = ts ! 2,
            uicc_act_status = ts ! 3\<rparr>) sizeof_RIL_SelectUiccSub s))"

fun dispatch_function :: "dispatch_fn \<Rightarrow> ('p, 'w) dispatch" where
  "dispatch_function D_CallForward = dispatchCallForward"
| "dispatch_function D_CdmaBrSmsCnf = dispatchCdmaBrSmsCnf"
| "dispatch_function D_CdmaSms = dispatchCdmaSms"
| "dispatch_function D_CdmaSmsAck = dispatchCdmaSmsAck"
| "dispatch_function D_CdmaSubscriptionSource = dispatchCdmaSubscriptionSource"
| "dispatch_function D_DataCall = dispatchDataCall"
| "dispatch_function D_Depersonalization = dispatchDepersonalization"
| "dispatch_function D_Dial = dispatchDial"
| "dispatch_function D_GsmBrSmsCnf = dispatchGsmBrSmsCnf"
| "dispatch_function D_ImsSms = dispatchImsSms"
| "dispatch_function D_Ints = dispatchInts"
| "dispatch_function D_Raw = dispatchRaw"
| "dispatch_function D_RilCdmaSmsWriteArgs = dispatchRilCdmaSmsWriteArgs"
| "dispatch_function D_SIM_IO = dispatchSIM_IO"
| "dispatch_function D_SmsWrite = dispatchSmsWrite"
| "dispatch_function D_String = dispatchString"
| "dispatch_function D_Strings = dispatchStrings"
| "dispatch_function D_UiccSubscripton = dispatchUiccSubscripton"
| "dispatch_function D_VoiceRadioTech = dispatchVoiceRadioTech"
| "dispatch_function D_Void = dispatchVoid"

section \<open>A command\<close>

text \<open>
  \<open>addr\<close> is the address calloc returns for the request. The status is that of the second read alone;
  the request code is not initialised if the first one fails.
\<close>

definition processCommandBuffer ::
    "'p parcel_env \<Rightarrow> 'w outside \<Rightarrow> byte list \<Rightarrow> nat \<Rightarrow> nat \<Rightarrow> 'w ril \<Rightarrow> 'w ril option" where
  "processCommandBuffer E S buffer client_id addr s =
     (case run_state (do { request \<leftarrow> readVar E; token \<leftarrow> readVar E; State_Monad.return (request, token) })
        (reader0 E (setData E buffer (new_parcel E))) of
        ((request, token), r) \<Rightarrow>
          if \<not> no_error r then Some s
          else (case translate_request (sint request) of
            None \<Rightarrow> do {
              (ret, s1) \<leftarrow> sendResponse E S (writes E [PInt RESPONSE_SOLICITED, PInt token, PInt RIL_E_REQUEST_NOT_SUPPORTED]
                (new_parcel E)) client_id s;
              Some s1
            }
          | Some ci \<Rightarrow>
              let pRI = \<lparr>ri_addr = addr, ri_token = token, ri_pCI = ci, ri_cancelled = False, ri_local = False,
                    ri_client = client_id\<rparr>
              in if addr = 0 then None
                 else dispatch_function (dispatchFunction ci) E S (parcel r) pRI
                   (s\<lparr>s_pendingRequests := pRI # s_pendingRequests s\<rparr>)))"

end
