(* ===== verification/RilUnsol.thy ===== *)
theory RilUnsol
  imports RilDispatch
begin

text \<open>
  Unsolicited responses, the radio state, the wake lock and its timers, and what happens when a client
  connects, sends commands or goes away (ril.cpp). The events of the event loop, \<open>RilEvent\<close>, that these
  functions add and delete are not part of this state; a timer that expires is a call of
  \<open>userTimerCallback\<close>, commands that arrive are a call of \<open>processCommandsCallback\<close>.
\<close>

section \<open>Timers\<close>

definition internalRequestTimedCallback :: "'w outside \<Rightarrow> timed_callback \<Rightarrow> 'w ril \<Rightarrow> nat \<times> 'w ril" where
  "internalRequestTimedCallback S cb s =
     (let a = malloc_timer S (map fst (timers s)) in (a, s\<lparr>timers := timers s @ [(a, cb)]\<rparr>))"

definition RIL_requestTimedCallback :: "'w outside \<Rightarrow> nat \<Rightarrow> nat \<Rightarrow> 'w ril \<Rightarrow> 'w ril" where
  "RIL_requestTimedCallback S callback param s = snd (internalRequestTimedCallback S (VendorTimer callback param) s)"

fun wakeTimeoutCallback :: "bool \<Rightarrow> 'w ril \<Rightarrow> 'w ril" where
  "wakeTimeoutCallback True s = s\<lparr>wake_lock := False\<rparr>"
| "wakeTimeoutCallback False s = s"

fun run_timed :: "timed_callback \<Rightarrow> 'w ril \<Rightarrow> 'w ril" where
  "run_timed (WakeTimeout live) s = wakeTimeoutCallback live s"
| "run_timed (VendorTimer f x) s = s\<lparr>vendor_timers := vendor_timers s @ [(f, x)]\<rparr>"

text \<open>The timer at \<open>p_info\<close> has expired; None if there is none.\<close>

definition userTimerCallback :: "nat \<Rightarrow> 'w ril \<Rightarrow> 'w ril option" where
  "userTimerCallback p_info s = do {
     cb \<leftarrow> map_of (timers s) p_info;
     let s1 = run_timed cb s;
     let s2 = (if s_last_wake_timeout_info s1 = Some p_info then s1\<lparr>s_last_wake_timeout_info := None\<rparr> else s1);
     Some (s2\<lparr>timers := filter (\<lambda>t. fst t \<noteq> p_info) (timers s2)\<rparr>)
   }"

text \<open>The assignment of 1 to the \<open>userParam\<close> of the timer at \<open>a\<close>.\<close>

fun set_param :: "timed_callback \<Rightarrow> timed_callback" where
  "set_param (WakeTimeout live) = WakeTimeout False"
| "set_param (VendorTimer f x) = VendorTimer f 1"

definition cancel_timer :: "nat \<Rightarrow> 'w ril \<Rightarrow> 'w ril" where
  "cancel_timer a s = s\<lparr>timers := map (\<lambda>t. if fst t = a then (a, set_param (snd t)) else t) (timers s)\<rparr>"

text \<open>\<open>if (shouldScheduleTimeout)\<close>\<close>

definition schedule_wake_timeout :: "'w outside \<Rightarrow> 'w ril \<Rightarrow> 'w ril" where
  "schedule_wake_timeout S s =
     (let s1 = (case s_last_wake_timeout_info s of None \<Rightarrow> s | Some a \<Rightarrow> cancel_timer a s) in
      case internalRequestTimedCallback S (WakeTimeout True) s1 of
        (a, s2) \<Rightarrow> s2\<lparr>s_last_wake_timeout_info := Some a\<rparr>)"

section \<open>Unsolicited responses\<close>

definition RIL_UNSOL_RESPONSE_BASE :: int where "RIL_UNSOL_RESPONSE_BASE = 1000"
definition RIL_UNSOL_RESPONSE_RADIO_STATE_CHANGED :: int where "RIL_UNSOL_RESPONSE_RADIO_STATE_CHANGED = 1000"
definition RIL_UNSOL_NITZ_TIME_RECEIVED :: int where "RIL_UNSOL_NITZ_TIME_RECEIVED = 1008"
definition RIL_UNSOL_RESPONSE_SIM_STATUS_CHANGED :: int where "RIL_UNSOL_RESPONSE_SIM_STATUS_CHANGED = 1019"
definition RIL_UNSOL_CDMA_SUBSCRIPTION_SOURCE_CHANGED :: int where "RIL_UNSOL_CDMA_SUBSCRIPTION_SOURCE_CHANGED = 1031"
definition RIL_UNSOL_RIL_CONNECTED :: int where "RIL_UNSOL_RIL_CONNECTED = 1034"
definition RIL_UNSOL_VOICE_RADIO_TECH_CHANGED :: int where "RIL_UNSOL_VOICE_RADIO_TECH_CHANGED = 1035"

text \<open>The entry of a code, and the code the framework knows it by.\<close>

definition translate_unsol :: "int \<Rightarrow> (UnsolResponseInfo \<times> int) option" where
  "translate_unsol n =
     (if n \<ge> RIL_UNSOL_RESPONSE_BASE then
        (case find (\<lambda>u. unsolNumber u = n) s_unsolResponses of
           None \<Rightarrow> None
         | Some uri \<Rightarrow>
             let rilj_id = (if unsolNumRILJ uri > 0 then unsolNumRILJ uri
                            else if unsolNumRILJ uri = 0 then unsolNumber uri else 0)
             in if rilj_id = 0 then None else Some (uri, rilj_id))
      else None)"

text \<open>
  The body, with what follows the response function for a radio state as the parameter \<open>extra\<close>, since it
  sends unsolicited responses itself.
\<close>

definition unsolicited ::
    "'p parcel_env \<Rightarrow> 'w outside \<Rightarrow> ('p \<Rightarrow> 'w ril \<Rightarrow> ('p \<times> 'w ril) option) \<Rightarrow> int \<Rightarrow> ril_data \<Rightarrow> nat \<Rightarrow> nat
     \<Rightarrow> 'w ril \<Rightarrow> 'w ril option" where
  "unsolicited E S extra unsolResponse dat datalen client_id s =
     (if s_registerCalled s = 0 then Some s
      else case translate_unsol unsolResponse of
        None \<Rightarrow> Some s
      | Some (uri, rilj_id) \<Rightarrow>
          let s1 = (if wake_partial uri then s\<lparr>wake_lock := True\<rparr> else s);
              timeReceived = elapsedRealtime S (world s1)
          in do {
            (ret, p) \<leftarrow> response_function (unsolFunction uri) E (cb_version s 0) dat datalen
              (writes E [PInt RESPONSE_UNSOLICITED, PInt (of_int rilj_id)] (new_parcel E));
            if ret \<noteq> 0 then Some (if wake_partial uri then s1\<lparr>wake_lock := False\<rparr> else s1)
            else do {
              (p1, s2) \<leftarrow>
                (if unsolResponse = RIL_UNSOL_RESPONSE_RADIO_STATE_CHANGED then extra p s1
                 else if unsolResponse = RIL_UNSOL_NITZ_TIME_RECEIVED then Some (write_i64 E timeReceived p, s1)
                 else Some (p, s1));
              (ret2, s3) \<leftarrow> sendResponse E S p1 client_id s2;
              let s4 = (if ret2 \<noteq> 0 \<and> unsolResponse = RIL_UNSOL_NITZ_TIME_RECEIVED
                        then s3\<lparr>s_lastNITZTimeData := Some (parcel_data E p1)\<rparr> else s3);
              Some (if wake_partial uri then schedule_wake_timeout S s4 else s4)
            }
          })"

text \<open>The codes \<open>processRadioState\<close> sends are not that of a radio state.\<close>

definition send_notice :: "'p parcel_env \<Rightarrow> 'w outside \<Rightarrow> int \<Rightarrow> ril_data \<Rightarrow> nat \<Rightarrow> nat \<Rightarrow> 'w ril \<Rightarrow> 'w ril option" where
  "send_notice E S = unsolicited E S (\<lambda>p s. Some (p, s))"

definition decodeSimStatus :: "u32 \<Rightarrow> int" where
  "decodeSimStatus radioState = (if radioState \<in> {3, 4, 6, 7} then uint radioState else -1)"

definition is3gpp2 :: "int \<Rightarrow> bool" where
  "is3gpp2 tech \<longleftrightarrow> tech \<in> {4, 5, 6, 7, 8, 12, 13}"

definition processRadioState ::
    "'p parcel_env \<Rightarrow> 'w outside \<Rightarrow> u32 \<Rightarrow> nat \<Rightarrow> 'w ril \<Rightarrow> (u32 \<times> 'w ril) option" where
  "processRadioState E S newRadioState client_id s =
     (if newRadioState > RADIO_STATE_UNAVAILABLE \<and> newRadioState < RADIO_STATE_ON then
        let tech = decodeVoiceRadioTechnology newRadioState;
            src = decodeCdmaSubscriptionSource newRadioState;
            sim = decodeSimStatus newRadioState
        in do {
          s1 \<leftarrow> (if tech \<noteq> voiceRadioTech s
                then send_notice E S RIL_UNSOL_VOICE_RADIO_TECH_CHANGED (Ints [of_int tech]) sizeof_int client_id
                  (s\<lparr>voiceRadioTech := tech\<rparr>)
                else Some s);
          s2 \<leftarrow> (if is3gpp2 tech \<and> src \<noteq> cdmaSubscriptionSource s1
                then send_notice E S RIL_UNSOL_CDMA_SUBSCRIPTION_SOURCE_CHANGED (Ints [of_int src]) sizeof_int client_id
                  (s1\<lparr>cdmaSubscriptionSource := src\<rparr>)
                else Some s1);
          s3 \<leftarrow> (if sim \<noteq> simRuimStatus s2
                then send_notice E S RIL_UNSOL_RESPONSE_SIM_STATUS_CHANGED Null 0 0 (s2\<lparr>simRuimStatus := sim\<rparr>)
                else Some s2);
          Some (RADIO_STATE_ON, s3)
        }
      else Some (newRadioState, s))"

definition RIL_onUnsolicitedSendResponse ::
    "'p parcel_env \<Rightarrow> 'w outside \<Rightarrow> int \<Rightarrow> ril_data \<Rightarrow> nat \<Rightarrow> nat \<Rightarrow> 'w ril \<Rightarrow> 'w ril option" where
  "RIL_onUnsolicitedSendResponse E S unsolResponse dat datalen client_id s =
     unsolicited E S (\<lambda>p s1. do {
         (newState, s2) \<leftarrow> processRadioState E S (onStateRequest S client_id (world s1)) client_id s1;
         Some (write_i32 E newState p, s2)
       }) unsolResponse dat datalen client_id s"

definition RIL_onUnsolicitedResponse ::
    "'p parcel_env \<Rightarrow> 'w outside \<Rightarrow> int \<Rightarrow> ril_data \<Rightarrow> nat \<Rightarrow> 'w ril \<Rightarrow> 'w ril option" where
  "RIL_onUnsolicitedResponse E S n dat datalen s = RIL_onUnsolicitedSendResponse E S n dat datalen 0 s"

definition RIL_onUnsolicitedResponse2 ::
    "'p parcel_env \<Rightarrow> 'w outside \<Rightarrow> int \<Rightarrow> ril_data \<Rightarrow> nat \<Rightarrow> 'w ril \<Rightarrow> 'w ril option" where
  "RIL_onUnsolicitedResponse2 E S n dat datalen s = RIL_onUnsolicitedSendResponse E S n dat datalen 1 s"

section \<open>Clients\<close>

definition MAX_NUM_CLIENTS :: nat where "MAX_NUM_CLIENTS = 2"
definition RIL_VERSION :: int where "RIL_VERSION = 7"
definition RIL_VERSION_MIN :: int where "RIL_VERSION_MIN = 6"

text \<open>The version is None for NULL callbacks. The sockets it creates are not modelled.\<close>

definition RIL_register :: "int option \<Rightarrow> nat \<Rightarrow> 'w ril \<Rightarrow> 'w ril" where
  "RIL_register callbacks client_id s =
     (case callbacks of None \<Rightarrow> s
      | Some version \<Rightarrow>
          if version < RIL_VERSION_MIN then s
          else if version > RIL_VERSION then s
          else if s_registerCalled s \<ge> MAX_NUM_CLIENTS then s
          else s\<lparr>cb_version := (cb_version s)(client_id := version), s_registerCalled := s_registerCalled s + 1\<rparr>)"

definition onNewCommandConnect :: "'p parcel_env \<Rightarrow> 'w outside \<Rightarrow> nat \<Rightarrow> 'w ril \<Rightarrow> 'w ril option" where
  "onNewCommandConnect E S client_id s = do {
     s1 \<leftarrow> RIL_onUnsolicitedSendResponse E S RIL_UNSOL_RIL_CONNECTED (Ints [of_int (cb_version s client_id)]) sizeof_int
       client_id s;
     s2 \<leftarrow> RIL_onUnsolicitedSendResponse E S RIL_UNSOL_RESPONSE_RADIO_STATE_CHANGED Null 0 client_id s1;
     (case s_lastNITZTimeData s2 of
        None \<Rightarrow> Some s2
      | Some nitz \<Rightarrow> do {
          (ret, s3) \<leftarrow> sendResponseRaw S nitz client_id s2;
          Some (s3\<lparr>s_lastNITZTimeData := None\<rparr>)
        })
   }"

text \<open>
  A connection: accept failed, or the peer is not the phone process, or it is and sent \<open>len\<close> bytes into
  the buffer \<open>p_record\<close> of four. After a failed read the function goes on with the closed descriptor.
\<close>

datatype connection =
    AcceptFailed
  | OtherProcess int
  | PhoneProcess int int "byte list"

definition SUB2 :: "byte list" where "SUB2 = [0x53, 0x55, 0x42, 0x32]"

definition listenCallback :: "'p parcel_env \<Rightarrow> 'w outside \<Rightarrow> connection \<Rightarrow> 'w ril \<Rightarrow> 'w ril option" where
  "listenCallback E S c s =
     (case c of
        AcceptFailed \<Rightarrow> Some s
      | OtherProcess fd \<Rightarrow> Some (onCommandsSocketClosed (s\<lparr>world := sys_close S fd (world s)\<rparr>))
      | PhoneProcess fd len p_record \<Rightarrow>
          let s1 = (if len \<le> 0 then onCommandsSocketClosed (s\<lparr>world := sys_close S fd (world s)\<rparr>) else s);
              fd1 = (if len \<le> 0 then -1 else fd);
              client_id = (if p_record = SUB2 then 1 else 0)
          in onNewCommandConnect E S client_id (s1\<lparr>s_fdCommand := (s_fdCommand s1)(client_id := fd1)\<rparr>))"

text \<open>
  The commands that arrived on a socket, each with the address of its request; \<open>closed\<close> if the stream then
  ended or failed.
\<close>

fun process_records :: "'p parcel_env \<Rightarrow> 'w outside \<Rightarrow> (byte list \<times> nat) list \<Rightarrow> nat \<Rightarrow> 'w ril \<Rightarrow> 'w ril option" where
  "process_records E S [] client_id s = Some s"
| "process_records E S ((buffer, addr) # rs) client_id s = do {
     s1 \<leftarrow> processCommandBuffer E S buffer client_id addr s;
     process_records E S rs client_id s1
   }"

definition processCommandsCallback ::
    "'p parcel_env \<Rightarrow> 'w outside \<Rightarrow> (byte list \<times> nat) list \<Rightarrow> bool \<Rightarrow> nat \<Rightarrow> 'w ril \<Rightarrow> 'w ril option" where
  "processCommandsCallback E S records closed client_id s = do {
     s1 \<leftarrow> process_records E S records client_id s;
     Some (if closed
       then onCommandsSocketClosed (s1\<lparr>world := sys_close S (s_fdCommand s1 client_id) (world s1),
              s_fdCommand := (s_fdCommand s1)(client_id := -1)\<rparr>)
       else s1)
   }"

end
