(* ===== verification/RilFormat.thy ===== *)
theory RilFormat
  imports RilParcel
begin

text \<open>
  A parcel class that keeps \<open>parcel_laws\<close>: a buffer with a position, ints of four bytes, lowest first, everything
  padded to a multiple of four bytes, strings as the number of UTF-16 units or -1 for NULL, the units and a
  terminating 0. The witnesses of the theorems about ril.cpp use it.
\<close>

unbundle bit_operations_syntax

section \<open>Encodings\<close>

definition le32 :: "u32 \<Rightarrow> byte list" where
  "le32 v = rev (be32 v)"

definition le16 :: "u16 \<Rightarrow> byte list" where
  "le16 c = [ucast c, ucast (drop_bit 8 c)]"

fun un_le16s :: "byte list \<Rightarrow> u16 list" where
  "un_le16s (a # b # bs) = (ucast a OR push_bit 8 (ucast b)) # un_le16s bs"
| "un_le16s _ = []"

definition pad4 :: "byte list \<Rightarrow> byte list" where
  "pad4 bs = bs @ replicate ((4 - length bs mod 4) mod 4) 0"

definition to16 :: "byte list \<Rightarrow> u16 list" where
  "to16 = map ucast"

definition to8 :: "u16 list \<Rightarrow> byte list" where
  "to8 = map ucast"

definition enc_string16 :: "u16 list option \<Rightarrow> byte list" where
  "enc_string16 s = (case s of None \<Rightarrow> le32 (-1)
     | Some cs \<Rightarrow> le32 (of_nat (length cs)) @ pad4 (concat (map le16 (cs @ [0]))))"

fun flat_enc :: "parcel_item \<Rightarrow> byte list" where
  "flat_enc (PInt v) = le32 v"
| "flat_enc (PStr s) = enc_string16 (map_option to16 s)"
| "flat_enc (PRaw b) = pad4 b"

section \<open>The class\<close>

record flat =
  fl_data :: "byte list"
  fl_pos :: nat

definition flat_left :: "flat \<Rightarrow> byte list" where
  "flat_left p = drop (fl_pos p) (fl_data p)"

definition put :: "byte list \<Rightarrow> flat \<Rightarrow> flat" where
  "put bs p = p\<lparr>fl_data := take (fl_pos p) (fl_data p) @ bs @ drop (fl_pos p + length bs) (fl_data p),
     fl_pos := fl_pos p + length bs\<rparr>"

text \<open>The next \<open>n\<close> bytes and what they are padded with.\<close>

definition get :: "nat \<Rightarrow> flat \<Rightarrow> byte list option \<times> flat" where
  "get n p = (if length (pad4 (replicate n 0)) \<le> length (flat_left p)
     then (Some (take n (flat_left p)), p\<lparr>fl_pos := fl_pos p + length (pad4 (replicate n 0))\<rparr>) else (None, p))"

definition get_i32 :: "flat \<Rightarrow> u32 option \<times> flat" where
  "get_i32 p = (case get 4 p of (Some [a, b, c, d], q) \<Rightarrow> (Some (un_be32 d c b a), q) | (_, q) \<Rightarrow> (None, q))"

definition get_inplace :: "u32 \<Rightarrow> flat \<Rightarrow> byte list option \<times> flat" where
  "get_inplace n p = (if sint n < 0 then (None, p) else get (unat n) p)"

definition get_string16 :: "flat \<Rightarrow> u16 list option \<times> flat" where
  "get_string16 p = (case get_i32 p of (None, q) \<Rightarrow> (None, q)
     | (Some n, q) \<Rightarrow> if sint n < 0 then (None, q)
         else (case get (2 * (unat n + 1)) q of (None, q1) \<Rightarrow> (None, q1)
           | (Some bs, q1) \<Rightarrow> (Some (take (unat n) (un_le16s bs)), q1)))"

definition flat_env :: "flat parcel_env" where
  "flat_env = \<lparr>new_parcel = \<lparr>fl_data = [], fl_pos = 0\<rparr>, setData = (\<lambda>b p. \<lparr>fl_data = b, fl_pos = 0\<rparr>),
     parcel_data = fl_data, dataPosition = fl_pos, setDataPosition = (\<lambda>n p. p\<lparr>fl_pos := n\<rparr>),
     appendFrom = (\<lambda>p from len q. put (take len (drop from (fl_data p))) q),
     read_i32 = get_i32, read_raw = get, read_inplace = get_inplace, read_string16 = get_string16,
     write_i32 = (\<lambda>v. put (le32 v)), write_i64 = (\<lambda>v. put (le32 (ucast v) @ le32 (ucast (drop_bit 32 v)))),
     write_raw = (\<lambda>b. put (pad4 b)), write_string16 = (\<lambda>s. put (enc_string16 s)),
     strndup16to8 = to8, strdup8to16 = to16, junk32 = 0, junk8 = 0, stack_room = 2 ^ 20\<rparr>"

section \<open>It keeps the laws\<close>

lemma small_int:
  assumes "n < 2 ^ 31"
  shows "unat (of_nat n :: u32) = n" "sint (of_nat n :: u32) = int n"
proof -
  show "unat (of_nat n :: u32) = n" using assms by (simp add: unsigned_of_nat take_bit_nat_eq_self)
  show "sint (of_nat n :: u32) = int n" using assms by (simp add: signed_of_nat signed_take_bit_int_eq_self)
qed

lemma length_le32 [simp]: "length (le32 v) = 4"
  by (simp add: le32_def)

lemma length_pad4: "length (pad4 bs) = length (pad4 (replicate (length bs) 0))"
  by (simp add: pad4_def)

lemma pad4_multiple: "length bs mod 4 = 0 \<Longrightarrow> pad4 bs = bs"
  by (simp add: pad4_def)

lemma get_pad4:
  assumes "flat_left p = pad4 bs @ r"
  shows "\<exists>q. get (length bs) p = (Some bs, q) \<and> flat_left q = r"
proof -
  have "take (length bs) (pad4 bs) = bs" by (simp add: pad4_def)
  moreover have "length bs \<le> length (pad4 bs)" by (simp add: pad4_def)
  ultimately have "get (length bs) p = (Some bs, p\<lparr>fl_pos := fl_pos p + length (pad4 bs)\<rparr>)"
    using assms length_pad4 [of bs] by (simp add: get_def)
  moreover have "flat_left (p\<lparr>fl_pos := fl_pos p + length (pad4 bs)\<rparr>) = drop (length (pad4 bs)) (flat_left p)"
    by (simp add: flat_left_def add.commute)
  ultimately show ?thesis using assms by simp
qed

lemma get_none: "flat_left p = [] \<Longrightarrow> 0 < n \<Longrightarrow> get n p = (None, p)"
  by (simp add: get_def pad4_def)

lemma get_le32:
  assumes "flat_left p = le32 v @ r"
  shows "\<exists>q. get_i32 p = (Some v, q) \<and> flat_left q = r"
proof -
  have "flat_left p = pad4 (le32 v) @ r" using assms by (simp add: pad4_multiple)
  from get_pad4 [OF this] obtain q where "get 4 p = (Some (le32 v), q)" "flat_left q = r" by auto
  then show ?thesis by (simp add: get_i32_def le32_def be32_def)
qed

lemma un_le16s_concat: "un_le16s (concat (map le16 cs)) = cs"
proof (induction cs)
  case (Cons c cs)
  have "ucast (ucast c :: byte) OR push_bit 8 (ucast (ucast (drop_bit 8 c) :: byte)) = c"
    by (rule bit_word_eqI) (auto simp: bit_simps)
  then show ?case using Cons by (simp add: le16_def)
qed simp

lemma length_le16s: "length (concat (map le16 cs)) = 2 * length cs"
  by (induction cs) (simp_all add: le16_def)

lemma get_enc_string16:
  assumes "flat_left p = enc_string16 s @ r" "s \<noteq> None \<longrightarrow> length (the s) < 2 ^ 28"
  shows "\<exists>q. get_string16 p = (s, q) \<and> flat_left q = r"
proof (cases s)
  case None
  then obtain q where "get_i32 p = (Some (-1), q)" "flat_left q = r"
    using assms get_le32 by (fastforce simp: enc_string16_def)
  then show ?thesis using None by (simp add: get_string16_def)
next
  case (Some cs)
  let ?bs = "concat (map le16 (cs @ [0]))"
  obtain q where q: "get_i32 p = (Some (of_nat (length cs)), q)" "flat_left q = pad4 ?bs @ r"
    using assms get_le32 Some by (fastforce simp: enc_string16_def)
  have n: "unat (of_nat (length cs) :: u32) = length cs" "\<not> sint (of_nat (length cs) :: u32) < 0"
    using assms(2) Some by (simp_all add: small_int)
  from get_pad4 [OF q(2)] obtain q1 where "get (2 * (length cs + 1)) q = (Some ?bs, q1)" "flat_left q1 = r"
    by (auto simp: length_le16s simp del: map_append concat_append)
  then show ?thesis using q(1) n Some by (simp add: get_string16_def un_le16s_concat del: map_append concat_append)
qed

lemma to8_to16: "to8 (to16 s) = s"
proof -
  have "ucast (ucast c :: u16) = c" for c :: byte by (rule bit_word_eqI) (simp add: bit_simps)
  then show ?thesis by (simp add: to8_def to16_def comp_def)
qed

theorem flat_laws: "parcel_laws flat_env flat_enc flat_left"
proof -
  have wr: "fl_data (write_item flat_env x p) = fl_data p @ flat_enc x \<and> fl_pos (write_item flat_env x p) = length (fl_data p @ flat_enc x)"
    if "fl_pos p = length (fl_data p)" for x p
    using that by (cases x) (simp_all add: flat_env_def put_def writeStringToParcel_def)
  have inplace: "\<exists>q. get_inplace (of_nat (length b)) p = (Some b, q) \<and> flat_left q = r"
    if "flat_left p = pad4 b @ r" "length b < 2 ^ 31" for p b r
    using that get_pad4 [of p b r] by (simp add: get_inplace_def small_int)
  have str: "\<exists>q. get_string16 p = (map_option to16 s, q) \<and> flat_left q = r"
    if "plain s" "flat_left p = enc_string16 (map_option to16 s) @ r" for p s r
    using that by (intro get_enc_string16) (auto simp: plain_def to16_def split: option.splits)
  show ?thesis
    unfolding parcel_laws_def at_end_def
    using wr inplace str get_le32 get_pad4 to8_to16
    by (simp add: flat_env_def flat_left_def get_none get_i32_def get_string16_def)
qed

end
