(* ===== verification/RilSys.thy ===== *)
theory RilSys
  imports RilUnsol RilFormat "HOL-Library.Sublist"
begin

text \<open>
  The radio interface layer as a system: sockets that accept what is sent, requests from their arrival to
  their answer, and the runs in which the framework connects and sends commands, the vendor library
  answers and reports, and timers expire.
\<close>

section \<open>Sending\<close>

text \<open>
  A socket that takes what is written in pieces of any length; \<open>sent\<close> is what it has taken, and \<open>calm\<close> bounds how
  often in a row it takes nothing because it is interrupted or full.
\<close>

definition socket_takes :: "'w outside \<Rightarrow> int \<Rightarrow> ('w \<Rightarrow> byte list) \<Rightarrow> ('w \<Rightarrow> nat) \<Rightarrow> bool" where
  "socket_takes S fd sent calm \<longleftrightarrow> (\<forall>buf w. buf \<noteq> [] \<longrightarrow> (case sys_write S fd buf w of (n, again, w') \<Rightarrow>
     if n > 0 then n \<le> int (length buf) \<and> sent w' = sent w @ take (nat n) buf
     else (n < 0 \<longrightarrow> again) \<and> sent w' = sent w \<and> calm w' < calm w))"

lemma blockingWrite_all:
  assumes "socket_takes S fd sent calm"
  shows "\<exists>w'. blockingWrite S fd buf w = Some (0, w') \<and> sent w' = sent w @ buf"
proof (induction "(length buf, calm w)" arbitrary: buf w rule: wf_induct_rule [OF wf_lex_prod [OF wf_less_than wf_less_than]])
  case 1
  show ?case
  proof (cases "buf = []")
    case True then show ?thesis by (simp add: blockingWrite.simps)
  next
    case False
    obtain n again w1 where r: "sys_write S fd buf w = (n, again, w1)" by (cases "sys_write S fd buf w")
    show ?thesis
    proof (cases "n > 0")
      case True
      then have n: "n \<le> int (length buf)" "sent w1 = sent w @ take (nat n) buf"
        using assms False r by (auto simp: socket_takes_def dest!: spec [of _ buf] spec [of _ w])
      have "((length (drop (nat n) buf), calm w1), (length buf, calm w)) \<in> less_than <*lex*> less_than"
        using True False by (simp add: in_lex_prod)
      from "1"(1) [OF this] obtain w' where "blockingWrite S fd (drop (nat n) buf) w1 = Some (0, w')"
        "sent w' = sent w1 @ drop (nat n) buf" by blast
      then show ?thesis using True False r n by (simp add: blockingWrite.simps [of S fd buf])
    next
      case no: False
      then have n: "n < 0 \<longrightarrow> again" "sent w1 = sent w" "calm w1 < calm w"
        using assms False r by (auto simp: socket_takes_def dest!: spec [of _ buf] spec [of _ w])
      have "((length buf, calm w1), (length buf, calm w)) \<in> less_than <*lex*> less_than"
        using n by (simp add: in_lex_prod)
      from "1"(1) [OF this] obtain w' where "blockingWrite S fd buf w1 = Some (0, w')" "sent w' = sent w1 @ buf"
        by blast
      then show ?thesis using no n False r by (cases "n = 0") (simp_all add: blockingWrite.simps [of S fd buf])
    qed
  qed
qed

definition frame :: "byte list \<Rightarrow> byte list" where
  "frame dat = be32 (of_nat (length dat)) @ dat"

lemma sendResponseRaw_all:
  assumes "socket_takes S (s_fdCommand s c) sent calm" "s_fdCommand s c \<ge> 0" "length dat \<le> MAX_COMMAND_BYTES"
  shows "\<exists>w. sendResponseRaw S dat c s = Some (0, s\<lparr>world := w\<rparr>) \<and> sent w = sent (world s) @ frame dat"
proof -
  obtain w1 where w1: "blockingWrite S (s_fdCommand s c) (be32 (of_nat (length dat))) (world s) = Some (0, w1)"
    "sent w1 = sent (world s) @ be32 (of_nat (length dat))"
    using blockingWrite_all [OF assms(1)] by blast
  obtain w2 where "blockingWrite S (s_fdCommand s c) dat w1 = Some (0, w2)" "sent w2 = sent w1 @ dat"
    using blockingWrite_all [OF assms(1)] by blast
  then show ?thesis using w1 assms(2,3) by (intro exI [of _ w2]) (simp add: sendResponseRaw_def frame_def)
qed

lemma sendResponseRaw_world: "sendResponseRaw S dat c s = Some (ret, s') \<Longrightarrow> \<exists>w. s' = s\<lparr>world := w\<rparr>"
  by (auto simp: sendResponseRaw_def Let_def bind_eq_Some_conv split: if_splits intro: exI [of _ "world s"])

lemma sendResponse_world: "sendResponse E S p c s = Some (ret, s') \<Longrightarrow> \<exists>w. s' = s\<lparr>world := w\<rparr>"
  by (simp add: sendResponse_def sendResponseRaw_world)

section \<open>Completing requests\<close>

definition tokens :: "'w ril \<Rightarrow> nat list" where
  "tokens s = map ri_addr (s_pendingRequests s)"

definition tokens_ok :: "'w ril \<Rightarrow> bool" where
  "tokens_ok s \<longleftrightarrow> distinct (tokens s) \<and> 0 \<notin> set (tokens s)"

lemma dequeue_cases:
  "checkAndDequeueRequestInfo tok s = None \<and> (tok = 0 \<or> tok \<notin> set (tokens s))
   \<or> (\<exists>xs r ys. s_pendingRequests s = xs @ r # ys \<and> ri_addr r = tok \<and> tok \<notin> ri_addr ` set xs
        \<and> tok \<noteq> 0 \<and> checkAndDequeueRequestInfo tok s = Some (r, s\<lparr>s_pendingRequests := xs @ ys\<rparr>))"
proof (cases "find_index (\<lambda>r. ri_addr r = tok) (s_pendingRequests s)")
  case None
  then have "\<forall>r \<in> set (s_pendingRequests s). ri_addr r \<noteq> tok" by (simp add: find_index_None)
  then show ?thesis using None by (intro disjI1) (auto simp: checkAndDequeueRequestInfo_def tokens_def)
next
  case (Some i)
  then have i: "i < length (s_pendingRequests s)" "ri_addr (s_pendingRequests s ! i) = tok"
    "\<forall>j < i. ri_addr (s_pendingRequests s ! j) \<noteq> tok"
    by (auto simp: find_index_Some)
  have split: "s_pendingRequests s = take i (s_pendingRequests s) @ s_pendingRequests s ! i # drop (Suc i) (s_pendingRequests s)"
    using i(1) by (simp add: id_take_nth_drop)
  have "tok \<notin> ri_addr ` set (take i (s_pendingRequests s))"
    using i(3) by (force simp: in_set_conv_nth)
  then show ?thesis
    using Some split i(2) by (cases "tok = 0") (auto simp: checkAndDequeueRequestInfo_def)
qed

lemma dequeue_pending:
  assumes "tokens_ok s" "r \<in> set (s_pendingRequests s)"
  shows "checkAndDequeueRequestInfo (ri_addr r) s
     = Some (r, s\<lparr>s_pendingRequests := filter (\<lambda>x. ri_addr x \<noteq> ri_addr r) (s_pendingRequests s)\<rparr>)"
proof -
  have "ri_addr r \<noteq> 0" "ri_addr r \<in> set (tokens s)" using assms by (auto simp: tokens_ok_def tokens_def)
  then obtain xs r' ys where s: "s_pendingRequests s = xs @ r' # ys" "ri_addr r' = ri_addr r"
      "checkAndDequeueRequestInfo (ri_addr r) s = Some (r', s\<lparr>s_pendingRequests := xs @ ys\<rparr>)"
    using dequeue_cases [of "ri_addr r" s] by fastforce
  have d: "distinct (map ri_addr (xs @ r' # ys))" using assms(1) s(1) by (simp add: tokens_ok_def tokens_def)
  have "r' = r" using d assms(2) s(1,2) by (auto simp: image_iff)
  moreover have "filter (\<lambda>x. ri_addr x \<noteq> ri_addr r) xs = xs" "filter (\<lambda>x. ri_addr x \<noteq> ri_addr r) ys = ys"
    using d s(2) by (auto simp: filter_id_conv image_iff)
  ultimately show ?thesis using s by simp
qed

lemma dequeue_unknown: "tok = 0 \<or> tok \<notin> set (tokens s) \<Longrightarrow> RIL_onRequestComplete E S tok e response len s = Some s"
  using dequeue_cases [of tok s] by (auto simp: RIL_onRequestComplete_def tokens_def)


text \<open>
  What a handler may do to the parts of the state the invariants are about; \<open>tok\<close> is the only request it may take
  off the list.
\<close>

definition shrinks :: "nat \<Rightarrow> 'w ril \<Rightarrow> 'w ril \<Rightarrow> bool" where
  "shrinks tok s s' \<longleftrightarrow> subseq (tokens s') (tokens s) \<and> set (tokens s) - {tok} \<subseteq> set (tokens s') \<and> timers s' = timers s \<and> wake_lock s' = wake_lock s
     \<and> s_last_wake_timeout_info s' = s_last_wake_timeout_info s"

lemma shrinks_refl [simp]: "shrinks tok s s"
  by (simp add: shrinks_def)

lemma shrinks_trans: "shrinks tok s s1 \<Longrightarrow> shrinks tok s1 s2 \<Longrightarrow> shrinks tok s s2"
  by (auto simp: shrinks_def intro: subseq_order.trans)

lemma shrinks_update [simp]:
  "shrinks tok s (s1\<lparr>world := w\<rparr>) \<longleftrightarrow> shrinks tok s s1" "shrinks tok s (s1\<lparr>to_vendor := v\<rparr>) \<longleftrightarrow> shrinks tok s s1"
  "shrinks tok s (s1\<lparr>leaked := k\<rparr>) \<longleftrightarrow> shrinks tok s s1" "shrinks tok s (s1\<lparr>voiceRadioTech := x\<rparr>) \<longleftrightarrow> shrinks tok s s1"
  "shrinks tok s (s1\<lparr>cdmaSubscriptionSource := x\<rparr>) \<longleftrightarrow> shrinks tok s s1" "shrinks tok s (s1\<lparr>simRuimStatus := x\<rparr>) \<longleftrightarrow> shrinks tok s s1"
  "shrinks tok s (s1\<lparr>s_lastNITZTimeData := d\<rparr>) \<longleftrightarrow> shrinks tok s s1" "shrinks tok s (s1\<lparr>s_fdCommand := f\<rparr>) \<longleftrightarrow> shrinks tok s s1"
  by (simp_all add: shrinks_def tokens_def)

lemma shrinks_from [simp]:
  "shrinks tok (s\<lparr>voiceRadioTech := x\<rparr>) s' \<longleftrightarrow> shrinks tok s s'" "shrinks tok (s\<lparr>cdmaSubscriptionSource := x\<rparr>) s' \<longleftrightarrow> shrinks tok s s'"
  by (simp_all add: shrinks_def tokens_def)

lemma shrinks_vendor [simp]: "shrinks tok s (onRequest r d n s1) \<longleftrightarrow> shrinks tok s s1" "shrinks tok s (lose k s1) \<longleftrightarrow> shrinks tok s s1"
  by (simp_all add: onRequest_def lose_def)

lemma shrinks_complete:
  assumes "RIL_onRequestComplete E S tok e response len s = Some s'"
  shows "shrinks tok s s'"
proof (cases "checkAndDequeueRequestInfo tok s = None")
  case True
  then show ?thesis using assms by (simp add: RIL_onRequestComplete_def)
next
  case False
  then obtain xs r ys where p: "s_pendingRequests s = xs @ r # ys" "ri_addr r = tok" "checkAndDequeueRequestInfo tok s = Some (r, s\<lparr>s_pendingRequests := xs @ ys\<rparr>)"
    using dequeue_cases [of tok s] by auto
  define s1 where "s1 = s\<lparr>s_pendingRequests := xs @ ys\<rparr>"
  have s1: "shrinks tok s s1" using p(1,2) by (simp add: s1_def shrinks_def tokens_def list_emb_append_mono list_emb_Cons Diff_subset_conv)
  have "checkAndDequeueRequestInfo tok s = Some (r, s1)" using p(3) by (simp add: s1_def)
  then consider "s' = s1" | q ret where "sendResponse E S q (ri_client r) s1 = Some (ret, s')"
    using assms unfolding RIL_onRequestComplete_def
    by (cases "ri_local r"; cases "ri_cancelled r") (auto simp: bind_eq_Some_conv)
  then show ?thesis using s1 sendResponse_world by cases fastforce+
qed

lemmas dispatch_defs =
  dispatchVoid_def dispatchString_def dispatchStrings_def dispatchInts_def dispatchSmsWrite_def dispatchDial_def
  dispatchSIM_IO_def dispatchCallForward_def dispatchRaw_def dispatchCdmaSms_def dispatchImsSms_def
  dispatchImsCdmaSms_def dispatchImsGsmSms_def dispatchCdmaSmsAck_def dispatchGsmBrSmsCnf_def
  dispatchCdmaBrSmsCnf_def dispatchRilCdmaSmsWriteArgs_def dispatchDepersonalization_def
  dispatchUiccSubscripton_def invalidCommandBlock_def

lemma shrinks_strings: "dispatchStrings E S p r s = Some s' \<Longrightarrow> shrinks (ri_addr r) s s'"
  by (auto simp: dispatch_defs bind_eq_Some_conv split: if_splits prod.splits)

lemma shrinks_plain:
  "dispatchVoid E S p r s = Some s' \<Longrightarrow> shrinks (ri_addr r) s s'" "dispatchString E S p r s = Some s' \<Longrightarrow> shrinks (ri_addr r) s s'"
  "dispatchRaw E S p r s = Some s' \<Longrightarrow> shrinks (ri_addr r) s s'" "dispatchDial E S p r s = Some s' \<Longrightarrow> shrinks (ri_addr r) s s'"
  "dispatchSIM_IO E S p r s = Some s' \<Longrightarrow> shrinks (ri_addr r) s s'" "dispatchCallForward E S p r s = Some s' \<Longrightarrow> shrinks (ri_addr r) s s'"
  "dispatchDepersonalization E S p r s = Some s' \<Longrightarrow> shrinks (ri_addr r) s s'"
  by (auto simp: dispatch_defs Let_def split: if_splits prod.splits option.splits)

lemma shrinks_ints:
  "dispatchInts E S p r s = Some s' \<Longrightarrow> shrinks (ri_addr r) s s'" "dispatchUiccSubscripton E S p r s = Some s' \<Longrightarrow> shrinks (ri_addr r) s s'"
  "dispatchGsmBrSmsCnf E S p r s = Some s' \<Longrightarrow> shrinks (ri_addr r) s s'" "dispatchCdmaBrSmsCnf E S p r s = Some s' \<Longrightarrow> shrinks (ri_addr r) s s'"
  by (auto simp: dispatch_defs split: if_splits prod.splits)

lemma shrinks_ims:
  "dispatchImsCdmaSms retry ref E S p r s = Some s' \<Longrightarrow> shrinks (ri_addr r) s s'"
  "dispatchImsGsmSms retry ref E S p r s = Some s' \<Longrightarrow> shrinks (ri_addr r) s s'"
  by (auto simp: dispatch_defs bind_eq_Some_conv split: if_splits prod.splits)

lemma shrinks_sms:
  "dispatchSmsWrite E S p r s = Some s' \<Longrightarrow> shrinks (ri_addr r) s s'" "dispatchCdmaSms E S p r s = Some s' \<Longrightarrow> shrinks (ri_addr r) s s'"
  "dispatchCdmaSmsAck E S p r s = Some s' \<Longrightarrow> shrinks (ri_addr r) s s'"
  "dispatchRilCdmaSmsWriteArgs E S p r s = Some s' \<Longrightarrow> shrinks (ri_addr r) s s'"
  by (auto simp: dispatchSmsWrite_def dispatchCdmaSms_def dispatchCdmaSmsAck_def dispatchRilCdmaSmsWriteArgs_def
      invalidCommandBlock_def split: if_splits prod.splits)

lemma shrinks_ims_sms: "dispatchImsSms E S p r s = Some s' \<Longrightarrow> shrinks (ri_addr r) s s'"
  by (auto simp: dispatchImsSms_def invalidCommandBlock_def split: if_splits prod.splits option.splits
      dest: shrinks_ims)

lemma shrinks_data: "dispatchDataCall E S p r s = Some s' \<Longrightarrow> shrinks (ri_addr r) s s'"
  by (auto simp: dispatchDataCall_def Let_def split: if_splits prod.splits intro: shrinks_strings)

lemma shrinks_radio:
  "dispatchVoiceRadioTech E S p r s = Some s' \<Longrightarrow> shrinks (ri_addr r) s s'"
  "dispatchCdmaSubscriptionSource E S p r s = Some s' \<Longrightarrow> shrinks (ri_addr r) s s'"
  by (auto simp: dispatchVoiceRadioTech_def dispatchCdmaSubscriptionSource_def dispatchVoid_def Let_def bind_eq_Some_conv
      split: if_splits dest!: shrinks_complete intro: shrinks_trans)

lemma shrinks_dispatch: "dispatch_function d E S p r s = Some s' \<Longrightarrow> shrinks (ri_addr r) s s'"
  by (cases d) (simp_all add: shrinks_plain shrinks_strings shrinks_ints shrinks_sms shrinks_ims_sms shrinks_data shrinks_radio)

section \<open>The wake lock\<close>

text \<open>Every allocation gives the address of a block that is not in use.\<close>

definition malloc_fresh :: "'w outside \<Rightarrow> bool" where
  "malloc_fresh S \<longleftrightarrow> (\<forall>used. malloc_timer S used \<notin> set used)"

definition timers_ok :: "'w ril \<Rightarrow> bool" where
  "timers_ok s \<longleftrightarrow> distinct (map fst (timers s))
     \<and> (\<forall>a. (a, WakeTimeout True) \<in> set (timers s) \<longleftrightarrow> s_last_wake_timeout_info s = Some a)"

definition lock_scheduled :: "'w ril \<Rightarrow> bool" where
  "lock_scheduled s \<longleftrightarrow> (wake_lock s \<longrightarrow> s_last_wake_timeout_info s \<noteq> None)"

text \<open>A step that keeps the requests, the timers in order and the lock scheduled.\<close>

definition steady :: "'w ril \<Rightarrow> 'w ril \<Rightarrow> bool" where
  "steady s s' \<longleftrightarrow> s_pendingRequests s' = s_pendingRequests s \<and> (timers_ok s \<longrightarrow> timers_ok s')
     \<and> (lock_scheduled s \<longrightarrow> lock_scheduled s')"

lemma steady_refl [simp]: "steady s s"
  by (simp add: steady_def)

lemma steady_trans: "steady s s1 \<Longrightarrow> steady s1 s2 \<Longrightarrow> steady s s2"
  by (simp add: steady_def)

lemma steady_update [simp]:
  "steady s (s1\<lparr>world := w\<rparr>) \<longleftrightarrow> steady s s1" "steady s (s1\<lparr>s_lastNITZTimeData := d\<rparr>) \<longleftrightarrow> steady s s1"
  "steady (s\<lparr>voiceRadioTech := x\<rparr>) s1 \<longleftrightarrow> steady s s1" "steady (s\<lparr>cdmaSubscriptionSource := x\<rparr>) s1 \<longleftrightarrow> steady s s1"
  "steady (s\<lparr>simRuimStatus := x\<rparr>) s1 \<longleftrightarrow> steady s s1"
  "steady s (s1\<lparr>voiceRadioTech := x\<rparr>) \<longleftrightarrow> steady s s1" "steady s (s1\<lparr>cdmaSubscriptionSource := x\<rparr>) \<longleftrightarrow> steady s s1"
  "steady s (s1\<lparr>simRuimStatus := x\<rparr>) \<longleftrightarrow> steady s s1"
  by (simp_all add: steady_def timers_ok_def lock_scheduled_def)

lemma new_timer_ok:
  assumes "malloc_fresh S" "timers_ok s" "cb = WakeTimeout True \<longrightarrow> s_last_wake_timeout_info s = None"
  shows "timers_ok ((snd (internalRequestTimedCallback S cb s))\<lparr>s_last_wake_timeout_info :=
    if cb = WakeTimeout True then Some (fst (internalRequestTimedCallback S cb s)) else s_last_wake_timeout_info s\<rparr>)"
proof -
  have "malloc_timer S (map fst (timers s)) \<notin> fst ` set (timers s)" using assms(1) unfolding malloc_fresh_def by (metis set_map)
  then show ?thesis
    using assms(2,3) by (force simp: timers_ok_def internalRequestTimedCallback_def Let_def)
qed

lemma cancelled_ok:
  assumes "timers_ok s" "s_last_wake_timeout_info s = Some a"
  shows "timers_ok ((cancel_timer a s)\<lparr>s_last_wake_timeout_info := None\<rparr>)"
proof -
  have "map fst (timers (cancel_timer a s)) = map fst (timers s)" by (simp add: cancel_timer_def)
  moreover have "(b, WakeTimeout True) \<notin> set (timers (cancel_timer a s))" for b
    using assms by (auto simp: cancel_timer_def timers_ok_def split: if_splits elim!: set_param.elims [OF sym])
  ultimately show ?thesis using assms(1) by (simp add: timers_ok_def)
qed

lemma schedule_ok:
  assumes "malloc_fresh S"
  shows "timers_ok s \<Longrightarrow> timers_ok (schedule_wake_timeout S s)" "lock_scheduled (schedule_wake_timeout S s)"
    "s_pendingRequests (schedule_wake_timeout S s) = s_pendingRequests s"
proof -
  show "lock_scheduled (schedule_wake_timeout S s)" "s_pendingRequests (schedule_wake_timeout S s) = s_pendingRequests s"
    by (simp_all add: schedule_wake_timeout_def internalRequestTimedCallback_def lock_scheduled_def cancel_timer_def Let_def
        split: option.split)
  assume ok: "timers_ok s"
  define s1 where "s1 = (case s_last_wake_timeout_info s of None \<Rightarrow> s | Some a \<Rightarrow> cancel_timer a s)"
  have "timers_ok (s1\<lparr>s_last_wake_timeout_info := None\<rparr>)"
  proof (cases "s_last_wake_timeout_info s")
    case None
    then have "s1\<lparr>s_last_wake_timeout_info := None\<rparr> = s" by (simp add: s1_def)
    then show ?thesis using ok by simp
  next
    case (Some a)
    then show ?thesis using cancelled_ok [OF ok Some] by (simp add: s1_def)
  qed
  from new_timer_ok [OF assms this, of "WakeTimeout True"]
  show "timers_ok (schedule_wake_timeout S s)"
    by (simp add: schedule_wake_timeout_def s1_def internalRequestTimedCallback_def Let_def split: option.split)
qed

lemma steady_unsolicited:
  assumes "malloc_fresh S" "\<And>p s p' s'. extra p s = Some (p', s') \<Longrightarrow> steady s s'"
    "unsolicited E S extra n dat len c s = Some s'"
  shows "steady s s'"
proof (cases "s_registerCalled s = 0 \<or> translate_unsol n = None")
  case True
  then have "s' = s" using assms(3) by (cases "s_registerCalled s = 0") (simp_all add: unsolicited_def)
  then show ?thesis by simp
next
  case False
  then obtain uri j where u: "s_registerCalled s \<noteq> 0" "translate_unsol n = Some (uri, j)" by auto
  define s1 where "s1 = (if wake_partial uri then s\<lparr>wake_lock := True\<rparr> else s)"
  obtain ret p where r: "response_function (unsolFunction uri) E (cb_version s 0) dat len
      (writes E [PInt RESPONSE_UNSOLICITED, PInt (of_int j)] (new_parcel E)) = Some (ret, p)"
    using assms(3) u by (auto simp: unsolicited_def Let_def bind_eq_Some_conv)
  show ?thesis
  proof (cases "ret = 0")
    case False
    then have "s' = (if wake_partial uri then s1\<lparr>wake_lock := False\<rparr> else s1)"
      using assms(3) u r by (cases "wake_partial uri") (auto simp: unsolicited_def Let_def s1_def)
    then show ?thesis by (auto simp: s1_def steady_def timers_ok_def lock_scheduled_def)
  next
    case True
    define payload where "payload = (if n = RIL_UNSOL_RESPONSE_RADIO_STATE_CHANGED then extra p s1
      else if n = RIL_UNSOL_NITZ_TIME_RECEIVED then Some (write_i64 E (elapsedRealtime S (world s1)) p, s1)
      else Some (p, s1))"
    have "payload \<bind> (\<lambda>(p1, s2). sendResponse E S p1 c s2 \<bind> (\<lambda>(ret2, s3).
        let s4 = (if ret2 \<noteq> 0 \<and> n = RIL_UNSOL_NITZ_TIME_RECEIVED
                  then s3\<lparr>s_lastNITZTimeData := Some (parcel_data E p1)\<rparr> else s3)
        in Some (if wake_partial uri then schedule_wake_timeout S s4 else s4))) = Some s'"
      using assms(3) u r True by (simp add: unsolicited_def Let_def s1_def payload_def cong: if_cong split del: if_split)
    then obtain p1 s2 ret2 s3 where e: "payload = Some (p1, s2)" "sendResponse E S p1 c s2 = Some (ret2, s3)"
      "s' = (let s4 = (if ret2 \<noteq> 0 \<and> n = RIL_UNSOL_NITZ_TIME_RECEIVED
                  then s3\<lparr>s_lastNITZTimeData := Some (parcel_data E p1)\<rparr> else s3)
        in if wake_partial uri then schedule_wake_timeout S s4 else s4)"
      by (auto simp: bind_eq_Some_conv Let_def)
    have "steady s1 s2" using e(1) assms(2) by (auto simp: payload_def split: if_splits)
    moreover obtain w where "s3 = s2\<lparr>world := w\<rparr>" using sendResponse_world [OF e(2)] by blast
    moreover define s4 where "s4 = (if ret2 \<noteq> 0 \<and> n = RIL_UNSOL_NITZ_TIME_RECEIVED
      then s3\<lparr>s_lastNITZTimeData := Some (parcel_data E p1)\<rparr> else s3)"
    ultimately have s4: "steady s1 s4" and s': "s' = (if wake_partial uri then schedule_wake_timeout S s4 else s4)"
      using e(3) by (simp_all add: Let_def)
    show ?thesis
    proof (cases "wake_partial uri")
      case True
      have "timers_ok s \<longrightarrow> timers_ok s1" "s_pendingRequests s1 = s_pendingRequests s"
        by (simp_all add: s1_def timers_ok_def)
      then show ?thesis using s4 s' True schedule_ok [OF assms(1)] by (simp add: steady_def)
    next
      case False then show ?thesis using s4 s' by (simp add: s1_def)
    qed
  qed
qed

lemma steady_radio_state:
  assumes "malloc_fresh S" "processRadioState E S st c s = Some (st', s')"
  shows "steady s s'"
proof -
  have notice: "send_notice E S n d len c s1 = Some s2 \<Longrightarrow> steady s1 s2" for n d len c s1 s2
    unfolding send_notice_def by (rule steady_unsolicited [OF assms(1)]) auto
  have step: "steady s1 s2" if "(if b then send_notice E S n d len c' (f s1) else Some s1) = Some s2" "steady s1 (f s1)"
    for b n d len c' f s1 s2
    using that notice by (auto split: if_splits intro: steady_trans)
  show ?thesis
  proof (cases "st > RADIO_STATE_UNAVAILABLE \<and> st < RADIO_STATE_ON")
    case False then show ?thesis using assms(2) by (simp only: processRadioState_def if_not_P [OF False]) simp
  next
    case True
    from assms(2) obtain s1 s2 b1 b2 b3 n1 n2 n3 d1 d2 d3 l1 l2 l3 c3 x y z where
      "(if b1 then send_notice E S n1 d1 l1 c (s\<lparr>voiceRadioTech := x\<rparr>) else Some s) = Some s1"
      "(if b2 then send_notice E S n2 d2 l2 c (s1\<lparr>cdmaSubscriptionSource := y\<rparr>) else Some s1) = Some s2"
      "(if b3 then send_notice E S n3 d3 l3 c3 (s2\<lparr>simRuimStatus := z\<rparr>) else Some s2) = Some s'"
      unfolding processRadioState_def if_P [OF True] Let_def bind_eq_Some_conv by blast
    from step [where f = "voiceRadioTech_update (\<lambda>_. x)", OF this(1)]
      step [where f = "cdmaSubscriptionSource_update (\<lambda>_. y)", OF this(2)]
      step [where f = "simRuimStatus_update (\<lambda>_. z)", OF this(3)]
    have "steady s s1" "steady s1 s2" "steady s2 s'" by simp_all
    then show ?thesis using steady_trans by metis
  qed
qed

lemma steady_response:
  assumes "malloc_fresh S" "RIL_onUnsolicitedSendResponse E S n dat len c s = Some s'"
  shows "steady s s'"
  using assms(2) unfolding RIL_onUnsolicitedSendResponse_def
  by (rule steady_unsolicited [OF assms(1), rotated])
     (auto simp: bind_eq_Some_conv dest: steady_radio_state [OF assms(1)])

lemma steady_connect:
  assumes "malloc_fresh S" "onNewCommandConnect E S c s = Some s'"
  shows "steady s s'"
proof -
  obtain s1 s2 where r: "steady s s1" "steady s1 s2"
    "(case s_lastNITZTimeData s2 of None \<Rightarrow> Some s2
      | Some nitz \<Rightarrow> do { (ret, s3) \<leftarrow> sendResponseRaw S nitz c s2; Some (s3\<lparr>s_lastNITZTimeData := None\<rparr>) }) = Some s'"
    using assms(2) steady_response [OF assms(1)] unfolding onNewCommandConnect_def bind_eq_Some_conv by blast
  have "steady s2 s'"
  proof (cases "s_lastNITZTimeData s2")
    case None then show ?thesis using r(3) by simp
  next
    case (Some nitz)
    then obtain ret s3 where "sendResponseRaw S nitz c s2 = Some (ret, s3)" "s' = s3\<lparr>s_lastNITZTimeData := None\<rparr>"
      using r(3) by (auto simp: bind_eq_Some_conv)
    then show ?thesis using sendResponseRaw_world by fastforce
  qed
  then show ?thesis using r(1,2) by (blast intro: steady_trans)
qed

section \<open>Runs\<close>

text \<open>
  The initial state: no library has registered, no client is connected. \<open>w\<close> is the outside world.
\<close>

definition ril_init :: "'w \<Rightarrow> 'w ril" where
  "ril_init w = \<lparr>cb_version = (\<lambda>_. 0), s_registerCalled = 0, s_fdCommand = (\<lambda>_. -1), s_pendingRequests = [], to_vendor = [],
     leaked = 0, wake_lock = False, timers = [], vendor_timers = [], s_last_wake_timeout_info = None, voiceRadioTech = -1,
     cdmaSubscriptionSource = -1, simRuimStatus = -1, s_lastNITZTimeData = None, world = w\<rparr>"

text \<open>What can happen: calls of the vendor library, callbacks of the event loop, and a local request.\<close>

datatype ril_call =
    Register "int option" nat
  | Connect connection
  | Command "byte list" nat nat
  | EndOfStream nat
  | Complete nat u32 ril_data nat
  | Unsolicited int ril_data nat nat
  | RequestTimer nat nat
  | TimerExpired nat
  | LocalRequest nat int ril_data nat nat

fun ril_step :: "'p parcel_env \<Rightarrow> 'w outside \<Rightarrow> ril_call \<Rightarrow> 'w ril \<Rightarrow> 'w ril option" where
  "ril_step E S (Register v c) s = Some (RIL_register v c s)"
| "ril_step E S (Connect c) s = listenCallback E S c s"
| "ril_step E S (Command buffer c addr) s = processCommandsCallback E S [(buffer, addr)] False c s"
| "ril_step E S (EndOfStream c) s = processCommandsCallback E S [] True c s"
| "ril_step E S (Complete tok e d n) s = RIL_onRequestComplete E S tok e d n s"
| "ril_step E S (Unsolicited u d n c) s = RIL_onUnsolicitedSendResponse E S u d n c s"
| "ril_step E S (RequestTimer f x) s = Some (RIL_requestTimedCallback S f x s)"
| "ril_step E S (TimerExpired a) s = userTimerCallback a s"
| "ril_step E S (LocalRequest addr n d len c) s = issueLocalRequest addr n d len c s"

text \<open>A request gets the address of a block that is not in use.\<close>

fun block_fresh :: "ril_call \<Rightarrow> 'w ril \<Rightarrow> bool" where
  "block_fresh (Command buffer c addr) s \<longleftrightarrow> addr \<notin> set (tokens s)"
| "block_fresh (LocalRequest addr n d len c) s \<longleftrightarrow> addr \<notin> set (tokens s)"
| "block_fresh _ s \<longleftrightarrow> True"

inductive ril_reachable :: "'p parcel_env \<Rightarrow> 'w outside \<Rightarrow> 'w ril \<Rightarrow> bool" for E S where
  start: "ril_reachable E S (ril_init w)"
| step: "ril_reachable E S s \<Longrightarrow> block_fresh ev s \<Longrightarrow> ril_step E S ev s = Some s' \<Longrightarrow> ril_reachable E S s'"

text \<open>Commands that arrive together are commands that arrive one after the other.\<close>

lemma commands_are_steps:
  "processCommandsCallback E S ((buffer, addr) # rs) closed c s
     = ril_step E S (Command buffer c addr) s \<bind> processCommandsCallback E S rs closed c"
  by (cases "processCommandBuffer E S buffer c addr s") (simp_all add: processCommandsCallback_def)

definition ril_ok :: "'w ril \<Rightarrow> bool" where
  "ril_ok s \<longleftrightarrow> tokens_ok s \<and> timers_ok s \<and> lock_scheduled s"

lemma ok_steady: "ril_ok s \<Longrightarrow> steady s s' \<Longrightarrow> ril_ok s'"
  by (simp add: ril_ok_def steady_def tokens_ok_def tokens_def)

lemma subseq_distinct: "subseq xs ys \<Longrightarrow> distinct ys \<Longrightarrow> distinct xs"
  by (metis distinct_nthsI subseq_conv_nths)

lemma ok_shrinks:
  assumes "ril_ok s" "shrinks tok s s'"
  shows "ril_ok s'"
proof -
  have "set (tokens s') \<subseteq> set (tokens s)" "distinct (tokens s')"
    using assms subseq_distinct by (auto simp: ril_ok_def tokens_ok_def shrinks_def dest: list_emb_set)
  then show ?thesis using assms by (auto simp: ril_ok_def tokens_ok_def shrinks_def timers_ok_def lock_scheduled_def)
qed

lemma ok_added:
  assumes "ril_ok s" "ri_addr r \<noteq> 0" "ri_addr r \<notin> set (tokens s)"
  shows "ril_ok (s\<lparr>s_pendingRequests := r # s_pendingRequests s\<rparr>)"
  using assms by (simp add: ril_ok_def tokens_ok_def tokens_def timers_ok_def lock_scheduled_def)

text \<open>A command changes the world alone, or puts its request on the list and runs its dispatch function.\<close>

lemma command_cases:
  assumes "processCommandBuffer E S buffer c addr s = Some s'"
  shows "(\<exists>w. s' = s\<lparr>world := w\<rparr>)
    \<or> (\<exists>q. addr \<noteq> 0 \<and> ri_addr q = addr \<and> shrinks addr (s\<lparr>s_pendingRequests := q # s_pendingRequests s\<rparr>) s')"
proof -
  obtain request token r where read: "run_state (do { request \<leftarrow> readVar E; token \<leftarrow> readVar E; State_Monad.return (request, token) })
      (reader0 E (setData E buffer (new_parcel E))) = ((request, token), r)"
    by (metis surj_pair)
  show ?thesis
  proof (cases "no_error r \<and> translate_request (sint request) \<noteq> None")
    case False
    then consider "s' = s\<lparr>world := world s\<rparr>" | ret p where "sendResponse E S p c s = Some (ret, s')"
      using assms unfolding processCommandBuffer_def read by (cases "no_error r") (auto simp: bind_eq_Some_conv)
    then have "\<exists>w. s' = s\<lparr>world := w\<rparr>" by cases (blast, erule sendResponse_world)
    then show ?thesis ..
  next
    case True
    then obtain ci where ci: "no_error r" "translate_request (sint request) = Some ci" by auto
    define q where "q = \<lparr>ri_addr = addr, ri_token = token, ri_pCI = ci, ri_cancelled = False, ri_local = False, ri_client = c\<rparr>"
    have "addr \<noteq> 0"
      and d: "dispatch_function (dispatchFunction ci) E S (parcel r) q (s\<lparr>s_pendingRequests := q # s_pendingRequests s\<rparr>) = Some s'"
      using assms ci unfolding processCommandBuffer_def read by (auto simp: q_def Let_def split: if_splits)
    moreover have "ri_addr q = addr" by (simp add: q_def)
    ultimately show ?thesis using shrinks_dispatch [OF d] by (intro disjI2 exI [of _ q]) simp
  qed
qed

lemma ok_command:
  assumes "ril_ok s" "addr \<notin> set (tokens s)" "processCommandBuffer E S buffer c addr s = Some s'"
  shows "ril_ok s'"
  using command_cases [OF assms(3)]
proof
  assume "\<exists>w. s' = s\<lparr>world := w\<rparr>"
  then show ?thesis using assms(1) ok_shrinks [of s 0 s'] by auto
next
  assume "\<exists>q. addr \<noteq> 0 \<and> ri_addr q = addr \<and> shrinks addr (s\<lparr>s_pendingRequests := q # s_pendingRequests s\<rparr>) s'"
  then obtain q where q: "addr \<noteq> 0" "ri_addr q = addr" "shrinks addr (s\<lparr>s_pendingRequests := q # s_pendingRequests s\<rparr>) s'" by blast
  then have "ril_ok (s\<lparr>s_pendingRequests := q # s_pendingRequests s\<rparr>)" using assms(1,2) by (intro ok_added) simp_all
  then show ?thesis using q(3) by (rule ok_shrinks)
qed

lemma run_timed_keeps:
  "s_pendingRequests (run_timed cb s) = s_pendingRequests s" "timers (run_timed cb s) = timers s"
  "s_last_wake_timeout_info (run_timed cb s) = s_last_wake_timeout_info s"
  "wake_lock (run_timed cb s) = (if cb = WakeTimeout True then False else wake_lock s)"
proof -
  have "s_pendingRequests (run_timed cb s) = s_pendingRequests s \<and> timers (run_timed cb s) = timers s
    \<and> s_last_wake_timeout_info (run_timed cb s) = s_last_wake_timeout_info s
    \<and> wake_lock (run_timed cb s) = (if cb = WakeTimeout True then False else wake_lock s)"
  proof (cases cb)
    case (WakeTimeout live) then show ?thesis by (cases live) simp_all
  qed simp
  then show "s_pendingRequests (run_timed cb s) = s_pendingRequests s" "timers (run_timed cb s) = timers s"
    "s_last_wake_timeout_info (run_timed cb s) = s_last_wake_timeout_info s"
    "wake_lock (run_timed cb s) = (if cb = WakeTimeout True then False else wake_lock s)" by simp_all
qed

lemma ok_timer:
  assumes "ril_ok s" "userTimerCallback a s = Some s'"
  shows "ril_ok s'"
proof -
  obtain cb where cb: "map_of (timers s) a = Some cb" using assms(2) by (auto simp: userTimerCallback_def bind_eq_Some_conv)
  have t: "distinct (map fst (timers s))" "\<And>b. (b, WakeTimeout True) \<in> set (timers s) \<longleftrightarrow> s_last_wake_timeout_info s = Some b"
    using assms(1) by (auto simp: ril_ok_def timers_ok_def)
  have last: "s_last_wake_timeout_info s = Some a \<longleftrightarrow> cb = WakeTimeout True"
    using t cb by (metis map_of_eq_Some_iff option.inject)
  define s1 where "s1 = run_timed cb s"
  have s': "s' = (if cb = WakeTimeout True then s1\<lparr>s_last_wake_timeout_info := None\<rparr> else s1)
      \<lparr>timers := filter (\<lambda>t. fst t \<noteq> a) (timers s)\<rparr>"
    using assms(2) cb last run_timed_keeps [of cb s] by (auto simp: userTimerCallback_def s1_def Let_def)
  have p: "s_pendingRequests s' = s_pendingRequests s" "timers s' = filter (\<lambda>t. fst t \<noteq> a) (timers s)"
    "s_last_wake_timeout_info s' = (if cb = WakeTimeout True then None else s_last_wake_timeout_info s)"
    "wake_lock s' = (if cb = WakeTimeout True then False else wake_lock s)"
    by (simp_all add: s' s1_def run_timed_keeps)
  have "timers_ok s'"
    unfolding timers_ok_def p using t last by (auto simp: distinct_map_filter)
  then show ?thesis using assms(1) p by (auto simp: ril_ok_def tokens_ok_def tokens_def lock_scheduled_def)
qed

lemma ok_closed [simp]: "ril_ok (onCommandsSocketClosed s) \<longleftrightarrow> ril_ok s"
  by (simp add: ril_ok_def onCommandsSocketClosed_def tokens_ok_def tokens_def timers_ok_def lock_scheduled_def comp_def)

lemma ok_update [simp]:
  "ril_ok (s\<lparr>world := w\<rparr>) \<longleftrightarrow> ril_ok s" "ril_ok (s\<lparr>s_fdCommand := f\<rparr>) \<longleftrightarrow> ril_ok s"
  "ril_ok (s\<lparr>to_vendor := v\<rparr>) \<longleftrightarrow> ril_ok s" "ril_ok (s\<lparr>cb_version := g, s_registerCalled := n\<rparr>) \<longleftrightarrow> ril_ok s"
  by (simp_all add: ril_ok_def tokens_ok_def tokens_def timers_ok_def lock_scheduled_def)

lemma ok_listen:
  assumes "malloc_fresh S" "ril_ok s" "listenCallback E S c s = Some s'"
  shows "ril_ok s'"
proof (cases c)
  case (PhoneProcess fd len p_record)
  define s1 where "s1 = (if len \<le> 0 then onCommandsSocketClosed (s\<lparr>world := sys_close S fd (world s)\<rparr>) else s)"
  obtain f where "onNewCommandConnect E S (if p_record = SUB2 then 1 else 0) (s1\<lparr>s_fdCommand := f\<rparr>) = Some s'"
    using assms(3) PhoneProcess by (simp add: listenCallback_def Let_def s1_def)
  moreover have "ril_ok (s1\<lparr>s_fdCommand := f\<rparr>)" using assms(2) by (simp add: s1_def)
  ultimately show ?thesis using steady_connect [OF assms(1)] ok_steady by blast
qed (use assms in \<open>auto simp: listenCallback_def\<close>)

lemma ok_new_timer:
  assumes "malloc_fresh S" "ril_ok s"
  shows "ril_ok (RIL_requestTimedCallback S f x s)"
proof -
  have "timers_ok (snd (internalRequestTimedCallback S (VendorTimer f x) s))"
    using new_timer_ok [OF assms(1), of s "VendorTimer f x"] assms(2)
    by (simp add: ril_ok_def internalRequestTimedCallback_def Let_def)
  then show ?thesis
    using assms(2) by (simp add: RIL_requestTimedCallback_def internalRequestTimedCallback_def Let_def ril_ok_def tokens_ok_def
        tokens_def lock_scheduled_def)
qed

lemma ok_step:
  assumes "malloc_fresh S" "ril_ok s" "block_fresh ev s" "ril_step E S ev s = Some s'"
  shows "ril_ok s'"
proof (cases ev)
  case (Register v c)
  then show ?thesis using assms(2,4) by (auto simp: RIL_register_def split: option.splits if_splits)
next
  case (Connect c)
  then show ?thesis using assms ok_listen by simp
next
  case (Command buffer c addr)
  then have "processCommandBuffer E S buffer c addr s = Some s'"
    using assms(4) by (auto simp: processCommandsCallback_def bind_eq_Some_conv)
  then show ?thesis using assms(2,3) Command ok_command by simp
next
  case (EndOfStream c)
  then show ?thesis using assms(2,4) by (auto simp: processCommandsCallback_def)
next
  case (Complete tok e d n)
  then show ?thesis using assms(2,4) ok_shrinks shrinks_complete by simp blast
next
  case (Unsolicited u d n c)
  then show ?thesis using assms(2,4) steady_response [OF assms(1)] ok_steady by simp blast
next
  case (RequestTimer f x)
  then show ?thesis using assms ok_new_timer by auto
next
  case (TimerExpired a)
  then show ?thesis using assms(2,4) ok_timer by simp
next
  case (LocalRequest addr n d len c)
  then obtain ci where "addr \<noteq> 0" "s' = onRequest \<lparr>ri_addr = addr, ri_token = -1, ri_pCI = ci, ri_cancelled = False, ri_local = True,
      ri_client = c\<rparr> d len (s\<lparr>s_pendingRequests := \<lparr>ri_addr = addr, ri_token = -1, ri_pCI = ci, ri_cancelled = False,
      ri_local = True, ri_client = c\<rparr> # s_pendingRequests s\<rparr>)"
    using assms(4) by (auto simp: issueLocalRequest_def Let_def bind_eq_Some_conv split: if_splits)
  then show ?thesis using assms(2,3) LocalRequest ok_added [of s] by (simp add: onRequest_def)
qed

lemma reachable_ok:
  assumes "malloc_fresh S" "ril_reachable E S s"
  shows "ril_ok s"
  using assms(2)
proof induction
  case (start w)
  show ?case by (simp add: ril_ok_def ril_init_def tokens_ok_def tokens_def timers_ok_def lock_scheduled_def)
next
  case (step s ev s')
  then show ?case using ok_step [OF assms(1)] by blast
qed

text \<open>A pending request stays on the list until it is completed.\<close>

fun completes :: "nat \<Rightarrow> ril_call \<Rightarrow> bool" where
  "completes addr (Complete tok e d n) \<longleftrightarrow> tok = addr"
| "completes addr _ \<longleftrightarrow> False"

lemma tokens_closed [simp]: "tokens (onCommandsSocketClosed s) = tokens s"
  by (simp add: onCommandsSocketClosed_def tokens_def comp_def)

lemma tokens_update [simp]:
  "tokens (s\<lparr>world := w\<rparr>) = tokens s" "tokens (s\<lparr>s_fdCommand := f\<rparr>) = tokens s" "tokens (onRequest r d n s) = tokens s"
  "tokens (s\<lparr>cb_version := g, s_registerCalled := k\<rparr>) = tokens s" "tokens (s\<lparr>vendor_timers := v\<rparr>) = tokens s"
  by (simp_all add: tokens_def onRequest_def)

lemma tokens_steady: "steady s s' \<Longrightarrow> tokens s' = tokens s"
  by (simp add: steady_def tokens_def)

lemma command_keeps_pending:
  assumes "processCommandBuffer E S buffer c addr s = Some s'" "addr \<notin> set (tokens s)"
  shows "set (tokens s) \<subseteq> set (tokens s')"
  using command_cases [OF assms(1)]
proof
  assume "\<exists>q. addr \<noteq> 0 \<and> ri_addr q = addr \<and> shrinks addr (s\<lparr>s_pendingRequests := q # s_pendingRequests s\<rparr>) s'"
  then obtain q where q: "ri_addr q = addr" "shrinks addr (s\<lparr>s_pendingRequests := q # s_pendingRequests s\<rparr>) s'" by blast
  have "set (tokens s) \<subseteq> set (tokens (s\<lparr>s_pendingRequests := q # s_pendingRequests s\<rparr>)) - {addr}"
    using assms(2) by (auto simp: tokens_def)
  then show ?thesis using q(2) unfolding shrinks_def by blast
qed auto

lemma step_keeps_pending:
  assumes "malloc_fresh S" "ril_step E S ev s = Some s'" "block_fresh ev s" "\<not> completes addr ev" "addr \<in> set (tokens s)"
  shows "addr \<in> set (tokens s')"
proof (cases ev)
  case (Register v c)
  then show ?thesis using assms(2,5) by (auto simp: RIL_register_def split: option.splits if_splits)
next
  case (Connect c)
  show ?thesis
  proof (cases c)
    case (PhoneProcess fd len p_record)
    define s1 where "s1 = (if len \<le> 0 then onCommandsSocketClosed (s\<lparr>world := sys_close S fd (world s)\<rparr>) else s)"
    obtain f where "onNewCommandConnect E S (if p_record = SUB2 then 1 else 0) (s1\<lparr>s_fdCommand := f\<rparr>) = Some s'"
      using assms(2) Connect PhoneProcess by (simp add: listenCallback_def Let_def s1_def)
    from tokens_steady [OF steady_connect [OF assms(1) this]] show ?thesis using assms(5) by (simp add: s1_def)
  qed (use assms(2,5) Connect in \<open>auto simp: listenCallback_def\<close>)
next
  case (Command buffer c a)
  then have "processCommandBuffer E S buffer c a s = Some s'"
    using assms(2) by (auto simp: processCommandsCallback_def bind_eq_Some_conv)
  from command_keeps_pending [OF this] show ?thesis using assms(3,5) Command by auto
next
  case (EndOfStream c)
  then show ?thesis using assms(2,5) by (auto simp: processCommandsCallback_def)
next
  case (Complete tok e d n)
  then have "shrinks tok s s'" "tok \<noteq> addr" using assms(2,4) shrinks_complete by auto
  then show ?thesis using assms(5) by (auto simp: shrinks_def)
next
  case (Unsolicited u d n c)
  then have "RIL_onUnsolicitedSendResponse E S u d n c s = Some s'" using assms(2) by simp
  from tokens_steady [OF steady_response [OF assms(1) this]] show ?thesis using assms(5) by simp
next
  case (RequestTimer f x)
  then show ?thesis using assms(2,5)
    by (auto simp: RIL_requestTimedCallback_def internalRequestTimedCallback_def Let_def tokens_def)
next
  case (TimerExpired a)
  then have "s_pendingRequests s' = s_pendingRequests s"
    using assms(2) by (auto simp: userTimerCallback_def bind_eq_Some_conv Let_def run_timed_keeps)
  then show ?thesis using assms(5) by (simp add: tokens_def)
next
  case (LocalRequest a n d len c)
  then show ?thesis using assms(2,5) by (auto simp: issueLocalRequest_def Let_def bind_eq_Some_conv tokens_def onRequest_def split: if_splits)
qed

section \<open>A parcel format and a socket\<close>

text \<open>A socket that takes one byte at a time; the world is what it has taken. The radio is on.\<close>

definition byte_socket :: "byte list outside" where
  "byte_socket = \<lparr>sys_write = (\<lambda>fd buf w. (1, False, w @ take 1 buf)), sys_close = (\<lambda>fd w. w),
     onStateRequest = (\<lambda>c w. RADIO_STATE_ON), elapsedRealtime = (\<lambda>w. 0), malloc_timer = (\<lambda>used. Suc (sum_list used))\<rparr>"

lemma byte_socket_takes: "socket_takes byte_socket fd (\<lambda>w. w) (\<lambda>_. 0)"
  by (auto simp: socket_takes_def byte_socket_def Suc_le_eq)

lemma byte_socket_write [simp]: "blockingWrite byte_socket fd buf w = Some (0, w @ buf)"
  using blockingWrite_all [OF byte_socket_takes, of fd buf w] by auto

lemma byte_socket_world:
  "onStateRequest byte_socket c w = RADIO_STATE_ON" "malloc_timer byte_socket used = Suc (sum_list used)"
  by (simp_all add: byte_socket_def)

lemma byte_socket_fresh: "malloc_fresh byte_socket"
proof -
  have "Suc (sum_list used) \<notin> set used" for used :: "nat list" using member_le_sum_list by fastforce
  then show ?thesis by (simp add: malloc_fresh_def byte_socket_def)
qed

text \<open>A run from the initial state, None if it faults or uses a block twice.\<close>

fun ril_run :: "'p parcel_env \<Rightarrow> 'w outside \<Rightarrow> ril_call list \<Rightarrow> 'w ril \<Rightarrow> 'w ril option" where
  "ril_run E S [] s = Some s"
| "ril_run E S (ev # evs) s = (if block_fresh ev s then ril_step E S ev s \<bind> ril_run E S evs else None)"

lemma run_reachable: "ril_reachable E S s \<Longrightarrow> ril_run E S evs s = Some s' \<Longrightarrow> ril_reachable E S s'"
proof (induction evs arbitrary: s)
  case (Cons ev evs)
  then obtain s1 where "block_fresh ev s" "ril_step E S ev s = Some s1" "ril_run E S evs s1 = Some s'"
    by (auto simp: bind_eq_Some_conv split: if_splits)
  then show ?case using Cons.IH Cons.prems(1) ril_reachable.step by blast
qed simp

text \<open>A library registers, the phone process connects and asks for the state of the SIM, the network registration changes.\<close>

definition connected_run :: "ril_call list" where
  "connected_run = [Register (Some 7) 0, Connect (PhoneProcess 5 4 [0x53, 0x55, 0x42, 0x31]),
     Command (le32 1 @ le32 77) 0 9, Unsolicited 1002 Null 0 0]"

definition connected :: "byte list ril" where
  "connected = the (ril_run flat_env byte_socket connected_run (ril_init []))"

lemmas flat_defs = flat_env_def put_def get_def get_i32_def get_string16_def flat_left_def pad4_def le32_def be32_def
  un_be32_def writes_def frame_def

lemma table_entries:
  "translate_unsol 1034 = Some (unsol 1034 R_Ints True 0, 1034)"
  "translate_unsol 1000 = Some (unsol 1000 R_Void True 0, 1000)"
  "translate_unsol 1002 = Some (unsol 1002 R_Void True 0, 1002)"
  "translate_request 1 = Some (cmd 1 D_Void R_SimStatus 0)"
  by code_simp+

lemmas ril_eval = flat_defs table_entries unsol_def cmd_def RIL_onUnsolicitedSendResponse_def unsolicited_def Let_def
  responseInts_def responseVoid_def ril_sizes first_def write_all_def sendResponse_def sendResponseRaw_def
  RIL_UNSOL_RESPONSE_RADIO_STATE_CHANGED_def RIL_UNSOL_NITZ_TIME_RECEIVED_def MAX_COMMAND_BYTES_def
  RESPONSE_UNSOLICITED_def schedule_wake_timeout_def internalRequestTimedCallback_def cancel_timer_def
  processRadioState_def RADIO_STATE_ON_def RADIO_STATE_UNAVAILABLE_def onNewCommandConnect_def
  RIL_UNSOL_RIL_CONNECTED_def listenCallback_def SUB2_def RIL_register_def RIL_VERSION_MIN_def RIL_VERSION_def MAX_NUM_CLIENTS_def
  processCommandsCallback_def processCommandBuffer_def readVar_def reader0_def dispatchVoid_def onRequest_def tokens_def
  ril_init_def byte_socket_world

lemma connected_runs:
  "ril_run flat_env byte_socket connected_run (ril_init []) = Some connected" "wake_lock connected"
  "s_pendingRequests connected = [\<lparr>ri_addr = 9, ri_token = 77, ri_pCI = cmd 1 D_Void R_SimStatus 0, ri_cancelled = False,
     ri_local = False, ri_client = 0\<rparr>]"
  "s_fdCommand connected 0 = 5" "cb_version connected 0 = 7"
  by (simp_all add: connected_def connected_run_def ril_eval)

lemma connected_reachable: "ril_reachable flat_env byte_socket connected"
  using connected_runs(1) by (rule run_reachable [OF ril_reachable.start])

lemma run_keeps_pending:
  assumes "malloc_fresh S" "list_all (\<lambda>ev. \<not> completes addr ev) evs" "ril_run E S evs s = Some s'" "addr \<in> set (tokens s)"
  shows "addr \<in> set (tokens s')"
  using assms(2-4)
proof (induction evs arbitrary: s)
  case (Cons ev evs)
  then obtain s1 where s1: "ril_step E S ev s = Some s1" "block_fresh ev s" "ril_run E S evs s1 = Some s'"
    by (auto simp: bind_eq_Some_conv split: if_splits)
  have "addr \<in> set (tokens s1)" using step_keeps_pending [OF assms(1) s1(1,2)] Cons.prems(1,3) by simp
  then show ?case using Cons.IH [OF _ s1(3)] Cons.prems(1) by simp
qed simp

section \<open>What is proved\<close>

text \<open>
  While no two calls overlap: in every state the radio interface layer can reach, pending requests have distinct
  tokens other than 0; the wake lock is held only while the timer \<open>s_last_wake_timeout_info\<close> is armed, its expiry
  releases the lock, and no other timer changes it. What is left of it when threads overlap is in RilWake.
\<close>

theorem wake_lock_is_released:
  assumes "malloc_fresh S" "ril_reachable E S s"
  shows "distinct (tokens s) \<and> 0 \<notin> set (tokens s)
    \<and> (wake_lock s \<longrightarrow> (\<exists>a s'. s_last_wake_timeout_info s = Some a \<and> userTimerCallback a s = Some s' \<and> \<not> wake_lock s'))
    \<and> (\<forall>a s'. userTimerCallback a s = Some s' \<and> s_last_wake_timeout_info s \<noteq> Some a \<longrightarrow> wake_lock s' = wake_lock s)"
proof (intro conjI impI allI)
  have ok: "ril_ok s" using assms by (rule reachable_ok)
  then have t: "distinct (map fst (timers s))" "\<And>b. (b, WakeTimeout True) \<in> set (timers s) \<longleftrightarrow> s_last_wake_timeout_info s = Some b"
    by (auto simp: ril_ok_def timers_ok_def)
  show "distinct (tokens s)" "0 \<notin> set (tokens s)" using ok by (auto simp: ril_ok_def tokens_ok_def)
  show "\<exists>a s'. s_last_wake_timeout_info s = Some a \<and> userTimerCallback a s = Some s' \<and> \<not> wake_lock s'" if held: "wake_lock s"
  proof -
    obtain a where a: "s_last_wake_timeout_info s = Some a" using ok held by (auto simp: ril_ok_def lock_scheduled_def)
    then have "map_of (timers s) a = Some (WakeTimeout True)" using t by simp
    then show ?thesis using a by (simp add: userTimerCallback_def Let_def)
  qed
  show "wake_lock s' = wake_lock s"
    if fires: "userTimerCallback a s = Some s' \<and> s_last_wake_timeout_info s \<noteq> Some a" for a s'
  proof -
    obtain cb where cb: "map_of (timers s) a = Some cb" using fires by (auto simp: userTimerCallback_def bind_eq_Some_conv)
    then have "cb \<noteq> WakeTimeout True" using t(2) fires by (auto dest: map_of_SomeD)
    then show ?thesis using fires cb run_timed_keeps [of cb s] by (auto simp: userTimerCallback_def Let_def split: if_splits)
  qed
qed

lemma wake_lock_is_released_witness:
  "wake_lock connected \<and> (\<exists>a s'. s_last_wake_timeout_info connected = Some a \<and> userTimerCallback a connected = Some s'
     \<and> \<not> wake_lock s')"
  using wake_lock_is_released [OF byte_socket_fresh connected_reachable] connected_runs(2) by blast

text \<open>
  C29: a pending request is answered once: its completion sends one frame with the response to the client
  that made it, or nothing if the request is local or cancelled, takes exactly this request off the list and calls nobody; whatever completion
  follows for the same token has no effect.
\<close>

theorem request_answered_once:
  assumes "malloc_fresh S" "ril_reachable E S s" "r \<in> set (s_pendingRequests s)"
    "socket_takes S (s_fdCommand s (ri_client r)) sent calm" "0 \<le> s_fdCommand s (ri_client r)"
    "response_parcel E (cb_version s 0) r e response len = Some p" "length (parcel_data E p) \<le> MAX_COMMAND_BYTES"
  shows "\<exists>s'. RIL_onRequestComplete E S (ri_addr r) e response len s = Some s'
    \<and> sent (world s') = sent (world s) @ (if ri_local r \<or> ri_cancelled r then [] else frame (parcel_data E p))
    \<and> s' = s\<lparr>s_pendingRequests := filter (\<lambda>x. ri_addr x \<noteq> ri_addr r) (s_pendingRequests s), world := world s'\<rparr>
    \<and> (\<forall>e2 response2 len2. RIL_onRequestComplete E S (ri_addr r) e2 response2 len2 s' = Some s')"
proof -
  have "tokens_ok s" using reachable_ok [OF assms(1,2)] by (simp add: ril_ok_def)
  note dq = dequeue_pending [OF this assms(3)]
  define s1 where "s1 = s\<lparr>s_pendingRequests := filter (\<lambda>x. ri_addr x \<noteq> ri_addr r) (s_pendingRequests s)\<rparr>"
  have again: "RIL_onRequestComplete E S (ri_addr r) e2 response2 len2 (s1\<lparr>world := w\<rparr>) = Some (s1\<lparr>world := w\<rparr>)" for e2 response2 len2 w
    by (rule dequeue_unknown) (auto simp: s1_def tokens_def)
  show ?thesis
  proof (cases "ri_local r \<or> ri_cancelled r")
    case True
    then have "RIL_onRequestComplete E S (ri_addr r) e response len s = Some s1"
      using dq by (auto simp: RIL_onRequestComplete_def s1_def)
    then show ?thesis using True again [of _ _ _ "world s"] by (intro exI [of _ s1]) (simp add: s1_def)
  next
    case False
    obtain w where "sendResponseRaw S (parcel_data E p) (ri_client r) s1 = Some (0, s1\<lparr>world := w\<rparr>)"
      "sent w = sent (world s) @ frame (parcel_data E p)"
      using sendResponseRaw_all [of S s1 "ri_client r" sent calm "parcel_data E p"] assms(4,5,7) by (auto simp: s1_def)
    then have "RIL_onRequestComplete E S (ri_addr r) e response len s = Some (s1\<lparr>world := w\<rparr>)"
      using dq False assms(6) by (simp add: RIL_onRequestComplete_def sendResponse_def s1_def)
    then show ?thesis
      using False again \<open>sent w = sent (world s) @ frame (parcel_data E p)\<close> by (intro exI [of _ "s1\<lparr>world := w\<rparr>"]) (simp add: s1_def)
  qed
qed

lemma request_answered_once_witness:
  "\<exists>s'. RIL_onRequestComplete flat_env byte_socket 9 2 Null 0 connected = Some s'
     \<and> world s' = world connected @ [0, 0, 0, 12, 0, 0, 0, 0, 77, 0, 0, 0, 2, 0, 0, 0] \<and> s_pendingRequests s' = []"
proof -
  let ?r = "\<lparr>ri_addr = 9, ri_token = 77, ri_pCI = cmd 1 D_Void R_SimStatus 0, ri_cancelled = False, ri_local = False, ri_client = 0\<rparr>"
  have "?r \<in> set (s_pendingRequests connected)" by (simp add: connected_runs)
  moreover obtain p where p: "response_parcel flat_env (cb_version connected 0) ?r 2 Null 0 = Some p"
    "parcel_data flat_env p = [0, 0, 0, 0, 77, 0, 0, 0, 2, 0, 0, 0]"
    by (simp add: response_parcel_def flat_defs RESPONSE_SOLICITED_def)
  ultimately show ?thesis
    using request_answered_once [OF byte_socket_fresh connected_reachable, of ?r "\<lambda>w. w" "\<lambda>_. 0" 2 Null 0 p] byte_socket_takes
    by (force simp: connected_runs MAX_COMMAND_BYTES_def frame_def be32_def)
qed

end
