(* ===== verification/RilRequests.thy ===== *)
theory RilRequests
  imports RilSys
begin

text \<open>
  From the bytes of a command to the call of the vendor library, for parcels that keep \<open>parcel_laws\<close>:
  requests that are refused, passed on, never answered, or that make the process write outside an array; and the
  CDMA messages, which the module both writes and reads.
\<close>

section \<open>Reading what was written\<close>

lemma takes_reader0:
  assumes "takes enc left m items n v" "left p = concat (map enc items) @ rest"
  obtains r where "run_state m (reader0 E p) = (v, r)" "left (parcel r) = rest" "no_error r" "strdups r = n"
proof -
  have "left (parcel (reader0 E p)) = concat (map enc items) @ rest \<and> no_error (reader0 E p)"
    using assms(2) by (simp add: reader0_def)
  then show ?thesis using assms(1) that unfolding takes_def by (metis add.left_neutral reader.select_convs(5) reader0_def)
qed

text \<open>The first item of what a function takes.\<close>

lemma takes_first:
  assumes "parcel_laws E enc left"
  shows "takes enc left (f v) js k w \<Longrightarrow> takes enc left (State_Monad.bind (readInt32 E) f) (PInt v # js) k w"
    "takes enc left (f v) js k w \<Longrightarrow> takes enc left (State_Monad.bind (readVar E) f) (PInt v # js) k w"
    "takes enc left (g b) js k w \<Longrightarrow> takes enc left (State_Monad.bind (readByte E) g) (PRaw [b] # js) k w"
  using takes_bind [OF takes_Int [OF assms], where f = f and js = js] takes_bind [OF takes_Var [OF assms], where f = f and js = js]
    takes_bind [OF takes_Byte [OF assms], where f = g and js = js]
  by fastforce+

lemma takes_result: "takes enc left m items n v \<Longrightarrow> takes enc left (State_Monad.bind m (\<lambda>x. State_Monad.return (g x))) items n (g v)"
  using takes_bind [where f = "\<lambda>x. State_Monad.return (g x)", OF _ takes_return] by simp

lemma takes_done:
  "takes enc left m items n v \<Longrightarrow> g v = w \<Longrightarrow> takes enc left (State_Monad.bind m (\<lambda>x. State_Monad.return (g x))) items n w"
  by (drule takes_result [where g = g]) simp

lemma takes_Strings:
  assumes "parcel_laws E enc left" "\<forall>s \<in> set xs. plain s"
  shows "takes enc left (readStrings E (length xs)) (map PStr xs) (length (filter (\<lambda>s. s \<noteq> None) xs)) xs"
  using assms(2)
proof (induction xs)
  case (Cons x xs)
  then have "takes enc left (State_Monad.bind (readStrings E (length xs)) (\<lambda>ss. State_Monad.return (x # ss)))
    (map PStr xs) (length (filter (\<lambda>s. s \<noteq> None) xs)) (x # xs)"
    by (intro takes_result) simp
  from takes_bind [OF takes_Str [OF assms(1), of x], where f = "\<lambda>s. State_Monad.bind (readStrings E (length xs)) (\<lambda>ss. State_Monad.return (s # ss))", OF _ this]
  show ?case using Cons.prems by (cases x) simp_all
qed (simp add: takes_return)

text \<open>The header of a command.\<close>

lemma read_header:
  assumes "parcel_laws E enc left" "buffer = enc (PInt request) @ enc (PInt token) @ rest"
  obtains r where "run_state (do { request \<leftarrow> readVar E; token \<leftarrow> readVar E; State_Monad.return (request, token) })
      (reader0 E (setData E buffer (new_parcel E))) = ((request, token), r)" "no_error r" "left (parcel r) = rest" "strdups r = 0"
proof -
  have "takes enc left (do { request \<leftarrow> readVar E; token \<leftarrow> readVar E; State_Monad.return (request, token) })
      [PInt request, PInt token] 0 (request, token)"
    by (intro takes_first [OF assms(1)] takes_return)
  moreover have l: "left (setData E buffer (new_parcel E)) = concat (map enc [PInt request, PInt token]) @ rest"
    using law_setData [OF assms(1)] assms(2) by simp
  ultimately obtain r where "run_state (do { request \<leftarrow> readVar E; token \<leftarrow> readVar E; State_Monad.return (request, token) })
      (reader0 E (setData E buffer (new_parcel E))) = ((request, token), r)" "left (parcel r) = rest" "no_error r" "strdups r = 0"
    by (rule takes_reader0)
  then show ?thesis using that by blast
qed

section \<open>Request codes\<close>

lemma table_numbers:
  "map requestNumber s_commands = [1..110] @ [118]"
  "map reqNumRILJ s_commands = replicate 108 0 @ [112, 113, 122]"
  by code_simp+

lemma unsupported_iff: "translate_request n = None \<longleftrightarrow> n \<notin> {1..110} \<union> {112, 113, 118, 122}"
proof -
  have numbers: "requestNumber ` set s_commands = {1..110} \<union> {118}" "reqNumRILJ ` set s_commands = {0, 112, 113, 122}"
    unfolding set_map [symmetric] table_numbers by auto
  have pos: "requestNumber c > 0" if "c \<in> set s_commands" for c
    using numbers(1) that by (metis Un_iff atLeastAtMost_iff imageI insert_iff singletonD less_le_trans zero_less_numeral zero_less_one)
  have none: "getCmdInfoByReqId n = None \<longleftrightarrow> n \<notin> {1..110} \<union> {118}"
    unfolding getCmdInfoByReqId_def find_None_iff using numbers(1) by (metis image_iff)
  have rilj: "find (\<lambda>c. reqNumRILJ c = n) s_commands = None \<longleftrightarrow> n \<notin> {0, 112, 113, 122}"
    unfolding find_None_iff using numbers(2) by (metis image_iff)
  have found: "requestNumber c > 0" if "find P s_commands = Some c" for P c
    using that pos by (auto simp: find_Some_iff)
  have "translate_request n = None \<longleftrightarrow> n \<le> 0 \<or> find (\<lambda>c. reqNumRILJ c = n) s_commands = None \<and> getCmdInfoByReqId n = None"
  proof (cases "find (\<lambda>c. reqNumRILJ c = n) s_commands")
    case None
    then show ?thesis using found by (cases "getCmdInfoByReqId n") (fastforce simp: translate_request_def getCmdInfoByReqId_def)+
  next
    case (Some c)
    then show ?thesis using found by (fastforce simp: translate_request_def)
  qed
  then show ?thesis unfolding none rilj by auto
qed

text \<open>
  Codes of the framework that fall on entries of other requests, since a code without a translation is
  looked up as a number of the table: 109, 110 and 118 are looked up although these numbers are those of
  requests the framework knows as 112, 113 and 122.
\<close>

lemma codes_collide:
  "translate_request 109 = translate_request 112" "translate_request 110 = translate_request 113"
  "translate_request 118 = translate_request 122" "translate_request 109 \<noteq> None"
  by code_simp+

section \<open>Commands\<close>

lemma command_of_supported:
  assumes "parcel_laws E enc left" "buffer = enc (PInt request) @ enc (PInt token) @ rest"
    "translate_request (sint request) = Some ci" "addr \<noteq> 0"
  obtains p where "left p = rest"
    "processCommandBuffer E S buffer c addr s = dispatch_function (dispatchFunction ci) E S p
       \<lparr>ri_addr = addr, ri_token = token, ri_pCI = ci, ri_cancelled = False, ri_local = False, ri_client = c\<rparr>
       (s\<lparr>s_pendingRequests := \<lparr>ri_addr = addr, ri_token = token, ri_pCI = ci, ri_cancelled = False, ri_local = False,
          ri_client = c\<rparr> # s_pendingRequests s\<rparr>)"
proof -
  obtain r where r: "run_state (do { request \<leftarrow> readVar E; token \<leftarrow> readVar E; State_Monad.return (request, token) })
      (reader0 E (setData E buffer (new_parcel E))) = ((request, token), r)" "no_error r" "left (parcel r) = rest"
    using read_header [OF assms(1,2)] by metis
  then show ?thesis
    using that [of "parcel r"] assms(3,4) unfolding processCommandBuffer_def r(1) by (simp add: Let_def)
qed

text \<open>
  C32: a command whose code is not in the table is answered at once with REQUEST_NOT_SUPPORTED under its
  token, and changes nothing else; the codes in the table are 1 to 110, 112, 113, 118 and 122.
\<close>

theorem unsupported_request_refused:
  assumes "parcel_laws E enc left" "sint request \<notin> {1..110} \<union> {112, 113, 118, 122}"
    "socket_takes S (s_fdCommand s c) sent calm" "0 \<le> s_fdCommand s c"
    "length (enc (PInt 0) @ enc (PInt token) @ enc (PInt 6)) \<le> MAX_COMMAND_BYTES"
  shows "\<exists>w. processCommandBuffer E S (enc (PInt request) @ enc (PInt token) @ rest) c addr s = Some (s\<lparr>world := w\<rparr>)
    \<and> sent w = sent (world s) @ frame (enc (PInt 0) @ enc (PInt token) @ enc (PInt 6))"
proof -
  obtain r where r: "run_state (do { request \<leftarrow> readVar E; token \<leftarrow> readVar E; State_Monad.return (request, token) })
      (reader0 E (setData E (enc (PInt request) @ enc (PInt token) @ rest) (new_parcel E))) = ((request, token), r)" "no_error r"
    using read_header [OF assms(1) refl] by metis
  have none: "translate_request (sint request) = None" using assms(2) unfolding unsupported_iff .
  have d: "parcel_data E (writes E [PInt 0, PInt token, PInt 6] (new_parcel E)) = enc (PInt 0) @ enc (PInt token) @ enc (PInt 6)"
    using writes_at_end(1) [OF assms(1)] law_new [OF assms(1)] by simp
  obtain w where "sendResponseRaw S (enc (PInt 0) @ enc (PInt token) @ enc (PInt 6)) c s = Some (0, s\<lparr>world := w\<rparr>)"
    "sent w = sent (world s) @ frame (enc (PInt 0) @ enc (PInt token) @ enc (PInt 6))"
    using sendResponseRaw_all [OF assms(3,4,5)] by blast
  then show ?thesis
    using r none d unfolding processCommandBuffer_def
    by (intro exI [of _ w]) (simp add: sendResponse_def RESPONSE_SOLICITED_def RIL_E_REQUEST_NOT_SUPPORTED_def)
qed

lemma unsupported_request_refused_witness:
  "\<exists>w. processCommandBuffer flat_env byte_socket (le32 111 @ le32 78) 0 11 connected = Some (connected\<lparr>world := w\<rparr>)
     \<and> w = world connected @ [0, 0, 0, 12, 0, 0, 0, 0, 78, 0, 0, 0, 6, 0, 0, 0]"
  using unsupported_request_refused [OF flat_laws _ byte_socket_takes, of 111 connected 0 78 "[]" 11]
  by (simp add: connected_runs MAX_COMMAND_BYTES_def frame_def be32_def le32_def)

text \<open>
  C31: a command with a list of strings reaches the vendor library as the same list, under the number of the table,
  for the client it came from and with the token of a new pending request.
\<close>

theorem strings_reach_vendor:
  assumes "parcel_laws E enc left" "translate_request (sint request) = Some ci" "dispatchFunction ci = D_Strings" "addr \<noteq> 0"
    "\<forall>x \<in> set xs. plain x" "length xs < 2 ^ 29" "4 * length xs \<le> stack_room E"
  shows "processCommandBuffer E S (concat (map enc ([PInt request, PInt token, PInt (of_nat (length xs))] @ map PStr xs)) @ rest) c addr s
    = Some (s\<lparr>s_pendingRequests := \<lparr>ri_addr = addr, ri_token = token, ri_pCI = ci, ri_cancelled = False, ri_local = False,
         ri_client = c\<rparr> # s_pendingRequests s,
        to_vendor := to_vendor s @ [\<lparr>vc_client = c, vc_request = requestNumber ci, vc_data = Strs xs,
          vc_datalen = 4 * length xs, vc_token = addr\<rparr>]\<rparr>)"
proof -
  obtain p where p: "left p = concat (map enc (PInt (of_nat (length xs)) # map PStr xs)) @ rest"
    "processCommandBuffer E S (concat (map enc ([PInt request, PInt token, PInt (of_nat (length xs))] @ map PStr xs)) @ rest) c addr s
     = dispatchStrings E S p
       \<lparr>ri_addr = addr, ri_token = token, ri_pCI = ci, ri_cancelled = False, ri_local = False, ri_client = c\<rparr>
       (s\<lparr>s_pendingRequests := \<lparr>ri_addr = addr, ri_token = token, ri_pCI = ci, ri_cancelled = False, ri_local = False,
          ri_client = c\<rparr> # s_pendingRequests s\<rparr>)"
    by (rule command_of_supported [OF assms(1) _ assms(2,4), where rest = "concat (map enc (PInt (of_nat (length xs)) # map PStr xs)) @ rest"
        and S = S and c = c and s = s and buffer = "concat (map enc ([PInt request, PInt token, PInt (of_nat (length xs))] @ map PStr xs)) @ rest"])
      (simp_all add: assms(3))
  have "left p = concat (map enc [PInt (of_nat (length xs))]) @ (concat (map enc (map PStr xs)) @ rest)" using p(1) by simp
  from takes_reader0 [OF takes_Var [OF assms(1)] this] obtain r where
    r: "run_state (readVar E) (reader0 E p) = (of_nat (length xs), r)" "left (parcel r) = concat (map enc (map PStr xs)) @ rest"
      "no_error r" .
  obtain r2 where r2: "run_state (readStrings E (length xs)) r = (xs, r2)"
    using takes_Strings [OF assms(1,5)] r(2,3) unfolding takes_def by blast
  have n: "unat (of_nat (length xs) :: u32) = length xs" "sint (of_nat (length xs) :: u32) = int (length xs)"
    using assms(6) by (simp_all add: small_int)
  have m: "of_nat sizeof_pointer * (of_nat (length xs) :: u32) = of_nat (4 * length xs)" by (simp add: sizeof_pointer_def)
  have n4: "unat (of_nat (4 * length xs) :: u32) = 4 * length xs" using assms(6) by (intro small_int) simp
  have "read_string_array E (of_nat (length xs)) r = Some (Some xs, 4 * length xs)"
  proof (cases "xs = []")
    case False
    have "(of_nat (length xs) :: u32) \<noteq> 0" using n(1) False by (metis length_0_conv unsigned_0)
    moreover have "(of_nat (length xs) :: u32) \<noteq> -1" using n(2) by (metis of_nat_less_0_iff sint_n1 zero_neq_neg_one neg_less_0_iff_less zero_less_one)
    moreover have "stack_array E sizeof_pointer (of_nat (length xs)) (length xs)"
      unfolding stack_array_def m n4 Let_def using assms(7) by (simp add: sizeof_pointer_def)
    ultimately show ?thesis using r2 n(2) m n4 by (simp add: read_string_array_def)
  qed (simp add: read_string_array_def)
  then show ?thesis using p(2) r by (simp add: dispatchStrings_def onRequest_def strs_data_def)
qed

lemma strings_reach_vendor_witness:
  "\<exists>ci. processCommandBuffer flat_env byte_socket
       (concat (map flat_enc ([PInt 2, PInt 79, PInt 1] @ map PStr [Some [0x31, 0x32]])) @ []) 0 12 connected
     = Some (connected\<lparr>s_pendingRequests := \<lparr>ri_addr = 12, ri_token = 79, ri_pCI = ci, ri_cancelled = False, ri_local = False,
         ri_client = 0\<rparr> # s_pendingRequests connected,
        to_vendor := to_vendor connected @ [\<lparr>vc_client = 0, vc_request = 2, vc_data = Strs [Some [0x31, 0x32]],
          vc_datalen = 4, vc_token = 12\<rparr>]\<rparr>)"
proof -
  have "translate_request 2 = Some (cmd 2 D_Strings R_Ints 0)" by code_simp
  then show ?thesis
    using strings_reach_vendor [OF flat_laws, where request = 2 and ci = "cmd 2 D_Strings R_Ints 0" and xs = "[Some [0x31, 0x32]]"
        and addr = 12 and S = byte_socket and token = 79 and rest = "[]" and c = 0 and s = connected]
    by (intro exI [of _ "cmd 2 D_Strings R_Ints 0"]) (simp add: cmd_def plain_def flat_env_def)
qed

lemma readInts_length:
  assumes "parcel_laws E enc left"
  shows "left (parcel r) = concat (map enc (map PInt ts)) @ rest \<Longrightarrow> length ts \<le> n
    \<Longrightarrow> length ts \<le> length (fst (fst (run_state (readInts E n) r)))"
proof (induction ts arbitrary: n r)
  case (Cons t ts)
  then obtain k where n: "n = Suc k" "length ts \<le> k" by (cases n) auto
  have "left (parcel r) = enc (PInt t) @ (concat (map enc (map PInt ts)) @ rest)" using Cons.prems(1) by simp
  from law_int [OF assms this] obtain q where q: "read_i32 E (parcel r) = (Some t, q)" "left q = concat (map enc (map PInt ts)) @ rest" .
  define r1 where "r1 = r\<lparr>parcel := q, loc_t := t, no_error := True\<rparr>"
  have "run_state (readInts E n) r = (case run_state (readInts E k) r1 of ((us, all), r2) \<Rightarrow> ((t # us, all), r2))"
    using q(1) n(1) by (simp add: readInt32_def status_ok_def r1_def split: prod.split)
  moreover have "length ts \<le> length (fst (fst (run_state (readInts E k) r1)))"
    using q(2) n(2) by (intro Cons.IH) (simp_all add: r1_def)
  moreover obtain us all r2 where "run_state (readInts E k) r1 = ((us, all), r2)" by (metis surj_pair)
  ultimately show ?case by simp
qed simp

text \<open>
  C33: a command with a list of ints whose count is more than 2^30 makes the array on the stack 2^30 ints too
  short, since its size is computed in 32 bits; if the command holds more than the rest, the function writes behind the array.
\<close>

theorem ints_count_wraps:
  assumes "parcel_laws E enc left" "translate_request (sint request) = Some ci" "dispatchFunction ci = D_Ints" "addr \<noteq> 0"
    "2 ^ 30 < n" "n < 2 ^ 31" "n - 2 ^ 30 < length ts" "length ts \<le> n"
  shows "processCommandBuffer E S (concat (map enc ([PInt request, PInt token, PInt (of_nat n)] @ map PInt ts)) @ rest) c addr s = None"
proof -
  obtain p where p: "left p = concat (map enc (PInt (of_nat n) # map PInt ts)) @ rest"
    "processCommandBuffer E S (concat (map enc ([PInt request, PInt token, PInt (of_nat n)] @ map PInt ts)) @ rest) c addr s
     = dispatchInts E S p
       \<lparr>ri_addr = addr, ri_token = token, ri_pCI = ci, ri_cancelled = False, ri_local = False, ri_client = c\<rparr>
       (s\<lparr>s_pendingRequests := \<lparr>ri_addr = addr, ri_token = token, ri_pCI = ci, ri_cancelled = False, ri_local = False,
          ri_client = c\<rparr> # s_pendingRequests s\<rparr>)"
    by (rule command_of_supported [OF assms(1) _ assms(2,4), where rest = "concat (map enc (PInt (of_nat n) # map PInt ts)) @ rest"
        and S = S and c = c and s = s and buffer = "concat (map enc ([PInt request, PInt token, PInt (of_nat n)] @ map PInt ts)) @ rest"])
      (simp_all add: assms(3))
  have "left p = concat (map enc [PInt (of_nat n)]) @ (concat (map enc (map PInt ts)) @ rest)" using p(1) by simp
  from takes_reader0 [OF takes_Var [OF assms(1)] this] obtain r where
    r: "run_state (readVar E) (reader0 E p) = (of_nat n, r)" "left (parcel r) = concat (map enc (map PInt ts)) @ rest" "no_error r" .
  obtain us all r2 where us: "run_state (readInts E n) r = ((us, all), r2)" by (metis surj_pair)
  have long: "length ts \<le> length us" using readInts_length [OF assms(1) r(2) assms(8)] us by simp
  have num: "unat (of_nat n :: u32) = n" "sint (of_nat n :: u32) = int n" using assms(6) by (simp_all add: small_int)
  then have "(of_nat n :: u32) \<noteq> 0" using assms(5) by auto
  have "unat (of_nat sizeof_int * (of_nat n :: u32)) = 4 * (n - 2 ^ 30)"
  proof -
    have "of_nat sizeof_int * (of_nat n :: u32) = of_nat (4 * n)" by (simp add: sizeof_int_def)
    also have "of_nat (4 * n) = (of_nat (4 * (n - 2 ^ 30) + 2 ^ 32) :: u32)" using assms(5) by simp
    also have "\<dots> = of_nat (4 * (n - 2 ^ 30)) + (of_nat (2 ^ 32) :: u32)" by (simp only: of_nat_add)
    also have "(of_nat (2 ^ 32) :: u32) = 0" by simp
    finally show ?thesis using assms(6) by (simp add: unsigned_of_nat take_bit_nat_eq_self del: of_nat_mult)
  qed
  then have "\<not> stack_array E sizeof_int (of_nat n) (length us)"
    using long assms(7) by (simp add: stack_array_def Let_def sizeof_int_def)
  then show ?thesis using p(2) r us num \<open>of_nat n \<noteq> 0\<close> by (simp add: dispatchInts_def)
qed

lemma ints_count_wraps_witness:
  "processCommandBuffer flat_env byte_socket
     (concat (map flat_enc ([PInt 12, PInt 80, PInt (of_nat 1073741825)] @ map PInt [1, 2]))) 0 13 connected = None"
proof -
  have "translate_request 12 = Some (cmd 12 D_Ints R_Void 0)" by code_simp
  then show ?thesis
    using ints_count_wraps [OF flat_laws, where request = 12 and ci = "cmd 12 D_Ints R_Void 0" and ts = "[1, 2]" and n = 1073741825
        and addr = 13 and rest = "[]" and S = byte_socket and token = 80 and c = 0 and s = connected]
    by (simp add: cmd_def)
qed

section \<open>Commands that are never answered\<close>

text \<open>A function that, once a read has failed at the end of the parcel, does not recover.\<close>

definition starves :: "('p \<Rightarrow> byte list) \<Rightarrow> ('p reader, 'a) state \<Rightarrow> bool" where
  "starves left m \<longleftrightarrow> (\<forall>r. left (parcel r) = [] \<and> \<not> no_error r \<longrightarrow>
     left (parcel (snd (run_state m r))) = [] \<and> \<not> no_error (snd (run_state m r)) \<and> strdups (snd (run_state m r)) = strdups r)"

text \<open>A function whose first read fails there.\<close>

definition fails :: "('p \<Rightarrow> byte list) \<Rightarrow> ('p reader, 'a) state \<Rightarrow> bool" where
  "fails left m \<longleftrightarrow> (\<forall>r. left (parcel r) = [] \<longrightarrow>
     left (parcel (snd (run_state m r))) = [] \<and> \<not> no_error (snd (run_state m r)) \<and> strdups (snd (run_state m r)) = strdups r)"

lemma starves_return: "starves left (State_Monad.return x)"
  by (simp add: starves_def)

lemma snd_run_bind: "snd (run_state (State_Monad.bind m f) r) = snd (run_state (f (fst (run_state m r))) (snd (run_state m r)))"
  by (simp add: case_prod_beta)

lemma starves_bind: "starves left m \<Longrightarrow> (\<And>x. starves left (f x)) \<Longrightarrow> starves left (State_Monad.bind m f)"
  unfolding starves_def snd_run_bind by simp

lemma fails_bind: "fails left m \<Longrightarrow> (\<And>x. starves left (f x)) \<Longrightarrow> fails left (State_Monad.bind m f)"
  unfolding starves_def fails_def snd_run_bind by simp

lemma fails_starves: "fails left m \<Longrightarrow> starves left m"
  by (simp add: fails_def starves_def)

lemma fails_read:
  assumes "parcel_laws E enc left"
  shows "fails left (readInt32 E)" "fails left (readVar E)" "fails left (readByte E)" "starves left (strdupReadString E)"
  using law_empty [OF assms] by (fastforce simp: fails_def starves_def readInt32_def readVar_def readByte_def strdupReadString_def)+

lemma starves_repeat: "starves left m \<Longrightarrow> starves left (repeat n m)"
  by (induction n) (auto intro!: starves_bind starves_return)

lemma starves_bytes: "parcel_laws E enc left \<Longrightarrow> starves left (readBytes E n)"
  by (induction n) (auto intro!: starves_bind starves_return fails_starves [OF fails_read(3)])

lemma fails_run:
  assumes "fails left m" "left p = []"
  obtains v r where "run_state m (reader0 E p) = (v, r)" "\<not> no_error r" "strdups r = 0"
proof -
  obtain v r where "run_state m (reader0 E p) = (v, r)" by (metis surj_pair)
  moreover have "left (parcel (reader0 E p)) = []" "strdups (reader0 E p) = 0" using assms(2) by (simp_all add: reader0_def)
  ultimately show ?thesis using assms(1) that unfolding fails_def by (metis snd_conv)
qed

text \<open>The functions that read several parameters before they look at the status.\<close>

lemma fails_read_all:
  assumes "parcel_laws E enc left"
  shows "fails left (read_SIM_IO E n)" "fails left (read_CallForward E)" "fails left (read_Message E fa fs fb)"
    "fails left (do { a \<leftarrow> readInt32 E; b \<leftarrow> readInt32 E; State_Monad.return (a, b) })"
    "fails left (do { a \<leftarrow> readInt32 E; b \<leftarrow> strdupReadString E; State_Monad.return (a, b) })"
    "fails left (do { st \<leftarrow> readInt32 E; m \<leftarrow> read_Message E fa fs fb; State_Monad.return \<lparr>cw_status = st, cw_message = m\<rparr> })"
proof -
  note s = starves_bind starves_return fails_read(4) [OF assms] starves_bytes [OF assms] fails_starves [OF fails_read(1) [OF assms]]
    fails_starves [OF fails_read(3) [OF assms]]
  show io: "fails left (read_SIM_IO E n)"
    unfolding read_SIM_IO_def
    by (cases "n = RIL_REQUEST_SIM_TRANSMIT_BASIC \<or> n = RIL_REQUEST_SIM_TRANSMIT_CHANNEL")
      (auto intro!: fails_bind [OF fails_read(1) [OF assms]] s simp del: bind_assoc)
  show "fails left (read_CallForward E)" unfolding read_CallForward_def by (intro fails_bind [OF fails_read(1) [OF assms]] s)
  show m: "fails left (read_Message E fa fs fb)" for fa fs fb
    unfolding read_Message_def read_Address_def read_Subaddress_def read_array_def
    by (intro fails_bind [OF fails_read(1) [OF assms]] s)
  show "fails left (do { a \<leftarrow> readInt32 E; b \<leftarrow> readInt32 E; State_Monad.return (a, b) })"
    "fails left (do { a \<leftarrow> readInt32 E; b \<leftarrow> strdupReadString E; State_Monad.return (a, b) })"
    "fails left (do { st \<leftarrow> readInt32 E; m \<leftarrow> read_Message E fa fs fb; State_Monad.return \<lparr>cw_status = st, cw_message = m\<rparr> })"
    by (intro fails_bind [OF fails_read(1) [OF assms]] s fails_starves [OF m])+
qed

lemma fails_dial:
  assumes "parcel_laws E enc left" "left p = []"
  shows "\<exists>r. run_state (read_Dial E v) (reader0 E p) = (None, r) \<and> strdups r = 0"
proof -
  obtain q where q: "read_string16 E p = (None, q)" "left q = []" using law_empty(3) [OF assms] by blast
  obtain q2 where "read_i32 E q = (None, q2)" using law_empty(1) [OF assms(1) q(2)] by blast
  then show ?thesis using q(1) by (simp add: read_Dial_def strdupReadString_def readInt32_def status_ok_def reader0_def)
qed

text \<open>After a number is read, the position before it can be set again.\<close>

definition rewinds :: "'p parcel_env \<Rightarrow> ('p \<Rightarrow> byte list) \<Rightarrow> bool" where
  "rewinds E left \<longleftrightarrow> (\<forall>p. left (setDataPosition E (dataPosition E p) (snd (read_i32 E p))) = left p)"

text \<open>The dispatch functions that read no parameters.\<close>

definition no_parameters :: "dispatch_fn \<Rightarrow> bool" where
  "no_parameters d \<longleftrightarrow> d \<in> {D_Void, D_VoiceRadioTech, D_CdmaSubscriptionSource}"

lemma fails_dispatch:
  assumes "parcel_laws E enc left" "left p = []" "rewinds E left" "\<not> no_parameters d"
  shows "dispatch_function d E S p r s = Some (if d = D_String then onRequest r Null sizeof_pointer s else s)"
proof -
  have none: "lose 0 s = s" by (simp add: lose_def)
  have strings: "dispatchStrings E S p r s = Some s"
    if "left p = []" for p
    by (rule fails_run [OF fails_read(2) [OF assms(1)] that, where E = E]) (simp add: dispatchStrings_def invalidCommandBlock_def none)
  obtain q3 where "read_string16 E p = (None, q3)" using law_empty(3) [OF assms(1,2)] by blast
  then have str: "dispatchString E S p r s = Some (onRequest r Null sizeof_pointer s)"
    by (simp add: dispatchString_def strdupReadString_def reader0_def to_data_def)
  obtain q4 where q4: "read_i32 E p = (None, q4)" using law_empty(1) [OF assms(1,2)] by blast
  have "left (setDataPosition E (dataPosition E p) q4) = []"
    using assms(2,3) q4 unfolding rewinds_def by (metis snd_conv)
  then have data: "dispatchDataCall E S p r s = Some s" using strings q4 by (simp add: dispatchDataCall_def Let_def)
  have ints: "dispatchInts E S p r s = Some s"
    by (rule fails_run [OF fails_read(2) [OF assms(1)] assms(2), where E = E]) (simp add: dispatchInts_def invalidCommandBlock_def none)
  have raw: "dispatchRaw E S p r s = Some s"
    by (rule fails_run [OF fails_read(2) [OF assms(1)] assms(2), where E = E]) (simp add: dispatchRaw_def invalidCommandBlock_def none)
  have gsm: "dispatchGsmBrSmsCnf E S p r s = Some s"
    by (rule fails_run [OF fails_read(2) [OF assms(1)] assms(2), where E = E]) (simp add: dispatchGsmBrSmsCnf_def invalidCommandBlock_def none)
  have cdma: "dispatchCdmaBrSmsCnf E S p r s = Some s"
    by (rule fails_run [OF fails_read(2) [OF assms(1)] assms(2), where E = E]) (simp add: dispatchCdmaBrSmsCnf_def invalidCommandBlock_def none)
  have sim: "dispatchSIM_IO E S p r s = Some s"
    by (rule fails_run [OF fails_read_all(1) [OF assms(1), where n = "requestNumber (ri_pCI r)"] assms(2), where E = E]) (simp add: dispatchSIM_IO_def invalidCommandBlock_def none)
  have cf: "dispatchCallForward E S p r s = Some s"
    by (rule fails_run [OF fails_read_all(2) [OF assms(1)] assms(2), where E = E]) (simp add: dispatchCallForward_def invalidCommandBlock_def none)
  have sms: "dispatchCdmaSms E S p r s = Some s"
    by (rule fails_run [OF fails_read_all(3) [OF assms(1), where fa = "\<lambda>n. min (unat n) RIL_CDMA_SMS_ADDRESS_MAX" and fs = "\<lambda>n. min (unat n) RIL_CDMA_SMS_SUBADDRESS_MAX"
      and fb = "\<lambda>n. nat (min (sint n) (int RIL_CDMA_SMS_BEARER_DATA_MAX))"] assms(2), where E = E]) (simp add: dispatchCdmaSms_def constructCdmaSms_def invalidCommandBlock_def none)
  have ack: "dispatchCdmaSmsAck E S p r s = Some s"
    by (rule fails_run [OF fails_read_all(4) [OF assms(1)] assms(2), where E = E]) (simp add: dispatchCdmaSmsAck_def invalidCommandBlock_def none del: run_state_bind)
  have dep: "dispatchDepersonalization E S p r s = Some s"
    by (rule fails_run [OF fails_read_all(5) [OF assms(1)] assms(2), where E = E]) (simp add: dispatchDepersonalization_def invalidCommandBlock_def none del: run_state_bind)
  have wr: "dispatchRilCdmaSmsWriteArgs E S p r s = Some s"
    by (rule fails_run [OF fails_read_all(6) [OF assms(1), where fa = "\<lambda>_. RIL_CDMA_SMS_ADDRESS_MAX" and fs = "\<lambda>_. RIL_CDMA_SMS_SUBADDRESS_MAX"
      and fb = "\<lambda>_. RIL_CDMA_SMS_BEARER_DATA_MAX"] assms(2), where E = E]) (simp add: dispatchRilCdmaSmsWriteArgs_def invalidCommandBlock_def none del: run_state_bind)
  have ims: "dispatchImsSms E S p r s = Some s"
    by (rule fails_run [OF fails_read(1) [OF assms(1)] assms(2), where E = E]) (simp add: dispatchImsSms_def invalidCommandBlock_def none)
  obtain v q where q: "run_state (readInt32 E) (reader0 E p) = (v, q)" "\<not> no_error q" "strdups q = 0" "left (parcel q) = []"
    using fails_read(1) [OF assms(1)] assms(2) unfolding fails_def
    by (metis reader.select_convs(1,5) reader0_def surj_pair snd_conv)
  obtain q2 where "run_state (strdupReadString E) q = (None, q2)" "\<not> no_error q2" "strdups q2 = 0"
    using law_empty(3) [OF assms(1) q(4)] q(2,3) by (auto simp: strdupReadString_def)
  then have smsw: "dispatchSmsWrite E S p r s = Some s" using q by (simp add: dispatchSmsWrite_def invalidCommandBlock_def none)
  have "run_state (readInts E (Suc (Suc (Suc (Suc 0))))) (reader0 E p) = (([v], False), q)"
    using q by (simp add: status_ok_def)
  then have uicc: "dispatchUiccSubscripton E S p r s = Some s"
    using q(3) by (simp add: dispatchUiccSubscripton_def invalidCommandBlock_def none eval_nat_numeral del: readInts.simps)
  have dial: "dispatchDial E S p r s = Some s"
    using fails_dial [OF assms(1,2), of "cb_version s (ri_client r)"] by (auto simp: dispatchDial_def Let_def invalidCommandBlock_def none)
  show ?thesis
    using assms(4) strings [OF assms(2)] str data ints raw gsm cdma sim cf sms ack dep wr ims smsw uicc dial
    by (cases d) (simp_all add: no_parameters_def)
qed

text \<open>
  C34: a command that ends before the parameters its dispatch function reads is not answered. Nothing is sent
  and the request goes on the list of pending requests; the vendor library is not called, except by
  \<open>dispatchString\<close>, which calls it with NULL. In every run that follows the request stays on the list as
  long as the library does not complete it, which it has no token for if it was not called.
\<close>

theorem request_without_parameters_hangs:
  assumes "parcel_laws E enc left" "rewinds E left" "translate_request (sint request) = Some ci" "addr \<noteq> 0"
    "\<not> no_parameters (dispatchFunction ci)"
    and r: "r = \<lparr>ri_addr = addr, ri_token = token, ri_pCI = ci, ri_cancelled = False, ri_local = False, ri_client = c\<rparr>"
    and s1: "s1 = (if dispatchFunction ci = D_String
        then onRequest r Null sizeof_pointer (s\<lparr>s_pendingRequests := r # s_pendingRequests s\<rparr>)
        else s\<lparr>s_pendingRequests := r # s_pendingRequests s\<rparr>)"
  shows "processCommandBuffer E S (enc (PInt request) @ enc (PInt token)) c addr s = Some s1
    \<and> (malloc_fresh S \<and> list_all (\<lambda>ev. \<not> completes addr ev) evs \<and> ril_run E S evs s1 = Some s2
       \<longrightarrow> addr \<in> set (tokens s2))"
proof
  show "processCommandBuffer E S (enc (PInt request) @ enc (PInt token)) c addr s = Some s1"
  proof (rule command_of_supported [OF assms(1) _ assms(3,4), where rest = "[]" and token = token and S = S and c = c and s = s])
    fix p assume "left p = []" and run: "processCommandBuffer E S (enc (PInt request) @ enc (PInt token)) c addr s
      = dispatch_function (dispatchFunction ci) E S p
         \<lparr>ri_addr = addr, ri_token = token, ri_pCI = ci, ri_cancelled = False, ri_local = False, ri_client = c\<rparr>
         (s\<lparr>s_pendingRequests := \<lparr>ri_addr = addr, ri_token = token, ri_pCI = ci, ri_cancelled = False, ri_local = False,
            ri_client = c\<rparr> # s_pendingRequests s\<rparr>)"
    then show ?thesis using fails_dispatch [OF assms(1) _ assms(2,5)] unfolding r s1 run by auto
  qed simp
  have "addr \<in> set (tokens s1)" by (simp add: s1 r tokens_def onRequest_def)
  then show "malloc_fresh S \<and> list_all (\<lambda>ev. \<not> completes addr ev) evs \<and> ril_run E S evs s1 = Some s2
       \<longrightarrow> addr \<in> set (tokens s2)"
    using run_keeps_pending by blast
qed

lemma flat_rewinds: "rewinds flat_env flat_left"
  by (auto simp: rewinds_def flat_env_def flat_left_def get_i32_def get_def split: list.split option.split)

text \<open>Command 12 without its numbers; then the connection ends and another request is completed.\<close>

lemma request_without_parameters_hangs_witness:
  "(\<exists>s1 s2. processCommandBuffer flat_env byte_socket (le32 12 @ le32 81) 0 14 connected = Some s1
     \<and> tokens s1 = [14, 9] \<and> to_vendor s1 = to_vendor connected \<and> world s1 = world connected
     \<and> ril_run flat_env byte_socket [EndOfStream 0, Complete 9 2 Null 0] s1 = Some s2 \<and> 14 \<in> set (tokens s2))"
proof -
  let ?r = "\<lparr>ri_addr = 14, ri_token = 81, ri_pCI = cmd 12 D_Ints R_Void 0, ri_cancelled = False, ri_local = False, ri_client = 0\<rparr>"
  let ?s1 = "connected\<lparr>s_pendingRequests := ?r # s_pendingRequests connected\<rparr>"
  have ci: "translate_request 12 = Some (cmd 12 D_Ints R_Void 0)" by code_simp
  have np: "\<not> no_parameters (dispatchFunction (cmd 12 D_Ints R_Void 0))" by (simp add: no_parameters_def cmd_def)
  have ints: "?s1 = (if dispatchFunction (cmd 12 D_Ints R_Void 0) = D_String
      then onRequest ?r Null sizeof_pointer (connected\<lparr>s_pendingRequests := ?r # s_pendingRequests connected\<rparr>) else ?s1)"
    by (simp add: cmd_def)
  have "\<exists>s2. ril_run flat_env byte_socket [EndOfStream 0, Complete 9 2 Null 0] ?s1 = Some s2"
    by (simp add: RIL_onRequestComplete_def checkAndDequeueRequestInfo_def processCommandsCallback_def onCommandsSocketClosed_def
        connected_runs)
  then obtain s2 where s2: "ril_run flat_env byte_socket [EndOfStream 0, Complete 9 2 Null 0] ?s1 = Some s2" ..
  have h: "processCommandBuffer flat_env byte_socket (le32 12 @ le32 81) 0 14 connected = Some ?s1
    \<and> (malloc_fresh byte_socket \<and> list_all (\<lambda>ev. \<not> completes 14 ev) [EndOfStream 0, Complete 9 2 Null 0]
       \<and> ril_run flat_env byte_socket [EndOfStream 0, Complete 9 2 Null 0] ?s1 = Some s2 \<longrightarrow> 14 \<in> set (tokens s2))"
    using request_without_parameters_hangs [OF flat_laws flat_rewinds, where request = 12 and s = connected and addr = 14 and c = 0
        and token = 81 and S = byte_socket and evs = "[EndOfStream 0, Complete 9 2 Null 0]" and ?s2.0 = s2, OF _ _ np refl ints] ci
    by (simp del: ril_run.simps)
  then have "14 \<in> set (tokens s2)" using s2 byte_socket_fresh by simp
  with h s2 show ?thesis by (intro exI [of _ ?s1] exI [of _ s2]) (simp add: tokens_def connected_runs)
qed

section \<open>CDMA messages\<close>

text \<open>An array of \<open>sz\<close> bytes of which \<open>n\<close> are in use and the others 0.\<close>

definition cleared :: "nat \<Rightarrow> nat \<Rightarrow> byte list \<Rightarrow> bool" where
  "cleared n sz bs \<longleftrightarrow> length bs = sz \<and> drop n bs = replicate (sz - n) 0"

definition sms_cleared :: "RIL_CDMA_SMS_Message \<Rightarrow> bool" where
  "sms_cleared m \<longleftrightarrow>
     cleared (min (unat (ad_number_of_digits (sAddress m))) RIL_CDMA_SMS_ADDRESS_MAX) RIL_CDMA_SMS_ADDRESS_MAX (ad_digits (sAddress m))
   \<and> cleared (min (unat (sub_number_of_digits (sSubAddress m))) RIL_CDMA_SMS_SUBADDRESS_MAX) RIL_CDMA_SMS_SUBADDRESS_MAX
       (sub_digits (sSubAddress m))
   \<and> cleared (nat (min (sint (uBearerDataLen m)) (int RIL_CDMA_SMS_BEARER_DATA_MAX))) RIL_CDMA_SMS_BEARER_DATA_MAX (aBearerData m)"

lemma takes_array:
  assumes "parcel_laws E enc left" "cleared n sz bs" "n \<le> sz"
  shows "takes enc left (read_array E n sz) (map (\<lambda>b. PRaw [b]) (take n bs)) 0 bs"
proof -
  have "length (take n bs) = n" "bs = take n bs @ replicate (sz - n) 0"
    using assms(2,3) append_take_drop_id [of n bs] unfolding cleared_def by (simp, metis)
  then show ?thesis
    using takes_result [OF takes_Bytes [OF assms(1), of "take n bs"], where g = "\<lambda>xs. xs @ replicate (sz - n) 0"]
    by (simp add: read_array_def)
qed

lemma byte_items_take: "n \<le> length bs \<Longrightarrow> byte_items n bs = Some (map (\<lambda>b. PRaw [b]) (take n bs))"
  by (simp add: byte_items_def first_def)

lemma takes_then:
  assumes "takes enc left m items 0 v" "takes enc left (f v) js k w"
  shows "takes enc left (State_Monad.bind m f) (items @ js) k w"
  using takes_bind [OF assms(1), where f = f and js = js] assms(2) by fastforce

lemma takes_sms:
  assumes "parcel_laws E enc left" "sms_cleared m" "sms_items m = Some items"
  shows "takes enc left (constructCdmaSms E) items 0 m"
proof -
  note c = assms(2) [unfolded sms_cleared_def]
  let ?a = "sAddress m" and ?s = "sSubAddress m"
  let ?na = "min (unat (ad_number_of_digits ?a)) RIL_CDMA_SMS_ADDRESS_MAX"
  let ?ns = "min (unat (sub_number_of_digits ?s)) RIL_CDMA_SMS_SUBADDRESS_MAX"
  let ?nb = "nat (min (sint (uBearerDataLen m)) (int RIL_CDMA_SMS_BEARER_DATA_MAX))"
  define as where "as = [PInt (digit_mode ?a), PInt (number_mode ?a), PInt (ad_number_type ?a), PInt (ad_number_plan ?a),
    PRaw [ad_number_of_digits ?a]] @ map (\<lambda>b. PRaw [b]) (take ?na (ad_digits ?a))"
  define ss where "ss = [PInt (subaddressType ?s), PRaw [sub_odd ?s], PRaw [sub_number_of_digits ?s]]
    @ map (\<lambda>b. PRaw [b]) (take ?ns (sub_digits ?s))"
  have items: "items = PInt (uTeleserviceID m) # PRaw [bIsServicePresent m] # PInt (uServicecategory m)
     # as @ ss @ PInt (uBearerDataLen m) # map (\<lambda>b. PRaw [b]) (take ?nb (aBearerData m))"
    using assms(3) c by (simp add: sms_items_def Let_def byte_items_take cleared_def as_def ss_def)
  have addr: "takes enc left (read_Address E (\<lambda>n. min (unat n) RIL_CDMA_SMS_ADDRESS_MAX)) as 0 ?a"
    unfolding read_Address_def as_def append_Cons append_Nil
    by (intro takes_first [OF assms(1)] takes_done [OF takes_array [OF assms(1), where bs = "ad_digits ?a"]]) (use c in simp_all)
  have sub: "takes enc left (read_Subaddress E (\<lambda>n. min (unat n) RIL_CDMA_SMS_SUBADDRESS_MAX)) ss 0 ?s"
    unfolding read_Subaddress_def ss_def append_Cons append_Nil
    by (intro takes_first [OF assms(1)] takes_done [OF takes_array [OF assms(1), where bs = "sub_digits ?s"]]) (use c in simp_all)
  show ?thesis
    unfolding constructCdmaSms_def read_Message_def items
    by (intro takes_first [OF assms(1)] takes_then [OF addr] takes_then [OF sub]
        takes_done [OF takes_array [OF assms(1), where bs = "aBearerData m"]]) (use c in simp_all)
qed

text \<open>
  C30: a CDMA message that the module writes as a response, the unused bytes of its arrays being 0, is what it reads from the same bytes as the
  parameter of a request, which stops right behind them.
\<close>

theorem cdma_sms_round_trip:
  assumes "parcel_laws E enc left" "sms_cleared m"
  shows "\<exists>p r. responseCdmaSms E ver (CdmaSms m) sizeof_RIL_CDMA_SMS_Message (new_parcel E) = Some (0, p)
    \<and> run_state (constructCdmaSms E) (reader0 E (setData E (parcel_data E p @ rest) (new_parcel E))) = (m, r)
    \<and> no_error r \<and> left (parcel r) = rest"
proof -
  obtain items where items: "sms_items m = Some items"
    using assms(2) by (simp add: sms_items_def sms_cleared_def Let_def byte_items_take cleared_def)
  define p where "p = writes E items (new_parcel E)"
  have "responseCdmaSms E ver (CdmaSms m) sizeof_RIL_CDMA_SMS_Message (new_parcel E) = Some (0, p)"
    by (simp add: responseCdmaSms_def items write_all_def p_def)
  moreover have "parcel_data E p = concat (map enc items)"
    unfolding p_def using writes_at_end(1) [OF assms(1)] law_new [OF assms(1)] by simp
  then have "left (setData E (parcel_data E p @ rest) (new_parcel E)) = concat (map enc items) @ rest"
    using law_setData [OF assms(1)] by simp
  from takes_reader0 [OF takes_sms [OF assms items] this] obtain r where
    "run_state (constructCdmaSms E) (reader0 E (setData E (parcel_data E p @ rest) (new_parcel E))) = (m, r)"
    "left (parcel r) = rest" "no_error r" .
  ultimately show ?thesis by blast
qed

definition sample_sms :: RIL_CDMA_SMS_Message where
  "sample_sms = \<lparr>uTeleserviceID = 4098, bIsServicePresent = 0, uServicecategory = 0,
     sAddress = \<lparr>digit_mode = 0, number_mode = 0, ad_number_type = 1, ad_number_plan = 1, ad_number_of_digits = 3,
       ad_digits = [1, 1, 2] @ replicate 33 0\<rparr>,
     sSubAddress = \<lparr>subaddressType = 0, sub_odd = 0, sub_number_of_digits = 0, sub_digits = replicate 36 0\<rparr>,
     uBearerDataLen = 2, aBearerData = [7, 9] @ replicate 253 0\<rparr>"

lemma cdma_sms_round_trip_witness:
  "\<exists>p r. responseCdmaSms flat_env 7 (CdmaSms sample_sms) sizeof_RIL_CDMA_SMS_Message (new_parcel flat_env) = Some (0, p)
    \<and> run_state (constructCdmaSms flat_env) (reader0 flat_env (setData flat_env (parcel_data flat_env p @ [1, 2]) (new_parcel flat_env)))
        = (sample_sms, r)
    \<and> no_error r \<and> flat_left (parcel r) = [1, 2]"
proof (rule cdma_sms_round_trip [OF flat_laws])
  show "sms_cleared sample_sms" by (simp add: sms_cleared_def cleared_def sample_sms_def cdma_limits)
qed

end
