(* ===== verification/RilWake.thy ===== *)
theory RilWake
  imports RilSys
begin

text \<open>
  The wake lock of ril.cpp between the threads. No mutex guards it, its timers and
  \<open>s_last_wake_timeout_info\<close>: the vendor library reports from threads of its own while the event thread
  runs timers and connections. So what \<open>RIL_onUnsolicitedSendResponse\<close> and \<open>userTimerCallback\<close> do to them is cut
  into single accesses here, and the threads interleave. A result None is an access outside an object.
\<close>

section \<open>Accesses\<close>

datatype wake_act =
    Grab
  | Release
  | TestLast
  | Cancel
  | Mark nat
  | Arm
  | Store nat
  | Fire nat
  | TestMine nat
  | ClearLast
  | FreeTimer nat

text \<open>An access of a thread: the new state and what it goes on with.\<close>

fun wake_access :: "'w outside \<Rightarrow> wake_act \<Rightarrow> 'w ril \<Rightarrow> ('w ril \<times> wake_act list) option" where
  "wake_access S Grab s = Some (s\<lparr>wake_lock := True\<rparr>, [])"
| "wake_access S Release s = Some (s\<lparr>wake_lock := False\<rparr>, [])"
| "wake_access S TestLast s = Some (s, if s_last_wake_timeout_info s \<noteq> None then [Cancel, Arm] else [Arm])"
| "wake_access S Cancel s = (case s_last_wake_timeout_info s of None \<Rightarrow> None | Some a \<Rightarrow> Some (s, [Mark a]))"
| "wake_access S (Mark a) s = (if a \<in> set (map fst (timers s)) then Some (cancel_timer a s, []) else None)"
| "wake_access S Arm s = (case internalRequestTimedCallback S (WakeTimeout True) s of (a, s1) \<Rightarrow> Some (s1, [Store a]))"
| "wake_access S (Store a) s = Some (s\<lparr>s_last_wake_timeout_info := Some a\<rparr>, [])"
| "wake_access S (Fire a) s =
     (case map_of (timers s) a of
        None \<Rightarrow> None
      | Some (WakeTimeout live) \<Rightarrow> Some (s, if live then [Release, TestMine a] else [TestMine a])
      | Some (VendorTimer f x) \<Rightarrow> Some (run_timed (VendorTimer f x) s, [TestMine a]))"
| "wake_access S (TestMine a) s = Some (s, if s_last_wake_timeout_info s = Some a then [ClearLast, FreeTimer a] else [FreeTimer a])"
| "wake_access S ClearLast s = Some (s\<lparr>s_last_wake_timeout_info := None\<rparr>, [])"
| "wake_access S (FreeTimer a) s = Some (s\<lparr>timers := filter (\<lambda>t. fst t \<noteq> a) (timers s)\<rparr>, [])"

text \<open>A thread that runs to its end alone; \<open>n\<close> bounds the accesses.\<close>

fun wake_alone :: "'w outside \<Rightarrow> nat \<Rightarrow> wake_act list \<Rightarrow> 'w ril \<Rightarrow> 'w ril option" where
  "wake_alone S n [] s = Some s"
| "wake_alone S 0 (x # xs) s = None"
| "wake_alone S (Suc n) (x # xs) s = do { (t, ys) \<leftarrow> wake_access S x s; wake_alone S n (ys @ xs) t }"

text \<open>Alone, the accesses are the functions as a whole.\<close>

lemma timer_alone:
  assumes "map_of (timers s) a \<noteq> None"
  shows "wake_alone S 5 [Fire a] s = userTimerCallback a s"
proof -
  obtain cb where cb: "map_of (timers s) a = Some cb" using assms by blast
  show ?thesis
  proof (cases cb)
    case (WakeTimeout live)
    then show ?thesis using cb by (cases live) (simp_all add: userTimerCallback_def eval_nat_numeral)
  next
    case (VendorTimer f x)
    then show ?thesis using cb by (simp add: userTimerCallback_def eval_nat_numeral)
  qed
qed

lemma schedule_alone:
  assumes "\<And>a. s_last_wake_timeout_info s = Some a \<Longrightarrow> map_of (timers s) a \<noteq> None"
  shows "wake_alone S 5 [TestLast] s = Some (schedule_wake_timeout S s)"
proof (cases "s_last_wake_timeout_info s")
  case None
  then show ?thesis by (simp add: schedule_wake_timeout_def internalRequestTimedCallback_def Let_def eval_nat_numeral)
next
  case (Some a)
  then have "a \<in> fst ` set (timers s)" using assms by (metis map_of_eq_None_iff)
  then show ?thesis using Some by (simp add: schedule_wake_timeout_def internalRequestTimedCallback_def Let_def eval_nat_numeral)
qed

section \<open>Threads\<close>

text \<open>
  What an unsolicited response that holds the lock does to it: it ends with the timer, or with the release
  if the response is invalid. The change of the radio state reports up to three others in between.
\<close>

definition notice_acts :: "bool \<Rightarrow> wake_act list" where
  "notice_acts valid = [Grab, if valid then TestLast else Release]"

definition response_acts :: "bool list \<Rightarrow> bool \<Rightarrow> wake_act list" where
  "response_acts notices valid = Grab # concat (map notice_acts notices) @ [if valid then TestLast else Release]"

text \<open>The state beside the lock, its timers and the pointer may change in any way at any time.\<close>

definition wake_same :: "'w ril \<Rightarrow> 'w ril \<Rightarrow> bool" where
  "wake_same s t \<longleftrightarrow> wake_lock t = wake_lock s \<and> timers t = timers s
     \<and> s_last_wake_timeout_info t = s_last_wake_timeout_info s"

lemma shrinks_same: "shrinks tok s t \<Longrightarrow> wake_same s t"
  by (simp add: shrinks_def wake_same_def)

text \<open>An unsolicited response that reports no radio state is the grab, what is sent, and the rest.\<close>

lemma unsolicited_acts:
  assumes "unsolicited E S (\<lambda>p s. Some (p, s)) n dat len c s = Some s'"
  shows "wake_same s s'
    \<or> (\<exists>s1 s2. wake_alone S 1 [Grab] s = Some s1 \<and> wake_same s1 s2
        \<and> (wake_alone S 1 [Release] s2 = Some s' \<or> s' = schedule_wake_timeout S s2))"
proof (cases "s_registerCalled s = 0 \<or> translate_unsol n = None")
  case True
  then have "s' = s" using assms by (cases "s_registerCalled s = 0") (simp_all add: unsolicited_def)
  then show ?thesis by (simp add: wake_same_def)
next
  case False
  then obtain uri j where u: "s_registerCalled s \<noteq> 0" "translate_unsol n = Some (uri, j)" by auto
  define s1 where "s1 = (if wake_partial uri then s\<lparr>wake_lock := True\<rparr> else s)"
  have s1: "wake_partial uri \<Longrightarrow> wake_alone S 1 [Grab] s = Some s1" by (simp add: s1_def)
  obtain ret p where r: "response_function (unsolFunction uri) E (cb_version s 0) dat len
      (writes E [PInt RESPONSE_UNSOLICITED, PInt (of_int j)] (new_parcel E)) = Some (ret, p)"
    using assms u by (auto simp: unsolicited_def Let_def bind_eq_Some_conv)
  show ?thesis
  proof (cases "ret = 0")
    case False
    then have s': "s' = (if wake_partial uri then s1\<lparr>wake_lock := False\<rparr> else s1)"
      using assms u r by (cases "wake_partial uri") (auto simp: unsolicited_def Let_def s1_def)
    show ?thesis
    proof (cases "wake_partial uri")
      case True
      then show ?thesis using s1 s' by (intro disjI2 exI [of _ s1]) (simp add: wake_same_def)
    qed (simp add: s' s1_def wake_same_def)
  next
    case True
    define q where "q = (if n = RIL_UNSOL_RESPONSE_RADIO_STATE_CHANGED then p
      else if n = RIL_UNSOL_NITZ_TIME_RECEIVED then write_i64 E (elapsedRealtime S (world s1)) p else p)"
    define payload where "payload = (if n = RIL_UNSOL_RESPONSE_RADIO_STATE_CHANGED then Some (p, s1)
      else if n = RIL_UNSOL_NITZ_TIME_RECEIVED then Some (write_i64 E (elapsedRealtime S (world s1)) p, s1)
      else Some (p, s1))"
    have "payload \<bind> (\<lambda>(p1, s2). sendResponse E S p1 c s2 \<bind> (\<lambda>(ret2, s3).
        let s4 = (if ret2 \<noteq> 0 \<and> n = RIL_UNSOL_NITZ_TIME_RECEIVED
                  then s3\<lparr>s_lastNITZTimeData := Some (parcel_data E p1)\<rparr> else s3)
        in Some (if wake_partial uri then schedule_wake_timeout S s4 else s4))) = Some s'"
      using assms u r True by (simp add: unsolicited_def Let_def s1_def payload_def cong: if_cong split del: if_split)
    moreover have "payload = Some (q, s1)" by (simp add: payload_def q_def)
    ultimately obtain ret2 s3 where e: "sendResponse E S q c s1 = Some (ret2, s3)"
      "s' = (let s4 = (if ret2 \<noteq> 0 \<and> n = RIL_UNSOL_NITZ_TIME_RECEIVED then s3\<lparr>s_lastNITZTimeData := Some (parcel_data E q)\<rparr> else s3)
        in if wake_partial uri then schedule_wake_timeout S s4 else s4)"
      by (auto simp: bind_eq_Some_conv Let_def)
    define s4 where "s4 = (if ret2 \<noteq> 0 \<and> n = RIL_UNSOL_NITZ_TIME_RECEIVED then s3\<lparr>s_lastNITZTimeData := Some (parcel_data E q)\<rparr> else s3)"
    obtain w where "s3 = s1\<lparr>world := w\<rparr>" using sendResponse_world [OF e(1)] by blast
    then have s4: "wake_same s1 s4" by (simp add: s4_def wake_same_def)
    have s': "s' = (if wake_partial uri then schedule_wake_timeout S s4 else s4)" using e(2) by (simp add: s4_def Let_def)
    show ?thesis
    proof (cases "wake_partial uri")
      case True
      then show ?thesis using s1 s4 s' by (intro disjI2 exI [of _ s1] exI [of _ s4]) simp
    next
      case False
      then have "s1 = s" by (simp add: s1_def)
      then show ?thesis using s4 s' False by simp
    qed
  qed
qed

text \<open>The threads, by number, each with what it has still to do; 0 is the event thread.\<close>

record 'w wake_run =
  ril_at :: "'w ril"
  threads :: "nat \<Rightarrow> wake_act list"

inductive wake_step :: "'w outside \<Rightarrow> 'w wake_run \<Rightarrow> 'w wake_run \<Rightarrow> bool" for S where
  respond: "threads r v = [] \<Longrightarrow> wake_step S r (r\<lparr>threads := (threads r)(v := response_acts notices valid)\<rparr>)"
| expire: "threads r 0 = [] \<Longrightarrow> a \<in> set (map fst (timers (ril_at r)))
    \<Longrightarrow> wake_step S r (r\<lparr>threads := (threads r)(0 := [Fire a])\<rparr>)"
| access: "threads r v = x # xs \<Longrightarrow> wake_access S x (ril_at r) = Some (s, ys)
    \<Longrightarrow> wake_step S r (r\<lparr>ril_at := s, threads := (threads r)(v := ys @ xs)\<rparr>)"
| request: "wake_step S r (r\<lparr>ril_at := RIL_requestTimedCallback S f x (ril_at r)\<rparr>)"
| other: "wake_same (ril_at r) s \<Longrightarrow> wake_step S r (r\<lparr>ril_at := s\<rparr>)"

inductive_cases wake_stepE: "wake_step S r t"

text \<open>All other calls are \<open>other\<close>.\<close>

lemma other_calls:
  assumes "ril_step E S ev s = Some s'"
    "case ev of Connect (PhoneProcess _ _ _) \<Rightarrow> False | Unsolicited _ _ _ _ \<Rightarrow> False | RequestTimer _ _ \<Rightarrow> False
       | TimerExpired _ \<Rightarrow> False | _ \<Rightarrow> True"
  shows "wake_same s s'"
proof (cases ev)
  case (Register v c)
  then show ?thesis using assms(1) by (auto simp: RIL_register_def wake_same_def split: option.splits if_splits)
next
  case (Connect c)
  then show ?thesis using assms
    by (cases c) (auto simp: listenCallback_def onCommandsSocketClosed_def wake_same_def)
next
  case (Command buffer c addr)
  then have run: "processCommandBuffer E S buffer c addr s = Some s'"
    using assms(1) by (auto simp: processCommandsCallback_def bind_eq_Some_conv)
  show ?thesis using command_cases [OF run] by (auto simp: wake_same_def shrinks_def)
next
  case (EndOfStream c)
  then show ?thesis using assms(1) by (auto simp: processCommandsCallback_def onCommandsSocketClosed_def wake_same_def)
next
  case (Complete tok e d n)
  then show ?thesis using assms(1) shrinks_same [OF shrinks_complete] by simp blast
next
  case (LocalRequest a n d len c)
  then show ?thesis using assms(1)
    by (auto simp: issueLocalRequest_def Let_def bind_eq_Some_conv onRequest_def wake_same_def split: if_splits)
qed (use assms(2) in auto)

section \<open>The lock is not leaked\<close>

text \<open>Accesses after which the lock is not held, or a timer for it is armed.\<close>

fun owes :: "wake_act \<Rightarrow> bool" where
  "owes Release = True"
| "owes TestLast = True"
| "owes Arm = True"
| "owes _ = False"

definition owing :: "wake_act list \<Rightarrow> bool" where
  "owing p \<longleftrightarrow> list_ex owes p"

fun of_timer :: "wake_act \<Rightarrow> bool" where
  "of_timer (Fire a) = True"
| "of_timer (TestMine a) = True"
| "of_timer ClearLast = True"
| "of_timer (FreeTimer a) = True"
| "of_timer _ = False"

text \<open>What is left of a response, and what is left of the timer at \<open>a\<close>, before and after its callback.\<close>

definition responding :: "wake_act list \<Rightarrow> bool" where
  "responding p \<longleftrightarrow> p = [] \<or> (\<exists>a. p = [Store a]) \<or> owes (last p) \<and> \<not> list_ex of_timer p"

definition spent :: "nat \<Rightarrow> wake_act list \<Rightarrow> bool" where
  "spent a p \<longleftrightarrow> p = [TestMine a] \<or> p = [ClearLast, FreeTimer a] \<or> p = [FreeTimer a]"

definition firing :: "nat \<Rightarrow> wake_act list \<Rightarrow> bool" where
  "firing a p \<longleftrightarrow> p = [Fire a] \<or> p = [Release, TestMine a] \<or> spent a p"

definition covered :: "(nat \<times> timed_callback) list \<Rightarrow> (nat \<Rightarrow> wake_act list) \<Rightarrow> bool" where
  "covered ts f \<longleftrightarrow> (\<exists>v. owing (f v)) \<or> (\<exists>a. (a, WakeTimeout True) \<in> set ts \<and> \<not> spent a (f 0))"

definition in_place :: "(nat \<times> timed_callback) list \<Rightarrow> (nat \<Rightarrow> wake_act list) \<Rightarrow> bool" where
  "in_place ts f \<longleftrightarrow> (\<forall>v. responding (f v) \<or> v = 0 \<and> (\<exists>a \<in> set (map fst ts). firing a (f v)))"

definition wake_inv :: "'w wake_run \<Rightarrow> bool" where
  "wake_inv r \<longleftrightarrow> distinct (map fst (timers (ril_at r))) \<and> in_place (timers (ril_at r)) (threads r)
     \<and> (wake_lock (ril_at r) \<longrightarrow> covered (timers (ril_at r)) (threads r))"

lemma owing_simps [simp]: "owing [] = False" "owing (x # xs) = (owes x \<or> owing xs)" "owing (xs @ ys) = (owing xs \<or> owing ys)"
  by (auto simp: owing_def)

lemma owes_last: "p \<noteq> [] \<Longrightarrow> owes (last p) \<Longrightarrow> owing p"
  unfolding owing_def list_ex_iff by (metis last_in_set)

lemma responding_simps [simp]: "responding []" "responding [Store a]"
  by (simp_all add: responding_def)

lemma responding_timer: "firing a p \<Longrightarrow> \<not> responding p"
  by (auto simp: firing_def spent_def responding_def)

lemma responding_not_spent: "responding p \<Longrightarrow> \<not> spent a p"
  using responding_timer firing_def by blast

lemma spent_firing: "spent a p \<Longrightarrow> firing b p \<Longrightarrow> a = b"
  by (auto simp: spent_def firing_def)

lemma responding_append:
  assumes ys: "ys = [] \<or> \<not> list_ex of_timer ys \<and> (owes (last ys) \<or> xs \<noteq> [] \<or> (\<exists>a. ys = [Store a]))"
    and xs: "xs = [] \<or> owes (last xs) \<and> \<not> list_ex of_timer xs"
  shows "responding (ys @ xs)"
proof (cases "xs = []")
  case True
  then show ?thesis using ys by (auto simp: responding_def)
next
  case False
  then have "last (ys @ xs) = last xs" by simp
  moreover have "\<not> list_ex of_timer (ys @ xs)" using ys xs False by auto
  ultimately show ?thesis using xs False unfolding responding_def by metis
qed

lemma responding_acts [simp]: "responding (response_acts notices valid)"
  by (auto simp: responding_def response_acts_def notice_acts_def list_ex_iff)

lemma owing_acts [simp]: "owing (response_acts notices valid)"
  by (simp add: response_acts_def)

lemma spent_nil [simp]: "\<not> spent a []" "\<not> spent a (response_acts notices valid)" "\<not> spent a [Fire b]"
  by (auto simp: spent_def response_acts_def)

lemma covered_owing: "owing p \<Longrightarrow> covered ts (f(v := p))"
  by (auto simp: covered_def)

lemma covered_keeps:
  assumes "covered ts f" "owing (f v) \<Longrightarrow> owing p" "\<And>a. v = 0 \<Longrightarrow> spent a p \<Longrightarrow> spent a (f 0)"
  shows "covered ts (f(v := p))"
  using assms(1) unfolding covered_def
proof
  assume "\<exists>u. owing (f u)"
  then show "(\<exists>u. owing ((f(v := p)) u)) \<or> (\<exists>a. (a, WakeTimeout True) \<in> set ts \<and> \<not> spent a ((f(v := p)) 0))"
    using assms(2) by (metis fun_upd_apply)
qed (use assms(3) in auto)

lemma in_place_keeps:
  assumes "in_place ts f" "responding p \<or> v = 0 \<and> (\<exists>a \<in> set (map fst ts'). firing a p)" "v = 0 \<or> set (map fst ts) \<subseteq> set (map fst ts')"
  shows "in_place ts' (f(v := p))"
  unfolding in_place_def
proof
  fix u
  have old: "responding (f u) \<or> u = 0 \<and> (\<exists>a \<in> set (map fst ts). firing a (f u))" using assms(1) unfolding in_place_def by blast
  show "responding ((f(v := p)) u) \<or> u = 0 \<and> (\<exists>a \<in> set (map fst ts'). firing a ((f(v := p)) u))"
  proof (cases "u = v")
    case True
    then show ?thesis using assms(2) by (simp del: set_map)
  next
    case False
    then have "(f(v := p)) u = f u" by simp
    then show ?thesis using old False assms(3) by (metis subsetD)
  qed
qed

text \<open>An access of a response.\<close>

lemma inv_response:
  assumes inv: "wake_inv r" and run: "threads r v = x # xs" "wake_access S x (ril_at r) = Some (s, ys)"
    and "responding (x # xs)" "malloc_fresh S"
  shows "wake_inv (r\<lparr>ril_at := s, threads := (threads r)(v := ys @ xs)\<rparr>)"
proof -
  let ?s = "ril_at r" and ?f = "threads r"
  have d: "distinct (map fst (timers ?s))" and pl: "in_place (timers ?s) ?f"
    and lock: "wake_lock ?s \<Longrightarrow> covered (timers ?s) ?f" using inv by (auto simp: wake_inv_def)
  have not_timer: "\<not> of_timer x" using assms(4) by (auto simp: responding_def)
  have rest: "xs = [] \<or> owes (last xs) \<and> \<not> list_ex of_timer xs" using assms(4) by (auto simp: responding_def split: if_splits)
  have goes: "responding (ys @ xs)" if "ys = [] \<or> \<not> list_ex of_timer ys \<and> (owes (last ys) \<or> xs \<noteq> [] \<or> (\<exists>a. ys = [Store a]))"
    using that rest by (rule responding_append)
  have spent: "\<not> spent a (ys @ xs)" if "responding (ys @ xs)" for a using that by (rule responding_not_spent)
  have keeps: "wake_inv (r\<lparr>ril_at := s, threads := ?f(v := ys @ xs)\<rparr>)"
    if "map fst (timers s) = map fst (timers ?s)" "responding (ys @ xs)" "wake_lock s \<Longrightarrow> owing (ys @ xs) \<or> covered (timers s) (?f(v := ys @ xs))"
    unfolding wake_inv_def using that d covered_owing [of "ys @ xs" "timers s" ?f v] in_place_keeps [OF pl, of "ys @ xs" v "timers s"]
    by auto
  have o: "xs \<noteq> [] \<Longrightarrow> owing xs" using rest owes_last by blast
  have more: "xs \<noteq> []" if "\<not> owes x" "\<forall>a. x \<noteq> Store a" using assms(4) that by (auto simp: responding_def)
  show ?thesis
  proof (cases x)
    case Grab
    then show ?thesis using run(2) more o goes by (intro keeps) auto
  next
    case Release
    then show ?thesis using run(2) goes by (intro keeps) auto
  next
    case TestLast
    then show ?thesis using run(2) goes by (intro keeps) (auto split: if_splits)
  next
    case Cancel
    then show ?thesis using run(2) more o goes by (intro keeps) (auto split: option.splits)
  next
    case (Mark a)
    then show ?thesis using run(2) more o goes by (intro keeps) (auto simp: cancel_timer_def split: if_splits)
  next
    case (Store a)
    show ?thesis
    proof (cases "xs = []")
      case True
      then show ?thesis using run Store goes lock spent
        by (intro keeps) (auto intro!: covered_keeps)
    next
      case False
      then show ?thesis using run(2) Store o goes by (intro keeps) auto
    qed
  next
    case Arm
    define a where "a = malloc_timer S (map fst (timers ?s))"
    have new: "a \<notin> set (map fst (timers ?s))" using assms(5) unfolding malloc_fresh_def a_def by blast
    have s: "s = ?s\<lparr>timers := timers ?s @ [(a, WakeTimeout True)]\<rparr>" "ys = [Store a]"
      using run(2) Arm by (auto simp: internalRequestTimedCallback_def Let_def a_def)
    have g: "responding (ys @ xs)" using goes s(2) by simp
    have "\<not> spent a ((?f(v := ys @ xs)) 0)"
    proof (cases "v = 0")
      case False
      have "spent a (?f 0) \<Longrightarrow> a \<in> set (map fst (timers ?s))"
        using pl responding_not_spent spent_firing unfolding in_place_def by metis
      then show ?thesis using new False by auto
    qed (use spent [OF g] in simp)
    then have "covered (timers s) (?f(v := ys @ xs))" by (auto simp: covered_def s(1))
    moreover have "in_place (timers s) (?f(v := ys @ xs))" using g by (intro in_place_keeps [OF pl]) (auto simp: s(1))
    ultimately show ?thesis using d new s(1) by (simp add: wake_inv_def)
  qed (use not_timer in auto)
qed

text \<open>An access of a timer that runs.\<close>

lemma inv_timer:
  assumes inv: "wake_inv r" and run: "threads r 0 = x # xs" "wake_access S x (ril_at r) = Some (s, ys)"
    and a: "firing a (x # xs)" "a \<in> set (map fst (timers (ril_at r)))"
  shows "wake_inv (r\<lparr>ril_at := s, threads := (threads r)(0 := ys @ xs)\<rparr>)"
proof -
  let ?s = "ril_at r" and ?f = "threads r"
  have d: "distinct (map fst (timers ?s))" and pl: "in_place (timers ?s) ?f"
    and lock: "wake_lock ?s \<Longrightarrow> covered (timers ?s) ?f" using inv by (auto simp: wake_inv_def)
  have keeps: "wake_inv (r\<lparr>ril_at := s, threads := ?f(0 := ys @ xs)\<rparr>)"
    if "timers s = timers ?s" "firing a (ys @ xs)" "wake_lock s \<Longrightarrow> covered (timers s) (?f(0 := ys @ xs))"
    unfolding wake_inv_def using that d a(2) in_place_keeps [OF pl, of "ys @ xs" 0 "timers s"] by auto
  consider "x = Fire a" "xs = []" | "x = Release" "xs = [TestMine a]" | "x = TestMine a" "xs = []"
    | "x = ClearLast" "xs = [FreeTimer a]" | "x = FreeTimer a" "xs = []"
    using a(1) by (auto simp: firing_def spent_def)
  then show ?thesis
  proof cases
    case 1
    obtain cb where cb: "map_of (timers ?s) a = Some cb" using a(2) by (metis map_of_eq_None_iff not_None_eq set_map)
    show ?thesis
    proof (cases "cb = WakeTimeout True")
      case True
      then show ?thesis using run(2) 1 cb by (intro keeps) (auto simp: firing_def intro: covered_owing)
    next
      case False
      then have s: "timers s = timers ?s" "wake_lock s = wake_lock ?s" "ys = [TestMine a]"
        using run(2) 1 cb by (auto split: timed_callback.splits)
      have other: "b \<noteq> a" if "(b, WakeTimeout True) \<in> set (timers ?s)" for b
        using that cb False d by (metis map_of_is_SomeI option.inject)
      have "covered (timers ?s) (?f(0 := [TestMine a]))" if c: "covered (timers ?s) ?f"
        using c unfolding covered_def
      proof
        assume "\<exists>v. owing (?f v)"
        then obtain v where "owing (?f v)" "v \<noteq> 0" using run(1) 1 by (metis owes.simps(8) owing_simps(1,2))
        then show "(\<exists>v. owing ((?f(0 := [TestMine a])) v))
          \<or> (\<exists>b. (b, WakeTimeout True) \<in> set (timers ?s) \<and> \<not> spent b ((?f(0 := [TestMine a])) 0))" by (metis fun_upd_apply)
      next
        assume "\<exists>b. (b, WakeTimeout True) \<in> set (timers ?s) \<and> \<not> spent b (?f 0)"
        then show "(\<exists>v. owing ((?f(0 := [TestMine a])) v))
          \<or> (\<exists>b. (b, WakeTimeout True) \<in> set (timers ?s) \<and> \<not> spent b ((?f(0 := [TestMine a])) 0))"
          using other by (fastforce simp: spent_def)
      qed
      then show ?thesis using s 1 lock by (intro keeps) (simp_all add: firing_def spent_def)
    qed
  next
    case 2
    then show ?thesis using run(2) by (intro keeps) (auto simp: firing_def spent_def)
  next
    case 3
    then show ?thesis using run lock by (intro keeps) (auto simp: firing_def spent_def intro!: covered_keeps split: if_splits)
  next
    case 4
    then show ?thesis using run lock by (intro keeps) (auto simp: firing_def spent_def intro!: covered_keeps)
  next
    case 5
    then have s: "s = ?s\<lparr>timers := filter (\<lambda>t. fst t \<noteq> a) (timers ?s)\<rparr>" "ys @ xs = []" using run(2) by auto
    have "covered (timers s) (?f(0 := []))" if c: "covered (timers ?s) ?f"
      using c unfolding covered_def
    proof
      assume "\<exists>v. owing (?f v)"
      then show "(\<exists>v. owing ((?f(0 := [])) v)) \<or> (\<exists>b. (b, WakeTimeout True) \<in> set (timers s) \<and> \<not> spent b ((?f(0 := [])) 0))"
        using run(1) 5 by (metis fun_upd_apply owes.simps(11) owing_simps(1,2))
    next
      assume "\<exists>b. (b, WakeTimeout True) \<in> set (timers ?s) \<and> \<not> spent b (?f 0)"
      then show "(\<exists>v. owing ((?f(0 := [])) v)) \<or> (\<exists>b. (b, WakeTimeout True) \<in> set (timers s) \<and> \<not> spent b ((?f(0 := [])) 0))"
        using run(1) 5 by (auto simp: s(1) spent_def)
    qed
    moreover have "in_place (timers s) (?f(0 := []))"
      using pl by (auto simp: in_place_def)
    ultimately show ?thesis using d lock s by (simp add: wake_inv_def distinct_map_filter)
  qed
qed

lemma wake_inv_step:
  assumes "malloc_fresh S" "wake_step S r t" "wake_inv r"
  shows "wake_inv t"
  using assms(2)
proof cases
  case (respond v notices valid)
  then show ?thesis using assms(3) by (auto simp: wake_inv_def intro!: covered_owing in_place_keeps)
next
  case (expire a)
  have "in_place (timers (ril_at r)) (threads t)"
  proof -
    have "in_place (timers (ril_at r)) ((threads r)(0 := [Fire a]))"
      by (rule in_place_keeps [of "timers (ril_at r)"]) (use assms(3) expire(3) in \<open>auto simp: wake_inv_def firing_def simp del: set_map\<close>)
    then show ?thesis by (simp add: expire(1))
  qed
  moreover have "covered (timers (ril_at r)) (threads r) \<Longrightarrow> covered (timers (ril_at r)) (threads t)"
    using expire(1,2) by (auto intro!: covered_keeps)
  ultimately show ?thesis using assms(3) expire(1) by (simp add: wake_inv_def)
next
  case (access v x xs s ys)
  have "responding (x # xs) \<or> v = 0 \<and> (\<exists>a \<in> set (map fst (timers (ril_at r))). firing a (x # xs))"
    using assms(3) access(2) unfolding wake_inv_def in_place_def by metis
  then show ?thesis
    using inv_response [OF assms(3) access(2,3) _ assms(1)] inv_timer [OF assms(3) _ access(3)] access(1,2) by blast
next
  case (request f x)
  have "malloc_timer S (map fst (timers (ril_at r))) \<notin> set (map fst (timers (ril_at r)))"
    using assms(1) unfolding malloc_fresh_def by blast
  moreover have "in_place ts g \<Longrightarrow> in_place (ts @ [u]) g" "covered ts g \<Longrightarrow> covered (ts @ [u]) g" for ts u g
    by (auto simp: in_place_def covered_def)
  ultimately show ?thesis using assms(3) request
    by (simp add: wake_inv_def RIL_requestTimedCallback_def internalRequestTimedCallback_def Let_def)
next
  case (other s)
  then show ?thesis using assms(3) by (simp add: wake_inv_def wake_same_def)
qed

definition wake_idle :: "'w wake_run \<Rightarrow> bool" where
  "wake_idle r \<longleftrightarrow> \<not> wake_lock (ril_at r) \<and> timers (ril_at r) = [] \<and> (\<forall>v. threads r v = [])"

text \<open>
  C28: the wake lock is not leaked, however the threads interleave. While it is held, some thread is inside a
  response or a timer that will yet release it or arm a timer, or a timer is armed whose expiry will;
  when no thread is inside, the latter, and that timer's callback releases the lock.
\<close>

theorem wake_lock_not_leaked:
  assumes "malloc_fresh S" "wake_idle r0" "(wake_step S)\<^sup>*\<^sup>* r0 r" "wake_lock (ril_at r)"
  shows "((\<exists>v. list_ex owes (threads r v)) \<or> (\<exists>a. (a, WakeTimeout True) \<in> set (timers (ril_at r)) \<and> \<not> spent a (threads r 0)))
    \<and> ((\<forall>v. threads r v = []) \<longrightarrow> (\<exists>a s. (a, WakeTimeout True) \<in> set (timers (ril_at r))
         \<and> userTimerCallback a (ril_at r) = Some s \<and> \<not> wake_lock s))"
proof -
  have "wake_inv r0" using assms(2) by (auto simp: wake_inv_def wake_idle_def in_place_def)
  with assms(3) have inv: "wake_inv r"
    by (induction rule: rtranclp_induct) (use wake_inv_step [OF assms(1)] in blast)+
  then have c: "covered (timers (ril_at r)) (threads r)" and d: "distinct (map fst (timers (ril_at r)))"
    using assms(4) by (auto simp: wake_inv_def)
  have "\<exists>a s. (a, WakeTimeout True) \<in> set (timers (ril_at r)) \<and> userTimerCallback a (ril_at r) = Some s \<and> \<not> wake_lock s"
    if quiet: "\<forall>v. threads r v = []"
  proof -
    have "\<not> owing (threads r v)" for v using quiet by simp
    then obtain a where a: "(a, WakeTimeout True) \<in> set (timers (ril_at r))" using c by (auto simp: covered_def)
    then have "map_of (timers (ril_at r)) a = Some (WakeTimeout True)" using d by simp
    then show ?thesis using a by (intro exI [of _ a]) (simp add: userTimerCallback_def Let_def)
  qed
  then show ?thesis using c by (auto simp: covered_def owing_def)
qed

section \<open>Concrete runs\<close>

datatype wake_move = Responds nat "bool list" bool | Expires nat | Goes nat

fun wake_exec :: "'w outside \<Rightarrow> wake_move list \<Rightarrow> 'w wake_run \<Rightarrow> 'w wake_run option" where
  "wake_exec S [] r = Some r"
| "wake_exec S (Responds v ns valid # ms) r =
     (if threads r v = [] then wake_exec S ms (r\<lparr>threads := (threads r)(v := response_acts ns valid)\<rparr>) else None)"
| "wake_exec S (Expires a # ms) r =
     (if threads r 0 = [] \<and> a \<in> set (map fst (timers (ril_at r)))
      then wake_exec S ms (r\<lparr>threads := (threads r)(0 := [Fire a])\<rparr>) else None)"
| "wake_exec S (Goes v # ms) r =
     (case threads r v of [] \<Rightarrow> None
      | x # xs \<Rightarrow> do { (s, ys) \<leftarrow> wake_access S x (ril_at r);
                      wake_exec S ms (r\<lparr>ril_at := s, threads := (threads r)(v := ys @ xs)\<rparr>) })"

lemma wake_exec_steps: "wake_exec S ms r = Some t \<Longrightarrow> (wake_step S)\<^sup>*\<^sup>* r t"
proof (induction S ms r rule: wake_exec.induct)
  case (2 S v ns valid ms r)
  then have n: "threads r v = []" "(wake_step S)\<^sup>*\<^sup>* (r\<lparr>threads := (threads r)(v := response_acts ns valid)\<rparr>) t"
    by (simp_all split: if_splits)
  show ?case using wake_step.respond [OF n(1)] n(2) by (rule converse_rtranclp_into_rtranclp)
next
  case (3 S a ms r)
  then have n: "threads r 0 = []" "a \<in> set (map fst (timers (ril_at r)))"
    "(wake_step S)\<^sup>*\<^sup>* (r\<lparr>threads := (threads r)(0 := [Fire a])\<rparr>) t" by (simp_all split: if_splits)
  show ?case using wake_step.expire [OF n(1,2)] n(3) by (rule converse_rtranclp_into_rtranclp)
next
  case (4 S v ms r)
  then obtain x xs s ys where n: "threads r v = x # xs" "wake_access S x (ril_at r) = Some (s, ys)"
    "wake_exec S ms (r\<lparr>ril_at := s, threads := (threads r)(v := ys @ xs)\<rparr>) = Some t"
    by (auto simp: bind_eq_Some_conv split: list.splits)
  show ?case using wake_step.access [OF n(1,2)] "4.IH" [OF n(1,2) refl n(3)] by (rule converse_rtranclp_into_rtranclp)
qed simp

definition wake_start :: "byte list wake_run" where
  "wake_start = \<lparr>ril_at = ril_init [], threads = (\<lambda>_. [])\<rparr>"

lemma wake_start_idle: "wake_idle wake_start"
  by (simp add: wake_idle_def wake_start_def ril_init_def)

lemmas wake_eval = wake_start_def ril_init_def response_acts_def internalRequestTimedCallback_def cancel_timer_def
  Let_def byte_socket_world

text \<open>Two threads report at the same time: both arm a timer, and the one that stores its own first is forgotten.\<close>

definition both_report :: "wake_move list" where
  "both_report = [Responds 1 [] True, Responds 2 [] True, Goes 1, Goes 2, Goes 1, Goes 2, Goes 1, Goes 2, Goes 1, Goes 2]"

lemma both_report_runs:
  "\<exists>r. wake_exec byte_socket both_report wake_start = Some r \<and> wake_lock (ril_at r) \<and> (\<forall>v. threads r v = [])
    \<and> timers (ril_at r) = [(1, WakeTimeout True), (2, WakeTimeout True)]"
  by (simp add: both_report_def wake_eval)

theorem wake_lock_not_leaked_witness:
  "\<exists>r a s. wake_exec byte_socket both_report wake_start = Some r \<and> wake_lock (ril_at r)
    \<and> (a, WakeTimeout True) \<in> set (timers (ril_at r)) \<and> userTimerCallback a (ril_at r) = Some s \<and> \<not> wake_lock s"
proof -
  obtain r where r: "wake_exec byte_socket both_report wake_start = Some r" "wake_lock (ril_at r)" "\<forall>v. threads r v = []"
    using both_report_runs by blast
  show ?thesis using wake_lock_not_leaked [OF byte_socket_fresh wake_start_idle wake_exec_steps [OF r(1)] r(2)] r by blast
qed

text \<open>
  A thread that has read \<open>s_last_wake_timeout_info\<close> writes to the timer after the event thread has run and
  freed it, or reads the pointer again after the event thread has cleared it: an access outside an object.
\<close>

theorem timer_used_after_free:
  "(\<exists>r xs. (wake_step byte_socket)\<^sup>*\<^sup>* wake_start r \<and> threads r 1 = Mark 1 # xs \<and> wake_access byte_socket (Mark 1) (ril_at r) = None)
    \<and> (\<exists>r xs. (wake_step byte_socket)\<^sup>*\<^sup>* wake_start r \<and> threads r 1 = Cancel # xs \<and> wake_access byte_socket Cancel (ril_at r) = None)"
proof
  let ?fire = "[Expires 1, Goes 0, Goes 0, Goes 0, Goes 0, Goes 0]"
  let ?first = "[Responds 1 [] True, Goes 1, Goes 1, Goes 1, Goes 1, Responds 1 [] True, Goes 1, Goes 1]"
  have "\<exists>r. wake_exec byte_socket (?first @ [Goes 1] @ ?fire) wake_start = Some r
    \<and> threads r 1 = [Mark 1, Arm] \<and> timers (ril_at r) = []" by (simp add: wake_eval)
  then obtain r where "(wake_step byte_socket)\<^sup>*\<^sup>* wake_start r" "threads r 1 = [Mark 1, Arm]" "timers (ril_at r) = []"
    using wake_exec_steps by blast
  then show "\<exists>r xs. (wake_step byte_socket)\<^sup>*\<^sup>* wake_start r \<and> threads r 1 = Mark 1 # xs
    \<and> wake_access byte_socket (Mark 1) (ril_at r) = None" by (intro exI [of _ r] exI [of _ "[Arm]"]) simp
  have "\<exists>r. wake_exec byte_socket (?first @ ?fire) wake_start = Some r
    \<and> threads r 1 = [Cancel, Arm] \<and> s_last_wake_timeout_info (ril_at r) = None" by (simp add: wake_eval)
  then obtain r where "(wake_step byte_socket)\<^sup>*\<^sup>* wake_start r" "threads r 1 = [Cancel, Arm]" "s_last_wake_timeout_info (ril_at r) = None"
    using wake_exec_steps by blast
  then show "\<exists>r xs. (wake_step byte_socket)\<^sup>*\<^sup>* wake_start r \<and> threads r 1 = Cancel # xs
    \<and> wake_access byte_socket Cancel (ril_at r) = None" by auto
qed

end
