(* ===== verification/SysFiles.thy ===== *)
theory SysFiles
  imports CString
begin

text \<open>
  Files as the small hardware modules see them: open, read, write and close on descriptors, which
  the kernel numbers from the lowest free one. Whether a call fails, and what a file holds, are the
  environment's: \<open>refuse n\<close> is the error of the n-th call, if it fails, and \<open>content n\<close> what the files
  hold when it is made. The record of the kernel keeps the open descriptors, what was written, in
  order, and errno.
\<close>

type_synonym path = "byte list"

record file_env =
  refuse :: "nat \<Rightarrow> int option"
  content :: "nat \<Rightarrow> path \<Rightarrow> byte list"

record file_kernel =
  calls :: nat
  opened :: "(int \<times> path) list"
  written :: "(path \<times> byte list) list"
  errno :: int

definition EBADF :: int where "EBADF = 9"

definition free_fd :: "(int \<times> path) list \<Rightarrow> int" where
  "free_fd os = the (find (\<lambda>fd. fd \<notin> set (map fst os)) (map int [0..<Suc (length os)]))"

definition turn :: "file_kernel \<Rightarrow> file_kernel" where
  "turn k = k\<lparr>calls := Suc (calls k)\<rparr>"

definition sys_open :: "file_env \<Rightarrow> path \<Rightarrow> file_kernel \<Rightarrow> int \<times> file_kernel" where
  "sys_open env p k =
     (case refuse env (calls k) of
        Some e \<Rightarrow> (-1, (turn k)\<lparr>errno := e\<rparr>)
      | None \<Rightarrow> (free_fd (opened k), (turn k)\<lparr>opened := (free_fd (opened k), p) # opened k\<rparr>))"

definition sys_write :: "file_env \<Rightarrow> int \<Rightarrow> byte list \<Rightarrow> file_kernel \<Rightarrow> int \<times> file_kernel" where
  "sys_write env fd s k =
     (case refuse env (calls k) of
        Some e \<Rightarrow> (-1, (turn k)\<lparr>errno := e\<rparr>)
      | None \<Rightarrow>
        (case map_of (opened k) fd of
           None \<Rightarrow> (-1, (turn k)\<lparr>errno := EBADF\<rparr>)
         | Some p \<Rightarrow> (int (length s), (turn k)\<lparr>written := written k @ [(p, s)]\<rparr>)))"

text \<open>None for a result below zero.\<close>

definition sys_read :: "file_env \<Rightarrow> int \<Rightarrow> nat \<Rightarrow> file_kernel \<Rightarrow> byte list option \<times> file_kernel" where
  "sys_read env fd n k =
     (case refuse env (calls k) of
        Some e \<Rightarrow> (None, (turn k)\<lparr>errno := e\<rparr>)
      | None \<Rightarrow>
        (case map_of (opened k) fd of
           None \<Rightarrow> (None, (turn k)\<lparr>errno := EBADF\<rparr>)
         | Some p \<Rightarrow> (Some (take n (content env (calls k) p)), turn k)))"

text \<open>The descriptor is free afterwards, also where close reports an error.\<close>

definition sys_close :: "file_env \<Rightarrow> int \<Rightarrow> file_kernel \<Rightarrow> file_kernel" where
  "sys_close env fd k =
     (case refuse env (calls k) of
        Some e \<Rightarrow> (turn k)\<lparr>opened := filter (\<lambda>(d, p). d \<noteq> fd) (opened k), errno := e\<rparr>
      | None \<Rightarrow> (turn k)\<lparr>opened := filter (\<lambda>(d, p). d \<noteq> fd) (opened k)\<rparr>)"

section \<open>Descriptors\<close>

lemma free_fd_fresh: "free_fd os \<notin> set (map fst os)" and free_fd_nonneg: "0 \<le> free_fd os"
proof -
  let ?P = "\<lambda>fd. fd \<notin> set (map fst os)" and ?xs = "map int [0..<Suc (length os)]"
  have "\<exists>x. x \<in> set ?xs \<and> ?P x"
  proof (rule ccontr)
    assume "\<not> (\<exists>x. x \<in> set ?xs \<and> ?P x)"
    then have "set ?xs \<subseteq> set (map fst os)" by blast
    then have "card (set ?xs) \<le> card (set (map fst os))" by (intro card_mono) auto
    moreover have "card (set ?xs) = Suc (length os)" by (subst distinct_card) (auto simp: distinct_map inj_on_def)
    moreover have "card (set (map fst os)) \<le> length os" by (metis card_length length_map)
    ultimately show False by simp
  qed
  then have "find ?P ?xs \<noteq> None" by (simp only: find_None_iff) blast
  then obtain x where x: "find ?P ?xs = Some x" by blast
  then have "?P x \<and> x \<in> set ?xs" unfolding find_Some_iff by (metis nth_mem)
  then show "free_fd os \<notin> set (map fst os)" "0 \<le> free_fd os"
    unfolding free_fd_def x by auto
qed

text \<open>
  What a client relies on: a descriptor is fresh when it is handed out, and what is open changes with
  open and close only. Then a routine that opens a file, works on it and closes it leaves the
  descriptors as they were, on every path.
\<close>

locale descriptors =
  fixes op :: "path \<Rightarrow> 'k \<Rightarrow> int \<times> 'k" and cl :: "int \<Rightarrow> 'k \<Rightarrow> 'k" and held :: "'k \<Rightarrow> (int \<times> path) list"
  assumes op_refused: "op p k = (fd, k1) \<Longrightarrow> fd < 0 \<Longrightarrow> held k1 = held k"
    and op_fresh: "op p k = (fd, k1) \<Longrightarrow> 0 \<le> fd \<Longrightarrow> held k1 = (fd, p) # held k \<and> fd \<notin> set (map fst (held k))"
    and cl_frees: "held (cl fd k) = filter (\<lambda>(d, p). d \<noteq> fd) (held k)"
begin

lemma others_kept: "fd \<notin> set (map fst os) \<Longrightarrow> filter (\<lambda>(d, p). d \<noteq> fd) ((fd, p) # os) = os"
proof -
  assume "fd \<notin> set (map fst os)"
  then have "\<forall>(d, p) \<in> set os. d \<noteq> fd" by force
  then have "filter (\<lambda>(d, p). d \<noteq> fd) os = os" by (simp add: filter_id_conv)
  then show ?thesis by simp
qed

lemma use_and_close:
  assumes "op p k = (fd, k1)" "0 \<le> fd" "held k2 = held k1"
  shows "held (cl fd k2) = held k"
proof -
  have "held k1 = (fd, p) # held k" "fd \<notin> set (map fst (held k))" using op_fresh [OF assms(1,2)] by blast+
  from others_kept [OF this(2), of p] this(1) show ?thesis unfolding cl_frees assms(3) by simp
qed

end

lemma opened_write: "sys_write env fd s k = (r, k1) \<Longrightarrow> opened k1 = opened k"
  by (auto simp: sys_write_def turn_def split: option.splits)

lemma opened_read: "sys_read env fd n k = (r, k1) \<Longrightarrow> opened k1 = opened k"
  by (auto simp: sys_read_def turn_def split: option.splits)

interpretation sys: descriptors "sys_open env" "sys_close env" opened for env
proof unfold_locales
  fix p k fd k1
  assume op: "sys_open env p k = (fd, k1)"
  show "opened k1 = opened k" if neg: "fd < 0"
    using op neg free_fd_nonneg [of "opened k"] by (auto simp: sys_open_def turn_def split: option.splits)
  show "opened k1 = (fd, p) # opened k \<and> fd \<notin> set (map fst (opened k))" if pos: "0 \<le> fd"
    using op pos free_fd_fresh [of "opened k"] by (auto simp: sys_open_def turn_def split: option.splits)
next
  fix fd k
  show "opened (sys_close env fd k) = filter (\<lambda>(d, p). d \<noteq> fd) (opened k)"
    by (simp add: sys_close_def turn_def split: option.splits)
qed

lemma written_open: "sys_open env p k = (fd, k1) \<Longrightarrow> written k1 = written k"
  by (auto simp: sys_open_def turn_def split: option.splits)

lemma written_close [simp]: "written (sys_close env fd k) = written k"
  by (simp add: sys_close_def turn_def split: option.splits)

lemma written_read: "sys_read env fd n k = (r, k1) \<Longrightarrow> written k1 = written k"
  by (auto simp: sys_read_def turn_def split: option.splits)

lemma written_write:
  assumes "sys_write env fd s k = (r, k1)" "0 \<le> r" "map_of (opened k) fd = Some p"
  shows "written k1 = written k @ [(p, s)]"
  using assms by (auto simp: sys_write_def turn_def split: option.splits)

lemma unwritten_write:
  assumes "sys_write env fd s k = (r, k1)" "r < 0"
  shows "written k1 = written k"
  using assms by (auto simp: sys_write_def turn_def split: option.splits)

end
