(* ===== verification/Lights.thy ===== *)
theory Lights
  imports SysFiles
begin

text \<open>
  The lights HAL, lights/lights.c: the display backlight and the key lights, set by writing a number to
  a file of the kernel. The state is the kernel with the static variable of write_int; g_lock makes a
  write one step. Light identifiers come from hardware/lights.h, which is not part of the tree; a name is
  one of its two that the module serves, or another one. Logging is not modelled.
\<close>

datatype light_id = LIGHT_ID_BACKLIGHT | LIGHT_ID_BUTTONS | Other_light "byte list"

text \<open>The fields of hardware/lights.h that the module reads.\<close>

record light_state_t =
  color :: u32

text \<open>The two functions \<open>dev->set_light\<close> can point to.\<close>

datatype set_light_function = Set_light_backlight | Set_light_buttons

record light_device_t =
  set_light :: set_light_function

record lights =
  l_kernel :: file_kernel
  already_warned :: bool
  g_init :: bool

definition LCD_FILE :: path where
  "LCD_FILE = ascii ''/sys/class/leds/lcd-backlight/brightness''"

definition BUTTON_FILE :: path where
  "BUTTON_FILE = ascii ''/sys/class/sec/sec_touchkey/brightness''"

definition EINVAL :: int where "EINVAL = 22"

definition ENOMEM :: int where "ENOMEM = 12"

section \<open>Operations\<close>

definition write_int :: "file_env \<Rightarrow> path \<Rightarrow> int \<Rightarrow> lights \<Rightarrow> int \<times> lights" where
  "write_int env path value st =
     (case sys_open env path (l_kernel st) of (fd, k1) \<Rightarrow>
        if 0 \<le> fd then
          let buffer = snprintf_string 20 (signed_decimal value @ [10]) in
          (case sys_write env fd buffer k1 of (amt, k2) \<Rightarrow>
             let k3 = sys_close env fd k2 in
             (if amt = -1 then - errno k3 else 0, st\<lparr>l_kernel := k3\<rparr>))
        else (- errno k1, st\<lparr>l_kernel := k1, already_warned := True\<rparr>))"

definition is_lit :: "light_state_t \<Rightarrow> int" where
  "is_lit state = uint (color state AND 0x00ffffff)"

definition rgb_to_brightness :: "light_state_t \<Rightarrow> int" where
  "rgb_to_brightness state =
     (let color = uint (color state AND 0x00ffffff) in
      drop_bit 8 (77 * (drop_bit 16 color AND 0x00ff) + 150 * (drop_bit 8 color AND 0x00ff) + 29 * (color AND 0x00ff)))"

text \<open>\<open>dev\<close> is None for NULL.\<close>

definition set_light_backlight ::
  "file_env \<Rightarrow> light_device_t option \<Rightarrow> light_state_t \<Rightarrow> lights \<Rightarrow> int \<times> lights" where
  "set_light_backlight env dev state st =
     (let brightness = rgb_to_brightness state in
      if dev = None then (-1, st) else write_int env LCD_FILE brightness st)"

definition set_light_buttons ::
  "file_env \<Rightarrow> light_device_t option \<Rightarrow> light_state_t \<Rightarrow> lights \<Rightarrow> int \<times> lights" where
  "set_light_buttons env dev state st =
     (let on = is_lit state;
          st1 = (if on \<noteq> 0 then snd (write_int env BUTTON_FILE 1 st) else snd (write_int env BUTTON_FILE 0 st))
      in (0, st1))"

definition init_globals :: "lights \<Rightarrow> lights" where
  "init_globals st = st\<lparr>g_init := True\<rparr>"

text \<open>\<open>room\<close>: malloc has memory.\<close>

definition open_lights :: "bool \<Rightarrow> light_id \<Rightarrow> lights \<Rightarrow> int \<times> light_device_t option \<times> lights" where
  "open_lights room name st =
     (case (if name = LIGHT_ID_BACKLIGHT then Some Set_light_backlight
            else if name = LIGHT_ID_BUTTONS then Some Set_light_buttons else None) of
        None \<Rightarrow> (- EINVAL, None, st)
      | Some f \<Rightarrow>
        (let st1 = (if g_init st then st else init_globals st) in
         if room then (0, Some \<lparr>set_light = f\<rparr>, st1) else (- ENOMEM, None, st1)))"

text \<open>The memory is all there is to close.\<close>

definition close_lights :: "light_device_t option \<Rightarrow> int \<times> light_device_t option" where
  "close_lights dev = (0, None)"

text \<open>\<open>dev->set_light(dev, state)\<close>.\<close>

definition call_set_light :: "file_env \<Rightarrow> light_device_t \<Rightarrow> light_state_t \<Rightarrow> lights \<Rightarrow> int \<times> lights" where
  "call_set_light env dev state st =
     (case set_light dev of
        Set_light_backlight \<Rightarrow> set_light_backlight env (Some dev) state st
      | Set_light_buttons \<Rightarrow> set_light_buttons env (Some dev) state st)"

section \<open>Brightness\<close>

definition red :: "light_state_t \<Rightarrow> int" where "red s = take_bit 8 (drop_bit 16 (uint (color s)))"

definition green :: "light_state_t \<Rightarrow> int" where "green s = take_bit 8 (drop_bit 8 (uint (color s)))"

definition blue :: "light_state_t \<Rightarrow> int" where "blue s = take_bit 8 (uint (color s))"

lemma low_24: "uint (c AND 0x00ffffff) = take_bit 24 (uint (c :: u32))"
  using take_bit_eq_mask [of 24 "uint c"] by (simp add: uint_and mask_eq_exp_minus_1)

lemma brightness_weights:
  "rgb_to_brightness s = (77 * red s + 150 * green s + 29 * blue s) div 256"
proof -
  let ?c = "uint (color s)"
  have and_ff: "x AND 255 = take_bit 8 x" for x :: int
    using take_bit_eq_mask [of 8 x] by (simp add: mask_eq_exp_minus_1)
  have "take_bit 8 (drop_bit 16 (take_bit 24 ?c)) = red s" "take_bit 8 (drop_bit 8 (take_bit 24 ?c)) = green s"
    "take_bit 8 (take_bit 24 ?c) = blue s"
    unfolding red_def green_def blue_def by (auto intro!: bit_eqI simp: bit_simps)
  then show ?thesis
    by (simp only: rgb_to_brightness_def Let_def low_24 and_ff) (simp add: drop_bit_eq_div)
qed

lemma channel_range: "0 \<le> red s" "red s < 256" "0 \<le> green s" "green s < 256" "0 \<le> blue s" "blue s < 256"
  using take_bit_int_less_exp [of 8] by (simp_all add: red_def green_def blue_def)

text \<open>The weights add up to 256: the brightness is an average of the channels.\<close>

lemma brightness_between:
  "Min {red s, green s, blue s} \<le> rgb_to_brightness s \<and> rgb_to_brightness s \<le> Max {red s, green s, blue s}"
  unfolding brightness_weights by (auto simp: min_def max_def)

section \<open>Setting a light\<close>

lemma number_fits:
  assumes "- (2 ^ 31) \<le> i" "i < 2 ^ 31"
  shows "snprintf_string 20 (signed_decimal i @ [10]) = signed_decimal i @ [10]"
  using length_signed_decimal [OF assms] by (simp add: snprintf_string_def)

text \<open>
  write_int on every path: the descriptors are what they were; it answers 0 when the number and a
  newline were written, and otherwise nothing was written.
\<close>

lemma write_int_outcome:
  assumes "write_int env path value st = (r, st1)" "- (2 ^ 31) \<le> value" "value < 2 ^ 31"
    and "\<And>n. refuse env n \<noteq> Some 0"
  shows "opened (l_kernel st1) = opened (l_kernel st)"
    and "if r = 0 then written (l_kernel st1) = written (l_kernel st) @ [(path, signed_decimal value @ [10])]
         else written (l_kernel st1) = written (l_kernel st)"
proof -
  obtain fd k1 where o: "sys_open env path (l_kernel st) = (fd, k1)" by fastforce
  let ?s = "signed_decimal value @ [10]"
  have fits: "snprintf_string 20 ?s = ?s" by (rule number_fits [OF assms(2,3)])
  show "opened (l_kernel st1) = opened (l_kernel st)"
  proof (cases "0 \<le> fd")
    case True
    obtain a k2 where w: "sys_write env fd ?s k1 = (a, k2)" by fastforce
    have "opened (sys_close env fd k2) = opened (l_kernel st)"
      using sys.use_and_close [OF o True opened_write [OF w]] .
    then show ?thesis using assms(1) True by (auto simp: write_int_def o fits w Let_def)
  next
    case False
    then show ?thesis using assms(1) sys.op_refused [OF o] by (auto simp: write_int_def o)
  qed
  show "if r = 0 then written (l_kernel st1) = written (l_kernel st) @ [(path, ?s)]
        else written (l_kernel st1) = written (l_kernel st)"
  proof (cases "0 \<le> fd")
    case True
    obtain a k2 where w: "sys_write env fd ?s k1 = (a, k2)" by fastforce
    have own: "map_of (opened k1) fd = Some path" using sys.op_fresh [OF o True] by simp
    have wr: "written k1 = written (l_kernel st)" by (rule written_open [OF o])
    show ?thesis
    proof (cases "a = -1")
      case True
      have "errno (sys_close env fd k2) \<noteq> 0"
        using w own assms(4) [of "calls k1"] assms(4) [of "calls k2"] True
        by (auto simp: sys_write_def sys_close_def turn_def split: option.splits)
      then show ?thesis
        using assms(1) \<open>0 \<le> fd\<close> True unwritten_write [OF w] wr by (auto simp: write_int_def o fits w Let_def)
    next
      case False
      then have "0 \<le> a" using w own by (auto simp: sys_write_def split: option.splits)
      then show ?thesis
        using assms(1) True False written_write [OF w _ own] wr by (auto simp: write_int_def o fits w Let_def)
    qed
  next
    case False
    then have "errno k1 \<noteq> 0"
      using o assms(4) [of "calls (l_kernel st)"] free_fd_nonneg [of "opened (l_kernel st)"]
      by (auto simp: sys_open_def turn_def split: option.splits)
    then show ?thesis using assms(1) False written_open [OF o] by (auto simp: write_int_def o)
  qed
qed

text \<open>The key lights: on for any color but black; the answer is 0 also where nothing was written.\<close>

lemma buttons_outcome:
  assumes "set_light_buttons env dev s st = (r, st1)" "\<And>n. refuse env n \<noteq> Some 0"
  shows "r = 0" "opened (l_kernel st1) = opened (l_kernel st)"
    and "written (l_kernel st1)
      \<in> {written (l_kernel st), written (l_kernel st) @ [(BUTTON_FILE, signed_decimal (of_bool (is_lit s \<noteq> 0)) @ [10])]}"
proof -
  let ?v = "of_bool (is_lit s \<noteq> 0) :: int"
  obtain q st2 where w: "write_int env BUTTON_FILE ?v st = (q, st2)" by fastforce
  have st1: "st1 = st2" "r = 0" using assms(1) w by (auto simp: set_light_buttons_def Let_def split: if_splits)
  show "r = 0" by (rule st1)
  have "- (2 ^ 31) \<le> ?v" "?v < 2 ^ 31" by auto
  note out = write_int_outcome [OF w this assms(2)]
  show "opened (l_kernel st1) = opened (l_kernel st)" using out(1) st1 by simp
  show "written (l_kernel st1)
      \<in> {written (l_kernel st), written (l_kernel st) @ [(BUTTON_FILE, signed_decimal ?v @ [10])]}"
    using out(2) st1 by (simp split: if_splits)
qed

text \<open>
  C38: the backlight follows the color. On a device opened as the backlight, setting a color leaves the
  descriptors as they were and either answers 0, having written one number to the brightness file that
  lies between the smallest and the largest of the three channels, or answers an error and has written
  nothing; so a grey of level v is brightness v.
\<close>

theorem backlight_follows_color:
  assumes "open_lights room LIGHT_ID_BACKLIGHT st = (0, Some dev, st1)"
    and "call_set_light env dev s st1 = (r, st2)"
    and "\<And>n. refuse env n \<noteq> Some 0"
  shows "opened (l_kernel st2) = opened (l_kernel st) \<and>
    (\<exists>b. Min {red s, green s, blue s} \<le> b \<and> b \<le> Max {red s, green s, blue s}
       \<and> written (l_kernel st2)
         = written (l_kernel st) @ (if r = 0 then [(LCD_FILE, decimal (nat b) @ [10])] else []))"
proof -
  let ?b = "rgb_to_brightness s"
  have dev: "set_light dev = Set_light_backlight" and st1: "l_kernel st1 = l_kernel st"
    using assms(1) by (auto simp: open_lights_def init_globals_def Let_def split: if_splits)
  have w: "write_int env LCD_FILE ?b st1 = (r, st2)"
    using assms(2) dev by (simp add: call_set_light_def set_light_backlight_def)
  have range: "Min {red s, green s, blue s} \<le> ?b" "?b \<le> Max {red s, green s, blue s}"
    using brightness_between [of s] by blast+
  then have "0 \<le> ?b" "?b < 256" using channel_range [of s] by (auto simp: min_def max_def split: if_splits)
  then have "- (2 ^ 31) \<le> ?b" "?b < 2 ^ 31" "signed_decimal ?b = decimal (nat ?b)"
    by (simp_all add: signed_decimal_def)
  with write_int_outcome [OF w _ _ assms(3)]
  have "opened (l_kernel st2) = opened (l_kernel st)"
    "written (l_kernel st2) = written (l_kernel st) @ (if r = 0 then [(LCD_FILE, decimal (nat ?b) @ [10])] else [])"
    by (simp_all add: st1 split: if_splits)
  with range show ?thesis by blast
qed

definition fresh_lights :: lights where
  "fresh_lights = \<lparr>l_kernel = \<lparr>calls = 0, opened = [], written = [], errno = 0\<rparr>, already_warned = False, g_init = False\<rparr>"

theorem backlight_follows_color_witness:
  "\<exists>st. snd (call_set_light \<lparr>refuse = \<lambda>n. None, content = \<lambda>n p. []\<rparr> \<lparr>set_light = Set_light_backlight\<rparr> \<lparr>color = 0x00ff8000\<rparr>
      (fresh_lights\<lparr>g_init := True\<rparr>)) = st \<and> opened (l_kernel st) = []
    \<and> written (l_kernel st) = [(LCD_FILE, ascii ''151'' @ [10])]"
proof -
  let ?env = "\<lparr>refuse = \<lambda>n. None, content = \<lambda>n p. []\<rparr>" and ?dev = "\<lparr>set_light = Set_light_backlight\<rparr>"
    and ?s = "\<lparr>color = 0x00ff8000\<rparr>" and ?st1 = "fresh_lights\<lparr>g_init := True\<rparr>"
  have o: "open_lights True LIGHT_ID_BACKLIGHT fresh_lights = (0, Some ?dev, ?st1)"
    by (simp add: open_lights_def init_globals_def fresh_lights_def)
  obtain r st where c: "call_set_light ?env ?dev ?s ?st1 = (r, st)" by fastforce
  have "decimal 151 = ascii ''151''" by (simp add: decimal.simps digit_def ascii_def)
  moreover have "rgb_to_brightness ?s = 151" by (simp add: brightness_weights red_def green_def blue_def take_bit_eq_mod drop_bit_eq_div)
  ultimately have "written (l_kernel st) = [(LCD_FILE, ascii ''151'' @ [10])]"
    using c by (auto simp: call_set_light_def set_light_backlight_def write_int_def sys_open_def sys_write_def sys_close_def
        turn_def fresh_lights_def free_fd_def snprintf_string_def signed_decimal_def ascii_def Let_def)
  moreover have "opened (l_kernel st) = opened (l_kernel fresh_lights)"
    using backlight_follows_color [OF o c] by simp
  ultimately show ?thesis using c by (simp add: fresh_lights_def)
qed

end
