(* ===== verification/PowerHal.thy ===== *)
theory PowerHal
  imports SysFiles
begin

text \<open>
  The power HAL, power/power.c: tuning of the cpufreq governor and the boost of the processor on
  interaction. The state is the module (the boost descriptor and its warning flag), the static buffer
  with the name of the governor, as the string it holds, and the kernel. A hint is one step; hints come
  from hardware/power.h, which is not part of the tree, so the two that do something are named.
\<close>

datatype power_hint_t = POWER_HINT_VSYNC | POWER_HINT_INTERACTION | POWER_HINT_CPU_BOOST | Other_hint int

record cm_power_module =
  p_kernel :: file_kernel
  boostpulse_fd :: int
  boostpulse_warned :: bool
  governor :: "byte list"

definition SCALING_GOVERNOR_PATH :: path where
  "SCALING_GOVERNOR_PATH = ascii ''/sys/devices/system/cpu/cpu0/cpufreq/scaling_governor''"

definition BOOSTPULSE_ONDEMAND :: path where
  "BOOSTPULSE_ONDEMAND = ascii ''/sys/devices/system/cpu/cpufreq/ondemand/boostpulse''"

definition BOOSTPULSE_INTERACTIVE :: path where
  "BOOSTPULSE_INTERACTIVE = ascii ''/sys/devices/system/cpu/cpufreq/interactive/boostpulse''"

section \<open>Operations\<close>

text \<open>\<open>num_bytes - 1\<close> bytes at most; None is -1, where the buffer of the caller stays as it is.\<close>

definition sysfs_read :: "file_env \<Rightarrow> path \<Rightarrow> nat \<Rightarrow> file_kernel \<Rightarrow> byte list option \<times> file_kernel" where
  "sysfs_read env path num_bytes k =
     (case sys_open env path k of (fd, k1) \<Rightarrow>
        if fd < 0 then (None, k1)
        else case sys_read env fd (num_bytes - 1) k1 of (s, k2) \<Rightarrow> (s, sys_close env fd k2))"

definition sysfs_write :: "file_env \<Rightarrow> path \<Rightarrow> byte list \<Rightarrow> file_kernel \<Rightarrow> file_kernel" where
  "sysfs_write env path s k =
     (case sys_open env path k of (fd, k1) \<Rightarrow>
        if fd < 0 then k1
        else case sys_write env fd s k1 of (len, k2) \<Rightarrow> sys_close env fd k2)"

text \<open>The loop at the end of the buffer, on the reversed string.\<close>

fun strip_newline :: "byte list \<Rightarrow> byte list" where
  "strip_newline [] = []"
| "strip_newline (c # cs) = (if c = 10 \<or> c = 13 then strip_newline cs else c # cs)"

definition get_scaling_governor :: "file_env \<Rightarrow> cm_power_module \<Rightarrow> int \<times> cm_power_module" where
  "get_scaling_governor env cm =
     (case sysfs_read env SCALING_GOVERNOR_PATH 20 (p_kernel cm) of
        (None, k) \<Rightarrow> (-1, cm\<lparr>p_kernel := k\<rparr>)
      | (Some s, k) \<Rightarrow> (0, cm\<lparr>p_kernel := k, governor := rev (strip_newline (rev (c_str s)))\<rparr>))"

definition cm_power_set_interactive :: "int \<Rightarrow> cm_power_module \<Rightarrow> cm_power_module" where
  "cm_power_set_interactive on cm = cm"

text \<open>The writes of the two branches, in order.\<close>

definition ondemand_settings :: "(path \<times> byte list) list" where
  "ondemand_settings =
     [(ascii ''/sys/devices/system/cpu/cpufreq/ondemand/sampling_rate'', ascii ''50000''),
      (ascii ''/sys/devices/system/cpu/cpufreq/ondemand/up_threshold'', ascii ''90''),
      (ascii ''/sys/devices/system/cpu/cpufreq/ondemand/io_is_busy'', ascii ''0''),
      (ascii ''/sys/devices/system/cpu/cpufreq/ondemand/sampling_down_factor'', ascii ''4''),
      (ascii ''/sys/devices/system/cpu/cpufreq/ondemand/down_differential'', ascii ''10'')]"

definition interactive_settings :: "(path \<times> byte list) list" where
  "interactive_settings =
     [(ascii ''/sys/devices/system/cpu/cpufreq/interactive/timer_rate'', ascii ''30000''),
      (ascii ''/sys/devices/system/cpu/cpufreq/interactive/min_sample_time'', ascii ''90000''),
      (ascii ''/sys/devices/system/cpu/cpufreq/interactive/io_is_busy'', ascii ''0''),
      (ascii ''/sys/devices/system/cpu/cpufreq/interactive/hispeed_freq'', ascii ''1008000''),
      (ascii ''/sys/devices/system/cpu/cpufreq/interactive/above_hispeed_delay'', ascii ''30000'')]"

definition sysfs_writes :: "file_env \<Rightarrow> (path \<times> byte list) list \<Rightarrow> file_kernel \<Rightarrow> file_kernel" where
  "sysfs_writes env ws k = fold (\<lambda>(p, s). sysfs_write env p s) ws k"

definition configure_governor :: "file_env \<Rightarrow> cm_power_module \<Rightarrow> cm_power_module" where
  "configure_governor env cm =
     (if strncmp_eq (governor cm) (ascii ''ondemand'') 8
      then cm\<lparr>p_kernel := sysfs_writes env ondemand_settings (p_kernel cm)\<rparr>
      else if strncmp_eq (governor cm) (ascii ''interactive'') 11
      then cm\<lparr>p_kernel := sysfs_writes env interactive_settings (p_kernel cm)\<rparr>
      else cm)"

definition open_boost :: "file_env \<Rightarrow> path \<Rightarrow> cm_power_module \<Rightarrow> cm_power_module" where
  "open_boost env p cm = (case sys_open env p (p_kernel cm) of (fd, k) \<Rightarrow> cm\<lparr>p_kernel := k, boostpulse_fd := fd\<rparr>)"

definition boostpulse_open :: "file_env \<Rightarrow> cm_power_module \<Rightarrow> int \<times> cm_power_module" where
  "boostpulse_open env cm =
     (if boostpulse_fd cm < 0
      then case get_scaling_governor env cm of (r, cm1) \<Rightarrow>
        if r < 0 then (boostpulse_fd cm1, cm1\<lparr>boostpulse_warned := True\<rparr>)
        else
          let cm2 = (if strncmp_eq (governor cm1) (ascii ''ondemand'') 8 then open_boost env BOOSTPULSE_ONDEMAND cm1
                     else if strncmp_eq (governor cm1) (ascii ''interactive'') 11
                     then open_boost env BOOSTPULSE_INTERACTIVE cm1 else cm1);
              cm3 = (if boostpulse_fd cm2 < 0 \<and> \<not> boostpulse_warned cm2 then cm2\<lparr>boostpulse_warned := True\<rparr>
                     else if 0 < boostpulse_fd cm2 then configure_governor env cm2 else cm2)
          in (boostpulse_fd cm3, cm3)
      else (boostpulse_fd cm, cm))"

text \<open>\<open>data\<close> is the pointer of the hint, 0 for NULL, read as an int.\<close>

definition cm_power_hint :: "file_env \<Rightarrow> power_hint_t \<Rightarrow> u32 \<Rightarrow> cm_power_module \<Rightarrow> cm_power_module" where
  "cm_power_hint env hint data cm =
     (case hint of
        POWER_HINT_VSYNC \<Rightarrow> cm
      | Other_hint n \<Rightarrow> cm
      | _ \<Rightarrow>
        (case boostpulse_open env cm of (fd, cm1) \<Rightarrow>
           if 0 \<le> fd then
             let duration = (if data \<noteq> 0 then sint data else 1);
                 buf = snprintf_string 80 (signed_decimal duration)
             in case sys_write env (boostpulse_fd cm1) buf (p_kernel cm1) of (len, k) \<Rightarrow>
                if len < 0
                then cm1\<lparr>p_kernel := sys_close env (boostpulse_fd cm1) k, boostpulse_fd := -1, boostpulse_warned := False\<rparr>
                else cm1\<lparr>p_kernel := k\<rparr>
           else cm1))"

definition cm_power_init :: "file_env \<Rightarrow> cm_power_module \<Rightarrow> cm_power_module" where
  "cm_power_init env cm = configure_governor env (snd (get_scaling_governor env cm))"

text \<open>\<open>HAL_MODULE_INFO_SYM\<close>, in a process with descriptors of its own.\<close>

definition power_module_at :: "file_kernel \<Rightarrow> cm_power_module" where
  "power_module_at k = \<lparr>p_kernel = k, boostpulse_fd = -1, boostpulse_warned = False, governor = []\<rparr>"

section \<open>Runs\<close>

datatype power_call = Init | Set_interactive int | Hint power_hint_t u32

definition power_call_on :: "file_env \<Rightarrow> power_call \<Rightarrow> cm_power_module \<Rightarrow> cm_power_module" where
  "power_call_on env c cm =
     (case c of
        Init \<Rightarrow> cm_power_init env cm
      | Set_interactive on \<Rightarrow> cm_power_set_interactive on cm
      | Hint h d \<Rightarrow> cm_power_hint env h d cm)"

inductive power_reachable :: "file_env \<Rightarrow> file_kernel \<Rightarrow> cm_power_module \<Rightarrow> bool" for env k where
  Power_start: "power_reachable env k (power_module_at k)"
| Power_call: "power_reachable env k cm \<Longrightarrow> power_reachable env k (power_call_on env c cm)"

text \<open>The module holds no descriptor, or one, for one of the two boost files, on top of those the process had.\<close>

definition holds_boost :: "(int \<times> path) list \<Rightarrow> cm_power_module \<Rightarrow> bool" where
  "holds_boost os cm \<longleftrightarrow>
     (if boostpulse_fd cm < 0 then opened (p_kernel cm) = os
      else boostpulse_fd cm \<notin> set (map fst os)
        \<and> (\<exists>p \<in> {BOOSTPULSE_ONDEMAND, BOOSTPULSE_INTERACTIVE}. opened (p_kernel cm) = (boostpulse_fd cm, p) # os))"

lemma opened_sysfs_read: "sysfs_read env p n k = (s, k1) \<Longrightarrow> opened k1 = opened k"
  by (auto simp: sysfs_read_def sys.op_refused dest!: opened_read sys.use_and_close split: prod.splits if_splits)

lemma opened_sysfs_write [simp]: "opened (sysfs_write env p s k) = opened k"
  by (auto simp: sysfs_write_def sys.op_refused intro!: sys.use_and_close dest!: opened_write split: prod.splits)

lemma opened_sysfs_writes [simp]: "opened (sysfs_writes env ws k) = opened k"
  unfolding sysfs_writes_def by (induction ws arbitrary: k) auto

lemma configure_facts [simp]:
  "opened (p_kernel (configure_governor env cm)) = opened (p_kernel cm)"
  "boostpulse_fd (configure_governor env cm) = boostpulse_fd cm"
  by (auto simp: configure_governor_def)

lemma holds_boost_cong:
  "opened (p_kernel cm) = opened (p_kernel cm1) \<Longrightarrow> boostpulse_fd cm = boostpulse_fd cm1
    \<Longrightarrow> holds_boost os cm = holds_boost os cm1"
  by (simp add: holds_boost_def)

lemma holds_boost_unchanged [simp]:
  "holds_boost os (configure_governor env cm) = holds_boost os cm"
  "holds_boost os (cm\<lparr>boostpulse_warned := w\<rparr>) = holds_boost os cm"
  by (simp_all add: holds_boost_def)

lemma governor_facts:
  assumes "get_scaling_governor env cm = (r, cm1)"
  shows "opened (p_kernel cm1) = opened (p_kernel cm)" "boostpulse_fd cm1 = boostpulse_fd cm"
  using assms by (auto simp: get_scaling_governor_def dest: opened_sysfs_read split: prod.splits option.splits)

lemma open_boost_holds:
  assumes "boostpulse_fd cm < 0" "holds_boost os cm" "p \<in> {BOOSTPULSE_ONDEMAND, BOOSTPULSE_INTERACTIVE}"
  shows "holds_boost os (open_boost env p cm)"
proof -
  obtain fd k where o: "sys_open env p (p_kernel cm) = (fd, k)" by fastforce
  show ?thesis
    using assms sys.op_refused [OF o] sys.op_fresh [OF o] by (auto simp: holds_boost_def open_boost_def o)
qed

lemma boostpulse_open_holds:
  assumes "boostpulse_open env cm = (fd, cm1)" "holds_boost os cm"
  shows "holds_boost os cm1 \<and> fd = boostpulse_fd cm1"
proof (cases "boostpulse_fd cm < 0")
  case True
  obtain r cm2 where g: "get_scaling_governor env cm = (r, cm2)" by fastforce
  have free: "boostpulse_fd cm2 < 0" "holds_boost os cm2"
    using governor_facts [OF g] True assms(2) by (auto simp: holds_boost_def)
  show ?thesis
    using assms(1) True free open_boost_holds [OF free]
    by (auto simp: boostpulse_open_def g Let_def split: if_splits)
qed (use assms in \<open>auto simp: boostpulse_open_def\<close>)

lemma hint_holds:
  assumes "holds_boost os cm"
  shows "holds_boost os (cm_power_hint env h d cm)"
proof -
  obtain fd cm1 where b: "boostpulse_open env cm = (fd, cm1)" by fastforce
  have ok: "holds_boost os cm1" "fd = boostpulse_fd cm1" using boostpulse_open_holds [OF b assms] by blast+
  have "holds_boost os (cm1\<lparr>p_kernel := k\<rparr>)" "holds_boost os (cm1\<lparr>p_kernel := sys_close env fd k, boostpulse_fd := -1, boostpulse_warned := False\<rparr>)"
    if w: "sys_write env fd s (p_kernel cm1) = (r, k)" and pos: "0 \<le> fd" for s r k
  proof -
    have o: "opened k = opened (p_kernel cm1)" by (rule opened_write [OF w])
    then show "holds_boost os (cm1\<lparr>p_kernel := k\<rparr>)" using ok holds_boost_cong [of "cm1\<lparr>p_kernel := k\<rparr>" cm1] by simp
    obtain p where p: "fd \<notin> set (map fst os)" "opened (p_kernel cm1) = (fd, p) # os"
      using ok pos by (auto simp: holds_boost_def)
    show "holds_boost os (cm1\<lparr>p_kernel := sys_close env fd k, boostpulse_fd := -1, boostpulse_warned := False\<rparr>)"
      using sys.others_kept [OF p(1)] by (simp add: holds_boost_def sys.cl_frees o p(2))
  qed
  then have boost: "holds_boost os (cm_power_hint env h data cm)" if "h = POWER_HINT_INTERACTION \<or> h = POWER_HINT_CPU_BOOST" for data
    using ok that by (auto simp: cm_power_hint_def b Let_def split: prod.splits)
  show ?thesis using boost assms by (cases h) (simp_all add: cm_power_hint_def)
qed

section \<open>Properties\<close>

text \<open>
  C36: the power module never leaks a descriptor. Whatever calls it gets, in whatever order, and whichever
  calls of the kernel fail, the open descriptors are those the process had, and the boost descriptor for
  one of the two boost files exactly when the module has one recorded.
\<close>

theorem power_descriptors:
  assumes "power_reachable env k cm"
  shows "holds_boost (opened k) cm"
  using assms
proof induction
  case Power_start
  then show ?case by (simp add: holds_boost_def power_module_at_def)
next
  case (Power_call cm c)
  show ?case
  proof (cases c)
    case Init
    obtain r cm1 where g: "get_scaling_governor env cm = (r, cm1)" by fastforce
    have "holds_boost (opened k) cm1" using Power_call.IH holds_boost_cong [OF governor_facts [OF g]] by simp
    then show ?thesis by (simp add: Init power_call_on_def cm_power_init_def g)
  next
    case (Set_interactive on)
    then show ?thesis using Power_call.IH by (simp add: power_call_on_def cm_power_set_interactive_def)
  next
    case (Hint h d)
    then show ?thesis using hint_holds [OF Power_call.IH] by (simp add: power_call_on_def)
  qed
qed

definition one_file :: file_kernel where
  "one_file = \<lparr>calls = 0, opened = [(0, ascii ''/dev/null'')], written = [], errno = 0\<rparr>"

text \<open>The environment of a device whose governor is \<open>g\<close>.\<close>

definition governor_env :: "byte list \<Rightarrow> file_env" where
  "governor_env g = \<lparr>refuse = \<lambda>n. None, content = \<lambda>n p. if p = SCALING_GOVERNOR_PATH then g @ [10] else []\<rparr>"

theorem power_descriptors_witness:
  "holds_boost [(0, ascii ''/dev/null'')]
     (power_call_on (governor_env (ascii ''ondemand'')) (Hint POWER_HINT_CPU_BOOST 0) (power_module_at one_file))"
proof -
  have "power_reachable (governor_env (ascii ''ondemand'')) one_file
     (power_call_on (governor_env (ascii ''ondemand'')) (Hint POWER_HINT_CPU_BOOST 0) (power_module_at one_file))"
    by (intro power_reachable.intros)
  from power_descriptors [OF this] show ?thesis by (simp add: one_file_def)
qed

section \<open>A boost\<close>

lemma sysfs_write_done:
  assumes "\<And>n. refuse env n = None"
  shows "written (sysfs_write env p s k) = written k @ [(p, s)]"
proof -
  obtain fd k1 where o: "sys_open env p k = (fd, k1)" by fastforce
  have fd: "0 \<le> fd" using o free_fd_nonneg by (auto simp: sys_open_def assms)
  obtain r k2 where w: "sys_write env fd s k1 = (r, k2)" by fastforce
  have own: "map_of (opened k1) fd = Some p" using sys.op_fresh [OF o fd] by simp
  then have "0 \<le> r" using w by (auto simp: sys_write_def assms)
  then show ?thesis
    using fd written_write [OF w _ own] written_open [OF o] by (simp add: sysfs_write_def o w)
qed

lemma sysfs_writes_done:
  assumes "\<And>n. refuse env n = None"
  shows "written (sysfs_writes env ws k) = written k @ ws"
  unfolding sysfs_writes_def by (induction ws arbitrary: k) (auto simp: sysfs_write_done [OF assms])

lemma governor_read:
  assumes "\<And>n. refuse env n = None" "\<And>n. content env n SCALING_GOVERNOR_PATH = g @ [10]"
    and "length g < 19" "\<forall>c \<in> set g. c \<noteq> 0 \<and> c \<noteq> 10 \<and> c \<noteq> 13"
  shows "\<exists>k. get_scaling_governor env cm = (0, cm\<lparr>p_kernel := k, governor := g\<rparr>)
    \<and> opened k = opened (p_kernel cm) \<and> written k = written (p_kernel cm)"
proof -
  obtain fd k1 where o: "sys_open env SCALING_GOVERNOR_PATH (p_kernel cm) = (fd, k1)" by fastforce
  have fd: "0 \<le> fd" using o free_fd_nonneg by (auto simp: sys_open_def assms(1))
  have own: "map_of (opened k1) fd = Some SCALING_GOVERNOR_PATH" using sys.op_fresh [OF o fd] by simp
  obtain k2 where r: "sys_read env fd 19 k1 = (Some (g @ [10]), k2)"
    using own assms(3) by (simp add: sys_read_def assms(1,2))
  let ?k = "sys_close env fd k2"
  have "opened ?k = opened (p_kernel cm)" by (rule sys.use_and_close [OF o fd opened_read [OF r]])
  moreover have "written ?k = written (p_kernel cm)" using written_read [OF r] written_open [OF o] by simp
  moreover have "c_str (g @ [10]) = g @ [10]" using assms(4) by (auto simp: c_str_def takeWhile_eq_all_conv)
  moreover have "strip_newline (rev g) = rev g" using assms(4) by (cases g rule: rev_cases) auto
  ultimately show ?thesis
    using fd by (intro exI [of _ ?k]) (simp add: get_scaling_governor_def sysfs_read_def o r)
qed

text \<open>The boost file and the settings of a governor the module knows.\<close>

definition governor_files :: "(byte list \<times> path \<times> (path \<times> byte list) list) set" where
  "governor_files = {(ascii ''ondemand'', BOOSTPULSE_ONDEMAND, ondemand_settings),
     (ascii ''interactive'', BOOSTPULSE_INTERACTIVE, interactive_settings)}"

lemma governor_cases:
  assumes "(g, p, settings) \<in> governor_files"
  obtains "g = ascii ''ondemand''" "p = BOOSTPULSE_ONDEMAND" "settings = ondemand_settings"
    | "g = ascii ''interactive''" "p = BOOSTPULSE_INTERACTIVE" "settings = interactive_settings"
  using assms by (auto simp: governor_files_def)

lemma names:
  "strncmp_eq (ascii ''ondemand'') (ascii ''ondemand'') 8"
  "\<not> strncmp_eq (ascii ''interactive'') (ascii ''ondemand'') 8"
  "strncmp_eq (ascii ''interactive'') (ascii ''interactive'') 11"
  by (simp_all add: strncmp_eq_def ascii_def)

text \<open>
  C37: a boost reaches the governor in charge. When the module holds no boost descriptor (at the start, or
  after a boost that failed), the kernel answers and the current governor is one the module knows, an
  interaction or boost hint writes the settings of that governor, and then its duration (1 when the hint
  has none) to that governor's boost file, once.
\<close>

theorem boost_reaches_governor:
  assumes "boostpulse_fd cm < 0" "\<And>n. refuse env n = None"
    and "(g, p, settings) \<in> governor_files" "\<And>n. content env n SCALING_GOVERNOR_PATH = g @ [10]"
    and "0 \<in> set (map fst (opened (p_kernel cm)))"
    and "h = POWER_HINT_INTERACTION \<or> h = POWER_HINT_CPU_BOOST"
  shows "written (p_kernel (cm_power_hint env h data cm))
    = written (p_kernel cm) @ settings @ [(p, signed_decimal (if data = 0 then 1 else sint data))]"
proof -
  let ?d = "if data = 0 then 1 else sint data"
  have g: "length g < 19" "\<forall>c \<in> set g. c \<noteq> 0 \<and> c \<noteq> 10 \<and> c \<noteq> 13"
    using assms(3) by (auto simp: governor_files_def ascii_def)
  obtain k where read: "get_scaling_governor env cm = (0, cm\<lparr>p_kernel := k, governor := g\<rparr>)"
    and k: "opened k = opened (p_kernel cm)" "written k = written (p_kernel cm)"
    using governor_read [OF assms(2,4) g] by blast
  obtain fd k1 where o: "sys_open env p k = (fd, k1)" by fastforce
  have "fd = free_fd (opened k)" using o by (auto simp: sys_open_def assms(2))
  then have "0 \<le> fd" "fd \<noteq> 0" using free_fd_nonneg free_fd_fresh [of "opened k"] assms(5) k(1) by metis+
  then have fd: "0 < fd" by simp
  define cm1 where "cm1 = cm\<lparr>p_kernel := sysfs_writes env settings k1, governor := g, boostpulse_fd := fd\<rparr>"
  have "boostpulse_open env cm = (fd, cm1)"
    using assms(1,3) fd o
    by (elim governor_cases) (simp_all add: boostpulse_open_def read open_boost_def configure_governor_def cm1_def names Let_def)
  moreover have own: "map_of (opened (sysfs_writes env settings k1)) fd = Some p"
    using sys.op_fresh [OF o] fd by simp
  moreover have "snprintf_string 80 (signed_decimal ?d) = signed_decimal ?d"
  proof -
    have "- (2 ^ 31) \<le> sint data" "sint data < 2 ^ 31" using sint_ge [of data] sint_lt [of data] by simp_all
    then have "length (signed_decimal ?d) \<le> 11" by (intro length_signed_decimal) auto
    then show ?thesis by (simp add: snprintf_string_def)
  qed
  ultimately show ?thesis
    using assms(6) fd k(2) written_open [OF o]
    by (auto simp: cm_power_hint_def cm1_def sys_write_def assms(2) turn_def sysfs_writes_done [OF assms(2)]
        simp flip: if_not_P cong: if_cong)
qed

theorem boost_reaches_governor_witness:
  "written (p_kernel (cm_power_hint (governor_env (ascii ''interactive'')) POWER_HINT_INTERACTION 0 (power_module_at one_file)))
    = interactive_settings @ [(BOOSTPULSE_INTERACTIVE, ascii ''1'')]"
proof -
  have "decimal 1 = ascii ''1''" by (simp add: decimal.simps digit_def ascii_def)
  then have "signed_decimal 1 = ascii ''1''" by (simp add: signed_decimal_def)
  with boost_reaches_governor [of "power_module_at one_file" "governor_env (ascii ''interactive'')" "ascii ''interactive''"
      BOOSTPULSE_INTERACTIVE interactive_settings POWER_HINT_INTERACTION 0]
  show ?thesis by (simp add: power_module_at_def governor_env_def governor_files_def one_file_def)
qed

end
