(* ===== verification/PinSwitch.thy ===== *)
theory PinSwitch
  imports SysFiles
begin

text \<open>
  The pins of the Bluetooth and FM chip, audio/HardwarePinSwitching.c, as built with WITH_QCOM_FM and
  without REG_KERNEL_UPDATE: the Bluetooth PCM lines and the FM I2S lines share pins, and switch_mode
  hands them to one side. The state is the kernel, the registers of the chip behind the I2C bus, and,
  for the properties, the list of all states the registers went through, the last one first. A transfer
  that fails may still have reached the chip: the environment says so.
\<close>

definition BT_PCM_BCLK_MODE :: byte where "BT_PCM_BCLK_MODE = 0x88"
definition BT_PCM_DIN_MODE :: byte where "BT_PCM_DIN_MODE = 0x89"
definition BT_PCM_DOUT_MODE :: byte where "BT_PCM_DOUT_MODE = 0x8A"
definition BT_PCM_SYNC_MODE :: byte where "BT_PCM_SYNC_MODE = 0x8B"
definition FM_I2S_SD_MODE :: byte where "FM_I2S_SD_MODE = 0x8E"
definition FM_I2S_WS_MODE :: byte where "FM_I2S_WS_MODE = 0x8F"
definition FM_I2S_SCK_MODE :: byte where "FM_I2S_SCK_MODE = 0x90"
definition I2C_PIN_CTL :: byte where "I2C_PIN_CTL = 0x15"
definition I2C_NORMAL :: byte where "I2C_NORMAL = 0x40"
definition MARIMBA_ADDR :: byte where "MARIMBA_ADDR = 0x0C"
definition FM_DEVICE_PATH :: path where "FM_DEVICE_PATH = ascii ''/dev/i2c-1''"
definition MODE_FM :: int where "MODE_FM = 0"
definition MODE_BTSCO :: int where "MODE_BTSCO = 1"

lemmas pin_consts = BT_PCM_BCLK_MODE_def BT_PCM_DIN_MODE_def BT_PCM_DOUT_MODE_def BT_PCM_SYNC_MODE_def
  FM_I2S_SD_MODE_def FM_I2S_WS_MODE_def FM_I2S_SCK_MODE_def

type_synonym registers = "byte \<Rightarrow> byte"

record pin_chip =
  c_kernel :: file_kernel
  history :: "registers list"

abbreviation regs :: "pin_chip \<Rightarrow> registers" where
  "regs c \<equiv> hd (history c)"

text \<open>A message to be written: the address of the chip and the bytes.\<close>

record i2c_msg =
  addr :: byte
  buf :: "byte list"

definition chip_takes :: "i2c_msg \<Rightarrow> registers \<Rightarrow> registers" where
  "chip_takes m r = (if addr m = MARIMBA_ADDR \<and> length (buf m) = 2 then r(buf m ! 0 := buf m ! 1) else r)"

text \<open>
  \<open>ioctl(fd, I2C_RDWR, \<dots>)\<close> with messages that write; \<open>landed n\<close>: the n-th call reaches the chip even
  when it fails.
\<close>

definition i2c_rdwr :: "file_env \<Rightarrow> (nat \<Rightarrow> bool) \<Rightarrow> i2c_msg list \<Rightarrow> pin_chip \<Rightarrow> int \<times> pin_chip" where
  "i2c_rdwr env landed msgs c =
     (let n = calls (c_kernel c); k = turn (c_kernel c); done = fold chip_takes msgs (regs c) in
      case refuse env n of
        Some e \<Rightarrow> (-1, \<lparr>c_kernel = k\<lparr>errno := e\<rparr>, history = (if landed n then done else regs c) # history c\<rparr>)
      | None \<Rightarrow> (0, \<lparr>c_kernel = k, history = done # history c\<rparr>))"

definition do_rdwr :: "file_env \<Rightarrow> (nat \<Rightarrow> bool) \<Rightarrow> int \<Rightarrow> i2c_msg list \<Rightarrow> pin_chip \<Rightarrow> int \<times> pin_chip" where
  "do_rdwr env landed fd msgs c =
     (if msgs = [] then (-1, c)
      else case i2c_rdwr env landed msgs c of (r, c1) \<Rightarrow> if r < 0 then (-1, c1) else (0, c1))"

definition marimba_write ::
  "file_env \<Rightarrow> (nat \<Rightarrow> bool) \<Rightarrow> int \<Rightarrow> byte \<Rightarrow> byte list \<Rightarrow> pin_chip \<Rightarrow> int \<times> pin_chip" where
  "marimba_write env landed fd offset bs c = do_rdwr env landed fd [\<lparr>addr = MARIMBA_ADDR, buf = offset # bs\<rparr>] c"

text \<open>One of the loops: \<open>reg\<close> runs from its first to its last value and stops at a failure.\<close>

fun write_regs :: "file_env \<Rightarrow> (nat \<Rightarrow> bool) \<Rightarrow> int \<Rightarrow> byte list \<Rightarrow> byte \<Rightarrow> int \<Rightarrow> pin_chip \<Rightarrow> int \<times> pin_chip" where
  "write_regs env landed fd [] v retval c = (retval, c)"
| "write_regs env landed fd (r # rs) v retval c =
     (case marimba_write env landed fd r [v] c of (retval1, c1) \<Rightarrow>
        if retval1 < 0 then (retval1, c1) else write_regs env landed fd rs v retval1 c1)"

text \<open>\<open>for (reg = lo; reg <= hi; reg++)\<close>\<close>

definition reg_range :: "byte \<Rightarrow> byte \<Rightarrow> byte list" where
  "reg_range lo hi = map word_of_nat [unat lo..<Suc (unat hi)]"

definition switch_pins :: "file_env \<Rightarrow> (nat \<Rightarrow> bool) \<Rightarrow> int \<Rightarrow> int \<Rightarrow> pin_chip \<Rightarrow> int \<times> pin_chip" where
  "switch_pins env landed fd nPath c =
     (let bt = reg_range BT_PCM_BCLK_MODE BT_PCM_SYNC_MODE; fm = reg_range FM_I2S_SD_MODE FM_I2S_SCK_MODE in
      if nPath = MODE_FM
      then case write_regs env landed fd bt I2C_PIN_CTL (-1) c of (retval, c1) \<Rightarrow>
             if retval < 0 then (retval, c1)
             else case write_regs env landed fd fm I2C_NORMAL retval c1 of (retval2, c2) \<Rightarrow>
               if retval2 < 0 then (retval2, c2) else (0, c2)
      else case write_regs env landed fd fm I2C_PIN_CTL (-1) c of (retval, c1) \<Rightarrow>
             if retval < 0 then (retval, c1)
             else case write_regs env landed fd bt I2C_NORMAL retval c1 of (retval2, c2) \<Rightarrow>
               if retval2 < 0 then (retval2, c2) else (0, c2))"

definition switch_mode :: "file_env \<Rightarrow> (nat \<Rightarrow> bool) \<Rightarrow> int \<Rightarrow> pin_chip \<Rightarrow> int \<times> pin_chip" where
  "switch_mode env landed nMode c =
     (case sys_open env FM_DEVICE_PATH (c_kernel c) of (i2cfd, k) \<Rightarrow>
        if 0 \<le> i2cfd
        then case switch_pins env landed i2cfd nMode (c\<lparr>c_kernel := k\<rparr>) of (rc, c1) \<Rightarrow>
          (rc, c1\<lparr>c_kernel := sys_close env i2cfd (c_kernel c1)\<rparr>)
        else (-1, c\<lparr>c_kernel := k\<rparr>))"

section \<open>The sides\<close>

definition bt_regs :: "byte list" where "bt_regs = [0x88, 0x89, 0x8A, 0x8B]"

definition fm_regs :: "byte list" where "fm_regs = [0x8E, 0x8F, 0x90]"

lemma ranges [simp]:
  "reg_range BT_PCM_BCLK_MODE BT_PCM_SYNC_MODE = bt_regs" "reg_range FM_I2S_SD_MODE FM_I2S_SCK_MODE = fm_regs"
  by (simp_all add: reg_range_def pin_consts bt_regs_def fm_regs_def upt_rec)

text \<open>A side drives its lines when one of them is in normal mode.\<close>

definition drives :: "byte list \<Rightarrow> registers \<Rightarrow> bool" where
  "drives rs r \<longleftrightarrow> (\<exists>x \<in> set rs. r x = I2C_NORMAL)"

definition one_side :: "registers \<Rightarrow> bool" where
  "one_side r \<longleftrightarrow> \<not> (drives bt_regs r \<and> drives fm_regs r)"

text \<open>One write: the register has the value when it succeeds, and else it may have it.\<close>

lemma marimba_write_effect:
  assumes "marimba_write env landed fd x [v] c = (r, c1)"
  shows "(r = 0 \<and> history c1 = (regs c)(x := v) # history c
       \<or> r = -1 \<and> (history c1 = (regs c)(x := v) # history c \<or> history c1 = regs c # history c))"
    and "opened (c_kernel c1) = opened (c_kernel c)"
  using assms
  by (auto simp: marimba_write_def do_rdwr_def i2c_rdwr_def chip_takes_def turn_def Let_def split: option.splits if_splits)

text \<open>A loop adds states that have a property which each of its writes keeps.\<close>

lemma write_regs_keeps:
  assumes "write_regs env landed fd rs v q c = (r, c1)" "P (regs c)"
    and "\<And>h x. x \<in> set rs \<Longrightarrow> P h \<Longrightarrow> P (h(x := v))"
  shows "\<exists>new. history c1 = new @ history c \<and> (\<forall>h \<in> set new. P h) \<and> opened (c_kernel c1) = opened (c_kernel c)"
  using assms
proof (induction rs arbitrary: q c)
  case (Cons x rs)
  obtain r2 c2 where m: "marimba_write env landed fd x [v] c = (r2, c2)" by fastforce
  obtain h where h: "history c2 = h # history c" "P h" "opened (c_kernel c2) = opened (c_kernel c)"
    using marimba_write_effect [OF m] Cons.prems(2) Cons.prems(3) [of x "regs c"] by (auto simp del: fun_upd_apply)
  show ?case
  proof (cases "r2 < 0")
    case True
    then show ?thesis using Cons.prems(1) h by (simp add: m)
  next
    case False
    then have "write_regs env landed fd rs v r2 c2 = (r, c1)" using Cons.prems(1) by (simp add: m)
    moreover have "P (regs c2)" using h by simp
    ultimately obtain new where "history c1 = new @ history c2" "\<forall>h \<in> set new. P h"
      "opened (c_kernel c1) = opened (c_kernel c2)"
      using Cons.IH Cons.prems(3) by (metis list.set_intros(2))
    then show ?thesis using h by (intro exI [of _ "new @ [h]"]) auto
  qed
qed simp

lemma write_regs_result:
  assumes "write_regs env landed fd rs v q c = (r, c1)" "0 \<le> r" "rs \<noteq> []" "distinct rs"
  shows "regs c1 = (\<lambda>x. if x \<in> set rs then v else regs c x)"
  using assms
proof (induction rs arbitrary: q c)
  case (Cons x rs)
  obtain r2 c2 where m: "marimba_write env landed fd x [v] c = (r2, c2)" by fastforce
  have ok: "\<not> r2 < 0" using Cons.prems(1,2) by (auto simp: m split: if_splits)
  then have c2: "regs c2 = (regs c)(x := v)" using marimba_write_effect(1) [OF m] by auto
  have rest: "write_regs env landed fd rs v r2 c2 = (r, c1)" using Cons.prems(1) ok by (simp add: m)
  show ?case
  proof (cases "rs = []")
    case True
    then show ?thesis using rest c2 by (auto simp: fun_eq_iff)
  next
    case False
    from Cons.IH [OF rest Cons.prems(2) False] Cons.prems(4) c2 show ?thesis by (auto simp: fun_eq_iff)
  qed
qed simp

lemma one_side_pin_ctl: "one_side r \<Longrightarrow> one_side (r(x := I2C_PIN_CTL))"
  by (auto simp: one_side_def drives_def I2C_PIN_CTL_def I2C_NORMAL_def split: if_splits)

text \<open>
  A switch: first all lines of the side that leaves, then those of the side that enters. \<open>off\<close> and
  \<open>on\<close> are the two register lists, in either order.
\<close>

lemma two_loops:
  assumes "write_regs env landed fd off I2C_PIN_CTL (-1) c = (r, c1)"
    and "off = bt_regs \<and> on = fm_regs \<or> off = fm_regs \<and> on = bt_regs" "one_side (regs c)"
  shows "\<exists>new. history c1 = new @ history c \<and> (\<forall>h \<in> set new. one_side h) \<and> opened (c_kernel c1) = opened (c_kernel c)"
    and "0 \<le> r \<Longrightarrow> write_regs env landed fd on I2C_NORMAL r c1 = (r2, c2) \<Longrightarrow>
      (\<exists>new. history c2 = new @ history c \<and> (\<forall>h \<in> set new. one_side h) \<and> opened (c_kernel c2) = opened (c_kernel c))
      \<and> (0 \<le> r2 \<longrightarrow> (\<forall>x \<in> set on. regs c2 x = I2C_NORMAL) \<and> (\<forall>x \<in> set off. regs c2 x = I2C_PIN_CTL))"
proof -
  obtain new where new: "history c1 = new @ history c" "\<forall>h \<in> set new. one_side h"
      "opened (c_kernel c1) = opened (c_kernel c)"
    using write_regs_keeps [OF assms(1), where P = one_side] assms(3) one_side_pin_ctl by blast
  then show "\<exists>new. history c1 = new @ history c \<and> (\<forall>h \<in> set new. one_side h) \<and> opened (c_kernel c1) = opened (c_kernel c)"
    by blast
  assume r: "0 \<le> r" and second: "write_regs env landed fd on I2C_NORMAL r c1 = (r2, c2)"
  have lists: "off \<noteq> []" "distinct off" "on \<noteq> []" "distinct on" "set off \<inter> set on = {}"
    using assms(2) by (auto simp: bt_regs_def fm_regs_def)
  let ?P = "\<lambda>h. \<forall>x \<in> set off. h x = I2C_PIN_CTL"
  have off: "?P (regs c1)" using write_regs_result [OF assms(1) r lists(1,2)] by simp
  have kept: "\<And>h x. x \<in> set on \<Longrightarrow> ?P h \<Longrightarrow> ?P (h(x := I2C_NORMAL))" using lists(5) by auto
  obtain more where more: "history c2 = more @ history c1" "\<forall>h \<in> set more. ?P h"
      "opened (c_kernel c2) = opened (c_kernel c1)"
    using write_regs_keeps [OF second, where P = ?P, OF off kept] by blast
  have "one_side h" if "?P h" for h
    using that assms(2) by (auto simp: one_side_def drives_def I2C_PIN_CTL_def I2C_NORMAL_def)
  then have "\<exists>new. history c2 = new @ history c \<and> (\<forall>h \<in> set new. one_side h) \<and> opened (c_kernel c2) = opened (c_kernel c)"
    using new more by (intro exI [of _ "more @ new"]) auto
  moreover have "(\<forall>x \<in> set on. regs c2 x = I2C_NORMAL) \<and> (\<forall>x \<in> set off. regs c2 x = I2C_PIN_CTL)" if fine: "0 \<le> r2"
    using write_regs_result [OF second fine lists(3,4)] off lists(5) by auto
  ultimately show "(\<exists>new. history c2 = new @ history c \<and> (\<forall>h \<in> set new. one_side h) \<and> opened (c_kernel c2) = opened (c_kernel c))
      \<and> (0 \<le> r2 \<longrightarrow> (\<forall>x \<in> set on. regs c2 x = I2C_NORMAL) \<and> (\<forall>x \<in> set off. regs c2 x = I2C_PIN_CTL))"
    by blast
qed

definition entering :: "int \<Rightarrow> byte list" where
  "entering nMode = (if nMode = MODE_FM then fm_regs else bt_regs)"

definition leaving :: "int \<Rightarrow> byte list" where
  "leaving nMode = (if nMode = MODE_FM then bt_regs else fm_regs)"

text \<open>
  C35: the two sides never drive the shared pins together. From registers where they do not, a switch in
  either direction passes only through such registers, whichever transfer fails and whether or not a
  failed one reached the chip; it keeps no descriptor; and when it answers 0, the lines of the side that
  enters are all in normal mode and those of the other are all under pin control.
\<close>

theorem pins_have_one_driver:
  assumes "switch_mode env landed nMode c = (rc, c1)" "one_side (regs c)"
  shows "(\<exists>new. history c1 = new @ history c \<and> (\<forall>h \<in> set new. one_side h)) \<and> opened (c_kernel c1) = opened (c_kernel c)
    \<and> (rc = 0 \<longrightarrow> (\<forall>x \<in> set (entering nMode). regs c1 x = I2C_NORMAL)
                \<and> (\<forall>x \<in> set (leaving nMode). regs c1 x = I2C_PIN_CTL))"
proof -
  obtain fd k where o: "sys_open env FM_DEVICE_PATH (c_kernel c) = (fd, k)" by fastforce
  show ?thesis
  proof (cases "0 \<le> fd")
    case False
    then show ?thesis using assms(1) sys.op_refused [OF o] by (auto simp: switch_mode_def o)
  next
    case True
    let ?c = "c\<lparr>c_kernel := k\<rparr>" and ?off = "leaving nMode" and ?on = "entering nMode"
    obtain r c2 where first: "write_regs env landed fd ?off I2C_PIN_CTL (-1) ?c = (r, c2)" by fastforce
    obtain r3 c3 where second: "write_regs env landed fd ?on I2C_NORMAL r c2 = (r3, c3)" by fastforce
    have run: "switch_pins env landed fd nMode ?c = (if r < 0 then (r, c2) else if r3 < 0 then (r3, c3) else (0, c3))"
      using first second by (auto simp: switch_pins_def leaving_def entering_def Let_def split: if_splits)
    have sides: "?off = bt_regs \<and> ?on = fm_regs \<or> ?off = fm_regs \<and> ?on = bt_regs"
      by (simp add: leaving_def entering_def)
    have side: "one_side (regs ?c)" using assms(2) by simp
    note loops = two_loops [OF first sides side]
    let ?fin = "if r < 0 then c2 else c3"
    have c1: "c1 = ?fin\<lparr>c_kernel := sys_close env fd (c_kernel ?fin)\<rparr>"
      using assms(1) True by (auto simp: switch_mode_def o run split: if_splits)
    have reached: "\<exists>new. history ?fin = new @ history c \<and> (\<forall>h \<in> set new. one_side h)" "opened (c_kernel ?fin) = opened k"
      using loops(1) loops(2) [OF _ second] by (auto simp: not_less)
    have "opened (sys_close env fd (c_kernel ?fin)) = opened (c_kernel c)"
      by (rule sys.use_and_close [OF o True reached(2)])
    moreover have "(\<forall>x \<in> set ?on. regs c3 x = I2C_NORMAL) \<and> (\<forall>x \<in> set ?off. regs c3 x = I2C_PIN_CTL) \<and> \<not> r < 0" if zero: "rc = 0"
      using assms(1) True zero loops(2) [OF _ second] by (auto simp: switch_mode_def o run split: if_splits)
    ultimately show ?thesis using reached(1) c1 by auto
  qed
qed

definition bt_chip :: pin_chip where
  "bt_chip = \<lparr>c_kernel = \<lparr>calls = 0, opened = [], written = [], errno = 0\<rparr>,
     history = [\<lambda>x. if x \<in> set bt_regs then I2C_NORMAL else I2C_PIN_CTL]\<rparr>"

text \<open>The third transfer of a switch to FM fails.\<close>

theorem pins_have_one_driver_witness:
  "fst (switch_mode \<lparr>refuse = \<lambda>n. if n = 3 then Some 5 else None, content = \<lambda>n p. []\<rparr> (\<lambda>n. True) MODE_FM bt_chip) = -1
   \<and> list_all one_side (history (snd (switch_mode \<lparr>refuse = \<lambda>n. if n = 3 then Some 5 else None, content = \<lambda>n p. []\<rparr>
        (\<lambda>n. True) MODE_FM bt_chip)))"
proof -
  let ?env = "\<lparr>refuse = \<lambda>n. if n = 3 then Some 5 else None, content = \<lambda>n p. []\<rparr>" and ?l = "\<lambda>n::nat. True"
  obtain rc c1 where r: "switch_mode ?env ?l MODE_FM bt_chip = (rc, c1)" by fastforce
  have start: "one_side (regs bt_chip)"
    by (simp add: bt_chip_def one_side_def drives_def fm_regs_def bt_regs_def I2C_PIN_CTL_def I2C_NORMAL_def)
  have "rc = -1"
    using r by (simp add: switch_mode_def switch_pins_def marimba_write_def do_rdwr_def i2c_rdwr_def sys_open_def
        bt_chip_def turn_def bt_regs_def fm_regs_def free_fd_def sys_close_def MODE_FM_def Let_def)
  moreover have "history bt_chip = [regs bt_chip]" by (simp add: bt_chip_def)
  then have old: "\<forall>h \<in> set (history bt_chip). one_side h" using start by (metis empty_set list.simps(15) singletonD)
  obtain new where "history c1 = new @ history bt_chip" "\<forall>h \<in> set new. one_side h"
    using pins_have_one_driver [OF r start] by blast
  then have "list_all one_side (history c1)" using old by (auto simp: list_all_iff)
  ultimately show ?thesis unfolding r by simp
qed

end
