(* ===== verification/WifiNl80211.thy ===== *)
theory WifiNl80211
  imports CString
begin

text \<open>
  The driver commands of the ath6kl Wi-Fi driver over nl80211, driver_cmd_nl80211.c. A buffer is the
  list of its bytes, of fixed length; a result None is a copy past the end of a buffer. What belongs to
  wpa_supplicant and to the kernel is the environment: the answers to the requests, and the limit of
  errors in a row. The state is the error counter, the requests made on the interface, and what
  wpa_supplicant was told, in order.
\<close>

record nl_env =
  hwaddr :: "int \<times> byte list"
  private_cmd :: "nat \<Rightarrow> byte list \<Rightarrow> int \<times> byte list"
  room :: "nat \<Rightarrow> bool"
  max_errors :: int

text \<open>The type of an event of changed channels, and its country.\<close>

datatype channel_event = REGDOM_TYPE_COUNTRY "(byte \<times> byte) option" | REGDOM_TYPE_UNKNOWN

datatype driver_state = STOPPED | STARTED | HANGED

record nl_driver =
  drv_errors :: int
  iface_flags :: "bool list"
  issued :: "byte list list"
  driver_states :: "driver_state list"
  channel_events :: "channel_event list"

definition DO_NOT_SEND_CHANNEL_CHANGE_EVENT :: int where "DO_NOT_SEND_CHANNEL_CHANGE_EVENT = 1"

definition wpa_driver_send_hang_msg :: "nl_env \<Rightarrow> nl_driver \<Rightarrow> nl_driver" where
  "wpa_driver_send_hang_msg env d =
     (let n = drv_errors d + 1 in
      if n > max_errors env then d\<lparr>drv_errors := 0, driver_states := driver_states d @ [HANGED]\<rparr>
      else d\<lparr>drv_errors := n\<rparr>)"

definition wpa_driver_notify_country_change :: "byte list \<Rightarrow> nl_driver \<Rightarrow> nl_driver" where
  "wpa_driver_notify_country_change cmd d =
     (if strncasecmp_eq cmd (ascii ''COUNTRY'') 7 \<or> strncasecmp_eq cmd (ascii ''SETBAND'') 7
      then let event = (if strncasecmp_eq cmd (ascii ''COUNTRY'') 7
                        then REGDOM_TYPE_COUNTRY (if length cmd > 9 then Some (cmd ! 8, cmd ! 9) else None)
                        else REGDOM_TYPE_UNKNOWN)
           in d\<lparr>channel_events := channel_events d @ [event]\<rparr>
      else d)"

definition mac_string :: "byte list \<Rightarrow> byte list" where
  "mac_string mac = concat (map (\<lambda>i. (if i = 0 then [] else [58]) @ hex_byte (mac ! i)) [0..<6])"

text \<open>
  \<open>alias\<close>: the command is the start of the buffer itself. Then what is compared after the request is the
  driver's answer.
\<close>

definition wpa_driver_nl80211_driver_cmd ::
  "nl_env \<Rightarrow> bool \<Rightarrow> byte list \<Rightarrow> byte list \<Rightarrow> nl_driver \<Rightarrow> (int \<times> byte list \<times> nl_driver) option" where
  "wpa_driver_nl80211_driver_cmd env alias cmd buf d =
     (if strcasecmp_eq cmd (ascii ''STOP'')
      then Some (0, buf, d\<lparr>iface_flags := iface_flags d @ [False], driver_states := driver_states d @ [STOPPED]\<rparr>)
      else if strcasecmp_eq cmd (ascii ''START'')
      then Some (0, buf, d\<lparr>iface_flags := iface_flags d @ [True], driver_states := driver_states d @ [STARTED]\<rparr>)
      else if strcasecmp_eq cmd (ascii ''MACADDR'')
      then (case hwaddr env of (ret, macaddr) \<Rightarrow>
        if ret = 0
        then let s = ascii ''Macaddr = '' @ mac_string macaddr @ [10] in
             Some (int (length s), snprintf_at buf 0 s, d)
        else Some (ret, buf, d))
      else if length cmd + 1 > length buf then None
      else
        let buf1 = store_at buf 0 (cmd @ [0]);
            d1 = d\<lparr>issued := issued d @ [buf1]\<rparr>
        in case private_cmd env (length (issued d)) buf1 of (ret, buf2) \<Rightarrow>
          if ret < 0 then Some (ret, buf2, d1)
          else
            let d2 = d1\<lparr>drv_errors := 0\<rparr>;
                cmd2 = (if alias then c_str buf2 else cmd)
            in if strncasecmp_eq cmd2 (ascii ''SETBAND'') 7 \<and> ret = DO_NOT_SEND_CHANNEL_CHANGE_EVENT
               then Some (0, buf2, d2)
               else let ret2 = (if strcasecmp_eq cmd2 (ascii ''LINKSPEED'') \<or> strcasecmp_eq cmd2 (ascii ''RSSI'')
                                   \<or> strcasecmp_eq cmd2 (ascii ''GETBAND'')
                                then int (length (c_str buf2))
                                else if strcasecmp_eq cmd2 (ascii ''P2P_DEV_ADDR'') then 0
                                else if strcasecmp_eq cmd2 (ascii ''P2P_SET_PS'') then 0
                                else if strcasecmp_eq cmd2 (ascii ''P2P_SET_NOA'') then 0
                                else if strncasecmp_eq cmd2 (ascii ''GETDWELLTIME'') 12 then int (length (c_str buf2))
                                else 0)
                    in Some (ret2, buf2, wpa_driver_notify_country_change cmd2 d2))"

text \<open>
  Commands with three numbers, printed to a buffer of \<open>sz\<close> bytes of zeros. The buffer handed on ends
  with the string.
\<close>

definition numbers_cmd ::
  "nl_env \<Rightarrow> nat \<Rightarrow> string \<Rightarrow> int \<Rightarrow> int \<Rightarrow> int \<Rightarrow> nl_driver \<Rightarrow> (int \<times> byte list \<times> nl_driver) option" where
  "numbers_cmd env sz name a b c d =
     (let s = snprintf_string sz (ascii name @ 32 # signed_decimal a @ 32 # signed_decimal b @ 32 # signed_decimal c)
      in wpa_driver_nl80211_driver_cmd env True s (s @ [0]) d)"

definition wpa_driver_set_p2p_noa ::
  "nl_env \<Rightarrow> nat \<Rightarrow> byte \<Rightarrow> int \<Rightarrow> int \<Rightarrow> nl_driver \<Rightarrow> (int \<times> byte list \<times> nl_driver) option" where
  "wpa_driver_set_p2p_noa env sz count start duration d =
     numbers_cmd env sz ''P2P_SET_NOA'' (uint count) start duration d"

definition wpa_driver_get_p2p_noa :: "byte list \<Rightarrow> nl_driver \<Rightarrow> int \<times> byte list \<times> nl_driver" where
  "wpa_driver_get_p2p_noa buf d = (0, buf, d)"

definition wpa_driver_set_p2p_ps ::
  "nl_env \<Rightarrow> nat \<Rightarrow> int \<Rightarrow> int \<Rightarrow> int \<Rightarrow> nl_driver \<Rightarrow> (int \<times> byte list \<times> nl_driver) option" where
  "wpa_driver_set_p2p_ps env sz legacy_ps opp_ps ctwindow d =
     numbers_cmd env sz ''P2P_SET_PS'' legacy_ps opp_ps ctwindow d"

text \<open>The information elements: None for NULL. Each is sent behind its command in a buffer of its own.\<close>

definition AP_CMD :: "byte list" where "AP_CMD = ascii ''SET_AP_WPS_P2P_IE''"

definition ie_buffer :: "int \<Rightarrow> byte list \<Rightarrow> byte list" where
  "ie_buffer cmd ie =
     (let buf_len = length AP_CMD + 3 + length ie;
          zeros = replicate buf_len 0;
          s = AP_CMD @ 32 # signed_decimal cmd;
          printed = store_at zeros 0 (snprintf_string (buf_len - length ie) s @ [0]);
          pbuf = length s
      in store_at (store_at printed pbuf [0]) (Suc pbuf) ie)"

fun send_ies ::
  "nl_env \<Rightarrow> (int \<times> byte list option) list \<Rightarrow> int \<Rightarrow> nl_driver \<Rightarrow> (int \<times> nl_driver) option" where
  "send_ies env [] ret d = Some (ret, d)"
| "send_ies env ((cmd, None) # cs) ret d = send_ies env cs ret d"
| "send_ies env ((cmd, Some ie) # cs) ret d =
     (if \<not> room env (length AP_CMD + 3 + length ie) then Some (-1, d)
      else case wpa_driver_nl80211_driver_cmd env True (c_str (ie_buffer cmd ie)) (ie_buffer cmd ie) d of
             None \<Rightarrow> None
           | Some (ret1, buf, d1) \<Rightarrow> if ret1 < 0 then Some (ret1, d1) else send_ies env cs ret1 d1)"

definition wpa_driver_set_ap_wps_p2p_ie ::
  "nl_env \<Rightarrow> byte list option \<Rightarrow> byte list option \<Rightarrow> byte list option \<Rightarrow> nl_driver \<Rightarrow> (int \<times> nl_driver) option" where
  "wpa_driver_set_ap_wps_p2p_ie env beacon proberesp assocresp d =
     send_ies env [(1, beacon), (2, proberesp), (4, assocresp)] 0 d"

section \<open>Information elements\<close>

lemma decimal_1_2_4: "signed_decimal 1 = [49]" "signed_decimal 2 = [50]" "signed_decimal 4 = [52]"
  by (simp_all add: signed_decimal_def decimal.simps digit_def)

lemma length_AP_CMD: "length AP_CMD = 17"
  by (simp add: AP_CMD_def ascii_def)

text \<open>The buffer is exactly the command, its terminator and the element.\<close>

lemma ie_buffer_layout:
  assumes "cmd \<in> {1, 2, 4}"
  shows "ie_buffer cmd ie = AP_CMD @ 32 # signed_decimal cmd @ 0 # ie"
  using assms
  by (auto simp: ie_buffer_def store_at_def snprintf_string_def length_AP_CMD decimal_1_2_4 Let_def)

text \<open>The buffers for what is there.\<close>

definition ie_buffers :: "(int \<times> byte list option) list \<Rightarrow> byte list list" where
  "ie_buffers cs = List.map_filter (\<lambda>(cmd, ie). map_option (\<lambda>s. AP_CMD @ 32 # signed_decimal cmd @ 0 # s) ie) cs"

lemma ie_buffers_simps [simp]:
  "ie_buffers [] = []" "ie_buffers ((cmd, None) # cs) = ie_buffers cs"
  "ie_buffers ((cmd, Some s) # cs) = (AP_CMD @ 32 # signed_decimal cmd @ 0 # s) # ie_buffers cs"
  by (simp_all add: ie_buffers_def List.map_filter_simps)

text \<open>One element: the buffer as laid out is what the driver gets; its error is the result, or 0.\<close>

lemma one_ie:
  assumes "cmd \<in> {1, 2, 4}" "\<And>n b. snd (private_cmd env n b) = b"
  shows "\<exists>ret d1. wpa_driver_nl80211_driver_cmd env True (c_str (ie_buffer cmd ie)) (ie_buffer cmd ie) d
      = Some (ret, ie_buffer cmd ie, d1) \<and> issued d1 = issued d @ [ie_buffer cmd ie]
    \<and> ret = min 0 (fst (private_cmd env (length (issued d)) (ie_buffer cmd ie)))"
proof -
  let ?b = "ie_buffer cmd ie" and ?s = "AP_CMD @ 32 # signed_decimal cmd"
  have b: "?b = ?s @ 0 # ie" using ie_buffer_layout [OF assms(1)] by simp
  have "0 \<notin> set ?s" using signed_decimal_chars by (auto simp: AP_CMD_def ascii_def)
  from c_str_zero [OF this, of ie] have cstr: "c_str ?b = ?s" unfolding b by simp
  have copy: "store_at ?b 0 (AP_CMD @ 32 # signed_decimal cmd @ [0]) = ?b" unfolding b by (simp add: store_at_def)
  have whole: "\<not> strcasecmp_eq ?s (ascii w)"
    if "w \<in> {''STOP'', ''START'', ''MACADDR'', ''LINKSPEED'', ''RSSI'', ''GETBAND'', ''P2P_DEV_ADDR'', ''P2P_SET_PS'', ''P2P_SET_NOA''}" for w
    using that by (auto simp: strcasecmp_eq_def AP_CMD_def ascii_def to_lower_def)
  have start: "\<not> strncasecmp_eq ?s (ascii ''GETDWELLTIME'') 12" "\<not> strncasecmp_eq ?s (ascii ''COUNTRY'') 7"
    "\<not> strncasecmp_eq ?s (ascii ''SETBAND'') 7"
    by (auto simp: strcasecmp_eq_def strncasecmp_eq_def AP_CMD_def ascii_def to_lower_def)
  have fits: "length ?s + 1 \<le> length ?b" unfolding b by simp
  obtain ret b2 where p: "private_cmd env (length (issued d)) ?b = (ret, b2)" by fastforce
  then have "b2 = ?b" using assms(2) [of "length (issued d)" ?b] by simp
  then show ?thesis
    using p fits by (simp add: wpa_driver_nl80211_driver_cmd_def cstr copy whole start wpa_driver_notify_country_change_def Let_def)
qed

text \<open>What a list of buffers comes to: those the driver gets to see, up to the first it refuses, and the answer.\<close>

fun offered :: "nl_env \<Rightarrow> nat \<Rightarrow> byte list list \<Rightarrow> byte list list \<times> int" where
  "offered env n [] = ([], 0)"
| "offered env n (b # bs) =
     (let r = fst (private_cmd env n b) in
      if r < 0 then ([b], r) else case offered env (Suc n) bs of (seen, q) \<Rightarrow> (b # seen, q))"

lemma send_ies_offered:
  assumes "\<And>n b. snd (private_cmd env n b) = b" "\<And>n. room env n" "\<forall>(cmd, ie) \<in> set cs. cmd \<in> {1, 2, 4}"
  shows "\<exists>d1. send_ies env cs 0 d = Some (snd (offered env (length (issued d)) (ie_buffers cs)), d1)
    \<and> issued d1 = issued d @ fst (offered env (length (issued d)) (ie_buffers cs))"
  using assms(3)
proof (induction cs arbitrary: d)
  case (Cons c cs)
  obtain cmd ie where c: "c = (cmd, ie)" by fastforce
  show ?case
  proof (cases ie)
    case None
    then show ?thesis using Cons by (simp add: c)
  next
    case (Some s)
    have cmd: "cmd \<in> {1, 2, 4}" using Cons.prems c by simp
    let ?b = "ie_buffer cmd s"
    have b: "AP_CMD @ 32 # signed_decimal cmd @ 0 # s = ?b" using ie_buffer_layout [OF cmd] by simp
    obtain ret d1 where sent: "wpa_driver_nl80211_driver_cmd env True (c_str ?b) ?b d = Some (ret, ?b, d1)"
      and d1: "issued d1 = issued d @ [?b]" and ret: "ret = min 0 (fst (private_cmd env (length (issued d)) ?b))"
      using one_ie [OF cmd assms(1)] by blast
    show ?thesis
    proof (cases "ret < 0")
      case True
      then have "fst (private_cmd env (length (issued d)) ?b) < 0" using ret by simp
      with True show ?thesis using ret d1 assms(2) by (simp add: c Some sent b Let_def)
    next
      case False
      have "\<exists>d2. send_ies env cs 0 d1 = Some (snd (offered env (length (issued d1)) (ie_buffers cs)), d2)
          \<and> issued d2 = issued d1 @ fst (offered env (length (issued d1)) (ie_buffers cs))"
        using Cons by simp
      moreover have "ret = 0" using False ret by simp
      ultimately show ?thesis using False ret d1 assms(2) by (auto simp: c Some sent b Let_def split: prod.splits)
    qed
  qed
qed simp

text \<open>
  C40: the information elements of an access point reach the driver. For a driver that takes them without
  writing to the buffer, and with memory for the buffers, the elements that are there are offered in the
  order beacon, probe response, association response, each as one buffer of exactly the command with its
  number, a terminator and the element; the first refusal ends the transfer and is the result, which is 0
  when all were taken. No buffer is overrun.
\<close>

theorem ap_elements_are_sent:
  assumes "\<And>n b. snd (private_cmd env n b) = b" "\<And>n. room env n"
  shows "\<exists>d1. wpa_driver_set_ap_wps_p2p_ie env beacon proberesp assocresp d
      = Some (snd (offered env (length (issued d)) (ie_buffers [(1, beacon), (2, proberesp), (4, assocresp)])), d1)
    \<and> issued d1 = issued d @ fst (offered env (length (issued d)) (ie_buffers [(1, beacon), (2, proberesp), (4, assocresp)]))"
  unfolding wpa_driver_set_ap_wps_p2p_ie_def by (rule send_ies_offered) (use assms in auto)

definition quiet_driver :: nl_driver where
  "quiet_driver = \<lparr>drv_errors = 0, iface_flags = [], issued = [], driver_states = [], channel_events = []\<rparr>"

theorem ap_elements_are_sent_witness:
  "\<exists>d1. wpa_driver_set_ap_wps_p2p_ie
      \<lparr>hwaddr = (0, []), private_cmd = \<lambda>n b. (if n = 1 then -5 else 0, b), room = \<lambda>n. True, max_errors = 4\<rparr>
      (Some [1, 2]) None (Some [3]) quiet_driver = Some (-5, d1)
    \<and> issued d1 = [ascii ''SET_AP_WPS_P2P_IE 1'' @ [0, 1, 2], ascii ''SET_AP_WPS_P2P_IE 4'' @ [0, 3]]"
proof -
  let ?env = "\<lparr>hwaddr = (0, []), private_cmd = \<lambda>n b. (if n = 1 then -5 else 0, b), room = \<lambda>n. True, max_errors = 4\<rparr> :: nl_env"
  have "\<exists>d1. wpa_driver_set_ap_wps_p2p_ie ?env (Some [1, 2]) None (Some [3]) quiet_driver
      = Some (snd (offered ?env (length (issued quiet_driver)) (ie_buffers [(1, Some [1, 2]), (2, None), (4, Some [3])])), d1)
    \<and> issued d1 = issued quiet_driver
      @ fst (offered ?env (length (issued quiet_driver)) (ie_buffers [(1, Some [1, 2]), (2, None), (4, Some [3])]))"
    by (rule ap_elements_are_sent) simp_all
  then show ?thesis by (simp add: quiet_driver_def decimal_1_2_4 AP_CMD_def ascii_def)
qed

end
