(* ===== verification/WifiWext.thy ===== *)
theory WifiWext
  imports CString "HOL-Library.Signed_Division"
begin

text \<open>
  The driver commands of the ath6kl Wi-Fi driver over wireless extensions, driver_cmd_wext.c, as built
  for Android. A buffer is the list of its bytes, of fixed length. The requests to the kernel are the
  environment: each answers None where the call fails, and may change the kernel's state \<open>'w\<close>; strings
  that name the interface are not modelled. A result None is a use of the network block when there is
  none.
\<close>

record iw_quality =
  level :: byte
  noise :: byte
  updated :: byte

record 'w wext_env =
  siocgifhwaddr :: "'w \<Rightarrow> byte list option \<times> 'w"
  siocgiwrate :: "'w \<Rightarrow> u32 option \<times> 'w"
  siocgiwstats :: "'w \<Rightarrow> iw_quality option \<times> 'w"
  siocgiwrts :: "'w \<Rightarrow> u32 option \<times> 'w"
  siocsiwrts :: "u32 \<Rightarrow> 'w \<Rightarrow> u32 option \<times> 'w"
  siocsiwscan :: "byte list option \<Rightarrow> 'w \<Rightarrow> int \<times> 'w"

text \<open>
  \<open>conf_ssid\<close>: the SSID of the first network block of the configuration, if there is one;
  \<open>prev_scan_ssid\<close>: the flag scan_ssid of the network last scanned for, None for a wildcard scan;
  \<open>timeouts\<close>: the seconds of the timeouts registered for scan results.
\<close>

record 'w wext_driver =
  kernel :: 'w
  driver_is_started :: bool
  scan_complete_events :: bool
  conf_ssid :: "byte list option"
  prev_scan_ssid :: "bool option"
  timeouts :: "nat list"

definition IW_ESSID_MAX_SIZE :: nat where "IW_ESSID_MAX_SIZE = 32"

definition IW_QUAL_DBM :: byte where "IW_QUAL_DBM = 8"

definition wpa_driver_wext_set_scan_timeout :: "'w wext_driver \<Rightarrow> 'w wext_driver" where
  "wpa_driver_wext_set_scan_timeout drv = drv\<lparr>timeouts := [if scan_complete_events drv then 30 else 10]\<rparr>"

text \<open>The first SSID of the scan parameters, None for NULL, and its length.\<close>

definition wpa_driver_wext_combo_scan ::
  "'w wext_env \<Rightarrow> byte list option \<Rightarrow> nat \<Rightarrow> 'w wext_driver \<Rightarrow> int \<times> 'w wext_driver" where
  "wpa_driver_wext_combo_scan env ssid ssid_len drv =
     (if \<not> driver_is_started drv then (0, drv)
      else if ssid_len > IW_ESSID_MAX_SIZE then (-1, drv)
      else
        let scan_probe_flag = (prev_scan_ssid drv = Some True);
            essid = (if scan_probe_flag \<and> ssid_len \<noteq> 0 then map_option (take ssid_len) ssid else None)
        in case siocsiwscan env essid (kernel drv) of (ret, w) \<Rightarrow>
          (if ret < 0 then -1 else ret, drv\<lparr>kernel := w\<rparr>))"

text \<open>The level and the noise of the statistics, in dBm where they are.\<close>

definition dbm :: "iw_quality \<Rightarrow> byte \<Rightarrow> int" where
  "dbm stats v = (if updated stats AND IW_QUAL_DBM \<noteq> 0 then (if v > 63 then uint v - 0x100 else uint v) else uint v)"

text \<open>strtol with base 0: the value and whether there was a number.\<close>

definition strtol_any :: "byte list \<Rightarrow> int \<times> bool" where
  "strtol_any s =
     (let s1 = dropWhile isspace s;
          s2 = (if s1 \<noteq> [] \<and> hd s1 \<in> {43, 45} then tl s1 else s1);
          base = (if length s2 > 2 \<and> s2 ! 0 = 48 \<and> s2 ! 1 \<in> {88, 120} \<and> is_digit 16 (s2 ! 2) then 16
                  else if s2 \<noteq> [] \<and> hd s2 = 48 then 8 else 10)
      in (strtol base s, s2 \<noteq> [] \<and> is_digit 10 (hd s2)))"

definition wpa_driver_wext_driver_cmd ::
  "'w wext_env \<Rightarrow> byte list \<Rightarrow> byte list \<Rightarrow> 'w wext_driver \<Rightarrow> (int \<times> byte list \<times> 'w wext_driver) option" where
  "wpa_driver_wext_driver_cmd env cmd buf drv =
     (if \<not> driver_is_started drv \<and> \<not> strcasecmp_eq cmd (ascii ''START'') then Some (-1, buf, drv)
      else if strcasecmp_eq cmd (ascii ''start'') then Some (-1, buf, drv)
      else if strcasecmp_eq cmd (ascii ''macaddr'') then
        (case siocgifhwaddr env (kernel drv) of
           (None, w) \<Rightarrow> Some (-1, buf, drv\<lparr>kernel := w\<rparr>)
         | (Some mac, w) \<Rightarrow>
             let s = ascii ''Macaddr = '' @ concat (map (\<lambda>i. (if i = 0 then [] else [58]) @ hex_byte (mac ! i)) [0..<6]) @ [10]
             in Some (int (length s), snprintf_at buf 0 s, drv\<lparr>kernel := w\<rparr>))
      else if strcasecmp_eq cmd (ascii ''scan-passive'') then Some (0, buf, drv)
      else if strcasecmp_eq cmd (ascii ''SETBAND'') then Some (0, buf, drv)
      else if strcasecmp_eq cmd (ascii ''scan-active'') then Some (0, buf, drv)
      else if strcasecmp_eq cmd (ascii ''linkspeed'') then
        (case siocgiwrate env (kernel drv) of
           (None, w) \<Rightarrow> Some (0, buf, drv\<lparr>kernel := w\<rparr>)
         | (Some value, w) \<Rightarrow>
             let linkspeed = word_of_int (sint value sdiv 1000000) :: u32;
                 s = ascii ''LinkSpeed '' @ signed_decimal (sint linkspeed) @ [10]
             in Some (0, snprintf_at buf 0 s, drv\<lparr>kernel := w\<rparr>))
      else if strncasecmp_eq cmd (ascii ''scan-channels'') 13 then Some (0, buf, drv)
      else if strncasecmp_eq cmd (ascii ''rssi'') 4 then
        (case siocgiwstats env (kernel drv) of
           (None, w) \<Rightarrow> Some (-1, buf, drv\<lparr>kernel := w\<rparr>)
         | (Some stats, w) \<Rightarrow>
             let rssi = dbm stats (level stats) in
             (case conf_ssid drv of
                None \<Rightarrow> None
              | Some ssid \<Rightarrow>
                  if ssid \<noteq> [] \<and> length ssid < length buf
                  then let buf1 = store_at buf 0 ssid;
                           s = ascii '' rssi '' @ signed_decimal rssi @ [10]
                       in Some (int (length ssid + length s), snprintf_at buf1 (length ssid) s, drv\<lparr>kernel := w\<rparr>)
                  else Some (-1, buf, drv\<lparr>kernel := w\<rparr>)))
      else if strncasecmp_eq cmd (ascii ''powermode'') 9 then Some (0, buf, drv)
      else if strncasecmp_eq cmd (ascii ''getpower'') 8 then Some (0, buf, drv)
      else if strncasecmp_eq cmd (ascii ''get-rts-threshold'') 17 then
        (case siocgiwrts env (kernel drv) of
           (None, w) \<Rightarrow> Some (-1, buf, drv\<lparr>kernel := w\<rparr>)
         | (Some value, w) \<Rightarrow>
             let s = ascii ''rts-threshold = '' @ decimal (unat value) @ [10]
             in Some (int (length s), snprintf_at buf 0 s, drv\<lparr>kernel := w\<rparr>))
      else if strncasecmp_eq cmd (ascii ''set-rts-threshold'') 17 then
        (let cp = drop 17 cmd in
         if cp \<noteq> []
         then case strtol_any cp of (v, read) \<Rightarrow>
           if read
           then case siocsiwrts env (word_of_int v) (kernel drv) of
                  (None, w) \<Rightarrow> Some (-1, buf, drv\<lparr>kernel := w\<rparr>)
                | (Some value, w) \<Rightarrow> Some (0, buf, drv\<lparr>kernel := w\<rparr>)
           else Some (0, buf, drv)
         else Some (0, buf, drv))
      else if strcasecmp_eq cmd (ascii ''snr'') then
        (case siocgiwstats env (kernel drv) of
           (None, w) \<Rightarrow> Some (-1, buf, drv\<lparr>kernel := w\<rparr>)
         | (Some stats, w) \<Rightarrow>
             let snr = word_of_int (dbm stats (level stats) - dbm stats (noise stats)) :: u32;
                 s = ascii ''snr = '' @ decimal (unat snr) @ [10]
             in Some (int (length s), snprintf_at buf 0 s, drv\<lparr>kernel := w\<rparr>))
      else Some (0, buf, drv))"

record wpa_signal_info =
  current_signal :: int
  current_txrate :: int

text \<open>
  \<open>buf\<close>: what the memory of the buffer holds when the function starts. The product of the rate and 1000
  is that of two ints.
\<close>

definition wpa_driver_signal_poll ::
  "'w wext_env \<Rightarrow> byte list \<Rightarrow> 'w wext_driver \<Rightarrow> (int \<times> wpa_signal_info \<times> 'w wext_driver) option" where
  "wpa_driver_signal_poll env buf drv =
     (let si = \<lparr>current_signal = 0, current_txrate = 0\<rparr> in
      case wpa_driver_wext_driver_cmd env (ascii ''RSSI'') buf drv of
        None \<Rightarrow> None
      | Some (res, buf1, drv1) \<Rightarrow>
          if res < 0 then Some (res, si, drv1)
          else case strcasestr (c_str buf1) (ascii ''RSSI'') of
            None \<Rightarrow> Some (-1, si, drv1)
          | Some prssi \<Rightarrow>
              let si1 = si\<lparr>current_signal := strtol 10 (drop 5 prssi)\<rparr> in
              (case wpa_driver_wext_driver_cmd env (ascii ''LINKSPEED'') buf1 drv1 of
                 None \<Rightarrow> None
               | Some (res2, buf2, drv2) \<Rightarrow>
                   if res2 < 0 then Some (res2, si1, drv2)
                   else Some (0, si1\<lparr>current_txrate :=
                     sint (word_of_int (strtol 10 (c_str (drop 10 buf2)) * 1000) :: u32)\<rparr>, drv2)))"

section \<open>Polling the signal\<close>

lemma strcasestr_past_space:
  assumes "strcasestr xs p = None" "p \<noteq> []" "\<forall>c \<in> set p. to_lower c \<noteq> 32"
  shows "strcasestr (xs @ 32 # ys) p = strcasestr ys p"
  using assms(1)
proof (induction xs)
  case Nil
  have "\<not> strncasecmp_eq (32 # ys) p (length p)"
    using assms(2,3) by (cases p) (auto simp: strncasecmp_eq_def strcasecmp_eq_def to_lower_def)
  then show ?case by simp
next
  case (Cons c cs)
  have "\<not> strncasecmp_eq ((c # cs) @ 32 # ys) p (length p)"
  proof
    assume same: "strncasecmp_eq ((c # cs) @ 32 # ys) p (length p)"
    show False
    proof (cases "length p \<le> length (c # cs)")
      case True
      then have "take (length p) ((c # cs) @ 32 # ys) = take (length p) (c # cs)" by (simp only: take_append) simp
      then have "strncasecmp_eq (c # cs) p (length p)" using same by (simp only: strncasecmp_eq_def)
      then show False using Cons.prems by simp
    next
      case False
      let ?n = "length (c # cs)"
      have "map to_lower (take (length p) ((c # cs) @ 32 # ys)) = map to_lower p"
        using same by (simp add: strncasecmp_eq_def strcasecmp_eq_def)
      then have "map to_lower (take (length p) ((c # cs) @ 32 # ys)) ! ?n = map to_lower p ! ?n" by simp
      then have "to_lower (p ! ?n) = 32" using False by (simp add: nth_append to_lower_def)
      then show False using assms(3) False by (metis not_le nth_mem)
    qed
  qed
  then show ?case using Cons by (simp split: if_splits)
qed

text \<open>The answers to the two commands as the buffer holds them.\<close>

lemma printed_at:
  assumes "i < length b" "length s < length b - i"
  shows "\<exists>r. snprintf_at b i s = take i b @ s @ 0 # r"
  using assms by (simp add: snprintf_at_def store_at_def snprintf_string_def)

lemma dbm_range: "-192 \<le> dbm stats v" "dbm stats v < 256"
proof -
  have "0 \<le> uint v" "uint v < 256" using uint_ge_0 [of v] uint_lt2p [of v] by auto
  then have "-192 \<le> uint v" "uint v - 0x100 < 256" "v > 63 \<Longrightarrow> -192 \<le> uint v - 0x100" "uint v < 256"
    by (simp_all only: word_less_def) (simp_all del: uint_ge_0)
  then show "-192 \<le> dbm stats v" "dbm stats v < 256" unfolding dbm_def by (simp_all split: if_split)
qed

lemma length_dbm: "length (signed_decimal (dbm stats v)) \<le> 11"
  using dbm_range [of stats v] by (intro length_signed_decimal) simp_all

lemma rssi_answer:
  assumes "driver_is_started drv" "siocgiwstats env (kernel drv) = (Some stats, w)" "conf_ssid drv = Some ssid"
    and "ssid \<noteq> []" "length ssid + 20 \<le> length buf"
  shows "\<exists>r n. wpa_driver_wext_driver_cmd env (ascii ''RSSI'') buf drv
    = Some (int n, ssid @ (ascii '' rssi '' @ signed_decimal (dbm stats (level stats)) @ [10]) @ 0 # r, drv\<lparr>kernel := w\<rparr>)
    \<and> length (ssid @ (ascii '' rssi '' @ signed_decimal (dbm stats (level stats)) @ [10]) @ 0 # r) = length buf"
proof -
  let ?s = "ascii '' rssi '' @ signed_decimal (dbm stats (level stats)) @ [10]" and ?b = "store_at buf 0 ssid"
  have l: "length ?b = length buf" using assms(5) by simp
  have "length ?s < length ?b - length ssid" using assms(5) l length_dbm [of stats "level stats"] by (simp add: ascii_def)
  moreover have "length ssid < length ?b" using assms(5) l by simp
  ultimately obtain r where r: "snprintf_at ?b (length ssid) ?s = take (length ssid) ?b @ ?s @ 0 # r"
    using printed_at by blast
  have "take (length ssid) ?b = ssid" by (simp add: store_at_def)
  with r have r: "snprintf_at ?b (length ssid) ?s = ssid @ ?s @ 0 # r" by simp
  moreover from this have "length (ssid @ ?s @ 0 # r) = length buf" using l length_snprintf_at by metis
  moreover have "wpa_driver_wext_driver_cmd env (ascii ''RSSI'') buf drv
      = Some (int (length ssid + length ?s), snprintf_at ?b (length ssid) ?s, drv\<lparr>kernel := w\<rparr>)"
    using assms by (simp add: wpa_driver_wext_driver_cmd_def strcasecmp_eq_def strncasecmp_eq_def to_lower_def ascii_def Let_def)
  ultimately show ?thesis by metis
qed

lemma linkspeed_answer:
  assumes "driver_is_started drv" "siocgiwrate env (kernel drv) = (rate, w)" "20 \<le> length buf"
  shows "\<exists>buf2. wpa_driver_wext_driver_cmd env (ascii ''LINKSPEED'') buf drv = Some (0, buf2, drv\<lparr>kernel := w\<rparr>)
    \<and> (\<forall>v1. rate = Some v1 \<longrightarrow> 0 \<le> sint v1 \<longrightarrow>
         (\<exists>r. buf2 = ascii ''LinkSpeed '' @ signed_decimal (sint v1 div 1000000) @ 10 # 0 # r))"
proof (cases rate)
  case None
  then show ?thesis
    using assms by (simp add: wpa_driver_wext_driver_cmd_def strcasecmp_eq_def strncasecmp_eq_def to_lower_def ascii_def)
next
  case (Some v1)
  let ?v = "sint (word_of_int (sint v1 sdiv 1000000) :: u32)"
  let ?s = "ascii ''LinkSpeed '' @ signed_decimal ?v @ [10]"
  have run: "wpa_driver_wext_driver_cmd env (ascii ''LINKSPEED'') buf drv
      = Some (0, snprintf_at buf 0 ?s, drv\<lparr>kernel := w\<rparr>)"
    using assms Some
    by (simp add: wpa_driver_wext_driver_cmd_def strcasecmp_eq_def strncasecmp_eq_def to_lower_def ascii_def Let_def)
  have "\<exists>r. snprintf_at buf 0 ?s = ascii ''LinkSpeed '' @ signed_decimal (sint v1 div 1000000) @ 10 # 0 # r"
    if pos: "0 \<le> sint v1"
  proof -
    let ?q = "sint v1 div 1000000"
    have q: "0 \<le> ?q" "?q < 2148" using pos sint_lt [of v1] by simp_all
    have "sint v1 sdiv 1000000 = ?q" using pos by (simp add: signed_divide_int_def sgn_if)
    then have v: "?v = ?q" using q by (simp add: sint_sbintrunc' signed_take_bit_int_eq_self)
    have "length (signed_decimal ?q) \<le> Suc 3" using q length_decimal [of "nat ?q" 3] by (simp add: signed_decimal_def)
    then have "length ?s < length buf - 0" using assms(3) v by (simp add: ascii_def)
    moreover have "0 < length buf" using assms(3) by linarith
    ultimately have "\<exists>r. snprintf_at buf 0 ?s = take 0 buf @ ?s @ 0 # r" by (intro printed_at)
    then show ?thesis by (simp add: v)
  qed
  then show ?thesis using run Some by auto
qed

text \<open>
  C39: what the supplicant polls is what the driver measured. With the driver started and a network whose
  SSID has no zero byte and does not contain the word the answer is searched for (rssi, in any case), the
  poll answers 0 with the signal level of the statistics in dBm, though it went through text: printed
  behind the SSID, found and parsed again. The rate is that of the driver in whole Mbit/s, times 1000,
  where the driver gave one; where that request failed, the poll answers 0 all the same.
\<close>

theorem signal_is_polled:
  assumes "driver_is_started drv" "siocgiwstats env (kernel drv) = (Some stats, w1)" "siocgiwrate env w1 = (rate, w2)"
    and "conf_ssid drv = Some ssid" "ssid \<noteq> []" "length ssid + 20 \<le> length buf"
    and "0 \<notin> set ssid" "strcasestr ssid (ascii ''RSSI'') = None"
  shows "\<exists>t. wpa_driver_signal_poll env buf drv
      = Some (0, \<lparr>current_signal = dbm stats (level stats), current_txrate = t\<rparr>, drv\<lparr>kernel := w2\<rparr>)
    \<and> (\<forall>v1. rate = Some v1 \<longrightarrow> 0 \<le> sint v1 \<longrightarrow> t = sint v1 div 1000000 * 1000)"
proof -
  let ?d = "dbm stats (level stats)" and ?drv1 = "drv\<lparr>kernel := w1\<rparr>"
  let ?tail = "ascii ''rssi '' @ signed_decimal ?d @ [10]"
  have space: "ascii '' rssi '' = 32 # ascii ''rssi ''" by (simp add: ascii_def)
  obtain r n where first: "wpa_driver_wext_driver_cmd env (ascii ''RSSI'') buf drv
      = Some (int n, ssid @ 32 # ?tail @ 0 # r, ?drv1)" and len: "length (ssid @ 32 # ?tail @ 0 # r) = length buf"
    using rssi_answer [OF assms(1,2,4,5,6)] by (auto simp: space)
  let ?buf1 = "ssid @ 32 # ?tail @ 0 # r"
  have "0 \<notin> set (ssid @ 32 # ?tail)" using assms(7) signed_decimal_chars [of 0 ?d] by (auto simp: ascii_def)
  from c_str_zero [OF this, of r] have shown: "c_str ?buf1 = ssid @ 32 # ?tail" by simp
  have pat: "ascii ''RSSI'' \<noteq> []" "\<forall>c \<in> set (ascii ''RSSI''). to_lower c \<noteq> 32" by (auto simp: ascii_def to_lower_def)
  have "strcasestr ?tail (ascii ''RSSI'') = Some ?tail"
    by (simp add: ascii_def strncasecmp_eq_def strcasecmp_eq_def to_lower_def)
  then have found: "strcasestr (c_str ?buf1) (ascii ''RSSI'') = Some ?tail"
    unfolding shown strcasestr_past_space [OF assms(8) pat] .
  have "drop 5 ?tail = signed_decimal ?d @ 10 # []" by (simp add: ascii_def)
  moreover have "strtol 10 (signed_decimal ?d @ 10 # []) = ?d"
    using dbm_range [of stats "level stats"] by (intro strtol_signed_decimal) simp_all
  ultimately have signal: "strtol 10 (drop 5 ?tail) = ?d" by simp
  have rate1: "siocgiwrate env (kernel ?drv1) = (rate, w2)" using assms(3) by simp
  have "20 \<le> length ?buf1" using len assms(6) by simp
  then obtain buf2 where second: "wpa_driver_wext_driver_cmd env (ascii ''LINKSPEED'') ?buf1 ?drv1 = Some (0, buf2, ?drv1\<lparr>kernel := w2\<rparr>)"
    and speed: "\<And>v1. rate = Some v1 \<Longrightarrow> 0 \<le> sint v1 \<Longrightarrow>
      \<exists>r. buf2 = ascii ''LinkSpeed '' @ signed_decimal (sint v1 div 1000000) @ 10 # 0 # r"
    using linkspeed_answer [OF _ rate1, of ?buf1] assms(1) by auto
  let ?t = "sint (word_of_int (strtol 10 (c_str (drop 10 buf2)) * 1000) :: u32)"
  have "wpa_driver_signal_poll env buf drv
      = Some (0, \<lparr>current_signal = ?d, current_txrate = ?t\<rparr>, drv\<lparr>kernel := w2\<rparr>)"
    by (simp only: wpa_driver_signal_poll_def first second found signal option.case prod.case Let_def) simp
  moreover have "?t = sint v1 div 1000000 * 1000" if rate: "rate = Some v1" and pos: "0 \<le> sint v1" for v1
  proof -
    let ?q = "sint v1 div 1000000"
    have q: "0 \<le> ?q" "?q < 2148" using pos sint_lt [of v1] by simp_all
    obtain r2 where "buf2 = ascii ''LinkSpeed '' @ signed_decimal ?q @ 10 # 0 # r2" using speed [OF rate pos] by blast
    then have d: "drop 10 buf2 = (signed_decimal ?q @ [10]) @ 0 # r2" by (simp add: ascii_def)
    have "0 \<notin> set (signed_decimal ?q @ [10])" using signed_decimal_chars [of 0 ?q] by auto
    then have "c_str (drop 10 buf2) = signed_decimal ?q @ 10 # []" unfolding d by (subst c_str_zero) simp_all
    moreover have "strtol 10 (signed_decimal ?q @ 10 # []) = ?q" using q by (intro strtol_signed_decimal) simp_all
    ultimately have "?t = sint (word_of_int (?q * 1000) :: u32)" by (simp only:)
    also have "\<dots> = ?q * 1000" using q by (subst sint_sbintrunc') (simp add: signed_take_bit_int_eq_self)
    finally show ?thesis .
  qed
  ultimately show ?thesis by blast
qed

definition wext_device :: "unit wext_env" where
  "wext_device = \<lparr>siocgifhwaddr = \<lambda>w. (None, w), siocgiwrate = \<lambda>w. (Some 54000000, w),
     siocgiwstats = \<lambda>w. (Some \<lparr>level = 200, noise = 160, updated = 15\<rparr>, w), siocgiwrts = \<lambda>w. (None, w),
     siocsiwrts = \<lambda>v w. (None, w), siocsiwscan = \<lambda>s w. (0, w)\<rparr>"

definition wext_home :: "unit wext_driver" where
  "wext_home = \<lparr>kernel = (), driver_is_started = True, scan_complete_events = True, conf_ssid = Some (ascii ''home''),
     prev_scan_ssid = None, timeouts = []\<rparr>"

theorem signal_is_polled_witness:
  "\<exists>drv. wpa_driver_signal_poll wext_device (replicate 248 0) wext_home
    = Some (0, \<lparr>current_signal = -56, current_txrate = 54000\<rparr>, drv)"
proof -
  have "strcasestr (ascii ''home'') (ascii ''RSSI'') = None"
    by (simp add: ascii_def strncasecmp_eq_def strcasecmp_eq_def to_lower_def)
  then obtain t where "wpa_driver_signal_poll wext_device (replicate 248 0) wext_home
      = Some (0, \<lparr>current_signal = dbm \<lparr>level = 200, noise = 160, updated = 15\<rparr> 200, current_txrate = t\<rparr>, wext_home)"
    and "t = 54000000 div 1000000 * 1000"
    using signal_is_polled [of wext_home wext_device "\<lparr>level = 200, noise = 160, updated = 15\<rparr>" "()" "Some 54000000" "()"
        "ascii ''home''" "replicate 248 0"]
    by (auto simp: wext_device_def wext_home_def ascii_def)
  then show ?thesis by (simp add: dbm_def IW_QUAL_DBM_def)
qed

end
