(* ===== verification/Spec2Isabelle.thy ===== *)
theory Spec2Isabelle
  imports LocApiWire LocApiCalls MsgQ LocEngStatus RilEvent RilRequests RilWake
    Lights PowerHal PinSwitch WifiNl80211 WifiWext
begin

text \<open>
  Verification development for the device tree android_device_generic_msm7x27a.

  The core of the tree is the location stack: the GPS engine on the application processor talks
  to the modem by ONC RPC over a router device. The development models that path bottom up.
  \<^item> Prelude: C integers as words, network byte order, C byte arrays, padding.
  \<^item> XdrStream (gps/libloc/librpc/svc_clnt_common.c, rpc/types.h): the XDR handle as a record
    \<open>XDR\<close> and the transport functions on its two message buffers.
  \<^item> XdrCodec: the contract of an XDR routine as four laws (encode, decode, release, memory
    safety), the locales \<open>xdr_codec\<close> and \<open>xdr_safe_codec\<close>, and the rules for the shapes rpcgen
    emits: members in sequence, switch on a discriminant.
  \<^item> Xdr, XdrCompound (librpc/xdr.c, gen-50000/loc_api_fixup.c): every primitive routine, scalars
    first, then bytes, arrays, pointers and strings, with an interpretation of the contract each.
  \<^item> LocApiReports, LocApiNi, LocApiIoctl, LocApiXdr (gen-50000/loc_api_common_xdr.c,
    loc_api_xdr.c, loc_api_cb_xdr.c and the headers of inc-50000): the data of the location API
    and the generated routines, call for call.
  \<^item> LocApiWire: what these codecs give the two sides.
  \<^item> Rpc (librpc/rpc.c and the receiving half of clnt.c): call and reply headers.
  \<^item> Svc (librpc/svc.c): the list of servers, dispatch of calls, replies.
  \<^item> Clnt (librpc/clnt.c): the blocking call, the receive thread, the callback thread, the list of
    clients.
  \<^item> SyncCall (libloc_api-rpc/src/loc_api_sync_call.c): the slots in which synchronous calls wait
    for the event that answers them.
  \<^item> LocApiGlue (gen-50000/loc_api_clnt.c, loc_api_rpc_glue.c, loc_api_cb_svc.c and
    src/loc_apicb_appinit.c): client stubs, the callback table, the callback stub, initialisation.
  \<^item> LinkedList, MsgQ (gps/utils/linked_list.c, msg_q.c): the list on an explicit store of elements
    and headers, refined to a sequence of entries, and the message queue over it, with its mutex and its
    condition variable: senders, receivers that wait, wake-ups that come without a signal.
  \<^item> LocEngData, LocEngXtra, LocEngNi, LocEngCfg (libloc_api/loc_eng.h, loc_eng_ioctl.cpp,
    loc_eng_xtra.cpp, loc_eng_ni.cpp, loc_eng_cfg.cpp): the state of the GPS engine between the modem
    and Android, the injection of predicted orbits, the requests of the network for the position of
    the phone, and the configuration file.
  \<^item> LocEng (loc_eng.cpp): the operations the framework calls, initialisation, start and stop,
    position modes, injections, aiding data, data connections and server addresses.
  \<^item> LocEngRun (loc_eng.cpp): the event callback, the reports to Android and the deferred action
    thread, split at its condition wait.
  \<^item> LocEngSys: the engine as a transition system: framework, user, modem and thread take steps in
    any order, and invariants of the reachable states.
  \<^item> LocEngStatus: the accesses of \<open>loc_eng_stop\<close> and \<open>loc_eng_report_status\<close> to the status of the engine,
    which no mutex keeps apart, one by one.
  \<^item> RilEvent (ril/ril-legacy/libril/ril_event.cpp): the event loop of the radio daemon, circular
    lists of timers and pending events on a store of events, and the table of watched descriptors.
  \<^item> RilParcel, RilData, RilResponse (ril/ril-legacy/libril/ril.cpp, telephony/ril.h, ril_cdma_sms.h,
    ril_msim.h): reading and writing a Binder parcel, the structures of radio requests and
    responses, and the functions that marshal responses.
  \<^item> RilCore, RilDispatch, RilUnsol (ril.cpp, ril_commands.h, ril_unsol_commands.h): the tables, the
    command sockets and the completion of requests; the functions that unmarshal a command and call the
    vendor library; unsolicited responses, the wake lock with its timers, clients that come and go.
  \<^item> RilFormat, RilSys, RilRequests: a parcel class that keeps the laws assumed of it; the runs of the
    radio interface layer with their invariants; what becomes of the bytes of a command.
  \<^item> RilWake: the wake lock of the radio interface layer between the threads, access by access.
  \<^item> CString, SysFiles: the functions of the C library on strings; open, read, write and close of
    files, with failures of the environment's choice.
  \<^item> Lights, PowerHal, PinSwitch (lights/lights.c, power/power.c, audio/HardwarePinSwitching.c): small
    hardware modules on files: the backlight and the key lights, tuning and boost of the processor,
    the pins that Bluetooth and FM share.
  \<^item> WifiNl80211, WifiWext (ath6kl/wpa_supplicant_8_lib): the driver commands of the Wi-Fi driver over
    its two interfaces.
  \<^item> LocApiCalls: whole calls and whole events through all of these layers.

  How state corresponds to the code. A routine \<open>bool_t xdr_T(XDR *xdrs, T *objp)\<close> is a function
  from the object and the handle to the result, the new object and the new handle. The handle
  carries, beside the fields of the C struct, the allocator of the process and a flag \<open>fault\<close>
  that is raised where the C code would touch memory outside an object; the model then returns
  FALSE. Message buffers have 18432 bytes (\<open>RPCROUTER_MSGSIZE_MAX\<close>). The loops of the codecs are
  structural recursions on the element count, so these routines are total. Loops that walk linked
  memory or may not end (the predicted orbits, the retries of an ioctl, the lists of the utilities
  and of the radio daemon) are partial functions with result None when they do not return, and
  their theorems state that they return, or when; no fuel is used.

  The state of the engine is the record \<open>engine\<close>: \<open>eng\<close> is \<open>loc_eng_data\<close>, \<open>calls\<close> lists its calls of
  Android and its uses of the wake lock in order, \<open>world\<close> is the state of the layers below, and the
  record \<open>modem\<close> of the calls they offer is an argument, so every theorem holds for all their answers.

  Which steps are atomic. What the source does under one mutex is one step: an operation on the slots of
  SyncCall, on the list of servers, on the message queue between its waits, on the event lists of the radio
  daemon and its list of pending requests, on the lights and on the processor's tuning. A thread that waits
  for a condition is cut there, and what others do meanwhile are steps of the system. In LocEngSys an
  operation of the framework and a pass of the deferred action thread are one step each; its theorems on the
  mailbox, the flags and the wake lock rest on what the source does under \<open>deferred_action_mutex\<close>.
  Two things are shared without a mutex and are therefore cut into single accesses, in theories of their own:
  the statuses of the engine (LocEngStatus) and the wake lock of the radio interface layer with
  \<open>s_last_wake_timeout_info\<close> (RilWake). Both prove that a thread alone does what the function does, state the
  invariant that is left in every interleaving, and exhibit the run in which the missing mutex shows.

  The state of the radio interface layer is the record \<open>ril\<close>: the file descriptors of the two clients,
  the list of pending requests, each known by its address, the armed timers, the wake lock and the
  calls of the vendor library so far. The class \<open>Parcel\<close> is the record \<open>parcel_env\<close> of its methods, an
  argument of every function; \<open>parcel_laws\<close> says that what was written is read back item by item. The socket, the
  clock and the radio state of the vendor library are the record \<open>outside\<close>. A result None is a
  fault: an access outside an object, or a write that never returns. Strings lost are counted.

  The small modules have the record \<open>file_kernel\<close> in their state: open descriptors, what was written, in
  order, and errno; which of its calls fail is the argument \<open>file_env\<close>, so every theorem holds for every
  pattern of failures.

  What the lemmas show. For each wire type: encoding appends exactly the specified bytes and
  succeeds iff they fit; decoding those bytes into cleared storage gives back the value; releasing
  a decoded value frees exactly the blocks it owns; decoding arbitrary bytes never leaves the
  buffers, given an allocator that refuses a gigabyte. The exceptions are theorems too: NMEA
  reports and unbounded version lists.

  Not modelled: the router device itself (read, write, open and ioctl are parameters); logging and
  its tables of names (loc_eng_log.cpp, loc_log.cpp, respond_from_enum); the module entry gps.c; the
  copy of the configuration parser in gps/utils/loc_cfg.cpp; of ril.cpp the debug socket, the creation
  of sockets and threads and the tables of names, and rild.c, which loads the vendor library; the
  audio hardware, camera and health HALs, sequences of ioctls of kernel drivers; the audio policy, whose base class is
  outside the tree.
\<close>

end
